(* ===== verification/Prelude.thy ===== *)
theory Prelude
  imports Complex_Main
begin

text \<open>
  Shared vocabulary of the development: Python exceptions as values, the sequencing of
  computations that may raise, Python list slices, and the lemma collections the component
  theories extend and use.
\<close>

section \<open>Lemma collections\<close>

named_theorems dec_intros "order facts about the decimal operations"
named_theorems frame_simps "fields an operation leaves unchanged"
named_theorems cfg_simps "evaluation of concrete configurations in witnesses"

section \<open>Exceptions as values\<close>

datatype py_error =
    ZeroDivisionError
  | KeyError string
  | TypeError
  | IndexError
  | ValueError
  | InvalidTransition
  | InvalidOperation
  | RuntimeLockError
  | OrderTimeoutError
  | OrderError string
  | ExchangeError string

type_synonym 'a result = "py_error + 'a"

text \<open>The statement sequence \<open>x = m; k(x)\<close>, where \<open>m\<close> may raise.\<close>

definition bind_res :: "'a result \<Rightarrow> ('a \<Rightarrow> 'b result) \<Rightarrow> 'b result" where
  "bind_res m k = (case m of Inl e \<Rightarrow> Inl e | Inr x \<Rightarrow> k x)"

lemma bind_res_simps [simp]:
  "bind_res (Inl e) k = Inl e"
  "bind_res (Inr x) k = k x"
  by (simp_all add: bind_res_def)

lemma bind_res_eq_Inr: "bind_res m k = Inr y \<longleftrightarrow> (\<exists>x. m = Inr x \<and> k x = Inr y)"
  by (cases m) simp_all

lemma bind_res_eq_Inl: "bind_res m k = Inl e \<longleftrightarrow> m = Inl e \<or> (\<exists>x. m = Inr x \<and> k x = Inl e)"
  by (cases m) auto

section \<open>Python lists\<close>

text \<open>The slice \<open>xs[-n:]\<close> for a positive \<open>n\<close>: the last \<open>n\<close> elements, all of them when
  there are fewer. (\<open>xs[-0:]\<close> is the whole list, as in Python.)\<close>

definition last_n :: "nat \<Rightarrow> 'a list \<Rightarrow> 'a list" where
  "last_n n xs = (if n = 0 then xs else drop (length xs - n) xs)"

lemma length_last_n: "0 < n \<Longrightarrow> length (last_n n xs) = min n (length xs)"
  by (simp add: last_n_def)

lemma last_n_all: "length xs \<le> n \<Longrightarrow> last_n n xs = xs"
  by (simp add: last_n_def)

lemma set_last_n: "set (last_n n xs) \<subseteq> set xs"
  by (simp add: last_n_def set_drop_subset)

lemma last_n_snoc: "last_n (Suc n) (xs @ [x]) = (if n = 0 then [x] else last_n n xs @ [x])"
  by (auto simp: last_n_def Suc_diff_le not_le)

text \<open>\<open>zip(xs, xs[1:])\<close>: the adjacent pairs.\<close>

definition adjacent :: "'a list \<Rightarrow> ('a \<times> 'a) list" where
  "adjacent xs = zip xs (tl xs)"

lemma adjacent_simps [simp]:
  "adjacent [] = []"
  "adjacent [x] = []"
  "adjacent (x # y # zs) = (x, y) # adjacent (y # zs)"
  by (simp_all add: adjacent_def)

lemma length_adjacent [simp]: "length (adjacent xs) = length xs - 1"
  by (simp add: adjacent_def)

lemma adjacent_snoc: "xs \<noteq> [] \<Longrightarrow> adjacent (xs @ [x]) = adjacent xs @ [(last xs, x)]"
  by (induction xs rule: induct_list012) auto

text \<open>\<open>next((x for x in xs if p(x)), None)\<close>.\<close>

fun first_match :: "('a \<Rightarrow> bool) \<Rightarrow> 'a list \<Rightarrow> 'a option" where
  "first_match p [] = None"
| "first_match p (x # xs) = (if p x then Some x else first_match p xs)"

lemma first_match_Some: "first_match p xs = Some x \<Longrightarrow> x \<in> set xs \<and> p x"
  by (induction xs) (auto split: if_splits)

lemma first_match_None: "first_match p xs = None \<longleftrightarrow> (\<forall>x\<in>set xs. \<not> p x)"
  by (induction xs) auto

section \<open>Python dictionaries\<close>

text \<open>\<open>d.get(k, default)\<close>.\<close>

definition get_or :: "('k \<rightharpoonup> 'v) \<Rightarrow> 'k \<Rightarrow> 'v \<Rightarrow> 'v" where
  "get_or m k d = (case m k of None \<Rightarrow> d | Some v \<Rightarrow> v)"

lemma get_or_upd [simp]: "get_or (m(k := v)) k' d = (if k' = k then (case v of None \<Rightarrow> d | Some x \<Rightarrow> x) else get_or m k' d)"
  by (simp add: get_or_def)

lemma get_or_empty [simp]: "get_or Map.empty k d = d"
  by (simp add: get_or_def)

text \<open>A dictionary whose iteration order matters: an association list with distinct keys, in
  insertion order. Assigning an existing key keeps its place, as Python does.\<close>

fun dict_set :: "'k \<Rightarrow> 'v \<Rightarrow> ('k \<times> 'v) list \<Rightarrow> ('k \<times> 'v) list" where
  "dict_set k v [] = [(k, v)]"
| "dict_set k v ((k', v') # d) = (if k' = k then (k, v) # d else (k', v') # dict_set k v d)"

definition dict_pop :: "'k \<Rightarrow> ('k \<times> 'v) list \<Rightarrow> ('k \<times> 'v) list" where
  "dict_pop k d = filter (\<lambda>p. fst p \<noteq> k) d"

lemma map_of_dict_set [simp]: "map_of (dict_set k v d) = (map_of d)(k \<mapsto> v)"
  by (induction d) auto

lemma keys_dict_set: "fst ` set (dict_set k v d) = insert k (fst ` set d)"
  by (induction k v d rule: dict_set.induct) auto

lemma distinct_dict_set: "distinct (map fst d) \<Longrightarrow> distinct (map fst (dict_set k v d))"
proof (induction d)
  case Nil
  then show ?case by simp
next
  case (Cons p d)
  then show ?case
    using keys_dict_set [of k v d] by (cases p) auto
qed

lemma map_of_dict_pop [simp]: "map_of (dict_pop k d) = (map_of d)(k := None)"
  unfolding dict_pop_def by (induction d) (auto simp: fun_eq_iff)

lemma distinct_dict_pop: "distinct (map fst d) \<Longrightarrow> distinct (map fst (dict_pop k d))"
  unfolding dict_pop_def by (induction d) auto

lemma set_dict_set_subset: "set (dict_set k v d) \<subseteq> insert (k, v) (set d)"
  by (induction k v d rule: dict_set.induct) auto

end
