(* ===== verification/Action.thy ===== *)
theory Action
  imports Prelude
begin

text \<open>
  Computations that read and change a state and may raise: the async methods of the bot's
  services. The state survives an exception, as object state does in Python. The locale
  \<open>two_state\<close> is the contract every frame property has, a reflexive and transitive relation
  between the state before and after; its lemmas carry such a relation through sequences,
  loops, \<open>try\<close> and \<open>finally\<close>.
\<close>

type_synonym ('s, 'a) action = "'s \<Rightarrow> 's \<times> 'a result"

definition ret :: "'a \<Rightarrow> ('s, 'a) action" where
  "ret x s = (s, Inr x)"

definition throw :: "py_error \<Rightarrow> ('s, 'a) action" where
  "throw e s = (s, Inl e)"

definition lift_res :: "'a result \<Rightarrow> ('s, 'a) action" where
  "lift_res r s = (s, r)"

definition modify :: "('s \<Rightarrow> 's) \<Rightarrow> ('s, unit) action" where
  "modify f s = (f s, Inr ())"

definition reads :: "('s \<Rightarrow> 'a) \<Rightarrow> ('s, 'a) action" where
  "reads f s = (s, Inr (f s))"

definition and_then :: "('s, 'a) action \<Rightarrow> ('a \<Rightarrow> ('s, 'b) action) \<Rightarrow> ('s, 'b) action" where
  "and_then m k s = (case m s of (s', Inl e) \<Rightarrow> (s', Inl e) | (s', Inr x) \<Rightarrow> k x s')"

text \<open>\<open>m; k\<close> for statements.\<close>

definition then_do :: "('s, unit) action \<Rightarrow> ('s, 'b) action \<Rightarrow> ('s, 'b) action" where
  "then_do m k = and_then m (\<lambda>_. k)"

definition when_do :: "bool \<Rightarrow> ('s, unit) action \<Rightarrow> ('s, unit) action" where
  "when_do b m = (if b then m else ret ())"

text \<open>\<open>try: m finally: f\<close>, where \<open>f\<close> cannot raise.\<close>

definition try_finally :: "('s, 'a) action \<Rightarrow> ('s \<Rightarrow> 's) \<Rightarrow> ('s, 'a) action" where
  "try_finally m f s = (case m s of (s', r) \<Rightarrow> (f s', r))"

text \<open>\<open>try: m except Exception as e: h(e)\<close>.\<close>

definition try_except :: "('s, 'a) action \<Rightarrow> (py_error \<Rightarrow> ('s, 'a) action) \<Rightarrow> ('s, 'a) action" where
  "try_except m h s = (case m s of (s', Inl e) \<Rightarrow> h e s' | (s', Inr x) \<Rightarrow> (s', Inr x))"

text \<open>\<open>for x in xs: f(x)\<close>.\<close>

fun for_each :: "('a \<Rightarrow> ('s, unit) action) \<Rightarrow> 'a list \<Rightarrow> ('s, unit) action" where
  "for_each f [] = ret ()"
| "for_each f (x # xs) = then_do (f x) (for_each f xs)"

lemma action_simps [simp]:
  "ret x s = (s, Inr x)" "throw e s = (s, Inl e)" "lift_res r s = (s, r)"
  "modify f s = (f s, Inr ())" "reads g s = (s, Inr (g s))"
  by (simp_all add: ret_def throw_def lift_res_def modify_def reads_def)

lemma and_then_simps:
  "m s = (s', Inl e) \<Longrightarrow> and_then m k s = (s', Inl e)"
  "m s = (s', Inr x) \<Longrightarrow> and_then m k s = k x s'"
  by (simp_all add: and_then_def)

lemma and_then_ret [simp]: "and_then (ret x) k = k x"
  by (simp add: fun_eq_iff and_then_def)

lemma and_then_throw [simp]: "and_then (throw e) k = throw e"
  by (simp add: fun_eq_iff and_then_def)

lemma and_then_modify [simp]: "and_then (modify f) k s = k () (f s)"
  by (simp add: and_then_def)

lemma and_then_reads [simp]: "and_then (reads g) k s = k (g s) s"
  by (simp add: and_then_def)

lemma then_do_basic [simp]:
  "then_do (ret ()) k = k" "then_do (modify f) k s = k (f s)" "then_do (throw e) k = throw e"
  by (simp_all add: then_do_def)

lemma when_do_simps [simp]: "when_do True m = m" "when_do False m = ret ()"
  by (simp_all add: when_do_def)

locale two_state =
  fixes R :: "'s \<Rightarrow> 's \<Rightarrow> bool"
  assumes R_refl: "R s s"
    and R_trans: "R s t \<Longrightarrow> R t u \<Longrightarrow> R s u"
begin

definition keeps :: "('s, 'a) action \<Rightarrow> bool" where
  "keeps m \<longleftrightarrow> (\<forall>s. R s (fst (m s)))"

lemma keepsD: "keeps m \<Longrightarrow> m s = (s', r) \<Longrightarrow> R s s'"
  unfolding keeps_def by (metis fst_conv)

lemma keepsI: "(\<And>s s' r. m s = (s', r) \<Longrightarrow> R s s') \<Longrightarrow> keeps m"
  unfolding keeps_def by (metis prod.collapse)

lemma keeps_ret [intro, simp]: "keeps (ret x)"
  by (simp add: keeps_def R_refl)

lemma keeps_throw [intro, simp]: "keeps (throw e)"
  by (simp add: keeps_def R_refl)

lemma keeps_lift [intro, simp]: "keeps (lift_res r)"
  by (simp add: keeps_def R_refl)

lemma keeps_reads [intro, simp]: "keeps (reads g)"
  by (simp add: keeps_def R_refl)

lemma keeps_modify: "(\<And>s. R s (f s)) \<Longrightarrow> keeps (modify f)"
  by (simp add: keeps_def)

lemma keeps_and_then: "keeps m \<Longrightarrow> (\<And>x. keeps (k x)) \<Longrightarrow> keeps (and_then m k)"
  unfolding keeps_def and_then_def
  by (auto split: prod.splits sum.splits) (metis fst_conv R_trans)+

lemma keeps_then_do: "keeps m \<Longrightarrow> keeps k \<Longrightarrow> keeps (then_do m k)"
  by (simp add: then_do_def keeps_and_then)

lemma keeps_when_do: "keeps m \<Longrightarrow> keeps (when_do b m)"
  by (cases b) simp_all

lemma keeps_try_except: "keeps m \<Longrightarrow> (\<And>e. keeps (h e)) \<Longrightarrow> keeps (try_except m h)"
  unfolding keeps_def try_except_def
  by (auto split: prod.splits sum.splits) (metis fst_conv R_trans)+

lemma keeps_try_finally: "keeps m \<Longrightarrow> (\<And>s. R s (f s)) \<Longrightarrow> keeps (try_finally m f)"
  unfolding keeps_def try_finally_def
  by (auto split: prod.splits) (metis fst_conv R_trans)+

lemma keeps_for_each: "(\<And>x. x \<in> set xs \<Longrightarrow> keeps (f x)) \<Longrightarrow> keeps (for_each f xs)"
  by (induction xs) (auto intro: keeps_then_do)

lemma keeps_if: "(b \<Longrightarrow> keeps m) \<Longrightarrow> (\<not> b \<Longrightarrow> keeps k) \<Longrightarrow> keeps (if b then m else k)"
  by simp

lemma keeps_option: "keeps m \<Longrightarrow> (\<And>x. keeps (k x)) \<Longrightarrow> keeps (case y of None \<Rightarrow> m | Some x \<Rightarrow> k x)"
  by (cases y) simp_all

lemmas keeps_intros = keeps_and_then keeps_then_do keeps_when_do keeps_try_except keeps_try_finally
  keeps_for_each keeps_if keeps_option

text \<open>The relation between the states before and after a normal return.\<close>

definition ends :: "('s, 'a) action \<Rightarrow> bool" where
  "ends m \<longleftrightarrow> (\<forall>s s' x. m s = (s', Inr x) \<longrightarrow> R s s')"

lemma endsI: "(\<And>s s' x. m s = (s', Inr x) \<Longrightarrow> R s s') \<Longrightarrow> ends m"
  unfolding ends_def by blast

lemma endsD: "ends m \<Longrightarrow> m s = (s', Inr x) \<Longrightarrow> R s s'"
  unfolding ends_def by blast

lemma keeps_ends: "keeps m \<Longrightarrow> ends m"
  using keepsD by (intro endsI)

lemma ends_throw [intro, simp]: "ends (throw e)"
  by (simp add: ends_def)

lemma ends_ret [intro, simp]: "ends (ret x)"
  by (simp add: ends_def R_refl)

lemma ends_and_then: "ends m \<Longrightarrow> (\<And>x. ends (k x)) \<Longrightarrow> ends (and_then m k)"
  unfolding ends_def and_then_def
  by (auto split: prod.splits sum.splits) (metis R_trans)+

lemma ends_then_do: "ends m \<Longrightarrow> ends k \<Longrightarrow> ends (then_do m k)"
  by (simp add: then_do_def ends_and_then)

lemma ends_when_do: "ends m \<Longrightarrow> ends (when_do b m)"
  by (cases b) simp_all

lemma ends_if: "(b \<Longrightarrow> ends m) \<Longrightarrow> (\<not> b \<Longrightarrow> ends k) \<Longrightarrow> ends (if b then m else k)"
  by simp

lemma ends_option: "ends m \<Longrightarrow> (\<And>x. ends (k x)) \<Longrightarrow> ends (case y of None \<Rightarrow> m | Some x \<Rightarrow> k x)"
  by (cases y) simp_all

lemmas ends_intros = ends_and_then ends_then_do ends_when_do ends_if ends_option ends_ret

end

section \<open>Total computations\<close>

text \<open>From every state with \<open>P\<close> the computation returns normally, to a state with \<open>Q\<close>.\<close>

definition total :: "('s \<Rightarrow> bool) \<Rightarrow> ('s \<Rightarrow> bool) \<Rightarrow> ('s, 'a) action \<Rightarrow> bool" where
  "total P Q m \<longleftrightarrow> (\<forall>s. P s \<longrightarrow> (\<exists>s' x. m s = (s', Inr x) \<and> Q s'))"

lemma totalI: "(\<And>s. P s \<Longrightarrow> \<exists>s' x. m s = (s', Inr x) \<and> Q s') \<Longrightarrow> total P Q m"
  by (simp add: total_def)

lemma totalD: "total P Q m \<Longrightarrow> P s \<Longrightarrow> m s = (s', r) \<Longrightarrow> (\<exists>x. r = Inr x) \<and> Q s'"
  by (force simp: total_def)

lemma total_ret: "(\<And>s. P s \<Longrightarrow> Q s) \<Longrightarrow> total P Q (ret x)"
  by (simp add: total_def)

lemma total_modify: "(\<And>s. P s \<Longrightarrow> Q (f s)) \<Longrightarrow> total P Q (modify f)"
  by (simp add: total_def)

lemma total_and_then:
  assumes "total P Q m" "\<And>x. total Q R (k x)" shows "total P R (and_then m k)"
proof (rule totalI)
  fix s
  assume "P s"
  then obtain s1 x where "m s = (s1, Inr x)" "Q s1" using assms(1) by (auto simp: total_def)
  then show "\<exists>s' y. and_then m k s = (s', Inr y) \<and> R s'"
    using assms(2) [of x] by (auto simp: total_def and_then_def)
qed

lemma total_for_each: "(\<And>x. x \<in> set xs \<Longrightarrow> total P P (f x)) \<Longrightarrow> total P P (for_each f xs)"
proof (induction xs)
  case Nil
  show ?case by (simp only: for_each.simps) (rule total_ret)
next
  case (Cons x xs)
  then show ?case unfolding for_each.simps then_do_def by (intro total_and_then) auto
qed

end
