(* ===== verification/Decimal_Ctx.thy ===== *)
theory Decimal_Ctx
  imports Prelude
begin

text \<open>
  Python's \<open>decimal\<close> arithmetic. A finite \<open>Decimal\<close> is its numerical value, a rational; every
  arithmetic operation computes the exact result and rounds it to the 28 significant digits of
  the default context, half to even. \<open>dround\<close> is that rounding; \<open>dadd\<close>, \<open>dsub\<close>, \<open>dmul\<close>,
  \<open>ddiv\<close>, \<open>dabs\<close> and \<open>dneg\<close> are the operators. Comparisons, \<open>min\<close> and \<open>max\<close> are exact, and so
  is \<open>to_integral_value\<close>. The exponent limits of the context (\<open>10 ^ 999999\<close>), NaN and the
  infinities are outside the model, and so is the number of trailing zeros, which only
  \<open>str\<close> shows.
\<close>

type_synonym dec = rat

section \<open>Rounding to an integer, half to even\<close>

definition rhe :: "rat \<Rightarrow> int" where
  "rhe x = (let n = \<lfloor>x\<rfloor>; f = x - of_int n
            in if f < 1 / 2 then n else if f > 1 / 2 then n + 1
               else if even n then n else n + 1)"

lemma rhe_of_int [simp]: "rhe (of_int m) = m"
  by (simp add: rhe_def)

lemma rhe_bounds: "\<lfloor>x\<rfloor> \<le> rhe x \<and> rhe x \<le> \<lfloor>x\<rfloor> + 1"
  by (simp add: rhe_def Let_def)

lemma rhe_error: "\<bar>of_int (rhe x) - x\<bar> \<le> 1 / 2"
proof -
  define n where "n = \<lfloor>x\<rfloor>"
  have lo: "of_int n \<le> x" unfolding n_def by linarith
  have hi: "x < of_int n + 1" unfolding n_def by linarith
  consider "rhe x = n" "x - of_int n \<le> 1 / 2" | "rhe x = n + 1" "1 / 2 \<le> x - of_int n"
    unfolding rhe_def Let_def n_def by (metis linorder_not_less nless_le)
  then show ?thesis
    using lo hi by cases (simp_all add: abs_le_iff)
qed

lemma rhe_mono: "x \<le> y \<Longrightarrow> rhe x \<le> rhe y"
proof -
  assume le: "x \<le> y"
  show ?thesis
  proof (cases "\<lfloor>x\<rfloor> = \<lfloor>y\<rfloor>")
    case True
    then show ?thesis using le by (auto simp: rhe_def Let_def)
  next
    case False
    then have "\<lfloor>x\<rfloor> + 1 \<le> \<lfloor>y\<rfloor>" using floor_mono [OF le] by linarith
    then show ?thesis using rhe_bounds [of x] rhe_bounds [of y] by linarith
  qed
qed

lemma rhe_ge_int: "of_int m \<le> x \<Longrightarrow> m \<le> rhe x"
  using rhe_mono [of "of_int m" x] by simp

lemma rhe_le_int: "x \<le> of_int m \<Longrightarrow> rhe x \<le> m"
  using rhe_mono [of x "of_int m"] by simp

section \<open>Rounding to 28 significant digits\<close>

text \<open>A positive number is scaled by powers of ten until it has 28 digits before the point,
  rounded to an integer there and scaled back.\<close>

definition prec_lo :: rat where "prec_lo = 1000000000000000000000000000"
definition prec_hi :: rat where "prec_hi = 10000000000000000000000000000"

lemma prec_hi_lo: "prec_hi = 10 * prec_lo"
  by (simp add: prec_hi_def prec_lo_def)

lemma prec_lo_pos [simp]: "0 < prec_lo"
  by (simp add: prec_lo_def)

lemma prec_hi_pos [simp]: "0 < prec_hi"
  by (simp add: prec_hi_def)

lemma prec_lo_hi [simp]: "prec_lo < prec_hi"
  by (simp add: prec_hi_lo)

function rnd :: "rat \<Rightarrow> rat" where
  "rnd x = (if x \<le> 0 then 0
            else if prec_hi \<le> x then 10 * rnd (x / 10)
            else if x < prec_lo then rnd (10 * x) / 10
            else of_int (rhe x))"
  by pat_completeness auto

definition rnd_measure :: "rat \<Rightarrow> nat" where
  "rnd_measure x = (if prec_hi \<le> x then nat \<lfloor>x\<rfloor> else if x < prec_lo then nat \<lceil>prec_lo / x\<rceil> else 0)"

lemma rnd_measure_down:
  assumes "prec_hi \<le> x" shows "rnd_measure (x / 10) < rnd_measure x"
proof -
  have big: "1 \<le> \<lfloor>x\<rfloor>" using assms by (simp add: prec_hi_def)
  have ge: "prec_lo \<le> x / 10" using assms by (simp add: prec_hi_lo)
  have "\<lfloor>x / 10\<rfloor> < \<lfloor>x\<rfloor>"
  proof -
    have "x / 10 + 1 \<le> x" using assms by (simp add: prec_hi_def)
    then have "\<lfloor>x / 10 + 1\<rfloor> \<le> \<lfloor>x\<rfloor>" by (rule floor_mono)
    then show ?thesis by simp
  qed
  then have "nat \<lfloor>x / 10\<rfloor> < nat \<lfloor>x\<rfloor>" "0 < nat \<lfloor>x\<rfloor>" using big by linarith+
  then show ?thesis
    using assms ge unfolding rnd_measure_def by simp
qed

lemma rnd_measure_up:
  assumes "0 < x" "x < prec_lo" shows "rnd_measure (10 * x) < rnd_measure x"
proof -
  let ?y = "prec_lo / x"
  have y: "1 < ?y" using assms by simp
  have nh: "\<not> prec_hi \<le> x" "\<not> prec_hi \<le> 10 * x" using assms by (simp_all add: prec_hi_lo)
  have pos: "0 < \<lceil>?y\<rceil>" using y by simp
  have lt: "\<lceil>?y / 10\<rceil> < \<lceil>?y\<rceil>"
  proof -
    have "\<lceil>?y / 10\<rceil> \<le> \<lceil>?y\<rceil> - 1"
    proof (cases "?y \<le> 10")
      case True
      then have "\<lceil>?y / 10\<rceil> \<le> 1" by (simp add: ceiling_le_iff)
      moreover have "2 \<le> \<lceil>?y\<rceil>" using y by linarith
      ultimately show ?thesis by linarith
    next
      case False
      then have "?y / 10 \<le> ?y - 1" by simp
      then have "\<lceil>?y / 10\<rceil> \<le> \<lceil>?y - 1\<rceil>" by (rule ceiling_mono)
      then show ?thesis by simp
    qed
    then show ?thesis by simp
  qed
  have eq: "prec_lo / (10 * x) = ?y / 10" by simp
  have "nat \<lceil>?y / 10\<rceil> < nat \<lceil>?y\<rceil>" "0 < nat \<lceil>?y\<rceil>" using pos lt by linarith+
  then show ?thesis
    using assms(2) nh unfolding rnd_measure_def eq by presburger
qed

termination rnd
  by (relation "measure rnd_measure") (auto intro: rnd_measure_down rnd_measure_up)

declare rnd.simps [simp del]

lemma rnd_nonpos [simp]: "x \<le> 0 \<Longrightarrow> rnd x = 0"
  by (subst rnd.simps) simp

lemma rnd_mid: "prec_lo \<le> x \<Longrightarrow> x < prec_hi \<Longrightarrow> rnd x = of_int (rhe x)"
  using less_le_trans [OF prec_lo_pos, of x] by (subst rnd.simps) simp

text \<open>Rounding commutes with moving the decimal point.\<close>

lemma rnd_scale: "rnd (10 * x) = 10 * rnd x"
proof (cases "0 < x")
  case False
  then show ?thesis by simp
next
  case True
  show ?thesis
  proof (cases "prec_lo \<le> x")
    case True
    then have "prec_hi \<le> 10 * x" by (simp add: prec_hi_lo)
    then show ?thesis using \<open>0 < x\<close> by (subst rnd.simps) simp
  next
    case False
    then have "rnd x = rnd (10 * x) / 10"
      using \<open>0 < x\<close> less_trans [OF _ prec_lo_hi] by (subst rnd.simps) force
    then show ?thesis by simp
  qed
qed

lemma rnd_unscale: "rnd (x / 10) = rnd x / 10"
  using rnd_scale [of "x / 10"] by simp

lemma rnd_scale_pow: "rnd (10 ^ k * x) = 10 ^ k * rnd x"
  by (induction k) (simp_all add: mult.assoc rnd_scale)

lemma rnd_unscale_pow: "rnd (x / 10 ^ k) = rnd x / 10 ^ k"
  using rnd_scale_pow [of k "x / 10 ^ k"] by (simp add: field_simps)

text \<open>Induction along the scaling: it is enough to treat numbers with 28 digits.\<close>

lemma scale_induct [consumes 1, case_names mid up down]:
  assumes pos: "0 < (x::rat)"
    and mid: "\<And>x. prec_lo \<le> x \<Longrightarrow> x < prec_hi \<Longrightarrow> P x"
    and up: "\<And>x. 0 < x \<Longrightarrow> P x \<Longrightarrow> P (10 * x)"
    and down: "\<And>x. 0 < x \<Longrightarrow> P (10 * x) \<Longrightarrow> P x"
  shows "P x"
  using pos
proof (induction x rule: rnd.induct)
  case (1 x)
  consider "prec_hi \<le> x" | "x < prec_lo" | "prec_lo \<le> x" "x < prec_hi" by linarith
  then show ?case
  proof cases
    case 1
    with "1.IH"(1) "1.prems" have "P (x / 10)" by simp
    then have "P (10 * (x / 10))" using "1.prems" by (intro up [of "x / 10"]) simp_all
    then show ?thesis by simp
  next
    case 2
    moreover from 2 have "\<not> prec_hi \<le> x" using prec_lo_hi by linarith
    ultimately have "P (10 * x)" using "1.IH"(2) "1.prems" by simp
    then show ?thesis by (rule down [OF "1.prems"])
  next
    case 3
    then show ?thesis by (rule mid)
  qed
qed

lemma rnd_le_lo: "0 < x \<Longrightarrow> x \<le> prec_lo \<Longrightarrow> rnd x \<le> prec_lo"
proof (induction x rule: rnd.induct)
  case (1 x)
  have nh: "\<not> prec_hi \<le> x" using "1.prems" prec_lo_hi by linarith
  show ?case
  proof (cases "x < prec_lo")
    case False
    then have "x = of_int 1000000000000000000000000000"
      using "1.prems" by (simp add: prec_lo_def)
    moreover have "rnd x = of_int (rhe x)"
      using False nh by (intro rnd_mid) auto
    ultimately show ?thesis by (simp only: rhe_of_int) (simp add: prec_lo_def)
  next
    case True
    have eq: "rnd x = rnd (10 * x) / 10" by (simp add: rnd_scale)
    show ?thesis
    proof (cases "10 * x \<le> prec_lo")
      case True
      with "1.IH"(2) nh "1.prems" \<open>x < prec_lo\<close> have "rnd (10 * x) \<le> prec_lo" by simp
      with eq show ?thesis using prec_lo_pos by linarith
    next
      case False
      have "10 * x < prec_hi" using True by (simp add: prec_hi_lo)
      with False have r: "rnd (10 * x) = of_int (rhe (10 * x))" by (intro rnd_mid) auto
      have "rhe (10 * x) \<le> 10000000000000000000000000000"
        using \<open>10 * x < prec_hi\<close> by (intro rhe_le_int) (simp add: prec_hi_def)
      then have "rnd (10 * x) \<le> prec_hi"
        unfolding r prec_hi_def using of_int_le_iff [where 'a = rat] by fastforce
      with eq show ?thesis by (simp add: prec_hi_lo)
    qed
  qed
qed

lemma rnd_ge_lo: "prec_lo \<le> x \<Longrightarrow> x < prec_hi \<Longrightarrow> prec_lo \<le> rnd x"
proof -
  assume a: "prec_lo \<le> x" "x < prec_hi"
  have "1000000000000000000000000000 \<le> rhe x"
    using a by (intro rhe_ge_int) (simp add: prec_lo_def)
  then show ?thesis
    unfolding rnd_mid [OF a] prec_lo_def using of_int_le_iff [where 'a = rat] by fastforce
qed

lemma rnd_pos: "0 < x \<Longrightarrow> 0 < rnd x"
proof (induction x rule: scale_induct)
  case (mid x)
  then show ?case using rnd_ge_lo [of x] prec_lo_pos by linarith
qed (simp_all add: rnd_scale)

lemma rnd_mono_aux: "0 < y \<Longrightarrow> \<forall>x. 0 < x \<longrightarrow> x \<le> y \<longrightarrow> rnd x \<le> rnd y"
proof (induction y rule: scale_induct)
  case (mid y)
  show ?case
  proof (intro allI impI)
    fix x :: rat assume x: "0 < x" "x \<le> y"
    show "rnd x \<le> rnd y"
    proof (cases "prec_lo \<le> x")
      case True
      then have "rnd x = of_int (rhe x)" using x mid by (intro rnd_mid) auto
      then show ?thesis using rnd_mid [OF mid] rhe_mono [OF x(2)] by simp
    next
      case False
      then have "rnd x \<le> prec_lo" using x by (intro rnd_le_lo) auto
      also have "\<dots> \<le> rnd y" using mid by (rule rnd_ge_lo)
      finally show ?thesis .
    qed
  qed
next
  case (up y)
  show ?case
  proof (intro allI impI)
    fix x :: rat assume x: "0 < x" "x \<le> 10 * y"
    then have "rnd (x / 10) \<le> rnd y" using up by simp
    then show "rnd x \<le> rnd (10 * y)" by (simp add: rnd_unscale rnd_scale)
  qed
next
  case (down y)
  show ?case
  proof (intro allI impI)
    fix x :: rat assume x: "0 < x" "x \<le> y"
    then have "rnd (10 * x) \<le> rnd (10 * y)" using down by simp
    then show "rnd x \<le> rnd y" by (simp add: rnd_scale)
  qed
qed

lemma rnd_nonneg: "0 \<le> rnd x"
  using rnd_pos [of x] rnd_nonpos [of x] by (cases "0 < x") (auto simp: less_imp_le)

lemma rnd_mono: "x \<le> y \<Longrightarrow> rnd x \<le> rnd y"
proof -
  assume "x \<le> y"
  show ?thesis
  proof (cases "0 < x")
    case True
    then show ?thesis using rnd_mono_aux [of y] \<open>x \<le> y\<close> by simp
  next
    case False
    then show ?thesis by (simp add: rnd_nonneg)
  qed
qed

lemma rnd_int: "0 \<le> m \<Longrightarrow> of_int m \<le> prec_hi \<Longrightarrow> rnd (of_int m) = of_int m"
proof -
  have small: "rnd x = x" if "x \<in> \<int>" "0 < x" "x < prec_hi" for x
    using that
  proof (induction x rule: rnd.induct)
    case (1 x)
    show ?case
    proof (cases "x < prec_lo")
      case False
      from "1.prems" obtain k where "x = of_int k" by (auto elim: Ints_cases)
      then show ?thesis using rnd_mid [of x] False "1.prems" by simp
    next
      case True
      then have "rnd (10 * x) = 10 * x"
        using "1.IH"(2) "1.prems" True by (simp add: prec_hi_lo)
      then show ?thesis by (simp add: rnd_scale)
    qed
  qed
  assume m: "0 \<le> m" "of_int m \<le> prec_hi"
  consider "m = 0" | "0 < m" "of_int m < prec_hi" | "of_int m = prec_hi" using m by fastforce
  then show ?thesis
  proof cases
    case 1
    then show ?thesis by simp
  next
    case 2
    then show ?thesis by (intro small) auto
  next
    case 3
    have "rnd prec_lo = prec_lo" by (rule small) (simp_all add: prec_lo_def prec_hi_def)
    then show ?thesis using rnd_scale [of prec_lo] 3 by (simp add: prec_hi_lo)
  qed
qed

lemma rnd_idem: "rnd (rnd x) = rnd x"
proof (cases "0 < x")
  case False
  then show ?thesis by simp
next
  case True
  then show ?thesis
  proof (induction x rule: scale_induct)
    case (mid x)
    have "0 \<le> rhe x" using mid(1) by (intro rhe_ge_int) (simp add: prec_lo_def)
    moreover have "of_int (rhe x) \<le> prec_hi"
    proof -
      have "rhe x \<le> 10000000000000000000000000000"
        using mid by (intro rhe_le_int) (simp add: prec_hi_def)
      then have "of_int (rhe x) \<le> (of_int 10000000000000000000000000000 :: rat)"
        by (subst of_int_le_iff)
      then show ?thesis by (simp add: prec_hi_def)
    qed
    ultimately show ?case using rnd_int [of "rhe x"] by (simp add: rnd_mid [OF mid])
  qed (simp_all add: rnd_scale)
qed

lemma rnd_error_pos: "0 < x \<Longrightarrow> \<bar>rnd x - x\<bar> \<le> x / (2 * prec_lo)"
proof (induction x rule: scale_induct)
  case (mid x)
  have "\<bar>rnd x - x\<bar> \<le> 1 / 2" using rhe_error [of x] by (simp add: rnd_mid [OF mid])
  also have "\<dots> \<le> x / (2 * prec_lo)" using mid(1) by (simp add: prec_lo_def)
  finally show ?case .
next
  case (up x)
  have "rnd (10 * x) - 10 * x = 10 * (rnd x - x)" by (simp add: rnd_scale)
  with up show ?case by (simp only: abs_mult) simp
next
  case (down x)
  have "rnd (10 * x) - 10 * x = 10 * (rnd x - x)" by (simp add: rnd_scale)
  with down show ?case by (simp only: abs_mult) simp
qed

section \<open>The operations of the decimal context\<close>

definition dround :: "rat \<Rightarrow> dec" where
  "dround x = (if x < 0 then - rnd (- x) else rnd x)"

definition dadd :: "dec \<Rightarrow> dec \<Rightarrow> dec" where "dadd a b = dround (a + b)"
definition dsub :: "dec \<Rightarrow> dec \<Rightarrow> dec" where "dsub a b = dround (a - b)"
definition dmul :: "dec \<Rightarrow> dec \<Rightarrow> dec" where "dmul a b = dround (a * b)"
definition ddiv :: "dec \<Rightarrow> dec \<Rightarrow> dec" where "ddiv a b = dround (a / b)"
definition dabs :: "dec \<Rightarrow> dec" where "dabs a = dround \<bar>a\<bar>"
definition dneg :: "dec \<Rightarrow> dec" where "dneg a = dround (- a)"

text \<open>Division raises on a zero divisor. \<open>ddiv\<close> itself is used only where the code has just
  tested the divisor; everywhere else the model calls \<open>pdiv\<close>.\<close>

definition pdiv :: "dec \<Rightarrow> dec \<Rightarrow> dec result" where
  "pdiv a b = (if b = 0 then Inl ZeroDivisionError else Inr (ddiv a b))"

text \<open>\<open>sum(xs, Decimal(0))\<close>.\<close>

definition dsum :: "dec list \<Rightarrow> dec" where
  "dsum xs = foldl dadd 0 xs"

text \<open>A value is representable when rounding leaves it alone, as it does for every operand
  the program can hold.\<close>

definition is_dec :: "rat \<Rightarrow> bool" where
  "is_dec x \<longleftrightarrow> dround x = x"


section \<open>What every rounding of this kind guarantees\<close>

text \<open>The laws the components rely on: the rounding is monotone, leaves what it returns alone
  and treats the two signs alike.\<close>

locale rounding =
  fixes rd :: "rat \<Rightarrow> rat"
  assumes rd_mono: "x \<le> y \<Longrightarrow> rd x \<le> rd y"
    and rd_idem: "rd (rd x) = rd x"
    and rd_minus: "rd (- x) = - rd x"
begin

lemma rd_zero: "rd 0 = 0"
  using rd_minus [of 0] by simp

lemma rd_nonneg: "0 \<le> x \<Longrightarrow> 0 \<le> rd x"
  using rd_mono [of 0 x] by (simp add: rd_zero)

lemma rd_nonpos: "x \<le> 0 \<Longrightarrow> rd x \<le> 0"
  using rd_mono [of x 0] by (simp add: rd_zero)

lemma rd_le_fix: "x \<le> y \<Longrightarrow> rd y = y \<Longrightarrow> rd x \<le> y"
  using rd_mono [of x y] by simp

lemma rd_ge_fix: "y \<le> x \<Longrightarrow> rd y = y \<Longrightarrow> y \<le> rd x"
  using rd_mono [of y x] by simp

lemma rd_less_imp: "rd x < rd y \<Longrightarrow> x < y"
  using rd_mono [of y x] by (meson linorder_not_less)

lemma rd_abs: "\<bar>rd x\<bar> = rd \<bar>x\<bar>"
proof (cases "0 \<le> x")
  case True
  then show ?thesis using rd_nonneg by simp
next
  case False
  then show ?thesis using rd_nonpos [of x] by (simp add: rd_minus)
qed

end

lemma dround_minus: "dround (- x) = - dround x"
  by (simp add: dround_def)

lemma dround_mono: "x \<le> y \<Longrightarrow> dround x \<le> dround y"
  using rnd_mono [of x y] rnd_mono [of "- y" "- x"] rnd_nonneg [of y] rnd_nonneg [of "- x"]
  by (auto simp: dround_def)

lemma dround_idem: "dround (dround x) = dround x"
  using rnd_nonneg [of x] rnd_pos [of "- x"] rnd_idem [of x] rnd_idem [of "- x"]
  by (auto simp: dround_def)

interpretation dctx: rounding dround
  by unfold_locales (fact dround_mono, fact dround_idem, fact dround_minus)

lemma dround_zero [simp]: "dround 0 = 0"
  by (rule dctx.rd_zero)

lemma dround_pos: "0 < x \<Longrightarrow> 0 < dround x"
  using rnd_pos [of x] by (simp add: dround_def)

lemma dround_neg: "x < 0 \<Longrightarrow> dround x < 0"
  using rnd_pos [of "- x"] by (simp add: dround_def)

lemma dround_pos_iff [simp]: "0 < dround x \<longleftrightarrow> 0 < x"
  using dround_pos dctx.rd_nonpos [of x] by (meson linorder_not_less)

lemma dround_neg_iff [simp]: "dround x < 0 \<longleftrightarrow> x < 0"
  using dround_neg dctx.rd_nonneg [of x] by (meson linorder_not_less)

lemma dround_nonneg_iff [simp]: "0 \<le> dround x \<longleftrightarrow> 0 \<le> x"
  by (simp flip: linorder_not_less)

lemma dround_nonpos_iff [simp]: "dround x \<le> 0 \<longleftrightarrow> x \<le> 0"
  by (simp flip: linorder_not_less)

lemma dround_eq_0_iff [simp]: "dround x = 0 \<longleftrightarrow> x = 0"
  by (simp add: order_eq_iff)

lemma dround_error: "\<bar>dround x - x\<bar> \<le> \<bar>x\<bar> / (2 * prec_lo)"
proof (cases "x = 0")
  case False
  then show ?thesis
    using rnd_error_pos [of x] rnd_error_pos [of "- x"]
    by (cases "x < 0") (auto simp: dround_def abs_if split: if_splits)
qed simp

section \<open>Representable values\<close>

lemma is_dec_dround [simp]: "is_dec (dround x)"
  by (simp add: is_dec_def dround_idem)

lemma is_dec_ops [simp]:
  "is_dec (dadd a b)" "is_dec (dsub a b)" "is_dec (dmul a b)" "is_dec (ddiv a b)"
  "is_dec (dabs a)" "is_dec (dneg a)"
  by (simp_all add: dadd_def dsub_def dmul_def ddiv_def dabs_def dneg_def)

lemma is_dec_dsum [simp]: "is_dec (dsum xs)"
proof -
  have "is_dec acc \<Longrightarrow> is_dec (foldl dadd acc xs)" for acc
    by (induction xs arbitrary: acc) simp_all
  then show ?thesis by (simp add: dsum_def is_dec_def)
qed

lemma is_decD: "is_dec x \<Longrightarrow> dround x = x"
  by (simp add: is_dec_def)

lemma is_dec_minus: "is_dec x \<Longrightarrow> is_dec (- x)"
  by (simp add: is_dec_def dround_minus)

lemma is_dec_int: "of_int \<bar>m\<bar> \<le> prec_hi \<Longrightarrow> is_dec (of_int m)"
  using rnd_int [of m] rnd_int [of "- m"] by (auto simp: is_dec_def dround_def)

lemma is_dec_scaled: "of_int \<bar>m\<bar> \<le> prec_hi \<Longrightarrow> is_dec (of_int m / 10 ^ k)"
proof -
  assume m: "of_int \<bar>m\<bar> \<le> prec_hi"
  have "dround (of_int m / 10 ^ k) = dround (of_int m) / 10 ^ k"
    using rnd_unscale_pow [of "of_int m" k] rnd_unscale_pow [of "- of_int m" k]
    by (auto simp: dround_def divide_less_0_iff zero_less_divide_iff not_less divide_nonneg_pos)
  then show ?thesis using is_dec_int [OF m] by (simp add: is_dec_def)
qed

text \<open>A test for concrete numbers: at most twenty decimals and less than \<open>10 ^ 8\<close>. The marker
  \<open>lit\<close> keeps the simplifier from trying it on terms that are not literals.\<close>

definition lit :: "rat \<Rightarrow> bool" where "lit x \<longleftrightarrow> True"

lemma lit_simps [simp]:
  "lit 0" "lit 1" "lit (numeral m)" "lit (1 / numeral m)" "lit (numeral m / numeral n)"
  "lit (- 1)" "lit (- numeral m)" "lit (- (1 / numeral m))" "lit (- (numeral m / numeral n))"
  by (simp_all add: lit_def)

lemma dround_exact:
  assumes "lit x" and "of_int \<lfloor>x * 100000000000000000000\<rfloor> = x * 100000000000000000000"
    and "\<bar>x\<bar> \<le> 100000000"
  shows "dround x = x"
proof -
  let ?m = "\<lfloor>x * 100000000000000000000\<rfloor>"
  have x: "x = of_int ?m / 10 ^ 20" by (subst assms(2)) simp
  have "\<bar>of_int ?m\<bar> \<le> prec_hi"
    using assms by (simp only: assms(2)) (simp add: prec_hi_def abs_mult)
  then have "is_dec (of_int ?m / 10 ^ 20)" by (intro is_dec_scaled) simp
  with x show ?thesis by (simp add: is_dec_def)
qed

lemma floor_rat_numeral [simp]:
  "\<lfloor>(numeral a :: rat) / numeral b\<rfloor> = numeral a div numeral b"
  using floor_divide_of_int_eq [where 'a = rat, of "numeral a" "numeral b"] by simp

lemma floor_rat_minus_numeral [simp]:
  "\<lfloor>- ((numeral a :: rat) / numeral b)\<rfloor> = (- numeral a) div numeral b"
  using floor_divide_of_int_eq [where 'a = rat, of "- numeral a" "numeral b"] by simp

lemma ceiling_rat_numeral [simp]:
  "\<lceil>(numeral a :: rat) / numeral b\<rceil> = - ((- numeral a) div numeral b)"
  by (simp add: ceiling_def)

lemma floor_rat_one_numeral [simp]: "\<lfloor>1 / (numeral b :: rat)\<rfloor> = 1 div numeral b"
  using floor_divide_of_int_eq [where 'a = rat, of 1 "numeral b"] by simp

lemma ceiling_rat_one_numeral [simp]: "\<lceil>1 / (numeral b :: rat)\<rceil> = - ((- 1) div numeral b)"
  using floor_divide_of_int_eq [where 'a = rat, of "- 1" "numeral b"] by (simp add: ceiling_def)

text \<open>Rounding a number whose scale is known.\<close>

lemma rnd_at:
  "prec_lo \<le> 10 ^ k * x \<Longrightarrow> 10 ^ k * x < prec_hi \<Longrightarrow> rnd x = of_int (rhe (10 ^ k * x)) / 10 ^ k"
  using rnd_mid [of "10 ^ k * x"] rnd_scale_pow [of k x] by (simp add: field_simps)

lemmas dec_eval = dadd_def dsub_def dmul_def ddiv_def dabs_def dneg_def pdiv_def dsum_def dround_exact

section \<open>Signs and bounds of the operations\<close>

lemma dsub_signs [simp]:
  "0 < dsub a b \<longleftrightarrow> b < a" "0 \<le> dsub a b \<longleftrightarrow> b \<le> a"
  "dsub a b < 0 \<longleftrightarrow> a < b" "dsub a b \<le> 0 \<longleftrightarrow> a \<le> b"
  "dsub a b = 0 \<longleftrightarrow> a = b"
  by (simp_all add: dsub_def)

lemma dabs_signs [simp]:
  "0 \<le> dabs a" "\<not> dabs a < 0" "0 < dabs a \<longleftrightarrow> a \<noteq> 0" "dabs a = 0 \<longleftrightarrow> a = 0" "dabs a \<le> 0 \<longleftrightarrow> a = 0"
  by (simp_all add: dabs_def)

lemma dabs_is_dec: "is_dec a \<Longrightarrow> dabs a = \<bar>a\<bar>"
  using dctx.rd_abs [of a] by (simp add: dabs_def is_dec_def)

lemma dabs_dsub: "dabs (dsub a b) = dround \<bar>a - b\<bar>"
  using dctx.rd_abs [of "a - b"] by (simp add: dabs_is_dec dsub_def)

lemma dabs_dsub_commute: "dabs (dsub a b) = dabs (dsub b a)"
  by (simp add: dabs_dsub abs_minus_commute)

lemma dmul_pos: "0 < a \<Longrightarrow> 0 < b \<Longrightarrow> 0 < dmul a b"
  by (simp add: dmul_def)

lemma dmul_nonneg: "0 \<le> a \<Longrightarrow> 0 \<le> b \<Longrightarrow> 0 \<le> dmul a b"
  by (simp add: dmul_def)

lemma ddiv_pos: "0 < a \<Longrightarrow> 0 < b \<Longrightarrow> 0 < ddiv a b"
  by (simp add: ddiv_def)

lemma ddiv_nonneg: "0 \<le> a \<Longrightarrow> 0 < b \<Longrightarrow> 0 \<le> ddiv a b"
  by (simp add: ddiv_def)

lemma dadd_nonneg: "0 \<le> a \<Longrightarrow> 0 \<le> b \<Longrightarrow> 0 \<le> dadd a b"
  by (simp add: dadd_def)

lemma dadd_ge_left: "is_dec a \<Longrightarrow> 0 \<le> b \<Longrightarrow> a \<le> dadd a b"
  unfolding dadd_def by (rule dctx.rd_ge_fix) (simp_all add: is_dec_def)

lemma dsub_le_left: "is_dec a \<Longrightarrow> 0 \<le> b \<Longrightarrow> dsub a b \<le> a"
  unfolding dsub_def by (rule dctx.rd_le_fix) (simp_all add: is_dec_def)

lemma dadd_mono: "a \<le> a' \<Longrightarrow> b \<le> b' \<Longrightarrow> dadd a b \<le> dadd a' b'"
  unfolding dadd_def by (rule dround_mono) simp

lemma dsub_mono: "a \<le> a' \<Longrightarrow> b' \<le> b \<Longrightarrow> dsub a b \<le> dsub a' b'"
  unfolding dsub_def by (rule dround_mono) simp

lemma dmul_mono: "a \<le> a' \<Longrightarrow> 0 \<le> b \<Longrightarrow> dmul a b \<le> dmul a' b"
  unfolding dmul_def by (rule dround_mono) (simp add: mult_right_mono)

lemma dmul_mono_right: "b \<le> b' \<Longrightarrow> 0 \<le> a \<Longrightarrow> dmul a b \<le> dmul a b'"
  unfolding dmul_def by (rule dround_mono) (simp add: mult_left_mono)

lemma ddiv_mono: "a \<le> a' \<Longrightarrow> 0 < b \<Longrightarrow> ddiv a b \<le> ddiv a' b"
  unfolding ddiv_def by (rule dround_mono) (simp add: divide_right_mono)

lemma ddiv_le: "a \<le> c * b \<Longrightarrow> 0 < b \<Longrightarrow> is_dec c \<Longrightarrow> ddiv a b \<le> c"
  unfolding ddiv_def by (rule dctx.rd_le_fix) (simp_all add: is_dec_def pos_divide_le_eq)

lemma ddiv_ge: "c * b \<le> a \<Longrightarrow> 0 < b \<Longrightarrow> is_dec c \<Longrightarrow> c \<le> ddiv a b"
  unfolding ddiv_def by (rule dctx.rd_ge_fix) (simp_all add: is_dec_def pos_le_divide_eq)

lemma pdiv_Inr: "b \<noteq> 0 \<Longrightarrow> pdiv a b = Inr (ddiv a b)"
  by (simp add: pdiv_def)

lemmas [dec_intros] =
  dmul_pos dmul_nonneg ddiv_pos ddiv_nonneg dadd_nonneg dadd_ge_left dsub_le_left
  dadd_mono dsub_mono dmul_mono ddiv_mono

section \<open>Binary floating point\<close>

text \<open>The number of binary digits of a positive integer.\<close>

function bit_count :: "int \<Rightarrow> int" where
  "bit_count n = (if n \<le> 0 then 0 else 1 + bit_count (n div 2))"
  by auto

termination by (relation "measure nat") auto

declare bit_count.simps [simp del]

definition float_exponent :: "rat \<Rightarrow> int" where
  "float_exponent x =
    (case quotient_of x of (n, d) \<Rightarrow>
      let k = bit_count \<bar>n\<bar> - bit_count d
      in (if 2 powi k \<le> \<bar>x\<bar> then k else k - 1) - 52)"

text \<open>\<open>float(d)\<close>: the nearest number with a significand of 53 bits, ties to even. The exponent range is
  not bounded: percentages, amounts and clock readings never reach its ends.\<close>

definition to_float :: "dec \<Rightarrow> rat" where
  "to_float x = (if x = 0 then 0 else let u = 2 powi float_exponent x in of_int (rhe (x / u)) * u)"

text \<open>The operators: the exact result, rounded.\<close>

definition fadd :: "rat \<Rightarrow> rat \<Rightarrow> rat" where
  "fadd x y = to_float (x + y)"

definition fsub :: "rat \<Rightarrow> rat \<Rightarrow> rat" where
  "fsub x y = to_float (x - y)"

definition fmul :: "rat \<Rightarrow> rat \<Rightarrow> rat" where
  "fmul x y = to_float (x * y)"

definition fdiv :: "rat \<Rightarrow> rat \<Rightarrow> rat" where
  "fdiv x y = to_float (x / y)"

lemma bit_count_bounds: "0 < n \<Longrightarrow> 0 < bit_count n \<and> 2 powi (bit_count n - 1) \<le> (of_int n :: rat) \<and> (of_int n :: rat) < 2 powi bit_count n"
proof (induction n rule: bit_count.induct)
  case (1 n)
  let ?m = "n div 2"
  have n: "bit_count n = 1 + bit_count ?m" using 1 by (subst bit_count.simps) simp
  show ?case
  proof (cases "?m = 0")
    case True
    then have "n = 1" using 1(2) by linarith
    moreover have "bit_count 1 = 1" by (simp add: bit_count.simps)
    ultimately show ?thesis by simp
  next
    case False
    then have m: "0 < ?m" using 1(2) by linarith
    have "2 * ?m \<le> n" "n \<le> 2 * ?m + 1" by linarith+
    then have "(of_int (2 * ?m) :: rat) \<le> of_int n" "(of_int n :: rat) \<le> of_int (2 * ?m + 1)"
      by (simp_all only: of_int_le_iff)
    then have r: "2 * (of_int ?m :: rat) \<le> of_int n" "(of_int n :: rat) \<le> 2 * of_int ?m + 1"
      by (simp_all only: of_int_add of_int_mult of_int_1 of_int_numeral)
    let ?b = "bit_count ?m"
    have ih: "0 < ?b" "2 powi (?b - 1) \<le> (of_int ?m :: rat)" "(of_int ?m :: rat) < 2 powi ?b"
      using 1(1) [OF _ m] 1(2) by auto
    have p: "(2 :: rat) powi ?b = of_int (2 ^ nat ?b)" using ih(1) by (simp add: power_int_def)
    have "?m < 2 ^ nat ?b" using ih(3) unfolding p by (simp only: of_int_less_iff)
    then have "?m + 1 \<le> 2 ^ nat ?b" by linarith
    then have "(of_int (?m + 1) :: rat) \<le> of_int (2 ^ nat ?b)" by (simp only: of_int_le_iff)
    then have "(of_int ?m :: rat) + 1 \<le> 2 powi ?b" unfolding p by (simp only: of_int_add of_int_1)
    moreover have "(2 :: rat) powi (1 + ?b) = 2 * 2 powi ?b" "2 * (2 :: rat) powi (?b - 1) = 2 powi ?b"
      by (simp_all add: power_int_add power_int_diff)
    ultimately show ?thesis using ih(1,2) r unfolding n by simp
  qed
qed

lemma float_exponent_le:
  assumes "x \<noteq> 0"
  shows "2 powi float_exponent x * 2 ^ 52 \<le> \<bar>x\<bar>"
proof -
  obtain n d where q: "quotient_of x = (n, d)" by fastforce
  have d: "0 < d" and x: "x = of_int n / of_int d" using quotient_of_denom_pos [OF q] quotient_of_div [OF q] by simp_all
  have n: "0 < \<bar>n\<bar>" using assms x by auto
  let ?k = "bit_count \<bar>n\<bar> - bit_count d"
  have "2 powi (?k - 1) \<le> \<bar>x\<bar>"
  proof -
    have "(2 :: rat) powi (?k - 1) = 2 powi (bit_count \<bar>n\<bar> - 1) / 2 powi bit_count d"
      using power_int_diff [of "2 :: rat" "bit_count \<bar>n\<bar> - 1" "bit_count d"] by (simp add: algebra_simps)
    also have "\<dots> \<le> of_int \<bar>n\<bar> / of_int d"
      using bit_count_bounds [OF n] bit_count_bounds [OF d] d by (intro frac_le) simp_all
    finally show ?thesis using x d by simp
  qed
  then have "2 powi (float_exponent x + 52) \<le> \<bar>x\<bar>"
    by (simp add: float_exponent_def q Let_def)
  then show ?thesis by (simp add: power_int_add)
qed

text \<open>The relative error of a rounding, half a unit in the 53rd bit.\<close>

definition fulp :: rat where "fulp = 1 / 2 ^ 53"

lemma to_float_error: "\<bar>to_float x - x\<bar> \<le> \<bar>x\<bar> * fulp"
proof (cases "x = 0")
  case False
  let ?u = "2 powi float_exponent x :: rat"
  have u: "0 < ?u" by simp
  have "to_float x - x = (of_int (rhe (x / ?u)) - x / ?u) * ?u"
    using False u by (simp add: to_float_def Let_def left_diff_distrib)
  then have "\<bar>to_float x - x\<bar> = \<bar>of_int (rhe (x / ?u)) - x / ?u\<bar> * ?u"
    by (simp add: abs_mult)
  also have "\<dots> \<le> 1 / 2 * ?u" using rhe_error u by (intro mult_right_mono) simp_all
  also have "\<dots> \<le> \<bar>x\<bar> * fulp" using float_exponent_le [OF False] by (simp add: fulp_def)
  finally show ?thesis .
qed (simp add: to_float_def)

lemma to_float_le: "0 \<le> x \<Longrightarrow> to_float x \<le> x * (1 + fulp)"
  using to_float_error [of x] by (simp add: abs_le_iff algebra_simps)

lemma to_float_nonneg: "0 \<le> x \<Longrightarrow> 0 \<le> to_float x"
proof -
  assume x: "0 \<le> x"
  then have "x * fulp \<le> x" by (intro mult_left_le) (simp_all add: fulp_def)
  then show ?thesis using to_float_error [of x] x by (simp add: abs_le_iff)
qed

end
