(* ===== verification/Domain.thy ===== *)
theory Domain
  imports Decimal_Ctx
begin

text \<open>
  The data model: the enumerations of \<^verbatim>\<open>packages/core/enums/enums.py\<close> and the models of
  \<^verbatim>\<open>packages/core/models/\<close>. A \<open>Decimal\<close> is a \<open>dec\<close>, an optional field an \<open>option\<close>, a
  \<open>datetime\<close> its number of microseconds (Python's resolution), an enumeration a datatype with
  the source's members.
\<close>

section \<open>Enumerations\<close>

datatype bot_state =
    BOOTING | STANDBY | START_REQUESTED | SYNCING | READY | RUNNING | PAUSED | RISK_LOCKED
  | RECONCILING | ORDER_LOCKED | EMERGENCY_STOP | STOPPING | STOPPED

datatype bot_mode = PAPER | LIVE

datatype side = BUY | SELL

datatype position_side = LONG | SHORT

datatype order_type = LIMIT | AGGRESSIVE_LIMIT | MARKET

datatype order_status =
  NEW | PARTIALLY_FILLED | FILLED | CANCELLED | REJECTED | EXPIRED | UNKNOWN

datatype time_in_force = GTC | IOC | FOK | POST_ONLY

datatype trigger_by = LAST_PRICE | MARK_PRICE | INDEX_PRICE

datatype position_status = PENDING | ACTIVE | CLOSING | CLOSED

datatype position_source = BOT | EXTERNAL

datatype scout_state =
  SCOUT_NONE | SCOUT_PENDING | SCOUT_WARNING | SCOUT_CONFIRMED | ACTIVE_TREND

datatype entry_mode = PRE_BREAKOUT_SCOUT | BREAKOUT_CONFIRM | RETEST_CONFIRM

datatype signal_direction = SIG_LONG | SIG_SHORT | SIG_EXIT

datatype exit_reason =
    TAKE_PROFIT | STOP_LOSS | PARTIAL_TAKE_PROFIT | TRAILING_STOP | RUNNER_TRAILING_STOP
  | RUNNER_SCENARIO_INVALID | STAGNATION | SCENARIO_INVALID | SCOUT_DEFENSIVE_REDUCE
  | SCOUT_CATASTROPHIC_REDUCE | MAX_HOLDING_TIME | MANUAL_CLOSE | EMERGENCY_CLOSE
  | FUNDING_GUARD | PARTIAL_FILL_TOO_SMALL | TPSL_FAILED

text \<open>The labels \<open>_runner_trend_strength\<close> returns, in the order of the trend they stand for.\<close>

datatype trend_strength = WEAK | STRONG | VERY_STRONG

instantiation trend_strength :: linorder
begin

fun strength_rank :: "trend_strength \<Rightarrow> nat" where
  "strength_rank WEAK = 0"
| "strength_rank STRONG = 1"
| "strength_rank VERY_STRONG = 2"

definition less_eq_trend_strength :: "trend_strength \<Rightarrow> trend_strength \<Rightarrow> bool" where
  "less_eq_trend_strength a b \<longleftrightarrow> strength_rank a \<le> strength_rank b"

definition less_trend_strength :: "trend_strength \<Rightarrow> trend_strength \<Rightarrow> bool" where
  "less_trend_strength a b \<longleftrightarrow> strength_rank a < strength_rank b"

instance
proof
  fix a b :: trend_strength
  assume "a \<le> b" "b \<le> a"
  then show "a = b"
    by (cases a; cases b) (simp_all add: less_eq_trend_strength_def)
qed (auto simp: less_eq_trend_strength_def less_trend_strength_def)

end

text \<open>The enumeration values as the strings the configuration and the events use.\<close>

fun entry_mode_value :: "entry_mode \<Rightarrow> string" where
  "entry_mode_value PRE_BREAKOUT_SCOUT = ''PRE_BREAKOUT_SCOUT''"
| "entry_mode_value BREAKOUT_CONFIRM = ''BREAKOUT_CONFIRM''"
| "entry_mode_value RETEST_CONFIRM = ''RETEST_CONFIRM''"

fun position_side_value :: "position_side \<Rightarrow> string" where
  "position_side_value LONG = ''LONG''"
| "position_side_value SHORT = ''SHORT''"

fun direction_value :: "signal_direction \<Rightarrow> string" where
  "direction_value SIG_LONG = ''LONG''"
| "direction_value SIG_SHORT = ''SHORT''"
| "direction_value SIG_EXIT = ''EXIT''"

fun trend_strength_value :: "trend_strength \<Rightarrow> string" where
  "trend_strength_value WEAK = ''WEAK''"
| "trend_strength_value STRONG = ''STRONG''"
| "trend_strength_value VERY_STRONG = ''VERY_STRONG''"

fun scout_state_value :: "scout_state \<Rightarrow> string" where
  "scout_state_value SCOUT_NONE = ''NONE''"
| "scout_state_value SCOUT_PENDING = ''SCOUT_PENDING''"
| "scout_state_value SCOUT_WARNING = ''SCOUT_WARNING''"
| "scout_state_value SCOUT_CONFIRMED = ''SCOUT_CONFIRMED''"
| "scout_state_value ACTIVE_TREND = ''ACTIVE_TREND''"

fun exit_reason_value :: "exit_reason \<Rightarrow> string" where
  "exit_reason_value TAKE_PROFIT = ''TAKE_PROFIT''"
| "exit_reason_value STOP_LOSS = ''STOP_LOSS''"
| "exit_reason_value PARTIAL_TAKE_PROFIT = ''PARTIAL_TAKE_PROFIT''"
| "exit_reason_value TRAILING_STOP = ''TRAILING_STOP''"
| "exit_reason_value RUNNER_TRAILING_STOP = ''RUNNER_TRAILING_STOP''"
| "exit_reason_value RUNNER_SCENARIO_INVALID = ''RUNNER_SCENARIO_INVALID''"
| "exit_reason_value STAGNATION = ''STAGNATION''"
| "exit_reason_value SCENARIO_INVALID = ''SCENARIO_INVALID''"
| "exit_reason_value SCOUT_DEFENSIVE_REDUCE = ''SCOUT_DEFENSIVE_REDUCE''"
| "exit_reason_value SCOUT_CATASTROPHIC_REDUCE = ''SCOUT_CATASTROPHIC_REDUCE''"
| "exit_reason_value MAX_HOLDING_TIME = ''MAX_HOLDING_TIME''"
| "exit_reason_value MANUAL_CLOSE = ''MANUAL_CLOSE''"
| "exit_reason_value EMERGENCY_CLOSE = ''EMERGENCY_CLOSE''"
| "exit_reason_value FUNDING_GUARD = ''FUNDING_GUARD''"
| "exit_reason_value PARTIAL_FILL_TOO_SMALL = ''PARTIAL_FILL_TOO_SMALL''"
| "exit_reason_value TPSL_FAILED = ''TPSL_FAILED''"

section \<open>Event payloads\<close>

text \<open>A value of an event's \<open>data\<close> dictionary. \<open>str(d)\<close> of a decimal is kept as the decimal
  it renders.\<close>

datatype pval = PNone | PStr string | PDec dec | PInt int | PBool bool | PStrs "string list"

type_synonym payload = "(string \<times> pval) list"

definition opt_dec :: "dec option \<Rightarrow> pval" where
  "opt_dec x = (case x of None \<Rightarrow> PNone | Some d \<Rightarrow> PDec d)"

definition opt_str :: "string option \<Rightarrow> pval" where
  "opt_str x = (case x of None \<Rightarrow> PNone | Some d \<Rightarrow> PStr d)"

text \<open>\<open>d.update(kvs)\<close> and \<open>{k: v for k, v in d.items() if v is not None}\<close>.\<close>

definition dict_update :: "payload \<Rightarrow> payload \<Rightarrow> payload" where
  "dict_update d kvs = foldl (\<lambda>acc kv. dict_set (fst kv) (snd kv) acc) d kvs"

definition drop_none :: "payload \<Rightarrow> payload" where
  "drop_none d = filter (\<lambda>kv. snd kv \<noteq> PNone) d"

text \<open>\<open>str(n)\<close> of an integer.\<close>

fun nat_str :: "nat \<Rightarrow> string" where
  "nat_str n = (if n < 10 then [char_of (48 + n)] else nat_str (n div 10) @ [char_of (48 + n mod 10)])"

definition int_str :: "int \<Rightarrow> string" where
  "int_str n = (if n < 0 then ''-'' @ nat_str (nat (- n)) else nat_str (nat n))"

declare nat_str.simps [simp del]

section \<open>Market data models\<close>

record symbol_meta =
  sm_symbol :: string
  sm_base_coin :: string
  sm_quote_coin :: string
  sm_status :: string
  sm_tick_size :: dec
  sm_qty_step :: dec
  sm_min_order_qty :: dec
  sm_max_order_qty :: dec
  sm_min_notional :: dec
  sm_max_leverage :: dec
  sm_launch_time_ms :: "int option"

record market_ticker =
  tk_symbol :: string
  tk_last_price :: dec
  tk_bid_price :: dec
  tk_ask_price :: dec
  tk_turnover_24h :: dec
  tk_volume_24h :: dec
  tk_funding_rate :: "dec option"
  tk_next_funding_time_ms :: "int option"
  tk_ts_ms :: int

record candle =
  cd_symbol :: string
  cd_interval :: string
  cd_open_time_ms :: int
  cd_open :: dec
  cd_high :: dec
  cd_low :: dec
  cd_close :: dec
  cd_volume :: dec
  cd_turnover :: dec
  cd_confirmed :: bool

record order_book_level =
  lv_price :: dec
  lv_size :: dec

record order_book =
  ob_symbol :: string
  ob_bids :: "order_book_level list"
  ob_asks :: "order_book_level list"
  ob_ts_ms :: int

definition best_bid :: "order_book \<Rightarrow> dec option" where
  "best_bid ob = (case ob_bids ob of [] \<Rightarrow> None | l # _ \<Rightarrow> Some (lv_price l))"

definition best_ask :: "order_book \<Rightarrow> dec option" where
  "best_ask ob = (case ob_asks ob of [] \<Rightarrow> None | l # _ \<Rightarrow> Some (lv_price l))"

record wallet_balance =
  wb_coin :: string
  wb_equity :: dec
  wb_available_balance :: dec
  wb_wallet_balance :: dec
  wb_unrealized_pnl :: dec

section \<open>Trading models\<close>

record indicator_snapshot =
  is_symbol :: string
  is_timeframe :: string
  is_close :: dec
  is_ema20 :: "dec option"
  is_ema50 :: "dec option"
  is_ema20_slope_atr :: "dec option"
  is_rsi14 :: "dec option"
  is_atr14 :: "dec option"
  is_atr_percent :: "dec option"
  is_volume_ratio :: "dec option"
  is_swing_high :: "dec option"
  is_swing_low :: "dec option"
  is_valid :: bool
  is_ts_ms :: int

record signal =
  sg_symbol :: string
  sg_direction :: signal_direction
  sg_strategy :: string
  sg_score :: dec
  sg_reason :: string

record order =
  or_symbol :: string
  or_side :: side
  or_type :: order_type
  or_qty :: dec
  or_price :: "dec option"
  or_client_order_id :: "string option"
  or_order_id :: "string option"
  or_status :: order_status
  or_filled_qty :: dec
  or_avg_fill_price :: "dec option"
  or_reduce_only :: bool
  or_entry_mode :: "entry_mode option"
  or_source :: position_source

record fill =
  fi_symbol :: string
  fi_order_id :: string
  fi_side :: side
  fi_price :: dec
  fi_qty :: dec
  fi_fee :: dec
  fi_is_maker :: bool

record position =
  p_symbol :: string
  p_side :: position_side
  p_status :: position_status
  p_source :: position_source
  p_qty :: dec
  p_avg_entry_price :: dec
  p_manual_added_qty :: dec
  p_leverage :: dec
  p_stop_loss_price :: "dec option"
  p_take_profit_price :: "dec option"
  p_initial_risk_per_unit :: "dec option"
  p_initial_qty :: "dec option"
  p_liq_price :: "dec option"
  p_entry_mode :: "entry_mode option"
  p_signal_score :: dec
  p_strategy_id :: string
  p_strategy_reason :: string
  p_realized_pnl :: dec
  p_unrealized_pnl :: dec
  p_fees_paid :: dec
  p_highest_price :: "dec option"
  p_lowest_price :: "dec option"
  p_partial_tp_done :: bool
  p_trailing_active :: bool
  p_runner_mode_active :: bool
  p_runner_mode_started_at :: "int option"
  p_runner_trend_strength :: "trend_strength option"
  p_runner_trailing_atr_multiplier :: "dec option"
  p_last_runner_trailing_update_at :: "int option"
  p_last_runner_trailing_stop :: "dec option"
  p_runner_exchange_sl_update_failures :: int
  p_bars_since_entry :: int
  p_last_evaluated_1m_open_time_ms :: "int option"
  p_breakout_level :: "dec option"
  p_scout_state :: scout_state
  p_scout_entry_box_high :: "dec option"
  p_scout_entry_box_low :: "dec option"
  p_scout_entry_box_mid :: "dec option"
  p_scout_entry_level :: "dec option"
  p_scout_entry_bar_index :: "int option"
  p_scout_warning_started_at_bar :: "int option"
  p_scout_warning_reason :: "string option"
  p_scout_defensive_reduction_count :: int
  p_scout_confirmed_at :: "int option"
  p_opened_at :: int
  p_closed_at :: "int option"
  p_exit_reason :: "exit_reason option"

definition is_long :: "position \<Rightarrow> bool" where
  "is_long p \<longleftrightarrow> p_side p = LONG"

definition is_active :: "position \<Rightarrow> bool" where
  "is_active p \<longleftrightarrow> p_status p = ACTIVE"

definition is_bot_managed :: "position \<Rightarrow> bool" where
  "is_bot_managed p \<longleftrightarrow> p_source p = BOT"

text \<open>\<open>Position(symbol=..., side=..., qty=..., avg_entry_price=...)\<close> at time \<open>t\<close>: every other
  field takes its default.\<close>

definition new_position :: "string \<Rightarrow> position_side \<Rightarrow> dec \<Rightarrow> dec \<Rightarrow> int \<Rightarrow> position" where
  "new_position s sd q avg t =
    \<lparr> p_symbol = s, p_side = sd, p_status = PENDING, p_source = BOT, p_qty = q,
      p_avg_entry_price = avg, p_manual_added_qty = 0, p_leverage = 1,
      p_stop_loss_price = None, p_take_profit_price = None, p_initial_risk_per_unit = None,
      p_initial_qty = None, p_liq_price = None, p_entry_mode = None, p_signal_score = 0,
      p_strategy_id = [], p_strategy_reason = [], p_realized_pnl = 0, p_unrealized_pnl = 0,
      p_fees_paid = 0, p_highest_price = None, p_lowest_price = None,
      p_partial_tp_done = False, p_trailing_active = False, p_runner_mode_active = False,
      p_runner_mode_started_at = None, p_runner_trend_strength = None,
      p_runner_trailing_atr_multiplier = None, p_last_runner_trailing_update_at = None,
      p_last_runner_trailing_stop = None, p_runner_exchange_sl_update_failures = 0,
      p_bars_since_entry = 0, p_last_evaluated_1m_open_time_ms = None,
      p_breakout_level = None, p_scout_state = SCOUT_NONE, p_scout_entry_box_high = None,
      p_scout_entry_box_low = None, p_scout_entry_box_mid = None, p_scout_entry_level = None,
      p_scout_entry_bar_index = None, p_scout_warning_started_at_bar = None,
      p_scout_warning_reason = None, p_scout_defensive_reduction_count = 0,
      p_scout_confirmed_at = None, p_opened_at = t, p_closed_at = None, p_exit_reason = None \<rparr>"

section \<open>Exchange models\<close>

record exchange_position =
  xp_symbol :: string
  xp_side :: "position_side option"
  xp_size :: dec
  xp_avg_price :: dec
  xp_leverage :: dec
  xp_liq_price :: "dec option"
  xp_unrealized_pnl :: dec
  xp_take_profit :: "dec option"
  xp_stop_loss :: "dec option"
  xp_position_idx :: int

record exchange_order =
  xo_symbol :: string
  xo_order_id :: string
  xo_client_order_id :: "string option"
  xo_side :: side
  xo_order_type :: string
  xo_price :: "dec option"
  xo_qty :: dec
  xo_cum_exec_qty :: dec
  xo_avg_price :: "dec option"
  xo_status :: order_status
  xo_reduce_only :: bool
  xo_trigger_price :: "dec option"
  xo_stop_order_type :: "string option"
  xo_order_filter :: "string option"
  xo_created_ms :: int

record order_request =
  rq_symbol :: string
  rq_side :: side
  rq_type :: order_type
  rq_qty :: dec
  rq_price :: "dec option"
  rq_time_in_force :: "time_in_force option"
  rq_reduce_only :: bool
  rq_client_order_id :: "string option"
  rq_take_profit :: "dec option"
  rq_stop_loss :: "dec option"
  rq_tp_trigger_by :: trigger_by
  rq_sl_trigger_by :: trigger_by
  rq_tpsl_mode :: string

text \<open>\<open>OrderRequest(symbol=..., side=..., order_type=..., qty=...)\<close>, every other field at its default.\<close>

definition new_order_request :: "string \<Rightarrow> side \<Rightarrow> order_type \<Rightarrow> dec \<Rightarrow> order_request" where
  "new_order_request s sd t q =
    \<lparr> rq_symbol = s, rq_side = sd, rq_type = t, rq_qty = q, rq_price = None,
      rq_time_in_force = None, rq_reduce_only = False, rq_client_order_id = None,
      rq_take_profit = None, rq_stop_loss = None, rq_tp_trigger_by = LAST_PRICE,
      rq_sl_trigger_by = LAST_PRICE, rq_tpsl_mode = ''Full'' \<rparr>"

record exchange_order_result =
  xr_symbol :: string
  xr_order_id :: string
  xr_client_order_id :: "string option"
  xr_status :: order_status
  xr_filled_qty :: dec
  xr_avg_fill_price :: "dec option"

record trading_stop_request =
  tr_symbol :: string
  tr_take_profit :: "dec option"
  tr_stop_loss :: "dec option"
  tr_tp_trigger_by :: trigger_by
  tr_sl_trigger_by :: trigger_by
  tr_tpsl_mode :: string
  tr_position_idx :: int

record position_tpsl_state =
  ts_symbol :: string
  ts_take_profit :: "dec option"
  ts_stop_loss :: "dec option"

definition has_tp :: "position_tpsl_state \<Rightarrow> bool" where
  "has_tp s = (case ts_take_profit s of None \<Rightarrow> False | Some x \<Rightarrow> 0 < x)"

definition has_sl :: "position_tpsl_state \<Rightarrow> bool" where
  "has_sl s = (case ts_stop_loss s of None \<Rightarrow> False | Some x \<Rightarrow> 0 < x)"

definition is_protected :: "position_tpsl_state \<Rightarrow> bool" where
  "is_protected s \<longleftrightarrow> has_tp s \<and> has_sl s"

end
