(* ===== verification/Config.thy ===== *)
theory Config
  imports Domain
begin

text \<open>
  The configuration sections of \<^verbatim>\<open>packages/config/settings.py\<close>, one record per section with
  the source's field names (after a section prefix) and its default values. A \<open>float\<close> field
  is the decimal that \<open>Decimal(str(x))\<close> makes of it, which is how the program reads it. The
  sections for the exchange connection and for the HTTP API are left out: only constructors of
  code outside the model read them.
\<close>

record bot_section =
  cb_mode :: bot_mode
  cb_account_currency :: string
  cb_category :: string
  cb_quote_coin :: string
  cb_start_state :: bot_state
  cb_max_active_positions :: int
  cb_max_symbols_to_watch :: int
  cb_heartbeat_interval_sec :: int

definition default_bot_section :: bot_section where
  "default_bot_section =
    \<lparr> cb_mode = PAPER,
      cb_account_currency = ''USDT'',
      cb_category = ''linear'',
      cb_quote_coin = ''USDT'',
      cb_start_state = STANDBY,
      cb_max_active_positions = 5,
      cb_max_symbols_to_watch = 20,
      cb_heartbeat_interval_sec = 5 \<rparr>"

record paper_section =
  cp_initial_balance_usdt :: dec
  cp_all_orders_as_market :: bool
  cp_market_slippage_percent :: dec
  cp_taker_fee_percent :: dec
  cp_funding_fee_enabled :: bool

definition default_paper_section :: paper_section where
  "default_paper_section =
    \<lparr> cp_initial_balance_usdt = 10000,
      cp_all_orders_as_market = True,
      cp_market_slippage_percent = 3 / 100,
      cp_taker_fee_percent = 11 / 200,
      cp_funding_fee_enabled = False \<rparr>"

record universe_section =
  cu_include_quote_coin :: string
  cu_min_24h_turnover_usdt :: dec
  cu_exclude_new_listing_days :: int
  cu_exclude_symbols :: "string list"
  cu_include_symbols :: "string list"

definition default_universe_section :: universe_section where
  "default_universe_section =
    \<lparr> cu_include_quote_coin = ''USDT'',
      cu_min_24h_turnover_usdt = 50000000,
      cu_exclude_new_listing_days = 14,
      cu_exclude_symbols = [],
      cu_include_symbols = [] \<rparr>"

record scanner_section =
  cs_refresh_interval_sec :: int
  cs_max_candidates :: int
  cs_atr_prefilter_multiple :: int
  cs_atr_refresh_budget :: int
  cs_atr_cache_ttl_sec :: int
  cs_refresh_5m_snapshots_in_scanner :: bool
  cs_kline_1m_refresh_sec :: int
  cs_kline_5m_refresh_sec :: int
  cs_kline_15m_refresh_sec :: int
  cs_min_atr_percent :: dec
  cs_max_atr_percent :: dec
  cs_max_spread_percent :: dec
  cs_min_orderbook_depth_usdt_0_1_percent :: dec
  cs_min_orderbook_depth_usdt_0_3_percent :: dec

definition default_scanner_section :: scanner_section where
  "default_scanner_section =
    \<lparr> cs_refresh_interval_sec = 300,
      cs_max_candidates = 20,
      cs_atr_prefilter_multiple = 3,
      cs_atr_refresh_budget = 30,
      cs_atr_cache_ttl_sec = 900,
      cs_refresh_5m_snapshots_in_scanner = False,
      cs_kline_1m_refresh_sec = 60,
      cs_kline_5m_refresh_sec = 120,
      cs_kline_15m_refresh_sec = 300,
      cs_min_atr_percent = 1 / 2,
      cs_max_atr_percent = 5,
      cs_max_spread_percent = 2 / 25,
      cs_min_orderbook_depth_usdt_0_1_percent = 100000,
      cs_min_orderbook_depth_usdt_0_3_percent = 300000 \<rparr>"

record trend_quality_section =
  tq_long_rsi_min_5m :: dec
  tq_long_rsi_max_5m :: dec
  tq_short_rsi_min_5m :: dec
  tq_short_rsi_max_5m :: dec
  tq_min_ema_gap_percent_15m :: dec
  tq_min_ema20_slope_atr_15m :: dec
  tq_min_close_distance_from_ema20_atr_15m :: dec
  tq_score_gap_high_percent_15m :: dec
  tq_score_slope_high_atr_15m :: dec
  tq_score_volume_high_ratio_5m :: dec
  tq_score_low_atr_percent_5m :: dec

definition default_trend_quality_section :: trend_quality_section where
  "default_trend_quality_section =
    \<lparr> tq_long_rsi_min_5m = 50,
      tq_long_rsi_max_5m = 68,
      tq_short_rsi_min_5m = 32,
      tq_short_rsi_max_5m = 50,
      tq_min_ema_gap_percent_15m = 1 / 10,
      tq_min_ema20_slope_atr_15m = 3 / 100,
      tq_min_close_distance_from_ema20_atr_15m = 1 / 20,
      tq_score_gap_high_percent_15m = 3 / 10,
      tq_score_slope_high_atr_15m = 1 / 10,
      tq_score_volume_high_ratio_5m = 6 / 5,
      tq_score_low_atr_percent_5m = 3 \<rparr>"

record volume_section =
  cv_min_setup_volume_ratio :: dec
  cv_min_breakout_volume_ratio :: dec
  cv_max_exhaustion_volume_ratio :: dec

definition default_volume_section :: volume_section where
  "default_volume_section =
    \<lparr> cv_min_setup_volume_ratio = 3 / 5,
      cv_min_breakout_volume_ratio = 13 / 10,
      cv_max_exhaustion_volume_ratio = 4 \<rparr>"

record candle_quality_section =
  cq_max_rejection_wick_ratio :: dec
  cq_max_opposite_wick_ratio_for_breakout :: dec
  cq_min_body_ratio_for_breakout :: dec
  cq_long_min_close_position_in_range :: dec
  cq_short_max_close_position_in_range :: dec

definition default_candle_quality_section :: candle_quality_section where
  "default_candle_quality_section =
    \<lparr> cq_max_rejection_wick_ratio = 9 / 20,
      cq_max_opposite_wick_ratio_for_breakout = 19 / 50,
      cq_min_body_ratio_for_breakout = 2 / 5,
      cq_long_min_close_position_in_range = 7 / 10,
      cq_short_max_close_position_in_range = 3 / 10 \<rparr>"

record entry_enabled_modes =
  em_pre_breakout_scout :: bool
  em_breakout_confirm :: bool
  em_retest_confirm :: bool

definition default_entry_enabled_modes :: entry_enabled_modes where
  "default_entry_enabled_modes =
    \<lparr> em_pre_breakout_scout = True,
      em_breakout_confirm = True,
      em_retest_confirm = True \<rparr>"

record pre_breakout_entry =
  pb_min_score :: int
  pb_position_fraction :: dec
  pb_stop_atr :: dec
  pb_min_stop_distance_percent :: dec
  pb_min_stop_distance_atr :: dec
  pb_min_volume_ratio :: dec
  pb_max_distance_to_box_atr :: dec
  pb_require_compression :: bool
  pb_compression_bonus_score :: int
  pb_compression_min_score :: "int option"
  pb_no_compression_min_score :: "int option"
  pb_compression_position_fraction :: "dec option"
  pb_no_compression_position_fraction :: "dec option"
  pb_long_rsi_min :: dec
  pb_long_rsi_max :: dec
  pb_short_rsi_min :: dec
  pb_short_rsi_max :: dec
  pb_score_gap_high_percent_15m :: dec
  pb_score_slope_high_atr_15m :: dec
  pb_score_long_rsi_center_min :: dec
  pb_score_long_rsi_center_max :: dec
  pb_score_short_rsi_center_min :: dec
  pb_score_short_rsi_center_max :: dec
  pb_score_near_box_atr :: dec
  pb_score_mid_box_atr :: dec
  pb_score_compression_ratio :: dec
  pb_score_high_volume_ratio :: dec
  pb_no_compression_max_body_ratio :: dec
  pb_no_compression_long_max_close_position_in_range :: dec
  pb_no_compression_short_min_close_position_in_range :: dec
  pb_no_compression_chase_min_volume_ratio :: dec

definition default_pre_breakout_entry :: pre_breakout_entry where
  "default_pre_breakout_entry =
    \<lparr> pb_min_score = 6,
      pb_position_fraction = 2 / 5,
      pb_stop_atr = 7 / 10,
      pb_min_stop_distance_percent = 9 / 20,
      pb_min_stop_distance_atr = 9 / 5,
      pb_min_volume_ratio = 4 / 5,
      pb_max_distance_to_box_atr = 13 / 20,
      pb_require_compression = False,
      pb_compression_bonus_score = 2,
      pb_compression_min_score = Some (5),
      pb_no_compression_min_score = Some (7),
      pb_compression_position_fraction = Some (1 / 2),
      pb_no_compression_position_fraction = Some (3 / 20),
      pb_long_rsi_min = 44,
      pb_long_rsi_max = 68,
      pb_short_rsi_min = 32,
      pb_short_rsi_max = 58,
      pb_score_gap_high_percent_15m = 3 / 10,
      pb_score_slope_high_atr_15m = 1 / 10,
      pb_score_long_rsi_center_min = 50,
      pb_score_long_rsi_center_max = 60,
      pb_score_short_rsi_center_min = 40,
      pb_score_short_rsi_center_max = 50,
      pb_score_near_box_atr = 1 / 5,
      pb_score_mid_box_atr = 7 / 20,
      pb_score_compression_ratio = 4 / 5,
      pb_score_high_volume_ratio = 2,
      pb_no_compression_max_body_ratio = 17 / 20,
      pb_no_compression_long_max_close_position_in_range = 19 / 20,
      pb_no_compression_short_min_close_position_in_range = 1 / 20,
      pb_no_compression_chase_min_volume_ratio = 3 / 2 \<rparr>"

record breakout_confirm_entry =
  bc_position_fraction :: dec
  bc_volume_min_ratio :: dec
  bc_require_close_beyond_boundary :: bool
  bc_close_beyond_boundary_atr :: dec
  bc_require_next_candle_hold :: bool
  bc_stop_atr :: dec

definition default_breakout_confirm_entry :: breakout_confirm_entry where
  "default_breakout_confirm_entry =
    \<lparr> bc_position_fraction = 3 / 5,
      bc_volume_min_ratio = 13 / 10,
      bc_require_close_beyond_boundary = True,
      bc_close_beyond_boundary_atr = 3 / 100,
      bc_require_next_candle_hold = False,
      bc_stop_atr = 1 \<rparr>"

record retest_confirm_entry =
  rc_position_fraction :: dec
  rc_retest_tolerance_atr :: dec
  rc_max_wait_candles :: int
  rc_stop_atr :: dec

definition default_retest_confirm_entry :: retest_confirm_entry where
  "default_retest_confirm_entry =
    \<lparr> rc_position_fraction = 7 / 10,
      rc_retest_tolerance_atr = 7 / 20,
      rc_max_wait_candles = 10,
      rc_stop_atr = 13 / 10 \<rparr>"

record anti_chase_entry =
  ac_enabled :: bool
  ac_max_rsi_long :: dec
  ac_min_rsi_short :: dec
  ac_max_distance_from_ema20_atr :: dec
  ac_max_recent_3_candle_move_atr :: dec
  ac_max_single_candle_move_atr :: dec
  ac_exhaustion_volume_ratio :: dec

definition default_anti_chase_entry :: anti_chase_entry where
  "default_anti_chase_entry =
    \<lparr> ac_enabled = True,
      ac_max_rsi_long = 70,
      ac_min_rsi_short = 30,
      ac_max_distance_from_ema20_atr = 3 / 2,
      ac_max_recent_3_candle_move_atr = 2,
      ac_max_single_candle_move_atr = 6 / 5,
      ac_exhaustion_volume_ratio = 4 \<rparr>"

record entry_section =
  en_enabled_modes :: entry_enabled_modes
  en_pre_breakout :: pre_breakout_entry
  en_breakout_confirm :: breakout_confirm_entry
  en_retest_confirm :: retest_confirm_entry
  en_anti_chase :: anti_chase_entry

definition default_entry_section :: entry_section where
  "default_entry_section =
    \<lparr> en_enabled_modes = default_entry_enabled_modes,
      en_pre_breakout = default_pre_breakout_entry,
      en_breakout_confirm = default_breakout_confirm_entry,
      en_retest_confirm = default_retest_confirm_entry,
      en_anti_chase = default_anti_chase_entry \<rparr>"

record retest_atr_percent_tier =
  tr_max_atr_percent :: dec
  tr_stop_atr :: dec

record volatility_adaptive_stop_section =
  va_enabled :: bool
  va_scout_atr_percent_tiers :: "retest_atr_percent_tier list"
  va_retest_atr_percent_tiers :: "retest_atr_percent_tier list"

definition default_volatility_adaptive_stop_section :: volatility_adaptive_stop_section where
  "default_volatility_adaptive_stop_section =
    \<lparr> va_enabled = True,
      va_scout_atr_percent_tiers = [\<lparr>tr_max_atr_percent = 1 / 4, tr_stop_atr = 13 / 10\<rparr>, \<lparr>tr_max_atr_percent = 3 / 5, tr_stop_atr = 1\<rparr>, \<lparr>tr_max_atr_percent = 999, tr_stop_atr = 4 / 5\<rparr>],
      va_retest_atr_percent_tiers = [\<lparr>tr_max_atr_percent = 1 / 4, tr_stop_atr = 1\<rparr>, \<lparr>tr_max_atr_percent = 3 / 5, tr_stop_atr = 13 / 10\<rparr>, \<lparr>tr_max_atr_percent = 999, tr_stop_atr = 3 / 2\<rparr>] \<rparr>"

record structure_stop_section =
  st_enabled :: bool
  st_apply_to_entry_modes :: "string list"
  st_buffer_atr :: dec
  st_max_stop_distance_atr :: dec
  st_min_stop_distance_atr :: dec
  st_use_structure_stop_for_scout :: bool
  st_use_structure_stop_for_retest :: bool

definition default_structure_stop_section :: structure_stop_section where
  "default_structure_stop_section =
    \<lparr> st_enabled = True,
      st_apply_to_entry_modes = [''PRE_BREAKOUT_SCOUT'', ''RETEST_CONFIRM''],
      st_buffer_atr = 1 / 10,
      st_max_stop_distance_atr = 9 / 5,
      st_min_stop_distance_atr = 1 / 2,
      st_use_structure_stop_for_scout = True,
      st_use_structure_stop_for_retest = True \<rparr>"

record orders_section =
  co_live_new_entry_market_order_allowed :: bool
  co_scout_order_type :: string
  co_breakout_order_type :: string
  co_retest_order_type :: string
  co_max_slippage_percent :: dec
  co_limit_order_ttl_sec :: int
  co_scout_limit_order_ttl_sec :: int
  co_retest_limit_order_ttl_sec :: int
  co_limit_reorder_attempts :: int
  co_aggressive_limit_time_in_force :: string
  co_use_reduce_only_for_exits :: bool
  co_pre_order_depth_multiple :: dec
  co_pre_order_depth_band_percent :: dec
  co_partial_fill_min_ratio_to_keep :: dec
  co_partial_fill_below_min_action :: string

definition default_orders_section :: orders_section where
  "default_orders_section =
    \<lparr> co_live_new_entry_market_order_allowed = False,
      co_scout_order_type = ''LIMIT'',
      co_breakout_order_type = ''AGGRESSIVE_LIMIT'',
      co_retest_order_type = ''LIMIT'',
      co_max_slippage_percent = 2 / 25,
      co_limit_order_ttl_sec = 10,
      co_scout_limit_order_ttl_sec = 45,
      co_retest_limit_order_ttl_sec = 20,
      co_limit_reorder_attempts = 1,
      co_aggressive_limit_time_in_force = ''IOC'',
      co_use_reduce_only_for_exits = True,
      co_pre_order_depth_multiple = 3,
      co_pre_order_depth_band_percent = 1 / 10,
      co_partial_fill_min_ratio_to_keep = 7 / 10,
      co_partial_fill_below_min_action = ''CLOSE_FILLED_QTY'' \<rparr>"

record target_notional_percent_section =
  tn_enabled :: bool
  tn_scout_no_compression :: dec
  tn_scout_compression :: dec
  tn_breakout_confirm :: dec
  tn_retest_confirm :: dec
  tn_high_quality :: dec
  tn_high_quality_min_score :: dec

definition default_target_notional_percent_section :: target_notional_percent_section where
  "default_target_notional_percent_section =
    \<lparr> tn_enabled = False,
      tn_scout_no_compression = 30,
      tn_scout_compression = 50,
      tn_breakout_confirm = 70,
      tn_retest_confirm = 80,
      tn_high_quality = 120,
      tn_high_quality_min_score = 9 \<rparr>"

record risk_section =
  rk_account_risk_per_trade_percent :: dec
  rk_daily_max_loss_percent :: dec
  rk_intraday_drawdown_percent :: dec
  rk_max_symbol_risk_percent :: dec
  rk_max_total_open_risk_percent :: dec
  rk_max_same_direction_positions :: int
  rk_min_leverage :: int
  rk_scout_max_leverage :: int
  rk_breakout_max_leverage :: int
  rk_retest_max_leverage :: int
  rk_high_quality_max_leverage :: int
  rk_high_atr_max_leverage :: int
  rk_high_atr_derisk_threshold_percent :: dec
  rk_consecutive_loss_derisk_count :: int
  rk_consecutive_loss_max_leverage :: int
  rk_daily_loss_derisk_percent :: dec
  rk_daily_loss_max_leverage :: int
  rk_min_stop_distance_atr :: dec
  rk_min_stop_distance_percent :: dec
  rk_breakout_min_stop_distance_percent :: dec
  rk_retest_min_stop_distance_percent :: dec
  rk_max_stop_distance_atr :: dec
  rk_scout_max_stop_distance_atr :: dec
  rk_retest_max_stop_distance_atr :: dec
  rk_thin_stop_distance_percent :: dec
  rk_thin_stop_max_leverage :: int
  rk_isolated_margin :: bool
  rk_target_notional_percent :: target_notional_percent_section

definition default_risk_section :: risk_section where
  "default_risk_section =
    \<lparr> rk_account_risk_per_trade_percent = 9 / 5,
      rk_daily_max_loss_percent = 5,
      rk_intraday_drawdown_percent = 3,
      rk_max_symbol_risk_percent = 2,
      rk_max_total_open_risk_percent = 7,
      rk_max_same_direction_positions = 4,
      rk_min_leverage = 1,
      rk_scout_max_leverage = 6,
      rk_breakout_max_leverage = 9,
      rk_retest_max_leverage = 10,
      rk_high_quality_max_leverage = 12,
      rk_high_atr_max_leverage = 5,
      rk_high_atr_derisk_threshold_percent = 7 / 2,
      rk_consecutive_loss_derisk_count = 2,
      rk_consecutive_loss_max_leverage = 3,
      rk_daily_loss_derisk_percent = 3,
      rk_daily_loss_max_leverage = 2,
      rk_min_stop_distance_atr = 1 / 2,
      rk_min_stop_distance_percent = 3 / 10,
      rk_breakout_min_stop_distance_percent = 3 / 10,
      rk_retest_min_stop_distance_percent = 2 / 5,
      rk_max_stop_distance_atr = 9 / 5,
      rk_scout_max_stop_distance_atr = 7 / 2,
      rk_retest_max_stop_distance_atr = 5 / 2,
      rk_thin_stop_distance_percent = 7 / 20,
      rk_thin_stop_max_leverage = 8,
      rk_isolated_margin = True,
      rk_target_notional_percent = default_target_notional_percent_section \<rparr>"

record liquidation_guard_section =
  lg_min_liquidation_distance_percent :: dec
  lg_min_liquidation_distance_atr :: dec
  lg_block_if_liq_price_inside_stop :: bool

definition default_liquidation_guard_section :: liquidation_guard_section where
  "default_liquidation_guard_section =
    \<lparr> lg_min_liquidation_distance_percent = 2,
      lg_min_liquidation_distance_atr = 2,
      lg_block_if_liq_price_inside_stop = True \<rparr>"

record tpsl_section =
  tp_initial_take_profit_r :: dec
  tp_use_exchange_sl :: bool
  tp_use_exchange_tp :: bool
  tp_use_exchange_tpsl :: bool
  tp_tp_trigger_by :: string
  tp_sl_trigger_by :: string
  tp_tpsl_mode :: string

definition default_tpsl_section :: tpsl_section where
  "default_tpsl_section =
    \<lparr> tp_initial_take_profit_r = 2,
      tp_use_exchange_sl = True,
      tp_use_exchange_tp = False,
      tp_use_exchange_tpsl = True,
      tp_tp_trigger_by = ''LastPrice'',
      tp_sl_trigger_by = ''LastPrice'',
      tp_tpsl_mode = ''Full'' \<rparr>"

record position_protection_section =
  pp_stop_mode :: string
  pp_require_tpsl_after_entry :: bool
  pp_max_seconds_position_without_tpsl :: int
  pp_emergency_close_if_tpsl_missing :: bool
  pp_verify_tpsl_after_entry :: bool
  pp_verify_tpsl_retry_count :: int
  pp_verify_tpsl_retry_interval_sec :: int
  pp_tpsl_verify_tolerance_percent :: dec

definition default_position_protection_section :: position_protection_section where
  "default_position_protection_section =
    \<lparr> pp_stop_mode = ''EXCHANGE_TPSL'',
      pp_require_tpsl_after_entry = True,
      pp_max_seconds_position_without_tpsl = 3,
      pp_emergency_close_if_tpsl_missing = True,
      pp_verify_tpsl_after_entry = True,
      pp_verify_tpsl_retry_count = 3,
      pp_verify_tpsl_retry_interval_sec = 1,
      pp_tpsl_verify_tolerance_percent = 1 / 50 \<rparr>"

record scout_management_section =
  sc_enabled :: bool
  sc_grace_bars :: int
  sc_confirmation_boundary_atr :: dec
  sc_confirmation_volume_ratio :: dec
  sc_min_hold_bars_before_defensive_reduce :: int
  sc_warning_confirm_bars :: int
  sc_max_defensive_reductions :: int
  sc_defensive_reduce_fraction :: dec
  sc_invalidate_on_box_mid_reclaim :: bool
  sc_invalidate_on_ema20_reclaim_bars :: int
  sc_long_invalid_rsi_threshold :: dec
  sc_short_invalid_rsi_threshold :: dec
  sc_strong_opposite_candle_body_ratio :: dec
  sc_strong_opposite_candle_volume_ratio :: dec
  sc_catastrophic_opposite_candle_body_ratio :: dec
  sc_catastrophic_opposite_candle_volume_ratio :: dec
  sc_catastrophic_opposite_move_atr :: dec
  sc_convert_to_active_on_confirmation :: bool

definition default_scout_management_section :: scout_management_section where
  "default_scout_management_section =
    \<lparr> sc_enabled = True,
      sc_grace_bars = 6,
      sc_confirmation_boundary_atr = 3 / 100,
      sc_confirmation_volume_ratio = 11 / 10,
      sc_min_hold_bars_before_defensive_reduce = 3,
      sc_warning_confirm_bars = 2,
      sc_max_defensive_reductions = 1,
      sc_defensive_reduce_fraction = 1 / 2,
      sc_invalidate_on_box_mid_reclaim = True,
      sc_invalidate_on_ema20_reclaim_bars = 2,
      sc_long_invalid_rsi_threshold = 45,
      sc_short_invalid_rsi_threshold = 55,
      sc_strong_opposite_candle_body_ratio = 11 / 20,
      sc_strong_opposite_candle_volume_ratio = 3 / 2,
      sc_catastrophic_opposite_candle_body_ratio = 3 / 4,
      sc_catastrophic_opposite_candle_volume_ratio = 3,
      sc_catastrophic_opposite_move_atr = 6 / 5,
      sc_convert_to_active_on_confirmation = True \<rparr>"

record runner_mode_section =
  rn_enabled :: bool
  rn_activate_after_partial_tp :: bool
  rn_activate_min_r :: dec
  rn_weak_trend_trailing_atr :: dec
  rn_strong_trend_trailing_atr :: dec
  rn_very_strong_trend_trailing_atr :: dec
  rn_strong_trend_min_r :: dec
  rn_very_strong_trend_min_r :: dec
  rn_require_5m_trend_hold :: bool
  rn_require_1m_ema20_hold :: bool
  rn_long_min_1m_rsi :: dec
  rn_short_max_1m_rsi :: dec
  rn_tighten_on_1m_ema20_break_bars :: int
  rn_tighten_on_strong_opposite_candle :: bool
  rn_tighten_on_strong_opposite_candle_bars :: int
  rn_min_trailing_update_interval_sec :: int
  rn_min_trailing_improvement_atr :: dec
  rn_log_post_exit_mfe :: bool
  rn_post_exit_mfe_windows_min :: "int list"

definition default_runner_mode_section :: runner_mode_section where
  "default_runner_mode_section =
    \<lparr> rn_enabled = True,
      rn_activate_after_partial_tp = True,
      rn_activate_min_r = 2,
      rn_weak_trend_trailing_atr = 2,
      rn_strong_trend_trailing_atr = 14 / 5,
      rn_very_strong_trend_trailing_atr = 16 / 5,
      rn_strong_trend_min_r = 2,
      rn_very_strong_trend_min_r = 5,
      rn_require_5m_trend_hold = True,
      rn_require_1m_ema20_hold = True,
      rn_long_min_1m_rsi = 50,
      rn_short_max_1m_rsi = 50,
      rn_tighten_on_1m_ema20_break_bars = 2,
      rn_tighten_on_strong_opposite_candle = True,
      rn_tighten_on_strong_opposite_candle_bars = 2,
      rn_min_trailing_update_interval_sec = 5,
      rn_min_trailing_improvement_atr = 1 / 5,
      rn_log_post_exit_mfe = True,
      rn_post_exit_mfe_windows_min = [5, 15, 30] \<rparr>"

record position_section =
  ps_partial_take_profit_r :: dec
  ps_partial_take_profit_fraction :: dec
  ps_trailing_start_r :: dec
  ps_trailing_atr_multiplier :: dec
  ps_trailing_extended_after_r :: dec
  ps_trailing_extended_atr_multiplier :: dec
  ps_max_holding_minutes :: int
  ps_sync_exchange_sl_with_trailing :: bool
  ps_min_exchange_sl_update_interval_sec :: int
  ps_runner_mode :: runner_mode_section
  ps_scout_management :: scout_management_section

definition default_position_section :: position_section where
  "default_position_section =
    \<lparr> ps_partial_take_profit_r = 2,
      ps_partial_take_profit_fraction = 1 / 2,
      ps_trailing_start_r = 2,
      ps_trailing_atr_multiplier = 12 / 5,
      ps_trailing_extended_after_r = 5,
      ps_trailing_extended_atr_multiplier = 3,
      ps_max_holding_minutes = 180,
      ps_sync_exchange_sl_with_trailing = True,
      ps_min_exchange_sl_update_interval_sec = 5,
      ps_runner_mode = default_runner_mode_section,
      ps_scout_management = default_scout_management_section \<rparr>"

record stagnation_scout =
  sgs_max_bars_without_breakout :: int
  sgs_min_progress_r :: dec

definition default_stagnation_scout :: stagnation_scout where
  "default_stagnation_scout =
    \<lparr> sgs_max_bars_without_breakout = 10,
      sgs_min_progress_r = 2 / 5 \<rparr>"

record stagnation_breakout =
  sgb_reduce_after_bars :: int
  sgb_reduce_fraction :: dec
  sgb_max_bars_without_1r :: int

definition default_stagnation_breakout :: stagnation_breakout where
  "default_stagnation_breakout =
    \<lparr> sgb_reduce_after_bars = 7,
      sgb_reduce_fraction = 1 / 2,
      sgb_max_bars_without_1r = 14 \<rparr>"

record stagnation_retest =
  sgr_tighten_after_bars :: int
  sgr_max_bars_without_1r :: int
  sgr_scenario_invalid_grace_bars :: int

definition default_stagnation_retest :: stagnation_retest where
  "default_stagnation_retest =
    \<lparr> sgr_tighten_after_bars = 8,
      sgr_max_bars_without_1r = 16,
      sgr_scenario_invalid_grace_bars = 3 \<rparr>"

record stagnation_exit_section =
  se_enabled :: bool
  se_pre_breakout_scout :: stagnation_scout
  se_breakout_confirm :: stagnation_breakout
  se_retest_confirm :: stagnation_retest

definition default_stagnation_exit_section :: stagnation_exit_section where
  "default_stagnation_exit_section =
    \<lparr> se_enabled = True,
      se_pre_breakout_scout = default_stagnation_scout,
      se_breakout_confirm = default_stagnation_breakout,
      se_retest_confirm = default_stagnation_retest \<rparr>"

record cooldown_section =
  cl_symbol_cooldown_after_loss_min :: int
  cl_symbol_cooldown_after_2_losses_min :: int
  cl_global_cooldown_after_3_losses_min :: int
  cl_entry_mode_cooldown_after_loss_min :: int

definition default_cooldown_section :: cooldown_section where
  "default_cooldown_section =
    \<lparr> cl_symbol_cooldown_after_loss_min = 15,
      cl_symbol_cooldown_after_2_losses_min = 60,
      cl_global_cooldown_after_3_losses_min = 30,
      cl_entry_mode_cooldown_after_loss_min = 20 \<rparr>"

record global_kill_switch_section =
  ks_daily_loss_percent :: dec
  ks_intraday_drawdown_percent :: dec
  ks_consecutive_losses :: int
  ks_order_failures_in_5min :: int
  ks_websocket_disconnects_in_10min :: int
  ks_unexpected_position_mismatch_count :: int
  ks_emergency_close_failure_count :: int
  ks_max_slippage_percent_breach_count :: int

definition default_global_kill_switch_section :: global_kill_switch_section where
  "default_global_kill_switch_section =
    \<lparr> ks_daily_loss_percent = 5,
      ks_intraday_drawdown_percent = 3,
      ks_consecutive_losses = 4,
      ks_order_failures_in_5min = 3,
      ks_websocket_disconnects_in_10min = 3,
      ks_unexpected_position_mismatch_count = 1,
      ks_emergency_close_failure_count = 1,
      ks_max_slippage_percent_breach_count = 2 \<rparr>"

record reconciliation_section =
  rcn_interval_sec_when_flat :: int
  rcn_interval_sec_when_position_open :: int
  rcn_interval_sec_after_order_event :: int
  rcn_run_on_startup :: bool
  rcn_run_after_ws_reconnect :: bool
  rcn_run_after_order_timeout :: bool
  rcn_source_of_truth :: string

definition default_reconciliation_section :: reconciliation_section where
  "default_reconciliation_section =
    \<lparr> rcn_interval_sec_when_flat = 10,
      rcn_interval_sec_when_position_open = 3,
      rcn_interval_sec_after_order_event = 1,
      rcn_run_on_startup = True,
      rcn_run_after_ws_reconnect = True,
      rcn_run_after_order_timeout = True,
      rcn_source_of_truth = ''exchange'' \<rparr>"

record manual_intervention_section =
  mi_allow_external_orders :: bool
  mi_pause_new_entries_on_external_change :: bool
  mi_pause_seconds_after_external_change :: int
  mi_adopt_external_positions :: bool
  mi_manage_adopted_positions :: bool
  mi_cancel_external_open_orders :: bool

definition default_manual_intervention_section :: manual_intervention_section where
  "default_manual_intervention_section =
    \<lparr> mi_allow_external_orders = True,
      mi_pause_new_entries_on_external_change = True,
      mi_pause_seconds_after_external_change = 60,
      mi_adopt_external_positions = True,
      mi_manage_adopted_positions = False,
      mi_cancel_external_open_orders = False \<rparr>"

record data_quality_section =
  dq_max_kline_delay_sec :: int
  dq_max_ticker_delay_sec :: int
  dq_max_orderbook_delay_sec :: int
  dq_max_missing_candles :: int
  dq_block_if_candle_gap_detected :: bool
  dq_max_ticker_kline_price_divergence_percent :: dec

definition default_data_quality_section :: data_quality_section where
  "default_data_quality_section =
    \<lparr> dq_max_kline_delay_sec = 90,
      dq_max_ticker_delay_sec = 30,
      dq_max_orderbook_delay_sec = 3,
      dq_max_missing_candles = 1,
      dq_block_if_candle_gap_detected = True,
      dq_max_ticker_kline_price_divergence_percent = 3 / 10 \<rparr>"

record clock_sync_section =
  ck_max_time_drift_ms :: int
  ck_sync_interval_sec :: int
  ck_block_trading_if_drift_ms_above :: int

definition default_clock_sync_section :: clock_sync_section where
  "default_clock_sync_section =
    \<lparr> ck_max_time_drift_ms = 500,
      ck_sync_interval_sec = 60,
      ck_block_trading_if_drift_ms_above = 1000 \<rparr>"

record api_rate_limit_section =
  ar_max_rest_requests_per_second :: int
  ar_max_order_requests_per_second :: int
  ar_backoff_base_sec :: int
  ar_backoff_max_sec :: int

definition default_api_rate_limit_section :: api_rate_limit_section where
  "default_api_rate_limit_section =
    \<lparr> ar_max_rest_requests_per_second = 2,
      ar_max_order_requests_per_second = 2,
      ar_backoff_base_sec = 1,
      ar_backoff_max_sec = 30 \<rparr>"

record funding_guard_section =
  fg_enabled :: bool
  fg_block_new_entries_before_funding_min :: int
  fg_block_if_abs_funding_rate_percent_above :: dec
  fg_reduce_position_if_abs_funding_rate_percent_above :: dec

definition default_funding_guard_section :: funding_guard_section where
  "default_funding_guard_section =
    \<lparr> fg_enabled = True,
      fg_block_new_entries_before_funding_min = 5,
      fg_block_if_abs_funding_rate_percent_above = 2 / 25,
      fg_reduce_position_if_abs_funding_rate_percent_above = 3 / 25 \<rparr>"

record symbol_status_section =
  ss_refresh_interval_sec :: int
  ss_block_if_status_not_trading :: bool

definition default_symbol_status_section :: symbol_status_section where
  "default_symbol_status_section =
    \<lparr> ss_refresh_interval_sec = 300,
      ss_block_if_status_not_trading = True \<rparr>"

record app_config =
  cfg_bot :: bot_section
  cfg_paper :: paper_section
  cfg_universe :: universe_section
  cfg_scanner :: scanner_section
  cfg_trend_quality :: trend_quality_section
  cfg_volume :: volume_section
  cfg_candle_quality :: candle_quality_section
  cfg_entry :: entry_section
  cfg_volatility_adaptive_stop :: volatility_adaptive_stop_section
  cfg_structure_stop :: structure_stop_section
  cfg_orders :: orders_section
  cfg_risk :: risk_section
  cfg_liquidation_guard :: liquidation_guard_section
  cfg_tpsl :: tpsl_section
  cfg_position_protection :: position_protection_section
  cfg_position :: position_section
  cfg_stagnation_exit :: stagnation_exit_section
  cfg_cooldown :: cooldown_section
  cfg_global_kill_switch :: global_kill_switch_section
  cfg_reconciliation :: reconciliation_section
  cfg_manual_intervention :: manual_intervention_section
  cfg_data_quality :: data_quality_section
  cfg_clock_sync :: clock_sync_section
  cfg_api_rate_limit :: api_rate_limit_section
  cfg_funding_guard :: funding_guard_section
  cfg_symbol_status :: symbol_status_section

definition default_app_config :: app_config where
  "default_app_config =
    \<lparr> cfg_bot = default_bot_section,
      cfg_paper = default_paper_section,
      cfg_universe = default_universe_section,
      cfg_scanner = default_scanner_section,
      cfg_trend_quality = default_trend_quality_section,
      cfg_volume = default_volume_section,
      cfg_candle_quality = default_candle_quality_section,
      cfg_entry = default_entry_section,
      cfg_volatility_adaptive_stop = default_volatility_adaptive_stop_section,
      cfg_structure_stop = default_structure_stop_section,
      cfg_orders = default_orders_section,
      cfg_risk = default_risk_section,
      cfg_liquidation_guard = default_liquidation_guard_section,
      cfg_tpsl = default_tpsl_section,
      cfg_position_protection = default_position_protection_section,
      cfg_position = default_position_section,
      cfg_stagnation_exit = default_stagnation_exit_section,
      cfg_cooldown = default_cooldown_section,
      cfg_global_kill_switch = default_global_kill_switch_section,
      cfg_reconciliation = default_reconciliation_section,
      cfg_manual_intervention = default_manual_intervention_section,
      cfg_data_quality = default_data_quality_section,
      cfg_clock_sync = default_clock_sync_section,
      cfg_api_rate_limit = default_api_rate_limit_section,
      cfg_funding_guard = default_funding_guard_section,
      cfg_symbol_status = default_symbol_status_section \<rparr>"

lemmas default_defs [cfg_simps] =
  default_bot_section_def
  default_paper_section_def
  default_universe_section_def
  default_scanner_section_def
  default_trend_quality_section_def
  default_volume_section_def
  default_candle_quality_section_def
  default_entry_enabled_modes_def
  default_pre_breakout_entry_def
  default_breakout_confirm_entry_def
  default_retest_confirm_entry_def
  default_anti_chase_entry_def
  default_entry_section_def
  default_volatility_adaptive_stop_section_def
  default_structure_stop_section_def
  default_orders_section_def
  default_target_notional_percent_section_def
  default_risk_section_def
  default_liquidation_guard_section_def
  default_tpsl_section_def
  default_position_protection_section_def
  default_scout_management_section_def
  default_runner_mode_section_def
  default_position_section_def
  default_stagnation_scout_def
  default_stagnation_breakout_def
  default_stagnation_retest_def
  default_stagnation_exit_section_def
  default_cooldown_section_def
  default_global_kill_switch_section_def
  default_reconciliation_section_def
  default_manual_intervention_section_def
  default_data_quality_section_def
  default_clock_sync_section_def
  default_api_rate_limit_section_def
  default_funding_guard_section_def
  default_symbol_status_section_def
  default_app_config_def

end
