(* ===== verification/Paper_Engine.thy ===== *)
theory Paper_Engine
  imports Config
begin

text \<open>
  Order types and prices (\<^verbatim>\<open>packages/execution/order_policy.py\<close>), the simulated exchange of PAPER
  mode (\<^verbatim>\<open>packages/execution/paper_execution_engine.py\<close>) and the daily profit and loss
  (\<^verbatim>\<open>packages/pnl/calculator.py\<close>).
\<close>

section \<open>Order policy\<close>

definition str_to_type :: "string \<Rightarrow> order_type option" where
  "str_to_type = [''LIMIT'' \<mapsto> LIMIT, ''AGGRESSIVE_LIMIT'' \<mapsto> AGGRESSIVE_LIMIT, ''MARKET'' \<mapsto> MARKET]"

definition entry_order_type :: "entry_mode \<Rightarrow> orders_section \<Rightarrow> order_type result" where
  "entry_order_type em c =
    (let name = (case em of
           PRE_BREAKOUT_SCOUT \<Rightarrow> co_scout_order_type c
         | BREAKOUT_CONFIRM \<Rightarrow> co_breakout_order_type c
         | RETEST_CONFIRM \<Rightarrow> co_retest_order_type c)
     in case str_to_type name of None \<Rightarrow> Inl (KeyError name) | Some t \<Rightarrow> Inr t)"

definition aggressive_limit_price :: "side \<Rightarrow> dec \<Rightarrow> dec \<Rightarrow> dec \<Rightarrow> dec" where
  "aggressive_limit_price sd ask bid slippage_percent =
    (let factor = ddiv slippage_percent 100 in
     if sd = BUY then dmul ask (dadd 1 factor) else dmul bid (dsub 1 factor))"

definition assert_live_new_entry_allowed :: "order_type \<Rightarrow> bool \<Rightarrow> orders_section \<Rightarrow> unit result" where
  "assert_live_new_entry_allowed t reduce_only c =
    (if t = MARKET \<and> \<not> reduce_only \<and> \<not> co_live_new_entry_market_order_allowed c
     then Inl (OrderError ''LIVE new-entry MARKET order is forbidden (impl doc 12.1)'')
     else Inr ())"

section \<open>The paper engine\<close>

record paper_fill =
  pf_symbol :: string
  pf_side :: side
  pf_price :: dec
  pf_qty :: dec
  pf_fee :: dec
  pf_realized_pnl :: dec

record paper_engine =
  pe_slippage :: dec
  pe_fee_pct :: dec
  pe_balance :: dec
  pe_net :: "string \<rightharpoonup> dec \<times> dec"

definition new_paper_engine :: "app_config \<Rightarrow> paper_engine" where
  "new_paper_engine cfg =
    \<lparr> pe_slippage = cp_market_slippage_percent (cfg_paper cfg),
      pe_fee_pct = cp_taker_fee_percent (cfg_paper cfg),
      pe_balance = cp_initial_balance_usdt (cfg_paper cfg), pe_net = Map.empty \<rparr>"

definition paper_configure :: "app_config \<Rightarrow> paper_engine \<Rightarrow> paper_engine" where
  "paper_configure cfg e =
    e\<lparr> pe_slippage := cp_market_slippage_percent (cfg_paper cfg),
       pe_fee_pct := cp_taker_fee_percent (cfg_paper cfg) \<rparr>"

definition sign :: "dec \<Rightarrow> int" where
  "sign x = (if 0 < x then 1 else 0) - (if x < 0 then 1 else 0)"

definition fill_price :: "paper_engine \<Rightarrow> side \<Rightarrow> dec \<Rightarrow> dec \<Rightarrow> dec" where
  "fill_price e sd bid ask =
    (let factor = ddiv (pe_slippage e) 100 in
     if sd = BUY then dmul ask (dadd 1 factor) else dmul bid (dsub 1 factor))"

text \<open>\<open>position(symbol)\<close>: signed size and average price.\<close>

definition paper_position :: "paper_engine \<Rightarrow> string \<Rightarrow> dec \<times> dec" where
  "paper_position e s = get_or (pe_net e) s (0, 0)"

definition paper_apply :: "string \<Rightarrow> side \<Rightarrow> dec \<Rightarrow> dec \<Rightarrow> paper_engine \<Rightarrow> paper_engine \<times> dec" where
  "paper_apply s sd qty price e =
    (let signed = (if sd = BUY then qty else dneg qty);
         (cur_size, cur_avg) = get_or (pe_net e) s (0, 0);
         new_size = dadd cur_size signed;
         reducing = cur_size \<noteq> 0 \<and> sign signed \<noteq> sign cur_size;
         reduce_qty = min qty (dabs cur_size);
         direction = (if 0 < cur_size then 1 else -1);
         realized = (if reducing then dmul (dmul (dsub price cur_avg) reduce_qty) direction else 0);
         avg = (if new_size = 0 then 0
                else if cur_size \<noteq> 0 \<and> sign new_size = sign cur_size
                then (if dabs cur_size < dabs new_size
                      then ddiv (dadd (dmul cur_avg (dabs cur_size)) (dmul price qty)) (dabs new_size)
                      else cur_avg)
                else price)
     in (e\<lparr> pe_net := (pe_net e)(s \<mapsto> (new_size, avg)) \<rparr>, realized))"

definition execute_market ::
  "string \<Rightarrow> side \<Rightarrow> dec \<Rightarrow> dec \<Rightarrow> dec \<Rightarrow> paper_engine \<Rightarrow> paper_engine \<times> paper_fill" where
  "execute_market s sd qty bid ask e =
    (let price = fill_price e sd bid ask;
         fee = ddiv (dmul (dmul price qty) (pe_fee_pct e)) 100;
         (e1, realized) = paper_apply s sd qty price e
     in (e1\<lparr> pe_balance := dadd (pe_balance e1) (dsub realized fee) \<rparr>,
         \<lparr> pf_symbol = s, pf_side = sd, pf_price = price, pf_qty = qty, pf_fee = fee,
           pf_realized_pnl = realized \<rparr>))"

definition unrealized :: "paper_engine \<Rightarrow> string \<Rightarrow> dec \<Rightarrow> dec" where
  "unrealized e s mark = (let (size, avg) = paper_position e s in dmul (dsub mark avg) size)"

definition wallet :: "paper_engine \<Rightarrow> (string \<times> dec) list \<Rightarrow> wallet_balance" where
  "wallet e marks =
    (let upnl = foldl (\<lambda>acc (s, mark). dadd acc (unrealized e s mark)) 0 marks
     in \<lparr> wb_coin = ''USDT'', wb_equity = dadd (pe_balance e) upnl, wb_available_balance = pe_balance e,
          wb_wallet_balance = pe_balance e, wb_unrealized_pnl = upnl \<rparr>)"

section \<open>Daily profit and loss\<close>

record pnl_snapshot =
  pn_realized :: dec
  pn_unrealized :: dec
  pn_fees :: dec
  pn_funding :: dec
  pn_net :: dec

definition pnl_step :: "(string \<rightharpoonup> dec) \<Rightarrow> dec \<times> dec \<times> dec \<Rightarrow> position \<Rightarrow> dec \<times> dec \<times> dec" where
  "pnl_step marks acc p =
    (let (realized, unreal, fees) = acc;
         realized' = dadd realized (p_realized_pnl p);
         fees' = dadd fees (p_fees_paid p);
         direction = (if p_side p = LONG then 1 else -1)
     in if p_status p = ACTIVE
        then (case marks (p_symbol p) of
                None \<Rightarrow> (realized', unreal, fees')
              | Some m \<Rightarrow>
                  (realized', dadd unreal (dmul (dmul (dsub m (p_avg_entry_price p)) (p_qty p)) direction), fees'))
        else (realized', unreal, fees'))"

definition compute_pnl :: "position list \<Rightarrow> (string \<rightharpoonup> dec) \<Rightarrow> dec \<Rightarrow> pnl_snapshot" where
  "compute_pnl ps marks funding =
    (let (realized, unreal, fees) = foldl (pnl_step marks) (0, 0, 0) ps
     in \<lparr> pn_realized = realized, pn_unrealized = unreal, pn_fees = fees, pn_funding = funding,
          pn_net = dsub (dsub (dadd realized unreal) fees) funding \<rparr>)"

definition daily_loss_percent :: "pnl_snapshot \<Rightarrow> dec \<Rightarrow> dec" where
  "daily_loss_percent s equity =
    (if equity \<le> 0 then 0 else dmul (ddiv (dneg (pn_net s)) equity) 100)"

section \<open>Prices and signs\<close>

lemma is_dec_one [simp]: "is_dec 1" "is_dec (-1)" "is_dec 100" "is_dec 0"
  using is_dec_int [of 1] is_dec_int [of "-1"] is_dec_int [of 100] is_dec_int [of 0]
  by (simp_all add: prec_hi_def)

lemma sign_simps [simp]:
  "sign 0 = 0" "0 < x \<Longrightarrow> sign x = 1" "x < 0 \<Longrightarrow> sign x = -1"
  by (simp_all add: sign_def)

lemma sign_eq_iff: "sign x = sign y \<longleftrightarrow> (0 < x \<longleftrightarrow> 0 < y) \<and> (x < 0 \<longleftrightarrow> y < 0)"
  by (auto simp: sign_def)

text \<open>A simulated market order pays the slippage: it never fills better than the book, and the same
  price the live aggressive limit order would offer is the worst the simulation gives.\<close>

lemma paper_fill_not_better:
  assumes "0 \<le> pe_slippage e" "0 \<le> bid" "0 \<le> ask" "is_dec bid" "is_dec ask"
  shows "ask \<le> fill_price e BUY bid ask" "fill_price e SELL bid ask \<le> bid"
proof -
  let ?f = "ddiv (pe_slippage e) 100"
  have f: "0 \<le> ?f" using assms(1) by (intro ddiv_nonneg) simp_all
  have up: "1 \<le> dadd 1 ?f" by (rule dadd_ge_left) (simp_all add: f)
  have dn: "dsub 1 ?f \<le> 1" by (rule dsub_le_left) (simp_all add: f)
  have "dmul ask 1 \<le> dmul ask (dadd 1 ?f)" using up assms(3) by (rule dmul_mono_right)
  then show "ask \<le> fill_price e BUY bid ask"
    using assms(5) by (simp add: fill_price_def dmul_def is_decD)
  have "dmul bid (dsub 1 ?f) \<le> dmul bid 1" using dn assms(2) by (rule dmul_mono_right)
  then show "fill_price e SELL bid ask \<le> bid"
    using assms(4) by (simp add: fill_price_def dmul_def is_decD)
qed

lemma aggressive_limit_is_fill_price:
  "pe_slippage e = c \<Longrightarrow> fill_price e sd bid ask = aggressive_limit_price sd ask bid c"
  by (simp add: fill_price_def aggressive_limit_price_def)

text \<open>The default configuration never sends a live market order for an entry.\<close>

lemma no_live_market_entry:
  "assert_live_new_entry_allowed t False c = Inr () \<Longrightarrow> \<not> co_live_new_entry_market_order_allowed c \<Longrightarrow>
    t \<noteq> MARKET"
  by (auto simp: assert_live_new_entry_allowed_def split: if_splits)

section \<open>Conservation\<close>

text \<open>The trade needs no rounding: every intermediate result of \<open>_apply\<close> has at most 28 digits.\<close>

definition exact_apply :: "paper_engine \<Rightarrow> string \<Rightarrow> side \<Rightarrow> dec \<Rightarrow> dec \<Rightarrow> bool" where
  "exact_apply e s sd qty price =
    (let (sz, avg) = paper_position e s;
         signed = (if sd = BUY then qty else - qty);
         reduce = min qty \<bar>sz\<bar>
     in list_all is_dec [qty, sz, sz + signed, price - avg, (price - avg) * reduce,
          avg * \<bar>sz\<bar>, price * qty, avg * \<bar>sz\<bar> + price * qty,
          (avg * \<bar>sz\<bar> + price * qty) / \<bar>sz + signed\<bar>])"

lemma exact_ops:
  "is_dec (a + b) \<Longrightarrow> dadd a b = a + b" "is_dec (a - b) \<Longrightarrow> dsub a b = a - b"
  "is_dec (a * b) \<Longrightarrow> dmul a b = a * b" "is_dec (a / b) \<Longrightarrow> ddiv a b = a / b"
  "is_dec a \<Longrightarrow> dneg a = - a" "is_dec a \<Longrightarrow> dabs a = \<bar>a\<bar>"
  by (simp_all add: dadd_def dsub_def dmul_def ddiv_def dneg_def is_decD is_dec_minus dabs_is_dec)

lemma dmul_unit: "is_dec a \<Longrightarrow> dmul a 1 = a" "is_dec a \<Longrightarrow> dmul a (-1) = - a"
  by (simp_all add: dmul_def is_decD is_dec_minus)

definition realized_exact :: "rat \<Rightarrow> rat \<Rightarrow> rat \<Rightarrow> rat \<Rightarrow> rat" where
  "realized_exact sz avg price signed =
    (if sz \<noteq> 0 \<and> sign signed \<noteq> sign sz
     then (price - avg) * min \<bar>signed\<bar> \<bar>sz\<bar> * (if 0 < sz then 1 else -1) else 0)"

definition avg_exact :: "rat \<Rightarrow> rat \<Rightarrow> rat \<Rightarrow> rat \<Rightarrow> rat" where
  "avg_exact sz avg price signed =
    (let new = sz + signed in
     if new = 0 then 0
     else if sz \<noteq> 0 \<and> sign new = sign sz
     then (if \<bar>sz\<bar> < \<bar>new\<bar> then (avg * \<bar>sz\<bar> + price * \<bar>signed\<bar>) / \<bar>new\<bar> else avg)
     else price)"

lemma exact_values_minus:
  "realized_exact (- sz) avg price (- signed) = - realized_exact sz avg price signed"
  "avg_exact (- sz) avg price (- signed) = avg_exact sz avg price signed"
proof -
  have sgn: "sign (- x) = - sign x" for x by (simp add: sign_def)
  have new: "- sz - signed = - (sz + signed)" by simp
  show "realized_exact (- sz) avg price (- signed) = - realized_exact sz avg price signed"
    by (auto simp: realized_exact_def sgn)
  show "avg_exact (- sz) avg price (- signed) = avg_exact sz avg price signed"
    unfolding avg_exact_def Let_def uminus_add_conv_diff [symmetric]
    by (simp add: sgn new flip: minus_add_distrib)
qed

lemma conserves_long:
  assumes "0 \<le> sz" "signed \<noteq> 0"
  shows "realized_exact sz avg price signed + (m - avg_exact sz avg price signed) * (sz + signed) =
    (m - avg) * sz + (m - price) * signed"
proof -
  consider (flat) "sz = 0" | (add) "0 < sz" "0 < signed" | (reduce) "0 < sz" "signed < 0" "0 < sz + signed"
    | (close) "0 < sz" "signed < 0" "sz + signed = 0" | (cross) "0 < sz" "signed < 0" "sz + signed < 0"
    using assms by linarith
  then show ?thesis
  proof cases
    case add
    then have "avg_exact sz avg price signed * (sz + signed) = avg * sz + price * signed"
      by (simp add: avg_exact_def Let_def)
    then show ?thesis using add by (simp add: realized_exact_def algebra_simps)
  next
    case close
    then have eq: "signed = - sz" by linarith
    show ?thesis using close(1) unfolding eq by (simp add: realized_exact_def avg_exact_def algebra_simps)
  qed (simp_all add: realized_exact_def avg_exact_def Let_def min_def algebra_simps)
qed

lemma apply_conserves:
  assumes "signed \<noteq> 0"
  shows "realized_exact sz avg price signed + (m - avg_exact sz avg price signed) * (sz + signed) =
    (m - avg) * sz + (m - price) * signed"
proof (cases "0 \<le> sz")
  case False
  with conserves_long [of "- sz" "- signed" avg price m] assms show ?thesis
    by (simp add: exact_values_minus algebra_simps)
qed (simp add: conserves_long assms)

text \<open>The execution needs no rounding either: the prices with slippage, the fee and the balance.\<close>

definition exact_trade :: "paper_engine \<Rightarrow> string \<Rightarrow> side \<Rightarrow> dec \<Rightarrow> dec \<Rightarrow> dec \<Rightarrow> bool" where
  "exact_trade e s sd qty bid ask =
    (let slip = pe_slippage e / 100; factor = (if sd = BUY then 1 + slip else 1 - slip);
         price = (if sd = BUY then ask else bid) * factor;
         (sz, avg) = paper_position e s;
         realized = realized_exact sz avg price (if sd = BUY then qty else - qty);
         fee = price * qty * pe_fee_pct e / 100
     in exact_apply e s sd qty price \<and>
       list_all is_dec [slip, factor, price, price * qty * pe_fee_pct e, fee, realized - fee,
         pe_balance e + (realized - fee)])"

lemma apply_exact:
  assumes "exact_apply e s sd qty price" "0 < qty" "paper_position e s = (sz, avg)"
  defines "signed \<equiv> if sd = BUY then qty else - qty"
  shows "paper_apply s sd qty price e =
    (e\<lparr> pe_net := (pe_net e)(s \<mapsto> (sz + signed, avg_exact sz avg price signed)) \<rparr>, realized_exact sz avg price signed)"
proof -
  have pos: "get_or (pe_net e) s (0, 0) = (sz, avg)" using assms(3) by (simp add: paper_position_def)
  have dec: "is_dec qty" "is_dec sz" "is_dec (sz + signed)" "is_dec (price - avg)"
    "is_dec ((price - avg) * min qty \<bar>sz\<bar>)" "is_dec (avg * \<bar>sz\<bar>)" "is_dec (price * qty)"
    "is_dec (avg * \<bar>sz\<bar> + price * qty)"
    "is_dec ((avg * \<bar>sz\<bar> + price * qty) / \<bar>sz + signed\<bar>)"
    using assms(1) by (simp_all add: exact_apply_def paper_position_def pos Let_def signed_def)
  have signed: "(if sd = BUY then qty else dneg qty) = signed"
    by (simp add: exact_ops(5) dec(1) signed_def)
  have ops: "dadd sz signed = sz + signed" "dabs sz = \<bar>sz\<bar>"
    "dabs (sz + signed) = \<bar>sz + signed\<bar>" "dsub price avg = price - avg"
    "dmul (price - avg) (min qty \<bar>sz\<bar>) = (price - avg) * min qty \<bar>sz\<bar>"
    "dmul avg \<bar>sz\<bar> = avg * \<bar>sz\<bar>" "dmul price qty = price * qty"
    "dadd (avg * \<bar>sz\<bar>) (price * qty) = avg * \<bar>sz\<bar> + price * qty"
    "ddiv (avg * \<bar>sz\<bar> + price * qty) \<bar>sz + signed\<bar> =
      (avg * \<bar>sz\<bar> + price * qty) / \<bar>sz + signed\<bar>"
    using dec by (simp_all add: exact_ops)
  have last: "dmul ((price - avg) * min qty \<bar>sz\<bar>) (if 0 < sz then 1 else -1) =
      (price - avg) * min qty \<bar>sz\<bar> * (if 0 < sz then 1 else -1)"
    using dec(5) by (simp only: dmul_unit split: if_split) simp
  have abs_signed: "\<bar>signed\<bar> = qty" using assms(2) by (simp add: signed_def)
  show ?thesis
    unfolding paper_apply_def Let_def pos signed ops last prod.case realized_exact_def avg_exact_def abs_signed
    by (rule refl)
qed

text \<open>C39. A simulated market order that needs no rounding creates and loses no value. It fills the quantity
  at the ask or the bid moved against the trader by the slippage, for a fee of the configured
  share of the fill's value; and at every mark price the balance and the open profit together grow by
  the profit of the traded quantity between the fill price and the mark, less the fee, whether the
  order opens, adds to, reduces, closes or reverses the position. No other symbol's position
  changes.\<close>

theorem paper_trade_conserves:
  assumes "exact_trade e s sd qty bid ask" "0 < qty"
    and "execute_market s sd qty bid ask e = (e', f)"
  shows "pf_qty f = qty \<and>
    pf_price f = (if sd = BUY then ask * (1 + pe_slippage e / 100) else bid * (1 - pe_slippage e / 100)) \<and>
    pf_fee f = pf_price f * qty * pe_fee_pct e / 100 \<and>
    pe_balance e' + (m - snd (paper_position e' s)) * fst (paper_position e' s) =
      pe_balance e + (m - snd (paper_position e s)) * fst (paper_position e s) +
      (m - pf_price f) * (if sd = BUY then qty else - qty) - pf_fee f \<and>
    (z \<noteq> s \<longrightarrow> paper_position e' z = paper_position e z)"
proof -
  obtain sz avg where pos: "paper_position e s = (sz, avg)" by fastforce
  let ?signed = "if sd = BUY then qty else - qty"
  let ?factor = "if sd = BUY then 1 + pe_slippage e / 100 else 1 - pe_slippage e / 100"
  let ?price = "(if sd = BUY then ask else bid) * ?factor"
  let ?fee = "?price * qty * pe_fee_pct e / 100"
  let ?realized = "realized_exact sz avg ?price ?signed"
  have app: "exact_apply e s sd qty ?price"
    and dec: "is_dec (pe_slippage e / 100)" "is_dec ?factor" "is_dec ?price" "is_dec (?price * qty * pe_fee_pct e)"
      "is_dec ?fee" "is_dec (?realized - ?fee)" "is_dec (pe_balance e + (?realized - ?fee))"
    using assms(1) by (simp_all only: exact_trade_def Let_def pos prod.case list.pred_inject)
  have price: "fill_price e sd bid ask = ?price"
    using dec(1-3) by (cases sd) (simp_all add: fill_price_def exact_ops)
  have "is_dec (?price * qty)" using app by (simp add: exact_apply_def Let_def case_prod_beta)
  then have fee: "ddiv (dmul (dmul ?price qty) (pe_fee_pct e)) 100 = ?fee"
    using dec(4,5) by (simp only: exact_ops)
  have bal: "dadd (pe_balance e) (dsub ?realized ?fee) = pe_balance e + (?realized - ?fee)"
    using dec(6,7) by (simp only: exact_ops)
  have "(e', f) = (e\<lparr> pe_net := (pe_net e)(s \<mapsto> (sz + ?signed, avg_exact sz avg ?price ?signed)),
        pe_balance := pe_balance e + (?realized - ?fee) \<rparr>,
      \<lparr> pf_symbol = s, pf_side = sd, pf_price = ?price, pf_qty = qty, pf_fee = ?fee, pf_realized_pnl = ?realized \<rparr>)"
    using assms(3) unfolding execute_market_def Let_def price fee apply_exact [OF app assms(2) pos] prod.case
    by (simp add: bal)
  then have e': "pe_balance e' = pe_balance e + (?realized - ?fee)"
      "paper_position e' s = (sz + ?signed, avg_exact sz avg ?price ?signed)"
      "z \<noteq> s \<longrightarrow> paper_position e' z = paper_position e z"
    and f: "pf_qty f = qty" "pf_price f = ?price" "pf_fee f = ?fee"
    by (simp_all add: paper_position_def get_or_def)
  have "?signed \<noteq> 0" using assms(2) by simp
  from apply_conserves [OF this, of sz avg ?price m]
  have "pe_balance e' + (m - snd (paper_position e' s)) * fst (paper_position e' s) =
      pe_balance e + (m - avg) * sz + (m - ?price) * ?signed - ?fee"
    unfolding e' prod.sel by linarith
  then show ?thesis using f e'(3) unfolding pos prod.sel by (simp split: if_split)
qed

definition ex_paper :: paper_engine where
  "ex_paper = \<lparr> pe_slippage = 0, pe_fee_pct = 0, pe_balance = 1000,
    pe_net = [''BTC'' \<mapsto> (2, 100)] \<rparr>"

lemma paper_trade_conserves_witness:
  "\<exists>e' f. execute_market ''BTC'' SELL 3 100 101 (ex_paper\<lparr> pe_slippage := 10, pe_fee_pct := 10 \<rparr>) = (e', f) \<and>
    pf_price f = 90 \<and> pf_fee f = 27 \<and>
    pe_balance e' + (120 - snd (paper_position e' ''BTC'')) * fst (paper_position e' ''BTC'') =
    1000 + (120 - 100) * 2 + (120 - 90) * (-3) - 27"
proof -
  let ?e = "ex_paper\<lparr> pe_slippage := 10, pe_fee_pct := 10 \<rparr>"
  have old: "paper_position ?e ''BTC'' = (2, 100)"
    by (simp add: paper_position_def ex_paper_def get_or_def)
  have int: "is_dec (of_int m)" if "\<bar>m\<bar> \<le> 10000" for m using that by (intro is_dec_int) (simp add: prec_hi_def)
  have tenth: "is_dec (1 / 10)" "is_dec (9 / 10)"
    using is_dec_scaled [of 1 1] is_dec_scaled [of 9 1] by (simp_all add: prec_hi_def)
  have app: "exact_apply ?e ''BTC'' SELL 3 90"
    using int [of 3] int [of 2] int [of "-1"] int [of "-10"] int [of "-20"] int [of 200] int [of 270] int [of 470]
    by (simp add: exact_apply_def old)
  have ex: "exact_trade ?e ''BTC'' SELL 3 100 101"
    using app tenth int [of 90] int [of 2700] int [of 27] int [of "-47"] int [of 953]
    by (simp add: exact_trade_def old realized_exact_def) (simp add: ex_paper_def)
  obtain e' f where run: "execute_market ''BTC'' SELL 3 100 101 ?e = (e', f)" by fastforce
  show ?thesis
    using paper_trade_conserves [OF ex _ run, of 120 "''ETH''"] run old by (simp add: ex_paper_def)
qed

end
