(* ===== verification/Effects.thy ===== *)
theory Effects
  imports Domain
begin

text \<open>
  What the bot tells the outside world: the event taxonomy of \<^verbatim>\<open>packages/core/events.py\<close> with
  its severities, and the entries it hands to the trade logger. The event bus and the logger
  are I/O; a component's model appends what it publishes or logs to a list of effects, and takes
  both to succeed (an exception of Redis or the database in them is outside the model).
\<close>

section \<open>Event types\<close>

datatype bot_event_type =
    EV_STATE_CHANGED | EV_COMMAND_RECEIVED | EV_COMMAND_FAILED | EV_RECONCILED
  | EV_EXTERNAL_POSITION_DETECTED | EV_EXTERNAL_ORDER_DETECTED | EV_POSITION_QUANTITY_MISMATCH
  | EV_MANUAL_PARTIAL_CLOSE_DETECTED | EV_MANUAL_ADD_DETECTED | EV_POSITION_CLOSED_EXTERNALLY
  | EV_RISK_LIMIT_EXCEEDED_BY_MANUAL_INTERVENTION | EV_TPSL_SET | EV_TPSL_VERIFIED
  | EV_EMERGENCY_TPSL_FAILED | EV_EMERGENCY_CLOSE | EV_SIGNAL | EV_NO_ENTRY_REASON
  | EV_ORDER_PLACED | EV_ORDER_FILLED | EV_ORDER_FAILED | EV_POSITION_OPENED
  | EV_POSITION_CLOSED | EV_SCOUT_PENDING_STARTED | EV_SCOUT_WARNING_STARTED
  | EV_SCOUT_WARNING_RECOVERED | EV_SCOUT_CONFIRMED | EV_SCOUT_ACTIVATED
  | EV_SCOUT_DEFENSIVE_REDUCE | EV_SCOUT_CATASTROPHIC_REDUCE | EV_SCOUT_INVALIDATED
  | EV_SCENARIO_INVALID_REDUCE | EV_STAGNATION_REDUCE | EV_STAGNATION_DELAYED_BY_ENTRY_MODE
  | EV_RUNNER_MODE_ACTIVATED | EV_RUNNER_TREND_STRENGTH_CHANGED | EV_RUNNER_TRAILING_UPDATED
  | EV_RUNNER_EXCHANGE_SL_UPDATED | EV_RUNNER_EXCHANGE_SL_UPDATE_FAILED
  | EV_RUNNER_TRAILING_STOP | EV_RUNNER_SCENARIO_INVALID | EV_RUNNER_POST_EXIT_MFE
  | EV_KILL_SWITCH_TRIPPED | EV_DATA_QUALITY_BLOCK | EV_NEW_ENTRIES_PAUSED

text \<open>The members with their string values, in the order of the enumeration.\<close>

definition event_type_values :: "(bot_event_type \<times> string) list" where
  "event_type_values =
    [(EV_STATE_CHANGED, ''STATE_CHANGED''),
     (EV_COMMAND_RECEIVED, ''COMMAND_RECEIVED''),
     (EV_COMMAND_FAILED, ''COMMAND_FAILED''),
     (EV_RECONCILED, ''RECONCILED''),
     (EV_EXTERNAL_POSITION_DETECTED, ''EXTERNAL_POSITION_DETECTED''),
     (EV_EXTERNAL_ORDER_DETECTED, ''EXTERNAL_ORDER_DETECTED''),
     (EV_POSITION_QUANTITY_MISMATCH, ''POSITION_QUANTITY_MISMATCH''),
     (EV_MANUAL_PARTIAL_CLOSE_DETECTED, ''MANUAL_PARTIAL_CLOSE_DETECTED''),
     (EV_MANUAL_ADD_DETECTED, ''MANUAL_ADD_DETECTED''),
     (EV_POSITION_CLOSED_EXTERNALLY, ''POSITION_CLOSED_EXTERNALLY''),
     (EV_RISK_LIMIT_EXCEEDED_BY_MANUAL_INTERVENTION, ''RISK_LIMIT_EXCEEDED_BY_MANUAL_INTERVENTION''),
     (EV_TPSL_SET, ''TPSL_SET''),
     (EV_TPSL_VERIFIED, ''TPSL_VERIFIED''),
     (EV_EMERGENCY_TPSL_FAILED, ''EMERGENCY_TPSL_FAILED''),
     (EV_EMERGENCY_CLOSE, ''EMERGENCY_CLOSE''),
     (EV_SIGNAL, ''SIGNAL''),
     (EV_NO_ENTRY_REASON, ''NO_ENTRY_REASON''),
     (EV_ORDER_PLACED, ''ORDER_PLACED''),
     (EV_ORDER_FILLED, ''ORDER_FILLED''),
     (EV_ORDER_FAILED, ''ORDER_FAILED''),
     (EV_POSITION_OPENED, ''POSITION_OPENED''),
     (EV_POSITION_CLOSED, ''POSITION_CLOSED''),
     (EV_SCOUT_PENDING_STARTED, ''SCOUT_PENDING_STARTED''),
     (EV_SCOUT_WARNING_STARTED, ''SCOUT_WARNING_STARTED''),
     (EV_SCOUT_WARNING_RECOVERED, ''SCOUT_WARNING_RECOVERED''),
     (EV_SCOUT_CONFIRMED, ''SCOUT_CONFIRMED''),
     (EV_SCOUT_ACTIVATED, ''SCOUT_ACTIVATED''),
     (EV_SCOUT_DEFENSIVE_REDUCE, ''SCOUT_DEFENSIVE_REDUCE''),
     (EV_SCOUT_CATASTROPHIC_REDUCE, ''SCOUT_CATASTROPHIC_REDUCE''),
     (EV_SCOUT_INVALIDATED, ''SCOUT_INVALIDATED''),
     (EV_SCENARIO_INVALID_REDUCE, ''SCENARIO_INVALID_REDUCE''),
     (EV_STAGNATION_REDUCE, ''STAGNATION_REDUCE''),
     (EV_STAGNATION_DELAYED_BY_ENTRY_MODE, ''STAGNATION_DELAYED_BY_ENTRY_MODE''),
     (EV_RUNNER_MODE_ACTIVATED, ''RUNNER_MODE_ACTIVATED''),
     (EV_RUNNER_TREND_STRENGTH_CHANGED, ''RUNNER_TREND_STRENGTH_CHANGED''),
     (EV_RUNNER_TRAILING_UPDATED, ''RUNNER_TRAILING_UPDATED''),
     (EV_RUNNER_EXCHANGE_SL_UPDATED, ''RUNNER_EXCHANGE_SL_UPDATED''),
     (EV_RUNNER_EXCHANGE_SL_UPDATE_FAILED, ''RUNNER_EXCHANGE_SL_UPDATE_FAILED''),
     (EV_RUNNER_TRAILING_STOP, ''RUNNER_TRAILING_STOP''),
     (EV_RUNNER_SCENARIO_INVALID, ''RUNNER_SCENARIO_INVALID''),
     (EV_RUNNER_POST_EXIT_MFE, ''RUNNER_POST_EXIT_MFE''),
     (EV_KILL_SWITCH_TRIPPED, ''KILL_SWITCH_TRIPPED''),
     (EV_DATA_QUALITY_BLOCK, ''DATA_QUALITY_BLOCK''),
     (EV_NEW_ENTRIES_PAUSED, ''NEW_ENTRIES_PAUSED'')]"

definition event_type_value :: "bot_event_type \<Rightarrow> string" where
  "event_type_value t = (case map_of event_type_values t of None \<Rightarrow> [] | Some v \<Rightarrow> v)"

text \<open>\<open>BotEventType(value)\<close>.\<close>

definition bot_event_type_of :: "string \<Rightarrow> bot_event_type result" where
  "bot_event_type_of v =
    (case first_match (\<lambda>(t, u). u = v) event_type_values of
       None \<Rightarrow> Inl ValueError | Some (t, _) \<Rightarrow> Inr t)"

section \<open>Severities\<close>

definition critical_events :: "string list" where
  "critical_events = [''EMERGENCY_STOP'', ''EMERGENCY_CLOSE'', ''EMERGENCY_TPSL_FAILED'']"

definition error_events :: "string list" where
  "error_events = [''COMMAND_FAILED'', ''TPSL_FAILED'', ''ORDER_FAILED'', ''KILL_SWITCH_TRIPPED'',
    ''RISK_LOCKED'', ''ORDER_LOCKED'']"

definition warning_events :: "string list" where
  "warning_events = [''NEW_ENTRIES_PAUSED'', ''EXTERNAL_POSITION_DETECTED'', ''EXTERNAL_ORDER_DETECTED'',
    ''POSITION_QUANTITY_MISMATCH'', ''MANUAL_PARTIAL_CLOSE_DETECTED'', ''MANUAL_ADD_DETECTED'',
    ''POSITION_CLOSED_EXTERNALLY'', ''RISK_LIMIT_EXCEEDED_BY_MANUAL_INTERVENTION'',
    ''RUNNER_EXCHANGE_SL_UPDATE_FAILED'']"

definition severity_to_events :: "(string \<times> string list) list" where
  "severity_to_events =
    [(''CRITICAL'', critical_events), (''ERROR'', error_events), (''WARNING'', warning_events)]"

definition important_info_events :: "string list" where
  "important_info_events = [''NO_ENTRY_REASON'', ''ORDER_PLACED'', ''ORDER_FILLED'', ''POSITION_OPENED'',
    ''POSITION_CLOSED'', ''SCOUT_PENDING_STARTED'', ''SCOUT_WARNING_STARTED'', ''SCOUT_WARNING_RECOVERED'',
    ''SCOUT_CONFIRMED'', ''SCOUT_ACTIVATED'', ''SCOUT_DEFENSIVE_REDUCE'', ''SCOUT_CATASTROPHIC_REDUCE'',
    ''SCOUT_INVALIDATED'', ''SCENARIO_INVALID_REDUCE'', ''STAGNATION_REDUCE'',
    ''STAGNATION_DELAYED_BY_ENTRY_MODE'', ''RUNNER_MODE_ACTIVATED'', ''RUNNER_TREND_STRENGTH_CHANGED'',
    ''RUNNER_TRAILING_UPDATED'', ''RUNNER_EXCHANGE_SL_UPDATED'', ''RUNNER_TRAILING_STOP'',
    ''RUNNER_SCENARIO_INVALID'', ''RUNNER_POST_EXIT_MFE'']"

text \<open>\<open>str.upper()\<close> on the ASCII letters, which is all the severities hold.\<close>

definition upper_char :: "char \<Rightarrow> char" where
  "upper_char c = (let n = of_char c :: nat in if 97 \<le> n \<and> n \<le> 122 then char_of (n - 32) else c)"

definition upper :: "string \<Rightarrow> string" where
  "upper s = map upper_char s"

text \<open>The type is a member's value or any string the caller passes.\<close>

definition event_severity :: "string \<Rightarrow> string option \<Rightarrow> string" where
  "event_severity v stored =
    (case stored of
       Some s \<Rightarrow>
         if s \<noteq> [] \<and> s \<noteq> ''INFO'' then upper s
         else (case first_match (\<lambda>(_, ts). v \<in> set ts) severity_to_events of
                 Some (sev, _) \<Rightarrow> sev
               | None \<Rightarrow> upper (if s = [] then ''INFO'' else s))
     | None \<Rightarrow>
         (case first_match (\<lambda>(_, ts). v \<in> set ts) severity_to_events of
            Some (sev, _) \<Rightarrow> sev
          | None \<Rightarrow> upper ''INFO''))"

definition event_types_for_severity :: "string \<Rightarrow> string set" where
  "event_types_for_severity sev =
    (case map_of severity_to_events (upper sev) of None \<Rightarrow> {} | Some ts \<Rightarrow> set ts)"

definition non_info_event_types :: "string set" where
  "non_info_event_types = \<Union> (set (map (\<lambda>(_, ts). set ts) severity_to_events))"

definition should_persist_event :: "string \<Rightarrow> string option \<Rightarrow> bool" where
  "should_persist_event v stored_severity =
    (let severity = event_severity v stored_severity in
     if severity = ''INFO'' then v \<in> set important_info_events
     else if severity = ''WARNING'' then v \<in> set warning_events
     else severity \<in> {''ERROR'', ''CRITICAL''})"

section \<open>Events and log entries\<close>

record bot_event =
  be_type :: bot_event_type
  be_symbol :: "string option"
  be_message :: string
  be_data :: payload

text \<open>The arguments of \<open>TradeLogger.log_trade\<close>.\<close>

record trade_log =
  tl_symbol :: string
  tl_side :: position_side
  tl_qty :: dec
  tl_entry_price :: dec
  tl_exit_price :: dec
  tl_realized_pnl :: dec
  tl_exit_reason :: "exit_reason option"
  tl_strategy_id :: "string option"
  tl_entry_mode :: "entry_mode option"
  tl_mode :: bot_mode
  tl_leverage :: dec
  tl_fees :: dec
  tl_gross_pnl :: dec
  tl_net_pnl :: dec
  tl_r_multiple :: "dec option"
  tl_opened_at :: int
  tl_closed_at :: "int option"

datatype effect =
    Publish bot_event
  | LogSignal signal entry_mode
  | LogFill fill "dec option" bot_mode
  | LogPosition position bot_mode "string option" "string option"
  | LogTrade trade_log
  | LogOrder order
  | LogProtection string string "dec option" "dec option" bool
  | LogManualIntervention string string payload
  | LogReconciliation payload

definition simple_event :: "bot_event_type \<Rightarrow> string \<Rightarrow> string \<Rightarrow> bot_event" where
  "simple_event t s msg = \<lparr> be_type = t, be_symbol = Some s, be_message = msg, be_data = [] \<rparr>"

definition data_event :: "bot_event_type \<Rightarrow> string \<Rightarrow> payload \<Rightarrow> bot_event" where
  "data_event t s d = \<lparr> be_type = t, be_symbol = Some s, be_message = [], be_data = d \<rparr>"

section \<open>Properties\<close>

text \<open>The values identify the members: parsing a printed type gives the type back.\<close>

text \<open>An event written to the log or the stream under its wire value is read back as the same event type.\<close>

theorem event_type_roundtrip: "bot_event_type_of (event_type_value t) = Inr t"
  by (cases t) (simp_all add: bot_event_type_of_def event_type_value_def event_type_values_def)

text \<open>No event is filed under two severities, so the order of the table does not matter.\<close>

lemma severities_disjoint:
  "set critical_events \<inter> set error_events = {}"
  "set critical_events \<inter> set warning_events = {}"
  "set error_events \<inter> set warning_events = {}"
  "set important_info_events \<inter> non_info_event_types = {}"
  by (simp_all add: critical_events_def error_events_def warning_events_def important_info_events_def
      non_info_event_types_def severity_to_events_def)

text \<open>Nothing that needs an operator is lost: an event of the taxonomy whose severity is not INFO is
  always stored, and the events that are not stored are exactly the seven routine ones the
  dashboard shows live.\<close>

theorem persisted_events:
  "should_persist_event (event_type_value t) None \<longleftrightarrow>
    t \<notin> {EV_STATE_CHANGED, EV_COMMAND_RECEIVED, EV_RECONCILED, EV_TPSL_SET, EV_TPSL_VERIFIED,
          EV_SIGNAL, EV_DATA_QUALITY_BLOCK}"
  by (cases t) (simp_all add: should_persist_event_def event_severity_def severity_to_events_def
      critical_events_def error_events_def warning_events_def important_info_events_def
      event_type_value_def event_type_values_def upper_def upper_char_def)

end
