(* ===== verification/Runtime_State.thy ===== *)
theory Runtime_State
  imports Domain "HOL-Library.Multiset"
begin

text \<open>
  The bot's shared in-memory state (\<^verbatim>\<open>apps/bot/runtime/runtime_state.py\<close>): the registries of
  positions, orders, external orders and reserved order ids, the count of position updates in
  flight per symbol, and the window in which new entries are paused.

  The registries whose iteration order the program sees are association lists in insertion
  order; the clock is an argument. The updates in flight are claims on a symbol: the locale
  \<open>claims\<close> states what a caller that brackets its work with a claim relies on, and the multiset of
  the claimed symbols is the abstract state the counters implement.
\<close>

section \<open>State and operations\<close>

record runtime_state =
  rs_positions :: "(string \<times> position) list"
  rs_orders :: "(string \<times> order) list"
  rs_external_orders :: "(string \<times> exchange_order) list"
  rs_pending_order_symbols :: "(string \<times> string) list"
  rs_position_update_symbols :: "string \<rightharpoonup> int"
  rs_new_entry_pause_until :: rat

definition new_runtime_state :: runtime_state where
  "new_runtime_state = \<lparr> rs_positions = [], rs_orders = [], rs_external_orders = [],
    rs_pending_order_symbols = [], rs_position_update_symbols = Map.empty,
    rs_new_entry_pause_until = 0 \<rparr>"

definition get_position :: "runtime_state \<Rightarrow> string \<Rightarrow> position option" where
  "get_position rs s = map_of (rs_positions rs) s"

text \<open>\<open>state.positions[symbol] = pos\<close>.\<close>

definition put_position :: "string \<Rightarrow> position \<Rightarrow> runtime_state \<Rightarrow> runtime_state" where
  "put_position s p rs = rs\<lparr> rs_positions := dict_set s p (rs_positions rs) \<rparr>"

definition active_bot_positions :: "runtime_state \<Rightarrow> position list" where
  "active_bot_positions rs =
    filter (\<lambda>p. is_bot_managed p \<and> p_status p \<in> {ACTIVE, PENDING}) (map snd (rs_positions rs))"

definition open_positions :: "runtime_state \<Rightarrow> position list" where
  "open_positions rs = filter (\<lambda>p. p_status p \<in> {PENDING, ACTIVE, CLOSING}) (map snd (rs_positions rs))"

definition has_open_bot_position :: "runtime_state \<Rightarrow> bool" where
  "has_open_bot_position rs \<longleftrightarrow> 0 < length (active_bot_positions rs)"

text \<open>A Python truth test of an optional string: present and not empty.\<close>

definition truthy :: "string option \<Rightarrow> bool" where
  "truthy s \<longleftrightarrow> s \<noteq> None \<and> s \<noteq> Some []"

definition known_order_ids :: "runtime_state \<Rightarrow> string set" where
  "known_order_ids rs =
    \<Union> (set (map (\<lambda>(_, or). (if truthy (or_order_id or) then {the (or_order_id or)} else {}) \<union>
      (if truthy (or_client_order_id or) then {the (or_client_order_id or)} else {})) (rs_orders rs)))
    \<union> set (map fst (rs_pending_order_symbols rs)) \<union> set (map fst (rs_external_orders rs))"

definition reserve_order :: "string option \<Rightarrow> string \<Rightarrow> runtime_state \<Rightarrow> runtime_state" where
  "reserve_order cid s rs =
    (case cid of
       Some c \<Rightarrow> if c = [] then rs
         else rs\<lparr> rs_pending_order_symbols := dict_set c s (rs_pending_order_symbols rs) \<rparr>
     | None \<Rightarrow> rs)"

definition clear_order_reservation :: "string option \<Rightarrow> runtime_state \<Rightarrow> runtime_state" where
  "clear_order_reservation cid rs =
    (case cid of
       Some c \<Rightarrow> if c = [] then rs
         else rs\<lparr> rs_pending_order_symbols := dict_pop c (rs_pending_order_symbols rs) \<rparr>
     | None \<Rightarrow> rs)"

definition has_pending_order_for_symbol :: "runtime_state \<Rightarrow> string \<Rightarrow> bool" where
  "has_pending_order_for_symbol rs s \<longleftrightarrow> s \<in> set (map snd (rs_pending_order_symbols rs))"

definition begin_position_update :: "string \<Rightarrow> runtime_state \<Rightarrow> runtime_state" where
  "begin_position_update s rs =
    rs\<lparr> rs_position_update_symbols := (rs_position_update_symbols rs)
          (s \<mapsto> get_or (rs_position_update_symbols rs) s 0 + 1) \<rparr>"

definition end_position_update :: "string \<Rightarrow> runtime_state \<Rightarrow> runtime_state" where
  "end_position_update s rs =
    (let n = get_or (rs_position_update_symbols rs) s 0 in
     if n \<le> 1 then rs\<lparr> rs_position_update_symbols := (rs_position_update_symbols rs)(s := None) \<rparr>
     else rs\<lparr> rs_position_update_symbols := (rs_position_update_symbols rs)(s \<mapsto> n - 1) \<rparr>)"

definition has_position_update_for_symbol :: "runtime_state \<Rightarrow> string \<Rightarrow> bool" where
  "has_position_update_for_symbol rs s \<longleftrightarrow> 0 < get_or (rs_position_update_symbols rs) s 0"

definition has_bot_order_settling_for_symbol :: "runtime_state \<Rightarrow> string \<Rightarrow> bool" where
  "has_bot_order_settling_for_symbol rs s \<longleftrightarrow>
    has_pending_order_for_symbol rs s \<or> has_position_update_for_symbol rs s"

definition pause_new_entries :: "rat \<Rightarrow> rat \<Rightarrow> runtime_state \<Rightarrow> runtime_state" where
  "pause_new_entries now seconds rs =
    rs\<lparr> rs_new_entry_pause_until := max (rs_new_entry_pause_until rs) (now + seconds) \<rparr>"

definition new_entries_paused :: "rat \<Rightarrow> runtime_state \<Rightarrow> bool" where
  "new_entries_paused now rs \<longleftrightarrow> now < rs_new_entry_pause_until rs"

definition pause_remaining_sec :: "rat \<Rightarrow> runtime_state \<Rightarrow> rat" where
  "pause_remaining_sec now rs = max 0 (rs_new_entry_pause_until rs - now)"

section \<open>The position registry\<close>

lemma get_put_position [simp]:
  "get_position (put_position s p rs) s' = (if s' = s then Some p else get_position rs s')"
  by (simp add: get_position_def put_position_def)

lemma get_position_updates [simp]:
  "get_position (begin_position_update s rs) s' = get_position rs s'"
  "get_position (end_position_update s rs) s' = get_position rs s'"
  by (simp_all add: get_position_def begin_position_update_def end_position_update_def Let_def)

lemma active_bot_positions_updates [simp]:
  "active_bot_positions (begin_position_update s rs) = active_bot_positions rs"
  "active_bot_positions (end_position_update s rs) = active_bot_positions rs"
  by (simp_all add: active_bot_positions_def begin_position_update_def end_position_update_def Let_def)

lemma put_position_updates:
  "put_position s p (begin_position_update t rs) = begin_position_update t (put_position s p rs)"
  "rs_position_update_symbols (put_position s p rs) = rs_position_update_symbols rs"
  by (simp_all add: put_position_def begin_position_update_def)

text \<open>The registry is a dictionary by symbol: every position stands under its own symbol, once.\<close>

definition registry_ok :: "runtime_state \<Rightarrow> bool" where
  "registry_ok rs \<longleftrightarrow> distinct (map fst (rs_positions rs)) \<and>
    list_all (\<lambda>(s, p). p_symbol p = s) (rs_positions rs)"

lemma registry_ok_new [simp]: "registry_ok new_runtime_state"
  by (simp add: registry_ok_def new_runtime_state_def)

lemma registry_ok_put: "registry_ok rs \<Longrightarrow> registry_ok (put_position (p_symbol p) p rs)"
  using set_dict_set_subset [of "p_symbol p" p "rs_positions rs"]
  by (auto simp: registry_ok_def put_position_def list_all_iff intro!: distinct_dict_set)

lemma registry_ok_updates [simp]:
  "registry_ok (begin_position_update s rs) = registry_ok rs"
  "registry_ok (end_position_update s rs) = registry_ok rs"
  by (simp_all add: registry_ok_def begin_position_update_def end_position_update_def Let_def)

lemma get_position_symbol: "registry_ok rs \<Longrightarrow> get_position rs s = Some p \<Longrightarrow> p_symbol p = s"
  by (auto simp: registry_ok_def get_position_def list_all_iff dest!: map_of_SomeD)

section \<open>Claims on a symbol\<close>

text \<open>What a worker that brackets its work on a symbol with \<open>acquire\<close> and \<open>release\<close> relies on: the
  abstract state is the multiset of claims, and \<open>held\<close> tells whether a symbol is in it.\<close>

locale claims =
  fixes inv :: "'s \<Rightarrow> bool" and claimed :: "'s \<Rightarrow> 'k multiset"
    and acquire :: "'k \<Rightarrow> 's \<Rightarrow> 's" and release :: "'k \<Rightarrow> 's \<Rightarrow> 's" and held :: "'s \<Rightarrow> 'k \<Rightarrow> bool"
  assumes inv_acquire: "inv s \<Longrightarrow> inv (acquire k s)"
    and inv_release: "inv s \<Longrightarrow> inv (release k s)"
    and claimed_acquire: "inv s \<Longrightarrow> claimed (acquire k s) = add_mset k (claimed s)"
    and claimed_release: "inv s \<Longrightarrow> claimed (release k s) = claimed s - {#k#}"
    and held_iff: "inv s \<Longrightarrow> held s k \<longleftrightarrow> k \<in># claimed s"
begin

lemma held_while_claimed: "inv s \<Longrightarrow> held (acquire k s) k"
  by (simp add: held_iff inv_acquire claimed_acquire)

lemma bracket_restores:
  assumes "inv s" shows "claimed (release k (acquire k s)) = claimed s"
  using assms by (simp add: claimed_release claimed_acquire inv_acquire)

lemma other_claim_survives:
  assumes "inv s" "held s j" "j \<noteq> k" shows "held (release k s) j"
  using assms by (simp add: held_iff inv_release claimed_release in_diff_count)

text \<open>Any interleaving of workers: each event opens (True) or closes (False) a claim.\<close>

definition claim_step :: "bool \<times> 'k \<Rightarrow> 's \<Rightarrow> 's" where
  "claim_step e s = (if fst e then acquire (snd e) s else release (snd e) s)"

definition opened :: "'k \<Rightarrow> (bool \<times> 'k) list \<Rightarrow> int" where
  "opened k es = (\<Sum>e\<leftarrow>es. if snd e = k then (if fst e then 1 else -1) else 0)"

lemma inv_run: "inv s \<Longrightarrow> inv (fold claim_step es s)"
  by (induction es arbitrary: s) (simp_all add: claim_step_def inv_acquire inv_release)

lemma opened_Cons [simp]:
  "opened k (e # es) = (if snd e = k then (if fst e then 1 else -1) else 0) + opened k es"
  by (simp add: opened_def)

lemma opened_Nil [simp]: "opened k [] = 0"
  by (simp add: opened_def)

lemma count_run:
  assumes "inv s"
    and "\<And>n. n \<le> length es \<Longrightarrow> 0 \<le> int (count (claimed s) k) + opened k (take n es)"
  shows "int (count (claimed (fold claim_step es s)) k) = int (count (claimed s) k) + opened k es"
  using assms
proof (induction es arbitrary: s)
  case Nil
  then show ?case by simp
next
  case (Cons e es)
  let ?s = "claim_step e s"
  have inv': "inv ?s" using Cons.prems(1) by (simp add: claim_step_def inv_acquire inv_release)
  have first: "0 \<le> int (count (claimed s) k) + opened k [e]"
    using Cons.prems(2) [of 1] by simp
  have cnt: "int (count (claimed ?s) k) = int (count (claimed s) k) + opened k [e]"
    using first Cons.prems(1)
    by (cases e) (auto simp: claim_step_def claimed_acquire claimed_release split: if_splits)
  have "0 \<le> int (count (claimed ?s) k) + opened k (take n es)" if "n \<le> length es" for n
    using Cons.prems(2) [of "Suc n"] that cnt by simp
  from Cons.IH [OF inv' this] cnt show ?case by simp
qed

end

definition updates_ok :: "runtime_state \<Rightarrow> bool" where
  "updates_ok rs \<longleftrightarrow> finite (dom (rs_position_update_symbols rs)) \<and>
    (\<forall>n\<in>ran (rs_position_update_symbols rs). 0 < n)"

definition updates_in_flight :: "runtime_state \<Rightarrow> string multiset" where
  "updates_in_flight rs =
    (\<Sum>s\<in>dom (rs_position_update_symbols rs).
       replicate_mset (nat (get_or (rs_position_update_symbols rs) s 0)) s)"

lemma count_updates:
  assumes "updates_ok rs"
  shows "count (updates_in_flight rs) s = nat (get_or (rs_position_update_symbols rs) s 0)"
proof -
  let ?m = "rs_position_update_symbols rs"
  have fin: "finite (dom ?m)" using assms by (simp add: updates_ok_def)
  have "count (updates_in_flight rs) s =
      (\<Sum>t\<in>dom ?m. if t = s then nat (get_or ?m t 0) else 0)"
    unfolding updates_in_flight_def count_sum by (rule sum.cong) auto
  also have "\<dots> = (if s \<in> dom ?m then nat (get_or ?m s 0) else 0)"
    using fin by (simp add: sum.delta)
  also have "\<dots> = nat (get_or ?m s 0)"
    by (cases "?m s") (auto simp: get_or_def)
  finally show ?thesis .
qed

lemma updates_ok_begin: "updates_ok rs \<Longrightarrow> updates_ok (begin_position_update s rs)"
  by (auto simp: updates_ok_def begin_position_update_def get_or_def ran_def split: option.splits if_splits)

lemma updates_ok_end: "updates_ok rs \<Longrightarrow> updates_ok (end_position_update s rs)"
  by (auto simp: updates_ok_def end_position_update_def Let_def ran_def split: if_splits)

interpretation claim: claims updates_ok updates_in_flight begin_position_update end_position_update
  has_position_update_for_symbol
proof
  fix rs k
  assume ok: "updates_ok rs"
  show ok1: "updates_ok (begin_position_update k rs)" by (rule updates_ok_begin [OF ok])
  show ok2: "updates_ok (end_position_update k rs)" by (rule updates_ok_end [OF ok])
  have nonneg: "0 \<le> get_or (rs_position_update_symbols rs) k 0"
    using ok by (force simp: updates_ok_def get_or_def ran_def split: option.splits)
  show "updates_in_flight (begin_position_update k rs) = add_mset k (updates_in_flight rs)"
    using nonneg
    by (intro multiset_eqI, simp only: count_updates [OF ok1] count_add_mset count_updates [OF ok])
      (auto simp: begin_position_update_def nat_add_distrib)
  show "updates_in_flight (end_position_update k rs) = updates_in_flight rs - {#k#}"
    using nonneg
    by (intro multiset_eqI, simp only: count_updates [OF ok2] count_diff count_updates [OF ok])
      (simp add: end_position_update_def Let_def nat_diff_distrib')
  show "has_position_update_for_symbol rs k \<longleftrightarrow> k \<in># updates_in_flight rs"
    by (simp add: has_position_update_for_symbol_def count_updates [OF ok] flip: count_greater_zero_iff)
qed

text \<open>The events of the workers on the runtime state: True begins an update of the symbol, False ends
  one.\<close>

fun update_events :: "(bool \<times> string) list \<Rightarrow> runtime_state \<Rightarrow> runtime_state" where
  "update_events [] rs = rs"
| "update_events ((b, s) # es) rs =
    update_events es (if b then begin_position_update s rs else end_position_update s rs)"

fun in_flight :: "string \<Rightarrow> (bool \<times> string) list \<Rightarrow> int" where
  "in_flight s [] = 0"
| "in_flight s ((b, t) # es) = (if t = s then (if b then 1 else -1) else 0) + in_flight s es"

lemma update_events_claim: "update_events es rs = fold claim.claim_step es rs"
  by (induction es rs rule: update_events.induct) (simp_all add: claim.claim_step_def)

lemma in_flight_opened: "in_flight s es = claim.opened s es"
  by (induction s es rule: in_flight.induct) simp_all

lemma updates_new [simp]: "updates_ok new_runtime_state" "updates_in_flight new_runtime_state = {#}"
  by (simp_all add: updates_ok_def new_runtime_state_def updates_in_flight_def)

text \<open>Position updates nest: however workers interleave, as long as each ends only what it began,
  a symbol counts as being updated exactly while some worker on it has not finished. The
  reconciler, which skips symbols with an update in flight, therefore neither acts on a
  half-finished fill nor skips a symbol for ever.\<close>

theorem updates_tracked:
  assumes "\<forall>n \<le> length es. 0 \<le> in_flight s (take n es)"
  shows "has_position_update_for_symbol (update_events es new_runtime_state) s \<longleftrightarrow> 0 < in_flight s es"
proof -
  have "int (count (updates_in_flight (update_events es new_runtime_state)) s) = in_flight s es"
    using claim.count_run [of new_runtime_state es s] assms
    by (simp add: update_events_claim in_flight_opened)
  moreover have "updates_ok (update_events es new_runtime_state)"
    by (simp add: update_events_claim claim.inv_run)
  ultimately show ?thesis
    by (simp add: claim.held_iff flip: count_greater_zero_iff) linarith
qed

lemma updates_tracked_witness:
  "has_position_update_for_symbol
     (update_events [(True, ''BTC''), (True, ''BTC''), (False, ''BTC'')] new_runtime_state) ''BTC''"
proof -
  have "\<forall>n \<le> length [(True, ''BTC''), (True, ''BTC''), (False, ''BTC'')].
      0 \<le> in_flight ''BTC'' (take n [(True, ''BTC''), (True, ''BTC''), (False, ''BTC'')])"
    by (auto simp: le_Suc_eq numeral_3_eq_3)
  from updates_tracked [OF this] show ?thesis by simp
qed

section \<open>The pause window\<close>

text \<open>A pause is never shortened by a later, shorter one.\<close>

lemma pause_extends: "new_entries_paused now rs \<Longrightarrow> new_entries_paused now (pause_new_entries t d rs)"
  by (simp add: new_entries_paused_def pause_new_entries_def max_def)

lemma pause_holds: "now < t + d \<Longrightarrow> new_entries_paused now (pause_new_entries t d rs)"
  by (simp add: new_entries_paused_def pause_new_entries_def max_def)

lemma paused_iff_remaining: "new_entries_paused now rs \<longleftrightarrow> 0 < pause_remaining_sec now rs"
  by (auto simp: new_entries_paused_def pause_remaining_sec_def max_def)

end
