(* ===== verification/Symbol_Rounding.thy ===== *)
theory Symbol_Rounding
  imports Domain
begin

text \<open>
  Rounding of quantities and prices to the exchange's increments:
  \<^verbatim>\<open>packages/universe/symbol_meta.py\<close>, and the tick rounding of stops that the risk manager and
  the trading service share. The laws of a snap to a grid are proved once for each direction
  (\<open>snap_down\<close>, \<open>snap_up\<close>) and instantiated for the rounding modes the code uses.
\<close>

section \<open>to_integral_value\<close>

datatype rounding_mode = ROUND_DOWN | ROUND_FLOOR | ROUND_CEILING | ROUND_HALF_UP

fun to_integral_value :: "rounding_mode \<Rightarrow> rat \<Rightarrow> int" where
  "to_integral_value ROUND_DOWN x = (if x < 0 then \<lceil>x\<rceil> else \<lfloor>x\<rfloor>)"
| "to_integral_value ROUND_FLOOR x = \<lfloor>x\<rfloor>"
| "to_integral_value ROUND_CEILING x = \<lceil>x\<rceil>"
| "to_integral_value ROUND_HALF_UP x = (if x < 0 then - \<lfloor>1 / 2 - x\<rfloor> else \<lfloor>x + 1 / 2\<rfloor>)"

text \<open>\<open>(x / step).to_integral_value(rounding) * step\<close>.\<close>

definition snap :: "rounding_mode \<Rightarrow> dec \<Rightarrow> dec \<Rightarrow> dec" where
  "snap mode x step = dmul (of_int (to_integral_value mode (ddiv x step))) step"

section \<open>The operations\<close>

definition round_qty_down :: "dec \<Rightarrow> dec \<Rightarrow> dec" where
  "round_qty_down qty step =
    (if step \<le> 0 then qty
     else let steps = of_int (to_integral_value ROUND_DOWN (ddiv qty step)) in dmul steps step)"

definition round_price_to_tick :: "dec \<Rightarrow> dec \<Rightarrow> dec" where
  "round_price_to_tick price tick =
    (if tick \<le> 0 then price
     else let ticks = of_int (to_integral_value ROUND_HALF_UP (ddiv price tick)) in dmul ticks tick)"

definition meets_min_qty :: "dec \<Rightarrow> symbol_meta \<Rightarrow> bool" where
  "meets_min_qty qty meta \<longleftrightarrow> sm_min_order_qty meta \<le> qty \<and> 0 < qty"

definition meets_min_notional :: "dec \<Rightarrow> dec \<Rightarrow> symbol_meta \<Rightarrow> bool" where
  "meets_min_notional qty price meta \<longleftrightarrow>
    (if sm_min_notional meta \<le> 0 then True else sm_min_notional meta \<le> dmul qty price)"

text \<open>\<open>_round_stop_to_tick\<close> and \<open>_stop_from_risk_distance\<close>: away from the entry.\<close>

definition round_stop_to_tick :: "dec \<Rightarrow> position_side \<Rightarrow> dec \<Rightarrow> dec" where
  "round_stop_to_tick price sd tick =
    (if tick \<le> 0 then price
     else let rounding = (if sd = LONG then ROUND_FLOOR else ROUND_CEILING);
              ticks = of_int (to_integral_value rounding (ddiv price tick))
          in dmul ticks tick)"

lemma round_qty_down_snap: "0 < step \<Longrightarrow> round_qty_down q step = snap ROUND_DOWN q step"
  by (simp add: round_qty_down_def snap_def)

lemma round_stop_snap:
  "0 < tick \<Longrightarrow> round_stop_to_tick x sd tick =
    snap (case sd of LONG \<Rightarrow> ROUND_FLOOR | SHORT \<Rightarrow> ROUND_CEILING) x tick"
  by (cases sd) (simp_all add: round_stop_to_tick_def snap_def)

lemma is_dec_snap [simp]: "is_dec (snap mode x step)"
  by (simp add: snap_def)

section \<open>Relative error\<close>

text \<open>Half a unit in the 28th digit, and the bound for two roundings in a row.\<close>

definition ulp :: rat where "ulp = 1 / (2 * prec_lo)"
definition snap_eps :: rat where "snap_eps = 11 / (10 * prec_lo)"

lemma ulp_facts: "0 < ulp" "(1 + ulp) * (1 + ulp) \<le> 1 + snap_eps" "1 - snap_eps \<le> (1 - ulp) * (1 - ulp)"
  "ulp < 1" "0 < snap_eps" "snap_eps < 1 / 1000000000000000000000000"
  by (simp_all add: ulp_def snap_eps_def prec_lo_def)

lemma dround_rel: "0 \<le> x \<Longrightarrow> dround x \<le> x * (1 + ulp) \<and> x * (1 - ulp) \<le> dround x"
  using dround_error [of x] by (simp add: ulp_def abs_le_iff algebra_simps)

locale snap_down =
  fixes ti :: "rat \<Rightarrow> int"
  assumes ti_le: "0 \<le> x \<Longrightarrow> of_int (ti x) \<le> x"
    and ti_gt: "0 \<le> x \<Longrightarrow> x < of_int (ti x) + 1"
begin

lemma ti_nonneg: "0 \<le> x \<Longrightarrow> 0 \<le> ti x"
  using ti_gt [of x] by linarith

lemma snap_nonneg: "0 \<le> x \<Longrightarrow> 0 < s \<Longrightarrow> 0 \<le> dmul (of_int (ti (ddiv x s))) s"
  by (intro dmul_nonneg) (simp_all add: ti_nonneg ddiv_nonneg)

lemma snap_le:
  assumes "0 \<le> x" "0 < s"
  shows "dmul (of_int (ti (ddiv x s))) s \<le> x * (1 + snap_eps)"
proof -
  let ?k = "of_int (ti (ddiv x s)) :: rat"
  have q: "0 \<le> ddiv x s" using assms by (rule ddiv_nonneg)
  have "?k \<le> ddiv x s" using q by (rule ti_le)
  also have "\<dots> \<le> x / s * (1 + ulp)"
    unfolding ddiv_def using dround_rel [of "x / s"] assms by simp
  finally have "?k * s \<le> x * (1 + ulp)" using assms(2) by (simp add: field_simps)
  then have "?k * s * (1 + ulp) \<le> x * (1 + ulp) * (1 + ulp)"
    using ulp_facts(1) by (intro mult_right_mono) simp_all
  moreover have "dmul ?k s \<le> ?k * s * (1 + ulp)"
    unfolding dmul_def using dround_rel [of "?k * s"] ti_nonneg [OF q] assms(2) by simp
  moreover have "x * (1 + ulp) * (1 + ulp) \<le> x * (1 + snap_eps)"
    using mult_left_mono [OF ulp_facts(2) assms(1)] by (simp add: mult.assoc)
  ultimately show ?thesis by linarith
qed

lemma snap_le_exact:
  assumes "0 \<le> x" "0 < s" "is_dec x" "is_dec (x / s)"
  shows "dmul (of_int (ti (ddiv x s))) s \<le> x"
proof -
  let ?k = "of_int (ti (ddiv x s)) :: rat"
  have "ddiv x s = x / s" using assms(4) by (simp add: ddiv_def is_dec_def)
  then have "?k \<le> x / s" using ti_le [of "x / s"] assms by simp
  then have "?k * s \<le> x" using assms(2) by (simp add: field_simps)
  then show ?thesis
    unfolding dmul_def using assms(3) by (intro dctx.rd_le_fix) (simp_all add: is_dec_def)
qed

lemma snap_gt:
  assumes "0 \<le> x" "0 < s"
  shows "(x * (1 - ulp) - s) * (1 - ulp) < dmul (of_int (ti (ddiv x s))) s"
proof -
  let ?k = "of_int (ti (ddiv x s)) :: rat"
  have q: "0 \<le> ddiv x s" using assms by (rule ddiv_nonneg)
  have "x / s * (1 - ulp) \<le> ddiv x s"
    unfolding ddiv_def using dround_rel [of "x / s"] assms by simp
  also have "\<dots> < ?k + 1" using q by (rule ti_gt)
  finally have "x * (1 - ulp) - s < ?k * s" using assms(2) by (simp add: field_simps)
  then have "(x * (1 - ulp) - s) * (1 - ulp) < ?k * s * (1 - ulp)"
    using ulp_facts(4) by (intro mult_strict_right_mono) simp_all
  also have "\<dots> \<le> dmul ?k s"
    unfolding dmul_def using dround_rel [of "?k * s"] ti_nonneg [OF q] assms(2) by simp
  finally show ?thesis .
qed

end

locale snap_up =
  fixes ti :: "rat \<Rightarrow> int"
  assumes ti_ge: "0 \<le> x \<Longrightarrow> x \<le> of_int (ti x)"
begin

lemma snap_ge:
  assumes "0 \<le> x" "0 < s"
  shows "x * (1 - snap_eps) \<le> dmul (of_int (ti (ddiv x s))) s"
proof -
  let ?k = "of_int (ti (ddiv x s)) :: rat"
  have q: "0 \<le> ddiv x s" using assms by (rule ddiv_nonneg)
  have "x / s * (1 - ulp) \<le> ddiv x s"
    unfolding ddiv_def using dround_rel [of "x / s"] assms by simp
  also have "\<dots> \<le> ?k" using q by (rule ti_ge)
  finally have ks: "x * (1 - ulp) \<le> ?k * s" using assms(2) by (simp add: field_simps)
  then have "x * (1 - ulp) * (1 - ulp) \<le> ?k * s * (1 - ulp)"
    using ulp_facts(4) by (intro mult_right_mono) simp_all
  moreover have "?k * s * (1 - ulp) \<le> dmul ?k s"
  proof -
    have "0 \<le> x * (1 - ulp)" using assms(1) ulp_facts(4) by simp
    then have "0 \<le> ?k * s" using ks by linarith
    then show ?thesis unfolding dmul_def using dround_rel by blast
  qed
  moreover have "x * (1 - snap_eps) \<le> x * (1 - ulp) * (1 - ulp)"
    using mult_left_mono [OF ulp_facts(3) assms(1)] by (simp add: mult.assoc)
  ultimately show ?thesis by linarith
qed

lemma snap_ge_exact:
  assumes "0 \<le> x" "0 < s" "is_dec x" "is_dec (x / s)"
  shows "x \<le> dmul (of_int (ti (ddiv x s))) s"
proof -
  let ?k = "of_int (ti (ddiv x s)) :: rat"
  have "ddiv x s = x / s" using assms(4) by (simp add: ddiv_def is_dec_def)
  then have "x / s \<le> ?k" using ti_ge [of "x / s"] assms by simp
  then have "x \<le> ?k * s" using assms(2) by (simp add: field_simps)
  then show ?thesis
    unfolding dmul_def using assms(3) by (intro dctx.rd_ge_fix) (simp_all add: is_dec_def)
qed

end

interpretation qty_down: snap_down "to_integral_value ROUND_DOWN"
  by unfold_locales (simp, simp, linarith)

interpretation floor_snap: snap_down "to_integral_value ROUND_FLOOR"
  by unfold_locales (simp, simp, linarith)

interpretation ceiling_snap: snap_up "to_integral_value ROUND_CEILING"
  by unfold_locales simp_all

lemmas snap_down_le = qty_down.snap_le floor_snap.snap_le

lemma dround_gap: "dround x < x \<or> x \<le> dround x"
  by linarith

section \<open>Properties\<close>

text \<open>Rounding a quantity down never makes an order larger by more than the rounding of
  the 28-digit context: at most eleven parts in \<open>10 ^ 28\<close>, and not at all when the number of
  steps is representable. It never loses more than one step either.\<close>

theorem round_qty_down_bounds:
  assumes "0 \<le> q" and "0 < step"
  shows "0 \<le> round_qty_down q step \<and>
    round_qty_down q step \<le> q * (1 + snap_eps) \<and>
    (is_dec q \<and> is_dec (q / step) \<longrightarrow> round_qty_down q step \<le> q) \<and>
    (q * (1 - ulp) - step) * (1 - ulp) < round_qty_down q step"
  using assms qty_down.snap_nonneg [of q step] qty_down.snap_le [of q step]
    qty_down.snap_le_exact [of q step] qty_down.snap_gt [of q step]
  by (simp add: round_qty_down_snap snap_def del: to_integral_value.simps)

lemma round_qty_down_bounds_witness:
  "round_qty_down (137 / 100) (1 / 10) = 13 / 10 \<and> 0 \<le> round_qty_down (137 / 100) (1 / 10)
    \<and> round_qty_down (137 / 100) (1 / 10) \<le> 137 / 100"
proof -
  have d: "is_dec (137 / 100)" "is_dec ((137 / 100) / (1 / 10))"
    by (simp_all add: is_dec_def dround_exact)
  have e: "round_qty_down (137 / 100) (1 / 10) = 13 / 10"
    by (simp add: round_qty_down_def dec_eval)
  from round_qty_down_bounds [of "137 / 100" "1 / 10"] d e show ?thesis by simp
qed

text \<open>The promise of the module, \<open>never round up an order size\<close>, fails in the last digit: a
  quantity of 28 digits just below eleven steps is rounded up to them.\<close>

lemma round_qty_down_rounds_up:
  "\<exists>q. is_dec q \<and> q < round_qty_down q (9 / 10)"
proof -
  let ?q = "9899999999999999999999999999 / 10 ^ 27 :: rat"
  have "is_dec (of_int 9899999999999999999999999999 / 10 ^ 27)"
    by (rule is_dec_scaled) (simp add: prec_hi_def)
  then have d: "is_dec ?q" by simp
  have "rnd (?q / (9 / 10)) = of_int (rhe (10 ^ 26 * (?q / (9 / 10)))) / 10 ^ 26"
    by (rule rnd_at) (simp_all add: prec_lo_def prec_hi_def)
  also have "\<dots> = 11" by (simp add: rhe_def Let_def)
  finally have "ddiv ?q (9 / 10) = 11" by (simp add: ddiv_def dround_def)
  then have "round_qty_down ?q (9 / 10) = 99 / 10"
    by (simp add: round_qty_down_def dmul_def dround_exact)
  then have "?q < round_qty_down ?q (9 / 10)" by simp
  with d show ?thesis by blast
qed

end
