(* ===== verification/Entry_Types.thy ===== *)
theory Entry_Types
  imports Config
begin

text \<open>The data the entry timing engine exchanges with its callers
  (\<^verbatim>\<open>packages/entry/entry_timing_engine.py\<close>).\<close>

record entry_context =
  ec_symbol :: string
  ec_direction :: signal_direction
  ec_snapshot_1m :: indicator_snapshot
  ec_snapshot_5m :: indicator_snapshot
  ec_snapshot_15m :: indicator_snapshot
  ec_candles_1m :: "candle list"
  ec_box_high :: dec
  ec_box_low :: dec
  ec_signal_score :: dec
  ec_signal_reason :: string

record entry_decision =
  ed_symbol :: string
  ed_direction :: signal_direction
  ed_entry_mode :: entry_mode
  ed_position_fraction :: dec
  ed_stop_atr :: dec
  ed_score :: dec
  ed_reason :: string
  ed_structure_stop_price :: "dec option"
  ed_stop_metadata :: "payload option"
  ed_compression_mode :: "string option"
  ed_has_compression :: "bool option"
  ed_required_score :: "dec option"
  ed_compression_bonus_applied :: "dec option"

record scout_compression =
  cm_has_compression :: bool
  cm_bonus_applied :: dec
  cm_mode :: string
  cm_ratio :: "dec option"

record pending_breakout =
  pb_direction :: signal_direction
  pb_level :: dec
  pb_open_time_ms :: "int option"

text \<open>\<open>_structure_stop_enabled\<close>, which the engine and the risk manager share.\<close>

definition structure_stop_enabled :: "app_config \<Rightarrow> entry_mode \<Rightarrow> bool" where
  "structure_stop_enabled cfg em =
    (let c = cfg_structure_stop cfg in
     if \<not> st_enabled c then False
     else if em = PRE_BREAKOUT_SCOUT \<and> \<not> st_use_structure_stop_for_scout c then False
     else if em = RETEST_CONFIRM \<and> \<not> st_use_structure_stop_for_retest c then False
     else entry_mode_value em \<in> set (st_apply_to_entry_modes c))"

end
