(* ===== verification/Risk.thy ===== *)
theory Risk
  imports Symbol_Rounding Entry_Types
begin

text \<open>
  Risk management, \<^verbatim>\<open>packages/risk/\<close>: stop, target and liquidation prices, the leverage policy,
  position sizing and the final approval of an order. The account state the approval reads is a
  \<open>risk_context\<close>; its answer is a \<open>risk_decision\<close>, and an exception of the code is an \<open>Inl\<close>.
\<close>

section \<open>Price levels (levels.py)\<close>

definition stop_loss_price :: "dec \<Rightarrow> dec \<Rightarrow> dec \<Rightarrow> position_side \<Rightarrow> dec" where
  "stop_loss_price entry atr stop_atr sd =
    (let offset = dmul atr stop_atr in if sd = LONG then dsub entry offset else dadd entry offset)"

definition take_profit_price :: "dec \<Rightarrow> dec \<Rightarrow> position_side \<Rightarrow> dec \<Rightarrow> dec" where
  "take_profit_price entry stop_loss sd take_profit_r =
    (if sd = LONG then dadd entry (dmul (dsub entry stop_loss) take_profit_r)
     else dsub entry (dmul (dsub stop_loss entry) take_profit_r))"

definition estimate_liq_price :: "dec \<Rightarrow> dec \<Rightarrow> position_side \<Rightarrow> dec \<Rightarrow> dec result" where
  "estimate_liq_price entry leverage sd maintenance_margin_rate =
    (let leverage = (if leverage \<le> 0 then 1 else leverage) in
     bind_res (pdiv 1 leverage) (\<lambda>inv.
     Inr (if sd = LONG then dmul entry (dadd (dsub 1 inv) maintenance_margin_rate)
          else dmul entry (dsub (dadd 1 inv) maintenance_margin_rate))))"

definition default_mmr :: dec where "default_mmr = 5 / 1000"

section \<open>Leverage (leverage.py)\<close>

definition max_leverage ::
  "entry_mode \<Rightarrow> dec option \<Rightarrow> int \<Rightarrow> dec \<Rightarrow> risk_section \<Rightarrow> bool \<Rightarrow> dec" where
  "max_leverage em atr_percent consecutive_losses daily_loss_percent c high_quality =
    (let base = (case em of
          PRE_BREAKOUT_SCOUT \<Rightarrow> rk_scout_max_leverage c
        | BREAKOUT_CONFIRM \<Rightarrow> rk_breakout_max_leverage c
        | RETEST_CONFIRM \<Rightarrow> rk_retest_max_leverage c);
         base = (if high_quality then rk_high_quality_max_leverage c else base);
         caps = [of_int base :: dec];
         caps = (case atr_percent of
             None \<Rightarrow> caps
           | Some a \<Rightarrow> if a > rk_high_atr_derisk_threshold_percent c
                then caps @ [of_int (rk_high_atr_max_leverage c)] else caps);
         caps = (if consecutive_losses \<ge> rk_consecutive_loss_derisk_count c
                 then caps @ [of_int (rk_consecutive_loss_max_leverage c)] else caps);
         caps = (if daily_loss_percent \<ge> rk_daily_loss_derisk_percent c
                 then caps @ [of_int (rk_daily_loss_max_leverage c)] else caps)
     in max (of_int (rk_min_leverage c)) (min_list caps))"

definition choose_leverage :: "dec \<Rightarrow> dec \<Rightarrow> dec \<Rightarrow> dec \<Rightarrow> dec result" where
  "choose_leverage notional equity max_lev min_lev =
    (if equity \<le> 0 then Inr min_lev
     else bind_res (pdiv notional equity) (\<lambda>q.
       let needed = of_int \<lceil>q\<rceil> in Inr (max min_lev (min needed max_lev))))"

section \<open>Position sizing (position_sizing.py)\<close>

record sizing_result =
  sz_qty :: dec
  sz_notional :: dec
  sz_stop_distance_percent :: dec
  sz_risk_usdt :: dec

text \<open>A \<open>RiskRejection\<close> is the inner left value, its reason code; any other exception is the outer one.\<close>

definition compute_size ::
  "dec \<Rightarrow> dec \<Rightarrow> dec \<Rightarrow> dec \<Rightarrow> dec \<Rightarrow> dec \<Rightarrow> dec option \<Rightarrow> dec option \<Rightarrow> (string + sizing_result) result" where
  "compute_size equity account_risk_per_trade_percent position_fraction entry_price
      stop_loss qty_step max_notional target_notional =
    (if entry_price \<le> 0 then Inr (Inl ''INVALID_ENTRY_PRICE'')
     else let stop_distance = dabs (dsub entry_price stop_loss) in
     if stop_distance \<le> 0 then Inr (Inl ''ZERO_STOP_DISTANCE'')
     else let base_risk = ddiv (dmul equity account_risk_per_trade_percent) 100;
              mode_risk = dmul base_risk position_fraction
          in
     bind_res (pdiv stop_distance entry_price) (\<lambda>stop_distance_percent.
     bind_res (pdiv mode_risk stop_distance_percent) (\<lambda>notional.
          let notional = (case target_notional of
                  None \<Rightarrow> notional | Some t \<Rightarrow> if t > notional then t else notional);
              notional = (case max_notional of
                  None \<Rightarrow> notional | Some m \<Rightarrow> if notional > m then m else notional)
          in
     bind_res (pdiv notional entry_price) (\<lambda>q.
          let qty = round_qty_down q qty_step;
              notional = dmul qty entry_price;
              risk_usdt = dmul qty stop_distance
          in Inr (Inr \<lparr> sz_qty = qty, sz_notional = notional,
                   sz_stop_distance_percent = stop_distance_percent, sz_risk_usdt = risk_usdt \<rparr>)))))"

section \<open>Approval (risk_manager.py)\<close>

record risk_context =
  rx_equity :: dec
  rx_open_positions :: "position list"
  rx_daily_loss_percent :: dec
  rx_intraday_drawdown_percent :: dec
  rx_consecutive_losses :: int

record risk_decision =
  rd_approved :: bool
  rd_reason :: string
  rd_side :: "position_side option"
  rd_qty :: dec
  rd_leverage :: dec
  rd_notional :: dec
  rd_stop_loss_price :: "dec option"
  rd_take_profit_price :: "dec option"
  rd_liq_price :: "dec option"
  rd_risk_usdt :: dec
  rd_stop_metadata :: "payload option"

definition reject :: "string \<Rightarrow> payload \<Rightarrow> risk_decision" where
  "reject reason meta =
    \<lparr> rd_approved = False, rd_reason = reason, rd_side = None, rd_qty = 0, rd_leverage = 0,
      rd_notional = 0, rd_stop_loss_price = None, rd_take_profit_price = None,
      rd_liq_price = None, rd_risk_usdt = 0, rd_stop_metadata = Some meta \<rparr>"

definition position_risk :: "position \<Rightarrow> dec" where
  "position_risk p = (case p_initial_risk_per_unit p of None \<Rightarrow> 0 | Some r \<Rightarrow> dmul r (p_qty p))"

subsection \<open>The stop\<close>

definition structure_stop_price_of ::
  "app_config \<Rightarrow> entry_decision \<Rightarrow> position_side \<Rightarrow> symbol_meta \<Rightarrow> dec option" where
  "structure_stop_price_of cfg d sd meta =
    (case ed_structure_stop_price d of
       None \<Rightarrow> None
     | Some s \<Rightarrow> if \<not> structure_stop_enabled cfg (ed_entry_mode d) then None
         else Some (round_stop_to_tick s sd (sm_tick_size meta)))"

definition select_stop :: "position_side \<Rightarrow> dec \<Rightarrow> dec option \<Rightarrow> dec" where
  "select_stop sd atr_stop structure_stop =
    (case structure_stop of
       None \<Rightarrow> atr_stop
     | Some s \<Rightarrow> if sd = LONG then min atr_stop s else max atr_stop s)"

definition min_stop_distance_percent :: "app_config \<Rightarrow> entry_mode \<Rightarrow> dec" where
  "min_stop_distance_percent cfg em =
    (let global_min = rk_min_stop_distance_percent (cfg_risk cfg) in
     case em of
       PRE_BREAKOUT_SCOUT \<Rightarrow>
         max global_min (pb_min_stop_distance_percent (en_pre_breakout (cfg_entry cfg)))
     | BREAKOUT_CONFIRM \<Rightarrow> max global_min (rk_breakout_min_stop_distance_percent (cfg_risk cfg))
     | RETEST_CONFIRM \<Rightarrow> max global_min (rk_retest_min_stop_distance_percent (cfg_risk cfg)))"

definition min_stop_distance_atr :: "app_config \<Rightarrow> entry_mode \<Rightarrow> dec" where
  "min_stop_distance_atr cfg em =
    (if em = PRE_BREAKOUT_SCOUT then pb_min_stop_distance_atr (en_pre_breakout (cfg_entry cfg))
     else 0)"

definition offset_stop :: "dec \<Rightarrow> dec \<Rightarrow> position_side \<Rightarrow> dec" where
  "offset_stop entry_price offset sd =
    (if sd = LONG then dsub entry_price offset else dadd entry_price offset)"

definition min_distance_stop_price ::
  "app_config \<Rightarrow> entry_mode \<Rightarrow> dec \<Rightarrow> dec \<Rightarrow> position_side \<Rightarrow> symbol_meta \<Rightarrow> dec option" where
  "min_distance_stop_price cfg em entry_price atr sd meta =
    (let min_percent = min_stop_distance_percent cfg em;
         c1 = (if min_percent > 0
               then [round_stop_to_tick
                      (offset_stop entry_price (ddiv (dmul entry_price min_percent) 100) sd)
                      sd (sm_tick_size meta)]
               else []);
         min_atr = min_stop_distance_atr cfg em;
         c2 = (if min_atr > 0
               then [round_stop_to_tick (offset_stop entry_price (dmul atr min_atr) sd)
                      sd (sm_tick_size meta)]
               else []);
         candidates = c1 @ c2
     in case candidates of
          [] \<Rightarrow> None
        | stop # rest \<Rightarrow> Some (foldl (\<lambda>s c. select_stop sd s (Some c)) stop rest))"

definition max_stop_distance_atr_of :: "app_config \<Rightarrow> entry_mode \<Rightarrow> dec" where
  "max_stop_distance_atr_of cfg em =
    (case em of
       PRE_BREAKOUT_SCOUT \<Rightarrow> rk_scout_max_stop_distance_atr (cfg_risk cfg)
     | RETEST_CONFIRM \<Rightarrow>
         let limit = rk_retest_max_stop_distance_atr (cfg_risk cfg) in
         if structure_stop_enabled cfg em
         then min limit (st_max_stop_distance_atr (cfg_structure_stop cfg)) else limit
     | BREAKOUT_CONFIRM \<Rightarrow> rk_max_stop_distance_atr (cfg_risk cfg))"

definition atr_percent_of :: "dec \<Rightarrow> dec \<Rightarrow> dec result" where
  "atr_percent_of atr price =
    (if price > 0 then bind_res (pdiv atr price) (\<lambda>r. Inr (dmul r 100)) else Inr 0)"

definition with_stop_metadata ::
  "app_config \<Rightarrow> entry_decision \<Rightarrow> position_side \<Rightarrow> dec \<Rightarrow> dec \<Rightarrow> dec \<Rightarrow> dec option \<Rightarrow> dec option \<Rightarrow>
   dec \<Rightarrow> dec \<Rightarrow> payload \<Rightarrow> payload result" where
  "with_stop_metadata cfg d sd entry_price atr atr_stop structure_stop min_distance_stop
      stop_before_min_distance selected_stop metadata =
    bind_res (pdiv (dabs (dsub entry_price selected_stop)) atr) (\<lambda>stop_distance_atr.
    bind_res (pdiv (dabs (dsub entry_price selected_stop)) entry_price) (\<lambda>r.
    bind_res (atr_percent_of atr entry_price) (\<lambda>atr_percent.
     let stop_distance_percent = dmul r 100;
         em = ed_entry_mode d
     in Inr (drop_none (dict_update metadata
          [(''entry_mode'', PStr (entry_mode_value em)),
           (''symbol'', PStr (ed_symbol d)),
           (''side'', PStr (position_side_value sd)),
           (''atr_percent_1m'', PDec atr_percent),
           (''resolved_stop_atr'', PDec (ed_stop_atr d)),
           (''atr_stop_price'', PDec atr_stop),
           (''structure_stop_enabled'', PBool (structure_stop_enabled cfg em)),
           (''structure_stop_price'', opt_dec structure_stop),
           (''min_stop_distance_percent'', PDec (min_stop_distance_percent cfg em)),
           (''min_stop_distance_atr'', PDec (min_stop_distance_atr cfg em)),
           (''min_distance_stop_price'', opt_dec min_distance_stop),
           (''min_distance_stop_applied'',
              case min_distance_stop of None \<Rightarrow> PNone
              | Some _ \<Rightarrow> PBool (selected_stop \<noteq> stop_before_min_distance)),
           (''selected_stop_price'', PDec selected_stop),
           (''stop_distance_atr'', PDec stop_distance_atr),
           (''stop_distance_percent'', PDec stop_distance_percent)])))))"

subsection \<open>The size targets\<close>

definition is_high_quality :: "app_config \<Rightarrow> entry_decision \<Rightarrow> bool" where
  "is_high_quality cfg d =
    (let c = rk_target_notional_percent (cfg_risk cfg) in
     if \<not> tn_enabled c then False else ed_score d \<ge> tn_high_quality_min_score c)"

definition target_notional_percent :: "app_config \<Rightarrow> entry_decision \<Rightarrow> bool \<Rightarrow> dec option" where
  "target_notional_percent cfg d high_quality =
    (let c = rk_target_notional_percent (cfg_risk cfg) in
     if \<not> tn_enabled c then None
     else let value = (case ed_entry_mode d of
               PRE_BREAKOUT_SCOUT \<Rightarrow>
                 if ed_has_compression d = Some True then tn_scout_compression c
                 else tn_scout_no_compression c
             | BREAKOUT_CONFIRM \<Rightarrow> tn_breakout_confirm c
             | RETEST_CONFIRM \<Rightarrow> tn_retest_confirm c);
              percent = (if high_quality then max value (tn_high_quality c) else value)
          in if percent > 0 then Some percent else None)"

definition thin_stop_leverage_cap :: "app_config \<Rightarrow> dec \<Rightarrow> dec option" where
  "thin_stop_leverage_cap cfg stop_distance_percent =
    (let threshold = rk_thin_stop_distance_percent (cfg_risk cfg);
         cap = of_int (rk_thin_stop_max_leverage (cfg_risk cfg))
     in if threshold \<le> 0 \<or> cap \<le> 0 then None
        else if stop_distance_percent \<le> threshold then Some cap else None)"

definition risk_based_notional :: "dec \<Rightarrow> dec \<Rightarrow> dec \<Rightarrow> dec \<Rightarrow> dec \<Rightarrow> dec result" where
  "risk_based_notional equity risk_percent position_fraction entry_price stop_loss =
    bind_res (pdiv (dabs (dsub entry_price stop_loss)) entry_price) (\<lambda>stop_distance_percent.
     if stop_distance_percent \<le> 0 then Inr 0
     else let mode_risk = dmul (ddiv (dmul equity risk_percent) 100) position_fraction
          in pdiv mode_risk stop_distance_percent)"

definition liq_inside_stop :: "position_side \<Rightarrow> dec \<Rightarrow> dec \<Rightarrow> bool" where
  "liq_inside_stop sd liq stop = (if sd = LONG then liq \<ge> stop else liq \<le> stop)"


subsection \<open>The approval\<close>

text \<open>\<open>approve\<close> in three stages, as its comments divide it: the stop and the account limits, the
  leverage cap and the size, the exposure limits with the liquidation guard.\<close>

definition approve_exposure ::
  "app_config \<Rightarrow> position_side \<Rightarrow> dec \<Rightarrow> dec \<Rightarrow> dec \<Rightarrow> dec \<Rightarrow> sizing_result \<Rightarrow> symbol_meta \<Rightarrow>
   risk_context \<Rightarrow> payload \<Rightarrow> risk_decision result" where
  "approve_exposure cfg sd entry_price atr stop lev_cap sizing meta ctx stop_metadata =
    (let risk = cfg_risk cfg in
     if \<not> meets_min_qty (sz_qty sizing) meta then Inr (reject ''BELOW_MIN_QTY'' stop_metadata)
     else if \<not> meets_min_notional (sz_qty sizing) entry_price meta
     then Inr (reject ''BELOW_MIN_NOTIONAL'' stop_metadata)
     else bind_res (pdiv (sz_risk_usdt sizing) (rx_equity ctx)) (\<lambda>r.
       let symbol_risk_pct = dmul r 100 in
       if symbol_risk_pct > rk_max_symbol_risk_percent risk
       then Inr (reject ''SYMBOL_RISK_EXCEEDED'' stop_metadata)
       else let total_risk = dsum (map position_risk (rx_open_positions ctx)) in
       bind_res (pdiv (dadd total_risk (sz_risk_usdt sizing)) (rx_equity ctx)) (\<lambda>t.
         let total_risk_pct = dmul t 100 in
         if total_risk_pct > rk_max_total_open_risk_percent risk
         then Inr (reject ''TOTAL_RISK_EXCEEDED'' stop_metadata)
         else
       bind_res (choose_leverage (sz_notional sizing) (rx_equity ctx) lev_cap (of_int (rk_min_leverage risk))) (\<lambda>leverage.
       bind_res (estimate_liq_price entry_price leverage sd default_mmr) (\<lambda>liq.
         let guard = cfg_liquidation_guard cfg; liq_distance = dabs (dsub liq entry_price) in
       bind_res (pdiv liq_distance entry_price) (\<lambda>lp.
         if dmul lp 100 < lg_min_liquidation_distance_percent guard
         then Inr (reject ''LIQ_TOO_CLOSE_PCT'' stop_metadata)
         else
       bind_res (pdiv liq_distance atr) (\<lambda>la.
         if la < lg_min_liquidation_distance_atr guard
         then Inr (reject ''LIQ_TOO_CLOSE_ATR'' stop_metadata)
         else if lg_block_if_liq_price_inside_stop guard \<and> liq_inside_stop sd liq stop
         then Inr (reject ''LIQ_INSIDE_STOP'' stop_metadata)
         else let take_profit = round_price_to_tick
                    (take_profit_price entry_price stop sd (tp_initial_take_profit_r (cfg_tpsl cfg)))
                    (sm_tick_size meta)
              in Inr \<lparr> rd_approved = True, rd_reason = [], rd_side = Some sd,
                   rd_qty = sz_qty sizing, rd_leverage = leverage,
                   rd_notional = sz_notional sizing, rd_stop_loss_price = Some stop,
                   rd_take_profit_price = Some take_profit, rd_liq_price = Some liq,
                   rd_risk_usdt = sz_risk_usdt sizing, rd_stop_metadata = Some stop_metadata \<rparr>)))))))"

definition approve_size ::
  "app_config \<Rightarrow> entry_decision \<Rightarrow> position_side \<Rightarrow> dec \<Rightarrow> dec \<Rightarrow> dec \<Rightarrow> symbol_meta \<Rightarrow>
   risk_context \<Rightarrow> payload \<Rightarrow> risk_decision result" where
  "approve_size cfg d sd entry_price atr stop meta ctx stop_metadata =
    (let risk = cfg_risk cfg;
         high_quality = is_high_quality cfg d;
         stop_metadata = dict_set ''high_quality'' (PBool high_quality) stop_metadata
     in
     bind_res (pdiv (dabs (dsub entry_price stop)) entry_price) (\<lambda>r.
     bind_res (atr_percent_of atr entry_price) (\<lambda>atr_percent.
     let stop_distance_percent = dmul r 100;
         lev_cap = max_leverage (ed_entry_mode d) (Some atr_percent)
           (rx_consecutive_losses ctx) (rx_daily_loss_percent ctx) risk high_quality;
         thin_stop_cap = thin_stop_leverage_cap cfg stop_distance_percent;
         lev_cap = (case thin_stop_cap of None \<Rightarrow> lev_cap | Some c \<Rightarrow> min lev_cap c);
         stop_metadata = (case thin_stop_cap of
             None \<Rightarrow> dict_set ''thin_stop_leverage_cap_applied'' (PBool False) stop_metadata
           | Some c \<Rightarrow> dict_update stop_metadata
               [(''thin_stop_leverage_cap_applied'', PBool True),
                (''thin_stop_distance_percent'', PDec (rk_thin_stop_distance_percent risk)),
                (''thin_stop_max_leverage'', PInt (rk_thin_stop_max_leverage risk))]);
         max_notional = dmul (rx_equity ctx) lev_cap;
         tn_percent = target_notional_percent cfg d high_quality;
         target_notional = map_option (\<lambda>p. ddiv (dmul (rx_equity ctx) p) 100) tn_percent
     in
     bind_res (risk_based_notional (rx_equity ctx) (rk_account_risk_per_trade_percent risk)
         (ed_position_fraction d) entry_price stop) (\<lambda>risk_notional.
     bind_res (compute_size (rx_equity ctx) (rk_account_risk_per_trade_percent risk)
         (ed_position_fraction d) entry_price stop (sm_qty_step meta)
         (Some max_notional) target_notional) (\<lambda>sized.
       case sized of
          Inl reason \<Rightarrow> Inr (reject reason stop_metadata)
        | Inr sizing \<Rightarrow>
            let stop_metadata = (case target_notional of None \<Rightarrow> stop_metadata
              | Some t \<Rightarrow> dict_update stop_metadata
                  [(''target_notional_percent'', opt_dec tn_percent),
                   (''target_notional'', PDec t),
                   (''risk_based_notional'', PDec risk_notional),
                   (''target_notional_applied'', PBool (t > risk_notional))])
            in approve_exposure cfg sd entry_price atr stop lev_cap sizing meta ctx stop_metadata)))))"

definition side_of_direction :: "signal_direction \<Rightarrow> position_side" where
  "side_of_direction dir = (if dir = SIG_LONG then LONG else SHORT)"

text \<open>The stops of an approval: by ATR, by structure, their choice, by minimum distance, and the
  one that is used.\<close>

definition atr_stop_of ::
  "entry_decision \<Rightarrow> position_side \<Rightarrow> dec \<Rightarrow> dec \<Rightarrow> symbol_meta \<Rightarrow> dec" where
  "atr_stop_of d sd entry_price atr meta =
    round_stop_to_tick (stop_loss_price entry_price atr (ed_stop_atr d) sd) sd (sm_tick_size meta)"

definition base_stop_of ::
  "app_config \<Rightarrow> entry_decision \<Rightarrow> position_side \<Rightarrow> dec \<Rightarrow> dec \<Rightarrow> symbol_meta \<Rightarrow> dec" where
  "base_stop_of cfg d sd entry_price atr meta =
    select_stop sd (atr_stop_of d sd entry_price atr meta) (structure_stop_price_of cfg d sd meta)"

definition stop_of ::
  "app_config \<Rightarrow> entry_decision \<Rightarrow> position_side \<Rightarrow> dec \<Rightarrow> dec \<Rightarrow> symbol_meta \<Rightarrow> dec" where
  "stop_of cfg d sd entry_price atr meta =
    select_stop sd (base_stop_of cfg d sd entry_price atr meta)
      (min_distance_stop_price cfg (ed_entry_mode d) entry_price atr sd meta)"

definition approve ::
  "app_config \<Rightarrow> entry_decision \<Rightarrow> dec \<Rightarrow> dec \<Rightarrow> symbol_meta \<Rightarrow> risk_context \<Rightarrow>
   risk_decision result" where
  "approve cfg d entry_price atr meta ctx =
    (let risk = cfg_risk cfg;
         sd = side_of_direction (ed_direction d);
         stop_metadata = (case ed_stop_metadata d of None \<Rightarrow> [] | Some m \<Rightarrow> m)
     in
     if atr \<le> 0 \<or> entry_price \<le> 0 then Inr (reject ''INVALID_MARKET_DATA'' stop_metadata)
     else let
         atr_stop = atr_stop_of d sd entry_price atr meta;
         structure_stop = structure_stop_price_of cfg d sd meta;
         selected_stop = base_stop_of cfg d sd entry_price atr meta;
         min_distance_stop = min_distance_stop_price cfg (ed_entry_mode d) entry_price atr sd meta;
         stop = stop_of cfg d sd entry_price atr meta;
         max_distance = max_stop_distance_atr_of cfg (ed_entry_mode d)
     in
     bind_res (with_stop_metadata cfg d sd entry_price atr atr_stop structure_stop
         min_distance_stop selected_stop stop stop_metadata) (\<lambda>stop_metadata.
     bind_res (pdiv (dabs (dsub entry_price stop)) atr) (\<lambda>stop_distance_atr.
     if stop_distance_atr < rk_min_stop_distance_atr risk
     then Inr (reject ''STOP_DISTANCE_TOO_NARROW''
       (dict_set ''risk_reject_reason'' (PStr ''STOP_DISTANCE_TOO_NARROW'') stop_metadata))
     else if stop_distance_atr > max_distance
     then Inr (reject ''STOP_DISTANCE_TOO_WIDE''
       (dict_set ''risk_reject_reason'' (PStr ''STOP_DISTANCE_TOO_WIDE'') stop_metadata))
     else if rx_daily_loss_percent ctx \<ge> rk_daily_max_loss_percent risk
     then Inr (reject ''DAILY_LOSS_LIMIT'' stop_metadata)
     else if rx_intraday_drawdown_percent ctx \<ge> rk_intraday_drawdown_percent risk
     then Inr (reject ''INTRADAY_DRAWDOWN'' stop_metadata)
     else if int (length (rx_open_positions ctx)) \<ge> cb_max_active_positions (cfg_bot cfg)
     then Inr (reject ''MAX_POSITIONS'' stop_metadata)
     else if list_ex (\<lambda>p. p_symbol p = ed_symbol d) (rx_open_positions ctx)
     then Inr (reject ''SYMBOL_ALREADY_OPEN'' stop_metadata)
     else if int (length (filter (\<lambda>p. p_side p = sd) (rx_open_positions ctx)))
               \<ge> rk_max_same_direction_positions risk
     then Inr (reject ''MAX_SAME_DIRECTION'' stop_metadata)
     else approve_size cfg d sd entry_price atr stop meta ctx stop_metadata)))"


section \<open>Sizing\<close>

lemma compute_size_Inr:
  assumes "compute_size eqy pct fr entry stop step mx tg = Inr (Inr sz)"
  obtains n where "0 < entry" and "stop \<noteq> entry"
    and "sz_qty sz = round_qty_down (ddiv n entry) step"
    and "sz_notional sz = dmul (sz_qty sz) entry"
    and "sz_risk_usdt sz = dmul (sz_qty sz) (dabs (dsub entry stop))"
    and "\<And>m. mx = Some m \<Longrightarrow> n \<le> m"
    and "tg = None \<Longrightarrow> n \<le> ddiv (dmul (ddiv (dmul eqy pct) 100) fr) (ddiv (dabs (dsub entry stop)) entry)"
proof -
  let ?n0 = "ddiv (dmul (ddiv (dmul eqy pct) 100) fr) (ddiv (dabs (dsub entry stop)) entry)"
  let ?n1 = "case tg of None \<Rightarrow> ?n0 | Some t \<Rightarrow> if t > ?n0 then t else ?n0"
  let ?n2 = "case mx of None \<Rightarrow> ?n1 | Some m \<Rightarrow> if ?n1 > m then m else ?n1"
  have "0 < entry" "stop \<noteq> entry"
    using assms by (auto simp: compute_size_def Let_def pdiv_def bind_res_eq_Inr split: if_splits)
  moreover have "sz_qty sz = round_qty_down (ddiv ?n2 entry) step"
    "sz_notional sz = dmul (sz_qty sz) entry"
    "sz_risk_usdt sz = dmul (sz_qty sz) (dabs (dsub entry stop))"
    using assms by (auto simp: compute_size_def Let_def pdiv_def bind_res_eq_Inr split: if_splits)
  moreover have "mx = Some m \<Longrightarrow> ?n2 \<le> m" for m by simp
  moreover have "tg = None \<Longrightarrow> ?n2 \<le> ?n0" by (simp split: option.split)
  ultimately show ?thesis by (intro that [of ?n2])
qed

lemma round_qty_down_zero [simp]: "round_qty_down 0 step = 0"
  by (simp add: round_qty_down_def ddiv_def dmul_def)

lemma round_qty_down_nonpos: "q \<le> 0 \<Longrightarrow> round_qty_down q step \<le> 0"
proof (cases "step \<le> 0")
  case False
  assume q: "q \<le> 0"
  then have "ddiv q step \<le> 0" using False by (simp add: ddiv_def divide_nonpos_pos)
  then have "to_integral_value ROUND_DOWN (ddiv q step) \<le> 0"
    by (cases "ddiv q step = 0") (simp_all add: ceiling_le_iff)
  then have "of_int (to_integral_value ROUND_DOWN (ddiv q step)) \<le> (0 :: rat)"
    by (simp only: of_int_le_0_iff)
  then show ?thesis using False
    by (simp add: round_qty_down_def dmul_def mult_nonpos_nonneg del: to_integral_value.simps)
qed (simp add: round_qty_down_def)

lemma compute_size_zero_equity:
  assumes "compute_size 0 pct fr entry stop step (Some (dmul 0 cap)) (map_option (\<lambda>p. ddiv (dmul 0 p) 100) t) = Inr (Inr sz)"
  shows "sz_qty sz \<le> 0"
proof -
  from assms obtain n where q: "sz_qty sz = round_qty_down (ddiv n entry) step" and e: "0 < entry"
    and n: "n \<le> dmul 0 cap"
    by (rule compute_size_Inr) auto
  have "n \<le> 0" using n by (simp add: dmul_def)
  then have "ddiv n entry \<le> 0" using e by (simp add: ddiv_def divide_nonpos_pos)
  then show ?thesis unfolding q by (rule round_qty_down_nonpos)
qed

text \<open>Two roundings of a quotient and a product lose a bounded factor.\<close>

definition size_eps :: rat where "size_eps = 1 / 100000000000000000000000000"

lemma size_eps_bound:
  "(1 + ulp) * (1 + ulp) * (1 + ulp) * (1 + snap_eps) \<le> (1 + size_eps) * (1 - ulp)"
  by (simp add: size_eps_def ulp_def snap_eps_def prec_lo_def)

lemma round_qty_down_le: "0 \<le> q \<Longrightarrow> round_qty_down q step \<le> q * (1 + snap_eps)"
  using qty_down.snap_le [of q step] ulp_facts(5)
  by (cases "0 < step")
    (simp_all add: round_qty_down_snap snap_def round_qty_down_def mult_le_cancel_left1 algebra_simps
      del: to_integral_value.simps)

lemma dround_rel_le: "0 \<le> x \<Longrightarrow> x \<le> b \<Longrightarrow> dround x \<le> b * (1 + ulp)"
  using dround_rel [of x] mult_right_mono [of x b "1 + ulp"] ulp_facts(1) by linarith

text \<open>A trade sized from the risk budget risks the budget: the loss at the stop, quantity
  times stop distance, is at most \<open>equity * risk% / 100 * fraction\<close>, up to one part in
  \<open>10 ^ 26\<close> for the seven roundings on the way, whatever the leverage cap is.\<close>

theorem compute_size_within_budget:
  assumes "compute_size eqy pct fr entry stop step mx None = Inr (Inr sz)" and "0 < sz_qty sz"
    and "0 \<le> eqy" "0 \<le> pct" "0 \<le> fr"
  shows "sz_risk_usdt sz \<le> dmul (ddiv (dmul eqy pct) 100) fr * (1 + size_eps)"
proof -
  let ?a = "dmul (ddiv (dmul eqy pct) 100) fr" and ?d = "dabs (dsub entry stop)"
  from assms(1) obtain n where e: "0 < entry" and s: "stop \<noteq> entry"
    and q: "sz_qty sz = round_qty_down (ddiv n entry) step"
    and r: "sz_risk_usdt sz = dmul (sz_qty sz) ?d"
    and n: "n \<le> ddiv ?a (ddiv ?d entry)"
    by (rule compute_size_Inr) auto
  have a: "0 \<le> ?a" using assms(3-5) by (intro dmul_nonneg ddiv_nonneg) simp_all
  have d: "0 < ?d" using s by simp
  let ?r = "ddiv ?d entry"
  have rpos: "0 < ?r" using d e by (rule ddiv_pos)
  have r_lo: "?d / entry * (1 - ulp) \<le> ?r"
    unfolding ddiv_def using dround_rel [of "?d / entry"] d e by simp
  have n0: "0 \<le> n"
  proof (rule ccontr)
    assume "\<not> 0 \<le> n"
    then have "ddiv n entry \<le> 0" using e by (simp add: ddiv_def divide_nonpos_pos)
    then have "sz_qty sz \<le> 0" unfolding q by (rule round_qty_down_nonpos)
    then show False using assms(2) by simp
  qed
  have "n * ?r \<le> ?a * (1 + ulp)"
  proof -
    have "n \<le> ?a / ?r * (1 + ulp)"
      using n dround_rel [of "?a / ?r"] a rpos unfolding ddiv_def [of ?a] by fastforce
    then show ?thesis using rpos by (simp add: field_simps)
  qed
  moreover have "n * (?d / entry * (1 - ulp)) \<le> n * ?r" using r_lo n0 by (rule mult_left_mono)
  ultimately have nd: "n / entry * ?d * (1 - ulp) \<le> ?a * (1 + ulp)" by simp
  have x: "ddiv n entry \<le> n / entry * (1 + ulp)"
    unfolding ddiv_def using dround_rel [of "n / entry"] n0 e by simp
  have x0: "0 \<le> ddiv n entry" using n0 e by (rule ddiv_nonneg)
  have "sz_qty sz \<le> n / entry * (1 + ulp) * (1 + snap_eps)"
    using round_qty_down_le [OF x0, of step] mult_right_mono [OF x, of "1 + snap_eps"] ulp_facts(5) q
    by linarith
  then have "sz_qty sz * ?d \<le> n / entry * (1 + ulp) * (1 + snap_eps) * ?d"
    using d by (intro mult_right_mono) simp_all
  then have "sz_risk_usdt sz \<le> n / entry * (1 + ulp) * (1 + snap_eps) * ?d * (1 + ulp)"
    unfolding r dmul_def using assms(2) d by (intro dround_rel_le) simp_all
  then have "sz_risk_usdt sz * (1 - ulp)
      \<le> n / entry * (1 + ulp) * (1 + snap_eps) * ?d * (1 + ulp) * (1 - ulp)"
    using ulp_facts(4) by (intro mult_right_mono) simp_all
  also have "\<dots> = n / entry * ?d * (1 - ulp) * ((1 + ulp) * (1 + ulp) * (1 + snap_eps))" by simp
  also have "\<dots> \<le> ?a * (1 + ulp) * ((1 + ulp) * (1 + ulp) * (1 + snap_eps))"
    using nd ulp_facts(1,5) by (intro mult_right_mono) simp_all
  also have "\<dots> = ?a * ((1 + ulp) * (1 + ulp) * (1 + ulp) * (1 + snap_eps))" by simp
  also have "\<dots> \<le> ?a * ((1 + size_eps) * (1 - ulp))"
    using size_eps_bound a by (rule mult_left_mono)
  finally have "sz_risk_usdt sz * (1 - ulp) \<le> ?a * (1 + size_eps) * (1 - ulp)" by simp
  then show ?thesis using ulp_facts(4) by (simp add: mult_le_cancel_right)
qed

lemma compute_size_within_budget_witness:
  "\<exists>sz. compute_size 10000 2 (1 / 2) 100 98 (1 / 10) None None = Inr (Inr sz) \<and> sz_qty sz = 50 \<and>
     sz_risk_usdt sz \<le> 100 * (1 + size_eps)"
proof -
  let ?sz = "\<lparr> sz_qty = 50, sz_notional = 5000, sz_stop_distance_percent = 1 / 50, sz_risk_usdt = 100 \<rparr>"
  have e: "compute_size 10000 2 (1 / 2) 100 98 (1 / 10) None None = Inr (Inr ?sz)"
    by (simp add: compute_size_def dec_eval round_qty_down_def)
  have "dmul (ddiv (dmul 10000 2) 100) (1 / 2) = 100" by (simp add: dec_eval)
  with compute_size_within_budget [OF e] e show ?thesis by simp
qed

section \<open>Leverage\<close>

lemma min_list_le: "x \<in> set xs \<Longrightarrow> min_list xs \<le> (x :: 'a :: linorder)"
  using min_list_Min [of xs] by (cases "xs = []") simp_all

definition mode_cap :: "risk_section \<Rightarrow> entry_mode \<Rightarrow> bool \<Rightarrow> dec" where
  "mode_cap c em hq = of_int (if hq then rk_high_quality_max_leverage c else case em of
       PRE_BREAKOUT_SCOUT \<Rightarrow> rk_scout_max_leverage c
     | BREAKOUT_CONFIRM \<Rightarrow> rk_breakout_max_leverage c
     | RETEST_CONFIRM \<Rightarrow> rk_retest_max_leverage c)"

lemma max_leverage_bounds:
  "of_int (rk_min_leverage c) \<le> max_leverage em ap losses loss c hq \<and>
   max_leverage em ap losses loss c hq \<le> max (of_int (rk_min_leverage c)) (mode_cap c em hq)"
  unfolding max_leverage_def Let_def mode_cap_def
  by (intro conjI max.mono order_refl min_list_le) (auto split: option.split)

lemma max_leverage_derisk:
  "ap = Some a \<Longrightarrow> a > rk_high_atr_derisk_threshold_percent c \<Longrightarrow>
    max_leverage em ap losses loss c hq \<le> max (of_int (rk_min_leverage c)) (of_int (rk_high_atr_max_leverage c))"
  "losses \<ge> rk_consecutive_loss_derisk_count c \<Longrightarrow>
    max_leverage em ap losses loss c hq \<le> max (of_int (rk_min_leverage c)) (of_int (rk_consecutive_loss_max_leverage c))"
  "loss \<ge> rk_daily_loss_derisk_percent c \<Longrightarrow>
    max_leverage em ap losses loss c hq \<le> max (of_int (rk_min_leverage c)) (of_int (rk_daily_loss_max_leverage c))"
  unfolding max_leverage_def Let_def
  by (intro max.mono order_refl min_list_le; auto split: option.split)+

text \<open>The leverage cap obeys every rule that applies: it is never above the cap of the
  entry mode, the volatility, the losing streak or the daily loss, unless the configured
  minimum itself is.\<close>

theorem max_leverage_caps:
  "let m = max_leverage em ap losses loss c hq; lo = of_int (rk_min_leverage c) in
    lo \<le> m \<and> m \<le> max lo (mode_cap c em hq) \<and>
    ((\<exists>a. ap = Some a \<and> a > rk_high_atr_derisk_threshold_percent c) \<longrightarrow>
       m \<le> max lo (of_int (rk_high_atr_max_leverage c))) \<and>
    (losses \<ge> rk_consecutive_loss_derisk_count c \<longrightarrow>
       m \<le> max lo (of_int (rk_consecutive_loss_max_leverage c))) \<and>
    (loss \<ge> rk_daily_loss_derisk_percent c \<longrightarrow>
       m \<le> max lo (of_int (rk_daily_loss_max_leverage c)))"
  unfolding Let_def
  by (intro conjI impI max_leverage_bounds [THEN conjunct1] max_leverage_bounds [THEN conjunct2];
      (elim exE conjE)?; rule max_leverage_derisk; assumption)

lemma max_leverage_caps_witness:
  "max_leverage RETEST_CONFIRM (Some 4) 2 1 default_risk_section False \<le> 3"
  using max_leverage_caps [of RETEST_CONFIRM "Some 4" 2 1 default_risk_section False]
  by (simp add: default_risk_section_def Let_def)

text \<open>The three helpers test their divisor themselves; what they return.\<close>

definition leverage_for :: "dec \<Rightarrow> dec \<Rightarrow> dec \<Rightarrow> dec \<Rightarrow> dec" where
  "leverage_for notional equity max_lev min_lev =
    (if equity \<le> 0 then min_lev else max min_lev (min (of_int \<lceil>ddiv notional equity\<rceil>) max_lev))"

definition liq_price_for :: "dec \<Rightarrow> dec \<Rightarrow> position_side \<Rightarrow> dec \<Rightarrow> dec" where
  "liq_price_for entry leverage sd mmr =
    (let inv = ddiv 1 (if leverage \<le> 0 then 1 else leverage) in
     if sd = LONG then dmul entry (dadd (dsub 1 inv) mmr) else dmul entry (dsub (dadd 1 inv) mmr))"

definition atr_percent_for :: "dec \<Rightarrow> dec \<Rightarrow> dec" where
  "atr_percent_for atr price = (if price > 0 then dmul (ddiv atr price) 100 else 0)"

lemma helpers_return [simp]:
  "choose_leverage n e mx mn = Inr (leverage_for n e mx mn)"
  "estimate_liq_price entry lev sd mmr = Inr (liq_price_for entry lev sd mmr)"
  "atr_percent_of atr price = Inr (atr_percent_for atr price)"
  by (simp_all add: choose_leverage_def leverage_for_def estimate_liq_price_def liq_price_for_def
      atr_percent_of_def atr_percent_for_def pdiv_def Let_def)

lemma leverage_for_bounds:
  "min_lev \<le> max_lev \<Longrightarrow> min_lev \<le> leverage_for n e max_lev min_lev \<and> leverage_for n e max_lev min_lev \<le> max_lev"
  by (simp add: leverage_for_def)

end
