(* ===== verification/Candle_Metrics.thy ===== *)
theory Candle_Metrics
  imports Domain
begin

text \<open>
  Candle geometry and short-window helpers (\<^verbatim>\<open>packages/entry/candle_metrics.py\<close>): the
  wick and body ratios of one candle, the cumulative move, the mean true range and the
  counters of rising lows and falling highs.
\<close>

record candle_metrics =
  mt_candle_range :: dec
  mt_body :: dec
  mt_upper_wick :: dec
  mt_lower_wick :: dec
  mt_body_ratio :: dec
  mt_upper_wick_ratio :: dec
  mt_lower_wick_ratio :: dec
  mt_close_position_in_range :: dec
  mt_valid :: bool

definition metrics_of :: "candle \<Rightarrow> candle_metrics" where
  "metrics_of c =
    (let rng = dsub (cd_high c) (cd_low c) in
     if rng \<le> 0
     then \<lparr> mt_candle_range = rng, mt_body = 0, mt_upper_wick = 0, mt_lower_wick = 0,
            mt_body_ratio = 0, mt_upper_wick_ratio = 0, mt_lower_wick_ratio = 0,
            mt_close_position_in_range = 0, mt_valid = False \<rparr>
     else
       let body = dabs (dsub (cd_close c) (cd_open c));
           upper = dsub (cd_high c) (max (cd_open c) (cd_close c));
           lower = dsub (min (cd_open c) (cd_close c)) (cd_low c)
       in \<lparr> mt_candle_range = rng, mt_body = body, mt_upper_wick = upper, mt_lower_wick = lower,
            mt_body_ratio = ddiv body rng, mt_upper_wick_ratio = ddiv upper rng,
            mt_lower_wick_ratio = ddiv lower rng,
            mt_close_position_in_range = ddiv (dsub (cd_close c) (cd_low c)) rng,
            mt_valid = True \<rparr>)"

text \<open>The slice \<open>xs[-w:]\<close> for any integer \<open>w\<close>; for \<open>w \<le> 0\<close> Python counts from the front.\<close>

definition py_tail :: "int \<Rightarrow> 'a list \<Rightarrow> 'a list" where
  "py_tail w xs = (if w \<le> 0 then drop (nat (- w)) xs else last_n (nat w) xs)"

text \<open>\<open>candles[-1].close - candles[-n].open\<close>.\<close>

definition cumulative_move :: "candle list \<Rightarrow> int \<Rightarrow> dec option" where
  "cumulative_move cs n =
    (if int (length cs) < n \<or> n \<le> 0 then None
     else Some (dsub (cd_close (last cs)) (cd_open (cs ! (length cs - nat n)))))"

definition true_range :: "candle \<Rightarrow> candle \<Rightarrow> dec" where
  "true_range prv cur =
    max (max (dsub (cd_high cur) (cd_low cur)) (dabs (dsub (cd_high cur) (cd_close prv))))
      (dabs (dsub (cd_low cur) (cd_close prv)))"

definition avg_true_range :: "candle list \<Rightarrow> int \<Rightarrow> dec option" where
  "avg_true_range cs window =
    (if int (length cs) < window + 1 \<or> window \<le> 0 then None
     else
       let pairs = last_n (nat window) (adjacent cs);
           trs = map (\<lambda>(p, c). true_range p c) pairs
       in Some (ddiv (dsum trs) (of_int window)))"

definition count_rising_lows :: "candle list \<Rightarrow> int \<Rightarrow> int" where
  "count_rising_lows cs window =
    (let lows = map cd_low (py_tail window cs)
     in int (length (filter (\<lambda>(a, b). a < b) (adjacent lows))))"

definition count_falling_highs :: "candle list \<Rightarrow> int \<Rightarrow> int" where
  "count_falling_highs cs window =
    (let highs = map cd_high (py_tail window cs)
     in int (length (filter (\<lambda>(a, b). b < a) (adjacent highs))))"

section \<open>Bounds\<close>

text \<open>A well-formed candle: open and close inside the range, all prices representable.\<close>

definition candle_ok :: "candle \<Rightarrow> bool" where
  "candle_ok c \<longleftrightarrow> cd_low c \<le> cd_open c \<and> cd_open c \<le> cd_high c \<and>
    cd_low c \<le> cd_close c \<and> cd_close c \<le> cd_high c"

lemma metrics_valid [simp]: "mt_valid (metrics_of c) \<longleftrightarrow> cd_low c < cd_high c"
  by (simp add: metrics_of_def Let_def)

lemma ddiv_dsub_unit:
  "0 \<le> a \<Longrightarrow> a \<le> b \<Longrightarrow> 0 < b \<Longrightarrow> is_dec b \<Longrightarrow> 0 \<le> ddiv a b \<and> ddiv a b \<le> 1"
proof
  assume a: "0 \<le> a" "a \<le> b" "0 < b"
  then show "0 \<le> ddiv a b" by (simp add: ddiv_nonneg)
  have "dround (a / b) \<le> 1"
    using a is_dec_int [of 1] by (intro dctx.rd_le_fix) (simp_all add: is_dec_def prec_hi_def)
  then show "ddiv a b \<le> 1" by (simp add: ddiv_def)
qed

lemma dsub_le_dsub: "a - b \<le> c - d \<Longrightarrow> dsub a b \<le> dsub c d"
  unfolding dsub_def by (rule dround_mono)

text \<open>The ratios of a well-formed candle are proportions: the body ratio, both wick ratios
  and the position of the close all lie between 0 and 1, whatever the 28-digit rounding
  does, so the thresholds the strategies compare them with are meaningful.\<close>

theorem metrics_ratios_unit:
  assumes "candle_ok c" and "mt_valid (metrics_of c)"
  shows "mt_body_ratio (metrics_of c) \<in> {0..1} \<and> mt_upper_wick_ratio (metrics_of c) \<in> {0..1} \<and>
    mt_lower_wick_ratio (metrics_of c) \<in> {0..1} \<and>
    mt_close_position_in_range (metrics_of c) \<in> {0..1}"
proof -
  let ?r = "dsub (cd_high c) (cd_low c)"
  have r: "0 < ?r" using assms by simp
  have body: "dabs (dsub (cd_close c) (cd_open c)) \<le> ?r"
    unfolding dabs_dsub unfolding dsub_def
    using assms by (intro dround_mono) (auto simp: candle_ok_def)
  have wicks: "dsub (cd_high c) (max (cd_open c) (cd_close c)) \<le> ?r"
      "dsub (min (cd_open c) (cd_close c)) (cd_low c) \<le> ?r" "dsub (cd_close c) (cd_low c) \<le> ?r"
    using assms by (auto intro!: dsub_le_dsub simp: candle_ok_def)
  have nonneg: "0 \<le> dsub (cd_high c) (max (cd_open c) (cd_close c))"
      "0 \<le> dsub (min (cd_open c) (cd_close c)) (cd_low c)" "0 \<le> dsub (cd_close c) (cd_low c)"
    using assms by (auto simp: candle_ok_def)
  show ?thesis
    using ddiv_dsub_unit [OF dabs_signs(1) body r] ddiv_dsub_unit [OF nonneg(1) wicks(1) r]
      ddiv_dsub_unit [OF nonneg(2) wicks(2) r] ddiv_dsub_unit [OF nonneg(3) wicks(3) r] r
    by (simp add: metrics_of_def Let_def)
qed

lemma metrics_ratios_unit_witness:
  "let c = \<lparr> cd_symbol = ''BTCUSDT'', cd_interval = ''1'', cd_open_time_ms = 60000, cd_open = 100,
      cd_high = 103, cd_low = 99, cd_close = 102, cd_volume = 10, cd_turnover = 1010,
      cd_confirmed = True \<rparr>
   in mt_body_ratio (metrics_of c) \<in> {0..1} \<and> mt_close_position_in_range (metrics_of c) \<in> {0..1}"
  unfolding Let_def by (intro conjI; (rule metrics_ratios_unit [THEN conjunct1]
    | rule metrics_ratios_unit [THEN conjunct2, THEN conjunct2, THEN conjunct2]); simp add: candle_ok_def)

lemma count_rising_lows_bounds: "0 \<le> count_rising_lows cs w \<and> count_rising_lows cs w \<le> max 0 (int (length cs) - 1)"
proof -
  have "length (filter (\<lambda>(a, b). a < b) (adjacent (map cd_low (py_tail w cs)))) \<le> length cs - 1"
    by (rule le_trans [OF length_filter_le]) (auto simp: py_tail_def last_n_def)
  then show ?thesis by (auto simp: count_rising_lows_def Let_def)
qed

lemma true_range_nonneg: "0 \<le> true_range p c"
  by (simp add: true_range_def le_max_iff_disj)

lemma dsum_nonneg: "(\<And>x. x \<in> set xs \<Longrightarrow> 0 \<le> x) \<Longrightarrow> 0 \<le> dsum xs"
proof -
  have "0 \<le> acc \<Longrightarrow> (\<And>x. x \<in> set xs \<Longrightarrow> 0 \<le> x) \<Longrightarrow> 0 \<le> foldl dadd acc xs" for acc
    by (induction xs arbitrary: acc) (auto intro: dadd_nonneg)
  then show "(\<And>x. x \<in> set xs \<Longrightarrow> 0 \<le> x) \<Longrightarrow> 0 \<le> dsum xs" by (simp add: dsum_def)
qed

lemma avg_true_range_nonneg: "avg_true_range cs w = Some a \<Longrightarrow> 0 \<le> a"
  by (auto simp: avg_true_range_def Let_def true_range_nonneg intro!: ddiv_nonneg dsum_nonneg split: if_splits)

end
