(* ===== verification/Position_Base.thy ===== *)
theory Position_Base
  imports Config Candle_Metrics
begin

text \<open>
  The position manager's own state, the actions it returns, and the helpers every part of it
  shares: R multiples, bar counting, price extremes and the stop arithmetic
  (\<^verbatim>\<open>packages/position/position_manager.py\<close>).

  The Python object keeps eleven dictionaries and sets keyed by symbol; they are the record
  \<open>pm_state\<close>, threaded through every operation. \<open>position.opened_at.isoformat()\<close> is represented by
  the timestamp it renders.
\<close>

section \<open>Actions and state\<close>

datatype position_action_type = PARTIAL_TP | REDUCE | EXIT | TRAIL_UPDATE | SCOUT_EVENT

record position_action =
  pa_type :: position_action_type
  pa_qty :: "dec option"
  pa_reason :: "exit_reason option"
  pa_new_stop :: "dec option"
  pa_event_type :: "string option"
  pa_data :: "payload option"

type_synonym scenario_key = "string \<times> int"

record pm_state =
  pm_max_r :: "string \<rightharpoonup> dec"
  pm_stag_reduced :: "string set"
  pm_scenario_recovery :: "string \<rightharpoonup> int"
  pm_scenario_reduced :: "scenario_key set"
  pm_break_level_fail_closes :: "scenario_key \<rightharpoonup> int option \<times> int"
  pm_scout_scenario_invalid_closes :: "scenario_key \<rightharpoonup> int option \<times> int"
  pm_scout_ema_reclaim_counts :: "string \<rightharpoonup> int"
  pm_runner_ema_break_counts :: "string \<rightharpoonup> int"
  pm_runner_weak_signal_counts :: "string \<rightharpoonup> int"
  pm_runner_weak_signal_open_times :: "string \<rightharpoonup> int"
  pm_stagnation_delay_emitted :: "(string \<times> string \<times> int) set"

definition new_pm_state :: pm_state where
  "new_pm_state = \<lparr> pm_max_r = Map.empty, pm_stag_reduced = {}, pm_scenario_recovery = Map.empty,
    pm_scenario_reduced = {}, pm_break_level_fail_closes = Map.empty,
    pm_scout_scenario_invalid_closes = Map.empty, pm_scout_ema_reclaim_counts = Map.empty,
    pm_runner_ema_break_counts = Map.empty, pm_runner_weak_signal_counts = Map.empty,
    pm_runner_weak_signal_open_times = Map.empty, pm_stagnation_delay_emitted = {} \<rparr>"

text \<open>The keyword arguments of \<open>evaluate\<close>: what the market looks like at this bar.\<close>

record bar_input =
  bi_price :: dec
  bi_atr :: dec
  bi_candle :: "candle option"
  bi_snapshot_1m :: "indicator_snapshot option"
  bi_snapshot_5m :: "indicator_snapshot option"
  bi_volume_ratio :: "dec option"
  bi_now :: int

abbreviation scout_cfg :: "app_config \<Rightarrow> scout_management_section" where
  "scout_cfg cfg \<equiv> ps_scout_management (cfg_position cfg)"

abbreviation runner_cfg :: "app_config \<Rightarrow> runner_mode_section" where
  "runner_cfg cfg \<equiv> ps_runner_mode (cfg_position cfg)"

text \<open>An action without the fields its constructor call leaves at \<open>None\<close>.\<close>

definition plain_action :: "position_action_type \<Rightarrow> position_action" where
  "plain_action t = \<lparr> pa_type = t, pa_qty = None, pa_reason = None, pa_new_stop = None,
    pa_event_type = None, pa_data = None \<rparr>"

definition event_action :: "string \<Rightarrow> payload \<Rightarrow> position_action" where
  "event_action e d = (plain_action SCOUT_EVENT)\<lparr> pa_event_type := Some e, pa_data := Some d \<rparr>"

definition trail_action :: "dec \<Rightarrow> position_action" where
  "trail_action s = (plain_action TRAIL_UPDATE)\<lparr> pa_new_stop := Some s \<rparr>"

text \<open>Python's \<open>x or y\<close> on an optional decimal: a zero counts as missing.\<close>

definition or_else :: "dec option \<Rightarrow> dec option \<Rightarrow> dec option" where
  "or_else x y = (case x of None \<Rightarrow> y | Some v \<Rightarrow> if v = 0 then y else Some v)"

definition or_dec :: "dec option \<Rightarrow> dec \<Rightarrow> dec" where
  "or_dec x y = (case x of None \<Rightarrow> y | Some v \<Rightarrow> if v = 0 then y else v)"

definition scenario_key_of :: "position \<Rightarrow> scenario_key" where
  "scenario_key_of p = (p_symbol p, p_opened_at p)"

section \<open>Progress of the position\<close>

definition r_multiple :: "position \<Rightarrow> dec \<Rightarrow> dec" where
  "r_multiple p price =
    (case p_initial_risk_per_unit p of
       None \<Rightarrow> 0
     | Some risk \<Rightarrow>
         if risk \<le> 0 then 0
         else if p_side p = LONG then ddiv (dsub price (p_avg_entry_price p)) risk
         else ddiv (dsub (p_avg_entry_price p) price) risk)"

definition advance_bar_counter :: "candle option \<Rightarrow> position \<Rightarrow> position" where
  "advance_bar_counter c p =
    (case c of
       None \<Rightarrow> p\<lparr> p_bars_since_entry := p_bars_since_entry p + 1 \<rparr>
     | Some k \<Rightarrow>
         if cd_open_time_ms k \<le> 0 then p\<lparr> p_bars_since_entry := p_bars_since_entry p + 1 \<rparr>
         else if p_last_evaluated_1m_open_time_ms p = Some (cd_open_time_ms k) then p
         else p\<lparr> p_last_evaluated_1m_open_time_ms := Some (cd_open_time_ms k),
                p_bars_since_entry := p_bars_since_entry p + 1 \<rparr>)"

definition update_extremes :: "dec \<Rightarrow> candle option \<Rightarrow> position \<Rightarrow> position" where
  "update_extremes price c p =
    (let high = (case c of None \<Rightarrow> price | Some k \<Rightarrow> cd_high k);
         low = (case c of None \<Rightarrow> price | Some k \<Rightarrow> cd_low k)
     in p\<lparr> p_highest_price := Some (case p_highest_price p of None \<Rightarrow> high | Some h \<Rightarrow> max h high),
          p_lowest_price := Some (case p_lowest_price p of None \<Rightarrow> low | Some l \<Rightarrow> min l low) \<rparr>)"

section \<open>Stops\<close>

definition trail_stop :: "app_config \<Rightarrow> position \<Rightarrow> dec \<Rightarrow> dec \<Rightarrow> dec" where
  "trail_stop cfg p atr max_r =
    (let mult = (case (p_runner_mode_active p, p_runner_trailing_atr_multiplier p) of
                   (True, Some x) \<Rightarrow> x
                 | _ \<Rightarrow> if ps_trailing_extended_after_r (cfg_position cfg) \<le> max_r
                        then ps_trailing_extended_atr_multiplier (cfg_position cfg)
                        else ps_trailing_atr_multiplier (cfg_position cfg))
     in if p_side p = LONG
        then dsub (or_dec (p_highest_price p) (p_avg_entry_price p)) (dmul atr mult)
        else dadd (or_dec (p_lowest_price p) (p_avg_entry_price p)) (dmul atr mult))"

definition stop_breached :: "position \<Rightarrow> dec \<Rightarrow> dec \<Rightarrow> bool" where
  "stop_breached p price stop = (if p_side p = LONG then price \<le> stop else stop \<le> price)"

definition effective_stop :: "position \<Rightarrow> dec \<Rightarrow> dec" where
  "effective_stop p t =
    (case p_stop_loss_price p of
       None \<Rightarrow> t
     | Some cur \<Rightarrow> if p_side p = LONG then max cur t else min cur t)"

definition ratchet :: "position \<Rightarrow> dec \<Rightarrow> dec option" where
  "ratchet p t =
    (case p_stop_loss_price p of
       None \<Rightarrow> Some t
     | Some cur \<Rightarrow>
         if p_side p = LONG then (if cur < t then Some t else None)
         else (if t < cur then Some t else None))"

definition tighten_stop :: "position \<Rightarrow> dec" where
  "tighten_stop p =
    (let entry = p_avg_entry_price p; cur = or_dec (p_stop_loss_price p) entry
     in ddiv (dadd cur entry) 2)"

definition round_qty :: "dec \<Rightarrow> dec" where
  "round_qty q = q"

definition exit_position :: "position \<Rightarrow> exit_reason \<Rightarrow> position \<times> position_action" where
  "exit_position p reason =
    (p\<lparr> p_status := CLOSING, p_exit_reason := Some reason \<rparr>,
     (plain_action EXIT)\<lparr> pa_qty := Some (p_qty p), pa_reason := Some reason \<rparr>)"

definition mark_active_paper :: "position \<Rightarrow> position" where
  "mark_active_paper p = p\<lparr> p_status := ACTIVE \<rparr>"

text \<open>A close against the position in the outer part of the candle's range: at most \<open>lo\<close> of it for
  a long, at least \<open>hi\<close> for a short. The code writes this test out in five places.\<close>

definition closes_against :: "position \<Rightarrow> candle \<Rightarrow> dec \<Rightarrow> dec \<Rightarrow> bool" where
  "closes_against p k lo hi =
    (let m = metrics_of k in
     if p_side p = LONG then cd_close k < cd_open k \<and> mt_close_position_in_range m \<le> lo
     else cd_open k < cd_close k \<and> hi \<le> mt_close_position_in_range m)"

text \<open>\<open>close < level\<close> for a long, \<open>close > level\<close> for a short.\<close>

definition wrong_side :: "position \<Rightarrow> dec \<Rightarrow> dec \<Rightarrow> bool" where
  "wrong_side p close level = (if p_side p = LONG then close < level else level < close)"

section \<open>The order of stops\<close>

text \<open>\<open>tighter sd a b\<close>: stop \<open>b\<close> protects at least as much as stop \<open>a\<close>; no stop protects least.\<close>

fun tighter :: "position_side \<Rightarrow> dec option \<Rightarrow> dec option \<Rightarrow> bool" where
  "tighter sd None b = True"
| "tighter sd (Some a) None = False"
| "tighter sd (Some a) (Some b) = (if sd = LONG then a \<le> b else b \<le> a)"

lemma tighter_refl [simp]: "tighter sd a a"
  by (cases a) auto

lemma tighter_trans [trans]: "tighter sd a b \<Longrightarrow> tighter sd b c \<Longrightarrow> tighter sd a c"
  by (cases a; cases b; cases c) (auto split: if_splits)

lemma ratchet_tighter: "ratchet p t = Some s \<Longrightarrow> tighter (p_side p) (p_stop_loss_price p) (Some s)"
  by (auto simp: ratchet_def split: option.splits if_splits)

lemma ratchet_None: "ratchet p t = None \<Longrightarrow> tighter (p_side p) (Some t) (p_stop_loss_price p)"
  by (auto simp: ratchet_def split: option.splits if_splits)

lemma effective_stop_tighter:
  "tighter (p_side p) (p_stop_loss_price p) (Some (effective_stop p t))"
  "tighter (p_side p) (Some t) (Some (effective_stop p t))"
  by (auto simp: effective_stop_def split: option.splits)

lemma plain_action_simps [simp]:
  "pa_type (plain_action t) = t" "pa_event_type (plain_action t) = None"
  "pa_reason (plain_action t) = None" "pa_qty (plain_action t) = None"
  "pa_new_stop (plain_action t) = None"
  by (simp_all add: plain_action_def)

lemma exit_position_simps [simp]:
  "pa_type (snd (exit_position p r)) = EXIT"
  "pa_qty (snd (exit_position p r)) = Some (p_qty p)"
  "pa_reason (snd (exit_position p r)) = Some r"
  "p_status (fst (exit_position p r)) = CLOSING"
  "p_exit_reason (fst (exit_position p r)) = Some r"
  "p_stop_loss_price (fst (exit_position p r)) = p_stop_loss_price p"
  "p_side (fst (exit_position p r)) = p_side p"
  "p_qty (fst (exit_position p r)) = p_qty p"
  by (simp_all add: exit_position_def plain_action_def)

lemma event_action_simps [simp]:
  "pa_type (event_action e d) = SCOUT_EVENT" "pa_qty (event_action e d) = None"
  "pa_new_stop (event_action e d) = None" "pa_event_type (event_action e d) = Some e"
  "pa_reason (event_action e d) = None"
  by (simp_all add: event_action_def plain_action_def)

lemma trail_action_simps [simp]:
  "pa_type (trail_action s) = TRAIL_UPDATE" "pa_qty (trail_action s) = None"
  "pa_new_stop (trail_action s) = Some s" "pa_reason (trail_action s) = None"
  by (simp_all add: trail_action_def plain_action_def)

section \<open>Bars are counted once\<close>

text \<open>A bar is counted once: evaluating the same closed candle again, as the trading loop does
  every few seconds, leaves the bar counter where the first evaluation put it.\<close>

theorem bar_counted_once:
  assumes "0 < cd_open_time_ms k"
  shows "advance_bar_counter (Some k) (advance_bar_counter (Some k) p) = advance_bar_counter (Some k) p \<and>
    p_bars_since_entry (advance_bar_counter (Some k) p) \<in> {p_bars_since_entry p, p_bars_since_entry p + 1}"
  using assms by (simp add: advance_bar_counter_def)

lemma bar_counted_once_witness:
  "let k = \<lparr> cd_symbol = ''X'', cd_interval = ''1'', cd_open_time_ms = 60000, cd_open = 1,
      cd_high = 2, cd_low = 1, cd_close = 2, cd_volume = 1, cd_turnover = 1, cd_confirmed = True \<rparr>;
     p = new_position ''X'' LONG 1 1 0
   in advance_bar_counter (Some k) (advance_bar_counter (Some k) p) = advance_bar_counter (Some k) p"
  unfolding Let_def by (rule bar_counted_once [THEN conjunct1]) simp

end
