(* ===== verification/Position_Stagnation.thy ===== *)
theory Position_Stagnation
  imports Position_Base
begin

text \<open>
  The stagnation rules (\<^verbatim>\<open>_stagnation_action\<close>, \<^verbatim>\<open>_stagnation_delay_event\<close>): a position that makes
  no progress for a number of bars is exited, reduced once, or has its stop moved towards the
  entry, depending on its entry mode.
\<close>

definition stagnation_delay_event ::
  "pm_state \<Rightarrow> position \<Rightarrow> dec \<Rightarrow> dec \<Rightarrow> dec \<Rightarrow> dec \<Rightarrow> string \<Rightarrow> pm_state \<times> position_action option" where
  "stagnation_delay_event m p current_r max_r price atr reason =
    (let key = (p_symbol p, reason, p_opened_at p) in
     if key \<in> pm_stagnation_delay_emitted m then (m, None)
     else
      (m\<lparr> pm_stagnation_delay_emitted := insert key (pm_stagnation_delay_emitted m) \<rparr>,
       Some (event_action ''STAGNATION_DELAYED_BY_ENTRY_MODE''
        [(''symbol'', PStr (p_symbol p)),
         (''side'', PStr (position_side_value (p_side p))),
         (''entry_mode'', opt_str (map_option entry_mode_value (p_entry_mode p))),
         (''entry_price'', PDec (p_avg_entry_price p)),
         (''current_price'', PDec price),
         (''remaining_qty'', PDec (p_qty p)),
         (''max_r'', PDec max_r),
         (''current_r'', PDec current_r),
         (''trend_strength'', opt_str (map_option trend_strength_value (p_runner_trend_strength p))),
         (''trailing_multiplier'', opt_dec (p_runner_trailing_atr_multiplier p)),
         (''atr'', PDec atr),
         (''highest_price'', opt_dec (p_highest_price p)),
         (''lowest_price'', opt_dec (p_lowest_price p)),
         (''old_trailing_stop'', opt_dec (p_stop_loss_price p)),
         (''exchange_sl_before'', opt_dec (p_stop_loss_price p)),
         (''bars_since_entry'', PInt (p_bars_since_entry p)),
         (''reason'', PStr reason)])))"

text \<open>The three entry modes, one definition each, as the branches of the method.\<close>

definition stagnation_scout_mode ::
  "app_config \<Rightarrow> pm_state \<Rightarrow> position \<Rightarrow> dec \<Rightarrow> dec \<Rightarrow> dec \<Rightarrow> dec \<Rightarrow>
   pm_state \<times> position \<times> position_action option" where
  "stagnation_scout_mode cfg m p max_r current_r price atr =
    (let c = se_pre_breakout_scout (cfg_stagnation_exit cfg); bars = p_bars_since_entry p in
     if sgs_max_bars_without_breakout c \<le> bars \<and> max_r < sgs_min_progress_r c
     then (let (p', a) = exit_position p STAGNATION in (m, p', Some a))
     else if 8 \<le> bars \<and> max_r < 1 / 2
     then (let (m', a) = stagnation_delay_event m p current_r max_r price atr ''SCOUT_STAGNATION_DELAYED''
           in (m', p, a))
     else (m, p, None))"

definition stagnation_reduce_action ::
  "app_config \<Rightarrow> position \<Rightarrow> dec \<Rightarrow> position_action" where
  "stagnation_reduce_action cfg p max_r =
    (let fraction = sgb_reduce_fraction (se_breakout_confirm (cfg_stagnation_exit cfg)) in
     (plain_action REDUCE)\<lparr>
       pa_qty := Some (round_qty (dmul (p_qty p) fraction)),
       pa_reason := Some STAGNATION,
       pa_event_type := Some ''STAGNATION_REDUCE'',
       pa_data := Some
        [(''symbol'', PStr (p_symbol p)),
         (''side'', PStr (position_side_value (p_side p))),
         (''entry_price'', PDec (p_avg_entry_price p)),
         (''entry_mode'', opt_str (map_option entry_mode_value (p_entry_mode p))),
         (''qty'', PDec (p_qty p)),
         (''reduce_fraction'', PDec fraction),
         (''bars_since_entry'', PInt (p_bars_since_entry p)),
         (''max_r'', PDec max_r),
         (''reason'', PStr ''STAGNATION'')] \<rparr>)"

definition stagnation_breakout_mode ::
  "app_config \<Rightarrow> pm_state \<Rightarrow> position \<Rightarrow> dec \<Rightarrow> dec \<Rightarrow> dec \<Rightarrow> dec \<Rightarrow>
   pm_state \<times> position \<times> position_action option" where
  "stagnation_breakout_mode cfg m p max_r current_r price atr =
    (let c = se_breakout_confirm (cfg_stagnation_exit cfg); bars = p_bars_since_entry p in
     if sgb_max_bars_without_1r c \<le> bars \<and> max_r < 1
     then (let (p', a) = exit_position p STAGNATION in (m, p', Some a))
     else if sgb_reduce_after_bars c \<le> bars \<and> max_r < 1 / 2 \<and> p_symbol p \<notin> pm_stag_reduced m
     then (m\<lparr> pm_stag_reduced := insert (p_symbol p) (pm_stag_reduced m) \<rparr>, p,
           Some (stagnation_reduce_action cfg p max_r))
     else if 10 \<le> bars \<and> max_r < 1
     then (let (m', a) = stagnation_delay_event m p current_r max_r price atr ''BREAKOUT_EXIT_DELAYED''
           in (m', p, a))
     else if 5 \<le> bars \<and> max_r < 1 / 2 \<and> p_symbol p \<notin> pm_stag_reduced m
     then (let (m', a) = stagnation_delay_event m p current_r max_r price atr ''BREAKOUT_REDUCE_DELAYED''
           in (m', p, a))
     else (m, p, None))"

definition stagnation_retest_mode ::
  "app_config \<Rightarrow> pm_state \<Rightarrow> position \<Rightarrow> dec \<Rightarrow> dec \<Rightarrow> dec \<Rightarrow> dec \<Rightarrow>
   pm_state \<times> position \<times> position_action option" where
  "stagnation_retest_mode cfg m p max_r current_r price atr =
    (let c = se_retest_confirm (cfg_stagnation_exit cfg); bars = p_bars_since_entry p in
     if sgr_max_bars_without_1r c \<le> bars \<and> max_r < 1
     then (let (p', a) = exit_position p STAGNATION in (m, p', Some a))
     else if sgr_tighten_after_bars c \<le> bars \<and> max_r < 1 / 2
     then (m, p, Some (trail_action (tighten_stop p)))
     else if 12 \<le> bars \<and> max_r < 1
     then (let (m', a) = stagnation_delay_event m p current_r max_r price atr ''RETEST_EXIT_DELAYED''
           in (m', p, a))
     else if 6 \<le> bars \<and> max_r < 1 / 2
     then (let (m', a) = stagnation_delay_event m p current_r max_r price atr ''RETEST_TIGHTEN_DELAYED''
           in (m', p, a))
     else (m, p, None))"

definition stagnation_action ::
  "app_config \<Rightarrow> pm_state \<Rightarrow> position \<Rightarrow> dec \<Rightarrow> dec \<Rightarrow> dec \<Rightarrow> dec \<Rightarrow>
   pm_state \<times> position \<times> position_action option" where
  "stagnation_action cfg m p max_r current_r price atr =
    (if \<not> se_enabled (cfg_stagnation_exit cfg) then (m, p, None)
     else case p_entry_mode p of
       Some PRE_BREAKOUT_SCOUT \<Rightarrow> stagnation_scout_mode cfg m p max_r current_r price atr
     | Some BREAKOUT_CONFIRM \<Rightarrow> stagnation_breakout_mode cfg m p max_r current_r price atr
     | Some RETEST_CONFIRM \<Rightarrow> stagnation_retest_mode cfg m p max_r current_r price atr
     | None \<Rightarrow> (m, p, None))"

lemmas stagnation_defs = stagnation_action_def stagnation_scout_mode_def stagnation_breakout_mode_def
  stagnation_retest_mode_def stagnation_delay_event_def stagnation_reduce_action_def

section \<open>What the rules can do\<close>

text \<open>Every outcome of the stagnation rules; one case split over this relation replaces the
  branches of the four definitions in the proofs that use them.\<close>

inductive stagnation_outcome ::
  "app_config \<Rightarrow> pm_state \<Rightarrow> position \<Rightarrow> dec \<Rightarrow> pm_state \<times> position \<times> position_action option \<Rightarrow> bool"
  for cfg m p max_r where
  nothing: "stagnation_outcome cfg m p max_r (m, p, None)"
| exit: "exit_position p STAGNATION = (p', a) \<Longrightarrow>
    max_r < 1 \<or> max_r < sgs_min_progress_r (se_pre_breakout_scout (cfg_stagnation_exit cfg)) \<Longrightarrow>
    stagnation_outcome cfg m p max_r (m, p', Some a)"
| reduce: "p_symbol p \<notin> pm_stag_reduced m \<Longrightarrow> p_entry_mode p = Some BREAKOUT_CONFIRM \<Longrightarrow>
    max_r < 1 / 2 \<Longrightarrow>
    stagnation_outcome cfg m p max_r
     (m\<lparr> pm_stag_reduced := insert (p_symbol p) (pm_stag_reduced m) \<rparr>, p,
      Some (stagnation_reduce_action cfg p max_r))"
| tighten: "p_entry_mode p = Some RETEST_CONFIRM \<Longrightarrow> max_r < 1 / 2 \<Longrightarrow>
    stagnation_outcome cfg m p max_r (m, p, Some (trail_action (tighten_stop p)))"
| delay: "k \<notin> pm_stagnation_delay_emitted m \<Longrightarrow>
    stagnation_outcome cfg m p max_r
     (m\<lparr> pm_stagnation_delay_emitted := insert k (pm_stagnation_delay_emitted m) \<rparr>, p,
      Some (event_action ''STAGNATION_DELAYED_BY_ENTRY_MODE'' d))"

lemma delay_outcome:
  "stagnation_outcome cfg m p max_r
    (let (m', a) = stagnation_delay_event m p cr mr price atr reason in (m', p, a))"
  unfolding stagnation_delay_event_def Let_def
  by (simp split: if_split) (blast intro: stagnation_outcome.intros)

lemma exit_outcome:
  "max_r < 1 \<or> max_r < sgs_min_progress_r (se_pre_breakout_scout (cfg_stagnation_exit cfg)) \<Longrightarrow>
    stagnation_outcome cfg m p max_r (let (p', a) = exit_position p STAGNATION in (m, p', Some a))"
  by (cases "exit_position p STAGNATION") (simp add: stagnation_outcome.exit)

lemma stagnation_action_outcome:
  "stagnation_outcome cfg m p max_r (stagnation_action cfg m p max_r cr price atr)"
proof -
  have scout: "stagnation_outcome cfg m p max_r (stagnation_scout_mode cfg m p max_r cr price atr)"
    unfolding stagnation_scout_mode_def Let_def [of "se_pre_breakout_scout _"] Let_def [of "p_bars_since_entry _"]
    using exit_outcome delay_outcome stagnation_outcome.nothing by simp
  have breakout: "stagnation_outcome cfg m p max_r (stagnation_breakout_mode cfg m p max_r cr price atr)"
    if "p_entry_mode p = Some BREAKOUT_CONFIRM"
    unfolding stagnation_breakout_mode_def Let_def [of "se_breakout_confirm _"] Let_def [of "p_bars_since_entry _"]
    using that exit_outcome delay_outcome stagnation_outcome.nothing stagnation_outcome.reduce by simp
  have retest: "stagnation_outcome cfg m p max_r (stagnation_retest_mode cfg m p max_r cr price atr)"
    if "p_entry_mode p = Some RETEST_CONFIRM"
    unfolding stagnation_retest_mode_def Let_def [of "se_retest_confirm _"] Let_def [of "p_bars_since_entry _"]
    using that exit_outcome delay_outcome stagnation_outcome.nothing stagnation_outcome.tighten by simp
  show ?thesis
    unfolding stagnation_action_def
    using scout breakout retest stagnation_outcome.nothing
    by (cases "p_entry_mode p") (auto split: entry_mode.split)
qed

text \<open>Once reduced, a symbol is never reduced again by this rule.\<close>

lemma stagnation_reduce_once:
  assumes "stagnation_action cfg m p max_r cr price atr = (m', p', Some a)" "pa_type a = REDUCE"
  shows "p_symbol p \<notin> pm_stag_reduced m \<and> p_symbol p \<in> pm_stag_reduced m'"
  using stagnation_action_outcome [of cfg m p max_r cr price atr] assms
  by (auto elim!: stagnation_outcome.cases simp: exit_position_def plain_action_def)

end
