(* ===== verification/Position_Scout.thy ===== *)
theory Position_Scout
  imports Position_Stagnation
begin

text \<open>
  Management of a \<open>PRE_BREAKOUT_SCOUT\<close> position before its breakout is confirmed
  (\<^verbatim>\<open>_scout_management_action\<close> and its helpers): confirmation, warnings, defensive and
  catastrophic reductions, and the scout states
  \<open>SCOUT_PENDING\<close>, \<open>SCOUT_WARNING\<close>, \<open>SCOUT_CONFIRMED\<close>, \<open>ACTIVE_TREND\<close>.
\<close>

section \<open>Readings of the market\<close>

definition scout_confirmed :: "app_config \<Rightarrow> position \<Rightarrow> dec \<Rightarrow> candle \<Rightarrow> dec option \<Rightarrow> bool" where
  "scout_confirmed cfg p atr k volume_ratio =
    (let c = scout_cfg cfg in
     case volume_ratio of
       None \<Rightarrow> False
     | Some v \<Rightarrow>
         if v < sc_confirmation_volume_ratio c then False
         else
           let m = metrics_of k in
           if \<not> mt_valid m then False
           else
             let boundary = dmul atr (sc_confirmation_boundary_atr c) in
             (case (p_side p, p_scout_entry_box_high p, p_scout_entry_box_low p) of
                (LONG, Some h, _) \<Rightarrow> dadd h boundary < cd_close k \<and> 65 / 100 \<le> mt_close_position_in_range m
              | (SHORT, _, Some l) \<Rightarrow> cd_close k < dsub l boundary \<and> mt_close_position_in_range m \<le> 35 / 100
              | _ \<Rightarrow> False))"

definition scout_ema_reclaim_reason ::
  "app_config \<Rightarrow> pm_state \<Rightarrow> position \<Rightarrow> candle \<Rightarrow> indicator_snapshot option \<Rightarrow>
   pm_state \<times> string option" where
  "scout_ema_reclaim_reason cfg m p k snapshot_1m =
    (case Option.bind snapshot_1m is_ema20 of
       None \<Rightarrow> (m, None)
     | Some ema \<Rightarrow>
         if wrong_side p (cd_close k) ema
         then
           let count = get_or (pm_scout_ema_reclaim_counts m) (p_symbol p) 0 + 1;
               m' = m\<lparr> pm_scout_ema_reclaim_counts := (pm_scout_ema_reclaim_counts m)(p_symbol p \<mapsto> count) \<rparr>
           in if sc_invalidate_on_ema20_reclaim_bars (scout_cfg cfg) \<le> count
              then (m', Some ''EMA20_RECLAIMED_AGAINST_SCOUT'') else (m', None)
         else (m\<lparr> pm_scout_ema_reclaim_counts := (pm_scout_ema_reclaim_counts m)(p_symbol p \<mapsto> 0) \<rparr>, None))"

definition scout_strong_opposite_reason ::
  "app_config \<Rightarrow> position \<Rightarrow> candle \<Rightarrow> dec option \<Rightarrow> string option" where
  "scout_strong_opposite_reason cfg p k volume_ratio =
    (case volume_ratio of
       None \<Rightarrow> None
     | Some v \<Rightarrow>
         let c = scout_cfg cfg; m = metrics_of k in
         if \<not> mt_valid m then None
         else if mt_body_ratio m < sc_strong_opposite_candle_body_ratio c \<or>
             v < sc_strong_opposite_candle_volume_ratio c then None
         else if p_side p = LONG \<and> closes_against p k (25 / 100) (75 / 100)
           then Some ''STRONG_BEARISH_CANDLE''
         else if p_side p = SHORT \<and> closes_against p k (25 / 100) (75 / 100)
           then Some ''STRONG_BULLISH_CANDLE''
         else None)"

definition scout_opposite_move_atr :: "position \<Rightarrow> candle \<Rightarrow> dec option \<Rightarrow> dec option" where
  "scout_opposite_move_atr p k atr =
    (case atr of
       None \<Rightarrow> None
     | Some a \<Rightarrow>
         if a \<le> 0 then None
         else if p_side p = LONG \<and> cd_close k < cd_open k
           then Some (ddiv (dsub (cd_open k) (cd_close k)) a)
         else if p_side p = SHORT \<and> cd_open k < cd_close k
           then Some (ddiv (dsub (cd_close k) (cd_open k)) a)
         else Some 0)"

definition scout_catastrophic_opposite_reason ::
  "app_config \<Rightarrow> position \<Rightarrow> candle \<Rightarrow> dec option \<Rightarrow> dec \<Rightarrow> string option" where
  "scout_catastrophic_opposite_reason cfg p k volume_ratio atr =
    (case volume_ratio of
       None \<Rightarrow> None
     | Some v \<Rightarrow>
         if atr \<le> 0 then None
         else
           let c = scout_cfg cfg; m = metrics_of k in
           if \<not> mt_valid m then None
           else case scout_opposite_move_atr p k (Some atr) of
             None \<Rightarrow> None
           | Some move \<Rightarrow>
               if mt_body_ratio m < sc_catastrophic_opposite_candle_body_ratio c \<or>
                  v < sc_catastrophic_opposite_candle_volume_ratio c \<or>
                  move < sc_catastrophic_opposite_move_atr c then None
               else if p_side p = LONG \<and> closes_against p k (20 / 100) (80 / 100)
                 then Some ''CATASTROPHIC_BEARISH_CANDLE''
               else if p_side p = SHORT \<and> closes_against p k (20 / 100) (80 / 100)
                 then Some ''CATASTROPHIC_BULLISH_CANDLE''
               else None)"

definition scout_weakness_reason ::
  "app_config \<Rightarrow> pm_state \<Rightarrow> position \<Rightarrow> candle \<Rightarrow> indicator_snapshot option \<Rightarrow> dec option \<Rightarrow>
   pm_state \<times> string option" where
  "scout_weakness_reason cfg m p k snapshot_1m volume_ratio =
    (let c = scout_cfg cfg;
         mid_broken = (sc_invalidate_on_box_mid_reclaim c \<and>
           (case p_scout_entry_box_mid p of None \<Rightarrow> False | Some mid \<Rightarrow> wrong_side p (cd_close k) mid))
     in if mid_broken
        then (m, Some (if p_side p = LONG then ''BOX_MID_RECLAIMED_AGAINST_LONG''
                       else ''BOX_MID_RECLAIMED_AGAINST_SHORT''))
        else
          let (m', ema_reason) = scout_ema_reclaim_reason cfg m p k snapshot_1m in
          if ema_reason \<noteq> None then (m', ema_reason)
          else
            (m', case Option.bind snapshot_1m is_rsi14 of
                   None \<Rightarrow> scout_strong_opposite_reason cfg p k volume_ratio
                 | Some rsi \<Rightarrow>
                     if p_side p = LONG \<and> rsi \<le> sc_long_invalid_rsi_threshold c
                       then Some ''RSI_WEAK_FOR_LONG_SCOUT''
                     else if p_side p = SHORT \<and> sc_short_invalid_rsi_threshold c \<le> rsi
                       then Some ''RSI_WEAK_FOR_SHORT_SCOUT''
                     else scout_strong_opposite_reason cfg p k volume_ratio))"

definition scout_warning_recovered :: "position \<Rightarrow> candle \<Rightarrow> indicator_snapshot option \<Rightarrow> bool" where
  "scout_warning_recovered p k snapshot_1m =
    (let m = metrics_of k; ema20 = Option.bind snapshot_1m is_ema20 in
     if \<not> mt_valid m then False
     else if p_side p = LONG
     then p_avg_entry_price p \<le> cd_close k \<or>
          (case ema20 of None \<Rightarrow> False | Some e \<Rightarrow> e \<le> cd_close k) \<or>
          1 / 2 \<le> mt_close_position_in_range m
     else cd_close k \<le> p_avg_entry_price p \<or>
          (case ema20 of None \<Rightarrow> False | Some e \<Rightarrow> cd_close k \<le> e) \<or>
          mt_close_position_in_range m \<le> 1 / 2)"

definition scout_bars_since_entry :: "position \<Rightarrow> int" where
  "scout_bars_since_entry p =
    (case p_scout_entry_bar_index p of
       None \<Rightarrow> p_bars_since_entry p
     | Some start \<Rightarrow> max 0 (p_bars_since_entry p - start))"

definition scout_warning_bars :: "position \<Rightarrow> int" where
  "scout_warning_bars p =
    (case p_scout_warning_started_at_bar p of
       None \<Rightarrow> 0
     | Some started \<Rightarrow> max 0 (scout_bars_since_entry p - started))"

definition clear_scout_warning :: "position \<Rightarrow> position" where
  "clear_scout_warning p =
    p\<lparr> p_scout_warning_started_at_bar := None, p_scout_warning_reason := None \<rparr>"

section \<open>Events and reductions\<close>

definition scout_event_data ::
  "position \<Rightarrow> dec \<Rightarrow> candle \<Rightarrow> indicator_snapshot option \<Rightarrow> dec option \<Rightarrow> dec option \<Rightarrow>
   string option \<Rightarrow> payload" where
  "scout_event_data p price k snapshot_1m volume_ratio atr reason =
    (let m = metrics_of k in
     [(''symbol'', PStr (p_symbol p)),
      (''side'', PStr (position_side_value (p_side p))),
      (''entry_price'', PDec (p_avg_entry_price p)),
      (''current_price'', PDec price),
      (''scout_state'', PStr (scout_state_value (p_scout_state p))),
      (''bars_since_entry'', PInt (scout_bars_since_entry p)),
      (''warning_bars'', PInt (scout_warning_bars p)),
      (''box_high'', opt_dec (p_scout_entry_box_high p)),
      (''box_low'', opt_dec (p_scout_entry_box_low p)),
      (''box_mid'', opt_dec (p_scout_entry_box_mid p)),
      (''scout_entry_level'', opt_dec (p_scout_entry_level p)),
      (''scout_defensive_reduction_count'', PInt (p_scout_defensive_reduction_count p)),
      (''reason'', opt_str reason),
      (''rsi14'', opt_dec (Option.bind snapshot_1m is_rsi14)),
      (''ema20'', opt_dec (Option.bind snapshot_1m is_ema20)),
      (''volume_ratio'', opt_dec volume_ratio),
      (''body_ratio'', if mt_valid m then PDec (mt_body_ratio m) else PNone),
      (''close_position_in_range'',
        if mt_valid m then PDec (mt_close_position_in_range m) else PNone),
      (''opposite_move_atr'', opt_dec (scout_opposite_move_atr p k atr))])"

definition scout_event ::
  "bar_input \<Rightarrow> candle \<Rightarrow> position \<Rightarrow> string \<Rightarrow> string option \<Rightarrow> position_action" where
  "scout_event b k p event_type reason =
    event_action event_type
      (scout_event_data p (bi_price b) k (bi_snapshot_1m b) (bi_volume_ratio b) (Some (bi_atr b)) reason)"

definition scout_reduce_action ::
  "app_config \<Rightarrow> bar_input \<Rightarrow> candle \<Rightarrow> position \<Rightarrow> string \<Rightarrow> exit_reason \<Rightarrow> string \<Rightarrow>
   position \<times> position_action" where
  "scout_reduce_action cfg b k p reason exit_reason event_type =
    (let p1 = p\<lparr> p_scout_defensive_reduction_count := p_scout_defensive_reduction_count p + 1 \<rparr>;
         qty = round_qty (dmul (p_qty p1) (sc_defensive_reduce_fraction (scout_cfg cfg)));
         data = scout_event_data p1 (bi_price b) k (bi_snapshot_1m b) (bi_volume_ratio b)
           (Some (bi_atr b)) (Some reason);
         p2 = (clear_scout_warning p1)\<lparr> p_scout_state := SCOUT_PENDING \<rparr>;
         data2 = dict_set ''scout_state'' (PStr (scout_state_value (p_scout_state p2))) data
     in (p2, (plain_action REDUCE)\<lparr> pa_qty := Some qty, pa_reason := Some exit_reason,
               pa_event_type := Some event_type, pa_data := Some data2 \<rparr>))"

text \<open>Python's \<open>s or default\<close> on an optional string: the empty string counts as missing.\<close>

definition or_str :: "string option \<Rightarrow> string \<Rightarrow> string" where
  "or_str s d = (case s of None \<Rightarrow> d | Some v \<Rightarrow> if v = [] then d else v)"

section \<open>The management step\<close>

text \<open>The tail of the method, from the test for a strong opposite candle on: it runs for a
  pending scout, and for a warned one that has used up its reductions.\<close>

definition scout_pending_action ::
  "app_config \<Rightarrow> bar_input \<Rightarrow> candle \<Rightarrow> dec \<Rightarrow> pm_state \<Rightarrow> position \<Rightarrow>
   pm_state \<times> position \<times> position_action list \<times> bool" where
  "scout_pending_action cfg b k max_r m p =
    (let c = scout_cfg cfg;
         bars = scout_bars_since_entry p;
         may_reduce = p_scout_defensive_reduction_count p < sc_max_defensive_reductions c;
         strong_reason = scout_strong_opposite_reason cfg p k (bi_volume_ratio b)
     in if strong_reason \<noteq> None \<and> may_reduce
        then
          let p' = p\<lparr> p_scout_state := SCOUT_WARNING, p_scout_warning_started_at_bar := Some bars,
                      p_scout_warning_reason := strong_reason \<rparr>
          in (m, p', [scout_event b k p' ''SCOUT_WARNING_STARTED'' strong_reason], False)
        else
          let (m1, weakness_reason) =
                (if bars < sc_grace_bars c then (m, None)
                 else scout_weakness_reason cfg m p k (bi_snapshot_1m b) (bi_volume_ratio b))
          in if weakness_reason \<noteq> None \<and> may_reduce
             then
               let (p', a) = scout_reduce_action cfg b k p (the weakness_reason)
                     SCOUT_DEFENSIVE_REDUCE ''SCOUT_DEFENSIVE_REDUCE''
               in (m1, p', [a], False)
             else
               let (m2, p2, stagnation) = stagnation_action cfg m1 p max_r (r_multiple p (bi_price b))
                     (bi_price b) (bi_atr b)
               in case stagnation of
                    None \<Rightarrow> (m2, p2, [], False)
                  | Some a \<Rightarrow>
                      if pa_event_type a = Some ''STAGNATION_DELAYED_BY_ENTRY_MODE''
                      then (m2, p2, [a], False)
                      else (m2, p2,
                        [scout_event b k p2 ''SCOUT_INVALIDATED''
                          (Some (case pa_reason a of None \<Rightarrow> ''STAGNATION'' | Some r \<Rightarrow> exit_reason_value r)),
                         a], False))"

text \<open>The branch of a warned scout; \<open>None\<close> falls through to \<open>scout_pending_action\<close>.\<close>

definition scout_warning_action ::
  "app_config \<Rightarrow> bar_input \<Rightarrow> candle \<Rightarrow> position \<Rightarrow> (position \<times> position_action list) option" where
  "scout_warning_action cfg b k p =
    (let c = scout_cfg cfg in
     if scout_warning_recovered p k (bi_snapshot_1m b)
     then
       let ev = scout_event b k p ''SCOUT_WARNING_RECOVERED''
             (Some (or_str (p_scout_warning_reason p) ''SCOUT_WARNING_RECOVERED''))
       in Some ((clear_scout_warning p)\<lparr> p_scout_state := SCOUT_PENDING \<rparr>, [ev])
     else if scout_warning_bars p < sc_warning_confirm_bars c then Some (p, [])
     else if scout_bars_since_entry p < sc_min_hold_bars_before_defensive_reduce c then Some (p, [])
     else if p_scout_defensive_reduction_count p < sc_max_defensive_reductions c
     then
       let (p', a) = scout_reduce_action cfg b k p
             (or_str (p_scout_warning_reason p) ''SCOUT_WARNING_NOT_RECOVERED'')
             SCOUT_DEFENSIVE_REDUCE ''SCOUT_DEFENSIVE_REDUCE''
       in Some (p', [a])
     else None)"

definition scout_open_action ::
  "app_config \<Rightarrow> bar_input \<Rightarrow> candle \<Rightarrow> dec \<Rightarrow> pm_state \<Rightarrow> position \<Rightarrow>
   pm_state \<times> position \<times> position_action list \<times> bool" where
  "scout_open_action cfg b k max_r m p =
    (let c = scout_cfg cfg in
     if scout_confirmed cfg p (bi_atr b) k (bi_volume_ratio b)
     then
       let p1 = (clear_scout_warning p)\<lparr> p_scout_state := SCOUT_CONFIRMED,
             p_scout_confirmed_at := Some (bi_now b) \<rparr>;
           ev1 = scout_event b k p1 ''SCOUT_CONFIRMED'' None
       in if sc_convert_to_active_on_confirmation c
          then
            let p2 = p1\<lparr> p_scout_state := ACTIVE_TREND \<rparr>
            in (m, p2, [ev1, scout_event b k p2 ''SCOUT_ACTIVATED'' None], True)
          else (m, p1, [ev1], False)
     else
       let catastrophic_reason = scout_catastrophic_opposite_reason cfg p k (bi_volume_ratio b) (bi_atr b)
       in if catastrophic_reason \<noteq> None \<and>
             p_scout_defensive_reduction_count p < sc_max_defensive_reductions c
          then
            let (p', a) = scout_reduce_action cfg b k p (the catastrophic_reason)
                  SCOUT_CATASTROPHIC_REDUCE ''SCOUT_CATASTROPHIC_REDUCE''
            in (m, p', [a], False)
          else if p_scout_state p = SCOUT_WARNING
          then (case scout_warning_action cfg b k p of
                  Some (p', acts) \<Rightarrow> (m, p', acts, False)
                | None \<Rightarrow> scout_pending_action cfg b k max_r m
                    ((clear_scout_warning p)\<lparr> p_scout_state := SCOUT_PENDING \<rparr>))
          else scout_pending_action cfg b k max_r m p)"

definition scout_management_action ::
  "app_config \<Rightarrow> bar_input \<Rightarrow> dec \<Rightarrow> pm_state \<Rightarrow> position \<Rightarrow>
   pm_state \<times> position \<times> position_action list \<times> bool" where
  "scout_management_action cfg b max_r m p =
    (let c = scout_cfg cfg in
     if \<not> sc_enabled c \<or> p_entry_mode p \<noteq> Some PRE_BREAKOUT_SCOUT \<or> p_scout_state p = SCOUT_NONE
     then (m, p, [], True)
     else if p_scout_state p = ACTIVE_TREND then (m, p, [], True)
     else case bi_candle b of
       None \<Rightarrow> (m, p, [], False)
     | Some k \<Rightarrow>
         if bi_atr b \<le> 0 then (m, p, [], False)
         else if p_scout_state p = SCOUT_CONFIRMED
         then
           if sc_convert_to_active_on_confirmation c
           then
             let p' = p\<lparr> p_scout_state := ACTIVE_TREND \<rparr>
             in (m, p', [scout_event b k p' ''SCOUT_ACTIVATED'' None], True)
           else (m, p, [], False)
         else scout_open_action cfg b k max_r m p)"

end
