(* ===== verification/Position_Runner.thy ===== *)
theory Position_Runner
  imports Position_Scout
begin

text \<open>
  Runner mode, the management after the partial take-profit (\<^verbatim>\<open>_runner_state_actions\<close>,
  \<^verbatim>\<open>_runner_trend_strength\<close>, \<^verbatim>\<open>_runner_weakening_reason\<close>, \<^verbatim>\<open>_runner_trailing_update_allowed\<close> and
  their helpers): the strength of the trend chooses the trailing distance.
\<close>

section \<open>Strength of the trend\<close>

definition runner_strong_opposite_candle :: "position \<Rightarrow> candle \<Rightarrow> dec option \<Rightarrow> bool" where
  "runner_strong_opposite_candle p k volume_ratio =
    (case volume_ratio of
       None \<Rightarrow> False
     | Some v \<Rightarrow>
         let m = metrics_of k in
         if \<not> mt_valid m \<or> mt_body_ratio m < 55 / 100 \<or> v < 3 / 2 then False
         else closes_against p k (25 / 100) (75 / 100))"

definition five_min_ema_break :: "position \<Rightarrow> indicator_snapshot option \<Rightarrow> bool" where
  "five_min_ema_break p snapshot_5m =
    (case snapshot_5m of
       None \<Rightarrow> False
     | Some s \<Rightarrow> (case is_ema20 s of None \<Rightarrow> False | Some e \<Rightarrow> wrong_side p (is_close s) e))"

text \<open>The 1-minute EMA20 counter; the reason is returned once the count is reached.\<close>

definition runner_ema_break ::
  "app_config \<Rightarrow> pm_state \<Rightarrow> position \<Rightarrow> candle option \<Rightarrow> indicator_snapshot option \<Rightarrow> pm_state \<times> bool" where
  "runner_ema_break cfg m p k snapshot_1m =
    (case (k, Option.bind snapshot_1m is_ema20) of
       (Some c, Some ema) \<Rightarrow>
         if wrong_side p (cd_close c) ema
         then
           let count = get_or (pm_runner_ema_break_counts m) (p_symbol p) 0 + 1
           in (m\<lparr> pm_runner_ema_break_counts := (pm_runner_ema_break_counts m)(p_symbol p \<mapsto> count) \<rparr>,
               rn_tighten_on_1m_ema20_break_bars (runner_cfg cfg) \<le> count)
         else (m\<lparr> pm_runner_ema_break_counts := (pm_runner_ema_break_counts m)(p_symbol p \<mapsto> 0) \<rparr>, False)
     | _ \<Rightarrow> (m, False))"

definition runner_weakening_reason ::
  "app_config \<Rightarrow> bar_input \<Rightarrow> pm_state \<Rightarrow> position \<Rightarrow> pm_state \<times> string option" where
  "runner_weakening_reason cfg b m p =
    (if five_min_ema_break p (bi_snapshot_5m b) then (m, Some ''FIVE_MIN_EMA20_BREAK'')
     else
       let (m', broken) = runner_ema_break cfg m p (bi_candle b) (bi_snapshot_1m b) in
       if broken then (m', Some ''ONE_MIN_EMA20_BREAK'')
       else if rn_tighten_on_strong_opposite_candle (runner_cfg cfg) \<and>
          (case bi_candle b of None \<Rightarrow> False
           | Some k \<Rightarrow> runner_strong_opposite_candle p k (bi_volume_ratio b))
       then (m', Some ''STRONG_OPPOSITE_CANDLE'')
       else (m', None))"

text \<open>One of the two trend-hold requirements: the snapshot has an EMA20 and closes beyond it.\<close>

definition holds_ema :: "position \<Rightarrow> indicator_snapshot option \<Rightarrow> bool" where
  "holds_ema p s =
    (case s of
       None \<Rightarrow> False
     | Some x \<Rightarrow>
         (case is_ema20 x of
            None \<Rightarrow> False
          | Some e \<Rightarrow>
              if p_side p = LONG \<and> is_close x \<le> e then False
              else if p_side p \<noteq> LONG \<and> e \<le> is_close x then False
              else True))"

definition runner_trend_holds ::
  "app_config \<Rightarrow> position \<Rightarrow> indicator_snapshot option \<Rightarrow> indicator_snapshot option \<Rightarrow> bool" where
  "runner_trend_holds cfg p snapshot_1m snapshot_5m =
    (let c = runner_cfg cfg in
     if rn_require_5m_trend_hold c \<and> \<not> holds_ema p snapshot_5m then False
     else if rn_require_1m_ema20_hold c \<and> \<not> holds_ema p snapshot_1m then False
     else case Option.bind snapshot_1m is_rsi14 of
       None \<Rightarrow> False
     | Some rsi \<Rightarrow> if p_side p = LONG then rn_long_min_1m_rsi c \<le> rsi else rsi \<le> rn_short_max_1m_rsi c)"

definition runner_trend_strength_of ::
  "app_config \<Rightarrow> bar_input \<Rightarrow> dec \<Rightarrow> pm_state \<Rightarrow> position \<Rightarrow> pm_state \<times> trend_strength \<times> string" where
  "runner_trend_strength_of cfg b max_r m p =
    (let (m', weak_reason) = runner_weakening_reason cfg b m p in
     case weak_reason of
       Some r \<Rightarrow> (m', WEAK, r)
     | None \<Rightarrow>
         let c = runner_cfg cfg;
             strong = (rn_strong_trend_min_r c \<le> max_r \<and>
               runner_trend_holds cfg p (bi_snapshot_1m b) (bi_snapshot_5m b))
         in if \<not> strong then (m', WEAK, ''TREND_HOLD_WEAK'')
            else
              let very = (rn_very_strong_trend_min_r c \<le> max_r \<and>
                    (case Option.bind (bi_snapshot_1m b) is_rsi14 of
                       None \<Rightarrow> False
                     | Some rsi \<Rightarrow> if p_side p = LONG then rn_long_min_1m_rsi c + 5 \<le> rsi
                                   else rsi \<le> rn_short_max_1m_rsi c - 5))
              in if very then (m', VERY_STRONG, ''VERY_STRONG_TREND_HOLD'')
                 else (m', STRONG, ''STRONG_TREND_HOLD''))"

definition runner_multiplier :: "app_config \<Rightarrow> trend_strength \<Rightarrow> dec" where
  "runner_multiplier cfg s =
    (let c = runner_cfg cfg in
     if s = VERY_STRONG then rn_very_strong_trend_trailing_atr c
     else if s = STRONG then rn_strong_trend_trailing_atr c
     else rn_weak_trend_trailing_atr c)"

section \<open>Downgrades need confirmation\<close>

definition clear_runner_weak_signal :: "string \<Rightarrow> pm_state \<Rightarrow> pm_state" where
  "clear_runner_weak_signal s m =
    m\<lparr> pm_runner_weak_signal_counts := (pm_runner_weak_signal_counts m)(s := None),
       pm_runner_weak_signal_open_times := (pm_runner_weak_signal_open_times m)(s := None) \<rparr>"

definition bump_runner_weak_signal :: "string \<Rightarrow> candle option \<Rightarrow> pm_state \<Rightarrow> pm_state" where
  "bump_runner_weak_signal s k m =
    (let count = get_or (pm_runner_weak_signal_counts m) s 0 + 1 in
     case k of
       Some c \<Rightarrow>
         if 0 < cd_open_time_ms c
         then
           if pm_runner_weak_signal_open_times m s \<noteq> Some (cd_open_time_ms c)
           then m\<lparr> pm_runner_weak_signal_open_times := (pm_runner_weak_signal_open_times m)(s \<mapsto> cd_open_time_ms c),
                   pm_runner_weak_signal_counts := (pm_runner_weak_signal_counts m)(s \<mapsto> count) \<rparr>
           else m
         else m\<lparr> pm_runner_weak_signal_counts := (pm_runner_weak_signal_counts m)(s \<mapsto> count) \<rparr>
     | None \<Rightarrow> m\<lparr> pm_runner_weak_signal_counts := (pm_runner_weak_signal_counts m)(s \<mapsto> count) \<rparr>)"

definition runner_weak_downgrade_pending ::
  "app_config \<Rightarrow> trend_strength option \<Rightarrow> trend_strength \<Rightarrow> string \<Rightarrow> candle option \<Rightarrow> pm_state \<Rightarrow>
   position \<Rightarrow> pm_state \<times> bool" where
  "runner_weak_downgrade_pending cfg old strength reason k m p =
    (let c = runner_cfg cfg; s = p_symbol p in
     if (old \<noteq> Some STRONG \<and> old \<noteq> Some VERY_STRONG) \<or> strength \<noteq> WEAK then (m, False)
     else if reason = ''FIVE_MIN_EMA20_BREAK'' then (clear_runner_weak_signal s m, False)
     else
       let required = (if reason = ''STRONG_OPPOSITE_CANDLE''
             then max 1 (rn_tighten_on_strong_opposite_candle_bars c)
             else max 1 (rn_tighten_on_1m_ema20_break_bars c))
       in if required \<le> 1 then (m, False)
          else
            let m1 = bump_runner_weak_signal s k m in
            if get_or (pm_runner_weak_signal_counts m1) s 0 < required then (m1, True)
            else (clear_runner_weak_signal s m1, False))"

section \<open>Events and the state step\<close>

definition runner_event ::
  "bar_input \<Rightarrow> position \<Rightarrow> string \<Rightarrow> dec \<Rightarrow> dec \<Rightarrow> dec option \<Rightarrow> dec option \<Rightarrow> string option \<Rightarrow>
   position_action" where
  "runner_event b p event_type current_r max_r old_stop new_stop reason =
    event_action event_type
      [(''symbol'', PStr (p_symbol p)),
       (''side'', PStr (position_side_value (p_side p))),
       (''entry_price'', PDec (p_avg_entry_price p)),
       (''current_price'', PDec (bi_price b)),
       (''remaining_qty'', PDec (p_qty p)),
       (''max_r'', PDec max_r),
       (''current_r'', PDec current_r),
       (''trend_strength'', opt_str (map_option trend_strength_value (p_runner_trend_strength p))),
       (''trailing_multiplier'', opt_dec (p_runner_trailing_atr_multiplier p)),
       (''atr'', PDec (bi_atr b)),
       (''highest_price'', opt_dec (p_highest_price p)),
       (''lowest_price'', opt_dec (p_lowest_price p)),
       (''old_trailing_stop'', opt_dec old_stop),
       (''new_trailing_stop'', opt_dec new_stop),
       (''exchange_sl_before'', opt_dec old_stop),
       (''exchange_sl_after'', opt_dec new_stop),
       (''reason'', opt_str reason)]"

definition runner_state_actions ::
  "app_config \<Rightarrow> bar_input \<Rightarrow> dec \<Rightarrow> dec \<Rightarrow> pm_state \<Rightarrow> position \<Rightarrow>
   pm_state \<times> position \<times> position_action list" where
  "runner_state_actions cfg b max_r current_r m p =
    (if \<not> p_runner_mode_active p then (m, p, [])
     else
       let (m1, strength, reason) = runner_trend_strength_of cfg b max_r m p;
           old = p_runner_trend_strength p;
           (m2, pending) = runner_weak_downgrade_pending cfg old strength reason (bi_candle b) m1 p
       in if pending then (m2, p, [])
          else
            let m3 = (if strength \<noteq> WEAK then clear_runner_weak_signal (p_symbol p) m2 else m2);
                p' = p\<lparr> p_runner_trend_strength := Some strength,
                        p_runner_trailing_atr_multiplier := Some (runner_multiplier cfg strength) \<rparr>
            in if old = None \<or> old = Some strength then (m3, p', [])
               else (m3, p', [runner_event b p' ''RUNNER_TREND_STRENGTH_CHANGED'' current_r max_r
                       None None (Some reason)]))"

section \<open>Rate limit of trailing updates\<close>

definition runner_trailing_update_allowed :: "app_config \<Rightarrow> position \<Rightarrow> dec \<Rightarrow> dec \<Rightarrow> int \<Rightarrow> bool" where
  "runner_trailing_update_allowed cfg p new_stop atr now =
    (let c = runner_cfg cfg in
     if \<not> p_runner_mode_active p then True
     else if (case p_last_runner_trailing_update_at p of
         None \<Rightarrow> False
       | Some last_at \<Rightarrow> now - last_at < rn_min_trailing_update_interval_sec c * 1000000) then False
     else case or_else (p_last_runner_trailing_stop p) (p_stop_loss_price p) of
       None \<Rightarrow> True
     | Some last_stop \<Rightarrow>
         if atr \<le> 0 then True
         else
           let improvement = (if p_side p = LONG then dsub new_stop last_stop else dsub last_stop new_stop)
           in dmul atr (rn_min_trailing_improvement_atr c) \<le> improvement)"

definition record_runner_trailing_update :: "dec \<Rightarrow> int \<Rightarrow> position \<Rightarrow> position" where
  "record_runner_trailing_update new_stop now p =
    (if \<not> p_runner_mode_active p then p
     else p\<lparr> p_last_runner_trailing_update_at := Some now, p_last_runner_trailing_stop := Some new_stop \<rparr>)"

section \<open>Frame\<close>

text \<open>The position without the fields runner mode and the trailing step write.\<close>

definition forget_runner :: "position \<Rightarrow> position" where
  "forget_runner p = p\<lparr> p_runner_trend_strength := None, p_runner_trailing_atr_multiplier := None \<rparr>"

lemma runner_state_frame:
  assumes "runner_state_actions cfg b max_r cr m p = (m', p', acts)"
  shows "forget_runner p' = forget_runner p" and "\<forall>a\<in>set acts. pa_type a = SCOUT_EVENT"
    and "\<not> p_runner_mode_active p \<Longrightarrow> m' = m \<and> p' = p \<and> acts = []"
  using assms
  by (auto simp: runner_state_actions_def forget_runner_def runner_event_def Let_def split: if_splits prod.splits)

lemma forget_runner_frame:
  assumes "forget_runner p' = forget_runner p"
  shows "p_stop_loss_price p' = p_stop_loss_price p \<and> p_status p' = p_status p \<and> p_side p' = p_side p \<and>
    p_qty p' = p_qty p \<and> p_symbol p' = p_symbol p \<and> p_partial_tp_done p' = p_partial_tp_done p \<and>
    p_source p' = p_source p \<and> p_entry_mode p' = p_entry_mode p \<and>
    p_runner_mode_active p' = p_runner_mode_active p \<and> p_exit_reason p' = p_exit_reason p \<and>
    p_avg_entry_price p' = p_avg_entry_price p \<and> p_bars_since_entry p' = p_bars_since_entry p \<and>
    p_scout_state p' = p_scout_state p \<and> p_opened_at p' = p_opened_at p \<and>
    p_scout_defensive_reduction_count p' = p_scout_defensive_reduction_count p \<and>
    p_trailing_active p' = p_trailing_active p"
  using arg_cong [OF assms, of p_stop_loss_price] arg_cong [OF assms, of p_status]
    arg_cong [OF assms, of p_side] arg_cong [OF assms, of p_qty] arg_cong [OF assms, of p_symbol]
    arg_cong [OF assms, of p_partial_tp_done] arg_cong [OF assms, of p_source]
    arg_cong [OF assms, of p_entry_mode] arg_cong [OF assms, of p_runner_mode_active]
    arg_cong [OF assms, of p_exit_reason] arg_cong [OF assms, of p_avg_entry_price]
    arg_cong [OF assms, of p_bars_since_entry] arg_cong [OF assms, of p_scout_state]
    arg_cong [OF assms, of p_opened_at] arg_cong [OF assms, of p_scout_defensive_reduction_count]
    arg_cong [OF assms, of p_trailing_active]
  by (simp add: forget_runner_def)

end
