(* ===== verification/Position_Scenario.thy ===== *)
theory Position_Scenario
  imports Position_Runner
begin

text \<open>
  Scenario invalidation (\<^verbatim>\<open>_scenario_action\<close>, \<^verbatim>\<open>_scenario_invalid\<close>, \<^verbatim>\<open>_break_level_invalid\<close> and
  their helpers): when the reason of an entry no longer holds the position is halved once and
  given a short recovery window, after which it is closed.
\<close>

section \<open>When a scenario is invalid\<close>

definition management_event_data ::
  "bar_input \<Rightarrow> position \<Rightarrow> dec \<Rightarrow> string \<Rightarrow> payload" where
  "management_event_data b p r reason =
    (let m = map_option metrics_of (bi_candle b);
         ratio = (\<lambda>f. case m of None \<Rightarrow> PNone | Some x \<Rightarrow> if mt_valid x then PDec (f x) else PNone)
     in [(''symbol'', PStr (p_symbol p)),
         (''side'', PStr (position_side_value (p_side p))),
         (''entry_price'', PDec (p_avg_entry_price p)),
         (''current_price'', PDec (bi_price b)),
         (''entry_mode'', opt_str (map_option entry_mode_value (p_entry_mode p))),
         (''qty'', PDec (p_qty p)),
         (''current_r'', PDec r),
         (''bars_since_entry'', PInt (p_bars_since_entry p)),
         (''atr'', PDec (bi_atr b)),
         (''volume_ratio'', opt_dec (bi_volume_ratio b)),
         (''candle_close'', opt_dec (map_option cd_close (bi_candle b))),
         (''body_ratio'', ratio mt_body_ratio),
         (''close_position_in_range'', ratio mt_close_position_in_range),
         (''snapshot_5m_close'', opt_dec (map_option is_close (bi_snapshot_5m b))),
         (''snapshot_5m_ema20'', opt_dec (Option.bind (bi_snapshot_5m b) is_ema20)),
         (''reason'', PStr reason)])"

definition hard_scenario_invalid :: "bar_input \<Rightarrow> position \<Rightarrow> bool" where
  "hard_scenario_invalid b p =
    (if five_min_ema_break p (bi_snapshot_5m b) then True
     else case (bi_candle b, bi_volume_ratio b) of
       (Some k, Some v) \<Rightarrow>
         let m = metrics_of k in
         if \<not> mt_valid m then False
         else if mt_body_ratio m < 55 / 100 \<or> v < 3 / 2 then False
         else closes_against p k (25 / 100) (75 / 100)
     | _ \<Rightarrow> False)"

definition mild_retest_break_level_invalid :: "bar_input \<Rightarrow> position \<Rightarrow> dec \<Rightarrow> bool" where
  "mild_retest_break_level_invalid b p r =
    (if p_entry_mode p \<noteq> Some RETEST_CONFIRM then False
     else if r \<le> - (1 / 2) then False
     else \<not> hard_scenario_invalid b p)"

text \<open>Two consecutive closes beyond the broken level. A candle that was already counted returns
  the verdict of its first evaluation.\<close>

definition candle_time :: "candle \<Rightarrow> int option" where
  "candle_time k = (if 0 < cd_open_time_ms k then Some (cd_open_time_ms k) else None)"

definition break_level_invalid :: "pm_state \<Rightarrow> position \<Rightarrow> candle \<Rightarrow> pm_state \<times> bool" where
  "break_level_invalid m p k =
    (case p_breakout_level p of
       None \<Rightarrow> (m, False)
     | Some level \<Rightarrow>
         let key = scenario_key_of p; open_time = candle_time k in
         if wrong_side p (cd_close k) level
         then
           let (last_open_time, prev_count) = get_or (pm_break_level_fail_closes m) key (None, 0) in
           if open_time \<noteq> None \<and> open_time = last_open_time then (m, 2 \<le> prev_count)
           else
             let count = prev_count + 1 in
             (m\<lparr> pm_break_level_fail_closes := (pm_break_level_fail_closes m)(key \<mapsto> (open_time, count)) \<rparr>,
              2 \<le> count)
         else (m\<lparr> pm_break_level_fail_closes := (pm_break_level_fail_closes m)(key := None) \<rparr>, False))"

definition strong_counter_candle :: "bar_input \<Rightarrow> position \<Rightarrow> bool" where
  "strong_counter_candle b p =
    (case (bi_candle b, bi_volume_ratio b) of
       (Some k, Some v) \<Rightarrow>
         let m = metrics_of k in
         mt_valid m \<and> 55 / 100 \<le> mt_body_ratio m \<and> 3 / 2 \<le> v \<and> closes_against p k (25 / 100) (75 / 100)
     | _ \<Rightarrow> False)"

definition scenario_invalid :: "bar_input \<Rightarrow> bool \<Rightarrow> pm_state \<Rightarrow> position \<Rightarrow> pm_state \<times> bool" where
  "scenario_invalid b include_counter_candle m p =
    (if five_min_ema_break p (bi_snapshot_5m b) then (m, True)
     else
       let (m', broken) = (case bi_candle b of None \<Rightarrow> (m, False) | Some k \<Rightarrow> break_level_invalid m p k)
       in if broken then (m', True)
          else (m', include_counter_candle \<and> strong_counter_candle b p))"

section \<open>Confirmation for scouts\<close>

definition break_level_invalid_confirmed :: "pm_state \<Rightarrow> position \<Rightarrow> candle option \<Rightarrow> scenario_key \<Rightarrow> bool" where
  "break_level_invalid_confirmed m p k key =
    (case (p_breakout_level p, k) of
       (Some level, Some c) \<Rightarrow>
         if \<not> wrong_side p (cd_close c) level then False
         else 2 \<le> snd (get_or (pm_break_level_fail_closes m) key (None, 0))
     | _ \<Rightarrow> False)"

definition scout_scenario_invalid_confirmed ::
  "pm_state \<Rightarrow> position \<Rightarrow> candle option \<Rightarrow> pm_state \<times> bool" where
  "scout_scenario_invalid_confirmed m p k =
    (if p_entry_mode p \<noteq> Some PRE_BREAKOUT_SCOUT then (m, True)
     else
       let key = scenario_key_of p in
       if break_level_invalid_confirmed m p k key
       then (m\<lparr> pm_scout_scenario_invalid_closes := (pm_scout_scenario_invalid_closes m)(key := None) \<rparr>, True)
       else
         let open_time = Option.bind k candle_time;
             (last_open_time, prev_count) = get_or (pm_scout_scenario_invalid_closes m) key (None, 0)
         in if open_time \<noteq> None \<and> open_time = last_open_time then (m, 2 \<le> prev_count)
            else
              let count = prev_count + 1 in
              (m\<lparr> pm_scout_scenario_invalid_closes :=
                  (pm_scout_scenario_invalid_closes m)(key \<mapsto> (open_time, count)) \<rparr>, 2 \<le> count))"

definition clear_scout_scenario_invalid :: "pm_state \<Rightarrow> position \<Rightarrow> pm_state" where
  "clear_scout_scenario_invalid m p =
    (if p_entry_mode p = Some PRE_BREAKOUT_SCOUT
     then m\<lparr> pm_scout_scenario_invalid_closes :=
            (pm_scout_scenario_invalid_closes m)(scenario_key_of p := None) \<rparr>
     else m)"

section \<open>The action\<close>

definition scenario_invalid_grace_bars :: "app_config \<Rightarrow> position \<Rightarrow> int" where
  "scenario_invalid_grace_bars cfg p =
    (if p_entry_mode p \<noteq> Some RETEST_CONFIRM then 0
     else max 0 (sgr_scenario_invalid_grace_bars (se_retest_confirm (cfg_stagnation_exit cfg))))"

definition delayed_event :: "bar_input \<Rightarrow> position \<Rightarrow> dec \<Rightarrow> string \<Rightarrow> position_action" where
  "delayed_event b p r reason =
    event_action ''STAGNATION_DELAYED_BY_ENTRY_MODE'' (management_event_data b p r reason)"

definition scenario_reduce_action :: "bar_input \<Rightarrow> position \<Rightarrow> dec \<Rightarrow> position_action" where
  "scenario_reduce_action b p r =
    (plain_action REDUCE)\<lparr> pa_qty := Some (round_qty (dmul (p_qty p) (1 / 2))),
      pa_reason := Some SCENARIO_INVALID, pa_event_type := Some ''SCENARIO_INVALID_REDUCE'',
      pa_data := Some (management_event_data b p r ''SCENARIO_INVALID'') \<rparr>"

text \<open>The recovery window: open from the reduction until the position is back at half an R or the
  window runs out.\<close>

definition scenario_recovery_step ::
  "pm_state \<Rightarrow> position \<Rightarrow> dec \<Rightarrow> int \<Rightarrow> pm_state \<times> position \<times> position_action option" where
  "scenario_recovery_step m p r left0 =
    (let left = left0 - 1; s = p_symbol p in
     if 1 / 2 \<le> r
     then (m\<lparr> pm_scenario_recovery := (pm_scenario_recovery m)(s := None) \<rparr>, p, None)
     else if left \<le> 0
     then
       let (p', a) = exit_position p SCENARIO_INVALID
       in (m\<lparr> pm_scenario_recovery := (pm_scenario_recovery m)(s := None) \<rparr>, p', Some a)
     else (m\<lparr> pm_scenario_recovery := (pm_scenario_recovery m)(s \<mapsto> left) \<rparr>, p, None))"

definition scenario_invalid_step ::
  "app_config \<Rightarrow> bar_input \<Rightarrow> dec \<Rightarrow> pm_state \<Rightarrow> position \<Rightarrow> pm_state \<times> position_action option" where
  "scenario_invalid_step cfg b r m p =
    (let key = scenario_key_of p; s = p_symbol p; grace = scenario_invalid_grace_bars cfg p in
     if key \<in> pm_scenario_reduced m
     then (if r < 1 / 2 then m\<lparr> pm_scenario_recovery := (pm_scenario_recovery m)(s \<mapsto> 3) \<rparr> else m, None)
     else if 0 < grace \<and> p_bars_since_entry p \<le> grace
     then (m, Some (delayed_event b p r ''RETEST_SCENARIO_INVALID_GRACE''))
     else if mild_retest_break_level_invalid b p r
     then (m, if p_bars_since_entry p < sgr_tighten_after_bars (se_retest_confirm (cfg_stagnation_exit cfg))
              then Some (delayed_event b p r ''RETEST_BREAK_LEVEL_INVALID_DELAYED'')
              else None)
     else
       let (m1, confirmed) = scout_scenario_invalid_confirmed m p (bi_candle b) in
       if \<not> confirmed then (m1, Some (delayed_event b p r ''SCOUT_SCENARIO_INVALID_CONFIRMING''))
       else (m1\<lparr> pm_scenario_recovery := (pm_scenario_recovery m1)(s \<mapsto> 3),
                pm_scenario_reduced := insert key (pm_scenario_reduced m1) \<rparr>,
             Some (scenario_reduce_action b p r)))"

definition scenario_action ::
  "app_config \<Rightarrow> bar_input \<Rightarrow> dec \<Rightarrow> pm_state \<Rightarrow> position \<Rightarrow>
   pm_state \<times> position \<times> position_action option" where
  "scenario_action cfg b r m p =
    (case pm_scenario_recovery m (p_symbol p) of
       Some left0 \<Rightarrow> scenario_recovery_step m p r left0
     | None \<Rightarrow>
         let (m1, invalid) = scenario_invalid b True m p in
         if invalid
         then (let (m2, a) = scenario_invalid_step cfg b r m1 p in (m2, p, a))
         else (clear_scout_scenario_invalid m1 p, p, None))"

section \<open>Outcomes\<close>

lemma break_level_frame [simp]:
  "pm_scenario_reduced (fst (break_level_invalid m p k)) = pm_scenario_reduced m"
  "pm_scenario_recovery (fst (break_level_invalid m p k)) = pm_scenario_recovery m"
  by (auto simp: break_level_invalid_def Let_def case_prod_beta split: option.split)

lemma scenario_invalid_frame [simp]:
  "pm_scenario_reduced (fst (scenario_invalid b i m p)) = pm_scenario_reduced m"
  "pm_scenario_recovery (fst (scenario_invalid b i m p)) = pm_scenario_recovery m"
  by (auto simp: scenario_invalid_def Let_def case_prod_beta split: option.split)

lemma scout_confirmed_frame [simp]:
  "pm_scenario_reduced (fst (scout_scenario_invalid_confirmed m p k)) = pm_scenario_reduced m"
  "pm_scenario_recovery (fst (scout_scenario_invalid_confirmed m p k)) = pm_scenario_recovery m"
  by (simp_all add: scout_scenario_invalid_confirmed_def Let_def case_prod_beta)

inductive scenario_outcome ::
  "pm_state \<Rightarrow> position \<Rightarrow> dec \<Rightarrow> pm_state \<times> position \<times> position_action option \<Rightarrow> bool" for m p r where
  quiet: "pm_scenario_reduced m' = pm_scenario_reduced m \<Longrightarrow> scenario_outcome m p r (m', p, None)"
| event: "pm_scenario_reduced m' = pm_scenario_reduced m \<Longrightarrow>
    scenario_outcome m p r (m', p, Some (event_action e d))"
| reduce: "scenario_key_of p \<notin> pm_scenario_reduced m \<Longrightarrow>
    pm_scenario_reduced m' = insert (scenario_key_of p) (pm_scenario_reduced m) \<Longrightarrow>
    pm_scenario_recovery m' (p_symbol p) = Some 3 \<Longrightarrow>
    scenario_outcome m p r (m', p, Some (scenario_reduce_action b p r))"
| exit: "r < 1 / 2 \<Longrightarrow> pm_scenario_recovery m (p_symbol p) = Some w \<Longrightarrow> w \<le> 1 \<Longrightarrow>
    pm_scenario_reduced m' = pm_scenario_reduced m \<Longrightarrow>
    exit_position p SCENARIO_INVALID = (p', a) \<Longrightarrow>
    scenario_outcome m p r (m', p', Some a)"

lemma scenario_recovery_outcome:
  "pm_scenario_recovery m (p_symbol p) = Some w \<Longrightarrow>
    scenario_outcome m p r (scenario_recovery_step m p r w)"
  by (cases "exit_position p SCENARIO_INVALID")
    (auto simp: scenario_recovery_step_def Let_def intro: scenario_outcome.intros)

lemma scenario_invalid_step_outcome:
  assumes "pm_scenario_reduced m1 = pm_scenario_reduced m" 
  shows "scenario_outcome m p r (let (m2, a) = scenario_invalid_step cfg b r m1 p in (m2, p, a))"
proof -
  obtain m2 c where c: "scout_scenario_invalid_confirmed m1 p (bi_candle b) = (m2, c)"
    by (meson surj_pair)
  have m2: "pm_scenario_reduced m2 = pm_scenario_reduced m"
    using scout_confirmed_frame(1) [of m1 p "bi_candle b"] assms c by simp
  show ?thesis
    unfolding scenario_invalid_step_def Let_def c delayed_event_def
    using m2 assms by (simp split: if_split) (auto intro: scenario_outcome.intros)
qed

lemma scenario_action_outcome: "scenario_outcome m p r (scenario_action cfg b r m p)"
proof (cases "pm_scenario_recovery m (p_symbol p)")
  case (Some w)
  then show ?thesis by (simp add: scenario_action_def scenario_recovery_outcome)
next
  case None
  obtain m1 inv where inv: "scenario_invalid b True m p = (m1, inv)" by (meson surj_pair)
  have m1: "pm_scenario_reduced m1 = pm_scenario_reduced m"
    using scenario_invalid_frame(1) [of b True m p] inv by simp
  then show ?thesis
    using None inv scenario_invalid_step_outcome [OF m1, of p r cfg b]
    by (auto simp: scenario_action_def clear_scout_scenario_invalid_def intro: scenario_outcome.quiet)
qed

end
