(* ===== verification/Position_Scout_Facts.thy ===== *)
theory Position_Scout_Facts
  imports Position_Scout
begin

text \<open>
  What the scout management can do to a position: the moves of its state machine, the fields
  it may change, and how often it may reduce.
\<close>

section \<open>The state machine\<close>

inductive scout_move :: "scout_state \<Rightarrow> scout_state \<Rightarrow> bool" where
  stay: "scout_move s s"
| warn: "scout_move SCOUT_PENDING SCOUT_WARNING"
| calm: "scout_move SCOUT_WARNING SCOUT_PENDING"
| confirm: "s \<in> {SCOUT_PENDING, SCOUT_WARNING} \<Longrightarrow> scout_move s SCOUT_CONFIRMED"
| activate: "s \<in> {SCOUT_PENDING, SCOUT_WARNING, SCOUT_CONFIRMED} \<Longrightarrow> scout_move s ACTIVE_TREND"

inductive_cases scout_move_NONE: "scout_move SCOUT_NONE s"
inductive_cases scout_move_ACTIVE: "scout_move ACTIVE_TREND s"
inductive_cases scout_move_CONFIRMED: "scout_move SCOUT_CONFIRMED s"
inductive_simps scout_move_to_NONE: "scout_move s SCOUT_NONE"

text \<open>A scout the management owns: no general rule applies to it yet.\<close>

definition scout_live :: "app_config \<Rightarrow> position \<Rightarrow> bool" where
  "scout_live cfg p \<longleftrightarrow> sc_enabled (scout_cfg cfg) \<and> p_entry_mode p = Some PRE_BREAKOUT_SCOUT \<and>
    p_scout_state p \<noteq> SCOUT_NONE \<and> p_scout_state p \<noteq> ACTIVE_TREND"

text \<open>The position without the fields of the scout state machine.\<close>

definition forget_scout :: "position \<Rightarrow> position" where
  "forget_scout p = p\<lparr> p_scout_state := SCOUT_NONE, p_scout_warning_started_at_bar := None,
    p_scout_warning_reason := None, p_scout_defensive_reduction_count := 0,
    p_scout_confirmed_at := None \<rparr>"

lemma forget_scout_id [simp]:
  "forget_scout (p\<lparr> p_scout_state := s \<rparr>) = forget_scout p"
  "forget_scout (p\<lparr> p_scout_warning_started_at_bar := w \<rparr>) = forget_scout p"
  "forget_scout (p\<lparr> p_scout_warning_reason := r \<rparr>) = forget_scout p"
  "forget_scout (p\<lparr> p_scout_defensive_reduction_count := n \<rparr>) = forget_scout p"
  "forget_scout (p\<lparr> p_scout_confirmed_at := t \<rparr>) = forget_scout p"
  "forget_scout (clear_scout_warning p) = forget_scout p"
  by (simp_all add: forget_scout_def clear_scout_warning_def)

lemma forget_scout_frame:
  assumes "forget_scout p' = forget_scout p"
  shows "p_stop_loss_price p' = p_stop_loss_price p \<and> p_status p' = p_status p \<and> p_side p' = p_side p \<and>
    p_qty p' = p_qty p \<and> p_symbol p' = p_symbol p \<and> p_partial_tp_done p' = p_partial_tp_done p \<and>
    p_source p' = p_source p \<and> p_entry_mode p' = p_entry_mode p \<and>
    p_runner_mode_active p' = p_runner_mode_active p \<and> p_exit_reason p' = p_exit_reason p \<and>
    p_avg_entry_price p' = p_avg_entry_price p \<and> p_bars_since_entry p' = p_bars_since_entry p \<and>
    p_opened_at p' = p_opened_at p \<and> p_trailing_active p' = p_trailing_active p"
proof -
  have "f (forget_scout p') = f (forget_scout p)" for f :: "position \<Rightarrow> 'b"
    by (simp add: assms)
  note eq = arg_cong [OF assms, of p_stop_loss_price] arg_cong [OF assms, of p_status]
    arg_cong [OF assms, of p_side] arg_cong [OF assms, of p_qty] arg_cong [OF assms, of p_symbol]
    arg_cong [OF assms, of p_partial_tp_done] arg_cong [OF assms, of p_source]
    arg_cong [OF assms, of p_entry_mode] arg_cong [OF assms, of p_runner_mode_active]
    arg_cong [OF assms, of p_exit_reason] arg_cong [OF assms, of p_avg_entry_price]
    arg_cong [OF assms, of p_bars_since_entry] arg_cong [OF assms, of p_opened_at]
    arg_cong [OF assms, of p_trailing_active]
  show ?thesis using eq by (simp add: forget_scout_def)
qed

lemma clear_scout_warning_simps [simp]:
  "p_scout_state (clear_scout_warning p) = p_scout_state p"
  "p_scout_defensive_reduction_count (clear_scout_warning p) = p_scout_defensive_reduction_count p"
  by (simp_all add: clear_scout_warning_def)

section \<open>Outcomes of the management step\<close>

inductive scout_outcome ::
  "app_config \<Rightarrow> position \<Rightarrow> position \<times> position_action list \<times> bool \<Rightarrow> bool" for cfg p where
  observe: "forget_scout p' = forget_scout p \<Longrightarrow> scout_move (p_scout_state p) (p_scout_state p') \<Longrightarrow>
    p_scout_defensive_reduction_count p' = p_scout_defensive_reduction_count p \<Longrightarrow>
    \<forall>a\<in>set acts. pa_type a = SCOUT_EVENT \<Longrightarrow> g \<longrightarrow> \<not> scout_live cfg p' \<Longrightarrow>
    scout_outcome cfg p (p', acts, g)"
| reduce: "forget_scout p' = forget_scout p \<Longrightarrow> scout_live cfg p \<Longrightarrow>
    p_scout_state p' = SCOUT_PENDING \<Longrightarrow> p_scout_state p \<noteq> SCOUT_CONFIRMED \<Longrightarrow>
    p_scout_defensive_reduction_count p < sc_max_defensive_reductions (scout_cfg cfg) \<Longrightarrow>
    p_scout_defensive_reduction_count p' = p_scout_defensive_reduction_count p + 1 \<Longrightarrow>
    pa_type a = REDUCE \<Longrightarrow>
    pa_qty a = Some (dmul (p_qty p) (sc_defensive_reduce_fraction (scout_cfg cfg))) \<Longrightarrow>
    scout_outcome cfg p (p', [a], False)"
| exit: "forget_scout p' = forget_scout (fst (exit_position p STAGNATION)) \<Longrightarrow>
    scout_live cfg p \<Longrightarrow> scout_move (p_scout_state p) (p_scout_state p') \<Longrightarrow>
    p_scout_defensive_reduction_count p' = p_scout_defensive_reduction_count p \<Longrightarrow>
    pa_type ev = SCOUT_EVENT \<Longrightarrow> a = snd (exit_position p STAGNATION) \<Longrightarrow>
    scout_outcome cfg p (p', [ev, a], False)"

lemma scout_event_type [simp]: "pa_type (scout_event b k p e r) = SCOUT_EVENT"
  by (simp add: scout_event_def)

lemma scout_reduce_outcome:
  assumes "scout_live cfg p" "p_scout_state p \<noteq> SCOUT_CONFIRMED"
    "p_scout_defensive_reduction_count p < sc_max_defensive_reductions (scout_cfg cfg)"
  shows "scout_outcome cfg p (fst (scout_reduce_action cfg b k p r e t), [snd (scout_reduce_action cfg b k p r e t)], False)"
  using assms by (intro scout_outcome.reduce) (simp_all add: scout_reduce_action_def Let_def round_qty_def)

text \<open>Only an exit or a delay notice can come out of the stagnation rules for a scout.\<close>

lemma scout_stagnation:
  assumes "p_entry_mode p = Some PRE_BREAKOUT_SCOUT"
  obtains m' where "stagnation_action cfg m p max_r cr price atr = (m', p, None)"
  | m' d where "stagnation_action cfg m p max_r cr price atr =
      (m', p, Some (event_action ''STAGNATION_DELAYED_BY_ENTRY_MODE'' d))"
  | "stagnation_action cfg m p max_r cr price atr =
      (m, fst (exit_position p STAGNATION), Some (snd (exit_position p STAGNATION)))"
proof -
  obtain m' p' a where eq: "stagnation_action cfg m p max_r cr price atr = (m', p', a)"
    by (metis surj_pair)
  have "stagnation_outcome cfg m p max_r (m', p', a)"
    using stagnation_action_outcome [of cfg m p max_r cr price atr] eq by simp
  then show thesis
  proof cases
    case nothing
    then show thesis using that(1) eq by blast
  next
    case (exit b)
    have "p' = fst (exit_position p STAGNATION)" "b = snd (exit_position p STAGNATION)"
      by (simp_all add: exit(3))
    then show thesis using that(3) eq exit by blast
  next
    case (delay k d)
    then show thesis using that(2) eq by blast
  qed (use assms in simp_all)
qed

lemma exit_event_type [simp]: "pa_event_type (snd (exit_position p r)) = None"
  by (simp add: exit_position_def plain_action_def)

lemma exit_scout_fields [simp]:
  "p_scout_state (fst (exit_position p r)) = p_scout_state p"
  "p_scout_defensive_reduction_count (fst (exit_position p r)) = p_scout_defensive_reduction_count p"
  by (simp_all add: exit_position_def)

definition drop_state :: "pm_state \<times> position \<times> position_action list \<times> bool \<Rightarrow> position \<times> position_action list \<times> bool" where
  "drop_state x = snd x"

lemma scout_pending_outcome:
  assumes live: "scout_live cfg p" and st: "p_scout_state p = SCOUT_PENDING"
  shows "scout_outcome cfg p (snd (scout_pending_action cfg b k max_r m p))"
proof -
  let ?strong = "scout_strong_opposite_reason cfg p k (bi_volume_ratio b)"
  let ?may = "p_scout_defensive_reduction_count p < sc_max_defensive_reductions (scout_cfg cfg)"
  obtain m1 weak where weak: "(if scout_bars_since_entry p < sc_grace_bars (scout_cfg cfg) then (m, None)
      else scout_weakness_reason cfg m p k (bi_snapshot_1m b) (bi_volume_ratio b)) = (m1, weak)"
    by (meson surj_pair)
  have mode: "p_entry_mode p = Some PRE_BREAKOUT_SCOUT" using live by (simp add: scout_live_def)
  consider (warn) "?strong \<noteq> None" "?may" | (weak) "\<not> (?strong \<noteq> None \<and> ?may)" "weak \<noteq> None" "?may"
    | (stag) "\<not> (?strong \<noteq> None \<and> ?may)" "\<not> (weak \<noteq> None \<and> ?may)" by blast
  then show ?thesis
  proof cases
    case warn
    then show ?thesis
      unfolding scout_pending_action_def Let_def
      by (simp add: st) (intro scout_outcome.observe, simp_all add: st scout_move.warn)
  next
    case weak
    note rest = weak
    show ?thesis
      unfolding scout_pending_action_def Let_def \<open>(if _ then _ else _) = (m1, weak)\<close>
      using rest scout_reduce_outcome [OF live, of b k "the weak" SCOUT_DEFENSIVE_REDUCE "''SCOUT_DEFENSIVE_REDUCE''"] st
      by (simp add: case_prod_beta)
  next
    case stag
    have pending: "scout_pending_action cfg b k max_r m p =
        (let (m2, p2, stagnation) = stagnation_action cfg m1 p max_r (r_multiple p (bi_price b))
              (bi_price b) (bi_atr b)
         in case stagnation of None \<Rightarrow> (m2, p2, [], False)
            | Some a \<Rightarrow> if pa_event_type a = Some ''STAGNATION_DELAYED_BY_ENTRY_MODE''
                then (m2, p2, [a], False)
                else (m2, p2, [scout_event b k p2 ''SCOUT_INVALIDATED''
                  (Some (case pa_reason a of None \<Rightarrow> ''STAGNATION'' | Some r \<Rightarrow> exit_reason_value r)), a], False))"
      unfolding scout_pending_action_def Let_def weak
      using stag by (simp only: if_False prod.case de_Morgan_conj not_not if_not_P)
    show ?thesis
      by (rule scout_stagnation [OF mode, of cfg m1 max_r "r_multiple p (bi_price b)" "bi_price b" "bi_atr b"])
        (simp_all add: pending live scout_outcome.observe scout_outcome.exit scout_move.stay)
  qed
qed

lemma scout_warning_outcome:
  assumes live: "scout_live cfg p" and st: "p_scout_state p = SCOUT_WARNING"
    and a: "scout_warning_action cfg b k p = Some (p', acts)"
  shows "scout_outcome cfg p (p', acts, False)"
  using a st scout_reduce_outcome [OF live, of b k
    "or_str (p_scout_warning_reason p) ''SCOUT_WARNING_NOT_RECOVERED''" SCOUT_DEFENSIVE_REDUCE "''SCOUT_DEFENSIVE_REDUCE''"]
  by (auto simp: scout_warning_action_def Let_def case_prod_beta split: if_splits
      intro!: scout_outcome.observe scout_move.stay scout_move.calm)

lemma scout_move_calm: "scout_move SCOUT_PENDING s \<Longrightarrow> scout_move SCOUT_WARNING s"
  by (cases s) (auto intro: scout_move.intros simp: scout_move_to_NONE)

text \<open>A warned scout whose reductions are used up is treated as a pending one.\<close>

lemma scout_outcome_calm:
  assumes "scout_outcome cfg ((clear_scout_warning p)\<lparr> p_scout_state := SCOUT_PENDING \<rparr>) x"
    and "scout_live cfg p" "p_scout_state p = SCOUT_WARNING"
    and "\<not> p_scout_defensive_reduction_count p < sc_max_defensive_reductions (scout_cfg cfg)"
  shows "scout_outcome cfg p x"
  using assms(1)
proof cases
  case (observe p' acts g)
  then show ?thesis using assms
    by (auto intro!: scout_outcome.observe scout_move_calm)
next
  case (reduce p' a)
  then show ?thesis using assms(4) by simp
next
  case (exit p' ev a)
  have "forget_scout (fst (exit_position ((clear_scout_warning p)\<lparr> p_scout_state := SCOUT_PENDING \<rparr>) STAGNATION)) =
      forget_scout (fst (exit_position p STAGNATION))"
    by (simp add: exit_position_def forget_scout_def clear_scout_warning_def)
  moreover have "snd (exit_position ((clear_scout_warning p)\<lparr> p_scout_state := SCOUT_PENDING \<rparr>) STAGNATION) =
      snd (exit_position p STAGNATION)"
    by (simp add: exit_position_def clear_scout_warning_def)
  ultimately show ?thesis using exit assms
    by (auto intro!: scout_outcome.exit scout_move_calm)
qed

lemma scout_warning_None:
  "scout_warning_action cfg b k p = None \<Longrightarrow>
    \<not> p_scout_defensive_reduction_count p < sc_max_defensive_reductions (scout_cfg cfg)"
  by (auto simp: scout_warning_action_def Let_def split: if_splits prod.splits)

lemma scout_live_states: "scout_live cfg p \<Longrightarrow> p_scout_state p \<in> {SCOUT_PENDING, SCOUT_WARNING, SCOUT_CONFIRMED}"
  by (cases "p_scout_state p") (simp_all add: scout_live_def)

lemma scout_open_outcome:
  assumes live: "scout_live cfg p" and st: "p_scout_state p \<noteq> SCOUT_CONFIRMED"
  shows "scout_outcome cfg p (snd (scout_open_action cfg b k max_r m p))"
proof (cases "scout_confirmed cfg p (bi_atr b) k (bi_volume_ratio b)")
  case True
  have "p_scout_state p \<in> {SCOUT_PENDING, SCOUT_WARNING}" using scout_live_states [OF live] st by simp
  then show ?thesis
    using True unfolding scout_open_action_def Let_def
    by (simp add: scout_live_def) (intro conjI impI scout_outcome.observe, auto intro: scout_move.intros simp: scout_live_def)
next
  case False
  note unconfirmed = this
  show ?thesis
  proof (cases "scout_catastrophic_opposite_reason cfg p k (bi_volume_ratio b) (bi_atr b) \<noteq> None \<and>
      p_scout_defensive_reduction_count p < sc_max_defensive_reductions (scout_cfg cfg)")
    case True
    then show ?thesis
      using unconfirmed scout_reduce_outcome [OF live st]
      unfolding scout_open_action_def Let_def by (simp add: case_prod_beta)
  next
    case False
    then have open_eq: "scout_open_action cfg b k max_r m p =
        (if p_scout_state p = SCOUT_WARNING
         then (case scout_warning_action cfg b k p of Some (p', acts) \<Rightarrow> (m, p', acts, False)
               | None \<Rightarrow> scout_pending_action cfg b k max_r m
                   ((clear_scout_warning p)\<lparr> p_scout_state := SCOUT_PENDING \<rparr>))
         else scout_pending_action cfg b k max_r m p)"
      using unconfirmed unfolding scout_open_action_def Let_def by (simp only: if_False)
    show ?thesis
    proof (cases "p_scout_state p = SCOUT_WARNING")
      case True
      let ?q = "(clear_scout_warning p)\<lparr> p_scout_state := SCOUT_PENDING \<rparr>"
      have "scout_live cfg ?q" using live by (simp add: scout_live_def clear_scout_warning_def)
      then have "scout_outcome cfg ?q (snd (scout_pending_action cfg b k max_r m ?q))"
        by (rule scout_pending_outcome) simp
      then show ?thesis
        unfolding open_eq
        using True scout_outcome_calm [OF _ live True] scout_warning_None [of cfg b k p]
          scout_warning_outcome [OF live True]
        by (cases "scout_warning_action cfg b k p") auto
    next
      case False
      then have "p_scout_state p = SCOUT_PENDING" using scout_live_states [OF live] st by simp
      then show ?thesis unfolding open_eq using False scout_pending_outcome [OF live] by simp
    qed
  qed
qed

theorem scout_management_outcome:
  "scout_outcome cfg p (snd (scout_management_action cfg b max_r m p))"
proof (cases "scout_live cfg p")
  case False
  then have "scout_management_action cfg b max_r m p = (m, p, [], True)"
    by (auto simp: scout_management_action_def scout_live_def Let_def)
  then show ?thesis using False by (simp add: scout_outcome.observe scout_move.stay)
next
  case True
  then have eq: "scout_management_action cfg b max_r m p =
     (case bi_candle b of None \<Rightarrow> (m, p, [], False)
      | Some k \<Rightarrow> if bi_atr b \<le> 0 then (m, p, [], False)
         else if p_scout_state p = SCOUT_CONFIRMED
         then (if sc_convert_to_active_on_confirmation (scout_cfg cfg)
               then (m, p\<lparr> p_scout_state := ACTIVE_TREND \<rparr>,
                 [scout_event b k (p\<lparr> p_scout_state := ACTIVE_TREND \<rparr>) ''SCOUT_ACTIVATED'' None], True)
               else (m, p, [], False))
         else scout_open_action cfg b k max_r m p)"
    unfolding scout_management_action_def scout_live_def Let_def by (simp only: not_True_eq_False if_False simp_thms)
  show ?thesis
    unfolding eq using scout_open_outcome [OF True]
    by (auto split: option.split intro!: scout_outcome.observe scout_move.intros simp: scout_live_def)
qed

end
