(* ===== verification/Guards.thy ===== *)
theory Guards
  imports Config
begin

text \<open>
  The safety guards (\<^verbatim>\<open>packages/guards/*.py\<close>, \<^verbatim>\<open>packages/position/cooldown.py\<close>): cooldowns
  after losses, clock drift, data quality, funding, the global kill switch, the last check
  before an order, and the client-side rate limiter. Clock readings are rationals in the unit
  of the code (seconds of \<^verbatim>\<open>time.monotonic\<close>, milliseconds of timestamps).
\<close>

section \<open>Cooldown after losses\<close>

record cooldown_tracker =
  ct_symbol_losses :: "string \<rightharpoonup> rat list"
  ct_global_losses :: "rat list"
  ct_entry_mode_losses :: "entry_mode \<rightharpoonup> rat"

definition new_cooldown_tracker :: cooldown_tracker where
  "new_cooldown_tracker = \<lparr> ct_symbol_losses = Map.empty, ct_global_losses = [],
    ct_entry_mode_losses = Map.empty \<rparr>"

definition record_result :: "rat \<Rightarrow> string \<Rightarrow> entry_mode \<Rightarrow> bool \<Rightarrow> cooldown_tracker \<Rightarrow> cooldown_tracker" where
  "record_result now s em is_win t =
    (if is_win then t
     else t\<lparr> ct_symbol_losses := (ct_symbol_losses t)(s \<mapsto> get_or (ct_symbol_losses t) s [] @ [now]),
            ct_global_losses := ct_global_losses t @ [now],
            ct_entry_mode_losses := (ct_entry_mode_losses t)(em \<mapsto> now) \<rparr>)"

definition in_symbol_cooldown :: "cooldown_section \<Rightarrow> rat \<Rightarrow> string \<Rightarrow> cooldown_tracker \<Rightarrow> bool" where
  "in_symbol_cooldown c now s t =
    (case get_or (ct_symbol_losses t) s [] of
       [] \<Rightarrow> False
     | l # ls \<Rightarrow>
         let losses = l # ls;
             after_2 = of_int (cl_symbol_cooldown_after_2_losses_min c) * 60;
             within_60 = filter (\<lambda>x. now - x \<le> after_2) losses
         in if 2 \<le> length within_60 then now - last losses \<le> after_2
            else now - last losses \<le> of_int (cl_symbol_cooldown_after_loss_min c) * 60)"

definition in_global_cooldown :: "cooldown_section \<Rightarrow> rat \<Rightarrow> cooldown_tracker \<Rightarrow> bool" where
  "in_global_cooldown c now t =
    (let window = of_int (cl_global_cooldown_after_3_losses_min c) * 60
     in 3 \<le> length (filter (\<lambda>x. now - x \<le> window) (ct_global_losses t)))"

definition in_entry_mode_cooldown :: "cooldown_section \<Rightarrow> rat \<Rightarrow> entry_mode \<Rightarrow> cooldown_tracker \<Rightarrow> bool" where
  "in_entry_mode_cooldown c now em t =
    (case ct_entry_mode_losses t em of
       None \<Rightarrow> False
     | Some x \<Rightarrow> now - x \<le> of_int (cl_entry_mode_cooldown_after_loss_min c) * 60)"

definition in_cooldown :: "cooldown_section \<Rightarrow> rat \<Rightarrow> string \<Rightarrow> entry_mode \<Rightarrow> cooldown_tracker \<Rightarrow> bool" where
  "in_cooldown c now s em t \<longleftrightarrow>
    in_symbol_cooldown c now s t \<or> in_global_cooldown c now t \<or> in_entry_mode_cooldown c now em t"

section \<open>Clock drift\<close>

record clock_sync_guard =
  cg_max_drift_ms :: int
  cg_block_above_ms :: int
  cg_drift_ms :: rat
  cg_last_sync_ms :: "int option"

definition new_clock_sync_guard :: "clock_sync_section \<Rightarrow> clock_sync_guard" where
  "new_clock_sync_guard c = \<lparr> cg_max_drift_ms = ck_max_time_drift_ms c,
    cg_block_above_ms = ck_block_trading_if_drift_ms_above c, cg_drift_ms = 0, cg_last_sync_ms = None \<rparr>"

definition clock_update :: "int \<Rightarrow> int \<Rightarrow> clock_sync_guard \<Rightarrow> clock_sync_guard" where
  "clock_update server_time_ms local g =
    g\<lparr> cg_drift_ms := of_int (local - server_time_ms), cg_last_sync_ms := Some local \<rparr>"

definition is_within_tolerance :: "clock_sync_guard \<Rightarrow> bool" where
  "is_within_tolerance g \<longleftrightarrow> \<bar>cg_drift_ms g\<bar> \<le> of_int (cg_block_above_ms g)"

section \<open>Data quality\<close>

record data_inputs =
  di_now_ms :: int
  di_last_kline_ms :: "int option"
  di_last_ticker_ms :: "int option"
  di_last_orderbook_ms :: "int option"
  di_missing_candles :: int
  di_ticker_price :: "dec option"
  di_kline_close :: "dec option"
  di_indicators :: "indicator_snapshot option"
  di_require_orderbook :: bool

text \<open>\<open>delay is None or delay > limit\<close>, in seconds.\<close>

definition too_late :: "int \<Rightarrow> int option \<Rightarrow> int \<Rightarrow> bool" where
  "too_late now_ms ts limit =
    (case ts of None \<Rightarrow> True | Some x \<Rightarrow> (of_int limit :: rat) < of_int (now_ms - x) / 1000)"

definition data_quality_check :: "data_quality_section \<Rightarrow> data_inputs \<Rightarrow> string option" where
  "data_quality_check c d =
    (if too_late (di_now_ms d) (di_last_kline_ms d) (dq_max_kline_delay_sec c) then Some ''KLINE_DELAY''
     else if too_late (di_now_ms d) (di_last_ticker_ms d) (dq_max_ticker_delay_sec c) then Some ''TICKER_DELAY''
     else if di_require_orderbook d \<and>
         too_late (di_now_ms d) (di_last_orderbook_ms d) (dq_max_orderbook_delay_sec c)
       then Some ''ORDERBOOK_DELAY''
     else if dq_max_missing_candles c < di_missing_candles d \<and> dq_block_if_candle_gap_detected c
       then Some ''MISSING_CANDLES''
     else if (case (di_ticker_price d, di_kline_close d) of
         (Some tp, Some kc) \<Rightarrow>
           0 < kc \<and> dq_max_ticker_kline_price_divergence_percent c < dmul (ddiv (dabs (dsub tp kc)) kc) 100
       | _ \<Rightarrow> False)
       then Some ''PRICE_DIVERGENCE''
     else if (case di_indicators d of None \<Rightarrow> False | Some s \<Rightarrow> \<not> is_valid s) then Some ''INDICATOR_NAN''
     else None)"

section \<open>Funding\<close>

definition funding_percent :: "dec option \<Rightarrow> dec option" where
  "funding_percent rate = map_option (\<lambda>x. dmul (dabs x) 100) rate"

datatype funding_side = FS_LONG | FS_SHORT | FS_OTHER

definition is_unfavorable :: "dec option \<Rightarrow> funding_side \<Rightarrow> bool" where
  "is_unfavorable rate d =
    (case rate of
       None \<Rightarrow> False
     | Some x \<Rightarrow> (case d of FS_LONG \<Rightarrow> 0 < x | FS_SHORT \<Rightarrow> x < 0 | FS_OTHER \<Rightarrow> True))"

definition funding_side_of_direction :: "signal_direction option \<Rightarrow> funding_side" where
  "funding_side_of_direction d =
    (if d = Some SIG_LONG then FS_LONG else if d = Some SIG_SHORT then FS_SHORT else FS_OTHER)"

definition funding_side_of_position :: "position_side option \<Rightarrow> funding_side" where
  "funding_side_of_position d =
    (if d = Some LONG then FS_LONG else if d = Some SHORT then FS_SHORT else FS_OTHER)"

definition block_new_entry ::
  "funding_guard_section \<Rightarrow> int \<Rightarrow> int option \<Rightarrow> dec option \<Rightarrow> signal_direction option \<Rightarrow> string option" where
  "block_new_entry c now_ms next_funding_time_ms funding_rate direction =
    (if \<not> fg_enabled c then None
     else if (case next_funding_time_ms of
         None \<Rightarrow> False
       | Some x \<Rightarrow>
           let minutes_to_funding = (of_int (x - now_ms) :: rat) / 60000
           in 0 \<le> minutes_to_funding \<and>
              minutes_to_funding \<le> of_int (fg_block_new_entries_before_funding_min c))
       then Some ''FUNDING_WINDOW''
     else case funding_percent funding_rate of
       None \<Rightarrow> None
     | Some pct \<Rightarrow>
         if fg_block_if_abs_funding_rate_percent_above c \<le> pct \<and>
            is_unfavorable funding_rate (funding_side_of_direction direction)
         then Some ''FUNDING_RATE_HIGH'' else None)"

definition should_reduce_position :: "funding_guard_section \<Rightarrow> dec option \<Rightarrow> position_side option \<Rightarrow> bool" where
  "should_reduce_position c funding_rate sd =
    (if \<not> fg_enabled c then False
     else case funding_percent funding_rate of
       None \<Rightarrow> False
     | Some pct \<Rightarrow>
         fg_reduce_position_if_abs_funding_rate_percent_above c \<le> pct \<and>
         is_unfavorable funding_rate (funding_side_of_position sd))"

section \<open>The global kill switch\<close>

record kill_switch =
  kw_order_failures :: "rat list"
  kw_ws_disconnects :: "rat list"
  kw_consecutive_losses :: int
  kw_position_mismatches :: int
  kw_emergency_close_failures :: int
  kw_slippage_breaches :: int
  kw_daily_loss_percent :: rat
  kw_intraday_drawdown_percent :: rat
  kw_tripped_reason :: "string option"

definition new_kill_switch :: kill_switch where
  "new_kill_switch = \<lparr> kw_order_failures = [], kw_ws_disconnects = [], kw_consecutive_losses = 0,
    kw_position_mismatches = 0, kw_emergency_close_failures = 0, kw_slippage_breaches = 0,
    kw_daily_loss_percent = 0, kw_intraday_drawdown_percent = 0, kw_tripped_reason = None \<rparr>"

definition record_order_failure :: "rat \<Rightarrow> kill_switch \<Rightarrow> kill_switch" where
  "record_order_failure now k = k\<lparr> kw_order_failures := kw_order_failures k @ [now] \<rparr>"

definition record_ws_disconnect :: "rat \<Rightarrow> kill_switch \<Rightarrow> kill_switch" where
  "record_ws_disconnect now k = k\<lparr> kw_ws_disconnects := kw_ws_disconnects k @ [now] \<rparr>"

definition record_position_mismatch :: "kill_switch \<Rightarrow> kill_switch" where
  "record_position_mismatch k = k\<lparr> kw_position_mismatches := kw_position_mismatches k + 1 \<rparr>"

definition record_emergency_close_failure :: "kill_switch \<Rightarrow> kill_switch" where
  "record_emergency_close_failure k = k\<lparr> kw_emergency_close_failures := kw_emergency_close_failures k + 1 \<rparr>"

definition record_slippage_breach :: "kill_switch \<Rightarrow> kill_switch" where
  "record_slippage_breach k = k\<lparr> kw_slippage_breaches := kw_slippage_breaches k + 1 \<rparr>"

definition record_trade_result :: "bool \<Rightarrow> kill_switch \<Rightarrow> kill_switch" where
  "record_trade_result is_win k =
    k\<lparr> kw_consecutive_losses := (if is_win then 0 else kw_consecutive_losses k + 1) \<rparr>"

definition update_pnl :: "rat \<Rightarrow> rat \<Rightarrow> kill_switch \<Rightarrow> kill_switch" where
  "update_pnl daily intraday k =
    k\<lparr> kw_daily_loss_percent := daily, kw_intraday_drawdown_percent := intraday \<rparr>"

definition prune :: "rat \<Rightarrow> kill_switch \<Rightarrow> kill_switch" where
  "prune now k =
    k\<lparr> kw_order_failures := dropWhile (\<lambda>x. 300 < now - x) (kw_order_failures k),
       kw_ws_disconnects := dropWhile (\<lambda>x. 600 < now - x) (kw_ws_disconnects k) \<rparr>"

text \<open>The first breached threshold, in the order of the code's list.\<close>

definition kill_checks :: "global_kill_switch_section \<Rightarrow> kill_switch \<Rightarrow> (bool \<times> string) list" where
  "kill_checks c k =
    [(ks_daily_loss_percent c \<le> kw_daily_loss_percent k, ''DAILY_LOSS''),
     (ks_intraday_drawdown_percent c \<le> kw_intraday_drawdown_percent k, ''INTRADAY_DRAWDOWN''),
     (ks_consecutive_losses c \<le> kw_consecutive_losses k, ''CONSECUTIVE_LOSSES''),
     (ks_order_failures_in_5min c \<le> int (length (kw_order_failures k)), ''ORDER_FAILURES''),
     (ks_websocket_disconnects_in_10min c \<le> int (length (kw_ws_disconnects k)), ''WEBSOCKET_DISCONNECTS''),
     (ks_unexpected_position_mismatch_count c \<le> kw_position_mismatches k, ''POSITION_MISMATCH''),
     (ks_emergency_close_failure_count c \<le> kw_emergency_close_failures k, ''EMERGENCY_CLOSE_FAILURE''),
     (ks_max_slippage_percent_breach_count c \<le> kw_slippage_breaches k, ''SLIPPAGE_BREACH'')]"

definition kill_evaluate :: "global_kill_switch_section \<Rightarrow> rat \<Rightarrow> kill_switch \<Rightarrow> kill_switch \<times> string option" where
  "kill_evaluate c now k =
    (case kw_tripped_reason k of
       Some r \<Rightarrow> (k, Some r)
     | None \<Rightarrow>
         let k1 = prune now k in
         case first_match fst (kill_checks c k1) of
           None \<Rightarrow> (k1, None)
         | Some (_, r) \<Rightarrow> (k1\<lparr> kw_tripped_reason := Some r \<rparr>, Some r))"

definition kill_reset :: "kill_switch \<Rightarrow> kill_switch" where
  "kill_reset k = new_kill_switch"

definition kill_snapshot :: "rat \<Rightarrow> kill_switch \<Rightarrow> kill_switch \<times> payload" where
  "kill_snapshot now k =
    (let k1 = prune now k in
     (k1, [(''tripped'', PBool (kw_tripped_reason k1 \<noteq> None)),
           (''tripped_reason'', opt_str (kw_tripped_reason k1)),
           (''daily_loss_percent'', PDec (kw_daily_loss_percent k1)),
           (''intraday_drawdown_percent'', PDec (kw_intraday_drawdown_percent k1)),
           (''consecutive_losses'', PInt (kw_consecutive_losses k1)),
           (''order_failures_5min'', PInt (int (length (kw_order_failures k1)))),
           (''websocket_disconnects_10min'', PInt (int (length (kw_ws_disconnects k1)))),
           (''position_mismatches'', PInt (kw_position_mismatches k1)),
           (''emergency_close_failures'', PInt (kw_emergency_close_failures k1)),
           (''slippage_breaches'', PInt (kw_slippage_breaches k1))]))"

section \<open>The check before an order\<close>

definition depth_usdt_within :: "order_book \<Rightarrow> dec \<Rightarrow> dec" where
  "depth_usdt_within ob pct =
    (case (best_bid ob, best_ask ob) of
       (Some bid, Some ask) \<Rightarrow>
         let mid = ddiv (dadd bid ask) 2;
             band = ddiv (dmul mid pct) 100;
             lo = dsub mid band;
             hi = dadd mid band;
             total = foldl (\<lambda>acc l. if lo \<le> lv_price l then dadd acc (dmul (lv_price l) (lv_size l)) else acc)
               0 (ob_bids ob)
         in foldl (\<lambda>acc l. if lv_price l \<le> hi then dadd acc (dmul (lv_price l) (lv_size l)) else acc)
              total (ob_asks ob)
     | _ \<Rightarrow> 0)"

definition pre_order_check ::
  "app_config \<Rightarrow> order_book \<Rightarrow> dec \<Rightarrow> dec \<Rightarrow> string \<Rightarrow> clock_sync_guard \<Rightarrow> string option" where
  "pre_order_check cfg ob order_notional expected_slippage_percent symbol_status clock =
    (if ss_block_if_status_not_trading (cfg_symbol_status cfg) \<and> symbol_status \<noteq> ''Trading''
     then Some ''SYMBOL_NOT_TRADING''
     else if \<not> is_within_tolerance clock then Some ''CLOCK_DRIFT''
     else case (best_bid ob, best_ask ob) of
       (Some bid, Some ask) \<Rightarrow>
         if bid \<le> 0 \<or> ask \<le> 0 then Some ''NO_ORDERBOOK''
         else
           let mid = ddiv (dadd bid ask) 2;
               spread = dmul (ddiv (dsub ask bid) mid) 100
           in if cs_max_spread_percent (cfg_scanner cfg) < spread then Some ''SPREAD_TOO_WIDE''
              else if co_max_slippage_percent (cfg_orders cfg) < expected_slippage_percent
                then Some ''SLIPPAGE_TOO_HIGH''
              else if depth_usdt_within ob (co_pre_order_depth_band_percent (cfg_orders cfg))
                  < dmul order_notional (co_pre_order_depth_multiple (cfg_orders cfg))
                then Some ''INSUFFICIENT_DEPTH''
              else None
     | _ \<Rightarrow> Some ''NO_ORDERBOOK'')"

section \<open>The rate limiter\<close>

text \<open>The bucket counts in binary floating point, as the code does.\<close>

record rate_limiter =
  rl_rate :: rat
  rl_capacity :: rat
  rl_tokens :: rat
  rl_updated :: rat

definition new_rate_limiter :: "int \<Rightarrow> int option \<Rightarrow> rat \<Rightarrow> rate_limiter result" where
  "new_rate_limiter rate capacity now =
    (if rate \<le> 0 then Inl ValueError
     else
       let cap = to_float (of_int (case capacity of None \<Rightarrow> rate | Some c \<Rightarrow> c))
       in Inr \<lparr> rl_rate = to_float (of_int rate), rl_capacity = cap, rl_tokens = cap, rl_updated = now \<rparr>)"

definition refill :: "rat \<Rightarrow> rate_limiter \<Rightarrow> rate_limiter" where
  "refill now l =
    l\<lparr> rl_updated := now,
       rl_tokens := min (rl_capacity l) (fadd (rl_tokens l) (fmul (fsub now (rl_updated l)) (rl_rate l))) \<rparr>"

text \<open>One turn of \<open>acquire\<close>'s loop at time \<open>now\<close>: either the permit, or the time to sleep.\<close>

definition acquire_turn :: "rat \<Rightarrow> rate_limiter \<Rightarrow> rate_limiter \<times> rat option" where
  "acquire_turn now l =
    (let l1 = refill now l in
     if 1 \<le> rl_tokens l1 then (l1\<lparr> rl_tokens := fsub (rl_tokens l1) 1 \<rparr>, None)
     else (l1, Some (fdiv (fsub 1 (rl_tokens l1)) (rl_rate l1))))"

text \<open>\<open>with_backoff\<close> on a computation whose successive outcomes are \<open>outs\<close>: \<open>None\<close> when the outcomes
  run out before the call is decided. The second component is the list of delays slept.\<close>

fun with_backoff_from ::
  "nat \<Rightarrow> nat \<Rightarrow> rat \<Rightarrow> rat \<Rightarrow> 'a result list \<Rightarrow> ('a result \<times> rat list) option" where
  "with_backoff_from attempt retries base_sec max_sec [] = None"
| "with_backoff_from attempt retries base_sec max_sec (Inr x # outs) = Some (Inr x, [])"
| "with_backoff_from attempt retries base_sec max_sec (Inl e # outs) =
    (let attempt' = attempt + 1 in
     if retries < attempt' then Some (Inl e, [])
     else
       let delay = min max_sec (base_sec * 2 ^ (attempt' - 1))
       in map_option (\<lambda>(r, ds). (r, delay # ds)) (with_backoff_from attempt' retries base_sec max_sec outs))"

definition with_backoff :: "nat \<Rightarrow> rat \<Rightarrow> rat \<Rightarrow> 'a result list \<Rightarrow> ('a result \<times> rat list) option" where
  "with_backoff retries base_sec max_sec outs = with_backoff_from 0 retries base_sec max_sec outs"

end
