(* ===== verification/Entry_Filters.thy ===== *)
theory Entry_Filters
  imports Entry_Types Candle_Metrics
begin

text \<open>
  The anti-chase filter and the pending retests
  (\<^verbatim>\<open>packages/entry/anti_chase.py\<close>, \<^verbatim>\<open>packages/entry/retest.py\<close>).
\<close>

section \<open>Anti-chase\<close>

text \<open>The readings both sides need: RSI, EMA, ATR, volume ratio and the last candle.\<close>

definition chase_data ::
  "indicator_snapshot \<Rightarrow> candle list \<Rightarrow> (dec \<times> dec \<times> dec \<times> dec \<times> candle) option" where
  "chase_data s cs =
    (case (is_rsi14 s, is_ema20 s, is_atr14 s, is_volume_ratio s) of
       (Some rsi, Some ema, Some atr, Some vr) \<Rightarrow>
         if cs = [] then None else Some (rsi, ema, atr, vr, last cs)
     | _ \<Rightarrow> None)"

definition block_long ::
  "app_config \<Rightarrow> indicator_snapshot \<Rightarrow> candle list \<Rightarrow> candle_metrics \<Rightarrow> string option" where
  "block_long cfg s cs m =
    (let ac = en_anti_chase (cfg_entry cfg) in
     if \<not> ac_enabled ac then None
     else case chase_data s cs of
       None \<Rightarrow> Some ''ANTI_CHASE_DATA''
     | Some (rsi, ema, atr, vr, k) \<Rightarrow>
         if ac_max_rsi_long ac \<le> rsi then Some ''RSI_OVERBOUGHT''
         else if dadd ema (dmul (ac_max_distance_from_ema20_atr ac) atr) \<le> cd_close k
           then Some ''PRICE_FAR_ABOVE_EMA''
         else if (case cumulative_move cs 3 of
               None \<Rightarrow> False
             | Some cm3 \<Rightarrow> dmul (ac_max_recent_3_candle_move_atr ac) atr \<le> cm3)
           then Some ''RECENT_3_RUNUP''
         else if dmul (ac_max_single_candle_move_atr ac) atr \<le> dsub (cd_close k) (cd_open k)
           then Some ''SINGLE_CANDLE_SPIKE''
         else if ac_exhaustion_volume_ratio ac \<le> vr \<and> 30 / 100 \<le> mt_upper_wick_ratio m
           then Some ''EXHAUSTION_UPPER_WICK''
         else if mt_close_position_in_range m
             < cq_long_min_close_position_in_range (cfg_candle_quality cfg)
           then Some ''WEAK_CLOSE_IN_RANGE''
         else None)"

definition block_short ::
  "app_config \<Rightarrow> indicator_snapshot \<Rightarrow> candle list \<Rightarrow> candle_metrics \<Rightarrow> string option" where
  "block_short cfg s cs m =
    (let ac = en_anti_chase (cfg_entry cfg) in
     if \<not> ac_enabled ac then None
     else case chase_data s cs of
       None \<Rightarrow> Some ''ANTI_CHASE_DATA''
     | Some (rsi, ema, atr, vr, k) \<Rightarrow>
         if rsi \<le> ac_min_rsi_short ac then Some ''RSI_OVERSOLD''
         else if cd_close k \<le> dsub ema (dmul (ac_max_distance_from_ema20_atr ac) atr)
           then Some ''PRICE_FAR_BELOW_EMA''
         else if (case cumulative_move cs 3 of
               None \<Rightarrow> False
             | Some cm3 \<Rightarrow> cm3 \<le> dmul (dneg (ac_max_recent_3_candle_move_atr ac)) atr)
           then Some ''RECENT_3_DROP''
         else if dmul (ac_max_single_candle_move_atr ac) atr \<le> dsub (cd_open k) (cd_close k)
           then Some ''SINGLE_CANDLE_DROP''
         else if ac_exhaustion_volume_ratio ac \<le> vr \<and> 30 / 100 \<le> mt_lower_wick_ratio m
           then Some ''EXHAUSTION_LOWER_WICK''
         else if cq_short_max_close_position_in_range (cfg_candle_quality cfg)
             < mt_close_position_in_range m
           then Some ''WEAK_CLOSE_IN_RANGE''
         else None)"

section \<open>Pending retests\<close>

record pending_retest =
  pr_symbol :: string
  pr_direction :: signal_direction
  pr_level :: dec
  pr_bars_waited :: int
  pr_consec_beyond_fail :: int

definition pr_is_long :: "pending_retest \<Rightarrow> bool" where
  "pr_is_long p \<longleftrightarrow> pr_direction p = SIG_LONG"

type_synonym retests = "string \<rightharpoonup> pending_retest"

definition retest_register :: "string \<Rightarrow> signal_direction \<Rightarrow> dec \<Rightarrow> retests \<Rightarrow> retests" where
  "retest_register s d level r =
    r(s \<mapsto> \<lparr> pr_symbol = s, pr_direction = d, pr_level = level, pr_bars_waited = 0,
            pr_consec_beyond_fail = 0 \<rparr>)"

definition retest_drop :: "string \<Rightarrow> retests \<Rightarrow> retests" where
  "retest_drop s r = r(s := None)"

definition on_new_bar :: "app_config \<Rightarrow> string \<Rightarrow> candle \<Rightarrow> retests \<Rightarrow> retests" where
  "on_new_bar cfg s k r =
    (case r s of
       None \<Rightarrow> r
     | Some p \<Rightarrow>
         let beyond = (if pr_is_long p then cd_close k < pr_level p else pr_level p < cd_close k);
             p' = p\<lparr> pr_bars_waited := pr_bars_waited p + 1,
                     pr_consec_beyond_fail := (if beyond then pr_consec_beyond_fail p + 1 else 0) \<rparr>
         in if rc_max_wait_candles (en_retest_confirm (cfg_entry cfg)) < pr_bars_waited p' \<or>
               2 \<le> pr_consec_beyond_fail p'
            then retest_drop s (r(s \<mapsto> p')) else r(s \<mapsto> p'))"

definition retest_confirmed :: "app_config \<Rightarrow> pending_retest \<Rightarrow> candle \<Rightarrow> candle_metrics \<Rightarrow> dec \<Rightarrow> bool" where
  "retest_confirmed cfg p k m atr =
    (let tol = dmul (rc_retest_tolerance_atr (en_retest_confirm (cfg_entry cfg))) atr in
     if 2 \<le> pr_consec_beyond_fail p then False
     else if pr_is_long p
     then (dabs (dsub (cd_low k) (pr_level p)) \<le> tol \<or> dabs (dsub (cd_close k) (pr_level p)) \<le> tol) \<and>
          pr_level p \<le> cd_close k \<and>
          (30 / 100 \<le> mt_lower_wick_ratio m \<or> cd_open k < cd_close k)
     else (dabs (dsub (cd_high k) (pr_level p)) \<le> tol \<or> dabs (dsub (cd_close k) (pr_level p)) \<le> tol) \<and>
          cd_close k \<le> pr_level p \<and>
          (30 / 100 \<le> mt_upper_wick_ratio m \<or> cd_close k < cd_open k))"

section \<open>Facts\<close>

text \<open>The retest state of one symbol never touches another, and a pending retest waits at most the
  configured number of evaluations.\<close>

lemma on_new_bar_other: "s' \<noteq> s \<Longrightarrow> on_new_bar cfg s k r s' = r s'"
  by (simp add: on_new_bar_def retest_drop_def Let_def split: option.split)

lemma on_new_bar_waits:
  "on_new_bar cfg s k r s = Some p' \<Longrightarrow>
    pr_bars_waited p' \<le> rc_max_wait_candles (en_retest_confirm (cfg_entry cfg)) \<and>
    pr_consec_beyond_fail p' < 2 \<and>
    (\<exists>p. r s = Some p \<and> pr_level p' = pr_level p \<and> pr_direction p' = pr_direction p \<and>
         pr_bars_waited p' = pr_bars_waited p + 1)"
  by (auto simp: on_new_bar_def retest_drop_def Let_def split: option.splits if_splits)

lemma on_new_bar_steps:
  assumes "r s = Some p" "pr_bars_waited p + int n \<le> rc_max_wait_candles (en_retest_confirm (cfg_entry cfg))"
    "\<not> (if pr_is_long p then cd_close k < pr_level p else pr_level p < cd_close k)"
  shows "((on_new_bar cfg s k ^^ n) r) s = Some (if n = 0 then p else
    p\<lparr> pr_bars_waited := pr_bars_waited p + int n, pr_consec_beyond_fail := 0 \<rparr>)"
  using assms(2)
proof (induction n)
  case (Suc n)
  then show ?case
    using assms(1,3) by (auto simp: on_new_bar_def Let_def pr_is_long_def)
qed (simp add: assms(1))

text \<open>A pending retest counts evaluations, not candles: evaluating the very same candle more often
  than \<open>max_wait_candles\<close> allows drops it, although no new candle has arrived. The trading loop
  evaluates every few seconds, so the wait expires within a minute.\<close>

theorem retest_expires_without_new_candle:
  assumes "r s = Some p" "pr_bars_waited p + int n = rc_max_wait_candles (en_retest_confirm (cfg_entry cfg))"
    and "\<not> (if pr_is_long p then cd_close k < pr_level p else pr_level p < cd_close k)"
  shows "((on_new_bar cfg s k ^^ n) r) s \<noteq> None \<and> ((on_new_bar cfg s k ^^ Suc n) r) s = None"
proof -
  let ?q = "if n = 0 then p else p\<lparr> pr_bars_waited := pr_bars_waited p + int n, pr_consec_beyond_fail := 0 \<rparr>"
  have q: "((on_new_bar cfg s k ^^ n) r) s = Some ?q"
    using on_new_bar_steps [of r s p n cfg k] assms by simp
  moreover have "rc_max_wait_candles (en_retest_confirm (cfg_entry cfg)) < pr_bars_waited ?q + 1"
    using assms(2) by simp
  ultimately have "on_new_bar cfg s k ((on_new_bar cfg s k ^^ n) r) s = None"
    by (auto simp: on_new_bar_def Let_def retest_drop_def)
  then show ?thesis using q by simp
qed

definition ex_pullback :: candle where
  "ex_pullback = \<lparr> cd_symbol = ''BTCUSDT'', cd_interval = ''1'', cd_open_time_ms = 60000, cd_open = 100,
    cd_high = 102, cd_low = 100, cd_close = 101, cd_volume = 1, cd_turnover = 100, cd_confirmed = True \<rparr>"

lemma retest_expires_without_new_candle_witness:
  "((on_new_bar default_app_config ''BTCUSDT'' ex_pullback ^^ Suc 10)
      (retest_register ''BTCUSDT'' SIG_LONG 100 Map.empty)) ''BTCUSDT'' = None"
  by (rule retest_expires_without_new_candle [where p = "\<lparr> pr_symbol = ''BTCUSDT'', pr_direction = SIG_LONG,
      pr_level = 100, pr_bars_waited = 0, pr_consec_beyond_fail = 0 \<rparr>", THEN conjunct2])
    (simp_all add: retest_register_def ex_pullback_def pr_is_long_def default_app_config_def
      default_entry_section_def default_retest_confirm_entry_def)

end
