(* ===== verification/Entry_Timing.thy ===== *)
theory Entry_Timing
  imports Entry_Filters
begin

text \<open>
  The entry timing engine (\<^verbatim>\<open>packages/entry/entry_timing_engine.py\<close>): breakouts, their hold
  confirmation, retests and pre-breakout scouts. The engine's state is the record
  \<open>entry_engine\<close>; \<open>lbl\<close> renders the bound of an ATR tier (Python's decimal formatting, which
  depends on the exponent of the literal).
\<close>

record entry_engine =
  ee_retests :: retests
  ee_pending_breakouts :: "string \<rightharpoonup> pending_breakout"
  ee_last_no_entry_reason :: "payload option"

definition new_entry_engine :: entry_engine where
  "new_entry_engine = \<lparr> ee_retests = Map.empty, ee_pending_breakouts = Map.empty,
    ee_last_no_entry_reason = None \<rparr>"

abbreviation breakout_cfg :: "app_config \<Rightarrow> breakout_confirm_entry" where
  "breakout_cfg cfg \<equiv> en_breakout_confirm (cfg_entry cfg)"

abbreviation retest_cfg :: "app_config \<Rightarrow> retest_confirm_entry" where
  "retest_cfg cfg \<equiv> en_retest_confirm (cfg_entry cfg)"

abbreviation pre_breakout_cfg :: "app_config \<Rightarrow> pre_breakout_entry" where
  "pre_breakout_cfg cfg \<equiv> en_pre_breakout (cfg_entry cfg)"

section \<open>Adaptive stop distance\<close>

fun pick_tier :: "(dec \<Rightarrow> string) \<Rightarrow> dec \<Rightarrow> dec \<Rightarrow> (dec \<times> dec) list \<Rightarrow> (dec \<times> string) option" where
  "pick_tier lbl atr_percent previous [] = None"
| "pick_tier lbl atr_percent previous ((mx, stop_atr) # tiers) =
    (if atr_percent \<le> mx then Some (stop_atr, lbl previous @ ''-'' @ lbl mx)
     else pick_tier lbl atr_percent mx tiers)"

definition resolve_stop_atr_with_tier ::
  "(dec \<Rightarrow> string) \<Rightarrow> dec \<Rightarrow> dec \<Rightarrow> bool \<Rightarrow> retest_atr_percent_tier list \<Rightarrow> dec \<times> string option \<times> bool" where
  "resolve_stop_atr_with_tier lbl atr_percent default_stop_atr enabled raw_tiers =
    (if \<not> enabled then (default_stop_atr, None, False)
     else
       let ok = (\<lambda>t. 0 < tr_max_atr_percent t \<and> 0 < tr_stop_atr t);
           tiers = map (\<lambda>t. (tr_max_atr_percent t, tr_stop_atr t)) (filter ok raw_tiers);
           invalid = list_ex (\<lambda>t. \<not> ok t) raw_tiers
       in if tiers = [] then (default_stop_atr, None, True)
          else case pick_tier lbl atr_percent 0 (sort_key fst tiers) of
            Some (stop_atr, tier) \<Rightarrow> (stop_atr, Some tier, invalid)
          | None \<Rightarrow> (default_stop_atr, None, invalid))"

definition resolve_retest_stop_atr_with_tier ::
  "(dec \<Rightarrow> string) \<Rightarrow> dec \<Rightarrow> dec \<Rightarrow> volatility_adaptive_stop_section \<Rightarrow> dec \<times> string option \<times> bool" where
  "resolve_retest_stop_atr_with_tier lbl ap d c =
    resolve_stop_atr_with_tier lbl ap d (va_enabled c) (va_retest_atr_percent_tiers c)"

definition resolve_scout_stop_atr_with_tier ::
  "(dec \<Rightarrow> string) \<Rightarrow> dec \<Rightarrow> dec \<Rightarrow> volatility_adaptive_stop_section \<Rightarrow> dec \<times> string option \<times> bool" where
  "resolve_scout_stop_atr_with_tier lbl ap d c =
    resolve_stop_atr_with_tier lbl ap d (va_enabled c) (va_scout_atr_percent_tiers c)"

definition atr_percent_1m :: "entry_context \<Rightarrow> candle \<Rightarrow> dec \<Rightarrow> dec" where
  "atr_percent_1m ctx k atr1 =
    (case is_atr_percent (ec_snapshot_1m ctx) of
       Some a \<Rightarrow> a
     | None \<Rightarrow>
         let price = (if is_close (ec_snapshot_1m ctx) = 0 then cd_close k else is_close (ec_snapshot_1m ctx))
         in if price \<le> 0 then 0 else dmul (ddiv atr1 price) 100)"

text \<open>The lowest low and highest high of the last five candles.\<close>

definition recent_swing_low :: "entry_context \<Rightarrow> dec option" where
  "recent_swing_low ctx =
    (let recent = last_n 5 (ec_candles_1m ctx) in
     if recent = [] then is_swing_low (ec_snapshot_1m ctx) else Some (Min (set (map cd_low recent))))"

definition recent_swing_high :: "entry_context \<Rightarrow> dec option" where
  "recent_swing_high ctx =
    (let recent = last_n 5 (ec_candles_1m ctx) in
     if recent = [] then is_swing_high (ec_snapshot_1m ctx) else Some (Max (set (map cd_high recent))))"

text \<open>The structure stop both decision builders compute: swing low, swing high, price.\<close>

definition entry_structure_stop ::
  "app_config \<Rightarrow> entry_context \<Rightarrow> dec \<Rightarrow> entry_mode \<Rightarrow> dec option \<times> dec option \<times> dec option" where
  "entry_structure_stop cfg ctx atr1 em =
    (if \<not> structure_stop_enabled cfg em then (None, None, None)
     else
       let buffer = dmul atr1 (st_buffer_atr (cfg_structure_stop cfg)) in
       if ec_direction ctx = SIG_LONG
       then (recent_swing_low ctx, None, map_option (\<lambda>l. dsub l buffer) (recent_swing_low ctx))
       else (None, recent_swing_high ctx, map_option (\<lambda>h. dadd h buffer) (recent_swing_high ctx)))"

definition stop_metadata_of ::
  "app_config \<Rightarrow> entry_context \<Rightarrow> entry_mode \<Rightarrow> string \<Rightarrow> dec \<Rightarrow> dec \<Rightarrow> dec \<times> string option \<times> bool \<Rightarrow>
   dec option \<times> dec option \<times> dec option \<Rightarrow> payload" where
  "stop_metadata_of cfg ctx em prefix atr_percent default_stop_atr resolved structure =
    (case resolved of (stop_atr, tier, invalid) \<Rightarrow>
     case structure of (low, high, price) \<Rightarrow>
     let enabled = structure_stop_enabled cfg em in
     drop_none
      [(''entry_mode'', PStr (entry_mode_value em)),
       (''symbol'', PStr (ec_symbol ctx)),
       (''side'', PStr (direction_value (ec_direction ctx))),
       (''atr_percent_1m'', PDec atr_percent),
       (''default_stop_atr'', PDec default_stop_atr),
       (''resolved_stop_atr'', PDec stop_atr),
       (''adaptive_stop_enabled'', PBool (va_enabled (cfg_volatility_adaptive_stop cfg))),
       (''adaptive_stop_tier'', opt_str tier),
       (''adaptive_stop_config_invalid'', if invalid then PBool True else PNone),
       (''adaptive_stop_warning'', if invalid then PStr ''ADAPTIVE_STOP_CONFIG_INVALID'' else PNone),
       (''structure_stop_enabled'', PBool enabled),
       (''structure_stop_price'', opt_dec price),
       (prefix @ ''_swing_low'', opt_dec low),
       (prefix @ ''_swing_high'', opt_dec high),
       (''structure_stop_warning'',
         if enabled \<and> price = None then PStr ''STRUCTURE_STOP_UNAVAILABLE'' else PNone)])"

section \<open>Why there was no entry\<close>

definition anti_chase_detail :: "string option \<Rightarrow> string option" where
  "anti_chase_detail reason =
    (case reason of
       None \<Rightarrow> None
     | Some r \<Rightarrow>
         if CHR '':'' \<notin> set r then None
         else
           let prefix = takeWhile (\<lambda>c. c \<noteq> CHR '':'') r; detail = tl (dropWhile (\<lambda>c. c \<noteq> CHR '':'') r)
           in if prefix = ''ANTI_CHASE_LONG'' \<or> prefix = ''ANTI_CHASE_SHORT'' then Some detail else None)"

definition record_no_entry :: "string \<Rightarrow> payload \<Rightarrow> entry_engine \<Rightarrow> entry_engine" where
  "record_no_entry reason_code extra e =
    (let (code, extra1) =
           (case anti_chase_detail (Some reason_code) of
              None \<Rightarrow> (reason_code, extra)
            | Some d \<Rightarrow> (takeWhile (\<lambda>c. c \<noteq> CHR '':'') reason_code,
                         if map_of extra ''anti_chase_reason'' = None
                         then dict_set ''anti_chase_reason'' (PStr d) extra else extra))
     in e\<lparr> ee_last_no_entry_reason := Some
            (dict_update [(''failed_stage'', PStr ''entry_timing''), (''reason_code'', PStr code)]
              (drop_none extra1)) \<rparr>)"

section \<open>Breakouts\<close>

definition broke_out :: "app_config \<Rightarrow> entry_context \<Rightarrow> candle \<Rightarrow> dec \<Rightarrow> bool \<Rightarrow> bool" where
  "broke_out cfg ctx k atr1 long =
    (let margin = bc_close_beyond_boundary_atr (breakout_cfg cfg) in
     if long then dadd (ec_box_high ctx) (dmul margin atr1) < cd_close k
     else cd_close k < dsub (ec_box_low ctx) (dmul margin atr1))"

definition breakout_quality_reason ::
  "app_config \<Rightarrow> entry_context \<Rightarrow> candle_metrics \<Rightarrow> bool \<Rightarrow> string option" where
  "breakout_quality_reason cfg ctx m long =
    (case is_volume_ratio (ec_snapshot_1m ctx) of
       None \<Rightarrow> Some ''VOLUME_MISSING''
     | Some vol \<Rightarrow>
         let cq = cfg_candle_quality cfg in
         if vol < bc_volume_min_ratio (breakout_cfg cfg) then Some ''VOLUME_TOO_LOW''
         else if cv_max_exhaustion_volume_ratio (cfg_volume cfg) \<le> vol then Some ''VOLUME_EXHAUSTION''
         else if mt_body_ratio m < cq_min_body_ratio_for_breakout cq then Some ''BODY_TOO_SMALL''
         else if long
         then
           if cq_max_opposite_wick_ratio_for_breakout cq < mt_upper_wick_ratio m
             then Some ''OPPOSITE_WICK_TOO_LARGE''
           else if mt_close_position_in_range m < cq_long_min_close_position_in_range cq
             then Some ''WEAK_CLOSE_IN_RANGE''
           else map_option (\<lambda>a. ''ANTI_CHASE_LONG:'' @ a)
             (block_long cfg (ec_snapshot_1m ctx) (ec_candles_1m ctx) m)
         else
           if cq_max_opposite_wick_ratio_for_breakout cq < mt_lower_wick_ratio m
             then Some ''OPPOSITE_WICK_TOO_LARGE''
           else if cq_short_max_close_position_in_range cq < mt_close_position_in_range m
             then Some ''WEAK_CLOSE_IN_RANGE''
           else map_option (\<lambda>a. ''ANTI_CHASE_SHORT:'' @ a)
             (block_short cfg (ec_snapshot_1m ctx) (ec_candles_1m ctx) m))"

definition breakout_hold_confirmed ::
  "app_config \<Rightarrow> entry_context \<Rightarrow> candle \<Rightarrow> candle_metrics \<Rightarrow> dec \<Rightarrow> bool \<Rightarrow> pending_breakout \<Rightarrow> bool" where
  "breakout_hold_confirmed cfg ctx k m atr1 long pending =
    (let margin = bc_close_beyond_boundary_atr (breakout_cfg cfg);
         hold = (if long then dadd (pb_level pending) (dmul margin atr1) < cd_close k
                 else cd_close k < dsub (pb_level pending) (dmul margin atr1))
     in hold \<and> breakout_quality_reason cfg ctx m long = None)"

text \<open>A decision without the fields only scouts fill.\<close>

definition plain_decision ::
  "entry_context \<Rightarrow> entry_mode \<Rightarrow> dec \<Rightarrow> dec \<Rightarrow> string \<Rightarrow> entry_decision" where
  "plain_decision ctx em fraction stop_atr reason =
    \<lparr> ed_symbol = ec_symbol ctx, ed_direction = ec_direction ctx, ed_entry_mode = em,
      ed_position_fraction = fraction, ed_stop_atr = stop_atr, ed_score = ec_signal_score ctx,
      ed_reason = reason, ed_structure_stop_price = None, ed_stop_metadata = None,
      ed_compression_mode = None, ed_has_compression = None, ed_required_score = None,
      ed_compression_bonus_applied = None \<rparr>"

definition breakout_decision :: "app_config \<Rightarrow> entry_context \<Rightarrow> entry_decision" where
  "breakout_decision cfg ctx =
    plain_decision ctx BREAKOUT_CONFIRM (bc_position_fraction (breakout_cfg cfg))
      (bc_stop_atr (breakout_cfg cfg)) ''healthy breakout''"

definition retest_decision ::
  "(dec \<Rightarrow> string) \<Rightarrow> app_config \<Rightarrow> entry_context \<Rightarrow> candle \<Rightarrow> dec \<Rightarrow> entry_decision" where
  "retest_decision lbl cfg ctx k atr1 =
    (let e = retest_cfg cfg;
         default_stop_atr = (if rc_stop_atr e = 0 then 13 / 10 else rc_stop_atr e);
         ap = atr_percent_1m ctx k atr1;
         resolved = resolve_retest_stop_atr_with_tier lbl ap default_stop_atr (cfg_volatility_adaptive_stop cfg);
         structure = entry_structure_stop cfg ctx atr1 RETEST_CONFIRM
     in (plain_decision ctx RETEST_CONFIRM (rc_position_fraction e) (fst resolved) ''retest confirm'')
          \<lparr> ed_structure_stop_price := snd (snd structure),
            ed_stop_metadata := Some (stop_metadata_of cfg ctx RETEST_CONFIRM ''retest'' ap default_stop_atr
              resolved structure) \<rparr>)"

section \<open>Scouts\<close>

definition compression_of :: "app_config \<Rightarrow> entry_context \<Rightarrow> scout_compression" where
  "compression_of cfg ctx =
    (let ratio = (case (avg_true_range (ec_candles_1m ctx) 20, avg_true_range (ec_candles_1m ctx) 100) of
           (Some a, Some b) \<Rightarrow> if 0 < b then Some (ddiv a b) else None
         | _ \<Rightarrow> None);
         has = (case ratio of None \<Rightarrow> False | Some r \<Rightarrow> r \<le> pb_score_compression_ratio (pre_breakout_cfg cfg))
     in \<lparr> cm_has_compression = has,
          cm_bonus_applied = (if has then of_int (pb_compression_bonus_score (pre_breakout_cfg cfg)) else 0),
          cm_mode = (if has then ''WITH_COMPRESSION'' else ''WITHOUT_COMPRESSION''), cm_ratio = ratio \<rparr>)"

definition scout_required_score :: "app_config \<Rightarrow> bool \<Rightarrow> dec" where
  "scout_required_score cfg has =
    (let c = pre_breakout_cfg cfg in
     of_int (if has then (case pb_compression_min_score c of None \<Rightarrow> pb_min_score c | Some v \<Rightarrow> v)
             else (case pb_no_compression_min_score c of None \<Rightarrow> pb_min_score c + 1 | Some v \<Rightarrow> v)))"

definition scout_position_fraction :: "app_config \<Rightarrow> bool \<Rightarrow> dec" where
  "scout_position_fraction cfg has =
    (let c = pre_breakout_cfg cfg in
     if has then (case pb_compression_position_fraction c of None \<Rightarrow> pb_position_fraction c | Some v \<Rightarrow> v)
     else (case pb_no_compression_position_fraction c of
             None \<Rightarrow> min (pb_position_fraction c) (20 / 100) | Some v \<Rightarrow> v))"

text \<open>\<open>score += a if c else b\<close>.\<close>

definition bump :: "bool \<Rightarrow> dec \<Rightarrow> dec \<Rightarrow> dec \<Rightarrow> dec" where
  "bump c a b score = dadd score (if c then a else b)"

definition scout_score ::
  "app_config \<Rightarrow> entry_context \<Rightarrow> candle \<Rightarrow> dec \<Rightarrow> bool \<Rightarrow> scout_compression \<Rightarrow> dec" where
  "scout_score cfg ctx k atr1 long compression =
    (let c = pre_breakout_cfg cfg; s15 = ec_snapshot_15m ctx; s1 = ec_snapshot_1m ctx;
         t1 = (case (is_ema20 s15, is_ema50 s15) of
                 (Some f, Some s) \<Rightarrow>
                   if f \<noteq> 0 \<and> s \<noteq> 0 \<and> 0 < is_close s15
                   then
                     let gap = dmul (ddiv (if long then dsub f s else dsub s f) (is_close s15)) 100
                     in bump (pb_score_gap_high_percent_15m c \<le> gap) 2 1 0
                   else 0
               | _ \<Rightarrow> 0);
         t2 = (case is_ema20_slope_atr s15 of
                 None \<Rightarrow> t1
               | Some slope \<Rightarrow>
                   bump (pb_score_slope_high_atr_15m c \<le> (if long then slope else dneg slope)) 2 1 t1);
         t3 = (case is_rsi14 s1 of
                 None \<Rightarrow> t2
               | Some rsi \<Rightarrow>
                   bump (if long then pb_score_long_rsi_center_min c \<le> rsi \<and> rsi \<le> pb_score_long_rsi_center_max c
                         else pb_score_short_rsi_center_min c \<le> rsi \<and> rsi \<le> pb_score_short_rsi_center_max c) 1 0 t2);
         dist = (if long then dsub (ec_box_high ctx) (cd_close k) else dsub (cd_close k) (ec_box_low ctx));
         t4 = (if dist \<le> dmul (pb_score_near_box_atr c) atr1 then dadd t3 2
               else if dist \<le> dmul (pb_score_mid_box_atr c) atr1 then dadd t3 1
               else t3);
         t5 = dadd t4 (cm_bonus_applied compression);
         t6 = (case is_volume_ratio s1 of
                 None \<Rightarrow> t5
               | Some v \<Rightarrow> bump (pb_score_high_volume_ratio c \<le> v) 2 1 t5)
     in min t6 10)"

definition scout_chase_reason ::
  "app_config \<Rightarrow> dec \<Rightarrow> candle_metrics \<Rightarrow> bool \<Rightarrow> scout_compression \<Rightarrow> string list" where
  "scout_chase_reason cfg vol m long compression =
    (let c = pre_breakout_cfg cfg in
     if \<not> cm_has_compression compression \<and> mt_valid m \<and> pb_no_compression_max_body_ratio c \<le> mt_body_ratio m \<and>
        vol < pb_no_compression_chase_min_volume_ratio c \<and>
        (if long then pb_no_compression_long_max_close_position_in_range c \<le> mt_close_position_in_range m
         else mt_close_position_in_range m \<le> pb_no_compression_short_min_close_position_in_range c)
     then [''SCOUT_NO_COMPRESSION_CHASE''] else [])"

definition scout_condition_reasons ::
  "app_config \<Rightarrow> entry_context \<Rightarrow> candle \<Rightarrow> dec \<Rightarrow> bool \<Rightarrow> scout_compression \<Rightarrow> string list" where
  "scout_condition_reasons cfg ctx k atr1 long compression =
    (let c = pre_breakout_cfg cfg; s1 = ec_snapshot_1m ctx in
     case (is_rsi14 s1, is_volume_ratio s1) of
       (Some rsi, Some vol) \<Rightarrow>
         if pb_require_compression c \<and> \<not> cm_has_compression compression then [''SCOUT_NO_COMPRESSION'']
         else
           let dist_limit = dmul (pb_max_distance_to_box_atr c) atr1;
               m = metrics_of k;
               far = (if long
                 then \<not> (dsub (ec_box_high ctx) (cd_close k) \<le> dist_limit \<and> cd_close k \<le> ec_box_high ctx)
                 else \<not> (dsub (cd_close k) (ec_box_low ctx) \<le> dist_limit \<and> ec_box_low ctx \<le> cd_close k));
               weak = (if long then count_rising_lows (ec_candles_1m ctx) 4 < 2
                       else count_falling_highs (ec_candles_1m ctx) 4 < 2);
               rsi_out = (if long then \<not> (pb_long_rsi_min c \<le> rsi \<and> rsi \<le> pb_long_rsi_max c)
                          else \<not> (pb_short_rsi_min c \<le> rsi \<and> rsi \<le> pb_short_rsi_max c));
               anti = (if long
                 then map_option (\<lambda>a. ''ANTI_CHASE_LONG:'' @ a) (block_long cfg s1 (ec_candles_1m ctx) m)
                 else map_option (\<lambda>a. ''ANTI_CHASE_SHORT:'' @ a) (block_short cfg s1 (ec_candles_1m ctx) m))
           in (if far then [''SCOUT_TOO_FAR_FROM_BOX''] else []) @
              (if vol < pb_min_volume_ratio c then [''VOLUME_TOO_LOW'']
               else if cv_max_exhaustion_volume_ratio (cfg_volume cfg) \<le> vol then [''BREAKOUT_EXHAUSTION'']
               else []) @
              scout_chase_reason cfg vol m long compression @
              (if weak then [''SCOUT_STRUCTURE_WEAK''] else []) @
              (if rsi_out then [''TREND_CONDITION_FAILED''] else []) @
              (case anti of None \<Rightarrow> [] | Some a \<Rightarrow> [a])
     | _ \<Rightarrow> [''SCOUT_DATA_MISSING''])"

definition scout_log_meta :: "scout_compression \<Rightarrow> dec \<Rightarrow> dec \<Rightarrow> dec \<Rightarrow> payload" where
  "scout_log_meta compression score required fraction =
    [(''has_compression'', PBool (cm_has_compression compression)),
     (''compression_bonus_applied'', PDec (cm_bonus_applied compression)),
     (''scout_score'', PDec score),
     (''required_scout_score'', PDec required),
     (''position_fraction'', PDec fraction),
     (''compression_mode'', PStr (cm_mode compression))]"

definition scout_decision ::
  "(dec \<Rightarrow> string) \<Rightarrow> app_config \<Rightarrow> entry_context \<Rightarrow> candle \<Rightarrow> dec \<Rightarrow> bool \<Rightarrow> entry_engine \<Rightarrow>
   entry_engine \<times> entry_decision option" where
  "scout_decision lbl cfg ctx k atr1 long e =
    (let compression = compression_of cfg ctx;
         has = cm_has_compression compression;
         score = scout_score cfg ctx k atr1 long compression;
         required = scout_required_score cfg has;
         fraction = scout_position_fraction cfg has;
         meta = scout_log_meta compression score required fraction;
         reasons = scout_condition_reasons cfg ctx k atr1 long compression;
         candidate = (''entry_mode_candidate'', PStr (entry_mode_value PRE_BREAKOUT_SCOUT))
     in case reasons of
          r # _ \<Rightarrow>
            (record_no_entry r (candidate # (''scout_failed_conditions'', PStrs reasons) # meta) e, None)
        | [] \<Rightarrow>
            if score < required
            then (record_no_entry
                   (if has then ''SCOUT_SCORE_TOO_LOW'' else ''SCOUT_SCORE_TOO_LOW_NO_COMPRESSION'')
                   (candidate # meta) e, None)
            else
              let c = pre_breakout_cfg cfg;
                  default_stop_atr = (if pb_stop_atr c = 0 then 7 / 10 else pb_stop_atr c);
                  ap = atr_percent_1m ctx k atr1;
                  resolved = resolve_scout_stop_atr_with_tier lbl ap default_stop_atr
                    (cfg_volatility_adaptive_stop cfg);
                  structure = entry_structure_stop cfg ctx atr1 PRE_BREAKOUT_SCOUT
              in (e, Some ((plain_decision ctx PRE_BREAKOUT_SCOUT fraction (fst resolved)
                    (''pre-breakout scout '' @ (if has then ''with_compression'' else ''without_compression'')))
                  \<lparr> ed_score := score,
                    ed_structure_stop_price := snd (snd structure),
                    ed_stop_metadata := Some (stop_metadata_of cfg ctx PRE_BREAKOUT_SCOUT ''scout'' ap
                      default_stop_atr resolved structure),
                    ed_compression_mode := Some (cm_mode compression),
                    ed_has_compression := Some has,
                    ed_required_score := Some required,
                    ed_compression_bonus_applied := Some (cm_bonus_applied compression) \<rparr>)))"

end
