(* ===== verification/Entry_Engine.thy ===== *)
theory Entry_Engine
  imports Entry_Timing
begin

text \<open>
  The engine's decision function (\<^verbatim>\<open>EntryTimingEngine.evaluate\<close>) and what a decision guarantees.
\<close>

section \<open>The decision function\<close>

definition candidate_extra :: "entry_mode \<Rightarrow> string \<Rightarrow> payload" where
  "candidate_extra em status =
    [(''entry_mode_candidate'', PStr (entry_mode_value em)), (''retest_pending_status'', PStr status)]"

definition pop_pending :: "string \<Rightarrow> entry_engine \<Rightarrow> entry_engine" where
  "pop_pending s e = e\<lparr> ee_pending_breakouts := (ee_pending_breakouts e)(s := None) \<rparr>"

definition register_retest :: "entry_context \<Rightarrow> dec \<Rightarrow> entry_engine \<Rightarrow> entry_engine" where
  "register_retest ctx level e =
    e\<lparr> ee_retests := retest_register (ec_symbol ctx) (ec_direction ctx) level (ee_retests e) \<rparr>"

text \<open>A close beyond the box.\<close>

definition on_breakout ::
  "app_config \<Rightarrow> entry_context \<Rightarrow> candle \<Rightarrow> candle_metrics \<Rightarrow> bool \<Rightarrow> entry_engine \<Rightarrow>
   entry_engine \<times> entry_decision option" where
  "on_breakout cfg ctx k m long e =
    (let modes = en_enabled_modes (cfg_entry cfg);
         level = (if long then ec_box_high ctx else ec_box_low ctx);
         quality = breakout_quality_reason cfg ctx m long
     in if em_breakout_confirm modes \<and> quality = None
        then
          if bc_require_next_candle_hold (breakout_cfg cfg)
          then
            let e1 = e\<lparr> ee_pending_breakouts := (ee_pending_breakouts e)(ec_symbol ctx \<mapsto>
                  \<lparr> pb_direction = ec_direction ctx, pb_level = level,
                    pb_open_time_ms = (if 0 < cd_open_time_ms k then Some (cd_open_time_ms k) else None) \<rparr>) \<rparr>
            in (record_no_entry ''BREAKOUT_HOLD_PENDING''
                  (candidate_extra BREAKOUT_CONFIRM ''WAITING_NEXT_CANDLE'') e1, None)
          else (e, Some (breakout_decision cfg ctx))
        else
          let e1 = (if em_retest_confirm modes then register_retest ctx level e else e);
              code = (if quality = Some ''VOLUME_EXHAUSTION'' then ''BREAKOUT_EXHAUSTION''
                      else ''BREAKOUT_NOT_HEALTHY'')
          in (record_no_entry code
                [(''entry_mode_candidate'', PStr (entry_mode_value BREAKOUT_CONFIRM)),
                 (''anti_chase_reason'', opt_str (anti_chase_detail quality)),
                 (''breakout_quality_reason'', opt_str quality),
                 (''retest_pending_status'',
                   PStr (if em_retest_confirm modes then ''REGISTERED'' else ''DISABLED''))] e1, None))"

text \<open>Inside the box: a retest, then a scout.\<close>

definition inside_box ::
  "(dec \<Rightarrow> string) \<Rightarrow> app_config \<Rightarrow> entry_context \<Rightarrow> candle \<Rightarrow> candle_metrics \<Rightarrow> dec \<Rightarrow> bool \<Rightarrow>
   entry_engine \<Rightarrow> entry_engine \<times> entry_decision option" where
  "inside_box lbl cfg ctx k m atr1 long e =
    (let modes = en_enabled_modes (cfg_entry cfg);
         pending = (case ee_retests e (ec_symbol ctx) of
           None \<Rightarrow> None
         | Some p \<Rightarrow> if em_retest_confirm modes \<and> pr_direction p = ec_direction ctx then Some p else None)
     in if (case pending of None \<Rightarrow> False | Some p \<Rightarrow> retest_confirmed cfg p k m atr1)
        then (e\<lparr> ee_retests := retest_drop (ec_symbol ctx) (ee_retests e) \<rparr>,
              Some (retest_decision lbl cfg ctx k atr1))
        else
          let e1 = (case pending of
                None \<Rightarrow> e
              | Some p \<Rightarrow> record_no_entry ''RETEST_TOO_FAR_FROM_LEVEL''
                  (candidate_extra RETEST_CONFIRM (''WAITING:'' @ int_str (pr_bars_waited p))) e);
              (e2, decision) = (if em_pre_breakout_scout modes then scout_decision lbl cfg ctx k atr1 long e1
                                else (e1, None))
          in if decision \<noteq> None then (e2, decision)
             else if ee_last_no_entry_reason e2 = None
             then (record_no_entry ''SCOUT_CONDITIONS_FAILED'' [] e2, None)
             else (e2, None))"

definition fresh_candle ::
  "(dec \<Rightarrow> string) \<Rightarrow> app_config \<Rightarrow> entry_context \<Rightarrow> candle \<Rightarrow> candle_metrics \<Rightarrow> dec \<Rightarrow> bool \<Rightarrow>
   entry_engine \<Rightarrow> entry_engine \<times> entry_decision option" where
  "fresh_candle lbl cfg ctx k m atr1 long e =
    (if broke_out cfg ctx k atr1 long then on_breakout cfg ctx k m long e
     else inside_box lbl cfg ctx k m atr1 long e)"

text \<open>A breakout that waits for the next candle.\<close>

definition on_pending_breakout ::
  "app_config \<Rightarrow> entry_context \<Rightarrow> candle \<Rightarrow> candle_metrics \<Rightarrow> dec \<Rightarrow> bool \<Rightarrow> pending_breakout \<Rightarrow>
   entry_engine \<Rightarrow> entry_engine \<times> entry_decision option" where
  "on_pending_breakout cfg ctx k m atr1 long pending e =
    (let modes = en_enabled_modes (cfg_entry cfg) in
     if pb_open_time_ms pending \<noteq> None \<and> pb_open_time_ms pending = Some (cd_open_time_ms k)
     then (record_no_entry ''BREAKOUT_HOLD_PENDING''
             (candidate_extra BREAKOUT_CONFIRM ''WAITING_NEXT_CANDLE'') e, None)
     else if breakout_hold_confirmed cfg ctx k m atr1 long pending
     then (pop_pending (ec_symbol ctx) e, Some (breakout_decision cfg ctx))
     else
       let e1 = pop_pending (ec_symbol ctx) e;
           e2 = (if em_retest_confirm modes then register_retest ctx (pb_level pending) e1 else e1)
       in (record_no_entry ''BREAKOUT_HOLD_FAILED''
             (candidate_extra BREAKOUT_CONFIRM (if em_retest_confirm modes then ''REGISTERED'' else ''DISABLED''))
             e2, None))"

definition entry_evaluate ::
  "(dec \<Rightarrow> string) \<Rightarrow> app_config \<Rightarrow> entry_context \<Rightarrow> entry_engine \<Rightarrow> entry_engine \<times> entry_decision option" where
  "entry_evaluate lbl cfg ctx e0 =
    (let e = e0\<lparr> ee_last_no_entry_reason := None \<rparr> in
     if ec_direction ctx \<noteq> SIG_LONG \<and> ec_direction ctx \<noteq> SIG_SHORT
     then (record_no_entry ''TREND_CONDITION_FAILED'' [] e, None)
     else if ec_candles_1m ctx = [] then (record_no_entry ''NO_CANDLES'' [] e, None)
     else
       let k = last (ec_candles_1m ctx); m = metrics_of k in
       case is_atr14 (ec_snapshot_1m ctx) of
         None \<Rightarrow> (record_no_entry ''INVALID_CANDLE_OR_ATR'' [] e, None)
       | Some atr1 \<Rightarrow>
           if \<not> mt_valid m \<or> atr1 \<le> 0 then (record_no_entry ''INVALID_CANDLE_OR_ATR'' [] e, None)
           else
             let e1 = e\<lparr> ee_retests := on_new_bar cfg (ec_symbol ctx) k (ee_retests e) \<rparr>;
                 long = (ec_direction ctx = SIG_LONG)
             in case ee_pending_breakouts e1 (ec_symbol ctx) of
                  None \<Rightarrow> fresh_candle lbl cfg ctx k m atr1 long e1
                | Some pending \<Rightarrow>
                    if \<not> em_breakout_confirm (en_enabled_modes (cfg_entry cfg)) \<or>
                       pb_direction pending \<noteq> ec_direction ctx
                    then fresh_candle lbl cfg ctx k m atr1 long (pop_pending (ec_symbol ctx) e1)
                    else on_pending_breakout cfg ctx k m atr1 long pending e1)"

section \<open>What a decision guarantees\<close>

lemma retest_decision_simps [simp]:
  "ed_entry_mode (retest_decision lbl cfg ctx k a) = RETEST_CONFIRM"
  "ed_direction (retest_decision lbl cfg ctx k a) = ec_direction ctx"
  "ed_symbol (retest_decision lbl cfg ctx k a) = ec_symbol ctx"
  "ed_score (retest_decision lbl cfg ctx k a) = ec_signal_score ctx"
  by (simp_all add: retest_decision_def plain_decision_def Let_def)

lemma breakout_decision_simps [simp]:
  "ed_entry_mode (breakout_decision cfg ctx) = BREAKOUT_CONFIRM"
  "ed_direction (breakout_decision cfg ctx) = ec_direction ctx"
  "ed_symbol (breakout_decision cfg ctx) = ec_symbol ctx"
  by (simp_all add: breakout_decision_def plain_decision_def)

text \<open>Why a decision of each mode was taken.\<close>

definition justified ::
  "app_config \<Rightarrow> entry_context \<Rightarrow> entry_engine \<Rightarrow> candle \<Rightarrow> dec \<Rightarrow> entry_decision \<Rightarrow> bool" where
  "justified cfg ctx e k atr1 d \<longleftrightarrow>
    (let long = (ec_direction ctx = SIG_LONG); m = metrics_of k; modes = en_enabled_modes (cfg_entry cfg) in
     case ed_entry_mode d of
       BREAKOUT_CONFIRM \<Rightarrow> em_breakout_confirm modes \<and> breakout_quality_reason cfg ctx m long = None \<and>
         (broke_out cfg ctx k atr1 long \<and> \<not> bc_require_next_candle_hold (breakout_cfg cfg) \<or>
          (\<exists>pending. ee_pending_breakouts e (ec_symbol ctx) = Some pending \<and>
             pb_direction pending = ec_direction ctx \<and>
             pb_open_time_ms pending \<noteq> Some (cd_open_time_ms k) \<and>
             breakout_hold_confirmed cfg ctx k m atr1 long pending))
     | RETEST_CONFIRM \<Rightarrow> em_retest_confirm modes \<and> \<not> broke_out cfg ctx k atr1 long \<and>
         (\<exists>p. on_new_bar cfg (ec_symbol ctx) k (ee_retests e) (ec_symbol ctx) = Some p \<and>
            pr_direction p = ec_direction ctx \<and> retest_confirmed cfg p k m atr1)
     | PRE_BREAKOUT_SCOUT \<Rightarrow> em_pre_breakout_scout modes \<and> \<not> broke_out cfg ctx k atr1 long \<and>
         scout_condition_reasons cfg ctx k atr1 long (compression_of cfg ctx) = [] \<and>
         scout_required_score cfg (cm_has_compression (compression_of cfg ctx)) \<le> ed_score d)"

lemma scout_decision_Some:
  assumes "scout_decision lbl cfg ctx k atr1 long e = (e', Some d)"
  shows "ed_entry_mode d = PRE_BREAKOUT_SCOUT \<and> ed_direction d = ec_direction ctx \<and> ed_symbol d = ec_symbol ctx \<and>
    scout_condition_reasons cfg ctx k atr1 long (compression_of cfg ctx) = [] \<and>
    scout_required_score cfg (cm_has_compression (compression_of cfg ctx)) \<le> ed_score d"
  using assms
  by (auto simp: scout_decision_def plain_decision_def Let_def not_less split: list.splits if_splits)

lemma on_breakout_Some:
  assumes "on_breakout cfg ctx k m long e = (e', Some d)"
  shows "d = breakout_decision cfg ctx \<and> em_breakout_confirm (en_enabled_modes (cfg_entry cfg)) \<and>
    breakout_quality_reason cfg ctx m long = None \<and> \<not> bc_require_next_candle_hold (breakout_cfg cfg)"
  using assms by (auto simp: on_breakout_def Let_def split: if_splits)

lemma inside_box_Some:
  assumes "inside_box lbl cfg ctx k m atr1 long e = (e', Some d)"
  obtains p where "ee_retests e (ec_symbol ctx) = Some p" "em_retest_confirm (en_enabled_modes (cfg_entry cfg))"
      "pr_direction p = ec_direction ctx" "retest_confirmed cfg p k m atr1" "d = retest_decision lbl cfg ctx k atr1"
  | e1 where "em_pre_breakout_scout (en_enabled_modes (cfg_entry cfg))"
      "scout_decision lbl cfg ctx k atr1 long e1 = (e', Some d)"
proof -
  obtain x where x: "x = (case ee_retests e (ec_symbol ctx) of None \<Rightarrow> None
      | Some p \<Rightarrow> if em_retest_confirm (en_enabled_modes (cfg_entry cfg)) \<and> pr_direction p = ec_direction ctx
          then Some p else None)" by blast
  show thesis
  proof (cases "case x of None \<Rightarrow> False | Some p \<Rightarrow> retest_confirmed cfg p k m atr1")
    case True
    then show thesis
      using assms that(1) x by (auto simp: inside_box_def Let_def split: option.splits if_splits)
  next
    case False
    then show thesis
      using assms that(2) unfolding inside_box_def Let_def x [symmetric]
      by (auto split: if_splits prod.splits)
  qed
qed

lemma on_pending_breakout_Some:
  assumes "on_pending_breakout cfg ctx k m atr1 long pending e = (e', Some d)"
  shows "d = breakout_decision cfg ctx \<and> breakout_hold_confirmed cfg ctx k m atr1 long pending \<and>
    pb_open_time_ms pending \<noteq> Some (cd_open_time_ms k)"
  using assms by (auto simp: on_pending_breakout_def Let_def split: if_splits)

lemma hold_quality: "breakout_hold_confirmed cfg ctx k m atr1 long p \<Longrightarrow> breakout_quality_reason cfg ctx m long = None"
  by (simp add: breakout_hold_confirmed_def Let_def)

lemma fresh_candle_justified:
  assumes "fresh_candle lbl cfg ctx k (metrics_of k) atr1 (ec_direction ctx = SIG_LONG) e1 = (e', Some d)"
    and "ee_retests e1 = on_new_bar cfg (ec_symbol ctx) k (ee_retests e)"
  shows "justified cfg ctx e k atr1 d \<and> ed_direction d = ec_direction ctx \<and> ed_symbol d = ec_symbol ctx"
proof (cases "broke_out cfg ctx k atr1 (ec_direction ctx = SIG_LONG)")
  case True
  then show ?thesis
    using assms on_breakout_Some [of cfg ctx k "metrics_of k" "ec_direction ctx = SIG_LONG" e1 e' d]
    by (auto simp: fresh_candle_def justified_def Let_def)
next
  case False
  then have "inside_box lbl cfg ctx k (metrics_of k) atr1 (ec_direction ctx = SIG_LONG) e1 = (e', Some d)"
    using assms(1) by (simp add: fresh_candle_def)
  then show ?thesis
  proof (rule inside_box_Some)
    fix e2
    assume "em_pre_breakout_scout (en_enabled_modes (cfg_entry cfg))"
      "scout_decision lbl cfg ctx k atr1 (ec_direction ctx = SIG_LONG) e2 = (e', Some d)"
    then show ?thesis using False scout_decision_Some by (auto simp: justified_def Let_def)
  qed (use False assms(2) in \<open>auto simp: justified_def Let_def\<close>)
qed

text \<open>C13. Every entry decision is justified by its mode: a breakout entry had a healthy close beyond the
  box, or a later candle that held the level of a pending breakout; a retest entry had a
  pending retest of its direction that this candle confirmed; a scout met every scout
  condition and its required score. The decision has the symbol and direction asked for, and
  the candle and ATR it was taken on are valid.\<close>

theorem entry_decision_justified:
  assumes "entry_evaluate lbl cfg ctx e = (e', Some d)"
  shows "\<exists>atr1. is_atr14 (ec_snapshot_1m ctx) = Some atr1 \<and> 0 < atr1 \<and>
    ec_candles_1m ctx \<noteq> [] \<and> mt_valid (metrics_of (last (ec_candles_1m ctx))) \<and>
    ed_direction d = ec_direction ctx \<and> ed_symbol d = ec_symbol ctx \<and>
    justified cfg ctx e (last (ec_candles_1m ctx)) atr1 d"
proof -
  let ?k = "last (ec_candles_1m ctx)"
  obtain atr1 where a: "is_atr14 (ec_snapshot_1m ctx) = Some atr1" "0 < atr1" "mt_valid (metrics_of ?k)"
    "ec_candles_1m ctx \<noteq> []"
    using assms by (auto simp: entry_evaluate_def Let_def split: if_splits option.splits)
  let ?e = "e\<lparr> ee_last_no_entry_reason := None, ee_retests := on_new_bar cfg (ec_symbol ctx) ?k (ee_retests e) \<rparr>"
  let ?long = "ec_direction ctx = SIG_LONG"
  have eq: "(case ee_pending_breakouts ?e (ec_symbol ctx) of
      None \<Rightarrow> fresh_candle lbl cfg ctx ?k (metrics_of ?k) atr1 ?long ?e
    | Some pending \<Rightarrow>
        if \<not> em_breakout_confirm (en_enabled_modes (cfg_entry cfg)) \<or> pb_direction pending \<noteq> ec_direction ctx
        then fresh_candle lbl cfg ctx ?k (metrics_of ?k) atr1 ?long (pop_pending (ec_symbol ctx) ?e)
        else on_pending_breakout cfg ctx ?k (metrics_of ?k) atr1 ?long pending ?e) = (e', Some d)"
    using assms a by (simp add: entry_evaluate_def Let_def split: if_splits)
  have fresh: "justified cfg ctx e ?k atr1 d \<and> ed_direction d = ec_direction ctx \<and> ed_symbol d = ec_symbol ctx"
    if "fresh_candle lbl cfg ctx ?k (metrics_of ?k) atr1 ?long e1 = (e', Some d)" "ee_retests e1 = ee_retests ?e" for e1
    using fresh_candle_justified [OF that(1), of e] that(2) by simp
  show ?thesis
  proof (cases "ee_pending_breakouts e (ec_symbol ctx)")
    case None
    then have "fresh_candle lbl cfg ctx ?k (metrics_of ?k) atr1 ?long ?e = (e', Some d)" using eq by simp
    then show ?thesis using fresh [of ?e] a by simp
  next
    case (Some pending)
    show ?thesis
    proof (cases "\<not> em_breakout_confirm (en_enabled_modes (cfg_entry cfg)) \<or> pb_direction pending \<noteq> ec_direction ctx")
      case True
      then have "fresh_candle lbl cfg ctx ?k (metrics_of ?k) atr1 ?long (pop_pending (ec_symbol ctx) ?e) = (e', Some d)"
        using eq Some by auto
      then show ?thesis using fresh [of "pop_pending (ec_symbol ctx) ?e"] a by (simp add: pop_pending_def)
    next
      case False
      then have "on_pending_breakout cfg ctx ?k (metrics_of ?k) atr1 ?long pending ?e = (e', Some d)"
        using eq Some by simp
      from on_pending_breakout_Some [OF this] show ?thesis
        using False Some a hold_quality [of cfg ctx ?k "metrics_of ?k" atr1 ?long pending]
        by (simp add: justified_def Let_def)
    qed
  qed
qed

lemma record_no_entry_reason [simp]:
  "ee_last_no_entry_reason (record_no_entry c x e) \<noteq> None"
  "\<exists>y. ee_last_no_entry_reason (record_no_entry c x e) = Some y"
  by (simp_all add: record_no_entry_def Let_def split: option.split)

lemma on_breakout_None: "on_breakout cfg ctx k m long e = (e', None) \<Longrightarrow> ee_last_no_entry_reason e' \<noteq> None"
  by (auto simp: on_breakout_def Let_def split: if_splits)

lemma inside_box_None:
  assumes "inside_box lbl cfg ctx k m atr1 long e = (e', None)" shows "ee_last_no_entry_reason e' \<noteq> None"
proof -
  obtain x where x: "x = (case ee_retests e (ec_symbol ctx) of None \<Rightarrow> None
      | Some p \<Rightarrow> if em_retest_confirm (en_enabled_modes (cfg_entry cfg)) \<and> pr_direction p = ec_direction ctx
          then Some p else None)" by blast
  show ?thesis
    using assms record_no_entry_reason unfolding inside_box_def Let_def x [symmetric]
    by (auto split: if_splits prod.splits)
qed

text \<open>When there is no entry the engine says why: every evaluation either takes a decision and
  leaves no reason of refusal, or takes none and records one.\<close>

theorem refusal_has_reason:
  assumes "snd (entry_evaluate lbl cfg ctx e) = None"
  shows "ee_last_no_entry_reason (fst (entry_evaluate lbl cfg ctx e)) \<noteq> None"
proof -
  obtain e' where e: "entry_evaluate lbl cfg ctx e = (e', None)" using assms by (metis prod.collapse)
  have fresh: "ee_last_no_entry_reason e' \<noteq> None" if "fresh_candle lbl cfg ctx k m a l e1 = (e', None)" for k m a l e1
    using that on_breakout_None [of cfg ctx k m l e1 e'] inside_box_None [of lbl cfg ctx k m a l e1 e']
    by (simp add: fresh_candle_def split: if_splits)
  have pend: "ee_last_no_entry_reason e' \<noteq> None"
    if "on_pending_breakout cfg ctx k m a l pd e1 = (e', None)" for k m a l pd e1
    using that by (auto simp: on_pending_breakout_def Let_def split: if_splits)
  have rec: "ee_last_no_entry_reason e' \<noteq> None" if "record_no_entry c x e1 = e'" for c x e1
    using that record_no_entry_reason by blast
  show ?thesis
    using e fresh pend rec unfolding entry_evaluate_def Let_def
    by (simp split: if_splits option.splits) 
qed

section \<open>Examples\<close>

definition ex_entry_snapshot :: indicator_snapshot where
  "ex_entry_snapshot = \<lparr> is_symbol = ''BTCUSDT'', is_timeframe = ''1'', is_close = 103,
    is_ema20 = Some 100, is_ema50 = Some 99, is_ema20_slope_atr = Some 1, is_rsi14 = Some 60,
    is_atr14 = Some 5, is_atr_percent = Some 1, is_volume_ratio = Some 2, is_swing_high = None,
    is_swing_low = None, is_valid = True, is_ts_ms = 0 \<rparr>"

definition ex_breakout_candle :: candle where
  "ex_breakout_candle = \<lparr> cd_symbol = ''BTCUSDT'', cd_interval = ''1'', cd_open_time_ms = 60000,
    cd_open = 100, cd_high = 104, cd_low = 99, cd_close = 104, cd_volume = 10, cd_turnover = 1000,
    cd_confirmed = True \<rparr>"

definition ex_entry_context :: entry_context where
  "ex_entry_context = \<lparr> ec_symbol = ''BTCUSDT'', ec_direction = SIG_LONG, ec_snapshot_1m = ex_entry_snapshot,
    ec_snapshot_5m = ex_entry_snapshot, ec_snapshot_15m = ex_entry_snapshot,
    ec_candles_1m = [ex_breakout_candle], ec_box_high = 102, ec_box_low = 90, ec_signal_score = 8,
    ec_signal_reason = [] \<rparr>"

lemma ex_metrics:
  "metrics_of ex_breakout_candle = \<lparr> mt_candle_range = 5, mt_body = 4, mt_upper_wick = 0, mt_lower_wick = 1,
    mt_body_ratio = 4 / 5, mt_upper_wick_ratio = 0, mt_lower_wick_ratio = 1 / 5,
    mt_close_position_in_range = 1, mt_valid = True \<rparr>"
  by (simp add: metrics_of_def ex_breakout_candle_def dec_eval Let_def)

lemma ex_quality: "breakout_quality_reason default_app_config ex_entry_context (metrics_of ex_breakout_candle) True = None"
  unfolding ex_metrics
  by (simp add: breakout_quality_reason_def block_long_def chase_data_def cumulative_move_def
      ex_entry_context_def ex_entry_snapshot_def ex_breakout_candle_def dec_eval Let_def default_app_config_def
      default_entry_section_def default_breakout_confirm_entry_def default_anti_chase_entry_def
      default_candle_quality_section_def default_volume_section_def)

lemma ex_broke_out: "broke_out default_app_config ex_entry_context ex_breakout_candle 5 True"
  by (simp add: broke_out_def ex_entry_context_def ex_breakout_candle_def dec_eval Let_def
      default_app_config_def default_entry_section_def default_breakout_confirm_entry_def)

lemma ex_entry:
  "entry_evaluate (\<lambda>_. []) default_app_config ex_entry_context new_entry_engine =
    (new_entry_engine, Some (breakout_decision default_app_config ex_entry_context))"
proof -
  have ctx: "ec_direction ex_entry_context = SIG_LONG" "ec_candles_1m ex_entry_context = [ex_breakout_candle]"
    "is_atr14 (ec_snapshot_1m ex_entry_context) = Some 5"
    by (simp_all add: ex_entry_context_def ex_entry_snapshot_def)
  have modes: "em_breakout_confirm (en_enabled_modes (cfg_entry default_app_config))"
    "\<not> bc_require_next_candle_hold (breakout_cfg default_app_config)"
    by (simp_all add: default_app_config_def default_entry_section_def default_entry_enabled_modes_def
        default_breakout_confirm_entry_def)
  have "mt_valid (metrics_of ex_breakout_candle)" by (simp add: ex_metrics)
  moreover have "on_breakout default_app_config ex_entry_context ex_breakout_candle (metrics_of ex_breakout_candle)
      True new_entry_engine = (new_entry_engine, Some (breakout_decision default_app_config ex_entry_context))"
    by (simp add: on_breakout_def ex_quality modes Let_def)
  ultimately show ?thesis
    by (simp add: entry_evaluate_def ctx Let_def fresh_candle_def ex_broke_out new_entry_engine_def
        on_new_bar_def del: metrics_valid)
qed

lemma entry_decision_justified_witness:
  "\<exists>d. snd (entry_evaluate (\<lambda>_. []) default_app_config ex_entry_context new_entry_engine) = Some d \<and>
    ed_direction d = SIG_LONG"
  using entry_decision_justified [OF ex_entry] by (simp add: ex_entry) (simp add: ex_entry_context_def)

lemma refusal_has_reason_witness:
  "ee_last_no_entry_reason (fst (entry_evaluate (\<lambda>_. []) default_app_config
    (ex_entry_context\<lparr> ec_candles_1m := [] \<rparr>) new_entry_engine)) \<noteq> None"
  by (rule refusal_has_reason) (simp add: entry_evaluate_def ex_entry_context_def)

end
