(* ===== verification/Strategy.thy ===== *)
theory Strategy
  imports Config
begin

text \<open>
  Signal generation: the trend-following strategy
  (\<^verbatim>\<open>packages/strategy/trend_following.py\<close>) and the signal engine that collects and ranks the
  strategies' signals (\<^verbatim>\<open>packages/signal/signal_engine.py\<close>).

  Comparing or adding a missing indicator raises \<open>TypeError\<close> in Python; \<open>need\<close> marks each place
  where the code reads one without a test. The text of a signal's reason is rendered by the
  parameter \<open>fmt\<close>.
\<close>

section \<open>The trend-following strategy\<close>

definition need :: "'a option \<Rightarrow> 'a result" where
  "need x = (case x of None \<Rightarrow> Inl TypeError | Some v \<Rightarrow> Inr v)"

lemma need_simps [simp]: "need None = Inl TypeError" "need (Some v) = Inr v"
  by (simp_all add: need_def)

definition atr_pct_ok :: "app_config \<Rightarrow> indicator_snapshot \<Rightarrow> bool" where
  "atr_pct_ok cfg s5 =
    (case is_atr_percent s5 of
       None \<Rightarrow> False
     | Some ap \<Rightarrow> cs_min_atr_percent (cfg_scanner cfg) \<le> ap \<and> ap \<le> cs_max_atr_percent (cfg_scanner cfg))"

text \<open>The tests of \<open>_long_ok\<close> and \<open>_short_ok\<close> after the gap test; \<open>up\<close> selects the direction.\<close>

definition setup_ok :: "app_config \<Rightarrow> bool \<Rightarrow> indicator_snapshot \<Rightarrow> indicator_snapshot \<Rightarrow> dec \<Rightarrow> bool result" where
  "setup_ok cfg up s15 s5 fast =
    (let tq = cfg_trend_quality cfg in
     if (case is_ema20_slope_atr s15 of
           None \<Rightarrow> True
         | Some s \<Rightarrow> if up then s < tq_min_ema20_slope_atr_15m tq else dneg (tq_min_ema20_slope_atr_15m tq) < s)
       then Inr False
     else if (case is_atr14 s15 of
           None \<Rightarrow> True
         | Some a \<Rightarrow>
             let d = dmul (tq_min_close_distance_from_ema20_atr_15m tq) a
             in if up then is_close s15 < dadd fast d else dsub fast d < is_close s15)
       then Inr False
     else bind_res (need (is_ema20 s5)) (\<lambda>e5.
       if (if up then is_close s5 \<le> e5 else e5 \<le> is_close s5) then Inr False
       else if (case is_rsi14 s5 of
             None \<Rightarrow> True
           | Some r \<Rightarrow>
               if up then \<not> (tq_long_rsi_min_5m tq \<le> r \<and> r \<le> tq_long_rsi_max_5m tq)
               else \<not> (tq_short_rsi_min_5m tq \<le> r \<and> r \<le> tq_short_rsi_max_5m tq))
         then Inr False
       else if (case is_volume_ratio s5 of None \<Rightarrow> True | Some v \<Rightarrow> v < cv_min_setup_volume_ratio (cfg_volume cfg))
         then Inr False
       else Inr (atr_pct_ok cfg s5)))"

definition long_ok :: "app_config \<Rightarrow> indicator_snapshot \<Rightarrow> indicator_snapshot \<Rightarrow> bool result" where
  "long_ok cfg s15 s5 =
    bind_res (need (is_ema20 s15)) (\<lambda>fast.
    bind_res (need (is_ema50 s15)) (\<lambda>slow.
      if fast \<le> slow then Inr False
      else bind_res (pdiv (dsub fast slow) (is_close s15)) (\<lambda>q.
        if dmul q 100 < tq_min_ema_gap_percent_15m (cfg_trend_quality cfg) then Inr False
        else setup_ok cfg True s15 s5 fast)))"

definition short_ok :: "app_config \<Rightarrow> indicator_snapshot \<Rightarrow> indicator_snapshot \<Rightarrow> bool result" where
  "short_ok cfg s15 s5 =
    bind_res (need (is_ema20 s15)) (\<lambda>fast.
    bind_res (need (is_ema50 s15)) (\<lambda>slow.
      if slow \<le> fast then Inr False
      else bind_res (pdiv (dsub slow fast) (is_close s15)) (\<lambda>q.
        if dmul q 100 < tq_min_ema_gap_percent_15m (cfg_trend_quality cfg) then Inr False
        else setup_ok cfg False s15 s5 fast)))"

definition strategy_score :: "app_config \<Rightarrow> dec \<Rightarrow> indicator_snapshot \<Rightarrow> indicator_snapshot \<Rightarrow> dec" where
  "strategy_score cfg gap s15 s5 =
    (let tq = cfg_trend_quality cfg;
         s1 = dadd 0 (if tq_score_gap_high_percent_15m tq \<le> gap then 3 else 2);
         mag = (case is_ema20_slope_atr s15 of None \<Rightarrow> 0 | Some s \<Rightarrow> dabs s);
         s2 = dadd s1 (if tq_score_slope_high_atr_15m tq \<le> mag then 3 else 2);
         s3 = (case is_volume_ratio s5 of
                 None \<Rightarrow> s2
               | Some v \<Rightarrow> dadd s2 (if tq_score_volume_high_ratio_5m tq \<le> v then 2 else 1));
         s4 = (case is_atr_percent s5 of
                 None \<Rightarrow> s3
               | Some a \<Rightarrow> if a \<le> tq_score_low_atr_percent_5m tq then dadd s3 2 else s3)
     in min s4 10)"

definition make_signal ::
  "(signal_direction \<Rightarrow> dec \<Rightarrow> dec option \<Rightarrow> dec option \<Rightarrow> string) \<Rightarrow> app_config \<Rightarrow> string \<Rightarrow> signal_direction \<Rightarrow>
   indicator_snapshot \<Rightarrow> indicator_snapshot \<Rightarrow> signal result" where
  "make_signal fmt cfg s d s15 s5 =
    bind_res (need (is_ema20 s15)) (\<lambda>fast.
    bind_res (need (is_ema50 s15)) (\<lambda>slow.
    bind_res (pdiv (if d = SIG_LONG then dsub fast slow else dsub slow fast) (is_close s15)) (\<lambda>q.
      let gap = dmul q 100
      in Inr \<lparr> sg_symbol = s, sg_direction = d, sg_strategy = ''trend_following'',
               sg_score = strategy_score cfg gap s15 s5,
               sg_reason = fmt d gap (is_ema20_slope_atr s15) (is_rsi14 s5) \<rparr>)))"

definition trend_following ::
  "(signal_direction \<Rightarrow> dec \<Rightarrow> dec option \<Rightarrow> dec option \<Rightarrow> string) \<Rightarrow> app_config \<Rightarrow> string \<Rightarrow>
   (string \<rightharpoonup> indicator_snapshot) \<Rightarrow> signal option result" where
  "trend_following fmt cfg s snapshots =
    (case (snapshots ''15'', snapshots ''5'') of
       (Some s15, Some s5) \<Rightarrow>
         if \<not> is_valid s15 \<or> \<not> is_valid s5 then Inr None
         else bind_res (long_ok cfg s15 s5) (\<lambda>long.
           if long then bind_res (make_signal fmt cfg s SIG_LONG s15 s5) (\<lambda>x. Inr (Some x))
           else bind_res (short_ok cfg s15 s5) (\<lambda>short.
             if short then bind_res (make_signal fmt cfg s SIG_SHORT s15 s5) (\<lambda>x. Inr (Some x))
             else Inr None))
     | _ \<Rightarrow> Inr None)"

section \<open>The signal engine\<close>

text \<open>The active strategies are run in order; an exception of one ends the generation.\<close>

fun collect_signals :: "((string \<rightharpoonup> indicator_snapshot) \<Rightarrow> signal option result) list \<Rightarrow>
    (string \<rightharpoonup> indicator_snapshot) \<Rightarrow> signal list result" where
  "collect_signals [] ctx = Inr []"
| "collect_signals (f # fs) ctx =
    bind_res (f ctx) (\<lambda>s. bind_res (collect_signals fs ctx) (\<lambda>rest.
      Inr (case s of None \<Rightarrow> rest | Some x \<Rightarrow> x # rest)))"

text \<open>\<open>best\<close>, a dictionary from direction to the best signal so far, in insertion order.\<close>

fun keep_best :: "signal list \<Rightarrow> (string \<times> signal) list \<Rightarrow> (string \<times> signal) list" where
  "keep_best [] best = best"
| "keep_best (x # xs) best =
    (let key = direction_value (sg_direction x) in
     keep_best xs
      (case map_of best key of
         None \<Rightarrow> dict_set key x best
       | Some y \<Rightarrow> if sg_score y < sg_score x then dict_set key x best else best))"

definition generate ::
  "((string \<rightharpoonup> indicator_snapshot) \<Rightarrow> signal option result) list \<Rightarrow> (string \<rightharpoonup> indicator_snapshot) \<Rightarrow>
   signal list result" where
  "generate strategies ctx =
    bind_res (collect_signals strategies ctx) (\<lambda>collected.
      Inr (sort_key (\<lambda>s. - sg_score s) (map snd (keep_best collected []))))"

section \<open>Facts of the strategy\<close>

lemma setup_ok_close:
  "setup_ok cfg up s15 s5 fast = Inr True \<Longrightarrow>
    \<exists>e. is_ema20 s5 = Some e \<and> (if up then e < is_close s5 else is_close s5 < e) \<and> atr_pct_ok cfg s5"
  by (cases "is_ema20 s5") (auto simp: setup_ok_def Let_def split: if_splits option.splits)

lemma strategy_score_bounds: "0 \<le> strategy_score cfg gap s15 s5 \<and> strategy_score cfg gap s15 s5 \<le> 10"
proof -
  have dadd: "0 \<le> dadd a (if c then 3 else 2)" "0 \<le> dadd a (if c then 2 else 1)" "0 \<le> dadd a 2"
    if "0 \<le> a" for a c
    using that by (auto intro: dadd_nonneg)
  show ?thesis
    unfolding strategy_score_def Let_def by (auto split: option.split intro!: dadd_nonneg)
qed

text \<open>C37. The strategy never signals against the trend: a long signal means the fast EMA of the 15-minute
  frame is above the slow one and the 5-minute close above its EMA, a short signal the
  reverse, and the scores stay between 0 and 10.\<close>

theorem trend_signal_follows_trend:
  assumes "trend_following fmt cfg s snaps = Inr (Some x)"
  shows "\<exists>s15 s5 fast slow e5. snaps ''15'' = Some s15 \<and> snaps ''5'' = Some s5 \<and>
    is_ema20 s15 = Some fast \<and> is_ema50 s15 = Some slow \<and> is_ema20 s5 = Some e5 \<and>
    (sg_direction x = SIG_LONG \<and> slow < fast \<and> e5 < is_close s5 \<or>
     sg_direction x = SIG_SHORT \<and> fast < slow \<and> is_close s5 < e5) \<and>
    atr_pct_ok cfg s5 \<and> 0 \<le> sg_score x \<and> sg_score x \<le> 10"
proof -
  obtain s15 s5 where sn: "snaps ''15'' = Some s15" "snaps ''5'' = Some s5"
    using assms by (auto simp: trend_following_def split: option.splits)
  have score: "0 \<le> sg_score x \<and> sg_score x \<le> 10" "sg_direction x = d"
    if "make_signal fmt cfg s d s15 s5 = Inr x" for d
    using that strategy_score_bounds by (auto simp: make_signal_def bind_res_eq_Inr Let_def)
  consider (long) "long_ok cfg s15 s5 = Inr True" "make_signal fmt cfg s SIG_LONG s15 s5 = Inr x"
    | (short) "short_ok cfg s15 s5 = Inr True" "make_signal fmt cfg s SIG_SHORT s15 s5 = Inr x"
    using assms sn by (auto simp: trend_following_def bind_res_eq_Inr split: if_splits)
  then show ?thesis
  proof cases
    case long
    then obtain fast slow where "is_ema20 s15 = Some fast" "is_ema50 s15 = Some slow" "slow < fast"
      "setup_ok cfg True s15 s5 fast = Inr True"
      by (cases "is_ema20 s15"; cases "is_ema50 s15")
        (auto simp: long_ok_def bind_res_eq_Inr split: if_splits)
    then show ?thesis using sn score [OF long(2)] setup_ok_close [of cfg True s15 s5 fast] by auto
  next
    case short
    then obtain fast slow where "is_ema20 s15 = Some fast" "is_ema50 s15 = Some slow" "fast < slow"
      "setup_ok cfg False s15 s5 fast = Inr True"
      by (cases "is_ema20 s15"; cases "is_ema50 s15")
        (auto simp: short_ok_def bind_res_eq_Inr split: if_splits)
    then show ?thesis using sn score [OF short(2)] setup_ok_close [of cfg False s15 s5 fast] by auto
  qed
qed

section \<open>Facts of the engine\<close>

lemma keep_best_keys:
  "distinct (map fst best) \<Longrightarrow> distinct (map fst (keep_best xs best))"
  by (induction xs arbitrary: best) (auto simp: Let_def distinct_dict_set split: option.split)

definition best_ok :: "signal list \<Rightarrow> (string \<times> signal) list \<Rightarrow> bool" where
  "best_ok seen best \<longleftrightarrow> (\<forall>x\<in>set seen. \<exists>y. map_of best (direction_value (sg_direction x)) = Some y \<and> sg_score x \<le> sg_score y) \<and>
    (\<forall>k y. map_of best k = Some y \<longrightarrow> y \<in> set seen \<and> k = direction_value (sg_direction y))"

lemma keep_best_ok: "best_ok seen best \<Longrightarrow> best_ok (seen @ xs) (keep_best xs best)"
proof (induction xs arbitrary: seen best)
  case (Cons x xs)
  let ?k = "direction_value (sg_direction x)"
  have "best_ok (seen @ [x]) (case map_of best ?k of None \<Rightarrow> dict_set ?k x best
      | Some y \<Rightarrow> if sg_score y < sg_score x then dict_set ?k x best else best)"
    using Cons.prems unfolding best_ok_def
    by (auto split: option.split)
  from Cons.IH [OF this] show ?case by (simp add: Let_def)
qed simp

lemma direction_value_inj: "direction_value a = direction_value b \<longleftrightarrow> a = b"
  by (cases a; cases b) simp_all

text \<open>The engine returns at most one signal per direction, the best one: every signal a strategy
  produced is matched by a returned signal of its direction with at least its score, every
  returned signal was produced, and the list is sorted by falling score.\<close>

theorem generate_best_per_direction:
  assumes "collect_signals strategies ctx = Inr collected"
  shows "\<exists>out. generate strategies ctx = Inr out \<and> distinct (map sg_direction out) \<and>
    sorted (map (\<lambda>s. - sg_score s) out) \<and> set out \<subseteq> set collected \<and>
    (\<forall>x\<in>set collected. \<exists>y\<in>set out. sg_direction y = sg_direction x \<and> sg_score x \<le> sg_score y)"
proof -
  let ?best = "keep_best collected []"
  let ?out = "sort_key (\<lambda>s. - sg_score s) (map snd ?best)"
  have keys: "distinct (map fst ?best)" by (rule keep_best_keys) simp
  have ok: "best_ok collected ?best" using keep_best_ok [of "[]" "[]" collected] by (simp add: best_ok_def)
  have mem: "map_of ?best k = Some y \<longleftrightarrow> (k, y) \<in> set ?best" for k y using keys by simp
  have fst_dir: "fst p = direction_value (sg_direction (snd p))" if "p \<in> set ?best" for p
    using ok that mem [of "fst p" "snd p"] by (auto simp: best_ok_def)
  have "map fst ?best = map (\<lambda>p. direction_value (sg_direction (snd p))) ?best"
    using fst_dir by (intro map_cong) auto
  then have "map fst ?best = map direction_value (map sg_direction (map snd ?best))" by (simp add: comp_def)
  then have "distinct (map direction_value (map sg_direction (map snd ?best)))" using keys by (simp only:)
  then have "distinct (map sg_direction (map snd ?best))" by (rule distinct_map [THEN iffD1, THEN conjunct1])
  then have "distinct (map sg_direction ?out)"
    by (simp only: distinct_map distinct_sort set_sort)
  moreover have "set ?out \<subseteq> set collected"
    using ok keys by (auto simp: best_ok_def)
  moreover have "\<forall>x\<in>set collected. \<exists>y\<in>set ?out. sg_direction y = sg_direction x \<and> sg_score x \<le> sg_score y"
  proof
    fix x assume "x \<in> set collected"
    then obtain y where y: "map_of ?best (direction_value (sg_direction x)) = Some y" "sg_score x \<le> sg_score y"
      using ok by (auto simp: best_ok_def)
    then have "(direction_value (sg_direction x), y) \<in> set ?best" using mem by simp
    moreover from this have "direction_value (sg_direction x) = direction_value (sg_direction y)"
      using fst_dir by fastforce
    ultimately show "\<exists>y\<in>set ?out. sg_direction y = sg_direction x \<and> sg_score x \<le> sg_score y"
      using y(2) by (force simp: direction_value_inj)
  qed
  ultimately show ?thesis using assms by (simp add: generate_def)
qed

section \<open>Examples\<close>

definition ex_snapshot :: "string \<Rightarrow> dec \<Rightarrow> dec \<Rightarrow> dec \<Rightarrow> indicator_snapshot" where
  "ex_snapshot tf close fast slow = \<lparr> is_symbol = ''BTCUSDT'', is_timeframe = tf, is_close = close,
    is_ema20 = Some fast, is_ema50 = Some slow, is_ema20_slope_atr = Some 1, is_rsi14 = Some 60,
    is_atr14 = Some 1, is_atr_percent = Some 1, is_volume_ratio = Some 2, is_swing_high = None,
    is_swing_low = None, is_valid = True, is_ts_ms = 0 \<rparr>"

definition ex_snapshots :: "string \<rightharpoonup> indicator_snapshot" where
  "ex_snapshots = [''15'' \<mapsto> ex_snapshot ''15'' 100 95 90, ''5'' \<mapsto> ex_snapshot ''5'' 100 98 95]"

definition ex_signal :: signal where
  "ex_signal = \<lparr> sg_symbol = ''BTCUSDT'', sg_direction = SIG_LONG, sg_strategy = ''trend_following'',
    sg_score = 10, sg_reason = [] \<rparr>"

lemma ex_trend:
  "trend_following (\<lambda>_ _ _ _. []) default_app_config ''BTCUSDT'' ex_snapshots = Inr (Some ex_signal)"
  by (simp add: trend_following_def ex_snapshots_def ex_snapshot_def long_ok_def setup_ok_def atr_pct_ok_def
      make_signal_def strategy_score_def ex_signal_def dec_eval Let_def default_app_config_def
      default_trend_quality_section_def default_volume_section_def default_scanner_section_def)

lemma trend_signal_follows_trend_witness:
  "\<exists>s15 fast slow. ex_snapshots ''15'' = Some s15 \<and> is_ema20 s15 = Some fast \<and> is_ema50 s15 = Some slow \<and> slow < fast"
  using trend_signal_follows_trend [OF ex_trend] by (auto simp: ex_signal_def)

lemma generate_best_per_direction_witness:
  "\<exists>out. generate [\<lambda>_. Inr (Some ex_signal), \<lambda>_. Inr (Some (ex_signal\<lparr> sg_score := 11 \<rparr>))] Map.empty = Inr out \<and>
    distinct (map sg_direction out)"
  using generate_best_per_direction [of "[\<lambda>_. Inr (Some ex_signal), \<lambda>_. Inr (Some (ex_signal\<lparr> sg_score := 11 \<rparr>))]"
      Map.empty "[ex_signal, ex_signal\<lparr> sg_score := 11 \<rparr>]"]
  by auto

end
