(* ===== verification/Bot_State_Machine.thy ===== *)
theory Bot_State_Machine
  imports Domain
begin

text \<open>
  The bot's life-cycle state machine, \<^verbatim>\<open>apps/bot/runtime/bot_state_machine.py\<close>: the transition
  table, guarded and forced transitions with the notification of the listeners, the guards on
  entering and managing positions, and the safety properties of the table.
\<close>

section \<open>The table and the machine\<close>

fun allowed :: "bot_state \<Rightarrow> bot_state list" where
  "allowed BOOTING = [STANDBY, STOPPING]"
| "allowed STANDBY = [START_REQUESTED, STOPPING]"
| "allowed START_REQUESTED = [SYNCING, STANDBY, STOPPING]"
| "allowed SYNCING = [READY, STANDBY, RECONCILING, EMERGENCY_STOP, STOPPING]"
| "allowed READY = [RUNNING, STANDBY, STOPPING]"
| "allowed RUNNING = [PAUSED, RISK_LOCKED, RECONCILING, ORDER_LOCKED, EMERGENCY_STOP, STOPPING]"
| "allowed PAUSED = [RUNNING, RISK_LOCKED, RECONCILING, EMERGENCY_STOP, STOPPING]"
| "allowed RISK_LOCKED = [RUNNING, PAUSED, EMERGENCY_STOP, STOPPING]"
| "allowed RECONCILING = [RUNNING, PAUSED, STANDBY, ORDER_LOCKED, EMERGENCY_STOP, STOPPING]"
| "allowed ORDER_LOCKED = [RECONCILING, RUNNING, EMERGENCY_STOP, STOPPING]"
| "allowed EMERGENCY_STOP = [STOPPING, STOPPED]"
| "allowed STOPPING = [STOPPED]"
| "allowed STOPPED = []"

definition entry_allowed_states :: "bot_state list" where
  "entry_allowed_states = [RUNNING]"

definition management_allowed_states :: "bot_state list" where
  "management_allowed_states =
    [RUNNING, PAUSED, RISK_LOCKED, ORDER_LOCKED, RECONCILING, EMERGENCY_STOP]"

definition terminal_states :: "bot_state list" where
  "terminal_states = [STOPPED]"

text \<open>The machine: its state, the registered listeners by name, and the calls made to them. A
  listener that raises is logged and skipped, so a call has no effect on the machine.\<close>

record bot_machine =
  bm_state :: bot_state
  bm_listeners :: "string list"
  bm_calls :: "(string \<times> bot_state \<times> bot_state \<times> string) list"

definition new_machine :: "bot_state \<Rightarrow> bot_machine" where
  "new_machine initial = \<lparr> bm_state = initial, bm_listeners = [], bm_calls = [] \<rparr>"

definition add_listener :: "bot_machine \<Rightarrow> string \<Rightarrow> bot_machine" where
  "add_listener m l = m\<lparr> bm_listeners := bm_listeners m @ [l] \<rparr>"

definition can_transition :: "bot_machine \<Rightarrow> bot_state \<Rightarrow> bool" where
  "can_transition m t \<longleftrightarrow> t \<in> set (allowed (bm_state m))"

definition notify :: "bot_machine \<Rightarrow> bot_state \<Rightarrow> bot_state \<Rightarrow> string \<Rightarrow> bot_machine" where
  "notify m f t reason =
    m\<lparr> bm_calls := bm_calls m @ map (\<lambda>l. (l, f, t, reason)) (bm_listeners m) \<rparr>"

definition transition :: "bot_machine \<Rightarrow> bot_state \<Rightarrow> string \<Rightarrow> bot_machine result" where
  "transition m t reason =
    (if t = bm_state m then Inr m
     else if \<not> can_transition m t then Inl InvalidTransition
     else Inr (notify (m\<lparr> bm_state := t \<rparr>) (bm_state m) t reason))"

definition force :: "bot_machine \<Rightarrow> bot_state \<Rightarrow> string \<Rightarrow> bot_machine" where
  "force m t reason = notify (m\<lparr> bm_state := t \<rparr>) (bm_state m) t reason"

definition can_enter_new_position :: "bot_machine \<Rightarrow> bool" where
  "can_enter_new_position m \<longleftrightarrow> bm_state m \<in> set entry_allowed_states"

definition can_manage_positions :: "bot_machine \<Rightarrow> bool" where
  "can_manage_positions m \<longleftrightarrow> bm_state m \<in> set management_allowed_states"

definition is_terminal :: "bot_machine \<Rightarrow> bool" where
  "is_terminal m \<longleftrightarrow> bm_state m \<in> set terminal_states"

section \<open>Single transitions\<close>

lemma notify_simps [simp]:
  "bm_state (notify m f t r) = bm_state m"
  "bm_listeners (notify m f t r) = bm_listeners m"
  by (simp_all add: notify_def)

lemma force_state [simp]: "bm_state (force m t r) = t"
  by (simp add: force_def)

lemma transition_Inr:
  "transition m t r = Inr m' \<Longrightarrow>
    bm_state m' = t \<and> (t = bm_state m \<or> t \<in> set (allowed (bm_state m)))"
  by (auto simp: transition_def can_transition_def split: if_splits)

lemma transition_raises:
  "transition m t r = Inl e \<longleftrightarrow>
    e = InvalidTransition \<and> t \<noteq> bm_state m \<and> t \<notin> set (allowed (bm_state m))"
  by (auto simp: transition_def can_transition_def)

section \<open>Runs of guarded transitions\<close>

text \<open>The states a sequence of successful \<open>transition\<close> calls visits.\<close>

inductive sm_path :: "bot_machine \<Rightarrow> bot_state list \<Rightarrow> bot_machine \<Rightarrow> bool" where
  path_nil: "sm_path m [] m"
| path_step: "sm_path m ss m' \<Longrightarrow> transition m' t r = Inr m'' \<Longrightarrow> sm_path m (ss @ [t]) m''"

inductive_cases sm_path_nilE: "sm_path m [] m'"
inductive_cases sm_path_snocE: "sm_path m (ss @ [t]) m'"

lemma sm_path_last: "sm_path m ss m' \<Longrightarrow> ss \<noteq> [] \<Longrightarrow> last ss = bm_state m'"
  by (induction rule: sm_path.induct) (auto dest: transition_Inr)

text \<open>A state that can only be entered through another one is preceded by it: if every
  predecessor of a state outside \<open>A\<close> is outside \<open>A\<close> unless it is \<open>g\<close>, then a path out of
  \<open>A\<close> passes \<open>g\<close>.\<close>

lemma sm_path_gate:
  assumes "sm_path m ss m'" and "bm_state m \<in> A"
    and "\<forall>s\<in>A. \<forall>t\<in>set (allowed s). t \<in> A \<or> t = g"
  shows "bm_state m' \<in> A \<or> g \<in> set ss"
  using assms(1,2)
proof (induction rule: sm_path.induct)
  case (path_nil m)
  then show ?case by simp
next
  case (path_step m ss m' t r m'')
  then show ?case using transition_Inr [OF path_step.hyps(2)] assms(3) by auto
qed

lemma sm_path_closed:
  assumes "sm_path m ss m'" and "bm_state m \<in> A"
    and "\<forall>s\<in>A. \<forall>t\<in>set (allowed s). t \<in> A"
  shows "bm_state m' \<in> A \<and> set ss \<subseteq> A"
  using assms(1,2)
proof (induction rule: sm_path.induct)
  case (path_nil m)
  then show ?case by simp
next
  case (path_step m ss m' t r m'')
  then show ?case using transition_Inr [OF path_step.hyps(2)] assms(3) by auto
qed

section \<open>The safety of the table\<close>

text \<open>Starting the program never starts trading: every run of guarded transitions from
  \<open>BOOTING\<close> to \<open>RUNNING\<close> goes through \<open>STANDBY\<close>, \<open>START_REQUESTED\<close> and \<open>SYNCING\<close>.\<close>

theorem running_needs_start:
  assumes "sm_path m ss m'" and "bm_state m = BOOTING" and "bm_state m' = RUNNING"
  shows "STANDBY \<in> set ss \<and> START_REQUESTED \<in> set ss \<and> SYNCING \<in> set ss"
proof -
  have "STANDBY \<in> set ss"
    using sm_path_gate [OF assms(1), of "{BOOTING, STOPPING, STOPPED}" STANDBY] assms(2,3) by auto
  moreover have "START_REQUESTED \<in> set ss"
    using sm_path_gate [OF assms(1), of "{BOOTING, STANDBY, STOPPING, STOPPED}" START_REQUESTED]
      assms(2,3) by auto
  moreover have "SYNCING \<in> set ss"
    using sm_path_gate [OF assms(1),
        of "{BOOTING, STANDBY, START_REQUESTED, STOPPING, STOPPED}" SYNCING]
      assms(2,3) by auto
  ultimately show ?thesis by simp
qed

lemma sm_path_code:
  "transition m t r = Inr m' \<Longrightarrow> sm_path m' ss m'' \<Longrightarrow> sm_path m (t # ss) m''"
proof (rotate_tac, induction rule: sm_path.induct)
  case (path_nil m')
  then show ?case using sm_path.intros(2) [OF sm_path.intros(1)] by fastforce
next
  case (path_step m' ss m2 t' r' m3)
  then show ?case using sm_path.path_step [of m "t # ss" m2 t' r' m3] by simp
qed

fun run_transitions :: "bot_machine \<Rightarrow> bot_state list \<Rightarrow> bot_machine result" where
  "run_transitions m [] = Inr m"
| "run_transitions m (t # ts) = bind_res (transition m t []) (\<lambda>m'. run_transitions m' ts)"

lemma run_transitions_path: "run_transitions m ts = Inr m' \<Longrightarrow> sm_path m ts m'"
  by (induction ts arbitrary: m)
    (auto simp: bind_res_eq_Inr intro: sm_path.path_nil sm_path_code)

lemma running_needs_start_witness:
  "let ss = [STANDBY, START_REQUESTED, SYNCING, READY, RUNNING] in
    STANDBY \<in> set ss \<and> START_REQUESTED \<in> set ss \<and> SYNCING \<in> set ss"
proof -
  let ?ss = "[STANDBY, START_REQUESTED, SYNCING, READY, RUNNING]"
  let ?m = "new_machine BOOTING"
  have "run_transitions ?m ?ss = Inr \<lparr> bm_state = RUNNING, bm_listeners = [], bm_calls = [] \<rparr>"
    by (simp add: transition_def can_transition_def new_machine_def notify_def)
  from run_transitions_path [OF this] have "sm_path ?m ?ss \<lparr> bm_state = RUNNING, bm_listeners = [], bm_calls = [] \<rparr>" .
  from running_needs_start [OF this] show ?thesis by (simp add: new_machine_def)
qed

text \<open>The table does not force the way through \<open>READY\<close>, which the module's documentation
  promises: \<open>SYNCING\<close> may turn to \<open>RECONCILING\<close>, and that to \<open>RUNNING\<close>.\<close>

lemma running_without_ready:
  "\<exists>ss m'. sm_path (new_machine BOOTING) ss m' \<and> bm_state m' = RUNNING \<and> READY \<notin> set ss"
proof -
  let ?ss = "[STANDBY, START_REQUESTED, SYNCING, RECONCILING, RUNNING]"
  let ?m' = "\<lparr> bm_state = RUNNING, bm_listeners = [], bm_calls = [] \<rparr>"
  have "run_transitions (new_machine BOOTING) ?ss = Inr ?m'"
    by (simp add: transition_def can_transition_def new_machine_def notify_def)
  from run_transitions_path [OF this] show ?thesis by (intro exI [of _ ?ss] exI [of _ ?m']) simp
qed

text \<open>An emergency stop is final: no guarded transition leads from it back to a state in
  which positions may be opened, the machine can only stop.\<close>

theorem emergency_stop_final:
  assumes "sm_path m ss m'" and "bm_state m = EMERGENCY_STOP"
  shows "\<not> can_enter_new_position m' \<and> set ss \<subseteq> {EMERGENCY_STOP, STOPPING, STOPPED}"
  using sm_path_closed [OF assms(1), of "{EMERGENCY_STOP, STOPPING, STOPPED}"] assms(2)
  by (auto simp: can_enter_new_position_def entry_allowed_states_def)

lemma emergency_stop_final_witness:
  "set [STOPPING, STOPPED] \<subseteq> {EMERGENCY_STOP, STOPPING, STOPPED}"
proof -
  let ?m' = "\<lparr> bm_state = STOPPED, bm_listeners = [], bm_calls = [] \<rparr>"
  have "run_transitions (new_machine EMERGENCY_STOP) [STOPPING, STOPPED] = Inr ?m'"
    by (simp add: transition_def can_transition_def new_machine_def notify_def)
  from emergency_stop_final [OF run_transitions_path [OF this]]
  show ?thesis by (simp add: new_machine_def)
qed

lemma entry_implies_management: "can_enter_new_position m \<Longrightarrow> can_manage_positions m"
  by (auto simp: can_enter_new_position_def can_manage_positions_def entry_allowed_states_def
      management_allowed_states_def)

lemma terminal_stuck: "is_terminal m \<Longrightarrow> transition m t r = Inr m' \<Longrightarrow> m' = m"
  by (auto simp: is_terminal_def terminal_states_def transition_def can_transition_def
      split: if_splits)

lemma not_terminal_can_stop: "\<exists>ss m'. sm_path m ss m' \<and> bm_state m' = STOPPED"
proof -
  have "\<exists>ss m'. run_transitions m ss = Inr m' \<and> bm_state m' = STOPPED"
  proof (cases "bm_state m \<in> {STOPPING, EMERGENCY_STOP, STOPPED}")
    case True
    then show ?thesis
      by (intro exI [of _ "[STOPPED]"])
        (auto simp: transition_def can_transition_def)
  next
    case False
    then have "STOPPING \<in> set (allowed (bm_state m))" by (cases "bm_state m") simp_all
    with False show ?thesis
      by (intro exI [of _ "[STOPPING, STOPPED]"])
        (simp add: transition_def can_transition_def)
  qed
  then show ?thesis using run_transitions_path by blast
qed

end
