(* ===== verification/Trading_Types.thy ===== *)
theory Trading_Types
  imports Action Effects Runtime_State Risk Position_Manager Guards Entry_Engine Strategy Bot_State_Machine
begin

text \<open>
  The trading service's data and its pure helpers (\<^verbatim>\<open>apps/bot/workers/trading_pipeline.py\<close>).

  The record \<open>service\<close> is the state of \<open>TradingService\<close> and of the objects it holds: the runtime
  state, the position manager's memory, the entry engine, the guards that are wired in (an
  optional guard is \<open>None\<close> or \<open>False\<close>), the post-exit trackers, and the effects published so far.
  The executor and the protection manager are interfaces: the field \<open>sv_exec\<close> is their own state,
  and the record \<open>ports\<close> holds their operations, which may change the whole service state, so
  whatever other tasks do while the code awaits them is included.

  A position object is the entry of the registry under its symbol.
\<close>

section \<open>Executor interface\<close>

record open_result =
  op_ok :: bool
  op_fill_price :: dec
  op_fill_qty :: dec
  op_fee :: dec
  op_reason :: string

record close_result =
  cr_fill_price :: dec
  cr_fill_qty :: dec
  cr_fee :: dec
  cr_realized :: "dec option"

record open_args =
  oa_symbol :: string
  oa_side :: side
  oa_qty :: dec
  oa_leverage :: dec
  oa_best_bid :: dec
  oa_best_ask :: dec
  oa_entry_mode :: entry_mode
  oa_stop_loss :: "dec option"
  oa_take_profit :: "dec option"

record close_args =
  ca_symbol :: string
  ca_side :: side
  ca_qty :: dec
  ca_best_bid :: dec
  ca_best_ask :: dec
  ca_prefer_limit :: bool
  ca_limit_price :: "dec option"

record protection_result =
  pt_protected :: bool
  pt_tp :: "dec option"
  pt_sl :: "dec option"
  pt_reason :: string
  pt_emergency :: bool
  pt_closed :: bool

section \<open>Service state\<close>

record mfe_tracker =
  xm_symbol :: string
  xm_side :: position_side
  xm_exit_price :: dec
  xm_initial_risk_per_unit :: dec
  xm_closed_at :: int
  xm_windows_min :: "int list"
  xm_emitted_windows :: "int set"
  xm_best_price :: "dec option"

record market_context =
  mk_now_ms :: int
  mk_last_kline_ms :: "int option"
  mk_last_ticker_ms :: "int option"
  mk_last_orderbook_ms :: "int option"
  mk_missing_candles :: int
  mk_ticker_price :: "dec option"
  mk_kline_close :: "dec option"
  mk_orderbook :: "order_book option"
  mk_symbol_status :: string
  mk_next_funding_time_ms :: "int option"
  mk_funding_rate :: "dec option"

record guard_set =
  gs_state_machine :: "bot_machine option"
  gs_data_quality :: bool
  gs_pre_order_check :: bool
  gs_kill_switch :: "kill_switch option"
  gs_cooldown :: "cooldown_tracker option"
  gs_funding_guard :: bool
  gs_clock_guard :: "clock_sync_guard option"

record 'x service =
  sv_mode :: bot_mode
  sv_state :: runtime_state
  sv_positions :: pm_state
  sv_entry :: entry_engine
  sv_guards :: guard_set
  sv_has_protection :: bool
  sv_has_logger :: bool
  sv_has_events :: bool
  sv_post_exit_mfe :: "(string \<times> mfe_tracker) list"
  sv_effects :: "effect list"
  sv_exec :: 'x

text \<open>The two clocks a method reads: \<open>time.monotonic()\<close> in seconds, and the wall clock in
  microseconds. A method that awaits is given one reading for each stretch between awaits.\<close>

record clocks =
  ck_mono :: rat
  ck_wall :: int

record 'x ports =
  po_open :: "open_args \<Rightarrow> ('x service, open_result) action"
  po_close :: "close_args \<Rightarrow> ('x service, close_result) action"
  po_protect :: "string \<Rightarrow> ('x service, protection_result) action"
  po_sync_stop_loss :: "string \<Rightarrow> ('x service, bool) action"
  po_orderbook :: "('x service, order_book \<times> int option) action"

section \<open>Access to the state\<close>

text \<open>What is published or logged is appended to the effects. In the program \<open>EventBus.publish\<close> and the methods of
  \<open>TradeLogger\<close> can raise, and the exception leaves the method that published; here both always succeed, so
  the model describes the runs in which Redis and the database take what they are handed. With no event bus
  or no logger wired in nothing is done, as in the code.\<close>

definition emit :: "bot_event \<Rightarrow> 'x service \<Rightarrow> 'x service" where
  "emit e s = (if sv_has_events s then s\<lparr> sv_effects := sv_effects s @ [Publish e] \<rparr> else s)"

definition log_entry :: "effect \<Rightarrow> 'x service \<Rightarrow> 'x service" where
  "log_entry e s = (if sv_has_logger s then s\<lparr> sv_effects := sv_effects s @ [e] \<rparr> else s)"

definition pos_of :: "'x service \<Rightarrow> string \<Rightarrow> position option" where
  "pos_of s y = get_position (sv_state s) y"

definition set_pos :: "position \<Rightarrow> 'x service \<Rightarrow> 'x service" where
  "set_pos p s = s\<lparr> sv_state := put_position (p_symbol p) p (sv_state s) \<rparr>"

definition upd_state :: "(runtime_state \<Rightarrow> runtime_state) \<Rightarrow> 'x service \<Rightarrow> 'x service" where
  "upd_state f s = s\<lparr> sv_state := f (sv_state s) \<rparr>"

definition upd_kill :: "(kill_switch \<Rightarrow> kill_switch) \<Rightarrow> 'x service \<Rightarrow> 'x service" where
  "upd_kill f s = s\<lparr> sv_guards := (sv_guards s)\<lparr> gs_kill_switch := map_option f (gs_kill_switch (sv_guards s)) \<rparr> \<rparr>"

definition upd_cooldown :: "(cooldown_tracker \<Rightarrow> cooldown_tracker) \<Rightarrow> 'x service \<Rightarrow> 'x service" where
  "upd_cooldown f s = s\<lparr> sv_guards := (sv_guards s)\<lparr> gs_cooldown := map_option f (gs_cooldown (sv_guards s)) \<rparr> \<rparr>"

definition upd_machine :: "(bot_machine \<Rightarrow> bot_machine) \<Rightarrow> 'x service \<Rightarrow> 'x service" where
  "upd_machine f s =
    s\<lparr> sv_guards := (sv_guards s)\<lparr> gs_state_machine := map_option f (gs_state_machine (sv_guards s)) \<rparr> \<rparr>"

section \<open>Pure helpers\<close>

definition exit_side :: "position \<Rightarrow> side" where
  "exit_side p = (if p_side p = LONG then SELL else BUY)"

definition direction_of :: "position_side \<Rightarrow> dec" where
  "direction_of sd = (if sd = LONG then 1 else -1)"

text \<open>\<open>str(exc)\<close>.\<close>

fun err_text :: "py_error \<Rightarrow> string" where
  "err_text (ExchangeError m) = m"
| "err_text (OrderError m) = m"
| "err_text (KeyError k) = [CHR 0x27] @ k @ [CHR 0x27]"
| "err_text OrderTimeoutError = ''order timeout''"
| "err_text ZeroDivisionError = ''division by zero''"
| "err_text TypeError = ''type error''"
| "err_text IndexError = ''list index out of range''"
| "err_text ValueError = ''value error''"
| "err_text InvalidTransition = ''invalid transition''"
| "err_text InvalidOperation = ''invalid operation''"
| "err_text RuntimeLockError = ''Another Bot Engine instance holds lock:quantbot:live''"

text \<open>\<open>str(x)\<close> of an optional decimal.\<close>

definition str_of_opt :: "dec option \<Rightarrow> pval" where
  "str_of_opt x = (case x of None \<Rightarrow> PStr ''None'' | Some d \<Rightarrow> PDec d)"

definition lower_char :: "char \<Rightarrow> char" where
  "lower_char c = (let n = of_char c :: nat in if 65 \<le> n \<and> n \<le> 90 then char_of (n + 32) else c)"

text \<open>\<open>sub in s\<close> on strings.\<close>

fun contains :: "string \<Rightarrow> string \<Rightarrow> bool" where
  "contains sub [] = (sub = [])"
| "contains sub (c # cs) = (take (length sub) (c # cs) = sub \<or> contains sub cs)"

definition starts_with :: "string \<Rightarrow> string \<Rightarrow> bool" where
  "starts_with p s \<longleftrightarrow> take (length p) s = p"

definition remove_prefix :: "string \<Rightarrow> string \<Rightarrow> string" where
  "remove_prefix p s = (if starts_with p s then drop (length p) s else s)"

definition is_exchange_already_flat_error :: "py_error \<Rightarrow> bool" where
  "is_exchange_already_flat_error e =
    (let text = map lower_char (err_text e) in
     contains ''110017'' text \<or> contains ''current position is zero'' text \<or>
     contains ''position is zero'' text \<or> contains ''position size is zero'' text)"

definition estimated_flat_exit_price :: "position \<Rightarrow> dec \<Rightarrow> dec \<Rightarrow> dec" where
  "estimated_flat_exit_price p bid ask =
    (case p_stop_loss_price p of Some x \<Rightarrow> x | None \<Rightarrow> if p_side p = LONG then bid else ask)"

definition gate_reason_code :: "string \<Rightarrow> string" where
  "gate_reason_code reason =
    (if starts_with ''DATA_QUALITY:'' reason then remove_prefix ''DATA_QUALITY:'' reason
     else if starts_with ''FUNDING:'' reason then remove_prefix ''FUNDING:'' reason
     else if starts_with ''PRE_ORDER:INSUFFICIENT_DEPTH'' reason then ''PRE_ORDER_INSUFFICIENT_DEPTH''
     else if starts_with ''PRE_ORDER:'' reason then remove_prefix ''PRE_ORDER:'' reason
     else if contains ''COOLDOWN'' reason then ''COOLDOWN_ACTIVE''
     else if starts_with ''KILL_SWITCH:'' reason then ''KILL_SWITCH_ACTIVE''
     else reason)"

definition position_protection_status :: "app_config \<Rightarrow> position \<Rightarrow> string" where
  "position_protection_status cfg p =
    (let needs_sl = tp_use_exchange_sl (cfg_tpsl cfg); needs_tp = tp_use_exchange_tp (cfg_tpsl cfg) in
     if \<not> needs_sl \<and> \<not> needs_tp then ''NOT_REQUIRED''
     else if needs_sl \<and> p_stop_loss_price p = None then ''TPSL_PENDING''
     else if needs_tp \<and> p_take_profit_price p = None then ''TPSL_PENDING''
     else ''TPSL_OK'')"

section \<open>Levels after the fill\<close>

record fill_adjusted_levels =
  fl_stop_loss_price :: "dec option"
  fl_take_profit_price :: "dec option"
  fl_initial_risk_per_unit :: "dec option"
  fl_metadata :: payload

definition stop_from_risk_distance :: "dec \<Rightarrow> dec \<Rightarrow> position_side \<Rightarrow> dec \<Rightarrow> dec" where
  "stop_from_risk_distance fill risk sd tick =
    (let raw = (if sd = LONG then dsub fill risk else dadd fill risk) in
     if tick \<le> 0 then raw
     else let rounding = (if sd = LONG then ROUND_FLOOR else ROUND_CEILING);
              ticks = of_int (to_integral_value rounding (ddiv raw tick))
          in dmul ticks tick)"

definition fill_adjusted :: "app_config \<Rightarrow> risk_decision \<Rightarrow> dec \<Rightarrow> dec \<Rightarrow> symbol_meta \<Rightarrow> fill_adjusted_levels" where
  "fill_adjusted cfg rd planned_entry fill meta =
    (case (rd_stop_loss_price rd, rd_side rd) of
       (Some stop, Some sd) \<Rightarrow>
         let planned_risk = dabs (dsub planned_entry stop);
             actual_risk = dabs (dsub fill stop);
             metadata = [(''planned_entry_price'', PDec planned_entry), (''fill_stop_distance'', PDec actual_risk)]
         in if planned_risk \<le> 0
            then \<lparr> fl_stop_loss_price = Some stop, fl_take_profit_price = rd_take_profit_price rd,
                   fl_initial_risk_per_unit = Some actual_risk, fl_metadata = metadata \<rparr>
            else
              let adjusted = (actual_risk < planned_risk);
                  adjusted_stop = (if adjusted then stop_from_risk_distance fill planned_risk sd (sm_tick_size meta)
                                   else stop);
                  risk = (if adjusted then dabs (dsub fill adjusted_stop) else actual_risk);
                  target_r = tp_initial_take_profit_r (cfg_tpsl cfg);
                  raw_tp = (if sd = LONG then dadd fill (dmul risk target_r) else dsub fill (dmul risk target_r));
                  adjusted_tp = (if adjusted \<and> rd_take_profit_price rd \<noteq> None
                                 then Some (round_price_to_tick raw_tp (sm_tick_size meta))
                                 else rd_take_profit_price rd);
                  metadata1 = (if adjusted
                    then dict_update metadata
                      [(''fill_based_stop_adjusted'', PStr ''true''), (''pre_adjust_stop_loss_price'', PDec stop),
                       (''planned_stop_distance'', PDec planned_risk),
                       (''adjusted_stop_loss_price'', PDec adjusted_stop),
                       (''adjusted_take_profit_price'', opt_dec adjusted_tp)]
                    else dict_set ''fill_based_stop_adjusted'' (PStr ''false'') metadata);
                  metadata2 = dict_update metadata1
                    [(''effective_stop_loss_price'', PDec adjusted_stop),
                     (''effective_take_profit_price'', opt_dec adjusted_tp),
                     (''effective_stop_distance'', PDec risk),
                     (''effective_stop_distance_percent'',
                        if 0 < fill then PDec (dmul (ddiv risk fill) 100) else PNone)]
              in \<lparr> fl_stop_loss_price = Some adjusted_stop, fl_take_profit_price = adjusted_tp,
                   fl_initial_risk_per_unit = Some risk, fl_metadata = drop_none metadata2 \<rparr>
     | _ \<Rightarrow> \<lparr> fl_stop_loss_price = rd_stop_loss_price rd, fl_take_profit_price = rd_take_profit_price rd,
              fl_initial_risk_per_unit = None, fl_metadata = [] \<rparr>)"

section \<open>Facts\<close>

lemma access_simps [simp]:
  "sv_state (emit e s) = sv_state s" "sv_state (log_entry l s) = sv_state s"
  "sv_guards (emit e s) = sv_guards s" "sv_guards (log_entry l s) = sv_guards s"
  "sv_positions (emit e s) = sv_positions s" "sv_positions (log_entry l s) = sv_positions s"
  "sv_entry (emit e s) = sv_entry s" "sv_entry (log_entry l s) = sv_entry s"
  "sv_exec (emit e s) = sv_exec s" "sv_exec (log_entry l s) = sv_exec s"
  "sv_mode (emit e s) = sv_mode s" "sv_mode (log_entry l s) = sv_mode s"
  "sv_has_protection (emit e s) = sv_has_protection s"
  "sv_has_protection (log_entry l s) = sv_has_protection s"
  by (simp_all add: emit_def log_entry_def)

lemma upd_simps [simp]:
  "sv_state (upd_kill f s) = sv_state s" "sv_state (upd_cooldown g s) = sv_state s"
  "sv_state (upd_machine h s) = sv_state s" "sv_state (upd_state k s) = k (sv_state s)"
  "sv_guards (upd_state k s) = sv_guards s" "sv_guards (set_pos p s) = sv_guards s"
  "sv_effects (upd_kill f s) = sv_effects s" "sv_effects (upd_cooldown g s) = sv_effects s"
  "sv_effects (upd_machine h s) = sv_effects s" "sv_effects (upd_state k s) = sv_effects s"
  "sv_effects (set_pos p s) = sv_effects s"
  "sv_exec (upd_kill f s) = sv_exec s" "sv_exec (upd_cooldown g s) = sv_exec s"
  "sv_exec (upd_machine h s) = sv_exec s" "sv_exec (upd_state k s) = sv_exec s"
  "sv_exec (set_pos p s) = sv_exec s"
  by (simp_all add: upd_kill_def upd_cooldown_def upd_machine_def upd_state_def set_pos_def)

lemma pos_of_simps [simp]:
  "pos_of (emit e s) y = pos_of s y" "pos_of (log_entry l s) y = pos_of s y"
  "pos_of (upd_kill f s) y = pos_of s y" "pos_of (upd_cooldown g s) y = pos_of s y"
  "pos_of (upd_machine h s) y = pos_of s y"
  "pos_of (upd_state (begin_position_update z) s) y = pos_of s y"
  "pos_of (upd_state (end_position_update z) s) y = pos_of s y"
  "pos_of (set_pos p s) y = (if y = p_symbol p then Some p else pos_of s y)"
  by (simp_all add: pos_of_def set_pos_def)

lemma stop_from_risk_is_tick_rounding:
  "stop_from_risk_distance fill risk sd tick =
    round_stop_to_tick (if sd = LONG then dsub fill risk else dadd fill risk) sd tick"
  by (simp add: stop_from_risk_distance_def round_stop_to_tick_def Let_def)

end
