(* ===== verification/Scanner.thy ===== *)
theory Scanner
  imports Guards "HOL-Library.Product_Lexorder"
begin

text \<open>
  The tradable universe and the scanner that picks the watch candidates
  (\<^verbatim>\<open>packages/universe/universe_manager.py\<close>, \<^verbatim>\<open>packages/scanner/symbol_scanner.py\<close>).
\<close>

section \<open>The universe\<close>

definition is_eligible :: "universe_section \<Rightarrow> int \<Rightarrow> symbol_meta \<Rightarrow> bool" where
  "is_eligible c now_ms sm =
    (if sm_quote_coin sm \<noteq> cu_include_quote_coin c then False
     else if sm_status sm \<noteq> ''Trading'' then False
     else if sm_symbol sm \<in> set (cu_exclude_symbols c) then False
     else case sm_launch_time_ms sm of
       None \<Rightarrow> True
     | Some t \<Rightarrow>
         if 0 < cu_exclude_new_listing_days c
         then \<not> (of_int (now_ms - t) / 86400000 < (of_int (cu_exclude_new_listing_days c) :: rat))
         else True)"

text \<open>\<open>refresh\<close> on the instruments the exchange returned; the explicit list is added last.\<close>

definition universe_refresh :: "universe_section \<Rightarrow> int \<Rightarrow> symbol_meta list \<Rightarrow> (string \<times> symbol_meta) list" where
  "universe_refresh c now instruments =
    (let kept = foldl (\<lambda>k sm. if is_eligible c now sm then dict_set (sm_symbol sm) sm k else k) [] instruments
     in foldl (\<lambda>k s. if map_of k s = None
                     then (case first_match (\<lambda>sm. sm_symbol sm = s) instruments of
                             None \<Rightarrow> k | Some sm \<Rightarrow> dict_set s sm k)
                     else k)
          kept (cu_include_symbols c))"

definition is_tradable :: "(string \<times> symbol_meta) list \<Rightarrow> string \<Rightarrow> bool" where
  "is_tradable symbols s \<longleftrightarrow> map_of symbols s \<noteq> None"

section \<open>Scores\<close>

definition spread_percent :: "market_ticker \<Rightarrow> dec option" where
  "spread_percent t =
    (if tk_bid_price t \<le> 0 \<or> tk_ask_price t \<le> 0 then None
     else
       let mid = ddiv (dadd (tk_bid_price t) (tk_ask_price t)) 2 in
       if mid \<le> 0 then None
       else Some (dmul (ddiv (dsub (tk_ask_price t) (tk_bid_price t)) mid) 100))"

definition turnover_score :: "dec \<Rightarrow> dec \<Rightarrow> dec \<Rightarrow> dec" where
  "turnover_score v lo hi =
    (if hi \<le> 0 then 0
     else if hi = lo then 100
     else dmul (ddiv (dsub v lo) (dsub hi lo)) 100)"

definition atr_score :: "dec \<Rightarrow> dec" where
  "atr_score v =
    (if 5 / 10 \<le> v \<and> v \<le> 35 / 10 then 100 else if 35 / 10 < v \<and> v \<le> 5 then 70 else 40)"

definition trend_potential_score :: "indicator_snapshot option \<Rightarrow> dec" where
  "trend_potential_score s =
    (case s of
       None \<Rightarrow> 20
     | Some x \<Rightarrow>
         (case (is_ema20 x, is_ema50 x) of
            (Some a, Some b) \<Rightarrow>
              let slope = (case is_ema20_slope_atr x of None \<Rightarrow> 0 | Some v \<Rightarrow> v) in
              if b < a \<and> 0 < slope \<or> a < b \<and> slope < 0 then 100
              else if a \<noteq> b \<or> slope \<noteq> 0 then 60
              else 20
          | _ \<Rightarrow> 20))"

definition volume_score :: "indicator_snapshot option \<Rightarrow> dec" where
  "volume_score s =
    (case Option.bind s is_volume_ratio of
       None \<Rightarrow> 20
     | Some v \<Rightarrow> if 1 \<le> v then 100 else if 6 / 10 \<le> v then 60 else 20)"

definition spread_score :: "dec option \<Rightarrow> dec" where
  "spread_score v =
    (case v of None \<Rightarrow> 20 | Some x \<Rightarrow> if x \<le> 5 / 100 then 100 else if x \<le> 10 / 100 then 70 else 0)"

definition scanner_score ::
  "market_ticker \<Rightarrow> dec \<Rightarrow> dec \<Rightarrow> dec \<Rightarrow> indicator_snapshot option \<Rightarrow> indicator_snapshot option \<Rightarrow> dec" where
  "scanner_score t atr_percent lo hi s15 s5 =
    dadd (dadd (dadd (dadd
      (dmul (turnover_score (tk_turnover_24h t) lo hi) (30 / 100))
      (dmul (atr_score atr_percent) (25 / 100)))
      (dmul (trend_potential_score s15) (25 / 100)))
      (dmul (volume_score s5) (10 / 100)))
      (dmul (spread_score (spread_percent t)) (10 / 100))"

section \<open>The scan\<close>

definition scan_passes ::
  "scanner_section \<Rightarrow> dec \<Rightarrow> market_ticker \<Rightarrow> dec option \<Rightarrow> (string \<rightharpoonup> order_book) option \<Rightarrow> bool" where
  "scan_passes c min_turnover t atr_percent orderbooks =
    (if tk_turnover_24h t < min_turnover then False
     else if (case spread_percent t of None \<Rightarrow> True | Some s \<Rightarrow> cs_max_spread_percent c < s) then False
     else case atr_percent of
       None \<Rightarrow> False
     | Some a \<Rightarrow>
         if a < cs_min_atr_percent c \<or> cs_max_atr_percent c < a then False
         else case orderbooks of
           None \<Rightarrow> True
         | Some obs \<Rightarrow>
             (case obs (tk_symbol t) of
                None \<Rightarrow> False
              | Some ob \<Rightarrow>
                  if depth_usdt_within ob (1 / 10) < cs_min_orderbook_depth_usdt_0_1_percent c then False
                  else if depth_usdt_within ob (3 / 10) < cs_min_orderbook_depth_usdt_0_3_percent c then False
                  else True))"

text \<open>The slice \<open>xs[:n]\<close>; a negative \<open>n\<close> counts from the end.\<close>

definition py_take :: "int \<Rightarrow> 'a list \<Rightarrow> 'a list" where
  "py_take n xs = (if 0 \<le> n then take (nat n) xs else take (length xs - nat (- n)) xs)"

definition scan ::
  "scanner_section \<Rightarrow> dec \<Rightarrow> (string \<Rightarrow> bool) \<Rightarrow> market_ticker list \<Rightarrow> (string \<rightharpoonup> dec) \<Rightarrow>
   (string \<rightharpoonup> order_book) option \<Rightarrow> (string \<rightharpoonup> indicator_snapshot) \<Rightarrow> (string \<rightharpoonup> indicator_snapshot) \<Rightarrow>
   string list" where
  "scan c min_turnover tradable tickers atrs orderbooks snaps15 snaps5 =
    (let eligible = filter (\<lambda>t. tradable (tk_symbol t) \<and>
           scan_passes c min_turnover t (atrs (tk_symbol t)) orderbooks) tickers
     in if eligible = [] then []
        else
          let lo = Min (set (map tk_turnover_24h eligible));
              hi = Max (set (map tk_turnover_24h eligible));
              scored = map (\<lambda>t. (tk_symbol t,
                scanner_score t (the (atrs (tk_symbol t))) lo hi (snaps15 (tk_symbol t)) (snaps5 (tk_symbol t)),
                tk_turnover_24h t)) eligible
          in map fst (py_take (cs_max_candidates c) (sort_key (\<lambda>(_, s, v). (- s, - v)) scored)))"

section \<open>Facts\<close>

lemma scan_passes_atr: "scan_passes c m t a obs \<Longrightarrow> a \<noteq> None"
  by (auto simp: scan_passes_def split: if_splits option.splits)

lemma set_py_take: "set (py_take n xs) \<subseteq> set xs"
  by (auto simp: py_take_def dest: in_set_takeD)

text \<open>The scanner returns only symbols it may trade: each one belongs to the universe and to a ticker
  that passed every filter (turnover, spread, ATR band, depth), and there are at most
  \<open>max_candidates\<close> of them.\<close>

theorem scan_candidates:
  assumes "0 \<le> cs_max_candidates c"
  shows "int (length (scan c mt tradable tickers atrs obs s15 s5)) \<le> cs_max_candidates c \<and>
    (\<forall>s\<in>set (scan c mt tradable tickers atrs obs s15 s5).
      tradable s \<and> (\<exists>t\<in>set tickers. tk_symbol t = s \<and> scan_passes c mt t (atrs s) obs))"
proof
  show "int (length (scan c mt tradable tickers atrs obs s15 s5)) \<le> cs_max_candidates c"
    using assms by (auto simp: scan_def Let_def py_take_def)
  show "\<forall>s\<in>set (scan c mt tradable tickers atrs obs s15 s5).
      tradable s \<and> (\<exists>t\<in>set tickers. tk_symbol t = s \<and> scan_passes c mt t (atrs s) obs)"
  proof
    fix s assume "s \<in> set (scan c mt tradable tickers atrs obs s15 s5)"
    then have "s \<in> tk_symbol ` {t \<in> set tickers. tradable (tk_symbol t) \<and>
        scan_passes c mt t (atrs (tk_symbol t)) obs}"
      by (auto simp: scan_def Let_def dest!: subsetD [OF set_py_take] split: if_splits)
    then show "tradable s \<and> (\<exists>t\<in>set tickers. tk_symbol t = s \<and> scan_passes c mt t (atrs s) obs)"
      by auto
  qed
qed

lemma scan_candidates_witness:
  "int (length (scan default_scanner_section 0 (\<lambda>_. True) [] Map.empty None Map.empty Map.empty)) \<le> 20"
  using scan_candidates [of default_scanner_section 0 "\<lambda>_. True" "[]" Map.empty None Map.empty Map.empty]
  by (simp add: default_scanner_section_def)

lemma unit_score:
  "0 \<le> turnover_score v lo hi \<and> turnover_score v lo hi \<le> 100" if "lo \<le> v" "v \<le> hi"
proof (cases "hi \<le> 0 \<or> hi = lo")
  case False
  have b: "is_dec 1" "is_dec 100" using is_dec_int [of 1] is_dec_int [of 100] by (simp_all add: prec_hi_def)
  have le: "dsub v lo \<le> dsub hi lo" unfolding dsub_def using that by (intro dround_mono) simp
  have pos: "0 < dsub hi lo" using that False by simp
  have "ddiv (dsub v lo) (dsub hi lo) \<le> 1"
    unfolding ddiv_def using le pos b by (intro dctx.rd_le_fix) (simp_all add: is_dec_def)
  moreover have "0 \<le> ddiv (dsub v lo) (dsub hi lo)" using that pos by (simp add: ddiv_nonneg)
  ultimately have "dmul (ddiv (dsub v lo) (dsub hi lo)) 100 \<le> 100" "0 \<le> dmul (ddiv (dsub v lo) (dsub hi lo)) 100"
    unfolding dmul_def using b by (auto intro!: dctx.rd_le_fix simp: is_dec_def)
  then show ?thesis using False by (simp add: turnover_score_def)
qed (auto simp: turnover_score_def)

lemma weighted: "0 \<le> x \<Longrightarrow> x \<le> 100 \<Longrightarrow> lit w \<Longrightarrow> 0 \<le> w \<Longrightarrow> is_dec (100 * w) \<Longrightarrow> 0 \<le> dmul x w \<and> dmul x w \<le> 100 * w"
  unfolding dmul_def by (auto intro!: dctx.rd_le_fix mult_right_mono simp: is_dec_def)

lemma dadd_between: "0 \<le> a \<Longrightarrow> 0 \<le> b \<Longrightarrow> a \<le> x \<Longrightarrow> b \<le> y \<Longrightarrow> is_dec (x + y) \<Longrightarrow> 0 \<le> dadd a b \<and> dadd a b \<le> x + y"
  unfolding dadd_def by (auto intro!: dctx.rd_le_fix simp: is_dec_def)

text \<open>The scanner's score is a percentage: for a ticker whose turnover lies between the smallest and
  the largest of the eligible ones, the weighted sum of the five scores is between 0 and 100.\<close>

theorem scanner_score_range:
  assumes "lo \<le> tk_turnover_24h t" and "tk_turnover_24h t \<le> hi"
  shows "0 \<le> scanner_score t a lo hi s15 s5 \<and> scanner_score t a lo hi s15 s5 \<le> 100"
proof -
  have d: "is_dec n" if "n \<in> {10, 25, 30, 55, 80, 90, 100}" for n :: rat
    using that is_dec_int [of 10] is_dec_int [of 25] is_dec_int [of 30] is_dec_int [of 55]
      is_dec_int [of 80] is_dec_int [of 90] is_dec_int [of 100] by (auto simp: prec_hi_def)
  have s: "0 \<le> atr_score a \<and> atr_score a \<le> 100" "0 \<le> trend_potential_score s15 \<and> trend_potential_score s15 \<le> 100"
    "0 \<le> volume_score s5 \<and> volume_score s5 \<le> 100"
    "0 \<le> spread_score (spread_percent t) \<and> spread_score (spread_percent t) \<le> 100"
    by (auto simp: atr_score_def trend_potential_score_def volume_score_def spread_score_def Let_def
        split: option.split)
  note w = weighted [of _ "30 / 100"] weighted [of _ "25 / 100"] weighted [of _ "10 / 100"]
  let ?t = "dmul (turnover_score (tk_turnover_24h t) lo hi) (30 / 100)"
  let ?a = "dmul (atr_score a) (25 / 100)"
  let ?p = "dmul (trend_potential_score s15) (25 / 100)"
  let ?v = "dmul (volume_score s5) (10 / 100)"
  let ?s = "dmul (spread_score (spread_percent t)) (10 / 100)"
  have parts: "0 \<le> ?t \<and> ?t \<le> 30" "0 \<le> ?a \<and> ?a \<le> 25" "0 \<le> ?p \<and> ?p \<le> 25" "0 \<le> ?v \<and> ?v \<le> 10"
    "0 \<le> ?s \<and> ?s \<le> 10"
    using w(1) [of "turnover_score (tk_turnover_24h t) lo hi"] unit_score [OF assms]
      w(2) [of "atr_score a"] w(2) [of "trend_potential_score s15"] w(3) [of "volume_score s5"]
      w(3) [of "spread_score (spread_percent t)"] s d by simp_all
  have sums: "is_dec (30 + 25)" "is_dec (55 + 25)" "is_dec (80 + 10)" "is_dec (90 + 10 :: rat)"
    using d by simp_all
  have "0 \<le> dadd ?t ?a \<and> dadd ?t ?a \<le> 30 + 25"
    using parts sums by (intro dadd_between) simp_all
  then have "0 \<le> dadd (dadd ?t ?a) ?p \<and> dadd (dadd ?t ?a) ?p \<le> 55 + 25"
    using parts sums by (intro dadd_between) simp_all
  then have "0 \<le> dadd (dadd (dadd ?t ?a) ?p) ?v \<and> dadd (dadd (dadd ?t ?a) ?p) ?v \<le> 80 + 10"
    using parts sums by (intro dadd_between) simp_all
  then have "0 \<le> scanner_score t a lo hi s15 s5 \<and> scanner_score t a lo hi s15 s5 \<le> 90 + 10"
    unfolding scanner_score_def using parts sums by (intro dadd_between) simp_all
  then show ?thesis by simp
qed

definition ex_ticker :: market_ticker where
  "ex_ticker = \<lparr> tk_symbol = ''BTCUSDT'', tk_last_price = 100, tk_bid_price = 100, tk_ask_price = 100,
    tk_turnover_24h = 50, tk_volume_24h = 1, tk_funding_rate = None, tk_next_funding_time_ms = None,
    tk_ts_ms = 0 \<rparr>"

lemma scanner_score_range_witness:
  "0 \<le> scanner_score ex_ticker 1 0 100 None None \<and> scanner_score ex_ticker 1 0 100 None None \<le> 100"
  by (rule scanner_score_range) (simp_all add: ex_ticker_def)

end
