(* ===== verification/Candle_Store.thy ===== *)
theory Candle_Store
  imports Domain
begin

text \<open>
  The candle store (\<^verbatim>\<open>packages/market_data/candle_store.py\<close>): per symbol and timeframe a bounded
  history of confirmed candles, the candle in progress and a counter of missing candles. A
  \<open>deque(maxlen=n)\<close> is a list trimmed from the left on every append.
\<close>

section \<open>State and operations\<close>

type_synonym store_key = "string \<times> string"

record candle_store =
  st_max :: nat
  st_confirmed :: "store_key \<rightharpoonup> candle list"
  st_current :: "store_key \<rightharpoonup> candle"
  st_gaps :: "store_key \<rightharpoonup> int"

definition new_candle_store :: "nat \<Rightarrow> candle_store" where
  "new_candle_store n = \<lparr> st_max = n, st_confirmed = Map.empty, st_current = Map.empty, st_gaps = Map.empty \<rparr>"

text \<open>\<open>int(interval)\<close> on the digit strings the exchange uses.\<close>

definition digit_value :: "char \<Rightarrow> int option" where
  "digit_value c = (let n = of_char c :: int in if 48 \<le> n \<and> n \<le> 57 then Some (n - 48) else None)"

fun digits_value :: "int \<Rightarrow> string \<Rightarrow> int option" where
  "digits_value acc [] = Some acc"
| "digits_value acc (c # cs) =
    (case digit_value c of None \<Rightarrow> None | Some d \<Rightarrow> digits_value (10 * acc + d) cs)"

definition interval_to_ms :: "string \<Rightarrow> int result" where
  "interval_to_ms interval =
    (if interval = [] then Inl ValueError
     else case digits_value 0 interval of None \<Rightarrow> Inl ValueError | Some n \<Rightarrow> Inr (n * 60000))"

text \<open>\<open>a // b\<close> on integers: floor division, an exception on zero.\<close>

definition floordiv :: "int \<Rightarrow> int \<Rightarrow> int result" where
  "floordiv a b = (if b = 0 then Inl ZeroDivisionError else Inr (a div b))"

fun gaps_between :: "int \<Rightarrow> (candle \<times> candle) list \<Rightarrow> int result" where
  "gaps_between step [] = Inr 0"
| "gaps_between step ((prv, cur) # ps) =
    bind_res (floordiv (cd_open_time_ms cur - cd_open_time_ms prv) step) (\<lambda>q.
    bind_res (gaps_between step ps) (\<lambda>rest.
      Inr ((if 0 < q - 1 then q - 1 else 0) + rest)))"

definition count_gaps :: "candle list \<Rightarrow> string \<Rightarrow> int result" where
  "count_gaps cs interval =
    (if length cs < 2 then Inr 0
     else bind_res (interval_to_ms interval) (\<lambda>step. gaps_between step (adjacent cs)))"

definition seed :: "string \<Rightarrow> string \<Rightarrow> candle list \<Rightarrow> candle_store \<Rightarrow> candle_store result" where
  "seed s interval cs st =
    (let key = (s, interval); confirmed = filter cd_confirmed cs in
     bind_res (count_gaps confirmed interval) (\<lambda>gaps.
       Inr (st\<lparr> st_confirmed := (st_confirmed st)(key \<mapsto> last_n (st_max st) confirmed),
                st_gaps := (st_gaps st)(key \<mapsto> gaps),
                st_current := (st_current st)(key := first_match (\<lambda>c. \<not> cd_confirmed c) (rev cs)) \<rparr>)))"

text \<open>\<open>confirmed.append(candle)\<close> and clearing the candle in progress it closes.\<close>

definition append_confirmed :: "store_key \<Rightarrow> candle \<Rightarrow> candle list \<Rightarrow> candle_store \<Rightarrow> candle_store" where
  "append_confirmed key c confirmed st =
    st\<lparr> st_confirmed := (st_confirmed st)(key \<mapsto> last_n (st_max st) (confirmed @ [c])),
       st_current := (case st_current st key of
           Some cur \<Rightarrow> if cd_open_time_ms cur \<le> cd_open_time_ms c then (st_current st)(key := None)
                      else st_current st
         | None \<Rightarrow> st_current st) \<rparr>"

definition update :: "candle \<Rightarrow> candle_store \<Rightarrow> candle_store result" where
  "update c st =
    (let key = (cd_symbol c, cd_interval c) in
     if \<not> cd_confirmed c then Inr (st\<lparr> st_current := (st_current st)(key \<mapsto> c) \<rparr>)
     else
       let confirmed = get_or (st_confirmed st) key [] in
       if confirmed = [] then Inr (append_confirmed key c confirmed st)
       else
         let lst = last confirmed in
         if cd_open_time_ms c = cd_open_time_ms lst
         then Inr (st\<lparr> st_confirmed := (st_confirmed st)(key \<mapsto> butlast confirmed @ [c]) \<rparr>)
         else if cd_open_time_ms c < cd_open_time_ms lst then Inr st
         else
           bind_res (interval_to_ms (cd_interval c)) (\<lambda>step.
           bind_res (floordiv (cd_open_time_ms c - cd_open_time_ms lst) step) (\<lambda>q.
             let gap = q - 1;
                 st1 = (if 0 < gap then st\<lparr> st_gaps := (st_gaps st)(key \<mapsto> get_or (st_gaps st) key 0 + gap) \<rparr>
                        else st)
             in Inr (append_confirmed key c confirmed st1))))"

definition limited :: "int option \<Rightarrow> 'a list \<Rightarrow> 'a list" where
  "limited limit xs =
    (case limit of
       None \<Rightarrow> xs
     | Some n \<Rightarrow> if n = 0 then xs else if n < 0 then drop (nat (- n)) xs else last_n (nat n) xs)"

definition get_candles :: "string \<Rightarrow> string \<Rightarrow> int option \<Rightarrow> candle_store \<Rightarrow> candle list" where
  "get_candles s interval limit st = limited limit (get_or (st_confirmed st) (s, interval) [])"

definition get_with_current :: "string \<Rightarrow> string \<Rightarrow> int option \<Rightarrow> candle_store \<Rightarrow> candle list" where
  "get_with_current s interval limit st =
    limited limit (get_or (st_confirmed st) (s, interval) [] @
      (case st_current st (s, interval) of None \<Rightarrow> [] | Some c \<Rightarrow> [c]))"

definition last_closed :: "string \<Rightarrow> string \<Rightarrow> candle_store \<Rightarrow> candle option" where
  "last_closed s interval st =
    (case get_or (st_confirmed st) (s, interval) [] of [] \<Rightarrow> None | c # cs \<Rightarrow> Some (last (c # cs)))"

definition current_candle :: "string \<Rightarrow> string \<Rightarrow> candle_store \<Rightarrow> candle option" where
  "current_candle s interval st = st_current st (s, interval)"

definition missing_candles :: "string \<Rightarrow> string \<Rightarrow> candle_store \<Rightarrow> int" where
  "missing_candles s interval st = get_or (st_gaps st) (s, interval) 0"

definition reset_gaps :: "string \<Rightarrow> string \<Rightarrow> candle_store \<Rightarrow> candle_store" where
  "reset_gaps s interval st = st\<lparr> st_gaps := (st_gaps st)((s, interval) \<mapsto> 0) \<rparr>"

section \<open>The history invariant\<close>

text \<open>Open times strictly increase, every stored candle is confirmed, the length is bounded.\<close>

definition history_ok :: "nat \<Rightarrow> candle list \<Rightarrow> bool" where
  "history_ok n cs \<longleftrightarrow> sorted_wrt (\<lambda>a b. cd_open_time_ms a < cd_open_time_ms b) cs \<and>
    list_all cd_confirmed cs \<and> length cs \<le> n"

definition store_ok :: "candle_store \<Rightarrow> bool" where
  "store_ok st \<longleftrightarrow> 0 < st_max st \<and> (\<forall>key. history_ok (st_max st) (get_or (st_confirmed st) key []))"

lemma store_ok_new: "0 < n \<Longrightarrow> store_ok (new_candle_store n)"
  by (simp add: store_ok_def new_candle_store_def history_ok_def)

lemma history_ok_last_n:
  assumes "sorted_wrt (\<lambda>a b. cd_open_time_ms a < cd_open_time_ms b) cs" "list_all cd_confirmed cs" "0 < n"
  shows "history_ok n (last_n n cs)"
  using assms sorted_wrt_drop [OF assms(1)]
  by (auto simp: history_ok_def last_n_def list_all_iff dest: in_set_dropD)

lemma history_ok_snoc:
  assumes "history_ok n cs" "cd_confirmed c" "cs \<noteq> [] \<Longrightarrow> cd_open_time_ms (last cs) < cd_open_time_ms c" "0 < n"
  shows "history_ok n (last_n n (cs @ [c]))"
proof (rule history_ok_last_n)
  show "sorted_wrt (\<lambda>a b. cd_open_time_ms a < cd_open_time_ms b) (cs @ [c])"
  proof (cases cs rule: rev_cases)
    case (snoc xs x)
    then show ?thesis using assms(1,3) by (fastforce simp: history_ok_def sorted_wrt_append)
  qed simp
qed (use assms in \<open>auto simp: history_ok_def\<close>)

lemma history_ok_replace_last:
  assumes "history_ok n cs" "cs \<noteq> []" "cd_confirmed c" "cd_open_time_ms c = cd_open_time_ms (last cs)"
  shows "history_ok n (butlast cs @ [c])"
proof -
  obtain xs x where cs: "cs = xs @ [x]" using assms(2) by (metis append_butlast_last_id)
  show ?thesis using assms by (auto simp: cs history_ok_def sorted_wrt_append)
qed

lemma store_ok_upd:
  assumes "store_ok st" "history_ok (st_max st) cs" "st_max st' = st_max st"
    "st_confirmed st' = (st_confirmed st)(key \<mapsto> cs)"
  shows "store_ok st'"
  using assms by (simp add: store_ok_def)

lemma append_confirmed_ok:
  assumes "store_ok st" "cs = get_or (st_confirmed st) key []" "cd_confirmed c"
    "cs \<noteq> [] \<Longrightarrow> cd_open_time_ms (last cs) < cd_open_time_ms c"
  shows "store_ok (append_confirmed key c cs st)"
proof (rule store_ok_upd [OF assms(1) history_ok_snoc])
  show "history_ok (st_max st) cs" "0 < st_max st" using assms(1,2) unfolding store_ok_def by blast+
qed (use assms in \<open>auto simp: append_confirmed_def\<close>)

text \<open>Whatever candle arrives, the stored history stays a history: open times strictly increase, only
  confirmed candles are kept and the bound is respected. Late and duplicate candles do not disturb it.\<close>

lemma update_ok:
  assumes "store_ok st" and "update c st = Inr st'"
  shows "store_ok st'"
proof -
  let ?key = "(cd_symbol c, cd_interval c)"
  let ?cs = "get_or (st_confirmed st) ?key []"
  have cs: "history_ok (st_max st) ?cs" using assms(1) by (simp add: store_ok_def)
  have gaps: "store_ok (st\<lparr> st_gaps := g \<rparr>)" for g using assms(1) by (simp add: store_ok_def)
  consider (forming) "\<not> cd_confirmed c" | (first) "cd_confirmed c" "?cs = []"
    | (same) "cd_confirmed c" "?cs \<noteq> []" "cd_open_time_ms c = cd_open_time_ms (last ?cs)"
    | (late) "cd_confirmed c" "?cs \<noteq> []" "cd_open_time_ms c < cd_open_time_ms (last ?cs)"
    | (fresh) "cd_confirmed c" "?cs \<noteq> []" "cd_open_time_ms (last ?cs) < cd_open_time_ms c"
    by fastforce
  then show ?thesis
  proof cases
    case forming
    then show ?thesis using assms by (auto simp: update_def Let_def store_ok_def)
  next
    case first
    then show ?thesis using assms append_confirmed_ok [where st = st and cs = "[]" and key = ?key and c = c] by (auto simp: update_def Let_def)
  next
    case same
    then have "st' = st\<lparr> st_confirmed := (st_confirmed st)(?key \<mapsto> butlast ?cs @ [c]) \<rparr>"
      using assms(2) by (simp add: update_def Let_def)
    then show ?thesis
      using store_ok_upd [OF assms(1) history_ok_replace_last [OF cs same(2,1,3)], of st'] by simp
  next
    case late
    then show ?thesis using assms by (auto simp: update_def Let_def)
  next
    case fresh
    then show ?thesis
      using assms(2) append_confirmed_ok [OF gaps, where cs = ?cs and key = ?key and c = c]
        append_confirmed_ok [OF assms(1), where cs = ?cs and key = ?key and c = c]
      by (auto simp: update_def Let_def bind_res_eq_Inr split: if_splits)
  qed
qed

definition ex_kline :: "int \<Rightarrow> candle" where
  "ex_kline t = \<lparr> cd_symbol = ''BTCUSDT'', cd_interval = ''1'', cd_open_time_ms = t, cd_open = 1,
    cd_high = 2, cd_low = 1, cd_close = 2, cd_volume = 1, cd_turnover = 1, cd_confirmed = True \<rparr>"

text \<open>The gap counter is exact: a confirmed candle that arrives \<open>n\<close> intervals after the last one adds
  \<open>n - 1\<close> missing candles, so consecutive candles add none and every skipped one is seen by the
  data-quality guard.\<close>

theorem update_counts_gaps:
  assumes "last_closed (cd_symbol c) (cd_interval c) st = Some prv" and "cd_confirmed c"
    and "interval_to_ms (cd_interval c) = Inr step" and "0 < step" and "0 < n"
    and "cd_open_time_ms c = cd_open_time_ms prv + n * step"
  shows "\<exists>st'. update c st = Inr st' \<and>
    missing_candles (cd_symbol c) (cd_interval c) st' = missing_candles (cd_symbol c) (cd_interval c) st + (n - 1) \<and>
    last_closed (cd_symbol c) (cd_interval c) st' = Some c"
proof -
  let ?key = "(cd_symbol c, cd_interval c)"
  let ?cs = "get_or (st_confirmed st) ?key []"
  have cs: "?cs \<noteq> []" "last ?cs = prv"
    using assms(1) by (auto simp: last_closed_def split: list.splits)
  have pos: "0 < n * step" using assms(4,5) by simp
  have lt: "cd_open_time_ms prv < cd_open_time_ms c" using pos assms(6) by linarith
  have q: "floordiv (cd_open_time_ms c - cd_open_time_ms prv) step = Inr n"
    using assms(4,6) by (simp add: floordiv_def)
  have snoc: "last_closed (cd_symbol c) (cd_interval c) (append_confirmed ?key c ?cs st1) = Some c" for st1
  proof -
    have "last_n (st_max st1) (?cs @ [c]) \<noteq> [] \<and> last (last_n (st_max st1) (?cs @ [c])) = c"
      by (simp add: last_n_def)
    then show ?thesis by (cases "last_n (st_max st1) (?cs @ [c])") (auto simp: last_closed_def append_confirmed_def)
  qed
  show ?thesis
    using cs lt q assms(2,3,5) snoc
    by (auto simp: update_def Let_def missing_candles_def) (simp_all add: append_confirmed_def)
qed

lemma update_counts_gaps_witness:
  "\<exists>st'. update (ex_kline 240000) (append_confirmed (''BTCUSDT'', ''1'') (ex_kline 60000) [] (new_candle_store 500)) = Inr st' \<and>
    missing_candles ''BTCUSDT'' ''1'' st' = 2"
  using update_counts_gaps [of "ex_kline 240000"
      "append_confirmed (''BTCUSDT'', ''1'') (ex_kline 60000) [] (new_candle_store 500)" "ex_kline 60000" 60000 3]
  by (auto simp: ex_kline_def append_confirmed_def new_candle_store_def last_closed_def last_n_def
      interval_to_ms_def digit_value_def Let_def missing_candles_def)

end
