(* ===== verification/Market_Collector.thy ===== *)
theory Market_Collector
  imports Candle_Store
begin

text \<open>
  The collected market data (\<^verbatim>\<open>packages/market_data/collector.py\<close>): the last tickers and order books,
  the candle store, and when each was last refreshed. What the exchange answers and the clock, read
  before and after the answer, are arguments; who awaits the exchange is in \<open>Bot_Runtime\<close>.
\<close>

record collector =
  co_store :: candle_store
  co_tickers :: "(string \<times> market_ticker) list"
  co_orderbooks :: "string \<rightharpoonup> order_book"
  co_last_kline_ms :: "store_key \<rightharpoonup> int"
  co_last_ticker_ms :: "int option"
  co_last_orderbook_ms :: "string \<rightharpoonup> int"

definition new_collector :: "candle_store \<Rightarrow> collector" where
  "new_collector st = \<lparr> co_store = st, co_tickers = [], co_orderbooks = Map.empty,
    co_last_kline_ms = Map.empty, co_last_ticker_ms = None, co_last_orderbook_ms = Map.empty \<rparr>"

section \<open>Refreshing\<close>

text \<open>Whether \<open>refresh_klines\<close> asks the exchange at all.\<close>

definition kline_fresh :: "int \<Rightarrow> string \<Rightarrow> string \<Rightarrow> int \<Rightarrow> collector \<Rightarrow> bool" where
  "kline_fresh now y interval min_refresh_ms co \<longleftrightarrow>
    0 < min_refresh_ms \<and>
    (case co_last_kline_ms co (y, interval) of None \<Rightarrow> False | Some t \<Rightarrow> now - t < min_refresh_ms) \<and>
    get_candles y interval None (co_store co) \<noteq> []"

definition klines_arrived :: "int \<Rightarrow> string \<Rightarrow> string \<Rightarrow> candle list \<Rightarrow> collector \<Rightarrow> collector result" where
  "klines_arrived now y interval cs co =
    bind_res (seed y interval cs (co_store co)) (\<lambda>st.
      Inr (co\<lparr> co_store := st, co_last_kline_ms := (co_last_kline_ms co)((y, interval) \<mapsto> now) \<rparr>))"

definition tickers_by_symbol :: "market_ticker list \<Rightarrow> (string \<times> market_ticker) list" where
  "tickers_by_symbol ts = foldl (\<lambda>d t. dict_set (tk_symbol t) t d) [] ts"

definition tickers_arrived :: "int \<Rightarrow> market_ticker list \<Rightarrow> collector \<Rightarrow> collector" where
  "tickers_arrived now ts co = co\<lparr> co_tickers := tickers_by_symbol ts, co_last_ticker_ms := Some now \<rparr>"

definition orderbook_arrived :: "int \<Rightarrow> string \<Rightarrow> order_book \<Rightarrow> collector \<Rightarrow> collector" where
  "orderbook_arrived now y ob co =
    co\<lparr> co_orderbooks := (co_orderbooks co)(y \<mapsto> ob), co_last_orderbook_ms := (co_last_orderbook_ms co)(y \<mapsto> now) \<rparr>"

section \<open>Pushed data\<close>

definition ingest_ticker :: "int \<Rightarrow> market_ticker \<Rightarrow> collector \<Rightarrow> collector" where
  "ingest_ticker now t co =
    co\<lparr> co_tickers := dict_set (tk_symbol t) t (co_tickers co), co_last_ticker_ms := Some now \<rparr>"

definition ingest_candle :: "int \<Rightarrow> candle \<Rightarrow> collector \<Rightarrow> collector result" where
  "ingest_candle now c co =
    bind_res (update c (co_store co)) (\<lambda>st.
      Inr (co\<lparr> co_store := st, co_last_kline_ms := (co_last_kline_ms co)((cd_symbol c, cd_interval c) \<mapsto> now) \<rparr>))"

section \<open>Accessors\<close>

definition ticker_of :: "collector \<Rightarrow> string \<Rightarrow> market_ticker option" where
  "ticker_of co y = map_of (co_tickers co) y"

definition all_tickers :: "collector \<Rightarrow> market_ticker list" where
  "all_tickers co = map snd (co_tickers co)"

definition orderbook_of :: "collector \<Rightarrow> string \<Rightarrow> order_book option" where
  "orderbook_of co y = co_orderbooks co y"

definition last_kline_ms :: "collector \<Rightarrow> string \<Rightarrow> string \<Rightarrow> int option" where
  "last_kline_ms co y interval = co_last_kline_ms co (y, interval)"

definition last_orderbook_ms :: "collector \<Rightarrow> string \<Rightarrow> int option" where
  "last_orderbook_ms co y = co_last_orderbook_ms co y"

definition collector_missing :: "collector \<Rightarrow> string \<Rightarrow> string \<Rightarrow> int" where
  "collector_missing co y interval = missing_candles y interval (co_store co)"

section \<open>The store stays well formed\<close>

lemma tickers_by_symbol_key: "map_of (tickers_by_symbol ts) y = Some t \<Longrightarrow> tk_symbol t = y \<and> t \<in> set ts"
proof (induction ts rule: rev_induct)
  case Nil
  then show ?case by (simp add: tickers_by_symbol_def)
next
  case (snoc u ts)
  then show ?case by (auto simp: tickers_by_symbol_def split: if_splits)
qed

lemma ticker_after_refresh: "ticker_of (tickers_arrived now ts co) y = Some t \<Longrightarrow> tk_symbol t = y \<and> t \<in> set ts"
  by (simp add: ticker_of_def tickers_arrived_def tickers_by_symbol_key)

end
