(* ===== verification/Trading_Gates.thy ===== *)
theory Trading_Gates
  imports Trading_Types
begin

text \<open>
  The two guard gates of a new entry and the operations of the trading service that only touch
  the guards (\<^verbatim>\<open>apps/bot/workers/trading_pipeline.py\<close>: \<^verbatim>\<open>_pre_gate\<close>, \<^verbatim>\<open>_post_gate\<close>, the recording
  of failures and slippage, and the state change after a failed protection).
\<close>

section \<open>Records of failures\<close>

definition svc_record_order_failure :: "rat \<Rightarrow> 'x service \<Rightarrow> 'x service" where
  "svc_record_order_failure t = upd_kill (record_order_failure t)"

definition svc_record_emergency_close_failure :: "'x service \<Rightarrow> 'x service" where
  "svc_record_emergency_close_failure = upd_kill record_emergency_close_failure"

definition slippage_of :: "side \<Rightarrow> dec \<Rightarrow> dec \<Rightarrow> dec \<Rightarrow> dec option" where
  "slippage_of sd fill bid ask =
    (if sd = BUY \<and> 0 < ask then Some (dmul (ddiv (dsub fill ask) ask) 100)
     else if sd = SELL \<and> 0 < bid then Some (dmul (ddiv (dsub bid fill) bid) 100)
     else None)"

definition record_slippage_if_breached ::
  "app_config \<Rightarrow> side \<Rightarrow> dec \<Rightarrow> dec \<Rightarrow> dec \<Rightarrow> 'x service \<Rightarrow> 'x service" where
  "record_slippage_if_breached cfg sd fill bid ask s =
    (case slippage_of sd fill bid ask of
       None \<Rightarrow> s
     | Some slip \<Rightarrow>
         if co_max_slippage_percent (cfg_orders cfg) < slip then upd_kill record_slippage_breach s else s)"

definition transition_after_protection_failure :: "string \<Rightarrow> 'x service \<Rightarrow> 'x service" where
  "transition_after_protection_failure reason s =
    (let target = (if reason = ''ORDER_LOCKED'' then Some ORDER_LOCKED
                   else if reason = ''EMERGENCY_STOP'' then Some EMERGENCY_STOP else None)
     in case target of
          None \<Rightarrow> s
        | Some t \<Rightarrow>
            upd_machine (\<lambda>m. case transition m t ''TP/SL protection failure'' of
                                Inr m' \<Rightarrow> m'
                              | Inl _ \<Rightarrow> force m t ''TP/SL protection failure'') s)"

section \<open>The gates\<close>

definition kill_gate :: "app_config \<Rightarrow> rat \<Rightarrow> 'x service \<Rightarrow> 'x service \<times> string option" where
  "kill_gate cfg t s =
    (case gs_kill_switch (sv_guards s) of
       None \<Rightarrow> (s, None)
     | Some k \<Rightarrow>
         let (k', tripped) = kill_evaluate (cfg_global_kill_switch cfg) t k
         in (upd_kill (\<lambda>_. k') s,
             case tripped of None \<Rightarrow> None | Some r \<Rightarrow> if r = [] then None else Some (''KILL_SWITCH:'' @ r)))"

definition market_gate ::
  "app_config \<Rightarrow> guard_set \<Rightarrow> signal_direction \<Rightarrow> indicator_snapshot \<Rightarrow> market_context \<Rightarrow> string option" where
  "market_gate cfg g dir snapshot_1m mk =
    (let dq = (if gs_data_quality g
               then data_quality_check (cfg_data_quality cfg)
                 \<lparr> di_now_ms = mk_now_ms mk, di_last_kline_ms = mk_last_kline_ms mk,
                   di_last_ticker_ms = mk_last_ticker_ms mk, di_last_orderbook_ms = mk_last_orderbook_ms mk,
                   di_missing_candles = mk_missing_candles mk, di_ticker_price = mk_ticker_price mk,
                   di_kline_close = mk_kline_close mk, di_indicators = Some snapshot_1m,
                   di_require_orderbook = (mk_last_orderbook_ms mk \<noteq> None) \<rparr>
               else None);
         fd = (if gs_funding_guard g
               then block_new_entry (cfg_funding_guard cfg) (mk_now_ms mk) (mk_next_funding_time_ms mk)
                      (mk_funding_rate mk) (Some dir)
               else None)
     in case dq of
          Some r \<Rightarrow> Some (''DATA_QUALITY:'' @ r)
        | None \<Rightarrow>
            (case fd of
               Some r \<Rightarrow> Some (''FUNDING:'' @ r)
             | None \<Rightarrow>
                 if ss_block_if_status_not_trading (cfg_symbol_status cfg) \<and> mk_symbol_status mk \<noteq> ''Trading''
                 then Some ''SYMBOL_NOT_TRADING'' else None))"

definition pre_gate ::
  "app_config \<Rightarrow> rat \<Rightarrow> string \<Rightarrow> signal_direction \<Rightarrow> indicator_snapshot \<Rightarrow> market_context option \<Rightarrow>
   'x service \<Rightarrow> 'x service \<times> string option" where
  "pre_gate cfg t y dir snapshot_1m market s =
    (let g = sv_guards s in
     if (case gs_state_machine g of None \<Rightarrow> False | Some m \<Rightarrow> \<not> can_enter_new_position m)
     then (s, Some ''NOT_RUNNING'')
     else if new_entries_paused t (sv_state s) then (s, Some ''ENTRIES_PAUSED'')
     else
       let (s1, tripped) = kill_gate cfg t s in
       case tripped of
         Some r \<Rightarrow> (s1, Some r)
       | None \<Rightarrow>
           if (case gs_cooldown g of None \<Rightarrow> False | Some c \<Rightarrow> in_global_cooldown (cfg_cooldown cfg) t c)
           then (s1, Some ''GLOBAL_COOLDOWN'')
           else if (case gs_cooldown g of None \<Rightarrow> False | Some c \<Rightarrow> in_symbol_cooldown (cfg_cooldown cfg) t y c)
           then (s1, Some ''SYMBOL_COOLDOWN'')
           else (s1, case market of None \<Rightarrow> None | Some mk \<Rightarrow> market_gate cfg g dir snapshot_1m mk))"

definition post_gate ::
  "app_config \<Rightarrow> rat \<Rightarrow> entry_mode \<Rightarrow> dec \<Rightarrow> market_context option \<Rightarrow> 'x service \<Rightarrow> string option" where
  "post_gate cfg t em notional market s =
    (let g = sv_guards s in
     if (case gs_cooldown g of None \<Rightarrow> False | Some c \<Rightarrow> in_entry_mode_cooldown (cfg_cooldown cfg) t em c)
     then Some ''ENTRY_MODE_COOLDOWN''
     else
       case (gs_pre_order_check g, market, gs_clock_guard g) of
         (True, Some mk, Some clock) \<Rightarrow>
           (case mk_orderbook mk of
              None \<Rightarrow> None
            | Some ob \<Rightarrow>
                let slip = (if sv_mode s = PAPER then cp_market_slippage_percent (cfg_paper cfg)
                            else co_max_slippage_percent (cfg_orders cfg))
                in (case pre_order_check cfg ob notional slip (mk_symbol_status mk) clock of
                      Some r \<Rightarrow> Some (''PRE_ORDER:'' @ r)
                    | None \<Rightarrow> None))
       | _ \<Rightarrow> None)"

section \<open>What an open gate means\<close>

lemma kill_checks_named: "(b, r) \<in> set (kill_checks c k) \<Longrightarrow> r \<noteq> []"
  by (auto simp: kill_checks_def)

lemma kill_gate_pass:
  assumes "kill_gate cfg t s = (s', None)" "gs_kill_switch (sv_guards s) = Some k"
    and "kw_tripped_reason k \<noteq> Some []"
  shows "snd (kill_evaluate (cfg_global_kill_switch cfg) t k) = None"
proof (cases "kw_tripped_reason k")
  case None
  show ?thesis
  proof (rule ccontr)
    assume "snd (kill_evaluate (cfg_global_kill_switch cfg) t k) \<noteq> None"
    then obtain b r where "first_match fst (kill_checks (cfg_global_kill_switch cfg) (prune t k)) = Some (b, r)"
      "snd (kill_evaluate (cfg_global_kill_switch cfg) t k) = Some r"
      using None by (auto simp: kill_evaluate_def Let_def split: option.splits)
    moreover from this(1) have "r \<noteq> []" by (auto dest!: first_match_Some kill_checks_named)
    ultimately show False
      using assms(1,2) by (auto simp: kill_gate_def split: prod.splits)
  qed
next
  case (Some r)
  then show ?thesis
    using assms by (auto simp: kill_gate_def kill_evaluate_def split: if_splits)
qed

lemma kill_gate_simps [simp]:
  "sv_state (fst (kill_gate cfg t s)) = sv_state s"
  "sv_mode (fst (kill_gate cfg t s)) = sv_mode s"
  "sv_positions (fst (kill_gate cfg t s)) = sv_positions s"
  "sv_entry (fst (kill_gate cfg t s)) = sv_entry s"
  "sv_exec (fst (kill_gate cfg t s)) = sv_exec s"
  "sv_effects (fst (kill_gate cfg t s)) = sv_effects s"
  "gs_cooldown (sv_guards (fst (kill_gate cfg t s))) = gs_cooldown (sv_guards s)"
  "gs_state_machine (sv_guards (fst (kill_gate cfg t s))) = gs_state_machine (sv_guards s)"
  by (auto simp: kill_gate_def upd_kill_def split: option.split prod.split)

lemma pre_gate_state: "fst (pre_gate cfg t y dir sn mk s) \<in> {s, fst (kill_gate cfg t s)}"
  unfolding pre_gate_def Let_def by (cases "kill_gate cfg t s") (simp split: option.split)

lemma pre_gate_keeps:
  "f s = x \<Longrightarrow> f (fst (kill_gate cfg t s)) = x \<Longrightarrow> f (fst (pre_gate cfg t y dir sn mk s)) = x"
  using pre_gate_state [of cfg t y dir sn mk s] by auto

lemma pre_gate_simps [simp]:
  "sv_state (fst (pre_gate cfg t y dir sn mk s)) = sv_state s"
  "sv_mode (fst (pre_gate cfg t y dir sn mk s)) = sv_mode s"
  "sv_exec (fst (pre_gate cfg t y dir sn mk s)) = sv_exec s"
  "sv_effects (fst (pre_gate cfg t y dir sn mk s)) = sv_effects s"
  "sv_entry (fst (pre_gate cfg t y dir sn mk s)) = sv_entry s"
  by (rule pre_gate_keeps; simp)+

text \<open>The gate in front of every new entry is closed unless everything that is wired in agrees:
  the bot is running, entries are not paused, the kill switch has not tripped, neither the
  symbol nor the account is cooling down, the market data is fresh, the funding guard does
  not object and the symbol is trading.\<close>

theorem pre_gate_open:
  assumes "pre_gate cfg t y dir sn market s = (s', None)"
  shows "(\<forall>m. gs_state_machine (sv_guards s) = Some m \<longrightarrow> bm_state m = RUNNING) \<and>
    \<not> new_entries_paused t (sv_state s) \<and>
    (\<forall>k. gs_kill_switch (sv_guards s) = Some k \<longrightarrow> kw_tripped_reason k \<noteq> Some [] \<longrightarrow>
       snd (kill_evaluate (cfg_global_kill_switch cfg) t k) = None) \<and>
    (\<forall>c. gs_cooldown (sv_guards s) = Some c \<longrightarrow>
       \<not> in_global_cooldown (cfg_cooldown cfg) t c \<and> \<not> in_symbol_cooldown (cfg_cooldown cfg) t y c) \<and>
    (\<forall>mk. market = Some mk \<longrightarrow> market_gate cfg (sv_guards s) dir sn mk = None)"
proof -
  obtain s1 tr where kg: "kill_gate cfg t s = (s1, tr)" by fastforce
  have run: "\<not> (case gs_state_machine (sv_guards s) of None \<Rightarrow> False | Some m \<Rightarrow> \<not> can_enter_new_position m)"
    and pause: "\<not> new_entries_paused t (sv_state s)" and tr: "tr = None"
    using assms by (auto simp: pre_gate_def Let_def kg split: if_splits option.splits)
  have m: "bm_state m = RUNNING" if "gs_state_machine (sv_guards s) = Some m" for m
    using run that by (simp add: can_enter_new_position_def entry_allowed_states_def)
  have k: "snd (kill_evaluate (cfg_global_kill_switch cfg) t k) = None"
    if "gs_kill_switch (sv_guards s) = Some k" "kw_tripped_reason k \<noteq> Some []" for k
    using kill_gate_pass kg tr that by blast
  have rest: "(if (case gs_cooldown (sv_guards s) of None \<Rightarrow> False
        | Some c \<Rightarrow> in_global_cooldown (cfg_cooldown cfg) t c) then Some ''GLOBAL_COOLDOWN''
      else if (case gs_cooldown (sv_guards s) of None \<Rightarrow> False
        | Some c \<Rightarrow> in_symbol_cooldown (cfg_cooldown cfg) t y c) then Some ''SYMBOL_COOLDOWN''
      else (case market of None \<Rightarrow> None | Some mk \<Rightarrow> market_gate cfg (sv_guards s) dir sn mk)) = None"
    using assms run pause tr unfolding pre_gate_def Let_def kg by (simp split: if_splits)
  show ?thesis using m pause k rest by (auto split: if_splits)
qed

definition ex_service :: "guard_set \<Rightarrow> unit service" where
  "ex_service g = \<lparr> sv_mode = PAPER, sv_state = new_runtime_state, sv_positions = new_pm_state,
    sv_entry = new_entry_engine, sv_guards = g, sv_has_protection = False, sv_has_logger = False,
    sv_has_events = True, sv_post_exit_mfe = [], sv_effects = [], sv_exec = () \<rparr>"

definition ex_guards :: guard_set where
  "ex_guards = \<lparr> gs_state_machine = Some (new_machine RUNNING), gs_data_quality = False,
    gs_pre_order_check = False, gs_kill_switch = None, gs_cooldown = Some new_cooldown_tracker,
    gs_funding_guard = False, gs_clock_guard = None \<rparr>"

lemma pre_gate_open_witness:
  "\<exists>s'. pre_gate default_app_config 10 ''BTC'' SIG_LONG (ex_snapshot ''1'' 1 1 1) None (ex_service ex_guards) = (s', None)
    \<and> (\<forall>m. gs_state_machine ex_guards = Some m \<longrightarrow> bm_state m = RUNNING)"
proof -
  have "pre_gate default_app_config 10 ''BTC'' SIG_LONG (ex_snapshot ''1'' 1 1 1) None (ex_service ex_guards) =
      (ex_service ex_guards, None)"
    by (simp add: pre_gate_def kill_gate_def ex_service_def ex_guards_def new_machine_def
        can_enter_new_position_def entry_allowed_states_def new_entries_paused_def new_runtime_state_def
        in_global_cooldown_def in_symbol_cooldown_def new_cooldown_tracker_def Let_def)
  from pre_gate_open [OF this, THEN conjunct1] this show ?thesis
    by (simp add: ex_service_def)
qed

end
