(* ===== verification/Trading_Close.thy ===== *)
theory Trading_Close
  imports Trading_Gates
begin

text \<open>
  Closing positions (\<^verbatim>\<open>apps/bot/workers/trading_pipeline.py\<close>: \<^verbatim>\<open>_close\<close>,
  \<^verbatim>\<open>_mark_exchange_already_flat\<close>, \<^verbatim>\<open>close_position\<close> and the post-exit tracker).

  \<open>close_finish\<close> is what the code does once the executor has answered, on the position as it is
  then; \<open>close_pos\<close> brackets the call with the update count of the symbol, which \<open>finally\<close> releases
  whatever happens.
\<close>

section \<open>What happens to a runner after its exit\<close>

definition start_post_exit_mfe :: "app_config \<Rightarrow> int \<Rightarrow> position \<Rightarrow> dec option \<Rightarrow> 'x service \<Rightarrow> 'x service" where
  "start_post_exit_mfe cfg now p exit_price s =
    (let c = runner_cfg cfg;
         windows = sorted_list_of_set {w \<in> set (rn_post_exit_mfe_windows_min c). 0 < w};
         base = or_dec (or_else exit_price (p_stop_loss_price p)) (p_avg_entry_price p)
     in if \<not> rn_enabled c \<or> \<not> rn_log_post_exit_mfe c then s
        else case p_initial_risk_per_unit p of
          None \<Rightarrow> s
        | Some risk \<Rightarrow>
            if risk \<le> 0 \<or> windows = [] then s
            else s\<lparr> sv_post_exit_mfe := dict_set (p_symbol p)
                   \<lparr> xm_symbol = p_symbol p, xm_side = p_side p, xm_exit_price = base,
                     xm_initial_risk_per_unit = risk,
                     xm_closed_at = (case p_closed_at p of None \<Rightarrow> now | Some t \<Rightarrow> t),
                     xm_windows_min = windows, xm_emitted_windows = {}, xm_best_price = Some base \<rparr>
                   (sv_post_exit_mfe s) \<rparr>)"

definition mfe_event :: "mfe_tracker \<Rightarrow> dec \<Rightarrow> dec \<Rightarrow> int \<Rightarrow> bot_event" where
  "mfe_event x best mfe window =
    data_event EV_RUNNER_POST_EXIT_MFE (xm_symbol x)
      [(''symbol'', PStr (xm_symbol x)), (''side'', PStr (position_side_value (xm_side x))),
       (''window_min'', PInt window), (''exit_price'', PDec (xm_exit_price x)),
       (''best_price_after_exit'', PDec best), (''post_exit_mfe'', PDec mfe),
       (''post_exit_mfe_r'', PDec (ddiv mfe (xm_initial_risk_per_unit x)))]"

definition mfe_observe :: "dec \<Rightarrow> candle option \<Rightarrow> mfe_tracker \<Rightarrow> dec \<times> dec" where
  "mfe_observe price c x =
    (if xm_side x = LONG
     then let observed = (case c of None \<Rightarrow> price | Some k \<Rightarrow> cd_high k);
              best = max (or_dec (xm_best_price x) observed) observed
          in (best, dsub best (xm_exit_price x))
     else let observed = (case c of None \<Rightarrow> price | Some k \<Rightarrow> cd_low k);
              best = min (or_dec (xm_best_price x) observed) observed
          in (best, dsub (xm_exit_price x) best))"

definition update_post_exit_mfe ::
  "string \<Rightarrow> dec \<Rightarrow> candle option \<Rightarrow> int \<Rightarrow> 'x service \<Rightarrow> 'x service" where
  "update_post_exit_mfe y price c now s =
    (case map_of (sv_post_exit_mfe s) y of
       None \<Rightarrow> s
     | Some x \<Rightarrow>
         let (best, mfe) = mfe_observe price c x;
             due = filter (\<lambda>w. w \<notin> xm_emitted_windows x \<and> w * 60000000 \<le> now - xm_closed_at x) (xm_windows_min x);
             x' = x\<lparr> xm_best_price := Some best, xm_emitted_windows := xm_emitted_windows x \<union> set due \<rparr>;
             s1 = fold (\<lambda>w. emit (mfe_event x best mfe w)) due
                    (s\<lparr> sv_post_exit_mfe := dict_set y x' (sv_post_exit_mfe s) \<rparr>)
         in if length (xm_windows_min x') \<le> card (xm_emitted_windows x')
            then s1\<lparr> sv_post_exit_mfe := dict_pop y (sv_post_exit_mfe s1) \<rparr> else s1)"

section \<open>The accounting of a close\<close>

definition r_multiple_of_trade :: "position \<Rightarrow> dec \<Rightarrow> dec option" where
  "r_multiple_of_trade p qty =
    (let risk_qty = or_dec (p_initial_qty p) qty in
     case p_initial_risk_per_unit p of
       None \<Rightarrow> None
     | Some risk \<Rightarrow> if 0 < risk \<and> 0 < risk_qty then Some (ddiv (p_realized_pnl p) (dmul risk risk_qty)) else None)"

definition trade_of :: "bot_mode \<Rightarrow> position \<Rightarrow> dec \<Rightarrow> dec \<Rightarrow> exit_reason option \<Rightarrow> trade_log" where
  "trade_of mode p qty exit_price reason =
    \<lparr> tl_symbol = p_symbol p, tl_side = p_side p, tl_qty = qty, tl_entry_price = p_avg_entry_price p,
      tl_exit_price = exit_price, tl_realized_pnl = p_realized_pnl p, tl_exit_reason = reason,
      tl_strategy_id = (if p_strategy_id p = [] then None else Some (p_strategy_id p)),
      tl_entry_mode = p_entry_mode p, tl_mode = mode, tl_leverage = p_leverage p,
      tl_fees = p_fees_paid p, tl_gross_pnl = dadd (p_realized_pnl p) (p_fees_paid p),
      tl_net_pnl = p_realized_pnl p, tl_r_multiple = r_multiple_of_trade p qty,
      tl_opened_at = p_opened_at p, tl_closed_at = p_closed_at p \<rparr>"

definition opt_reason :: "exit_reason option \<Rightarrow> pval" where
  "opt_reason r = opt_str (map_option exit_reason_value r)"

text \<open>What the guards learn from a closed position.\<close>

definition record_closed :: "rat \<Rightarrow> position \<Rightarrow> 'x service \<Rightarrow> 'x service" where
  "record_closed t p s =
    (let s1 = (case p_entry_mode p of
                 None \<Rightarrow> s
               | Some em \<Rightarrow> upd_cooldown (record_result t (p_symbol p) em (0 < p_realized_pnl p)) s)
     in upd_kill (record_trade_result (0 < p_realized_pnl p)) s1)"

definition realized_of_fill :: "position \<Rightarrow> close_result \<Rightarrow> dec" where
  "realized_of_fill p r =
    (case cr_realized r of
       Some x \<Rightarrow> x
     | None \<Rightarrow> dmul (dmul (dsub (cr_fill_price r) (p_avg_entry_price p)) (cr_fill_qty r)) (direction_of (p_side p)))"

text \<open>The position after the fill.\<close>

definition close_fill :: "int \<Rightarrow> exit_reason option \<Rightarrow> bool \<Rightarrow> close_result \<Rightarrow> position \<Rightarrow> position" where
  "close_fill now reason full r p =
    (let p1 = p\<lparr> p_realized_pnl := dadd (p_realized_pnl p) (realized_of_fill p r),
                 p_fees_paid := dadd (p_fees_paid p) (cr_fee r),
                 p_qty := dsub (p_qty p) (cr_fill_qty r) \<rparr>
     in if full \<or> p_qty p1 \<le> 0
        then p1\<lparr> p_status := CLOSED, p_closed_at := Some now, p_exit_reason := reason \<rparr> else p1)"

definition fill_of :: "string \<Rightarrow> side \<Rightarrow> dec \<Rightarrow> dec \<Rightarrow> dec \<Rightarrow> fill" where
  "fill_of y sd price qty fee =
    \<lparr> fi_symbol = y, fi_order_id = ''exec'', fi_side = sd, fi_price = price, fi_qty = qty,
      fi_fee = fee, fi_is_maker = False \<rparr>"

definition close_log :: "position \<Rightarrow> position \<Rightarrow> exit_reason option \<Rightarrow> close_result \<Rightarrow> 'x service \<Rightarrow> 'x service" where
  "close_log p p' reason r s =
    (let mode = sv_mode s;
         s1 = log_entry (LogFill (fill_of (p_symbol p) (exit_side p) (cr_fill_price r) (cr_fill_qty r) (cr_fee r))
                (Some (realized_of_fill p r)) mode) s;
         s2 = log_entry (LogPosition p' mode None None) s1
     in if p_status p' = CLOSED
        then log_entry (LogTrade (trade_of mode p' (cr_fill_qty r) (cr_fill_price r) reason)) s2 else s2)"

definition close_finish ::
  "app_config \<Rightarrow> clocks \<Rightarrow> string \<Rightarrow> exit_reason option \<Rightarrow> bool \<Rightarrow> close_result \<Rightarrow> 'x service \<Rightarrow> 'x service" where
  "close_finish cfg ck y reason full r s =
    (case pos_of s y of
       None \<Rightarrow> s
     | Some p \<Rightarrow>
         if p_status p = CLOSED \<or> cr_fill_qty r \<le> 0 then s
         else
           let p' = close_fill (ck_wall ck) reason full r p;
               s1 = close_log p p' reason r (set_pos p' s)
           in if p_status p' = CLOSED
              then
                let s2 = (if reason = Some RUNNER_TRAILING_STOP
                          then start_post_exit_mfe cfg (ck_wall ck) p' (Some (cr_fill_price r)) s1 else s1)
                in emit (data_event EV_POSITION_CLOSED y
                     [(''realized_pnl'', PDec (p_realized_pnl p')), (''reason'', opt_reason reason)])
                   (record_closed (ck_mono ck) p' s2)
              else s1)"

section \<open>The exchange says the position is already flat\<close>

definition mark_exchange_already_flat ::
  "app_config \<Rightarrow> clocks \<Rightarrow> string \<Rightarrow> exit_reason option \<Rightarrow> dec \<Rightarrow> dec \<Rightarrow> 'x service \<Rightarrow> 'x service" where
  "mark_exchange_already_flat cfg ck y reason bid ask s =
    (case pos_of s y of
       None \<Rightarrow> s
     | Some p \<Rightarrow>
         if p_status p = CLOSED then s
         else
           let prev_qty = p_qty p;
               exit_price = estimated_flat_exit_price p bid ask;
               realized = dmul (dmul (dsub exit_price (p_avg_entry_price p)) prev_qty) (direction_of (p_side p));
               p' = p\<lparr> p_realized_pnl := dadd (p_realized_pnl p) realized, p_qty := 0, p_status := CLOSED,
                       p_closed_at := Some (ck_wall ck), p_exit_reason := reason \<rparr>;
               s1 = log_entry (LogTrade (trade_of (sv_mode s) p' prev_qty exit_price reason))
                      (log_entry (LogPosition p' (sv_mode s) None None) (set_pos p' s));
               s2 = (if reason = Some RUNNER_TRAILING_STOP
                     then start_post_exit_mfe cfg (ck_wall ck) p' (Some exit_price) s1 else s1)
           in emit \<lparr> be_type = EV_POSITION_CLOSED, be_symbol = Some y,
                be_message = ''Exchange already flat; marked closed'',
                be_data = [(''prev_qty'', PDec prev_qty), (''realized_pnl'', PDec (p_realized_pnl p')),
                  (''reason'', opt_reason reason), (''source'', PStr ''exchange_already_flat''),
                  (''estimated_exit_price'', PDec exit_price), (''estimated_realized_pnl'', PDec realized)] \<rparr>
              (record_closed (ck_mono ck) p' s2))"

section \<open>The close\<close>

definition close_args_of :: "position \<Rightarrow> dec \<Rightarrow> dec \<Rightarrow> dec \<Rightarrow> bool \<Rightarrow> close_args" where
  "close_args_of p qty bid ask prefer_limit =
    \<lparr> ca_symbol = p_symbol p, ca_side = exit_side p, ca_qty = qty, ca_best_bid = bid, ca_best_ask = ask,
      ca_prefer_limit = prefer_limit,
      ca_limit_price = (if prefer_limit then p_take_profit_price p else None) \<rparr>"

definition close_body ::
  "'x ports \<Rightarrow> app_config \<Rightarrow> clocks \<Rightarrow> position \<Rightarrow> dec \<Rightarrow> exit_reason option \<Rightarrow> dec \<Rightarrow> dec \<Rightarrow> bool \<Rightarrow> bool \<Rightarrow>
   ('x service, unit) action" where
  "close_body io cfg ck p qty reason bid ask full prefer_limit s =
    (case po_close io (close_args_of p qty bid ask prefer_limit) s of
       (s1, Inr r) \<Rightarrow> (close_finish cfg ck (p_symbol p) reason full r s1, Inr ())
     | (s1, Inl e) \<Rightarrow>
         if is_exchange_already_flat_error e
         then (mark_exchange_already_flat cfg ck (p_symbol p) reason bid ask s1, Inr ())
         else (s1, Inl e))"

definition close_pos ::
  "'x ports \<Rightarrow> app_config \<Rightarrow> clocks \<Rightarrow> position \<Rightarrow> dec \<Rightarrow> exit_reason option \<Rightarrow> dec \<Rightarrow> dec \<Rightarrow> bool \<Rightarrow> bool \<Rightarrow>
   ('x service, unit) action" where
  "close_pos io cfg ck p qty reason bid ask full prefer_limit =
    then_do (modify (upd_state (begin_position_update (p_symbol p))))
      (try_finally (close_body io cfg ck p qty reason bid ask full prefer_limit)
        (upd_state (end_position_update (p_symbol p))))"

text \<open>The dashboard's close command.\<close>

definition close_position ::
  "'x ports \<Rightarrow> app_config \<Rightarrow> clocks \<Rightarrow> string \<Rightarrow> dec \<Rightarrow> dec \<Rightarrow> exit_reason \<Rightarrow> dec \<Rightarrow> ('x service, bool) action" where
  "close_position io cfg ck y bid ask reason close_percent s =
    (case pos_of s y of
       None \<Rightarrow> (s, Inr False)
     | Some p \<Rightarrow>
         if \<not> is_bot_managed p then (s, Inr False)
         else if p_status p \<notin> {ACTIVE, PENDING} then (s, Inr False)
         else
           let pct = min 100 (max 0 close_percent) in
           if pct \<le> 0 then (s, Inr False)
           else
             let qty = ddiv (dmul (p_qty p) pct) 100 in
             if qty \<le> 0 then (s, Inr False)
             else and_then (close_pos io cfg ck p qty (Some reason) bid ask (p_qty p \<le> qty) False)
                    (\<lambda>_. ret True) s)"

end
