(* ===== verification/Trading_Executors.thy ===== *)
theory Trading_Executors
  imports Trading_Close Paper_Engine
begin

text \<open>
  The executor interface as a contract, and \<^verbatim>\<open>PaperExecutor\<close> as an implementation of it
  (\<^verbatim>\<open>apps/bot/workers/trading_pipeline.py\<close>).

  The contract says what the trading service relies on when it awaits an executor: the call
  leaves the registry of positions alone, and it ends every position update it begins. The facts
  about closing are proved once, from the contract.
\<close>

section \<open>The contract\<close>

text \<open>What a call may not change behind the service's back: the positions, the claims on them, the mode
  and the wiring.\<close>

definition same_book :: "'x service \<Rightarrow> 'x service \<Rightarrow> bool" where
  "same_book s s' \<longleftrightarrow>
    rs_positions (sv_state s') = rs_positions (sv_state s) \<and>
    rs_position_update_symbols (sv_state s') = rs_position_update_symbols (sv_state s) \<and>
    sv_mode s' = sv_mode s \<and> sv_has_protection s' = sv_has_protection s"

interpretation book: two_state same_book
  by unfold_locales (auto simp: same_book_def)

lemma same_book_pos: "same_book s s' \<Longrightarrow> pos_of s' y = pos_of s y"
  by (simp add: same_book_def pos_of_def get_position_def)

lemma same_book_flight:
  "same_book s s' \<Longrightarrow> updates_ok (sv_state s') = updates_ok (sv_state s) \<and>
    updates_in_flight (sv_state s') = updates_in_flight (sv_state s)"
  by (simp add: same_book_def updates_ok_def updates_in_flight_def)

locale executor =
  fixes io :: "'x ports"
  assumes close_book: "book.keeps (po_close io a)"
    and open_book: "book.keeps (po_open io b)"
    and orderbook_book: "book.keeps (po_orderbook io)"

section \<open>Frames of the close\<close>

lemma start_mfe_simps [simp]:
  "sv_state (start_post_exit_mfe cfg now p e s) = sv_state s"
  "sv_effects (start_post_exit_mfe cfg now p e s) = sv_effects s"
  "sv_guards (start_post_exit_mfe cfg now p e s) = sv_guards s"
  "sv_exec (start_post_exit_mfe cfg now p e s) = sv_exec s"
  "pos_of (start_post_exit_mfe cfg now p e s) y = pos_of s y"
  by (simp_all add: start_post_exit_mfe_def Let_def pos_of_def split: option.split)

lemma record_closed_simps [simp]:
  "sv_state (record_closed t p s) = sv_state s"
  "sv_effects (record_closed t p s) = sv_effects s"
  "sv_exec (record_closed t p s) = sv_exec s"
  "pos_of (record_closed t p s) y = pos_of s y"
  by (simp_all add: record_closed_def Let_def split: option.split)

lemma close_log_simps [simp]:
  "sv_state (close_log p p' reason r s) = sv_state s"
  "sv_exec (close_log p p' reason r s) = sv_exec s"
  "sv_guards (close_log p p' reason r s) = sv_guards s"
  "pos_of (close_log p p' reason r s) y = pos_of s y"
  by (simp_all add: close_log_def Let_def)

lemma close_fill_simps [simp]:
  "p_symbol (close_fill now reason full r p) = p_symbol p"
  "p_side (close_fill now reason full r p) = p_side p"
  "p_source (close_fill now reason full r p) = p_source p"
  "p_qty (close_fill now reason full r p) = dsub (p_qty p) (cr_fill_qty r)"
  "p_realized_pnl (close_fill now reason full r p) = dadd (p_realized_pnl p) (realized_of_fill p r)"
  "p_fees_paid (close_fill now reason full r p) = dadd (p_fees_paid p) (cr_fee r)"
  "p_avg_entry_price (close_fill now reason full r p) = p_avg_entry_price p"
  by (simp_all add: close_fill_def Let_def)

lemma close_fill_status:
  "p_status p \<noteq> CLOSED \<Longrightarrow>
    p_status (close_fill now reason full r p) = CLOSED \<longleftrightarrow> full \<or> dsub (p_qty p) (cr_fill_qty r) \<le> 0"
  by (auto simp: close_fill_def Let_def)

definition close_effect :: "app_config \<Rightarrow> clocks \<Rightarrow> exit_reason option \<Rightarrow> bool \<Rightarrow> close_result \<Rightarrow> position \<Rightarrow> position" where
  "close_effect cfg ck reason full r p =
    (if p_status p = CLOSED \<or> cr_fill_qty r \<le> 0 then p else close_fill (ck_wall ck) reason full r p)"

lemma close_finish_state:
  assumes "registry_ok (sv_state s)" "pos_of s y = Some p" "p_status p \<noteq> CLOSED" "0 < cr_fill_qty r"
  shows "sv_state (close_finish cfg ck y reason full r s) =
    put_position y (close_fill (ck_wall ck) reason full r p) (sv_state s)"
proof -
  have y: "p_symbol p = y"
    using get_position_symbol [OF assms(1)] assms(2) by (simp add: pos_of_def)
  show ?thesis
    using assms(2-4) y by (simp add: close_finish_def Let_def set_pos_def)
qed

lemma close_finish_idle:
  "pos_of s y = Some p \<Longrightarrow> p_status p = CLOSED \<or> cr_fill_qty r \<le> 0 \<Longrightarrow>
    close_finish cfg ck y reason full r s = s"
  by (auto simp: close_finish_def)

lemma close_finish_exec [simp]:
  "sv_exec (close_finish cfg ck y reason full r s) = sv_exec s"
  by (auto simp: close_finish_def Let_def set_pos_def split: option.split)

lemma mark_flat_exec [simp]:
  "sv_exec (mark_exchange_already_flat cfg ck y reason bid ask s) = sv_exec s"
  by (auto simp: mark_exchange_already_flat_def Let_def set_pos_def split: option.split)

text \<open>Neither end of a close touches the claims, and only the position of the symbol changes.\<close>

lemma close_finish_frame:
  assumes "registry_ok (sv_state s)"
  shows "rs_position_update_symbols (sv_state (close_finish cfg ck y reason full r s)) =
      rs_position_update_symbols (sv_state s) \<and>
    (\<forall>z. z \<noteq> y \<longrightarrow> pos_of (close_finish cfg ck y reason full r s) z = pos_of s z) \<and>
    registry_ok (sv_state (close_finish cfg ck y reason full r s))"
proof (cases "\<exists>p. pos_of s y = Some p \<and> p_status p \<noteq> CLOSED \<and> 0 < cr_fill_qty r")
  case True
  then obtain p where p: "pos_of s y = Some p" "p_status p \<noteq> CLOSED" "0 < cr_fill_qty r" by blast
  have y: "p_symbol p = y"
    using get_position_symbol [OF assms] p(1) by (simp add: pos_of_def)
  have st: "sv_state (close_finish cfg ck y reason full r s) =
      put_position y (close_fill (ck_wall ck) reason full r p) (sv_state s)"
    by (rule close_finish_state [OF assms p])
  have "registry_ok (put_position y (close_fill (ck_wall ck) reason full r p) (sv_state s))"
    using registry_ok_put [OF assms, of "close_fill (ck_wall ck) reason full r p"] y by simp
  then show ?thesis by (simp add: st pos_of_def put_position_updates)
next
  case False
  then have "close_finish cfg ck y reason full r s = s"
    by (auto simp: close_finish_def split: option.split)
  then show ?thesis using assms by simp
qed

lemma mark_flat_frame:
  assumes "registry_ok (sv_state s)"
  shows "rs_position_update_symbols (sv_state (mark_exchange_already_flat cfg ck y reason bid ask s)) =
      rs_position_update_symbols (sv_state s) \<and>
    (\<forall>z. z \<noteq> y \<longrightarrow> pos_of (mark_exchange_already_flat cfg ck y reason bid ask s) z = pos_of s z) \<and>
    registry_ok (sv_state (mark_exchange_already_flat cfg ck y reason bid ask s))"
proof (cases "\<exists>p. pos_of s y = Some p \<and> p_status p \<noteq> CLOSED")
  case True
  then obtain p where p: "pos_of s y = Some p" "p_status p \<noteq> CLOSED" by blast
  have y: "p_symbol p = y"
    using get_position_symbol [OF assms] p(1) by (simp add: pos_of_def)
  let ?p' = "p\<lparr> p_realized_pnl := dadd (p_realized_pnl p)
        (dmul (dmul (dsub (estimated_flat_exit_price p bid ask) (p_avg_entry_price p)) (p_qty p))
          (direction_of (p_side p))),
      p_qty := 0, p_status := CLOSED, p_closed_at := Some (ck_wall ck), p_exit_reason := reason \<rparr>"
  have st: "sv_state (mark_exchange_already_flat cfg ck y reason bid ask s) =
      put_position y ?p' (sv_state s)"
    using p y by (simp add: mark_exchange_already_flat_def Let_def set_pos_def)
  show ?thesis
    using registry_ok_put [OF assms, of ?p'] y by (simp add: st pos_of_def put_position_updates)
next
  case False
  then have "mark_exchange_already_flat cfg ck y reason bid ask s = s"
    by (auto simp: mark_exchange_already_flat_def split: option.split)
  then show ?thesis using assms by simp
qed

section \<open>Closing, from the contract\<close>

text \<open>The book after one operation on the symbol \<open>y\<close>: the registry is still one, the claims are as
  before, and every other symbol's position is the same.\<close>

definition touches_only :: "string \<Rightarrow> 'x service \<Rightarrow> 'x service \<Rightarrow> bool" where
  "touches_only y s s' \<longleftrightarrow>
    (registry_ok (sv_state s) \<longrightarrow> updates_ok (sv_state s) \<longrightarrow>
      registry_ok (sv_state s') \<and> updates_ok (sv_state s') \<and>
      updates_in_flight (sv_state s') = updates_in_flight (sv_state s) \<and>
      (\<forall>z. z \<noteq> y \<longrightarrow> pos_of s' z = pos_of s z))"

interpretation only: two_state "touches_only y" for y
  by unfold_locales (auto simp: touches_only_def)

lemma same_book_touches: "same_book s s' \<Longrightarrow> touches_only y s s'"
  using same_book_flight [of s s'] same_book_pos [of s s']
  by (auto simp: touches_only_def same_book_def registry_ok_def)

lemma keeps_book_only: "book.keeps m \<Longrightarrow> only.keeps y m"
  by (simp add: book.keeps_def only.keeps_def same_book_touches)

lemma close_finish_only: "touches_only y s (close_finish cfg ck y reason full r s)"
  using close_finish_frame [of s cfg ck y reason full r]
  by (auto simp: touches_only_def updates_ok_def updates_in_flight_def)

lemma mark_flat_only: "touches_only y s (mark_exchange_already_flat cfg ck y reason bid ask s)"
  using mark_flat_frame [of s cfg ck y reason bid ask]
  by (auto simp: touches_only_def updates_ok_def updates_in_flight_def)

text \<open>A computation between \<open>begin_position_update\<close> and the \<open>finally\<close> that ends it.\<close>

lemma bracket_only:
  assumes "only.keeps y m"
  shows "only.keeps y (then_do (modify (upd_state (begin_position_update z)))
    (try_finally m (upd_state (end_position_update z))))"
proof (rule only.keepsI)
  fix s s' r
  assume run: "then_do (modify (upd_state (begin_position_update z)))
    (try_finally m (upd_state (end_position_update z))) s = (s', r)"
  let ?s1 = "upd_state (begin_position_update z) s"
  obtain s2 r2 where m: "m ?s1 = (s2, r2)" by fastforce
  have s': "s' = upd_state (end_position_update z) s2"
    using run by (simp add: try_finally_def m)
  have step: "touches_only y ?s1 s2" using only.keepsD [OF assms m] .
  show "touches_only y s s'"
  proof (unfold touches_only_def, intro impI)
    assume ok: "registry_ok (sv_state s)" "updates_ok (sv_state s)"
    have in1: "updates_ok (sv_state ?s1)"
      "updates_in_flight (sv_state ?s1) = add_mset z (updates_in_flight (sv_state s))"
      using claim.inv_acquire claim.claimed_acquire ok(2) by simp_all
    have s2: "registry_ok (sv_state s2)" "updates_ok (sv_state s2)"
      "updates_in_flight (sv_state s2) = add_mset z (updates_in_flight (sv_state s))"
      "\<forall>w. w \<noteq> y \<longrightarrow> pos_of s2 w = pos_of s w"
      using step ok(1) in1 by (simp_all add: touches_only_def)
    show "registry_ok (sv_state s') \<and> updates_ok (sv_state s') \<and>
        updates_in_flight (sv_state s') = updates_in_flight (sv_state s) \<and>
        (\<forall>w. w \<noteq> y \<longrightarrow> pos_of s' w = pos_of s w)"
      using s2 claim.inv_release claim.claimed_release by (simp add: s')
  qed
qed

context executor
begin

lemma close_body_only: "only.keeps (p_symbol p) (close_body io cfg ck p qty reason bid ask full pl)"
proof (rule only.keepsI)
  fix s s' r
  assume "close_body io cfg ck p qty reason bid ask full pl s = (s', r)"
  then obtain s1 r1 where c: "po_close io (close_args_of p qty bid ask pl) s = (s1, r1)"
    and s': "s' \<in> {s1, close_finish cfg ck (p_symbol p) reason full (projr r1) s1,
              mark_exchange_already_flat cfg ck (p_symbol p) reason bid ask s1}"
    by (fastforce simp: close_body_def split: prod.splits sum.splits if_splits)
  have "touches_only (p_symbol p) s s1"
    by (rule same_book_touches) (rule book.keepsD [OF close_book c])
  then show "touches_only (p_symbol p) s s'"
    using s' close_finish_only mark_flat_only only.R_trans by fastforce
qed

lemma close_pos_only: "only.keeps (p_symbol p) (close_pos io cfg ck p qty reason bid ask full pl)"
  unfolding close_pos_def by (intro bracket_only close_body_only)

lemma close_position_only: "only.keeps y (close_position io cfg ck y bid ask reason pct)"
proof (rule only.keepsI)
  fix s s' r
  assume run: "close_position io cfg ck y bid ask reason pct s = (s', r)"
  show "touches_only y s s'"
  proof (cases "registry_ok (sv_state s)")
    case ok: True
    show ?thesis
    proof (cases "pos_of s y")
      case None
      then show ?thesis using run by (simp add: close_position_def only.R_refl)
    next
      case (Some p)
      have y: "p_symbol p = y"
        using get_position_symbol [OF ok] Some by (simp add: pos_of_def)
      have "only.keeps y (and_then (close_pos io cfg ck p q (Some reason) bid ask f False) (\<lambda>_. ret True))" for q f
        using close_pos_only [of p cfg ck q "Some reason" bid ask f False] y
        by (intro only.keeps_and_then) auto
      note k = only.keepsD [OF this]
      show ?thesis
        using run Some k by (auto simp: close_position_def Let_def only.R_refl split: if_splits)
    qed
  qed (simp add: touches_only_def)
qed

end

end
