(* ===== verification/Trading_Close_Facts.thy ===== *)
theory Trading_Close_Facts
  imports Trading_Executors
begin

text \<open>
  The paper executor (\<^verbatim>\<open>PaperExecutor\<close>) as an implementation of the executor contract, and what
  closing a position guarantees.
\<close>

section \<open>The paper executor\<close>

definition run_market :: "string \<Rightarrow> side \<Rightarrow> dec \<Rightarrow> dec \<Rightarrow> dec \<Rightarrow> (paper_engine service, paper_fill) action" where
  "run_market y sd qty bid ask s =
    (let (e, f) = execute_market y sd qty bid ask (sv_exec s) in (s\<lparr> sv_exec := e \<rparr>, Inr f))"

definition paper_open :: "open_args \<Rightarrow> (paper_engine service, open_result) action" where
  "paper_open a =
    and_then (run_market (oa_symbol a) (oa_side a) (oa_qty a) (oa_best_bid a) (oa_best_ask a))
      (\<lambda>f. ret \<lparr> op_ok = True, op_fill_price = pf_price f, op_fill_qty = oa_qty a, op_fee = pf_fee f,
                op_reason = [] \<rparr>)"

definition paper_close :: "close_args \<Rightarrow> (paper_engine service, close_result) action" where
  "paper_close a =
    and_then (run_market (ca_symbol a) (ca_side a) (ca_qty a) (ca_best_bid a) (ca_best_ask a))
      (\<lambda>f. ret \<lparr> cr_fill_price = pf_price f, cr_fill_qty = ca_qty a, cr_fee = pf_fee f,
                cr_realized = Some (pf_realized_pnl f) \<rparr>)"

text \<open>PAPER mode has no protection manager (\<open>self._protection is None\<close>); the order book comes from the
  market data, a parameter here.\<close>

definition paper_ports :: "order_book \<times> int option \<Rightarrow> paper_engine ports" where
  "paper_ports ob = \<lparr> po_open = paper_open, po_close = paper_close, po_protect = (\<lambda>_. throw TypeError),
    po_sync_stop_loss = (\<lambda>_. throw TypeError), po_orderbook = ret ob \<rparr>"

lemma run_market_book: "book.keeps (run_market y sd qty bid ask)"
  by (rule book.keepsI) (auto simp: run_market_def same_book_def split: prod.splits)

interpretation paper: executor "paper_ports ob"
proof
  show "book.keeps (po_close (paper_ports ob) a)" for a
    by (simp add: paper_ports_def paper_close_def book.keeps_and_then run_market_book)
  show "book.keeps (po_open (paper_ports ob) b)" for b
    by (simp add: paper_ports_def paper_open_def book.keeps_and_then run_market_book)
  show "book.keeps (po_orderbook (paper_ports ob))"
    by (simp add: paper_ports_def)
qed

section \<open>What a close does to the position\<close>

lemma close_pos_result:
  assumes "po_close io (close_args_of p qty bid ask pl)
      (upd_state (begin_position_update (p_symbol p)) s) = (s1, Inr r)"
  shows "close_pos io cfg ck p qty reason bid ask full pl s =
    (upd_state (end_position_update (p_symbol p)) (close_finish cfg ck (p_symbol p) reason full r s1), Inr ())"
  by (simp add: close_pos_def try_finally_def close_body_def assms)

text \<open>The profit of a fill, written out for each side: what a long position sold above its entry price
  gains, and what a short position bought back below it gains.\<close>

lemma realized_by_side:
  "realized_of_fill p r =
    (case cr_realized r of
       Some x \<Rightarrow> x
     | None \<Rightarrow>
         if p_side p = LONG then dmul (dsub (cr_fill_price r) (p_avg_entry_price p)) (cr_fill_qty r)
         else dmul (dsub (p_avg_entry_price p) (cr_fill_price r)) (cr_fill_qty r))"
proof -
  have "dmul (dmul x q) 1 = dmul x q" "dmul (dmul x q) (- 1) = dmul (- x) q" for x q
    using dround_minus [of "dround (x * q)"] dround_minus [of "x * q"] by (simp_all add: dmul_def dround_idem)
  moreover have "- dsub x y = dsub y x" for x y
    using dround_minus [of "x - y"] by (simp add: dsub_def)
  ultimately show ?thesis
    by (cases "p_side p") (simp_all add: realized_of_fill_def direction_of_def split: option.split)
qed

text \<open>C29. A close books exactly what was filled: the quantity of the position falls by the filled quantity,
  its fees grow by those of the fill and its realised profit by the profit of the fill, the one the
  executor reports or else (fill price - entry price) times the quantity for a long position and
  (entry price - fill price) times the quantity for a short one; and the position is closed with
  the reason if and only if the whole position was to be closed or nothing is left. Without
  a fill nothing is booked.\<close>

theorem close_books_fill:
  assumes "registry_ok (sv_state s)" "pos_of s y = Some p" "p_status p \<noteq> CLOSED"
    and "book.keeps (po_close io (close_args_of p qty bid ask pl))"
    and "po_close io (close_args_of p qty bid ask pl) (upd_state (begin_position_update y) s) = (s1, Inr r)"
    and "close_pos io cfg ck p qty reason bid ask full pl s = (s', res)"
  shows "res = Inr () \<and>
    (\<exists>p'. pos_of s' y = Some p' \<and>
      (if cr_fill_qty r \<le> 0 then p' = p
       else p_qty p' = dsub (p_qty p) (cr_fill_qty r) \<and>
         p_realized_pnl p' = dadd (p_realized_pnl p)
           (case cr_realized r of
              Some x \<Rightarrow> x
            | None \<Rightarrow>
                if p_side p = LONG then dmul (dsub (cr_fill_price r) (p_avg_entry_price p)) (cr_fill_qty r)
                else dmul (dsub (p_avg_entry_price p) (cr_fill_price r)) (cr_fill_qty r)) \<and>
         p_fees_paid p' = dadd (p_fees_paid p) (cr_fee r) \<and>
         (p_status p' = CLOSED \<longleftrightarrow> full \<or> p_qty p' \<le> 0) \<and>
         (p_status p' = CLOSED \<longrightarrow> p_exit_reason p' = reason \<and> p_closed_at p' = Some (ck_wall ck))))"
proof -
  have y: "p_symbol p = y"
    using get_position_symbol [OF assms(1)] assms(2) by (simp add: pos_of_def)
  have fin: "s' = upd_state (end_position_update y) (close_finish cfg ck y reason full r s1)" "res = Inr ()"
    using assms(6) close_pos_result [of io p qty bid ask pl s s1 r cfg ck reason full] assms(5) y by simp_all
  have same: "same_book (upd_state (begin_position_update y) s) s1"
    by (rule book.keepsD [OF assms(4,5)])
  have p1: "pos_of s1 y = Some p" and reg: "registry_ok (sv_state s1)"
    using same_book_pos [OF same, of y] same assms(1,2)
    by (simp_all add: same_book_def registry_ok_def begin_position_update_def)
  show ?thesis
  proof (cases "cr_fill_qty r \<le> 0")
    case True
    then show ?thesis using fin p1 close_finish_idle [OF p1] by simp
  next
    case False
    have "pos_of (close_finish cfg ck y reason full r s1) y = Some (close_fill (ck_wall ck) reason full r p)"
      using close_finish_state [OF reg p1 assms(3)] False by (simp add: pos_of_def)
    then show ?thesis
      unfolding realized_by_side [symmetric]
      using False fin close_fill_status [OF assms(3)] assms(3)
      by (auto simp: close_fill_def Let_def split: if_splits)
  qed
qed

text \<open>Closing never leaves an update open: whatever the executor does, whether it fills, fails or
  reports that the exchange is flat, afterwards exactly the updates in flight before are in
  flight, the registry is well formed and no other symbol's position has changed.\<close>

theorem close_releases_update:
  assumes "registry_ok (sv_state s)" "updates_ok (sv_state s)"
    and "close_position (paper_ports ob) cfg ck y bid ask reason pct s = (s', r)"
  shows "registry_ok (sv_state s') \<and> updates_in_flight (sv_state s') = updates_in_flight (sv_state s) \<and>
    (\<forall>z. z \<noteq> y \<longrightarrow> pos_of s' z = pos_of s z)"
  using only.keepsD [OF paper.close_position_only assms(3)] assms(1,2) by (simp add: touches_only_def)

text \<open>A closed position is closed once: a later answer of the executor, or a later report that the
  exchange is flat, changes nothing, publishes nothing and records no second result with the
  cooldown or the kill switch.\<close>

theorem closed_stays_closed:
  assumes "pos_of s y = Some p" "p_status p = CLOSED"
  shows "close_finish cfg ck y reason full r s = s \<and>
    mark_exchange_already_flat cfg ck y reason bid ask s = s"
  using assms by (simp add: close_finish_def mark_exchange_already_flat_def)

section \<open>The position and the simulated exchange\<close>

text \<open>The abstract view of a symbol: the signed quantity held. The service computes it from its
  position, the paper engine from its net position.\<close>

definition held_qty :: "'x service \<Rightarrow> string \<Rightarrow> dec" where
  "held_qty s y =
    (case pos_of s y of
       None \<Rightarrow> 0
     | Some p \<Rightarrow> if p_status p = CLOSED then 0 else if p_side p = LONG then p_qty p else - p_qty p)"

definition mirrors :: "paper_engine service \<Rightarrow> string \<Rightarrow> bool" where
  "mirrors s y \<longleftrightarrow> fst (paper_position (sv_exec s) y) = held_qty s y"

lemma run_market_net:
  assumes "run_market y sd qty bid ask s = (s', Inr f)" "is_dec qty"
  shows "fst (paper_position (sv_exec s') y) =
    dround (fst (paper_position (sv_exec s) y) + (if sd = BUY then qty else - qty))"
  using assms
  by (auto simp: run_market_def execute_market_def paper_apply_def paper_position_def Let_def
      dadd_def dneg_def is_decD is_dec_minus get_or_def split: prod.splits)

lemma run_market_ok: "\<exists>s' f. run_market y sd qty bid ask s = (s', Inr f)"
  by (simp add: run_market_def split: prod.split)

text \<open>The invariant of PAPER mode for a symbol.\<close>

definition paper_ok :: "string \<Rightarrow> paper_engine service \<Rightarrow> bool" where
  "paper_ok y s \<longleftrightarrow> sv_mode s = PAPER \<and> registry_ok (sv_state s) \<and> mirrors s y \<and>
    (case pos_of s y of None \<Rightarrow> True | Some p \<Rightarrow> is_dec (p_qty p) \<and> 0 \<le> p_qty p)"

lemma close_finish_mode [simp]: "sv_mode (close_finish cfg ck y reason full r s) = sv_mode s"
  by (auto simp: close_finish_def Let_def set_pos_def close_log_def start_post_exit_mfe_def
      record_closed_def upd_kill_def upd_cooldown_def split: option.split)

text \<open>A close, full or partial, keeps the invariant and always succeeds.\<close>

lemma paper_close_step:
  assumes "paper_ok y s" "pos_of s y = Some p" "p_status p \<noteq> CLOSED"
    and "is_dec qty" "0 \<le> qty" "qty \<le> p_qty p" "full \<longrightarrow> qty = p_qty p"
    and "close_pos (paper_ports ob) cfg ck p qty reason bid ask full pl s = (s', res)"
  shows "res = Inr () \<and> paper_ok y s' \<and> (\<exists>p'. pos_of s' y = Some p' \<and> p_side p' = p_side p)"
proof -
  have reg0: "registry_ok (sv_state s)" and mode: "sv_mode s = PAPER" and mir: "mirrors s y"
    and dec: "is_dec (p_qty p)" "0 \<le> p_qty p"
    using assms(1,2) by (simp_all add: paper_ok_def)
  have y: "p_symbol p = y"
    using get_position_symbol [OF reg0] assms(2) by (simp add: pos_of_def)
  let ?s0 = "upd_state (begin_position_update y) s"
  obtain s1 f where run: "run_market y (exit_side p) qty bid ask ?s0 = (s1, Inr f)"
    using run_market_ok by blast
  let ?r = "\<lparr> cr_fill_price = pf_price f, cr_fill_qty = qty, cr_fee = pf_fee f,
      cr_realized = Some (pf_realized_pnl f) \<rparr>"
  have cl: "po_close (paper_ports ob) (close_args_of p qty bid ask pl) ?s0 = (s1, Inr ?r)"
    by (simp add: paper_ports_def paper_close_def close_args_of_def y and_then_def run)
  have fin: "s' = upd_state (end_position_update y) (close_finish cfg ck y reason full ?r s1)" "res = Inr ()"
    using assms(8) close_pos_result [of "paper_ports ob" p qty bid ask pl s s1 ?r] cl y by simp_all
  have same: "same_book ?s0 s1" by (rule book.keepsD [OF run_market_book run])
  have p1: "pos_of s1 y = Some p" and reg: "registry_ok (sv_state s1)"
    using same_book_pos [OF same, of y] same assms(2) reg0
    by (simp_all add: same_book_def registry_ok_def begin_position_update_def)
  have mode1: "sv_mode s1 = PAPER"
    using run mode by (auto simp: run_market_def upd_state_def split: prod.splits)
  have net: "fst (paper_position (sv_exec s') y) =
      dround (held_qty s y + (if exit_side p = BUY then qty else - qty))"
    using run_market_net [OF run assms(4)] mir fin by (simp add: mirrors_def)
  have neg: "dround (qty - p_qty p) = - dround (p_qty p - qty)"
    using dround_minus [of "p_qty p - qty"] by simp
  have regF: "registry_ok (sv_state s')"
    using close_finish_frame [OF reg, of cfg ck y reason full ?r] fin by simp
  have modeF: "sv_mode s' = PAPER" using mode1 fin by (simp add: upd_state_def)
  show ?thesis
  proof (cases "qty = 0")
    case True
    then have pF: "pos_of s' y = Some p"
      using close_finish_idle [OF p1, of ?r] fin p1 by simp
    have "mirrors s' y"
      using net pF True assms(2,3) dec(1) is_decD [OF is_dec_minus [OF dec(1)]]
      by (auto simp: mirrors_def held_qty_def is_decD)
    then show ?thesis using pF regF modeF dec fin(2) by (simp add: paper_ok_def)
  next
    case False
    let ?p' = "close_fill (ck_wall ck) reason full ?r p"
    have pF: "pos_of s' y = Some ?p'"
      using close_finish_state [OF reg p1 assms(3)] assms(5) False fin by (simp add: pos_of_def)
    have "p_status ?p' = CLOSED \<longleftrightarrow> qty = p_qty p"
      using close_fill_status [OF assms(3), of "ck_wall ck" reason full ?r] assms(6,7)
      by (auto simp: dsub_def)
    then have "mirrors s' y"
      using net neg pF assms(2,3) by (cases "p_side p") (auto simp: mirrors_def held_qty_def exit_side_def dsub_def)
    then show ?thesis using pF regF modeF assms(6) fin(2) by (simp add: paper_ok_def dsub_def)
  qed
qed

section \<open>Examples\<close>

definition ex_pos :: position where
  "ex_pos = (new_position ''BTC'' LONG 2 100 0)\<lparr> p_status := ACTIVE \<rparr>"

definition ex_paper_service :: "paper_engine service" where
  "ex_paper_service = \<lparr> sv_mode = PAPER, sv_state = put_position ''BTC'' ex_pos new_runtime_state,
    sv_positions = new_pm_state, sv_entry = new_entry_engine, sv_guards = ex_guards,
    sv_has_protection = False, sv_has_logger = False, sv_has_events = True, sv_post_exit_mfe = [],
    sv_effects = [], sv_exec = ex_paper \<rparr>"

lemma ex_paper_facts:
  "registry_ok (sv_state ex_paper_service)" "updates_ok (sv_state ex_paper_service)"
  "pos_of ex_paper_service ''BTC'' = Some ex_pos" "p_status ex_pos \<noteq> CLOSED" "p_qty ex_pos = 2"
  "p_symbol ex_pos = ''BTC''" "mirrors ex_paper_service ''BTC''" "is_dec 2"
  "paper_ok ''BTC'' ex_paper_service"
proof -
  have sym: "p_symbol ex_pos = ''BTC''" by (simp add: ex_pos_def new_position_def)
  then show "p_symbol ex_pos = ''BTC''" .
  show reg: "registry_ok (sv_state ex_paper_service)"
    using registry_ok_put [OF registry_ok_new, of ex_pos] sym by (simp add: ex_paper_service_def)
  show "updates_ok (sv_state ex_paper_service)"
    by (simp add: ex_paper_service_def put_position_def updates_ok_def new_runtime_state_def)
  show pos: "pos_of ex_paper_service ''BTC'' = Some ex_pos"
    by (simp add: ex_paper_service_def pos_of_def)
  show st: "p_status ex_pos \<noteq> CLOSED" and q: "p_qty ex_pos = 2"
    by (simp_all add: ex_pos_def new_position_def)
  show mir: "mirrors ex_paper_service ''BTC''"
    using pos st q
    by (simp add: mirrors_def held_qty_def paper_position_def ex_paper_service_def ex_paper_def get_or_def
        ex_pos_def new_position_def)
  show two: "is_dec 2" using is_dec_int [of 2] by (simp add: prec_hi_def)
  show "paper_ok ''BTC'' ex_paper_service"
    using mir reg pos q two by (simp add: paper_ok_def) (simp add: ex_paper_service_def)
qed

abbreviation ex_close :: "bool \<Rightarrow> dec \<Rightarrow> paper_engine service \<times> unit result" where
  "ex_close full q \<equiv> close_pos (paper_ports (\<lparr> ob_symbol = [], ob_bids = [], ob_asks = [], ob_ts_ms = 0 \<rparr>, None))
    default_app_config \<lparr> ck_mono = 0, ck_wall = 5 \<rparr> ex_pos q (Some MANUAL_CLOSE) 110 111 full False ex_paper_service"

lemma close_books_fill_witness:
  "\<exists>p'. pos_of (fst (ex_close False 1)) ''BTC'' = Some p' \<and> p_qty p' = dsub 2 1 \<and> p_status p' \<noteq> CLOSED"
proof -
  let ?io = "paper_ports (\<lparr> ob_symbol = [], ob_bids = [], ob_asks = [], ob_ts_ms = 0 \<rparr>, None)"
  obtain s' res where run: "ex_close False 1 = (s', res)" by fastforce
  obtain s1 f where m: "run_market ''BTC'' SELL 1 110 111 (upd_state (begin_position_update ''BTC'') ex_paper_service)
      = (s1, Inr f)"
    using run_market_ok by blast
  have side: "exit_side ex_pos = SELL" by (simp add: exit_side_def ex_pos_def new_position_def)
  have cl: "po_close ?io (close_args_of ex_pos 1 110 111 False)
      (upd_state (begin_position_update ''BTC'') ex_paper_service) =
      (s1, Inr \<lparr> cr_fill_price = pf_price f, cr_fill_qty = 1, cr_fee = pf_fee f,
        cr_realized = Some (pf_realized_pnl f) \<rparr>)"
    by (simp add: paper_ports_def paper_close_def close_args_of_def ex_paper_facts(6) side and_then_def m)
  have one: "\<not> dsub 2 1 \<le> 0" by (simp add: dsub_def)
  from close_books_fill [OF ex_paper_facts(1,3,4) paper.close_book cl run] ex_paper_facts(5) one
  show ?thesis unfolding run by auto
qed

lemma close_releases_update_witness:
  "\<exists>s' r. close_position (paper_ports (\<lparr> ob_symbol = [], ob_bids = [], ob_asks = [], ob_ts_ms = 0 \<rparr>, None))
      default_app_config \<lparr> ck_mono = 0, ck_wall = 5 \<rparr> ''BTC'' 110 111 MANUAL_CLOSE 50 ex_paper_service = (s', r) \<and>
    updates_in_flight (sv_state s') = updates_in_flight (sv_state ex_paper_service)"
proof -
  obtain s' r where run: "close_position (paper_ports (\<lparr> ob_symbol = [], ob_bids = [], ob_asks = [], ob_ts_ms = 0 \<rparr>, None))
      default_app_config \<lparr> ck_mono = 0, ck_wall = 5 \<rparr> ''BTC'' 110 111 MANUAL_CLOSE 50 ex_paper_service = (s', r)"
    by fastforce
  from close_releases_update [OF ex_paper_facts(1,2) run] run show ?thesis by blast
qed

lemma closed_stays_closed_witness:
  "close_finish default_app_config \<lparr> ck_mono = 0, ck_wall = 5 \<rparr> ''BTC'' None True
     \<lparr> cr_fill_price = 1, cr_fill_qty = 2, cr_fee = 0, cr_realized = None \<rparr>
     (set_pos (ex_pos\<lparr> p_status := CLOSED \<rparr>) ex_paper_service) =
   set_pos (ex_pos\<lparr> p_status := CLOSED \<rparr>) ex_paper_service"
  using closed_stays_closed [of "set_pos (ex_pos\<lparr> p_status := CLOSED \<rparr>) ex_paper_service" "''BTC''"
      "ex_pos\<lparr> p_status := CLOSED \<rparr>"] ex_paper_facts(6)
  by simp

section \<open>Two shortcomings\<close>

text \<open>A full close that fills only in part is booked as closed, with the rest of the quantity still
  on it: the bot stops managing what is left on the exchange.\<close>

lemma full_close_drops_remainder:
  assumes "p_status p \<noteq> CLOSED" "cr_fill_qty r < p_qty p"
  shows "p_status (close_fill now reason True r p) = CLOSED \<and> 0 < p_qty (close_fill now reason True r p)"
  using assms close_fill_status [OF assms(1), of now reason True r] by (simp add: dsub_def)

text \<open>The trade log's net profit is the realised profit, which the fees have not been taken from, and
  its gross profit adds the fees; the daily figure of \<open>compute_pnl\<close> subtracts them.\<close>

lemma trade_net_ignores_fees:
  "tl_net_pnl (trade_of mode p q x reason) = p_realized_pnl p \<and>
   pn_net (compute_pnl [p\<lparr> p_status := CLOSED \<rparr>] Map.empty 0) =
     dsub (dsub (dadd (dadd 0 (p_realized_pnl p)) 0) (dadd 0 (p_fees_paid p))) 0"
  by (simp add: trade_of_def compute_pnl_def pnl_step_def)

end
