(* ===== verification/Trading_Manage.thy ===== *)
theory Trading_Manage
  imports Trading_Close_Facts
begin

text \<open>
  Managing an open position (\<^verbatim>\<open>apps/bot/workers/trading_pipeline.py\<close>: \<^verbatim>\<open>manage\<close>,
  \<^verbatim>\<open>_sync_trailing_stop\<close>, \<^verbatim>\<open>_emit_scout_action\<close>): the funding reduction, the position manager's
  evaluation, and the execution of the actions it asks for, in order.
\<close>

section \<open>Events and the exchange stop\<close>

definition emit_scout_action :: "string \<Rightarrow> position_action \<Rightarrow> ('x service, unit) action" where
  "emit_scout_action y a =
    (case pa_event_type a of
       None \<Rightarrow> ret ()
     | Some e \<Rightarrow>
         and_then (lift_res (bot_event_type_of e))
           (\<lambda>t. modify (emit (data_event t y (drop_none (case pa_data a of None \<Rightarrow> [] | Some d \<Rightarrow> d))))))"

text \<open>The current position of the symbol; a position is never removed from the registry, so the
  \<open>None\<close> branch is not reached from \<open>manage\<close>.\<close>

definition upd_pos :: "string \<Rightarrow> (position \<Rightarrow> position) \<Rightarrow> 'x service \<Rightarrow> 'x service" where
  "upd_pos y f s = (case pos_of s y of None \<Rightarrow> s | Some p \<Rightarrow> set_pos (f p) s)"

definition sync_trailing_stop :: "'x ports \<Rightarrow> string \<Rightarrow> position_action \<Rightarrow> ('x service, unit) action" where
  "sync_trailing_stop io y a s =
    (if sv_mode s \<noteq> LIVE \<or> \<not> sv_has_protection s then (s, Inr ())
     else
       let data = (case pa_data a of None \<Rightarrow> [] | Some d \<Rightarrow> d) in
       case pos_of s y of
         None \<Rightarrow> (s, Inr ())
       | Some p \<Rightarrow>
           if p_runner_mode_active p
           then
             (case po_sync_stop_loss io y s of
                (s1, Inl e) \<Rightarrow>
                  let n = (case pos_of s1 y of None \<Rightarrow> 0 | Some q \<Rightarrow> p_runner_exchange_sl_update_failures q) + 1;
                      s2 = upd_pos y (\<lambda>q. q\<lparr> p_runner_exchange_sl_update_failures := n \<rparr>) s1
                  in (emit \<lparr> be_type = EV_RUNNER_EXCHANGE_SL_UPDATE_FAILED, be_symbol = Some y,
                        be_message = ''Runner exchange SL update failed'',
                        be_data = drop_none (dict_update data
                          [(''consecutive_failures'', PInt n), (''error'', PStr (err_text e))]) \<rparr> s2, Inr ())
              | (s1, Inr synced) \<Rightarrow>
                  if synced
                  then (emit (data_event EV_RUNNER_EXCHANGE_SL_UPDATED y (drop_none data))
                         (upd_pos y (\<lambda>q. q\<lparr> p_runner_exchange_sl_update_failures := 0 \<rparr>) s1), Inr ())
                  else (s1, Inr ()))
           else and_then (po_sync_stop_loss io y) (\<lambda>_. ret ()) s)"

section \<open>The actions\<close>

datatype managed = Funding_Reduce dec | Acted position_action

text \<open>Closing part of the symbol's position, as it is now.\<close>

definition close_part ::
  "'x ports \<Rightarrow> app_config \<Rightarrow> clocks \<Rightarrow> dec \<Rightarrow> dec \<Rightarrow> string \<Rightarrow> dec option \<Rightarrow> exit_reason option \<Rightarrow> bool \<Rightarrow>
   ('x service, unit) action" where
  "close_part io cfg ck bid ask y qty reason prefer_limit s =
    (case (pos_of s y, qty) of
       (Some p, Some q) \<Rightarrow> close_pos io cfg ck p q reason bid ask False prefer_limit s
     | _ \<Rightarrow> (s, Inl TypeError))"

definition close_whole ::
  "'x ports \<Rightarrow> app_config \<Rightarrow> clocks \<Rightarrow> dec \<Rightarrow> dec \<Rightarrow> string \<Rightarrow> exit_reason option \<Rightarrow> ('x service, unit) action" where
  "close_whole io cfg ck bid ask y reason s =
    (case pos_of s y of
       Some p \<Rightarrow> close_pos io cfg ck p (p_qty p) reason bid ask True False s
     | None \<Rightarrow> (s, Inl TypeError))"

definition runner_followup :: "'x ports \<Rightarrow> string \<Rightarrow> position_action \<Rightarrow> ('x service, unit) action" where
  "runner_followup io y a =
    (if pa_type a = SCOUT_EVENT then emit_scout_action y a
     else if pa_type a = TRAIL_UPDATE then sync_trailing_stop io y a
     else ret ())"

definition start_runner :: "'x ports \<Rightarrow> app_config \<Rightarrow> bar_input \<Rightarrow> string \<Rightarrow> dec \<Rightarrow> ('x service, managed list) action" where
  "start_runner io cfg b y prev_qty s =
    (case pos_of s y of
       None \<Rightarrow> (s, Inr [])
     | Some p \<Rightarrow>
         if p_status p \<noteq> CLOSED \<and> p_qty p < prev_qty
         then
           let (m', p', acts) = activate_runner_after_partial_tp cfg b (sv_positions s) p;
               s1 = set_pos p' (s\<lparr> sv_positions := m' \<rparr>)
           in and_then (for_each (runner_followup io y) acts) (\<lambda>_. ret (map Acted acts)) s1
         else (s, Inr []))"

definition run_action ::
  "'x ports \<Rightarrow> app_config \<Rightarrow> clocks \<Rightarrow> bar_input \<Rightarrow> dec \<Rightarrow> dec \<Rightarrow> string \<Rightarrow> position_action \<Rightarrow>
   ('x service, managed list) action" where
  "run_action io cfg ck b bid ask y a s =
    (case pa_type a of
       SCOUT_EVENT \<Rightarrow> and_then (emit_scout_action y a) (\<lambda>_. ret []) s
     | EXIT \<Rightarrow> and_then (close_whole io cfg ck bid ask y (pa_reason a)) (\<lambda>_. ret []) s
     | PARTIAL_TP \<Rightarrow>
         let prev_qty = (case pos_of s y of None \<Rightarrow> 0 | Some p \<Rightarrow> p_qty p) in
         and_then (close_part io cfg ck bid ask y (pa_qty a) (pa_reason a) True)
           (\<lambda>_. start_runner io cfg b y prev_qty) s
     | REDUCE \<Rightarrow>
         and_then (close_part io cfg ck bid ask y (pa_qty a) (pa_reason a) False)
           (\<lambda>_. and_then (emit_scout_action y a) (\<lambda>_. ret [])) s
     | TRAIL_UPDATE \<Rightarrow>
         and_then (sync_trailing_stop io y a)
           (\<lambda>_. and_then (modify (\<lambda>s2. case pos_of s2 y of
                    None \<Rightarrow> s2
                  | Some q \<Rightarrow> log_entry (LogPosition q (sv_mode s2) None (Some (position_protection_status cfg q))) s2))
              (\<lambda>_. ret []))
           (upd_pos y (\<lambda>p. p\<lparr> p_stop_loss_price := pa_new_stop a \<rparr>) s))"

fun run_actions ::
  "'x ports \<Rightarrow> app_config \<Rightarrow> clocks \<Rightarrow> bar_input \<Rightarrow> dec \<Rightarrow> dec \<Rightarrow> string \<Rightarrow> position_action list \<Rightarrow>
   ('x service, managed list) action" where
  "run_actions io cfg ck b bid ask y [] = ret []"
| "run_actions io cfg ck b bid ask y (a # as) =
    and_then (run_action io cfg ck b bid ask y a) (\<lambda>xs.
      and_then (run_actions io cfg ck b bid ask y as) (\<lambda>ys. ret (xs @ ys)))"

section \<open>The cycle\<close>

definition manage_bar ::
  "'x ports \<Rightarrow> app_config \<Rightarrow> clocks \<Rightarrow> bar_input \<Rightarrow> dec \<Rightarrow> dec \<Rightarrow> string \<Rightarrow> ('x service, managed list) action" where
  "manage_bar io cfg ck b bid ask y s =
    (case pos_of s y of
       None \<Rightarrow> (s, Inr [])
     | Some p \<Rightarrow>
         let (m', p', acts) = evaluate cfg b (sv_positions s) p;
             s1 = set_pos p' (s\<lparr> sv_positions := m' \<rparr>)
         in and_then (run_actions io cfg ck b bid ask y acts) (\<lambda>ys. ret (map Acted acts @ ys)) s1)"

definition manage ::
  "'x ports \<Rightarrow> app_config \<Rightarrow> clocks \<Rightarrow> bar_input \<Rightarrow> dec option \<Rightarrow> dec \<Rightarrow> dec \<Rightarrow> string \<Rightarrow>
   ('x service, managed list) action" where
  "manage io cfg ck b funding_rate bid ask y s =
    (case pos_of s y of
       None \<Rightarrow> (s, Inr [])
     | Some p \<Rightarrow>
         if \<not> is_bot_managed p \<or> p_status p \<noteq> ACTIVE then (s, Inr [])
         else if gs_funding_guard (sv_guards s) \<and>
                 should_reduce_position (cfg_funding_guard cfg) funding_rate (Some (p_side p))
         then
           let qty = dmul (p_qty p) (1 / 2) in
           and_then (close_pos io cfg ck p qty (Some FUNDING_GUARD) bid ask False False)
             (\<lambda>_ s1.
               if (case pos_of s1 y of None \<Rightarrow> True | Some q \<Rightarrow> p_qty q \<le> 0) then (s1, Inr [Funding_Reduce qty])
               else and_then (manage_bar io cfg ck b bid ask y) (\<lambda>ys. ret (Funding_Reduce qty # ys)) s1) s
         else manage_bar io cfg ck b bid ask y s)"

end
