(* ===== verification/Trading_Entry.thy ===== *)
theory Trading_Entry
  imports Trading_Manage
begin

text \<open>
  Opening a position (\<^verbatim>\<open>apps/bot/workers/trading_pipeline.py\<close>: \<^verbatim>\<open>evaluate_entry\<close>,
  \<^verbatim>\<open>_emit_no_entry\<close>), in the phases the code has: a signal and the first gate, the decision of the
  entry engine, the risk manager's approval, the second gate, the order and the new position with
  its protection inside the update bracket, and the logs and events of an opened position.
\<close>

section \<open>Arguments\<close>

record entry_args =
  ea_symbol :: string
  ea_snapshots :: "string \<rightharpoonup> indicator_snapshot"
  ea_candles_1m :: "candle list"
  ea_box_high :: dec
  ea_box_low :: dec
  ea_symbol_meta :: symbol_meta
  ea_equity :: dec
  ea_entry_price :: dec
  ea_best_bid :: dec
  ea_best_ask :: dec
  ea_market :: "market_context option"
  ea_has_orderbook_provider :: bool
  ea_daily_loss_percent :: dec
  ea_consecutive_losses :: int

text \<open>\<open>snapshots[key]\<close>.\<close>

definition snapshot_at :: "entry_args \<Rightarrow> string \<Rightarrow> indicator_snapshot result" where
  "snapshot_at a k = (case ea_snapshots a k of None \<Rightarrow> Inl (KeyError k) | Some sn \<Rightarrow> Inr sn)"

section \<open>Why nothing was opened\<close>

fun signal_direction_value :: "signal_direction \<Rightarrow> string" where
  "signal_direction_value SIG_LONG = ''LONG''"
| "signal_direction_value SIG_SHORT = ''SHORT''"
| "signal_direction_value SIG_EXIT = ''EXIT''"

definition payload_get :: "payload \<Rightarrow> string \<Rightarrow> pval \<Rightarrow> pval" where
  "payload_get d k dflt = (case map_of d k of None \<Rightarrow> dflt | Some v \<Rightarrow> v)"

definition opt_field :: "('a \<Rightarrow> dec option) \<Rightarrow> 'a option \<Rightarrow> pval" where
  "opt_field f s = opt_dec (case s of None \<Rightarrow> None | Some x \<Rightarrow> f x)"

definition distance_to_box_atr :: "entry_args \<Rightarrow> signal_direction \<Rightarrow> dec option" where
  "distance_to_box_atr a dir =
    (case ea_snapshots a ''1'' of
       None \<Rightarrow> None
     | Some s1 \<Rightarrow>
         (case is_atr14 s1 of
            None \<Rightarrow> None
          | Some atr \<Rightarrow>
              if 0 < atr
              then Some (ddiv (if dir = SIG_LONG then dsub (ea_box_high a) (is_close s1)
                               else dsub (is_close s1) (ea_box_low a)) atr)
              else None))"

definition ema_gap_15m :: "entry_args \<Rightarrow> dec option" where
  "ema_gap_15m a =
    (case ea_snapshots a ''15'' of
       None \<Rightarrow> None
     | Some s15 \<Rightarrow>
         (case (is_ema20 s15, is_ema50 s15) of
            (Some e20, Some e50) \<Rightarrow>
              if 0 < is_close s15 then Some (dmul (ddiv (dabs (dsub e20 e50)) (is_close s15)) 100) else None
          | _ \<Rightarrow> None))"

definition pending_status :: "retests \<Rightarrow> string \<Rightarrow> pval \<Rightarrow> pval" where
  "pending_status r y given =
    (if given = PNone \<or> given = PStr []
     then PStr (case r y of None \<Rightarrow> ''NONE'' | Some p \<Rightarrow> ''WAITING:'' @ int_str (pr_bars_waited p))
     else given)"

record no_entry_info =
  ne_failed_stage :: pval
  ne_reason_code :: pval
  ne_entry_mode_candidate :: pval
  ne_anti_chase_reason :: pval
  ne_breakout_quality_reason :: pval
  ne_retest_pending_status :: pval
  ne_extra :: payload

definition no_entry_info_of :: "string \<Rightarrow> string \<Rightarrow> no_entry_info" where
  "no_entry_info_of stage code =
    \<lparr> ne_failed_stage = PStr stage, ne_reason_code = PStr code, ne_entry_mode_candidate = PNone,
      ne_anti_chase_reason = PNone, ne_breakout_quality_reason = PNone,
      ne_retest_pending_status = PNone, ne_extra = [] \<rparr>"

definition pval_text :: "pval \<Rightarrow> string" where
  "pval_text v = (case v of PStr s \<Rightarrow> s | _ \<Rightarrow> [])"

definition no_entry_data :: "entry_args \<Rightarrow> signal \<Rightarrow> retests \<Rightarrow> no_entry_info \<Rightarrow> payload" where
  "no_entry_data a sig r i =
    (let s1 = ea_snapshots a ''1''; s5 = ea_snapshots a ''5''; s15 = ea_snapshots a ''15'' in
     dict_update
       [(''strategy_signal_side'', PStr (signal_direction_value (sg_direction sig))),
        (''signal_score'', PDec (sg_score sig)), (''failed_stage'', ne_failed_stage i),
        (''reason_code'', ne_reason_code i), (''entry_mode_candidate'', ne_entry_mode_candidate i),
        (''rsi_1m'', opt_field is_rsi14 s1), (''rsi_5m'', opt_field is_rsi14 s5),
        (''volume_ratio_1m'', opt_field is_volume_ratio s1), (''volume_ratio_5m'', opt_field is_volume_ratio s5),
        (''atr_percent'', opt_field is_atr_percent s1), (''ema_gap_15m'', opt_dec (ema_gap_15m a)),
        (''ema_slope_atr_15m'', opt_field is_ema20_slope_atr s15),
        (''distance_to_box_atr'', opt_dec (distance_to_box_atr a (sg_direction sig))),
        (''anti_chase_reason'', ne_anti_chase_reason i),
        (''breakout_quality_reason'', ne_breakout_quality_reason i),
        (''retest_pending_status'', pending_status r (ea_symbol a) (ne_retest_pending_status i))]
       (ne_extra i))"

definition emit_no_entry :: "entry_args \<Rightarrow> signal \<Rightarrow> no_entry_info \<Rightarrow> 'x service \<Rightarrow> 'x service" where
  "emit_no_entry a sig i s =
    emit \<lparr> be_type = EV_NO_ENTRY_REASON, be_symbol = Some (ea_symbol a),
           be_message = pval_text (ne_reason_code i),
           be_data = drop_none (no_entry_data a sig (ee_retests (sv_entry s)) i) \<rparr> s"

section \<open>Phase 1: signal and first gate\<close>

definition blocked_at :: "entry_args \<Rightarrow> signal \<Rightarrow> no_entry_info \<Rightarrow> string \<Rightarrow> 'x service \<Rightarrow> 'x service" where
  "blocked_at a sig i blocked s =
    emit (simple_event EV_DATA_QUALITY_BLOCK (ea_symbol a) blocked) (emit_no_entry a sig i s)"

definition first_signal ::
  "((string \<rightharpoonup> indicator_snapshot) \<Rightarrow> signal option result) list \<Rightarrow> entry_args \<Rightarrow> signal option result" where
  "first_signal strategies a =
    bind_res (generate strategies (ea_snapshots a)) (\<lambda>sigs. Inr (case sigs of [] \<Rightarrow> None | g # _ \<Rightarrow> Some g))"

definition gate_one :: "app_config \<Rightarrow> clocks \<Rightarrow> entry_args \<Rightarrow> signal \<Rightarrow> ('x service, bool) action" where
  "gate_one cfg ck a sig =
    and_then (lift_res (snapshot_at a ''1'')) (\<lambda>s1m s.
      case pre_gate cfg (ck_mono ck) (ea_symbol a) (sg_direction sig) s1m (ea_market a) s of
        (s1, Some r) \<Rightarrow> (blocked_at a sig (no_entry_info_of ''pre_gate'' (gate_reason_code r)) r s1, Inr False)
      | (s1, None) \<Rightarrow> (s1, Inr True))"

section \<open>Phase 2: the entry engine\<close>

definition entry_context_of :: "entry_args \<Rightarrow> signal \<Rightarrow> entry_context result" where
  "entry_context_of a sig =
    bind_res (snapshot_at a ''1'') (\<lambda>s1. bind_res (snapshot_at a ''5'') (\<lambda>s5.
    bind_res (snapshot_at a ''15'') (\<lambda>s15.
      Inr \<lparr> ec_symbol = ea_symbol a, ec_direction = sg_direction sig, ec_snapshot_1m = s1,
            ec_snapshot_5m = s5, ec_snapshot_15m = s15, ec_candles_1m = ea_candles_1m a,
            ec_box_high = ea_box_high a, ec_box_low = ea_box_low a, ec_signal_score = sg_score sig,
            ec_signal_reason = sg_reason sig \<rparr>)))"

definition engine_reason :: "entry_engine \<Rightarrow> no_entry_info" where
  "engine_reason e =
    (let d = (case ee_last_no_entry_reason e of
                Some (kv # kvs) \<Rightarrow> kv # kvs
              | _ \<Rightarrow> [(''failed_stage'', PStr ''entry_timing''), (''reason_code'', PStr ''NO_ENTRY_DECISION'')])
     in \<lparr> ne_failed_stage = payload_get d ''failed_stage'' (PStr ''entry_timing''),
          ne_reason_code = payload_get d ''reason_code'' (PStr ''NO_ENTRY_DECISION''),
          ne_entry_mode_candidate = payload_get d ''entry_mode_candidate'' PNone,
          ne_anti_chase_reason = payload_get d ''anti_chase_reason'' PNone,
          ne_breakout_quality_reason = payload_get d ''breakout_quality_reason'' PNone,
          ne_retest_pending_status = payload_get d ''retest_pending_status'' PNone, ne_extra = [] \<rparr>)"

definition decide :: "(dec \<Rightarrow> string) \<Rightarrow> app_config \<Rightarrow> entry_args \<Rightarrow> signal \<Rightarrow> ('x service, entry_decision option) action" where
  "decide lbl cfg a sig =
    and_then (lift_res (entry_context_of a sig)) (\<lambda>ctx s.
      let (e, d) = entry_evaluate lbl cfg ctx (sv_entry s); s1 = s\<lparr> sv_entry := e \<rparr> in
      case d of
        None \<Rightarrow> (emit_no_entry a sig (engine_reason e) s1, Inr None)
      | Some x \<Rightarrow> (s1, Inr (Some x)))"

section \<open>Phase 3: the risk manager\<close>

definition risk_context_of :: "entry_args \<Rightarrow> 'x service \<Rightarrow> risk_context" where
  "risk_context_of a s =
    \<lparr> rx_equity = ea_equity a, rx_open_positions = active_bot_positions (sv_state s),
      rx_daily_loss_percent = ea_daily_loss_percent a, rx_intraday_drawdown_percent = 0,
      rx_consecutive_losses = ea_consecutive_losses a \<rparr>"

definition risk_info :: "entry_decision \<Rightarrow> risk_decision \<Rightarrow> no_entry_info" where
  "risk_info d rd =
    (no_entry_info_of ''risk'' ''RISK_REJECTED'')
      \<lparr> ne_entry_mode_candidate := PStr (entry_mode_value (ed_entry_mode d)),
        ne_extra := dict_update [(''risk_reason'', PStr (rd_reason rd))]
          (case rd_stop_metadata rd of None \<Rightarrow> [] | Some m \<Rightarrow> m) \<rparr>"

definition ask_risk :: "app_config \<Rightarrow> entry_args \<Rightarrow> signal \<Rightarrow> entry_decision \<Rightarrow> ('x service, risk_decision option) action" where
  "ask_risk cfg a sig d =
    and_then (lift_res (snapshot_at a ''1'')) (\<lambda>s1m s.
      let atr1 = or_dec (is_atr14 s1m) 0 in
      and_then (lift_res (approve cfg d (ea_entry_price a) atr1 (ea_symbol_meta a) (risk_context_of a s)))
        (\<lambda>rd s1. if \<not> rd_approved rd
          then (emit (simple_event EV_SIGNAL (ea_symbol a) (''rejected: '' @ rd_reason rd))
                  (emit_no_entry a sig (risk_info d rd) s1), Inr None)
          else (s1, Inr (Some rd))) s)"

section \<open>Phase 4: second gate\<close>

definition fresh_orderbook :: "'x ports \<Rightarrow> entry_args \<Rightarrow> ('x service, market_context option) action" where
  "fresh_orderbook io a s =
    (case ea_market a of
       None \<Rightarrow> (s, Inr None)
     | Some mk \<Rightarrow>
         if mk_orderbook mk = None \<and> ea_has_orderbook_provider a \<and> gs_pre_order_check (sv_guards s)
         then and_then (po_orderbook io)
                (\<lambda>(ob, ts). ret (Some (mk\<lparr> mk_orderbook := Some ob, mk_last_orderbook_ms := ts \<rparr>))) s
         else (s, Inr (Some mk)))"

definition gate_two ::
  "'x ports \<Rightarrow> app_config \<Rightarrow> clocks \<Rightarrow> entry_args \<Rightarrow> signal \<Rightarrow> entry_decision \<Rightarrow> risk_decision \<Rightarrow>
   ('x service, bool) action" where
  "gate_two io cfg ck a sig d rd =
    and_then (fresh_orderbook io a) (\<lambda>market s.
      case post_gate cfg (ck_mono ck) (ed_entry_mode d) (rd_notional rd) market s of
        Some r \<Rightarrow> (blocked_at a sig ((no_entry_info_of ''post_gate'' (gate_reason_code r))
            \<lparr> ne_entry_mode_candidate := PStr (entry_mode_value (ed_entry_mode d)) \<rparr>) r s, Inr False)
      | None \<Rightarrow> (s, Inr True))"

section \<open>Phase 5: order, position, protection\<close>

definition entry_side :: "signal \<Rightarrow> side" where
  "entry_side sig = (if sg_direction sig = SIG_LONG then BUY else SELL)"

definition attach_sl :: "app_config \<Rightarrow> bot_mode \<Rightarrow> risk_decision \<Rightarrow> dec option" where
  "attach_sl cfg mode rd =
    (if mode = LIVE \<and> tp_use_exchange_tpsl (cfg_tpsl cfg) \<and> tp_use_exchange_sl (cfg_tpsl cfg)
     then rd_stop_loss_price rd else None)"

definition attach_tp :: "app_config \<Rightarrow> bot_mode \<Rightarrow> risk_decision \<Rightarrow> dec option" where
  "attach_tp cfg mode rd =
    (if mode = LIVE \<and> tp_use_exchange_tpsl (cfg_tpsl cfg) \<and> tp_use_exchange_tp (cfg_tpsl cfg)
     then rd_take_profit_price rd else None)"

definition open_args_of ::
  "app_config \<Rightarrow> bot_mode \<Rightarrow> entry_args \<Rightarrow> signal \<Rightarrow> entry_decision \<Rightarrow> risk_decision \<Rightarrow> open_args" where
  "open_args_of cfg mode a sig d rd =
    \<lparr> oa_symbol = ea_symbol a, oa_side = entry_side sig, oa_qty = rd_qty rd, oa_leverage = rd_leverage rd,
      oa_best_bid = ea_best_bid a, oa_best_ask = ea_best_ask a, oa_entry_mode = ed_entry_mode d,
      oa_stop_loss = attach_sl cfg mode rd, oa_take_profit = attach_tp cfg mode rd \<rparr>"

definition position_of_fill ::
  "app_config \<Rightarrow> int \<Rightarrow> entry_args \<Rightarrow> signal \<Rightarrow> entry_decision \<Rightarrow> risk_decision \<Rightarrow> position_side \<Rightarrow>
   open_result \<Rightarrow> fill_adjusted_levels \<Rightarrow> position" where
  "position_of_fill cfg now a sig d rd sd opened levels =
    (let scout = (ed_entry_mode d = PRE_BREAKOUT_SCOUT); lng = (sd = LONG) in
     (new_position (ea_symbol a) sd (op_fill_qty opened) (op_fill_price opened) now)
       \<lparr> p_leverage := rd_leverage rd,
         p_stop_loss_price := fl_stop_loss_price levels,
         p_take_profit_price := fl_take_profit_price levels,
         p_initial_risk_per_unit := fl_initial_risk_per_unit levels,
         p_initial_qty := Some (op_fill_qty opened),
         p_entry_mode := Some (ed_entry_mode d), p_signal_score := sg_score sig,
         p_strategy_id := sg_strategy sig, p_strategy_reason := sg_reason sig,
         p_fees_paid := op_fee opened,
         p_breakout_level := Some (if lng then ea_box_high a else ea_box_low a),
         p_scout_state := (if scout \<and> sc_enabled (scout_cfg cfg) then SCOUT_PENDING else SCOUT_NONE),
         p_scout_entry_box_high := (if scout then Some (ea_box_high a) else None),
         p_scout_entry_box_low := (if scout then Some (ea_box_low a) else None),
         p_scout_entry_box_mid := (if scout then Some (ddiv (dadd (ea_box_high a) (ea_box_low a)) 2) else None),
         p_scout_entry_level := (if scout \<and> lng then Some (ea_box_high a)
                                 else if scout then Some (ea_box_low a) else None),
         p_scout_entry_bar_index := (if scout then Some 0 else None) \<rparr>)"

text \<open>The order did not fill.\<close>

definition entry_failed :: "rat \<Rightarrow> entry_args \<Rightarrow> signal \<Rightarrow> entry_decision \<Rightarrow> open_result \<Rightarrow> 'x service \<Rightarrow> 'x service" where
  "entry_failed t a sig d opened s =
    (let level = (if sg_direction sig = SIG_LONG then ea_box_high a else ea_box_low a);
         s1 = (if ed_entry_mode d = BREAKOUT_CONFIRM
               then s\<lparr> sv_entry := (sv_entry s)
                      \<lparr> ee_retests := retest_register (ea_symbol a) (sg_direction sig) level (ee_retests (sv_entry s)) \<rparr> \<rparr>
               else s)
     in emit (simple_event EV_ORDER_FAILED (ea_symbol a) (op_reason opened)) (svc_record_order_failure t s1))"

text \<open>Protection was refused.\<close>

definition protection_failed :: "rat \<Rightarrow> string \<Rightarrow> protection_result \<Rightarrow> 'x service \<Rightarrow> 'x service" where
  "protection_failed t y res s =
    (let s1 = svc_record_order_failure t s;
         s2 = (if pt_reason res = ''EMERGENCY_STOP'' then svc_record_emergency_close_failure s1 else s1)
     in emit (simple_event EV_ORDER_FAILED y (''tpsl:'' @ pt_reason res))
          (transition_after_protection_failure (pt_reason res) s2))"

text \<open>Activation: \<open>True\<close> when the position is open for business.\<close>

definition activate_new :: "'x ports \<Rightarrow> rat \<Rightarrow> string \<Rightarrow> ('x service, bool) action" where
  "activate_new io t y s =
    (if sv_mode s = LIVE \<and> sv_has_protection s
     then and_then (po_protect io y) (\<lambda>res.
       if \<not> pt_protected res then then_do (modify (protection_failed t y res)) (ret False) else ret True) s
     else (upd_pos y mark_active_paper s, Inr True))"

definition open_body ::
  "'x ports \<Rightarrow> app_config \<Rightarrow> (nat \<Rightarrow> clocks) \<Rightarrow> entry_args \<Rightarrow> signal \<Rightarrow> entry_decision \<Rightarrow> risk_decision \<Rightarrow>
   ('x service, (open_result \<times> fill_adjusted_levels) option) action" where
  "open_body io cfg now a sig d rd =
    and_then (reads sv_mode) (\<lambda>mode.
    and_then (po_open io (open_args_of cfg mode a sig d rd)) (\<lambda>opened.
    if \<not> op_ok opened \<or> op_fill_qty opened \<le> 0
    then then_do (modify (entry_failed (ck_mono (now 2)) a sig d opened)) (ret None)
    else then_do (modify (record_slippage_if_breached cfg (entry_side sig) (op_fill_price opened)
            (ea_best_bid a) (ea_best_ask a)))
      (let levels = fill_adjusted cfg rd (ea_entry_price a) (op_fill_price opened) (ea_symbol_meta a) in
       case rd_side rd of
         None \<Rightarrow> throw ValueError
       | Some sd \<Rightarrow>
           then_do (modify (set_pos (position_of_fill cfg (ck_wall (now 2)) a sig d rd sd opened levels)))
             (and_then (activate_new io (ck_mono (now 3)) (ea_symbol a)) (\<lambda>ok.
               ret (if ok then Some (opened, levels) else None))))))"

definition open_entry ::
  "'x ports \<Rightarrow> app_config \<Rightarrow> (nat \<Rightarrow> clocks) \<Rightarrow> entry_args \<Rightarrow> signal \<Rightarrow> entry_decision \<Rightarrow> risk_decision \<Rightarrow>
   ('x service, (open_result \<times> fill_adjusted_levels) option) action" where
  "open_entry io cfg now a sig d rd =
    then_do (modify (upd_state (begin_position_update (ea_symbol a))))
      (try_finally (open_body io cfg now a sig d rd)
        (upd_state (end_position_update (ea_symbol a))))"

section \<open>Phase 6: logs and events\<close>

definition opened_data ::
  "entry_decision \<Rightarrow> risk_decision \<Rightarrow> fill_adjusted_levels \<Rightarrow> position \<Rightarrow> payload" where
  "opened_data d rd levels p =
    (let d0 = [(''qty'', PDec (p_qty p)), (''entry'', PDec (p_avg_entry_price p)),
               (''mode'', PStr (entry_mode_value (ed_entry_mode d))),
               (''position_fraction'', PDec (ed_position_fraction d))];
         d1 = dict_update d0 (case rd_stop_metadata rd of None \<Rightarrow> [] | Some m \<Rightarrow> m);
         d2 = dict_update d1 (fl_metadata levels)
     in case ed_compression_mode d of
          None \<Rightarrow> d2
        | Some cm \<Rightarrow> dict_update d2
            [(''compression_mode'', PStr cm),
             (''has_compression'', case ed_has_compression d of None \<Rightarrow> PNone | Some b \<Rightarrow> PBool b),
             (''scout_score'', PDec (ed_score d)), (''required_scout_score'', opt_dec (ed_required_score d)),
             (''compression_bonus_applied'', opt_dec (ed_compression_bonus_applied d))])"

definition scout_started :: "entry_args \<Rightarrow> indicator_snapshot \<Rightarrow> position \<Rightarrow> bot_event" where
  "scout_started a s1m p =
    (let metric = \<lambda>f. if ea_candles_1m a = [] then PNone
           else let m = metrics_of (last (ea_candles_1m a)) in if mt_valid m then PDec (f m) else PNone
     in data_event EV_SCOUT_PENDING_STARTED (ea_symbol a)
       [(''symbol'', PStr (ea_symbol a)), (''side'', PStr (position_side_value (p_side p))),
        (''entry_price'', PDec (p_avg_entry_price p)), (''current_price'', PDec (p_avg_entry_price p)),
        (''scout_state'', PStr (scout_state_value (p_scout_state p))),
        (''bars_since_entry'', PInt (p_bars_since_entry p)),
        (''box_high'', str_of_opt (p_scout_entry_box_high p)), (''box_low'', str_of_opt (p_scout_entry_box_low p)),
        (''box_mid'', str_of_opt (p_scout_entry_box_mid p)),
        (''scout_entry_level'', str_of_opt (p_scout_entry_level p)),
        (''scout_defensive_reduction_count'', PInt (p_scout_defensive_reduction_count p)),
        (''reason'', PStr ''PRE_BREAKOUT_SCOUT_ENTRY''), (''rsi14'', opt_dec (is_rsi14 s1m)),
        (''ema20'', opt_dec (is_ema20 s1m)), (''volume_ratio'', opt_dec (is_volume_ratio s1m)),
        (''body_ratio'', metric mt_body_ratio),
        (''close_position_in_range'', metric mt_close_position_in_range)])"

definition announce ::
  "app_config \<Rightarrow> entry_args \<Rightarrow> signal \<Rightarrow> entry_decision \<Rightarrow> risk_decision \<Rightarrow> open_result \<Rightarrow>
   fill_adjusted_levels \<Rightarrow> position \<Rightarrow> ('x service, unit) action" where
  "announce cfg a sig d rd opened levels p =
    then_do (modify (\<lambda>s. log_entry (LogPosition p (sv_mode s) (Some (sg_strategy sig)) (Some (position_protection_status cfg p)))
        (log_entry (LogFill (fill_of (ea_symbol a) (entry_side sig) (op_fill_price opened) (op_fill_qty opened)
            (op_fee opened)) None (sv_mode s))
          (log_entry (LogSignal sig (ed_entry_mode d)) s))))
    (then_do (modify (emit (data_event EV_POSITION_OPENED (ea_symbol a) (drop_none (opened_data d rd levels p)))))
      (if p_scout_state p = SCOUT_PENDING
       then and_then (lift_res (snapshot_at a ''1'')) (\<lambda>s1m. modify (emit (scout_started a s1m p)))
       else ret ()))"

section \<open>evaluate_entry\<close>

text \<open>Everything before the order: the signal, the decision and the approval, or nothing.\<close>

definition entry_intent ::
  "'x ports \<Rightarrow> (dec \<Rightarrow> string) \<Rightarrow> app_config \<Rightarrow>
   ((string \<rightharpoonup> indicator_snapshot) \<Rightarrow> signal option result) list \<Rightarrow> (nat \<Rightarrow> clocks) \<Rightarrow> entry_args \<Rightarrow>
   ('x service, (signal \<times> entry_decision \<times> risk_decision) option) action" where
  "entry_intent io lbl cfg strategies now a =
    and_then (lift_res (first_signal strategies a)) (\<lambda>found. case found of None \<Rightarrow> ret None | Some sig \<Rightarrow>
    and_then (gate_one cfg (now 0) a sig) (\<lambda>pass. if \<not> pass then ret None else
    and_then (decide lbl cfg a sig) (\<lambda>decision. case decision of None \<Rightarrow> ret None | Some d \<Rightarrow>
    and_then (ask_risk cfg a sig d) (\<lambda>approved. case approved of None \<Rightarrow> ret None | Some rd \<Rightarrow>
    and_then (gate_two io cfg (now 1) a sig d rd) (\<lambda>pass2. ret (if pass2 then Some (sig, d, rd) else None))))))"

text \<open>\<open>now 0\<close> is the clock at the start, \<open>now 1\<close> after the order book was fetched, \<open>now 2\<close> after the order
  and \<open>now 3\<close> after the protection call.\<close>

definition evaluate_entry ::
  "'x ports \<Rightarrow> (dec \<Rightarrow> string) \<Rightarrow> app_config \<Rightarrow>
   ((string \<rightharpoonup> indicator_snapshot) \<Rightarrow> signal option result) list \<Rightarrow> (nat \<Rightarrow> clocks) \<Rightarrow> entry_args \<Rightarrow>
   ('x service, position option) action" where
  "evaluate_entry io lbl cfg strategies now a =
    and_then (entry_intent io lbl cfg strategies now a) (\<lambda>intent. case intent of None \<Rightarrow> ret None | Some (sig, d, rd) \<Rightarrow>
    and_then (open_entry io cfg now a sig d rd) (\<lambda>done. case done of None \<Rightarrow> ret None | Some (opened, levels) \<Rightarrow>
    and_then (reads (\<lambda>s. pos_of s (ea_symbol a))) (\<lambda>found. case found of None \<Rightarrow> ret None | Some p \<Rightarrow>
    then_do (announce cfg a sig d rd opened levels p) (ret (Some p)))))"

end
