(* ===== verification/Watchlist.thy ===== *)
theory Watchlist
  imports Trading_Types Scanner Market_Collector "HOL-Library.Word" Trading_Entry
begin

text \<open>
  Choosing what to watch (\<^verbatim>\<open>apps/bot/runtime/bot_runtime.py\<close>): the pre-filter of the tickers, the
  rotating batch whose candles are refreshed, the cache of ATR values with its time to live, the
  list of watched symbols, the box of the last candles, and the refresh intervals, which are spread
  over the symbols by a checksum of their names.
\<close>

section \<open>Pre-filter\<close>

definition prefilter_spread :: "app_config \<Rightarrow> (string \<Rightarrow> bool) \<Rightarrow> market_ticker \<Rightarrow> dec option" where
  "prefilter_spread cfg tradable t =
    (if \<not> tradable (tk_symbol t) then None
     else if tk_turnover_24h t < cu_min_24h_turnover_usdt (cfg_universe cfg) then None
     else if tk_bid_price t \<le> 0 \<or> tk_ask_price t \<le> 0 then None
     else let mid = ddiv (dadd (tk_bid_price t) (tk_ask_price t)) 2 in
       if mid \<le> 0 then None
       else let spread = dmul (ddiv (dsub (tk_ask_price t) (tk_bid_price t)) mid) 100 in
         if cs_max_spread_percent (cfg_scanner cfg) < spread then None else Some spread)"

definition prefilter_score :: "market_ticker \<Rightarrow> dec \<Rightarrow> dec \<Rightarrow> dec \<Rightarrow> dec" where
  "prefilter_score t spread lo hi =
    (let turnover =
           (if hi = lo then 100
            else if 0 < hi then dmul (ddiv (dsub (tk_turnover_24h t) lo) (dsub hi lo)) 100 else 0);
         tight = (if spread \<le> 5 / 100 then 100 else 70)
     in dadd (dmul turnover (70 / 100)) (dmul tight (30 / 100)))"

definition prefilter_tickers :: "app_config \<Rightarrow> (string \<Rightarrow> bool) \<Rightarrow> market_ticker list \<Rightarrow> market_ticker list" where
  "prefilter_tickers cfg tradable tickers =
    (let eligible = concat (map (\<lambda>t. case prefilter_spread cfg tradable t of None \<Rightarrow> [] | Some s \<Rightarrow> [(t, s)]) tickers);
         sorted_eligible = (if eligible = [] then []
           else let vs = set (map (\<lambda>(t, _). tk_turnover_24h t) eligible) in
             sort_key (\<lambda>(t, s). - prefilter_score t s (Min vs) (Max vs)) eligible);
         n = cs_max_candidates (cfg_scanner cfg);
         limit = max n (n * cs_atr_prefilter_multiple (cfg_scanner cfg))
     in map fst (py_take limit sorted_eligible))"

section \<open>The rotating batch\<close>

text \<open>\<open>_scanner_refresh_batch\<close>: the cursor is \<open>_scanner_cursor\<close>, a natural number since it starts at 0 and is
  stored modulo the number of candidates.\<close>

definition refresh_batch :: "app_config \<Rightarrow> 'a list \<Rightarrow> nat \<Rightarrow> nat \<times> 'a list" where
  "refresh_batch cfg candidates cursor =
    (if candidates = [] then (cursor, [])
     else
       let n = length candidates;
           budget = nat (max 1 (cs_atr_refresh_budget (cfg_scanner cfg)));
           k = min budget n;
           start = cursor mod n
       in ((start + k) mod n, map (\<lambda>i. candidates ! ((start + i) mod n)) [0..<k]))"

text \<open>The candidates refreshed in \<open>r\<close> turns.\<close>

fun batches :: "app_config \<Rightarrow> 'a list \<Rightarrow> nat \<Rightarrow> nat \<Rightarrow> 'a list" where
  "batches cfg cs 0 cursor = []"
| "batches cfg cs (Suc r) cursor =
    (case refresh_batch cfg cs cursor of (next_cursor, batch) \<Rightarrow> batch @ batches cfg cs r next_cursor)"

lemma batches_window:
  assumes "cs \<noteq> []"
  shows "batches cfg cs r cursor = map (\<lambda>i. cs ! ((cursor + i) mod length cs))
    [0..<r * min (nat (max 1 (cs_atr_refresh_budget (cfg_scanner cfg)))) (length cs)]"
proof (induction r arbitrary: cursor)
  case 0
  show ?case by simp
next
  case (Suc r)
  let ?n = "length cs" and ?k = "min (nat (max 1 (cs_atr_refresh_budget (cfg_scanner cfg)))) (length cs)"
  let ?at = "\<lambda>i. cs ! ((cursor + i) mod ?n)"
  have "batches cfg cs r ((cursor mod ?n + ?k) mod ?n) = map (\<lambda>i. cs ! ((cursor + ?k + i) mod ?n)) [0..<r * ?k]"
    by (simp add: Suc.IH mod_simps)
  also have "\<dots> = map ?at (map (\<lambda>i. ?k + i) [0..<r * ?k])" by (simp add: ac_simps)
  also have "map (\<lambda>i. ?k + i) [0..<r * ?k] = [?k..<?k + r * ?k]"
    using map_add_upt [of ?k "r * ?k"] by (simp add: add.commute)
  finally show ?case
    using assms upt_add_eq_append [of 0 ?k "r * ?k"]
    by (simp add: refresh_batch_def Let_def mod_simps)
qed

lemma window_covers:
  assumes "cs \<noteq> []" "length cs \<le> m"
  shows "(\<lambda>i. cs ! ((cursor + i) mod length cs)) ` {0..<m} = set cs"
proof (intro equalityI subsetI)
  fix x
  assume "x \<in> set cs"
  then obtain j where j: "j < length cs" "cs ! j = x" by (auto simp: in_set_conv_nth)
  let ?n = "length cs"
  define i where "i = (j + (?n - cursor mod ?n)) mod ?n"
  have le: "cursor mod ?n \<le> ?n" using assms(1) by (simp add: less_imp_le)
  have "(cursor + i) mod ?n = (cursor mod ?n + (j + (?n - cursor mod ?n))) mod ?n"
    by (simp add: i_def mod_simps)
  also have "\<dots> = j" using j(1) le by simp
  finally have "(cursor + i) mod ?n = j" .
  moreover have "i < m" using assms by (simp add: i_def) (metis assms(1) length_greater_0_conv mod_less_divisor order_less_le_trans)
  ultimately show "x \<in> (\<lambda>i. cs ! ((cursor + i) mod ?n)) ` {0..<m}" using j(2) by force
qed (use assms in auto)

text \<open>No candidate starves: after as many scans as the budget goes into the number of candidates, rounded up,
  the candles of every candidate were asked for, wherever the cursor started.\<close>

theorem batches_cover:
  assumes "length cs \<le> r * nat (max 1 (cs_atr_refresh_budget (cfg_scanner cfg)))"
  shows "set (batches cfg cs r cursor) = set cs"
proof (cases "cs = []")
  case True
  have "batches cfg [] r cursor = ([] :: 'a list)" for cursor
    by (induction r arbitrary: cursor) (simp_all add: refresh_batch_def)
  then show ?thesis using True by simp
next
  case False
  have "0 < r" using assms False by (cases r) auto
  then have "length cs \<le> r * min (nat (max 1 (cs_atr_refresh_budget (cfg_scanner cfg)))) (length cs)"
    using assms by (cases r) (auto simp: min_def)
  then show ?thesis by (simp add: batches_window [OF False] window_covers [OF False])
qed

lemma batches_cover_witness:
  "set (batches default_app_config [0..<31] 2 7) = set [0..<31]"
  by (rule batches_cover) (simp add: default_app_config_def default_scanner_section_def)

section \<open>The cache\<close>

record scan_cache =
  sk_atr_percent :: "string \<rightharpoonup> dec"
  sk_atr_updated_ms :: "string \<rightharpoonup> int"
  sk_snapshots_15m :: "string \<rightharpoonup> indicator_snapshot"
  sk_snapshots_5m :: "string \<rightharpoonup> indicator_snapshot"

definition new_scan_cache :: scan_cache where
  "new_scan_cache = \<lparr> sk_atr_percent = Map.empty, sk_atr_updated_ms = Map.empty,
    sk_snapshots_15m = Map.empty, sk_snapshots_5m = Map.empty \<rparr>"

text \<open>Lines 902-908: which cached symbols are dropped.\<close>

definition atr_stale :: "app_config \<Rightarrow> string set \<Rightarrow> int \<Rightarrow> scan_cache \<Rightarrow> string \<Rightarrow> bool" where
  "atr_stale cfg candidate_symbols now_ms c y \<longleftrightarrow>
    y \<notin> candidate_symbols \<or>
    (case sk_atr_updated_ms c y of
       None \<Rightarrow> True
     | Some t \<Rightarrow> max 1 (cs_atr_cache_ttl_sec (cfg_scanner cfg)) * 1000 < now_ms - t)"

definition fresh_scanner_atr :: "app_config \<Rightarrow> market_ticker list \<Rightarrow> int \<Rightarrow> scan_cache \<Rightarrow> scan_cache" where
  "fresh_scanner_atr cfg candidates now_ms c =
    (let keep = (\<lambda>m y. if sk_atr_percent c y \<noteq> None \<and> atr_stale cfg (set (map tk_symbol candidates)) now_ms c y
           then None else m y);
         keep15 = (\<lambda>m y. if sk_atr_percent c y \<noteq> None \<and> atr_stale cfg (set (map tk_symbol candidates)) now_ms c y
           then None else m y)
     in \<lparr> sk_atr_percent = keep (sk_atr_percent c),
          sk_atr_updated_ms = (\<lambda>y. if sk_atr_percent c y \<noteq> None \<and> atr_stale cfg (set (map tk_symbol candidates)) now_ms c y
            then None else sk_atr_updated_ms c y),
          sk_snapshots_15m = keep15 (sk_snapshots_15m c), sk_snapshots_5m = keep15 (sk_snapshots_5m c) \<rparr>)"

section \<open>Watched symbols\<close>

text \<open>\<open>list(dict.fromkeys(xs))\<close>: the first occurrence of each element, in order.\<close>

definition dedup :: "'a list \<Rightarrow> 'a list" where
  "dedup xs = rev (remdups (rev xs))"

definition post_exit_mfe_symbols :: "'x service \<Rightarrow> string list" where
  "post_exit_mfe_symbols s = map fst (sv_post_exit_mfe s)"

definition held_symbols :: "'x service \<Rightarrow> string list" where
  "held_symbols s = map p_symbol (active_bot_positions (sv_state s))"

definition watch_symbols :: "app_config \<Rightarrow> string list \<Rightarrow> 'x service \<Rightarrow> string list" where
  "watch_symbols cfg watchlist s =
    py_take (cb_max_symbols_to_watch (cfg_bot cfg))
      (dedup (held_symbols s @ post_exit_mfe_symbols s @ watchlist))"

section \<open>The box\<close>

definition entry_box_levels :: "nat \<Rightarrow> candle list \<Rightarrow> indicator_snapshot \<Rightarrow> dec \<Rightarrow> dec \<times> dec" where
  "entry_box_levels swing_lookback candles s1m fallback =
    (let prior = butlast candles in
     if prior \<noteq> []
     then let window = last_n (max 1 swing_lookback) prior in
       (Max (set (map cd_high window)), Min (set (map cd_low window)))
     else (or_dec (is_swing_high s1m) fallback, or_dec (is_swing_low s1m) fallback))"

section \<open>Refresh intervals\<close>

text \<open>\<open>zlib.crc32\<close> on the bytes of an ASCII string: the reflected polynomial, bit by bit.\<close>

definition crc_bit :: "32 word \<Rightarrow> 32 word" where
  "crc_bit c = (if bit c 0 then xor (drop_bit 1 c) 0xEDB88320 else drop_bit 1 c)"

definition crc_byte :: "32 word \<Rightarrow> char \<Rightarrow> 32 word" where
  "crc_byte c ch = (crc_bit ^^ 8) (xor c (of_char ch))"

definition crc32 :: "string \<Rightarrow> 32 word" where
  "crc32 s = xor (foldl crc_byte 0xFFFFFFFF s) 0xFFFFFFFF"

definition kline_min_refresh_ms :: "app_config \<Rightarrow> string \<Rightarrow> string option \<Rightarrow> bool \<Rightarrow> int" where
  "kline_min_refresh_ms cfg timeframe y priority =
    (if timeframe = ''1''
     then let base = cs_kline_1m_refresh_sec (cfg_scanner cfg) * 1000 in
       (case y of
          None \<Rightarrow> base
        | Some z \<Rightarrow>
            if priority then base
            else let spread = min 30000 (max 0 (base div 2)) in
              if spread \<le> 0 then base else base + uint (crc32 z) mod spread)
     else if timeframe = ''5'' then cs_kline_5m_refresh_sec (cfg_scanner cfg) * 1000
     else if timeframe = ''15'' then cs_kline_15m_refresh_sec (cfg_scanner cfg) * 1000
     else 60000)"

text \<open>
  The preview of a watched symbol for the dashboard (\<^verbatim>\<open>packages/signal/watch_preview.py\<close> and
  \<^verbatim>\<open>TradingService.preview_watch\<close>): the direction of the signal, and how far the price is from the
  break-out, with the thresholds the entry engine uses. It only reads; the state of the service is
  not an argument.
\<close>

definition near_atr_default :: dec where "near_atr_default = 20 / 100"
definition scout_atr_default :: dec where "scout_atr_default = 35 / 100"

definition trend_label :: "indicator_snapshot \<Rightarrow> string" where
  "trend_label s15 =
    (case (is_ema20 s15, is_ema50 s15) of
       (Some a, Some b) \<Rightarrow> if b < a then ''UP'' else if a < b then ''DOWN'' else ''FLAT''
     | _ \<Rightarrow> ''FLAT'')"

definition remaining_to :: "bool \<Rightarrow> dec \<Rightarrow> dec \<Rightarrow> dec" where
  "remaining_to is_lng last_price boundary =
    (if is_lng then dsub boundary last_price else dsub last_price boundary)"

definition readiness :: "bool \<Rightarrow> dec \<Rightarrow> dec \<Rightarrow> dec option \<Rightarrow> dec \<Rightarrow> dec \<Rightarrow> dec \<Rightarrow> string \<times> dec option" where
  "readiness is_lng last_price boundary atr1 margin_atr near_atr scout_atr =
    (let remaining = remaining_to is_lng last_price boundary;
         far = (if remaining < 0 then ''BREAKOUT'' else ''WATCHING'')
     in case atr1 of
          None \<Rightarrow> (far, None)
        | Some a \<Rightarrow>
            if a \<le> 0 then (far, None)
            else let dist = ddiv remaining a in
              (if dist < dneg margin_atr then ''BREAKOUT''
               else if dist \<le> near_atr then ''NEAR''
               else if dist \<le> scout_atr then ''SCOUT_ZONE'' else ''WATCHING'', Some dist))"

text \<open>The fields that depend on the signal: strategy, direction, score, reason, readiness and distances.\<close>

definition signal_fields ::
  "signal option \<Rightarrow> indicator_snapshot \<Rightarrow> dec \<Rightarrow> dec \<Rightarrow> dec \<Rightarrow> dec \<Rightarrow> dec option \<Rightarrow> dec option \<Rightarrow>
   pval \<times> pval \<times> pval \<times> pval \<times> pval \<times> pval \<times> pval" where
  "signal_fields sig s1 box_high box_low last_price margin near_zone scout_zone =
    (case sig of
       Some g \<Rightarrow>
         if sg_direction g \<in> {SIG_LONG, SIG_SHORT}
         then
           let is_lng = (sg_direction g = SIG_LONG);
               boundary = (if is_lng then box_high else box_low);
               (ready, dist) = readiness is_lng last_price boundary (is_atr14 s1) margin
                 (or_dec near_zone near_atr_default) (or_dec scout_zone scout_atr_default);
               remaining = remaining_to is_lng last_price boundary;
               pct = (if 0 < last_price then Some (dmul (ddiv remaining last_price) 100) else None)
           in (PStr (sg_strategy g), PStr (signal_direction_value (sg_direction g)), PDec (sg_score g),
               if sg_reason g = [] then PNone else PStr (sg_reason g), PStr ready, opt_dec pct, opt_dec dist)
         else (PNone, PStr ''NONE'', PNone, PNone, PStr ''NO_SIGNAL'', PNone, PNone)
     | None \<Rightarrow> (PNone, PStr ''NONE'', PNone, PNone, PStr ''NO_SIGNAL'', PNone, PNone))"

definition build_watch_entry ::
  "string \<Rightarrow> signal option \<Rightarrow> indicator_snapshot \<Rightarrow> indicator_snapshot \<Rightarrow> dec \<Rightarrow> dec \<Rightarrow> dec \<Rightarrow> dec \<Rightarrow>
   dec option \<Rightarrow> dec option \<Rightarrow> int \<Rightarrow> payload" where
  "build_watch_entry y sig s1 s15 box_high box_low last_price margin near_zone scout_zone now_ms =
    (let (strategy, direction, score, reason, ready, pct, dist) =
           signal_fields sig s1 box_high box_low last_price margin near_zone scout_zone
     in [(''symbol'', PStr y), (''strategy'', strategy), (''direction'', direction), (''signal_score'', score),
         (''signal_reason'', reason), (''readiness'', ready), (''trend'', PStr (trend_label s15)),
         (''last_price'', PDec last_price), (''box_high'', PDec box_high), (''box_low'', PDec box_low),
         (''distance_to_breakout_pct'', pct), (''distance_atr'', dist), (''atr_percent'', opt_dec (is_atr_percent s1)),
         (''rsi'', opt_dec (is_rsi14 s1)), (''volume_ratio'', opt_dec (is_volume_ratio s1)),
         (''updated_ms'', PInt now_ms)])"

definition preview_watch ::
  "app_config \<Rightarrow> ((string \<rightharpoonup> indicator_snapshot) \<Rightarrow> signal option result) list \<Rightarrow> string \<Rightarrow>
   (string \<rightharpoonup> indicator_snapshot) \<Rightarrow> dec \<Rightarrow> dec \<Rightarrow> dec \<Rightarrow> int \<Rightarrow> payload result" where
  "preview_watch cfg strategies y snapshots box_high box_low last_price now_ms =
    bind_res (generate strategies snapshots) (\<lambda>signals.
      case (snapshots ''1'', snapshots ''15'') of
        (Some s1, Some s15) \<Rightarrow>
          Inr (build_watch_entry y (case signals of [] \<Rightarrow> None | g # _ \<Rightarrow> Some g) s1 s15 box_high box_low last_price
            (bc_close_beyond_boundary_atr (en_breakout_confirm (cfg_entry cfg)))
            (Some (pb_score_near_box_atr (en_pre_breakout (cfg_entry cfg))))
            (Some (pb_max_distance_to_box_atr (en_pre_breakout (cfg_entry cfg)))) now_ms)
      | (None, _) \<Rightarrow> Inl (KeyError ''1'')
      | (Some _, None) \<Rightarrow> Inl (KeyError ''15''))"

section \<open>The preview and the entry agree on the direction\<close>

text \<open>What the dashboard shows as ready to break out is beyond the box: the price is past the boundary of
  the signal's direction by more than the margin, or by any amount when there is no ATR.\<close>

lemma readiness_breakout:
  assumes "readiness is_lng price boundary atr1 margin near scout = (''BREAKOUT'', d)" "0 \<le> margin"
  shows "remaining_to is_lng price boundary < 0"
proof -
  have "dneg margin \<le> 0" using assms(2) by (simp add: dneg_def)
  then show ?thesis
    using assms(1) ddiv_nonneg [of "remaining_to is_lng price boundary" "the atr1"]
    by (force simp: readiness_def Let_def split: option.splits if_splits)
qed

end
