(* ===== verification/Order_Manager.thy ===== *)
theory Order_Manager
  imports Trading_Types Paper_Engine Symbol_Rounding
begin

text \<open>
  LIVE orders (\<^verbatim>\<open>packages/execution/order_manager.py\<close>): entries by order type, the policy for
  partial fills, limit orders with a time to live, reduce-only exits, the partial take-profit,
  and \<open>_place\<close>, which rounds, reserves, sends, recovers from a timeout, polls and records.

  The exchange is not part of the program: the record \<open>gateway\<close> holds its operations
  (\<^verbatim>\<open>packages/exchange/gateway.py\<close>) as parameters. They act on the whole bot state, because other
  tasks run while the code awaits them. \<open>live\<close> is the state of the order manager and of the
  protection manager, with whatever the gateway needs in \<open>lv_gw\<close>. The sinks are the ones
  \<^verbatim>\<open>bot_runtime.py\<close> passes: the reservations and the orders of the runtime state.
\<close>

section \<open>The gateway\<close>

record 'g live =
  lv_symbol_meta :: "(string \<times> symbol_meta) list option"
  lv_last_sl_update_at :: "string \<rightharpoonup> rat"
  lv_gw :: 'g

type_synonym 'g bot = "'g live service"

record 'g gateway =
  gw_load_instruments :: "('g bot, symbol_meta list) action"
  gw_get_positions :: "('g bot, exchange_position list) action"
  gw_get_open_orders :: "string option \<Rightarrow> ('g bot, exchange_order list) action"
  gw_get_order :: "(string \<Rightarrow> string option \<Rightarrow> string option \<Rightarrow> ('g bot, exchange_order option) action) option"
  gw_set_leverage :: "string \<Rightarrow> dec \<Rightarrow> ('g bot, unit) action"
  gw_place_order :: "order_request \<Rightarrow> ('g bot, exchange_order_result) action"
  gw_cancel_order :: "string \<Rightarrow> string option \<Rightarrow> string option \<Rightarrow> ('g bot, unit) action"
  gw_set_trading_stop :: "trading_stop_request \<Rightarrow> ('g bot, unit) action"
  gw_get_position_tpsl :: "string \<Rightarrow> ('g bot, position_tpsl_state) action"
  gw_uuid :: "('g bot, string) action"
  gw_sleep :: "rat \<Rightarrow> ('g bot, unit) action"
  gw_clock :: "'g bot \<Rightarrow> rat"

definition upd_live :: "('g live \<Rightarrow> 'g live) \<Rightarrow> 'g bot \<Rightarrow> 'g bot" where
  "upd_live f s = s\<lparr> sv_exec := f (sv_exec s) \<rparr>"

section \<open>Outcomes and small helpers\<close>

record order_outcome =
  oc_status :: string
  oc_filled_qty :: dec
  oc_avg_price :: "dec option"
  oc_order_id :: "string option"
  oc_client_order_id :: "string option"
  oc_reason :: string

definition outcome_is_filled :: "order_outcome \<Rightarrow> bool" where
  "outcome_is_filled oc \<longleftrightarrow> oc_status oc \<in> {''FILLED'', ''PARTIAL''} \<and> 0 < oc_filled_qty oc"

definition opposite :: "side \<Rightarrow> side" where
  "opposite sd = (if sd = BUY then SELL else BUY)"

text \<open>\<open>TriggerBy(name)\<close>.\<close>

definition trigger_by_of :: "string \<Rightarrow> trigger_by result" where
  "trigger_by_of n =
    (if n = ''LastPrice'' then Inr LAST_PRICE else if n = ''MarkPrice'' then Inr MARK_PRICE
     else if n = ''IndexPrice'' then Inr INDEX_PRICE else Inl ValueError)"

definition new_cid :: "'g gateway \<Rightarrow> string \<Rightarrow> ('g bot, string) action" where
  "new_cid gw prefix = and_then (gw_uuid gw) (\<lambda>u. ret (prefix @ ''-'' @ u))"

definition passive_limit_price :: "side \<Rightarrow> dec \<Rightarrow> dec \<Rightarrow> dec" where
  "passive_limit_price sd bid ask = (if sd = BUY then bid else ask)"

definition limit_ttl_sec :: "app_config \<Rightarrow> entry_mode option \<Rightarrow> int" where
  "limit_ttl_sec cfg em =
    (if em = Some PRE_BREAKOUT_SCOUT then co_scout_limit_order_ttl_sec (cfg_orders cfg)
     else if em = Some RETEST_CONFIRM then co_retest_limit_order_ttl_sec (cfg_orders cfg)
     else co_limit_order_ttl_sec (cfg_orders cfg))"

definition with_entry_tpsl :: "app_config \<Rightarrow> dec option \<Rightarrow> dec option \<Rightarrow> order_request \<Rightarrow> order_request result" where
  "with_entry_tpsl cfg stop_loss take_profit rq =
    (if stop_loss = None \<and> take_profit = None then Inr rq
     else bind_res (trigger_by_of (tp_tp_trigger_by (cfg_tpsl cfg))) (\<lambda>tp.
          bind_res (trigger_by_of (tp_sl_trigger_by (cfg_tpsl cfg))) (\<lambda>sl.
          Inr (rq\<lparr> rq_take_profit := take_profit, rq_stop_loss := stop_loss, rq_tp_trigger_by := tp,
                 rq_sl_trigger_by := sl, rq_tpsl_mode := tp_tpsl_mode (cfg_tpsl cfg) \<rparr>))))"

section \<open>Reservations and records\<close>

definition reserve_request :: "order_request \<Rightarrow> 'g bot \<Rightarrow> 'g bot" where
  "reserve_request rq = upd_state (reserve_order (rq_client_order_id rq) (rq_symbol rq))"

definition clear_reservation :: "string option \<Rightarrow> 'g bot \<Rightarrow> 'g bot" where
  "clear_reservation cid = upd_state (clear_order_reservation cid)"

text \<open>\<open>a or b\<close> on optional strings.\<close>

definition or_string :: "string option \<Rightarrow> string option \<Rightarrow> string option" where
  "or_string a b = (if truthy a then a else b)"

definition register_order :: "order \<Rightarrow> runtime_state \<Rightarrow> runtime_state" where
  "register_order od rs =
    (case or_string (or_client_order_id od) (or_order_id od) of
       None \<Rightarrow> rs
     | Some key \<Rightarrow>
         if key = [] then rs
         else clear_order_reservation (or_client_order_id od) (rs\<lparr> rs_orders := dict_set key od (rs_orders rs) \<rparr>))"

definition order_of :: "order_request \<Rightarrow> exchange_order_result \<Rightarrow> entry_mode option \<Rightarrow> order" where
  "order_of rq res em =
    \<lparr> or_symbol = rq_symbol rq, or_side = rq_side rq, or_type = rq_type rq, or_qty = rq_qty rq,
      or_price = rq_price rq,
      or_client_order_id = or_string (xr_client_order_id res) (rq_client_order_id rq),
      or_order_id = Some (xr_order_id res), or_status = xr_status res,
      or_filled_qty = xr_filled_qty res, or_avg_fill_price = xr_avg_fill_price res,
      or_reduce_only = rq_reduce_only rq, or_entry_mode = em, or_source = BOT \<rparr>"

definition record_order :: "order_request \<Rightarrow> exchange_order_result \<Rightarrow> entry_mode option \<Rightarrow> 'g bot \<Rightarrow> 'g bot" where
  "record_order rq res em s =
    (let od = order_of rq res em in log_entry (LogOrder od) (upd_state (register_order od) s))"

definition safe_cancel :: "'g gateway \<Rightarrow> string \<Rightarrow> string \<Rightarrow> string \<Rightarrow> ('g bot, unit) action" where
  "safe_cancel gw y oid cid = try_except (gw_cancel_order gw y (Some oid) (Some cid)) (\<lambda>_. ret ())"

section \<open>Rounding to the lot size\<close>

definition metas_of :: "symbol_meta list \<Rightarrow> (string \<times> symbol_meta) list" where
  "metas_of ms = fold (\<lambda>m. dict_set (sm_symbol m) m) ms []"

definition load_metas :: "'g gateway \<Rightarrow> ('g bot, (string \<times> symbol_meta) list) action" where
  "load_metas gw s =
    (case lv_symbol_meta (sv_exec s) of
       Some d \<Rightarrow> (s, Inr d)
     | None \<Rightarrow>
         let (s1, r) = gw_load_instruments gw s;
             d = (case r of Inl _ \<Rightarrow> [] | Inr ms \<Rightarrow> metas_of ms)
         in (upd_live (\<lambda>v. v\<lparr> lv_symbol_meta := Some d \<rparr>) s1, Inr d))"

definition meta_for :: "'g gateway \<Rightarrow> string \<Rightarrow> ('g bot, symbol_meta option) action" where
  "meta_for gw y = and_then (load_metas gw) (\<lambda>d. ret (map_of d y))"

definition normalize_request_qty :: "'g gateway \<Rightarrow> order_request \<Rightarrow> ('g bot, order_request) action" where
  "normalize_request_qty gw rq =
    and_then (meta_for gw (rq_symbol rq)) (\<lambda>m.
      ret (case m of
             None \<Rightarrow> rq
           | Some meta \<Rightarrow> let qty = round_qty_down (rq_qty rq) (sm_qty_step meta) in
               if qty = rq_qty rq then rq else rq\<lparr> rq_qty := qty \<rparr>))"

section \<open>Polling an order until it settles\<close>

definition result_of_order :: "string \<Rightarrow> exchange_order \<Rightarrow> exchange_order_result" where
  "result_of_order y x =
    \<lparr> xr_symbol = y, xr_order_id = xo_order_id x, xr_client_order_id = xo_client_order_id x,
      xr_status = xo_status x, xr_filled_qty = xo_cum_exec_qty x, xr_avg_fill_price = xo_avg_price x \<rparr>"

definition poll_interval :: rat where
  "poll_interval = 1 / 4"

text \<open>The \<open>while True\<close> loop, with as many rounds as the fuel allows.\<close>

fun poll ::
  "'g gateway \<Rightarrow> (string \<Rightarrow> string option \<Rightarrow> string option \<Rightarrow> ('g bot, exchange_order option) action) \<Rightarrow>
   order_request \<Rightarrow> exchange_order_result \<Rightarrow> rat \<Rightarrow> nat \<Rightarrow> exchange_order_result \<Rightarrow>
   ('g bot, exchange_order_result) action" where
  "poll gw get rq placed deadline 0 last_seen = ret last_seen"
| "poll gw get rq placed deadline (Suc n) last_seen =
    and_then (get (rq_symbol rq) (Some (xr_order_id placed)) (xr_client_order_id placed)) (\<lambda>found.
      case found of
        None \<Rightarrow> ret last_seen
      | Some x \<Rightarrow>
          let seen = result_of_order (rq_symbol rq) x in
          if xo_status x \<in> {FILLED, CANCELLED, REJECTED, EXPIRED} then ret seen
          else if xo_status x = PARTIALLY_FILLED \<and> rq_time_in_force rq = Some IOC then ret seen
          else if rq_time_in_force rq = Some IOC then ret seen
          else and_then (reads (gw_clock gw)) (\<lambda>now.
            if deadline \<le> now then ret seen
            else then_do (gw_sleep gw poll_interval) (poll gw get rq placed deadline n seen)))"

definition poll_fuel :: "rat \<Rightarrow> nat" where
  "poll_fuel ttl = nat \<lceil>ttl / poll_interval\<rceil> + 1"

definition resolve_ttl :: "app_config \<Rightarrow> order_request \<Rightarrow> int option \<Rightarrow> rat" where
  "resolve_ttl cfg rq ttl =
    (if rq_time_in_force rq = Some IOC then 0
     else of_int (case ttl of Some t \<Rightarrow> t | None \<Rightarrow> co_limit_order_ttl_sec (cfg_orders cfg)))"

definition resolve ::
  "'g gateway \<Rightarrow> app_config \<Rightarrow> order_request \<Rightarrow> exchange_order_result \<Rightarrow> int option \<Rightarrow>
   ('g bot, exchange_order_result) action" where
  "resolve gw cfg rq placed limit_ttl =
    (if 0 < xr_filled_qty placed \<or> xr_status placed \<in> {FILLED, PARTIALLY_FILLED, CANCELLED, REJECTED}
     then ret placed
     else case gw_get_order gw of
       None \<Rightarrow> ret placed
     | Some get \<Rightarrow>
         let ttl = resolve_ttl cfg rq limit_ttl in
         and_then (reads (gw_clock gw)) (\<lambda>now.
           poll gw get rq placed (now + ttl) (poll_fuel ttl) placed))"

section \<open>Placing an order\<close>

definition recover_order :: "'g gateway \<Rightarrow> string \<Rightarrow> string option \<Rightarrow> ('g bot, exchange_order option) action" where
  "recover_order gw y cid =
    (case cid of
       None \<Rightarrow> ret None
     | Some c \<Rightarrow> and_then (gw_get_open_orders gw (Some y))
                   (\<lambda>os. ret (find (\<lambda>x. xo_client_order_id x = Some c) os)))"

text \<open>The end of \<open>_place\<close>: poll, record, release the reservation.\<close>

definition settle ::
  "'g gateway \<Rightarrow> app_config \<Rightarrow> order_request \<Rightarrow> entry_mode option \<Rightarrow> int option \<Rightarrow> exchange_order_result \<Rightarrow>
   ('g bot, exchange_order_result) action" where
  "settle gw cfg rq em limit_ttl placed =
    and_then (resolve gw cfg rq placed limit_ttl) (\<lambda>res.
      then_do (modify (record_order rq res em))
        (then_do (modify (clear_reservation (rq_client_order_id rq))) (ret res)))"

text \<open>The branch for \<open>OrderTimeoutError\<close>: look for the order, or send it once more under a fresh id.
  An exception in here is not caught by the branch for other exceptions.\<close>

definition after_timeout ::
  "'g gateway \<Rightarrow> app_config \<Rightarrow> order_request \<Rightarrow> entry_mode option \<Rightarrow> int option \<Rightarrow>
   ('g bot, exchange_order_result) action" where
  "after_timeout gw cfg rq em limit_ttl =
    and_then (recover_order gw (rq_symbol rq) (rq_client_order_id rq)) (\<lambda>found.
      case found of
        Some x \<Rightarrow>
          let res = result_of_order (rq_symbol rq) x in
          then_do (modify (record_order rq res em))
            (then_do (modify (clear_reservation (rq_client_order_id rq))) (ret res))
      | None \<Rightarrow>
          then_do (modify (clear_reservation (rq_client_order_id rq)))
            (and_then (new_cid gw ''retry'') (\<lambda>c.
              let retry = rq\<lparr> rq_client_order_id := Some c \<rparr> in
              then_do (modify (reserve_request retry))
                (and_then (gw_place_order gw retry) (settle gw cfg retry em limit_ttl)))))"

definition place ::
  "'g gateway \<Rightarrow> app_config \<Rightarrow> order_request \<Rightarrow> entry_mode option \<Rightarrow> int option \<Rightarrow>
   ('g bot, exchange_order_result) action" where
  "place gw cfg rq0 em limit_ttl =
    and_then (normalize_request_qty gw rq0) (\<lambda>rq.
      if rq_qty rq \<le> 0
      then ret \<lparr> xr_symbol = rq_symbol rq, xr_order_id = [], xr_client_order_id = rq_client_order_id rq,
                 xr_status = REJECTED, xr_filled_qty = 0, xr_avg_fill_price = None \<rparr>
      else then_do (modify (reserve_request rq)) (\<lambda>s.
        case gw_place_order gw rq s of
          (s1, Inr placed) \<Rightarrow> settle gw cfg rq em limit_ttl placed s1
        | (s1, Inl e) \<Rightarrow>
            if e = OrderTimeoutError then after_timeout gw cfg rq em limit_ttl s1
            else (clear_reservation (rq_client_order_id rq) s1, Inl e)))"

section \<open>Exits\<close>

definition exit_status :: "dec \<Rightarrow> exchange_order_result \<Rightarrow> string" where
  "exit_status qty res =
    (if xr_status res = FILLED \<or> qty \<le> xr_filled_qty res then ''FILLED''
     else if 0 < xr_filled_qty res then ''PARTIAL'' else ''NO_FILL'')"

definition place_exit ::
  "'g gateway \<Rightarrow> app_config \<Rightarrow> string \<Rightarrow> side \<Rightarrow> dec \<Rightarrow> order_type \<Rightarrow> dec option \<Rightarrow> ('g bot, order_outcome) action" where
  "place_exit gw cfg y sd qty t price =
    and_then (new_cid gw ''exit'') (\<lambda>cid.
    and_then (place gw cfg
        ((new_order_request y sd t qty)\<lparr> rq_price := price, rq_reduce_only := True,
          rq_time_in_force := (if t = AGGRESSIVE_LIMIT then Some IOC else None),
          rq_client_order_id := Some cid \<rparr>) None None) (\<lambda>res.
    ret \<lparr> oc_status = exit_status qty res, oc_filled_qty = xr_filled_qty res,
          oc_avg_price = xr_avg_fill_price res, oc_order_id = Some (xr_order_id res),
          oc_client_order_id = Some cid, oc_reason = [] \<rparr>))"

definition market_exit :: "'g gateway \<Rightarrow> app_config \<Rightarrow> string \<Rightarrow> side \<Rightarrow> dec \<Rightarrow> ('g bot, order_outcome) action" where
  "market_exit gw cfg y sd qty = place_exit gw cfg y sd qty MARKET None"

definition place_partial_exit ::
  "'g gateway \<Rightarrow> app_config \<Rightarrow> string \<Rightarrow> side \<Rightarrow> dec \<Rightarrow> dec option \<Rightarrow> ('g bot, order_outcome) action" where
  "place_partial_exit gw cfg y sd qty limit_price =
    (case limit_price of
       None \<Rightarrow> market_exit gw cfg y sd qty
     | Some price \<Rightarrow>
         and_then (new_cid gw ''ptp'') (\<lambda>cid.
         and_then (place gw cfg
             ((new_order_request y sd LIMIT qty)\<lparr> rq_price := Some price, rq_reduce_only := True,
               rq_time_in_force := Some GTC, rq_client_order_id := Some cid \<rparr>) None None) (\<lambda>res.
         if xr_status res = FILLED \<or> qty \<le> xr_filled_qty res
         then ret \<lparr> oc_status = ''FILLED'', oc_filled_qty = xr_filled_qty res,
                    oc_avg_price = xr_avg_fill_price res, oc_order_id = Some (xr_order_id res),
                    oc_client_order_id = Some cid, oc_reason = [] \<rparr>
         else then_do (safe_cancel gw y (xr_order_id res) cid)
           (let remainder = dsub qty (xr_filled_qty res) in
            if 0 < remainder
            then and_then (market_exit gw cfg y sd remainder) (\<lambda>mkt.
              let total = dadd (xr_filled_qty res) (oc_filled_qty mkt) in
              ret \<lparr> oc_status = (if qty \<le> total then ''FILLED'' else if 0 < total then ''PARTIAL'' else ''NO_FILL''),
                    oc_filled_qty = total,
                    oc_avg_price = or_else (oc_avg_price mkt) (xr_avg_fill_price res),
                    oc_order_id = Some (xr_order_id res), oc_client_order_id = Some cid, oc_reason = [] \<rparr>)
            else market_exit gw cfg y sd qty))))"

section \<open>Entries\<close>

text \<open>What the aggressive entry makes of a positive fill: kept when it is large enough, otherwise
  cancelled and flattened.\<close>

definition keep_or_flatten ::
  "'g gateway \<Rightarrow> app_config \<Rightarrow> string \<Rightarrow> side \<Rightarrow> dec \<Rightarrow> string \<Rightarrow> exchange_order_result \<Rightarrow>
   ('g bot, order_outcome) action" where
  "keep_or_flatten gw cfg y sd qty cid res =
    (let filled = xr_filled_qty res; keep_ratio = co_partial_fill_min_ratio_to_keep (cfg_orders cfg);
         oid = Some (xr_order_id res) in
     if qty = 0 then throw ZeroDivisionError
     else if keep_ratio \<le> ddiv filled qty
     then then_do (when_do (filled < qty) (safe_cancel gw y (xr_order_id res) cid))
       (ret \<lparr> oc_status = (if qty \<le> filled then ''FILLED'' else ''PARTIAL''), oc_filled_qty = filled,
              oc_avg_price = xr_avg_fill_price res, oc_order_id = oid, oc_client_order_id = Some cid,
              oc_reason = [] \<rparr>)
     else then_do (safe_cancel gw y (xr_order_id res) cid)
       (and_then (market_exit gw cfg y (opposite sd) filled) (\<lambda>_.
          ret \<lparr> oc_status = ''REJECTED'', oc_filled_qty = 0, oc_avg_price = None, oc_order_id = oid,
                oc_client_order_id = Some cid, oc_reason = ''PARTIAL_FILL_TOO_SMALL'' \<rparr>)))"

definition place_aggressive ::
  "'g gateway \<Rightarrow> app_config \<Rightarrow> string \<Rightarrow> side \<Rightarrow> dec \<Rightarrow> dec \<Rightarrow> dec \<Rightarrow> entry_mode \<Rightarrow> dec option \<Rightarrow> dec option \<Rightarrow>
   ('g bot, order_outcome) action" where
  "place_aggressive gw cfg y sd qty bid ask em stop_loss take_profit =
    (let price = aggressive_limit_price sd ask bid (co_max_slippage_percent (cfg_orders cfg)) in
     and_then (new_cid gw ''qb'') (\<lambda>cid.
     and_then (lift_res (with_entry_tpsl cfg stop_loss take_profit
         ((new_order_request y sd AGGRESSIVE_LIMIT qty)\<lparr> rq_price := Some price,
           rq_time_in_force := Some IOC, rq_client_order_id := Some cid \<rparr>))) (\<lambda>rq.
     and_then (place gw cfg rq (Some em) None) (\<lambda>res.
     if xr_filled_qty res \<le> 0
     then ret \<lparr> oc_status = ''NO_FILL'', oc_filled_qty = 0, oc_avg_price = None,
                oc_order_id = Some (xr_order_id res), oc_client_order_id = Some cid,
                oc_reason = ''IOC_NO_FILL'' \<rparr>
     else keep_or_flatten gw cfg y sd qty cid res))))"

definition limit_unfilled :: order_outcome where
  "limit_unfilled = \<lparr> oc_status = ''NO_FILL'', oc_filled_qty = 0, oc_avg_price = None, oc_order_id = None,
    oc_client_order_id = None, oc_reason = ''LIMIT_UNFILLED'' \<rparr>"

text \<open>One round of \<open>_place_limit\<close>: the outcome, or \<open>None\<close> to try again.\<close>

definition limit_round ::
  "'g gateway \<Rightarrow> app_config \<Rightarrow> string \<Rightarrow> side \<Rightarrow> dec \<Rightarrow> dec \<Rightarrow> entry_mode \<Rightarrow> dec option \<Rightarrow> dec option \<Rightarrow>
   ('g bot, order_outcome option) action" where
  "limit_round gw cfg y sd qty price em stop_loss take_profit =
    and_then (new_cid gw ''qb'') (\<lambda>cid.
    and_then (lift_res (with_entry_tpsl cfg stop_loss take_profit
        ((new_order_request y sd LIMIT qty)\<lparr> rq_price := Some price, rq_time_in_force := Some GTC,
          rq_client_order_id := Some cid \<rparr>))) (\<lambda>rq.
    and_then (place gw cfg rq (Some em) (Some (limit_ttl_sec cfg (Some em)))) (\<lambda>res.
    let filled = xr_filled_qty res;
        cancel = then_do (safe_cancel gw y (xr_order_id res) cid)
                   (modify (record_order rq (res\<lparr> xr_status := CANCELLED \<rparr>) (Some em)));
        answer = \<lambda>st. \<lparr> oc_status = st, oc_filled_qty = filled, oc_avg_price = xr_avg_fill_price res,
                   oc_order_id = Some (xr_order_id res), oc_client_order_id = Some cid, oc_reason = [] \<rparr>
    in if filled \<le> 0 then then_do cancel (ret None)
       else if filled < qty then then_do cancel (ret (Some (answer ''PARTIAL'')))
       else ret (Some (answer ''FILLED'')))))"

text \<open>\<open>for _ in range(tries)\<close>.\<close>

fun limit_tries :: "nat \<Rightarrow> ('g bot, order_outcome option) action \<Rightarrow> ('g bot, order_outcome) action" where
  "limit_tries 0 attempt = ret limit_unfilled"
| "limit_tries (Suc n) attempt =
    and_then attempt (\<lambda>oc. case oc of Some x \<Rightarrow> ret x | None \<Rightarrow> limit_tries n attempt)"

definition place_limit ::
  "'g gateway \<Rightarrow> app_config \<Rightarrow> string \<Rightarrow> side \<Rightarrow> dec \<Rightarrow> dec \<Rightarrow> entry_mode \<Rightarrow> dec option \<Rightarrow> dec option \<Rightarrow>
   ('g bot, order_outcome) action" where
  "place_limit gw cfg y sd qty price em stop_loss take_profit =
    limit_tries (nat (co_limit_reorder_attempts (cfg_orders cfg) + 1))
      (limit_round gw cfg y sd qty price em stop_loss take_profit)"

definition place_entry ::
  "'g gateway \<Rightarrow> app_config \<Rightarrow> string \<Rightarrow> side \<Rightarrow> dec \<Rightarrow> entry_mode \<Rightarrow> dec \<Rightarrow> dec \<Rightarrow> dec option \<Rightarrow>
   dec option \<Rightarrow> dec option \<Rightarrow> ('g bot, order_outcome) action" where
  "place_entry gw cfg y sd qty em bid ask limit_price stop_loss take_profit =
    and_then (lift_res (entry_order_type em (cfg_orders cfg))) (\<lambda>t.
    and_then (lift_res (assert_live_new_entry_allowed t False (cfg_orders cfg))) (\<lambda>_.
    if t = AGGRESSIVE_LIMIT then place_aggressive gw cfg y sd qty bid ask em stop_loss take_profit
    else place_limit gw cfg y sd qty (or_dec limit_price (passive_limit_price sd bid ask)) em
           stop_loss take_profit))"

section \<open>LiveExecutor\<close>

definition live_open :: "'g gateway \<Rightarrow> app_config \<Rightarrow> open_args \<Rightarrow> ('g bot, open_result) action" where
  "live_open gw cfg a =
    then_do (gw_set_leverage gw (oa_symbol a) (oa_leverage a))
      (and_then (place_entry gw cfg (oa_symbol a) (oa_side a) (oa_qty a) (oa_entry_mode a)
          (oa_best_bid a) (oa_best_ask a) None (oa_stop_loss a) (oa_take_profit a)) (\<lambda>oc.
        ret (if \<not> outcome_is_filled oc
             then \<lparr> op_ok = False, op_fill_price = 0, op_fill_qty = 0, op_fee = 0,
                    op_reason = (if oc_reason oc = [] then oc_status oc else oc_reason oc) \<rparr>
             else \<lparr> op_ok = True, op_fill_price = or_dec (oc_avg_price oc) (oa_best_ask a),
                    op_fill_qty = oc_filled_qty oc, op_fee = 0, op_reason = [] \<rparr>)))"

definition live_close :: "'g gateway \<Rightarrow> app_config \<Rightarrow> close_args \<Rightarrow> ('g bot, close_result) action" where
  "live_close gw cfg a =
    and_then (if ca_prefer_limit a
              then place_partial_exit gw cfg (ca_symbol a) (ca_side a) (ca_qty a) (ca_limit_price a)
              else market_exit gw cfg (ca_symbol a) (ca_side a) (ca_qty a)) (\<lambda>oc.
      ret \<lparr> cr_fill_price = or_dec (oc_avg_price oc) (ca_best_bid a), cr_fill_qty = oc_filled_qty oc,
            cr_fee = 0, cr_realized = None \<rparr>)"

end
