(* ===== verification/Protection.thy ===== *)
theory Protection
  imports Order_Manager Trading_Manage
begin

text \<open>
  Protection of LIVE positions (\<^verbatim>\<open>packages/position/protection_manager.py\<close>): a filled position
  becomes ACTIVE only once its exchange stop has been read back, and is flattened otherwise; the
  ratcheted stop is synchronised at a bounded rate.

  The position object is the entry of the registry under its symbol. The event bus and the logger
  are the ones of the service.
\<close>

definition publish :: "bot_event \<Rightarrow> 'x service \<Rightarrow> 'x service" where
  "publish e s = s\<lparr> sv_effects := sv_effects s @ [Publish e] \<rparr>"

definition set_status :: "string \<Rightarrow> position_status \<Rightarrow> 'x service \<Rightarrow> 'x service" where
  "set_status y st = upd_pos y (\<lambda>p. p\<lparr> p_status := st \<rparr>)"

section \<open>Confirmation and verification\<close>

definition adopt_size :: "string \<Rightarrow> exchange_position list \<Rightarrow> 'x service \<Rightarrow> 'x service" where
  "adopt_size y xs s =
    (case find (\<lambda>x. xp_symbol x = y \<and> xp_side x \<noteq> None) xs of
       None \<Rightarrow> s
     | Some x \<Rightarrow>
         if 0 < xp_size x
         then upd_pos y (\<lambda>p. p\<lparr> p_qty := xp_size x, p_avg_entry_price := xp_avg_price x \<rparr>) s else s)"

definition confirm_position :: "'g gateway \<Rightarrow> string \<Rightarrow> ('g bot, unit) action" where
  "confirm_position gw y =
    try_except (and_then (gw_get_positions gw) (\<lambda>xs. modify (adopt_size y xs))) (\<lambda>_. ret ())"

definition close_enough :: "dec \<Rightarrow> dec option \<Rightarrow> dec \<Rightarrow> bool" where
  "close_enough tolerance actual expected =
    (case actual of
       None \<Rightarrow> False
     | Some a \<Rightarrow> dabs (dsub a expected) \<le> ddiv (dmul (dabs expected) tolerance) 100)"

definition matches_requested_tpsl :: "app_config \<Rightarrow> position \<Rightarrow> position_tpsl_state \<Rightarrow> bool" where
  "matches_requested_tpsl cfg p st =
    (let tolerance = pp_tpsl_verify_tolerance_percent (cfg_position_protection cfg);
         use_sl = tp_use_exchange_sl (cfg_tpsl cfg); use_tp = tp_use_exchange_tp (cfg_tpsl cfg);
         fits = \<lambda>actual expected. case expected of None \<Rightarrow> False | Some e \<Rightarrow> close_enough tolerance actual e
     in if use_sl \<and> \<not> fits (ts_stop_loss st) (p_stop_loss_price p) then False
        else if use_tp \<and> \<not> fits (ts_take_profit st) (p_take_profit_price p) then False
        else use_sl \<or> use_tp)"

definition matches_now :: "app_config \<Rightarrow> string \<Rightarrow> position_tpsl_state \<Rightarrow> 'x service \<Rightarrow> bool" where
  "matches_now cfg y st s = (case pos_of s y of None \<Rightarrow> False | Some p \<Rightarrow> matches_requested_tpsl cfg p st)"

text \<open>\<open>for attempt in range(retries)\<close>, counting the attempts that are left.\<close>

fun verify_tries :: "'g gateway \<Rightarrow> app_config \<Rightarrow> string \<Rightarrow> nat \<Rightarrow> ('g bot, bool) action" where
  "verify_tries gw cfg y 0 = ret False"
| "verify_tries gw cfg y (Suc n) =
    and_then (gw_get_position_tpsl gw y) (\<lambda>st.
    and_then (reads (matches_now cfg y st)) (\<lambda>ok.
    if ok then ret True
    else then_do (when_do (0 < n) (gw_sleep gw (of_int (pp_verify_tpsl_retry_interval_sec (cfg_position_protection cfg)))))
      (verify_tries gw cfg y n)))"

definition verify_tpsl :: "'g gateway \<Rightarrow> app_config \<Rightarrow> string \<Rightarrow> ('g bot, bool) action" where
  "verify_tpsl gw cfg y =
    verify_tries gw cfg y (nat (pp_verify_tpsl_retry_count (cfg_position_protection cfg)))"

section \<open>Activation and emergency close\<close>

definition protected_result :: "dec option \<Rightarrow> dec option \<Rightarrow> protection_result" where
  "protected_result tp sl = \<lparr> pt_protected = True, pt_tp = tp, pt_sl = sl, pt_reason = [],
    pt_emergency = False, pt_closed = False \<rparr>"

definition emergency_result :: "string \<Rightarrow> bool \<Rightarrow> protection_result" where
  "emergency_result why flat = \<lparr> pt_protected = False, pt_tp = None, pt_sl = None, pt_reason = why,
    pt_emergency = True, pt_closed = flat \<rparr>"

definition activate :: "string \<Rightarrow> dec option \<Rightarrow> dec option \<Rightarrow> 'x service \<Rightarrow> 'x service" where
  "activate y tp sl s =
    log_entry (LogProtection y ''TPSL_VERIFIED'' tp sl True)
      (publish (data_event EV_TPSL_VERIFIED y []) (set_status y ACTIVE s))"

definition emergency_close :: "'g gateway \<Rightarrow> app_config \<Rightarrow> string \<Rightarrow> ('g bot, protection_result) action" where
  "emergency_close gw cfg y =
    then_do (modify (\<lambda>s. log_entry (LogProtection y ''EMERGENCY_TPSL_FAILED'' None None False)
        (publish (simple_event EV_EMERGENCY_TPSL_FAILED y ''TP/SL set/verify failed'') s)))
      (\<lambda>s. case pos_of s y of
         None \<Rightarrow> (s, Inl TypeError)
       | Some p \<Rightarrow>
           and_then (market_exit gw cfg y (exit_side p) (p_qty p)) (\<lambda>oc.
             if outcome_is_filled oc
             then then_do (modify (\<lambda>s1. publish
                 (simple_event EV_EMERGENCY_CLOSE y ''position flattened -> ORDER_LOCKED'') (set_status y CLOSED s1)))
               (ret (emergency_result ''ORDER_LOCKED'' True))
             else ret (emergency_result ''EMERGENCY_STOP'' False)) s)"

section \<open>protect\<close>

definition wanted_tp :: "app_config \<Rightarrow> position \<Rightarrow> dec option" where
  "wanted_tp cfg p = (if tp_use_exchange_tp (cfg_tpsl cfg) then p_take_profit_price p else None)"

definition wanted_sl :: "app_config \<Rightarrow> position \<Rightarrow> dec option" where
  "wanted_sl cfg p = (if tp_use_exchange_sl (cfg_tpsl cfg) then p_stop_loss_price p else None)"

definition stop_request :: "app_config \<Rightarrow> string \<Rightarrow> dec option \<Rightarrow> dec option \<Rightarrow> trading_stop_request result" where
  "stop_request cfg y tp sl =
    bind_res (trigger_by_of (tp_tp_trigger_by (cfg_tpsl cfg))) (\<lambda>tb.
    bind_res (trigger_by_of (tp_sl_trigger_by (cfg_tpsl cfg))) (\<lambda>sb.
    Inr \<lparr> tr_symbol = y, tr_take_profit = tp, tr_stop_loss = sl, tr_tp_trigger_by = tb,
          tr_sl_trigger_by = sb, tr_tpsl_mode = tp_tpsl_mode (cfg_tpsl cfg), tr_position_idx = 0 \<rparr>))"

text \<open>The fallback: set the stop, then verify it or flatten.\<close>

definition set_and_verify ::
  "'g gateway \<Rightarrow> app_config \<Rightarrow> string \<Rightarrow> dec option \<Rightarrow> dec option \<Rightarrow> ('g bot, protection_result) action" where
  "set_and_verify gw cfg y tp sl =
    and_then (lift_res (stop_request cfg y tp sl)) (\<lambda>rq.
    then_do (gw_set_trading_stop gw rq)
    (then_do (modify (\<lambda>s. log_entry (LogProtection y ''TPSL_SET'' tp sl True)
        (publish (data_event EV_TPSL_SET y [(''tp'', str_of_opt tp), (''sl'', str_of_opt sl)]) s)))
    (if \<not> pp_verify_tpsl_after_entry (cfg_position_protection cfg)
     then then_do (modify (set_status y ACTIVE)) (ret (protected_result tp sl))
     else and_then (verify_tpsl gw cfg y) (\<lambda>ok.
       if ok then then_do (modify (activate y tp sl)) (ret (protected_result tp sl))
       else emergency_close gw cfg y))))"

definition protect_with ::
  "'g gateway \<Rightarrow> app_config \<Rightarrow> string \<Rightarrow> dec option \<Rightarrow> dec option \<Rightarrow> ('g bot, protection_result) action" where
  "protect_with gw cfg y tp sl =
    (if tp = None \<and> sl = None
     then then_do (modify (set_status y ACTIVE)) (ret (protected_result tp sl))
     else and_then (if pp_verify_tpsl_after_entry (cfg_position_protection cfg) then verify_tpsl gw cfg y
                    else ret False) (\<lambda>ok.
       if ok then then_do (modify (activate y tp sl)) (ret (protected_result tp sl))
       else set_and_verify gw cfg y tp sl))"

definition protect :: "'g gateway \<Rightarrow> app_config \<Rightarrow> string \<Rightarrow> ('g bot, protection_result) action" where
  "protect gw cfg y =
    then_do (confirm_position gw y)
      (\<lambda>s. case pos_of s y of
         None \<Rightarrow> (s, Inl TypeError)
       | Some p \<Rightarrow> protect_with gw cfg y (wanted_tp cfg p) (wanted_sl cfg p) s)"

section \<open>sync_stop_loss\<close>

definition sync_interval :: "app_config \<Rightarrow> position \<Rightarrow> rat" where
  "sync_interval cfg p =
    (if p_runner_mode_active p then of_int (rn_min_trailing_update_interval_sec (runner_cfg cfg))
     else of_int (ps_min_exchange_sl_update_interval_sec (cfg_position cfg)))"

definition sync_stop_loss :: "'g gateway \<Rightarrow> app_config \<Rightarrow> string \<Rightarrow> ('g bot, bool) action" where
  "sync_stop_loss gw cfg y s =
    (case pos_of s y of
       None \<Rightarrow> (s, Inl TypeError)
     | Some p \<Rightarrow>
         if \<not> ps_sync_exchange_sl_with_trailing (cfg_position cfg) \<or> \<not> tp_use_exchange_sl (cfg_tpsl cfg)
            \<or> p_stop_loss_price p = None
         then (s, Inr False)
         else
           let now = gw_clock gw s in
           if now - get_or (lv_last_sl_update_at (sv_exec s)) y 0 < sync_interval cfg p then (s, Inr False)
           else
             and_then (lift_res (trigger_by_of (tp_sl_trigger_by (cfg_tpsl cfg)))) (\<lambda>sb.
             then_do (gw_set_trading_stop gw
                 \<lparr> tr_symbol = y, tr_take_profit = None, tr_stop_loss = p_stop_loss_price p,
                   tr_tp_trigger_by = LAST_PRICE, tr_sl_trigger_by = sb,
                   tr_tpsl_mode = tp_tpsl_mode (cfg_tpsl cfg), tr_position_idx = 0 \<rparr>)
             (then_do (modify (upd_live (\<lambda>v. v\<lparr> lv_last_sl_update_at := (lv_last_sl_update_at v)(y \<mapsto> now) \<rparr>)))
             (then_do (modify (\<lambda>s1. log_entry (LogProtection y ''TRAILING_SL_SYNCED'' None
                  (case pos_of s1 y of None \<Rightarrow> None | Some q \<Rightarrow> p_stop_loss_price q) True) s1))
             (ret True)))) s)"

definition resync :: "'g gateway \<Rightarrow> app_config \<Rightarrow> string \<Rightarrow> ('g bot, protection_result) action" where
  "resync gw cfg y = protect gw cfg y"

section \<open>The ports of LIVE mode\<close>

definition live_ports :: "'g gateway \<Rightarrow> app_config \<Rightarrow> ('g bot, order_book \<times> int option) action \<Rightarrow> 'g live ports" where
  "live_ports gw cfg ob =
    \<lparr> po_open = live_open gw cfg, po_close = live_close gw cfg, po_protect = protect gw cfg,
      po_sync_stop_loss = sync_stop_loss gw cfg, po_orderbook = ob \<rparr>"

end
