(* ===== verification/Manual_Intervention.thy ===== *)
theory Manual_Intervention
  imports Protection
begin

text \<open>
  Manual interventions (\<^verbatim>\<open>packages/reconciliation/manual_intervention_handler.py\<close>): what the bot does
  with a position, an order or a change of size it did not make itself.

  The handler works on the service's runtime state, event bus and logger. \<open>sync_env\<close> holds the
  operations that are passed in: the exchange operations of the reconciliation, the two hooks of
  \<^verbatim>\<open>bot_runtime.py\<close>, the two optional database operations of the logger, and the two clocks. The
  hooks and the exchange operations act on the whole service state.
\<close>

section \<open>What is passed in\<close>

record 'x sync_env =
  se_get_positions :: "('x service, exchange_position list) action"
  se_get_open_orders :: "('x service, exchange_order list) action"
  se_cancel_order :: "string \<Rightarrow> string option \<Rightarrow> string option \<Rightarrow> ('x service, unit) action"
  se_protection_resync :: "(string \<Rightarrow> ('x service, bool) action) option"
  se_risk_exceeded :: "(position \<Rightarrow> bool) option"
  se_close_stale :: "(string set \<Rightarrow> ('x service, string list) action) option"
  se_update_order_status :: "(string \<Rightarrow> string option \<Rightarrow> string \<Rightarrow> ('x service, unit) action) option"
  se_clock :: "'x service \<Rightarrow> rat"
  se_wall :: "'x service \<Rightarrow> int"

section \<open>Helpers\<close>

definition log_manual :: "string \<Rightarrow> string \<Rightarrow> payload \<Rightarrow> 'x service \<Rightarrow> 'x service" where
  "log_manual y kind d = log_entry (LogManualIntervention y kind d)"

definition message_event :: "bot_event_type \<Rightarrow> string \<Rightarrow> string \<Rightarrow> payload \<Rightarrow> bot_event" where
  "message_event t y msg d = \<lparr> be_type = t, be_symbol = Some y, be_message = msg, be_data = d \<rparr>"

definition pause_entries :: "'x sync_env \<Rightarrow> manual_intervention_section \<Rightarrow> 'x service \<Rightarrow> 'x service" where
  "pause_entries env mi s =
    (if mi_pause_new_entries_on_external_change mi
     then upd_state (pause_new_entries (se_clock env s) (of_int (mi_pause_seconds_after_external_change mi))) s
     else s)"

section \<open>Positions and orders from outside\<close>

text \<open>\<open>exch.side\<close> is not \<open>None\<close> here: the reconciliation passes only positions with a side. The other
  branch raises, as the validation of \<open>Position\<close> does.\<close>

definition adopted_position :: "int \<Rightarrow> exchange_position \<Rightarrow> position_side \<Rightarrow> position" where
  "adopted_position now x sd =
    (new_position (xp_symbol x) sd (xp_size x) (xp_avg_price x) now)
      \<lparr> p_status := ACTIVE, p_source := EXTERNAL, p_leverage := xp_leverage x,
        p_stop_loss_price := xp_stop_loss x, p_take_profit_price := xp_take_profit x,
        p_liq_price := xp_liq_price x, p_strategy_reason := ''external (manual)'' \<rparr>"

definition handle_external_position ::
  "'x sync_env \<Rightarrow> manual_intervention_section \<Rightarrow> exchange_position \<Rightarrow> ('x service, unit) action" where
  "handle_external_position env mi x s =
    (if \<not> mi_adopt_external_positions mi then (pause_entries env mi s, Inr ())
     else
       (case xp_side x of
          None \<Rightarrow> (s, Inl ValueError)
        | Some sd \<Rightarrow>
            let s1 = pause_entries env mi (set_pos (adopted_position (se_wall env s) x sd) s);
                d = [(''size'', PDec (xp_size x)), (''avg_price'', PDec (xp_avg_price x))];
                s2 = publish (message_event EV_EXTERNAL_POSITION_DETECTED (xp_symbol x)
                  ''Adopted external position (not auto-managed)'' d) s1
            in (log_manual (xp_symbol x) ''external_position'' d s2, Inr ())))"

definition handle_external_order ::
  "'x sync_env \<Rightarrow> manual_intervention_section \<Rightarrow> exchange_order \<Rightarrow> 'x service \<Rightarrow> 'x service" where
  "handle_external_order env mi x s =
    (let s1 = upd_state (\<lambda>rs. rs\<lparr> rs_external_orders := dict_set (xo_order_id x) x (rs_external_orders rs) \<rparr>) s;
         s2 = pause_entries env mi s1;
         d = [(''order_id'', PStr (xo_order_id x)), (''qty'', PDec (xo_qty x))];
         s3 = publish (message_event EV_EXTERNAL_ORDER_DETECTED (xo_symbol x)
           ''External open order detected (not cancelled)'' d) s2
     in log_manual (xo_symbol x) ''external_order'' d s3)"

section \<open>A change of size\<close>

definition adopted_qty :: "exchange_position \<Rightarrow> dec \<Rightarrow> position \<Rightarrow> position" where
  "adopted_qty x delta p =
    p\<lparr> p_manual_added_qty := (if 0 < delta then dadd (p_manual_added_qty p) delta else p_manual_added_qty p),
       p_qty := xp_size x, p_avg_entry_price := xp_avg_price x,
       p_liq_price := (if xp_liq_price x = None then p_liq_price p else xp_liq_price x) \<rparr>"

definition mismatch_message :: "dec \<Rightarrow> string" where
  "mismatch_message delta =
    (if 0 < delta then ''Manual add detected; reflecting Bybit qty''
     else if delta < 0 then ''Manual partial close detected; reflecting Bybit qty''
     else ''Position qty mismatch (no delta)'')"

definition mismatch_event :: "dec \<Rightarrow> bot_event_type" where
  "mismatch_event delta =
    (if 0 < delta then EV_MANUAL_ADD_DETECTED
     else if delta < 0 then EV_MANUAL_PARTIAL_CLOSE_DETECTED else EV_POSITION_QUANTITY_MISMATCH)"

text \<open>Lines 109-152: the real size is taken over, entries are paused, the change is announced.\<close>

definition take_over_qty ::
  "'x sync_env \<Rightarrow> manual_intervention_section \<Rightarrow> position \<Rightarrow> exchange_position \<Rightarrow> dec \<Rightarrow> 'x service \<Rightarrow> 'x service" where
  "take_over_qty env mi p x delta s =
    (let p' = adopted_qty x delta p; y = p_symbol p;
         d = [(''prev_qty'', PDec (p_qty p)), (''new_qty'', PDec (xp_size x)), (''delta'', PDec delta),
              (''manual_added_qty'', PDec (p_manual_added_qty p'))];
         s1 = pause_entries env mi (set_pos p' s);
         s2 = publish (message_event EV_POSITION_QUANTITY_MISMATCH y (mismatch_message delta) d) s1;
         s3 = (if mismatch_event delta \<noteq> EV_POSITION_QUANTITY_MISMATCH
               then publish (simple_event (mismatch_event delta) y (mismatch_message delta)) s2 else s2)
     in log_manual y ''qty_mismatch'' d s3)"

definition resync_after :: "'x sync_env \<Rightarrow> string \<Rightarrow> ('x service, unit) action" where
  "resync_after env y s =
    (case (pos_of s y, se_protection_resync env) of
       (Some p, Some redo) \<Rightarrow>
         if is_bot_managed p
         then and_then (redo y) (\<lambda>ok. when_do (\<not> ok) (modify (publish (simple_event EV_EMERGENCY_TPSL_FAILED y
                ''TP/SL resync failed after manual qty change'')))) s
         else (s, Inr ())
     | _ \<Rightarrow> (s, Inr ()))"

definition warn_risk :: "'x sync_env \<Rightarrow> string \<Rightarrow> dec \<Rightarrow> 'x service \<Rightarrow> 'x service" where
  "warn_risk env y delta s =
    (case (pos_of s y, se_risk_exceeded env) of
       (Some p, Some exceeded) \<Rightarrow>
         if 0 < delta \<and> is_bot_managed p \<and> exceeded p
         then publish (simple_event EV_RISK_LIMIT_EXCEEDED_BY_MANUAL_INTERVENTION y
                ''Manual add exceeded risk limits; pausing new entries'') s
         else s
     | _ \<Rightarrow> s)"

definition handle_qty_mismatch ::
  "'x sync_env \<Rightarrow> manual_intervention_section \<Rightarrow> position \<Rightarrow> exchange_position \<Rightarrow> ('x service, unit) action" where
  "handle_qty_mismatch env mi p x =
    (let delta = dsub (xp_size x) (p_qty p) in
     then_do (modify (take_over_qty env mi p x delta))
       (then_do (resync_after env (p_symbol p)) (modify (warn_risk env (p_symbol p) delta))))"

section \<open>Positions that are gone\<close>

definition handle_external_close ::
  "'x sync_env \<Rightarrow> manual_intervention_section \<Rightarrow> position \<Rightarrow> 'x service \<Rightarrow> 'x service" where
  "handle_external_close env mi p s =
    (let p' = p\<lparr> p_status := CLOSED, p_qty := 0, p_closed_at := Some (se_wall env s) \<rparr>;
         s1 = pause_entries env mi (set_pos p' s);
         s2 = publish (simple_event EV_POSITION_CLOSED_EXTERNALLY (p_symbol p) ''Position closed outside the bot'') s1
     in log_manual (p_symbol p) ''external_close'' [] s2)"

definition stop_protects_profit :: "position \<Rightarrow> bool" where
  "stop_protects_profit p =
    (case p_stop_loss_price p of
       None \<Rightarrow> False
     | Some x \<Rightarrow> if p_side p = LONG then p_avg_entry_price p \<le> x else x \<le> p_avg_entry_price p)"

definition exchange_protection_exit_reason :: "position \<Rightarrow> exit_reason" where
  "exchange_protection_exit_reason p =
    (if p_runner_mode_active p then RUNNER_TRAILING_STOP
     else if p_trailing_active p \<and> stop_protects_profit p then TRAILING_STOP else STOP_LOSS)"

definition estimated_exchange_exit_price :: "position \<Rightarrow> dec" where
  "estimated_exchange_exit_price p = or_dec (p_stop_loss_price p) (p_avg_entry_price p)"

definition estimated_realized_pnl :: "position \<Rightarrow> dec \<Rightarrow> dec \<Rightarrow> dec" where
  "estimated_realized_pnl p exit_price qty =
    dmul (dmul (dsub exit_price (p_avg_entry_price p)) qty) (direction_of (p_side p))"

text \<open>The position after the close is booked.\<close>

definition closed_on_exchange :: "int \<Rightarrow> position \<Rightarrow> position" where
  "closed_on_exchange now p =
    p\<lparr> p_status := CLOSED, p_qty := 0, p_closed_at := Some now,
       p_exit_reason := Some (exchange_protection_exit_reason p),
       p_realized_pnl := dadd (p_realized_pnl p)
         (estimated_realized_pnl p (estimated_exchange_exit_price p) (p_qty p)) \<rparr>"

definition runner_closed_event :: "position \<Rightarrow> position \<Rightarrow> bot_event" where
  "runner_closed_event p p' =
    (let exit_price = estimated_exchange_exit_price p in
     message_event EV_RUNNER_TRAILING_STOP (p_symbol p) ''Runner position closed by exchange protection''
       [(''symbol'', PStr (p_symbol p)), (''side'', PStr (position_side_value (p_side p))),
        (''entry_price'', PDec (p_avg_entry_price p)), (''remaining_qty'', PDec (p_qty p)),
        (''trend_strength'', opt_str (map_option trend_strength_value (p_runner_trend_strength p))),
        (''trailing_multiplier'', opt_dec (p_runner_trailing_atr_multiplier p)),
        (''new_trailing_stop'', opt_dec (p_stop_loss_price p)), (''estimated_exit_price'', PDec exit_price),
        (''estimated_realized_pnl'', PDec (estimated_realized_pnl p exit_price (p_qty p))),
        (''reason'', opt_reason (p_exit_reason p')), (''source'', PStr ''exchange_protection'')])"

definition exchange_closed_event :: "position \<Rightarrow> position \<Rightarrow> bot_event" where
  "exchange_closed_event p p' =
    (let exit_price = estimated_exchange_exit_price p in
     message_event EV_POSITION_CLOSED (p_symbol p) ''Bot position is flat on exchange; marked closed''
       [(''prev_qty'', PDec (p_qty p)), (''reason'', opt_reason (p_exit_reason p')),
        (''source'', PStr ''exchange_protection''), (''estimated_exit_price'', PDec exit_price),
        (''estimated_realized_pnl'', PDec (estimated_realized_pnl p exit_price (p_qty p)))])"

definition handle_bot_exchange_close :: "'x sync_env \<Rightarrow> position \<Rightarrow> 'x service \<Rightarrow> 'x service" where
  "handle_bot_exchange_close env p s =
    (let p' = closed_on_exchange (se_wall env s) p;
         s1 = set_pos p' s;
         s2 = (if p_runner_mode_active p then publish (runner_closed_event p p') s1 else s1);
         s3 = publish (exchange_closed_event p p') s2
     in log_entry (LogTrade (trade_of LIVE p' (p_qty p) (estimated_exchange_exit_price p) (p_exit_reason p')))
          (log_entry (LogPosition p' LIVE None None) s3))"

end
