(* ===== verification/Reconciliation.thy ===== *)
theory Reconciliation
  imports Manual_Intervention
begin

text \<open>
  The reconciliation of the exchange with the bot's registries
  (\<^verbatim>\<open>packages/reconciliation/reconciliation_manager.py\<close>): the exchange is the source of truth; each
  cycle reads its positions and open orders, compares them with the registry, and hands the
  differences to the handler of manual interventions. A symbol on which a bot order is settling is
  left alone.

  The flag \<open>_after_order_event\<close> is an argument and a result. The wall clock and the order of the
  calls are the code's; an exception of the exchange ends the cycle.
\<close>

record reconcile_result =
  rr_external_positions :: "string list"
  rr_qty_mismatches :: "string list"
  rr_external_closes :: "string list"
  rr_exchange_closes :: "string list"
  rr_external_orders :: "string list"
  rr_stale_bot_orders_cancelled :: "string list"
  rr_persisted_positions_closed :: "string list"

definition new_reconcile_result :: reconcile_result where
  "new_reconcile_result = \<lparr> rr_external_positions = [], rr_qty_mismatches = [], rr_external_closes = [],
    rr_exchange_closes = [], rr_external_orders = [], rr_stale_bot_orders_cancelled = [],
    rr_persisted_positions_closed = [] \<rparr>"

definition rr_changed :: "reconcile_result \<Rightarrow> bool" where
  "rr_changed r \<longleftrightarrow> rr_external_positions r \<noteq> [] \<or> rr_qty_mismatches r \<noteq> [] \<or> rr_external_closes r \<noteq> [] \<or>
    rr_exchange_closes r \<noteq> [] \<or> rr_external_orders r \<noteq> [] \<or> rr_stale_bot_orders_cancelled r \<noteq> [] \<or>
    rr_persisted_positions_closed r \<noteq> []"

text \<open>A loop that fills the result.\<close>

fun sync_each :: "('a \<Rightarrow> 'r \<Rightarrow> ('s, 'r) action) \<Rightarrow> 'a list \<Rightarrow> 'r \<Rightarrow> ('s, 'r) action" where
  "sync_each f [] r = ret r"
| "sync_each f (x # xs) r = and_then (f x r) (sync_each f xs)"

section \<open>Positions\<close>

definition exch_by_symbol :: "exchange_position list \<Rightarrow> (string \<times> exchange_position) list" where
  "exch_by_symbol xs = foldl (\<lambda>d x. if xp_side x \<noteq> None then dict_set (xp_symbol x) x d else d) [] xs"

definition settling :: "'x service \<Rightarrow> string \<Rightarrow> bool" where
  "settling s y = has_bot_order_settling_for_symbol (sv_state s) y"

definition is_open_status :: "position_status \<Rightarrow> bool" where
  "is_open_status st \<longleftrightarrow> st \<in> {PENDING, ACTIVE, CLOSING}"

text \<open>One position the exchange reports.\<close>

definition adopt_unknown ::
  "'x sync_env \<Rightarrow> manual_intervention_section \<Rightarrow> string \<Rightarrow> exchange_position \<Rightarrow> reconcile_result \<Rightarrow>
   ('x service, reconcile_result) action" where
  "adopt_unknown env mi y x r s =
    (if settling s y then (s, Inr r)
     else then_do (handle_external_position env mi x)
            (ret (r\<lparr> rr_external_positions := rr_external_positions r @ [y] \<rparr>)) s)"

definition sync_reported ::
  "'x sync_env \<Rightarrow> manual_intervention_section \<Rightarrow> string \<times> exchange_position \<Rightarrow> reconcile_result \<Rightarrow>
   ('x service, reconcile_result) action" where
  "sync_reported env mi yx r s =
    (let y = fst yx; x = snd yx in
     case pos_of s y of
       None \<Rightarrow> adopt_unknown env mi y x r s
     | Some p \<Rightarrow>
         if p_status p = CLOSED then adopt_unknown env mi y x r s
         else if p_source p = EXTERNAL
         then (upd_pos y (\<lambda>p. p\<lparr> p_qty := xp_size x, p_avg_entry_price := xp_avg_price x,
                                p_liq_price := xp_liq_price x \<rparr>) s, Inr r)
         else if p_qty p \<noteq> xp_size x
         then if settling s y then (s, Inr r)
              else then_do (handle_qty_mismatch env mi p x)
                     (ret (r\<lparr> rr_qty_mismatches := rr_qty_mismatches r @ [y] \<rparr>)) s
         else (upd_pos y (\<lambda>p. p\<lparr> p_liq_price := xp_liq_price x, p_unrealized_pnl := xp_unrealized_pnl x \<rparr>) s, Inr r))"

text \<open>One position of the registry the exchange may no longer report.\<close>

definition sync_missing ::
  "'x sync_env \<Rightarrow> manual_intervention_section \<Rightarrow> string set \<Rightarrow> string \<Rightarrow> reconcile_result \<Rightarrow>
   ('x service, reconcile_result) action" where
  "sync_missing env mi reported y r s =
    (case pos_of s y of
       None \<Rightarrow> (s, Inr r)
     | Some p \<Rightarrow>
         if \<not> (is_open_status (p_status p) \<and> y \<notin> reported) \<or> settling s y then (s, Inr r)
         else if p_source p = BOT
         then (handle_bot_exchange_close env p s, Inr (r\<lparr> rr_exchange_closes := rr_exchange_closes r @ [y] \<rparr>))
         else (handle_external_close env mi p s, Inr (r\<lparr> rr_external_closes := rr_external_closes r @ [y] \<rparr>)))"

definition open_symbols :: "'x service \<Rightarrow> string set" where
  "open_symbols s = set (map fst (filter (\<lambda>(y, p). is_open_status (p_status p)) (rs_positions (sv_state s))))"

definition close_stale_persisted ::
  "'x sync_env \<Rightarrow> string set \<Rightarrow> reconcile_result \<Rightarrow> ('x service, reconcile_result) action" where
  "close_stale_persisted env reported r s =
    (case se_close_stale env of
       None \<Rightarrow> (s, Inr r)
     | Some close \<Rightarrow>
         try_except (and_then (close (reported \<union> open_symbols s)) (\<lambda>ys. ret (r\<lparr> rr_persisted_positions_closed :=
             rr_persisted_positions_closed r @ ys \<rparr>))) (\<lambda>_. ret r) s)"

definition reconcile_positions ::
  "'x sync_env \<Rightarrow> manual_intervention_section \<Rightarrow> reconcile_result \<Rightarrow> ('x service, reconcile_result) action" where
  "reconcile_positions env mi r =
    and_then (se_get_positions env) (\<lambda>xs.
      let exch = exch_by_symbol xs; reported = set (map fst exch) in
      and_then (sync_each (sync_reported env mi) exch r) (\<lambda>r1.
      and_then (reads (\<lambda>s. map fst (rs_positions (sv_state s)))) (\<lambda>ys.
      and_then (sync_each (sync_missing env mi reported) ys r1) (\<lambda>r2.
      close_stale_persisted env reported r2))))"

section \<open>Orders\<close>

definition bot_client_order_prefixes :: "string list" where
  "bot_client_order_prefixes = [''qb-'', ''retry-'', ''exit-'', ''ptp-'']"

definition is_bot_client_order :: "string option \<Rightarrow> bool" where
  "is_bot_client_order c \<longleftrightarrow>
    (case c of None \<Rightarrow> False | Some i \<Rightarrow> i \<noteq> [] \<and> list_ex (\<lambda>pre. starts_with pre i) bot_client_order_prefixes)"

definition is_stale_bot_reduce_order :: "'x service \<Rightarrow> exchange_order \<Rightarrow> bool" where
  "is_stale_bot_reduce_order s x \<longleftrightarrow>
    xo_reduce_only x \<and> is_bot_client_order (xo_client_order_id x) \<and>
    (case pos_of s (xo_symbol x) of None \<Rightarrow> True | Some p \<Rightarrow> p_status p = CLOSED)"

definition is_exit_side :: "side \<Rightarrow> position_side \<Rightarrow> bool" where
  "is_exit_side os ps \<longleftrightarrow> ps = LONG \<and> os = SELL \<or> ps = SHORT \<and> os = BUY"

definition trigger_tokens :: "string list" where
  "trigger_tokens = [''stop'', ''tpsl'', ''takeprofit'', ''take_profit'', ''trailing'', ''oco'']"

definition order_markers :: "exchange_order \<Rightarrow> string" where
  "order_markers x =
    (let parts = concat (map (\<lambda>v. case v of None \<Rightarrow> [] | Some t \<Rightarrow> if t = [] then [] else [map lower_char t])
           [xo_stop_order_type x, xo_order_filter x])
     in case parts of [] \<Rightarrow> [] | [a] \<Rightarrow> a | a # b # _ \<Rightarrow> a @ '' '' @ b)"

definition looks_like_exchange_trigger_order :: "exchange_order \<Rightarrow> bool" where
  "looks_like_exchange_trigger_order x \<longleftrightarrow>
    xo_trigger_price x \<noteq> None \<or> list_ex (\<lambda>t. contains t (order_markers x)) trigger_tokens"

definition is_bot_protection_order :: "'x service \<Rightarrow> exchange_order \<Rightarrow> bool" where
  "is_bot_protection_order s x \<longleftrightarrow>
    (case pos_of s (xo_symbol x) of
       None \<Rightarrow> False
     | Some p \<Rightarrow>
         p_source p = BOT \<and> is_open_status (p_status p) \<and> is_exit_side (xo_side x) (p_side p) \<and>
         \<not> (0 < xo_qty x \<and> 0 < p_qty p \<and> p_qty p < xo_qty x) \<and> looks_like_exchange_trigger_order x)"

definition cancel_stale_bot_order ::
  "'x sync_env \<Rightarrow> exchange_order \<Rightarrow> reconcile_result \<Rightarrow> ('x service, reconcile_result) action" where
  "cancel_stale_bot_order env x r =
    then_do (se_cancel_order env (xo_symbol x) (Some (xo_order_id x)) (xo_client_order_id x))
      (then_do (case se_update_order_status env of
           None \<Rightarrow> ret ()
         | Some update \<Rightarrow> try_except (update (xo_order_id x) (xo_client_order_id x) ''CANCELLED'') (\<lambda>_. ret ()))
       (ret (r\<lparr> rr_stale_bot_orders_cancelled := rr_stale_bot_orders_cancelled r @ [xo_order_id x] \<rparr>)))"

definition is_known_order :: "string set \<Rightarrow> 'x service \<Rightarrow> exchange_order \<Rightarrow> bool" where
  "is_known_order known s x \<longleftrightarrow>
    xo_order_id x \<in> known \<or>
    truthy (xo_client_order_id x) \<and> the (xo_client_order_id x) \<in> known \<or>
    is_bot_client_order (xo_client_order_id x) \<or> is_bot_protection_order s x"

definition sync_order ::
  "'x sync_env \<Rightarrow> manual_intervention_section \<Rightarrow> string set \<Rightarrow> exchange_order \<Rightarrow> reconcile_result \<Rightarrow>
   ('x service, reconcile_result) action" where
  "sync_order env mi known x r s =
    (if is_stale_bot_reduce_order s x then cancel_stale_bot_order env x r s
     else if is_known_order known s x then (s, Inr r)
     else (handle_external_order env mi x s,
           Inr (r\<lparr> rr_external_orders := rr_external_orders r @ [xo_order_id x] \<rparr>)))"

definition reconcile_orders ::
  "'x sync_env \<Rightarrow> manual_intervention_section \<Rightarrow> reconcile_result \<Rightarrow> ('x service, reconcile_result) action" where
  "reconcile_orders env mi r =
    and_then (reads (\<lambda>s. known_order_ids (sv_state s))) (\<lambda>known.
    and_then (se_get_open_orders env) (\<lambda>xs. sync_each (sync_order env mi known) xs r))"

section \<open>The cycle\<close>

definition reconcile_summary :: "reconcile_result \<Rightarrow> payload" where
  "reconcile_summary r =
    [(''external_positions'', PStrs (rr_external_positions r)), (''qty_mismatches'', PStrs (rr_qty_mismatches r)),
     (''external_closes'', PStrs (rr_external_closes r)), (''exchange_closes'', PStrs (rr_exchange_closes r)),
     (''external_orders'', PStrs (rr_external_orders r)),
     (''stale_bot_orders_cancelled'', PStrs (rr_stale_bot_orders_cancelled r)),
     (''persisted_positions_closed'', PStrs (rr_persisted_positions_closed r))]"

definition reconcile_once ::
  "'x sync_env \<Rightarrow> manual_intervention_section \<Rightarrow> ('x service, reconcile_result) action" where
  "reconcile_once env mi =
    and_then (reconcile_positions env mi new_reconcile_result) (\<lambda>r1.
    and_then (reconcile_orders env mi r1) (\<lambda>r2.
    then_do (modify (publish \<lparr> be_type = EV_RECONCILED, be_symbol = None,
        be_message = ''reconciliation cycle complete'', be_data = reconcile_summary r2 \<rparr>))
    (then_do (modify (log_entry (LogReconciliation (reconcile_summary r2)))) (ret r2))))"

definition next_interval_sec :: "reconciliation_section \<Rightarrow> bool \<Rightarrow> 'x service \<Rightarrow> bool \<times> int" where
  "next_interval_sec rc after_order_event s =
    (if after_order_event then (False, rcn_interval_sec_after_order_event rc)
     else (False, if has_open_bot_position (sv_state s) then rcn_interval_sec_when_position_open rc
                  else rcn_interval_sec_when_flat rc))"

end
