(* ===== verification/Indicators.thy ===== *)
theory Indicators
  imports Candle_Metrics
begin

text \<open>
  Indicator mathematics and the snapshot builder
  (\<^verbatim>\<open>packages/indicators/indicator_engine.py\<close>): EMA with an SMA seed, Wilder's RSI and ATR, volume
  ratio and swings. Periods and lookbacks are the natural numbers of the engine's constructor;
  its only instance uses the defaults.
\<close>

section \<open>Averages\<close>

fun ema_from :: "dec \<Rightarrow> dec \<Rightarrow> dec list \<Rightarrow> dec list" where
  "ema_from k cur [] = []"
| "ema_from k cur (v # vs) = (let nxt = dadd (dmul (dsub v cur) k) cur in nxt # ema_from k nxt vs)"

definition ema_series :: "dec list \<Rightarrow> nat \<Rightarrow> dec list option" where
  "ema_series values period =
    (if period = 0 \<or> length values < period then None
     else
       let k = ddiv 2 (of_nat (period + 1));
           seed = ddiv (dsum (take period values)) (of_nat period)
       in Some (seed # ema_from k seed (drop period values)))"

text \<open>One step of Wilder's smoothing: \<open>(avg * (period - 1) + x) / period\<close>.\<close>

definition wilder :: "nat \<Rightarrow> dec \<Rightarrow> dec \<Rightarrow> dec" where
  "wilder period avg x = ddiv (dadd (dmul avg (of_nat (period - 1))) x) (of_nat period)"

definition rsi :: "dec list \<Rightarrow> nat \<Rightarrow> dec option" where
  "rsi closes period =
    (if length closes < period + 1 then None
     else
       let deltas = map (\<lambda>(prv, cur). dsub cur prv) (adjacent closes);
           gains = map (\<lambda>d. if 0 < d then d else 0) deltas;
           losses = map (\<lambda>d. if d < 0 then dneg d else 0) deltas;
           avg_gain = foldl (wilder period) (ddiv (dsum (take period gains)) (of_nat period)) (drop period gains);
           avg_loss = foldl (wilder period) (ddiv (dsum (take period losses)) (of_nat period)) (drop period losses)
       in if avg_loss = 0 then Some (if 0 < avg_gain then 100 else 50)
          else
            let rs = ddiv avg_gain avg_loss
            in Some (dsub 100 (ddiv 100 (dadd 1 rs))))"

definition true_ranges :: "candle list \<Rightarrow> dec list" where
  "true_ranges cs = map (\<lambda>(prv, cur). true_range prv cur) (adjacent cs)"

definition atr :: "candle list \<Rightarrow> nat \<Rightarrow> dec option" where
  "atr cs period =
    (if length cs < period + 1 then None
     else
       let trs = true_ranges cs
       in Some (foldl (wilder period) (ddiv (dsum (take period trs)) (of_nat period)) (drop period trs)))"

definition volume_ratio :: "candle list \<Rightarrow> nat \<Rightarrow> dec option" where
  "volume_ratio cs lookback =
    (if length cs < lookback + 1 then None
     else
       let window = butlast (last_n (lookback + 1) cs);
           avg = ddiv (dsum (map cd_volume window)) (of_nat lookback)
       in if avg = 0 then None else Some (ddiv (cd_volume (last cs)) avg))"

definition swing_high :: "candle list \<Rightarrow> nat \<Rightarrow> dec option" where
  "swing_high cs lookback =
    (if cs = [] then None else Some (Max (set (map cd_high (last_n lookback cs)))))"

definition swing_low :: "candle list \<Rightarrow> nat \<Rightarrow> dec option" where
  "swing_low cs lookback =
    (if cs = [] then None else Some (Min (set (map cd_low (last_n lookback cs)))))"

section \<open>The snapshot\<close>

record indicator_engine =
  ie_ema_fast :: nat
  ie_ema_slow :: nat
  ie_rsi_period :: nat
  ie_atr_period :: nat
  ie_volume_lookback :: nat
  ie_swing_lookback :: nat
  ie_slope_candles :: nat

definition default_indicator_engine :: indicator_engine where
  "default_indicator_engine = \<lparr> ie_ema_fast = 20, ie_ema_slow = 50, ie_rsi_period = 14,
    ie_atr_period = 14, ie_volume_lookback = 20, ie_swing_lookback = 20, ie_slope_candles = 3 \<rparr>"

text \<open>\<open>(series[-1] - series[-1 - n]) / atr\<close>, the slope in ATR units.\<close>

definition slope_atr_of :: "nat \<Rightarrow> dec list option \<Rightarrow> dec option \<Rightarrow> dec option" where
  "slope_atr_of n series atr_val =
    (case (series, atr_val) of
       (Some xs, Some a) \<Rightarrow>
         if n < length xs \<and> 0 < a
         then Some (ddiv (dsub (last xs) (xs ! (length xs - 1 - n))) a) else None
     | _ \<Rightarrow> None)"

definition snapshot :: "indicator_engine \<Rightarrow> string \<Rightarrow> string \<Rightarrow> candle list \<Rightarrow> indicator_snapshot" where
  "snapshot e s timeframe cs =
    (let closes = map cd_close cs;
         close = (if closes = [] then 0 else last closes);
         fast = ema_series closes (ie_ema_fast e);
         slow = ema_series closes (ie_ema_slow e);
         atr_val = atr cs (ie_atr_period e);
         rsi_val = rsi closes (ie_rsi_period e);
         vr = volume_ratio cs (ie_volume_lookback e)
     in \<lparr> is_symbol = s, is_timeframe = timeframe, is_close = close,
          is_ema20 = map_option last fast, is_ema50 = map_option last slow,
          is_ema20_slope_atr = slope_atr_of (ie_slope_candles e) fast atr_val,
          is_rsi14 = rsi_val, is_atr14 = atr_val,
          is_atr_percent = (case atr_val of None \<Rightarrow> None
            | Some a \<Rightarrow> if 0 < close then Some (dmul (ddiv a close) 100) else None),
          is_volume_ratio = vr,
          is_swing_high = swing_high cs (ie_swing_lookback e),
          is_swing_low = swing_low cs (ie_swing_lookback e),
          is_valid = (fast \<noteq> None \<and> slow \<noteq> None \<and> rsi_val \<noteq> None \<and>
            (case atr_val of None \<Rightarrow> False | Some a \<Rightarrow> 0 < a) \<and> vr \<noteq> None),
          is_ts_ms = (if cs = [] then 0 else cd_open_time_ms (last cs)) \<rparr>)"

section \<open>Ranges\<close>

lemma wilder_nonneg: "0 < period \<Longrightarrow> 0 \<le> avg \<Longrightarrow> 0 \<le> x \<Longrightarrow> 0 \<le> wilder period avg x"
  unfolding wilder_def by (intro ddiv_nonneg dadd_nonneg dmul_nonneg) simp_all

lemma foldl_wilder_nonneg:
  "0 < period \<Longrightarrow> 0 \<le> avg \<Longrightarrow> (\<And>x. x \<in> set xs \<Longrightarrow> 0 \<le> x) \<Longrightarrow> 0 \<le> foldl (wilder period) avg xs"
  by (induction xs arbitrary: avg) (auto intro: wilder_nonneg)

lemma wilder_average_nonneg:
  assumes "0 < period" "\<And>x. x \<in> set xs \<Longrightarrow> 0 \<le> x"
  shows "0 \<le> foldl (wilder period) (ddiv (dsum (take period xs)) (of_nat period)) (drop period xs)"
  using assms
  by (intro foldl_wilder_nonneg ddiv_nonneg dsum_nonneg) (auto dest: in_set_takeD in_set_dropD)

lemma rsi_value_bounds:
  assumes "0 \<le> g" "0 < l"
  shows "0 \<le> dsub 100 (ddiv 100 (dadd 1 (ddiv g l))) \<and> dsub 100 (ddiv 100 (dadd 1 (ddiv g l))) \<le> 100"
proof -
  have d100: "is_dec 100" and d1: "is_dec 1"
    using is_dec_int [of 100] is_dec_int [of 1] by (simp_all add: prec_hi_def)
  have one: "1 \<le> dadd 1 (ddiv g l)"
    using assms by (intro dadd_ge_left d1 ddiv_nonneg)
  have "100 / dadd 1 (ddiv g l) \<le> 100" using one by (simp add: divide_le_eq)
  then have "ddiv 100 (dadd 1 (ddiv g l)) \<le> 100"
    unfolding ddiv_def using d100 by (intro dctx.rd_le_fix) (simp_all add: is_dec_def)
  moreover have "0 \<le> ddiv 100 (dadd 1 (ddiv g l))" using one by (simp add: ddiv_nonneg)
  ultimately show ?thesis using dsub_le_left [OF d100] by simp
qed

text \<open>The RSI the engine computes is an oscillator: for every series of closes it is between 0 and
  100, rounding included, so the thresholds of the strategies and of runner mode cannot be
  jumped over.\<close>

theorem rsi_bounds:
  assumes "0 < period" and "rsi closes period = Some x"
  shows "0 \<le> x \<and> x \<le> 100"
proof -
  let ?ds = "map (\<lambda>(prv, cur). dsub cur prv) (adjacent closes)"
  let ?avg = "\<lambda>xs. foldl (wilder period) (ddiv (dsum (take period xs)) (of_nat period)) (drop period xs)"
  let ?g = "?avg (map (\<lambda>d. if 0 < d then d else 0) ?ds)"
  let ?l = "?avg (map (\<lambda>d. if d < 0 then dneg d else 0) ?ds)"
  have g: "0 \<le> ?g" using assms(1) by (rule wilder_average_nonneg) auto
  have l: "0 \<le> ?l" using assms(1) by (rule wilder_average_nonneg) (auto simp: dneg_def)
  have "x = (if ?l = 0 then if 0 < ?g then 100 else 50 else dsub 100 (ddiv 100 (dadd 1 (ddiv ?g ?l))))"
    using assms(2) unfolding rsi_def Let_def by (simp split: if_splits)
  then show ?thesis using rsi_value_bounds [OF g, of ?l] l by (cases "?l = 0") auto
qed

lemma rsi_bounds_witness: "\<exists>x. rsi [1, 2, 1] 2 = Some x \<and> 0 \<le> x \<and> x \<le> 100"
proof -
  have "\<exists>x. rsi [1, 2, 1] 2 = Some x" by (simp add: rsi_def Let_def)
  then show ?thesis using rsi_bounds [of 2 "[1, 2, 1]"] by auto
qed

text \<open>A snapshot marked valid has every indicator the strategies read, with a positive ATR.\<close>

lemma atr_nonneg: "0 < period \<Longrightarrow> atr cs period = Some a \<Longrightarrow> 0 \<le> a"
  by (auto simp: atr_def Let_def true_ranges_def true_range_nonneg intro!: wilder_average_nonneg split: if_splits)

text \<open>A snapshot is valid exactly when the fast and slow EMA, the RSI, a positive ATR and the volume
  ratio could all be computed; nothing that reads a valid snapshot meets a missing value
  among them.\<close>

theorem snapshot_valid:
  "is_valid (snapshot e s tf cs) \<longleftrightarrow>
    is_ema20 (snapshot e s tf cs) \<noteq> None \<and> is_ema50 (snapshot e s tf cs) \<noteq> None \<and>
    is_rsi14 (snapshot e s tf cs) \<noteq> None \<and> is_volume_ratio (snapshot e s tf cs) \<noteq> None \<and>
    (\<exists>a. is_atr14 (snapshot e s tf cs) = Some a \<and> 0 < a)"
  by (auto simp: snapshot_def Let_def split: option.splits)

end
