(* ===== verification/Daily_Account.thy ===== *)
theory Daily_Account
  imports Domain
begin

text \<open>
  The account of a day (\<^verbatim>\<open>packages/storage/trade_logger.py\<close>, \<^verbatim>\<open>log_account_equity\<close>): the first
  equity of the day is the baseline of its profit and loss, the peak and the largest drawdown follow
  the readings. The table is a list of rows, the newest last; a column that holds a decimal as text
  is the decimal, as the printed text is parsed back to the same number.
\<close>

section \<open>The table\<close>

record account_row =
  ac_day :: string
  ac_mode :: bot_mode
  ac_start_equity :: dec
  ac_current_equity :: dec
  ac_peak_equity :: dec
  ac_max_drawdown_percent :: dec
  ac_net_pnl :: dec
  ac_net_pnl_percent :: dec
  ac_wallet_balance :: "dec option"
  ac_unrealized_pnl :: dec
  ac_realized_pnl :: dec
  ac_fees :: dec
  ac_funding_fees :: dec

record account_reading =
  ad_equity :: dec
  ad_wallet_balance :: "dec option"
  ad_unrealized_pnl :: dec
  ad_realized_pnl :: dec
  ad_fees :: dec
  ad_funding_fees :: dec

definition is_row :: "string \<Rightarrow> bot_mode \<Rightarrow> account_row \<Rightarrow> bool" where
  "is_row day mode r \<longleftrightarrow> ac_day r = day \<and> ac_mode r = mode"

text \<open>\<open>fmt(x)\<close>: \<open>normalize\<close> rounds to the context's precision.\<close>

definition fmt_dec :: "dec \<Rightarrow> dec" where
  "fmt_dec x = dround x"

definition first_row :: "string \<Rightarrow> bot_mode \<Rightarrow> account_reading \<Rightarrow> account_row" where
  "first_row day mode a =
    (let e = fmt_dec (ad_equity a) in
     \<lparr> ac_day = day, ac_mode = mode, ac_start_equity = e, ac_current_equity = e, ac_peak_equity = e,
       ac_max_drawdown_percent = 0, ac_net_pnl = 0, ac_net_pnl_percent = 0,
       ac_wallet_balance = map_option fmt_dec (ad_wallet_balance a), ac_unrealized_pnl = 0,
       ac_realized_pnl = 0, ac_fees = 0, ac_funding_fees = 0 \<rparr>)"

definition drawdown_of :: "dec \<Rightarrow> dec \<Rightarrow> dec" where
  "drawdown_of peak current = (if 0 < peak then dmul (ddiv (dsub peak current) peak) 100 else 0)"

definition update_row :: "account_reading \<Rightarrow> account_row \<Rightarrow> account_row" where
  "update_row a r =
    (let current = ad_equity a; start = ac_start_equity r; peak = max (ac_peak_equity r) current;
         net = dsub current start;
         net_percent = (if 0 < start then dmul (ddiv net start) 100 else 0);
         max_drawdown = max (ac_max_drawdown_percent r) (drawdown_of peak current)
     in r\<lparr> ac_current_equity := fmt_dec current, ac_peak_equity := fmt_dec peak,
          ac_wallet_balance := map_option fmt_dec (ad_wallet_balance a),
          ac_unrealized_pnl := fmt_dec (ad_unrealized_pnl a), ac_realized_pnl := fmt_dec (ad_realized_pnl a),
          ac_fees := fmt_dec (ad_fees a), ac_funding_fees := fmt_dec (ad_funding_fees a),
          ac_net_pnl := fmt_dec net, ac_net_pnl_percent := fmt_dec net_percent,
          ac_max_drawdown_percent := fmt_dec max_drawdown \<rparr>)"

text \<open>The newest row of the day and mode is updated, or a first one is added; its new content is
  returned.\<close>

fun replace_last :: "('a \<Rightarrow> bool) \<Rightarrow> ('a \<Rightarrow> 'a) \<Rightarrow> 'a list \<Rightarrow> ('a list \<times> 'a) option" where
  "replace_last P f [] = None"
| "replace_last P f (x # xs) =
    (case replace_last P f xs of
       Some (ys, y) \<Rightarrow> Some (x # ys, y)
     | None \<Rightarrow> if P x then Some (f x # xs, f x) else None)"

definition log_account_equity ::
  "string \<Rightarrow> bot_mode \<Rightarrow> account_reading \<Rightarrow> account_row list \<Rightarrow> account_row list \<times> account_row" where
  "log_account_equity day mode a rows =
    (case replace_last (is_row day mode) (update_row a) rows of
       Some upd \<Rightarrow> upd
     | None \<Rightarrow> let r = update_row a (first_row day mode a) in (rows @ [r], r))"

section \<open>A day of readings\<close>

text \<open>The loop writes one reading after another.\<close>

fun log_readings ::
  "string \<Rightarrow> bot_mode \<Rightarrow> account_reading list \<Rightarrow> account_row list \<Rightarrow> account_row list" where
  "log_readings day mode [] rows = rows"
| "log_readings day mode (a # as) rows = log_readings day mode as (fst (log_account_equity day mode a rows))"

text \<open>What the day's row has to hold, from the list of its equities: the first one, the largest one so
  far at each point, and the largest drop from it.\<close>

definition running_peak :: "dec list \<Rightarrow> dec" where
  "running_peak es = Max (set es)"

definition worst_drawdown :: "dec list \<Rightarrow> dec" where
  "worst_drawdown es =
    Max (insert 0 ((\<lambda>n. drawdown_of (running_peak (take (Suc n) es)) (es ! n)) ` {0..<length es}))"

definition day_summary :: "dec list \<Rightarrow> dec \<times> dec \<times> dec \<times> dec" where
  "day_summary es = (hd es, running_peak es, dsub (last es) (hd es), worst_drawdown es)"

definition row_summary :: "account_row \<Rightarrow> dec \<times> dec \<times> dec \<times> dec" where
  "row_summary r = (ac_start_equity r, ac_peak_equity r, ac_net_pnl r, ac_max_drawdown_percent r)"

lemma replace_last_snoc: "P x \<Longrightarrow> replace_last P f (xs @ [x]) = Some (xs @ [f x], f x)"
  by (induction xs) simp_all

lemma replace_last_None: "replace_last P f xs = None \<longleftrightarrow> (\<forall>x\<in>set xs. \<not> P x)"
  by (induction xs) (auto split: option.splits)

lemma update_row_key [simp]: "is_row day mode (update_row a r) = is_row day mode r"
  by (simp add: is_row_def update_row_def Let_def)

lemma log_own_row:
  assumes "is_row day mode r"
  shows "log_account_equity day mode a (rows @ [r]) = (rows @ [update_row a r], update_row a r)"
  using assms by (simp add: log_account_equity_def replace_last_snoc)

lemma log_readings_own:
  assumes "is_row day mode r"
  shows "log_readings day mode as (rows @ [r]) = rows @ [fold update_row as r]"
  using assms by (induction as arbitrary: r) (simp_all add: log_own_row)

lemma dec_zero [simp]: "is_dec 0"
  by (simp add: is_dec_def)

lemma drawdown_is_dec: "is_dec (drawdown_of p c)"
  by (simp add: drawdown_of_def)

lemma running_peak_snoc: "es \<noteq> [] \<Longrightarrow> running_peak (es @ [e]) = max (running_peak es) e"
  by (simp add: running_peak_def max.commute)

lemma worst_drawdown_snoc:
  "worst_drawdown (es @ [e]) = max (worst_drawdown es) (drawdown_of (running_peak (es @ [e])) e)"
proof -
  let ?f = "\<lambda>n. drawdown_of (running_peak (take (Suc n) es)) (es ! n)"
  let ?g = "\<lambda>n. drawdown_of (running_peak (take (Suc n) (es @ [e]))) ((es @ [e]) ! n)"
  have "?g ` {0..<length es} = ?f ` {0..<length es}"
    by (intro image_cong) (auto simp: nth_append)
  moreover have "{0..<length (es @ [e])} = insert (length es) {0..<length es}" by auto
  ultimately have "insert 0 (?g ` {0..<length (es @ [e])}) =
      insert (drawdown_of (running_peak (es @ [e])) e) (insert 0 (?f ` {0..<length es}))"
    by (simp add: insert_commute)
  then show ?thesis by (simp add: worst_drawdown_def max.commute)
qed

lemma max_dec: "is_dec a \<Longrightarrow> is_dec b \<Longrightarrow> is_dec (max a b)"
  by (simp add: max_def)

lemma fmt_fix [simp]: "is_dec x \<Longrightarrow> fmt_dec x = x"
  by (simp add: fmt_dec_def is_decD)

lemma worst_drawdown_dec: "is_dec (worst_drawdown es)"
proof -
  have "worst_drawdown es \<in> insert 0 ((\<lambda>n. drawdown_of (running_peak (take (Suc n) es)) (es ! n)) ` {0..<length es})"
    unfolding worst_drawdown_def by (rule Max_in) simp_all
  then show ?thesis using drawdown_is_dec by auto
qed

lemma running_peak_dec: "es \<noteq> [] \<Longrightarrow> \<forall>e\<in>set es. is_dec e \<Longrightarrow> is_dec (running_peak es)"
  unfolding running_peak_def by (metis List.finite_set Max_in set_empty2)

text \<open>One more reading keeps the summary.\<close>

lemma update_summary:
  assumes "row_summary r = (hd es, running_peak es, n, worst_drawdown es)" "es \<noteq> []"
    and "\<forall>e\<in>set es. is_dec e" "is_dec (ad_equity a)"
  shows "row_summary (update_row a r) = day_summary (es @ [ad_equity a])"
  using assms running_peak_dec [of es] worst_drawdown_dec [of es]
  by (simp add: row_summary_def day_summary_def update_row_def Let_def running_peak_snoc worst_drawdown_snoc
      max_dec drawdown_is_dec)

lemma first_summary:
  assumes "is_dec (ad_equity a)"
  shows "row_summary (update_row a (first_row day mode a)) = day_summary [ad_equity a]"
proof -
  have "row_summary (first_row day mode a) = (ad_equity a, ad_equity a, 0, 0)"
    using assms by (simp add: row_summary_def first_row_def Let_def)
  then show ?thesis
    using assms
    by (simp add: row_summary_def day_summary_def update_row_def Let_def running_peak_def worst_drawdown_def
        drawdown_is_dec max_dec max.commute)
qed

lemma fold_summary:
  assumes "row_summary r = day_summary es" "es \<noteq> []" "\<forall>e\<in>set es. is_dec e"
    and "\<forall>a\<in>set as. is_dec (ad_equity a)"
  shows "row_summary (fold update_row as r) = day_summary (es @ map ad_equity as)"
  using assms
proof (induction as arbitrary: r es)
  case Nil
  then show ?case by simp
next
  case (Cons a as)
  have "row_summary (update_row a r) = day_summary (es @ [ad_equity a])"
    using Cons.prems by (intro update_summary) (simp_all add: day_summary_def)
  then show ?case using Cons.IH [of "update_row a r" "es @ [ad_equity a]"] Cons.prems by simp
qed

text \<open>C27. The row of a day holds what the day's readings say: the first equity as the baseline, the largest
  as the peak, the profit and loss since the first, and the largest drawdown from a peak at the time.\<close>

theorem daily_account_summary:
  assumes "\<forall>r\<in>set rows. \<not> is_row day mode r" "as \<noteq> []" "\<forall>a\<in>set as. is_dec (ad_equity a)"
  shows "\<exists>r. log_readings day mode as rows = rows @ [r] \<and> is_row day mode r \<and>
    row_summary r = day_summary (map ad_equity as)"
proof -
  obtain a bs where as: "as = a # bs" using assms(2) by (cases as) simp_all
  let ?r = "update_row a (first_row day mode a)"
  have key: "is_row day mode ?r" by (simp add: is_row_def update_row_def first_row_def Let_def)
  have "log_account_equity day mode a rows = (rows @ [?r], ?r)"
    using assms(1) by (simp add: log_account_equity_def replace_last_None [THEN iffD2] Let_def)
  then have run: "log_readings day mode as rows = rows @ [fold update_row bs ?r]"
    by (simp add: as log_readings_own [OF key])
  have "is_row day mode (fold update_row bs r)" if "is_row day mode r" for r
    using that by (induction bs arbitrary: r) simp_all
  moreover have "row_summary (fold update_row bs ?r) = day_summary ([ad_equity a] @ map ad_equity bs)"
    using assms(3) by (intro fold_summary first_summary) (simp_all add: as)
  ultimately show ?thesis using run key by (simp add: as)
qed

text \<open>A day with a gain, a drop to 90 from the peak of 120, and a recovery.\<close>

definition ex_reading :: "dec \<Rightarrow> account_reading" where
  "ex_reading e = \<lparr> ad_equity = e, ad_wallet_balance = None, ad_unrealized_pnl = 0, ad_realized_pnl = 0,
    ad_fees = 0, ad_funding_fees = 0 \<rparr>"

lemma daily_account_summary_witness:
  "\<exists>r. log_readings ''2026-01-01'' PAPER (map ex_reading [100, 120, 90, 96]) [] = [] @ [r] \<and>
    is_row ''2026-01-01'' PAPER r \<and> row_summary r = day_summary [100, 120, 90, 96]"
proof -
  have "\<exists>r. log_readings ''2026-01-01'' PAPER (map ex_reading [100, 120, 90, 96]) [] = [] @ [r] \<and>
      is_row ''2026-01-01'' PAPER r \<and> row_summary r = day_summary (map ad_equity (map ex_reading [100, 120, 90, 96]))"
    by (rule daily_account_summary) (simp_all add: ex_reading_def is_dec_def dec_eval)
  then show ?thesis by (simp add: ex_reading_def)
qed

lemma ex_day_values: "day_summary [100, 120, 90, 96] = (100, 120, - 4, 25)"
  by (simp add: day_summary_def running_peak_def worst_drawdown_def drawdown_of_def dec_eval
      atLeast0_lessThan_Suc numeral_eq_Suc)

end
