(* ===== verification/Bot_Runtime.thy ===== *)
theory Bot_Runtime
  imports Paper_Engine Watchlist Reconciliation Indicators Daily_Account
begin

text \<open>
  The bot's runtime (\<^verbatim>\<open>apps/bot/runtime/bot_runtime.py\<close>): the state that ties the components together,
  the refresh of the market data and of the watch list, the processing of one symbol, and the
  trading and the management cycle.

  \<open>bot_env\<close> holds what is outside: the exchange's market data and wallet, the trading ports, the
  reconciliation's operations and the clocks. Publishing to the dashboard is not modelled: a cycle
  returns the previews it would publish.
\<close>

section \<open>State\<close>

record 'x runtime =
  rt_cfg :: app_config
  rt_service :: "'x service"
  rt_collector :: collector
  rt_universe :: "(string \<times> symbol_meta) list"
  rt_last_equity :: dec
  rt_watchlist :: "string list"
  rt_last_scanner_refresh :: rat
  rt_cache :: scan_cache
  rt_scanner_cursor :: nat
  rt_after_order_event :: bool
  rt_reconciliation_status :: "(reconcile_result \<times> int) option"
  rt_last_trip_reason :: "string option"
  rt_accounts :: "account_row list"
  rt_shutdown :: bool

record 'x bot_env =
  bn_get_tickers :: "('x runtime, market_ticker list) action"
  bn_get_kline :: "string \<Rightarrow> string \<Rightarrow> int \<Rightarrow> ('x runtime, candle list) action"
  bn_get_orderbook :: "string \<Rightarrow> ('x service, order_book \<times> int option) action"
  bn_load_instruments :: "('x runtime, symbol_meta list) action"
  bn_wallet_balance :: "('x runtime, wallet_balance) action"
  bn_paper_wallet :: "('x \<Rightarrow> (string \<times> dec) list \<Rightarrow> wallet_balance) option"
  bn_ports :: "app_config \<Rightarrow> ('x service, order_book \<times> int option) action \<Rightarrow> 'x ports"
  bn_sync :: "app_config \<Rightarrow> dec \<Rightarrow> 'x sync_env"
  bn_label :: "dec \<Rightarrow> string"
  bn_reason :: "signal_direction \<Rightarrow> dec \<Rightarrow> dec option \<Rightarrow> dec option \<Rightarrow> string"
  bn_persist_pnl :: "('x runtime, unit) action"
  bn_acquire_lock :: "('x runtime, bool) action"
  bn_restore :: "('x runtime, position list) action option"
  bn_load_config :: "('x runtime, app_config) action"
  bn_rebuild_exec :: "app_config \<Rightarrow> 'x \<Rightarrow> 'x"
  bn_cancel_order :: "string \<Rightarrow> string option \<Rightarrow> string option \<Rightarrow> ('x runtime, unit) action"
  bn_persist_cancelled :: "string option \<Rightarrow> string option \<Rightarrow> ('x runtime, unit) action"
  bn_release_lock :: "('x runtime, unit) action"
  bn_day :: "'x runtime \<Rightarrow> string"
  bn_now_ms :: "'x runtime \<Rightarrow> int"
  bn_clocks :: "'x runtime \<Rightarrow> nat \<Rightarrow> clocks"

text \<open>An operation of the service, and a step on it.\<close>

definition in_service :: "('x service, 'a) action \<Rightarrow> ('x runtime, 'a) action" where
  "in_service m rt = (case m (rt_service rt) of (s, r) \<Rightarrow> (rt\<lparr> rt_service := s \<rparr>, r))"

definition on_service :: "('x service \<Rightarrow> 'x service) \<Rightarrow> 'x runtime \<Rightarrow> 'x runtime" where
  "on_service f rt = rt\<lparr> rt_service := f (rt_service rt) \<rparr>"

definition mark_order_event :: "'x runtime \<Rightarrow> 'x runtime" where
  "mark_order_event rt = rt\<lparr> rt_after_order_event := True \<rparr>"

section \<open>Market data\<close>

definition refresh_tickers :: "'x bot_env \<Rightarrow> ('x runtime, market_ticker list) action" where
  "refresh_tickers env =
    and_then (bn_get_tickers env) (\<lambda>ts.
    then_do (modify (\<lambda>rt. rt\<lparr> rt_collector := tickers_arrived (bn_now_ms env rt) ts (rt_collector rt) \<rparr>)) (ret ts))"

definition refresh_klines :: "'x bot_env \<Rightarrow> string \<Rightarrow> string \<Rightarrow> int \<Rightarrow> int \<Rightarrow> ('x runtime, bool) action" where
  "refresh_klines env y interval limit min_refresh_ms rt =
    (if kline_fresh (bn_now_ms env rt) y interval min_refresh_ms (rt_collector rt) then (rt, Inr False)
     else and_then (bn_get_kline env y interval limit) (\<lambda>cs rt1.
       case klines_arrived (bn_now_ms env rt1) y interval cs (rt_collector rt1) of
         Inl e \<Rightarrow> (rt1, Inl e)
       | Inr co \<Rightarrow> (rt1\<lparr> rt_collector := co \<rparr>, Inr True)) rt)"

definition stored_candles :: "'x runtime \<Rightarrow> string \<Rightarrow> string \<Rightarrow> candle list" where
  "stored_candles rt y interval = get_candles y interval None (co_store (rt_collector rt))"

definition ensure_klines :: "'x bot_env \<Rightarrow> string \<Rightarrow> string \<Rightarrow> ('x runtime, unit) action" where
  "ensure_klines env y tf rt =
    (if stored_candles rt y tf = []
     then and_then (refresh_klines env y tf 200 (kline_min_refresh_ms (rt_cfg rt) tf None False)) (\<lambda>_. ret ()) rt
     else (rt, Inr ()))"

text \<open>Lines 945-967: the candles of the three timeframes.\<close>

definition load_candles :: "'x bot_env \<Rightarrow> string \<Rightarrow> bool \<Rightarrow> ('x runtime, unit) action" where
  "load_candles env y active rt =
    and_then (refresh_klines env y ''1'' 200 (kline_min_refresh_ms (rt_cfg rt) ''1'' (Some y) active)) (\<lambda>_.
    then_do (\<lambda>rt1. if dq_max_missing_candles (cfg_data_quality (rt_cfg rt1))
                        < collector_missing (rt_collector rt1) y ''1''
       then and_then (refresh_klines env y ''1'' 200 0) (\<lambda>_. ret ()) rt1 else (rt1, Inr ()))
    (then_do (ensure_klines env y ''5'') (ensure_klines env y ''15''))) rt"

definition snapshots_of :: "'x runtime \<Rightarrow> string \<Rightarrow> string \<rightharpoonup> indicator_snapshot" where
  "snapshots_of rt y tf =
    (if tf \<in> {''1'', ''5'', ''15''} then Some (snapshot default_indicator_engine y tf (stored_candles rt y tf))
     else None)"

text \<open>Lines 977-988: a ticker that is not older than allowed, or the old one when the refresh raises.\<close>

definition fresh_ticker :: "'x bot_env \<Rightarrow> string \<Rightarrow> market_ticker \<Rightarrow> ('x runtime, market_ticker option) action" where
  "fresh_ticker env y t rt =
    (let limit = dq_max_ticker_delay_sec (cfg_data_quality (rt_cfg rt)) * 1000 in
     if (case co_last_ticker_ms (rt_collector rt) of None \<Rightarrow> True | Some u \<Rightarrow> limit < bn_now_ms env rt - u)
     then try_except
       (and_then (refresh_tickers env) (\<lambda>_. reads (\<lambda>rt1. ticker_of (rt_collector rt1) y))) (\<lambda>_. ret (Some t)) rt
     else (rt, Inr (Some t)))"

section \<open>One symbol\<close>

definition is_managed_now :: "'x runtime \<Rightarrow> string \<Rightarrow> bool" where
  "is_managed_now rt y =
    (case pos_of (rt_service rt) y of None \<Rightarrow> False | Some p \<Rightarrow> is_bot_managed p \<and> is_active p)"

text \<open>The registry holds the one strategy \<open>_build_trading\<close> registers.\<close>

definition strategies_of ::
  "'x bot_env \<Rightarrow> app_config \<Rightarrow> string \<Rightarrow> ((string \<rightharpoonup> indicator_snapshot) \<Rightarrow> signal option result) list" where
  "strategies_of env cfg y = [trend_following (bn_reason env) cfg y]"

definition bar_of ::
  "'x runtime \<Rightarrow> string \<Rightarrow> (string \<rightharpoonup> indicator_snapshot) \<Rightarrow> market_ticker \<Rightarrow> int \<Rightarrow> bar_input" where
  "bar_of rt y snaps t now =
    \<lparr> bi_price = tk_last_price t, bi_atr = or_dec (Option.bind (snaps ''1'') is_atr14) 0,
      bi_candle = last_closed y ''1'' (co_store (rt_collector rt)), bi_snapshot_1m = snaps ''1'',
      bi_snapshot_5m = snaps ''5'', bi_volume_ratio = Option.bind (snaps ''1'') is_volume_ratio, bi_now = now \<rparr>"

definition manage_symbol ::
  "'x bot_env \<Rightarrow> string \<Rightarrow> (string \<rightharpoonup> indicator_snapshot) \<Rightarrow> market_ticker \<Rightarrow> ('x runtime, payload option) action" where
  "manage_symbol env y snaps t rt =
    (let ck = bn_clocks env rt 0; cfg = rt_cfg rt in
     and_then (in_service (manage (bn_ports env cfg (throw TypeError)) cfg ck (bar_of rt y snaps t (ck_wall ck))
         (tk_funding_rate t) (tk_bid_price t) (tk_ask_price t) y)) (\<lambda>acts.
     then_do (modify (\<lambda>rt1. if acts \<noteq> [] then mark_order_event rt1 else rt1)) (ret None)) rt)"

definition market_of :: "'x runtime \<Rightarrow> string \<Rightarrow> market_ticker \<Rightarrow> symbol_meta \<Rightarrow> dec \<Rightarrow> int \<Rightarrow> market_context" where
  "market_of rt y t sm close now =
    \<lparr> mk_now_ms = now, mk_last_kline_ms = last_kline_ms (rt_collector rt) y ''1'',
      mk_last_ticker_ms = co_last_ticker_ms (rt_collector rt), mk_last_orderbook_ms = None,
      mk_missing_candles = collector_missing (rt_collector rt) y ''1'', mk_ticker_price = Some (tk_last_price t),
      mk_kline_close = Some close, mk_orderbook = None, mk_symbol_status = sm_status sm,
      mk_next_funding_time_ms = tk_next_funding_time_ms t, mk_funding_rate = tk_funding_rate t \<rparr>"

definition entry_args_of ::
  "'x runtime \<Rightarrow> string \<Rightarrow> (string \<rightharpoonup> indicator_snapshot) \<Rightarrow> indicator_snapshot \<Rightarrow> market_ticker \<Rightarrow> symbol_meta \<Rightarrow>
   dec \<Rightarrow> int \<Rightarrow> entry_args" where
  "entry_args_of rt y snaps s1m t sm equity now =
    (let candles = stored_candles rt y ''1'';
         box = entry_box_levels (ie_swing_lookback default_indicator_engine) candles s1m (tk_last_price t)
     in \<lparr> ea_symbol = y, ea_snapshots = snaps, ea_candles_1m = candles, ea_box_high = fst box, ea_box_low = snd box,
          ea_symbol_meta = sm, ea_equity = equity, ea_entry_price = tk_last_price t, ea_best_bid = tk_bid_price t,
          ea_best_ask = tk_ask_price t, ea_market = Some (market_of rt y t sm (is_close s1m) now),
          ea_has_orderbook_provider = True, ea_daily_loss_percent = 0, ea_consecutive_losses = 0 \<rparr>)"

definition consider_entry ::
  "'x bot_env \<Rightarrow> string \<Rightarrow> (string \<rightharpoonup> indicator_snapshot) \<Rightarrow> indicator_snapshot \<Rightarrow> market_ticker \<Rightarrow> dec \<Rightarrow> int \<Rightarrow>
   ('x runtime, payload option) action" where
  "consider_entry env y snaps s1m t equity now rt =
    (case map_of (rt_universe rt) y of
       None \<Rightarrow> (rt, Inr None)
     | Some sm \<Rightarrow>
         let cfg = rt_cfg rt; a = entry_args_of rt y snaps s1m t sm equity now in
         and_then (in_service (evaluate_entry (bn_ports env cfg (bn_get_orderbook env y)) (bn_label env) cfg
             (strategies_of env cfg y) (bn_clocks env rt) a)) (\<lambda>opened.
           case opened of
             Some _ \<Rightarrow> then_do (modify mark_order_event) (ret None)
           | None \<Rightarrow> and_then (lift_res (preview_watch cfg (strategies_of env cfg y) y snaps (ea_box_high a) (ea_box_low a)
               (tk_last_price t) now)) (\<lambda>p. ret (Some p))) rt)"

definition process_symbol :: "'x bot_env \<Rightarrow> string \<Rightarrow> dec \<Rightarrow> ('x runtime, payload option) action" where
  "process_symbol env y equity rt =
    (case ticker_of (rt_collector rt) y of
       None \<Rightarrow> (rt, Inr None)
     | Some t0 \<Rightarrow>
         let active = is_managed_now rt y in
         then_do (load_candles env y active)
           (and_then (reads (\<lambda>rt1. snapshots_of rt1 y)) (\<lambda>snaps.
            and_then (fresh_ticker env y t0) (\<lambda>found. case found of None \<Rightarrow> ret None | Some t \<Rightarrow>
            and_then (reads (bn_now_ms env)) (\<lambda>now.
            then_do (modify (\<lambda>rt1. on_service (update_post_exit_mfe y (tk_last_price t)
                 (last_closed y ''1'' (co_store (rt_collector rt1))) (ck_wall (bn_clocks env rt1 0))) rt1))
              (if active then manage_symbol env y snaps t
               else case snaps ''1'' of None \<Rightarrow> throw (KeyError ''1'')
                 | Some s1m \<Rightarrow> consider_entry env y snaps s1m t equity now))))) rt)"

section \<open>Cycles\<close>

definition current_equity :: "'x bot_env \<Rightarrow> ('x runtime, dec) action" where
  "current_equity env rt =
    (if cb_mode (cfg_bot (rt_cfg rt)) = LIVE
     then try_except (and_then (bn_wallet_balance env) (\<lambda>w. ret (wb_equity w))) (\<lambda>_. reads rt_last_equity) rt
     else (rt, Inr (case bn_paper_wallet env of
       None \<Rightarrow> rt_last_equity rt | Some w \<Rightarrow> wb_equity (w (sv_exec (rt_service rt)) []))))"

definition take_equity :: "'x bot_env \<Rightarrow> ('x runtime, dec) action" where
  "take_equity env =
    and_then (current_equity env) (\<lambda>eq. then_do (modify (\<lambda>rt. rt\<lparr> rt_last_equity := eq \<rparr>)) (ret eq))"

text \<open>One symbol that raises is skipped.\<close>

fun process_all :: "'x bot_env \<Rightarrow> dec \<Rightarrow> string list \<Rightarrow> ('x runtime, payload list) action" where
  "process_all env equity [] = ret []"
| "process_all env equity (y # ys) =
    and_then (try_except (and_then (process_symbol env y equity)
        (\<lambda>p. ret (case p of None \<Rightarrow> [] | Some q \<Rightarrow> [q]))) (\<lambda>_. ret [])) (\<lambda>ps.
    and_then (process_all env equity ys) (\<lambda>qs. ret (ps @ qs)))"

definition management_cycle :: "'x bot_env \<Rightarrow> ('x runtime, unit) action" where
  "management_cycle env =
    and_then (refresh_tickers env) (\<lambda>_.
    and_then (take_equity env) (\<lambda>equity.
    and_then (reads (\<lambda>rt. dedup (held_symbols (rt_service rt)))) (\<lambda>ys.
    and_then (process_all env equity ys) (\<lambda>_. ret ()))))"

end
