(* ===== verification/Runtime_Loops.thy ===== *)
theory Runtime_Loops
  imports Bot_Runtime
begin

text \<open>
  The loops of the runtime (\<^verbatim>\<open>apps/bot/runtime/bot_runtime.py\<close>): one turn of the trading, the
  reconciliation and the profit-and-loss loop, the refresh of the watch list, what a reconciliation
  reports to the kill switch and the trackers, the reaction to a tripped kill switch, and the
  recovery after a lost WebSocket.
\<close>

section \<open>The state machine\<close>

text \<open>\<open>_build_trading\<close> always wires the machine and the kill switch into the guards.\<close>

definition machine_of :: "'x runtime \<Rightarrow> bot_machine" where
  "machine_of rt = (case gs_state_machine (sv_guards (rt_service rt)) of None \<Rightarrow> new_machine BOOTING | Some m \<Rightarrow> m)"

definition bot_state_of :: "'x runtime \<Rightarrow> bot_state" where
  "bot_state_of rt = bm_state (machine_of rt)"

definition set_machine :: "bot_machine \<Rightarrow> 'x runtime \<Rightarrow> 'x runtime" where
  "set_machine m = on_service (upd_machine (\<lambda>_. m))"

definition move :: "bot_state \<Rightarrow> string \<Rightarrow> ('x runtime, unit) action" where
  "move t reason rt =
    (case transition (machine_of rt) t reason of
       Inl e \<Rightarrow> (rt, Inl e)
     | Inr m \<Rightarrow> (set_machine m rt, Inr ()))"

definition force_to :: "bot_state \<Rightarrow> string \<Rightarrow> 'x runtime \<Rightarrow> 'x runtime" where
  "force_to t reason rt = set_machine (force (machine_of rt) t reason) rt"

definition kill_of :: "'x runtime \<Rightarrow> kill_switch option" where
  "kill_of rt = gs_kill_switch (sv_guards (rt_service rt))"

definition mono_of :: "'x bot_env \<Rightarrow> 'x runtime \<Rightarrow> rat" where
  "mono_of env rt = ck_mono (bn_clocks env rt 0)"

definition emit_event :: "bot_event_type \<Rightarrow> string \<Rightarrow> payload \<Rightarrow> 'x runtime \<Rightarrow> 'x runtime" where
  "emit_event t msg d =
    on_service (publish \<lparr> be_type = t, be_symbol = None, be_message = msg, be_data = d \<rparr>)"

section \<open>After a reconciliation\<close>

definition follow_runner :: "'x bot_env \<Rightarrow> string \<Rightarrow> 'x runtime \<Rightarrow> 'x runtime" where
  "follow_runner env y rt =
    (case pos_of (rt_service rt) y of
       None \<Rightarrow> rt
     | Some p \<Rightarrow>
         if p_exit_reason p = Some RUNNER_TRAILING_STOP
         then on_service (start_post_exit_mfe (rt_cfg rt) (ck_wall (bn_clocks env rt 0)) p (p_stop_loss_price p)) rt
         else rt)"

definition record_reconciliation_risk :: "'x bot_env \<Rightarrow> reconcile_result \<Rightarrow> 'x runtime \<Rightarrow> 'x runtime" where
  "record_reconciliation_risk env r rt =
    (let rt1 = rt\<lparr> rt_reconciliation_status := Some (r, bn_now_ms env rt) \<rparr>;
         rt2 = fold (follow_runner env) (rr_exchange_closes r) rt1
     in if rr_qty_mismatches r \<noteq> [] \<or> rr_external_closes r \<noteq> []
        then on_service (upd_kill record_position_mismatch) rt2 else rt2)"

definition run_reconciliation :: "'x bot_env \<Rightarrow> ('x runtime, unit) action" where
  "run_reconciliation env rt =
    and_then (in_service (reconcile_once (bn_sync env (rt_cfg rt) (rt_last_equity rt))
        (cfg_manual_intervention (rt_cfg rt))))
      (\<lambda>r. modify (record_reconciliation_risk env r)) rt"

section \<open>The kill switch\<close>

definition announce_trip :: "'x bot_env \<Rightarrow> string \<Rightarrow> 'x runtime \<Rightarrow> 'x runtime" where
  "announce_trip env r rt =
    (if rt_last_trip_reason rt = Some r then rt
     else case kill_of rt of
       None \<Rightarrow> rt
     | Some k \<Rightarrow>
         (case kill_snapshot (mono_of env rt) k of (k', snp) \<Rightarrow>
            emit_event EV_KILL_SWITCH_TRIPPED r (dict_update [(''reason'', PStr r)] snp)
              (on_service (upd_kill (\<lambda>_. k')) (rt\<lparr> rt_last_trip_reason := Some r \<rparr>))))"

definition apply_kill_switch_trip :: "'x bot_env \<Rightarrow> ('x runtime, unit) action" where
  "apply_kill_switch_trip env rt =
    (case kill_of rt of
       None \<Rightarrow> (rt, Inr ())
     | Some k \<Rightarrow>
         (case kill_evaluate (cfg_global_kill_switch (rt_cfg rt)) (mono_of env rt) k of (k', tripped) \<Rightarrow>
            let rt1 = on_service (upd_kill (\<lambda>_. k')) rt in
            case tripped of
              None \<Rightarrow> (rt1, Inr ())
            | Some r \<Rightarrow>
                let rt2 = announce_trip env r rt1 in
                if bot_state_of rt2 = RUNNING then move RISK_LOCKED r rt2 else (rt2, Inr ())))"

section \<open>Reconciliation loop and private events\<close>

definition reconciliation_states :: "bot_state list" where
  "reconciliation_states = [RUNNING, PAUSED, STANDBY, RISK_LOCKED]"

text \<open>The interval before the next turn; the flag of an order event is cleared when it is read.\<close>

definition next_reconcile_interval :: "'x runtime \<Rightarrow> 'x runtime \<times> int" where
  "next_reconcile_interval rt =
    (case next_interval_sec (cfg_reconciliation (rt_cfg rt)) (rt_after_order_event rt) (rt_service rt) of
       (flag, n) \<Rightarrow> (rt\<lparr> rt_after_order_event := flag \<rparr>, n))"

definition reconciliation_turn :: "'x bot_env \<Rightarrow> ('x runtime, unit) action" where
  "reconciliation_turn env rt =
    (if bot_state_of rt \<in> set reconciliation_states
     then try_except (then_do (run_reconciliation env) (apply_kill_switch_trip env)) (\<lambda>_. ret ()) rt
     else (rt, Inr ()))"

definition handle_private_event :: "'x bot_env \<Rightarrow> string \<Rightarrow> ('x runtime, unit) action" where
  "handle_private_event env kind =
    then_do (modify (\<lambda>rt. mark_order_event (emit_event EV_RECONCILED (''private_ws:'' @ kind) [] rt)))
      (then_do (run_reconciliation env) (apply_kill_switch_trip env))"

section \<open>A lost WebSocket\<close>

definition disconnect_message :: "bool \<Rightarrow> string" where
  "disconnect_message private =
    (if private then ''WebSocket disconnect (private)'' else ''WebSocket disconnect (public)'')"

definition handle_ws_disconnect :: "'x bot_env \<Rightarrow> bool \<Rightarrow> ('x runtime, unit) action" where
  "handle_ws_disconnect env private =
    then_do (modify (emit_event EV_NEW_ENTRIES_PAUSED (disconnect_message private) []))
      (then_do (modify (\<lambda>rt. on_service (upd_kill (record_ws_disconnect (mono_of env rt))) rt))
      (then_do (apply_kill_switch_trip env)
      (and_then (reads (\<lambda>rt. bot_state_of rt = RUNNING)) (\<lambda>was_running.
        then_do (if was_running then move RECONCILING ''ws disconnect'' else ret ())
        (then_do (try_except (and_then (refresh_tickers env) (\<lambda>_. ret ())) (\<lambda>_. ret ()))
        (then_do (\<lambda>rt. (if rcn_run_after_ws_reconnect (cfg_reconciliation (rt_cfg rt))
            then run_reconciliation env else ret ()) rt)
          (\<lambda>rt. (if was_running \<and> bot_state_of rt = RECONCILING
            then move RUNNING ''ws recovered'' else ret ()) rt)))))))"

section \<open>The watch list\<close>

text \<open>Lines 804-820: one candidate of the batch.\<close>

definition cache_15m :: "string \<Rightarrow> int \<Rightarrow> indicator_snapshot \<Rightarrow> scan_cache \<Rightarrow> scan_cache" where
  "cache_15m y now snp c =
    (case is_atr_percent snp of
       None \<Rightarrow> c
     | Some a \<Rightarrow> c\<lparr> sk_atr_percent := (sk_atr_percent c)(y \<mapsto> a), sk_atr_updated_ms := (sk_atr_updated_ms c)(y \<mapsto> now),
         sk_snapshots_15m := (sk_snapshots_15m c)(y \<mapsto> snp) \<rparr>)"

definition snapshot_now :: "'x runtime \<Rightarrow> string \<Rightarrow> string \<Rightarrow> indicator_snapshot" where
  "snapshot_now rt y tf = snapshot default_indicator_engine y tf (stored_candles rt y tf)"

definition scan_symbol :: "'x bot_env \<Rightarrow> string \<Rightarrow> ('x runtime, unit) action" where
  "scan_symbol env y rt =
    (let sc = cfg_scanner (rt_cfg rt) in
     and_then (refresh_klines env y ''15'' 200 (cs_kline_15m_refresh_sec sc * 1000)) (\<lambda>_.
     then_do (modify (\<lambda>rt1. rt1\<lparr> rt_cache := cache_15m y (bn_now_ms env rt1) (snapshot_now rt1 y ''15'') (rt_cache rt1) \<rparr>))
       (if cs_refresh_5m_snapshots_in_scanner sc
        then and_then (refresh_klines env y ''5'' 200 (cs_kline_5m_refresh_sec sc * 1000)) (\<lambda>_.
          modify (\<lambda>rt1. rt1\<lparr> rt_cache := (rt_cache rt1)\<lparr> sk_snapshots_5m :=
            (sk_snapshots_5m (rt_cache rt1))(y \<mapsto> snapshot_now rt1 y ''5'') \<rparr> \<rparr>))
        else ret ())) rt)"

definition scan_due :: "scanner_section \<Rightarrow> bool \<Rightarrow> rat \<Rightarrow> rat \<Rightarrow> bool" where
  "scan_due sc forced last_refresh now \<longleftrightarrow>
    \<not> (\<not> forced \<and> 0 < last_refresh \<and> now - last_refresh < of_int (cs_refresh_interval_sec sc))"

definition refresh_universe :: "'x bot_env \<Rightarrow> ('x runtime, unit) action" where
  "refresh_universe env =
    and_then (bn_load_instruments env) (\<lambda>ms.
      modify (\<lambda>rt. rt\<lparr> rt_universe := universe_refresh (cfg_universe (rt_cfg rt)) (bn_now_ms env rt) ms \<rparr>))"

definition current_tickers :: "'x bot_env \<Rightarrow> ('x runtime, market_ticker list) action" where
  "current_tickers env =
    and_then (reads (\<lambda>rt. all_tickers (rt_collector rt))) (\<lambda>ts. if ts = [] then refresh_tickers env else ret ts)"

definition rescan :: "'x bot_env \<Rightarrow> market_ticker list \<Rightarrow> market_ticker list \<Rightarrow> 'x runtime \<Rightarrow> 'x runtime" where
  "rescan env ts candidates rt =
    (let cfg = rt_cfg rt; c = fresh_scanner_atr cfg candidates (bn_now_ms env rt) (rt_cache rt) in
     rt\<lparr> rt_cache := c,
         rt_watchlist := scan (cfg_scanner cfg) (cu_min_24h_turnover_usdt (cfg_universe cfg))
           (is_tradable (rt_universe rt)) ts (sk_atr_percent c) None (sk_snapshots_15m c) (sk_snapshots_5m c) \<rparr>)"

definition refresh_watchlist_if_due :: "'x bot_env \<Rightarrow> bool \<Rightarrow> ('x runtime, unit) action" where
  "refresh_watchlist_if_due env forced rt =
    (let now = mono_of env rt in
     if \<not> scan_due (cfg_scanner (rt_cfg rt)) forced (rt_last_scanner_refresh rt) now then (rt, Inr ())
     else then_do (refresh_universe env)
       (and_then (current_tickers env) (\<lambda>ts rt1.
          let candidates = prefilter_tickers (rt_cfg rt1) (is_tradable (rt_universe rt1)) ts in
          case refresh_batch (rt_cfg rt1) candidates (rt_scanner_cursor rt1) of (cursor, batch) \<Rightarrow>
            then_do (for_each (\<lambda>t. try_except (scan_symbol env (tk_symbol t)) (\<lambda>_. ret ())) batch)
              (modify (\<lambda>rt2. (rescan env ts candidates rt2)\<lparr> rt_last_scanner_refresh := now \<rparr>))
              (rt1\<lparr> rt_scanner_cursor := cursor \<rparr>))) rt)"

section \<open>Trading loop\<close>

definition trading_cycle :: "'x bot_env \<Rightarrow> ('x runtime, payload list) action" where
  "trading_cycle env =
    and_then (refresh_tickers env) (\<lambda>_.
    then_do (refresh_watchlist_if_due env False)
    (and_then (take_equity env) (\<lambda>equity.
     and_then (reads (\<lambda>rt. watch_symbols (rt_cfg rt) (rt_watchlist rt) (rt_service rt))) (\<lambda>ys.
       process_all env equity ys))))"

definition trading_turn :: "'x bot_env \<Rightarrow> ('x runtime, unit) action" where
  "trading_turn env rt =
    (if can_enter_new_position (machine_of rt)
     then try_except (and_then (trading_cycle env) (\<lambda>_. ret ())) (\<lambda>_. ret ()) rt
     else if can_manage_positions (machine_of rt) \<and> has_open_bot_position (sv_state (rt_service rt))
     then try_except (management_cycle env) (\<lambda>_. ret ()) rt
     else (rt, Inr ()))"

section \<open>Profit-and-loss loop\<close>

definition marks_of :: "'x runtime \<Rightarrow> (string \<times> dec) list" where
  "marks_of rt = map (\<lambda>t. (tk_symbol t, tk_last_price t)) (all_tickers (rt_collector rt))"

definition fallback_wallet :: "'x runtime \<Rightarrow> wallet_balance" where
  "fallback_wallet rt =
    \<lparr> wb_coin = cb_account_currency (cfg_bot (rt_cfg rt)), wb_equity = rt_last_equity rt,
      wb_available_balance = rt_last_equity rt, wb_wallet_balance = rt_last_equity rt, wb_unrealized_pnl = 0 \<rparr>"

definition wallet_snapshot :: "'x bot_env \<Rightarrow> (string \<times> dec) list \<Rightarrow> ('x runtime, wallet_balance) action" where
  "wallet_snapshot env marks rt =
    (if cb_mode (cfg_bot (rt_cfg rt)) = LIVE
     then try_except (bn_wallet_balance env) (\<lambda>_. reads fallback_wallet) rt
     else (rt, Inr (case bn_paper_wallet env of
       None \<Rightarrow> fallback_wallet rt | Some w \<Rightarrow> w (sv_exec (rt_service rt)) marks)))"

definition reading_of :: "wallet_balance \<Rightarrow> pnl_snapshot \<Rightarrow> account_reading" where
  "reading_of w snp =
    \<lparr> ad_equity = wb_equity w, ad_wallet_balance = Some (wb_wallet_balance w),
      ad_unrealized_pnl = wb_unrealized_pnl w, ad_realized_pnl = pn_realized snp, ad_fees = pn_fees snp,
      ad_funding_fees = pn_funding snp \<rparr>"

text \<open>The profit and loss of the day: from the account's row when there is a logger.\<close>

definition daily_net :: "'x bot_env \<Rightarrow> wallet_balance \<Rightarrow> pnl_snapshot \<Rightarrow> ('x runtime, dec) action" where
  "daily_net env w snp rt =
    (if \<not> sv_has_logger (rt_service rt) then (rt, Inr (pn_net snp))
     else case log_account_equity (bn_day env rt) (cb_mode (cfg_bot (rt_cfg rt))) (reading_of w snp) (rt_accounts rt) of
       (rows, r) \<Rightarrow> then_do (bn_persist_pnl env) (ret (ac_net_pnl r)) (rt\<lparr> rt_accounts := rows \<rparr>))"

definition feed_kill_switch :: "dec \<Rightarrow> dec \<Rightarrow> kill_switch \<Rightarrow> kill_switch" where
  "feed_kill_switch net equity =
    (let snp = \<lparr> pn_realized = net, pn_unrealized = 0, pn_fees = 0, pn_funding = 0, pn_net = net \<rparr>;
         loss = to_float (max 0 (daily_loss_percent snp equity))
     in update_pnl loss loss)"

definition pnl_step_loop :: "'x bot_env \<Rightarrow> ('x runtime, unit) action" where
  "pnl_step_loop env =
    and_then (reads marks_of) (\<lambda>marks.
    and_then (reads (\<lambda>rt. compute_pnl (map snd (rs_positions (sv_state (rt_service rt)))) (map_of (rev marks)) 0)) (\<lambda>snp.
    and_then (wallet_snapshot env marks) (\<lambda>w.
    then_do (modify (\<lambda>rt. rt\<lparr> rt_last_equity := wb_equity w \<rparr>))
    (and_then (daily_net env w snp) (\<lambda>net rt.
       if 0 < rt_last_equity rt
       then then_do (modify (on_service (upd_kill (feed_kill_switch net (rt_last_equity rt)))))
              (apply_kill_switch_trip env) rt
       else (rt, Inr ()))))))"

definition pnl_turn :: "'x bot_env \<Rightarrow> ('x runtime, unit) action" where
  "pnl_turn env = try_except (pnl_step_loop env) (\<lambda>_. ret ())"

definition pnl_interval_sec :: "'x runtime \<Rightarrow> int" where
  "pnl_interval_sec rt = (if has_open_bot_position (sv_state (rt_service rt)) then 3 else 10)"

end
