(* ===== verification/Decimal_Text.thy ===== *)
theory Decimal_Text
  imports Candle_Store
begin

text \<open>
  Decimals as text: \<open>Decimal(s)\<close> on the plain and the scientific notation, and \<open>str(d)\<close>. Numbers reach the
  bot as text (exchange, commands) and are stored as text (database), so both directions are modelled
  and reading what was written gives the number back. Of the texts \<open>str\<close> can give for a value, which
  differ in trailing zeros and the exponent, \<open>str_dec\<close> is the one without both.
\<close>

section \<open>Reading\<close>

definition parse_unsigned :: "string \<Rightarrow> dec result" where
  "parse_unsigned s =
    (let ip = takeWhile (\<lambda>c. c \<noteq> CHR ''.'') s; rest = dropWhile (\<lambda>c. c \<noteq> CHR ''.'') s; fp = drop 1 rest in
     if ip @ fp = [] then Inl InvalidOperation
     else case digits_value 0 (ip @ fp) of
       None \<Rightarrow> Inl InvalidOperation
     | Some n \<Rightarrow> Inr (of_int n / 10 ^ length fp))"

definition parse_exponent :: "string \<Rightarrow> int result" where
  "parse_exponent s =
    (let neg = (take 1 s = ''-''); t = (if take 1 s \<in> {''-'', ''+''} then drop 1 s else s)
     in if t = [] then Inl InvalidOperation
        else case digits_value 0 t of None \<Rightarrow> Inl InvalidOperation | Some n \<Rightarrow> Inr (if neg then - n else n))"

definition scale10 :: "int \<Rightarrow> dec \<Rightarrow> dec" where
  "scale10 e x = (if 0 \<le> e then x * 10 ^ nat e else x / 10 ^ nat (- e))"

definition parse_number :: "string \<Rightarrow> dec result" where
  "parse_number s =
    (let m = takeWhile (\<lambda>c. c \<noteq> CHR ''e'' \<and> c \<noteq> CHR ''E'') s;
         rest = dropWhile (\<lambda>c. c \<noteq> CHR ''e'' \<and> c \<noteq> CHR ''E'') s
     in bind_res (parse_unsigned m) (\<lambda>x.
          if rest = [] then Inr x else bind_res (parse_exponent (drop 1 rest)) (\<lambda>e. Inr (scale10 e x))))"

definition parse_decimal :: "string \<Rightarrow> dec result" where
  "parse_decimal s =
    (if take 1 s = ''-'' then bind_res (parse_number (drop 1 s)) (\<lambda>x. Inr (- x))
     else if take 1 s = ''+'' then parse_number (drop 1 s)
     else parse_number s)"

section \<open>Printing\<close>

definition digit_char :: "nat \<Rightarrow> char" where
  "digit_char n = ''0123456789'' ! n"

fun nat_text :: "nat \<Rightarrow> string" where
  "nat_text n = (if n < 10 then [digit_char n] else nat_text (n div 10) @ [digit_char (n mod 10)])"

declare nat_text.simps [simp del]

text \<open>The number of decimal places of a fraction in lowest terms with denominator \<open>b\<close>.\<close>

function places :: "nat \<Rightarrow> nat" where
  "places b = (let g = gcd b 10 in if b = 0 \<or> g = 1 then 0 else Suc (places (b div g)))"
  by pat_completeness auto

termination
proof (relation "measure id")
  fix b g :: nat
  assume "g = gcd b 10" "\<not> (b = 0 \<or> g = 1)"
  moreover from this have "0 < g" by simp
  ultimately have "1 < g" "0 < b" by linarith+
  then show "(b div g, b) \<in> measure id" by simp
qed simp

declare places.simps [simp del]

definition str_dec :: "dec \<Rightarrow> string" where
  "str_dec d =
    (let k = places (nat (snd (quotient_of d)));
         t = nat_text (nat \<lfloor>\<bar>d\<bar> * 10 ^ k\<rfloor>);
         padded = replicate (Suc k - length t) (CHR ''0'') @ t;
         n = length padded - k
     in (if d < 0 then ''-'' else []) @ take n padded @ (if k = 0 then [] else CHR ''.'' # drop n padded))"

section \<open>Digits\<close>

lemma digit_char_value [simp]:
  assumes "n < 10" shows "digit_value (digit_char n) = Some (int n)"
proof -
  have "n \<in> {0, 1, 2, 3, 4, 5, 6, 7, 8, 9}" using assms by auto
  then show ?thesis by (auto simp: digit_value_def digit_char_def)
qed

lemma digits_append: "digits_value acc (s @ t) = Option.bind (digits_value acc s) (\<lambda>n. digits_value n t)"
  by (induction s arbitrary: acc) (auto split: option.split)

lemma nat_text_value: "digits_value 0 (nat_text n) = Some (int n)"
proof (induction n rule: nat_text.induct)
  case (1 n)
  show ?case
  proof (cases "n < 10")
    case True
    then show ?thesis by (simp add: nat_text.simps [of n])
  next
    case False
    then have "digits_value 0 (nat_text (n div 10)) = Some (int (n div 10))" using 1 by simp
    moreover have "10 * int (n div 10) + int (n mod 10) = int n"
      by (metis mult_div_mod_eq of_nat_add of_nat_mult of_nat_numeral)
    ultimately show ?thesis using False by (simp add: nat_text.simps [of n] digits_append)
  qed
qed

lemma digits_zeros: "digits_value 0 (replicate k (CHR ''0'') @ s) = digits_value 0 s"
  by (induction k) (simp_all add: digit_value_def)

definition digital :: "string \<Rightarrow> bool" where
  "digital s \<longleftrightarrow> (\<forall>c\<in>set s. digit_value c \<noteq> None)"

lemma digital_nat_text [simp]: "digital (nat_text n)"
proof (induction n rule: nat_text.induct)
  case (1 n)
  then show ?case by (auto simp: nat_text.simps [of n] digital_def)
qed

lemma digital_not:
  assumes "digital s" "c \<in> set s"
  shows "c \<noteq> CHR ''.''" "c \<noteq> CHR ''e''" "c \<noteq> CHR ''E''" "c \<noteq> CHR ''-''" "c \<noteq> CHR ''+''"
  using assms by (auto simp: digital_def digit_value_def)

lemma nat_text_not_empty [simp]: "nat_text n \<noteq> []"
  by (simp add: nat_text.simps [of n])

section \<open>Places\<close>

lemma places_clear:
  assumes "0 < b" "b dvd 10 ^ k" shows "b dvd 10 ^ places b"
  using assms
proof (induction b rule: places.induct)
  case (1 b)
  let ?g = "gcd b 10"
  show ?case
  proof (cases "?g = 1")
    case True
    then have "coprime b 10" by (simp only: coprime_iff_gcd_eq_1)
    then have "coprime b (10 ^ k)" by (simp add: coprime_power_right_iff)
    then show ?thesis using coprime_common_divisor [OF _ dvd_refl 1(3)] by (auto intro: unit_imp_dvd)
  next
    case False
    obtain c where c: "b = ?g * c" by (metis dvdE gcd_dvd1)
    have "0 < c" using c 1(2) by (metis gr0I mult_0_right not_less_zero)
    moreover have "c dvd 10 ^ k" using c 1(3) by (metis dvd_mult_right)
    moreover have "b div ?g = c" using c 1(2) by (metis gcd_eq_0_iff nonzero_mult_div_cancel_left zero_neq_numeral)
    ultimately have "c dvd 10 ^ places c" using 1(1) 1(2) False by simp
    then have "?g * c dvd 10 * 10 ^ places c" by (intro mult_dvd_mono) simp_all
    then show ?thesis using c False 1(2) \<open>b div ?g = c\<close> by (simp add: places.simps [of b] Let_def)
  qed
qed

definition finite_dec :: "rat \<Rightarrow> bool" where
  "finite_dec d \<longleftrightarrow> (\<exists>k i. d * 10 ^ k = of_int i)"

lemma finite_dec_places:
  assumes "finite_dec d"
  shows "\<exists>i. d * 10 ^ places (nat (snd (quotient_of d))) = of_int i"
proof -
  obtain a b where q: "quotient_of d = (a, b)" by fastforce
  have b: "0 < b" "coprime a b" and d: "d = of_int a / of_int b"
    using quotient_of_denom_pos [OF q] quotient_of_coprime [OF q] quotient_of_div [OF q] by auto
  obtain k i where "d * 10 ^ k = of_int i" using assms by (auto simp: finite_dec_def)
  then have "(of_int (a * 10 ^ k) :: rat) = of_int (i * b)" using b(1) by (simp add: d field_simps)
  then have "a * 10 ^ k = i * b" by (simp only: of_int_eq_iff)
  then have "b dvd 10 ^ k" using b(2) by (metis coprime_commute coprime_dvd_mult_right_iff dvd_triv_right)
  then have "nat b dvd 10 ^ k"
    using b(1) by (metis int_dvd_int_iff int_nat_eq less_imp_le nat_0_le of_nat_numeral of_nat_power)
  then have "nat b dvd 10 ^ places (nat b)" using b(1) by (intro places_clear) simp_all
  then have "b dvd 10 ^ places (nat b)"
    using b(1) by (metis int_dvd_int_iff int_nat_eq less_imp_le nat_0_le of_nat_numeral of_nat_power)
  then obtain c where "(10 :: int) ^ places (nat b) = b * c" by (metis dvdE)
  then have "(10 :: rat) ^ places (nat b) = of_int b * of_int c" by (metis of_int_mult of_int_numeral of_int_power)
  then have "d * 10 ^ places (nat b) = of_int (a * c)" using b(1) by (simp add: d)
  then show ?thesis unfolding q snd_conv by blast
qed

lemma rnd_finite: "finite_dec (rnd x)"
proof (cases "0 < x")
  case True
  then show ?thesis
  proof (induction x rule: scale_induct)
    case (mid x)
    then show ?case by (auto simp: finite_dec_def rnd_mid intro: exI [of _ "0 :: nat"])
  next
    case (up x)
    then obtain k i where "rnd x * 10 ^ k = of_int i" by (auto simp: finite_dec_def)
    then have "rnd (10 * x) * 10 ^ k = of_int (10 * i)" by (simp add: rnd_scale)
    then show ?case unfolding finite_dec_def by blast
  next
    case (down x)
    then obtain k i where "rnd (10 * x) * 10 ^ k = of_int i" by (auto simp: finite_dec_def)
    then have "rnd x * 10 ^ Suc k = of_int i" using rnd_scale [of x] by (simp add: ac_simps)
    then show ?case unfolding finite_dec_def by blast
  qed
qed (auto simp: finite_dec_def intro!: exI [of _ "0 :: int"])

lemma finite_dec_minus [simp]: "finite_dec (- x) \<longleftrightarrow> finite_dec x"
  unfolding finite_dec_def by (metis minus_equation_iff minus_mult_left of_int_minus)

lemma is_dec_finite: "is_dec x \<Longrightarrow> finite_dec x"
  using rnd_finite by (metis dround_def finite_dec_minus is_decD)

section \<open>Reading what was written\<close>

lemma parse_fraction:
  assumes "digital ip" "digital fp" "ip \<noteq> []" "digits_value 0 (ip @ fp) = Some n"
  shows "parse_unsigned (ip @ (if fp = [] then [] else CHR ''.'' # fp)) = Inr (of_int n / 10 ^ length fp)"
proof -
  have dots: "\<forall>c\<in>set ip. c \<noteq> CHR ''.''" using digital_not(1) [OF assms(1)] by blast
  have "takeWhile (\<lambda>c. c \<noteq> CHR ''.'') ip = ip" "dropWhile (\<lambda>c. c \<noteq> CHR ''.'') ip = []"
    using dots by (simp_all add: takeWhile_eq_all_conv dropWhile_eq_Nil_conv)
  moreover have "takeWhile (\<lambda>c. c \<noteq> CHR ''.'') (ip @ CHR ''.'' # fp) = ip"
    "dropWhile (\<lambda>c. c \<noteq> CHR ''.'') (ip @ CHR ''.'' # fp) = CHR ''.'' # fp"
    using dots by (auto simp: takeWhile_append2 dropWhile_append2)
  note splits = this calculation
  show ?thesis
  proof (cases "fp = []")
    case True
    then show ?thesis
      using assms(3,4) by (simp only: parse_unsigned_def Let_def splits True append_Nil2 drop_Nil if_True) simp
  next
    case False
    then show ?thesis
      using assms(3,4) by (simp only: parse_unsigned_def Let_def splits if_False) simp
  qed
qed

lemma parse_plain:
  assumes "\<forall>c\<in>set s. c \<noteq> CHR ''e'' \<and> c \<noteq> CHR ''E''"
  shows "parse_number s = parse_unsigned s"
proof -
  have "takeWhile (\<lambda>c. c \<noteq> CHR ''e'' \<and> c \<noteq> CHR ''E'') s = s"
    "dropWhile (\<lambda>c. c \<noteq> CHR ''e'' \<and> c \<noteq> CHR ''E'') s = []"
    using assms by (auto simp: takeWhile_eq_all_conv dropWhile_eq_Nil_conv)
  note same = this
  show ?thesis by (cases "parse_unsigned s") (simp_all only: parse_number_def Let_def same bind_res_simps refl if_True)
qed

text \<open>A decimal stored as text is read back as the same number, for every value the bot's arithmetic
  produces.\<close>

theorem parse_str_dec:
  assumes "is_dec d" shows "parse_decimal (str_dec d) = Inr d"
proof -
  define k where "k = places (nat (snd (quotient_of d)))"
  define t where "t = nat_text (nat \<lfloor>\<bar>d\<bar> * 10 ^ k\<rfloor>)"
  define padded where "padded = replicate (Suc k - length t) (CHR ''0'') @ t"
  define n where "n = length padded - k"
  define ip where "ip = take n padded"
  define fp where "fp = drop n padded"
  obtain i where "d * 10 ^ k = of_int i" using finite_dec_places [OF is_dec_finite [OF assms]] k_def by blast
  then have i: "\<bar>d\<bar> * 10 ^ k = of_int \<bar>i\<bar>" by (metis abs_mult abs_numeral of_int_abs power_abs)
  have len: "k < length padded" by (simp add: padded_def)
  have dig: "digital padded" by (auto simp: padded_def digital_def digit_value_def dest: digital_nat_text [folded t_def, unfolded digital_def, rule_format] simp: t_def)
  have parts: "digital ip" "digital fp" "ip \<noteq> []" "length fp = k" "ip @ fp = padded"
    using dig len by (auto simp: ip_def fp_def n_def digital_def dest: in_set_takeD in_set_dropD)
  have val: "digits_value 0 (ip @ fp) = Some \<bar>i\<bar>"
    by (simp add: parts(5) padded_def digits_zeros t_def nat_text_value i floor_of_int flip: of_int_abs)
  define body where "body = ip @ (if fp = [] then [] else CHR ''.'' # fp)"
  have str: "str_dec d = (if d < 0 then ''-'' else []) @ body"
    unfolding str_dec_def Let_def body_def
    using parts(4) by (simp flip: k_def t_def padded_def n_def ip_def fp_def) auto
  have abs: "of_int \<bar>i\<bar> / 10 ^ k = \<bar>d\<bar>" unfolding i [symmetric] by simp
  have "parse_number body = parse_unsigned body"
    using digital_not(2,3) [OF parts(1)] digital_not(2,3) [OF parts(2)]
    by (intro parse_plain) (auto simp: body_def split: if_splits)
  also have "\<dots> = Inr \<bar>d\<bar>" using parse_fraction [OF parts(1-3) val] parts(4) abs by (simp add: body_def)
  finally have num: "parse_number body = Inr \<bar>d\<bar>" .
  obtain c r where c: "body = c # r" "c \<in> set ip" using parts(3) by (cases ip) (auto simp: body_def)
  then have "c \<noteq> CHR ''-''" "c \<noteq> CHR ''+''" using digital_not(4,5) [OF parts(1)] by blast+
  then show ?thesis using num c(1) by (auto simp: str parse_decimal_def)
qed

text \<open>
  The JSON values of the exchange's answers and what Python does with them: \<open>d.get(k)\<close>, \<open>d[k]\<close>, the
  truth value, iteration, \<open>int\<close>, and the two readers \<open>_dec\<close> and \<open>_opt_dec\<close> of
  \<^verbatim>\<open>packages/exchange/bybit_gateway.py\<close>. Numbers are integers; the exchange sends fractions as text.
  An operation an object of another type does not have raises \<open>TypeError\<close> (Python's \<open>AttributeError\<close>
  included), a field of a model with a value of another type \<open>ValueError\<close> (pydantic's validation).
\<close>

datatype json = JNull | JBool bool | JInt int | JStr string | JList "json list" | JObj "(string \<times> json) list"

section \<open>Access\<close>

definition json_get :: "string \<Rightarrow> json \<Rightarrow> json result" where
  "json_get k d =
    (case d of JObj m \<Rightarrow> Inr (case map_of m k of None \<Rightarrow> JNull | Some v \<Rightarrow> v) | _ \<Rightarrow> Inl TypeError)"

text \<open>\<open>d.get(k, x)\<close>: a key that holds \<open>null\<close> is not missing.\<close>

definition json_get_or :: "string \<Rightarrow> json \<Rightarrow> json \<Rightarrow> json result" where
  "json_get_or k x d =
    (case d of JObj m \<Rightarrow> Inr (case map_of m k of None \<Rightarrow> x | Some v \<Rightarrow> v) | _ \<Rightarrow> Inl TypeError)"

definition json_item :: "string \<Rightarrow> json \<Rightarrow> json result" where
  "json_item k d =
    (case d of JObj m \<Rightarrow> (case map_of m k of None \<Rightarrow> Inl (KeyError k) | Some v \<Rightarrow> Inr v) | _ \<Rightarrow> Inl TypeError)"

definition json_nth :: "nat \<Rightarrow> json \<Rightarrow> json result" where
  "json_nth n d =
    (case d of
       JList xs \<Rightarrow> if n < length xs then Inr (xs ! n) else Inl IndexError
     | JStr s \<Rightarrow> if n < length s then Inr (JStr [s ! n]) else Inl IndexError
     | _ \<Rightarrow> Inl TypeError)"

fun json_true :: "json \<Rightarrow> bool" where
  "json_true JNull = False"
| "json_true (JBool b) = b"
| "json_true (JInt n) = (n \<noteq> 0)"
| "json_true (JStr s) = (s \<noteq> [])"
| "json_true (JList xs) = (xs \<noteq> [])"
| "json_true (JObj m) = (m \<noteq> [])"

text \<open>Iteration: the elements of a list, the characters of a text, the keys of an object.\<close>

definition json_elements :: "json \<Rightarrow> json list result" where
  "json_elements d =
    (case d of
       JList xs \<Rightarrow> Inr xs
     | JStr s \<Rightarrow> Inr (map (\<lambda>c. JStr [c]) s)
     | JObj m \<Rightarrow> Inr (map (\<lambda>(k, _). JStr k) m)
     | _ \<Rightarrow> Inl TypeError)"

definition json_list :: "string \<Rightarrow> json \<Rightarrow> json list result" where
  "json_list k d = bind_res (json_get_or k (JList []) d) json_elements"

section \<open>Fields of the models\<close>

definition json_text :: "json \<Rightarrow> string result" where
  "json_text d = (case d of JStr s \<Rightarrow> Inr s | _ \<Rightarrow> Inl ValueError)"

definition json_opt_text :: "json \<Rightarrow> string option result" where
  "json_opt_text d = (if \<not> json_true d then Inr None else bind_res (json_text d) (\<lambda>s. Inr (Some s)))"

definition parse_int :: "string \<Rightarrow> int result" where
  "parse_int s =
    (let t = (if take 1 s \<in> {''-'', ''+''} then drop 1 s else s) in
     if t = [] then Inl ValueError
     else case digits_value 0 t of None \<Rightarrow> Inl ValueError | Some n \<Rightarrow> Inr (if take 1 s = ''-'' then - n else n))"

definition json_int :: "json \<Rightarrow> int result" where
  "json_int d =
    (case d of JInt n \<Rightarrow> Inr n | JBool b \<Rightarrow> Inr (if b then 1 else 0) | JStr s \<Rightarrow> parse_int s | _ \<Rightarrow> Inl TypeError)"

text \<open>\<open>int(d[k]) if d.get(k) else None\<close>.\<close>

definition json_opt_int :: "string \<Rightarrow> json \<Rightarrow> int option result" where
  "json_opt_int k d =
    bind_res (json_get k d) (\<lambda>v. if \<not> json_true v then Inr None else bind_res (json_int v) (\<lambda>n. Inr (Some n)))"

definition json_dec :: "json \<Rightarrow> dec result" where
  "json_dec d = (case d of JStr s \<Rightarrow> parse_decimal s | JInt n \<Rightarrow> Inr (of_int n) | _ \<Rightarrow> Inl InvalidOperation)"

definition read_dec :: "dec \<Rightarrow> json \<Rightarrow> dec result" where
  "read_dec x d = (if d \<in> {JNull, JStr []} then Inr x else json_dec d)"

definition read_opt_dec :: "json \<Rightarrow> dec option result" where
  "read_opt_dec d =
    (if d \<in> {JNull, JStr [], JStr ''0''} then Inr None else bind_res (json_dec d) (\<lambda>x. Inr (Some x)))"

definition dec_field :: "string \<Rightarrow> dec \<Rightarrow> json \<Rightarrow> dec result" where
  "dec_field k x d = bind_res (json_get k d) (read_dec x)"

definition opt_dec_field :: "string \<Rightarrow> json \<Rightarrow> dec option result" where
  "opt_dec_field k d = bind_res (json_get k d) read_opt_dec"

definition text_field :: "string \<Rightarrow> json \<Rightarrow> string result" where
  "text_field k d = bind_res (json_get_or k (JStr []) d) json_text"

definition opt_text_field :: "string \<Rightarrow> json \<Rightarrow> string option result" where
  "opt_text_field k d = bind_res (json_get k d) json_opt_text"

definition symbol_field :: "json \<Rightarrow> string result" where
  "symbol_field d = bind_res (json_item ''symbol'' d) json_text"

text \<open>A list built by a loop that may raise.\<close>

fun map_res :: "('a \<Rightarrow> 'b result) \<Rightarrow> 'a list \<Rightarrow> 'b list result" where
  "map_res f [] = Inr []"
| "map_res f (x # xs) = bind_res (f x) (\<lambda>y. bind_res (map_res f xs) (\<lambda>ys. Inr (y # ys)))"

lemma map_res_Inr: "map_res f xs = Inr ys \<longleftrightarrow> list_all2 (\<lambda>x y. f x = Inr y) xs ys"
  by (induction xs arbitrary: ys) (auto simp: bind_res_eq_Inr list_all2_Cons1)

section \<open>Reading what was written\<close>

lemma json_get_obj [simp]: "json_get k (JObj m) = Inr (case map_of m k of None \<Rightarrow> JNull | Some v \<Rightarrow> v)"
  by (simp add: json_get_def)

lemma read_dec_text: "is_dec x \<Longrightarrow> read_dec d (JStr (str_dec x)) = Inr x"
proof -
  assume x: "is_dec x"
  have "str_dec x \<noteq> []" using parse_str_dec [OF x] by (auto simp: parse_decimal_def parse_number_def parse_unsigned_def)
  then show ?thesis by (simp add: read_dec_def json_dec_def parse_str_dec [OF x])
qed

end
