(* ===== verification/Runtime_Commands.thy ===== *)
theory Runtime_Commands
  imports Runtime_Loops Decimal_Text
begin

text \<open>
  Commands and the life cycle of the runtime (\<^verbatim>\<open>apps/bot/runtime/bot_runtime.py\<close>,
  \<^verbatim>\<open>packages/messaging/command_queue.py\<close>): the queue, the dispatch of a command, starting, stopping,
  reloading the configuration, cancelling orders and closing positions on command, boot and shutdown.

  A value of a command's payload is what the API sends: texts, numbers and flags.
\<close>

section \<open>Commands\<close>

datatype command_type =
  START_BOT | STOP_BOT | PAUSE_TRADING | RESUME_TRADING | RELOAD_CONFIG | CLOSE_POSITION | CANCEL_ORDER | SYNC_NOW

fun command_type_value :: "command_type \<Rightarrow> string" where
  "command_type_value START_BOT = ''START_BOT''"
| "command_type_value STOP_BOT = ''STOP_BOT''"
| "command_type_value PAUSE_TRADING = ''PAUSE_TRADING''"
| "command_type_value RESUME_TRADING = ''RESUME_TRADING''"
| "command_type_value RELOAD_CONFIG = ''RELOAD_CONFIG''"
| "command_type_value CLOSE_POSITION = ''CLOSE_POSITION''"
| "command_type_value CANCEL_ORDER = ''CANCEL_ORDER''"
| "command_type_value SYNC_NOW = ''SYNC_NOW''"

record command =
  cm_id :: string
  cm_type :: command_type
  cm_payload :: payload

text \<open>The queue is a Redis list: \<open>lpush\<close> at the left, \<open>brpop\<close> from the right.\<close>

definition queue_publish :: "'a \<Rightarrow> 'a list \<Rightarrow> 'a list" where
  "queue_publish c q = c # q"

definition queue_consume :: "'a list \<Rightarrow> 'a list \<times> 'a option" where
  "queue_consume q = (if q = [] then (q, None) else (butlast q, Some (last q)))"

section \<open>Values of a payload\<close>

fun py_true :: "pval \<Rightarrow> bool" where
  "py_true PNone = False"
| "py_true (PStr s) = (s \<noteq> [])"
| "py_true (PDec d) = (d \<noteq> 0)"
| "py_true (PInt n) = (n \<noteq> 0)"
| "py_true (PBool b) = b"
| "py_true (PStrs xs) = (xs \<noteq> [])"

text \<open>\<open>Decimal(str(v))\<close>.\<close>

fun decimal_of :: "pval \<Rightarrow> dec result" where
  "decimal_of (PInt n) = Inr (of_int n)"
| "decimal_of (PDec d) = Inr d"
| "decimal_of (PStr s) = parse_decimal s"
| "decimal_of _ = Inl InvalidOperation"

definition text_at :: "payload \<Rightarrow> string \<Rightarrow> string result" where
  "text_at d k = (case map_of d k of None \<Rightarrow> Inl (KeyError k) | Some (PStr s) \<Rightarrow> Inr s | Some _ \<Rightarrow> Inl TypeError)"

definition opt_text :: "payload \<Rightarrow> string \<Rightarrow> string option" where
  "opt_text d k = (case map_of d k of Some (PStr s) \<Rightarrow> Some s | _ \<Rightarrow> None)"

section \<open>Orders\<close>

definition upd_orders :: "((string \<times> order) list \<Rightarrow> (string \<times> order) list) \<Rightarrow> 'x runtime \<Rightarrow> 'x runtime" where
  "upd_orders f = on_service (upd_state (\<lambda>rs. rs\<lparr> rs_orders := f (rs_orders rs) \<rparr>))"

definition orders_of :: "'x runtime \<Rightarrow> (string \<times> order) list" where
  "orders_of rt = rs_orders (sv_state (rt_service rt))"

definition cancelable :: "order_status set" where
  "cancelable = {NEW, PARTIALLY_FILLED, UNKNOWN}"

definition cancel_status :: "order \<Rightarrow> order" where
  "cancel_status x = x\<lparr> or_status := CANCELLED \<rparr>"

definition persist_cancelled :: "'x bot_env \<Rightarrow> string option \<Rightarrow> string option \<Rightarrow> ('x runtime, unit) action" where
  "persist_cancelled env oid cid = try_except (bn_persist_cancelled env oid cid) (\<lambda>_. ret ())"

definition cancel_open_order :: "'x bot_env \<Rightarrow> string \<Rightarrow> ('x runtime, unit) action" where
  "cancel_open_order env k rt =
    (case map_of (orders_of rt) k of
       None \<Rightarrow> (rt, Inr ())
     | Some x \<Rightarrow>
         if or_source x \<noteq> BOT \<or> or_status x \<notin> cancelable then (rt, Inr ())
         else try_except
           (then_do (bn_cancel_order env (or_symbol x) (or_order_id x) (or_client_order_id x))
             (then_do (modify (upd_orders (map (\<lambda>(i, y). (i, if i = k then cancel_status y else y)))))
               (persist_cancelled env (or_order_id x) (or_client_order_id x))))
           (\<lambda>_. ret ()) rt)"

definition cancel_open_orders :: "'x bot_env \<Rightarrow> ('x runtime, unit) action" where
  "cancel_open_orders env =
    and_then (reads (\<lambda>rt. map fst (orders_of rt))) (for_each (cancel_open_order env))"

definition names_order :: "string option \<Rightarrow> string option \<Rightarrow> order \<Rightarrow> bool" where
  "names_order oid cid x \<longleftrightarrow>
    truthy oid \<and> or_order_id x = oid \<or> truthy cid \<and> or_client_order_id x = cid"

definition mark_runtime_order_cancelled :: "string option \<Rightarrow> string option \<Rightarrow> 'x runtime \<Rightarrow> 'x runtime" where
  "mark_runtime_order_cancelled oid cid =
    upd_orders (map (\<lambda>(k, x). (k, if names_order oid cid x then cancel_status x else x)))"

definition cancel_order_cmd :: "'x bot_env \<Rightarrow> payload \<Rightarrow> ('x runtime, unit) action" where
  "cancel_order_cmd env d =
    and_then (lift_res (text_at d ''symbol'')) (\<lambda>y.
      let oid = opt_text d ''order_id''; cid = opt_text d ''client_order_id'' in
      then_do (bn_cancel_order env y oid cid)
        (then_do (modify (mark_runtime_order_cancelled oid cid)) (persist_cancelled env oid cid)))"

section \<open>Positions\<close>

definition close_now :: "'x bot_env \<Rightarrow> string \<Rightarrow> market_ticker \<Rightarrow> dec \<Rightarrow> ('x runtime, unit) action" where
  "close_now env y t pct rt =
    and_then (in_service (close_position (bn_ports env (rt_cfg rt) (throw TypeError)) (rt_cfg rt) (bn_clocks env rt 0) y
        (tk_bid_price t) (tk_ask_price t) MANUAL_CLOSE pct))
      (\<lambda>closed. modify (\<lambda>rt1. if closed then mark_order_event rt1 else rt1)) rt"

definition close_if_quoted :: "'x bot_env \<Rightarrow> (dec result) \<Rightarrow> string \<Rightarrow> ('x runtime, unit) action" where
  "close_if_quoted env pct y rt =
    (case ticker_of (rt_collector rt) y of
       None \<Rightarrow> (rt, Inr ())
     | Some t \<Rightarrow> and_then (lift_res pct) (close_now env y t) rt)"

definition close_all_positions :: "'x bot_env \<Rightarrow> ('x runtime, unit) action" where
  "close_all_positions env rt =
    (if \<not> can_manage_positions (machine_of rt) then (rt, Inr ())
     else and_then (refresh_tickers env) (\<lambda>_.
       and_then (reads (\<lambda>rt1. held_symbols (rt_service rt1))) (for_each (close_if_quoted env (Inr 100)))) rt)"

definition close_position_cmd :: "'x bot_env \<Rightarrow> payload \<Rightarrow> ('x runtime, unit) action" where
  "close_position_cmd env d =
    and_then (lift_res (text_at d ''symbol'')) (\<lambda>y rt.
      if \<not> can_manage_positions (machine_of rt) then (rt, Inr ())
      else and_then (refresh_tickers env)
        (\<lambda>_. close_if_quoted env (decimal_of (payload_get d ''close_percent'' (PInt 100))) y) rt)"

section \<open>Start, stop, reload\<close>

definition start_trading :: "'x bot_env \<Rightarrow> ('x runtime, unit) action" where
  "start_trading env rt =
    (if bot_state_of rt \<noteq> STANDBY then (rt, Inr ())
     else then_do (move START_REQUESTED ''START_BOT'')
       (then_do (move SYNCING ''pre-start sync'')
       (then_do (run_reconciliation env)
       (then_do (move READY ''sync complete'') (move RUNNING ''start confirmed'')))) rt)"

definition request_shutdown :: "'x runtime \<Rightarrow> 'x runtime" where
  "request_shutdown rt = rt\<lparr> rt_shutdown := True \<rparr>"

definition stop_bot :: "'x bot_env \<Rightarrow> payload \<Rightarrow> ('x runtime, unit) action" where
  "stop_bot env d =
    then_do (if py_true (payload_get d ''cancel_open_orders'' (PBool True)) then cancel_open_orders env else ret ())
      (then_do (if py_true (payload_get d ''close_positions'' (PBool False)) then close_all_positions env else ret ())
        (modify request_shutdown))"

text \<open>\<open>_build_trading\<close> and \<open>_build_reconciler\<close>: new components around the state machine and the runtime state.\<close>

definition build_guards :: "app_config \<Rightarrow> bot_machine option \<Rightarrow> guard_set" where
  "build_guards cfg m =
    \<lparr> gs_state_machine = m, gs_data_quality = True, gs_pre_order_check = True, gs_kill_switch = Some new_kill_switch,
      gs_cooldown = Some new_cooldown_tracker, gs_funding_guard = True,
      gs_clock_guard = Some (new_clock_sync_guard (cfg_clock_sync cfg)) \<rparr>"

definition build_service :: "'x bot_env \<Rightarrow> app_config \<Rightarrow> 'x service \<Rightarrow> 'x service" where
  "build_service env cfg s =
    s\<lparr> sv_mode := cb_mode (cfg_bot cfg), sv_positions := new_pm_state, sv_entry := new_entry_engine,
       sv_guards := build_guards cfg (gs_state_machine (sv_guards s)),
       sv_has_protection := (cb_mode (cfg_bot cfg) = LIVE), sv_post_exit_mfe := [],
       sv_exec := bn_rebuild_exec env cfg (sv_exec s) \<rparr>"

definition build_trading :: "'x bot_env \<Rightarrow> app_config \<Rightarrow> 'x runtime \<Rightarrow> 'x runtime" where
  "build_trading env cfg rt =
    rt\<lparr> rt_cfg := cfg, rt_collector := new_collector (new_candle_store 500), rt_universe := [],
        rt_service := build_service env cfg (rt_service rt), rt_after_order_event := False \<rparr>"

definition reload_config :: "'x bot_env \<Rightarrow> ('x runtime, unit) action" where
  "reload_config env = and_then (bn_load_config env) (\<lambda>cfg. modify (build_trading env cfg))"

section \<open>Dispatch\<close>

definition move_from :: "bot_state \<Rightarrow> bot_state \<Rightarrow> ('x runtime, unit) action" where
  "move_from f t rt = (if bot_state_of rt = f then move t ''command'' rt else (rt, Inr ()))"

definition dispatch :: "'x bot_env \<Rightarrow> command \<Rightarrow> ('x runtime, unit) action" where
  "dispatch env c =
    (case cm_type c of
       START_BOT \<Rightarrow> start_trading env
     | STOP_BOT \<Rightarrow> stop_bot env (cm_payload c)
     | PAUSE_TRADING \<Rightarrow> move_from RUNNING PAUSED
     | RESUME_TRADING \<Rightarrow> move_from PAUSED RUNNING
     | RELOAD_CONFIG \<Rightarrow> reload_config env
     | SYNC_NOW \<Rightarrow> run_reconciliation env
     | CANCEL_ORDER \<Rightarrow> cancel_order_cmd env (cm_payload c)
     | CLOSE_POSITION \<Rightarrow> close_position_cmd env (cm_payload c))"

text \<open>The payload of \<open>COMMAND_RECEIVED\<close> nests the command's payload, here by a prefix of the keys.\<close>

definition received_data :: "command \<Rightarrow> payload" where
  "received_data c = (''id'', PStr (cm_id c)) # map (\<lambda>(k, v). (''payload.'' @ k, v)) (cm_payload c)"

definition command_failed :: "command \<Rightarrow> py_error \<Rightarrow> 'x runtime \<Rightarrow> 'x runtime" where
  "command_failed c e =
    emit_event EV_COMMAND_FAILED (command_type_value (cm_type c) @ '': '' @ err_text e) [(''id'', PStr (cm_id c))]"

definition handle_command :: "'x bot_env \<Rightarrow> command \<Rightarrow> ('x runtime, unit) action" where
  "handle_command env c =
    then_do (modify (emit_event EV_COMMAND_RECEIVED (command_type_value (cm_type c)) (received_data c)))
      (try_except (dispatch env c) (\<lambda>e. modify (command_failed c e)))"

section \<open>Boot and shutdown\<close>

definition restore_positions :: "'x bot_env \<Rightarrow> ('x runtime, unit) action" where
  "restore_positions env rt =
    (case bn_restore env of
       None \<Rightarrow> (rt, Inr ())
     | Some restore \<Rightarrow>
         if cb_mode (cfg_bot (rt_cfg rt)) \<noteq> LIVE then (rt, Inr ())
         else try_except (and_then restore (\<lambda>ps. modify (on_service (upd_state (\<lambda>rs.
             fold (\<lambda>p rs. if get_position rs (p_symbol p) = None then put_position (p_symbol p) p rs else rs) ps rs)))))
           (\<lambda>_. ret ()) rt)"

definition startup :: "'x bot_env \<Rightarrow> ('x runtime, unit) action" where
  "startup env =
    then_do (modify (\<lambda>rt. build_trading env (rt_cfg rt) rt))
      (and_then (bn_acquire_lock env) (\<lambda>acquired.
        if \<not> acquired then throw RuntimeLockError
        else then_do (restore_positions env)
          (then_do (refresh_universe env)
          (then_do (\<lambda>rt. (if rcn_run_on_startup (cfg_reconciliation (rt_cfg rt)) then run_reconciliation env else ret ()) rt)
            (move STANDBY ''boot complete'')))))"

definition shutdown :: "'x bot_env \<Rightarrow> ('x runtime, unit) action" where
  "shutdown env =
    then_do (\<lambda>rt. (if is_terminal (machine_of rt) then ret ()
        else try_except (move STOPPING ''shutdown'') (\<lambda>_. modify (force_to STOPPING ''shutdown''))) rt)
      (then_do (bn_release_lock env) (modify (force_to STOPPED ''shutdown complete'')))"

end
