(* ===== verification/Trade_Store.thy ===== *)
theory Trade_Store
  imports Trading_Types Decimal_Text
begin

text \<open>
  What is persisted (\<^verbatim>\<open>packages/storage/trade_logger.py\<close> and the tables of
  \<^verbatim>\<open>packages/storage/models.py\<close>): the rows of orders, positions, fills, trades, signals, events and
  logs, the operations of \<open>TradeLogger\<close> that write them, and the two that read them back, the restore of
  the open positions after a restart and the closing of stale snapshots. A table is the list of its
  rows in the order of their ids; money columns are text. A call is one transaction: it happens as a
  whole or, when the database raises, not at all. \<open>now\<close> is the clock, \<open>uid\<close> a fresh trade id. The
  lengths of the columns are not checked here except where the code truncates.
\<close>

section \<open>Values of the enumerations\<close>

fun bot_mode_value :: "bot_mode \<Rightarrow> string" where
  "bot_mode_value PAPER = ''PAPER''"
| "bot_mode_value LIVE = ''LIVE''"

fun side_value :: "side \<Rightarrow> string" where
  "side_value BUY = ''Buy''"
| "side_value SELL = ''Sell''"

fun order_type_value :: "order_type \<Rightarrow> string" where
  "order_type_value LIMIT = ''LIMIT''"
| "order_type_value AGGRESSIVE_LIMIT = ''AGGRESSIVE_LIMIT''"
| "order_type_value MARKET = ''MARKET''"

fun order_status_value :: "order_status \<Rightarrow> string" where
  "order_status_value NEW = ''NEW''"
| "order_status_value PARTIALLY_FILLED = ''PARTIALLY_FILLED''"
| "order_status_value FILLED = ''FILLED''"
| "order_status_value CANCELLED = ''CANCELLED''"
| "order_status_value REJECTED = ''REJECTED''"
| "order_status_value EXPIRED = ''EXPIRED''"
| "order_status_value UNKNOWN = ''UNKNOWN''"

fun position_status_value :: "position_status \<Rightarrow> string" where
  "position_status_value PENDING = ''PENDING''"
| "position_status_value ACTIVE = ''ACTIVE''"
| "position_status_value CLOSING = ''CLOSING''"
| "position_status_value CLOSED = ''CLOSED''"

fun position_source_value :: "position_source \<Rightarrow> string" where
  "position_source_value BOT = ''BOT''"
| "position_source_value EXTERNAL = ''EXTERNAL''"

text \<open>\<open>E(text)\<close> for an enumeration \<open>E\<close>: the member with that value, or \<open>ValueError\<close>.\<close>

definition enum_of :: "'a list \<Rightarrow> ('a \<Rightarrow> string) \<Rightarrow> string \<Rightarrow> 'a option" where
  "enum_of members val s = first_match (\<lambda>x. val x = s) members"

definition position_side_of :: "string \<Rightarrow> position_side option" where
  "position_side_of = enum_of [LONG, SHORT] position_side_value"

definition position_status_of :: "string \<Rightarrow> position_status option" where
  "position_status_of = enum_of [PENDING, ACTIVE, CLOSING, CLOSED] position_status_value"

definition entry_mode_of :: "string \<Rightarrow> entry_mode option" where
  "entry_mode_of = enum_of [PRE_BREAKOUT_SCOUT, BREAKOUT_CONFIRM, RETEST_CONFIRM] entry_mode_value"

section \<open>Tables\<close>

record bot_event_row =
  ew_ts :: int
  ew_type :: string
  ew_symbol :: "string option"
  ew_message :: string
  ew_data :: payload
  ew_severity :: string

record signal_row =
  gw_ts :: int
  gw_symbol :: string
  gw_direction :: string
  gw_strategy :: string
  gw_score :: string
  gw_reason :: string
  gw_entry_mode :: "string option"

record order_row =
  ow_symbol :: string
  ow_side :: string
  ow_order_type :: string
  ow_qty :: string
  ow_price :: "string option"
  ow_status :: string
  ow_client_order_id :: "string option"
  ow_order_id :: "string option"
  ow_reduce_only :: bool
  ow_entry_mode :: "string option"
  ow_source :: "string option"
  ow_mode :: "string option"
  ow_filled_qty :: "string option"
  ow_avg_fill_price :: "string option"
  ow_created_at :: "int option"
  ow_updated_at :: "int option"

record fill_row =
  fw_ts :: int
  fw_symbol :: string
  fw_order_id :: "string option"
  fw_side :: string
  fw_price :: string
  fw_qty :: string
  fw_fee :: string
  fw_realized_pnl :: string
  fw_mode :: "string option"
  fw_slippage :: "string option"

record position_row =
  pw_ts :: int
  pw_symbol :: string
  pw_side :: string
  pw_status :: string
  pw_source :: string
  pw_qty :: string
  pw_avg_entry_price :: string
  pw_manual_added_qty :: string
  pw_stop_loss_price :: "string option"
  pw_take_profit_price :: "string option"
  pw_entry_mode :: "string option"
  pw_realized_pnl :: string
  pw_exit_reason :: "string option"
  pw_closed_at :: "int option"
  pw_mode :: "string option"
  pw_leverage :: "string option"
  pw_mark_price :: "string option"
  pw_unrealized_pnl :: "string option"
  pw_strategy_id :: "string option"
  pw_protection_status :: "string option"
  pw_opened_at :: "int option"

record trade_row =
  tw_ts :: int
  tw_trade_id :: "string option"
  tw_symbol :: string
  tw_side :: string
  tw_qty :: string
  tw_entry_price :: string
  tw_exit_price :: "string option"
  tw_realized_pnl :: string
  tw_exit_reason :: "string option"
  tw_strategy_id :: "string option"
  tw_entry_mode :: "string option"
  tw_mode :: "string option"
  tw_leverage :: "string option"
  tw_fees :: string
  tw_funding_fees :: string
  tw_gross_pnl :: "string option"
  tw_net_pnl :: "string option"
  tw_r_multiple :: "string option"
  tw_opened_at :: "int option"
  tw_closed_at :: "int option"

record protection_row =
  rw_ts :: int
  rw_symbol :: string
  rw_event :: string
  rw_take_profit :: "string option"
  rw_stop_loss :: "string option"
  rw_success :: bool

record command_row =
  cw_ts :: int
  cw_command_id :: string
  cw_type :: string
  cw_payload :: payload
  cw_result :: string

record daily_pnl_row =
  dw_day :: string
  dw_realized :: string
  dw_unrealized :: string
  dw_fees :: string
  dw_net :: string

record paper_snapshot_row =
  aw_ts :: int
  aw_equity :: string
  aw_balance :: string
  aw_unrealized_pnl :: string

record database =
  db_events :: "bot_event_row list"
  db_signals :: "signal_row list"
  db_orders :: "order_row list"
  db_fills :: "fill_row list"
  db_positions :: "position_row list"
  db_trades :: "trade_row list"
  db_protections :: "protection_row list"
  db_commands :: "command_row list"
  db_reconciliations :: "(int \<times> payload) list"
  db_manual :: "(int \<times> string \<times> string \<times> payload) list"
  db_daily :: "daily_pnl_row list"
  db_paper :: "paper_snapshot_row list"

definition empty_database :: database where
  "empty_database =
    \<lparr> db_events = [], db_signals = [], db_orders = [], db_fills = [], db_positions = [], db_trades = [],
      db_protections = [], db_commands = [], db_reconciliations = [], db_manual = [], db_daily = [], db_paper = [] \<rparr>"

section \<open>Helpers\<close>

definition max_text :: "nat \<Rightarrow> string option \<Rightarrow> string option" where
  "max_text limit = map_option (take limit)"

definition text_opt :: "dec option \<Rightarrow> string option" where
  "text_opt = map_option str_dec"

definition dec_or_none :: "string option \<Rightarrow> dec option" where
  "dec_or_none v = (case v of None \<Rightarrow> None | Some s \<Rightarrow> (case parse_decimal s of Inl _ \<Rightarrow> None | Inr d \<Rightarrow> Some d))"

definition qty_is_positive :: "string \<Rightarrow> bool" where
  "qty_is_positive s = (case parse_decimal s of Inl _ \<Rightarrow> True | Inr d \<Rightarrow> 0 < d)"

definition matches_live_mode :: "string option \<Rightarrow> string option \<Rightarrow> bool" where
  "matches_live_mode v mode =
    (if mode = Some ''LIVE'' then v \<in> {Some ''LIVE'', None} else if mode = None then True else v = mode)"

definition open_statuses :: "string set" where
  "open_statuses = {''PENDING'', ''ACTIVE'', ''CLOSING''}"

definition pending_statuses :: "string set" where
  "pending_statuses = {''NEW'', ''PARTIALLY_FILLED''}"

section \<open>Rows that are only added\<close>

definition log_event :: "int \<Rightarrow> bot_event \<Rightarrow> database \<Rightarrow> database" where
  "log_event now e db =
    (let severity = event_severity (event_type_value (be_type e)) None in
     if \<not> should_persist_event (event_type_value (be_type e)) (Some severity) then db
     else db\<lparr> db_events := db_events db @ [\<lparr> ew_ts = now, ew_type = event_type_value (be_type e),
       ew_symbol = be_symbol e, ew_message = be_message e, ew_data = be_data e, ew_severity = severity \<rparr>] \<rparr>)"

definition log_signal :: "int \<Rightarrow> signal \<Rightarrow> string option \<Rightarrow> database \<Rightarrow> database" where
  "log_signal now sg em db =
    db\<lparr> db_signals := db_signals db @ [\<lparr> gw_ts = now, gw_symbol = sg_symbol sg,
      gw_direction = direction_value (sg_direction sg), gw_strategy = sg_strategy sg, gw_score = str_dec (sg_score sg),
      gw_reason = sg_reason sg, gw_entry_mode = em \<rparr>] \<rparr>"

definition log_fill :: "int \<Rightarrow> fill \<Rightarrow> string \<Rightarrow> string option \<Rightarrow> string option \<Rightarrow> database \<Rightarrow> database" where
  "log_fill now f realized mode slippage db =
    db\<lparr> db_fills := db_fills db @ [\<lparr> fw_ts = now, fw_symbol = fi_symbol f, fw_order_id = Some (fi_order_id f),
      fw_side = side_value (fi_side f), fw_price = str_dec (fi_price f), fw_qty = str_dec (fi_qty f),
      fw_fee = str_dec (fi_fee f), fw_realized_pnl = realized, fw_mode = mode, fw_slippage = slippage \<rparr>] \<rparr>"

definition log_trade :: "int \<Rightarrow> string \<Rightarrow> trade_log \<Rightarrow> database \<Rightarrow> database" where
  "log_trade now uid t db =
    db\<lparr> db_trades := db_trades db @ [\<lparr> tw_ts = now, tw_trade_id = Some uid, tw_symbol = tl_symbol t,
      tw_side = position_side_value (tl_side t), tw_qty = str_dec (tl_qty t), tw_entry_price = str_dec (tl_entry_price t),
      tw_exit_price = Some (str_dec (tl_exit_price t)), tw_realized_pnl = str_dec (tl_realized_pnl t),
      tw_exit_reason = map_option exit_reason_value (tl_exit_reason t), tw_strategy_id = max_text 64 (tl_strategy_id t),
      tw_entry_mode = map_option entry_mode_value (tl_entry_mode t), tw_mode = Some (bot_mode_value (tl_mode t)),
      tw_leverage = Some (str_dec (tl_leverage t)), tw_fees = str_dec (tl_fees t), tw_funding_fees = ''0'',
      tw_gross_pnl = Some (str_dec (tl_gross_pnl t)), tw_net_pnl = Some (str_dec (tl_net_pnl t)),
      tw_r_multiple = max_text 16 (text_opt (tl_r_multiple t)), tw_opened_at = Some (tl_opened_at t),
      tw_closed_at = tl_closed_at t \<rparr>] \<rparr>"

definition log_command :: "int \<Rightarrow> string \<Rightarrow> string \<Rightarrow> payload \<Rightarrow> database \<Rightarrow> database" where
  "log_command now cid ty payload db =
    db\<lparr> db_commands := db_commands db @ [\<lparr> cw_ts = now, cw_command_id = cid, cw_type = ty, cw_payload = payload,
      cw_result = ''received'' \<rparr>] \<rparr>"

definition log_protection :: "int \<Rightarrow> string \<Rightarrow> string \<Rightarrow> dec option \<Rightarrow> dec option \<Rightarrow> bool \<Rightarrow> database \<Rightarrow> database" where
  "log_protection now y e tp sl ok db =
    db\<lparr> db_protections := db_protections db @ [\<lparr> rw_ts = now, rw_symbol = y, rw_event = e, rw_take_profit = text_opt tp,
      rw_stop_loss = text_opt sl, rw_success = ok \<rparr>] \<rparr>"

definition log_reconciliation :: "int \<Rightarrow> payload \<Rightarrow> database \<Rightarrow> database" where
  "log_reconciliation now summary db = db\<lparr> db_reconciliations := db_reconciliations db @ [(now, summary)] \<rparr>"

definition log_manual_intervention :: "int \<Rightarrow> string \<Rightarrow> string \<Rightarrow> payload \<Rightarrow> database \<Rightarrow> database" where
  "log_manual_intervention now y kind d db = db\<lparr> db_manual := db_manual db @ [(now, y, kind, d)] \<rparr>"

definition log_paper_snapshot :: "int \<Rightarrow> string \<Rightarrow> string \<Rightarrow> string \<Rightarrow> database \<Rightarrow> database" where
  "log_paper_snapshot now equity balance upnl db =
    db\<lparr> db_paper := db_paper db @ [\<lparr> aw_ts = now, aw_equity = equity, aw_balance = balance, aw_unrealized_pnl = upnl \<rparr>] \<rparr>"

definition log_daily_pnl :: "daily_pnl_row \<Rightarrow> database \<Rightarrow> database" where
  "log_daily_pnl r db =
    (if \<exists>x\<in>set (db_daily db). dw_day x = dw_day r
     then db\<lparr> db_daily := map (\<lambda>x. if dw_day x = dw_day r then r else x) (db_daily db) \<rparr>
     else db\<lparr> db_daily := db_daily db @ [r] \<rparr>)"

section \<open>Orders\<close>

definition row_of_order :: "int \<Rightarrow> int option \<Rightarrow> order \<Rightarrow> string option \<Rightarrow> order_row" where
  "row_of_order now created x mode =
    \<lparr> ow_symbol = or_symbol x, ow_side = side_value (or_side x), ow_order_type = order_type_value (or_type x),
      ow_qty = str_dec (or_qty x), ow_price = text_opt (or_price x), ow_status = order_status_value (or_status x),
      ow_client_order_id = or_client_order_id x, ow_order_id = or_order_id x, ow_reduce_only = or_reduce_only x,
      ow_entry_mode = map_option entry_mode_value (or_entry_mode x),
      ow_source = Some (position_source_value (or_source x)), ow_mode = mode,
      ow_filled_qty = Some (str_dec (or_filled_qty x)), ow_avg_fill_price = text_opt (or_avg_fill_price x),
      ow_created_at = created, ow_updated_at = Some now \<rparr>"

definition row_names :: "string option \<Rightarrow> string option \<Rightarrow> order_row \<Rightarrow> bool" where
  "row_names oid cid r \<longleftrightarrow>
    truthy oid \<and> ow_order_id r = oid \<or> truthy cid \<and> ow_client_order_id r = cid"

text \<open>\<open>_find_order_row\<close> and the write to the row found: the newest row that matches.\<close>

fun upd_last :: "('a \<Rightarrow> bool) \<Rightarrow> ('a \<Rightarrow> 'a) \<Rightarrow> 'a list \<Rightarrow> 'a list" where
  "upd_last p f [] = []"
| "upd_last p f (x # xs) = (if \<not> (\<exists>y\<in>set xs. p y) \<and> p x then f x # xs else x # upd_last p f xs)"

definition find_order_row :: "string option \<Rightarrow> string option \<Rightarrow> database \<Rightarrow> order_row option" where
  "find_order_row oid cid db = first_match (row_names oid cid) (rev (db_orders db))"

definition log_order :: "int \<Rightarrow> int option \<Rightarrow> order \<Rightarrow> string option \<Rightarrow> database \<Rightarrow> database" where
  "log_order now created x mode db =
    (let row = row_of_order now created x mode in
     case find_order_row (or_order_id x) (or_client_order_id x) db of
       None \<Rightarrow> db\<lparr> db_orders := db_orders db @ [row] \<rparr>
     | Some _ \<Rightarrow> db\<lparr> db_orders :=
         upd_last (row_names (or_order_id x) (or_client_order_id x)) (\<lambda>_. row) (db_orders db) \<rparr>)"

definition update_order_status ::
  "int \<Rightarrow> string option \<Rightarrow> string option \<Rightarrow> string \<Rightarrow> string option \<Rightarrow> string option \<Rightarrow> database \<Rightarrow> database \<times> bool" where
  "update_order_status now oid cid status filled avg db =
    (case find_order_row oid cid db of
       None \<Rightarrow> (db, False)
     | Some _ \<Rightarrow> (db\<lparr> db_orders := upd_last (row_names oid cid) (\<lambda>r. r\<lparr> ow_status := status,
           ow_filled_qty := (case filled of None \<Rightarrow> ow_filled_qty r | Some _ \<Rightarrow> filled),
           ow_avg_fill_price := (case avg of None \<Rightarrow> ow_avg_fill_price r | Some _ \<Rightarrow> avg),
           ow_updated_at := Some now \<rparr>) (db_orders db) \<rparr>, True))"

section \<open>Positions\<close>

definition row_of_position ::
  "int \<Rightarrow> position \<Rightarrow> string option \<Rightarrow> string option \<Rightarrow> string option \<Rightarrow> string option \<Rightarrow> position_row" where
  "row_of_position now p mode strategy mark protection =
    \<lparr> pw_ts = now, pw_symbol = p_symbol p, pw_side = position_side_value (p_side p),
      pw_status = position_status_value (p_status p), pw_source = position_source_value (p_source p),
      pw_qty = str_dec (p_qty p), pw_avg_entry_price = str_dec (p_avg_entry_price p),
      pw_manual_added_qty = str_dec (p_manual_added_qty p), pw_stop_loss_price = text_opt (p_stop_loss_price p),
      pw_take_profit_price = text_opt (p_take_profit_price p),
      pw_entry_mode = map_option entry_mode_value (p_entry_mode p), pw_realized_pnl = str_dec (p_realized_pnl p),
      pw_exit_reason = map_option exit_reason_value (p_exit_reason p), pw_closed_at = p_closed_at p, pw_mode = mode,
      pw_leverage = Some (str_dec (p_leverage p)), pw_mark_price = mark,
      pw_unrealized_pnl = Some (str_dec (p_unrealized_pnl p)),
      pw_strategy_id = max_text 64 (if truthy strategy then strategy
        else if p_strategy_id p = [] then None else Some (p_strategy_id p)),
      pw_protection_status = protection, pw_opened_at = Some (p_opened_at p) \<rparr>"

text \<open>The open rows of the position that closed.\<close>

definition superseded :: "position \<Rightarrow> string option \<Rightarrow> position_row \<Rightarrow> bool" where
  "superseded p mode r \<longleftrightarrow>
    pw_symbol r = p_symbol p \<and> pw_source r = position_source_value (p_source p) \<and> pw_status r \<in> open_statuses \<and>
    (mode \<noteq> None \<longrightarrow> pw_mode r = mode) \<and> pw_opened_at r = Some (p_opened_at p)"

definition close_row :: "position \<Rightarrow> position_row \<Rightarrow> position_row" where
  "close_row p r = r\<lparr> pw_status := ''CLOSED'', pw_qty := ''0'', pw_realized_pnl := str_dec (p_realized_pnl p),
    pw_exit_reason := map_option exit_reason_value (p_exit_reason p), pw_closed_at := p_closed_at p \<rparr>"

text \<open>The reduce-only orders that were waiting to close it.\<close>

definition obsolete_order :: "position \<Rightarrow> string option \<Rightarrow> order_row \<Rightarrow> bool" where
  "obsolete_order p mode r \<longleftrightarrow>
    ow_symbol r = p_symbol p \<and> ow_reduce_only r \<and> ow_status r \<in> pending_statuses \<and>
    (mode \<noteq> None \<longrightarrow> ow_mode r = mode) \<and>
    (if p_source p = BOT then ow_source r \<in> {Some ''BOT'', None}
     else ow_source r = Some (position_source_value (p_source p)))"

definition cancel_row :: "int \<Rightarrow> order_row \<Rightarrow> order_row" where
  "cancel_row now r = r\<lparr> ow_status := ''CANCELLED'', ow_updated_at := Some now \<rparr>"

definition log_position ::
  "int \<Rightarrow> position \<Rightarrow> string option \<Rightarrow> string option \<Rightarrow> string option \<Rightarrow> string option \<Rightarrow> database \<Rightarrow> database" where
  "log_position now p mode strategy mark protection db =
    (let row = row_of_position now p mode strategy mark protection;
         db1 = (if p_status p \<noteq> CLOSED then db
           else db\<lparr> db_positions := map (\<lambda>r. if superseded p mode r then close_row p r else r) (db_positions db),
                    db_orders := map (\<lambda>r. if obsolete_order p mode r then cancel_row now r else r) (db_orders db) \<rparr>)
     in db1\<lparr> db_positions := db_positions db1 @ [row] \<rparr>)"

section \<open>Restoring\<close>

definition restorable :: "string option \<Rightarrow> position_row \<Rightarrow> bool" where
  "restorable mode r \<longleftrightarrow> pw_status r \<in> open_statuses \<and> pw_source r = ''BOT'' \<and> matches_live_mode (pw_mode r) mode"

text \<open>The largest quantity among the open rows of a symbol; \<open>rows\<close> is newest first.\<close>

definition initial_quantities :: "string option \<Rightarrow> position_row list \<Rightarrow> string \<rightharpoonup> dec" where
  "initial_quantities mode rows =
    fold (\<lambda>r m. if \<not> restorable mode r then m
      else case dec_or_none (Some (pw_qty r)) of
        None \<Rightarrow> m
      | Some q \<Rightarrow> if q \<le> 0 then m
          else m(pw_symbol r \<mapsto> max q (case m (pw_symbol r) of None \<Rightarrow> 0 | Some x \<Rightarrow> x))) rows Map.empty"

definition restored_position :: "(string \<rightharpoonup> dec) \<Rightarrow> position_row \<Rightarrow> position option" where
  "restored_position initial r =
    (case (dec_or_none (Some (pw_qty r)), dec_or_none (Some (pw_avg_entry_price r))) of
       (Some q, Some avg) \<Rightarrow>
         let sl = dec_or_none (pw_stop_loss_price r) in
         (case (position_side_of (pw_side r), position_status_of (pw_status r),
                case pw_entry_mode r of None \<Rightarrow> Some None
                | Some em \<Rightarrow> if em = [] then Some None else map_option Some (entry_mode_of em)) of
            (Some sd, Some st, Some em) \<Rightarrow>
              Some ((new_position (pw_symbol r) sd q avg
                  (case pw_opened_at r of None \<Rightarrow> pw_ts r | Some t \<Rightarrow> t))
                \<lparr> p_status := st, p_source := BOT, p_manual_added_qty := or_dec (dec_or_none (Some (pw_manual_added_qty r))) 0,
                  p_leverage := or_dec (dec_or_none (pw_leverage r)) 1, p_stop_loss_price := sl,
                  p_take_profit_price := dec_or_none (pw_take_profit_price r),
                  p_initial_risk_per_unit := map_option (\<lambda>x. dabs (dsub avg x)) sl,
                  p_initial_qty := Some (case initial (pw_symbol r) of None \<Rightarrow> q | Some x \<Rightarrow> x), p_entry_mode := em,
                  p_realized_pnl := or_dec (dec_or_none (Some (pw_realized_pnl r))) 0,
                  p_unrealized_pnl := or_dec (dec_or_none (pw_unrealized_pnl r)) 0,
                  p_strategy_id := (case pw_strategy_id r of None \<Rightarrow> [] | Some s \<Rightarrow> s) \<rparr>)
          | _ \<Rightarrow> None)
     | _ \<Rightarrow> None)"

text \<open>The loop over the rows, newest first: the first row of each symbol decides.\<close>

fun restore_rows :: "string option \<Rightarrow> (string \<rightharpoonup> dec) \<Rightarrow> string set \<Rightarrow> position_row list \<Rightarrow> position list" where
  "restore_rows mode initial seen [] = []"
| "restore_rows mode initial seen (r # rs) =
    (if pw_symbol r \<in> seen then restore_rows mode initial seen rs
     else let rest = restore_rows mode initial (insert (pw_symbol r) seen) rs in
       if \<not> restorable mode r \<or> \<not> qty_is_positive (pw_qty r) then rest
       else case restored_position initial r of None \<Rightarrow> rest | Some p \<Rightarrow> p # rest)"

definition restore_open_bot_positions :: "string option \<Rightarrow> database \<Rightarrow> position list" where
  "restore_open_bot_positions mode db =
    (let rows = rev (db_positions db) in restore_rows mode (initial_quantities mode rows) {} rows)"

section \<open>Stale snapshots\<close>

fun stale_symbols :: "string set \<Rightarrow> string option \<Rightarrow> string set \<Rightarrow> position_row list \<Rightarrow> string list" where
  "stale_symbols active mode seen [] = []"
| "stale_symbols active mode seen (r # rs) =
    (if pw_symbol r \<in> seen then stale_symbols active mode seen rs
     else let rest = stale_symbols active mode (insert (pw_symbol r) seen) rs in
       if pw_symbol r \<in> active \<or> pw_status r \<notin> open_statuses \<or> \<not> matches_live_mode (pw_mode r) mode \<or>
          \<not> qty_is_positive (pw_qty r) then rest
       else pw_symbol r # rest)"

definition reconciled_flat :: "int \<Rightarrow> position_row \<Rightarrow> position_row" where
  "reconciled_flat now r = r\<lparr> pw_status := ''CLOSED'', pw_qty := ''0'', pw_exit_reason := Some ''RECONCILED_FLAT'',
    pw_closed_at := Some now \<rparr>"

definition close_stale_open_position_snapshots ::
  "int \<Rightarrow> string set \<Rightarrow> string option \<Rightarrow> database \<Rightarrow> database \<times> string list" where
  "close_stale_open_position_snapshots now active mode db =
    (let ys = stale_symbols active mode {} (rev (db_positions db)) in
     if ys = [] then (db, [])
     else (db\<lparr> db_positions := map (\<lambda>r. if pw_symbol r \<in> set ys \<and> pw_status r \<in> open_statuses \<and>
                 matches_live_mode (pw_mode r) mode then reconciled_flat now r else r) (db_positions db),
               db_orders := map (\<lambda>r. if ow_symbol r \<in> set ys \<and> ow_reduce_only r \<and> ow_status r \<in> pending_statuses \<and>
                 matches_live_mode (ow_mode r) mode then cancel_row now r else r) (db_orders db) \<rparr>, ys))"

section \<open>The log entries of the services\<close>

definition persist :: "int \<Rightarrow> string \<Rightarrow> effect \<Rightarrow> database \<Rightarrow> database" where
  "persist now uid e =
    (case e of
       Publish ev \<Rightarrow> log_event now ev
     | LogSignal sg em \<Rightarrow> log_signal now sg (Some (entry_mode_value em))
     | LogFill f realized mode \<Rightarrow>
         log_fill now f (case realized of None \<Rightarrow> ''0'' | Some x \<Rightarrow> str_dec x) (Some (bot_mode_value mode)) None
     | LogPosition p mode strategy protection \<Rightarrow>
         log_position now p (Some (bot_mode_value mode)) strategy None protection
     | LogTrade t \<Rightarrow> log_trade now uid t
     | LogOrder x \<Rightarrow> log_order now (Some now) x (Some ''LIVE'')
     | LogProtection y ev tp sl ok \<Rightarrow> log_protection now y ev tp sl ok
     | LogManualIntervention y kind d \<Rightarrow> log_manual_intervention now y kind d
     | LogReconciliation d \<Rightarrow> log_reconciliation now d)"

text \<open>
  What the database guarantees: a restart restores the open positions as they were last logged, a
  reconciled or closed position is not restored, and one order has one row.
\<close>

section \<open>Texts and values\<close>

lemma is_dec_text [simp]: "is_dec d \<Longrightarrow> parse_decimal (str_dec d) = Inr d"
  by (rule parse_str_dec)

lemma dec_or_none_text [simp]:
  "is_dec d \<Longrightarrow> dec_or_none (Some (str_dec d)) = Some d"
  "pred_option is_dec x \<Longrightarrow> dec_or_none (text_opt x) = x"
  by (simp add: dec_or_none_def) (cases x; simp add: dec_or_none_def text_opt_def)

lemma side_read_back [simp]: "position_side_of (position_side_value sd) = Some sd"
  by (cases sd) (simp_all add: position_side_of_def enum_of_def)

lemma status_read_back [simp]: "position_status_of (position_status_value st) = Some st"
  by (cases st) (simp_all add: position_status_of_def enum_of_def)

lemma entry_mode_read_back [simp]: "entry_mode_of (entry_mode_value em) = Some em"
  by (cases em) (simp_all add: entry_mode_of_def enum_of_def)

lemma entry_mode_value_not_empty [simp]: "entry_mode_value em \<noteq> []"
  by (cases em) simp_all

lemma open_statuses_value [simp]: "position_status_value st \<in> open_statuses \<longleftrightarrow> st \<noteq> CLOSED"
  by (cases st) (simp_all add: open_statuses_def)

lemma source_value_bot [simp]: "position_source_value s = ''BOT'' \<longleftrightarrow> s = BOT"
  by (cases s) simp_all

lemma or_dec_same [simp]: "or_dec (Some d) 0 = d" "d \<noteq> 0 \<Longrightarrow> or_dec (Some d) x = d"
  by (simp_all add: or_dec_def)

section \<open>The restored rows\<close>

definition latest :: "string \<Rightarrow> position_row list \<Rightarrow> position_row option" where
  "latest y = first_match (\<lambda>r. pw_symbol r = y)"

lemma latest_simps [simp]:
  "latest y [] = None" "latest y (r # rs) = (if pw_symbol r = y then Some r else latest y rs)"
  by (simp_all add: latest_def)

lemma latest_symbol: "latest y rs = Some r \<Longrightarrow> pw_symbol r = y \<and> r \<in> set rs"
  unfolding latest_def using first_match_Some by fastforce

lemma restored_symbol: "restored_position initial r = Some p \<Longrightarrow> p_symbol p = pw_symbol r"
  by (auto simp: restored_position_def new_position_def Let_def split: option.splits)

lemma restored_iff:
  "p \<in> set (restore_rows mode initial seen rs) \<longleftrightarrow>
    p_symbol p \<notin> seen \<and> (\<exists>r. latest (p_symbol p) rs = Some r \<and> restorable mode r \<and> qty_is_positive (pw_qty r) \<and>
      restored_position initial r = Some p)"
proof (induction rs arbitrary: seen)
  case Nil
  show ?case by simp
next
  case (Cons r rs)
  show ?case
  proof (cases "pw_symbol r = p_symbol p")
    case True
    then have "p \<notin> set (restore_rows mode initial (insert (pw_symbol r) seen) rs)" by (simp add: Cons.IH)
    moreover have "pw_symbol r \<in> seen \<Longrightarrow> p \<notin> set (restore_rows mode initial seen rs)"
      using True by (simp add: Cons.IH)
    ultimately show ?thesis using True by (auto simp: Let_def split: option.splits)
  next
    case False
    then have "restored_position initial r \<noteq> Some p" using restored_symbol by metis
    then show ?thesis using False by (auto simp: Cons.IH Let_def split: option.splits)
  qed
qed

lemma restored_distinct: "distinct (map p_symbol (restore_rows mode initial seen rs))"
proof (induction rs arbitrary: seen)
  case (Cons r rs)
  have "p_symbol p \<notin> p_symbol ` set (restore_rows mode initial (insert (pw_symbol r) seen) rs)"
    if "restored_position initial r = Some p" for p
    using restored_symbol [OF that] by (auto simp: restored_iff)
  then show ?case using Cons.IH by (auto simp: Let_def split: option.splits)
qed simp

lemma restored_at:
  assumes "latest y rs = Some r" "restorable mode r" "qty_is_positive (pw_qty r)" "restored_position initial r = Some p"
  shows "filter (\<lambda>x. p_symbol x = y) (restore_rows mode initial {} rs) = [p]"
proof -
  let ?ps = "restore_rows mode initial {} rs"
  have sym: "p_symbol p = y" using restored_symbol [OF assms(4)] latest_symbol [OF assms(1)] by simp
  have set: "set (filter (\<lambda>x. p_symbol x = y) ?ps) = {p}"
    using assms by (auto simp: restored_iff sym)
  have "distinct (filter (\<lambda>x. p_symbol x = y) ?ps)"
    using restored_distinct by (metis distinct_filter distinct_map)
  with set have "length (filter (\<lambda>x. p_symbol x = y) ?ps) = 1"
    by (metis distinct_card is_singletonI is_singleton_altdef)
  then obtain q where "filter (\<lambda>x. p_symbol x = y) ?ps = [q]" by (auto simp: length_Suc_conv)
  then show ?thesis using set by simp
qed

section \<open>A restart\<close>

text \<open>What a restored position has in common with the one that was logged.\<close>

definition survives :: "position \<Rightarrow> position \<Rightarrow> bool" where
  "survives p q \<longleftrightarrow>
    p_symbol q = p_symbol p \<and> p_side q = p_side p \<and> p_status q = p_status p \<and> p_source q = p_source p \<and>
    p_qty q = p_qty p \<and> p_avg_entry_price q = p_avg_entry_price p \<and> p_manual_added_qty q = p_manual_added_qty p \<and>
    p_leverage q = p_leverage p \<and> p_stop_loss_price q = p_stop_loss_price p \<and>
    p_take_profit_price q = p_take_profit_price p \<and> p_entry_mode q = p_entry_mode p \<and>
    p_realized_pnl q = p_realized_pnl p \<and> p_unrealized_pnl q = p_unrealized_pnl p \<and>
    p_strategy_id q = p_strategy_id p \<and> p_opened_at q = p_opened_at p \<and>
    p_initial_risk_per_unit q = map_option (\<lambda>sl. dabs (dsub (p_avg_entry_price p) sl)) (p_stop_loss_price p)"

definition decimals_ok :: "position \<Rightarrow> bool" where
  "decimals_ok p \<longleftrightarrow>
    is_dec (p_qty p) \<and> is_dec (p_avg_entry_price p) \<and> is_dec (p_manual_added_qty p) \<and> is_dec (p_leverage p) \<and>
    pred_option is_dec (p_stop_loss_price p) \<and> pred_option is_dec (p_take_profit_price p) \<and>
    is_dec (p_realized_pnl p) \<and> is_dec (p_unrealized_pnl p)"

lemma row_restored:
  assumes "decimals_ok p" "p_leverage p \<noteq> 0" "length (p_strategy_id p) \<le> 64" "p_source p = BOT"
  shows "\<exists>q. restored_position initial (row_of_position now p mode None mark prot) = Some q \<and> survives p q \<and>
    p_initial_qty q = Some (case initial (p_symbol p) of None \<Rightarrow> p_qty p | Some x \<Rightarrow> x)"
  using assms
  by (cases "p_entry_mode p")
    (simp_all add: decimals_ok_def restored_position_def row_of_position_def survives_def new_position_def Let_def
      max_text_def truthy_def split: option.split)

lemma initial_at_least:
  assumes "r \<in> set rows" "restorable mode r" "dec_or_none (Some (pw_qty r)) = Some q" "0 < q"
  shows "\<exists>x. initial_quantities mode rows (pw_symbol r) = Some x \<and> q \<le> x"
proof -
  define step where "step = (\<lambda>r m. if \<not> restorable mode r then m
      else case dec_or_none (Some (pw_qty r)) of
        None \<Rightarrow> m
      | Some q \<Rightarrow> if q \<le> 0 then m
          else m(pw_symbol r \<mapsto> max q (case m (pw_symbol r) of None \<Rightarrow> 0 | Some x \<Rightarrow> x)))"
  have mono: "\<exists>x'. fold step rs m y = Some x' \<and> x \<le> x'" if "m y = Some x" for rs m y x
    using that
  proof (induction rs arbitrary: m x)
    case (Cons a rs)
    have "\<exists>x1. step a m y = Some x1 \<and> x \<le> x1"
      using Cons.prems by (auto simp: step_def split: option.split)
    then show ?case using Cons.IH by (metis fold_simps(2) order_trans)
  qed simp
  obtain xs ys where rows: "rows = xs @ r # ys" using assms(1) by (meson split_list)
  have "\<exists>x. step r (fold step xs Map.empty) (pw_symbol r) = Some x \<and> q \<le> x"
    using assms(2-4) by (simp add: step_def)
  then obtain x where x: "step r (fold step xs Map.empty) (pw_symbol r) = Some x" "q \<le> x" by blast
  have "\<exists>x'. fold step ys (step r (fold step xs Map.empty)) (pw_symbol r) = Some x' \<and> x \<le> x'"
    by (rule mono) (rule x(1))
  then show ?thesis
    using x(2) by (auto simp: rows initial_quantities_def simp flip: step_def)
qed

text \<open>C11. A restart does not lose a position: after the bot has logged an open LIVE position of its own, the rows
  restored from the database hold exactly one position for the symbol, with the side, status,
  quantity, prices, stop, target, leverage, entry mode, results and strategy that were logged, and with an
  initial quantity that is not below the quantity.\<close>

theorem restore_after_log:
  assumes "p_source p = BOT" "p_status p \<noteq> CLOSED" "0 < p_qty p" "p_leverage p \<noteq> 0" "decimals_ok p"
    and "length (p_strategy_id p) \<le> 64"
  shows "\<exists>q. filter (\<lambda>x. p_symbol x = p_symbol p)
      (restore_open_bot_positions (Some ''LIVE'') (log_position now p (Some ''LIVE'') None mark prot db)) = [q] \<and>
    survives p q \<and> (\<exists>x. p_initial_qty q = Some x \<and> p_qty p \<le> x)"
proof -
  let ?row = "row_of_position now p (Some ''LIVE'') None mark prot"
  let ?rows = "?row # rev (db_positions db)"
  let ?init = "initial_quantities (Some ''LIVE'') ?rows"
  have rows: "rev (db_positions (log_position now p (Some ''LIVE'') None mark prot db)) = ?rows"
    using assms(2) by (simp add: log_position_def)
  have q: "dec_or_none (Some (pw_qty ?row)) = Some (p_qty p)" and sym: "pw_symbol ?row = p_symbol p"
    and res: "restorable (Some ''LIVE'') ?row" and pos: "qty_is_positive (pw_qty ?row)"
    using assms by (simp_all add: row_of_position_def decimals_ok_def restorable_def matches_live_mode_def qty_is_positive_def)
  obtain z where z: "restored_position ?init ?row = Some z" "survives p z"
      "p_initial_qty z = Some (case ?init (p_symbol p) of None \<Rightarrow> p_qty p | Some x \<Rightarrow> x)"
    using row_restored [OF assms(5,4,6,1)] by blast
  obtain x where "?init (p_symbol p) = Some x" "p_qty p \<le> x"
    using initial_at_least [of ?row ?rows, OF _ res q assms(3)] sym by auto
  moreover have "filter (\<lambda>x. p_symbol x = p_symbol p) (restore_rows (Some ''LIVE'') ?init {} ?rows) = [z]"
    by (rule restored_at [OF _ res pos z(1)]) (simp add: sym)
  ultimately show ?thesis
    using z(2,3) by (simp add: restore_open_bot_positions_def Let_def rows)
qed

section \<open>What is not restored\<close>

lemma stale_iff:
  "y \<in> set (stale_symbols active mode seen rs) \<longleftrightarrow>
    y \<notin> seen \<and> y \<notin> active \<and> (\<exists>r. latest y rs = Some r \<and> pw_status r \<in> open_statuses \<and>
      matches_live_mode (pw_mode r) mode \<and> qty_is_positive (pw_qty r))"
  by (induction rs arbitrary: seen) (auto simp: Let_def)

lemma latest_map: "(\<And>r. pw_symbol (f r) = pw_symbol r) \<Longrightarrow> latest y (map f rs) = map_option f (latest y rs)"
  by (induction rs) simp_all

text \<open>C26. After the stale snapshots were closed only symbols the exchange reported are restored, so what a
  reconciliation found flat does not come back with a restart.\<close>

theorem stale_not_restored:
  "p_symbol ` set (restore_open_bot_positions mode (fst (close_stale_open_position_snapshots now active mode db))) \<subseteq> active"
proof (rule image_subsetI, rule ccontr)
  fix p :: position
  let ?rows = "rev (db_positions db)" and ?y = "p_symbol p"
  let ?ys = "stale_symbols active mode {} ?rows"
  define f where "f = (\<lambda>r. if pw_symbol r \<in> set ?ys \<and> pw_status r \<in> open_statuses \<and> matches_live_mode (pw_mode r) mode
    then reconciled_flat now r else r)"
  assume p: "p \<in> set (restore_open_bot_positions mode (fst (close_stale_open_position_snapshots now active mode db)))"
    and out: "?y \<notin> active"
  have "rev (db_positions (fst (close_stale_open_position_snapshots now active mode db))) = map f ?rows"
    by (cases "?ys = []") (simp_all add: close_stale_open_position_snapshots_def Let_def f_def rev_map)
  moreover have "latest ?y (map f ?rows) = map_option f (latest ?y ?rows)"
    by (rule latest_map) (simp add: f_def reconciled_flat_def)
  ultimately obtain r where r: "latest ?y ?rows = Some r" "restorable mode (f r)" "qty_is_positive (pw_qty (f r))"
    using p by (auto simp: restore_open_bot_positions_def Let_def restored_iff)
  have not: "\<not> restorable mode (reconciled_flat now r)"
    by (simp add: restorable_def reconciled_flat_def open_statuses_def)
  then have same: "f r = r" using r(2) by (auto simp: f_def split: if_splits)
  then have res: "restorable mode r" "qty_is_positive (pw_qty r)" using r(2,3) by simp_all
  then have "?y \<in> set ?ys" using r(1) out by (auto simp: stale_iff restorable_def)
  then have "f r = reconciled_flat now r"
    using res(1) latest_symbol [OF r(1)] by (simp add: f_def restorable_def)
  then show False using r(2) not by simp
qed

text \<open>A closed position is not restored, and its earlier rows are closed with it.\<close>

lemma closed_not_restored:
  assumes "p_status p = CLOSED"
  shows "p_symbol p \<notin> p_symbol ` set (restore_open_bot_positions mode (log_position now p m strat mark prot db))"
  using assms by (auto simp: restore_open_bot_positions_def log_position_def Let_def restored_iff row_of_position_def
      restorable_def open_statuses_def)

section \<open>One row per order\<close>

lemma upd_last_absorbs:
  "(\<And>x. p (f x)) \<Longrightarrow> upd_last p g (upd_last p f xs) = upd_last p (g \<circ> f) xs"
proof (induction xs)
  case (Cons x xs)
  have "(\<exists>y\<in>set (upd_last p f xs). p y) \<longleftrightarrow> (\<exists>y\<in>set xs. p y)"
    using Cons.prems by (induction xs) auto
  then show ?case using Cons by simp
qed simp

lemma upd_last_append: "p x \<Longrightarrow> upd_last p f (xs @ [x]) = xs @ [f x]"
  by (induction xs) simp_all

lemma found_upd_last: "(\<And>x. p (f x)) \<Longrightarrow> first_match p (rev (upd_last p f xs)) = None \<longleftrightarrow> first_match p (rev xs) = None"
  by (induction xs) (auto simp: first_match_None)

text \<open>Logging an order again under the same ids replaces what was logged before: however often its state
  is written, it has one row, the one of the last write.\<close>

theorem log_order_replaces:
  assumes "or_order_id y = or_order_id x" "or_client_order_id y = or_client_order_id x"
    and "truthy (or_order_id x) \<or> truthy (or_client_order_id x)"
  shows "log_order t2 c2 y m2 (log_order t1 c1 x m1 db) = log_order t2 c2 y m2 db"
proof -
  let ?p = "row_names (or_order_id x) (or_client_order_id x)"
  have names: "?p (row_of_order t c x m)" "?p (row_of_order t c y m)" for t c m
    using assms by (auto simp: row_names_def row_of_order_def)
  show ?thesis
  proof (cases "first_match ?p (rev (db_orders db))")
    case None
    then show ?thesis
      using names(1) by (simp add: log_order_def find_order_row_def assms(1,2) Let_def upd_last_append)
  next
    case (Some r)
    then have "first_match ?p (rev (upd_last ?p (\<lambda>_. row_of_order t1 c1 x m1) (db_orders db))) \<noteq> None"
      using found_upd_last [of ?p "\<lambda>_. row_of_order t1 c1 x m1"] names(1) by simp
    then show ?thesis
      using Some names(1) by (auto simp: log_order_def find_order_row_def assms(1,2) Let_def upd_last_absorbs comp_def)
  qed
qed

definition ex_logged :: order where
  "ex_logged = \<lparr> or_symbol = ''BTC'', or_side = BUY, or_type = LIMIT, or_qty = 1, or_price = Some 100,
    or_client_order_id = None, or_order_id = None, or_status = NEW, or_filled_qty = 0, or_avg_fill_price = None,
    or_reduce_only = False, or_entry_mode = None, or_source = BOT \<rparr>"

lemma log_order_replaces_witness:
  "log_order 9 None (ex_logged\<lparr> or_client_order_id := Some ''QB-1'', or_status := FILLED \<rparr>) None
     (log_order 5 None (ex_logged\<lparr> or_client_order_id := Some ''QB-1'' \<rparr>) None empty_database) =
   log_order 9 None (ex_logged\<lparr> or_client_order_id := Some ''QB-1'', or_status := FILLED \<rparr>) None
     empty_database"
  by (rule log_order_replaces) (simp_all add: truthy_def)

section \<open>Examples\<close>

definition ex_held :: position where
  "ex_held = (new_position ''BTC'' LONG 2 100 7)\<lparr> p_status := ACTIVE, p_stop_loss_price := Some 95,
    p_partial_tp_done := True, p_strategy_id := ''trend'' \<rparr>"

lemma ex_held_decimals: "decimals_ok ex_held"
proof -
  have "is_dec (of_int n)" if "0 \<le> n" "n \<le> 100" for n
    using that by (intro is_dec_int) (simp add: prec_hi_def order_trans [of _ "of_int 100"])
  from this [of 0] this [of 1] this [of 2] this [of 95] this [of 100] show ?thesis
    by (simp add: decimals_ok_def ex_held_def new_position_def)
qed

lemma restore_after_log_witness:
  "\<exists>q. filter (\<lambda>x. p_symbol x = p_symbol ex_held)
      (restore_open_bot_positions (Some ''LIVE'') (log_position 9 ex_held (Some ''LIVE'') None None None empty_database)) = [q] \<and>
    survives ex_held q \<and> (\<exists>x. p_initial_qty q = Some x \<and> p_qty ex_held \<le> x)"
  by (rule restore_after_log) (simp_all add: ex_held_decimals, simp_all add: ex_held_def new_position_def)

text \<open>A position of the same symbol that PAPER mode logs afterwards hides the open LIVE one: the newest row
  decides, whatever its mode. And what management remembers of a position is not stored.\<close>

lemma paper_row_hides_live_position:
  "restore_open_bot_positions (Some ''LIVE'') (log_position 10 q (Some ''PAPER'') None None None
     (log_position 9 p (Some ''LIVE'') None None None empty_database)) = []"
  if "p_symbol q = p_symbol p" "p_status p \<noteq> CLOSED" for p q
  using that
  by (simp add: restore_open_bot_positions_def log_position_def Let_def row_of_position_def empty_database_def
      restorable_def matches_live_mode_def close_row_def)

lemma partial_tp_forgotten: "restored_position initial r = Some q \<Longrightarrow> \<not> p_partial_tp_done q \<and> p_scout_state q = SCOUT_NONE"
  by (auto simp: restored_position_def new_position_def Let_def split: option.splits)

end
