(* ===== verification/Runtime_Lock.thy ===== *)
theory Runtime_Lock
  imports Prelude
begin

text \<open>
  The lock that keeps the bot from running twice (\<^verbatim>\<open>packages/messaging/runtime_lock.py\<close>) on the Redis
  calls it makes. Redis is a record of operations on a state of its own; the locale \<open>expiring_keys\<close>
  states what its documentation promises of \<open>SET NX PX\<close>, \<open>GET\<close>, \<open>DEL\<close> and \<open>PEXPIRE\<close>, and the scripts the
  class sends run as one step, as Redis runs them. Times are milliseconds of the server's clock.
\<close>

section \<open>The calls\<close>

record 'r redis =
  rd_set_nx :: "string \<Rightarrow> string \<Rightarrow> int \<Rightarrow> 'r \<Rightarrow> 'r \<times> bool"
  rd_get :: "string \<Rightarrow> 'r \<Rightarrow> string option"
  rd_del :: "string \<Rightarrow> 'r \<Rightarrow> 'r"
  rd_pexpire :: "string \<Rightarrow> int \<Rightarrow> 'r \<Rightarrow> 'r"

definition lock_live :: string where
  "lock_live = ''lock:quantbot:live''"

text \<open>The two scripts. \<open>DEL\<close> and \<open>PEXPIRE\<close> answer 1 on a key that exists, and the scripts have just read it.\<close>

definition release_lua :: "'r redis \<Rightarrow> string \<Rightarrow> string \<Rightarrow> 'r \<Rightarrow> 'r \<times> bool" where
  "release_lua rd key token r = (if rd_get rd key r = Some token then (rd_del rd key r, True) else (r, False))"

definition refresh_lua :: "'r redis \<Rightarrow> string \<Rightarrow> string \<Rightarrow> int \<Rightarrow> 'r \<Rightarrow> 'r \<times> bool" where
  "refresh_lua rd key token ttl r =
    (if rd_get rd key r = Some token then (rd_pexpire rd key ttl r, True) else (r, False))"

section \<open>The lock\<close>

record runtime_lock =
  lk_key :: string
  lk_ttl_ms :: int
  lk_token :: string
  lk_held :: bool

definition new_runtime_lock :: "string \<Rightarrow> int \<Rightarrow> string \<Rightarrow> runtime_lock" where
  "new_runtime_lock key ttl_sec token =
    \<lparr> lk_key = key, lk_ttl_ms = ttl_sec * 1000, lk_token = token, lk_held = False \<rparr>"

definition acquire :: "'r redis \<Rightarrow> 'r \<times> runtime_lock \<Rightarrow> ('r \<times> runtime_lock) \<times> bool" where
  "acquire rd = (\<lambda>(r, l).
    let (r', ok) = rd_set_nx rd (lk_key l) (lk_token l) (lk_ttl_ms l) r in ((r', l\<lparr> lk_held := ok \<rparr>), ok))"

definition refresh :: "'r redis \<Rightarrow> 'r \<times> runtime_lock \<Rightarrow> ('r \<times> runtime_lock) \<times> bool" where
  "refresh rd = (\<lambda>(r, l).
    if \<not> lk_held l then ((r, l), False)
    else let (r', ok) = refresh_lua rd (lk_key l) (lk_token l) (lk_ttl_ms l) r in ((r', l\<lparr> lk_held := ok \<rparr>), ok))"

definition release :: "'r redis \<Rightarrow> 'r \<times> runtime_lock \<Rightarrow> 'r \<times> runtime_lock" where
  "release rd = (\<lambda>(r, l).
    if \<not> lk_held l then (r, l)
    else (fst (release_lua rd (lk_key l) (lk_token l) r), l\<lparr> lk_held := False \<rparr>))"

section \<open>What Redis promises\<close>

text \<open>\<open>entry r k\<close> is the value of a key that has not expired, with the time it expires at.\<close>

locale expiring_keys =
  fixes rd :: "'r redis"
    and now :: "'r \<Rightarrow> int"
    and entry :: "'r \<Rightarrow> string \<Rightarrow> (string \<times> int) option"
    and pass :: "int \<Rightarrow> 'r \<Rightarrow> 'r"
  assumes set_nx: "0 < ttl \<Longrightarrow> rd_set_nx rd k v ttl r = (r', ok) \<Longrightarrow>
      now r' = now r \<and> ok = (entry r k = None) \<and>
      entry r' = (if ok then (entry r)(k \<mapsto> (v, now r + ttl)) else entry r)"
    and get: "rd_get rd k r = map_option fst (entry r k)"
    and del: "now (rd_del rd k r) = now r \<and> entry (rd_del rd k r) = (entry r)(k := None)"
    and pexpire: "0 < ttl \<Longrightarrow> entry r k = Some (v, t) \<Longrightarrow>
      now (rd_pexpire rd k ttl r) = now r \<and> entry (rd_pexpire rd k ttl r) = (entry r)(k \<mapsto> (v, now r + ttl))"
    and pass: "0 \<le> d \<Longrightarrow> now (pass d r) = now r + d \<and>
      entry (pass d r) k = (case entry r k of None \<Rightarrow> None | Some (v, t) \<Rightarrow> if now r + d < t then Some (v, t) else None)"
    and live: "entry r k = Some (v, t) \<Longrightarrow> now r < t"
begin

lemma get_own: "rd_get rd k r = Some v \<longleftrightarrow> (\<exists>t. entry r k = Some (v, t))"
  by (auto simp: get)

end

section \<open>Several instances\<close>

text \<open>The instances share a server. \<open>cl_renewed\<close> is not in the code: the server's time at the last call of
  the instance that returned \<open>True\<close>.\<close>

record 'r cluster =
  cl_redis :: 'r
  cl_locks :: "nat \<Rightarrow> runtime_lock"
  cl_renewed :: "nat \<Rightarrow> int"

definition put_lock :: "nat \<Rightarrow> 'r \<times> runtime_lock \<Rightarrow> 'r cluster \<Rightarrow> 'r cluster" where
  "put_lock i = (\<lambda>(r, l) c. c\<lparr> cl_redis := r, cl_locks := (cl_locks c)(i := l) \<rparr>)"

definition renew :: "nat \<Rightarrow> int \<Rightarrow> bool \<Rightarrow> 'r cluster \<Rightarrow> 'r cluster" where
  "renew i t ok c = (if ok then c\<lparr> cl_renewed := (cl_renewed c)(i := t) \<rparr> else c)"

inductive lock_step :: "'r redis \<Rightarrow> ('r \<Rightarrow> int) \<Rightarrow> (int \<Rightarrow> 'r \<Rightarrow> 'r) \<Rightarrow> 'r cluster \<Rightarrow> 'r cluster \<Rightarrow> bool"
  for rd now pass where
  lock_acquire: "acquire rd (cl_redis c, cl_locks c i) = (rl, ok) \<Longrightarrow>
    lock_step rd now pass c (renew i (now (cl_redis c)) ok (put_lock i rl c))"
| lock_refresh: "refresh rd (cl_redis c, cl_locks c i) = (rl, ok) \<Longrightarrow>
    lock_step rd now pass c (renew i (now (cl_redis c)) ok (put_lock i rl c))"
| lock_release: "release rd (cl_redis c, cl_locks c i) = rl \<Longrightarrow> lock_step rd now pass c (put_lock i rl c)"
| lock_time: "0 \<le> d \<Longrightarrow> lock_step rd now pass c (c\<lparr> cl_redis := pass d (cl_redis c) \<rparr>)"

text \<open>A cluster at its start: nobody holds the lock, the tokens (\<open>uuid4\<close>) differ.\<close>

definition fresh_cluster :: "string \<Rightarrow> int \<Rightarrow> 'r cluster \<Rightarrow> bool" where
  "fresh_cluster key ttl c \<longleftrightarrow>
    0 < ttl \<and> inj (\<lambda>i. lk_token (cl_locks c i)) \<and>
    (\<forall>i. cl_locks c i = new_runtime_lock key ttl (lk_token (cl_locks c i)))"

definition leased :: "('r \<Rightarrow> int) \<Rightarrow> 'r cluster \<Rightarrow> nat \<Rightarrow> bool" where
  "leased now c i \<longleftrightarrow>
    lk_held (cl_locks c i) \<and> now (cl_redis c) < cl_renewed c i + lk_ttl_ms (cl_locks c i)"

definition lock_ok ::
  "('r \<Rightarrow> int) \<Rightarrow> ('r \<Rightarrow> string \<Rightarrow> (string \<times> int) option) \<Rightarrow> string \<Rightarrow> int \<Rightarrow> 'r cluster \<Rightarrow> bool" where
  "lock_ok now entry key ttl c \<longleftrightarrow>
    0 < ttl \<and> inj (\<lambda>i. lk_token (cl_locks c i)) \<and>
    (\<forall>i. lk_key (cl_locks c i) = key \<and> lk_ttl_ms (cl_locks c i) = ttl * 1000) \<and>
    (\<forall>i. leased now c i \<longrightarrow> entry (cl_redis c) key = Some (lk_token (cl_locks c i), cl_renewed c i + ttl * 1000))"

lemma lock_ok_fresh: "fresh_cluster key ttl c \<Longrightarrow> lock_ok now entry key ttl c"
  by (simp add: fresh_cluster_def lock_ok_def leased_def new_runtime_lock_def, metis (no_types, lifting) runtime_lock.select_convs)

context expiring_keys
begin

lemma lock_ok_static:
  "lock_ok now entry key ttl c \<Longrightarrow> lk_key (cl_locks c i) = key \<and> lk_ttl_ms (cl_locks c i) = ttl * 1000 \<and> 0 < ttl * 1000"
  by (simp add: lock_ok_def)

lemma lock_ok_entry:
  "lock_ok now entry key ttl c \<Longrightarrow> leased now c i \<Longrightarrow>
    entry (cl_redis c) key = Some (lk_token (cl_locks c i), cl_renewed c i + ttl * 1000)"
  by (simp add: lock_ok_def)

lemma lock_ok_leased:
  assumes "lock_ok now entry key ttl c" "leased now c i" "leased now c j"
  shows "i = j"
proof -
  have "lk_token (cl_locks c i) = lk_token (cl_locks c j)"
    using lock_ok_entry [OF assms(1,2)] lock_ok_entry [OF assms(1,3)] by simp
  then show ?thesis using assms(1) by (auto simp: lock_ok_def dest: injD)
qed

lemma acquire_refused:
  assumes "lock_ok now entry key ttl c" "leased now c i"
  shows "\<not> snd (acquire rd (cl_redis c, cl_locks c j))"
proof -
  have "entry (cl_redis c) (lk_key (cl_locks c j)) \<noteq> None" "0 < lk_ttl_ms (cl_locks c j)"
    using assms by (simp_all add: lock_ok_def)
  then show ?thesis
    using set_nx [of "lk_ttl_ms (cl_locks c j)" "lk_key (cl_locks c j)" "lk_token (cl_locks c j)" "cl_redis c"]
    by (cases "rd_set_nx rd (lk_key (cl_locks c j)) (lk_token (cl_locks c j)) (lk_ttl_ms (cl_locks c j)) (cl_redis c)")
      (simp add: acquire_def)
qed

text \<open>A call of one instance: what it must leave for itself and for the others.\<close>

lemma lock_ok_call:
  assumes ok: "lock_ok now entry key ttl c"
    and l: "lk_key l = key" "lk_ttl_ms l = ttl * 1000" "lk_token l = lk_token (cl_locks c i)"
    and r: "now r = now (cl_redis c)"
    and own: "lk_held l \<Longrightarrow> now r < cl_renewed (renew i (now (cl_redis c)) b c) i + ttl * 1000 \<Longrightarrow>
      entry r key = Some (lk_token l, cl_renewed (renew i (now (cl_redis c)) b c) i + ttl * 1000)"
    and others: "\<And>j. j \<noteq> i \<Longrightarrow> leased now c j \<Longrightarrow> entry r key = entry (cl_redis c) key"
  shows "lock_ok now entry key ttl (renew i (now (cl_redis c)) b (put_lock i (r, l) c))"
proof -
  let ?c = "renew i (now (cl_redis c)) b (put_lock i (r, l) c)"
  have locks: "cl_locks ?c = (cl_locks c)(i := l)" "cl_redis ?c = r"
      "cl_renewed ?c i = cl_renewed (renew i (now (cl_redis c)) b c) i"
    by (simp_all add: renew_def put_lock_def)
  have same: "cl_renewed ?c j = cl_renewed c j" if "j \<noteq> i" for j using that by (simp add: renew_def put_lock_def)
  have "(\<lambda>j. lk_token (cl_locks ?c j)) = (\<lambda>j. lk_token (cl_locks c j))" by (auto simp: locks l fun_eq_iff)
  moreover have "entry r key = Some (lk_token (cl_locks ?c j), cl_renewed ?c j + ttl * 1000)" if "leased now ?c j" for j
  proof (cases "j = i")
    case True
    then show ?thesis using that own by (simp add: leased_def locks l)
  next
    case False
    then have "leased now c j" using that by (simp add: leased_def locks same r)
    then show ?thesis using ok others [OF False] False by (simp add: lock_ok_def locks same)
  qed
  ultimately show ?thesis using ok by (simp add: lock_ok_def locks l)
qed

lemma lock_ok_acquire:
  assumes "lock_ok now entry key ttl c" "acquire rd (cl_redis c, cl_locks c i) = (rl, ok)"
  shows "lock_ok now entry key ttl (renew i (now (cl_redis c)) ok (put_lock i rl c))"
proof -
  let ?l = "cl_locks c i"
  note st = lock_ok_static [OF assms(1), of i]
  obtain r where r: "rd_set_nx rd key (lk_token ?l) (ttl * 1000) (cl_redis c) = (r, ok)"
    and rl: "rl = (r, ?l\<lparr> lk_held := ok \<rparr>)"
    using assms(2) st by (auto simp: acquire_def split: prod.splits)
  have nx: "now r = now (cl_redis c)" "ok = (entry (cl_redis c) key = None)"
      "entry r = (if ok then (entry (cl_redis c))(key \<mapsto> (lk_token ?l, now (cl_redis c) + ttl * 1000)) else entry (cl_redis c))"
    using set_nx [OF _ r] st by blast+
  show ?thesis
    unfolding rl
    by (rule lock_ok_call [OF assms(1)]) (use st nx lock_ok_entry [OF assms(1)] in \<open>auto simp: renew_def\<close>)
qed

lemma lock_ok_refresh:
  assumes "lock_ok now entry key ttl c" "refresh rd (cl_redis c, cl_locks c i) = (rl, ok)"
  shows "lock_ok now entry key ttl (renew i (now (cl_redis c)) ok (put_lock i rl c))"
proof (cases "lk_held (cl_locks c i) \<and> rd_get rd key (cl_redis c) = Some (lk_token (cl_locks c i))")
  case True
  let ?l = "cl_locks c i" and ?r = "rd_pexpire rd key (ttl * 1000) (cl_redis c)"
  note st = lock_ok_static [OF assms(1), of i]
  obtain t where t: "entry (cl_redis c) key = Some (lk_token ?l, t)" using True get_own by blast
  have px: "now ?r = now (cl_redis c)" "entry ?r = (entry (cl_redis c))(key \<mapsto> (lk_token ?l, now (cl_redis c) + ttl * 1000))"
    using pexpire [OF _ t] st by blast+
  have rl: "rl = (?r, ?l\<lparr> lk_held := True \<rparr>)" "ok" using assms(2) True st by (simp_all add: refresh_def refresh_lua_def)
  have "i = j" if "leased now c j" for j
    using lock_ok_entry [OF assms(1) that] t assms(1) by (auto simp: lock_ok_def dest: injD)
  then show ?thesis
    unfolding rl(1)
    by (intro lock_ok_call [OF assms(1)]) (use st px rl(2) in \<open>auto simp: renew_def\<close>)
next
  case False
  obtain r l where rl: "rl = (r, l)" by (cases rl)
  have "r = cl_redis c" "\<not> lk_held l" "\<not> ok" "lk_key l = lk_key (cl_locks c i)" "lk_ttl_ms l = lk_ttl_ms (cl_locks c i)"
      "lk_token l = lk_token (cl_locks c i)"
    using assms(2) False lock_ok_static [OF assms(1), of i]
    by (auto simp: refresh_def refresh_lua_def rl split: if_splits)
  then show ?thesis
    unfolding rl by (intro lock_ok_call [OF assms(1)]) (use lock_ok_static [OF assms(1)] in auto)
qed

lemma lock_ok_release:
  assumes "lock_ok now entry key ttl c" "release rd (cl_redis c, cl_locks c i) = rl"
  shows "lock_ok now entry key ttl (put_lock i rl c)"
proof -
  obtain r l where rl: "rl = (r, l)" by (cases rl)
  note st = lock_ok_static [OF assms(1), of i]
  have "now r = now (cl_redis c)" "\<not> lk_held l" "lk_key l = key" "lk_ttl_ms l = ttl * 1000" "lk_token l = lk_token (cl_locks c i)"
    using assms(2) st del by (auto simp: release_def release_lua_def rl split: if_splits)
  moreover have "entry r key = entry (cl_redis c) key" if "j \<noteq> i" "leased now c j" for j
  proof -
    have "rd_get rd key (cl_redis c) \<noteq> Some (lk_token (cl_locks c i))"
      using lock_ok_entry [OF assms(1) that(2)] that(1) assms(1) by (auto simp: get lock_ok_def dest: injD)
    then show ?thesis using assms(2) st by (auto simp: release_def release_lua_def rl split: if_splits)
  qed
  ultimately show ?thesis using lock_ok_call [OF assms(1), of l i r False] by (simp add: renew_def rl)
qed

lemma lock_ok_time:
  assumes "lock_ok now entry key ttl c" "0 \<le> d"
  shows "lock_ok now entry key ttl (c\<lparr> cl_redis := pass d (cl_redis c) \<rparr>)"
proof -
  let ?c = "c\<lparr> cl_redis := pass d (cl_redis c) \<rparr>"
  have "entry (cl_redis ?c) key = Some (lk_token (cl_locks ?c i), cl_renewed ?c i + ttl * 1000)" if "leased now ?c i" for i
  proof -
    have "now (cl_redis c) + d < cl_renewed c i + ttl * 1000" "leased now c i"
      using that assms pass [OF assms(2)] lock_ok_static [OF assms(1), of i] by (auto simp: leased_def)
    then show ?thesis using lock_ok_entry [OF assms(1), of i] pass [OF assms(2), of "cl_redis c" key] by simp
  qed
  then show ?thesis using assms(1) by (simp add: lock_ok_def)
qed

lemma lock_ok_step: "lock_step rd now pass c c' \<Longrightarrow> lock_ok now entry key ttl c \<Longrightarrow> lock_ok now entry key ttl c'"
  by (induction rule: lock_step.induct)
    (auto intro: lock_ok_acquire lock_ok_refresh lock_ok_time lock_ok_release)

lemma lock_ok_reachable:
  "(lock_step rd now pass)\<^sup>*\<^sup>* c c' \<Longrightarrow> lock_ok now entry key ttl c \<Longrightarrow> lock_ok now entry key ttl c'"
  by (induction rule: rtranclp_induct) (auto intro: lock_ok_step)

end


section \<open>A Redis that keeps the promises\<close>

type_synonym redis_state = "int \<times> (string \<rightharpoonup> string \<times> int)"

fun own_entry :: "redis_state \<Rightarrow> string \<Rightarrow> (string \<times> int) option" where
  "own_entry (t, m) k = (case m k of None \<Rightarrow> None | Some (v, e) \<Rightarrow> if t < e then Some (v, e) else None)"

fun own_pass :: "int \<Rightarrow> redis_state \<Rightarrow> redis_state" where
  "own_pass d (t, m) = (t + d, m)"

definition own_redis :: "redis_state redis" where
  "own_redis =
    \<lparr> rd_set_nx = (\<lambda>k v ttl (t, m). if own_entry (t, m) k = None then ((t, m(k \<mapsto> (v, t + ttl))), True) else ((t, m), False)),
      rd_get = (\<lambda>k r. map_option fst (own_entry r k)),
      rd_del = (\<lambda>k (t, m). (t, m(k := None))),
      rd_pexpire = (\<lambda>k ttl (t, m). (t, case m k of None \<Rightarrow> m | Some (v, e) \<Rightarrow> m(k \<mapsto> (v, t + ttl)))) \<rparr>"

interpretation own_keys: expiring_keys own_redis fst own_entry own_pass
  by unfold_locales
    (auto simp: own_redis_def fun_eq_iff split: option.splits prod.splits if_splits)

section \<open>Exclusion\<close>

text \<open>C4. Whatever calls the instances of the bot make on the lock, in any order and with any time passing
  between them, at most one of them holds a lease, that is, believes it has the lock and had it confirmed
  less than the time to live ago; and while one does, every attempt of another to start is refused.\<close>

theorem runtime_lock_exclusive:
  assumes "expiring_keys rd now entry pass" "fresh_cluster key ttl c0" "(lock_step rd now pass)\<^sup>*\<^sup>* c0 c"
    and "leased now c i"
  shows "\<forall>j. j \<noteq> i \<longrightarrow> \<not> leased now c j \<and> \<not> snd (acquire rd (cl_redis c, cl_locks c j))"
  using expiring_keys.lock_ok_reachable [OF assms(1,3) lock_ok_fresh [OF assms(2)]]
    expiring_keys.lock_ok_leased [OF assms(1) _ assms(4)] expiring_keys.acquire_refused [OF assms(1) _ assms(4)]
  by blast

text \<open>Two instances start one after the other, with the default time to live.\<close>

definition ex_cluster :: "redis_state cluster" where
  "ex_cluster = \<lparr> cl_redis = (0, Map.empty), cl_locks = (\<lambda>i. new_runtime_lock lock_live 30 (replicate i CHR ''x'')),
    cl_renewed = (\<lambda>_. 0) \<rparr>"

definition ex_started :: "nat \<Rightarrow> redis_state cluster \<Rightarrow> redis_state cluster" where
  "ex_started i c = (let (rl, ok) = acquire own_redis (cl_redis c, cl_locks c i) in
    renew i (fst (cl_redis c)) ok (put_lock i rl c))"

definition ex_later :: "int \<Rightarrow> redis_state cluster \<Rightarrow> redis_state cluster" where
  "ex_later d c = c\<lparr> cl_redis := own_pass d (cl_redis c) \<rparr>"

lemma ex_started_step: "lock_step own_redis fst own_pass c (ex_started i c)"
  unfolding ex_started_def by (auto intro: lock_acquire split: prod.splits)

lemma ex_later_step: "0 \<le> d \<Longrightarrow> lock_step own_redis fst own_pass c (ex_later d c)"
  unfolding ex_later_def by (rule lock_time)

lemma ex_cluster_fresh: "fresh_cluster lock_live 30 ex_cluster"
  by (auto simp: fresh_cluster_def ex_cluster_def new_runtime_lock_def inj_def dest: arg_cong [where f = length])

lemma runtime_lock_exclusive_witness:
  "\<not> leased fst (ex_started 0 ex_cluster) 1 \<and>
    \<not> snd (acquire own_redis (cl_redis (ex_started 0 ex_cluster), cl_locks (ex_started 0 ex_cluster) 1))"
proof -
  have "(lock_step own_redis fst own_pass)\<^sup>*\<^sup>* ex_cluster (ex_started 0 ex_cluster)"
    by (rule r_into_rtranclp) (rule ex_started_step)
  moreover have "leased fst (ex_started 0 ex_cluster) 0"
    by (simp add: leased_def ex_started_def ex_cluster_def acquire_def own_redis_def new_runtime_lock_def renew_def put_lock_def)
  ultimately show ?thesis
    using runtime_lock_exclusive [OF own_keys.expiring_keys_axioms ex_cluster_fresh] by (metis zero_neq_one)
qed

text \<open>What the flag alone does not give: an instance that was held up for longer than the time to live still
  believes it has the lock, and \<open>held\<close> is true of two instances until the first one refreshes.\<close>

lemma held_is_not_exclusive:
  "\<exists>c. (lock_step own_redis fst own_pass)\<^sup>*\<^sup>* ex_cluster c \<and> lk_held (cl_locks c 0) \<and> lk_held (cl_locks c 1)"
proof (intro exI conjI)
  let ?c = "ex_started 1 (ex_later 30000 (ex_started 0 ex_cluster))"
  have "(lock_step own_redis fst own_pass)\<^sup>*\<^sup>* ex_cluster (ex_later 30000 (ex_started 0 ex_cluster))"
    using ex_started_step [of ex_cluster 0] ex_later_step [of 30000 "ex_started 0 ex_cluster"] by simp
  then show "(lock_step own_redis fst own_pass)\<^sup>*\<^sup>* ex_cluster ?c"
    using ex_started_step by (rule rtranclp.rtrancl_into_rtrancl)
  show "lk_held (cl_locks ?c 0)" "lk_held (cl_locks ?c 1)"
    by (simp_all add: ex_later_def ex_started_def ex_cluster_def acquire_def own_redis_def new_runtime_lock_def renew_def put_lock_def)
qed

end
