(* ===== verification/State_Publisher.thy ===== *)
theory State_Publisher
  imports Runtime_Loops Trade_Store Decimal_Text Runtime_Lock
begin

text \<open>
  What the bot shows to the outside (\<^verbatim>\<open>packages/messaging/state_publisher.py\<close>,
  \<^verbatim>\<open>apps/bot/runtime/heartbeat.py\<close>, and \<open>_publish_state\<close> with its parts in \<^verbatim>\<open>bot_runtime.py\<close>): the Redis
  keys of the dashboard. \<open>board\<close> is the content of those keys: the plain texts, the values written as JSON, and
  the risk and reconciliation status as the values that are dumped. A JSON key holds \<open>None\<close> when its text is not
  JSON; \<open>json.loads\<close> gives back what \<open>json.dumps\<close> was given.
\<close>

section \<open>Keys\<close>

fun bot_state_value :: "bot_state \<Rightarrow> string" where
  "bot_state_value BOOTING = ''BOOTING''"
| "bot_state_value STANDBY = ''STANDBY''"
| "bot_state_value START_REQUESTED = ''START_REQUESTED''"
| "bot_state_value SYNCING = ''SYNCING''"
| "bot_state_value READY = ''READY''"
| "bot_state_value RUNNING = ''RUNNING''"
| "bot_state_value PAUSED = ''PAUSED''"
| "bot_state_value RECONCILING = ''RECONCILING''"
| "bot_state_value RISK_LOCKED = ''RISK_LOCKED''"
| "bot_state_value ORDER_LOCKED = ''ORDER_LOCKED''"
| "bot_state_value EMERGENCY_STOP = ''EMERGENCY_STOP''"
| "bot_state_value STOPPING = ''STOPPING''"
| "bot_state_value STOPPED = ''STOPPED''"

definition bot_status_key :: string where
  "bot_status_key = ''bot:status''"

definition bot_mode_key :: string where
  "bot_mode_key = ''bot:mode''"

definition bot_heartbeat_key :: string where
  "bot_heartbeat_key = ''bot:heartbeat''"

definition bot_positions_key :: string where
  "bot_positions_key = ''bot:positions''"

definition bot_pnl_key :: string where
  "bot_pnl_key = ''bot:pnl''"

definition bot_protection_status_key :: string where
  "bot_protection_status_key = ''bot:protection_status''"

definition bot_watchlist_key :: string where
  "bot_watchlist_key = ''bot:watchlist''"

record board =
  bd_text :: "string \<rightharpoonup> string"
  bd_json :: "string \<rightharpoonup> json option"
  bd_risk :: "payload option"
  bd_reconciliation :: "(reconcile_result \<times> int) option"

definition set_text :: "string \<Rightarrow> string \<Rightarrow> board \<Rightarrow> board" where
  "set_text k v b = b\<lparr> bd_text := (bd_text b)(k \<mapsto> v) \<rparr>"

definition set_json :: "string \<Rightarrow> json \<Rightarrow> board \<Rightarrow> board" where
  "set_json k v b = b\<lparr> bd_json := (bd_json b)(k \<mapsto> Some v) \<rparr>"

text \<open>\<open>str(n)\<close> of an integer.\<close>

definition int_text :: "int \<Rightarrow> string" where
  "int_text n = (if n < 0 then CHR ''-'' # nat_text (nat (- n)) else nat_text (nat n))"

section \<open>A position\<close>

definition protection_status_of :: "bool \<Rightarrow> bool \<Rightarrow> position \<Rightarrow> string" where
  "protection_status_of require_sl require_tp p =
    (if \<not> require_sl \<and> \<not> require_tp then ''NOT_REQUIRED''
     else if require_sl \<and> p_stop_loss_price p = None then ''TPSL_PENDING''
     else if require_tp \<and> p_take_profit_price p = None then ''TPSL_PENDING''
     else ''TPSL_OK'')"

definition json_opt :: "string option \<Rightarrow> json" where
  "json_opt v = (case v of None \<Rightarrow> JNull | Some s \<Rightarrow> JStr s)"

definition position_fields :: "bot_mode option \<Rightarrow> bool \<Rightarrow> bool \<Rightarrow> position \<Rightarrow> (string \<times> json) list" where
  "position_fields mode require_sl require_tp p =
    [(''symbol'', JStr (p_symbol p)),
     (''side'', JStr (position_side_value (p_side p))),
     (''status'', JStr (position_status_value (p_status p))),
     (''source'', JStr (position_source_value (p_source p))),
     (''mode'', json_opt (map_option bot_mode_value mode)),
     (''qty'', JStr (str_dec (p_qty p))),
     (''avg_entry_price'', JStr (str_dec (p_avg_entry_price p))),
     (''manual_added_qty'', JStr (str_dec (p_manual_added_qty p))),
     (''leverage'', JStr (str_dec (p_leverage p))),
     (''mark_price'', JNull),
     (''strategy_id'', if p_strategy_id p = [] then JNull else JStr (p_strategy_id p)),
     (''protection_status'', JStr (protection_status_of require_sl require_tp p)),
     (''stop_loss'', json_opt (text_opt (p_stop_loss_price p))),
     (''take_profit'', json_opt (text_opt (p_take_profit_price p))),
     (''unrealized_pnl'', JStr (str_dec (p_unrealized_pnl p))),
     (''entry_mode'', json_opt (map_option entry_mode_value (p_entry_mode p))),
     (''runner_mode_active'', JBool (p_runner_mode_active p)),
     (''runner_trend_strength'', json_opt (map_option trend_strength_value (p_runner_trend_strength p))),
     (''runner_trailing_atr_multiplier'', json_opt (text_opt (p_runner_trailing_atr_multiplier p))),
     (''last_runner_trailing_stop'', json_opt (text_opt (p_last_runner_trailing_stop p)))]"

definition is_open_position :: "position \<Rightarrow> bool" where
  "is_open_position p \<longleftrightarrow> p_status p \<in> {PENDING, ACTIVE, CLOSING}"

section \<open>The publisher\<close>

record state_publisher =
  sp_mode :: bot_mode
  sp_require_sl :: bool
  sp_require_tp :: bool

definition when_some :: "('a \<Rightarrow> 's \<Rightarrow> 's) \<Rightarrow> 'a option \<Rightarrow> 's \<Rightarrow> 's" where
  "when_some f x s = (case x of None \<Rightarrow> s | Some v \<Rightarrow> f v s)"

definition positions_json :: "state_publisher \<Rightarrow> position list \<Rightarrow> json" where
  "positions_json sp ps =
    JList (map (\<lambda>p. JObj (position_fields (Some (sp_mode sp)) (sp_require_sl sp) (sp_require_tp sp) p)) (filter is_open_position ps))"

definition publish_board ::
  "state_publisher \<Rightarrow> int \<Rightarrow> bot_state \<Rightarrow> position list option \<Rightarrow> json option \<Rightarrow> payload option \<Rightarrow> json option \<Rightarrow>
    (reconcile_result \<times> int) option \<Rightarrow> board \<Rightarrow> board" where
  "publish_board sp now_ms st ps pnl risk prot recon b =
    when_some (\<lambda>v b. b\<lparr> bd_reconciliation := Some v \<rparr>) recon
      (when_some (set_json bot_protection_status_key) prot
      (when_some (\<lambda>v b. b\<lparr> bd_risk := Some v \<rparr>) risk
      (when_some (set_json bot_pnl_key) pnl
      (when_some (\<lambda>ps. set_json bot_positions_key (positions_json sp ps)) ps
      (set_text bot_heartbeat_key (int_text now_ms)
      (set_text bot_mode_key (bot_mode_value (sp_mode sp))
      (set_text bot_status_key (bot_state_value st) b)))))))"

definition publish_watchlist :: "json list \<Rightarrow> board \<Rightarrow> board" where
  "publish_watchlist entries = set_json bot_watchlist_key (JList entries)"

section \<open>The runtime's status\<close>

definition risk_status :: "'x bot_env \<Rightarrow> 'x runtime \<Rightarrow> 'x runtime \<times> payload" where
  "risk_status env rt =
    (let rs = sv_state (rt_service rt); now = mono_of env rt;
         d = [(''new_entries_paused'', PBool (new_entries_paused now rs)),
              (''pause_remaining_sec'', PDec (pause_remaining_sec now rs))]
     in case kill_of rt of
          None \<Rightarrow> (rt, d)
        | Some k \<Rightarrow>
            (case kill_snapshot now k of (k', snp) \<Rightarrow>
               (on_service (upd_kill (\<lambda>_. k')) rt, d @ map (\<lambda>(key, v). (''kill_switch.'' @ key, v)) snp)))"

definition levels_set :: "tpsl_section \<Rightarrow> position \<Rightarrow> bool" where
  "levels_set cfg p \<longleftrightarrow>
    (\<not> tp_use_exchange_sl cfg \<or> p_stop_loss_price p \<noteq> None) \<and> (\<not> tp_use_exchange_tp cfg \<or> p_take_profit_price p \<noteq> None)"

definition protection_view :: "tpsl_section \<Rightarrow> runtime_state \<Rightarrow> json" where
  "protection_view cfg rs =
    JObj [(''positions'', JList (map (\<lambda>p. JObj
      [(''symbol'', JStr (p_symbol p)), (''source'', JStr (position_source_value (p_source p))),
       (''status'', JStr (position_status_value (p_status p))), (''has_stop_loss'', JBool (p_stop_loss_price p \<noteq> None)),
       (''has_take_profit'', JBool (p_take_profit_price p \<noteq> None)), (''protected'', JBool (levels_set cfg p))])
      (open_positions rs)))]"

definition publisher_of :: "app_config \<Rightarrow> state_publisher" where
  "publisher_of cfg = \<lparr> sp_mode = cb_mode (cfg_bot cfg), sp_require_sl = tp_use_exchange_sl (cfg_tpsl cfg),
    sp_require_tp = tp_use_exchange_tp (cfg_tpsl cfg) \<rparr>"

definition publish_state :: "'x bot_env \<Rightarrow> 'x runtime \<times> board \<Rightarrow> 'x runtime \<times> board" where
  "publish_state env = (\<lambda>(rt, b).
    let rs = sv_state (rt_service rt); snp = compute_pnl (active_bot_positions rs) Map.empty 0; (rt', risk) = risk_status env rt
    in (rt', publish_board (publisher_of (rt_cfg rt)) (bn_now_ms env rt) (bot_state_of rt) (Some (open_positions rs))
         (Some (JObj [(''realized'', JStr (str_dec (pn_realized snp))), (''unrealized'', JStr (str_dec (pn_unrealized snp))),
           (''fees'', JStr (str_dec (pn_fees snp))), (''net'', JStr (str_dec (pn_net snp))),
           (''equity'', JStr (str_dec (rt_last_equity rt)))]))
         (Some risk) (Some (protection_view (cfg_tpsl (rt_cfg rt)) rs)) (rt_reconciliation_status rt) b))"

section \<open>The heartbeat\<close>

text \<open>The answer of \<open>refresh\<close> is not looked at.\<close>

definition beat_once ::
  "'r redis \<Rightarrow> int \<Rightarrow> bot_state \<Rightarrow> bot_mode \<Rightarrow> ('r \<times> runtime_lock) \<times> board \<Rightarrow> ('r \<times> runtime_lock) \<times> board" where
  "beat_once rd now_ms st mode = (\<lambda>(rl, b).
    (fst (refresh rd rl),
     set_text bot_mode_key (bot_mode_value mode) (set_text bot_status_key (bot_state_value st)
       (set_text bot_heartbeat_key (int_text now_ms) b))))"

definition lock_ttl_sec :: "app_config \<Rightarrow> int" where
  "lock_ttl_sec cfg = max 10 (cb_heartbeat_interval_sec (cfg_bot cfg) * 4)"

end
