(* ===== verification/Api_Commands.thy ===== *)
theory Api_Commands
  imports Runtime_Commands State_Publisher Trade_Store
begin

text \<open>
  The commands of the dashboard (\<^verbatim>\<open>apps/api/errors.py\<close>, \<^verbatim>\<open>services/command_service.py\<close>,
  \<^verbatim>\<open>services/strategy_config_service.py\<close> and the handlers of \<^verbatim>\<open>routers/bot.py\<close>, \<^verbatim>\<open>positions.py\<close>,
  \<^verbatim>\<open>orders.py\<close>): what a request needs before a command is logged and put on the queue the bot reads.
  The state is what the API shares with the bot, the database, the command queue and the Redis keys; a
  request takes it and answers with a value or an \<open>ApiError\<close>. \<open>api_world\<close> says for one request which
  services answer, what the clocks show, which id the command gets, what the settings say of authentication and
  what the request's \<^verbatim>\<open>Authorization\<close> header is (empty when it has none).
\<close>

section \<open>Errors\<close>

datatype error_code =
    VALIDATION_ERROR | NOT_FOUND | BOT_NOT_RUNNING | BOT_COMMAND_REJECTED | COMMAND_QUEUE_UNAVAILABLE | DATABASE_ERROR
  | REDIS_ERROR | UNAUTHORIZED | FORBIDDEN | CONFLICT | INTERNAL_ERROR

fun http_status_of :: "error_code \<Rightarrow> int" where
  "http_status_of VALIDATION_ERROR = 422"
| "http_status_of NOT_FOUND = 404"
| "http_status_of BOT_NOT_RUNNING = 409"
| "http_status_of BOT_COMMAND_REJECTED = 409"
| "http_status_of COMMAND_QUEUE_UNAVAILABLE = 503"
| "http_status_of DATABASE_ERROR = 503"
| "http_status_of REDIS_ERROR = 503"
| "http_status_of UNAUTHORIZED = 401"
| "http_status_of FORBIDDEN = 403"
| "http_status_of CONFLICT = 409"
| "http_status_of INTERNAL_ERROR = 500"

record api_error =
  ae_code :: error_code
  ae_message :: string
  ae_http_status :: int
  ae_details :: payload

definition new_api_error :: "error_code \<Rightarrow> string \<Rightarrow> payload \<Rightarrow> api_error" where
  "new_api_error c m d = \<lparr> ae_code = c, ae_message = m, ae_http_status = http_status_of c, ae_details = d \<rparr>"

section \<open>What the API and the bot share\<close>

record strategy_config_row =
  sc_name :: string
  sc_enabled :: bool
  sc_config :: "(string \<times> json) list"
  sc_version :: int
  sc_mode :: "string option"

record api_state =
  as_db :: database
  as_configs :: "strategy_config_row list"
  as_queue :: "command list"
  as_redis :: "string \<rightharpoonup> string"

record api_world =
  aw_redis_up :: bool
  aw_db_up :: bool
  aw_queue_up :: bool
  aw_now :: int
  aw_now_ms :: int
  aw_alive_sec :: int
  aw_command_id :: string
  aw_config_mode :: bot_mode
  aw_auth_enabled :: bool
  aw_token :: string
  aw_header :: string

type_synonym 'a api = "api_state \<Rightarrow> api_state \<times> (api_error + 'a)"

definition refuse :: "error_code \<Rightarrow> string \<Rightarrow> payload \<Rightarrow> 'a api" where
  "refuse c m d s = (s, Inl (new_api_error c m d))"


section \<open>Sending a command\<close>

definition write_pending :: "int \<Rightarrow> command \<Rightarrow> database \<Rightarrow> database" where
  "write_pending now c db =
    db\<lparr> db_commands := db_commands db @ [\<lparr> cw_ts = now, cw_command_id = cm_id c, cw_type = command_type_value (cm_type c),
      cw_payload = cm_payload c, cw_result = ''PENDING'' \<rparr>] \<rparr>"

definition dispatch_command :: "api_world \<Rightarrow> command_type \<Rightarrow> payload \<Rightarrow> command api" where
  "dispatch_command w ty d s =
    (let c = \<lparr> cm_id = aw_command_id w, cm_type = ty, cm_payload = d \<rparr> in
     if \<not> aw_db_up w then refuse DATABASE_ERROR ''Command log write failed; command not published.'' [] s
     else
       let s1 = s\<lparr> as_db := write_pending (aw_now w) c (as_db s) \<rparr> in
       if \<not> aw_queue_up w then refuse COMMAND_QUEUE_UNAVAILABLE ''Command queue unavailable.'' [] s1
       else (s1\<lparr> as_queue := queue_publish c (as_queue s1) \<rparr>, Inr c))"

text \<open>\<open>GET /commands/{id}\<close>: the newest row of the command.\<close>

definition command_status :: "string \<Rightarrow> api_state \<Rightarrow> command_row option" where
  "command_status cid s = first_match (\<lambda>r. cw_command_id r = cid) (rev (db_commands (as_db s)))"

section \<open>The state of the bot, as the API sees it\<close>

definition heartbeat_alive :: "api_world \<Rightarrow> string option \<Rightarrow> bool" where
  "heartbeat_alive w hb =
    (truthy hb \<and> (case parse_int (case hb of None \<Rightarrow> [] | Some t \<Rightarrow> t) of
       Inl _ \<Rightarrow> False
     | Inr n \<Rightarrow> aw_now_ms w - n \<le> aw_alive_sec w * 1000))"

definition raw_state :: "api_world \<Rightarrow> api_state \<Rightarrow> string option \<times> bool" where
  "raw_state w s = (as_redis s bot_status_key, heartbeat_alive w (as_redis s bot_heartbeat_key))"

definition with_state :: "api_world \<Rightarrow> (string option \<Rightarrow> bool \<Rightarrow> 'a api) \<Rightarrow> 'a api" where
  "with_state w k s =
    (if \<not> aw_redis_up w then refuse REDIS_ERROR ''Redis unavailable.'' [] s
     else (case raw_state w s of (st, alive) \<Rightarrow> k st alive s))"

definition allowed_when_stale :: "command_type set" where
  "allowed_when_stale = {START_BOT, STOP_BOT, SYNC_NOW}"

definition guard_alive :: "command_type \<Rightarrow> bool \<Rightarrow> 'a api \<Rightarrow> 'a api" where
  "guard_alive c alive k =
    (if \<not> alive \<and> c \<notin> allowed_when_stale
     then refuse BOT_NOT_RUNNING ''Bot heartbeat is stale; only START/STOP/SYNC are allowed.'' [] else k)"

text \<open>\<open>require_auth\<close>.\<close>

definition require_auth :: "bool \<Rightarrow> string \<Rightarrow> string \<Rightarrow> 'a api \<Rightarrow> 'a api" where
  "require_auth enabled expected header k =
    (if \<not> enabled then k
     else if (if starts_with ''Bearer '' header then drop 7 header else []) \<noteq> expected
     then refuse UNAUTHORIZED ''Unauthorized.'' [] else k)"

section \<open>The bot's commands\<close>

definition state_text :: "string option \<Rightarrow> string" where
  "state_text st = (case st of None \<Rightarrow> ''None'' | Some t \<Rightarrow> t)"

definition bot_start :: "api_world \<Rightarrow> bool \<Rightarrow> command api" where
  "bot_start w live_confirm = with_state w (\<lambda>st alive s.
    if st = Some ''RUNNING'' then refuse CONFLICT ''Bot is already running.'' [] s
    else if st \<notin> {None, Some ''STANDBY'', Some ''PAUSED'', Some ''STOPPED''}
    then refuse BOT_COMMAND_REJECTED (''Cannot start from state '' @ state_text st @ ''.'') [] s
    else
      let mode = (case as_redis s bot_mode_key of None \<Rightarrow> bot_mode_value (aw_config_mode w) | Some m \<Rightarrow> m) in
      if mode = ''LIVE'' \<and> \<not> live_confirm
      then refuse VALIDATION_ERROR ''LIVE start requires live_confirm=true.'' [] s
      else if mode = ''LIVE'' \<and> \<not> alive
      then refuse BOT_NOT_RUNNING ''Bot heartbeat is stale; cannot start LIVE.'' [] s
      else dispatch_command w START_BOT [] s)"

definition bot_stop :: "api_world \<Rightarrow> bool \<Rightarrow> bool \<Rightarrow> command api" where
  "bot_stop w close cancel = with_state w (\<lambda>_ _.
    dispatch_command w STOP_BOT [(''close_positions'', PBool close), (''cancel_open_orders'', PBool cancel)])"

definition bot_pause :: "api_world \<Rightarrow> string \<Rightarrow> command api" where
  "bot_pause w reason = with_state w (\<lambda>st alive. guard_alive PAUSE_TRADING alive
    (if st \<noteq> Some ''RUNNING'' then refuse BOT_NOT_RUNNING ''Bot must be RUNNING to pause.'' []
     else dispatch_command w PAUSE_TRADING [(''reason'', PStr reason)]))"

definition bot_resume :: "api_world \<Rightarrow> string \<Rightarrow> command api" where
  "bot_resume w reason = with_state w (\<lambda>st alive. guard_alive RESUME_TRADING alive
    (if st \<in> {Some ''RISK_LOCKED'', Some ''EMERGENCY_STOP''}
     then refuse BOT_COMMAND_REJECTED (''Cannot resume from state '' @ state_text st @ ''.'') []
     else if st \<noteq> Some ''PAUSED'' then refuse BOT_COMMAND_REJECTED ''Bot must be PAUSED to resume.'' []
     else dispatch_command w RESUME_TRADING [(''reason'', PStr reason)]))"

definition bot_sync :: "api_world \<Rightarrow> command api" where
  "bot_sync w = with_state w (\<lambda>_ _. dispatch_command w SYNC_NOW [])"

section \<open>Positions and orders\<close>

text \<open>\<open>position_repository.list_open\<close>: the newest row of each symbol decides. \<open>rows\<close> is newest first.\<close>

fun newest_rows :: "string set \<Rightarrow> position_row list \<Rightarrow> position_row list" where
  "newest_rows seen [] = []"
| "newest_rows seen (r # rs) =
    (if pw_symbol r \<in> seen then newest_rows seen rs else r # newest_rows (insert (pw_symbol r) seen) rs)"

definition list_open :: "database \<Rightarrow> position_row list" where
  "list_open db =
    filter (\<lambda>r. pw_status r \<in> open_statuses \<and> qty_is_positive (pw_qty r)) (newest_rows {} (rev (db_positions db)))"

text \<open>\<open>position_service.exists\<close> decides over the listing of the service, an argument here.\<close>

definition close_position_request ::
  "api_world \<Rightarrow> (api_state \<Rightarrow> string list) \<Rightarrow> string \<Rightarrow> dec \<Rightarrow> string \<Rightarrow> command api" where
  "close_position_request w listed y percent reason = with_state w (\<lambda>_ alive s.
    if \<not> alive then refuse BOT_NOT_RUNNING ''Closing positions is unsafe while the bot is inactive.'' [] s
    else if y \<notin> set (listed s) then refuse NOT_FOUND (''No open position for '' @ y @ ''.'') [(''symbol'', PStr y)] s
    else dispatch_command w CLOSE_POSITION
      [(''symbol'', PStr y), (''close_percent'', PDec percent), (''reason'', PStr reason)] s)"

definition cancelable_statuses :: "string set" where
  "cancelable_statuses = {''NEW'', ''PARTIALLY_FILLED'', ''UNKNOWN''}"

definition cancel_order_request :: "api_world \<Rightarrow> string \<Rightarrow> string \<Rightarrow> command api" where
  "cancel_order_request w oid reason s =
    (if \<not> aw_db_up w then refuse DATABASE_ERROR ''Database error.'' [] s
     else case first_match (\<lambda>r. ow_order_id r = Some oid) (rev (db_orders (as_db s))) of
       None \<Rightarrow> refuse NOT_FOUND (''No order '' @ oid @ ''.'') [(''order_id'', PStr oid)] s
     | Some r \<Rightarrow>
         if ow_status r \<notin> cancelable_statuses
         then refuse BOT_COMMAND_REJECTED (''Order '' @ oid @ '' is not cancelable from status '' @ ow_status r @ ''.'')
           [(''order_id'', PStr oid), (''status'', PStr (ow_status r))] s
         else dispatch_command w CANCEL_ORDER
           [(''order_id'', PStr oid), (''symbol'', PStr (ow_symbol r)), (''reason'', PStr reason)] s)"

section \<open>The strategy configuration\<close>

definition config_sections :: "string list" where
  "config_sections =
    [''bot'', ''paper'', ''universe'', ''scanner'', ''trend_quality'', ''volume'', ''candle_quality'', ''entry'',
     ''volatility_adaptive_stop'', ''structure_stop'', ''orders'', ''risk'', ''liquidation_guard'', ''tpsl'',
     ''position_protection'', ''position'', ''stagnation_exit'', ''cooldown'', ''global_kill_switch'', ''reconciliation'',
     ''manual_intervention'', ''data_quality'', ''funding_guard'']"

definition allowed_top :: "string set" where
  "allowed_top = set config_sections \<union> {''strategy'', ''leverage'', ''stop_loss''}"

definition risk_top :: "string set" where
  "risk_top = {''risk'', ''leverage'', ''stop_loss'', ''tpsl'', ''position_protection'', ''volatility_adaptive_stop'', ''structure_stop''}"

definition risk_subkey_hints :: "string list" where
  "risk_subkey_hints = [''leverage'', ''stop_loss'', ''account_risk'']"

text \<open>\<open>h in sub\<close>: the one text occurs in the other.\<close>

fun occurs_in :: "string \<Rightarrow> string \<Rightarrow> bool" where
  "occurs_in p [] = (p = [])"
| "occurs_in p (c # s) = (starts_with p (c # s) \<or> occurs_in p s)"

definition touches_risk :: "(string \<times> json) list \<Rightarrow> bool" where
  "touches_risk patch = list_ex (\<lambda>(k, v).
    if k \<in> risk_top then
      if k \<noteq> ''risk'' then True
      else if (case v of JObj m \<Rightarrow> list_ex (\<lambda>(sub, _). list_ex (\<lambda>h. occurs_in h sub) risk_subkey_hints) m | _ \<Rightarrow> False) then True
      else if k = ''risk'' then True
      else False
    else False) patch"

text \<open>The text of a list of texts (without quotes in them), as \<open>str\<close> gives it.\<close>

fun quoted :: "string list \<Rightarrow> string" where
  "quoted [] = []"
| "quoted [s] = CHR 0x27 # s @ [CHR 0x27]"
| "quoted (s # ss) = CHR 0x27 # s @ [CHR 0x27] @ '', '' @ quoted ss"

definition merge_object :: "(string \<times> json) list \<Rightarrow> (string \<times> json) list \<Rightarrow> (string \<times> json) list" where
  "merge_object new old = fold (\<lambda>(k, v). dict_set k v) new old"

definition merge_section :: "json \<Rightarrow> json option \<Rightarrow> json" where
  "merge_section v old = (case (v, old) of (JObj m, Some (JObj before)) \<Rightarrow> JObj (merge_object m before) | _ \<Rightarrow> v)"

definition merge_patch :: "(string \<times> json) list \<Rightarrow> (string \<times> json) list \<Rightarrow> (string \<times> json) list" where
  "merge_patch patch base = fold (\<lambda>(k, v) b. dict_set k (merge_section v (map_of b k)) b) patch base"

definition latest_config :: "api_state \<Rightarrow> strategy_config_row option" where
  "latest_config s = (if as_configs s = [] then None else Some (last (as_configs s)))"

definition current_version :: "api_state \<Rightarrow> int" where
  "current_version s = (case latest_config s of None \<Rightarrow> 0 | Some r \<Rightarrow> sc_version r)"

definition current_config :: "api_state \<Rightarrow> (string \<times> json) list" where
  "current_config s = (case latest_config s of None \<Rightarrow> [] | Some r \<Rightarrow> sc_config r)"

text \<open>\<open>patch_config\<close> awaits the database and Redis between its reads and its insertion, so other requests can
  run in between: the checks and the row they build are one step, the insertion and the command another. The
  row is what the first step read, whatever has been stored since.\<close>

definition read_patch ::
  "api_world \<Rightarrow> int \<Rightarrow> (string \<times> json) list \<Rightarrow> api_state \<Rightarrow> api_error + strategy_config_row" where
  "read_patch w version patch s =
    (if \<not> aw_db_up w then Inl (new_api_error DATABASE_ERROR ''Database error.'' [])
     else if version \<noteq> current_version s
     then Inl (new_api_error CONFLICT ''config_version mismatch.''
       [(''expected'', PInt (current_version s)), (''received'', PInt version)])
     else
       let unknown = filter (\<lambda>k. k \<notin> allowed_top) (map fst patch) in
       if unknown \<noteq> []
       then Inl (new_api_error VALIDATION_ERROR (''Unknown config fields: ['' @ quoted unknown @ '']'') [(''fields'', PStrs unknown)])
       else if list_open (as_db s) \<noteq> [] \<and> touches_risk patch
       then Inl (new_api_error FORBIDDEN ''Risk/leverage/stop changes are not allowed while a position is open.'' [])
       else
         let mode = (if aw_redis_up w then as_redis s bot_mode_key else None) in
         Inr \<lparr> sc_name = ''active'', sc_enabled = True, sc_config = merge_patch patch (current_config s),
           sc_version = current_version s + 1, sc_mode = mode \<rparr>)"

definition store_patch :: "api_world \<Rightarrow> strategy_config_row \<Rightarrow> string \<Rightarrow> command api" where
  "store_patch w row reason s =
    dispatch_command w RELOAD_CONFIG [(''config_version'', PInt (sc_version row)), (''reason'', PStr reason)]
      (s\<lparr> as_configs := as_configs s @ [row] \<rparr>)"

definition patch_config :: "api_world \<Rightarrow> int \<Rightarrow> (string \<times> json) list \<Rightarrow> string \<Rightarrow> command api" where
  "patch_config w version patch reason s =
    (case read_patch w version patch s of
       Inl e \<Rightarrow> (s, Inl e)
     | Inr row \<Rightarrow> store_patch w row reason s)"

text \<open>
  What the dashboard's commands guarantee: a request is carried out exactly when it is authorized, its body is
  valid, an abstract permission holds and the services answer; every command the bot can read from the queue
  has its log entry; a change of the configuration merges section by section into the configuration it read;
  and what a restarted bot would restore is what the API shows as open.
\<close>

section \<open>Requests\<close>

datatype request =
    Req_Start bool
  | Req_Stop bool bool
  | Req_Pause string
  | Req_Resume string
  | Req_Sync
  | Req_Close string dec string
  | Req_Cancel string string
  | Req_Patch int "(string \<times> json) list" string

fun run_request :: "api_world \<Rightarrow> (api_state \<Rightarrow> string list) \<Rightarrow> request \<Rightarrow> command api" where
  "run_request w listed (Req_Start confirm) = bot_start w confirm"
| "run_request w listed (Req_Stop close cancel) = bot_stop w close cancel"
| "run_request w listed (Req_Pause reason) = bot_pause w reason"
| "run_request w listed (Req_Resume reason) = bot_resume w reason"
| "run_request w listed Req_Sync = bot_sync w"
| "run_request w listed (Req_Close y percent reason) = close_position_request w listed y percent reason"
| "run_request w listed (Req_Cancel oid reason) = cancel_order_request w oid reason"
| "run_request w listed (Req_Patch version patch reason) = patch_config w version patch reason"

text \<open>\<open>CloseReq\<close>: \<open>close_percent\<close> is declared with \<open>gt=0, le=100\<close>. The bodies of the other requests have only their
  types.\<close>

fun valid_body :: "request \<Rightarrow> bool" where
  "valid_body (Req_Close y percent reason) \<longleftrightarrow> 0 < percent \<and> percent \<le> 100"
| "valid_body (Req_Start confirm) \<longleftrightarrow> True"
| "valid_body (Req_Stop close cancel) \<longleftrightarrow> True"
| "valid_body (Req_Pause reason) \<longleftrightarrow> True"
| "valid_body (Req_Resume reason) \<longleftrightarrow> True"
| "valid_body Req_Sync \<longleftrightarrow> True"
| "valid_body (Req_Cancel oid reason) \<longleftrightarrow> True"
| "valid_body (Req_Patch version patch reason) \<longleftrightarrow> True"

text \<open>A route: the dependency \<open>require_auth\<close> first, then the check of the body, then the handler.\<close>

definition handle_request :: "api_world \<Rightarrow> (api_state \<Rightarrow> string list) \<Rightarrow> request \<Rightarrow> command api" where
  "handle_request w listed q =
    require_auth (aw_auth_enabled w) (aw_token w) (aw_header w)
      (if valid_body q then run_request w listed q
       else refuse VALIDATION_ERROR ''Request validation failed.'' [])"

text \<open>The permission, stated without the order of the checks. A request without a header is authorized when the
  configured token is empty.\<close>

definition authorized :: "api_world \<Rightarrow> bool" where
  "authorized w \<longleftrightarrow> (aw_auth_enabled w \<longrightarrow>
    aw_header w = ''Bearer '' @ aw_token w \<or> aw_token w = [] \<and> \<not> starts_with ''Bearer '' (aw_header w))"

definition shows_alive :: "api_world \<Rightarrow> api_state \<Rightarrow> bool" where
  "shows_alive w s \<longleftrightarrow> heartbeat_alive w (as_redis s bot_heartbeat_key)"

definition shows_live :: "api_world \<Rightarrow> api_state \<Rightarrow> bool" where
  "shows_live w s \<longleftrightarrow> (case as_redis s bot_mode_key of None \<Rightarrow> aw_config_mode w = LIVE | Some m \<Rightarrow> m = ''LIVE'')"

fun permitted :: "api_world \<Rightarrow> (api_state \<Rightarrow> string list) \<Rightarrow> request \<Rightarrow> api_state \<Rightarrow> bool" where
  "permitted w listed (Req_Start confirm) s \<longleftrightarrow>
    aw_redis_up w \<and> as_redis s bot_status_key \<in> {None, Some ''STANDBY'', Some ''PAUSED'', Some ''STOPPED''} \<and>
    (shows_live w s \<longrightarrow> confirm \<and> shows_alive w s)"
| "permitted w listed (Req_Stop close cancel) s \<longleftrightarrow> aw_redis_up w"
| "permitted w listed (Req_Pause reason) s \<longleftrightarrow> aw_redis_up w \<and> shows_alive w s \<and> as_redis s bot_status_key = Some ''RUNNING''"
| "permitted w listed (Req_Resume reason) s \<longleftrightarrow> aw_redis_up w \<and> shows_alive w s \<and> as_redis s bot_status_key = Some ''PAUSED''"
| "permitted w listed Req_Sync s \<longleftrightarrow> aw_redis_up w"
| "permitted w listed (Req_Close y percent reason) s \<longleftrightarrow>
    aw_redis_up w \<and> shows_alive w s \<and> y \<in> set (listed s) \<and> 0 < percent \<and> percent \<le> 100"
| "permitted w listed (Req_Cancel oid reason) s \<longleftrightarrow>
    (\<exists>r. first_match (\<lambda>r. ow_order_id r = Some oid) (rev (db_orders (as_db s))) = Some r \<and> ow_status r \<in> cancelable_statuses)"
| "permitted w listed (Req_Patch version patch reason) s \<longleftrightarrow>
    version = current_version s \<and> fst ` set patch \<subseteq> allowed_top \<and>
    (list_open (as_db s) \<noteq> [] \<longrightarrow> fst ` set patch \<inter> risk_top = {})"

fun command_of :: "request \<Rightarrow> command_type" where
  "command_of (Req_Start _) = START_BOT"
| "command_of (Req_Stop _ _) = STOP_BOT"
| "command_of (Req_Pause _) = PAUSE_TRADING"
| "command_of (Req_Resume _) = RESUME_TRADING"
| "command_of Req_Sync = SYNC_NOW"
| "command_of (Req_Close _ _ _) = CLOSE_POSITION"
| "command_of (Req_Cancel _ _) = CANCEL_ORDER"
| "command_of (Req_Patch _ _ _) = RELOAD_CONFIG"

text \<open>The hints on the keys of the \<open>risk\<close> section decide nothing: any key of \<open>RISK_TOP\<close> counts.\<close>

lemma touches_risk_iff: "touches_risk patch \<longleftrightarrow> fst ` set patch \<inter> risk_top \<noteq> {}"
  unfolding touches_risk_def list_ex_iff by (auto split: if_splits)

section \<open>Sending\<close>

text \<open>The state differs only by what a command adds; a change of configuration adds its version row too.\<close>

definition logged :: "command \<Rightarrow> database \<Rightarrow> bool" where
  "logged c db \<longleftrightarrow> (\<exists>r\<in>set (db_commands db). cw_command_id r = cm_id c \<and> cw_type r = command_type_value (cm_type c) \<and>
    cw_payload r = cm_payload c \<and> cw_result r = ''PENDING'')"

definition queues :: "api_state \<Rightarrow> api_state \<times> (api_error + command) \<Rightarrow> bool" where
  "queues s out \<longleftrightarrow> set (db_commands (as_db s)) \<subseteq> set (db_commands (as_db (fst out))) \<and>
    (case snd out of
       Inl _ \<Rightarrow> as_queue (fst out) = as_queue s
     | Inr c \<Rightarrow> as_queue (fst out) = c # as_queue s \<and> logged c (as_db (fst out)))"

lemma queues_refuse [simp]: "queues s (refuse c m d s)"
  by (simp add: queues_def refuse_def)

lemma refuse_Inl [simp]: "snd (refuse c m d s) = Inl (new_api_error c m d)"
  by (simp add: refuse_def)

lemma queues_dispatch: "as_db s' = as_db s \<Longrightarrow> as_queue s' = as_queue s \<Longrightarrow> queues s (dispatch_command w ty d s')"
  by (auto simp: dispatch_command_def queues_def refuse_def logged_def write_pending_def queue_publish_def Let_def)

lemma queues_store: "queues s (store_patch w row reason s)"
  by (simp add: store_patch_def queues_dispatch)

lemma queues_stay [simp]: "queues s (s, Inl e)"
  by (simp add: queues_def)

lemma run_queues: "queues s (run_request w listed q s)"
  by (cases q)
    (auto simp: bot_start_def bot_stop_def bot_pause_def bot_resume_def bot_sync_def close_position_request_def
      cancel_order_request_def patch_config_def with_state_def guard_alive_def Let_def queues_dispatch queues_store
      split: prod.split option.split sum.split)

lemma request_queues: "queues s (handle_request w listed q s)"
  by (simp add: handle_request_def require_auth_def run_queues)

lemma bearer_iff:
  "(if starts_with ''Bearer '' h then drop 7 h else []) = tok \<longleftrightarrow>
    h = ''Bearer '' @ tok \<or> tok = [] \<and> \<not> starts_with ''Bearer '' h"
  using append_eq_conv_conj [of "''Bearer ''" tok h] by (auto simp: starts_with_def eval_nat_numeral)

lemma require_auth_iff:
  "require_auth (aw_auth_enabled w) (aw_token w) (aw_header w) k =
    (if authorized w then k else refuse UNAUTHORIZED ''Unauthorized.'' [])"
  unfolding require_auth_def authorized_def bearer_iff by simp

lemma dispatch_Inr: "(\<exists>c. snd (dispatch_command w ty d s) = Inr c) \<longleftrightarrow> aw_db_up w \<and> aw_queue_up w"
  by (simp add: dispatch_command_def Let_def)

lemma dispatch_type: "snd (dispatch_command w ty d s) = Inr c \<Longrightarrow> cm_type c = ty"
  by (auto simp: dispatch_command_def Let_def split: if_splits)

lemma not_stale: "PAUSE_TRADING \<notin> allowed_when_stale" "RESUME_TRADING \<notin> allowed_when_stale"
  by (simp_all add: allowed_when_stale_def)

lemma live_value: "bot_mode_value m = ''LIVE'' \<longleftrightarrow> m = LIVE"
  by (cases m) simp_all

lemma unknown_Nil: "filter (\<lambda>k. k \<notin> allowed_top) (map fst patch) = [] \<longleftrightarrow> fst ` set patch \<subseteq> allowed_top"
  by (auto simp: filter_empty_conv)

lemma read_patch_Inr:
  "(\<exists>row. read_patch w version patch s = Inr row) \<longleftrightarrow> aw_db_up w \<and> version = current_version s \<and>
    fst ` set patch \<subseteq> allowed_top \<and> (list_open (as_db s) \<noteq> [] \<longrightarrow> fst ` set patch \<inter> risk_top = {})"
  by (auto simp: read_patch_def Let_def unknown_Nil touches_risk_iff)

lemma patch_config_Inr:
  "(\<exists>c. snd (patch_config w version patch reason s) = Inr c) \<longleftrightarrow>
    (\<exists>row. read_patch w version patch s = Inr row) \<and> aw_db_up w \<and> aw_queue_up w"
  by (simp add: patch_config_def store_patch_def dispatch_Inr split: sum.split)

lemma run_carried_out:
  "valid_body q \<Longrightarrow>
    (\<exists>c. snd (run_request w listed q s) = Inr c) \<longleftrightarrow> permitted w listed q s \<and> aw_db_up w \<and> aw_queue_up w"
proof (cases q)
  case (Req_Start confirm)
  then show ?thesis
    by (auto simp: bot_start_def with_state_def raw_state_def Let_def dispatch_Inr shows_live_def shows_alive_def live_value
      split: option.split)
next
  case (Req_Pause reason)
  then show ?thesis
    by (auto simp: bot_pause_def with_state_def raw_state_def guard_alive_def not_stale dispatch_Inr shows_alive_def)
next
  case (Req_Resume reason)
  then show ?thesis
    by (auto simp: bot_resume_def with_state_def raw_state_def guard_alive_def not_stale dispatch_Inr shows_alive_def)
next
  case (Req_Close y percent reason)
  assume "valid_body q"
  with Req_Close show ?thesis
    by (auto simp: close_position_request_def with_state_def raw_state_def dispatch_Inr shows_alive_def)
next
  case (Req_Cancel oid reason)
  then show ?thesis
    by (auto simp: cancel_order_request_def dispatch_Inr split: option.split)
next
  case (Req_Patch version patch reason)
  then show ?thesis
    by (simp add: patch_config_Inr read_patch_Inr) blast
qed (auto simp: bot_stop_def bot_sync_def with_state_def raw_state_def dispatch_Inr)

lemma permitted_valid: "permitted w listed q s \<Longrightarrow> valid_body q"
  by (cases q) simp_all

lemma request_carried_out:
  "(\<exists>c. snd (handle_request w listed q s) = Inr c) \<longleftrightarrow>
    authorized w \<and> permitted w listed q s \<and> aw_db_up w \<and> aw_queue_up w"
  using run_carried_out permitted_valid by (auto simp: handle_request_def require_auth_iff)

lemma run_type: "snd (run_request w listed q s) = Inr c \<Longrightarrow> cm_type c = command_of q"
  by (cases q)
    (auto simp: bot_start_def bot_stop_def bot_pause_def bot_resume_def bot_sync_def close_position_request_def
      cancel_order_request_def patch_config_def store_patch_def with_state_def guard_alive_def Let_def
      split: prod.splits option.splits sum.splits if_splits dest: dispatch_type)

lemma request_type: "snd (handle_request w listed q s) = Inr c \<Longrightarrow> cm_type c = command_of q"
  using run_type by (auto simp: handle_request_def require_auth_iff split: if_splits)

lemma request_unauthorized:
  "\<not> authorized w \<Longrightarrow> handle_request w listed q s = (s, Inl (new_api_error UNAUTHORIZED ''Unauthorized.'' []))"
  by (simp add: handle_request_def require_auth_iff refuse_def)

text \<open>C6. A request of the dashboard is carried out exactly when it is authorized (authentication is switched off,
  or its header carries the configured token), permitted, and the database and the queue answer; then it puts
  the one command of its kind on the queue, and otherwise it leaves the queue as it was. An unauthorized request
  is answered as such and changes nothing at all. So a LIVE start needs the confirmation and a living bot, a
  pause a running one, a resume a paused one, a close an open position and a percentage above 0 and up to 100,
  a cancel a cancelable order, and a change of the risk settings that no position is open.\<close>

theorem request_permitted:
  "case handle_request w listed q s of
     (s', Inl e) \<Rightarrow> \<not> (authorized w \<and> permitted w listed q s \<and> aw_db_up w \<and> aw_queue_up w) \<and>
       as_queue s' = as_queue s \<and>
       (authorized w \<or> s' = s \<and> e = new_api_error UNAUTHORIZED ''Unauthorized.'' [])
   | (s', Inr c) \<Rightarrow> authorized w \<and> permitted w listed q s \<and> aw_db_up w \<and> aw_queue_up w \<and>
       as_queue s' = c # as_queue s \<and> cm_type c = command_of q"
  using request_carried_out [of w listed q s] request_queues [of s w listed q] request_type [of w listed q s]
    request_unauthorized [of w listed q s]
  by (auto simp: queues_def split: prod.splits sum.splits)

section \<open>The audit log\<close>

text \<open>A request that runs to its end, a change of the configuration that is stored on what it read in any earlier
  state, and what happens between requests: the bot takes a command, somebody adds rows to the database, the Redis keys
  change.\<close>

inductive shared_step :: "api_state \<Rightarrow> api_state \<Rightarrow> bool" where
  shared_request: "handle_request w listed q s = (s', r) \<Longrightarrow> shared_step s s'"
| shared_store: "read_patch w version patch t = Inr row \<Longrightarrow> shared_step s (fst (store_patch w row reason s))"
| shared_consume: "queue_consume (as_queue s) = (q, c) \<Longrightarrow> shared_step s (s\<lparr> as_queue := q \<rparr>)"
| shared_rows: "set (db_commands (as_db s)) \<subseteq> set (db_commands db) \<Longrightarrow> shared_step s (s\<lparr> as_db := db \<rparr>)"
| shared_keys: "shared_step s (s\<lparr> as_redis := m \<rparr>)"

lemma logged_mono: "logged c db \<Longrightarrow> set (db_commands db) \<subseteq> set (db_commands db') \<Longrightarrow> logged c db'"
  by (auto simp: logged_def)

lemma shared_step_logged:
  assumes "shared_step s s'" "\<forall>c\<in>set (as_queue s). logged c (as_db s)"
  shows "\<forall>c\<in>set (as_queue s'). logged c (as_db s')"
  using assms
proof cases
  case (shared_request w listed q r)
  then show ?thesis
    using assms(2) request_queues [of s w listed q] by (auto simp: queues_def intro: logged_mono split: sum.splits)
next
  case (shared_store w version patch t row reason)
  then show ?thesis
    using assms(2) queues_store [of s w row reason] by (auto simp: queues_def intro: logged_mono split: sum.splits)
next
  case (shared_consume q c)
  then show ?thesis using assms(2) by (auto simp: queue_consume_def dest: in_set_butlastD split: if_splits)
next
  case (shared_rows db)
  then show ?thesis using assms(2) by (auto intro: logged_mono)
next
  case (shared_keys m)
  then show ?thesis using assms(2) by simp
qed

text \<open>C22. No command without a record: whatever requests come in whatever order, with the database or the queue
  failing at any of them, every command the bot can take from the queue has its \<open>PENDING\<close> row, with its id,
  type and payload, in the command log.\<close>

theorem commands_audited:
  assumes "shared_step\<^sup>*\<^sup>* s s'" "as_queue s = []"
  shows "\<forall>c\<in>set (as_queue s'). logged c (as_db s')"
  using assms
proof (induction rule: rtranclp_induct)
  case base
  then show ?case by simp
next
  case (step a b)
  then show ?case using shared_step_logged by blast
qed

section \<open>Configuration\<close>

lemma merge_object_lookup:
  "distinct (map fst m) \<Longrightarrow> map_of (merge_object m before) k = (case map_of m k of None \<Rightarrow> map_of before k | Some v \<Rightarrow> Some v)"
proof (induction m arbitrary: before)
  case (Cons p m)
  then have "map_of m (fst p) = None" by (auto simp: map_of_eq_None_iff)
  then show ?case using Cons by (cases p) (auto simp: merge_object_def split: option.split)
qed (simp add: merge_object_def)

lemma merge_patch_lookup:
  "distinct (map fst patch) \<Longrightarrow>
    map_of (merge_patch patch base) k =
      (case map_of patch k of None \<Rightarrow> map_of base k | Some v \<Rightarrow> Some (merge_section v (map_of base k)))"
proof (induction patch arbitrary: base)
  case (Cons p patch)
  then have "map_of patch (fst p) = None" by (auto simp: map_of_eq_None_iff)
  then show ?case using Cons by (cases p) (auto simp: merge_patch_def split: option.split)
qed (simp add: merge_patch_def)

lemma latest_config_snoc [simp]:
  "current_version (s\<lparr> as_configs := cs @ [r] \<rparr>) = sc_version r" "current_config (s\<lparr> as_configs := cs @ [r] \<rparr>) = sc_config r"
  by (simp_all add: current_version_def current_config_def latest_config_def)

lemma dispatch_configs [simp]:
  "as_configs (fst (dispatch_command w ty d s)) = as_configs s"
  by (simp add: dispatch_command_def refuse_def Let_def)

lemma current_configs_cong: "as_configs s = as_configs t \<Longrightarrow> current_version s = current_version t \<and> current_config s = current_config t"
  by (simp add: current_version_def current_config_def latest_config_def)

lemma read_patch_row:
  assumes "read_patch w version patch s = Inr row"
  shows "version = current_version s" "sc_version row = version + 1" "sc_config row = merge_patch patch (current_config s)"
  using assms by (auto simp: read_patch_def Let_def split: if_splits)

lemma store_patch_latest:
  "current_version (fst (store_patch w row reason s)) = sc_version row"
  "current_config (fst (store_patch w row reason s)) = sc_config row"
  "as_configs (fst (store_patch w row reason s)) = as_configs s @ [row]"
proof -
  show configs: "as_configs (fst (store_patch w row reason s)) = as_configs s @ [row]" by (simp add: store_patch_def)
  have "as_configs (fst (store_patch w row reason s)) = as_configs (s\<lparr> as_configs := as_configs s @ [row] \<rparr>)"
    by (simp add: configs)
  from current_configs_cong [OF this]
  show "current_version (fst (store_patch w row reason s)) = sc_version row"
    "current_config (fst (store_patch w row reason s)) = sc_config row" by simp_all
qed

lemma patch_stored:
  assumes "patch_config w version patch reason s = (s', Inr c)"
  shows "version = current_version s" "current_version s' = version + 1"
    and "current_config s' = merge_patch patch (current_config s)" "as_configs s' \<noteq> []"
proof -
  obtain row where row: "read_patch w version patch s = Inr row" and s': "s' = fst (store_patch w row reason s)"
    using assms by (cases "read_patch w version patch s") (auto simp: patch_config_def)
  show "version = current_version s" "current_version s' = version + 1"
    "current_config s' = merge_patch patch (current_config s)" "as_configs s' \<noteq> []"
    using read_patch_row [OF row] by (simp_all add: s' store_patch_latest)
qed

text \<open>The fields of a merged section.\<close>

definition overrides :: "(string \<times> json) list \<Rightarrow> (string \<times> json) list \<Rightarrow> (string \<times> json) list \<Rightarrow> bool" where
  "overrides new old merged \<longleftrightarrow>
    (\<forall>f. map_of merged f = (case map_of new f of None \<Rightarrow> map_of old f | Some x \<Rightarrow> Some x))"

text \<open>C23. An accepted change of the configuration stores the version after the one it names, which is the
  version it read. In it every section the change does not name is as it was read. A section that the change
  gives as an object, where an object was stored, has the fields of the change, and keeps the stored fields
  the change does not name. Every other section is what the change says. The change is merged into what its
  request read, also when something else is stored before its own row is. Once it is stored, a request that
  reads afterwards and names the same version is refused as a conflict.\<close>

theorem patch_config_merges:
  assumes "read_patch w version patch t = Inr row" "store_patch w row reason s = (s', Inr c)"
    and "distinct (map fst patch)" "\<And>k m. map_of patch k = Some (JObj m) \<Longrightarrow> distinct (map fst m)" "aw_db_up w'"
  shows "version = current_version t \<and> current_version s' = version + 1 \<and>
    (\<forall>k. case map_of patch k of
       None \<Rightarrow> map_of (current_config s') k = map_of (current_config t) k
     | Some (JObj m) \<Rightarrow>
         (case map_of (current_config t) k of
            Some (JObj before) \<Rightarrow> \<exists>merged. map_of (current_config s') k = Some (JObj merged) \<and> overrides m before merged
          | _ \<Rightarrow> map_of (current_config s') k = Some (JObj m))
     | Some v \<Rightarrow> map_of (current_config s') k = Some v) \<and>
    patch_config w' version patch' reason' s' =
      (s', Inl (new_api_error CONFLICT ''config_version mismatch.''
        [(''expected'', PInt (version + 1)), (''received'', PInt version)]))"
proof -
  note row = read_patch_row [OF assms(1)]
  have s': "current_version s' = version + 1" "current_config s' = merge_patch patch (current_config t)"
    using store_patch_latest(1,2) [of w row reason s] assms(2) row by simp_all
  have merged: "overrides m before (merge_object m before)" if "map_of patch k = Some (JObj m)" for k m before
    using merge_object_lookup [OF assms(4) [OF that]] by (simp add: overrides_def)
  show ?thesis
    using row(1) s' assms(5) merged
    by (auto simp: merge_patch_lookup [OF assms(3)] merge_section_def patch_config_def read_patch_def
        split: option.split json.split)
qed

text \<open>Nothing keeps two requests from reading the same version before either stores its row: both are stored, as the
  same version, and what the first one changed is lost.\<close>

lemma concurrent_patches_stored:
  assumes "read_patch w version patch1 s = Inr row1" "read_patch w' version patch2 s = Inr row2"
    and "store_patch w row1 reason1 s = (s1, r1)" "store_patch w' row2 reason2 s1 = (s2, r2)"
  shows "as_configs s2 = as_configs s @ [row1, row2] \<and> sc_version row1 = version + 1 \<and> sc_version row2 = version + 1 \<and>
    current_config s2 = merge_patch patch2 (current_config s)"
  using store_patch_latest [of w row1 reason1 s] store_patch_latest [of w' row2 reason2 s1] assms(3,4)
    read_patch_row [OF assms(1)] read_patch_row [OF assms(2)] by simp

section \<open>After a restart\<close>

lemma newest_latest: "r \<in> set (newest_rows seen rs) \<longleftrightarrow> pw_symbol r \<notin> seen \<and> latest (pw_symbol r) rs = Some r"
proof (induction rs arbitrary: seen)
  case (Cons x rs)
  then show ?case by (auto dest: latest_symbol)
qed simp

text \<open>What the bot takes up again after a restart is shown as open by the API: the symbol of every position
  that is restored from the database is in the list of open positions read from the same database.\<close>

theorem restored_are_listed:
  "p_symbol ` set (restore_open_bot_positions mode db) \<subseteq> pw_symbol ` set (list_open db)"
proof (rule image_subsetI)
  fix p
  assume "p \<in> set (restore_open_bot_positions mode db)"
  then obtain r where r: "latest (p_symbol p) (rev (db_positions db)) = Some r" "restorable mode r" "qty_is_positive (pw_qty r)"
    by (auto simp: restore_open_bot_positions_def Let_def restored_iff)
  then have "r \<in> set (list_open db)"
    using latest_symbol [OF r(1)] by (auto simp: list_open_def newest_latest restorable_def)
  then show "p_symbol p \<in> pw_symbol ` set (list_open db)" using latest_symbol [OF r(1)] by force
qed

section \<open>Witnesses and limits\<close>

definition ex_world :: api_world where
  "ex_world = \<lparr> aw_redis_up = True, aw_db_up = True, aw_queue_up = True, aw_now = 0, aw_now_ms = 1000, aw_alive_sec = 15,
    aw_command_id = ''c1'', aw_config_mode = PAPER, aw_auth_enabled = True, aw_token = ''dev-token'',
    aw_header = ''Bearer dev-token'' \<rparr>"

definition ex_shared :: api_state where
  "ex_shared = \<lparr> as_db = empty_database, as_configs = [], as_queue = [],
    as_redis = [bot_status_key \<mapsto> ''PAUSED'', bot_heartbeat_key \<mapsto> ''900''] \<rparr>"

lemma ex_keys: "bot_status_key \<noteq> bot_heartbeat_key" "bot_mode_key \<noteq> bot_heartbeat_key" "bot_mode_key \<noteq> bot_status_key"
  by (simp_all add: bot_status_key_def bot_heartbeat_key_def bot_mode_key_def)

lemma ex_authorized: "authorized ex_world"
  by (simp add: authorized_def ex_world_def)

lemma commands_audited_witness:
  "as_queue (fst (handle_request ex_world (\<lambda>_. []) (Req_Start False) ex_shared)) \<noteq> [] \<and>
    list_all (\<lambda>c. logged c (as_db (fst (handle_request ex_world (\<lambda>_. []) (Req_Start False) ex_shared))))
      (as_queue (fst (handle_request ex_world (\<lambda>_. []) (Req_Start False) ex_shared)))"
proof
  let ?out = "handle_request ex_world (\<lambda>_. []) (Req_Start False) ex_shared"
  have "shared_step ex_shared (fst ?out)"
    using shared_request [of ex_world "\<lambda>_. []" "Req_Start False" ex_shared] by (cases ?out) simp
  then show "list_all (\<lambda>c. logged c (as_db (fst ?out))) (as_queue (fst ?out))"
    unfolding list_all_iff by (intro commands_audited [of ex_shared]) (auto simp: ex_shared_def)
  have "?out = bot_start ex_world False ex_shared"
    by (simp add: handle_request_def require_auth_iff ex_authorized)
  then show "as_queue (fst ?out) \<noteq> []"
    by (simp add: bot_start_def with_state_def raw_state_def Let_def dispatch_command_def ex_world_def ex_shared_def ex_keys queue_publish_def)
qed

definition ex_patch :: "(string \<times> json) list" where
  "ex_patch = [(''entry'', JObj [(''enabled'', JBool False)])]"

definition ex_row :: strategy_config_row where
  "ex_row = \<lparr> sc_name = ''active'', sc_enabled = True, sc_config = ex_patch, sc_version = 1, sc_mode = None \<rparr>"

lemma ex_read: "read_patch ex_world 0 ex_patch ex_shared = Inr ex_row"
  by (simp add: read_patch_def ex_patch_def ex_row_def ex_world_def ex_shared_def Let_def current_version_def current_config_def
      latest_config_def list_open_def empty_database_def allowed_top_def config_sections_def merge_patch_def merge_section_def
      ex_keys)

lemma patch_config_merges_witness:
  "\<exists>s' c. patch_config ex_world 0 ex_patch [] ex_shared = (s', Inr c) \<and> current_version s' = 1 \<and>
    map_of (current_config s') ''entry'' = Some (JObj [(''enabled'', JBool False)])"
proof -
  obtain s' c where s': "store_patch ex_world ex_row [] ex_shared = (s', Inr c)"
    by (simp add: store_patch_def dispatch_command_def ex_world_def Let_def)
  have "distinct (map fst ex_patch)" "aw_db_up ex_world" by (simp_all add: ex_patch_def ex_world_def)
  moreover have "distinct (map fst m)" if "map_of ex_patch k = Some (JObj m)" for k m
    using that by (auto simp: ex_patch_def split: if_splits)
  ultimately have m: "current_version s' = 0 + 1 \<and> (\<forall>k. case map_of ex_patch k of
       None \<Rightarrow> map_of (current_config s') k = map_of (current_config ex_shared) k
     | Some (JObj m) \<Rightarrow>
         (case map_of (current_config ex_shared) k of
            Some (JObj before) \<Rightarrow> \<exists>merged. map_of (current_config s') k = Some (JObj merged) \<and> overrides m before merged
          | _ \<Rightarrow> map_of (current_config s') k = Some (JObj m))
     | Some v \<Rightarrow> map_of (current_config s') k = Some v)"
    using patch_config_merges [OF ex_read s', where w' = ex_world] by blast
  have none: "current_config ex_shared = []" by (simp add: current_config_def latest_config_def ex_shared_def)
  have "map_of (current_config s') ''entry'' = Some (JObj [(''enabled'', JBool False)])"
    using m [THEN conjunct2, THEN spec, of "''entry''"] by (simp add: ex_patch_def none)
  then show ?thesis using s' m by (simp add: patch_config_def ex_read)
qed

text \<open>A start that the API accepts and the bot ignores: the API allows it from \<open>PAUSED\<close> and \<open>STOPPED\<close>, the bot acts
  on it in \<open>STANDBY\<close> only.\<close>

lemma start_from_paused_ignored:
  "snd (bot_start ex_world False ex_shared) = Inr \<lparr> cm_id = ''c1'', cm_type = START_BOT, cm_payload = [] \<rparr>"
  "bot_state_of rt = PAUSED \<Longrightarrow> start_trading env rt = (rt, Inr ())"
  by (simp_all add: bot_start_def with_state_def raw_state_def Let_def dispatch_command_def ex_world_def ex_shared_def ex_keys start_trading_def)

text \<open>A configuration whose reload could not be queued is stored all the same: the request fails and its version is
  taken.\<close>

lemma failed_patch_is_stored:
  "\<exists>s' e. patch_config (ex_world\<lparr> aw_queue_up := False \<rparr>) 0 ex_patch [] ex_shared = (s', Inl e) \<and> current_version s' = 1"
  using ex_read store_patch_latest(1) [of "ex_world\<lparr> aw_queue_up := False \<rparr>" ex_row "[]" ex_shared]
  by (simp add: patch_config_def read_patch_def Let_def store_patch_def dispatch_command_def refuse_def ex_world_def ex_row_def
      split: if_splits)

end
