(* ===== verification/Bybit_Gateway.thy ===== *)
theory Bybit_Gateway
  imports Decimal_Text Order_Manager Trade_Store Market_Collector
begin

text \<open>
  The exchange gateway (\<^verbatim>\<open>packages/exchange/bybit_gateway.py\<close>): what it sends to the SDK, how it retries
  and how it reads the answers. The SDK (\<open>pybit\<close>) and the waiting for a permit of the rate limiter, whose
  arithmetic is in \<open>Guards\<close>, are the fields of \<open>http\<close>: an endpoint takes its keyword arguments and gives
  the decoded JSON or raises. The two web sockets are not modelled, except for the decoding of their
  messages.
\<close>

section \<open>The SDK and the settings\<close>

record 's http =
  hp_call :: "string \<Rightarrow> (string \<times> json) list \<Rightarrow> ('s, json) action"
  hp_has :: "string \<Rightarrow> bool"
  hp_rest_permit :: "('s, unit) action"
  hp_order_permit :: "('s, unit) action"
  hp_sleep :: "rat \<Rightarrow> ('s, unit) action"
  hp_now_ms :: "'s \<Rightarrow> int"

record bybit =
  by_category :: string
  by_account_type :: string
  by_quote_coin :: string
  by_backoff_base :: rat
  by_backoff_max :: rat

section \<open>Retries and errors\<close>

text \<open>\<open>with_backoff\<close> around a call: \<open>n\<close> retries are left, \<open>k\<close> failures were seen.\<close>

fun backoff :: "'s http \<Rightarrow> bybit \<Rightarrow> nat \<Rightarrow> nat \<Rightarrow> ('s, 'a) action \<Rightarrow> ('s, 'a) action" where
  "backoff hp by 0 k m = m"
| "backoff hp by (Suc n) k m =
    try_except m (\<lambda>_. then_do (hp_sleep hp (min (by_backoff_max by) (by_backoff_base by * 2 ^ k)))
      (backoff hp by n (Suc k) m))"

text \<open>\<open>repr\<close> and \<open>str\<close> of a value read from JSON.\<close>

definition hex_digit :: "nat \<Rightarrow> char" where
  "hex_digit n = ''0123456789abcdef'' ! n"

definition repr_char :: "char \<Rightarrow> char \<Rightarrow> string" where
  "repr_char q c =
    (let n = of_char c in
     if c = q \<or> c = CHR 0x5C then [CHR 0x5C, c]
     else if n = (9::nat) then [CHR 0x5C, CHR ''t'']
     else if n = 10 then [CHR 0x5C, CHR ''n'']
     else if n = 13 then [CHR 0x5C, CHR ''r'']
     else if n < 32 \<or> n = 127 then [CHR 0x5C, CHR ''x'', hex_digit (n div 16), hex_digit (n mod 16)]
     else [c])"

definition repr_text :: "string \<Rightarrow> string" where
  "repr_text s =
    (let q = (if CHR 0x27 \<in> set s \<and> CHR 0x22 \<notin> set s then CHR 0x22 else CHR 0x27) in
     q # concat (map (repr_char q) s) @ [q])"

fun joined :: "string list \<Rightarrow> string" where
  "joined [] = []"
| "joined [a] = a"
| "joined (a # b # ss) = a @ '', '' @ joined (b # ss)"

fun json_repr :: "json \<Rightarrow> string" where
  "json_repr JNull = ''None''"
| "json_repr (JBool b) = (if b then ''True'' else ''False'')"
| "json_repr (JInt n) = str_dec (of_int n)"
| "json_repr (JStr s) = repr_text s"
| "json_repr (JList js) = ''['' @ joined (map json_repr js) @ '']''"
| "json_repr (JObj m) = ''{'' @ joined (map (\<lambda>(k, j). repr_text k @ '': '' @ json_repr j) m) @ ''}''"

fun json_str :: "json \<Rightarrow> string" where
  "json_str (JStr s) = s"
| "json_str j = json_repr j"

definition unwrap :: "json \<Rightarrow> json result" where
  "unwrap resp =
    bind_res (json_get ''retCode'' resp) (\<lambda>code.
      if code \<notin> {JInt 0, JBool False, JNull}
      then bind_res (json_get ''retMsg'' resp) (\<lambda>msg.
        Inl (ExchangeError (''Bybit error retCode='' @ json_str code @ '' retMsg='' @ json_str msg)))
      else bind_res (json_get ''result'' resp) (\<lambda>res. Inr (if json_true res then res else JObj [])))"

definition rest :: "'s http \<Rightarrow> bybit \<Rightarrow> string \<Rightarrow> (string \<times> json) list \<Rightarrow> ('s, json) action" where
  "rest hp by name params =
    and_then (backoff hp by 3 0 (then_do (hp_rest_permit hp) (hp_call hp name params))) (\<lambda>resp. lift_res (unwrap resp))"

definition order_rest :: "'s http \<Rightarrow> bybit \<Rightarrow> string \<Rightarrow> (string \<times> json) list \<Rightarrow> ('s, json) action" where
  "order_rest hp by name params =
    and_then (backoff hp by 1 0 (then_do (hp_order_permit hp) (hp_call hp name params))) (\<lambda>resp. lift_res (unwrap resp))"

definition is_order_missing_error :: "py_error \<Rightarrow> bool" where
  "is_order_missing_error e \<longleftrightarrow> contains ''ErrCode: 110001'' (err_text e) \<or> contains ''retCode=110001'' (err_text e)"

definition is_leverage_unchanged_error :: "py_error \<Rightarrow> bool" where
  "is_leverage_unchanged_error e \<longleftrightarrow> contains ''ErrCode: 110043'' (err_text e) \<or> contains ''retCode=110043'' (err_text e)"

definition settled_response :: json where
  "settled_response = JObj [(''retCode'', JInt 0), (''result'', JObj [])]"

definition tolerate :: "(py_error \<Rightarrow> bool) \<Rightarrow> ('s, json) action \<Rightarrow> ('s, json) action" where
  "tolerate known m = try_except m (\<lambda>e. if known e then ret settled_response else throw e)"

section \<open>Market data\<close>

definition instrument_of :: "json \<Rightarrow> symbol_meta result" where
  "instrument_of item =
    bind_res (json_get_or ''lotSizeFilter'' (JObj []) item) (\<lambda>lot.
    bind_res (json_get_or ''priceFilter'' (JObj []) item) (\<lambda>price.
    bind_res (json_get_or ''leverageFilter'' (JObj []) item) (\<lambda>lev.
    bind_res (symbol_field item) (\<lambda>y. bind_res (text_field ''baseCoin'' item) (\<lambda>base.
    bind_res (text_field ''quoteCoin'' item) (\<lambda>quote. bind_res (text_field ''status'' item) (\<lambda>status.
    bind_res (dec_field ''tickSize'' (1 / 10000) price) (\<lambda>tick. bind_res (dec_field ''qtyStep'' (1 / 1000) lot) (\<lambda>step.
    bind_res (dec_field ''minOrderQty'' 0 lot) (\<lambda>lo. bind_res (dec_field ''maxOrderQty'' 0 lot) (\<lambda>hi.
    bind_res (dec_field ''minNotionalValue'' 0 lot) (\<lambda>notional. bind_res (dec_field ''maxLeverage'' 1 lev) (\<lambda>max_lev.
    bind_res (json_opt_int ''launchTime'' item) (\<lambda>launch.
      Inr \<lparr> sm_symbol = y, sm_base_coin = base, sm_quote_coin = quote, sm_status = status, sm_tick_size = tick,
            sm_qty_step = step, sm_min_order_qty = lo, sm_max_order_qty = hi, sm_min_notional = notional,
            sm_max_leverage = max_lev, sm_launch_time_ms = launch \<rparr>))))))))))))))"

definition instruments_of :: "string \<Rightarrow> json list \<Rightarrow> symbol_meta list result" where
  "instruments_of quote items =
    bind_res (map_res (\<lambda>item. bind_res (json_get ''quoteCoin'' item) (\<lambda>q.
        if q \<noteq> JStr quote then Inr None else bind_res (instrument_of item) (\<lambda>m. Inr (Some m)))) items) (\<lambda>ms.
      Inr (concat (map (\<lambda>m. case m of None \<Rightarrow> [] | Some x \<Rightarrow> [x]) ms)))"

definition load_instruments :: "'s http \<Rightarrow> bybit \<Rightarrow> ('s, symbol_meta list) action" where
  "load_instruments hp by =
    and_then (rest hp by ''get_instruments_info'' [(''category'', JStr (by_category by))]) (\<lambda>res.
      lift_res (bind_res (json_list ''list'' res) (instruments_of (by_quote_coin by))))"

definition ticker_of_item :: "json \<Rightarrow> market_ticker result" where
  "ticker_of_item item =
    bind_res (symbol_field item) (\<lambda>y. bind_res (dec_field ''lastPrice'' 0 item) (\<lambda>last.
    bind_res (dec_field ''bid1Price'' 0 item) (\<lambda>bid. bind_res (dec_field ''ask1Price'' 0 item) (\<lambda>ask.
    bind_res (dec_field ''turnover24h'' 0 item) (\<lambda>turnover. bind_res (dec_field ''volume24h'' 0 item) (\<lambda>volume.
    bind_res (opt_dec_field ''fundingRate'' item) (\<lambda>rate. bind_res (json_opt_int ''nextFundingTime'' item) (\<lambda>next_ms.
      Inr \<lparr> tk_symbol = y, tk_last_price = last, tk_bid_price = bid, tk_ask_price = ask, tk_turnover_24h = turnover,
            tk_volume_24h = volume, tk_funding_rate = rate, tk_next_funding_time_ms = next_ms, tk_ts_ms = 0 \<rparr>))))))))"

definition get_tickers :: "'s http \<Rightarrow> bybit \<Rightarrow> ('s, market_ticker list) action" where
  "get_tickers hp by =
    and_then (rest hp by ''get_tickers'' [(''category'', JStr (by_category by))]) (\<lambda>res.
      lift_res (bind_res (json_list ''list'' res) (map_res ticker_of_item)))"

definition interval_ms :: "string \<Rightarrow> int" where
  "interval_ms interval = (case parse_int interval of Inl _ \<Rightarrow> 0 | Inr n \<Rightarrow> n * 60000)"

definition json_length :: "json \<Rightarrow> nat result" where
  "json_length d =
    (case d of JList xs \<Rightarrow> Inr (length xs) | JStr s \<Rightarrow> Inr (length s) | JObj m \<Rightarrow> Inr (length m) | _ \<Rightarrow> Inl TypeError)"

definition dec_at :: "nat \<Rightarrow> json \<Rightarrow> dec result" where
  "dec_at n row = bind_res (json_nth n row) (read_dec 0)"

definition candle_of_row :: "string \<Rightarrow> string \<Rightarrow> int \<Rightarrow> json \<Rightarrow> candle result" where
  "candle_of_row y interval now_ms row =
    bind_res (bind_res (json_nth 0 row) json_int) (\<lambda>t.
    bind_res (dec_at 1 row) (\<lambda>op. bind_res (dec_at 2 row) (\<lambda>hi. bind_res (dec_at 3 row) (\<lambda>lo.
    bind_res (dec_at 4 row) (\<lambda>cl. bind_res (dec_at 5 row) (\<lambda>vol. bind_res (json_length row) (\<lambda>n.
    bind_res (if 6 < n then dec_at 6 row else Inr 0) (\<lambda>turnover.
      Inr \<lparr> cd_symbol = y, cd_interval = interval, cd_open_time_ms = t, cd_open = op, cd_high = hi, cd_low = lo,
            cd_close = cl, cd_volume = vol, cd_turnover = turnover,
            cd_confirmed = (interval_ms interval \<le> 0 \<or> t + interval_ms interval \<le> now_ms) \<rparr>))))))))"

definition get_kline :: "'s http \<Rightarrow> bybit \<Rightarrow> string \<Rightarrow> string \<Rightarrow> int \<Rightarrow> ('s, candle list) action" where
  "get_kline hp by y interval limit =
    and_then (rest hp by ''get_kline'' [(''category'', JStr (by_category by)), (''symbol'', JStr y),
        (''interval'', JStr interval), (''limit'', JInt limit)]) (\<lambda>res.
    and_then (reads (hp_now_ms hp)) (\<lambda>now_ms.
      lift_res (bind_res (json_list ''list'' res) (\<lambda>rows. map_res (candle_of_row y interval now_ms) (rev rows)))))"

definition level_of :: "json \<Rightarrow> order_book_level result" where
  "level_of row =
    bind_res (json_elements row) (\<lambda>xs. case xs of
      [p, s] \<Rightarrow> bind_res (read_dec 0 p) (\<lambda>price. bind_res (read_dec 0 s) (\<lambda>sz. Inr \<lparr> lv_price = price, lv_size = sz \<rparr>))
    | _ \<Rightarrow> Inl ValueError)"

definition book_of :: "string \<Rightarrow> json \<Rightarrow> order_book result" where
  "book_of y res =
    bind_res (bind_res (json_list ''b'' res) (map_res level_of)) (\<lambda>bids.
    bind_res (bind_res (json_list ''a'' res) (map_res level_of)) (\<lambda>asks.
    bind_res (bind_res (json_get_or ''ts'' (JInt 0) res) json_int) (\<lambda>ts.
      Inr \<lparr> ob_symbol = y, ob_bids = bids, ob_asks = asks, ob_ts_ms = ts \<rparr>)))"

definition get_orderbook :: "'s http \<Rightarrow> bybit \<Rightarrow> string \<Rightarrow> int \<Rightarrow> ('s, order_book) action" where
  "get_orderbook hp by y depth =
    and_then (rest hp by ''get_orderbook'' [(''category'', JStr (by_category by)), (''symbol'', JStr y),
        (''limit'', JInt depth)]) (\<lambda>res. lift_res (book_of y res))"

definition server_time_of :: "json \<Rightarrow> int result" where
  "server_time_of res =
    bind_res (json_get ''timeNano'' res) (\<lambda>nano.
      if json_true nano then bind_res (json_int nano) (\<lambda>n. Inr (n div 1000000))
      else bind_res (bind_res (json_get_or ''timeSecond'' (JStr ''0'') res) json_int) (\<lambda>n. Inr (n * 1000)))"

definition get_server_time :: "'s http \<Rightarrow> bybit \<Rightarrow> ('s, int) action" where
  "get_server_time hp by = and_then (rest hp by ''get_server_time'' []) (\<lambda>res. lift_res (server_time_of res))"

text \<open>The candle of a web socket message, whose rows are objects.\<close>

definition candle_of_message :: "string \<Rightarrow> json \<Rightarrow> candle result" where
  "candle_of_message y row =
    bind_res (json_get_or ''interval'' (JStr []) row) (\<lambda>interval.
    bind_res (bind_res (json_item ''start'' row) json_int) (\<lambda>t.
    bind_res (bind_res (json_item ''open'' row) (read_dec 0)) (\<lambda>op.
    bind_res (bind_res (json_item ''high'' row) (read_dec 0)) (\<lambda>hi.
    bind_res (bind_res (json_item ''low'' row) (read_dec 0)) (\<lambda>lo.
    bind_res (bind_res (json_item ''close'' row) (read_dec 0)) (\<lambda>cl.
    bind_res (dec_field ''volume'' 0 row) (\<lambda>vol. bind_res (dec_field ''turnover'' 0 row) (\<lambda>turnover.
    bind_res (json_get_or ''confirm'' (JBool False) row) (\<lambda>conf.
      Inr \<lparr> cd_symbol = y, cd_interval = json_str interval, cd_open_time_ms = t, cd_open = op, cd_high = hi, cd_low = lo,
            cd_close = cl, cd_volume = vol, cd_turnover = turnover, cd_confirmed = json_true conf \<rparr>)))))))))"

section \<open>Account and positions\<close>

text \<open>\<open>next((x for x in xs if p(x)), d)\<close>, where \<open>p\<close> may raise.\<close>

fun find_res :: "('a \<Rightarrow> bool result) \<Rightarrow> 'a \<Rightarrow> 'a list \<Rightarrow> 'a result" where
  "find_res p d [] = Inr d"
| "find_res p d (x # xs) = bind_res (p x) (\<lambda>b. if b then Inr x else find_res p d xs)"

text \<open>\<open>rows[0]\<close> of an answer whose list may be empty.\<close>

definition first_row_of :: "json \<Rightarrow> json option result" where
  "first_row_of res =
    bind_res (json_get_or ''list'' (JList []) res) (\<lambda>rows.
      if \<not> json_true rows then Inr None else bind_res (json_nth 0 rows) (\<lambda>r. Inr (Some r)))"

definition wallet_of :: "string \<Rightarrow> json \<Rightarrow> wallet_balance result" where
  "wallet_of quote account =
    bind_res (json_list ''coin'' account) (\<lambda>rows.
    bind_res (find_res (\<lambda>c. bind_res (json_get ''coin'' c) (\<lambda>x. Inr (x = JStr quote)))
        (case rows of [] \<Rightarrow> JObj [] | c # _ \<Rightarrow> c) rows) (\<lambda>c.
    bind_res (bind_res (json_get_or ''coin'' (JStr quote) c) json_text) (\<lambda>name.
    bind_res (dec_field ''equity'' 0 c) (\<lambda>equity.
    bind_res (bind_res (json_get ''availableToWithdraw'' c) (\<lambda>v.
        if json_true v then Inr v else json_get ''walletBalance'' c)) (\<lambda>v. bind_res (read_dec 0 v) (\<lambda>available.
    bind_res (dec_field ''walletBalance'' 0 c) (\<lambda>balance. bind_res (dec_field ''unrealisedPnl'' 0 c) (\<lambda>upnl.
      Inr \<lparr> wb_coin = name, wb_equity = equity, wb_available_balance = available, wb_wallet_balance = balance,
            wb_unrealized_pnl = upnl \<rparr>))))))))"

definition get_wallet_balance :: "'s http \<Rightarrow> bybit \<Rightarrow> ('s, wallet_balance) action" where
  "get_wallet_balance hp by =
    and_then (rest hp by ''get_wallet_balance'' [(''accountType'', JStr (by_account_type by)),
        (''coin'', JStr (by_quote_coin by))]) (\<lambda>res.
      lift_res (bind_res (first_row_of res) (\<lambda>row. case row of
        None \<Rightarrow> Inl (ExchangeError ''Empty wallet balance response'') | Some account \<Rightarrow> wallet_of (by_quote_coin by) account)))"

definition position_of_item :: "json \<Rightarrow> exchange_position result" where
  "position_of_item item =
    bind_res (dec_field ''size'' 0 item) (\<lambda>sz. bind_res (json_get ''side'' item) (\<lambda>raw.
    bind_res (symbol_field item) (\<lambda>y. bind_res (dec_field ''avgPrice'' 0 item) (\<lambda>avg.
    bind_res (dec_field ''leverage'' 1 item) (\<lambda>lev. bind_res (opt_dec_field ''liqPrice'' item) (\<lambda>liq.
    bind_res (dec_field ''unrealisedPnl'' 0 item) (\<lambda>upnl. bind_res (opt_dec_field ''takeProfit'' item) (\<lambda>tp.
    bind_res (opt_dec_field ''stopLoss'' item) (\<lambda>sl.
    bind_res (bind_res (json_get_or ''positionIdx'' (JInt 0) item) json_int) (\<lambda>idx.
      Inr \<lparr> xp_symbol = y,
            xp_side = (if sz = 0 \<or> raw \<notin> {JStr ''Buy'', JStr ''Sell''} then None
              else Some (if raw = JStr ''Buy'' then LONG else SHORT)),
            xp_size = sz, xp_avg_price = avg, xp_leverage = lev, xp_liq_price = liq, xp_unrealized_pnl = upnl,
            xp_take_profit = tp, xp_stop_loss = sl, xp_position_idx = idx \<rparr>))))))))))"

definition get_positions :: "'s http \<Rightarrow> bybit \<Rightarrow> ('s, exchange_position list) action" where
  "get_positions hp by =
    and_then (rest hp by ''get_positions'' [(''category'', JStr (by_category by)),
        (''settleCoin'', JStr (by_quote_coin by))]) (\<lambda>res.
      lift_res (bind_res (json_list ''list'' res) (map_res position_of_item)))"

section \<open>Orders\<close>

definition bybit_order_status :: "string \<rightharpoonup> order_status" where
  "bybit_order_status = map_of
    [(''New'', NEW), (''PartiallyFilled'', PARTIALLY_FILLED), (''Filled'', FILLED), (''Cancelled'', CANCELLED),
     (''Rejected'', REJECTED), (''PartiallyFilledCanceled'', CANCELLED), (''Deactivated'', CANCELLED),
     (''Untriggered'', NEW), (''Triggered'', NEW)]"

definition status_of :: "json \<Rightarrow> order_status" where
  "status_of d = (case d of JStr s \<Rightarrow> (case bybit_order_status s of None \<Rightarrow> UNKNOWN | Some x \<Rightarrow> x) | _ \<Rightarrow> UNKNOWN)"

definition side_of_json :: "json \<Rightarrow> side result" where
  "side_of_json d =
    (case d of JStr s \<Rightarrow> (case enum_of [BUY, SELL] side_value s of None \<Rightarrow> Inl ValueError | Some x \<Rightarrow> Inr x) | _ \<Rightarrow> Inl ValueError)"

definition map_order :: "json \<Rightarrow> exchange_order result" where
  "map_order item =
    bind_res (symbol_field item) (\<lambda>y. bind_res (text_field ''orderId'' item) (\<lambda>oid.
    bind_res (opt_text_field ''orderLinkId'' item) (\<lambda>cid.
    bind_res (bind_res (json_item ''side'' item) side_of_json) (\<lambda>sd. bind_res (text_field ''orderType'' item) (\<lambda>ty.
    bind_res (opt_dec_field ''price'' item) (\<lambda>price. bind_res (dec_field ''qty'' 0 item) (\<lambda>qty.
    bind_res (dec_field ''cumExecQty'' 0 item) (\<lambda>cum. bind_res (opt_dec_field ''avgPrice'' item) (\<lambda>avg.
    bind_res (json_get_or ''orderStatus'' (JStr []) item) (\<lambda>st.
    bind_res (json_get_or ''reduceOnly'' (JBool False) item) (\<lambda>red.
    bind_res (opt_dec_field ''triggerPrice'' item) (\<lambda>trg. bind_res (opt_text_field ''stopOrderType'' item) (\<lambda>stop.
    bind_res (opt_text_field ''orderFilter'' item) (\<lambda>flt.
    bind_res (bind_res (json_get_or ''createdTime'' (JInt 0) item) json_int) (\<lambda>ms.
      Inr \<lparr> xo_symbol = y, xo_order_id = oid, xo_client_order_id = cid, xo_side = sd, xo_order_type = ty,
            xo_price = price, xo_qty = qty, xo_cum_exec_qty = cum, xo_avg_price = avg, xo_status = status_of st,
            xo_reduce_only = json_true red, xo_trigger_price = trg, xo_stop_order_type = stop, xo_order_filter = flt,
            xo_created_ms = ms \<rparr>)))))))))))))))"

definition get_open_orders :: "'s http \<Rightarrow> bybit \<Rightarrow> string option \<Rightarrow> ('s, exchange_order list) action" where
  "get_open_orders hp by yo =
    and_then (rest hp by ''get_open_orders'' [(''category'', JStr (by_category by)),
        (if truthy yo then (''symbol'', JStr (the yo)) else (''settleCoin'', JStr (by_quote_coin by)))]) (\<lambda>res.
      lift_res (bind_res (json_list ''list'' res) (map_res map_order)))"

text \<open>The parameters that name one order; \<open>None\<close> when there is no id.\<close>

definition order_named :: "bybit \<Rightarrow> string \<Rightarrow> string option \<Rightarrow> string option \<Rightarrow> (string \<times> json) list option" where
  "order_named by y oid cid =
    map_option (\<lambda>p. [(''category'', JStr (by_category by)), (''symbol'', JStr y), p])
      (if truthy oid then Some (''orderId'', JStr (the oid))
       else if truthy cid then Some (''orderLinkId'', JStr (the cid)) else None)"

fun look_up :: "'s http \<Rightarrow> bybit \<Rightarrow> (string \<times> json) list \<Rightarrow> string list \<Rightarrow> ('s, exchange_order option) action" where
  "look_up hp by params [] = ret None"
| "look_up hp by params (name # names) =
    (if \<not> hp_has hp name then look_up hp by params names
     else and_then (try_except (and_then (rest hp by name params) (\<lambda>res. ret (Some res))) (\<lambda>_. ret None)) (\<lambda>found.
       case found of
         None \<Rightarrow> look_up hp by params names
       | Some res \<Rightarrow> and_then (lift_res (first_row_of res)) (\<lambda>row. case row of
             None \<Rightarrow> look_up hp by params names
           | Some item \<Rightarrow> and_then (lift_res (map_order item)) (\<lambda>x. ret (Some x)))))"

definition get_order :: "'s http \<Rightarrow> bybit \<Rightarrow> string \<Rightarrow> string option \<Rightarrow> string option \<Rightarrow> ('s, exchange_order option) action" where
  "get_order hp by y oid cid =
    (case order_named by y oid cid of
       None \<Rightarrow> ret None
     | Some params \<Rightarrow> look_up hp by params [''get_open_orders'', ''get_order_history''])"

definition set_leverage :: "'s http \<Rightarrow> bybit \<Rightarrow> string \<Rightarrow> dec \<Rightarrow> ('s, unit) action" where
  "set_leverage hp by y lev =
    and_then (backoff hp by 3 0 (then_do (hp_rest_permit hp) (tolerate is_leverage_unchanged_error
        (hp_call hp ''set_leverage'' [(''category'', JStr (by_category by)), (''symbol'', JStr y),
          (''buyLeverage'', JStr (str_dec lev)), (''sellLeverage'', JStr (str_dec lev))])))) (\<lambda>resp.
      and_then (lift_res (unwrap resp)) (\<lambda>_. ret ()))"

fun time_in_force_value :: "time_in_force \<Rightarrow> string" where
  "time_in_force_value GTC = ''GTC''"
| "time_in_force_value IOC = ''IOC''"
| "time_in_force_value FOK = ''FOK''"
| "time_in_force_value POST_ONLY = ''PostOnly''"

fun trigger_by_value :: "trigger_by \<Rightarrow> string" where
  "trigger_by_value LAST_PRICE = ''LastPrice''"
| "trigger_by_value MARK_PRICE = ''MarkPrice''"
| "trigger_by_value INDEX_PRICE = ''IndexPrice''"

definition map_order_type :: "order_request \<Rightarrow> string \<times> time_in_force option" where
  "map_order_type rq =
    (case rq_type rq of
       MARKET \<Rightarrow> (''Market'', None)
     | AGGRESSIVE_LIMIT \<Rightarrow> (''Limit'', Some (case rq_time_in_force rq of None \<Rightarrow> IOC | Some t \<Rightarrow> t))
     | LIMIT \<Rightarrow> (''Limit'', Some (case rq_time_in_force rq of None \<Rightarrow> GTC | Some t \<Rightarrow> t)))"

definition given :: "string \<Rightarrow> ('a \<Rightarrow> json) \<Rightarrow> 'a option \<Rightarrow> (string \<times> json) list" where
  "given k f x = (case x of None \<Rightarrow> [] | Some v \<Rightarrow> [(k, f v)])"

definition json_of_dec :: "dec \<Rightarrow> json" where
  "json_of_dec x = JStr (str_dec x)"

definition order_params :: "bybit \<Rightarrow> order_request \<Rightarrow> (string \<times> json) list" where
  "order_params by rq =
    (let (ty, tif) = map_order_type rq; tp = rq_take_profit rq; sl = rq_stop_loss rq in
     [(''category'', JStr (by_category by)), (''symbol'', JStr (rq_symbol rq)), (''side'', JStr (side_value (rq_side rq))),
      (''orderType'', JStr ty), (''qty'', json_of_dec (rq_qty rq)), (''reduceOnly'', JBool (rq_reduce_only rq))] @
     given ''price'' json_of_dec (rq_price rq) @
     given ''timeInForce'' (\<lambda>t. JStr (time_in_force_value t)) tif @
     (if truthy (rq_client_order_id rq) then given ''orderLinkId'' JStr (rq_client_order_id rq) else []) @
     (if rq_reduce_only rq then []
      else given ''takeProfit'' json_of_dec tp @ given ''stopLoss'' json_of_dec sl @
        (if tp \<noteq> None \<or> sl \<noteq> None then [(''tpslMode'', JStr (rq_tpsl_mode rq))] else []) @
        (if tp \<noteq> None then [(''tpTriggerBy'', JStr (trigger_by_value (rq_tp_trigger_by rq)))] else []) @
        (if sl \<noteq> None then [(''slTriggerBy'', JStr (trigger_by_value (rq_sl_trigger_by rq)))] else [])))"

definition placed_of :: "order_request \<Rightarrow> json \<Rightarrow> exchange_order_result result" where
  "placed_of rq res =
    bind_res (json_get_or ''orderId'' (JStr []) res) (\<lambda>oid.
      if \<not> json_true oid then Inl (OrderError (''place_order returned no orderId for '' @ rq_symbol rq))
      else bind_res (json_get ''orderLinkId'' res) (\<lambda>link. bind_res (json_text oid) (\<lambda>o_id.
        bind_res (if json_true link then bind_res (json_text link) (\<lambda>s. Inr (Some s)) else Inr (rq_client_order_id rq))
          (\<lambda>cid. Inr \<lparr> xr_symbol = rq_symbol rq, xr_order_id = o_id, xr_client_order_id = cid, xr_status = NEW,
            xr_filled_qty = 0, xr_avg_fill_price = None \<rparr>))))"

definition place_order :: "'s http \<Rightarrow> bybit \<Rightarrow> order_request \<Rightarrow> ('s, exchange_order_result) action" where
  "place_order hp by rq =
    and_then (order_rest hp by ''place_order'' (order_params by rq)) (\<lambda>res. lift_res (placed_of rq res))"

definition cancel_order :: "'s http \<Rightarrow> bybit \<Rightarrow> string \<Rightarrow> string option \<Rightarrow> string option \<Rightarrow> ('s, unit) action" where
  "cancel_order hp by y oid cid =
    (case order_named by y oid cid of
       None \<Rightarrow> throw (OrderError ''cancel_order requires order_id or client_order_id'')
     | Some params \<Rightarrow>
         and_then (backoff hp by 1 0 (then_do (hp_order_permit hp) (tolerate is_order_missing_error
             (hp_call hp ''cancel_order'' params)))) (\<lambda>resp. and_then (lift_res (unwrap resp)) (\<lambda>_. ret ())))"

section \<open>Protection\<close>

definition stop_params :: "bybit \<Rightarrow> trading_stop_request \<Rightarrow> (string \<times> json) list" where
  "stop_params by rq =
    [(''category'', JStr (by_category by)), (''symbol'', JStr (tr_symbol rq)), (''tpslMode'', JStr (tr_tpsl_mode rq)),
     (''tpTriggerBy'', JStr (trigger_by_value (tr_tp_trigger_by rq))),
     (''slTriggerBy'', JStr (trigger_by_value (tr_sl_trigger_by rq))), (''positionIdx'', JInt (tr_position_idx rq))] @
    given ''takeProfit'' json_of_dec (tr_take_profit rq) @ given ''stopLoss'' json_of_dec (tr_stop_loss rq)"

definition set_trading_stop :: "'s http \<Rightarrow> bybit \<Rightarrow> trading_stop_request \<Rightarrow> ('s, unit) action" where
  "set_trading_stop hp by rq = and_then (rest hp by ''set_trading_stop'' (stop_params by rq)) (\<lambda>_. ret ())"

definition is_held_row :: "json \<Rightarrow> bool result" where
  "is_held_row row =
    bind_res (dec_field ''size'' 0 row) (\<lambda>sz.
      if sz \<le> 0 then Inr False
      else bind_res (json_get ''side'' row) (\<lambda>raw. Inr (raw \<in> {JStr ''Buy'', JStr ''Sell''})))"

definition tpsl_of :: "string \<Rightarrow> json \<Rightarrow> position_tpsl_state result" where
  "tpsl_of y res =
    bind_res (json_get_or ''list'' (JList []) res) (\<lambda>rows.
      if \<not> json_true rows then Inr \<lparr> ts_symbol = y, ts_take_profit = None, ts_stop_loss = None \<rparr>
      else bind_res (json_elements rows) (\<lambda>xs. bind_res (json_nth 0 rows) (\<lambda>first.
        bind_res (find_res is_held_row first xs) (\<lambda>item.
        bind_res (opt_dec_field ''takeProfit'' item) (\<lambda>tp. bind_res (opt_dec_field ''stopLoss'' item) (\<lambda>sl.
          Inr \<lparr> ts_symbol = y, ts_take_profit = tp, ts_stop_loss = sl \<rparr>))))))"

definition get_position_tpsl :: "'s http \<Rightarrow> bybit \<Rightarrow> string \<Rightarrow> ('s, position_tpsl_state) action" where
  "get_position_tpsl hp by y =
    and_then (rest hp by ''get_positions'' [(''category'', JStr (by_category by)), (''symbol'', JStr y)])
      (\<lambda>res. lift_res (tpsl_of y res))"

section \<open>The gateway of the bot\<close>

definition bybit_gateway ::
  "'g bot http \<Rightarrow> bybit \<Rightarrow> ('g bot, string) action \<Rightarrow> ('g bot \<Rightarrow> rat) \<Rightarrow> 'g gateway" where
  "bybit_gateway hp by new_uuid clock =
    \<lparr> gw_load_instruments = load_instruments hp by, gw_get_positions = get_positions hp by,
      gw_get_open_orders = get_open_orders hp by, gw_get_order = Some (get_order hp by),
      gw_set_leverage = set_leverage hp by, gw_place_order = place_order hp by, gw_cancel_order = cancel_order hp by,
      gw_set_trading_stop = set_trading_stop hp by, gw_get_position_tpsl = get_position_tpsl hp by,
      gw_uuid = new_uuid, gw_sleep = hp_sleep hp, gw_clock = clock \<rparr>"

text \<open>
  The market WebSocket of the exchange (\<^verbatim>\<open>packages/exchange/bybit_gateway.py\<close>,
  \<open>start_market_websocket\<close>): what its two callbacks make of a message and hand to the collector. The SDK
  calls them in any order with any messages; a row that cannot be read, or that the collector refuses, is
  skipped. Opening and closing the connection is the SDK's.
\<close>

text \<open>\<open>topic.split(".")[-1]\<close>.\<close>

definition after_last_dot :: "string \<Rightarrow> string" where
  "after_last_dot s = rev (takeWhile (\<lambda>c. c \<noteq> CHR ''.'') (rev s))"

text \<open>One row: whatever raises, in the reading or in the sink, is caught and the row is dropped.\<close>

definition kline_row :: "int \<Rightarrow> string \<Rightarrow> json \<Rightarrow> collector \<Rightarrow> collector" where
  "kline_row now y row co =
    (case bind_res (candle_of_message y row) (\<lambda>c. ingest_candle now c co) of Inl _ \<Rightarrow> co | Inr co' \<Rightarrow> co')"

definition kline_callback :: "int \<Rightarrow> json \<Rightarrow> collector \<Rightarrow> collector result" where
  "kline_callback now msg co =
    bind_res (bind_res (json_get_or ''topic'' (JStr []) msg) json_text) (\<lambda>topic.
    bind_res (json_list ''data'' msg) (\<lambda>rows. Inr (fold (kline_row now (after_last_dot topic)) rows co)))"

definition ticker_callback :: "int \<Rightarrow> json \<Rightarrow> collector \<Rightarrow> collector result" where
  "ticker_callback now msg co =
    bind_res (json_get_or ''data'' (JObj []) msg) (\<lambda>d.
      Inr (case ticker_of_item d of Inl _ \<Rightarrow> co | Inr t \<Rightarrow> ingest_ticker now t co))"

text \<open>A callback that raises ends in the SDK and changes nothing.\<close>

datatype stream_message = Kline_Message json | Ticker_Message json

definition on_message :: "int \<times> stream_message \<Rightarrow> collector \<Rightarrow> collector" where
  "on_message = (\<lambda>(now, m) co.
    case (case m of Kline_Message j \<Rightarrow> kline_callback now j co | Ticker_Message j \<Rightarrow> ticker_callback now j co) of
      Inl _ \<Rightarrow> co | Inr co' \<Rightarrow> co')"

section \<open>The stored history\<close>

lemma ingest_candle_ok: "ingest_candle now c co = Inr co' \<Longrightarrow> store_ok (co_store co) \<Longrightarrow> store_ok (co_store co')"
  by (auto simp: ingest_candle_def bind_res_eq_Inr intro: update_ok)

lemma kline_row_ok: "store_ok (co_store co) \<Longrightarrow> store_ok (co_store (kline_row now y row co))"
  by (auto simp: kline_row_def bind_res_eq_Inr intro: ingest_candle_ok split: sum.split)

lemma kline_rows_ok: "store_ok (co_store co) \<Longrightarrow> store_ok (co_store (fold (kline_row now y) rows co))"
  by (induction rows arbitrary: co) (simp_all add: kline_row_ok)

lemma ticker_same_store: "co_store (case r of Inl _ \<Rightarrow> co | Inr t \<Rightarrow> ingest_ticker now t co) = co_store co"
  by (simp add: ingest_ticker_def split: sum.split)

lemma callbacks_ok:
  "kline_callback now j co = Inr co' \<Longrightarrow> store_ok (co_store co) \<Longrightarrow> store_ok (co_store co')"
  "ticker_callback now j co = Inr co' \<Longrightarrow> store_ok (co_store co) \<Longrightarrow> store_ok (co_store co')"
  by (auto simp: kline_callback_def bind_res_eq_Inr intro: kline_rows_ok)
    (auto simp: ticker_callback_def bind_res_eq_Inr ticker_same_store)

lemma on_message_ok: "store_ok (co_store co) \<Longrightarrow> store_ok (co_store (on_message m co))"
  by (auto simp: on_message_def intro: callbacks_ok split: prod.split stream_message.split sum.split)

text \<open>C33. Whatever the exchange's stream sends, in whatever order, the candle history the bot decides on stays a
  history: open times strictly increase, only confirmed candles are in it and its bound is kept; late, repeated,
  incomplete and unreadable messages do not disturb it.\<close>

theorem stream_keeps_history:
  assumes "store_ok (co_store co)"
  shows "store_ok (co_store (fold on_message msgs co))"
  using assms by (induction msgs arbitrary: co) (simp_all add: on_message_ok)

definition ex_message :: stream_message where
  "ex_message = Kline_Message (JObj [(''topic'', JStr ''kline.1.BTCUSDT''), (''data'', JList [JObj
    [(''start'', JInt 60000), (''interval'', JStr ''1''), (''open'', JStr ''100''), (''high'', JStr ''110''), (''low'', JStr ''90''),
     (''close'', JStr ''105''), (''volume'', JStr ''7''), (''confirm'', JBool True)]])])"

lemma stream_keeps_history_witness:
  "store_ok (co_store (fold on_message [(0, ex_message), (0, Ticker_Message JNull)] (new_collector (new_candle_store 500))))"
  by (rule stream_keeps_history) (simp add: new_collector_def store_ok_new)

end
