(* ===== verification/Position_Facts.thy ===== *)
theory Position_Facts
  imports Position_Manager
begin

text \<open>
  Properties of the position manager. Every evaluation has one of six outcomes
  (\<open>eval_outcome\<close>); one case split over it replaces the branches of the code.
\<close>

section \<open>Outcomes of an evaluation\<close>

text \<open>The identity of a position: what no evaluation may change.\<close>

definition identity_of :: "position \<Rightarrow> string \<times> position_side \<times> dec \<times> position_source \<times> entry_mode option \<times> int \<times> dec" where
  "identity_of p = (p_symbol p, p_side p, p_qty p, p_source p, p_entry_mode p, p_opened_at p, p_avg_entry_price p)"

text \<open>The rest of what an order-relevant reader sees: status, exit reason, stop, partial flag.\<close>

definition order_view :: "position \<Rightarrow> position_status \<times> exit_reason option \<times> dec option \<times> bool" where
  "order_view p = (p_status p, p_exit_reason p, p_stop_loss_price p, p_partial_tp_done p)"

definition all_events :: "position_action list \<Rightarrow> bool" where
  "all_events as \<longleftrightarrow> (\<forall>a\<in>set as. pa_type a = SCOUT_EVENT)"

lemma all_events_simps [simp]:
  "all_events []" "all_events (a # as) \<longleftrightarrow> pa_type a = SCOUT_EVENT \<and> all_events as"
  "all_events (as @ bs) \<longleftrightarrow> all_events as \<and> all_events bs"
  by (auto simp: all_events_def)

text \<open>What a reducing action may ask for: a configured share of the quantity.\<close>

definition reduce_fractions :: "app_config \<Rightarrow> dec set" where
  "reduce_fractions cfg = {sc_defensive_reduce_fraction (scout_cfg cfg), 1 / 2,
    sgb_reduce_fraction (se_breakout_confirm (cfg_stagnation_exit cfg))}"

inductive eval_outcome ::
  "app_config \<Rightarrow> dec \<Rightarrow> position \<Rightarrow> position \<times> position_action list \<Rightarrow> bool" for cfg r p where
  watch: "identity_of p' = identity_of p \<Longrightarrow> order_view p' = order_view p \<Longrightarrow> all_events evs \<Longrightarrow>
    eval_outcome cfg r p (p', evs)"
| partial: "identity_of p' = identity_of p \<Longrightarrow>
    order_view p' = (p_status p, p_exit_reason p, p_stop_loss_price p, True) \<Longrightarrow>
    \<not> p_partial_tp_done p \<Longrightarrow> ps_partial_take_profit_r (cfg_position cfg) \<le> r \<Longrightarrow> all_events evs \<Longrightarrow>
    pa_type a = PARTIAL_TP \<Longrightarrow>
    pa_qty a = Some (dmul (p_qty p) (ps_partial_take_profit_fraction (cfg_position cfg))) \<Longrightarrow>
    eval_outcome cfg r p (p', evs @ [a])"
| reduce: "identity_of p' = identity_of p \<Longrightarrow> order_view p' = order_view p \<Longrightarrow> all_events evs \<Longrightarrow>
    pa_type a = REDUCE \<Longrightarrow> f \<in> reduce_fractions cfg \<Longrightarrow> pa_qty a = Some (dmul (p_qty p) f) \<Longrightarrow>
    eval_outcome cfg r p (p', evs @ [a])"
| exit: "identity_of p' = identity_of p \<Longrightarrow>
    order_view p' = (CLOSING, Some why, p_stop_loss_price p, p_partial_tp_done p) \<Longrightarrow> all_events evs \<Longrightarrow>
    pa_type a = EXIT \<Longrightarrow> pa_qty a = Some (p_qty p) \<Longrightarrow> pa_reason a = Some why \<Longrightarrow>
    eval_outcome cfg r p (p', evs @ [a])"
| trail: "identity_of p' = identity_of p \<Longrightarrow>
    order_view p' = (p_status p, p_exit_reason p, Some s, p_partial_tp_done p) \<Longrightarrow>
    tighter (p_side p) (p_stop_loss_price p) (Some s) \<Longrightarrow> p_stop_loss_price p \<noteq> Some s \<Longrightarrow> all_events evs \<Longrightarrow>
    eval_outcome cfg r p (p', evs @ [trail_action s])"
| tighten: "identity_of p' = identity_of p \<Longrightarrow> order_view p' = order_view p \<Longrightarrow> all_events evs \<Longrightarrow>
    p_entry_mode p = Some RETEST_CONFIRM \<Longrightarrow>
    eval_outcome cfg r p (p', evs @ [trail_action (tighten_stop p)])"

text \<open>An outcome depends on the position only through its identity and order view.\<close>

lemma eval_outcome_same:
  assumes "eval_outcome cfg r q x" "identity_of q = identity_of p" "order_view q = order_view p"
  shows "eval_outcome cfg r p x"
proof -
  have eqs: "p_side q = p_side p" "p_qty q = p_qty p" "p_entry_mode q = p_entry_mode p"
    "p_status q = p_status p" "p_exit_reason q = p_exit_reason p" "p_stop_loss_price q = p_stop_loss_price p"
    "p_partial_tp_done q = p_partial_tp_done p" "tighten_stop q = tighten_stop p"
    using assms(2,3) by (simp_all add: identity_of_def order_view_def tighten_stop_def)
  show ?thesis
    using assms(1)
    by (cases rule: eval_outcome.cases) (use assms(2,3) in \<open>auto simp: eqs intro: eval_outcome.intros\<close>)
qed

lemma eval_outcome_prefix:
  "eval_outcome cfg r p (p', acts) \<Longrightarrow> all_events evs \<Longrightarrow> eval_outcome cfg r p (p', evs @ acts)"
  by (erule eval_outcome.cases)
    (auto simp flip: append_assoc intro: eval_outcome.intros)

lemma exit_outcome_eval:
  assumes "identity_of q = identity_of p" "order_view q = order_view p" "all_events evs"
  shows "eval_outcome cfg r p (fst (exit_position q why), evs @ [snd (exit_position q why)])"
  using assms
  by (intro eval_outcome.exit [where why = why])
    (simp_all add: exit_position_def identity_of_def order_view_def)

section \<open>The parts\<close>

lemma trailing_update_outcome:
  "eval_outcome cfg r p (trailing_update cfg b max_r cr reason p)"
proof (cases "ratchet p (trail_stop cfg p (bi_atr b) max_r)")
  case None
  then show ?thesis by (simp add: trailing_update_def eval_outcome.watch)
next
  case (Some s)
  then have t: "tighter (p_side p) (p_stop_loss_price p) (Some s)" by (rule ratchet_tighter)
  have ne: "p_stop_loss_price p \<noteq> Some s" using Some by (auto simp: ratchet_def split: option.splits if_splits)
  show ?thesis
  proof (cases "runner_trailing_update_allowed cfg p s (bi_atr b) (bi_now b)")
    case False
    then show ?thesis using Some by (simp add: trailing_update_def eval_outcome.watch)
  next
    case True
    let ?p = "record_runner_trailing_update s (bi_now b) (p\<lparr> p_stop_loss_price := Some s \<rparr>)"
    let ?ev = "if p_runner_mode_active ?p then [runner_event b ?p ''RUNNER_TRAILING_UPDATED'' cr max_r
        (p_stop_loss_price p) (Some s) reason] else []"
    have eq: "trailing_update cfg b max_r cr reason p = (?p, ?ev @ [trail_action s])"
      using Some True by (simp add: trailing_update_def Let_def)
    show ?thesis
      unfolding eq using t ne
      by (intro eval_outcome.trail)
        (simp_all add: record_runner_trailing_update_def identity_of_def order_view_def runner_event_def)
  qed
qed

lemma stagnation_eval:
  assumes "stagnation_action cfg m p max_r cr price atr = (m', p', Some a)"
  shows "eval_outcome cfg r p (p', [a])"
proof -
  have "stagnation_outcome cfg m p max_r (m', p', Some a)"
    using stagnation_action_outcome [of cfg m p max_r cr price atr] assms by simp
  then show ?thesis
  proof cases
    case exit
    then show ?thesis using exit_outcome_eval [of p p "[]" cfg r STAGNATION] by simp
  next
    case reduce
    then show ?thesis
      using eval_outcome.reduce [of p p "[]" a "sgb_reduce_fraction (se_breakout_confirm (cfg_stagnation_exit cfg))" cfg r]
      by (simp add: stagnation_reduce_action_def Let_def round_qty_def reduce_fractions_def)
  next
    case tighten
    then show ?thesis using eval_outcome.tighten [of p p "[]" cfg r] by simp
  next
    case delay
    then show ?thesis by (simp add: eval_outcome.watch)
  qed
qed

lemma stagnation_none:
  assumes "stagnation_action cfg m p max_r cr price atr = (m', p', None)" shows "p' = p"
  using stagnation_action_outcome [of cfg m p max_r cr price atr] assms
  by (auto elim: stagnation_outcome.cases)

lemma scenario_eval:
  assumes "scenario_action cfg b cr m p = (m', p', Some a)"
  shows "eval_outcome cfg r p (p', [a])"
proof -
  have "scenario_outcome m p cr (m', p', Some a)"
    using scenario_action_outcome [of m p cr cfg b] assms by simp
  then show ?thesis
  proof cases
    case event
    then show ?thesis by (simp add: eval_outcome.watch)
  next
    case (reduce b)
    then show ?thesis
      using eval_outcome.reduce [of p p "[]" a "1 / 2" cfg r]
      by (simp add: scenario_reduce_action_def round_qty_def reduce_fractions_def)
  next
    case exit
    then show ?thesis using exit_outcome_eval [of p p "[]" cfg r SCENARIO_INVALID] by simp
  qed
qed

lemma scenario_none:
  assumes "scenario_action cfg b cr m p = (m', p', None)" shows "p' = p"
  using scenario_action_outcome [of m p cr cfg b] assms by (auto elim: scenario_outcome.cases)

lemma manage_scenario_outcome:
  assumes "all_events acts"
  shows "eval_outcome cfg r p (snd (manage_scenario cfg b max_r cr acts m p))"
proof (cases "p_runner_mode_active p")
  case True
  obtain m1 i where i: "scenario_invalid b False m p = (m1, i)" by (meson surj_pair)
  have ex: "eval_outcome cfg r p (fst (exit_position p RUNNER_SCENARIO_INVALID),
      (acts @ [runner_event b p ''RUNNER_SCENARIO_INVALID'' cr max_r None None (Some ''RUNNER_SCENARIO_INVALID'')]) @
      [snd (exit_position p RUNNER_SCENARIO_INVALID)])"
    using assms by (intro exit_outcome_eval) (simp_all add: runner_event_def)
  show ?thesis
    using True i ex eval_outcome_prefix [OF _ assms, of cfg r p "fst (trailing_update cfg b max_r cr None p)"
        "snd (trailing_update cfg b max_r cr None p)"] trailing_update_outcome [of cfg r p b max_r cr None]
      eval_outcome.watch [of p p acts cfg r] assms
    by (simp add: manage_scenario_def case_prod_beta Let_def)
next
  case False
  obtain m1 p1 sc where sc: "scenario_action cfg b cr m p = (m1, p1, sc)" by (metis surj_pair)
  show ?thesis
  proof (cases sc)
    case (Some a)
    then show ?thesis
      using False sc eval_outcome_prefix [OF scenario_eval assms] by (simp add: manage_scenario_def)
  next
    case None
    then have p1: "p1 = p" using sc scenario_none by simp
    obtain m2 p2 st where st: "stagnation_action cfg m1 p max_r cr (bi_price b) (bi_atr b) = (m2, p2, st)"
      by (metis surj_pair)
    show ?thesis
    proof (cases st)
      case (Some a)
      then show ?thesis
        using False sc \<open>sc = None\<close> p1 st eval_outcome_prefix [OF stagnation_eval assms]
        by (simp add: manage_scenario_def)
    next
      case None
      then have p2: "p2 = p" using st stagnation_none by simp
      have "eval_outcome cfg r p (fst (trailing_update cfg b max_r cr None p),
          acts @ snd (trailing_update cfg b max_r cr None p))"
        using trailing_update_outcome [of cfg r p b max_r cr None] by (intro eval_outcome_prefix [OF _ assms]) simp
      then show ?thesis
        using False sc \<open>sc = None\<close> p1 st None p2 eval_outcome.watch [of p p acts cfg r] assms
        by (simp add: manage_scenario_def case_prod_beta)
    qed
  qed
qed

lemma manage_general_outcome:
  assumes ev: "all_events acts"
  shows "eval_outcome cfg r p (snd (manage_general cfg b max_r r acts m p))"
proof -
  let ?c = "cfg_position cfg"
  let ?q = "p\<lparr> p_trailing_active := True \<rparr>"
  let ?stop = "effective_stop ?q (trail_stop cfg ?q (bi_atr b) max_r)"
  have q: "identity_of ?q = identity_of p" "order_view ?q = order_view p"
    by (simp_all add: identity_of_def order_view_def)
  consider (partial) "\<not> p_partial_tp_done p" "ps_partial_take_profit_r ?c \<le> r"
    | (breach) "p_partial_tp_done p \<or> \<not> ps_partial_take_profit_r ?c \<le> r" "ps_trailing_start_r ?c \<le> max_r"
        "stop_breached ?q (bi_price b) ?stop"
    | (go) "p_partial_tp_done p \<or> \<not> ps_partial_take_profit_r ?c \<le> r" "ps_trailing_start_r ?c \<le> max_r"
        "\<not> stop_breached ?q (bi_price b) ?stop"
    | (idle) "p_partial_tp_done p \<or> \<not> ps_partial_take_profit_r ?c \<le> r" "\<not> ps_trailing_start_r ?c \<le> max_r"
    by blast
  then show ?thesis
  proof cases
    case partial
    then show ?thesis
      using ev by (simp add: manage_general_def Let_def, intro eval_outcome.partial)
        (simp_all add: identity_of_def order_view_def round_qty_def)
  next
    case breach
    let ?ev = "if p_runner_mode_active ?q then [runner_event b ?q ''RUNNER_TRAILING_STOP'' r max_r
        (p_stop_loss_price ?q) (Some ?stop) (Some ''RUNNER_TRAILING_STOP'')] else []"
    let ?why = "if p_runner_mode_active ?q then RUNNER_TRAILING_STOP else TRAILING_STOP"
    have "eval_outcome cfg r p (fst (exit_position ?q ?why), (acts @ ?ev) @ [snd (exit_position ?q ?why)])"
      using ev by (intro exit_outcome_eval q) (simp add: runner_event_def)
    moreover have "manage_general cfg b max_r r acts m p =
        (m, fst (exit_position ?q ?why), acts @ ?ev @ [snd (exit_position ?q ?why)])"
      unfolding manage_general_def Let_def using breach
      by (simp only: if_P if_not_P de_Morgan_conj not_not case_prod_beta if_True if_False simp_thms)
    ultimately show ?thesis by simp
  next
    case go
    then have "manage_general cfg b max_r r acts m p = manage_scenario cfg b max_r r acts m ?q"
      unfolding manage_general_def Let_def by auto
    then show ?thesis using eval_outcome_same [OF manage_scenario_outcome [OF ev] q] by simp
  next
    case idle
    then have "manage_general cfg b max_r r acts m p = manage_scenario cfg b max_r r acts m p"
      unfolding manage_general_def Let_def by auto
    then show ?thesis using manage_scenario_outcome [OF ev] by simp
  qed
qed

section \<open>Every evaluation\<close>

lemma scout_eval:
  assumes "scout_outcome cfg p (p', acts, g)"
  shows "eval_outcome cfg r p (p', acts)"
    and "g \<Longrightarrow> identity_of p' = identity_of p \<and> order_view p' = order_view p \<and> all_events acts"
proof -
  have same: "identity_of p' = identity_of p \<and> order_view p' = order_view p"
    if "forget_scout p' = forget_scout p"
    using forget_scout_frame [OF that] by (simp add: identity_of_def order_view_def)
  show "eval_outcome cfg r p (p', acts)"
    using assms
  proof cases
    case observe
    then show ?thesis using same by (intro eval_outcome.watch) (simp_all add: all_events_def)
  next
    case (reduce a)
    then show ?thesis
      using same eval_outcome.reduce [of p' p "[]" a "sc_defensive_reduce_fraction (scout_cfg cfg)" cfg r]
      by (simp add: reduce_fractions_def)
  next
    case (exit ev a)
    have "identity_of p' = identity_of p" "order_view p' = (CLOSING, Some STAGNATION, p_stop_loss_price p, p_partial_tp_done p)"
      using forget_scout_frame [OF exit(3)] by (simp_all add: identity_of_def order_view_def exit_position_def)
    then show ?thesis
      using exit eval_outcome.exit [of p' p STAGNATION "[ev]" a cfg r] by simp
  qed
  assume g
  with assms have "forget_scout p' = forget_scout p \<and> (\<forall>a\<in>set acts. pa_type a = SCOUT_EVENT)"
    by (cases rule: scout_outcome.cases) simp_all
  with same show "identity_of p' = identity_of p \<and> order_view p' = order_view p \<and> all_events acts"
    by (simp add: all_events_def)
qed

lemma runner_eval:
  assumes "runner_state_actions cfg b max_r cr m p = (m', p', acts)"
  shows "identity_of p' = identity_of p \<and> order_view p' = order_view p \<and> all_events acts"
  using runner_state_frame(2) [OF assms] forget_runner_frame [OF runner_state_frame(1) [OF assms]]
  by (simp add: identity_of_def order_view_def all_events_def)

lemma evaluate_outcome:
  "eval_outcome cfg (r_multiple p (bi_price b)) p (snd (evaluate cfg b m p))"
proof (cases "is_bot_managed p \<and> p_status p = ACTIVE")
  case False
  then show ?thesis by (auto simp: evaluate_def intro: eval_outcome.watch)
next
  case True
  let ?p = "update_extremes (bi_price b) (bi_candle b) (advance_bar_counter (bi_candle b) p)"
  let ?r = "r_multiple p (bi_price b)"
  let ?max = "max (get_or (pm_max_r m) (p_symbol p) 0) ?r"
  let ?m = "m\<lparr> pm_max_r := (pm_max_r m)(p_symbol p \<mapsto> ?max) \<rparr>"
  have same: "identity_of ?p = identity_of p" "order_view ?p = order_view p"
    by (simp_all add: identity_of_def order_view_def) (simp add: update_extremes_def advance_bar_counter_def Let_def split: option.split)
  obtain m2 p2 pre g where sc: "scout_management_action cfg b ?max ?m ?p = (m2, p2, pre, g)"
    by (metis surj_pair)
  have scout: "scout_outcome cfg ?p (p2, pre, g)"
    using scout_management_outcome [of cfg ?p b ?max ?m] sc by simp
  obtain m3 p3 evs where ru: "runner_state_actions cfg b ?max ?r m2 p2 = (m3, p3, evs)"
    by (metis surj_pair)
  have eq: "evaluate cfg b m p =
      (if held_too_long cfg ?p (bi_now b)
       then (?m, fst (exit_position ?p MAX_HOLDING_TIME), [snd (exit_position ?p MAX_HOLDING_TIME)])
       else if \<not> g then (m2, p2, pre) else manage_general cfg b ?max ?r (pre @ evs) m3 p3)"
    unfolding evaluate_def Let_def using True by (simp add: case_prod_beta sc ru)
  show ?thesis
  proof (cases "held_too_long cfg ?p (bi_now b)")
    case True
    then show ?thesis using exit_outcome_eval [OF same, of "[]"] by (simp add: eq)
  next
    case False
    show ?thesis
    proof (cases g)
      case True
      have "identity_of p3 = identity_of p" "order_view p3 = order_view p" "all_events (pre @ evs)"
        using scout_eval(2) [OF scout True] runner_eval [OF ru] same by auto
      then show ?thesis
        using False True eval_outcome_same [OF manage_general_outcome] by (simp add: eq)
    next
      case False
      have "eval_outcome cfg ?r ?p (p2, pre)" by (rule scout_eval(1) [OF scout])
      then show ?thesis
        using False \<open>\<not> held_too_long cfg ?p (bi_now b)\<close> eval_outcome_same [OF _ same] by (simp add: eq)
    qed
  qed
qed

end
