(* ===== verification/Position_Events.thy ===== *)
theory Position_Events
  imports Position_Facts Effects
begin

text \<open>
  Every event type the position manager puts into an action is a member of the taxonomy, so the
  trading service's \<^verbatim>\<open>BotEventType(action.event_type)\<close> never raises.
\<close>

definition known_name :: "string \<Rightarrow> bool" where
  "known_name e \<longleftrightarrow> e \<in> set (map snd event_type_values)"

definition known_action :: "position_action \<Rightarrow> bool" where
  "known_action a = (case pa_event_type a of None \<Rightarrow> True | Some e \<Rightarrow> known_name e)"

lemma known_type: "known_name e \<Longrightarrow> \<exists>t. bot_event_type_of e = Inr t"
  by (auto simp: known_name_def bot_event_type_of_def event_type_values_def)

lemma known_actionD: "known_action a \<Longrightarrow> pa_event_type a = Some e \<Longrightarrow> \<exists>t. bot_event_type_of e = Inr t"
  unfolding known_action_def by (simp add: known_type)

lemma known_names [simp]:
  "known_name ''SCOUT_WARNING_STARTED''" "known_name ''SCOUT_WARNING_RECOVERED''"
  "known_name ''SCOUT_CONFIRMED''" "known_name ''SCOUT_ACTIVATED''" "known_name ''SCOUT_DEFENSIVE_REDUCE''"
  "known_name ''SCOUT_CATASTROPHIC_REDUCE''" "known_name ''SCOUT_INVALIDATED''"
  "known_name ''SCENARIO_INVALID_REDUCE''" "known_name ''STAGNATION_REDUCE''"
  "known_name ''STAGNATION_DELAYED_BY_ENTRY_MODE''" "known_name ''RUNNER_MODE_ACTIVATED''"
  "known_name ''RUNNER_TREND_STRENGTH_CHANGED''" "known_name ''RUNNER_TRAILING_UPDATED''"
  "known_name ''RUNNER_TRAILING_STOP''" "known_name ''RUNNER_SCENARIO_INVALID''"
  by (simp_all add: known_name_def event_type_values_def)

lemma known_plain [simp]:
  "known_action (plain_action t)" "known_action (trail_action s)"
  "known_action (snd (exit_position p why))"
  "known_action ((plain_action t)\<lparr> pa_qty := q, pa_reason := w \<rparr>)"
  by (simp_all add: known_action_def plain_action_def trail_action_def exit_position_def)

lemma known_exit: "exit_position p why = (p', a) \<Longrightarrow> known_action a"
  using known_plain(3) [of p why] by simp

lemma known_event [simp]: "known_action (event_action e d) \<longleftrightarrow> known_name e"
  by (simp add: known_action_def event_action_def plain_action_def)

lemma known_stagnation:
  assumes "stagnation_action cfg m p max_r cr price atr = (m', p', Some a)" shows "known_action a"
proof -
  have "stagnation_outcome cfg m p max_r (m', p', Some a)"
    using stagnation_action_outcome [of cfg m p max_r cr price atr] assms by simp
  then show ?thesis
  proof cases
    case exit
    then show ?thesis using known_exit by blast
  next
    case reduce
    then show ?thesis
      by (simp add: known_action_def stagnation_reduce_action_def Let_def plain_action_def)
  qed simp_all
qed

lemma known_scenario:
  assumes "scenario_action cfg b cr m p = (m', p', Some a)" shows "known_action a"
proof (cases "pm_scenario_recovery m (p_symbol p)")
  case (Some w)
  then show ?thesis
    using assms known_exit
    by (auto simp: scenario_action_def scenario_recovery_step_def Let_def split: if_splits prod.splits)
next
  case None
  obtain m1 i where i: "scenario_invalid b True m p = (m1, i)" by (meson surj_pair)
  obtain m2 c where c: "scout_scenario_invalid_confirmed m1 p (bi_candle b) = (m2, c)" by (meson surj_pair)
  have red: "known_action (scenario_reduce_action b p cr)"
    by (simp add: known_action_def scenario_reduce_action_def plain_action_def)
  have del: "known_action (delayed_event b p cr r)" for r
    by (simp add: delayed_event_def)
  show ?thesis
    using assms None i c red del
    by (auto simp: scenario_action_def scenario_invalid_step_def Let_def split: if_splits)
qed

lemma known_scout_event [simp]:
  "known_action (scout_event b k p e r) \<longleftrightarrow> known_name e"
  by (simp add: scout_event_def)

lemma known_runner_event [simp]:
  "known_action (runner_event b p e cr mr o' n r) \<longleftrightarrow> known_name e"
  by (simp add: runner_event_def)

lemma known_reduce:
  assumes "scout_reduce_action cfg b k p reason er e = (p', a)" "known_name e"
  shows "known_action a"
  using assms by (auto simp: scout_reduce_action_def Let_def known_action_def plain_action_def)

lemma known_pending:
  assumes "scout_pending_action cfg b k max_r m p = (m', p', acts, g)" shows "list_all known_action acts"
proof -
  obtain m1 w where w: "(if scout_bars_since_entry p < sc_grace_bars (scout_cfg cfg) then (m, None)
      else scout_weakness_reason cfg m p k (bi_snapshot_1m b) (bi_volume_ratio b)) = (m1, w)"
    by (meson surj_pair)
  obtain q a where q: "scout_reduce_action cfg b k p (the w) SCOUT_DEFENSIVE_REDUCE ''SCOUT_DEFENSIVE_REDUCE'' = (q, a)"
    by (meson surj_pair)
  have a: "known_action a" by (rule known_reduce [OF q]) simp
  obtain m2 p2 st where st: "stagnation_action cfg m1 p max_r (r_multiple p (bi_price b)) (bi_price b) (bi_atr b) = (m2, p2, st)"
    by (metis surj_pair)
  have x: "known_action y" if "st = Some y" for y using known_stagnation st that by blast
  show ?thesis
    using assms a x unfolding scout_pending_action_def Let_def w prod.case q st
    by (auto simp: split: if_splits option.splits)
qed

lemma known_warning:
  assumes "scout_warning_action cfg b k p = Some (p', acts)" shows "list_all known_action acts"
proof -
  obtain q a where q: "scout_reduce_action cfg b k p (or_str (p_scout_warning_reason p) ''SCOUT_WARNING_NOT_RECOVERED'')
      SCOUT_DEFENSIVE_REDUCE ''SCOUT_DEFENSIVE_REDUCE'' = (q, a)"
    by (meson surj_pair)
  have a: "known_action a" by (rule known_reduce [OF q]) simp
  show ?thesis
    using assms a unfolding scout_warning_action_def Let_def q prod.case
    by (auto simp: split: if_splits)
qed

lemma known_open:
  assumes "scout_open_action cfg b k max_r m p = (m', p', acts, g)" shows "list_all known_action acts"
proof -
  obtain q a where q: "scout_reduce_action cfg b k p
      (the (scout_catastrophic_opposite_reason cfg p k (bi_volume_ratio b) (bi_atr b)))
      SCOUT_CATASTROPHIC_REDUCE ''SCOUT_CATASTROPHIC_REDUCE'' = (q, a)"
    by (meson surj_pair)
  have a: "known_action a" by (rule known_reduce [OF q]) simp
  show ?thesis
    using assms a unfolding scout_open_action_def Let_def q prod.case
    by (auto dest: known_pending known_warning split: if_splits option.splits)
qed

lemma known_scout:
  assumes "scout_management_action cfg b max_r m p = (m', p', acts, g)" shows "list_all known_action acts"
  using assms known_open
  by (auto simp: scout_management_action_def Let_def split: if_splits option.splits)

lemma known_runner_state:
  assumes "runner_state_actions cfg b max_r cr m p = (m', p', acts)" shows "list_all known_action acts"
  using assms by (auto simp: runner_state_actions_def Let_def split: if_splits prod.splits)

lemma known_trailing: "list_all known_action (snd (trailing_update cfg b max_r cr reason p))"
  by (simp add: trailing_update_def Let_def split: option.split)

lemma known_manage_scenario:
  assumes "list_all known_action acts"
  shows "list_all known_action (snd (snd (manage_scenario cfg b max_r cr acts m p)))"
proof -
  have ex: "known_action (snd (exit_position p why))" for why by simp
  show ?thesis
    using assms known_trailing known_scenario known_stagnation ex
    by (auto simp: manage_scenario_def Let_def case_prod_beta split: option.split)
      (metis prod.collapse)+
qed

lemma known_manage_general:
  assumes "list_all known_action acts"
  shows "list_all known_action (snd (snd (manage_general cfg b max_r cr acts m p)))"
  using assms known_manage_scenario
  by (auto simp: manage_general_def Let_def case_prod_beta)

lemma known_evaluate:
  assumes "evaluate cfg b m p = (m', p', acts)" shows "list_all known_action acts"
proof -
  let ?p = "update_extremes (bi_price b) (bi_candle b) (advance_bar_counter (bi_candle b) p)"
  let ?r = "r_multiple ?p (bi_price b)"
  let ?max = "max (get_or (pm_max_r m) (p_symbol p) 0) ?r"
  let ?m = "m\<lparr> pm_max_r := (pm_max_r m)(p_symbol p \<mapsto> ?max) \<rparr>"
  obtain m2 p2 pre g where sc: "scout_management_action cfg b ?max ?m ?p = (m2, p2, pre, g)"
    by (metis surj_pair)
  obtain m3 p3 evs where ru: "runner_state_actions cfg b ?max ?r m2 p2 = (m3, p3, evs)"
    by (metis surj_pair)
  have "list_all known_action (pre @ evs)" using known_scout [OF sc] known_runner_state [OF ru] by simp
  from known_manage_general [OF this, of cfg b ?max ?r m3 p3] show ?thesis
    using assms known_scout [OF sc] known_exit
    unfolding evaluate_def Let_def sc ru prod.case
    by (auto split: if_splits prod.splits)
qed

lemma known_activate:
  assumes "activate_runner_after_partial_tp cfg b m p = (m', p', acts)" shows "list_all known_action acts"
  using assms known_trailing
  by (auto simp: activate_runner_after_partial_tp_def Let_def case_prod_beta split: if_splits)

end
