(* ===== verification/Trading_Manage_Facts.thy ===== *)
theory Trading_Manage_Facts
  imports Trading_Manage Position_Events
begin

text \<open>
  What a management cycle guarantees: it touches only its own symbol; a partial take-profit is taken once and
  the stop stays at its floor; and in PAPER mode the steps of a cycle raise nothing (publishing and logging
  apart, which the model takes to succeed) and keep the position and the simulated exchange in agreement.
\<close>

section \<open>Only the symbol managed\<close>

text \<open>The ports of a service that manages positions: an executor, and a protection manager that changes
  no position but the one it is called for.\<close>

locale manager_ports = executor io for io :: "'x ports" +
  assumes sync_only: "only.keeps y (po_sync_stop_loss io y)"

lemma set_pos_only: "p_symbol p = y \<Longrightarrow> touches_only y s (set_pos p s)"
  using registry_ok_put [of "sv_state s" p]
  by (auto simp: touches_only_def set_pos_def put_position_updates updates_ok_def updates_in_flight_def pos_of_def)

lemma upd_pos_only: "(\<And>p. p_symbol (f p) = p_symbol p) \<Longrightarrow> touches_only y s (upd_pos y f s)"
proof -
  assume f: "\<And>p. p_symbol (f p) = p_symbol p"
  show ?thesis
  proof (cases "registry_ok (sv_state s)")
    case True
    show ?thesis
    proof (cases "pos_of s y")
      case None
      then show ?thesis by (simp add: upd_pos_def only.R_refl)
    next
      case (Some p)
      then have "p_symbol (f p) = y" using f get_position_symbol [OF True] by (simp add: pos_of_def)
      then show ?thesis using Some by (simp add: upd_pos_def set_pos_only)
    qed
  qed (simp add: touches_only_def)
qed

lemma state_same_only: "sv_state s' = sv_state s \<Longrightarrow> touches_only y s s'"
  by (simp add: touches_only_def pos_of_def)

lemma touches_only_emit [simp]: "touches_only y s (emit e t) = touches_only y s t"
  by (simp add: touches_only_def pos_of_def)

lemma touches_only_log [simp]: "touches_only y s (log_entry e t) = touches_only y s t"
  by (simp add: touches_only_def pos_of_def)

lemma emit_scout_only: "only.keeps y (emit_scout_action z a)"
  unfolding emit_scout_action_def
  by (intro only.keeps_option only.keeps_and_then only.keeps_lift only.keeps_ret only.keeps_modify)
    (simp add: only.R_refl)

lemma evaluate_symbol: "evaluate cfg b m p = (m', p', acts) \<Longrightarrow> p_symbol p' = p_symbol p"
  using evaluate_outcome [of cfg p b m]
  by (auto elim!: eval_outcome.cases simp: identity_of_def)

lemma trailing_frame:
  "p_symbol (fst (trailing_update cfg b mr cr w p)) = p_symbol p \<and>
   p_status (fst (trailing_update cfg b mr cr w p)) = p_status p \<and>
   p_qty (fst (trailing_update cfg b mr cr w p)) = p_qty p \<and>
   p_side (fst (trailing_update cfg b mr cr w p)) = p_side p"
  by (simp add: trailing_update_def record_runner_trailing_update_def Let_def split: option.split)

lemma activate_frame:
  "activate_runner_after_partial_tp cfg b m p = (m', p', acts) \<Longrightarrow>
    p_symbol p' = p_symbol p \<and> p_status p' = p_status p \<and> p_qty p' = p_qty p \<and> p_side p' = p_side p"
  unfolding activate_runner_after_partial_tp_def Let_def
  by (auto simp: case_prod_beta trailing_frame split: if_splits)

lemma pos_symbol: "registry_ok (sv_state s) \<Longrightarrow> pos_of s y = Some p \<Longrightarrow> p_symbol p = y"
  using get_position_symbol by (simp add: pos_of_def)

lemma only_unless_registry: "(registry_ok (sv_state s) \<Longrightarrow> touches_only y s s') \<Longrightarrow> touches_only y s s'"
  by (auto simp: touches_only_def)

context manager_ports
begin

lemma sync_trailing_only: "only.keeps y (sync_trailing_stop io y a)"
proof (rule only.keepsI)
  fix s s' r
  assume run: "sync_trailing_stop io y a s = (s', r)"
  obtain s1 r1 where c: "po_sync_stop_loss io y s = (s1, r1)" by fastforce
  have s1: "touches_only y s s1" by (rule only.keepsD [OF sync_only c])
  have f: "touches_only y s (upd_pos y f s1)" if "\<And>p. p_symbol (f p) = p_symbol p" for f
    by (rule only.R_trans [OF s1]) (rule upd_pos_only [OF that])
  show "touches_only y s s'"
    using run s1 f
    by (auto simp: sync_trailing_stop_def Let_def c and_then_def only.R_refl split: if_splits option.splits sum.splits)
qed

lemma close_whole_only: "only.keeps y (close_whole io cfg ck bid ask y w)"
proof (rule only.keepsI, rule only_unless_registry)
  fix s s' r
  assume run: "close_whole io cfg ck bid ask y w s = (s', r)" and reg: "registry_ok (sv_state s)"
  show "touches_only y s s'"
  proof (cases "pos_of s y")
    case (Some p)
    then show ?thesis
      using run close_pos_only [of p cfg ck "p_qty p" w bid ask True False, THEN only.keepsD, of s s' r]
        pos_symbol [OF reg] by (simp add: close_whole_def)
  qed (use run in \<open>simp add: close_whole_def only.R_refl\<close>)
qed

lemma close_part_only: "only.keeps y (close_part io cfg ck bid ask y q w pl)"
proof (rule only.keepsI, rule only_unless_registry)
  fix s s' r
  assume run: "close_part io cfg ck bid ask y q w pl s = (s', r)" and reg: "registry_ok (sv_state s)"
  show "touches_only y s s'"
  proof (cases "\<exists>p x. pos_of s y = Some p \<and> q = Some x")
    case True
    then obtain p x where px: "pos_of s y = Some p" "q = Some x" by blast
    then show ?thesis
      using run close_pos_only [of p cfg ck x w bid ask False pl, THEN only.keepsD, of s s' r]
        pos_symbol [OF reg px(1)] by (simp add: close_part_def)
  next
    case False
    then have "s' = s" using run by (auto simp: close_part_def split: option.splits)
    then show ?thesis by (simp add: only.R_refl)
  qed
qed

lemma start_runner_only: "only.keeps y (start_runner io cfg b y q)"
proof (rule only.keepsI, rule only_unless_registry)
  fix s s' r
  assume run: "start_runner io cfg b y q s = (s', r)" and reg: "registry_ok (sv_state s)"
  have loop: "only.keeps y (and_then (for_each (runner_followup io y) acts) (\<lambda>_. ret z))" for acts z
    unfolding runner_followup_def
    by (intro only.keeps_and_then only.keeps_for_each only.keeps_ret only.keeps_if emit_scout_only sync_trailing_only)
  show "touches_only y s s'"
  proof (cases "\<exists>p. pos_of s y = Some p \<and> p_status p \<noteq> CLOSED \<and> p_qty p < q")
    case True
    then obtain p where p: "pos_of s y = Some p" "p_status p \<noteq> CLOSED" "p_qty p < q" by blast
    obtain m' p' acts where act: "activate_runner_after_partial_tp cfg b (sv_positions s) p = (m', p', acts)"
      by (metis surj_pair)
    let ?s1 = "set_pos p' (s\<lparr> sv_positions := m' \<rparr>)"
    have "p_symbol p' = y" using activate_frame [OF act] pos_symbol [OF reg p(1)] by simp
    then have 1: "touches_only y s ?s1"
      by (intro only.R_trans [OF state_same_only set_pos_only]) simp_all
    have "and_then (for_each (runner_followup io y) acts) (\<lambda>_. ret (map Acted acts)) ?s1 = (s', r)"
      using run p by (simp add: start_runner_def Let_def act)
    from only.keepsD [OF loop this] show ?thesis by (rule only.R_trans [OF 1])
  next
    case False
    then have "s' = s" using run by (auto simp: start_runner_def split: option.splits if_splits)
    then show ?thesis by (simp add: only.R_refl)
  qed
qed

lemma log_pos_only:
  "only.keeps y (modify (\<lambda>s2. case pos_of s2 z of None \<Rightarrow> s2 | Some q \<Rightarrow> log_entry (f s2 q) s2))"
  by (rule only.keeps_modify) (simp add: only.R_refl split: option.split)

lemma run_action_only: "only.keeps y (run_action io cfg ck b bid ask y a)"
proof (rule only.keepsI)
  fix s s' r
  assume run: "run_action io cfg ck b bid ask y a s = (s', r)"
  have scout: "only.keeps y (and_then (emit_scout_action y a) (\<lambda>_. ret z))" for z :: "managed list"
    by (intro only.keeps_and_then emit_scout_only only.keeps_ret)
  show "touches_only y s s'"
  proof (cases "pa_type a")
    case PARTIAL_TP
    have "only.keeps y (and_then (close_part io cfg ck bid ask y (pa_qty a) (pa_reason a) True)
        (\<lambda>_. start_runner io cfg b y q))" for q
      by (intro only.keeps_and_then close_part_only start_runner_only)
    from only.keepsD [OF this] show ?thesis using run PARTIAL_TP by (simp add: run_action_def Let_def)
  next
    case REDUCE
    have "only.keeps y (and_then (close_part io cfg ck bid ask y (pa_qty a) (pa_reason a) False)
        (\<lambda>_. and_then (emit_scout_action y a) (\<lambda>_. ret ([] :: managed list))))"
      by (intro only.keeps_and_then close_part_only scout)
    from only.keepsD [OF this] show ?thesis using run REDUCE by (simp add: run_action_def)
  next
    case EXIT
    have "only.keeps y (and_then (close_whole io cfg ck bid ask y (pa_reason a)) (\<lambda>_. ret ([] :: managed list)))"
      by (intro only.keeps_and_then close_whole_only only.keeps_ret)
    from only.keepsD [OF this] show ?thesis using run EXIT by (simp add: run_action_def)
  next
    case TRAIL_UPDATE
    have "only.keeps y (and_then (sync_trailing_stop io y a)
        (\<lambda>_. and_then (modify (\<lambda>s2. case pos_of s2 y of None \<Rightarrow> s2
            | Some q \<Rightarrow> log_entry (LogPosition q (sv_mode s2) None (Some (position_protection_status cfg q))) s2))
          (\<lambda>_. ret ([] :: managed list))))"
      by (intro only.keeps_and_then sync_trailing_only log_pos_only only.keeps_ret)
    from only.keepsD [OF this]
    have "touches_only y (upd_pos y (\<lambda>p. p\<lparr> p_stop_loss_price := pa_new_stop a \<rparr>) s) s'"
      using run TRAIL_UPDATE by (simp add: run_action_def)
    then show ?thesis by (rule only.R_trans [OF upd_pos_only, rotated]) simp
  next
    case SCOUT_EVENT
    from only.keepsD [OF scout] show ?thesis using run SCOUT_EVENT by (simp add: run_action_def)
  qed
qed

lemma run_actions_only: "only.keeps y (run_actions io cfg ck b bid ask y acts)"
proof (induction acts)
  case Nil
  show ?case by (simp only: run_actions.simps only.keeps_ret)
next
  case (Cons a acts)
  show ?case
    unfolding run_actions.simps
    by (intro only.keeps_and_then run_action_only Cons.IH only.keeps_ret)
qed

lemma manage_bar_only: "only.keeps y (manage_bar io cfg ck b bid ask y)"
proof (rule only.keepsI, rule only_unless_registry)
  fix s s' r
  assume run: "manage_bar io cfg ck b bid ask y s = (s', r)" and reg: "registry_ok (sv_state s)"
  show "touches_only y s s'"
  proof (cases "pos_of s y")
    case (Some p)
    obtain m' p' acts where ev: "evaluate cfg b (sv_positions s) p = (m', p', acts)" by (metis surj_pair)
    let ?s1 = "set_pos p' (s\<lparr> sv_positions := m' \<rparr>)"
    have "p_symbol p' = y" using evaluate_symbol [OF ev] pos_symbol [OF reg Some] by simp
    then have 1: "touches_only y s ?s1"
      by (intro only.R_trans [OF state_same_only set_pos_only]) simp_all
    have "and_then (run_actions io cfg ck b bid ask y acts) (\<lambda>ys. ret (map Acted acts @ ys)) ?s1 = (s', r)"
      using run Some by (simp add: manage_bar_def Let_def ev)
    moreover have "only.keeps y (and_then (run_actions io cfg ck b bid ask y acts) (\<lambda>ys. ret (map Acted acts @ ys)))"
      by (intro only.keeps_and_then run_actions_only only.keeps_ret)
    ultimately have "touches_only y ?s1 s'" by (metis only.keepsD)
    with 1 show ?thesis by (rule only.R_trans)
  qed (use run in \<open>simp add: manage_bar_def only.R_refl\<close>)
qed

lemma manage_only: "only.keeps y (manage io cfg ck b fr bid ask y)"
proof (rule only.keepsI, rule only_unless_registry)
  fix s s' r
  assume run: "manage io cfg ck b fr bid ask y s = (s', r)" and reg: "registry_ok (sv_state s)"
  have bar: "only.keeps y (and_then (manage_bar io cfg ck b bid ask y) (\<lambda>ys. ret (z # ys)))" for z
    by (intro only.keeps_and_then manage_bar_only only.keeps_ret)
  have tail: "only.keeps y (\<lambda>s1. if c s1 then (s1, Inr z1)
      else and_then (manage_bar io cfg ck b bid ask y) (\<lambda>ys. ret (z # ys)) s1)" for c z z1
    using bar [of z] by (simp add: only.keeps_def only.R_refl)
  show "touches_only y s s'"
  proof (cases "pos_of s y")
    case (Some p)
    have cl: "only.keeps y (close_pos io cfg ck p q w bid ask False False)" for q w
      using close_pos_only [of p] pos_symbol [OF reg Some] by simp
    show ?thesis
    proof (cases "\<not> is_bot_managed p \<or> p_status p \<noteq> ACTIVE")
      case True
      then show ?thesis using run Some by (auto simp: manage_def only.R_refl)
    next
      case False
      then show ?thesis
        using run Some only.keepsD [OF manage_bar_only]
          only.keepsD [OF only.keeps_and_then [OF cl tail]]
        by (auto simp: manage_def Let_def split: if_splits)
    qed
  qed (use run in \<open>simp add: manage_def only.R_refl\<close>)
qed

end


section \<open>The stop and the partial take-profit\<close>

text \<open>Decimals that can be doubled without rounding, as prices of at most 27 digits can.\<close>

definition doubles :: "dec \<Rightarrow> bool" where
  "doubles x \<longleftrightarrow> is_dec x \<and> is_dec (2 * x)"

text \<open>The least protective of the stop and the entry price: what a stop never falls behind.\<close>

definition stop_floor :: "position \<Rightarrow> dec option" where
  "stop_floor p = map_option
    (\<lambda>x. if p_side p = LONG then min x (p_avg_entry_price p) else max x (p_avg_entry_price p)) (p_stop_loss_price p)"

text \<open>The stop \<open>x\<close> may follow the stop of \<open>p\<close>: it is as tight, and for a retest entry, whose stop is halved
  towards the entry price, it is not behind both the stop and the entry price.\<close>

definition may_follow :: "position \<Rightarrow> dec option \<Rightarrow> bool" where
  "may_follow p x \<longleftrightarrow> tighter (p_side p) (stop_floor p) x \<and>
    (p_entry_mode p = Some RETEST_CONFIRM \<or> tighter (p_side p) (p_stop_loss_price p) x)"

lemma floor_tighter: "tighter (p_side p) (stop_floor p) (p_stop_loss_price p)"
  by (cases "p_stop_loss_price p") (auto simp: stop_floor_def)

lemma tighter_follows: "tighter (p_side p) (p_stop_loss_price p) x \<Longrightarrow> may_follow p x"
  using tighter_trans [OF floor_tighter] by (simp add: may_follow_def)

lemma tighten_follows:
  assumes "doubles (p_avg_entry_price p)" "\<And>x. p_stop_loss_price p = Some x \<Longrightarrow> doubles x"
    and "p_entry_mode p = Some RETEST_CONFIRM"
  shows "may_follow p (Some (tighten_stop p))"
proof (cases "p_stop_loss_price p")
  case (Some x)
  let ?e = "p_avg_entry_price p"
  let ?c = "if x = 0 then ?e else x"
  have dec: "is_dec x" "is_dec (2 * x)" "is_dec ?e" "is_dec (2 * ?e)"
    using assms(1) assms(2) [OF Some] by (simp_all add: doubles_def)
  have lo: "y \<le> tighten_stop p" if y: "is_dec y" "is_dec (2 * y)" "y \<le> ?c" "y \<le> ?e" for y
  proof -
    have "2 * y \<le> dadd ?c ?e" using dround_mono [of "2 * y" "?c + ?e"] y is_decD [OF y(2)] by (simp add: dadd_def)
    then show ?thesis using Some y(1) by (simp add: tighten_stop_def or_dec_def Let_def ddiv_ge)
  qed
  have hi: "tighten_stop p \<le> y" if y: "is_dec y" "is_dec (2 * y)" "?c \<le> y" "?e \<le> y" for y
  proof -
    have "dadd ?c ?e \<le> 2 * y" using dround_mono [of "?c + ?e" "2 * y"] y is_decD [OF y(2)] by (simp add: dadd_def)
    then show ?thesis using Some y(1) by (simp add: tighten_stop_def or_dec_def Let_def ddiv_le)
  qed
  show ?thesis
    using assms(3) Some lo [of "min x ?e"] hi [of "max x ?e"] dec
    by (auto simp: may_follow_def stop_floor_def min_def max_def split: if_splits)
qed (use assms(3) in \<open>simp add: may_follow_def stop_floor_def\<close>)

text \<open>What no step of the management changes in a position, and what an evaluation may change.\<close>

definition same_terms :: "position \<Rightarrow> position \<Rightarrow> bool" where
  "same_terms p q \<longleftrightarrow> p_side q = p_side p \<and> p_avg_entry_price q = p_avg_entry_price p \<and>
    p_entry_mode q = p_entry_mode p \<and> (p_partial_tp_done p \<longrightarrow> p_partial_tp_done q)"

lemma same_terms_refl [simp]: "same_terms p p" by (simp add: same_terms_def)

lemma may_follow_trans: "same_terms p q \<Longrightarrow> may_follow p (p_stop_loss_price q) \<Longrightarrow> may_follow q x \<Longrightarrow> may_follow p x"
proof -
  assume pq: "same_terms p q" "may_follow p (p_stop_loss_price q)" "may_follow q x"
  have "tighter (p_side p) (stop_floor p) (stop_floor q)"
    using pq(1,2)
    by (cases "p_stop_loss_price p"; cases "p_stop_loss_price q")
      (auto simp: same_terms_def may_follow_def stop_floor_def)
  then show "may_follow p x"
    using pq tighter_trans [of "p_side p"] by (auto simp: same_terms_def may_follow_def)
qed

definition stop_moves :: "string \<Rightarrow> 'x service \<Rightarrow> 'x service \<Rightarrow> bool" where
  "stop_moves y s s' \<longleftrightarrow> (registry_ok (sv_state s) \<longrightarrow> registry_ok (sv_state s') \<and>
    (\<forall>p. pos_of s y = Some p \<longrightarrow>
      (\<exists>q. pos_of s' y = Some q \<and> same_terms p q \<and> may_follow p (p_stop_loss_price q))))"

definition stop_stays :: "string \<Rightarrow> 'x service \<Rightarrow> 'x service \<Rightarrow> bool" where
  "stop_stays y s s' \<longleftrightarrow> (registry_ok (sv_state s) \<longrightarrow> registry_ok (sv_state s') \<and>
    (\<forall>p. pos_of s y = Some p \<longrightarrow>
      (\<exists>q. pos_of s' y = Some q \<and> same_terms p q \<and> p_stop_loss_price q = p_stop_loss_price p)))"

interpretation moves: two_state "stop_moves y" for y
proof
  show "stop_moves y s s" for s :: "'x service"
    using tighter_follows by (fastforce simp: stop_moves_def)
  show "stop_moves y s u" if "stop_moves y s t" "stop_moves y t u" for s t u :: "'x service"
    using that may_follow_trans unfolding stop_moves_def same_terms_def by (smt (verit))
qed

interpretation stays: two_state "stop_stays y" for y
proof
  show "stop_stays y s s" for s :: "'x service" by (simp add: stop_stays_def)
  show "stop_stays y s u" if "stop_stays y s t" "stop_stays y t u" for s t u :: "'x service"
    using that unfolding stop_stays_def same_terms_def by (smt (verit))
qed

lemma stays_moves: "stop_stays y s s' \<Longrightarrow> stop_moves y s s'"
  using tighter_follows unfolding stop_stays_def stop_moves_def by (metis tighter_refl)

lemma stays_keeps_moves: "stays.keeps y m \<Longrightarrow> moves.keeps y m"
  unfolding stays.keeps_def moves.keeps_def using stays_moves by blast

lemma book_stays: "same_book s s' \<Longrightarrow> stop_stays y s s'"
  using same_book_pos [of s s' y] by (simp add: stop_stays_def same_book_def registry_ok_def)

lemma book_keeps_stays: "book.keeps m \<Longrightarrow> stays.keeps y m"
  unfolding book.keeps_def stays.keeps_def using book_stays by blast

lemma state_stays: "sv_state s' = sv_state s \<Longrightarrow> stop_stays y s s'"
  by (simp add: stop_stays_def pos_of_def)

lemma claim_stays:
  "stop_stays y s (upd_state (begin_position_update z) s)" "stop_stays y s (upd_state (end_position_update z) s)"
  by (simp_all add: stop_stays_def)

lemma stays_emit [simp]: "stop_stays y s (emit e t) = stop_stays y s t"
  by (simp add: stop_stays_def pos_of_def)

lemma stays_log [simp]: "stop_stays y s (log_entry e t) = stop_stays y s t"
  by (simp add: stop_stays_def pos_of_def)

lemma set_pos_stays:
  assumes "pos_of s y = Some p" "p_symbol q = p_symbol p" "same_terms p q" "p_stop_loss_price q = p_stop_loss_price p"
  shows "stop_stays y s (set_pos q s)"
proof (unfold stop_stays_def, intro impI)
  assume reg: "registry_ok (sv_state s)"
  have "p_symbol q = y" using assms(1,2) pos_symbol [OF reg] by simp
  then show "registry_ok (sv_state (set_pos q s)) \<and> (\<forall>p. pos_of s y = Some p \<longrightarrow> (\<exists>r. pos_of (set_pos q s) y = Some r \<and>
      same_terms p r \<and> p_stop_loss_price r = p_stop_loss_price p))"
    using assms registry_ok_put [OF reg, of q] by (simp add: set_pos_def pos_of_def)
qed

lemma upd_pos_stays:
  assumes "\<And>p. p_symbol (f p) = p_symbol p \<and> same_terms p (f p) \<and> p_stop_loss_price (f p) = p_stop_loss_price p"
  shows "stop_stays y s (upd_pos y f s)"
  using set_pos_stays [of s y _ "f _"] assms by (auto simp: upd_pos_def stays.R_refl split: option.split)

lemma emit_scout_stays: "stays.keeps y (emit_scout_action z a)"
  unfolding emit_scout_action_def
  by (intro stays.keeps_option stays.keeps_and_then stays.keeps_lift stays.keeps_ret stays.keeps_modify)
    (simp add: stays.R_refl)

lemma close_finish_stays: "stop_stays y s (close_finish cfg ck y reason full r s)"
proof (unfold stop_stays_def, intro impI)
  assume reg: "registry_ok (sv_state s)"
  have reg': "registry_ok (sv_state (close_finish cfg ck y reason full r s))"
    using close_finish_frame [OF reg] by simp
  have "\<exists>q. pos_of (close_finish cfg ck y reason full r s) y = Some q \<and> same_terms p q \<and>
      p_stop_loss_price q = p_stop_loss_price p" if p: "pos_of s y = Some p" for p
  proof (cases "p_status p \<noteq> CLOSED \<and> 0 < cr_fill_qty r")
    case True
    then show ?thesis
      using close_finish_state [OF reg p] by (simp add: pos_of_def same_terms_def close_fill_def Let_def)
  next
    case False
    then show ?thesis using close_finish_idle [OF p] p by force
  qed
  with reg' show "registry_ok (sv_state (close_finish cfg ck y reason full r s)) \<and> (\<forall>p. pos_of s y = Some p \<longrightarrow>
      (\<exists>q. pos_of (close_finish cfg ck y reason full r s) y = Some q \<and> same_terms p q \<and>
        p_stop_loss_price q = p_stop_loss_price p))" by blast
qed

lemma mark_flat_stays: "stop_stays y s (mark_exchange_already_flat cfg ck y reason bid ask s)"
proof (cases "\<exists>p. pos_of s y = Some p \<and> p_status p \<noteq> CLOSED")
  case False
  then show ?thesis by (auto simp: mark_exchange_already_flat_def stays.R_refl split: option.split)
next
  case True
  then obtain p where p: "pos_of s y = Some p" "p_status p \<noteq> CLOSED" by blast
  let ?q = "p\<lparr> p_realized_pnl := dadd (p_realized_pnl p)
        (dmul (dmul (dsub (estimated_flat_exit_price p bid ask) (p_avg_entry_price p)) (p_qty p))
          (direction_of (p_side p))),
      p_qty := 0, p_status := CLOSED, p_closed_at := Some (ck_wall ck), p_exit_reason := reason \<rparr>"
  have "sv_state (mark_exchange_already_flat cfg ck y reason bid ask s) = sv_state (set_pos ?q s)"
    using p by (simp add: mark_exchange_already_flat_def Let_def)
  then have "stop_stays y (set_pos ?q s) (mark_exchange_already_flat cfg ck y reason bid ask s)"
    by (rule state_stays)
  moreover have "stop_stays y s (set_pos ?q s)"
    by (rule set_pos_stays [OF p(1)]) (simp_all add: same_terms_def)
  ultimately show ?thesis by (rule stays.R_trans [rotated])
qed

text \<open>The ports of a manager whose protection manager leaves the book alone when it synchronises a stop.\<close>

locale stop_ports = manager_ports io for io :: "'x ports" +
  assumes sync_book: "book.keeps (po_sync_stop_loss io y)"

context stop_ports
begin

lemma close_pos_stays:
  assumes "p_symbol p = y"
  shows "stays.keeps y (close_pos io cfg ck p qty reason bid ask full pl)"
proof -
  have "stays.keeps y (close_body io cfg ck p qty reason bid ask full pl)"
  proof (rule stays.keepsI)
    fix s s' r
    assume "close_body io cfg ck p qty reason bid ask full pl s = (s', r)"
    then obtain s1 r1 where c: "po_close io (close_args_of p qty bid ask pl) s = (s1, r1)"
      and s': "s' \<in> {s1, close_finish cfg ck y reason full (projr r1) s1,
                mark_exchange_already_flat cfg ck y reason bid ask s1}"
      using assms by (fastforce simp: close_body_def split: prod.splits sum.splits if_splits)
    have "stop_stays y s s1" by (rule book_stays) (rule book.keepsD [OF close_book c])
    then show "stop_stays y s s'"
      using s' stays.R_trans [OF _ close_finish_stays] stays.R_trans [OF _ mark_flat_stays] by blast
  qed
  then show ?thesis
    unfolding close_pos_def
    by (intro stays.keeps_then_do stays.keeps_modify stays.keeps_try_finally claim_stays)
qed

lemma close_whole_stays: "stays.keeps y (close_whole io cfg ck bid ask y w)"
proof (rule stays.keepsI)
  fix s s' r
  assume run: "close_whole io cfg ck bid ask y w s = (s', r)"
  show "stop_stays y s s'"
  proof (cases "registry_ok (sv_state s)")
    case reg: True
    show ?thesis
    proof (cases "pos_of s y")
      case (Some p)
      then show ?thesis
        using run by (intro stays.keepsD [OF close_pos_stays [OF pos_symbol [OF reg Some]]]) (simp add: close_whole_def)
    qed (use run in \<open>simp add: close_whole_def stays.R_refl\<close>)
  qed (simp add: stop_stays_def)
qed

lemma close_part_stays: "stays.keeps y (close_part io cfg ck bid ask y q w pl)"
proof (rule stays.keepsI)
  fix s s' r
  assume run: "close_part io cfg ck bid ask y q w pl s = (s', r)"
  show "stop_stays y s s'"
  proof (cases "registry_ok (sv_state s)")
    case reg: True
    show ?thesis
    proof (cases "\<exists>p x. pos_of s y = Some p \<and> q = Some x")
      case True
      then obtain p x where px: "pos_of s y = Some p" "q = Some x" by blast
      then show ?thesis
        using run by (intro stays.keepsD [OF close_pos_stays [OF pos_symbol [OF reg px(1)]]]) (simp add: close_part_def)
    next
      case False
      then have "s' = s" using run by (auto simp: close_part_def split: option.splits)
      then show ?thesis by (simp add: stays.R_refl)
    qed
  qed (simp add: stop_stays_def)
qed

lemma sync_trailing_stays: "stays.keeps y (sync_trailing_stop io y a)"
proof (rule stays.keepsI)
  fix s s' r
  assume run: "sync_trailing_stop io y a s = (s', r)"
  obtain s1 r1 where c: "po_sync_stop_loss io y s = (s1, r1)" by fastforce
  have s1: "stop_stays y s s1" by (rule book_stays) (rule book.keepsD [OF sync_book c])
  have f: "stop_stays y s (upd_pos y f s1)"
    if "\<And>p. p_symbol (f p) = p_symbol p \<and> same_terms p (f p) \<and> p_stop_loss_price (f p) = p_stop_loss_price p" for f
    by (rule stays.R_trans [OF s1]) (rule upd_pos_stays [OF that])
  show "stop_stays y s s'"
    using run s1 f
    by (auto simp: sync_trailing_stop_def Let_def c and_then_def stays.R_refl same_terms_def
        split: if_splits option.splits sum.splits)
qed

lemma followup_stays: "stays.keeps y (for_each (runner_followup io y) acts)"
  unfolding runner_followup_def
  by (intro stays.keeps_for_each stays.keeps_if stays.keeps_ret emit_scout_stays sync_trailing_stays)

end

interpretation paper: stop_ports "paper_ports ob"
  by unfold_locales (simp_all add: paper_ports_def)

lemma trailing_terms:
  assumes "trailing_update cfg b mr cr w p = (q, acts)"
  shows "same_terms p q \<and> may_follow p (p_stop_loss_price q) \<and> (\<forall>a\<in>set acts. pa_type a \<noteq> PARTIAL_TP)"
proof -
  have "eval_outcome cfg 0 p (q, acts)" using trailing_update_outcome [of cfg 0 p b mr cr w] assms by simp
  moreover have "p_partial_tp_done q = p_partial_tp_done p" "\<forall>a\<in>set acts. pa_type a \<noteq> PARTIAL_TP"
    using assms by (auto simp: trailing_update_def Let_def record_runner_trailing_update_def runner_event_def
        split: option.splits if_splits)
  ultimately show ?thesis
    by cases (auto simp: same_terms_def identity_of_def order_view_def intro: tighter_follows)
qed

lemma activate_terms:
  assumes "activate_runner_after_partial_tp cfg b m p = (m', q, acts)"
  shows "same_terms p q \<and> may_follow p (p_stop_loss_price q) \<and> (\<forall>a\<in>set acts. pa_type a \<noteq> PARTIAL_TP)"
proof -
  let ?p = "update_extremes (bi_price b) (bi_candle b) p"
  have p: "same_terms p ?p" "p_stop_loss_price ?p = p_stop_loss_price p"
    by (simp_all add: same_terms_def update_extremes_def Let_def)
  show ?thesis
  proof (cases "q = ?p \<and> acts = []")
    case True
    then show ?thesis using p tighter_follows [of p "p_stop_loss_price p"] by simp
  next
    case False
    let ?r = "r_multiple ?p (bi_price b)"
    let ?mr = "max (get_or (pm_max_r m) (p_symbol p) 0) ?r"
    obtain m1 strength reason where st: "runner_trend_strength_of cfg b ?mr m ?p = (m1, strength, reason)"
      by (metis surj_pair)
    let ?p2 = "?p\<lparr> p_runner_mode_active := True, p_runner_mode_started_at := Some (bi_now b),
      p_runner_trend_strength := Some strength, p_runner_trailing_atr_multiplier := Some (runner_multiplier cfg strength) \<rparr>"
    obtain p3 upd where tr: "trailing_update cfg b ?mr ?r (Some ''RUNNER_MODE_ACTIVATED'') ?p2 = (p3, upd)"
      by (metis surj_pair)
    have q: "q = p3" and acts: "\<exists>ev. acts = ev # upd \<and> pa_type ev = SCOUT_EVENT"
      using assms False unfolding activate_runner_after_partial_tp_def Let_def st prod.case tr
      by (auto simp: runner_event_def split: if_splits)
    have "same_terms ?p ?p2" "p_stop_loss_price ?p2 = p_stop_loss_price ?p" by (simp_all add: same_terms_def)
    with p have t: "same_terms p ?p2" "may_follow p (p_stop_loss_price ?p2)"
      using tighter_follows [of p "p_stop_loss_price p"] by (simp_all add: same_terms_def)
    from trailing_terms [OF tr] have "same_terms ?p2 p3" "may_follow ?p2 (p_stop_loss_price p3)"
      "\<forall>a\<in>set upd. pa_type a \<noteq> PARTIAL_TP" by simp_all
    then show ?thesis
      using may_follow_trans [OF t] t(1) acts q unfolding same_terms_def by (metis position_action_type.distinct(7) set_ConsD)
  qed
qed


text \<open>The partial take-profits among what a cycle reports.\<close>

definition partials :: "managed list \<Rightarrow> nat" where
  "partials xs = length (filter (\<lambda>x. case x of Acted a \<Rightarrow> pa_type a = PARTIAL_TP | _ \<Rightarrow> False) xs)"

lemma partials_simps [simp]:
  "partials [] = 0" "partials (Funding_Reduce q # xs) = partials xs" "partials (xs @ ys) = partials xs + partials ys"
  "partials (map Acted as) = length (filter (\<lambda>a. pa_type a = PARTIAL_TP) as)"
  by (simp_all add: partials_def filter_map o_def)

lemma eval_outcome_partial:
  assumes "eval_outcome cfg r p (p', acts)"
  shows "length (filter (\<lambda>a. pa_type a = PARTIAL_TP) acts) + (if p_partial_tp_done p then 1 else 0) \<le>
    (if p_partial_tp_done p' then 1 else (0::nat))"
proof -
  have ev: "filter (\<lambda>a. pa_type a = PARTIAL_TP) evs = []" if "all_events evs" for evs
    using that by (auto simp: all_events_def filter_empty_conv)
  show ?thesis
    using assms by cases (auto simp: ev order_view_def)
qed

lemma eval_outcome_terms:
  assumes "eval_outcome cfg r p (p', acts)"
    and "doubles (p_avg_entry_price p)" "\<forall>x. p_stop_loss_price p = Some x \<longrightarrow> doubles x"
  shows "same_terms p p' \<and> may_follow p (p_stop_loss_price p') \<and>
    (\<forall>a\<in>set acts. pa_type a = TRAIL_UPDATE \<longrightarrow> may_follow p (pa_new_stop a))"
  using assms(1) tighten_follows [OF assms(2)] assms(3)
  by cases (auto simp: same_terms_def identity_of_def order_view_def all_events_def intro: tighter_follows)

text \<open>What a step of a cycle that began with the position \<open>p\<close> keeps.\<close>

definition good_for :: "string \<Rightarrow> position \<Rightarrow> bool \<Rightarrow> 'x service \<Rightarrow> bool" where
  "good_for y p taken s \<longleftrightarrow> registry_ok (sv_state s) \<and>
    (\<exists>q. pos_of s y = Some q \<and> same_terms p q \<and> may_follow p (p_stop_loss_price q) \<and>
      (taken \<longrightarrow> p_partial_tp_done q))"

lemma good_moves:
  assumes "good_for y p taken s" "stop_moves y s s'"
  shows "good_for y p taken s'"
proof -
  obtain q where q: "pos_of s y = Some q" "same_terms p q" "may_follow p (p_stop_loss_price q)"
    "taken \<longrightarrow> p_partial_tp_done q" and reg: "registry_ok (sv_state s)"
    using assms(1) unfolding good_for_def by blast
  obtain q' where q': "pos_of s' y = Some q'" "same_terms q q'" "may_follow q (p_stop_loss_price q')"
    and reg': "registry_ok (sv_state s')"
    using assms(2) reg q(1) unfolding stop_moves_def by blast
  then show ?thesis
    using q may_follow_trans [OF q(2,3) q'(3)] unfolding good_for_def same_terms_def by simp
qed

lemmas good_stays = good_moves [OF _ stays_moves]

context stop_ports
begin

lemma start_runner_moves: "moves.keeps y (start_runner io cfg b y prev)"
proof (rule moves.keepsI)
  fix s s' r
  assume run: "start_runner io cfg b y prev s = (s', r)"
  show "stop_moves y s s'"
  proof (cases "registry_ok (sv_state s) \<and> (\<exists>p. pos_of s y = Some p \<and> p_status p \<noteq> CLOSED \<and> p_qty p < prev)")
    case True
    then obtain p where p: "pos_of s y = Some p" "p_status p \<noteq> CLOSED" "p_qty p < prev" and reg: "registry_ok (sv_state s)"
      by blast
    obtain m' p' acts where act: "activate_runner_after_partial_tp cfg b (sv_positions s) p = (m', p', acts)"
      by (metis surj_pair)
    let ?s1 = "set_pos p' (s\<lparr> sv_positions := m' \<rparr>)"
    have y: "p_symbol p' = y" using activate_frame [OF act] pos_symbol [OF reg p(1)] by simp
    have 1: "stop_moves y s ?s1"
      using activate_terms [OF act] p(1) y registry_ok_put [of "sv_state s" p']
      by (auto simp: stop_moves_def set_pos_def pos_of_def)
    have "and_then (for_each (runner_followup io y) acts) (\<lambda>_. ret (map Acted acts)) ?s1 = (s', r)"
      using run p by (simp add: start_runner_def Let_def act)
    moreover have "moves.keeps y (and_then (for_each (runner_followup io y) acts) (\<lambda>_. ret (map Acted acts)))"
      by (intro moves.keeps_and_then stays_keeps_moves followup_stays moves.keeps_ret)
    ultimately have "stop_moves y ?s1 s'" by (metis moves.keepsD)
    with 1 show ?thesis by (rule moves.R_trans)
  next
    case False
    then have "\<not> registry_ok (sv_state s) \<or> s' = s"
      using run by (auto simp: start_runner_def split: option.splits if_splits)
    then show ?thesis using moves.R_refl [of y s] unfolding stop_moves_def by blast
  qed
qed

lemma start_runner_result: "start_runner io cfg b y prev s = (s', Inr xs) \<Longrightarrow> partials xs = 0"
proof -
  assume run: "start_runner io cfg b y prev s = (s', Inr xs)"
  show ?thesis
  proof (cases "\<exists>p. pos_of s y = Some p \<and> p_status p \<noteq> CLOSED \<and> p_qty p < prev")
    case True
    then obtain p where p: "pos_of s y = Some p" "p_status p \<noteq> CLOSED" "p_qty p < prev" by blast
    obtain m' p' acts where act: "activate_runner_after_partial_tp cfg b (sv_positions s) p = (m', p', acts)"
      by (metis surj_pair)
    have "xs = map Acted acts"
      using run p by (auto simp: start_runner_def Let_def act and_then_def split: prod.splits sum.splits)
    then show ?thesis using activate_terms [OF act] by (simp add: filter_empty_conv)
  qed (use run in \<open>auto simp: start_runner_def split: option.splits if_splits\<close>)
qed

lemma log_pos_stays:
  "stays.keeps y (modify (\<lambda>s2. case pos_of s2 z of None \<Rightarrow> s2 | Some q \<Rightarrow> log_entry (f s2 q) s2))"
  by (rule stays.keeps_modify) (simp add: stays.R_refl split: option.split)

lemma run_action_good:
  assumes "good_for y p taken s" "pa_type a = TRAIL_UPDATE \<Longrightarrow> may_follow p (pa_new_stop a)"
    and "run_action io cfg ck b bid ask y a s = (s', r)"
  shows "good_for y p taken s' \<and> (\<forall>xs. r = Inr xs \<longrightarrow> partials xs = 0)"
proof (cases "pa_type a")
  case PARTIAL_TP
  let ?prev = "case pos_of s y of None \<Rightarrow> 0 | Some p \<Rightarrow> p_qty p"
  have run: "and_then (close_part io cfg ck bid ask y (pa_qty a) (pa_reason a) True)
      (\<lambda>_. start_runner io cfg b y ?prev) s = (s', r)"
    using assms(3) PARTIAL_TP by (simp add: run_action_def Let_def)
  have keeps: "moves.keeps y (and_then (close_part io cfg ck bid ask y (pa_qty a) (pa_reason a) True)
      (\<lambda>_. start_runner io cfg b y ?prev))"
    by (intro moves.keeps_and_then stays_keeps_moves [OF close_part_stays] start_runner_moves)
  have "\<forall>xs. r = Inr xs \<longrightarrow> partials xs = 0"
    using run start_runner_result by (auto simp: and_then_def split: prod.splits sum.splits)
  then show ?thesis using good_moves [OF assms(1) moves.keepsD [OF keeps run]] by blast
next
  case REDUCE
  have run: "and_then (close_part io cfg ck bid ask y (pa_qty a) (pa_reason a) False)
      (\<lambda>_. and_then (emit_scout_action y a) (\<lambda>_. ret [])) s = (s', r)"
    using assms(3) REDUCE by (simp add: run_action_def)
  have keeps: "stays.keeps y (and_then (close_part io cfg ck bid ask y (pa_qty a) (pa_reason a) False)
      (\<lambda>_. and_then (emit_scout_action y a) (\<lambda>_. ret ([] :: managed list))))"
    by (intro stays.keeps_and_then close_part_stays emit_scout_stays stays.keeps_ret)
  have "\<forall>xs. r = Inr xs \<longrightarrow> partials xs = 0"
    using run by (auto simp: and_then_def split: prod.splits sum.splits)
  then show ?thesis using good_stays [OF assms(1) stays.keepsD [OF keeps run]] by blast
next
  case EXIT
  have run: "and_then (close_whole io cfg ck bid ask y (pa_reason a)) (\<lambda>_. ret []) s = (s', r)"
    using assms(3) EXIT by (simp add: run_action_def)
  have keeps: "stays.keeps y (and_then (close_whole io cfg ck bid ask y (pa_reason a)) (\<lambda>_. ret ([] :: managed list)))"
    by (intro stays.keeps_and_then close_whole_stays stays.keeps_ret)
  have "\<forall>xs. r = Inr xs \<longrightarrow> partials xs = 0"
    using run by (auto simp: and_then_def split: prod.splits sum.splits)
  then show ?thesis using good_stays [OF assms(1) stays.keepsD [OF keeps run]] by blast
next
  case SCOUT_EVENT
  have run: "and_then (emit_scout_action y a) (\<lambda>_. ret []) s = (s', r)"
    using assms(3) SCOUT_EVENT by (simp add: run_action_def)
  have keeps: "stays.keeps y (and_then (emit_scout_action y a) (\<lambda>_. ret ([] :: managed list)))"
    by (intro stays.keeps_and_then emit_scout_stays stays.keeps_ret)
  have "\<forall>xs. r = Inr xs \<longrightarrow> partials xs = 0"
    using run by (auto simp: and_then_def split: prod.splits sum.splits)
  then show ?thesis using good_stays [OF assms(1) stays.keepsD [OF keeps run]] by blast
next
  case TRAIL_UPDATE
  let ?s1 = "upd_pos y (\<lambda>p. p\<lparr> p_stop_loss_price := pa_new_stop a \<rparr>) s"
  let ?m = "and_then (sync_trailing_stop io y a)
      (\<lambda>_. and_then (modify (\<lambda>s2. case pos_of s2 y of None \<Rightarrow> s2
          | Some q \<Rightarrow> log_entry (LogPosition q (sv_mode s2) None (Some (position_protection_status cfg q))) s2))
        (\<lambda>_. ret ([] :: managed list)))"
  have run: "?m ?s1 = (s', r)" using assms(3) TRAIL_UPDATE by (simp add: run_action_def)
  have "stays.keeps y ?m"
    by (intro stays.keeps_and_then sync_trailing_stays log_pos_stays stays.keeps_ret)
  then have step: "stop_stays y ?s1 s'" using run by (rule stays.keepsD)
  obtain q where q: "pos_of s y = Some q" "same_terms p q" "taken \<longrightarrow> p_partial_tp_done q"
    and reg: "registry_ok (sv_state s)"
    using assms(1) unfolding good_for_def by blast
  have "p_symbol q = y" using pos_symbol [OF reg q(1)] .
  then have "good_for y p taken ?s1"
    using q reg assms(2) [OF TRAIL_UPDATE] registry_ok_put [OF reg, of "q\<lparr> p_stop_loss_price := pa_new_stop a \<rparr>"]
    by (simp add: good_for_def upd_pos_def set_pos_def pos_of_def same_terms_def)
  moreover have "\<forall>xs. r = Inr xs \<longrightarrow> partials xs = 0"
    using run by (auto simp: and_then_def split: prod.splits sum.splits)
  ultimately show ?thesis using good_stays step by blast
qed

lemma run_actions_good:
  "good_for y p taken s \<Longrightarrow> \<forall>a\<in>set acts. pa_type a = TRAIL_UPDATE \<longrightarrow> may_follow p (pa_new_stop a) \<Longrightarrow>
    run_actions io cfg ck b bid ask y acts s = (s', r) \<Longrightarrow>
    good_for y p taken s' \<and> (\<forall>xs. r = Inr xs \<longrightarrow> partials xs = 0)"
proof (induction acts arbitrary: s s' r)
  case Nil
  then show ?case by auto
next
  case (Cons a acts)
  obtain s1 r1 where a: "run_action io cfg ck b bid ask y a s = (s1, r1)" by fastforce
  have 1: "good_for y p taken s1" "\<forall>xs. r1 = Inr xs \<longrightarrow> partials xs = 0"
    using run_action_good [OF Cons.prems(1) _ a] Cons.prems(2) by auto
  show ?case
  proof (cases r1)
    case (Inl e)
    then show ?thesis using Cons.prems(3) a 1 by (auto simp: and_then_def)
  next
    case (Inr xs)
    obtain s2 r2 where as: "run_actions io cfg ck b bid ask y acts s1 = (s2, r2)" by fastforce
    have 2: "good_for y p taken s2" "\<forall>xs. r2 = Inr xs \<longrightarrow> partials xs = 0"
      using Cons.IH [OF 1(1) _ as] Cons.prems(2) by auto
    then show ?thesis using Cons.prems(3) a as Inr 1 by (cases r2) (auto simp: and_then_def)
  qed
qed

lemma manage_bar_good:
  assumes "registry_ok (sv_state s)" "pos_of s y = Some p"
    and "doubles (p_avg_entry_price p)" "\<forall>x. p_stop_loss_price p = Some x \<longrightarrow> doubles x"
    and "manage_bar io cfg ck b bid ask y s = (s', r)"
  shows "\<exists>taken. good_for y p taken s' \<and>
    (\<forall>xs. r = Inr xs \<longrightarrow> partials xs \<le> (if p_partial_tp_done p then 0 else 1) \<and> (0 < partials xs \<longrightarrow> taken))"
proof -
  obtain m' p' acts where ev: "evaluate cfg b (sv_positions s) p = (m', p', acts)" by (metis surj_pair)
  have out: "eval_outcome cfg (r_multiple p (bi_price b)) p (p', acts)"
    using evaluate_outcome [of cfg p b "sv_positions s"] ev by simp
  let ?s1 = "set_pos p' (s\<lparr> sv_positions := m' \<rparr>)" and ?n = "length (filter (\<lambda>a. pa_type a = PARTIAL_TP) acts)"
  note terms = eval_outcome_terms [OF out assms(3,4)] and count = eval_outcome_partial [OF out]
  have "p_symbol p' = y" using evaluate_symbol [OF ev] pos_symbol [OF assms(1,2)] by simp
  then have "good_for y p (p_partial_tp_done p') ?s1"
    using assms(1) terms registry_ok_put [of "sv_state s" p'] by (simp add: good_for_def set_pos_def pos_of_def)
  moreover obtain s2 r2 where as: "run_actions io cfg ck b bid ask y acts ?s1 = (s2, r2)" by fastforce
  ultimately have 2: "good_for y p (p_partial_tp_done p') s2" "\<forall>xs. r2 = Inr xs \<longrightarrow> partials xs = 0"
    using run_actions_good [OF _ _ as] terms by blast+
  have "s' = s2" "\<forall>xs. r = Inr xs \<longrightarrow> partials xs = ?n"
    using assms(2,5) 2 by (cases r2; force simp: manage_bar_def Let_def ev and_then_def as)+
  with 2 count show ?thesis by (intro exI [of _ "p_partial_tp_done p'"]) (auto split: if_splits)
qed

text \<open>The funding reduction before the bar changes no stop.\<close>

lemma good_from: "same_terms p q \<Longrightarrow> p_stop_loss_price q = p_stop_loss_price p \<Longrightarrow> good_for y q taken s \<Longrightarrow> good_for y p taken s"
  using tighter_follows [of p "p_stop_loss_price p"] may_follow_trans [of p q]
  unfolding good_for_def same_terms_def by (metis tighter_refl)

lemma reduced_bar_good:
  assumes "registry_ok (sv_state s)" "pos_of s y = Some p"
    and "doubles (p_avg_entry_price p)" "\<forall>x. p_stop_loss_price p = Some x \<longrightarrow> doubles x"
    and start: "good_for y p False s" and run: "and_then (close_pos io cfg ck p qty reason bid ask False False)
      (\<lambda>_ s1. if (case pos_of s1 y of None \<Rightarrow> True | Some q \<Rightarrow> p_qty q \<le> 0) then (s1, Inr [Funding_Reduce qty])
        else and_then (manage_bar io cfg ck b bid ask y) (\<lambda>ys. ret (Funding_Reduce qty # ys)) s1) s = (s', r)"
  shows "\<exists>taken. good_for y p taken s' \<and>
    (\<forall>xs. r = Inr xs \<longrightarrow> partials xs \<le> (if p_partial_tp_done p then 0 else 1) \<and> (0 < partials xs \<longrightarrow> taken))"
proof -
  obtain s1 r1 where cl: "close_pos io cfg ck p qty reason bid ask False False s = (s1, r1)" by fastforce
  have stay: "stop_stays y s s1" by (rule stays.keepsD [OF close_pos_stays [OF pos_symbol [OF assms(1,2)]] cl])
  then obtain q where q: "registry_ok (sv_state s1)" "pos_of s1 y = Some q" "same_terms p q"
    "p_stop_loss_price q = p_stop_loss_price p"
    using assms(1,2) unfolding stop_stays_def by blast
  show ?thesis
  proof (cases "r1 = Inr () \<and> \<not> p_qty q \<le> 0")
    case False
    then have "s' = s1 \<and> (\<forall>xs. r = Inr xs \<longrightarrow> partials xs = 0)"
      using run cl q(2) by (cases r1) (auto simp: and_then_def)
    then show ?thesis using good_stays [OF start stay] by auto
  next
    case True
    obtain s2 r2 where mb: "manage_bar io cfg ck b bid ask y s1 = (s2, r2)" by fastforce
    have "doubles (p_avg_entry_price q)" "\<forall>x. p_stop_loss_price q = Some x \<longrightarrow> doubles x"
      using assms(3,4) q(3,4) by (simp_all add: same_terms_def)
    from manage_bar_good [OF q(1,2) this mb] obtain taken where t: "good_for y q taken s2"
      "\<forall>xs. r2 = Inr xs \<longrightarrow> partials xs \<le> (if p_partial_tp_done q then 0 else 1) \<and> (0 < partials xs \<longrightarrow> taken)"
      by blast
    have "s' = s2" "\<forall>xs. r = Inr xs \<longrightarrow> (\<exists>ys. r2 = Inr ys \<and> partials xs = partials ys)"
      using run cl q(2) True mb by (cases r2; auto simp: and_then_def)+
    moreover have "p_partial_tp_done p \<longrightarrow> p_partial_tp_done q" using q(3) by (simp add: same_terms_def)
    ultimately show ?thesis using t(2) good_from [OF q(3,4) t(1)] by (intro exI [of _ taken]) (auto split: if_splits)
  qed
qed

lemma manage_good:
  assumes "registry_ok (sv_state s)" "pos_of s y = Some p"
    and "doubles (p_avg_entry_price p)" "\<forall>x. p_stop_loss_price p = Some x \<longrightarrow> doubles x"
    and run: "manage io cfg ck b fr bid ask y s = (s', r)"
  shows "\<exists>taken. good_for y p taken s' \<and>
    (\<forall>xs. r = Inr xs \<longrightarrow> partials xs \<le> (if p_partial_tp_done p then 0 else 1) \<and> (0 < partials xs \<longrightarrow> taken))"
proof -
  have start: "good_for y p False s"
    using assms(1,2) tighter_follows [of p "p_stop_loss_price p"] by (simp add: good_for_def)
  consider (idle) "\<not> is_bot_managed p \<or> p_status p \<noteq> ACTIVE"
    | (plain) "manage_bar io cfg ck b bid ask y s = (s', r)"
    | (funding) "and_then (close_pos io cfg ck p (dmul (p_qty p) (1 / 2)) (Some FUNDING_GUARD) bid ask False False)
         (\<lambda>_ s1. if (case pos_of s1 y of None \<Rightarrow> True | Some q \<Rightarrow> p_qty q \<le> 0)
           then (s1, Inr [Funding_Reduce (dmul (p_qty p) (1 / 2))])
           else and_then (manage_bar io cfg ck b bid ask y)
             (\<lambda>ys. ret (Funding_Reduce (dmul (p_qty p) (1 / 2)) # ys)) s1) s = (s', r)"
    using assms(2) run by (auto simp: manage_def Let_def split: if_splits)
  then show ?thesis
  proof cases
    case idle
    then have "s' = s" "r = Inr []" using assms(2) run by (auto simp: manage_def)
    then show ?thesis using start by auto
  next
    case plain
    then show ?thesis by (rule manage_bar_good [OF assms(1-4)])
  next
    case funding
    then show ?thesis by (rule reduced_bar_good [OF assms(1-4) start])
  qed
qed

end

text \<open>C2. One management cycle of the trading service, its orders and stop changes executed, whatever the
  executor answers and whether or not it raises: the symbol still has its position, on the same
  side and at the same entry price, the partial take-profit is taken at most once, not at all on a
  position that has already taken it, and once it is taken the position remembers it; the stop
  ends up no less protective than it was. Only a retest entry, whose stop is moved halfway to
  the entry price, can lose protection, when its stop is already beyond the entry price, and then not
  further than to the entry price.\<close>

theorem manage_partial_once_and_stop_holds:
  assumes "stop_ports io" "registry_ok (sv_state s)" "pos_of s y = Some p"
    and "doubles (p_avg_entry_price p)" "\<forall>x. p_stop_loss_price p = Some x \<longrightarrow> doubles x"
    and "manage io cfg ck b fr bid ask y s = (s', r)"
  shows "\<exists>q. pos_of s' y = Some q \<and> p_side q = p_side p \<and> p_avg_entry_price q = p_avg_entry_price p \<and>
    (p_partial_tp_done p \<longrightarrow> p_partial_tp_done q) \<and>
    (\<forall>acts. r = Inr acts \<longrightarrow> partials acts \<le> (if p_partial_tp_done p then 0 else 1) \<and>
      (0 < partials acts \<longrightarrow> p_partial_tp_done q)) \<and>
    tighter (p_side p) (stop_floor p) (p_stop_loss_price q) \<and>
    (p_entry_mode p \<noteq> Some RETEST_CONFIRM \<longrightarrow> tighter (p_side p) (p_stop_loss_price p) (p_stop_loss_price q))"
  using stop_ports.manage_good [OF assms] unfolding good_for_def same_terms_def may_follow_def by fastforce


text \<open>A position that an evaluation has marked as closing is never touched again by the service's
  management: no later cycle changes it or asks for anything. If the closing order does not fill,
  nothing in the management retries it.\<close>

lemma closing_never_retried:
  "pos_of s y = Some p \<Longrightarrow> p_status p \<noteq> ACTIVE \<Longrightarrow> manage io cfg ck b fr bid ask y s = (s, Inr [])"
  by (simp add: manage_def)

text \<open>The halfway stop of a retest entry that has already been trailed beyond its entry price.\<close>

lemma tighten_loosens_trailed_stop:
  "tighten_stop ((new_position ''BTC'' LONG 2 100 0)\<lparr> p_stop_loss_price := Some 104 \<rparr>) = 102"
  by (simp add: tighten_stop_def new_position_def or_dec_def dec_eval)

section \<open>Example\<close>

definition ex_managed :: "paper_engine service" where
  "ex_managed = set_pos (ex_pos\<lparr> p_stop_loss_price := Some 95 \<rparr>) ex_paper_service"

lemma manage_partial_once_and_stop_holds_witness:
  "\<exists>s' r q. manage (paper_ports (\<lparr> ob_symbol = [], ob_bids = [], ob_asks = [], ob_ts_ms = 0 \<rparr>, None))
      default_app_config \<lparr> ck_mono = 0, ck_wall = 5 \<rparr>
      \<lparr> bi_price = 104, bi_atr = 1, bi_candle = None, bi_snapshot_1m = None, bi_snapshot_5m = None,
        bi_volume_ratio = None, bi_now = 5 \<rparr> None 104 105 ''BTC'' ex_managed = (s', r) \<and>
    pos_of s' ''BTC'' = Some q \<and> tighter LONG (Some 95) (p_stop_loss_price q)"
proof -
  let ?p = "ex_pos\<lparr> p_stop_loss_price := Some 95 \<rparr>" and ?io = "paper_ports (\<lparr> ob_symbol = [], ob_bids = [], ob_asks = [], ob_ts_ms = 0 \<rparr>, None)"
  have sym: "p_symbol ?p = ''BTC''" by (simp add: ex_pos_def new_position_def)
  have reg: "registry_ok (sv_state ex_managed)"
    using registry_ok_put [OF ex_paper_facts(1), of ?p] sym by (simp add: ex_managed_def set_pos_def)
  have pos: "pos_of ex_managed ''BTC'' = Some ?p" using sym by (simp add: ex_managed_def)
  have "is_dec (of_int m)" if "\<bar>m\<bar> \<le> 1000" for m
    using that by (intro is_dec_int) (simp add: prec_hi_def)
  from this [of 100] this [of 200] this [of 95] this [of 190]
  have dbl: "doubles (p_avg_entry_price ?p)" "\<forall>x. p_stop_loss_price ?p = Some x \<longrightarrow> doubles x"
    by (simp_all add: doubles_def ex_pos_def new_position_def)
  obtain s' r where run: "manage ?io default_app_config \<lparr> ck_mono = 0, ck_wall = 5 \<rparr>
      \<lparr> bi_price = 104, bi_atr = 1, bi_candle = None, bi_snapshot_1m = None, bi_snapshot_5m = None,
        bi_volume_ratio = None, bi_now = 5 \<rparr> None 104 105 ''BTC'' ex_managed = (s', r)"
    by fastforce
  from manage_partial_once_and_stop_holds [OF paper.stop_ports_axioms reg pos dbl run] run show ?thesis
    by (auto simp: ex_pos_def new_position_def)
qed

end
