(* ===== verification/Exchange_Contract.thy ===== *)
theory Exchange_Contract
  imports Protection Trading_Manage_Facts
begin

text \<open>
  The gateway as a contract. \<open>gateway_frame\<close> says that no exchange call changes more of the bot's
  state than a relation allows, while the code awaits it; the waiting and looking-up operations of
  the order manager then change no more either. \<open>exchange\<close> takes it for the book: nobody else
  changes a position or the updates in flight. From it every operation of the order manager keeps
  the book, the protection manager changes only the position it is called for, and the ports of
  LIVE mode satisfy the contract of the trading service's ports.
\<close>

locale gateway_frame = two_state R for R :: "'g bot \<Rightarrow> 'g bot \<Rightarrow> bool" +
  fixes gw :: "'g gateway"
  assumes own_state: "R s (upd_live f s)"
    and load_keeps: "keeps (gw_load_instruments gw)"
    and positions_keeps: "keeps (gw_get_positions gw)"
    and open_orders_keeps: "keeps (gw_get_open_orders gw yo)"
    and get_order_keeps: "gw_get_order gw = Some get \<Longrightarrow> keeps (get y oid cid)"
    and leverage_keeps: "keeps (gw_set_leverage gw y lev)"
    and place_order_keeps: "keeps (gw_place_order gw rq)"
    and cancel_keeps: "keeps (gw_cancel_order gw y oid cid)"
    and stop_keeps: "keeps (gw_set_trading_stop gw sr)"
    and tpsl_keeps: "keeps (gw_get_position_tpsl gw y)"
    and uuid_keeps: "keeps (gw_uuid gw)"
    and sleep_keeps: "keeps (gw_sleep gw d)"
begin

lemma new_cid_keeps: "keeps (new_cid gw p)"
  unfolding new_cid_def by (intro keeps_and_then uuid_keeps keeps_ret)

lemma load_metas_keeps: "keeps (load_metas gw)"
proof (rule keepsI)
  fix s s' r
  assume run: "load_metas gw s = (s', r)"
  obtain s1 r1 where load: "gw_load_instruments gw s = (s1, r1)" by fastforce
  have "R s s1" by (rule keepsD [OF load_keeps load])
  then show "R s s'"
    using run by (auto simp: load_metas_def load Let_def R_refl intro: R_trans [OF _ own_state] split: option.splits)
qed

lemma normalize_keeps: "keeps (normalize_request_qty gw rq)"
  unfolding normalize_request_qty_def meta_for_def by (intro keeps_and_then load_metas_keeps keeps_ret)

lemma poll_keeps:
  assumes "gw_get_order gw = Some get"
  shows "keeps (poll gw get rq placed deadline n last_seen)"
proof (induction n arbitrary: last_seen)
  case 0
  show ?case by (simp only: poll.simps keeps_ret)
next
  case (Suc n)
  show ?case
    unfolding poll.simps Let_def
    by (intro keeps_and_then keeps_option keeps_if keeps_then_do keeps_ret keeps_reads
        get_order_keeps [OF assms] sleep_keeps Suc)
qed

lemma resolve_keeps: "keeps (resolve gw cfg rq placed ttl)"
proof (cases "gw_get_order gw")
  case None
  then show ?thesis by (simp add: resolve_def)
next
  case (Some get)
  then show ?thesis by (simp add: resolve_def Let_def keeps_and_then poll_keeps)
qed

lemma recover_keeps: "keeps (recover_order gw y cid)"
  unfolding recover_order_def by (intro keeps_option keeps_and_then open_orders_keeps keeps_ret)

lemma cancel_safe_keeps: "keeps (safe_cancel gw y oid cid)"
  unfolding safe_cancel_def by (intro keeps_try_except cancel_keeps keeps_ret)

end

text \<open>The bookkeeping the order manager does itself is allowed by the relation, too; then so is everything it
  does.\<close>

locale order_frame = gateway_frame R gw for R :: "'g bot \<Rightarrow> 'g bot \<Rightarrow> bool" and gw :: "'g gateway" +
  assumes log_keeps: "R s (log_entry e s)"
    and reserve_keeps: "R s (reserve_request rq s)"
    and clear_keeps: "R s (clear_reservation cid s)"
    and record_keeps: "R s (record_order rq res em s)"

context order_frame
begin

lemmas bookkeeping = log_keeps reserve_keeps clear_keeps record_keeps

lemma settle_keeps: "keeps (settle gw cfg rq em ttl placed)"
  unfolding settle_def
  by (intro keeps_and_then keeps_then_do keeps_modify keeps_ret resolve_keeps) (simp_all add: bookkeeping)

lemma after_timeout_keeps: "keeps (after_timeout gw cfg rq em ttl)"
  unfolding after_timeout_def Let_def
  by (intro keeps_and_then keeps_option keeps_then_do keeps_modify keeps_ret
      recover_keeps new_cid_keeps place_order_keeps settle_keeps) (simp_all add: bookkeeping)

lemma place_keeps: "keeps (place gw cfg rq0 em ttl)"
proof -
  have send: "keeps (\<lambda>s. case gw_place_order gw rq s of
          (s1, Inr placed) \<Rightarrow> settle gw cfg rq em ttl placed s1
        | (s1, Inl e) \<Rightarrow>
            if e = OrderTimeoutError then after_timeout gw cfg rq em ttl s1
            else (clear_reservation (rq_client_order_id rq) s1, Inl e))" for rq
  proof (rule keepsI)
    fix s s' r
    obtain s1 r1 where place: "gw_place_order gw rq s = (s1, r1)" by fastforce
    have 1: "R s s1" by (rule keepsD [OF place_order_keeps place])
    assume "(case gw_place_order gw rq s of
          (s1, Inr placed) \<Rightarrow> settle gw cfg rq em ttl placed s1
        | (s1, Inl e) \<Rightarrow>
            if e = OrderTimeoutError then after_timeout gw cfg rq em ttl s1
            else (clear_reservation (rq_client_order_id rq) s1, Inl e)) = (s', r)"
    then have "R s1 s'"
      by (auto simp: place clear_keeps split: sum.splits if_splits
          dest: keepsD [OF settle_keeps] keepsD [OF after_timeout_keeps])
    with 1 show "R s s'" by (rule R_trans)
  qed
  show ?thesis
    unfolding place_def
    by (intro keeps_and_then keeps_if keeps_then_do keeps_modify keeps_ret
        normalize_keeps send) (simp add: bookkeeping)
qed

lemma place_exit_keeps: "keeps (place_exit gw cfg y sd qty t price)"
  unfolding place_exit_def by (intro keeps_and_then new_cid_keeps place_keeps keeps_ret)

lemma market_exit_keeps: "keeps (market_exit gw cfg y sd qty)"
  unfolding market_exit_def by (rule place_exit_keeps)

lemma partial_exit_keeps: "keeps (place_partial_exit gw cfg y sd qty price)"
  unfolding place_partial_exit_def Let_def
  by (intro keeps_option keeps_and_then keeps_if keeps_then_do keeps_ret
      new_cid_keeps place_keeps cancel_safe_keeps market_exit_keeps)

lemma keep_or_flatten_keeps: "keeps (keep_or_flatten gw cfg y sd qty cid res)"
  unfolding keep_or_flatten_def Let_def
  by (intro keeps_if keeps_throw keeps_then_do keeps_when_do keeps_and_then
      cancel_safe_keeps market_exit_keeps keeps_ret)

lemma aggressive_keeps: "keeps (place_aggressive gw cfg y sd qty bid ask em sl tp)"
  unfolding place_aggressive_def Let_def
  by (intro keeps_and_then keeps_if new_cid_keeps keeps_lift place_keeps
      keep_or_flatten_keeps keeps_ret)

lemma limit_round_keeps: "keeps (limit_round gw cfg y sd qty price em sl tp)"
  unfolding limit_round_def Let_def
  by (intro keeps_and_then keeps_if keeps_then_do keeps_modify new_cid_keeps
      keeps_lift place_keeps cancel_safe_keeps keeps_ret record_keeps)

lemma tries_keeps: "keeps attempt \<Longrightarrow> keeps (limit_tries n attempt)"
proof (induction n)
  case 0
  show ?case by (simp only: limit_tries.simps keeps_ret)
next
  case (Suc n)
  then show ?case
    unfolding limit_tries.simps by (intro keeps_and_then keeps_option keeps_ret)
qed

lemma place_entry_keeps: "keeps (place_entry gw cfg y sd qty em bid ask lp sl tp)"
  unfolding place_entry_def place_limit_def
  by (intro keeps_and_then keeps_if keeps_lift aggressive_keeps tries_keeps limit_round_keeps)

lemma live_open_keeps: "keeps (live_open gw cfg a)"
  unfolding live_open_def
  by (intro keeps_then_do keeps_and_then leverage_keeps place_entry_keeps keeps_ret)

lemma live_close_keeps: "keeps (live_close gw cfg a)"
  unfolding live_close_def
  by (intro keeps_and_then keeps_if partial_exit_keeps market_exit_keeps keeps_ret)

end

locale exchange = gateway_frame same_book gw for gw :: "'g gateway"

section \<open>State changes outside the book\<close>

lemma same_book_upd_live [simp]: "same_book s (upd_live f s)"
  by (simp add: same_book_def upd_live_def)

lemma same_book_log [simp]: "same_book s (log_entry e s)"
  by (simp add: same_book_def)

lemma same_book_reserve [simp]: "same_book s (reserve_request rq s)"
  by (simp add: same_book_def reserve_request_def reserve_order_def upd_state_def split: option.split)

lemma same_book_clear [simp]: "same_book s (clear_reservation cid s)"
  by (simp add: same_book_def clear_reservation_def clear_order_reservation_def upd_state_def split: option.split)

lemma same_book_record [simp]: "same_book s (record_order rq res em s)"
  by (simp add: same_book_def record_order_def register_order_def clear_order_reservation_def upd_state_def
      Let_def split: option.split)

sublocale exchange \<subseteq> orders: order_frame same_book gw
  by unfold_locales simp_all

context exchange
begin

lemmas market_exit_book = orders.market_exit_keeps
lemmas live_open_book = orders.live_open_keeps
lemmas live_close_book = orders.live_close_keeps

end

section \<open>Protection touches its own symbol\<close>

lemmas book_only = keeps_book_only

lemma publish_simps [simp]: "sv_state (publish e s) = sv_state s"
  by (simp add: publish_def)

lemma touches_only_publish [simp]: "touches_only y s (publish e t) = touches_only y s t"
  by (simp add: touches_only_def pos_of_def)

lemma set_status_only: "touches_only y s (set_status y st s)"
  unfolding set_status_def by (rule upd_pos_only) simp

lemma activate_only: "touches_only y s (activate y tp sl s)"
  by (simp add: activate_def set_status_only)

lemma adopt_size_only: "touches_only y s (adopt_size y xs s)"
  by (auto simp: adopt_size_def only.R_refl upd_pos_only split: option.split)

lemmas only_simps = only.R_refl set_status_only activate_only adopt_size_only

text \<open>All the ports of the trading service.\<close>

locale trading_ports = manager_ports io for io :: "'x ports" +
  assumes protect_only: "only.keeps y (po_protect io y)"

context exchange
begin

lemma verify_only: "only.keeps y (verify_tries gw cfg y n)"
proof (induction n)
  case 0
  show ?case by (simp only: verify_tries.simps only.keeps_ret)
next
  case (Suc n)
  show ?case
    unfolding verify_tries.simps
    by (intro only.keeps_and_then only.keeps_if only.keeps_then_do only.keeps_when_do only.keeps_ret
        only.keeps_reads book_only [OF tpsl_keeps] book_only [OF sleep_keeps] Suc)
qed

lemma confirm_only: "only.keeps y (confirm_position gw y)"
  unfolding confirm_position_def
  by (intro only.keeps_try_except only.keeps_and_then book_only [OF positions_keeps] only.keeps_modify
      only.keeps_ret) (simp add: only_simps)

lemma emergency_only: "only.keeps y (emergency_close gw cfg y)"
proof -
  have finish: "only.keeps y (if outcome_is_filled oc
      then then_do (modify (\<lambda>s1. publish e (set_status y CLOSED s1))) (ret a) else ret b)" for oc e
    and a b :: protection_result
    by (intro only.keeps_if only.keeps_then_do only.keeps_modify only.keeps_ret) (simp add: only_simps)
  have close: "only.keeps y (\<lambda>s. case pos_of s y of None \<Rightarrow> (s, Inl TypeError)
      | Some p \<Rightarrow> and_then (market_exit gw cfg y (exit_side p) (p_qty p)) (\<lambda>oc. if outcome_is_filled oc
          then then_do (modify (\<lambda>s1. publish e (set_status y CLOSED s1))) (ret a) else ret b) s)" for e
    and a b :: protection_result
    by (rule only.keepsI) (auto simp: only.R_refl split: option.splits
        dest: only.keepsD [OF only.keeps_and_then [OF book_only [OF market_exit_book] finish]])
  show ?thesis
    unfolding emergency_close_def
    by (intro only.keeps_then_do only.keeps_modify close) (simp add: only_simps)
qed

lemma set_and_verify_only: "only.keeps y (set_and_verify gw cfg y tp sl)"
  unfolding set_and_verify_def verify_tpsl_def
  by (intro only.keeps_and_then only.keeps_lift only.keeps_then_do only.keeps_if only.keeps_ret
      only.keeps_modify book_only [OF stop_keeps] verify_only emergency_only) (simp_all add: only_simps)

lemma protect_with_only: "only.keeps y (protect_with gw cfg y tp sl)"
  unfolding protect_with_def verify_tpsl_def
  by (intro only.keeps_if only.keeps_then_do only.keeps_and_then only.keeps_modify only.keeps_ret
      verify_only set_and_verify_only) (simp_all add: only_simps)

lemma protect_only: "only.keeps y (protect gw cfg y)"
proof -
  have "only.keeps y (\<lambda>s. case pos_of s y of None \<Rightarrow> (s, Inl TypeError)
      | Some p \<Rightarrow> protect_with gw cfg y (wanted_tp cfg p) (wanted_sl cfg p) s)"
    by (rule only.keepsI) (auto simp: only.R_refl split: option.splits dest: only.keepsD [OF protect_with_only])
  then show ?thesis unfolding protect_def by (intro only.keeps_then_do confirm_only)
qed

lemma sync_only: "only.keeps y (sync_stop_loss gw cfg y)"
proof (rule only.keepsI)
  fix s s' r
  assume run: "sync_stop_loss gw cfg y s = (s', r)"
  have send: "only.keeps y (and_then (lift_res b) (\<lambda>sb. then_do (gw_set_trading_stop gw (rq sb))
      (then_do (modify (upd_live f)) (then_do (modify (\<lambda>s1. log_entry (e s1) s1)) (ret True)))))"
    for b :: "trigger_by result" and rq f e
    by (intro only.keeps_and_then only.keeps_lift only.keeps_then_do only.keeps_modify only.keeps_ret
        book_only [OF stop_keeps] same_book_touches same_book_upd_live same_book_log)
  show "touches_only y s s'"
    using run by (auto simp: sync_stop_loss_def Let_def only.R_refl split: option.splits if_splits
        dest: only.keepsD [OF send])
qed

lemma sync_book: "book.keeps (sync_stop_loss gw cfg y)"
proof (rule book.keepsI)
  fix s s' r
  assume run: "sync_stop_loss gw cfg y s = (s', r)"
  have send: "book.keeps (and_then (lift_res b) (\<lambda>sb. then_do (gw_set_trading_stop gw (rq sb))
      (then_do (modify (upd_live f)) (then_do (modify (\<lambda>s1. log_entry (e s1) s1)) (ret True)))))"
    for b :: "trigger_by result" and rq f e
    by (intro book.keeps_and_then book.keeps_lift book.keeps_then_do book.keeps_modify book.keeps_ret
        stop_keeps same_book_upd_live same_book_log)
  show "same_book s s'"
    using run by (auto simp: sync_stop_loss_def Let_def book.R_refl split: option.splits if_splits
        dest: book.keepsD [OF send])
qed

lemma live_stop_ports: "book.keeps ob \<Longrightarrow> stop_ports (live_ports gw cfg ob)"
  by unfold_locales (simp_all add: live_ports_def live_open_book live_close_book sync_only sync_book)

lemma live_trading_ports: "book.keeps ob \<Longrightarrow> trading_ports (live_ports gw cfg ob)"
  by unfold_locales
    (simp_all add: live_ports_def live_open_book live_close_book protect_only sync_only)

end

interpretation paper: trading_ports "paper_ports ob"
  by unfold_locales (simp add: paper_ports_def)

end
