(* ===== verification/Bybit_Facts.thy ===== *)
theory Bybit_Facts
  imports Bybit_Gateway Exchange_Contract
begin

text \<open>
  What the gateway guarantees: it touches nothing but what the SDK touches, so it keeps every frame the
  bot's proofs ask of a gateway; it retries as \<open>with_backoff\<close> says; it reads positions back as the exchange
  reports them; a cancel of a settled order succeeds; and it never reports a time-out as one.
\<close>

section \<open>The frame\<close>

locale sdk = two_state R for R :: "'g bot \<Rightarrow> 'g bot \<Rightarrow> bool" +
  fixes hp :: "'g bot http" and new_uuid :: "('g bot, string) action"
  assumes upd_live_keeps: "R s (upd_live f s)"
    and call_keeps: "keeps (hp_call hp name params)"
    and permit_keeps: "keeps (hp_rest_permit hp)" "keeps (hp_order_permit hp)"
    and wait_keeps: "keeps (hp_sleep hp d)"
    and new_uuid_keeps: "keeps new_uuid"
begin

lemma backoff_keeps: "keeps m \<Longrightarrow> keeps (backoff hp by n k m)"
proof (induction n arbitrary: k)
  case 0
  then show ?case by simp
next
  case (Suc n)
  then show ?case unfolding backoff.simps by (intro keeps_try_except keeps_then_do wait_keeps) simp_all
qed

lemma rest_keeps: "keeps (rest hp by name params)" "keeps (order_rest hp by name params)"
  unfolding rest_def order_rest_def
  by (intro keeps_and_then backoff_keeps keeps_then_do permit_keeps call_keeps keeps_lift)+

lemma tolerate_keeps: "keeps (tolerate known (hp_call hp name params))"
  unfolding tolerate_def by (intro keeps_try_except call_keeps keeps_if keeps_ret keeps_throw)

lemma look_up_keeps: "keeps (look_up hp by params names)"
proof (induction names)
  case Nil
  show ?case by (simp only: look_up.simps keeps_ret)
next
  case (Cons name names)
  show ?case
    unfolding look_up.simps
    by (intro keeps_if keeps_and_then keeps_try_except keeps_option rest_keeps keeps_ret keeps_lift Cons.IH)
qed

lemma bybit_frame: "gateway_frame R (bybit_gateway hp by new_uuid clock)"
proof
  show "keeps (gw_cancel_order (bybit_gateway hp by new_uuid clock) y oid cid)" for y oid cid
    by (cases "order_named by y oid cid")
      (auto simp: bybit_gateway_def cancel_order_def intro!: keeps_and_then keeps_try_except backoff_keeps keeps_then_do permit_keeps tolerate_keeps wait_keeps)
  show "keeps (get y oid cid)" if "gw_get_order (bybit_gateway hp by new_uuid clock) = Some get" for get y oid cid
    using that by (cases "order_named by y oid cid") (auto simp: bybit_gateway_def get_order_def look_up_keeps simp del: look_up.simps)
qed (simp_all add: bybit_gateway_def load_instruments_def get_positions_def get_open_orders_def set_leverage_def
    place_order_def set_trading_stop_def get_position_tpsl_def upd_live_keeps wait_keeps new_uuid_keeps rest_keeps
    tolerate_keeps permit_keeps keeps_and_then backoff_keeps keeps_then_do)

end

section \<open>Retries\<close>

text \<open>An SDK that replays given outcomes and records how long it is told to sleep.\<close>

type_synonym script = "json result list \<times> rat list"

definition replay :: "(script, json) action" where
  "replay s = (case s of ([], ds) \<Rightarrow> (s, Inl TypeError) | (r # rs, ds) \<Rightarrow> ((rs, ds), r))"

definition scripted :: "script http" where
  "scripted =
    \<lparr> hp_call = \<lambda>_ _. replay, hp_has = \<lambda>_. True, hp_rest_permit = ret (), hp_order_permit = ret (),
      hp_sleep = \<lambda>d. modify (\<lambda>(rs, ds). (rs, ds @ [d])), hp_now_ms = \<lambda>_. 0 \<rparr>"

lemma backoff_from:
  assumes "with_backoff_from k (k + n) (by_backoff_base by) (by_backoff_max by) outs = Some (r, ds)"
  shows "backoff scripted by n k replay (outs, slept) = ((drop (Suc (length ds)) outs, slept @ ds), r)"
  using assms
proof (induction n arbitrary: k outs ds slept)
  case 0
  then show ?case by (cases outs rule: list.exhaust; cases "hd outs") (auto simp: replay_def)
next
  case (Suc n)
  show ?case
  proof (cases outs)
    case Nil
    then show ?thesis using Suc.prems by simp
  next
    case (Cons o1 rest1)
    show ?thesis
    proof (cases o1)
      case (Inr x)
      then show ?thesis using Suc.prems Cons by (auto simp: replay_def try_except_def)
    next
      case (Inl e)
      let ?d = "min (by_backoff_max by) (by_backoff_base by * 2 ^ k)"
      obtain ds' where ds: "with_backoff_from (Suc k) (Suc k + n) (by_backoff_base by) (by_backoff_max by) rest1 = Some (r, ds')"
          "ds = ?d # ds'"
        using Suc.prems Cons Inl by (auto simp: Let_def)
      show ?thesis
        using Suc.IH [OF ds(1), of "slept @ [?d]"] ds(2) Cons Inl
        by (simp add: replay_def try_except_def scripted_def then_do_def)
    qed
  qed
qed

lemma backoff_refines:
  assumes "with_backoff n (by_backoff_base by) (by_backoff_max by) outs = Some (r, ds)"
  shows "backoff scripted by n 0 replay (outs, []) = ((drop (Suc (length ds)) outs, ds), r)"
  using backoff_from [of 0 n] assms by (simp add: with_backoff_def)

section \<open>Errors\<close>

lemma try_except_at: "m s = (s', Inr x) \<Longrightarrow> try_except m h s = (s', Inr x)"
  by (simp add: try_except_def)

text \<open>A cancel of an order that is already gone from the exchange is not an error: when the SDK answers that the
  order does not exist the cancel returns normally after that one call, without waiting for a retry; and without
  any identifier it is refused before anything is sent.\<close>

theorem cancel_settled:
  assumes "hp_order_permit hp s = (s1, Inr ())"
    and "\<And>params. order_named by y oid cid = Some params \<Longrightarrow> hp_call hp ''cancel_order'' params s1 = (s2, Inl e)"
    and "is_order_missing_error e"
  shows "cancel_order hp by y oid cid s =
    (if truthy oid \<or> truthy cid then (s2, Inr ())
     else (s, Inl (OrderError ''cancel_order requires order_id or client_order_id'')))"
proof (cases "order_named by y oid cid")
  case None
  then have "\<not> truthy oid" "\<not> truthy cid" by (auto simp: order_named_def split: if_splits)
  then show ?thesis using None by (simp add: cancel_order_def)
next
  case (Some params)
  then have ids: "truthy oid \<or> truthy cid" by (auto simp: order_named_def split: if_splits)
  have "then_do (hp_order_permit hp) (tolerate is_order_missing_error (hp_call hp ''cancel_order'' params)) s =
      (s2, Inr settled_response)"
    using assms Some by (simp add: then_do_def and_then_def tolerate_def try_except_def)
  then have "backoff hp by 1 0 (then_do (hp_order_permit hp)
      (tolerate is_order_missing_error (hp_call hp ''cancel_order'' params))) s = (s2, Inr settled_response)"
    by (simp add: try_except_at)
  then show ?thesis
    using Some ids by (simp add: cancel_order_def and_then_def unwrap_def settled_response_def del: backoff.simps)
qed

text \<open>\<open>OrderTimeoutError\<close> is what \<open>OrderManager\<close> recovers from. The gateway never raises it: a time-out of the SDK is
  retried once with the same identifier and then raised as it came.\<close>

lemma backoff_error:
  assumes "\<And>s s' e. m s = (s', Inl e) \<Longrightarrow> e \<noteq> OrderTimeoutError"
    and "\<And>d s s' e. hp_sleep hp d s = (s', Inl e) \<Longrightarrow> e \<noteq> OrderTimeoutError"
  shows "backoff hp by n k m s = (s', Inl e) \<Longrightarrow> e \<noteq> OrderTimeoutError"
proof (induction n arbitrary: k s)
  case 0
  then show ?case using assms(1) by simp
next
  case (Suc n)
  from Suc.prems show ?case
    using assms(2) Suc.IH by (auto simp: try_except_def then_do_def and_then_def split: prod.splits sum.splits)
qed

lemma parse_decimal_error: "parse_decimal s = Inl e \<Longrightarrow> e = InvalidOperation"
  by (auto simp: parse_decimal_def parse_number_def parse_unsigned_def parse_exponent_def Let_def bind_res_def
      split: sum.splits if_splits option.splits)

lemma read_errors:
  "json_get k d = Inl e \<Longrightarrow> e = TypeError" "json_get_or k x d = Inl e \<Longrightarrow> e = TypeError"
  "json_text d = Inl e \<Longrightarrow> e = ValueError"
  by (auto simp: json_get_def json_get_or_def json_text_def split: json.splits)

lemma unwrap_error: "unwrap resp = Inl e \<Longrightarrow> e \<noteq> OrderTimeoutError"
  by (auto simp: unwrap_def bind_res_def split: sum.splits if_splits dest: read_errors)

lemma placed_error: "placed_of rq res = Inl e \<Longrightarrow> e \<noteq> OrderTimeoutError"
  by (auto simp: placed_of_def bind_res_def split: sum.splits if_splits dest: read_errors)

lemma place_order_no_timeout:
  assumes "\<And>name ps s s' e. hp_call hp name ps s = (s', Inl e) \<Longrightarrow> e \<noteq> OrderTimeoutError"
    and "\<And>s s' e. hp_order_permit hp s = (s', Inl e) \<Longrightarrow> e \<noteq> OrderTimeoutError"
    and "\<And>d s s' e. hp_sleep hp d s = (s', Inl e) \<Longrightarrow> e \<noteq> OrderTimeoutError"
  shows "place_order hp by rq s = (s', Inl e) \<Longrightarrow> e \<noteq> OrderTimeoutError"
proof -
  assume run: "place_order hp by rq s = (s', Inl e)"
  have m: "then_do (hp_order_permit hp) (hp_call hp name ps) s = (s', Inl e) \<Longrightarrow> e \<noteq> OrderTimeoutError" for name ps s s' e
    using assms(1,2) by (auto simp: then_do_def and_then_def split: prod.splits sum.splits)
  have b: "backoff hp by 1 0 (then_do (hp_order_permit hp) (hp_call hp name ps)) s = (s', Inl e) \<Longrightarrow> e \<noteq> OrderTimeoutError"
    for name ps s s' e
    by (rule backoff_error [OF m assms(3)])
  show ?thesis
    using run b by (auto simp: place_order_def order_rest_def and_then_def split: prod.splits sum.splits
        dest: unwrap_error placed_error simp del: backoff.simps)
qed

section \<open>Positions are read as the exchange reports them\<close>

text \<open>An answer of \<open>get_positions\<close> in the documented format, where numbers are text and absent levels are empty.\<close>

definition opt_json :: "dec option \<Rightarrow> json" where
  "opt_json x = (case x of None \<Rightarrow> JStr [] | Some v \<Rightarrow> json_of_dec v)"

definition position_json :: "exchange_position \<Rightarrow> json" where
  "position_json x =
    JObj [(''symbol'', JStr (xp_symbol x)),
          (''side'', JStr (case xp_side x of None \<Rightarrow> [] | Some LONG \<Rightarrow> ''Buy'' | Some SHORT \<Rightarrow> ''Sell'')),
          (''size'', json_of_dec (xp_size x)), (''avgPrice'', json_of_dec (xp_avg_price x)),
          (''leverage'', json_of_dec (xp_leverage x)), (''liqPrice'', opt_json (xp_liq_price x)),
          (''unrealisedPnl'', json_of_dec (xp_unrealized_pnl x)), (''takeProfit'', opt_json (xp_take_profit x)),
          (''stopLoss'', opt_json (xp_stop_loss x)), (''positionIdx'', JInt (xp_position_idx x))]"

definition reportable :: "exchange_position \<Rightarrow> bool" where
  "reportable x \<longleftrightarrow>
    is_dec (xp_size x) \<and> is_dec (xp_avg_price x) \<and> is_dec (xp_leverage x) \<and> is_dec (xp_unrealized_pnl x) \<and>
    pred_option (\<lambda>v. is_dec v \<and> v \<noteq> 0) (xp_liq_price x) \<and> pred_option (\<lambda>v. is_dec v \<and> v \<noteq> 0) (xp_take_profit x) \<and>
    pred_option (\<lambda>v. is_dec v \<and> v \<noteq> 0) (xp_stop_loss x) \<and> (xp_side x = None \<longleftrightarrow> xp_size x = 0)"

lemma read_dec_json [simp]: "is_dec x \<Longrightarrow> read_dec d (json_of_dec x) = Inr x"
  by (simp add: json_of_dec_def read_dec_text)

lemma read_opt_json [simp]:
  assumes "pred_option (\<lambda>v. is_dec v \<and> v \<noteq> 0) x" shows "read_opt_dec (opt_json x) = Inr x"
proof (cases x)
  case None
  then show ?thesis by (simp add: opt_json_def read_opt_dec_def)
next
  case (Some v)
  then have v: "parse_decimal (str_dec v) = Inr v" "v \<noteq> 0" using assms by (auto intro: parse_str_dec)
  have "str_dec v \<noteq> ''0''" "str_dec v \<noteq> []"
    using v by (auto simp: parse_decimal_def parse_number_def parse_unsigned_def digit_value_def)
  then show ?thesis using Some v(1) by (simp add: opt_json_def read_opt_dec_def json_of_dec_def json_dec_def)
qed

lemma position_read: "reportable x \<Longrightarrow> position_of_item (position_json x) = Inr x"
  by (cases "xp_side x") (auto simp: reportable_def position_of_item_def position_json_def dec_field_def opt_dec_field_def
      symbol_field_def json_item_def json_text_def json_get_or_def json_int_def split: position_side.split)

text \<open>C14. The positions of the exchange are read as they are: whatever positions the exchange reports in the format it
  documents, \<open>get_positions\<close> returns exactly those, in their order, with their sides, sizes, prices, levels and
  results.\<close>

theorem positions_roundtrip:
  assumes "list_all reportable xs" "hp_rest_permit hp s = (s1, Inr ())"
    and "hp_call hp ''get_positions'' [(''category'', JStr (by_category by)), (''settleCoin'', JStr (by_quote_coin by))] s1 =
      (s2, Inr (JObj [(''retCode'', JInt 0), (''result'', JObj [(''list'', JList (map position_json xs))])]))"
  shows "get_positions hp by s = (s2, Inr xs)"
proof -
  have "map_res position_of_item (map position_json xs) = Inr xs"
    using assms(1) by (simp add: map_res_Inr list_all2_map1 list_all2_same list_all_iff position_read)
  then show ?thesis
    using assms(2,3)
    by (simp add: get_positions_def rest_def and_then_def then_do_def try_except_def numeral_3_eq_3 unwrap_def
        json_list_def json_get_or_def json_elements_def)
qed

lemma positions_roundtrip_witness:
  "get_positions (scripted\<lparr> hp_call := \<lambda>_ _ s. (s, Inr (JObj [(''retCode'', JInt 0),
      (''result'', JObj [(''list'', JList (map position_json
        [\<lparr> xp_symbol = ''BTC'', xp_side = Some SHORT, xp_size = 2, xp_avg_price = 100, xp_leverage = 5,
           xp_liq_price = None, xp_unrealized_pnl = 0, xp_take_profit = None, xp_stop_loss = Some 105,
           xp_position_idx = 0 \<rparr>]))])])) \<rparr>)
     \<lparr> by_category = ''linear'', by_account_type = ''UNIFIED'', by_quote_coin = ''USDT'', by_backoff_base = 1,
       by_backoff_max = 30 \<rparr> ([], []) =
   (([], []), Inr [\<lparr> xp_symbol = ''BTC'', xp_side = Some SHORT, xp_size = 2, xp_avg_price = 100, xp_leverage = 5,
     xp_liq_price = None, xp_unrealized_pnl = 0, xp_take_profit = None, xp_stop_loss = Some 105, xp_position_idx = 0 \<rparr>])"
proof -
  have "is_dec (of_int n)" if "0 \<le> n" "n \<le> 105" for n
    using that by (intro is_dec_int) (simp add: prec_hi_def order_trans [of _ "of_int 105"])
  from this [of 0] this [of 2] this [of 5] this [of 100] this [of 105] show ?thesis
    by (intro positions_roundtrip) (simp_all add: reportable_def scripted_def)
qed

lemma cancel_settled_witness:
  "cancel_order (scripted\<lparr> hp_call := \<lambda>_ _ s. (s, Inl (ExchangeError ''ErrCode: 110001'')) \<rparr>)
     \<lparr> by_category = ''linear'', by_account_type = ''UNIFIED'', by_quote_coin = ''USDT'', by_backoff_base = 1,
       by_backoff_max = 30 \<rparr> ''BTC'' (Some ''7'') None ([], []) = (([], []), Inr ())"
  by (subst cancel_settled [where ?s1.0 = "([], [])" and e = "ExchangeError ''ErrCode: 110001''"])
    (simp_all add: scripted_def is_order_missing_error_def truthy_def)

end
