(* ===== verification/Fake_Exchange.thy ===== *)
theory Fake_Exchange
  imports Exchange_Contract
begin

text \<open>
  The repository's in-memory exchange (\<^verbatim>\<open>tests/fakes/fake_gateway.py\<close>), which its own end-to-end
  tests run the order manager and the protection manager against, as an implementation of the
  gateway contract. Orders fill at once at \<open>fx_fill_ratio\<close> of their quantity, net into positions
  and attach their stops. The clock and the supply of identifiers stand for the ones the tests
  inject.
\<close>

section \<open>State\<close>

record fake_exchange =
  fx_instruments :: "symbol_meta list"
  fx_tickers :: "(string \<times> market_ticker) list"
  fx_positions :: "(string \<times> exchange_position) list"
  fx_open_orders :: "exchange_order list"
  fx_leverage :: "string \<rightharpoonup> dec"
  fx_tpsl :: "string \<rightharpoonup> dec option \<times> dec option"
  fx_placed_orders :: "order_request list"
  fx_trading_stops :: "trading_stop_request list"
  fx_cancelled :: "(string \<times> string option \<times> string option) list"
  fx_fill_ratio :: dec
  fx_disable_tpsl :: bool
  fx_tpsl_override_on_set :: "(dec option \<times> dec option) option"
  fx_order_seq :: nat
  fx_now :: rat
  fx_uuids :: nat

definition new_fake_exchange :: fake_exchange where
  "new_fake_exchange = \<lparr> fx_instruments = [], fx_tickers = [], fx_positions = [], fx_open_orders = [],
    fx_leverage = Map.empty, fx_tpsl = Map.empty, fx_placed_orders = [], fx_trading_stops = [],
    fx_cancelled = [], fx_fill_ratio = 1, fx_disable_tpsl = False, fx_tpsl_override_on_set = None,
    fx_order_seq = 0, fx_now = 0, fx_uuids = 0 \<rparr>"

text \<open>\<open>x.quantize(Decimal("0.00000001"))\<close>.\<close>

definition quantize8 :: "rat \<Rightarrow> dec" where
  "quantize8 x = of_int (rhe (x * 100000000)) / 100000000"

section \<open>Fills\<close>

definition fake_position :: "string \<Rightarrow> position_side option \<Rightarrow> dec \<Rightarrow> dec \<Rightarrow> dec \<Rightarrow> exchange_position" where
  "fake_position y sd sz avg lev =
    \<lparr> xp_symbol = y, xp_side = sd, xp_size = sz, xp_avg_price = avg, xp_leverage = lev, xp_liq_price = None,
      xp_unrealized_pnl = 0, xp_take_profit = None, xp_stop_loss = None, xp_position_idx = 0 \<rparr>"

definition signed_size :: "exchange_position option \<Rightarrow> dec" where
  "signed_size x =
    (case x of
       None \<Rightarrow> 0
     | Some e \<Rightarrow> (case xp_side e of None \<Rightarrow> 0 | Some LONG \<Rightarrow> xp_size e | Some SHORT \<Rightarrow> dneg (xp_size e)))"

definition apply_fill :: "order_request \<Rightarrow> dec \<Rightarrow> dec \<Rightarrow> fake_exchange \<Rightarrow> fake_exchange" where
  "apply_fill rq qty price f =
    (let y = rq_symbol rq; existing = map_of (fx_positions f) y;
         signed = (if rq_side rq = BUY then qty else dneg qty);
         prev_side = (case existing of None \<Rightarrow> None | Some e \<Rightarrow> xp_side e);
         prev_size = signed_size existing;
         new_signed = dadd prev_size signed
     in if new_signed = 0
        then f\<lparr> fx_positions := dict_set y (fake_position y None 0 0 1) (fx_positions f),
                fx_tpsl := (fx_tpsl f)(y := None) \<rparr>
        else
          let new_side = (if 0 < new_signed then LONG else SHORT);
              increasing = (prev_side = Some new_side \<and> (0 < signed) = (0 < prev_size));
              avg = (case existing of
                       None \<Rightarrow> price
                     | Some e \<Rightarrow>
                         if increasing
                         then ddiv (dadd (dmul (xp_avg_price e) (xp_size e)) (dmul price qty)) (dadd (xp_size e) qty)
                         else if prev_side = Some new_side then xp_avg_price e else price)
          in f\<lparr> fx_positions := dict_set y
               (fake_position y (Some new_side) (dabs new_signed) avg (get_or (fx_leverage f) y 1)) (fx_positions f) \<rparr>)"

definition set_stops :: "string \<Rightarrow> dec option \<Rightarrow> dec option \<Rightarrow> fake_exchange \<Rightarrow> fake_exchange" where
  "set_stops y tp sl f =
    (let f1 = f\<lparr> fx_tpsl := (fx_tpsl f)(y \<mapsto> (tp, sl)) \<rparr> in
     case map_of (fx_positions f) y of
       Some e \<Rightarrow>
         if xp_side e = None then f1
         else f1\<lparr> fx_positions := dict_set y (e\<lparr> xp_take_profit := tp, xp_stop_loss := sl \<rparr>) (fx_positions f1) \<rparr>
     | None \<Rightarrow> f1)"

definition apply_attached_tpsl :: "order_request \<Rightarrow> fake_exchange \<Rightarrow> fake_exchange" where
  "apply_attached_tpsl rq f =
    (if rq_reduce_only rq \<or> fx_disable_tpsl f then f
     else if rq_take_profit rq = None \<and> rq_stop_loss rq = None then f
     else set_stops (rq_symbol rq) (rq_take_profit rq) (rq_stop_loss rq) f)"

definition fake_place_order :: "order_request \<Rightarrow> fake_exchange \<Rightarrow> fake_exchange \<times> exchange_order_result" where
  "fake_place_order rq f0 =
    (let f1 = f0\<lparr> fx_placed_orders := fx_placed_orders f0 @ [rq], fx_order_seq := fx_order_seq f0 + 1 \<rparr>;
         fill_qty = quantize8 (dmul (rq_qty rq) (fx_fill_ratio f1));
         last_price = (case map_of (fx_tickers f1) (rq_symbol rq) of None \<Rightarrow> 0 | Some t \<Rightarrow> tk_last_price t);
         price = or_dec (rq_price rq) last_price;
         f2 = (if 0 < fill_qty then apply_attached_tpsl rq (apply_fill rq fill_qty price f1) else f1)
     in (f2, \<lparr> xr_symbol = rq_symbol rq, xr_order_id = ''fake-'' @ nat_str (fx_order_seq f1),
               xr_client_order_id = rq_client_order_id rq,
               xr_status = (if 1 \<le> fx_fill_ratio f1 then FILLED else if 0 < fill_qty then PARTIALLY_FILLED else NEW),
               xr_filled_qty = fill_qty, xr_avg_fill_price = (if 0 < fill_qty then Some price else None) \<rparr>))"

definition fake_cancel_order :: "string \<Rightarrow> string option \<Rightarrow> string option \<Rightarrow> fake_exchange \<Rightarrow> fake_exchange" where
  "fake_cancel_order y oid cid f =
    f\<lparr> fx_cancelled := fx_cancelled f @ [(y, oid, cid)],
       fx_open_orders := filter (\<lambda>x. \<not> (xo_symbol x = y \<and> (oid = None \<or> oid = Some (xo_order_id x)) \<and>
           (cid = None \<or> xo_client_order_id x = cid))) (fx_open_orders f) \<rparr>"

definition fake_open_orders :: "string option \<Rightarrow> fake_exchange \<Rightarrow> exchange_order list" where
  "fake_open_orders y f =
    (case y of None \<Rightarrow> fx_open_orders f | Some z \<Rightarrow> filter (\<lambda>x. xo_symbol x = z) (fx_open_orders f))"

definition fake_get_order :: "string \<Rightarrow> string option \<Rightarrow> string option \<Rightarrow> fake_exchange \<Rightarrow> exchange_order option" where
  "fake_get_order y oid cid f =
    find (\<lambda>x. truthy oid \<and> oid = Some (xo_order_id x) \<or> truthy cid \<and> xo_client_order_id x = cid)
      (fake_open_orders (Some y) f)"

definition fake_set_trading_stop :: "trading_stop_request \<Rightarrow> fake_exchange \<Rightarrow> fake_exchange" where
  "fake_set_trading_stop rq f =
    (let f1 = f\<lparr> fx_trading_stops := fx_trading_stops f @ [rq] \<rparr> in
     if fx_disable_tpsl f1 then f1
     else case fx_tpsl_override_on_set f1 of
            Some (tp, sl) \<Rightarrow> set_stops (tr_symbol rq) tp sl f1
          | None \<Rightarrow> set_stops (tr_symbol rq) (tr_take_profit rq) (tr_stop_loss rq) f1)"

definition fake_position_tpsl :: "string \<Rightarrow> fake_exchange \<Rightarrow> position_tpsl_state" where
  "fake_position_tpsl y f =
    (let (tp, sl) = get_or (fx_tpsl f) y (None, None)
     in \<lparr> ts_symbol = y, ts_take_profit = tp, ts_stop_loss = sl \<rparr>)"

section \<open>The gateway\<close>

definition upd_fake :: "(fake_exchange \<Rightarrow> fake_exchange) \<Rightarrow> (fake_exchange bot, unit) action" where
  "upd_fake f = modify (upd_live (\<lambda>v. v\<lparr> lv_gw := f (lv_gw v) \<rparr>))"

definition ask_fake :: "(fake_exchange \<Rightarrow> 'a) \<Rightarrow> (fake_exchange bot, 'a) action" where
  "ask_fake f = reads (\<lambda>s. f (lv_gw (sv_exec s)))"

definition fake_gateway :: "fake_exchange gateway" where
  "fake_gateway =
    \<lparr> gw_load_instruments = ask_fake fx_instruments,
      gw_get_positions = ask_fake (\<lambda>f. filter (\<lambda>x. xp_side x \<noteq> None) (map snd (fx_positions f))),
      gw_get_open_orders = (\<lambda>y. ask_fake (fake_open_orders y)),
      gw_get_order = Some (\<lambda>y oid cid. ask_fake (fake_get_order y oid cid)),
      gw_set_leverage = (\<lambda>y lev. upd_fake (\<lambda>f. f\<lparr> fx_leverage := (fx_leverage f)(y \<mapsto> lev) \<rparr>)),
      gw_place_order = (\<lambda>rq. and_then (ask_fake (\<lambda>f. snd (fake_place_order rq f)))
        (\<lambda>res. then_do (upd_fake (\<lambda>f. fst (fake_place_order rq f))) (ret res))),
      gw_cancel_order = (\<lambda>y oid cid. upd_fake (fake_cancel_order y oid cid)),
      gw_set_trading_stop = (\<lambda>rq. upd_fake (fake_set_trading_stop rq)),
      gw_get_position_tpsl = (\<lambda>y. ask_fake (fake_position_tpsl y)),
      gw_uuid = and_then (ask_fake (\<lambda>f. nat_str (fx_uuids f)))
        (\<lambda>u. then_do (upd_fake (\<lambda>f. f\<lparr> fx_uuids := fx_uuids f + 1 \<rparr>)) (ret u)),
      gw_sleep = (\<lambda>d. upd_fake (\<lambda>f. f\<lparr> fx_now := fx_now f + d \<rparr>)),
      gw_clock = (\<lambda>s. fx_now (lv_gw (sv_exec s))) \<rparr>"

lemma fake_keeps: "book.keeps (upd_fake f)" "book.keeps (ask_fake g)"
  by (simp_all add: upd_fake_def ask_fake_def book.keeps_modify)

interpretation fake: exchange fake_gateway
  by unfold_locales (auto simp: fake_gateway_def book.keeps_and_then book.keeps_then_do fake_keeps)

interpretation fake_live: trading_ports "live_ports fake_gateway cfg (ret ob)"
  by (rule fake.live_trading_ports) simp

end
