(* ===== verification/Order_Facts.thy ===== *)
theory Order_Facts
  imports Fake_Exchange
begin

text \<open>
  What the order manager guarantees for any exchange: which orders it ever sends, what its
  outcomes mean, that polling ends by itself, and that a normal return leaves no reservation.
\<close>

section \<open>The orders that are sent\<close>

text \<open>Nothing but \<open>place\<close> sends orders: everything else is the same with another \<open>place_order\<close>.\<close>

abbreviation sends :: "'g gateway \<Rightarrow> (order_request \<Rightarrow> ('g bot, exchange_order_result) action) \<Rightarrow> 'g gateway" where
  "sends gw f \<equiv> gw\<lparr> gw_place_order := f \<rparr>"

lemma poll_sends [simp]: "poll (sends gw f) get rq placed deadline n x = poll gw get rq placed deadline n x"
  by (induction n arbitrary: x) (simp_all add: Let_def cong: option.case_cong if_cong)

lemma sends_place: "gw_place_order (sends gw f) = f"
  by simp

lemma sends_simps [simp]:
  "new_cid (sends gw f) p = new_cid gw p"
  "resolve (sends gw f) cfg rq placed ttl = resolve gw cfg rq placed ttl"
  "settle (sends gw f) cfg rq em ttl = settle gw cfg rq em ttl"
  "recover_order (sends gw f) y cid = recover_order gw y cid"
  "safe_cancel (sends gw f) y oid c = safe_cancel gw y oid c"
  by (simp_all add: new_cid_def resolve_def settle_def [abs_def] recover_order_def safe_cancel_def
      Let_def cong: option.case_cong if_cong)

lemma normalize_sends [simp]: "normalize_request_qty (sends gw f) rq = normalize_request_qty gw rq"
proof -
  have "load_metas (sends gw f) = load_metas gw" by (simp add: fun_eq_iff load_metas_def split: option.split)
  then show ?thesis by (simp add: normalize_request_qty_def meta_for_def)
qed

text \<open>The requests \<open>place\<close> may make of the one it is given.\<close>

definition same_request :: "order_request \<Rightarrow> order_request \<Rightarrow> bool" where
  "same_request rq rq' \<longleftrightarrow> (\<exists>q c. rq' = rq\<lparr> rq_qty := q, rq_client_order_id := c \<rparr>)"

lemma same_request_simps [simp]:
  "same_request rq rq" "same_request rq (rq\<lparr> rq_qty := q \<rparr>)"
  "same_request rq (rq\<lparr> rq_client_order_id := c \<rparr>)"
  unfolding same_request_def by (cases rq; force)+

lemma same_request_trans: "same_request a b \<Longrightarrow> same_request b c \<Longrightarrow> same_request a c"
  by (auto simp: same_request_def) blast

lemma and_then_at: "(\<And>s' x. m s = (s', Inr x) \<Longrightarrow> k x s' = k' x s') \<Longrightarrow> and_then m k s = and_then m k' s"
  by (auto simp: and_then_def split: prod.split sum.split)

lemma then_do_at: "(\<And>s'. m s = (s', Inr ()) \<Longrightarrow> k s' = k' s') \<Longrightarrow> then_do m k s = then_do m k' s"
  unfolding then_do_def by (rule and_then_at) simp

lemma and_then_cong: "(\<And>s s' x. m s = (s', Inr x) \<Longrightarrow> k x s' = k' x s') \<Longrightarrow> and_then m k = and_then m k'"
  by (rule ext) (rule and_then_at)

lemma normalize_same: "normalize_request_qty gw rq s = (s', Inr rq1) \<Longrightarrow> same_request rq rq1"
  by (auto simp: normalize_request_qty_def meta_for_def and_then_def Let_def
      split: prod.splits sum.splits option.splits if_splits)

lemma after_timeout_sends:
  "(\<And>rq'. same_request rq rq' \<Longrightarrow> f rq' = gw_place_order gw rq') \<Longrightarrow>
    after_timeout (sends gw f) cfg rq em ttl = after_timeout gw cfg rq em ttl"
  by (simp add: after_timeout_def Let_def cong: option.case_cong)

lemma place_sends:
  assumes "\<And>rq'. same_request rq rq' \<Longrightarrow> f rq' = gw_place_order gw rq'"
  shows "place (sends gw f) cfg rq em ttl = place gw cfg rq em ttl"
proof -
  have f: "f rq1 = gw_place_order gw rq1" if "same_request rq rq1" for rq1
    using assms that by blast
  have "after_timeout (sends gw f) cfg rq1 em ttl = after_timeout gw cfg rq1 em ttl" if "same_request rq rq1" for rq1
    by (rule after_timeout_sends) (rule f, rule same_request_trans [OF that])
  with f show ?thesis
    unfolding place_def normalize_sends
    by (intro and_then_cong) (simp only: sends_simps sends_place normalize_same)
qed

text \<open>The type of a request and whether it is reduce-only survive \<open>place\<close>.\<close>

lemma same_request_kind:
  "same_request rq rq' \<Longrightarrow> rq_type rq' = rq_type rq \<and> rq_reduce_only rq' = rq_reduce_only rq"
  by (auto simp: same_request_def)

text \<open>The gateway that answers requests of a forbidden kind arbitrarily, and every other as before.\<close>

definition guarded ::
  "(order_type \<Rightarrow> bool \<Rightarrow> bool) \<Rightarrow> (order_request \<Rightarrow> ('g bot, exchange_order_result) action) \<Rightarrow>
   'g gateway \<Rightarrow> 'g gateway" where
  "guarded P h gw = sends gw (\<lambda>rq. if P (rq_type rq) (rq_reduce_only rq) then gw_place_order gw rq else h rq)"

lemma place_guarded:
  "P (rq_type rq) (rq_reduce_only rq) \<Longrightarrow> place (guarded P h gw) cfg rq em ttl = place gw cfg rq em ttl"
  unfolding guarded_def by (rule place_sends) (auto dest: same_request_kind)

lemma guarded_simps [simp]:
  "new_cid (guarded P h gw) p = new_cid gw p" "safe_cancel (guarded P h gw) y oid c = safe_cancel gw y oid c"
  "gw_set_leverage (guarded P h gw) = gw_set_leverage gw"
  by (simp_all add: guarded_def)

lemma new_order_kind [simp]:
  "rq_type (new_order_request y sd t q) = t" "rq_reduce_only (new_order_request y sd t q) = False"
  by (simp_all add: new_order_request_def)

lemma exit_guarded [simp]: "P MARKET True \<Longrightarrow> market_exit (guarded P h gw) cfg y sd qty = market_exit gw cfg y sd qty"
  by (simp add: market_exit_def place_exit_def place_guarded)

lemma with_tpsl_kind:
  "with_entry_tpsl cfg sl tp rq = Inr rq' \<Longrightarrow> rq_type rq' = rq_type rq \<and> rq_reduce_only rq' = rq_reduce_only rq"
  by (auto simp: with_entry_tpsl_def bind_res_eq_Inr split: if_splits)

lemma lift_cong: "(\<And>x. r = Inr x \<Longrightarrow> k x = k' x) \<Longrightarrow> and_then (lift_res r) k = and_then (lift_res r) k'"
  by (rule and_then_cong) simp

lemma keep_guarded:
  "P MARKET True \<Longrightarrow> keep_or_flatten (guarded P h gw) cfg y sd qty cid res = keep_or_flatten gw cfg y sd qty cid res"
  by (simp add: keep_or_flatten_def Let_def cong: if_cong)

lemma aggressive_guarded:
  assumes "P AGGRESSIVE_LIMIT False" "P MARKET True"
  shows "place_aggressive (guarded P h gw) cfg y sd qty bid ask em sl tp = place_aggressive gw cfg y sd qty bid ask em sl tp"
  unfolding place_aggressive_def Let_def guarded_simps keep_guarded [of P, OF assms(2)]
  by (intro arg_cong [where f = "and_then _"] ext lift_cong arg_cong2 [where f = and_then] refl)
    (simp add: place_guarded with_tpsl_kind assms)

lemma limit_round_guarded:
  assumes "P LIMIT False"
  shows "limit_round (guarded P h gw) cfg y sd qty price em sl tp = limit_round gw cfg y sd qty price em sl tp"
  unfolding limit_round_def Let_def guarded_simps
  by (intro arg_cong [where f = "and_then _"] ext lift_cong arg_cong2 [where f = and_then] refl)
    (simp add: place_guarded with_tpsl_kind assms)

lemma partial_exit_guarded:
  "P MARKET True \<Longrightarrow> P LIMIT True \<Longrightarrow>
    place_partial_exit (guarded P h gw) cfg y sd qty price = place_partial_exit gw cfg y sd qty price"
  by (simp add: place_partial_exit_def place_guarded Let_def cong: option.case_cong if_cong)

text \<open>C10. Whatever the configuration says, a LIVE entry never sends a MARKET order that could open a
  position, and a LIVE exit sends reduce-only orders only: with an exchange that answers any
  other order in any other way, opening and closing do exactly the same. The order sent again
  after a timeout and the exit of a fill too small to keep are included.\<close>

theorem live_orders_restricted:
  "live_open (guarded (\<lambda>t reduce. \<not> (t = MARKET \<and> \<not> reduce)) h gw) cfg a = live_open gw cfg a \<and>
    live_close (guarded (\<lambda>t reduce. reduce) h gw) cfg c = live_close gw cfg c"
  by (simp add: live_open_def live_close_def place_entry_def place_limit_def aggressive_guarded
      limit_round_guarded partial_exit_guarded cong: if_cong)

section \<open>Polling ends\<close>

lemma poll_fuel_covers:
  assumes "deadline \<le> gw_clock gw s + of_nat k * poll_interval" "k < n" "k < m"
    and get: "\<And>s s' r. get (rq_symbol rq) (Some (xr_order_id placed)) (xr_client_order_id placed) s = (s', r) \<Longrightarrow>
      gw_clock gw s \<le> gw_clock gw s'"
    and sleep: "\<And>d s s' r. gw_sleep gw d s = (s', r) \<Longrightarrow> gw_clock gw s + d \<le> gw_clock gw s'"
  shows "poll gw get rq placed deadline n x s = poll gw get rq placed deadline m x s"
  using assms(1-3)
proof (induction k arbitrary: n m x s)
  case (0 n m)
  from 0(2,3) obtain n' m' where nm: "n = Suc n'" "m = Suc m'" by (cases n; cases m) simp_all
  have "deadline \<le> gw_clock gw s1"
    if "get (rq_symbol rq) (Some (xr_order_id placed)) (xr_client_order_id placed) s = (s1, Inr o1)" for s1 o1
    using get [OF that] 0(1) by simp
  then show ?case
    unfolding nm poll.simps by (intro and_then_at) (auto simp: Let_def split: option.split)
next
  case (Suc k n m)
  from Suc.prems(2,3) obtain n' m' where nm: "n = Suc n'" "m = Suc m'" by (cases n; cases m) simp_all
  have step: "poll gw get rq placed deadline n' y s2 = poll gw get rq placed deadline m' y s2"
    if "get (rq_symbol rq) (Some (xr_order_id placed)) (xr_client_order_id placed) s = (s1, Inr o1)"
      "gw_sleep gw poll_interval s1 = (s2, r)" for s1 o1 s2 r y
  proof -
    have "deadline \<le> gw_clock gw s2 + of_nat k * poll_interval"
      using get [OF that(1)] sleep [OF that(2)] Suc.prems(1) by (simp add: algebra_simps)
    then show ?thesis using Suc.prems(2,3) by (intro Suc.IH) (simp_all add: nm)
  qed
  have "(if deadline \<le> gw_clock gw s1 then ret z else then_do (gw_sleep gw poll_interval) (poll gw get rq placed deadline n' z)) s1 =
      (if deadline \<le> gw_clock gw s1 then ret z else then_do (gw_sleep gw poll_interval) (poll gw get rq placed deadline m' z)) s1"
    if "get (rq_symbol rq) (Some (xr_order_id placed)) (xr_client_order_id placed) s = (s1, Inr o1)" for s1 o1 z
    using step [OF that] by (auto intro: then_do_at)
  then show ?case
    unfolding nm poll.simps by (intro and_then_at) (auto simp: Let_def split: option.split)
qed

text \<open>C40. Waiting for an order ends: when a sleep takes at least as long as it says and time does not run
  backwards, the polling loop returns within its time to live, so the number of rounds the model
  gives it is never what ends it: with any larger number it does exactly the same.\<close>

theorem resolve_polls_enough:
  assumes "\<And>s s' r. get (rq_symbol rq) (Some (xr_order_id placed)) (xr_client_order_id placed) s = (s', r) \<Longrightarrow>
      gw_clock gw s \<le> gw_clock gw s'"
    and "\<And>d s s' r. gw_sleep gw d s = (s', r) \<Longrightarrow> gw_clock gw s + d \<le> gw_clock gw s'"
    and "poll_fuel ttl \<le> n"
  shows "poll gw get rq placed (gw_clock gw s + ttl) n x s =
    poll gw get rq placed (gw_clock gw s + ttl) (poll_fuel ttl) x s"
proof (rule poll_fuel_covers [OF _ _ _ assms(1,2)])
  let ?k = "nat \<lceil>ttl / poll_interval\<rceil>"
  have "ttl / poll_interval \<le> of_nat ?k" by linarith
  then show "gw_clock gw s + ttl \<le> gw_clock gw s + of_nat ?k * poll_interval"
    by (simp add: poll_interval_def)
  show "?k < n" "?k < poll_fuel ttl" using assms(3) by (simp_all add: poll_fuel_def)
qed

lemma resolve_polls_enough_witness:
  "\<forall>rq placed x s.
    poll fake_gateway (\<lambda>y oid cid. ask_fake (fake_get_order y oid cid)) rq placed
      (gw_clock fake_gateway s + 10) 1000 x s =
    poll fake_gateway (\<lambda>y oid cid. ask_fake (fake_get_order y oid cid)) rq placed
      (gw_clock fake_gateway s + 10) (poll_fuel 10) x s"
  by (intro allI resolve_polls_enough)
    (auto simp: ask_fake_def upd_fake_def upd_live_def fake_gateway_def poll_fuel_def poll_interval_def)

section \<open>What an outcome means\<close>

text \<open>The outcomes of a normal return.\<close>

definition yields :: "('s, 'a) action \<Rightarrow> ('a \<Rightarrow> bool) \<Rightarrow> bool" where
  "yields m Q \<longleftrightarrow> (\<forall>s s' x. m s = (s', Inr x) \<longrightarrow> Q x)"

lemma yieldsD: "yields m Q \<Longrightarrow> m s = (s', Inr x) \<Longrightarrow> Q x"
  unfolding yields_def by blast

lemma yields_ret: "yields (ret x) Q \<longleftrightarrow> Q x"
  by (simp add: yields_def)

lemma yields_throw [simp]: "yields (throw e) Q"
  by (simp add: yields_def)

lemma yields_and_then: "(\<And>x. yields (k x) Q) \<Longrightarrow> yields (and_then m k) Q"
  by (auto simp: yields_def and_then_def split: prod.splits sum.splits)

lemma yields_then_do: "yields k Q \<Longrightarrow> yields (then_do m k) Q"
  unfolding then_do_def by (rule yields_and_then)

lemma yields_if: "(b \<Longrightarrow> yields m Q) \<Longrightarrow> (\<not> b \<Longrightarrow> yields k Q) \<Longrightarrow> yields (if b then m else k) Q"
  by simp

lemma yields_option:
  "yields m Q \<Longrightarrow> (\<And>x. yields (k x) Q) \<Longrightarrow> yields (case z of None \<Rightarrow> m | Some x \<Rightarrow> k x) Q"
  by (cases z) simp_all

lemmas yields_intros = yields_and_then yields_then_do yields_if yields_option

definition outcome_ok :: "dec \<Rightarrow> order_outcome \<Rightarrow> bool" where
  "outcome_ok qty oc \<longleftrightarrow> (outcome_is_filled oc \<or> oc_filled_qty oc = 0) \<and>
    (oc_status oc = ''FILLED'' \<longrightarrow> qty \<le> oc_filled_qty oc) \<and>
    (oc_status oc \<noteq> ''FILLED'' \<longrightarrow> oc_filled_qty oc < qty \<or> oc_filled_qty oc = 0)"

lemma keep_outcome:
  "0 < xr_filled_qty res \<Longrightarrow> yields (keep_or_flatten gw cfg y sd qty cid res) (\<lambda>oc. outcome_ok qty oc \<and>
    (outcome_is_filled oc \<longrightarrow> co_partial_fill_min_ratio_to_keep (cfg_orders cfg) \<le> ddiv (oc_filled_qty oc) qty))"
  unfolding keep_or_flatten_def Let_def
  by (intro yields_if yields_then_do yields_and_then)
    (auto simp: yields_ret outcome_ok_def outcome_is_filled_def)

lemma aggressive_outcome:
  "yields (place_aggressive gw cfg y sd qty bid ask em sl tp) (\<lambda>oc. outcome_ok qty oc \<and>
    (outcome_is_filled oc \<longrightarrow> co_partial_fill_min_ratio_to_keep (cfg_orders cfg) \<le> ddiv (oc_filled_qty oc) qty))"
  unfolding place_aggressive_def Let_def
  by (intro yields_and_then yields_if keep_outcome)
    (auto simp: yields_ret outcome_ok_def outcome_is_filled_def)

lemma limit_round_outcome:
  "yields (limit_round gw cfg y sd qty price em sl tp) (\<lambda>x. case x of None \<Rightarrow> True | Some oc \<Rightarrow> outcome_ok qty oc)"
  unfolding limit_round_def Let_def
  by (intro yields_and_then yields_if yields_then_do)
    (auto simp: yields_ret outcome_ok_def outcome_is_filled_def)

lemma tries_outcome:
  assumes "yields attempt (\<lambda>x. case x of None \<Rightarrow> True | Some oc \<Rightarrow> Q oc)" "Q limit_unfilled"
  shows "yields (limit_tries n attempt) Q"
proof (induction n)
  case 0
  show ?case by (simp only: limit_tries.simps yields_ret assms(2))
next
  case (Suc n)
  then show ?case
    using assms(1) by (fastforce simp: yields_def and_then_def split: prod.splits sum.splits option.splits)
qed

text \<open>C25. What an entry reports is what the position may be built on: it is either filled with a positive
  quantity or nothing is kept, it says FILLED exactly when the whole quantity or more was filled
  unless nothing was, and an aggressive entry counts as filled only when at least the configured
  share was: a smaller fill is flattened and reported as rejected.\<close>

theorem entry_outcome_sound:
  assumes "place_entry gw cfg y sd qty em bid ask lp sl tp s = (s', Inr oc)"
  shows "outcome_ok qty oc \<and>
    (entry_order_type em (cfg_orders cfg) = Inr AGGRESSIVE_LIMIT \<longrightarrow> outcome_is_filled oc \<longrightarrow>
      co_partial_fill_min_ratio_to_keep (cfg_orders cfg) \<le> ddiv (oc_filled_qty oc) qty)"
proof -
  obtain t where t: "entry_order_type em (cfg_orders cfg) = Inr t"
    using assms by (cases "entry_order_type em (cfg_orders cfg)") (simp_all add: place_entry_def and_then_def)
  have "outcome_ok qty limit_unfilled" by (simp add: outcome_ok_def limit_unfilled_def)
  then have limit: "yields (place_limit gw cfg y sd qty price em sl tp) (outcome_ok qty)" for price
    unfolding place_limit_def by (intro tries_outcome limit_round_outcome)
  show ?thesis
    using assms yieldsD [OF aggressive_outcome] yieldsD [OF limit]
    by (fastforce simp: place_entry_def t and_then_def split: sum.splits if_splits)
qed

end
