(* ===== verification/Reservations.thy ===== *)
theory Reservations
  imports Order_Facts
begin

text \<open>
  Reservations of orders: while one stands, the reconciler leaves the symbol alone
  (\<^verbatim>\<open>has_bot_order_settling_for_symbol\<close>). A LIVE operation that returns normally leaves none of its
  own behind; two error paths of \<open>_place\<close> do.
\<close>

section \<open>What may be left\<close>

definition pending :: "'x service \<Rightarrow> (string \<times> string) list" where
  "pending s = rs_pending_order_symbols (sv_state s)"

definition same_pending :: "'x service \<Rightarrow> 'x service \<Rightarrow> bool" where
  "same_pending s s' \<longleftrightarrow> pending s' = pending s"

text \<open>Nothing new is reserved, except under the id \<open>c\<close>.\<close>

definition adds_only :: "string option \<Rightarrow> 'x service \<Rightarrow> 'x service \<Rightarrow> bool" where
  "adds_only c s s' \<longleftrightarrow>
    (\<forall>(k, y) \<in> set (pending s'). (k, y) \<in> set (pending s) \<or> Some k = c \<and> k \<noteq> [])"

interpretation quiet: two_state same_pending
  by unfold_locales (auto simp: same_pending_def)

interpretation adds: two_state "adds_only c" for c
  by unfold_locales (fastforce simp: adds_only_def)+

lemma same_adds: "same_pending s s' \<Longrightarrow> adds_only c s s'"
  by (auto simp: same_pending_def adds_only_def)

lemma quiet_adds: "quiet.keeps m \<Longrightarrow> adds.keeps c m"
  by (simp add: quiet.keeps_def adds.keeps_def same_adds)

text \<open>The contract: exchange calls leave the reservations alone.\<close>

locale reservations = gateway_frame same_pending gw for gw :: "'g gateway"

section \<open>The steps of \<open>_place\<close>\<close>

lemma set_dict_set: "set (dict_set k v d) \<subseteq> insert (k, v) (set d)"
  by (induction k v d rule: dict_set.induct) auto

lemma set_dict_pop: "set (dict_pop k d) = {e \<in> set d. fst e \<noteq> k}"
  by (auto simp: dict_pop_def)

lemma adds_reserve: "adds_only (rq_client_order_id rq) s (reserve_request rq s)"
  using set_dict_set by (fastforce simp: adds_only_def pending_def reserve_request_def reserve_order_def
      upd_state_def split: option.split)

lemma clear_pending:
  "set (rs_pending_order_symbols (clear_order_reservation c rs)) =
    {e \<in> set (rs_pending_order_symbols rs). \<not> (Some (fst e) = c \<and> fst e \<noteq> [])}"
  by (auto simp: clear_order_reservation_def set_dict_pop split: option.split)

lemma adds_clear: "adds_only c s s' \<Longrightarrow> adds_only None s (clear_reservation c s')"
  by (auto simp: adds_only_def pending_def clear_reservation_def upd_state_def clear_pending)

lemma adds_clear_other: "adds_only c s (clear_reservation d s)"
  by (auto simp: adds_only_def pending_def clear_reservation_def upd_state_def clear_pending)

lemma adds_record: "adds_only c s (record_order rq res em s)"
  by (auto simp: adds_only_def pending_def record_order_def register_order_def upd_state_def
      clear_pending Let_def log_entry_def split: option.split)

lemma adds_weaken: "adds_only None s s' \<Longrightarrow> adds_only c s s'"
  by (auto simp: adds_only_def)

context reservations
begin

lemma settle_ends:
  assumes "adds_only (rq_client_order_id rq) s s1" "settle gw cfg rq em ttl placed s1 = (s', Inr x)"
  shows "adds_only None s s'"
proof -
  let ?c = "rq_client_order_id rq"
  obtain s2 res where res: "resolve gw cfg rq placed ttl s1 = (s2, Inr res)"
    and s': "s' = clear_reservation ?c (record_order rq res em s2)"
    using assms(2) by (auto simp: settle_def and_then_def split: prod.splits sum.splits)
  have "adds_only ?c s1 s2" by (rule same_adds) (rule keepsD [OF resolve_keeps res])
  then have "adds_only ?c s (record_order rq res em s2)"
    using assms(1) adds_record adds.R_trans by blast
  then show ?thesis unfolding s' by (rule adds_clear)
qed

lemma after_timeout_ends:
  assumes "adds_only (rq_client_order_id rq) s s1" "after_timeout gw cfg rq em ttl s1 = (s', Inr x)"
  shows "adds_only None s s'"
proof -
  let ?c = "rq_client_order_id rq"
  obtain s2 found where rec: "recover_order gw (rq_symbol rq) ?c s1 = (s2, Inr found)"
    using assms(2) by (auto simp: after_timeout_def and_then_def split: prod.splits sum.splits)
  have "adds_only ?c s1 s2" by (rule same_adds) (rule keepsD [OF recover_keeps rec])
  then have s2: "adds_only ?c s s2" using assms(1) adds.R_trans by blast
  show ?thesis
  proof (cases found)
    case (Some o1)
    then have "s' = clear_reservation ?c (record_order rq (result_of_order (rq_symbol rq) o1) em s2)"
      using assms(2) by (auto simp: after_timeout_def and_then_def rec Let_def)
    then show ?thesis using adds_clear [OF adds.R_trans [OF s2 adds_record]] by simp
  next
    case None
    obtain s3 c3 s4 placed where cid: "new_cid gw ''retry'' (clear_reservation ?c s2) = (s3, Inr c3)"
      and put: "gw_place_order gw (rq\<lparr> rq_client_order_id := Some c3 \<rparr>)
        (reserve_request (rq\<lparr> rq_client_order_id := Some c3 \<rparr>) s3) = (s4, Inr placed)"
      and fin: "settle gw cfg (rq\<lparr> rq_client_order_id := Some c3 \<rparr>) em ttl placed s4 = (s', Inr x)"
      using assms(2) None
      by (auto simp: after_timeout_def and_then_def rec Let_def split: prod.splits sum.splits)
    have "adds_only None s s3"
      by (rule adds.R_trans [OF adds_clear [OF s2]]) (rule same_adds, rule keepsD [OF new_cid_keeps cid])
    then have "adds_only (Some c3) s (reserve_request (rq\<lparr> rq_client_order_id := Some c3 \<rparr>) s3)"
      using adds.R_trans [OF adds_weaken adds_reserve [of "rq\<lparr> rq_client_order_id := Some c3 \<rparr>"]] by simp
    then have "adds_only (Some c3) s s4"
      using adds.R_trans [OF _ same_adds [OF keepsD [OF place_order_keeps put]]] by blast
    with fin show ?thesis by (intro settle_ends) simp_all
  qed
qed

lemma place_ends: "adds.ends None (place gw cfg rq0 em ttl)"
proof (rule adds.endsI)
  fix s s' x
  assume run: "place gw cfg rq0 em ttl s = (s', Inr x)"
  obtain s1 rq where norm: "normalize_request_qty gw rq0 s = (s1, Inr rq)"
    using run by (auto simp: place_def and_then_def split: prod.splits sum.splits)
  have s1: "adds_only None s s1" by (rule same_adds) (rule keepsD [OF normalize_keeps norm])
  show "adds_only None s s'"
  proof (cases "rq_qty rq \<le> 0")
    case True
    then show ?thesis using run s1 by (simp add: place_def and_then_def norm)
  next
    case False
    obtain s2 r where put: "gw_place_order gw rq (reserve_request rq s1) = (s2, r)" by fastforce
    have s2: "adds_only (rq_client_order_id rq) s s2"
      by (rule adds.R_trans [OF adds.R_trans [OF adds_weaken [OF s1] adds_reserve]])
        (rule same_adds, rule keepsD [OF place_order_keeps put])
    show ?thesis
      using run False settle_ends [OF s2] after_timeout_ends [OF s2]
      by (auto simp: place_def and_then_def norm put split: sum.splits if_splits)
  qed
qed

lemmas quiet_ends = adds.keeps_ends [OF quiet_adds]

lemma record_ends: "adds.ends c (modify (record_order rq res em))"
  by (rule adds.keeps_ends) (simp add: adds.keeps_modify adds_record)

lemma market_exit_ends: "adds.ends None (market_exit gw cfg y sd qty)"
  unfolding market_exit_def place_exit_def
  by (intro adds.ends_intros quiet_ends [OF new_cid_keeps] place_ends)

lemma partial_exit_ends: "adds.ends None (place_partial_exit gw cfg y sd qty price)"
  unfolding place_partial_exit_def Let_def
  by (intro adds.ends_intros quiet_ends [OF new_cid_keeps] quiet_ends [OF cancel_safe_keeps]
      place_ends market_exit_ends)

lemma aggressive_ends: "adds.ends None (place_aggressive gw cfg y sd qty bid ask em sl tp)"
  unfolding place_aggressive_def keep_or_flatten_def Let_def
  by (intro adds.ends_intros adds.ends_throw quiet_ends [OF new_cid_keeps] quiet_ends [OF cancel_safe_keeps]
      adds.keeps_ends [OF adds.keeps_lift] place_ends market_exit_ends)

lemma limit_round_ends: "adds.ends None (limit_round gw cfg y sd qty price em sl tp)"
  unfolding limit_round_def Let_def
  by (intro adds.ends_intros quiet_ends [OF new_cid_keeps] quiet_ends [OF cancel_safe_keeps]
      adds.keeps_ends [OF adds.keeps_lift] place_ends record_ends)

lemma tries_ends: "adds.ends None attempt \<Longrightarrow> adds.ends None (limit_tries n attempt)"
proof (induction n)
  case 0
  show ?case by (simp only: limit_tries.simps adds.ends_ret)
next
  case (Suc n)
  then show ?case unfolding limit_tries.simps by (intro adds.ends_intros)
qed

lemma live_open_ends: "adds.ends None (live_open gw cfg a)"
  unfolding live_open_def place_entry_def place_limit_def
  by (intro adds.ends_intros quiet_ends [OF leverage_keeps] adds.keeps_ends [OF adds.keeps_lift]
      aggressive_ends tries_ends limit_round_ends)

lemma live_close_ends: "adds.ends None (live_close gw cfg a)"
  unfolding live_close_def by (intro adds.ends_intros partial_exit_ends market_exit_ends)

end

text \<open>C15. A LIVE entry or exit that returns, filled or not, leaves no order reservation of its own: nothing is
  pending afterwards that was not pending before, timeouts, retries, reorders and the exit of a
  fill too small to keep included. The reconciler is not kept away from the symbol.\<close>

theorem live_orders_release:
  assumes "reservations gw"
    and "live_open gw cfg a s = (s', Inr w) \<or> live_close gw cfg c s = (s', Inr z)"
  shows "set (pending s') \<subseteq> set (pending s)"
proof -
  have "adds_only None s s'"
    using assms(2) adds.endsD [OF reservations.live_open_ends [OF assms(1)]]
      adds.endsD [OF reservations.live_close_ends [OF assms(1)]] by blast
  then show ?thesis by (auto simp: adds_only_def)
qed

section \<open>The in-memory exchange\<close>

lemma fake_quiet: "quiet.keeps (upd_fake f)" "quiet.keeps (ask_fake g)"
  by (simp_all add: upd_fake_def ask_fake_def quiet.keeps_modify same_pending_def pending_def upd_live_def)

interpretation fake: reservations fake_gateway
  by unfold_locales (auto simp: fake_gateway_def quiet.keeps_and_then quiet.keeps_then_do fake_quiet
      same_pending_def pending_def upd_live_def)

text \<open>The in-memory exchange never raises, and so neither do the order manager's operations on it.\<close>

abbreviation safe :: "('s, 'a) action \<Rightarrow> bool" where
  "safe m \<equiv> total (\<lambda>_. True) (\<lambda>_. True) m"

lemma safe_iff: "safe m \<longleftrightarrow> (\<forall>s. \<exists>s' x. m s = (s', Inr x))"
  by (simp add: total_def)

lemma safe_basic [simp]: "safe (ret x)" "safe (modify f)" "safe (reads g)" "safe (lift_res (Inr x))"
  by (simp_all add: safe_iff)

lemma safe_and_then: "safe m \<Longrightarrow> (\<And>x. safe (k x)) \<Longrightarrow> safe (and_then m k)"
  by (rule total_and_then)

lemma safe_then_do: "safe m \<Longrightarrow> safe k \<Longrightarrow> safe (then_do m k)"
  unfolding then_do_def by (rule safe_and_then)

lemma safe_if: "(b \<Longrightarrow> safe m) \<Longrightarrow> (\<not> b \<Longrightarrow> safe k) \<Longrightarrow> safe (if b then m else k)"
  by simp

lemma safe_option: "safe m \<Longrightarrow> (\<And>x. safe (k x)) \<Longrightarrow> safe (case z of None \<Rightarrow> m | Some x \<Rightarrow> k x)"
  by (cases z) simp_all

lemma safe_when: "safe m \<Longrightarrow> safe (when_do b m)"
  by (cases b) simp_all

lemma safe_try: "safe m \<Longrightarrow> safe (try_except m h)"
  unfolding safe_iff try_except_def by (metis (no_types, lifting) case_prod_conv sum.simps(6))

lemmas safe_intros = safe_and_then safe_then_do safe_if safe_option safe_when

lemma fake_safe: "safe (upd_fake f)" "safe (ask_fake g)"
  by (simp_all add: upd_fake_def ask_fake_def)

lemma fake_ops_safe:
  "safe (new_cid fake_gateway p)" "safe (gw_place_order fake_gateway rq)" "safe (safe_cancel fake_gateway y oid c)"
  "safe (gw_sleep fake_gateway d)"
  by (auto simp: new_cid_def safe_cancel_def fake_gateway_def intro!: safe_intros safe_try fake_safe)

lemma fake_normalize_safe: "safe (normalize_request_qty fake_gateway rq)"
proof -
  have "safe (load_metas fake_gateway)"
    by (auto simp: safe_iff load_metas_def fake_gateway_def ask_fake_def Let_def split: option.split)
  then show ?thesis
    unfolding normalize_request_qty_def meta_for_def by (intro safe_intros) simp_all
qed

lemma fake_poll_safe:
  "safe (poll fake_gateway (\<lambda>y oid cid. ask_fake (fake_get_order y oid cid)) rq placed deadline n x)"
proof (induction n arbitrary: x)
  case 0
  show ?case by (simp only: poll.simps safe_basic)
next
  case (Suc n)
  then show ?case
    unfolding poll.simps Let_def by (intro safe_intros fake_safe fake_ops_safe safe_basic)
qed

lemma fake_settle_safe: "safe (settle fake_gateway cfg rq em ttl placed)"
proof -
  have "gw_get_order fake_gateway = Some (\<lambda>y oid cid. ask_fake (fake_get_order y oid cid))"
    by (simp add: fake_gateway_def)
  then have "safe (resolve fake_gateway cfg rq placed ttl)"
    by (simp add: resolve_def Let_def safe_and_then fake_poll_safe)
  then show ?thesis unfolding settle_def by (intro safe_intros safe_basic)
qed

lemma fake_place_safe: "safe (place fake_gateway cfg rq em ttl)"
proof -
  have send: "safe (\<lambda>s. case gw_place_order fake_gateway rq1 s of
      (s1, Inr placed) \<Rightarrow> settle fake_gateway cfg rq1 em ttl placed s1
    | (s1, Inl e) \<Rightarrow> if e = OrderTimeoutError then after_timeout fake_gateway cfg rq1 em ttl s1
        else (clear_reservation (rq_client_order_id rq1) s1, Inl e))" for rq1
    using fake_ops_safe(2) [of rq1] fake_settle_safe [of cfg rq1 em ttl]
    unfolding safe_iff by (metis (no_types, lifting) case_prod_conv sum.simps(6))
  show ?thesis
    unfolding place_def by (intro safe_intros fake_normalize_safe send safe_basic)
qed

lemma fake_exit_safe: "safe (market_exit fake_gateway cfg y sd qty)"
  unfolding market_exit_def place_exit_def by (intro safe_intros fake_ops_safe fake_place_safe safe_basic)

lemma fake_close_safe: "safe (live_close fake_gateway cfg a)"
  unfolding live_close_def place_partial_exit_def Let_def
  by (intro safe_intros fake_ops_safe fake_place_safe fake_exit_safe safe_basic)

lemma fake_entry_safe:
  assumes "qty \<noteq> 0"
  shows "safe (place_entry fake_gateway default_app_config y sd qty BREAKOUT_CONFIRM bid ask None None None)"
proof -
  have t: "entry_order_type BREAKOUT_CONFIRM (cfg_orders default_app_config) = Inr AGGRESSIVE_LIMIT"
    by (simp add: entry_order_type_def default_app_config_def default_orders_section_def str_to_type_def)
  have "safe (place_aggressive fake_gateway default_app_config y sd qty bid ask em None None)" for em
    unfolding place_aggressive_def keep_or_flatten_def Let_def with_entry_tpsl_def
    by (simp, intro safe_intros fake_ops_safe fake_place_safe fake_exit_safe safe_basic) (use assms in simp)
  then show ?thesis by (simp add: place_entry_def t assert_live_new_entry_allowed_def safe_iff and_then_def)
qed

section \<open>Examples\<close>

definition ex_live :: "fake_exchange bot" where
  "ex_live = \<lparr> sv_mode = LIVE, sv_state = put_position ''BTC'' ex_pos new_runtime_state,
    sv_positions = new_pm_state, sv_entry = new_entry_engine, sv_guards = ex_guards,
    sv_has_protection = True, sv_has_logger = False, sv_has_events = True, sv_post_exit_mfe = [],
    sv_effects = [], sv_exec = \<lparr> lv_symbol_meta = None, lv_last_sl_update_at = Map.empty,
      lv_gw = new_fake_exchange \<rparr> \<rparr>"

lemma ex_live_facts:
  "registry_ok (sv_state ex_live)" "updates_ok (sv_state ex_live)" "pos_of ex_live ''BTC'' = Some ex_pos"
  using ex_paper_facts(1-3) by (simp_all add: ex_live_def ex_paper_service_def pos_of_def)

lemma live_orders_release_witness:
  "\<exists>s' z. live_close fake_gateway default_app_config (close_args_of ex_pos 1 110 111 True) ex_live = (s', Inr z) \<and>
    set (pending s') \<subseteq> set (pending ex_live)"
proof -
  obtain s' z where run: "live_close fake_gateway default_app_config (close_args_of ex_pos 1 110 111 True) ex_live = (s', Inr z)"
    using fake_close_safe unfolding safe_iff by blast
  from live_orders_release [OF fake.reservations_axioms disjI2, OF run] run show ?thesis by blast
qed

lemma entry_outcome_sound_witness:
  "\<exists>s' oc. place_entry fake_gateway default_app_config ''BTC'' BUY 1 BREAKOUT_CONFIRM 110 111 None None None ex_live
     = (s', Inr oc) \<and> outcome_ok 1 oc"
proof -
  obtain s' oc where run: "place_entry fake_gateway default_app_config ''BTC'' BUY 1 BREAKOUT_CONFIRM 110 111
      None None None ex_live = (s', Inr oc)"
    using fake_entry_safe [of 1] unfolding safe_iff by (metis zero_neq_one)
  from entry_outcome_sound [OF this] this show ?thesis by blast
qed

text \<open>A reservation that is never released: the order call times out and the look-up that follows
  fails too. The error leaves \<open>_place\<close> from inside its handler, and the symbol counts as settling
  from then on.\<close>

definition broken_gateway :: "fake_exchange gateway" where
  "broken_gateway = fake_gateway\<lparr> gw_place_order := (\<lambda>_. throw OrderTimeoutError),
    gw_get_open_orders := (\<lambda>_. throw (ExchangeError ''down'')) \<rparr>"

lemma timeout_leaks_reservation:
  "\<exists>s'. market_exit broken_gateway default_app_config ''BTC'' SELL 1 ex_live = (s', Inl (ExchangeError ''down'')) \<and>
    has_bot_order_settling_for_symbol (sv_state s') ''BTC''"
  by (simp add: market_exit_def place_exit_def place_def new_cid_def and_then_def then_do_def
      normalize_request_qty_def meta_for_def load_metas_def broken_gateway_def fake_gateway_def
      ask_fake_def upd_fake_def new_order_request_def after_timeout_def recover_order_def
      ex_live_def upd_live_def new_fake_exchange_def metas_of_def reserve_request_def reserve_order_def
      upd_state_def has_bot_order_settling_for_symbol_def has_pending_order_for_symbol_def
      put_position_def new_runtime_state_def Let_def)

end
