(* ===== verification/Protection_Facts.thy ===== *)
theory Protection_Facts
  imports Reservations
begin

text \<open>
  What the protection manager guarantees: a position is activated only after the exchange has
  shown the stop that was asked for, and otherwise it is flattened and the bot is told to stop
  trading.
\<close>

section \<open>What the exchange was last told and last said\<close>

text \<open>
  The result of a run is tied to the run's last interaction with the exchange: the state of the
  executor, which holds the exchange, is the one that interaction ended in. \<open>shown_last\<close>: the
  exchange was read back and showed the protection the position asks for. \<open>stop_set_last\<close>: it
  accepted that protection. \<open>exit_last\<close>: it answered a market order to reduce the whole position.
\<close>

definition shown_last :: "'g gateway \<Rightarrow> app_config \<Rightarrow> string \<Rightarrow> position \<Rightarrow> 'g bot \<Rightarrow> bool" where
  "shown_last gw cfg y p s \<longleftrightarrow>
    (\<exists>t t' st. gw_get_position_tpsl gw y t = (t', Inr st) \<and> matches_requested_tpsl cfg p st \<and>
       sv_exec s = sv_exec t')"

definition stop_set_last :: "'g gateway \<Rightarrow> app_config \<Rightarrow> string \<Rightarrow> position \<Rightarrow> 'g bot \<Rightarrow> bool" where
  "stop_set_last gw cfg y p s \<longleftrightarrow>
    (\<exists>t t' rq. stop_request cfg y (wanted_tp cfg p) (wanted_sl cfg p) = Inr rq \<and>
       gw_set_trading_stop gw rq t = (t', Inr ()) \<and> sv_exec s = sv_exec t')"

definition exit_last :: "'g gateway \<Rightarrow> app_config \<Rightarrow> string \<Rightarrow> position \<Rightarrow> order_outcome \<Rightarrow> 'g bot \<Rightarrow> bool" where
  "exit_last gw cfg y p oc s \<longleftrightarrow>
    (\<exists>t t'. pos_of t y = Some p \<and> market_exit gw cfg y (exit_side p) (p_qty p) t = (t', Inr oc) \<and>
       sv_exec s = sv_exec t')"

lemma last_exec:
  assumes "sv_exec s' = sv_exec s"
  shows "shown_last gw cfg y p s' = shown_last gw cfg y p s"
    and "stop_set_last gw cfg y p s' = stop_set_last gw cfg y p s"
    and "exit_last gw cfg y p oc s' = exit_last gw cfg y p oc s"
  by (simp_all add: shown_last_def stop_set_last_def exit_last_def assms)

text \<open>How the protection of a position ended: what the result says, what became of the position and what
  the exchange said last.\<close>

definition protection_ends ::
  "'g gateway \<Rightarrow> app_config \<Rightarrow> string \<Rightarrow> position \<Rightarrow> 'g bot \<Rightarrow> protection_result \<Rightarrow> bool" where
  "protection_ends gw cfg y p s res \<longleftrightarrow>
    (if pt_protected res
     then pos_of s y = Some (p\<lparr> p_status := ACTIVE \<rparr>) \<and>
       (if wanted_tp cfg p = None \<and> wanted_sl cfg p = None then True
        else if pp_verify_tpsl_after_entry (cfg_position_protection cfg) then shown_last gw cfg y p s
        else stop_set_last gw cfg y p s)
     else \<exists>oc. exit_last gw cfg y p oc s \<and> (pt_closed res \<longleftrightarrow> outcome_is_filled oc) \<and>
       (if outcome_is_filled oc
        then pt_reason res = ''ORDER_LOCKED'' \<and> pos_of s y = Some (p\<lparr> p_status := CLOSED \<rparr>)
        else pt_reason res = ''EMERGENCY_STOP'' \<and> pos_of s y = Some p))"

lemma matches_levels:
  "p_stop_loss_price q = p_stop_loss_price p \<Longrightarrow> p_take_profit_price q = p_take_profit_price p \<Longrightarrow>
    matches_requested_tpsl cfg q st = matches_requested_tpsl cfg p st"
  by (simp add: matches_requested_tpsl_def Let_def)

text \<open>The parts of a position that protection does not change on its way to a verdict.\<close>

definition same_levels :: "position \<Rightarrow> position \<Rightarrow> bool" where
  "same_levels p q \<longleftrightarrow> p_symbol q = p_symbol p \<and> p_stop_loss_price q = p_stop_loss_price p \<and>
    p_take_profit_price q = p_take_profit_price p \<and> p_status q = p_status p"

lemma pos_of_publish [simp]: "pos_of (publish e s) y = pos_of s y"
  by (simp add: pos_of_def)

lemma exec_same [simp]:
  "sv_exec (publish e s) = sv_exec s" "sv_exec (upd_pos y f s) = sv_exec s" "sv_exec (set_status y st s) = sv_exec s"
  by (simp_all add: publish_def set_status_def upd_pos_def set_pos_def split: option.split)

lemma upd_pos_ok:
  assumes "registry_ok (sv_state s)" "pos_of s y = Some p" "p_symbol (f p) = p_symbol p"
  shows "registry_ok (sv_state (upd_pos y f s)) \<and> pos_of (upd_pos y f s) y = Some (f p)"
  using pos_symbol [OF assms(1,2)] registry_ok_put [OF assms(1), of "f p"] assms(2,3)
  by (simp add: upd_pos_def set_pos_def pos_of_def)

lemma pos_of_set_status:
  "registry_ok (sv_state s) \<Longrightarrow> pos_of s y = Some p \<Longrightarrow> pos_of (set_status y st s) y = Some (p\<lparr> p_status := st \<rparr>)"
  using upd_pos_ok [of s y p] by (simp add: set_status_def)

context exchange
begin

lemma verify_tries_book: "book.keeps (verify_tries gw cfg y n)"
proof (induction n)
  case 0
  show ?case by (simp only: verify_tries.simps book.keeps_ret)
next
  case (Suc n)
  then show ?case
    unfolding verify_tries.simps
    by (intro book.keeps_and_then book.keeps_if book.keeps_then_do book.keeps_when_do book.keeps_ret
        book.keeps_reads tpsl_keeps sleep_keeps)
qed

lemma verify_seen:
  "verify_tries gw cfg y n s = (s', Inr ok) \<Longrightarrow> ok \<Longrightarrow> pos_of s y = Some p \<Longrightarrow> shown_last gw cfg y p s'"
proof (induction n arbitrary: s)
  case 0
  then show ?case by simp
next
  case (Suc n)
  obtain s1 st where read: "gw_get_position_tpsl gw y s = (s1, Inr st)"
    using Suc.prems(1) by (auto simp: and_then_def split: prod.splits sum.splits)
  have pos1: "pos_of s1 y = Some p"
    using same_book_pos [OF book.keepsD [OF tpsl_keeps read]] Suc.prems(3) by simp
  show ?case
  proof (cases "matches_requested_tpsl cfg p st")
    case True
    then have "s' = s1" using Suc.prems(1) read pos1 by (auto simp: and_then_def matches_now_def)
    then show ?thesis using read True by (auto simp: shown_last_def)
  next
    case False
    then obtain s2 where wait: "when_do (0 < n) (gw_sleep gw
        (of_int (pp_verify_tpsl_retry_interval_sec (cfg_position_protection cfg)))) s1 = (s2, Inr ())"
      and rest: "verify_tries gw cfg y n s2 = (s', Inr ok)"
      using Suc.prems(1,2) read pos1
      by (auto simp: and_then_def then_do_def matches_now_def split: prod.splits sum.splits)
    have "same_book s1 s2" by (rule book.keepsD [OF book.keeps_when_do [OF sleep_keeps] wait])
    then show ?thesis using Suc.IH [OF rest Suc.prems(2)] pos1 same_book_pos [of s1 s2 y] by simp
  qed
qed

lemma confirm_levels:
  assumes "registry_ok (sv_state s)" "pos_of s y = Some p" "confirm_position gw y s = (s', r)"
  shows "r = Inr () \<and> registry_ok (sv_state s') \<and> (\<exists>q. pos_of s' y = Some q \<and> same_levels p q)"
proof -
  obtain s1 r1 where read: "gw_get_positions gw s = (s1, r1)" by fastforce
  note same = book.keepsD [OF positions_keeps read]
  have s1: "registry_ok (sv_state s1)" "pos_of s1 y = Some p"
    using same same_book_pos [OF same] assms(1,2) by (simp_all add: same_book_def registry_ok_def)
  have adopt: "registry_ok (sv_state (adopt_size y xs s1)) \<and>
      (\<exists>q. pos_of (adopt_size y xs s1) y = Some q \<and> same_levels p q)" for xs
    using s1 upd_pos_ok [OF s1] by (auto simp: adopt_size_def same_levels_def split: option.split)
  show ?thesis
    using assms(3) s1 adopt
    by (auto simp: confirm_position_def try_except_def and_then_def read same_levels_def split: sum.splits)
qed

lemma stays:
  "book.keeps m \<Longrightarrow> m s = (s', r) \<Longrightarrow> registry_ok (sv_state s) \<Longrightarrow> pos_of s y = Some p \<Longrightarrow>
    registry_ok (sv_state s') \<and> pos_of s' y = Some p"
  using book.keepsD [of m s s' r] same_book_pos [of s s' y]
  by (simp add: same_book_def registry_ok_def)

lemma emergency_verdict:
  assumes "registry_ok (sv_state s)" "pos_of s y = Some p" "emergency_close gw cfg y s = (s', Inr res)"
  shows "protection_ends gw cfg y p s' res"
proof -
  let ?s0 = "log_entry (LogProtection y ''EMERGENCY_TPSL_FAILED'' None None False)
    (publish (simple_event EV_EMERGENCY_TPSL_FAILED y ''TP/SL set/verify failed'') s)"
  obtain s1 oc where exit: "market_exit gw cfg y (exit_side p) (p_qty p) ?s0 = (s1, Inr oc)"
    using assms(2,3) by (auto simp: emergency_close_def and_then_def split: prod.splits sum.splits)
  have s1: "registry_ok (sv_state s1)" "pos_of s1 y = Some p"
    using stays [OF market_exit_book exit, of y p] assms(1,2) by simp_all
  have "pos_of ?s0 y = Some p" using assms(2) by simp
  with exit have last: "exit_last gw cfg y p oc s1" unfolding exit_last_def by blast
  show ?thesis
  proof (cases "outcome_is_filled oc")
    case True
    then have "s' = publish (simple_event EV_EMERGENCY_CLOSE y ''position flattened -> ORDER_LOCKED'') (set_status y CLOSED s1)"
      and "res = emergency_result ''ORDER_LOCKED'' True"
      using assms(2,3) by (simp_all add: emergency_close_def and_then_def exit)
    then show ?thesis
      using True last pos_of_set_status [OF s1] last_exec [of s' s1]
      by (auto simp: protection_ends_def emergency_result_def intro!: exI [of _ oc])
  next
    case False
    then have "s' = s1" "res = emergency_result ''EMERGENCY_STOP'' False"
      using assms(2,3) by (simp_all add: emergency_close_def and_then_def exit)
    then show ?thesis using False last s1(2)
      by (auto simp: protection_ends_def emergency_result_def intro!: exI [of _ oc])
  qed
qed

lemma activate_verdict:
  assumes "registry_ok (sv_state s)" "pos_of s y = Some p"
    and "shown_last gw cfg y p s" "pp_verify_tpsl_after_entry (cfg_position_protection cfg)"
  shows "protection_ends gw cfg y p (activate y tp sl s) (protected_result tp sl)"
  using assms(3,4) pos_of_set_status [OF assms(1,2)] last_exec [of "activate y tp sl s" s]
  by (simp add: protection_ends_def activate_def protected_result_def)

lemma set_and_verify_verdict:
  assumes "registry_ok (sv_state s)" "pos_of s y = Some p"
    and "set_and_verify gw cfg y (wanted_tp cfg p) (wanted_sl cfg p) s = (s', Inr res)"
  shows "protection_ends gw cfg y p s' res"
proof -
  let ?tp = "wanted_tp cfg p" and ?sl = "wanted_sl cfg p"
  let ?log = "\<lambda>s. log_entry (LogProtection y ''TPSL_SET'' ?tp ?sl True)
    (publish (data_event EV_TPSL_SET y [(''tp'', str_of_opt ?tp), (''sl'', str_of_opt ?sl)]) s)"
  obtain rq s1 where rq: "stop_request cfg y ?tp ?sl = Inr rq" and set_stop: "gw_set_trading_stop gw rq s = (s1, Inr ())"
    using assms(3) by (auto simp: set_and_verify_def and_then_def then_do_def split: prod.splits sum.splits)
  have s1: "registry_ok (sv_state (?log s1))" "pos_of (?log s1) y = Some p"
    using stays [OF stop_keeps set_stop assms(1,2)] by simp_all
  show ?thesis
  proof (cases "pp_verify_tpsl_after_entry (cfg_position_protection cfg)")
    case False
    then have s': "s' = set_status y ACTIVE (?log s1)" "res = protected_result ?tp ?sl"
      using assms(3) by (auto simp: set_and_verify_def and_then_def then_do_def rq set_stop)
    have "stop_set_last gw cfg y p s1" using rq set_stop by (auto simp: stop_set_last_def)
    then show ?thesis
      using s' False pos_of_set_status [OF s1] last_exec [of s' s1]
      by (simp add: protection_ends_def protected_result_def)
  next
    case True
    obtain s2 ok where ver: "verify_tpsl gw cfg y (?log s1) = (s2, Inr ok)"
      using assms(3) True
      by (auto simp: set_and_verify_def and_then_def then_do_def rq set_stop split: prod.splits sum.splits)
    have s2: "registry_ok (sv_state s2)" "pos_of s2 y = Some p"
      using stays [OF verify_tries_book ver [unfolded verify_tpsl_def] s1] by simp_all
    show ?thesis
    proof (cases ok)
      case ok: True
      then have "shown_last gw cfg y p s2" using verify_seen [OF ver [unfolded verify_tpsl_def] _ s1(2)] by simp
      then show ?thesis
        using assms(3) True ok activate_verdict [OF s2]
        by (auto simp: set_and_verify_def and_then_def then_do_def rq set_stop ver)
    next
      case bad: False
      then have "emergency_close gw cfg y s2 = (s', Inr res)"
        using assms(3) True by (simp add: set_and_verify_def and_then_def then_do_def rq set_stop ver)
      then show ?thesis by (rule emergency_verdict [OF s2])
    qed
  qed
qed

lemma protect_with_verdict:
  assumes "registry_ok (sv_state s)" "pos_of s y = Some p"
    and "protect_with gw cfg y (wanted_tp cfg p) (wanted_sl cfg p) s = (s', Inr res)"
  shows "protection_ends gw cfg y p s' res"
proof (cases "wanted_tp cfg p = None \<and> wanted_sl cfg p = None")
  case True
  then have "s' = set_status y ACTIVE s" "res = protected_result None None"
    using assms(3) by (auto simp: protect_with_def)
  then show ?thesis
    using True pos_of_set_status [OF assms(1,2)] by (simp add: protection_ends_def protected_result_def)
next
  case want: False
  show ?thesis
  proof (cases "pp_verify_tpsl_after_entry (cfg_position_protection cfg)")
    case False
    then have "set_and_verify gw cfg y (wanted_tp cfg p) (wanted_sl cfg p) s = (s', Inr res)"
      using assms(3) want by (simp add: protect_with_def)
    then show ?thesis by (rule set_and_verify_verdict [OF assms(1,2)])
  next
    case True
    obtain s2 ok where ver: "verify_tpsl gw cfg y s = (s2, Inr ok)"
      using assms(3) True want by (auto simp: protect_with_def and_then_def split: prod.splits sum.splits if_splits)
    have s2: "registry_ok (sv_state s2)" "pos_of s2 y = Some p"
      using stays [OF verify_tries_book ver [unfolded verify_tpsl_def] assms(1,2)] by simp_all
    show ?thesis
    proof (cases ok)
      case ok: True
      then have "shown_last gw cfg y p s2" using verify_seen [OF ver [unfolded verify_tpsl_def] _ assms(2)] by simp
      then show ?thesis
        using assms(3) True ok want activate_verdict [OF s2]
        by (auto simp: protect_with_def and_then_def then_do_def ver)
    next
      case bad: False
      then have "set_and_verify gw cfg y (wanted_tp cfg p) (wanted_sl cfg p) s2 = (s', Inr res)"
        using assms(3) True want by (simp add: protect_with_def and_then_def ver)
      then show ?thesis by (rule set_and_verify_verdict [OF s2])
    qed
  qed
qed

lemma protect_verdict:
  assumes "registry_ok (sv_state s)" "pos_of s y = Some p" "protect gw cfg y s = (s', Inr res)"
  obtains s0 q where "confirm_position gw y s = (s0, Inr ())" "pos_of s0 y = Some q" "same_levels p q"
    "protection_ends gw cfg y q s' res"
proof -
  obtain s1 r1 where conf: "confirm_position gw y s = (s1, r1)" by fastforce
  from confirm_levels [OF assms(1,2) conf] obtain q where
    q: "r1 = Inr ()" "registry_ok (sv_state s1)" "pos_of s1 y = Some q" "same_levels p q" by blast
  then have "protect_with gw cfg y (wanted_tp cfg q) (wanted_sl cfg q) s1 = (s', Inr res)"
    using assms(3) by (simp add: protect_def then_do_def and_then_def conf)
  from that [OF conf [unfolded q(1)] q(3,4) protect_with_verdict [OF q(2,3) this]] show ?thesis .
qed

end

text \<open>C9. When \<open>protect\<close> returns, the position it protected is the one the confirmation left, with its symbol,
  stop and target as they were, and the result is what the exchange said last. Either the position
  is active, and then the run ended by reading from the exchange the protection the position asks
  for (by setting it, when verification is switched off; unless none is asked for). Or the run ended
  with a market order for the whole position: if its outcome counts as filled the position is
  closed and the bot is told to lock its orders, and if not the position stays as it is and the
  bot is told to make an emergency stop. A partial fill counts as filled here, as in the code.\<close>

theorem protected_or_flattened:
  assumes "exchange gw" "registry_ok (sv_state s)" "pos_of s y = Some p"
    and "protect gw cfg y s = (s', Inr res)"
  shows "\<exists>s0 q. confirm_position gw y s = (s0, Inr ()) \<and> pos_of s0 y = Some q \<and> same_levels p q \<and>
    (if pt_protected res
     then pos_of s' y = Some (q\<lparr> p_status := ACTIVE \<rparr>) \<and>
       (if wanted_tp cfg p = None \<and> wanted_sl cfg p = None then True
        else if pp_verify_tpsl_after_entry (cfg_position_protection cfg) then shown_last gw cfg y q s'
        else stop_set_last gw cfg y q s')
     else \<exists>oc. exit_last gw cfg y q oc s' \<and> (pt_closed res \<longleftrightarrow> outcome_is_filled oc) \<and>
       (if outcome_is_filled oc
        then pt_reason res = ''ORDER_LOCKED'' \<and> pos_of s' y = Some (q\<lparr> p_status := CLOSED \<rparr>)
        else pt_reason res = ''EMERGENCY_STOP'' \<and> pos_of s' y = Some q))"
proof -
  obtain s0 q where q: "confirm_position gw y s = (s0, Inr ())" "pos_of s0 y = Some q" "same_levels p q"
    and fin: "protection_ends gw cfg y q s' res"
    using exchange.protect_verdict [OF assms] .
  have "wanted_tp cfg q = wanted_tp cfg p" "wanted_sl cfg q = wanted_sl cfg p"
    using q(3) by (simp_all add: same_levels_def wanted_tp_def wanted_sl_def)
  then show ?thesis using q fin unfolding protection_ends_def by auto
qed

section \<open>Examples\<close>

definition ex_stop_pos :: position where
  "ex_stop_pos = ex_pos\<lparr> p_stop_loss_price := Some 95 \<rparr>"

text \<open>The entry order has attached the stop.\<close>

definition ex_stop_live :: "fake_exchange bot" where
  "ex_stop_live = ex_live\<lparr> sv_state := put_position ''BTC'' ex_stop_pos new_runtime_state,
    sv_exec := \<lparr> lv_symbol_meta = None, lv_last_sl_update_at = Map.empty,
      lv_gw = new_fake_exchange\<lparr> fx_tpsl := [''BTC'' \<mapsto> (None, Some 95)] \<rparr> \<rparr> \<rparr>"

lemma ex_stop_facts: "registry_ok (sv_state ex_stop_live)" "pos_of ex_stop_live ''BTC'' = Some ex_stop_pos"
  using registry_ok_put [OF registry_ok_new, of ex_stop_pos] ex_paper_facts(6)
  by (simp_all add: ex_stop_live_def ex_stop_pos_def pos_of_def)

lemma protected_or_flattened_witness:
  "\<exists>s' res. protect fake_gateway default_app_config ''BTC'' ex_stop_live = (s', Inr res) \<and> pt_protected res \<and>
    pos_of s' ''BTC'' = Some (ex_stop_pos\<lparr> p_status := ACTIVE \<rparr>) \<and>
    shown_last fake_gateway default_app_config ''BTC'' ex_stop_pos s'"
proof -
  have conf: "confirm_position fake_gateway ''BTC'' ex_stop_live = (ex_stop_live, Inr ())"
    by (simp add: confirm_position_def fake_gateway_def ask_fake_def try_except_def ex_stop_live_def
        new_fake_exchange_def adopt_size_def)
  have cfg: "pp_verify_tpsl_after_entry (cfg_position_protection default_app_config)"
    "tp_use_exchange_sl (cfg_tpsl default_app_config)" "\<not> tp_use_exchange_tp (cfg_tpsl default_app_config)"
    "nat (pp_verify_tpsl_retry_count (cfg_position_protection default_app_config)) = Suc 2"
    by (simp_all add: default_app_config_def default_position_protection_section_def default_tpsl_section_def)
  have "matches_now default_app_config ''BTC'' (fake_position_tpsl ''BTC'' (lv_gw (sv_exec ex_stop_live))) ex_stop_live"
    by (simp add: matches_now_def ex_stop_facts matches_requested_tpsl_def cfg fake_position_tpsl_def get_or_def)
      (simp add: ex_stop_live_def ex_stop_pos_def close_enough_def default_app_config_def
        default_position_protection_section_def dsub_def dabs_def ddiv_def dmul_def)
  then have ver: "verify_tpsl fake_gateway default_app_config ''BTC'' ex_stop_live = (ex_stop_live, Inr True)"
    unfolding verify_tpsl_def cfg verify_tries.simps by (simp add: fake_gateway_def ask_fake_def)
  have sl: "wanted_sl default_app_config ex_stop_pos = Some 95"
    by (simp add: wanted_sl_def cfg ex_stop_pos_def)
  obtain s' where run: "protect fake_gateway default_app_config ''BTC'' ex_stop_live =
      (s', Inr (protected_result (wanted_tp default_app_config ex_stop_pos) (Some 95)))"
    by (simp add: protect_def then_do_def and_then_def conf ex_stop_facts(2) protect_with_def sl cfg ver)
  from protected_or_flattened [OF fake.exchange_axioms ex_stop_facts run] run sl conf ex_stop_facts(2) show ?thesis
    by (auto simp: protected_result_def cfg)
qed

end
