(* ===== verification/Trading_Entry_Facts.thy ===== *)
theory Trading_Entry_Facts
  imports Trading_Entry Protection_Facts
begin

text \<open>
  What opening a position guarantees: nothing is ordered unless both gates, the entry engine and
  the risk manager agree, only the symbol's own position changes, and in LIVE mode a position is
  handed back only when it is protected.
\<close>

section \<open>Before the order\<close>

lemma and_then_Inr:
  "and_then m k s = (s', Inr y) \<longleftrightarrow> (\<exists>s1 x. m s = (s1, Inr x) \<and> k x s1 = (s', Inr y))"
  by (auto simp: and_then_def split: prod.splits sum.splits)

lemma then_do_Inr: "then_do m k s = (s', Inr y) \<longleftrightarrow> (\<exists>s1. m s = (s1, Inr ()) \<and> k s1 = (s', Inr y))"
  by (auto simp: then_do_def and_then_Inr)

text \<open>A state that differs only in what the gates and the entry engine may change.\<close>

lemma emit_no_entry_simps [simp]:
  "sv_state (emit_no_entry a sig i s) = sv_state s" "sv_mode (emit_no_entry a sig i s) = sv_mode s"
  "sv_has_protection (emit_no_entry a sig i s) = sv_has_protection s"
  "sv_exec (emit_no_entry a sig i s) = sv_exec s"
  by (simp_all add: emit_no_entry_def)

lemma blocked_at_simps [simp]:
  "sv_state (blocked_at a sig i b s) = sv_state s" "sv_mode (blocked_at a sig i b s) = sv_mode s"
  "sv_has_protection (blocked_at a sig i b s) = sv_has_protection s"
  "sv_exec (blocked_at a sig i b s) = sv_exec s"
  by (simp_all add: blocked_at_def)

lemma same_bookI:
  "sv_state s' = sv_state s \<Longrightarrow> sv_mode s' = sv_mode s \<Longrightarrow> sv_has_protection s' = sv_has_protection s \<Longrightarrow> same_book s s'"
  by (simp add: same_book_def)

lemma pre_gate_protection [simp]:
  "sv_has_protection (fst (pre_gate cfg t y dir sn mk s)) = sv_has_protection s"
  by (rule pre_gate_keeps) (simp_all add: kill_gate_def upd_kill_def split: option.split prod.split)

lemma pre_gate_result:
  assumes "pre_gate cfg t y dir sn mk s = (s', b)"
  shows "sv_state s' = sv_state s \<and> sv_mode s' = sv_mode s \<and> sv_has_protection s' = sv_has_protection s \<and>
    sv_entry s' = sv_entry s \<and> sv_exec s' = sv_exec s"
  using pre_gate_simps [of cfg t y dir sn mk s] pre_gate_protection [of cfg t y dir sn mk s]
  unfolding assms by simp

lemma gate_one_book: "book.keeps (gate_one cfg ck a sig)"
proof -
  have "book.keeps (\<lambda>s. case pre_gate cfg (ck_mono ck) (ea_symbol a) (sg_direction sig) s1m (ea_market a) s of
        (s1, Some r) \<Rightarrow> (blocked_at a sig (no_entry_info_of ''pre_gate'' (gate_reason_code r)) r s1, Inr False)
      | (s1, None) \<Rightarrow> (s1, Inr True))" for s1m
  proof (rule book.keepsI)
    fix s s' and r :: "bool result"
    assume run: "(case pre_gate cfg (ck_mono ck) (ea_symbol a) (sg_direction sig) s1m (ea_market a) s of
        (s1, Some r) \<Rightarrow> (blocked_at a sig (no_entry_info_of ''pre_gate'' (gate_reason_code r)) r s1, Inr False)
      | (s1, None) \<Rightarrow> (s1, Inr True)) = (s', r)"
    obtain sa b where g: "pre_gate cfg (ck_mono ck) (ea_symbol a) (sg_direction sig) s1m (ea_market a) s = (sa, b)"
      by fastforce
    show "same_book s s'"
      using run pre_gate_result [OF g] by (cases b) (auto simp: g intro!: same_bookI)
  qed
  then show ?thesis unfolding gate_one_def by (intro book.keeps_and_then book.keeps_lift)
qed

lemma decide_book: "book.keeps (decide lbl cfg a sig)"
proof -
  have "book.keeps (\<lambda>s. let (e, d) = entry_evaluate lbl cfg ctx (sv_entry s); s1 = s\<lparr> sv_entry := e \<rparr> in
      case d of None \<Rightarrow> (emit_no_entry a sig (engine_reason e) s1, Inr None) | Some x \<Rightarrow> (s1, Inr (Some x)))" for ctx
    by (rule book.keepsI) (auto simp: Let_def intro!: same_bookI split: prod.splits option.splits)
  then show ?thesis unfolding decide_def by (intro book.keeps_and_then book.keeps_lift)
qed

lemma ask_risk_book: "book.keeps (ask_risk cfg a sig d)"
proof -
  have "book.keeps (\<lambda>s1. if \<not> rd_approved rd
      then (emit (simple_event EV_SIGNAL (ea_symbol a) (''rejected: '' @ rd_reason rd))
          (emit_no_entry a sig (risk_info d rd) s1), Inr None) else (s1, Inr (Some rd)))" for rd
    by (rule book.keepsI) (auto intro!: same_bookI split: if_splits)
  then have inner: "book.keeps (and_then (lift_res r) (\<lambda>rd s1. if \<not> rd_approved rd
      then (emit (simple_event EV_SIGNAL (ea_symbol a) (''rejected: '' @ rd_reason rd))
          (emit_no_entry a sig (risk_info d rd) s1), Inr None) else (s1, Inr (Some rd))))" for r
    by (intro book.keeps_and_then book.keeps_lift)
  have "book.keeps (\<lambda>s. let atr1 = or_dec (is_atr14 s1m) 0 in
      and_then (lift_res (approve cfg d (ea_entry_price a) atr1 (ea_symbol_meta a) (risk_context_of a s)))
        (\<lambda>rd s1. if \<not> rd_approved rd
          then (emit (simple_event EV_SIGNAL (ea_symbol a) (''rejected: '' @ rd_reason rd))
                  (emit_no_entry a sig (risk_info d rd) s1), Inr None)
          else (s1, Inr (Some rd))) s)" for s1m
    by (rule book.keepsI) (auto simp: Let_def dest: book.keepsD [OF inner])
  then show ?thesis unfolding ask_risk_def by (intro book.keeps_and_then book.keeps_lift)
qed

context executor
begin

lemma gate_two_book: "book.keeps (gate_two io cfg ck a sig d rd)"
proof -
  have fetch: "book.keeps (fresh_orderbook io a)"
  proof (rule book.keepsI)
    fix s s' r
    have "book.keeps (and_then (po_orderbook io)
        (\<lambda>(ob, ts). ret (Some (mk\<lparr> mk_orderbook := Some ob, mk_last_orderbook_ms := ts \<rparr>))))" for mk
      by (rule book.keeps_and_then [OF orderbook_book]) (simp split: prod.split)
    then show "fresh_orderbook io a s = (s', r) \<Longrightarrow> same_book s s'"
      by (auto simp: fresh_orderbook_def book.R_refl split: option.splits if_splits dest: book.keepsD)
  qed
  have "book.keeps (\<lambda>s. case post_gate cfg (ck_mono ck) (ed_entry_mode d) (rd_notional rd) market s of
        Some r \<Rightarrow> (blocked_at a sig ((no_entry_info_of ''post_gate'' (gate_reason_code r))
            \<lparr> ne_entry_mode_candidate := PStr (entry_mode_value (ed_entry_mode d)) \<rparr>) r s, Inr False)
      | None \<Rightarrow> (s, Inr True))" for market
    by (rule book.keepsI) (auto intro!: same_bookI split: option.splits)
  then show ?thesis unfolding gate_two_def by (intro book.keeps_and_then fetch)
qed

lemma intent_book: "book.keeps (entry_intent io lbl cfg strategies now a)"
  unfolding entry_intent_def
  by (intro book.keeps_and_then book.keeps_option book.keeps_if book.keeps_ret book.keeps_lift
      gate_one_book decide_book ask_risk_book gate_two_book)

end

lemma gate_twoD:
  "gate_two io cfg ck a sig d rd s = (s', Inr True) \<Longrightarrow>
    \<exists>market. fresh_orderbook io a s = (s', Inr market) \<and>
      post_gate cfg (ck_mono ck) (ed_entry_mode d) (rd_notional rd) market s' = None"
  by (auto simp: gate_two_def and_then_Inr split: option.splits)

text \<open>What an intent to enter was based on.\<close>

lemma intentD:
  assumes "entry_intent io lbl cfg strategies now a s = (s', Inr (Some (sig, d, rd)))"
  obtains s1m s1 ctx e market where "first_signal strategies a = Inr (Some sig)" "snapshot_at a ''1'' = Inr s1m"
    "pre_gate cfg (ck_mono (now 0)) (ea_symbol a) (sg_direction sig) s1m (ea_market a) s = (s1, None)"
    "entry_context_of a sig = Inr ctx" "entry_evaluate lbl cfg ctx (sv_entry s) = (e, Some d)"
    "approve cfg d (ea_entry_price a) (or_dec (is_atr14 s1m) 0) (ea_symbol_meta a) (risk_context_of a s) = Inr rd"
    "rd_approved rd" "fresh_orderbook io a (s1\<lparr> sv_entry := e \<rparr>) = (s', Inr market)"
    "post_gate cfg (ck_mono (now 1)) (ed_entry_mode d) (rd_notional rd) market s' = None"
proof -
  obtain s1 s2 s3 where sig: "first_signal strategies a = Inr (Some sig)"
    and one: "gate_one cfg (now 0) a sig s = (s1, Inr True)"
    and dec: "decide lbl cfg a sig s1 = (s2, Inr (Some d))"
    and risk: "ask_risk cfg a sig d s2 = (s3, Inr (Some rd))"
    and two: "gate_two io cfg (now 1) a sig d rd s3 = (s', Inr True)"
    using assms by (auto simp: entry_intent_def and_then_Inr split: option.splits if_splits)
  obtain s1m where s1m: "snapshot_at a ''1'' = Inr s1m"
    using one by (cases "snapshot_at a ''1''") (auto simp: gate_one_def and_then_def)
  obtain sa b where g: "pre_gate cfg (ck_mono (now 0)) (ea_symbol a) (sg_direction sig) s1m (ea_market a) s = (sa, b)"
    by fastforce
  then have gate: "pre_gate cfg (ck_mono (now 0)) (ea_symbol a) (sg_direction sig) s1m (ea_market a) s = (s1, None)"
    using one by (cases b) (simp_all add: gate_one_def and_then_def s1m)
  have st: "sv_state s1 = sv_state s" "sv_entry s1 = sv_entry s"
    using pre_gate_result [OF gate] by simp_all
  obtain ctx where ctx: "entry_context_of a sig = Inr ctx"
    using dec by (cases "entry_context_of a sig") (auto simp: decide_def and_then_def)
  obtain e b2 where ev: "entry_evaluate lbl cfg ctx (sv_entry s) = (e, b2)" by fastforce
  have d: "b2 = Some d" and s2: "s2 = s1\<lparr> sv_entry := e \<rparr>"
    using dec st by (cases b2; auto simp: decide_def and_then_def ctx ev Let_def)+
  have "risk_context_of a s2 = risk_context_of a s" by (simp add: risk_context_of_def s2 st)
  then have rd: "approve cfg d (ea_entry_price a) (or_dec (is_atr14 s1m) 0) (ea_symbol_meta a)
      (risk_context_of a s) = Inr rd" "rd_approved rd" "s3 = s2"
    using risk s1m by (auto simp: ask_risk_def and_then_Inr split: if_splits)
  obtain market where "fresh_orderbook io a (s1\<lparr> sv_entry := e \<rparr>) = (s', Inr market)"
    "post_gate cfg (ck_mono (now 1)) (ed_entry_mode d) (rd_notional rd) market s' = None"
    using gate_twoD [OF two] rd(3) s2 by blast
  with sig s1m gate ctx ev d rd show ?thesis by (intro that) simp_all
qed

section \<open>Only the symbol that is entered\<close>

lemma symbol_of_fill [simp]: "p_symbol (position_of_fill cfg t a sig d rd sd opened levels) = ea_symbol a"
  by (simp add: position_of_fill_def new_position_def Let_def)

lemma side_record_simps [simp]:
  "sv_state (record_slippage_if_breached cfg sd x bid ask s) = sv_state s"
  "sv_mode (record_slippage_if_breached cfg sd x bid ask s) = sv_mode s"
  "sv_has_protection (record_slippage_if_breached cfg sd x bid ask s) = sv_has_protection s"
  "sv_exec (record_slippage_if_breached cfg sd x bid ask s) = sv_exec s"
  by (simp_all add: record_slippage_if_breached_def upd_kill_def split: option.split)

lemma entry_failed_simps [simp]:
  "sv_state (entry_failed t a sig d opened s) = sv_state s"
  "sv_mode (entry_failed t a sig d opened s) = sv_mode s"
  "sv_exec (entry_failed t a sig d opened s) = sv_exec s"
  by (simp_all add: entry_failed_def svc_record_order_failure_def upd_kill_def Let_def)

lemma protection_failed_state [simp]: "sv_state (protection_failed t y res s) = sv_state s"
  by (simp add: protection_failed_def svc_record_order_failure_def svc_record_emergency_close_failure_def
      transition_after_protection_failure_def Let_def split: option.split)

context trading_ports
begin

lemma activate_new_only: "only.keeps y (activate_new io t y)"
proof -
  have live: "only.keeps y (and_then (po_protect io y) (\<lambda>res.
      if \<not> pt_protected res then then_do (modify (protection_failed t y res)) (ret False) else ret True))"
    by (intro only.keeps_and_then protect_only only.keeps_if only.keeps_then_do only.keeps_modify only.keeps_ret)
      (simp add: state_same_only)
  have "touches_only y s (upd_pos y mark_active_paper s)" for s :: "'x service"
    by (rule upd_pos_only) (simp add: mark_active_paper_def)
  then show ?thesis
    using live by (auto simp: only.keeps_def activate_new_def)
qed

lemma open_body_only: "only.keeps (ea_symbol a) (open_body io cfg now a sig d rd)"
  unfolding open_body_def Let_def
  by (intro only.keeps_and_then only.keeps_if only.keeps_then_do only.keeps_option only.keeps_modify
      only.keeps_ret only.keeps_throw only.keeps_reads keeps_book_only [OF open_book] activate_new_only
      set_pos_only)
    (simp_all add: state_same_only)

lemma open_entry_only: "only.keeps (ea_symbol a) (open_entry io cfg now a sig d rd)"
  unfolding open_entry_def by (intro bracket_only open_body_only)

lemma announce_only: "only.keeps y (announce cfg a sig d rd opened levels p)"
  unfolding announce_def
  by (intro only.keeps_then_do only.keeps_modify only.keeps_if only.keeps_and_then only.keeps_lift only.keeps_ret)
    (simp_all add: only.R_refl)

lemma evaluate_entry_only: "only.keeps (ea_symbol a) (evaluate_entry io lbl cfg strategies now a)"
proof -
  have tail: "only.keeps (ea_symbol a) (case done of None \<Rightarrow> ret None | Some (opened, levels) \<Rightarrow>
      and_then (reads (\<lambda>s. pos_of s (ea_symbol a))) (\<lambda>found. case found of None \<Rightarrow> ret None | Some p \<Rightarrow>
      then_do (announce cfg a sig d rd opened levels p) (ret (Some p))))" for sig d rd "done"
    by (cases "done") (auto intro!: only.keeps_and_then only.keeps_option only.keeps_then_do announce_only)
  have "only.keeps (ea_symbol a) (case intent of None \<Rightarrow> ret None | Some (sig, d, rd) \<Rightarrow>
      and_then (open_entry io cfg now a sig d rd) (\<lambda>done. case done of None \<Rightarrow> ret None | Some (opened, levels) \<Rightarrow>
      and_then (reads (\<lambda>s. pos_of s (ea_symbol a))) (\<lambda>found. case found of None \<Rightarrow> ret None | Some p \<Rightarrow>
      then_do (announce cfg a sig d rd opened levels p) (ret (Some p)))))" for intent
    by (cases intent) (auto intro!: only.keeps_and_then open_entry_only tail)
  then show ?thesis
    unfolding evaluate_entry_def by (intro only.keeps_and_then keeps_book_only [OF intent_book])
qed

lemma service_only:
  assumes "evaluate_entry io lbl cfg strategies now a s = (s', r1) \<and> y = ea_symbol a \<or>
      manage io cfg ck b fr bid ask y s = (s', r2) \<or>
      close_position io cfg ck y bid ask reason pct s = (s', r3)"
  shows "touches_only y s s'"
  using assms
proof (elim disjE conjE)
  assume "evaluate_entry io lbl cfg strategies now a s = (s', r1)" "y = ea_symbol a"
  then show ?thesis using only.keepsD [OF evaluate_entry_only] by simp
next
  assume "manage io cfg ck b fr bid ask y s = (s', r2)"
  then show ?thesis by (rule only.keepsD [OF manage_only])
next
  assume "close_position io cfg ck y bid ask reason pct s = (s', r3)"
  then show ?thesis by (rule only.keepsD [OF close_position_only])
qed

end

text \<open>C21. The trading service works on one symbol at a time: with any executor and protection manager that
  keep their contract, opening, managing and closing a position of one symbol leaves the position
  of every other symbol as it was, keeps the registry well formed and ends every position update
  it began, exceptions included.\<close>

theorem service_local:
  assumes "trading_ports io" "registry_ok (sv_state s)" "updates_ok (sv_state s)"
    and "evaluate_entry io lbl cfg strategies now a s = (s', r1) \<and> y = ea_symbol a \<or>
      manage io cfg ck b fr bid ask y s = (s', r2) \<or>
      close_position io cfg ck y bid ask reason pct s = (s', r3)"
  shows "registry_ok (sv_state s') \<and> updates_in_flight (sv_state s') = updates_in_flight (sv_state s) \<and>
    (\<forall>z. z \<noteq> y \<longrightarrow> pos_of s' z = pos_of s z)"
  using trading_ports.service_only [OF assms(1,4)] assms(2,3) by (simp add: touches_only_def)

section \<open>Only what was decided and approved is ordered\<close>

text \<open>The order \<open>b\<close> follows from the state \<open>s\<close> and the arguments: a signal, an open first gate, a decision of
  the entry engine, an approval by the risk manager, and a second gate that is open in the state the
  evaluation is in by then: after the first gate has left \<open>s1\<close>, the entry engine \<open>e\<close> and the
  fetch of the order book \<open>s2\<close> with the market it found.\<close>

definition entry_justified ::
  "'x ports \<Rightarrow> (dec \<Rightarrow> string) \<Rightarrow> app_config \<Rightarrow> ((string \<rightharpoonup> indicator_snapshot) \<Rightarrow> signal option result) list \<Rightarrow>
   (nat \<Rightarrow> clocks) \<Rightarrow> entry_args \<Rightarrow> 'x service \<Rightarrow> open_args \<Rightarrow> bool" where
  "entry_justified io lbl cfg strategies now a s b \<longleftrightarrow>
    (\<exists>sig s1m s1 ctx e d rd s2 market. first_signal strategies a = Inr (Some sig) \<and> snapshot_at a ''1'' = Inr s1m \<and>
      pre_gate cfg (ck_mono (now 0)) (ea_symbol a) (sg_direction sig) s1m (ea_market a) s = (s1, None) \<and>
      entry_context_of a sig = Inr ctx \<and> entry_evaluate lbl cfg ctx (sv_entry s) = (e, Some d) \<and>
      approve cfg d (ea_entry_price a) (or_dec (is_atr14 s1m) 0) (ea_symbol_meta a) (risk_context_of a s) = Inr rd \<and>
      rd_approved rd \<and>
      fresh_orderbook io a (s1\<lparr> sv_entry := e \<rparr>) = (s2, Inr market) \<and>
      post_gate cfg (ck_mono (now 1)) (ed_entry_mode d) (rd_notional rd) market s2 = None \<and>
      b = open_args_of cfg (sv_mode s2) a sig d rd)"

abbreviation opens :: "'x ports \<Rightarrow> (open_args \<Rightarrow> ('x service, open_result) action) \<Rightarrow> 'x ports" where
  "opens io f \<equiv> io\<lparr> po_open := f \<rparr>"

lemma opens_simps [simp]:
  "fresh_orderbook (opens io f) a = fresh_orderbook io a" "activate_new (opens io f) t y = activate_new io t y"
  by (simp_all add: fun_eq_iff fresh_orderbook_def activate_new_def split: option.split)

lemma intent_opens [simp]:
  "entry_intent (opens io f) lbl cfg strategies now a = entry_intent io lbl cfg strategies now a"
proof -
  have "gate_two (opens io f) = gate_two io" by (simp add: fun_eq_iff gate_two_def)
  then show ?thesis by (simp only: entry_intent_def)
qed

lemma po_open_opens: "po_open (opens io f) = f"
  by simp

lemma open_entry_opens:
  assumes "f (open_args_of cfg (sv_mode s) a sig d rd) = po_open io (open_args_of cfg (sv_mode s) a sig d rd)"
  shows "open_entry (opens io f) cfg now a sig d rd s = open_entry io cfg now a sig d rd s"
proof -
  have "open_body (opens io f) cfg now a sig d rd t = open_body io cfg now a sig d rd t" if "sv_mode t = sv_mode s" for t
    unfolding open_body_def po_open_opens opens_simps
    by (rule and_then_at) (use assms that in \<open>simp add: and_then_def\<close>)
  then show ?thesis by (simp add: open_entry_def try_finally_def upd_state_def)
qed

text \<open>C7. No order opens a position unless everything agrees: the strategies gave a signal, the first gate
  was open, the entry engine took a decision, the risk manager approved it, the second gate was open
  with the order book fetched for it, and the order has the approved quantity, side and leverage and
  the approved stop. With an executor that answers any other order in any other way, the
  evaluation does exactly the same.\<close>

theorem entries_justified:
  "evaluate_entry (io\<lparr> po_open := \<lambda>b. if entry_justified io lbl cfg strategies now a s b then po_open io b else h b \<rparr>)
     lbl cfg strategies now a s =
   evaluate_entry io lbl cfg strategies now a s"
  unfolding evaluate_entry_def intent_opens
proof (rule and_then_at)
  fix s' intent
  assume run: "entry_intent io lbl cfg strategies now a s = (s', Inr intent)"
  let ?io = "opens io (\<lambda>b. if entry_justified io lbl cfg strategies now a s b then po_open io b else h b)"
  have "open_entry ?io cfg now a sig d rd s' = open_entry io cfg now a sig d rd s'" if "intent = Some (sig, d, rd)" for sig d rd
  proof -
    have "entry_justified io lbl cfg strategies now a s (open_args_of cfg (sv_mode s') a sig d rd)"
      using intentD [OF run [unfolded that]] unfolding entry_justified_def by metis
    then show ?thesis by (intro open_entry_opens) simp
  qed
  then show "(case intent of None \<Rightarrow> ret None | Some (sig, d, rd) \<Rightarrow>
      and_then (open_entry ?io cfg now a sig d rd) (\<lambda>done. case done of None \<Rightarrow> ret None | Some (opened, levels) \<Rightarrow>
      and_then (reads (\<lambda>s. pos_of s (ea_symbol a))) (\<lambda>found. case found of None \<Rightarrow> ret None | Some p \<Rightarrow>
      then_do (announce cfg a sig d rd opened levels p) (ret (Some p))))) s' =
    (case intent of None \<Rightarrow> ret None | Some (sig, d, rd) \<Rightarrow>
      and_then (open_entry io cfg now a sig d rd) (\<lambda>done. case done of None \<Rightarrow> ret None | Some (opened, levels) \<Rightarrow>
      and_then (reads (\<lambda>s. pos_of s (ea_symbol a))) (\<lambda>found. case found of None \<Rightarrow> ret None | Some p \<Rightarrow>
      then_do (announce cfg a sig d rd opened levels p) (ret (Some p))))) s'"
    by (simp add: and_then_def split: option.split)
qed

end
