(* ===== verification/Machine_Frame.thy ===== *)
theory Machine_Frame
  imports Trading_Entry_Facts
begin

text \<open>
  What the trading service does to the state machine: nothing, except after a failed protection. The
  locale \<open>machine_frame\<close> takes any relation between the states before and after that allows every change
  outside the machine and the reaction to a failed protection; with ports that keep it, every operation
  of the service keeps it.
\<close>

section \<open>The contract\<close>

abbreviation machine :: "'x service \<Rightarrow> bot_machine option" where
  "machine s \<equiv> gs_state_machine (sv_guards s)"

locale machine_frame = two_state R for R :: "'x service \<Rightarrow> 'x service \<Rightarrow> bool" +
  assumes outside: "machine t = machine s \<Longrightarrow> R s t"
    and failure: "R s (transition_after_protection_failure reason s)"

locale machine_ports = machine_frame R for R :: "'x service \<Rightarrow> 'x service \<Rightarrow> bool" +
  fixes io :: "'x ports"
  assumes open_keeps: "keeps (po_open io b)"
    and close_keeps: "keeps (po_close io a)"
    and protect_keeps: "keeps (po_protect io y)"
    and stop_loss_keeps: "keeps (po_sync_stop_loss io y)"
    and orderbook_keeps: "keeps (po_orderbook io)"

section \<open>Changes outside the machine\<close>

lemma machine_basic [simp]:
  "machine (emit e s) = machine s" "machine (log_entry l s) = machine s"
  "machine (upd_kill f s) = machine s" "machine (upd_cooldown g s) = machine s"
  "machine (upd_state h s) = machine s" "machine (set_pos p s) = machine s"
  "machine (upd_pos y k s) = machine s"
  by (simp_all add: upd_kill_def upd_cooldown_def upd_pos_def split: option.split)

lemma machine_records [simp]:
  "machine (start_post_exit_mfe cfg now p e s) = machine s"
  "machine (record_closed t p s) = machine s"
  "machine (record_slippage_if_breached cfg sd x bid ask s) = machine s"
  "machine (svc_record_order_failure t s) = machine s"
  "machine (svc_record_emergency_close_failure s) = machine s"
  by (simp_all add: record_closed_def Let_def record_slippage_if_breached_def svc_record_order_failure_def
      svc_record_emergency_close_failure_def split: option.split)

lemma machine_fold_emit [simp]: "machine (fold (\<lambda>w. emit (f w)) ws s) = machine s"
  by (induction ws arbitrary: s) simp_all

lemma machine_close [simp]:
  "machine (close_finish cfg ck y reason full r s) = machine s"
  "machine (mark_exchange_already_flat cfg ck y reason bid ask s) = machine s"
  "machine (update_post_exit_mfe y price c now s) = machine s"
  by (auto simp: close_finish_def mark_exchange_already_flat_def update_post_exit_mfe_def Let_def
      split: option.split prod.split)

lemma machine_entry [simp]:
  "machine (emit_no_entry a sig i s) = machine s" "machine (blocked_at a sig i r s) = machine s"
  "machine (entry_failed t a sig d opened s) = machine s"
  by (simp_all add: emit_no_entry_def blocked_at_def entry_failed_def Let_def)

lemma pre_gate_machine: "pre_gate cfg t y dir s1m market s = (s1, r) \<Longrightarrow> machine s1 = machine s"
  by (auto simp: pre_gate_def kill_gate_def Let_def split: if_splits option.splits prod.splits)

context machine_frame
begin

lemma keeps_outside: "(\<And>s. machine (f s) = machine s) \<Longrightarrow> keeps (modify f)"
  by (rule keeps_modify) (rule outside)

lemma keeps_at: "(\<And>s s' r. m s = (s', r) \<Longrightarrow> machine s' = machine s) \<Longrightarrow> keeps m"
  by (rule keepsI) (rule outside)

lemma keeps_after: "keeps m \<Longrightarrow> m t = (s', r) \<Longrightarrow> machine t = machine s \<Longrightarrow> R s s'"
  using R_trans [OF outside keepsD] by metis

lemma emit_scout_keeps: "keeps (emit_scout_action y a)"
  unfolding emit_scout_action_def by (intro keeps_option keeps_ret keeps_and_then keeps_lift keeps_outside) simp

lemma bracket_keeps:
  "keeps m \<Longrightarrow> keeps (then_do (modify (upd_state f)) (try_finally m (upd_state g)))"
  by (intro keeps_then_do keeps_outside keeps_try_finally outside) simp_all

end

section \<open>Closing and managing\<close>

context machine_ports
begin

lemma close_body_keeps: "keeps (close_body io cfg ck p qty reason bid ask full pl)"
proof (rule keepsI)
  fix s s' r
  assume run: "close_body io cfg ck p qty reason bid ask full pl s = (s', r)"
  obtain s1 r1 where c: "po_close io (close_args_of p qty bid ask pl) s = (s1, r1)" by fastforce
  have "machine s' = machine s1" using run by (auto simp: close_body_def c split: sum.splits if_splits)
  then show "R s s'" using R_trans [OF keepsD [OF close_keeps c] outside] by blast
qed

lemma close_pos_keeps: "keeps (close_pos io cfg ck p qty reason bid ask full pl)"
  unfolding close_pos_def by (intro bracket_keeps close_body_keeps)

lemma close_position_keeps: "keeps (close_position io cfg ck y bid ask reason pct)"
  unfolding close_position_def Let_def
  by (rule keepsI) (auto simp: R_refl split: option.splits if_splits
      dest: keepsD [OF keeps_and_then [OF close_pos_keeps keeps_ret]])

lemma sync_trailing_keeps: "keeps (sync_trailing_stop io y a)"
proof (rule keepsI)
  fix s s' r
  assume run: "sync_trailing_stop io y a s = (s', r)"
  obtain s1 r1 where c: "po_sync_stop_loss io y s = (s1, r1)" by fastforce
  have s1: "R s s1" by (rule keepsD [OF stop_loss_keeps c])
  have "R s t" if "machine t = machine s1" for t by (rule R_trans [OF s1 outside [OF that]])
  then show "R s s'"
    using run s1
    by (auto simp: sync_trailing_stop_def Let_def c and_then_def R_refl split: if_splits option.splits sum.splits)
qed

lemma close_whole_keeps: "keeps (close_whole io cfg ck bid ask y w)"
  by (rule keepsI) (auto simp: close_whole_def R_refl split: option.splits dest: keepsD [OF close_pos_keeps])

lemma close_part_keeps: "keeps (close_part io cfg ck bid ask y q w pl)"
  by (rule keepsI) (auto simp: close_part_def R_refl split: option.splits dest: keepsD [OF close_pos_keeps])

lemma start_runner_keeps: "keeps (start_runner io cfg b y q)"
proof (rule keepsI)
  fix s s' r
  assume run: "start_runner io cfg b y q s = (s', r)"
  have loop: "keeps (and_then (for_each (runner_followup io y) acts) (\<lambda>_. ret z))" for acts z
    unfolding runner_followup_def
    by (intro keeps_and_then keeps_for_each keeps_ret keeps_if emit_scout_keeps sync_trailing_keeps)
  show "R s s'"
    using run by (auto simp: start_runner_def Let_def R_refl split: option.splits if_splits prod.splits
        elim!: keeps_after [OF loop])
qed

lemma run_action_keeps: "keeps (run_action io cfg ck b bid ask y a)"
proof -
  note log = keeps_outside [of "\<lambda>s2. case pos_of s2 y of None \<Rightarrow> s2
      | Some q \<Rightarrow> log_entry (LogPosition q (sv_mode s2) None (Some (position_protection_status cfg q))) s2"]
  have 1: "keeps (and_then (emit_scout_action y a) (\<lambda>_. ret ([] :: managed list)))"
    "keeps (and_then (close_whole io cfg ck bid ask y w) (\<lambda>_. ret ([] :: managed list)))"
    "keeps (and_then (close_part io cfg ck bid ask y q w pl) (\<lambda>_. start_runner io cfg b y pq))"
    "keeps (and_then (close_part io cfg ck bid ask y q w pl)
       (\<lambda>_. and_then (emit_scout_action y a) (\<lambda>_. ret ([] :: managed list))))"
    "keeps (and_then (sync_trailing_stop io y a) (\<lambda>_. and_then (modify (\<lambda>s2. case pos_of s2 y of None \<Rightarrow> s2
      | Some q \<Rightarrow> log_entry (LogPosition q (sv_mode s2) None (Some (position_protection_status cfg q))) s2))
       (\<lambda>_. ret ([] :: managed list))))" for w q pl pq
    by (intro keeps_and_then emit_scout_keeps close_whole_keeps close_part_keeps start_runner_keeps
        sync_trailing_keeps log keeps_ret; simp split: option.split)+
  show ?thesis
    by (rule keepsI) (auto simp: run_action_def Let_def split: position_action_type.splits
        dest: keepsD [OF 1(1)] keepsD [OF 1(2)] keepsD [OF 1(3)] keepsD [OF 1(4)]
        elim: keeps_after [OF 1(5)])
qed

lemma run_actions_keeps: "keeps (run_actions io cfg ck b bid ask y acts)"
proof (induction acts)
  case Nil
  show ?case by (simp only: run_actions.simps keeps_ret)
next
  case (Cons a acts)
  show ?case unfolding run_actions.simps by (intro keeps_and_then run_action_keeps Cons.IH keeps_ret)
qed

lemma manage_bar_keeps: "keeps (manage_bar io cfg ck b bid ask y)"
proof (rule keepsI)
  fix s s' r
  assume run: "manage_bar io cfg ck b bid ask y s = (s', r)"
  have loop: "keeps (and_then (run_actions io cfg ck b bid ask y acts) (\<lambda>ys. ret (map Acted acts @ ys)))" for acts
    by (intro keeps_and_then run_actions_keeps keeps_ret)
  show "R s s'"
    using run by (auto simp: manage_bar_def Let_def R_refl split: option.splits prod.splits
        elim!: keeps_after [OF loop])
qed

lemma manage_keeps: "keeps (manage io cfg ck b fr bid ask y)"
proof -
  have tail: "keeps (\<lambda>s1. if c s1 then (s1, Inr z1)
      else and_then (manage_bar io cfg ck b bid ask y) (\<lambda>ys. ret (z # ys)) s1)" for c z z1
    by (rule keepsI) (auto simp: R_refl split: if_splits
        dest: keepsD [OF keeps_and_then [OF manage_bar_keeps keeps_ret]])
  show ?thesis
    by (rule keepsI) (auto simp: manage_def Let_def R_refl split: option.splits if_splits
        dest: keepsD [OF keeps_and_then [OF close_pos_keeps tail]] keepsD [OF manage_bar_keeps])
qed

end

section \<open>Entering\<close>

context machine_ports
begin

lemma gate_one_keeps: "keeps (gate_one cfg ck a sig)"
  unfolding gate_one_def
  by (intro keeps_and_then keeps_lift)
    (rule keeps_at, auto split: prod.splits option.splits dest: pre_gate_machine)

lemma decide_keeps: "keeps (decide lbl cfg a sig)"
  unfolding decide_def
  by (intro keeps_and_then keeps_lift) (rule keeps_at, auto simp: Let_def split: prod.splits option.splits)

lemma ask_risk_keeps: "keeps (ask_risk cfg a sig d)"
  unfolding ask_risk_def
  by (intro keeps_and_then keeps_lift)
    (rule keeps_at, auto simp: Let_def and_then_def split: sum.splits if_splits)

lemma gate_two_keeps: "keeps (gate_two io cfg ck a sig d rd)"
proof -
  have ob: "keeps (and_then (po_orderbook io)
      (\<lambda>(ob, ts). ret (Some (mk\<lparr> mk_orderbook := Some ob, mk_last_orderbook_ms := ts \<rparr>))))" for mk
    by (intro keeps_and_then orderbook_keeps) (simp add: case_prod_beta)
  have "keeps (fresh_orderbook io a)"
    by (rule keepsI) (auto simp: fresh_orderbook_def R_refl split: option.splits if_splits dest: keepsD [OF ob])
  then show ?thesis
    unfolding gate_two_def by (intro keeps_and_then) (auto intro!: keeps_at split: option.splits)
qed

lemma intent_keeps: "keeps (entry_intent io lbl cfg strategies now a)"
  unfolding entry_intent_def
  by (intro keeps_and_then keeps_lift keeps_option keeps_if keeps_ret gate_one_keeps decide_keeps ask_risk_keeps
      gate_two_keeps)

lemma protection_failed_keeps: "R s (protection_failed t y res s)"
  unfolding protection_failed_def Let_def
  by (rule R_trans [OF R_trans [OF outside failure] outside]) simp_all

lemma open_entry_keeps: "keeps (open_entry io cfg now a sig d rd)"
proof -
  have live: "keeps (and_then (po_protect io y) (\<lambda>res.
      if \<not> pt_protected res then then_do (modify (protection_failed t y res)) (ret False) else ret True))" for t y
    by (intro keeps_and_then protect_keeps keeps_if keeps_then_do keeps_modify protection_failed_keeps keeps_ret)
  have "keeps (activate_new io t y)" for t y
    by (rule keepsI) (auto simp: activate_new_def split: if_splits intro: outside dest: keepsD [OF live])
  then have "keeps (open_body io cfg now a sig d rd)"
    unfolding open_body_def Let_def
    by (intro keeps_and_then keeps_reads keeps_if keeps_then_do keeps_option keeps_ret keeps_throw keeps_outside
        open_keeps) simp_all
  then show ?thesis unfolding open_entry_def by (rule bracket_keeps)
qed

lemma announce_keeps: "keeps (announce cfg a sig d rd opened levels p)"
  unfolding announce_def
  by (intro keeps_then_do keeps_if keeps_and_then keeps_lift keeps_ret keeps_outside) simp_all

lemma evaluate_entry_keeps: "keeps (evaluate_entry io lbl cfg strategies now a)"
  unfolding evaluate_entry_def
  by (intro keeps_and_then intent_keeps keeps_option keeps_ret)
    (auto intro!: keeps_and_then open_entry_keeps keeps_option keeps_then_do announce_keeps keeps_ret keeps_reads
      split: prod.splits)

end

end
