(* ===== verification/Reconciliation_Facts.thy ===== *)
theory Reconciliation_Facts
  imports Reconciliation Reservations Protection_Facts
begin

text \<open>
  What a reconciliation cycle guarantees, from a contract of the operations it is given: the
  registry agrees with the exchange on every symbol on which nothing is settling, what the bot knows
  about its own trade is kept, and a second cycle finds nothing more to change.
\<close>

section \<open>Loops\<close>

lemma sync_each_append: "sync_each f (xs @ ys) r = and_then (sync_each f xs r) (sync_each f ys)"
  by (induction xs arbitrary: r) (auto simp: fun_eq_iff and_then_def split: prod.splits sum.splits)

lemma sync_each_related:
  assumes "\<And>x r s s' r'. x \<in> set xs \<Longrightarrow> f x r s = (s', Inr r') \<Longrightarrow> M r r'"
    and "\<And>r. M r r" "\<And>a b c. M a b \<Longrightarrow> M b c \<Longrightarrow> M a c"
    and "sync_each f xs r s = (s', Inr r')"
  shows "M r r'"
  using assms(1,4)
proof (induction xs arbitrary: r s)
  case Nil
  then show ?case using assms(2) by simp
next
  case (Cons x xs)
  obtain s1 r1 where 1: "f x r s = (s1, Inr r1)" and 2: "sync_each f xs r1 s1 = (s', Inr r')"
    using Cons.prems(2) by (auto simp: and_then_def split: prod.splits sum.splits)
  have "M r1 r'" by (rule Cons.IH [OF _ 2]) (rule Cons.prems(1), simp_all)
  with Cons.prems(1) [OF _ 1] show ?case using assms(3) by auto
qed

lemma sync_each_turn:
  assumes "sync_each f (as @ x # bs) r s = (s', Inr r')"
  obtains sa ra sb rb where "sync_each f as r s = (sa, Inr ra)" "f x ra sa = (sb, Inr rb)"
    "sync_each f bs rb sb = (s', Inr r')"
  using assms by (auto simp: sync_each_append and_then_def split: prod.splits sum.splits)

lemma exch_by_symbol_ok:
  "distinct (map fst (exch_by_symbol xs)) \<and>
    (\<forall>(y, x) \<in> set (exch_by_symbol xs). xp_symbol x = y \<and> xp_side x \<noteq> None)"
proof (induction xs rule: rev_induct)
  case Nil
  then show ?case by (simp add: exch_by_symbol_def)
next
  case (snoc x xs)
  then show ?case
    using set_dict_set_subset [of "xp_symbol x" x "exch_by_symbol xs"]
    by (auto simp: exch_by_symbol_def intro!: distinct_dict_set)
qed

context two_state
begin

lemma keeps_each: "(\<And>x r. x \<in> set xs \<Longrightarrow> keeps (f x r)) \<Longrightarrow> keeps (sync_each f xs r)"
  by (induction xs arbitrary: r) (simp_all add: keeps_and_then)

lemma ends_each: "(\<And>x r. x \<in> set xs \<Longrightarrow> ends (f x r)) \<Longrightarrow> ends (sync_each f xs r)"
  by (induction xs arbitrary: r) (simp_all add: ends_and_then)

end

section \<open>What other symbols see\<close>

definition spares :: "string \<Rightarrow> 'x service \<Rightarrow> 'x service \<Rightarrow> bool" where
  "spares z s s' \<longleftrightarrow> (registry_ok (sv_state s) \<longrightarrow> updates_ok (sv_state s) \<longrightarrow>
    registry_ok (sv_state s') \<and> updates_ok (sv_state s') \<and> pos_of s' z = pos_of s z \<and>
    (settling s' z \<longrightarrow> settling s z))"

interpretation spares: two_state "spares z" for z
  by unfold_locales (auto simp: spares_def)

lemma settling_shrinks:
  assumes "updates_ok (sv_state s)" "updates_ok (sv_state s')"
    and "updates_in_flight (sv_state s') = updates_in_flight (sv_state s)" "adds_only None s s'" "settling s' z"
  shows "settling s z"
proof -
  have "has_position_update_for_symbol (sv_state s') z = has_position_update_for_symbol (sv_state s) z"
    using assms(1-3) by (simp add: claim.held_iff)
  then show ?thesis
    using assms(4,5)
    by (fastforce simp: settling_def has_bot_order_settling_for_symbol_def has_pending_order_for_symbol_def
        adds_only_def pending_def)
qed

lemma spares_only: "touches_only y s s' \<Longrightarrow> adds_only None s s' \<Longrightarrow> z \<noteq> y \<Longrightarrow> spares z s s'"
  using settling_shrinks [of s s' z] by (auto simp: spares_def touches_only_def)

lemma spares_book: "same_book s s' \<Longrightarrow> adds_only None s s' \<Longrightarrow> spares z s s'"
  using settling_shrinks [of s s' z] same_book_flight [of s s'] same_book_pos [of s s']
  by (auto simp: spares_def same_book_def registry_ok_def)

section \<open>State changes of the handlers\<close>

lemma pause_simps [simp]:
  "pos_of (pause_entries env mi s) z = pos_of s z"
  "pending (pause_entries env mi s) = pending s"
  by (simp_all add: pause_entries_def upd_state_def pos_of_def get_position_def pause_new_entries_def
      pending_def)

lemma pending_simps [simp]:
  "pending (publish e s) = pending s" "pending (log_entry l s) = pending s" "pending (set_pos p s) = pending s"
  "pending (log_manual y k d s) = pending s" "pending (upd_pos y f s) = pending s"
  by (simp_all add: pending_def publish_def set_pos_def put_position_def log_manual_def upd_pos_def
      split: option.split)

lemma manual_simps [simp]:
  "pos_of (log_manual y k d s) z = pos_of s z"
  by (simp add: log_manual_def)

lemma settling_simps [simp]:
  "settling (set_pos p s) z = settling s z" "settling (publish e s) z = settling s z"
  "settling (log_entry l s) z = settling s z" "settling (log_manual y k d s) z = settling s z"
  "settling (pause_entries env mi s) z = settling s z"
  by (simp_all add: settling_def set_pos_def put_position_def log_manual_def pause_entries_def upd_state_def
      pause_new_entries_def has_bot_order_settling_for_symbol_def has_pending_order_for_symbol_def
      has_position_update_for_symbol_def)

lemma adds_same: "pending s' = pending s \<Longrightarrow> adds_only c s s'"
  by (auto simp: adds_only_def)

lemma same_book_under [simp]:
  "same_book s (publish e t) = same_book s t" "same_book s (log_entry l t) = same_book s t"
  "same_book s (log_manual y k d t) = same_book s t" "same_book s (pause_entries env mi t) = same_book s t"
  by (simp_all add: same_book_def publish_def log_manual_def pause_entries_def upd_state_def pause_new_entries_def
      log_entry_def)

lemma touches_under [simp]:
  "touches_only y s (log_manual z k d t) = touches_only y s t"
  "touches_only y s (pause_entries env mi t) = touches_only y s t"
  by (simp_all add: touches_only_def log_manual_def pos_of_def pause_entries_def upd_state_def pause_new_entries_def
      get_position_def registry_ok_def updates_ok_def updates_in_flight_def)

lemma external_order_state [simp]:
  "pos_of (handle_external_order env mi x s) z = pos_of s z" "same_book s (handle_external_order env mi x s)"
proof -
  show "same_book s (handle_external_order env mi x s)"
    by (simp add: handle_external_order_def Let_def) (simp add: same_book_def upd_state_def)
  then show "pos_of (handle_external_order env mi x s) z = pos_of s z" by (rule same_book_pos)
qed


section \<open>Agreement with the exchange\<close>

text \<open>What the exchange reports of a symbol, against the registry: held with the same quantity, or flat.\<close>

definition agrees :: "exchange_position option \<Rightarrow> position option \<Rightarrow> bool" where
  "agrees x p \<longleftrightarrow>
    (case p of
       None \<Rightarrow> x = None
     | Some q \<Rightarrow> (case x of None \<Rightarrow> p_status q = CLOSED | Some e \<Rightarrow> p_status q \<noteq> CLOSED \<and> p_qty q = xp_size e))"

text \<open>What a change made outside the bot may not touch: what the bot knows about its trade.\<close>

definition trade_view :: "position \<Rightarrow> _" where
  "trade_view p = (p_symbol p, p_side p, p_source p, p_entry_mode p, p_signal_score p, p_strategy_id p,
    p_strategy_reason p, p_initial_qty p, p_initial_risk_per_unit p, p_stop_loss_price p, p_opened_at p)"

definition keeps_trade :: "position option \<Rightarrow> position option \<Rightarrow> bool" where
  "keeps_trade p p' \<longleftrightarrow>
    (case p of None \<Rightarrow> True | Some a \<Rightarrow> p_status a = CLOSED \<or>
      (case p' of None \<Rightarrow> False | Some b \<Rightarrow> trade_view b = trade_view a))"

lemma agrees_simps [simp]:
  "agrees None None" "\<not> agrees (Some e) None" "agrees None (Some q) \<longleftrightarrow> p_status q = CLOSED"
  "agrees (Some e) (Some q) \<longleftrightarrow> p_status q \<noteq> CLOSED \<and> p_qty q = xp_size e"
  by (simp_all add: agrees_def)

lemma keeps_trade_simps [simp]:
  "keeps_trade None p'" "keeps_trade (Some a) (Some b) \<longleftrightarrow> p_status a = CLOSED \<or> trade_view b = trade_view a"
  "p_status a = CLOSED \<Longrightarrow> keeps_trade (Some a) p'" "keeps_trade p p"
  by (simp_all add: keeps_trade_def split: option.split)

lemma is_open_status_iff [simp]: "is_open_status st \<longleftrightarrow> st \<noteq> CLOSED"
  by (cases st) (simp_all add: is_open_status_def)

text \<open>The hook that protects a position again changes no position itself, as in PAPER mode, or there is none.\<close>

definition calm_resync :: "'x sync_env \<Rightarrow> bool" where
  "calm_resync env \<longleftrightarrow> (\<forall>redo. se_protection_resync env = Some redo \<longrightarrow> (\<forall>y. book.keeps (redo y)))"

text \<open>The registry holds a symbol when it has a position of it that is not \<open>CLOSED\<close>. With adoption switched
  off, a position of the exchange that the registry does not hold is reported and not taken over.\<close>

definition held :: "position option \<Rightarrow> bool" where
  "held p \<longleftrightarrow> (case p of None \<Rightarrow> False | Some q \<Rightarrow> p_status q \<noteq> CLOSED)"

definition unadopted :: "manual_intervention_section \<Rightarrow> exchange_position option \<Rightarrow> position option \<Rightarrow> bool" where
  "unadopted mi x p \<longleftrightarrow> \<not> mi_adopt_external_positions mi \<and> x \<noteq> None \<and> \<not> held p"

text \<open>A position of the bot whose quantity differs from the exchange's, and what the hook makes of it: the hook
  starts from the position with the exchange's quantity, and the registry holds what it left.\<close>

definition mismatched :: "exchange_position option \<Rightarrow> position option \<Rightarrow> bool" where
  "mismatched x p \<longleftrightarrow>
    (case (x, p) of (Some e, Some q) \<Rightarrow> p_status q \<noteq> CLOSED \<and> p_source q = BOT \<and> p_qty q \<noteq> xp_size e | _ \<Rightarrow> False)"

definition renewed ::
  "'x sync_env \<Rightarrow> string \<Rightarrow> exchange_position option \<Rightarrow> position option \<Rightarrow> position option \<Rightarrow> bool" where
  "renewed env z x p p' \<longleftrightarrow>
    (\<exists>redo e q t t' ok. se_protection_resync env = Some redo \<and> x = Some e \<and> p = Some q \<and>
      pos_of t z = Some (adopted_qty e (dsub (xp_size e) (p_qty q)) q) \<and> redo z t = (t', Inr ok) \<and> pos_of t' z = p')"

definition synced ::
  "'x sync_env \<Rightarrow> manual_intervention_section \<Rightarrow> string \<Rightarrow> exchange_position option \<Rightarrow> position option \<Rightarrow>
   position option \<Rightarrow> bool" where
  "synced env mi z x p p' \<longleftrightarrow>
    (if unadopted mi x p then p' = p
     else if mismatched x p \<and> se_protection_resync env \<noteq> None then renewed env z x p p'
     else agrees x p' \<and> keeps_trade p p')"

lemma case_simps [simp]:
  "\<not> held None" "held (Some q) \<longleftrightarrow> p_status q \<noteq> CLOSED" "\<not> unadopted mi None p"
  "\<not> mismatched None p" "\<not> mismatched x None"
  "mismatched (Some e) (Some q) \<longleftrightarrow> p_status q \<noteq> CLOSED \<and> p_source q = BOT \<and> p_qty q \<noteq> xp_size e"
  by (simp_all add: held_def unadopted_def mismatched_def split: option.split)

lemma synced_flat [simp]: "synced env mi z None p p' \<longleftrightarrow> agrees None p' \<and> keeps_trade p p'"
  by (simp add: synced_def)

lemma calm_renewed: "calm_resync env \<Longrightarrow> mismatched x p \<Longrightarrow> renewed env z x p p' \<Longrightarrow> agrees x p' \<and> keeps_trade p p'"
  unfolding renewed_def
proof (elim exE conjE)
  fix redo e q t t' ok
  assume calm: "calm_resync env" and redo: "se_protection_resync env = Some redo" and run: "redo z t = (t', Inr ok)"
    and t: "pos_of t z = Some (adopted_qty e (dsub (xp_size e) (p_qty q)) q)" "pos_of t' z = p'"
    and mis: "mismatched x p" "x = Some e" "p = Some q"
  have "same_book t t'" using calm redo run by (auto simp: calm_resync_def dest: book.keepsD)
  then have "p' = Some (adopted_qty e (dsub (xp_size e) (p_qty q)) q)" using t same_book_pos [of t t' z] by simp
  then show "agrees x p' \<and> keeps_trade p p'" using mis by (simp add: adopted_qty_def trade_view_def)
qed

lemma synced_agrees:
  assumes "synced env mi z x p p'" "calm_resync env \<or> \<not> mismatched x p" "\<not> unadopted mi x p"
  shows "agrees x p' \<and> keeps_trade p p'"
  using assms calm_renewed by (fastforce simp: synced_def split: if_splits)

definition position_changes :: "reconcile_result \<Rightarrow> string list list" where
  "position_changes r = [rr_external_positions r, rr_qty_mismatches r, rr_external_closes r, rr_exchange_closes r]"

definition all_agree ::
  "manual_intervention_section \<Rightarrow> (string \<times> exchange_position) list \<Rightarrow> 'x service \<Rightarrow> bool" where
  "all_agree mi es s \<longleftrightarrow> registry_ok (sv_state s) \<and>
    (\<forall>z. agrees (map_of es z) (pos_of s z) \<or> unadopted mi (map_of es z) (pos_of s z))"

text \<open>What a further cycle may still report: positions of the exchange that are not taken over.\<close>

definition only_unadopted ::
  "manual_intervention_section \<Rightarrow> (string \<times> exchange_position) list \<Rightarrow> 'x service \<Rightarrow> reconcile_result \<Rightarrow>
   reconcile_result \<Rightarrow> bool" where
  "only_unadopted mi es s r r' \<longleftrightarrow> tl (position_changes r') = tl (position_changes r) \<and>
    set (rr_external_positions r') \<subseteq> set (rr_external_positions r) \<union> {z. unadopted mi (map_of es z) (pos_of s z)}"

section \<open>The contract\<close>

locale reconciler =
  fixes env :: "'x sync_env"
  assumes positions_book: "book.keeps (se_get_positions env)"
    and positions_quiet: "adds.ends None (se_get_positions env)"
    and orders_book: "book.keeps (se_get_open_orders env)"
    and cancel_book: "book.keeps (se_cancel_order env y oid cid)"
    and resync_only: "se_protection_resync env = Some redo \<Longrightarrow> only.keeps y (redo y)"
    and resync_quiet: "se_protection_resync env = Some redo \<Longrightarrow> adds.ends None (redo y)"
    and stale_book: "se_close_stale env = Some stale \<Longrightarrow> book.keeps (stale ys)"
    and update_book: "se_update_order_status env = Some update \<Longrightarrow> book.keeps (update oi cid st)"
begin

lemma adopt_only: "xp_symbol x = y \<Longrightarrow> only.keeps y (handle_external_position env mi x)"
  by (rule only.keepsI) (auto simp: handle_external_position_def Let_def adopted_position_def new_position_def
      only.R_refl set_pos_only split: if_splits option.splits)

lemma take_over_only: "p_symbol p = y \<Longrightarrow> touches_only y s (take_over_qty env mi p x delta s)"
  by (simp add: take_over_qty_def Let_def set_pos_only adopted_qty_def)

lemma resync_after_only: "only.keeps y (resync_after env y)"
proof (rule only.keepsI)
  fix s s' r
  assume run: "resync_after env y s = (s', r)"
  have "only.keeps y (and_then (redo y) (\<lambda>ok. when_do (\<not> ok) (modify (publish e))))"
    if "se_protection_resync env = Some redo" for redo e
    by (intro only.keeps_and_then resync_only [OF that] only.keeps_when_do only.keeps_modify) (simp add: only.R_refl)
  then show "touches_only y s s'"
    using run by (auto simp: resync_after_def only.R_refl split: option.splits if_splits dest: only.keepsD)
qed

lemma warn_only: "touches_only y s (warn_risk env z d s)"
  by (auto simp: warn_risk_def only.R_refl split: option.split)

lemma mismatch_only: "p_symbol p = y \<Longrightarrow> only.keeps y (handle_qty_mismatch env mi p x)"
  unfolding handle_qty_mismatch_def Let_def
  by (auto intro!: only.keeps_then_do only.keeps_modify take_over_only resync_after_only warn_only)

lemma external_close_only: "p_symbol p = y \<Longrightarrow> touches_only y s (handle_external_close env mi p s)"
  by (simp add: handle_external_close_def Let_def set_pos_only)

lemma exchange_close_only: "p_symbol p = y \<Longrightarrow> touches_only y s (handle_bot_exchange_close env p s)"
  by (simp add: handle_bot_exchange_close_def Let_def set_pos_only closed_on_exchange_def)

section \<open>One symbol\<close>

lemma reported_only:
  assumes "xp_symbol (snd yx) = fst yx"
  shows "only.keeps (fst yx) (sync_reported env mi yx r)"
proof (rule only.keepsI, rule only_unless_registry)
  fix s s' r'
  assume run: "sync_reported env mi yx r s = (s', r')" and ok: "registry_ok (sv_state s)"
  let ?y = "fst yx"
  have adopt: "only.keeps ?y (then_do (handle_external_position env mi (snd yx)) (ret r1))" for r1 :: reconcile_result
    by (intro only.keeps_then_do adopt_only assms only.keeps_ret)
  have unknown: "only.keeps ?y (adopt_unknown env mi ?y (snd yx) r)"
    by (rule only.keepsI) (auto simp: adopt_unknown_def only.R_refl split: if_splits dest: only.keepsD [OF adopt])
  have "only.keeps ?y (then_do (handle_qty_mismatch env mi p (snd yx)) (ret r1))"
    if "pos_of s ?y = Some p" for p and r1 :: reconcile_result
    by (intro only.keeps_then_do mismatch_only only.keeps_ret) (rule pos_symbol [OF ok that])
  then show "touches_only ?y s s'"
    using run by (auto simp: sync_reported_def Let_def only.R_refl upd_pos_only split: option.splits if_splits
        dest: only.keepsD [OF unknown] only.keepsD)
qed

lemma mismatch_quiet: "adds.ends None (handle_qty_mismatch env mi p x)"
proof -
  have take: "adds_only None s (take_over_qty env mi p x d s)" for s d
    by (rule adds_same) (simp add: take_over_qty_def Let_def)
  have warn: "adds_only None s (warn_risk env y d s)" for s y d
    by (rule adds_same) (simp add: warn_risk_def split: option.split)
  have redo: "adds.ends None (and_then (redo y) (\<lambda>ok. when_do (\<not> ok) (modify (publish e))))"
    if "se_protection_resync env = Some redo" for redo e y
    by (intro adds.ends_and_then resync_quiet [OF that] adds.keeps_ends [OF adds.keeps_when_do] adds.keeps_modify)
      (simp add: adds_same)
  have "adds.ends None (resync_after env y)" for y
    by (rule adds.endsI) (auto simp: resync_after_def adds.R_refl split: option.splits if_splits
        dest: adds.endsD [OF redo])
  then show ?thesis
    unfolding handle_qty_mismatch_def Let_def
    by (intro adds.ends_then_do adds.keeps_ends [OF adds.keeps_modify]) (simp_all add: take warn)
qed

lemma reported_quiet: "adds.ends None (sync_reported env mi yx r)"
proof (rule adds.endsI)
  fix s s' r'
  assume run: "sync_reported env mi yx r s = (s', Inr r')"
  have "pending s1 = pending s" if "handle_external_position env mi x s = (s1, r1)" for x s1 r1
    using that by (auto simp: handle_external_position_def Let_def split: if_splits option.splits)
  then have unknown: "pending s1 = pending s" if "adopt_unknown env mi y x r s = (s1, r1)" for y x s1 r1
    using that by (auto simp: adopt_unknown_def then_do_def and_then_def split: if_splits prod.splits sum.splits)
  have "adds.ends None (then_do (handle_qty_mismatch env mi p x) (ret r1))" for p x and r1 :: reconcile_result
    by (intro adds.ends_then_do mismatch_quiet adds.ends_ret)
  then show "adds_only None s s'"
    using run by (auto simp: sync_reported_def Let_def adds_same adds.R_refl split: option.splits if_splits
        dest: unknown adds.endsD)
qed

lemma missing_only: "only.keeps y (sync_missing env mi rep y r)"
proof (rule only.keepsI, rule only_unless_registry)
  fix s s' r'
  assume run: "sync_missing env mi rep y r s = (s', r')" and ok: "registry_ok (sv_state s)"
  then show "touches_only y s s'"
    by (auto simp: sync_missing_def only.R_refl split: option.splits if_splits dest!: pos_symbol
        intro!: external_close_only exchange_close_only)
qed

lemma missing_quiet: "sync_missing env mi rep y r s = (s', r') \<Longrightarrow> adds_only None s s'"
  by (rule adds_same)
    (auto simp: sync_missing_def handle_external_close_def handle_bot_exchange_close_def Let_def
      split: option.splits if_splits)

lemma pos_upd: "registry_ok (sv_state s) \<Longrightarrow> pos_of s y = Some p \<Longrightarrow> p_symbol (f p) = p_symbol p \<Longrightarrow>
    pos_of (upd_pos y f s) y = Some (f p)"
  using pos_symbol [of s y p] by (simp add: upd_pos_def)

lemma adopt_self:
  assumes "adopt_unknown env mi y x r s = (s', Inr r')" "xp_symbol x = y" "xp_side x \<noteq> None" "\<not> settling s y"
    and "\<not> held (pos_of s y)"
  shows "synced env mi y (Some x) (pos_of s y) (pos_of s' y)"
proof -
  obtain sd where sd: "xp_side x = Some sd" using assms(3) by blast
  have trade: "keeps_trade (pos_of s y) p'" for p' using assms(5) by (cases "pos_of s y") simp_all
  have "\<not> mismatched (Some x) (pos_of s y)" using assms(5) by (cases "pos_of s y") simp_all
  then show ?thesis
    using assms trade by (auto simp: synced_def unadopted_def adopt_unknown_def then_do_def and_then_def
        handle_external_position_def sd Let_def adopted_position_def new_position_def split: if_splits)
qed

lemma resync_after_run:
  assumes "resync_after env y s = (t, Inr ())" "pos_of s y = Some p" "p_source p = BOT" "se_protection_resync env = Some redo"
  obtains t1 ok where "redo y s = (t1, Inr ok)" "\<And>z. pos_of t z = pos_of t1 z"
  using assms by (auto simp: resync_after_def is_bot_managed_def and_then_def when_do_def split: prod.splits sum.splits if_splits)

lemma warn_pos: "pos_of (warn_risk env y d t) z = pos_of t z"
  by (simp add: warn_risk_def publish_def pos_of_def split: option.split)

lemma mismatch_self:
  assumes "handle_qty_mismatch env mi p x s = (s', Inr ())" "p_symbol p = y" "p_status p \<noteq> CLOSED" "p_source p = BOT"
    and "p_qty p \<noteq> xp_size x"
  shows "synced env mi y (Some x) (Some p) (pos_of s' y)"
proof -
  let ?d = "dsub (xp_size x) (p_qty p)" let ?t = "take_over_qty env mi p x ?d s"
  obtain t where t: "resync_after env y ?t = (t, Inr ())" and s': "s' = warn_risk env y ?d t"
    using assms(1,2) by (auto simp: handle_qty_mismatch_def Let_def then_do_def and_then_def split: prod.splits sum.splits)
  have pos: "pos_of ?t y = Some (adopted_qty x ?d p)"
    using assms(2) by (simp add: take_over_qty_def Let_def adopted_qty_def)
  show ?thesis
  proof (cases "se_protection_resync env")
    case None
    then have "t = ?t" using t by (simp add: resync_after_def split: option.splits)
    then show ?thesis using assms(3) pos None by (simp add: synced_def unadopted_def s' warn_pos adopted_qty_def trade_view_def)
  next
    case (Some redo)
    have bot: "p_source (adopted_qty x ?d p) = BOT" using assms(4) by (simp add: adopted_qty_def)
    obtain t1 ok where "redo y ?t = (t1, Inr ok)" "pos_of t y = pos_of t1 y"
      by (rule resync_after_run [OF t pos bot Some]) blast
    then have "renewed env y (Some x) (Some p) (pos_of s' y)"
      using Some pos unfolding renewed_def s' warn_pos by fastforce
    then show ?thesis using assms(3-5) Some by (simp add: synced_def unadopted_def)
  qed
qed

lemma reported_self:
  assumes "registry_ok (sv_state s)" "xp_symbol x = y" "xp_side x \<noteq> None"
    and "\<not> settling s y" "sync_reported env mi (y, x) r s = (s', Inr r')"
  shows "synced env mi y (Some x) (pos_of s y) (pos_of s' y) \<and>
    (mismatched (Some x) (pos_of s y) \<longrightarrow> y \<in> set (rr_qty_mismatches r'))"
proof (cases "held (pos_of s y)")
  case False
  then have "adopt_unknown env mi y x r s = (s', Inr r')" "\<not> mismatched (Some x) (pos_of s y)"
    using assms(5) by (auto simp: sync_reported_def split: option.splits)
  with adopt_self [OF _ assms(2-4) False] show ?thesis by blast
next
  case True
  then obtain p where p: "pos_of s y = Some p" "p_status p \<noteq> CLOSED" by (cases "pos_of s y") auto
  have y: "p_symbol p = y" by (rule pos_symbol [OF assms(1) p(1)])
  consider "p_source p = EXTERNAL" | "p_source p = BOT" "p_qty p = xp_size x"
    | "p_source p = BOT" "p_qty p \<noteq> xp_size x" by (cases "p_source p") auto
  then show ?thesis
  proof cases
    case 3
    then have "handle_qty_mismatch env mi p x s = (s', Inr ())" "r' = r\<lparr> rr_qty_mismatches := rr_qty_mismatches r @ [y] \<rparr>"
      using assms(4,5) p by (auto simp: sync_reported_def then_do_def and_then_def split: prod.splits sum.splits)
    with mismatch_self [OF _ y p(2) 3] p(1) show ?thesis by simp
  qed (use assms(5) p pos_upd [OF assms(1) p(1)] in
      \<open>auto simp: sync_reported_def synced_def unadopted_def trade_view_def\<close>)
qed

lemma missing_self:
  assumes "registry_ok (sv_state s)" "y \<notin> rep" "\<not> settling s y" "sync_missing env mi rep y r s = (s', Inr r')"
  shows "agrees None (pos_of s' y) \<and> keeps_trade (pos_of s y) (pos_of s' y)"
proof (cases "pos_of s y")
  case None
  then show ?thesis using assms(4) by (auto simp: sync_missing_def)
next
  case (Some p)
  then show ?thesis
    using assms(2-4) pos_symbol [OF assms(1) Some]
    by (auto simp: sync_missing_def handle_external_close_def handle_bot_exchange_close_def Let_def
        closed_on_exchange_def trade_view_def split: if_splits)
qed

lemma missing_spares: "z \<noteq> y \<or> z \<in> rep \<Longrightarrow> spares.ends z (sync_missing env mi rep y r)"
proof (rule spares.endsI)
  fix s s' r'
  assume z: "z \<noteq> y \<or> z \<in> rep" and run: "sync_missing env mi rep y r s = (s', Inr r')"
  have "s' = s" if "y \<in> rep" using run that by (auto simp: sync_missing_def split: option.splits if_splits)
  then show "spares z s s'"
    using z spares_only [OF only.keepsD [OF missing_only run] missing_quiet [OF run]] spares.R_refl by auto
qed

lemma reported_spares: "xp_symbol (snd yx) = fst yx \<Longrightarrow> z \<noteq> fst yx \<Longrightarrow> spares.ends z (sync_reported env mi yx r)"
  by (rule spares.endsI) (blast intro: spares_only only.keepsD [OF reported_only] adds.endsD [OF reported_quiet])

section \<open>A whole pass over the positions\<close>

lemma mismatches_grow:
  "sync_reported env mi yx r s = (s', Inr r') \<Longrightarrow> set (rr_qty_mismatches r) \<subseteq> set (rr_qty_mismatches r')"
  "sync_missing env mi rep y r s = (s', Inr r') \<Longrightarrow> rr_qty_mismatches r' = rr_qty_mismatches r"
  by (auto simp: sync_reported_def adopt_unknown_def sync_missing_def Let_def then_do_def and_then_def
      split: option.splits if_splits prod.splits sum.splits)

lemma changes_stale:
  assumes "close_stale_persisted env rep r s = (s', Inr r')"
  shows "position_changes r' = position_changes r"
proof (cases "se_close_stale env")
  case (Some stale)
  then obtain sa q where "stale (rep \<union> open_symbols s) s = (sa, q)" by fastforce
  then show ?thesis
    using assms Some by (cases q) (auto simp: close_stale_persisted_def try_except_def and_then_def position_changes_def)
qed (use assms in \<open>simp add: close_stale_persisted_def\<close>)

lemma changes_order:
  assumes "sync_order env mi known x r s = (s', Inr r')"
  shows "position_changes r' = position_changes r"
proof -
  have "position_changes r' = position_changes r" if "cancel_stale_bot_order env x r s = (s', Inr r')"
    using that by (auto simp: cancel_stale_bot_order_def then_do_def and_then_def position_changes_def
        split: prod.splits sum.splits)
  then show ?thesis using assms by (auto simp: sync_order_def position_changes_def split: if_splits)
qed

lemma changes_orders:
  assumes "reconcile_orders env mi r s = (s', Inr r')"
  shows "position_changes r' = position_changes r"
proof -
  obtain s5 ks ys where "sync_each (sync_order env mi ks) ys r s5 = (s', Inr r')"
    using assms by (auto simp: reconcile_orders_def and_then_def split: prod.splits sum.splits)
  then show ?thesis
    by (rule sync_each_related [where M = "\<lambda>a b. position_changes b = position_changes a", rotated 3])
      (simp_all add: changes_order)
qed

lemma spares_step: "spares z s s' \<Longrightarrow> registry_ok (sv_state s) \<Longrightarrow> updates_ok (sv_state s) \<Longrightarrow> \<not> settling s z \<Longrightarrow>
    registry_ok (sv_state s') \<and> updates_ok (sv_state s') \<and> pos_of s' z = pos_of s z \<and> \<not> settling s' z"
  by (auto simp: spares_def)

lemma reported_pass:
  assumes ok: "registry_ok (sv_state s)" "updates_ok (sv_state s)" "\<not> settling s z"
    and exch: "distinct (map fst es)" "\<forall>(y, x) \<in> set es. xp_symbol x = y \<and> xp_side x \<noteq> None"
    and run: "sync_each (sync_reported env mi) es r s = (s', Inr r')"
  shows "if z \<in> fst ` set es
    then registry_ok (sv_state s') \<and> updates_ok (sv_state s') \<and>
      synced env mi z (map_of es z) (pos_of s z) (pos_of s' z) \<and>
      (mismatched (map_of es z) (pos_of s z) \<longrightarrow> z \<in> set (rr_qty_mismatches r'))
    else spares z s s'"
proof (cases "z \<in> fst ` set es")
  case False
  have "spares.ends z (sync_each (sync_reported env mi) es r)"
    by (rule spares.ends_each, rule reported_spares) (use exch(2) False in auto)
  from spares.endsD [OF this run] False show ?thesis by simp
next
  case True
  then obtain x where x: "(z, x) \<in> set es" by auto
  then obtain as bs where es: "es = as @ (z, x) # bs" by (meson split_list)
  have key: "xp_symbol x = z" "xp_side x \<noteq> None" using exch(2) x by auto
  have rest: "z \<notin> fst ` set as" "z \<notin> fst ` set bs" using exch(1) by (auto simp: es)
  have own: "xp_symbol (snd yx) = fst yx" if "yx \<in> set es" for yx using exch(2) that by auto
  have loop: "spares.ends z (sync_each (sync_reported env mi) cs q)" if "set cs \<subseteq> set es" "z \<notin> fst ` set cs" for cs q
    using that own by (intro spares.ends_each reported_spares) blast+
  obtain sa ra sb rb where turn: "sync_each (sync_reported env mi) as r s = (sa, Inr ra)"
    "sync_reported env mi (z, x) ra sa = (sb, Inr rb)" "sync_each (sync_reported env mi) bs rb sb = (s', Inr r')"
    using run unfolding es by (rule sync_each_turn)
  have "spares z s sa" by (rule spares.endsD [OF loop turn(1)]) (use rest es in auto)
  from spares_step [OF this ok] have sa: "registry_ok (sv_state sa)" "updates_ok (sv_state sa)" "\<not> settling sa z"
    "pos_of sa z = pos_of s z" by simp_all
  have "touches_only z sa sb"
    using only.keepsD [OF reported_only turn(2)] key(1) by simp
  then have sb: "registry_ok (sv_state sb)" "updates_ok (sv_state sb)" using sa by (simp_all add: touches_only_def)
  have "set (rr_qty_mismatches rb) \<subseteq> set (rr_qty_mismatches r')"
    by (rule sync_each_related [where M = "\<lambda>a b. set (rr_qty_mismatches a) \<subseteq> set (rr_qty_mismatches b)", OF _ _ _ turn(3)])
      (use mismatches_grow(1) in auto)
  then have "synced env mi z (Some x) (pos_of sa z) (pos_of sb z) \<and>
      (mismatched (Some x) (pos_of sa z) \<longrightarrow> z \<in> set (rr_qty_mismatches r'))"
    using reported_self [OF sa(1) key sa(3) turn(2)] by blast
  moreover have "spares z sb s'" by (rule spares.endsD [OF loop turn(3)]) (use rest es in auto)
  moreover have "map_of es z = Some x" by (rule map_of_is_SomeI [OF exch(1) x])
  ultimately show ?thesis using True sa(4) sb by (simp add: spares_def)
qed

lemma missing_pass:
  assumes "registry_ok (sv_state s)" "updates_ok (sv_state s)" "\<not> settling s z" "z \<notin> rep" "distinct ys"
    and run: "sync_each (sync_missing env mi rep) ys r s = (s', Inr r')"
    and all: "pos_of s z \<noteq> None \<Longrightarrow> z \<in> set ys"
  shows "registry_ok (sv_state s') \<and> agrees None (pos_of s' z) \<and> keeps_trade (pos_of s z) (pos_of s' z)"
proof (cases "z \<in> set ys")
  case False
  have "spares.ends z (sync_each (sync_missing env mi rep) ys r)"
    by (rule spares.ends_each, rule missing_spares) (use False in auto)
  from spares_step [OF spares.endsD [OF this run] assms(1-3)] all False show ?thesis by (cases "pos_of s z") auto
next
  case True
  then obtain as bs where ys: "ys = as @ z # bs" by (meson split_list)
  have rest: "z \<notin> set as" "z \<notin> set bs" using assms(5) by (auto simp: ys)
  obtain sa ra sb rb where turn: "sync_each (sync_missing env mi rep) as r s = (sa, Inr ra)"
    "sync_missing env mi rep z ra sa = (sb, Inr rb)" "sync_each (sync_missing env mi rep) bs rb sb = (s', Inr r')"
    using run unfolding ys by (rule sync_each_turn)
  have loop: "spares.ends z (sync_each (sync_missing env mi rep) cs q)" if "z \<notin> set cs" for cs q
    by (rule spares.ends_each, rule missing_spares) (use that in auto)
  have sa: "registry_ok (sv_state sa)" "updates_ok (sv_state sa)" "\<not> settling sa z" "pos_of sa z = pos_of s z"
    using spares_step [OF spares.endsD [OF loop [OF rest(1)] turn(1)] assms(1-3)] by simp_all
  have "touches_only z sa sb" by (rule only.keepsD [OF missing_only turn(2)])
  then have sb: "registry_ok (sv_state sb)" "updates_ok (sv_state sb)" using sa by (simp_all add: touches_only_def)
  have "spares z sb s'" by (rule spares.endsD [OF loop [OF rest(2)] turn(3)])
  then have "registry_ok (sv_state s') \<and> pos_of s' z = pos_of sb z" using sb by (simp add: spares_def)
  then show ?thesis using missing_self [OF sa(1) assms(4) sa(3) turn(2)] sa(4) by simp
qed

section \<open>The cycle\<close>

lemma stale_book_all: "book.keeps (close_stale_persisted env rep r)"
proof (cases "se_close_stale env")
  case None
  then show ?thesis by (intro book.keepsI) (auto simp: close_stale_persisted_def book.R_refl)
next
  case (Some stale)
  have "book.keeps (try_except (and_then (stale ys) (\<lambda>zs. ret (f zs))) (\<lambda>_. ret r))"
    for ys and f :: "string list \<Rightarrow> reconcile_result"
    by (intro book.keeps_try_except book.keeps_and_then stale_book [OF Some] book.keeps_ret)
  then show ?thesis by (auto simp: close_stale_persisted_def Some book.keeps_def)
qed

lemma cancel_stale_book: "book.keeps (cancel_stale_bot_order env x r)"
proof -
  have "book.keeps (case se_update_order_status env of None \<Rightarrow> ret ()
      | Some update \<Rightarrow> try_except (update a b c) (\<lambda>_. ret ()))" for a b c
  proof (cases "se_update_order_status env")
    case (Some update)
    then show ?thesis by (simp add: book.keeps_try_except [OF update_book [OF Some]])
  qed simp
  then show ?thesis unfolding cancel_stale_bot_order_def by (intro book.keeps_then_do cancel_book book.keeps_ret)
qed

lemma orders_pass_book: "book.keeps (reconcile_orders env mi r)"
proof -
  have "book.keeps (sync_order env mi known x q)" for known x q
    by (rule book.keepsI) (auto simp: sync_order_def book.R_refl split: if_splits
        dest: book.keepsD [OF cancel_stale_book])
  then show ?thesis
    unfolding reconcile_orders_def by (intro book.keeps_and_then orders_book book.keeps_reads book.keeps_each)
qed

lemma cycle_agrees:
  assumes ok: "registry_ok (sv_state s)" "updates_ok (sv_state s)" "\<not> settling s z"
    and get: "se_get_positions env s = (s0, Inr xs)" and run: "reconcile_once env mi s = (s', Inr r)"
  shows "registry_ok (sv_state s') \<and>
    synced env mi z (map_of (exch_by_symbol xs) z) (pos_of s z) (pos_of s' z) \<and>
    (mismatched (map_of (exch_by_symbol xs) z) (pos_of s z) \<longrightarrow> z \<in> set (rr_qty_mismatches r))"
proof -
  let ?es = "exch_by_symbol xs" let ?rep = "set (map fst ?es)"
  obtain s1 r1 s2 r2 s3 r3 s4 where pass1: "sync_each (sync_reported env mi) ?es new_reconcile_result s0 = (s1, Inr r1)"
    and pass2: "sync_each (sync_missing env mi ?rep) (map fst (rs_positions (sv_state s1))) r1 s1 = (s2, Inr r2)"
    and stale: "close_stale_persisted env ?rep r2 s2 = (s3, Inr r3)"
    and orders: "reconcile_orders env mi r3 s3 = (s4, Inr r)"
    and s': "s' = log_entry (LogReconciliation (reconcile_summary r)) (publish \<lparr> be_type = EV_RECONCILED,
      be_symbol = None, be_message = ''reconciliation cycle complete'', be_data = reconcile_summary r \<rparr> s4)"
    using run by (auto simp: reconcile_once_def reconcile_positions_def get Let_def and_then_def then_do_def
        split: prod.splits sum.splits)
  have "spares z s s0"
    by (rule spares_book) (rule book.keepsD [OF positions_book get], rule adds.endsD [OF positions_quiet get])
  from spares_step [OF this ok(1-3)] have s0: "registry_ok (sv_state s0)" "updates_ok (sv_state s0)" "\<not> settling s0 z"
    "pos_of s0 z = pos_of s z" by simp_all
  have "rr_qty_mismatches r1 = rr_qty_mismatches r2"
    by (rule sync_each_related [where M = "\<lambda>a b. rr_qty_mismatches a = rr_qty_mismatches b", OF _ _ _ pass2])
      (simp_all add: mismatches_grow(2))
  then have grow: "rr_qty_mismatches r1 = rr_qty_mismatches r"
    using changes_stale [OF stale] changes_orders [OF orders] by (simp add: position_changes_def)
  have "same_book s2 s'"
    using book.R_trans [OF book.keepsD [OF stale_book_all stale] book.keepsD [OF orders_pass_book orders]]
    by (simp add: s')
  then have after: "pos_of s' z = pos_of s2 z" "registry_ok (sv_state s') = registry_ok (sv_state s2)"
    by (simp_all add: same_book_pos) (simp add: same_book_def registry_ok_def)
  have pass: "if z \<in> fst ` set ?es
    then registry_ok (sv_state s1) \<and> updates_ok (sv_state s1) \<and> synced env mi z (map_of ?es z) (pos_of s0 z) (pos_of s1 z) \<and>
      (mismatched (map_of ?es z) (pos_of s0 z) \<longrightarrow> z \<in> set (rr_qty_mismatches r1))
    else spares z s0 s1"
    by (rule reported_pass [OF s0(1-3) _ _ pass1]) (use exch_by_symbol_ok [of xs] in auto)
  show ?thesis
  proof (cases "z \<in> fst ` set ?es")
    case True
    have "spares.ends z (sync_each (sync_missing env mi ?rep) (map fst (rs_positions (sv_state s1))) r1)"
      by (rule spares.ends_each, rule missing_spares) (use True in auto)
    from spares.endsD [OF this pass2] show ?thesis
      using pass True after s0 grow by (auto simp: spares_def)
  next
    case False
    then have s1: "registry_ok (sv_state s1)" "updates_ok (sv_state s1)" "\<not> settling s1 z" "pos_of s1 z = pos_of s z"
      using spares_step [of z s0 s1] pass s0 by simp_all
    have "registry_ok (sv_state s2) \<and> agrees None (pos_of s2 z) \<and> keeps_trade (pos_of s1 z) (pos_of s2 z)"
      by (rule missing_pass [OF s1(1-3) _ _ pass2])
        (use False s1(1) in \<open>auto simp: registry_ok_def pos_of_def get_position_def dest!: map_of_SomeD intro: rev_image_eqI\<close>)
    moreover have "map_of ?es z = None" using False by (simp add: map_of_eq_None_iff)
    ultimately show ?thesis using after s1(4) by simp
  qed
qed

section \<open>A second cycle\<close>

lemma all_agree_upd:
  assumes "all_agree mi es s" "pos_of s y = Some p" "p_symbol (f p) = p_symbol p" "p_status (f p) = p_status p"
    and "map_of es y = Some x" "p_qty (f p) = xp_size x" "p_status p \<noteq> CLOSED"
  shows "all_agree mi es (upd_pos y f s)"
proof -
  have reg: "registry_ok (sv_state s)" and y: "p_symbol p = y"
    using assms(1) pos_symbol [of s y p] assms(2) by (simp_all add: all_agree_def)
  have "registry_ok (sv_state (upd_pos y f s))"
    using registry_ok_put [OF reg, of "f p"] assms(2) by (simp add: upd_pos_def set_pos_def)
  moreover have "pos_of (upd_pos y f s) z = (if z = y then Some (f p) else pos_of s z)" for z
    using assms(2,3) y by (simp add: upd_pos_def)
  ultimately show ?thesis using assms by (auto simp: all_agree_def)
qed

lemma all_agree_same: "same_book s s' \<Longrightarrow> all_agree mi es s \<Longrightarrow> all_agree mi es s'"
  using same_book_pos [of s s'] by (simp add: all_agree_def same_book_def registry_ok_def)

lemma reported_again:
  assumes "all_agree mi es s" "map_of es (fst yx) = Some (snd yx)" "sync_reported env mi yx r s = (s', Inr r')"
  shows "only_unadopted mi es s r r' \<and> all_agree mi es s' \<and> (\<forall>z. held (pos_of s' z) = held (pos_of s z))"
proof (cases "held (pos_of s (fst yx))")
  case True
  then obtain p where p: "pos_of s (fst yx) = Some p" "p_status p \<noteq> CLOSED" by (cases "pos_of s (fst yx)") auto
  have q: "p_qty p = xp_size (snd yx)" and y: "p_symbol p = fst yx"
    using assms(1,2) p pos_symbol [of s "fst yx" p] by (auto simp: all_agree_def unadopted_def dest: spec [of _ "fst yx"])
  have "r' = r \<and> (\<exists>f. s' = upd_pos (fst yx) f s \<and> p_symbol (f p) = p_symbol p \<and> p_status (f p) = p_status p \<and>
      p_qty (f p) = xp_size (snd yx))"
    using assms(3) p q by (auto simp: sync_reported_def Let_def split: if_splits intro!: exI)
  then obtain f where f: "r' = r" "s' = upd_pos (fst yx) f s" "p_symbol (f p) = p_symbol p"
    "p_status (f p) = p_status p" "p_qty (f p) = xp_size (snd yx)" by blast
  have "held (pos_of s' z) = held (pos_of s z)" for z
    using f p y by (simp add: upd_pos_def)
  moreover have "all_agree mi es s'" unfolding f(2) by (rule all_agree_upd) (use assms(1,2) p f in auto)
  ultimately show ?thesis using f(1) by (simp add: only_unadopted_def)
next
  case False
  have off: "\<not> mi_adopt_external_positions mi"
  proof
    assume "mi_adopt_external_positions mi"
    then have "agrees (Some (snd yx)) (pos_of s (fst yx))"
      using assms(1,2) by (metis all_agree_def unadopted_def)
    then show False using False by (cases "pos_of s (fst yx)") auto
  qed
  have "adopt_unknown env mi (fst yx) (snd yx) r s = (s', Inr r')"
    using assms(3) False by (auto simp: sync_reported_def Let_def split: option.splits)
  then have "s' = s \<and> r' = r \<or> s' = pause_entries env mi s \<and>
      r' = r\<lparr> rr_external_positions := rr_external_positions r @ [fst yx] \<rparr>"
    using off by (auto simp: adopt_unknown_def handle_external_position_def then_do_def and_then_def split: if_splits)
  moreover have "unadopted mi (map_of es (fst yx)) (pos_of s (fst yx))" using off False assms(2) by (simp add: unadopted_def)
  ultimately show ?thesis
    using assms(1) all_agree_same [of s "pause_entries env mi s" mi es]
    by (auto simp: only_unadopted_def position_changes_def book.R_refl)
qed

lemma reported_pass_again:
  assumes "all_agree mi es s" "\<forall>yx \<in> set as. map_of es (fst yx) = Some (snd yx)"
    and "sync_each (sync_reported env mi) as r s = (s', Inr r')"
  shows "only_unadopted mi es s r r' \<and> all_agree mi es s'"
  using assms
proof (induction as arbitrary: r s)
  case Nil
  then show ?case by (simp add: only_unadopted_def)
next
  case (Cons yx as)
  obtain s1 r1 where 1: "sync_reported env mi yx r s = (s1, Inr r1)" "sync_each (sync_reported env mi) as r1 s1 = (s', Inr r')"
    using Cons.prems(3) by (auto simp: and_then_def split: prod.splits sum.splits)
  have turn: "only_unadopted mi es s r r1 \<and> all_agree mi es s1 \<and> (\<forall>z. held (pos_of s1 z) = held (pos_of s z))"
    by (rule reported_again [OF Cons.prems(1) _ 1(1)]) (use Cons.prems(2) in simp)
  then have "only_unadopted mi es s1 r1 r' \<and> all_agree mi es s'" using Cons.IH [of s1 r1] 1(2) Cons.prems(2) by simp
  with turn show ?case by (auto simp: only_unadopted_def unadopted_def)
qed

lemma missing_pass_again:
  assumes "all_agree mi es s"
  shows "sync_each (sync_missing env mi (set (map fst es))) ys r s = (s, Inr r)"
proof (induction ys)
  case (Cons y ys)
  have "sync_missing env mi (set (map fst es)) y r s = (s, Inr r)"
  proof (cases "y \<in> fst ` set es")
    case False
    then have "map_of es y = None" by (simp add: map_of_eq_None_iff)
    moreover have "agrees (map_of es y) (pos_of s y) \<or> unadopted mi (map_of es y) (pos_of s y)"
      using assms by (simp add: all_agree_def)
    ultimately have "agrees None (pos_of s y)" by simp
    then show ?thesis by (auto simp: sync_missing_def split: option.split)
  qed (auto simp: sync_missing_def split: option.split)
  then show ?case using Cons by (simp add: and_then_def)
qed simp

lemma second_cycle:
  assumes "all_agree mi (exch_by_symbol xs) s" "se_get_positions env s = (s0, Inr xs)"
    and run: "reconcile_once env mi s = (s', Inr r)"
  shows "only_unadopted mi (exch_by_symbol xs) s new_reconcile_result r"
proof -
  let ?es = "exch_by_symbol xs" let ?rep = "set (map fst ?es)"
  obtain s1 r1 s2 r2 s3 r3 s4 where pass1: "sync_each (sync_reported env mi) ?es new_reconcile_result s0 = (s1, Inr r1)"
    and pass2: "sync_each (sync_missing env mi ?rep) (map fst (rs_positions (sv_state s1))) r1 s1 = (s2, Inr r2)"
    and stale: "close_stale_persisted env ?rep r2 s2 = (s3, Inr r3)"
    and orders: "reconcile_orders env mi r3 s3 = (s4, Inr r)"
    using run by (auto simp: reconcile_once_def reconcile_positions_def assms(2) Let_def and_then_def then_do_def
        split: prod.splits sum.splits)
  have same: "same_book s s0" by (rule book.keepsD [OF positions_book assms(2)])
  have 1: "only_unadopted mi ?es s0 new_reconcile_result r1 \<and> all_agree mi ?es s1"
    using exch_by_symbol_ok [of xs] by (intro reported_pass_again [OF all_agree_same [OF same assms(1)] _ pass1]) auto
  then have "r2 = r1" using missing_pass_again [of mi ?es s1] pass2 by simp
  then have "position_changes r = position_changes r1" using changes_stale [OF stale] changes_orders [OF orders] by simp
  then show ?thesis using 1 same_book_pos [OF same] by (simp add: only_unadopted_def position_changes_def)
qed

end

end
