(* ===== verification/Trading_Paper.thy ===== *)
theory Trading_Paper
  imports Trading_Manage_Facts
begin

text \<open>
  PAPER mode end to end: after a management cycle the position the service holds is exactly the net position
  of the simulated exchange, whatever the market does, and the cycle itself raises nothing.

  \<open>emit\<close> and \<open>log_entry\<close> succeed in the model. In the program the event bus and the trade logger can raise
  (Redis or the database), and the exception ends the cycle where it occurs; such a cycle is not covered.
\<close>

lemma total_weaken: "total P Q m \<Longrightarrow> (\<And>s. Q s \<Longrightarrow> Q' s) \<Longrightarrow> total P Q' m"
  unfolding total_def by blast

section \<open>The invariant under the parts of a cycle\<close>

lemma paper_ok_same:
  "sv_state s' = sv_state s \<Longrightarrow> sv_exec s' = sv_exec s \<Longrightarrow> sv_mode s' = sv_mode s \<Longrightarrow>
    paper_ok y s' = paper_ok y s"
  by (simp add: paper_ok_def mirrors_def held_qty_def pos_of_def)

lemma paper_ok_set:
  assumes "paper_ok y s" "pos_of s y = Some p" "p_symbol p' = p_symbol p" "p_side p' = p_side p"
    "p_qty p' = p_qty p" "p_status p' = CLOSED \<longleftrightarrow> p_status p = CLOSED"
  shows "paper_ok y (set_pos p' (s\<lparr> sv_positions := m \<rparr>))" and "paper_ok y (set_pos p' s)"
proof -
  have reg: "registry_ok (sv_state s)" using assms(1) by (simp add: paper_ok_def)
  have y: "p_symbol p' = y" using assms(3) pos_symbol [OF reg assms(2)] by simp
  have "registry_ok (put_position y p' (sv_state s))" using registry_ok_put [OF reg, of p'] y by simp
  then show "paper_ok y (set_pos p' (s\<lparr> sv_positions := m \<rparr>))" "paper_ok y (set_pos p' s)"
    using assms y by (auto simp: paper_ok_def mirrors_def held_qty_def pos_of_def set_pos_def)
qed

lemma emit_scout_total:
  assumes "known_action a" "\<And>s e. P s \<Longrightarrow> P (emit e s)"
  shows "total P P (emit_scout_action y a)"
proof (cases "pa_event_type a")
  case None
  then show ?thesis by (simp add: emit_scout_action_def total_ret)
next
  case (Some e)
  then obtain t where "bot_event_type_of e = Inr t" using known_actionD [OF assms(1)] by blast
  then show ?thesis
    using Some assms(2) by (auto simp: emit_scout_action_def total_def and_then_def)
qed

text \<open>The state in which the order action of a cycle runs: the position is open, with quantity \<open>q\<close>.\<close>

definition open_with :: "string \<Rightarrow> dec \<Rightarrow> paper_engine service \<Rightarrow> bool" where
  "open_with y q s \<longleftrightarrow> paper_ok y s \<and> (\<exists>p. pos_of s y = Some p \<and> p_status p \<noteq> CLOSED \<and> p_qty p = q)"

lemma open_with_emit: "open_with y q s \<Longrightarrow> open_with y q (emit e s)"
  by (auto simp: open_with_def paper_ok_same [of "emit e s" s])

lemma paper_ok_emit: "paper_ok y s \<Longrightarrow> paper_ok y (emit e s)"
  by (simp add: paper_ok_same [of "emit e s" s])

lemma paper_ok_log: "paper_ok y s \<Longrightarrow> paper_ok y (log_entry l s)"
  by (simp add: paper_ok_same [of "log_entry l s" s])

lemma close_whole_total:
  "total (open_with y q) (paper_ok y) (close_whole (paper_ports ob) cfg ck bid ask y w)"
proof (rule totalI)
  fix s
  assume "open_with y q s"
  then obtain p where p: "paper_ok y s" "pos_of s y = Some p" "p_status p \<noteq> CLOSED"
    by (auto simp: open_with_def)
  then have dec: "is_dec (p_qty p)" "0 \<le> p_qty p" by (simp_all add: paper_ok_def)
  obtain s' r where run: "close_pos (paper_ports ob) cfg ck p (p_qty p) w bid ask True False s = (s', r)"
    by fastforce
  from paper_close_step [OF p dec order.refl _ run] show
    "\<exists>s' x. close_whole (paper_ports ob) cfg ck bid ask y w s = (s', Inr x) \<and> paper_ok y s'"
    using run p(2) by (auto simp: close_whole_def)
qed

lemma close_part_total:
  assumes "is_dec x" "0 \<le> x" "x \<le> q"
  shows "total (open_with y q) (paper_ok y) (close_part (paper_ports ob) cfg ck bid ask y (Some x) w pl)"
proof (rule totalI)
  fix s
  assume "open_with y q s"
  then obtain p where p: "paper_ok y s" "pos_of s y = Some p" "p_status p \<noteq> CLOSED" "p_qty p = q"
    by (auto simp: open_with_def)
  obtain s' r where run: "close_pos (paper_ports ob) cfg ck p x w bid ask False pl s = (s', r)"
    by fastforce
  from paper_close_step [OF p(1,2,3) assms(1,2) _ _ run] show
    "\<exists>s' z. close_part (paper_ports ob) cfg ck bid ask y (Some x) w pl s = (s', Inr z) \<and> paper_ok y s'"
    using run p(2,4) assms(3) by (auto simp: close_part_def)
qed

lemma sync_total: "total (paper_ok y) (paper_ok y) (sync_trailing_stop (paper_ports ob) y a)"
  by (rule totalI) (simp add: sync_trailing_stop_def paper_ok_def)

lemma start_runner_total: "total (paper_ok y) (paper_ok y) (start_runner (paper_ports ob) cfg b y q)"
proof (rule totalI)
  fix s
  assume ok: "paper_ok y s"
  show "\<exists>s' x. start_runner (paper_ports ob) cfg b y q s = (s', Inr x) \<and> paper_ok y s'"
  proof (cases "\<exists>p. pos_of s y = Some p \<and> p_status p \<noteq> CLOSED \<and> p_qty p < q")
    case True
    then obtain p where p: "pos_of s y = Some p" "p_status p \<noteq> CLOSED" "p_qty p < q" by blast
    obtain m' p' acts where act: "activate_runner_after_partial_tp cfg b (sv_positions s) p = (m', p', acts)"
      by (metis surj_pair)
    have known: "list_all known_action acts" by (rule known_activate [OF act])
    have ok1: "paper_ok y (set_pos p' (s\<lparr> sv_positions := m' \<rparr>))"
      using activate_frame [OF act] by (intro paper_ok_set [OF ok p(1)]) simp_all
    have "total (paper_ok y) (paper_ok y) (runner_followup (paper_ports ob) y a)" if "a \<in> set acts" for a
    proof -
      have "known_action a" using known that by (simp add: list_all_iff)
      then have "total (paper_ok y) (paper_ok y) (emit_scout_action y a)"
        by (rule emit_scout_total) (rule paper_ok_emit)
      then show ?thesis by (simp add: runner_followup_def sync_total total_ret)
    qed
    then have "total (paper_ok y) (paper_ok y)
        (and_then (for_each (runner_followup (paper_ports ob) y) acts) (\<lambda>_. ret (map Acted acts)))"
      by (rule total_and_then [OF total_for_each]) (simp_all add: total_ret)
    then show ?thesis using p ok1 by (auto simp: start_runner_def act total_def)
  next
    case False
    then have "start_runner (paper_ports ob) cfg b y q s = (s, Inr [])"
      by (auto simp: start_runner_def split: option.splits)
    then show ?thesis using ok by simp
  qed
qed

section \<open>The actions of an evaluation\<close>

text \<open>What an order action may ask of a position with quantity \<open>q\<close>.\<close>

definition action_ok :: "dec \<Rightarrow> position_action \<Rightarrow> bool" where
  "action_ok q a \<longleftrightarrow> known_action a \<and>
    (pa_type a \<in> {PARTIAL_TP, REDUCE} \<longrightarrow> (\<exists>x. pa_qty a = Some x \<and> is_dec x \<and> 0 \<le> x \<and> x \<le> q))"

lemma run_event_total:
  assumes "pa_type a = SCOUT_EVENT" "known_action a" "\<And>s e. P s \<Longrightarrow> P (emit e s)"
  shows "total P P (run_action io cfg ck b bid ask y a)"
proof -
  have "run_action io cfg ck b bid ask y a = and_then (emit_scout_action y a) (\<lambda>_. ret [])"
    by (simp add: fun_eq_iff run_action_def assms(1))
  then show ?thesis
    using emit_scout_total [OF assms(2), of P y] assms(3) by (simp add: total_and_then total_ret)
qed

lemma run_action_total:
  assumes "action_ok q a"
  shows "total (open_with y q) (paper_ok y) (run_action (paper_ports ob) cfg ck b bid ask y a)"
proof -
  have known: "known_action a" using assms by (simp add: action_ok_def)
  have qty: "\<exists>x. pa_qty a = Some x \<and> is_dec x \<and> 0 \<le> x \<and> x \<le> q" if "pa_type a \<in> {PARTIAL_TP, REDUCE}"
    using assms that by (auto simp: action_ok_def)
  have scout: "total (paper_ok y) (paper_ok y) (and_then (emit_scout_action y a) (\<lambda>_. ret ([] :: managed list)))"
  proof (rule total_and_then)
    show "total (paper_ok y) (paper_ok y) (emit_scout_action y a)"
      by (rule emit_scout_total [OF known]) (rule paper_ok_emit)
  qed (simp add: total_ret)
  show ?thesis
  proof (cases "pa_type a")
    case PARTIAL_TP
    then obtain x where x: "pa_qty a = Some x" "is_dec x" "0 \<le> x" "x \<le> q" using qty by auto
    have "total (open_with y q) (paper_ok y)
        (and_then (close_part (paper_ports ob) cfg ck bid ask y (Some x) (pa_reason a) True)
          (\<lambda>_. start_runner (paper_ports ob) cfg b y z))" for z
      by (rule total_and_then [OF close_part_total [OF x(2,3,4)] start_runner_total])
    then show ?thesis using PARTIAL_TP x(1) by (auto simp: total_def run_action_def Let_def)
  next
    case REDUCE
    then obtain x where x: "pa_qty a = Some x" "is_dec x" "0 \<le> x" "x \<le> q" using qty by auto
    have "total (open_with y q) (paper_ok y)
        (and_then (close_part (paper_ports ob) cfg ck bid ask y (Some x) (pa_reason a) False)
          (\<lambda>_. and_then (emit_scout_action y a) (\<lambda>_. ret ([] :: managed list))))"
      by (rule total_and_then [OF close_part_total [OF x(2,3,4)] scout])
    then show ?thesis using REDUCE x(1) by (auto simp: total_def run_action_def)
  next
    case EXIT
    have "total (open_with y q) (paper_ok y)
        (and_then (close_whole (paper_ports ob) cfg ck bid ask y (pa_reason a)) (\<lambda>_. ret ([] :: managed list)))"
      by (rule total_and_then [OF close_whole_total]) (rule total_ret)
    then show ?thesis using EXIT by (auto simp: total_def run_action_def)
  next
    case TRAIL_UPDATE
    let ?s = "\<lambda>s. upd_pos y (\<lambda>p. p\<lparr> p_stop_loss_price := pa_new_stop a \<rparr>) s"
    have ok: "paper_ok y (?s s)" if "open_with y q s" for s
    proof -
      from that obtain p where p: "paper_ok y s" "pos_of s y = Some p" by (auto simp: open_with_def)
      then show ?thesis by (simp add: upd_pos_def paper_ok_set(2) [OF p])
    qed
    have log: "total (paper_ok y) (paper_ok y) (modify (\<lambda>s2. case pos_of s2 y of None \<Rightarrow> s2
        | Some q \<Rightarrow> log_entry (LogPosition q (sv_mode s2) None (Some (position_protection_status cfg q))) s2))"
      by (rule total_modify) (simp add: paper_ok_log split: option.split)
    have "total (paper_ok y) (paper_ok y) (and_then (sync_trailing_stop (paper_ports ob) y a)
        (\<lambda>_. and_then (modify (\<lambda>s2. case pos_of s2 y of None \<Rightarrow> s2
            | Some q \<Rightarrow> log_entry (LogPosition q (sv_mode s2) None (Some (position_protection_status cfg q))) s2))
          (\<lambda>_. ret ([] :: managed list))))"
      by (rule total_and_then [OF sync_total total_and_then [OF log]]) (simp add: total_ret)
    then show ?thesis using TRAIL_UPDATE ok by (auto simp: total_def run_action_def)
  next
    case SCOUT_EVENT
    have "total (open_with y q) (open_with y q) (run_action (paper_ports ob) cfg ck b bid ask y a)"
      by (rule run_event_total [OF SCOUT_EVENT known]) (rule open_with_emit)
    then show ?thesis by (rule total_weaken) (simp add: open_with_def)
  qed
qed

lemma run_events_total:
  assumes "all_events evs" "list_all known_action evs" "\<And>s e. P s \<Longrightarrow> P (emit e s)"
    and "total P Q (run_actions io cfg ck b bid ask y acts)"
  shows "total P Q (run_actions io cfg ck b bid ask y (evs @ acts))"
  using assms(1,2)
proof (induction evs)
  case Nil
  then show ?case using assms(4) by simp
next
  case (Cons a evs)
  have ev: "total P P (run_action io cfg ck b bid ask y a)"
    using Cons.prems assms(3) by (intro run_event_total) simp_all
  have "total P Q (run_actions io cfg ck b bid ask y (evs @ acts))" using Cons by simp
  then show ?case
    unfolding append_Cons run_actions.simps
    by (intro total_and_then [OF ev] total_and_then total_ret)
qed

lemma run_last_total:
  assumes "total P Q (run_action io cfg ck b bid ask y a)"
  shows "total P Q (run_actions io cfg ck b bid ask y [a])"
  unfolding run_actions.simps by (intro total_and_then [OF assms] total_and_then total_ret)

section \<open>The cycle\<close>

definition fractions_ok :: "app_config \<Rightarrow> bool" where
  "fractions_ok cfg \<longleftrightarrow>
    list_all (\<lambda>f. 0 \<le> f \<and> f \<le> 1)
      [sc_defensive_reduce_fraction (scout_cfg cfg),
       sgb_reduce_fraction (se_breakout_confirm (cfg_stagnation_exit cfg)),
       ps_partial_take_profit_fraction (cfg_position cfg)]"

lemma share_ok: "is_dec q \<Longrightarrow> 0 \<le> q \<Longrightarrow> 0 \<le> f \<Longrightarrow> f \<le> 1 \<Longrightarrow> is_dec (dmul q f) \<and> 0 \<le> dmul q f \<and> dmul q f \<le> q"
proof -
  assume q: "is_dec q" "0 \<le> q" and f: "0 \<le> f" "f \<le> 1"
  have "dround (q * f) \<le> dround q" using q f by (intro dround_mono) (simp add: mult_left_le)
  then show ?thesis using q f by (simp add: dmul_def is_decD)
qed

text \<open>The actions of a cycle: notifications, then at most one order action.\<close>

definition cycle_shape :: "dec \<Rightarrow> position_action list \<Rightarrow> bool" where
  "cycle_shape q acts \<longleftrightarrow>
    (\<exists>evs rest. acts = evs @ rest \<and> all_events evs \<and> list_all known_action evs \<and>
      (rest = [] \<or> (\<exists>a. rest = [a] \<and> action_ok q a)))"

lemma shape_events: "all_events acts \<Longrightarrow> list_all known_action acts \<Longrightarrow> cycle_shape q acts"
  unfolding cycle_shape_def by (intro exI [of _ acts] exI [of _ "[]"]) simp

lemma shape_snoc:
  assumes "all_events evs" "list_all known_action (evs @ [a])"
    and "pa_type a \<in> {PARTIAL_TP, REDUCE} \<Longrightarrow> \<exists>x. pa_qty a = Some x \<and> is_dec x \<and> 0 \<le> x \<and> x \<le> q"
  shows "cycle_shape q (evs @ [a])"
  unfolding cycle_shape_def using assms
  by (intro exI [of _ evs] exI [of _ "[a]"]) (auto simp: action_ok_def)

lemma identity_ofD:
  "identity_of p' = identity_of p \<Longrightarrow> p_symbol p' = p_symbol p \<and> p_side p' = p_side p \<and> p_qty p' = p_qty p"
  by (simp add: identity_of_def)

lemma order_view_status: "order_view p' = (x, w) \<Longrightarrow> p_status p' = x"
  by (simp add: order_view_def)

lemma evaluate_paper:
  assumes "evaluate cfg b m p = (m', p', acts)" "fractions_ok cfg" "is_dec (p_qty p)" "0 \<le> p_qty p"
    "p_status p \<noteq> CLOSED"
  shows "p_symbol p' = p_symbol p \<and> p_side p' = p_side p \<and> p_qty p' = p_qty p \<and> p_status p' \<noteq> CLOSED \<and>
    cycle_shape (p_qty p) acts"
proof -
  have out: "eval_outcome cfg (r_multiple p (bi_price b)) p (p', acts)"
    using evaluate_outcome [of cfg p b m] assms(1) by simp
  have known: "list_all known_action acts" by (rule known_evaluate [OF assms(1)])
  have share: "\<exists>x. Some (dmul (p_qty p) f) = Some x \<and> is_dec x \<and> 0 \<le> x \<and> x \<le> p_qty p"
    if "f \<in> insert (ps_partial_take_profit_fraction (cfg_position cfg)) (reduce_fractions cfg)" for f
    using share_ok [OF assms(3,4), of f] that assms(2) by (auto simp: fractions_ok_def reduce_fractions_def)
  have "identity_of p' = identity_of p"
    using out by cases simp_all
  note ids = identity_ofD [OF this]
  have "p_status p' \<noteq> CLOSED"
    using out assms(5) by cases (auto dest: order_view_status simp: order_view_def [of p])
  moreover from out have "cycle_shape (p_qty p) acts"
  proof cases
    case watch
    then show ?thesis using known by (simp add: shape_events)
  next
    case (partial evs a)
    show ?thesis unfolding partial(1) using known partial share by (intro shape_snoc) simp_all
  next
    case (reduce evs a f)
    show ?thesis unfolding reduce(1) using known reduce share by (intro shape_snoc) simp_all
  next
    case (exit why evs a)
    show ?thesis unfolding exit(1) using known exit by (intro shape_snoc) simp_all
  next
    case (trail z evs)
    show ?thesis unfolding trail(1) using known trail
      by (intro shape_snoc) (simp_all add: trail_action_def plain_action_def)
  next
    case (tighten evs)
    show ?thesis unfolding tighten(1) using known tighten
      by (intro shape_snoc) (simp_all add: trail_action_def plain_action_def)
  qed
  ultimately show ?thesis using ids by blast
qed

lemma manage_bar_total:
  assumes "fractions_ok cfg"
  shows "total (paper_ok y) (paper_ok y) (manage_bar (paper_ports ob) cfg ck b bid ask y)"
proof (rule totalI)
  fix s
  assume ok: "paper_ok y s"
  show "\<exists>s' x. manage_bar (paper_ports ob) cfg ck b bid ask y s = (s', Inr x) \<and> paper_ok y s'"
  proof (cases "\<exists>p. pos_of s y = Some p \<and> p_status p \<noteq> CLOSED")
    case True
    then obtain p where p: "pos_of s y = Some p" "p_status p \<noteq> CLOSED" by blast
    then have dec: "is_dec (p_qty p)" "0 \<le> p_qty p" using ok by (simp_all add: paper_ok_def)
    obtain m' p' acts where ev: "evaluate cfg b (sv_positions s) p = (m', p', acts)" by (metis surj_pair)
    from evaluate_paper [OF ev assms dec p(2)] obtain evs rest where
      frame: "p_symbol p' = p_symbol p" "p_side p' = p_side p" "p_qty p' = p_qty p" "p_status p' \<noteq> CLOSED"
      and acts: "acts = evs @ rest" "all_events evs" "list_all known_action evs"
        "rest = [] \<or> (\<exists>a. rest = [a] \<and> action_ok (p_qty p) a)"
      unfolding cycle_shape_def by blast
    let ?s1 = "set_pos p' (s\<lparr> sv_positions := m' \<rparr>)"
    have "paper_ok y ?s1"
      by (rule paper_ok_set(1) [OF ok p(1)]) (simp_all add: frame p(2))
    then have s1: "open_with y (p_qty p) ?s1"
      using frame pos_symbol [of s y p] ok p(1) by (simp add: open_with_def paper_ok_def)
    have "total (open_with y (p_qty p)) (paper_ok y) (run_actions (paper_ports ob) cfg ck b bid ask y rest)"
      using acts(4)
    proof
      assume "rest = []"
      then show ?thesis
        by (simp only: run_actions.simps) (rule total_ret, simp add: open_with_def)
    next
      assume "\<exists>a. rest = [a] \<and> action_ok (p_qty p) a"
      then show ?thesis using run_last_total [OF run_action_total] by blast
    qed
    then have "total (open_with y (p_qty p)) (paper_ok y)
        (and_then (run_actions (paper_ports ob) cfg ck b bid ask y acts) (\<lambda>ys. ret (map Acted acts @ ys)))"
      unfolding acts(1) by (intro total_and_then [OF run_events_total] acts(2,3) open_with_emit total_ret)
    then show ?thesis using p s1 by (auto simp: manage_bar_def ev total_def)
  next
    case False
    show ?thesis
    proof (cases "pos_of s y")
      case None
      then show ?thesis using ok by (simp add: manage_bar_def)
    next
      case (Some p)
      with False have closed: "p_status p = CLOSED" by simp
      then have "evaluate cfg b (sv_positions s) p = (sv_positions s, p, [])" by (simp add: evaluate_def)
      then show ?thesis
        using ok Some paper_ok_set(1) [OF ok Some, of p "sv_positions s"] by (simp add: manage_bar_def)
    qed
  qed
qed

text \<open>As long as the event bus and the logger take what they are handed, a cycle runs to its end.\<close>

lemma paper_manage_returns:
  assumes "paper_ok y s" "fractions_ok cfg"
    and "manage (paper_ports ob) cfg ck b funding_rate bid ask y s = (s', r)"
  shows "(\<exists>acts. r = Inr acts) \<and> paper_ok y s'"
proof -
  have bar: "total (paper_ok y) (paper_ok y) (manage_bar (paper_ports ob) cfg ck b bid ask y)"
    by (rule manage_bar_total [OF assms(2)])
  consider (idle) "pos_of s y = None \<or> (\<exists>p. pos_of s y = Some p \<and> (\<not> is_bot_managed p \<or> p_status p \<noteq> ACTIVE))"
    | (fund) p where "pos_of s y = Some p" "is_bot_managed p" "p_status p = ACTIVE"
        "gs_funding_guard (sv_guards s) \<and> should_reduce_position (cfg_funding_guard cfg) funding_rate (Some (p_side p))"
    | (bar) p where "pos_of s y = Some p" "is_bot_managed p" "p_status p = ACTIVE"
        "\<not> (gs_funding_guard (sv_guards s) \<and> should_reduce_position (cfg_funding_guard cfg) funding_rate (Some (p_side p)))"
    by (cases "pos_of s y") auto
  then show ?thesis
  proof cases
    case idle
    then have "s' = s" "r = Inr []" using assms(3) by (auto simp: manage_def split: option.splits)
    then show ?thesis using assms(1) by simp
  next
    case fund
    let ?q = "dmul (p_qty p) (1 / 2)"
    have dec: "is_dec (p_qty p)" "0 \<le> p_qty p" using assms(1) fund(1) by (simp_all add: paper_ok_def)
    have q: "is_dec ?q" "0 \<le> ?q" "?q \<le> p_qty p" using share_ok [OF dec, of "1 / 2"] by simp_all
    obtain s1 r1 where cl: "close_pos (paper_ports ob) cfg ck p ?q (Some FUNDING_GUARD) bid ask False False s = (s1, r1)"
      by fastforce
    have ok1: "r1 = Inr ()" "paper_ok y s1"
      using paper_close_step [OF assms(1) fund(1) _ q _ cl] fund(3) by simp_all
    have "total (paper_ok y) (paper_ok y)
        (and_then (manage_bar (paper_ports ob) cfg ck b bid ask y) (\<lambda>ys. ret (Funding_Reduce ?q # ys)))"
      by (intro total_and_then [OF bar] total_ret)
    from totalD [OF this ok1(2)] show ?thesis
      using assms(3) fund ok1 by (auto simp: manage_def Let_def and_then_simps(2) [of _ _ s1 "()"] cl split: if_splits)
  next
    case bar
    then have "manage (paper_ports ob) cfg ck b funding_rate bid ask y s = manage_bar (paper_ports ob) cfg ck b bid ask y s"
      unfolding manage_def by auto
    then have "manage_bar (paper_ports ob) cfg ck b bid ask y s = (s', r)" using assms(3) by simp
    then show ?thesis using totalD [OF manage_bar_total [OF assms(2)] assms(1)] by blast
  qed
qed

text \<open>C24. In PAPER mode a management cycle that returns leaves the bot's position equal to the net position of the
  simulated exchange, whatever the market data, the funding rate and the position are: partial
  take-profits, reductions, exits, runner activation and stop updates included. A service without an event
  bus and without a logger returns from every cycle: the cycle itself raises nothing. (With one of them an
  exception can only be its own, and ends the cycle where it occurs.)\<close>

theorem paper_manage_agrees:
  assumes "paper_ok y s" "fractions_ok cfg"
    and "manage (paper_ports ob) cfg ck b funding_rate bid ask y s = (s', r)"
  shows "case r of Inl _ \<Rightarrow> sv_has_events s \<or> sv_has_logger s | Inr _ \<Rightarrow> paper_ok y s'"
  using paper_manage_returns [OF assms] by (auto split: sum.split)

text \<open>Managing one symbol never touches another: in PAPER mode a cycle, with all the closes it runs,
  leaves every other position as it was and every position update it began ended.\<close>

theorem paper_manage_local:
  assumes "registry_ok (sv_state s)" "updates_ok (sv_state s)"
    and "manage (paper_ports ob) cfg ck b funding_rate bid ask y s = (s', r)"
  shows "registry_ok (sv_state s') \<and> updates_in_flight (sv_state s') = updates_in_flight (sv_state s) \<and>
    (\<forall>z. z \<noteq> y \<longrightarrow> pos_of s' z = pos_of s z)"
  using only.keepsD [OF paper.manage_only assms(3)] assms(1,2) by (simp add: touches_only_def)

section \<open>Examples\<close>

definition ex_cycle_bar :: bar_input where
  "ex_cycle_bar = \<lparr> bi_price = 130, bi_atr = 5, bi_candle = None, bi_snapshot_1m = None, bi_snapshot_5m = None,
    bi_volume_ratio = None, bi_now = 60000000 \<rparr>"

abbreviation ex_manage :: "paper_engine service \<times> managed list result" where
  "ex_manage \<equiv> manage (paper_ports (\<lparr> ob_symbol = [], ob_bids = [], ob_asks = [], ob_ts_ms = 0 \<rparr>, None))
    default_app_config \<lparr> ck_mono = 0, ck_wall = 5 \<rparr> ex_cycle_bar None 110 111 ''BTC'' ex_paper_service"

lemma fractions_default: "fractions_ok default_app_config"
  by (simp add: fractions_ok_def default_app_config_def default_position_section_def
      default_scout_management_section_def default_stagnation_exit_section_def
      default_stagnation_breakout_def)

lemma paper_manage_agrees_witness: "\<exists>acts. snd ex_manage = Inr acts \<and> paper_ok ''BTC'' (fst ex_manage)"
proof -
  obtain s' r where run: "ex_manage = (s', r)" by fastforce
  from paper_manage_returns [OF ex_paper_facts(9) fractions_default run] obtain acts where "r = Inr acts" by blast
  with paper_manage_agrees [OF ex_paper_facts(9) fractions_default run] show ?thesis
    unfolding run by simp
qed

lemma paper_manage_local_witness:
  "updates_in_flight (sv_state (fst ex_manage)) = updates_in_flight (sv_state ex_paper_service)"
proof -
  obtain s' r where run: "ex_manage = (s', r)" by fastforce
  from paper_manage_local [OF ex_paper_facts(1,2) run] show ?thesis
    unfolding run by simp
qed

end
