(* ===== verification/Paper_System.thy ===== *)
theory Paper_System
  imports Trading_Paper Trading_Entry_Facts
begin

text \<open>
  PAPER mode as a whole: the service facts of opening, managing and closing on the simulated exchange.
\<close>

lemma service_local_witness:
  "registry_ok (sv_state (fst ex_manage)) \<and>
    updates_in_flight (sv_state (fst ex_manage)) = updates_in_flight (sv_state ex_paper_service)"
proof -
  obtain s' r where run: "ex_manage = (s', r)" by fastforce
  show ?thesis
    using service_local [OF paper.trading_ports_axioms ex_paper_facts(1,2) disjI2 [OF disjI1 [OF run]]]
    unfolding run by simp
qed

end
