(* ===== verification/Runtime_Sync.thy ===== *)
theory Runtime_Sync
  imports Reconciliation_Facts Paper_System
begin

text \<open>
  The reconciliation as the runtime wires it (\<^verbatim>\<open>apps/bot/runtime/bot_runtime.py\<close>:
  \<^verbatim>\<open>_build_reconciler\<close>, \<^verbatim>\<open>_resync_protection\<close>, \<^verbatim>\<open>_risk_exceeded\<close>), in LIVE mode on the gateway the
  orders use and in PAPER mode on the same kind of gateway beside the simulated exchange; the
  contract of \<open>reconciler\<close> holds in both, and what a cycle guarantees.
\<close>

section \<open>Wiring\<close>

definition resync_protection :: "'g gateway \<Rightarrow> app_config \<Rightarrow> string \<Rightarrow> ('g bot, bool) action" where
  "resync_protection gw cfg y s =
    (if \<not> sv_has_protection s then (s, Inr True)
     else and_then (resync gw cfg y) (\<lambda>res. ret (pt_protected res)) s)"

definition risk_exceeded :: "app_config \<Rightarrow> dec \<Rightarrow> position \<Rightarrow> bool" where
  "risk_exceeded cfg last_equity p =
    (case p_initial_risk_per_unit p of
       None \<Rightarrow> False
     | Some risk \<Rightarrow>
         if last_equity \<le> 0 then False
         else rk_max_symbol_risk_percent (cfg_risk cfg) < dmul (ddiv (dmul risk (p_qty p)) last_equity) 100)"

text \<open>LIVE: the exchange operations are the gateway's. The two database operations and the wall clock
  are passed in.\<close>

definition live_env ::
  "'g gateway \<Rightarrow> app_config \<Rightarrow> dec \<Rightarrow> ('g bot \<Rightarrow> int) \<Rightarrow>
   (string set \<Rightarrow> ('g bot, string list) action) option \<Rightarrow>
   (string \<Rightarrow> string option \<Rightarrow> string \<Rightarrow> ('g bot, unit) action) option \<Rightarrow> 'g live sync_env" where
  "live_env gw cfg last_equity wall stale update =
    \<lparr> se_get_positions = gw_get_positions gw, se_get_open_orders = gw_get_open_orders gw None,
      se_cancel_order = gw_cancel_order gw, se_protection_resync = Some (resync_protection gw cfg),
      se_risk_exceeded = Some (risk_exceeded cfg last_equity), se_close_stale = stale,
      se_update_order_status = update, se_clock = gw_clock gw, se_wall = wall \<rparr>"

text \<open>PAPER: no protection manager, and an exchange account that answers \<open>xs\<close> and \<open>os\<close>.\<close>

definition paper_env ::
  "app_config \<Rightarrow> dec \<Rightarrow> exchange_position list \<Rightarrow> exchange_order list \<Rightarrow> rat \<Rightarrow> int \<Rightarrow> paper_engine sync_env" where
  "paper_env cfg last_equity xs os t now =
    \<lparr> se_get_positions = ret xs, se_get_open_orders = ret os, se_cancel_order = (\<lambda>_ _ _. ret ()),
      se_protection_resync = Some (\<lambda>_. ret True), se_risk_exceeded = Some (risk_exceeded cfg last_equity),
      se_close_stale = None, se_update_order_status = None, se_clock = (\<lambda>_. t), se_wall = (\<lambda>_. now) \<rparr>"

section \<open>The contract holds\<close>

context reservations
begin

lemma publish_same [simp]: "same_pending s (publish e s)" "same_pending s (upd_pos y f s)" "same_pending s (set_status y st s)"
  "same_pending s (activate y tp sl s)" "same_pending s (adopt_size y xs s)" "same_pending s (log_entry l s)"
  by (simp_all add: same_pending_def set_status_def activate_def adopt_size_def split: option.split)

lemma verify_quiet: "keeps (verify_tries gw cfg y n)"
proof (induction n)
  case 0
  show ?case by (simp only: verify_tries.simps keeps_ret)
next
  case (Suc n)
  show ?case
    unfolding verify_tries.simps
    by (intro keeps_and_then keeps_if keeps_then_do keeps_when_do keeps_ret keeps_reads tpsl_keeps sleep_keeps Suc)
qed

lemma confirm_quiet: "keeps (confirm_position gw y)"
  unfolding confirm_position_def
  by (intro keeps_try_except keeps_and_then positions_keeps keeps_modify keeps_ret) simp

lemma adds_modify: "(\<And>s. same_pending s (f s)) \<Longrightarrow> adds.ends None (modify f)"
  by (intro adds.keeps_ends adds.keeps_modify same_adds)

lemma emergency_ends: "adds.ends None (emergency_close gw cfg y)"
proof -
  have finish: "adds.ends None (if outcome_is_filled oc
      then then_do (modify (\<lambda>s1. publish e (set_status y CLOSED s1))) (ret a) else ret b)" for oc e
    and a b :: protection_result
    by (intro adds.ends_intros adds_modify) (simp add: same_pending_def set_status_def)
  have close: "adds.ends None (\<lambda>s. case pos_of s y of None \<Rightarrow> (s, Inl TypeError)
      | Some p \<Rightarrow> and_then (market_exit gw cfg y (exit_side p) (p_qty p)) (\<lambda>oc. if outcome_is_filled oc
          then then_do (modify (\<lambda>s1. publish e (set_status y CLOSED s1))) (ret a) else ret b) s)" for e
    and a b :: protection_result
    by (rule adds.endsI) (auto split: option.splits
        dest: adds.endsD [OF adds.ends_and_then [OF market_exit_ends finish]])
  show ?thesis
    unfolding emergency_close_def
    by (intro adds.ends_then_do adds_modify close) (simp add: same_pending_def)
qed

lemma protect_ends: "adds.ends None (protect gw cfg y)"
proof -
  have verify: "adds.ends None (verify_tpsl gw cfg y)"
    unfolding verify_tpsl_def by (intro adds.keeps_ends quiet_adds verify_quiet)
  have set: "adds.ends None (set_and_verify gw cfg y tp sl)" for tp sl
    unfolding set_and_verify_def
    by (intro adds.ends_intros adds_modify verify emergency_ends adds.keeps_ends [OF adds.keeps_lift]
        adds.keeps_ends [OF quiet_adds [OF stop_keeps]]) (simp_all add: same_pending_def set_status_def activate_def)
  have "adds.ends None (protect_with gw cfg y tp sl)" for tp sl
    unfolding protect_with_def
    by (intro adds.ends_intros adds_modify verify set) simp_all
  then have "adds.ends None (\<lambda>s. case pos_of s y of None \<Rightarrow> (s, Inl TypeError)
      | Some p \<Rightarrow> protect_with gw cfg y (wanted_tp cfg p) (wanted_sl cfg p) s)"
    by (intro adds.endsI) (auto split: option.splits dest: adds.endsD)
  then show ?thesis
    unfolding protect_def by (intro adds.ends_then_do adds.keeps_ends [OF quiet_adds [OF confirm_quiet]])
qed

lemma resync_hook_ends: "adds.ends None (resync_protection gw cfg y)"
proof -
  have "adds.ends None (and_then (resync gw cfg y) (\<lambda>res. ret (pt_protected res)))"
    unfolding resync_def by (intro adds.ends_and_then protect_ends adds.ends_ret)
  then show ?thesis
    by (intro adds.endsI) (auto simp: resync_protection_def adds.R_refl split: if_splits dest: adds.endsD)
qed

end

lemma resync_hook_only:
  assumes "exchange gw"
  shows "only.keeps y (resync_protection gw cfg y)"
proof -
  have "only.keeps y (and_then (resync gw cfg y) (\<lambda>res. ret (pt_protected res)))"
    unfolding resync_def by (intro only.keeps_and_then exchange.protect_only [OF assms] only.keeps_ret)
  then show ?thesis
    by (intro only.keepsI) (auto simp: resync_protection_def only.R_refl split: if_splits dest: only.keepsD)
qed

lemma live_reconciler:
  assumes "exchange gw" "reservations gw"
    and "\<And>f ys. stale = Some f \<Longrightarrow> book.keeps (f ys)" "\<And>f oid cid st. update = Some f \<Longrightarrow> book.keeps (f oid cid st)"
  shows "reconciler (live_env gw cfg eq wall stale update)"
proof -
  note frame = exchange.axioms [OF assms(1)] and quiet = reservations.axioms [OF assms(2)]
  show ?thesis
    by unfold_locales
      (auto simp: live_env_def resync_hook_only [OF assms(1)] reservations.resync_hook_ends [OF assms(2)] assms(3,4)
        intro: gateway_frame.positions_keeps [OF frame] gateway_frame.open_orders_keeps [OF frame]
          gateway_frame.cancel_keeps [OF frame] adds.keeps_ends [OF quiet_adds [OF gateway_frame.positions_keeps [OF quiet]]])
qed

interpretation paper_sync: reconciler "paper_env cfg eq xs os t now"
  by unfold_locales (auto simp: paper_env_def)

interpretation fake_sync: reconciler "live_env fake_gateway cfg eq wall None None"
  by (rule live_reconciler [OF fake.exchange_axioms fake.reservations_axioms]) simp_all

section \<open>What a cycle guarantees\<close>

text \<open>C16. The exchange is the source of truth. A completed cycle leaves a symbol on which no order of the bot
  was settling in one of three ways. With adoption switched off, a position of the exchange that the
  registry does not hold leaves the registry's entry as it was. A position of the bot with another
  quantity than the exchange's takes over that quantity, and the protection hook is run from there: the
  registry holds what the hook left. In every other case (and in the second one when no hook is passed in)
  the registry holds the symbol, with the exchange's quantity, exactly when the exchange reports it, and
  what the bot knows of its own trade (side, entry mode, score, strategy, initial quantity and risk, stop)
  is as before.\<close>

theorem reconcile_agrees:
  assumes "reconciler env" "registry_ok (sv_state s)" "updates_ok (sv_state s)" "\<not> settling s z"
    and "se_get_positions env s = (s0, Inr xs)" "reconcile_once env mi s = (s', Inr r)"
  shows "let x = map_of (exch_by_symbol xs) z; p = pos_of s z; p' = pos_of s' z in
    if unadopted mi x p then p' = p
    else if mismatched x p \<and> se_protection_resync env \<noteq> None then renewed env z x p p'
    else agrees x p' \<and> keeps_trade p p'"
  using reconciler.cycle_agrees [OF assms] by (simp add: Let_def synced_def)

text \<open>C18. Reconciliation comes to rest. Let nothing be settling, and let the first cycle find no quantity of a
  bot position changed (or let the protection hook change no position, as in PAPER mode). When the
  exchange gives the same answer again, the second cycle finds no changed quantity and no closed position,
  and the only positions it may report as external are those that adoption switched off keeps out of the
  registry; with adoption on there is none.\<close>

theorem reconcile_converges:
  assumes "reconciler env" "registry_ok (sv_state s)" "updates_ok (sv_state s)" "\<And>z. \<not> settling s z"
    and "se_get_positions env s = (a, Inr xs)" "reconcile_once env mi s = (s1, Inr r1)"
    and "calm_resync env \<or> rr_qty_mismatches r1 = []"
    and "se_get_positions env s1 = (b, Inr xs)" "reconcile_once env mi s1 = (s2, Inr r2)"
  shows "rr_qty_mismatches r2 = [] \<and> rr_external_closes r2 = [] \<and> rr_exchange_closes r2 = [] \<and>
    set (rr_external_positions r2) \<subseteq> {z. unadopted mi (map_of (exch_by_symbol xs) z) (pos_of s z)}"
proof -
  let ?x = "map_of (exch_by_symbol xs)"
  have cycle: "registry_ok (sv_state s1) \<and> synced env mi z (?x z) (pos_of s z) (pos_of s1 z) \<and>
      (calm_resync env \<or> \<not> mismatched (?x z) (pos_of s z))" for z
    using reconciler.cycle_agrees [OF assms(1-4,5,6)] assms(7) by fastforce
  have rest: "agrees (?x z) (pos_of s1 z) \<or> unadopted mi (?x z) (pos_of s z) \<and> pos_of s1 z = pos_of s z" for z
  proof (cases "unadopted mi (?x z) (pos_of s z)")
    case True
    then show ?thesis using cycle [of z] by (simp add: synced_def)
  next
    case False
    then show ?thesis using synced_agrees [of env mi z "?x z" "pos_of s z" "pos_of s1 z"] cycle [of z] by blast
  qed
  then have "all_agree mi (exch_by_symbol xs) s1" using cycle [of undefined] rest unfolding all_agree_def by metis
  from reconciler.second_cycle [OF assms(1) this assms(8,9)]
  have second: "only_unadopted mi (exch_by_symbol xs) s1 new_reconcile_result r2" .
  have "unadopted mi (?x z) (pos_of s z)" if "unadopted mi (?x z) (pos_of s1 z)" for z
    using rest [of z] that by (cases "?x z"; cases "pos_of s1 z") (auto simp: unadopted_def)
  with second show ?thesis by (auto simp: only_unadopted_def position_changes_def new_reconcile_result_def)
qed

section \<open>Only orders of the bot are cancelled\<close>

abbreviation cancels :: "'x sync_env \<Rightarrow> _ \<Rightarrow> 'x sync_env" where
  "cancels env f \<equiv> env\<lparr> se_cancel_order := f \<rparr>"

lemma parts_cancels [simp]:
  "pause_entries (cancels env f) = pause_entries env" "take_over_qty (cancels env f) = take_over_qty env"
  "resync_after (cancels env f) = resync_after env" "warn_risk (cancels env f) = warn_risk env"
  "handle_external_position (cancels env f) = handle_external_position env"
  "handle_external_order (cancels env f) = handle_external_order env"
  "handle_qty_mismatch (cancels env f) = handle_qty_mismatch env"
  "handle_external_close (cancels env f) = handle_external_close env"
  "handle_bot_exchange_close (cancels env f) = handle_bot_exchange_close env"
  "adopt_unknown (cancels env f) = adopt_unknown env"
  "sync_reported (cancels env f) = sync_reported env" "sync_missing (cancels env f) = sync_missing env"
  "close_stale_persisted (cancels env f) = close_stale_persisted env"
proof -
  note defs = pause_entries_def take_over_qty_def resync_after_def warn_risk_def handle_external_position_def
    handle_external_order_def handle_qty_mismatch_def handle_external_close_def handle_bot_exchange_close_def
    adopt_unknown_def sync_reported_def sync_missing_def close_stale_persisted_def
  show pause: "pause_entries (cancels env f) = pause_entries env"
    and resync: "resync_after (cancels env f) = resync_after env" and warn: "warn_risk (cancels env f) = warn_risk env"
    by ((rule ext)+, simp add: defs cong: option.case_cong if_cong)+
  show take: "take_over_qty (cancels env f) = take_over_qty env"
    by (rule ext)+ (simp add: take_over_qty_def pause)
  show extpos: "handle_external_position (cancels env f) = handle_external_position env"
    by (rule ext)+ (simp add: handle_external_position_def pause Let_def cong: option.case_cong if_cong)
  show "handle_external_order (cancels env f) = handle_external_order env"
    by (rule ext)+ (simp add: handle_external_order_def pause)
  show mism: "handle_qty_mismatch (cancels env f) = handle_qty_mismatch env"
    by (rule ext)+ (simp add: handle_qty_mismatch_def take resync warn)
  show gone: "handle_external_close (cancels env f) = handle_external_close env"
    "handle_bot_exchange_close (cancels env f) = handle_bot_exchange_close env"
    by ((rule ext)+, simp add: handle_external_close_def handle_bot_exchange_close_def pause Let_def cong: if_cong)+
  show adopt: "adopt_unknown (cancels env f) = adopt_unknown env"
    by (rule ext)+ (simp add: adopt_unknown_def extpos)
  show "sync_reported (cancels env f) = sync_reported env"
    by (rule ext)+ (simp add: sync_reported_def Let_def adopt mism cong: option.case_cong if_cong)
  show "sync_missing (cancels env f) = sync_missing env"
    by (rule ext)+ (simp add: sync_missing_def gone cong: option.case_cong if_cong)
  show "close_stale_persisted (cancels env f) = close_stale_persisted env"
    by (rule ext)+ (simp add: close_stale_persisted_def)
qed

lemma positions_cancels: "reconcile_positions (cancels env f) = reconcile_positions env"
  by (rule ext)+ (simp add: reconcile_positions_def)

text \<open>C17. A cycle never cancels an order of the user: the only orders it cancels carry an id of the bot.
  With an exchange that answers any other cancellation in any other way, it does exactly the same.\<close>

theorem reconcile_cancels_own:
  "reconcile_once (env\<lparr> se_cancel_order := \<lambda>y oid cid.
      if is_bot_client_order cid then se_cancel_order env y oid cid else h y oid cid \<rparr>) mi s =
   reconcile_once env mi s"
proof -
  let ?f = "\<lambda>y oid cid. if is_bot_client_order cid then se_cancel_order env y oid cid else h y oid cid"
  have order: "sync_order (cancels env ?f) = sync_order env"
    by (rule ext)+ (simp add: sync_order_def is_stale_bot_reduce_order_def cancel_stale_bot_order_def)
  have "reconcile_orders (cancels env ?f) = reconcile_orders env"
    by (rule ext)+ (simp add: reconcile_orders_def order)
  then show ?thesis by (simp add: reconcile_once_def positions_cancels)
qed

section \<open>Examples and limits\<close>

lemma missing_pass_returns:
  "\<exists>s' r'. sync_each (sync_missing env mi rep) ys r s = (s', Inr r') \<and> sv_exec s' = sv_exec s"
proof (induction ys arbitrary: r s)
  case (Cons y ys)
  have exec: "sv_exec (publish e t) = sv_exec t" "sv_exec (pause_entries env mi t) = sv_exec t"
    "sv_exec (log_manual z k d t) = sv_exec t" for e t z k d
    by (simp_all add: publish_def pause_entries_def log_manual_def)
  have "\<exists>s1 r1. sync_missing env mi rep y r s = (s1, Inr r1) \<and> sv_exec s1 = sv_exec s"
    by (auto simp: sync_missing_def handle_bot_exchange_close_def handle_external_close_def Let_def exec split: option.split)
  then obtain s1 r1 where 1: "sync_missing env mi rep y r s = (s1, Inr r1)" "sv_exec s1 = sv_exec s" by blast
  with Cons [of r1 s1] show ?case by (auto simp: and_then_def)
qed simp

text \<open>An exchange account with no position and no order, beside the simulated exchange.\<close>

abbreviation ex_sync :: "paper_engine sync_env" where
  "ex_sync \<equiv> paper_env default_app_config 1000 [] [] 0 5"

lemma ex_cycle:
  "\<exists>s' r. reconcile_once ex_sync default_manual_intervention_section s = (s', Inr r) \<and> sv_exec s' = sv_exec s"
proof -
  let ?mi = default_manual_intervention_section
  obtain s1 r1 where 1: "sync_each (sync_missing ex_sync ?mi {}) (map fst (rs_positions (sv_state s))) new_reconcile_result s =
      (s1, Inr r1)" "sv_exec s1 = sv_exec s"
    using missing_pass_returns by blast
  have "se_get_positions ex_sync = ret []" "se_get_open_orders ex_sync = ret []" "se_close_stale ex_sync = None"
    by (simp_all add: paper_env_def)
  then show ?thesis
    using 1 by (simp add: reconcile_once_def reconcile_positions_def reconcile_orders_def exch_by_symbol_def
        and_then_def then_do_def close_stale_persisted_def publish_def)
qed

lemma ex_nothing_settles: "\<not> settling ex_paper_service z"
  by (simp add: settling_def has_bot_order_settling_for_symbol_def has_pending_order_for_symbol_def
      has_position_update_for_symbol_def ex_paper_service_def put_position_def new_runtime_state_def get_or_def)

lemma ex_sync_facts: "calm_resync ex_sync" "se_get_positions ex_sync s = (s, Inr [])"
  "exch_by_symbol [] = []"
  by (simp_all add: calm_resync_def paper_env_def exch_by_symbol_def)

lemma reconcile_agrees_witness:
  "\<exists>q. pos_of (fst (reconcile_once ex_sync default_manual_intervention_section ex_paper_service)) ''BTC'' = Some q \<and>
    p_status q = CLOSED \<and> p_side q = LONG"
proof -
  obtain s' r where run: "reconcile_once ex_sync default_manual_intervention_section ex_paper_service = (s', Inr r)"
    using ex_cycle by blast
  have "agrees None (pos_of s' ''BTC'') \<and> keeps_trade (Some ex_pos) (pos_of s' ''BTC'')"
    using reconcile_agrees [OF paper_sync.reconciler_axioms ex_paper_facts(1,2) ex_nothing_settles ex_sync_facts(2) run,
        of "''BTC''"] ex_paper_facts(3) ex_sync_facts(3) by (simp add: Let_def)
  then show ?thesis
    using ex_paper_facts(4) unfolding run
    by (auto simp: keeps_trade_def trade_view_def ex_pos_def new_position_def agrees_def split: option.splits)
qed

lemma reconcile_converges_witness:
  "\<exists>s2 r2. reconcile_once ex_sync default_manual_intervention_section
      (fst (reconcile_once ex_sync default_manual_intervention_section ex_paper_service)) = (s2, Inr r2) \<and>
    rr_exchange_closes r2 = []"
proof -
  let ?mi = default_manual_intervention_section
  obtain s1 r1 where 1: "reconcile_once ex_sync ?mi ex_paper_service = (s1, Inr r1)" using ex_cycle by blast
  obtain s2 r2 where 2: "reconcile_once ex_sync ?mi s1 = (s2, Inr r2)" using ex_cycle by blast
  from reconcile_converges [OF paper_sync.reconciler_axioms ex_paper_facts(1,2) ex_nothing_settles ex_sync_facts(2) 1
      disjI1 [OF ex_sync_facts(1)] ex_sync_facts(2) 2]
  show ?thesis unfolding 1 using 2 by simp
qed

text \<open>The runtime reconciles in PAPER mode too. The exchange knows nothing of a simulated position, so the
  first cycle books it as closed on the exchange while the simulated exchange still holds it.\<close>

lemma paper_position_reconciled_away:
  "\<exists>s' r q. reconcile_once ex_sync default_manual_intervention_section ex_paper_service = (s', Inr r) \<and>
    pos_of s' ''BTC'' = Some q \<and> p_status q = CLOSED \<and> \<not> mirrors s' ''BTC''"
proof -
  obtain s' r where run: "reconcile_once ex_sync default_manual_intervention_section ex_paper_service = (s', Inr r)"
    and exec: "sv_exec s' = sv_exec ex_paper_service"
    using ex_cycle by blast
  have "agrees None (pos_of s' ''BTC'') \<and> keeps_trade (Some ex_pos) (pos_of s' ''BTC'')"
    using paper_sync.cycle_agrees [OF ex_paper_facts(1,2) ex_nothing_settles ex_sync_facts(2) run, of "''BTC''"]
      ex_paper_facts(3) ex_sync_facts(3) by simp
  then obtain q where q: "pos_of s' ''BTC'' = Some q" "p_status q = CLOSED"
    using ex_paper_facts(4) by (auto simp: keeps_trade_def agrees_def split: option.splits)
  then have "\<not> mirrors s' ''BTC''"
    using ex_paper_facts(3,4,5,7) exec by (simp add: mirrors_def held_qty_def)
  with q run show ?thesis by blast
qed

text \<open>With adoption switched off nothing is remembered of a foreign position: every cycle reports it again and
  pauses entries again.\<close>

lemma foreign_position_reported_again:
  assumes "pos_of s y = None" "\<not> settling s y" "\<not> mi_adopt_external_positions mi"
  shows "sync_reported env mi (y, x) r s =
    (pause_entries env mi s, Inr (r\<lparr> rr_external_positions := rr_external_positions r @ [y] \<rparr>))"
  using assms by (simp add: sync_reported_def adopt_unknown_def handle_external_position_def then_do_def and_then_def)

text \<open>The side is never compared: a position that was turned round on the exchange with the same quantity
  counts as in sync.\<close>

lemma turned_position_unnoticed:
  assumes "pos_of s y = Some p" "p_status p \<noteq> CLOSED" "p_source p = BOT" "p_side p = LONG"
    and "xp_side x = Some SHORT" "xp_size x = p_qty p"
  shows "\<exists>s'. sync_reported env mi (y, x) r s = (s', Inr r)"
  using assms by (simp add: sync_reported_def)

end
