(* ===== verification/Machine_Sync.thy ===== *)
theory Machine_Sync
  imports Machine_Frame Runtime_Sync
begin

text \<open>
  The reconciliation and the LIVE operations in the frame of \<open>machine_frame\<close>: a gateway and hooks that
  keep a relation make the whole of it keep the relation. The interpretations are the relation
  \<open>stays_locked\<close> (a locked machine stays locked) and \<open>stays_out\<close> (a machine that is not \<open>RUNNING\<close> does
  not become so), for both modes.
\<close>

section \<open>Reconciliation\<close>

locale machine_sync = machine_frame R for R :: "'x service \<Rightarrow> 'x service \<Rightarrow> bool" +
  fixes env :: "'x sync_env"
  assumes positions_keeps: "keeps (se_get_positions env)"
    and orders_keeps: "keeps (se_get_open_orders env)"
    and cancel_keeps: "keeps (se_cancel_order env y oid cid)"
    and redo_keeps: "se_protection_resync env = Some redo \<Longrightarrow> keeps (redo y)"
    and stale_keeps: "se_close_stale env = Some stale \<Longrightarrow> keeps (stale ys)"
    and update_keeps: "se_update_order_status env = Some update \<Longrightarrow> keeps (update i cid st)"

lemma machine_publish [simp]: "machine (publish e s) = machine s"
  by (simp add: publish_def)

lemma machine_status [simp]:
  "machine (set_status y st s) = machine s" "machine (activate y tp sl s) = machine s"
  "machine (adopt_size y xs s) = machine s" "machine (upd_live f b) = machine b"
  by (simp_all add: set_status_def activate_def adopt_size_def upd_live_def split: option.split)

lemma machine_manual [simp]:
  "machine (pause_entries env mi s) = machine s" "machine (log_manual y k d s) = machine s"
  "machine (take_over_qty env mi p x delta s) = machine s" "machine (warn_risk env y delta s) = machine s"
  "machine (handle_external_order env mi o1 s) = machine s"
  "machine (handle_external_close env mi p s) = machine s"
  "machine (handle_bot_exchange_close env p s) = machine s"
  by (simp_all add: pause_entries_def log_manual_def take_over_qty_def warn_risk_def Let_def
      handle_external_order_def handle_external_close_def handle_bot_exchange_close_def split: option.split)

context machine_sync
begin

lemma external_position_keeps: "keeps (handle_external_position env mi x)"
  by (rule keeps_at) (auto simp: handle_external_position_def Let_def split: if_splits option.splits)

lemma resync_after_keeps: "keeps (resync_after env y)"
proof -
  have "keeps (and_then (redo y) (\<lambda>ok. when_do (\<not> ok) (modify (publish e))))"
    if "se_protection_resync env = Some redo" for redo e
    by (intro keeps_and_then redo_keeps [OF that] keeps_when_do keeps_outside) simp
  then show ?thesis
    by (intro keepsI) (auto simp: resync_after_def R_refl split: option.splits if_splits dest: keepsD)
qed

lemma mismatch_keeps: "keeps (handle_qty_mismatch env mi p x)"
  unfolding handle_qty_mismatch_def Let_def
  by (intro keeps_then_do resync_after_keeps keeps_outside) simp_all

lemma reported_keeps: "keeps (sync_reported env mi yx r)"
proof -
  have adopt: "keeps (adopt_unknown env mi y x r)" for y x
    by (rule keepsI) (auto simp: adopt_unknown_def R_refl split: if_splits
        dest: keepsD [OF keeps_then_do [OF external_position_keeps keeps_ret]])
  show ?thesis
    by (rule keepsI) (auto simp: sync_reported_def Let_def R_refl outside split: option.splits if_splits
        dest: keepsD [OF adopt] keepsD [OF keeps_then_do [OF mismatch_keeps keeps_ret]])
qed

lemma missing_keeps: "keeps (sync_missing env mi reported y r)"
  by (rule keeps_at) (auto simp: sync_missing_def split: option.splits if_splits)

lemma close_stale_keeps: "keeps (close_stale_persisted env reported r)"
proof (cases "se_close_stale env")
  case None
  then show ?thesis by (simp add: keeps_def close_stale_persisted_def R_refl)
next
  case (Some stale)
  have "keeps (try_except (and_then (stale ys) (\<lambda>zs. ret (f zs))) (\<lambda>_. ret r))" for ys f
    by (intro keeps_try_except keeps_and_then stale_keeps [OF Some] keeps_ret)
  then show ?thesis by (auto simp: keeps_def close_stale_persisted_def Some)
qed

lemma positions_pass_keeps: "keeps (reconcile_positions env mi r)"
  unfolding reconcile_positions_def Let_def
  by (intro keeps_and_then positions_keeps keeps_each reported_keeps keeps_reads missing_keeps close_stale_keeps)

lemma sync_order_keeps: "keeps (sync_order env mi known x r)"
proof -
  have upd: "keeps (case se_update_order_status env of None \<Rightarrow> ret ()
      | Some update \<Rightarrow> try_except (update i cid st) (\<lambda>_. ret ()))" for i cid st
    by (cases "se_update_order_status env") (simp_all add: keeps_try_except update_keeps)
  have stale: "keeps (cancel_stale_bot_order env x r)"
    unfolding cancel_stale_bot_order_def by (intro keeps_then_do cancel_keeps upd keeps_ret)
  show ?thesis
    by (rule keepsI) (auto simp: sync_order_def R_refl outside split: if_splits dest: keepsD [OF stale])
qed

lemma reconcile_keeps: "keeps (reconcile_once env mi)"
  unfolding reconcile_once_def reconcile_orders_def
  by (intro keeps_and_then positions_pass_keeps keeps_reads orders_keeps keeps_each sync_order_keeps keeps_then_do
      keeps_outside keeps_ret) simp_all

end

section \<open>LIVE\<close>

locale machine_gateway = gateway_frame R gw + machine_frame R
  for R :: "'g bot \<Rightarrow> 'g bot \<Rightarrow> bool" and gw :: "'g gateway"

lemma machine_orders [simp]:
  "machine (reserve_request rq s) = machine s" "machine (clear_reservation cid s) = machine s"
  "machine (record_order rq res em s) = machine s"
  by (simp_all add: reserve_request_def clear_reservation_def record_order_def Let_def)

sublocale machine_gateway \<subseteq> orders: order_frame R gw
  by unfold_locales (simp_all add: outside)

context machine_gateway
begin

lemma verify_keeps: "keeps (verify_tries gw cfg y n)"
proof (induction n)
  case 0
  show ?case by (simp only: verify_tries.simps keeps_ret)
next
  case (Suc n)
  show ?case
    unfolding verify_tries.simps
    by (intro keeps_and_then keeps_if keeps_then_do keeps_when_do keeps_ret keeps_reads tpsl_keeps sleep_keeps Suc)
qed

lemma emergency_keeps: "keeps (emergency_close gw cfg y)"
proof -
  have close: "keeps (and_then (market_exit gw cfg y sd q) (\<lambda>oc. if outcome_is_filled oc
      then then_do (modify (\<lambda>s1. publish e (set_status y CLOSED s1))) (ret a) else ret b))"
    for sd q e and a b :: protection_result
    by (intro keeps_and_then orders.market_exit_keeps keeps_if keeps_then_do keeps_outside keeps_ret) simp
  have "keeps (\<lambda>s. case pos_of s y of None \<Rightarrow> (s, Inl TypeError)
      | Some p \<Rightarrow> and_then (market_exit gw cfg y (exit_side p) (p_qty p)) (\<lambda>oc. if outcome_is_filled oc
          then then_do (modify (\<lambda>s1. publish e (set_status y CLOSED s1))) (ret a) else ret b) s)" for e
    and a b :: protection_result
    by (rule keepsI) (auto simp: R_refl split: option.splits dest: keepsD [OF close])
  then show ?thesis unfolding emergency_close_def by (intro keeps_then_do keeps_outside) simp_all
qed

lemma protect_keeps: "keeps (protect gw cfg y)"
proof -
  have set: "keeps (set_and_verify gw cfg y tp sl)" for tp sl
    unfolding set_and_verify_def verify_tpsl_def
    by (intro keeps_and_then keeps_lift keeps_then_do keeps_if keeps_ret keeps_outside stop_keeps verify_keeps
        emergency_keeps) simp_all
  have "keeps (protect_with gw cfg y tp sl)" for tp sl
    unfolding protect_with_def verify_tpsl_def
    by (intro keeps_if keeps_then_do keeps_and_then keeps_outside keeps_ret verify_keeps set) simp_all
  then have "keeps (\<lambda>s. case pos_of s y of None \<Rightarrow> (s, Inl TypeError)
      | Some p \<Rightarrow> protect_with gw cfg y (wanted_tp cfg p) (wanted_sl cfg p) s)"
    by (intro keepsI) (auto simp: R_refl split: option.splits dest: keepsD)
  then show ?thesis
    unfolding protect_def confirm_position_def
    by (intro keeps_then_do keeps_try_except keeps_and_then positions_keeps keeps_outside keeps_ret) simp_all
qed

lemma sync_stop_keeps: "keeps (sync_stop_loss gw cfg y)"
proof -
  have send: "keeps (and_then (lift_res b) (\<lambda>sb. then_do (gw_set_trading_stop gw (rq sb))
      (then_do (modify (upd_live f)) (then_do (modify (\<lambda>s1. log_entry (e s1) s1)) (ret True)))))"
    for b :: "trigger_by result" and rq f e
    by (intro keeps_and_then keeps_lift keeps_then_do keeps_outside keeps_ret stop_keeps) simp_all
  show ?thesis
    by (rule keepsI) (auto simp: sync_stop_loss_def Let_def R_refl split: option.splits if_splits
        dest: keepsD [OF send])
qed

lemma live_machine_ports: "keeps ob \<Longrightarrow> machine_ports R (live_ports gw cfg ob)"
  by unfold_locales
    (simp_all add: live_ports_def orders.live_open_keeps orders.live_close_keeps protect_keeps sync_stop_keeps)

lemma resync_hook_keeps: "keeps (resync_protection gw cfg y)"
proof -
  have "keeps (and_then (resync gw cfg y) (\<lambda>res. ret (pt_protected res)))"
    unfolding resync_def by (intro keeps_and_then protect_keeps keeps_ret)
  then show ?thesis
    by (intro keepsI) (auto simp: resync_protection_def R_refl split: if_splits dest: keepsD)
qed

lemma live_machine_sync:
  assumes "\<And>f ys. stale = Some f \<Longrightarrow> keeps (f ys)" "\<And>f i cid st. update = Some f \<Longrightarrow> keeps (f i cid st)"
  shows "machine_sync R (live_env gw cfg eq wall stale update)"
  by unfold_locales
    (auto simp: live_env_def assms positions_keeps open_orders_keeps cancel_keeps resync_hook_keeps)

end

section \<open>Staying in a set of states\<close>

definition in_states :: "bot_state set \<Rightarrow> 'x service \<Rightarrow> bool" where
  "in_states S s \<longleftrightarrow> (\<exists>m. machine s = Some m \<and> bm_state m \<in> S)"

definition stays :: "bot_state set \<Rightarrow> 'x service \<Rightarrow> 'x service \<Rightarrow> bool" where
  "stays S s s' \<longleftrightarrow> (in_states S s \<longrightarrow> in_states S s')"

text \<open>The states a failed protection leads to, and those no command leaves.\<close>

definition locked_states :: "bot_state set" where
  "locked_states = {RISK_LOCKED, ORDER_LOCKED, EMERGENCY_STOP, STOPPING, STOPPED}"

definition idle_states :: "bot_state set" where
  "idle_states = - {RUNNING}"

lemma failure_stays:
  assumes "ORDER_LOCKED \<in> S" "EMERGENCY_STOP \<in> S"
  shows "stays S s (transition_after_protection_failure reason s)"
proof -
  have "bm_state (case transition m t w of Inr m' \<Rightarrow> m' | Inl _ \<Rightarrow> force m t w) = t" for m t w
    by (auto split: sum.split dest: transition_Inr)
  then show ?thesis
    using assms by (auto simp: stays_def in_states_def transition_after_protection_failure_def upd_machine_def Let_def)
qed

lemma stays_frame:
  "ORDER_LOCKED \<in> S \<Longrightarrow> EMERGENCY_STOP \<in> S \<Longrightarrow> machine_frame (stays S)"
  by unfold_locales (auto simp: failure_stays, auto simp: stays_def in_states_def)

interpretation locked: machine_frame "stays locked_states"
  by (rule stays_frame) (simp_all add: locked_states_def)

interpretation idle: machine_frame "stays idle_states"
  by (rule stays_frame) (simp_all add: idle_states_def)

section \<open>Both modes keep the frame\<close>

lemma run_market_machine: "run_market y sd qty bid ask s = (s', r) \<Longrightarrow> machine s' = machine s"
  by (auto simp: run_market_def split: prod.splits)

lemma paper_machine_ports:
  fixes R :: "paper_engine service \<Rightarrow> paper_engine service \<Rightarrow> bool"
  assumes "machine_frame R"
  shows "machine_ports R (paper_ports ob)"
proof -
  note ax = machine_frame.axioms [OF assms]
  have m: "two_state.keeps R (run_market y sd qty bid ask)" for y sd qty bid ask
    by (rule machine_frame.keeps_at [OF assms]) (rule run_market_machine)
  show ?thesis
    by (rule machine_ports.intro [OF assms], unfold_locales)
      (simp_all add: paper_ports_def paper_open_def paper_close_def two_state.keeps_and_then [OF ax(1)]
        two_state.keeps_throw [OF ax(1)] two_state.keeps_ret [OF ax(1)] m)
qed

lemma paper_machine_sync:
  fixes R :: "paper_engine service \<Rightarrow> paper_engine service \<Rightarrow> bool"
  assumes "machine_frame R"
  shows "machine_sync R (paper_env cfg eq xs os t now)"
  by (rule machine_sync.intro [OF assms], unfold_locales)
    (auto simp: paper_env_def two_state.keeps_ret [OF machine_frame.axioms(1) [OF assms]])

lemma fake_machine:
  fixes R :: "fake_exchange bot \<Rightarrow> fake_exchange bot \<Rightarrow> bool"
  assumes "machine_frame R"
  shows "machine_gateway R fake_gateway"
proof -
  note ax = machine_frame.axioms [OF assms]
  note k = machine_frame.keeps_outside [OF assms] two_state.keeps_ret [OF ax(1)] two_state.keeps_reads [OF ax(1)]
  have u: "two_state.keeps R (upd_fake f)" "two_state.keeps R (ask_fake g)" for f :: "fake_exchange \<Rightarrow> fake_exchange"
    and g :: "fake_exchange \<Rightarrow> 'a"
    by (simp_all add: upd_fake_def ask_fake_def k)
  have "gateway_frame R fake_gateway"
    by (rule gateway_frame.intro [OF ax(1)], unfold_locales)
      (auto simp: fake_gateway_def u two_state.keeps_and_then [OF ax(1)] two_state.keeps_then_do [OF ax(1)]
        two_state.keeps_ret [OF ax(1)] intro: machine_frame.outside [OF assms])
  then show ?thesis by (rule machine_gateway.intro [OF _ assms])
qed

interpretation fake_locked: machine_gateway "stays locked_states" fake_gateway
  by (rule fake_machine) (rule locked.machine_frame_axioms)

interpretation paper_locked: machine_ports "stays locked_states" "paper_ports ob"
  by (rule paper_machine_ports) (rule locked.machine_frame_axioms)

interpretation paper_sync_locked: machine_sync "stays locked_states" "paper_env cfg eq xs os t now"
  by (rule paper_machine_sync) (rule locked.machine_frame_axioms)

end
