(* ===== verification/Runtime_Safety.thy ===== *)
theory Runtime_Safety
  imports Runtime_Commands Machine_Sync
begin

text \<open>
  The runtime and its state machine. \<open>host\<close> is the contract of everything the runtime awaits: whatever
  other tasks do meanwhile, a machine in the states \<open>S\<close> stays in them. \<open>S\<close> contains the states a failed
  protection leads to and not \<open>RUNNING\<close>; then no loop leaves it.
\<close>

section \<open>The contract\<close>

definition rt_stays :: "bot_state set \<Rightarrow> 'x runtime \<Rightarrow> 'x runtime \<Rightarrow> bool" where
  "rt_stays S rt rt' \<longleftrightarrow> stays S (rt_service rt) (rt_service rt')"

interpretation rts: two_state "rt_stays S" for S
  by unfold_locales (auto simp: rt_stays_def stays_def)

interpretation svs: two_state "stays S" for S
  by unfold_locales (auto simp: stays_def)

locale host =
  fixes S :: "bot_state set" and env :: "'x bot_env"
  assumes lock_states: "ORDER_LOCKED \<in> S" "EMERGENCY_STOP \<in> S"
    and not_running: "RUNNING \<notin> S"
    and tickers_keeps: "rts.keeps S (bn_get_tickers env)"
    and kline_keeps: "rts.keeps S (bn_get_kline env y i n)"
    and instruments_keeps: "rts.keeps S (bn_load_instruments env)"
    and wallet_keeps: "rts.keeps S (bn_wallet_balance env)"
    and persist_keeps: "rts.keeps S (bn_persist_pnl env)"
    and cancelled_keeps: "rts.keeps S (bn_persist_cancelled env oid cid)"
    and cancel_keeps: "rts.keeps S (bn_cancel_order env y oid cid)"
    and config_keeps: "rts.keeps S (bn_load_config env)"
    and lock_keeps: "rts.keeps S (bn_acquire_lock env)" "rts.keeps S (bn_release_lock env)"
    and restore_keeps: "bn_restore env = Some f \<Longrightarrow> rts.keeps S f"
    and orderbook_keeps: "svs.keeps S (bn_get_orderbook env y)"
    and ports_keeps: "svs.keeps S ob \<Longrightarrow> machine_ports (stays S) (bn_ports env cfg ob)"
    and sync_keeps: "machine_sync (stays S) (bn_sync env cfg eq)"

sublocale host \<subseteq> machine_frame "stays S"
  by (rule stays_frame) (rule lock_states)+

section \<open>Steps outside the machine\<close>

lemma on_service_simps [simp]: "rt_service (on_service f rt) = f (rt_service rt)"
  by (simp add: on_service_def)

lemma mark_order_event_simps [simp]: "rt_service (mark_order_event rt) = rt_service rt"
  by (simp add: mark_order_event_def)

lemma emit_event_machine [simp]: "machine (rt_service (emit_event t msg d rt)) = machine (rt_service rt)"
  by (simp add: emit_event_def)

lemma follow_runner_machine [simp]: "machine (rt_service (follow_runner env y rt)) = machine (rt_service rt)"
  by (simp add: follow_runner_def split: option.split)

lemma fold_follow_machine [simp]:
  "machine (rt_service (fold (follow_runner env) ys rt)) = machine (rt_service rt)"
  by (induction ys arbitrary: rt) simp_all

lemma risk_machine [simp]:
  "machine (rt_service (record_reconciliation_risk env r rt)) = machine (rt_service rt)"
  by (simp add: record_reconciliation_risk_def Let_def)

lemma rescan_service [simp]: "rt_service (rescan env ts cs rt) = rt_service rt"
  by (simp add: rescan_def Let_def)

lemma announce_trip_machine [simp]: "machine (rt_service (announce_trip env r rt)) = machine (rt_service rt)"
  by (auto simp: announce_trip_def split: option.split prod.split)

lemma upd_orders_machine [simp]: "machine (rt_service (upd_orders f rt)) = machine (rt_service rt)"
  by (simp add: upd_orders_def)

lemma machine_of_cong: "machine (rt_service rt) = machine (rt_service rt') \<Longrightarrow> machine_of rt = machine_of rt'"
  by (simp add: machine_of_def)

lemma stays_from:
  "bot_state_of rt \<notin> S \<Longrightarrow> rt_stays S rt rt'"
  by (auto simp: rt_stays_def stays_def in_states_def bot_state_of_def machine_of_def)

context host
begin

lemma rt_outside: "machine (rt_service rt') = machine (rt_service rt) \<Longrightarrow> rt_stays S rt rt'"
  by (simp add: rt_stays_def outside)

lemma rt_keeps_outside: "(\<And>rt. machine (rt_service (f rt)) = machine (rt_service rt)) \<Longrightarrow> rts.keeps S (modify f)"
  by (rule rts.keeps_modify) (rule rt_outside)

lemma rt_keeps_at:
  "(\<And>rt rt' r. m rt = (rt', r) \<Longrightarrow> machine (rt_service rt') = machine (rt_service rt)) \<Longrightarrow> rts.keeps S m"
  by (rule rts.keepsI) (rule rt_outside)

lemma rt_keeps_cases: "(\<And>rt. rts.keeps S (m rt)) \<Longrightarrow> rts.keeps S (\<lambda>rt. m rt rt)"
  by (simp add: rts.keeps_def)

lemma in_service_keeps: "svs.keeps S m \<Longrightarrow> rts.keeps S (in_service m)"
  by (rule rts.keepsI) (auto simp: in_service_def rt_stays_def split: prod.splits dest: svs.keepsD)

lemmas rt_intros = rts.keeps_and_then rts.keeps_then_do rts.keeps_if rts.keeps_option rts.keeps_ret rts.keeps_reads
  rts.keeps_throw rts.keeps_lift rts.keeps_try_except rts.keeps_for_each rt_keeps_outside

section \<open>Market data and one symbol\<close>

lemma refresh_tickers_keeps: "rts.keeps S (refresh_tickers env)"
  unfolding refresh_tickers_def by (intro rt_intros tickers_keeps) simp

lemma refresh_klines_keeps: "rts.keeps S (refresh_klines env y i n ms)"
proof -
  have "rts.keeps S (\<lambda>rt1. case klines_arrived (bn_now_ms env rt1) y i cs (rt_collector rt1) of
      Inl e \<Rightarrow> (rt1, Inl e) | Inr co \<Rightarrow> (rt1\<lparr> rt_collector := co \<rparr>, Inr True))" for cs
    by (rule rt_keeps_at) (auto split: sum.splits)
  then have "rts.keeps S (and_then (bn_get_kline env y i n) (\<lambda>cs rt1.
      case klines_arrived (bn_now_ms env rt1) y i cs (rt_collector rt1) of
      Inl e \<Rightarrow> (rt1, Inl e) | Inr co \<Rightarrow> (rt1\<lparr> rt_collector := co \<rparr>, Inr True)))"
    by (intro rts.keeps_and_then kline_keeps)
  then show ?thesis
    by (intro rts.keepsI) (auto simp: refresh_klines_def rts.R_refl split: if_splits dest: rts.keepsD)
qed

lemma load_candles_keeps: "rts.keeps S (load_candles env y active)"
proof -
  have k: "rts.keeps S (and_then (refresh_klines env y i n ms) (\<lambda>_. ret ()))" for i n ms
    by (intro rt_intros refresh_klines_keeps)
  have e: "rts.keeps S (ensure_klines env y tf)" for tf
    by (rule rts.keepsI) (auto simp: ensure_klines_def rts.R_refl split: if_splits dest: rts.keepsD [OF k])
  have gap: "rts.keeps S (\<lambda>rt1. if c rt1 then and_then (refresh_klines env y i n ms) (\<lambda>_. ret ()) rt1 else (rt1, Inr ()))"
    for c i n ms
    by (rule rts.keepsI) (auto simp: rts.R_refl split: if_splits dest: rts.keepsD [OF k])
  show ?thesis
    unfolding load_candles_def
    by (rule rt_keeps_cases) (intro rts.keeps_and_then rts.keeps_then_do refresh_klines_keeps gap e)
qed

lemma fresh_ticker_keeps: "rts.keeps S (fresh_ticker env y t)"
proof -
  have "rts.keeps S (try_except (and_then (refresh_tickers env)
      (\<lambda>_. reads (\<lambda>rt1. ticker_of (rt_collector rt1) y))) (\<lambda>_. ret (Some t)))"
    by (intro rt_intros refresh_tickers_keeps)
  then show ?thesis
    by (intro rts.keepsI) (auto simp: fresh_ticker_def Let_def rts.R_refl split: if_splits dest: rts.keepsD)
qed

lemma ports_run: "svs.keeps S ob \<Longrightarrow> svs.keeps S (manage (bn_ports env cfg ob) cfg ck b fr bid ask y)"
  "svs.keeps S ob \<Longrightarrow> svs.keeps S (evaluate_entry (bn_ports env cfg ob) lbl cfg strategies now a)"
  "svs.keeps S ob \<Longrightarrow> svs.keeps S (close_position (bn_ports env cfg ob) cfg ck y bid ask why pct)"
  by (rule machine_ports.manage_keeps machine_ports.evaluate_entry_keeps machine_ports.close_position_keeps,
      rule ports_keeps, assumption)+

lemma manage_symbol_keeps: "rts.keeps S (manage_symbol env y snaps t)"
  unfolding manage_symbol_def Let_def
  by (rule rt_keeps_cases) (intro rt_intros in_service_keeps ports_run svs.keeps_throw; simp)

lemma consider_entry_keeps: "rts.keeps S (consider_entry env y snaps s1m t equity now)"
proof -
  have k: "rts.keeps S (and_then (in_service (evaluate_entry (bn_ports env cfg (bn_get_orderbook env y)) lbl cfg st ck a))
      (\<lambda>opened. case opened of Some p \<Rightarrow> then_do (modify mark_order_event) (ret None)
        | None \<Rightarrow> and_then (lift_res pv) (\<lambda>p. ret (Some p))))" for cfg lbl st ck a and pv :: "payload result"
    by (intro rts.keeps_and_then in_service_keeps ports_run orderbook_keeps)
      (auto split: option.split intro!: rt_intros)
  show ?thesis
    by (intro rts.keepsI) (auto simp: consider_entry_def Let_def rts.R_refl split: option.splits dest: rts.keepsD [OF k])
qed

lemma process_symbol_keeps: "rts.keeps S (process_symbol env y equity)"
proof -
  have entry: "rts.keeps S (if active then manage_symbol env y snaps t
      else case snaps ''1'' of None \<Rightarrow> throw (KeyError ''1'')
        | Some s1m \<Rightarrow> consider_entry env y snaps s1m t equity now)" for active snaps t now
    by (auto split: option.split intro: manage_symbol_keeps consider_entry_keeps)
  have tick: "rts.keeps S (case found of None \<Rightarrow> ret None | Some t \<Rightarrow> and_then (reads (bn_now_ms env)) (\<lambda>now.
      then_do (modify (\<lambda>rt1. on_service (update_post_exit_mfe y (tk_last_price t)
           (last_closed y ''1'' (co_store (rt_collector rt1))) (ck_wall (bn_clocks env rt1 0))) rt1))
        (if active then manage_symbol env y snaps t
         else case snaps ''1'' of None \<Rightarrow> throw (KeyError ''1'')
           | Some s1m \<Rightarrow> consider_entry env y snaps s1m t equity now)))" for found active snaps
    by (cases found) (auto intro!: rts.keeps_and_then rts.keeps_then_do rts.keeps_reads rt_keeps_outside entry)
  have k: "rts.keeps S (then_do (load_candles env y active)
      (and_then (reads (\<lambda>rt1. snapshots_of rt1 y)) (\<lambda>snaps. and_then (fresh_ticker env y t0) (\<lambda>found.
        case found of None \<Rightarrow> ret None | Some t \<Rightarrow> and_then (reads (bn_now_ms env)) (\<lambda>now.
      then_do (modify (\<lambda>rt1. on_service (update_post_exit_mfe y (tk_last_price t)
           (last_closed y ''1'' (co_store (rt_collector rt1))) (ck_wall (bn_clocks env rt1 0))) rt1))
        (if active then manage_symbol env y snaps t
         else case snaps ''1'' of None \<Rightarrow> throw (KeyError ''1'')
           | Some s1m \<Rightarrow> consider_entry env y snaps s1m t equity now))))))" for active t0
    by (intro rts.keeps_then_do rts.keeps_and_then load_candles_keeps rts.keeps_reads fresh_ticker_keeps tick)
  show ?thesis
    by (intro rts.keepsI) (auto simp: process_symbol_def Let_def rts.R_refl split: option.splits dest: rts.keepsD [OF k])
qed

section \<open>Cycles\<close>

lemma take_equity_keeps: "rts.keeps S (take_equity env)"
proof -
  have k: "rts.keeps S (try_except (and_then (bn_wallet_balance env) (\<lambda>w. ret (wb_equity w))) (\<lambda>_. reads rt_last_equity))"
    by (intro rt_intros wallet_keeps)
  have "rts.keeps S (current_equity env)"
    by (intro rts.keepsI) (auto simp: current_equity_def rts.R_refl split: if_splits dest: rts.keepsD [OF k])
  then show ?thesis unfolding take_equity_def by (intro rt_intros) simp_all
qed

lemma process_all_keeps: "rts.keeps S (process_all env equity ys)"
proof (induction ys)
  case Nil
  show ?case by (simp only: process_all.simps rts.keeps_ret)
next
  case (Cons y ys)
  show ?case unfolding process_all.simps by (intro rt_intros process_symbol_keeps Cons.IH)
qed

lemma management_cycle_keeps: "rts.keeps S (management_cycle env)"
  unfolding management_cycle_def by (intro rt_intros refresh_tickers_keeps take_equity_keeps process_all_keeps)

lemma scan_symbol_keeps: "rts.keeps S (scan_symbol env y)"
  unfolding scan_symbol_def Let_def
  by (rule rts.keepsI, drule rts.keepsD [rotated], rule rts.keeps_and_then [OF refresh_klines_keeps],
      intro rts.keeps_then_do rt_keeps_outside rts.keeps_if rts.keeps_and_then refresh_klines_keeps rts.keeps_ret;
      simp)

lemma refresh_universe_keeps: "rts.keeps S (refresh_universe env)"
  unfolding refresh_universe_def by (intro rt_intros instruments_keeps) simp

lemma refresh_watchlist_keeps: "rts.keeps S (refresh_watchlist_if_due env forced)"
proof -
  have cur: "rts.keeps S (current_tickers env)"
    unfolding current_tickers_def by (intro rt_intros refresh_tickers_keeps)
  have scan: "rts.keeps S (then_do (for_each (\<lambda>t. try_except (scan_symbol env (tk_symbol t)) (\<lambda>_. ret ())) batch)
      (modify (\<lambda>rt2. (rescan env ts candidates rt2)\<lparr> rt_last_scanner_refresh := now \<rparr>)))" for batch ts candidates now
    by (intro rt_intros scan_symbol_keeps) simp
  have tail: "rts.keeps S (\<lambda>rt1. let candidates = prefilter_tickers (rt_cfg rt1) (is_tradable (rt_universe rt1)) ts in
      case refresh_batch (rt_cfg rt1) candidates (rt_scanner_cursor rt1) of (cursor, batch) \<Rightarrow>
        then_do (for_each (\<lambda>t. try_except (scan_symbol env (tk_symbol t)) (\<lambda>_. ret ())) batch)
          (modify (\<lambda>rt2. (rescan env ts candidates rt2)\<lparr> rt_last_scanner_refresh := now \<rparr>))
          (rt1\<lparr> rt_scanner_cursor := cursor \<rparr>))" for ts now
    by (rule rts.keepsI) (auto simp: Let_def rt_stays_def split: prod.splits dest!: rts.keepsD [OF scan])
  have "rts.keeps S (then_do (refresh_universe env) (and_then (current_tickers env) (\<lambda>ts rt1.
      let candidates = prefilter_tickers (rt_cfg rt1) (is_tradable (rt_universe rt1)) ts in
      case refresh_batch (rt_cfg rt1) candidates (rt_scanner_cursor rt1) of (cursor, batch) \<Rightarrow>
        then_do (for_each (\<lambda>t. try_except (scan_symbol env (tk_symbol t)) (\<lambda>_. ret ())) batch)
          (modify (\<lambda>rt2. (rescan env ts candidates rt2)\<lparr> rt_last_scanner_refresh := now \<rparr>))
          (rt1\<lparr> rt_scanner_cursor := cursor \<rparr>))))" for now
    by (intro rts.keeps_then_do rts.keeps_and_then refresh_universe_keeps cur tail)
  from rts.keepsD [OF this] show ?thesis
    by (intro rts.keepsI) (simp add: refresh_watchlist_if_due_def Let_def rts.R_refl split: if_splits)
qed

lemma trading_turn_keeps: "rts.keeps S (trading_turn env)"
proof -
  have 1: "rts.keeps S (try_except (and_then (trading_cycle env) (\<lambda>_. ret ())) (\<lambda>_. ret ()))"
    unfolding trading_cycle_def
    by (intro rt_intros refresh_tickers_keeps refresh_watchlist_keeps take_equity_keeps process_all_keeps)
  have 2: "rts.keeps S (try_except (management_cycle env) (\<lambda>_. ret ()))"
    by (intro rt_intros management_cycle_keeps)
  show ?thesis
    by (rule rts.keepsI) (auto simp: trading_turn_def rts.R_refl split: if_splits dest: rts.keepsD [OF 1] rts.keepsD [OF 2])
qed

end

text \<open>
  What the runtime guarantees whatever its loops, commands and exchange events do and in whatever order:
  a locked bot stays locked, a tripped kill switch ends \<open>RUNNING\<close>, and no entry order is sent while the
  bot is not \<open>RUNNING\<close>.
\<close>

section \<open>The other loops\<close>

context host
begin

lemma from_running: "bot_state_of rt = RUNNING \<Longrightarrow> rt_stays S rt rt'"
  using not_running by (intro stays_from) simp

lemma reconciliation_keeps: "rts.keeps S (run_reconciliation env)"
proof -
  have k: "rts.keeps S (and_then (in_service (reconcile_once (bn_sync env cfg eq) mi))
      (\<lambda>r. modify (record_reconciliation_risk env r)))" for cfg eq mi
    by (intro rt_intros in_service_keeps machine_sync.reconcile_keeps [OF sync_keeps]) simp
  show ?thesis
    by (rule rts.keepsI) (auto simp: run_reconciliation_def dest: rts.keepsD [OF k])
qed

lemma kill_trip_keeps: "rts.keeps S (apply_kill_switch_trip env)"
proof (rule rts.keepsI)
  fix rt rt' r
  assume run: "apply_kill_switch_trip env rt = (rt', r)"
  show "rt_stays S rt rt'"
  proof (cases "bot_state_of rt = RUNNING")
    case True
    then show ?thesis by (rule from_running)
  next
    case False
    have same: "machine (rt_service a) = machine (rt_service rt) \<Longrightarrow> bot_state_of a \<noteq> RUNNING" for a
      using False machine_of_cong [of a rt] by (simp add: bot_state_of_def)
    have "machine (rt_service rt') = machine (rt_service rt)"
      using run by (auto simp: apply_kill_switch_trip_def Let_def same split: option.splits prod.splits)
    then show ?thesis by (rule rt_outside)
  qed
qed

lemma reconciliation_turn_keeps: "rts.keeps S (reconciliation_turn env)"
proof -
  have k: "rts.keeps S (try_except (then_do (run_reconciliation env) (apply_kill_switch_trip env)) (\<lambda>_. ret ()))"
    by (intro rt_intros reconciliation_keeps kill_trip_keeps)
  show ?thesis
    by (rule rts.keepsI) (auto simp: reconciliation_turn_def rts.R_refl split: if_splits dest: rts.keepsD [OF k])
qed

lemma private_event_keeps: "rts.keeps S (handle_private_event env kind)"
  unfolding handle_private_event_def by (intro rt_intros reconciliation_keeps kill_trip_keeps) simp

lemma disconnect_keeps: "rts.keeps S (handle_ws_disconnect env private)"
proof -
  have sync: "rts.keeps S (\<lambda>rt. (if c rt then run_reconciliation env else ret ()) rt)" for c
    by (rule rts.keepsI) (auto simp: rts.R_refl split: if_splits dest: rts.keepsD [OF reconciliation_keeps])
  have calm: "rts.keeps S (then_do (try_except (and_then (refresh_tickers env) (\<lambda>_. ret ())) (\<lambda>_. ret ()))
      (then_do (\<lambda>rt. (if c rt then run_reconciliation env else ret ()) rt) (\<lambda>rt. (rt, Inr ()))))" for c
    using rts.keeps_ret [of S "()", unfolded ret_def [abs_def]]
    by (intro rts.keeps_then_do rts.keeps_try_except rts.keeps_and_then refresh_tickers_keeps rts.keeps_ret sync)
  have rest: "rts.keeps S (and_then (reads (\<lambda>rt. bot_state_of rt = RUNNING)) (\<lambda>was_running.
        then_do (if was_running then move RECONCILING ''ws disconnect'' else ret ())
        (then_do (try_except (and_then (refresh_tickers env) (\<lambda>_. ret ())) (\<lambda>_. ret ()))
        (then_do (\<lambda>rt. (if rcn_run_after_ws_reconnect (cfg_reconciliation (rt_cfg rt))
            then run_reconciliation env else ret ()) rt)
          (\<lambda>rt. (if was_running \<and> bot_state_of rt = RECONCILING
            then move RUNNING ''ws recovered'' else ret ()) rt)))))"
    (is "rts.keeps S ?m")
  proof (rule rts.keepsI)
    fix rt rt' r
    assume run: "?m rt = (rt', r)"
    show "rt_stays S rt rt'"
    proof (cases "bot_state_of rt = RUNNING")
      case True
      then show ?thesis by (rule from_running)
    next
      case False
      then have "then_do (try_except (and_then (refresh_tickers env) (\<lambda>_. ret ())) (\<lambda>_. ret ()))
        (then_do (\<lambda>rt. (if rcn_run_after_ws_reconnect (cfg_reconciliation (rt_cfg rt))
            then run_reconciliation env else ret ()) rt) (\<lambda>rt. (rt, Inr ()))) rt = (rt', r)"
        using run by simp
      then show ?thesis by (rule rts.keepsD [OF calm])
    qed
  qed
  show ?thesis
    unfolding handle_ws_disconnect_def by (intro rts.keeps_then_do rt_keeps_outside kill_trip_keeps rest) simp_all
qed

lemma pnl_turn_keeps: "rts.keeps S (pnl_turn env)"
proof -
  have wallet: "rts.keeps S (wallet_snapshot env marks)" for marks
  proof -
    have k: "rts.keeps S (try_except (bn_wallet_balance env) (\<lambda>_. reads fallback_wallet))"
      by (intro rt_intros wallet_keeps)
    show ?thesis
      by (rule rts.keepsI) (auto simp: wallet_snapshot_def rts.R_refl split: if_splits dest: rts.keepsD [OF k])
  qed
  have daily: "rts.keeps S (daily_net env w snp)" for w snp
  proof -
    have k: "rts.keeps S (then_do (bn_persist_pnl env) (ret x))" for x :: dec
      by (intro rt_intros persist_keeps)
    show ?thesis
      by (rule rts.keepsI) (auto simp: daily_net_def rts.R_refl svs.R_refl rt_stays_def split: if_splits prod.splits
          dest!: rts.keepsD [OF k])
  qed
  have feed: "rts.keeps S (\<lambda>rt. if 0 < rt_last_equity rt
      then then_do (modify (on_service (upd_kill (feed_kill_switch net (rt_last_equity rt)))))
        (apply_kill_switch_trip env) rt
      else (rt, Inr ()))" for net
  proof -
    have k: "rts.keeps S (then_do (modify (on_service (upd_kill f))) (apply_kill_switch_trip env))" for f
      by (intro rt_intros kill_trip_keeps) simp
    show ?thesis
      by (rule rts.keepsI) (auto simp: rts.R_refl simp del: then_do_basic split: if_splits dest: rts.keepsD [OF k])
  qed
  show ?thesis
    unfolding pnl_turn_def pnl_step_loop_def
    by (intro rts.keeps_try_except rts.keeps_and_then rts.keeps_reads rts.keeps_then_do rt_keeps_outside wallet daily
        feed rts.keeps_ret) simp
qed

lemma interval_keeps: "rt_stays S rt (fst (next_reconcile_interval rt))"
  by (rule rt_outside) (simp add: next_reconcile_interval_def split: prod.split)

end

section \<open>Commands keep a locked bot locked\<close>

lemma move_stays: "t \<in> S \<Longrightarrow> rts.keeps S (move t why)"
  by (rule rts.keepsI)
    (auto simp: move_def set_machine_def rt_stays_def stays_def in_states_def upd_machine_def machine_of_def
      split: sum.splits option.splits dest!: transition_Inr)

lemma force_stays: "t \<in> S \<Longrightarrow> rt_stays S rt (force_to t why rt)"
  by (auto simp: force_to_def set_machine_def rt_stays_def stays_def in_states_def upd_machine_def)

context host
begin

text \<open>A step that starts outside \<open>S\<close>.\<close>

lemma guarded_keeps:
  "b \<notin> S \<Longrightarrow> rts.keeps S (\<lambda>rt. if bot_state_of rt \<noteq> b then (rt, Inr ()) else m rt)"
  by (rule rts.keepsI) (auto simp: rts.R_refl stays_from split: if_splits)

lemma start_keeps: "STANDBY \<notin> S \<Longrightarrow> rts.keeps S (start_trading env)"
  using guarded_keeps [of STANDBY] by (simp add: start_trading_def fun_eq_iff cong: if_cong) (simp add: start_trading_def [abs_def])

lemma move_from_keeps: "f \<notin> S \<Longrightarrow> rts.keeps S (move_from f t)"
  by (rule rts.keepsI) (auto simp: move_from_def rts.R_refl stays_from split: if_splits)

lemma persist_cancelled_keeps: "rts.keeps S (persist_cancelled env oid cid)"
  unfolding persist_cancelled_def by (intro rt_intros cancelled_keeps)

lemma cancel_open_orders_keeps: "rts.keeps S (cancel_open_orders env)"
proof -
  have k: "rts.keeps S (try_except (then_do (bn_cancel_order env y oid cid)
      (then_do (modify (upd_orders f)) (persist_cancelled env oid cid))) (\<lambda>_. ret ()))" for y oid cid f
    by (intro rt_intros cancel_keeps persist_cancelled_keeps) simp
  have "rts.keeps S (cancel_open_order env key)" for key
    by (rule rts.keepsI) (auto simp: cancel_open_order_def rts.R_refl split: option.splits if_splits
        dest: rts.keepsD [OF k])
  then show ?thesis unfolding cancel_open_orders_def by (intro rt_intros)
qed

lemma cancel_order_keeps: "rts.keeps S (cancel_order_cmd env d)"
  unfolding cancel_order_cmd_def Let_def
  by (intro rt_intros cancel_keeps persist_cancelled_keeps) (simp add: mark_runtime_order_cancelled_def)

lemma close_if_quoted_keeps: "rts.keeps S (close_if_quoted env pct y)"
proof -
  have now: "rts.keeps S (close_now env y t p)" for t p
  proof -
    have k: "rts.keeps S (and_then (in_service (close_position (bn_ports env cfg (throw TypeError)) cfg ck y bid ask why p))
        (\<lambda>closed. modify (\<lambda>rt1. if closed then mark_order_event rt1 else rt1)))" for cfg ck bid ask why
      by (intro rt_intros in_service_keeps ports_run svs.keeps_throw) simp
    show ?thesis by (rule rts.keepsI) (auto simp: close_now_def dest: rts.keepsD [OF k])
  qed
  have k: "rts.keeps S (and_then (lift_res pct) (close_now env y t))" for t
    by (intro rt_intros now)
  show ?thesis
    by (rule rts.keepsI) (auto simp: close_if_quoted_def rts.R_refl split: option.splits dest: rts.keepsD [OF k])
qed

lemma close_all_keeps: "rts.keeps S (close_all_positions env)"
proof -
  have k: "rts.keeps S (and_then (refresh_tickers env) (\<lambda>_. and_then (reads (\<lambda>rt1. held_symbols (rt_service rt1)))
      (for_each (close_if_quoted env (Inr 100)))))"
    by (intro rt_intros refresh_tickers_keeps close_if_quoted_keeps)
  show ?thesis
    by (rule rts.keepsI) (auto simp: close_all_positions_def rts.R_refl split: if_splits dest: rts.keepsD [OF k])
qed

lemma close_position_cmd_keeps: "rts.keeps S (close_position_cmd env d)"
proof -
  have k: "rts.keeps S (and_then (refresh_tickers env) (\<lambda>_. close_if_quoted env pct y))" for pct y
    by (intro rt_intros refresh_tickers_keeps close_if_quoted_keeps)
  have c: "rts.keeps S (\<lambda>rt. if \<not> can_manage_positions (machine_of rt) then (rt, Inr ())
      else and_then (refresh_tickers env) (\<lambda>_. close_if_quoted env pct y) rt)" for pct y
    by (rule rts.keepsI) (auto simp: rts.R_refl split: if_splits dest: rts.keepsD [OF k])
  show ?thesis
    unfolding close_position_cmd_def by (intro rts.keeps_and_then rts.keeps_lift c)
qed

lemma stop_keeps: "rts.keeps S (stop_bot env d)"
  unfolding stop_bot_def
  by (intro rt_intros cancel_open_orders_keeps close_all_keeps) (simp_all add: request_shutdown_def)

lemma reload_keeps: "rts.keeps S (reload_config env)"
  unfolding reload_config_def
  by (intro rt_intros config_keeps) (simp add: build_trading_def build_service_def build_guards_def)

lemma dispatch_keeps:
  assumes "STANDBY \<notin> S" "PAUSED \<notin> S" shows "rts.keeps S (dispatch env c)"
  unfolding dispatch_def
  by (cases "cm_type c") (simp_all add: start_keeps assms stop_keeps move_from_keeps not_running reload_keeps
      reconciliation_keeps cancel_order_keeps close_position_cmd_keeps)

lemma command_keeps:
  assumes "STANDBY \<notin> S" "PAUSED \<notin> S" shows "rts.keeps S (handle_command env c)"
  unfolding handle_command_def
  by (intro rt_intros dispatch_keeps assms) (simp_all add: command_failed_def)

lemma shutdown_keeps:
  assumes "STOPPING \<in> S" "STOPPED \<in> S" shows "rts.keeps S (shutdown env)"
proof -
  have k: "rts.keeps S (try_except (move STOPPING why) (\<lambda>_. modify (force_to STOPPING why)))" for why
    by (intro rts.keeps_try_except move_stays assms rts.keeps_modify force_stays)
  have "rts.keeps S (\<lambda>rt. (if is_terminal (machine_of rt) then ret ()
      else try_except (move STOPPING why) (\<lambda>_. modify (force_to STOPPING why))) rt)" for why
    by (rule rts.keepsI) (auto simp: rts.R_refl split: if_splits dest: rts.keepsD [OF k])
  then show ?thesis
    unfolding shutdown_def by (intro rts.keeps_then_do lock_keeps rts.keeps_modify force_stays assms)
qed

end

section \<open>Runs of the runtime\<close>

text \<open>One step: a command, a turn of a loop, an event of the exchange, or the shutdown. What other tasks do
  while a step awaits is part of the operations it awaits.\<close>

inductive runtime_step :: "'x bot_env \<Rightarrow> 'x runtime \<Rightarrow> 'x runtime \<Rightarrow> bool" for env where
  step_command: "handle_command env c rt = (rt', r) \<Longrightarrow> runtime_step env rt rt'"
| step_trading: "trading_turn env rt = (rt', r) \<Longrightarrow> runtime_step env rt rt'"
| step_reconcile: "reconciliation_turn env rt = (rt', r) \<Longrightarrow> runtime_step env rt rt'"
| step_interval: "next_reconcile_interval rt = (rt', n) \<Longrightarrow> runtime_step env rt rt'"
| step_pnl: "pnl_turn env rt = (rt', r) \<Longrightarrow> runtime_step env rt rt'"
| step_private: "handle_private_event env kind rt = (rt', r) \<Longrightarrow> runtime_step env rt rt'"
| step_disconnect: "handle_ws_disconnect env private rt = (rt', r) \<Longrightarrow> runtime_step env rt rt'"
| step_shutdown: "shutdown env rt = (rt', r) \<Longrightarrow> runtime_step env rt rt'"

lemma locked_step:
  assumes "host locked_states env" "runtime_step env rt rt'"
  shows "rt_stays locked_states rt rt'"
proof -
  have out: "STANDBY \<notin> locked_states" "PAUSED \<notin> locked_states"
    and ins: "STOPPING \<in> locked_states" "STOPPED \<in> locked_states" by (simp_all add: locked_states_def)
  note k = rts.keepsD [OF host.command_keeps [OF assms(1) out]] rts.keepsD [OF host.trading_turn_keeps [OF assms(1)]]
    rts.keepsD [OF host.reconciliation_turn_keeps [OF assms(1)]] rts.keepsD [OF host.pnl_turn_keeps [OF assms(1)]]
    rts.keepsD [OF host.private_event_keeps [OF assms(1)]] rts.keepsD [OF host.disconnect_keeps [OF assms(1)]]
    rts.keepsD [OF host.shutdown_keeps [OF assms(1) ins]]
  from assms(2) show ?thesis
  proof cases
    case (step_interval n)
    then show ?thesis using host.interval_keeps [OF assms(1), of rt] by simp
  qed (rule k, assumption)+
qed

lemma in_states_bot: "S \<subseteq> - {BOOTING} \<Longrightarrow> in_states S (rt_service rt) \<longleftrightarrow> bot_state_of rt \<in> S"
  by (auto simp: in_states_def bot_state_of_def machine_of_def new_machine_def split: option.splits)

text \<open>C3. Once the bot is locked, by a tripped kill switch, a failed protection or a shutdown, no command, no
  turn of a loop and no event of the exchange, in any order and any number, takes it out of the locked
  states: only a restart leads back to \<open>RUNNING\<close>.\<close>

theorem locks_hold:
  assumes "host locked_states env" "(runtime_step env)\<^sup>*\<^sup>* rt rt'" "bot_state_of rt \<in> locked_states"
  shows "bot_state_of rt' \<in> locked_states"
  using assms(2,3)
proof (induction rule: rtranclp_induct)
  case base
  then show ?case .
next
  case (step a b)
  have "locked_states \<subseteq> - {BOOTING}" by (simp add: locked_states_def)
  from in_states_bot [OF this] show ?case
    using locked_step [OF assms(1) step(2)] step(3,4) by (auto simp: rt_stays_def stays_def)
qed

end
