(* ===== verification/Runtime_Wiring.thy ===== *)
theory Runtime_Wiring
  imports Runtime_Safety
begin

text \<open>
  The runtime as it is wired in the two modes: the executors and the reconciliation of the mode, and a
  \<open>feed\<close> that answers what comes from outside (market data, wallet, clocks, database, configuration). The
  contract \<open>host\<close> holds in both, and in LIVE mode for any gateway that keeps it.
\<close>

section \<open>The feed\<close>

record 'x feed =
  fd_tickers :: "'x runtime \<Rightarrow> market_ticker list result"
  fd_kline :: "string \<Rightarrow> string \<Rightarrow> int \<Rightarrow> 'x runtime \<Rightarrow> candle list result"
  fd_orderbook :: "string \<Rightarrow> 'x service \<Rightarrow> (order_book \<times> int option) result"
  fd_instruments :: "'x runtime \<Rightarrow> symbol_meta list result"
  fd_wallet :: "'x runtime \<Rightarrow> wallet_balance result"
  fd_database :: "'x runtime \<Rightarrow> unit result"
  fd_lock :: "'x runtime \<Rightarrow> bool result"
  fd_restore :: "('x runtime \<Rightarrow> position list result) option"
  fd_config :: "'x runtime \<Rightarrow> app_config result"
  fd_label :: "dec \<Rightarrow> string"
  fd_reason :: "signal_direction \<Rightarrow> dec \<Rightarrow> dec option \<Rightarrow> dec option \<Rightarrow> string"
  fd_day :: "'x runtime \<Rightarrow> string"
  fd_now_ms :: "'x runtime \<Rightarrow> int"
  fd_clocks :: "'x runtime \<Rightarrow> nat \<Rightarrow> clocks"

definition ask :: "('s \<Rightarrow> 'a result) \<Rightarrow> ('s, 'a) action" where
  "ask f s = (s, f s)"

definition wire ::
  "'x feed \<Rightarrow> ('x \<Rightarrow> (string \<times> dec) list \<Rightarrow> wallet_balance) option \<Rightarrow>
   (app_config \<Rightarrow> ('x service, order_book \<times> int option) action \<Rightarrow> 'x ports) \<Rightarrow>
   (app_config \<Rightarrow> dec \<Rightarrow> 'x sync_env) \<Rightarrow>
   (string \<Rightarrow> string option \<Rightarrow> string option \<Rightarrow> ('x service, unit) action) \<Rightarrow> (app_config \<Rightarrow> 'x \<Rightarrow> 'x) \<Rightarrow> 'x bot_env" where
  "wire fd wal io sync cancel rebuild =
    \<lparr> bn_get_tickers = ask (fd_tickers fd), bn_get_kline = (\<lambda>y i n. ask (fd_kline fd y i n)),
      bn_get_orderbook = (\<lambda>y. ask (fd_orderbook fd y)), bn_load_instruments = ask (fd_instruments fd),
      bn_wallet_balance = ask (fd_wallet fd), bn_paper_wallet = wal, bn_ports = io, bn_sync = sync,
      bn_label = fd_label fd, bn_reason = fd_reason fd, bn_persist_pnl = ask (fd_database fd),
      bn_acquire_lock = ask (fd_lock fd), bn_restore = map_option ask (fd_restore fd),
      bn_load_config = ask (fd_config fd), bn_rebuild_exec = rebuild,
      bn_cancel_order = (\<lambda>y oid cid. in_service (cancel y oid cid)),
      bn_persist_cancelled = (\<lambda>_ _. ask (fd_database fd)), bn_release_lock = ask (fd_database fd),
      bn_day = fd_day fd, bn_now_ms = fd_now_ms fd, bn_clocks = fd_clocks fd \<rparr>"

section \<open>PAPER\<close>

text \<open>\<open>paper_configure\<close> replaces the fee and the slippage of the engine that is kept over a reload.\<close>

definition paper_io :: "(paper_engine service, order_book \<times> int option) action \<Rightarrow> paper_engine ports" where
  "paper_io ob = (paper_ports (\<lparr> ob_symbol = [], ob_bids = [], ob_asks = [], ob_ts_ms = 0 \<rparr>, None))\<lparr> po_orderbook := ob \<rparr>"

definition paper_bot ::
  "paper_engine feed \<Rightarrow> exchange_position list \<Rightarrow> exchange_order list \<Rightarrow> rat \<Rightarrow> int \<Rightarrow> paper_engine bot_env" where
  "paper_bot fd xs os t now =
    wire fd (Some wallet) (\<lambda>cfg. paper_io) (\<lambda>cfg eq. paper_env cfg eq xs os t now) (\<lambda>_ _ _. ret ()) paper_configure"

lemma paper_io_ports:
  fixes R :: "paper_engine service \<Rightarrow> paper_engine service \<Rightarrow> bool"
  assumes "machine_frame R" "two_state.keeps R ob"
  shows "machine_ports R (paper_io ob)"
  using paper_machine_ports [OF assms(1)] assms(2)
  by (auto simp: machine_ports_def machine_ports_axioms_def paper_io_def)

section \<open>LIVE\<close>

definition live_bot ::
  "'g gateway \<Rightarrow> 'g live feed \<Rightarrow> ('g bot \<Rightarrow> int) \<Rightarrow> (app_config \<Rightarrow> 'g live \<Rightarrow> 'g live) \<Rightarrow> 'g live bot_env" where
  "live_bot gw fd wall rebuild =
    wire fd None (live_ports gw) (\<lambda>cfg eq. live_env gw cfg eq wall None None) (gw_cancel_order gw) rebuild"

section \<open>The contract holds\<close>

lemma ask_keeps [simp]: "rts.keeps S (ask f)" "svs.keeps S (ask g)"
  by (simp_all add: ask_def rts.keeps_def rts.R_refl svs.keeps_def svs.R_refl)

lemma wire_host:
  assumes "ORDER_LOCKED \<in> S" "EMERGENCY_STOP \<in> S" "RUNNING \<notin> S"
    and "\<And>cfg ob. svs.keeps S ob \<Longrightarrow> machine_ports (stays S) (io cfg ob)"
    and "\<And>cfg eq. machine_sync (stays S) (sync cfg eq)" "\<And>y oid cid. svs.keeps S (cancel y oid cid)"
  shows "host S (wire fd w io sync cancel rebuild)"
proof -
  have c: "rts.keeps S (in_service (cancel y oid cid))" for y oid cid
    by (rule rts.keepsI) (auto simp: in_service_def rt_stays_def split: prod.splits
        dest: svs.keepsD [OF assms(6)])
  show ?thesis
    by (rule host.intro) (simp_all add: wire_def assms c, auto)
qed

lemma paper_host:
  assumes "ORDER_LOCKED \<in> S" "EMERGENCY_STOP \<in> S" "RUNNING \<notin> S"
  shows "host S (paper_bot fd xs os t now)"
  unfolding paper_bot_def
  using assms stays_frame [OF assms(1,2)]
  by (intro wire_host) (auto simp: svs.keeps_ret intro: paper_io_ports paper_machine_sync)

lemma live_host:
  assumes "ORDER_LOCKED \<in> S" "EMERGENCY_STOP \<in> S" "RUNNING \<notin> S" "machine_gateway (stays S) gw"
  shows "host S (live_bot gw fd wall rebuild)"
proof -
  have sync: "machine_sync (stays S) (live_env gw cfg eq wall None None)" for cfg eq
    by (rule machine_gateway.live_machine_sync [OF assms(4)]) simp_all
  show ?thesis
    unfolding live_bot_def
    by (rule wire_host [OF assms(1-3)])
      (simp_all add: sync machine_gateway.live_machine_ports [OF assms(4)]
        gateway_frame.cancel_keeps [OF machine_gateway.axioms(1) [OF assms(4)]])
qed

interpretation paper_host_locked: host locked_states "paper_bot fd xs os t now"
  by (rule paper_host) (simp_all add: locked_states_def)

interpretation paper_host_idle: host idle_states "paper_bot fd xs os t now"
  by (rule paper_host) (simp_all add: idle_states_def)

interpretation fake_host_locked: host locked_states "live_bot fake_gateway fd wall rebuild"
  by (rule live_host) (simp_all add: locked_states_def fake_locked.machine_gateway_axioms [unfolded locked_states_def])

section \<open>A bot in PAPER mode\<close>

definition ex_feed :: "'x feed" where
  "ex_feed =
    \<lparr> fd_tickers = \<lambda>_. Inr [], fd_kline = \<lambda>_ _ _ _. Inr [], fd_orderbook = \<lambda>_ _. Inl TypeError,
      fd_instruments = \<lambda>_. Inr [], fd_wallet = \<lambda>_. Inl TypeError, fd_database = \<lambda>_. Inr (), fd_lock = \<lambda>_. Inr True,
      fd_restore = None, fd_config = \<lambda>_. Inr default_app_config, fd_label = \<lambda>_. [], fd_reason = \<lambda>_ _ _ _. [],
      fd_day = \<lambda>_. ''2024-01-01'', fd_now_ms = \<lambda>_. 1000, fd_clocks = \<lambda>_ _. \<lparr> ck_mono = 1, ck_wall = 1 \<rparr> \<rparr>"

definition ex_bot :: "paper_engine bot_env" where
  "ex_bot = paper_bot ex_feed [] [] 0 0"

definition ex_runtime :: "bot_state \<Rightarrow> paper_engine runtime" where
  "ex_runtime st =
    \<lparr> rt_cfg = default_app_config,
      rt_service = ex_paper_service\<lparr> sv_guards := ex_guards\<lparr> gs_state_machine := Some (new_machine st) \<rparr> \<rparr>,
      rt_collector = new_collector (new_candle_store 500), rt_universe = [], rt_last_equity = 1000, rt_watchlist = [],
      rt_last_scanner_refresh = 0, rt_cache = new_scan_cache, rt_scanner_cursor = 0, rt_after_order_event = False,
      rt_reconciliation_status = None, rt_last_trip_reason = None, rt_accounts = [], rt_shutdown = False \<rparr>"

lemma ex_runtime_state [simp]:
  "bot_state_of (ex_runtime st) = st" "machine (rt_service (ex_runtime st)) = Some (new_machine st)"
  "bm_state (new_machine st) = st"
  by (simp_all add: ex_runtime_def bot_state_of_def machine_of_def new_machine_def)

lemma ex_bot_host: "host locked_states ex_bot" "host idle_states ex_bot"
  unfolding ex_bot_def by (rule paper_host_locked.host_axioms paper_host_idle.host_axioms)+

lemma locks_hold_witness:
  "bot_state_of (fst (handle_command ex_bot \<lparr> cm_id = ''1'', cm_type = RELOAD_CONFIG, cm_payload = [] \<rparr>
      (fst (handle_command ex_bot \<lparr> cm_id = ''0'', cm_type = RESUME_TRADING, cm_payload = [] \<rparr>
        (ex_runtime RISK_LOCKED))))) \<in> locked_states"
proof -
  have step: "runtime_step ex_bot rt (fst (handle_command ex_bot c rt))" for c rt
    by (rule step_command [where r = "snd (handle_command ex_bot c rt)"]) simp
  have "(runtime_step ex_bot)\<^sup>*\<^sup>* rt (fst (handle_command ex_bot d (fst (handle_command ex_bot c rt))))" for c d rt
    by (meson rtranclp.rtrancl_into_rtrancl rtranclp.rtrancl_refl step)
  then show ?thesis
    by (rule locks_hold [OF ex_bot_host(1)]) (simp add: locked_states_def)
qed

end
