(* ===== verification/Bybit_System.thy ===== *)
theory Bybit_System
  imports Bybit_Facts Runtime_Wiring
begin

text \<open>
  The bot on the real gateway. With any SDK that changes only its own part of the state, whatever it
  answers and whenever it raises, the gateway keeps the contracts of the executors, of the
  reconciliation and of the runtime, so what was proved from those contracts holds of the LIVE bot.
\<close>

section \<open>An arbitrary SDK\<close>

text \<open>\<open>respond\<close> gives the answer and the new state of the exchange for every endpoint and its arguments.\<close>

definition own_sdk :: "(string \<Rightarrow> (string \<times> json) list \<Rightarrow> 'g \<Rightarrow> 'g \<times> json result) \<Rightarrow> 'g bot http" where
  "own_sdk respond =
    \<lparr> hp_call = \<lambda>name ps s. (case respond name ps (lv_gw (sv_exec s)) of
        (g, r) \<Rightarrow> (upd_live (\<lambda>v. v\<lparr> lv_gw := g \<rparr>) s, r)),
      hp_has = \<lambda>_. True, hp_rest_permit = ret (), hp_order_permit = ret (), hp_sleep = \<lambda>_. ret (), hp_now_ms = \<lambda>_. 0 \<rparr>"

lemma own_sdk_frame:
  fixes R :: "'g bot \<Rightarrow> 'g bot \<Rightarrow> bool"
  assumes "two_state R" "\<And>f s. R s (upd_live f s)"
  shows "sdk R (own_sdk respond) (reads uuid)"
proof -
  have refl: "R s s" for s by (rule two_state.R_refl [OF assms(1)])
  show ?thesis
    by (rule sdk.intro [OF assms(1)], unfold_locales)
      (auto simp: own_sdk_def assms(2) refl two_state.keeps_def [OF assms(1)] split: prod.split)
qed

lemma own_sdk_gateway:
  fixes R :: "'g bot \<Rightarrow> 'g bot \<Rightarrow> bool"
  assumes "two_state R" "\<And>f s. R s (upd_live f s)"
  shows "gateway_frame R (bybit_gateway (own_sdk respond) by (reads uuid) clock)"
  by (rule sdk.bybit_frame [OF own_sdk_frame [OF assms]])

interpretation bybit: sdk same_book "own_sdk respond" "reads uuid"
  by (rule own_sdk_frame) (simp_all add: book.two_state_axioms)

interpretation bybit_exchange: exchange "bybit_gateway (own_sdk respond) by (reads uuid) clock"
  by (rule exchange.intro) (rule bybit.bybit_frame)

interpretation bybit_quiet: reservations "bybit_gateway (own_sdk respond) by (reads uuid) clock"
  by (rule reservations.intro, rule own_sdk_gateway)
    (simp_all add: quiet.two_state_axioms same_pending_def pending_def upd_live_def)

interpretation bybit_live: trading_ports "live_ports (bybit_gateway (own_sdk respond) by (reads uuid) clock) cfg (ret ob)"
  by (rule bybit_exchange.live_trading_ports) simp

interpretation bybit_sync: reconciler "live_env (bybit_gateway (own_sdk respond) by (reads uuid) clock) cfg eq wall None None"
  by (rule live_reconciler [OF bybit_exchange.exchange_axioms bybit_quiet.reservations_axioms]) simp_all

lemma bybit_machine:
  fixes respond :: "string \<Rightarrow> (string \<times> json) list \<Rightarrow> 'g \<Rightarrow> 'g \<times> json result"
  assumes "machine_frame (stays S :: 'g bot \<Rightarrow> 'g bot \<Rightarrow> bool)"
  shows "machine_gateway (stays S) (bybit_gateway (own_sdk respond) by (reads uuid) clock)"
proof -
  have "stays S s (upd_live f s)" for f and s :: "'g bot"
    by (simp add: stays_def in_states_def upd_live_def)
  then show ?thesis by (intro machine_gateway.intro own_sdk_gateway svs.two_state_axioms assms)
qed

interpretation bybit_locked: host locked_states "live_bot (bybit_gateway (own_sdk respond) by (reads uuid) clock) fd wall rebuild"
  by (rule live_host) (simp_all add: locked_states_def bybit_machine [OF locked.machine_frame_axioms, unfolded locked_states_def])

interpretation bybit_idle: host idle_states "live_bot (bybit_gateway (own_sdk respond) by (reads uuid) clock) fd wall rebuild"
  by (rule live_host) (simp_all add: idle_states_def bybit_machine [OF idle.machine_frame_axioms, unfolded idle_states_def])


end
