(* ===== verification/Retention.thy ===== *)
theory Retention
  imports Trade_Store
begin

text \<open>
  The maintenance of the database (\<^verbatim>\<open>apps/api/maintenance/retention_policy.py\<close>, \<^verbatim>\<open>jobs.py\<close>,
  \<^verbatim>\<open>scheduler.py\<close>, \<^verbatim>\<open>worker.py\<close>): which rows may be deleted when, the nightly archive and cleanup, the
  daily summaries, and when they run. A table is a list of rows with their ids; a table whose row record
  has no \<open>ts\<close> carries it beside the row. Times are microseconds since the epoch. A job is one transaction.
  Reading \<^verbatim>\<open>retention.yaml\<close> is not modelled: the policy is an argument, \<open>default_policy\<close> the one without
  that file.
\<close>

section \<open>Policy\<close>

definition protected_event_types :: "string set" where
  "protected_event_types =
    {''EMERGENCY_STOP'', ''EMERGENCY_CLOSE'', ''EMERGENCY_TPSL_FAILED'', ''TPSL_FAILED'', ''RISK_LOCKED'',
     ''ORDER_LOCKED'', ''KILL_SWITCH_TRIPPED''}"

definition live_protected_tables :: "string set" where
  "live_protected_tables =
    {''trades'', ''fills'', ''orders'', ''command_logs'', ''manual_intervention_logs'', ''position_protection_logs''}"

record table_retention =
  tr_keep_days :: int
  tr_archive_after_days :: int

definition retention :: "int \<Rightarrow> int \<Rightarrow> table_retention" where
  "retention keep archive = \<lparr> tr_keep_days = keep, tr_archive_after_days = archive \<rparr>"

definition default_tables :: "(string \<times> table_retention) list" where
  "default_tables =
    [(''trades'', retention 1825 365), (''orders'', retention 1825 365), (''fills'', retention 1825 365),
     (''positions'', retention 1825 365), (''command_logs'', retention 1825 365), (''daily_pnl'', retention 1825 365),
     (''manual_intervention_logs'', retention 1825 365), (''position_protection_logs'', retention 1825 365),
     (''bot_events_info'', retention 90 30), (''bot_events_warning'', retention 365 180),
     (''bot_events_error'', retention 1825 365), (''reconciliation_logs'', retention 180 30),
     (''signals'', retention 365 90), (''paper_account_snapshots'', retention 30 7)]"

definition default_paper :: "(string \<times> int) list" where
  "default_paper =
    [(''paper_orders_keep_days'', 180), (''paper_fills_keep_days'', 180), (''paper_trades_keep_days'', 365),
     (''paper_events_keep_days'', 90)]"

record retention_policy =
  rp_tables :: "(string \<times> table_retention) list"
  rp_paper :: "(string \<times> int) list"

definition default_policy :: retention_policy where
  "default_policy = \<lparr> rp_tables = default_tables, rp_paper = default_paper \<rparr>"

definition keep_days :: "retention_policy \<Rightarrow> string \<Rightarrow> int option" where
  "keep_days pol t = map_option tr_keep_days (map_of (rp_tables pol) t)"

definition archive_after_days :: "retention_policy \<Rightarrow> string \<Rightarrow> int option" where
  "archive_after_days pol t = map_option tr_archive_after_days (map_of (rp_tables pol) t)"

definition is_live_protected_table :: "string \<Rightarrow> bool" where
  "is_live_protected_table t \<longleftrightarrow> t \<in> live_protected_tables"

definition is_protected_event :: "string option \<Rightarrow> bool" where
  "is_protected_event e \<longleftrightarrow> (case e of None \<Rightarrow> [] | Some s \<Rightarrow> s) \<in> protected_event_types"

definition is_row_delete_protected :: "string \<Rightarrow> string option \<Rightarrow> string option \<Rightarrow> bool" where
  "is_row_delete_protected t mode e =
    (if is_protected_event e then True
     else if mode = Some ''LIVE'' \<and> is_live_protected_table t then True
     else False)"

section \<open>Dates\<close>

definition day_us :: int where
  "day_us = 24 * 60 * 60 * 1000000"

definition kst_offset :: int where
  "kst_offset = 9 * 60 * 60 * 1000000"

definition pad :: "nat \<Rightarrow> int \<Rightarrow> string" where
  "pad n i = (let t = nat_text (nat i) in replicate (n - length t) (CHR ''0'') @ t)"

text \<open>\<open>strftime("%Y-%m-%d")\<close> of a time in UTC, by the Gregorian calendar.\<close>

definition iso_day :: "int \<Rightarrow> string" where
  "iso_day t =
    (let z = t div day_us + 719468;
         era = z div 146097; doe = z mod 146097;
         yoe = (doe - doe div 1460 + doe div 36524 - doe div 146096) div 365;
         doy = doe - (365 * yoe + yoe div 4 - yoe div 100);
         mp = (5 * doy + 2) div 153;
         d = doy - (153 * mp + 2) div 5 + 1;
         m = (if mp < 10 then mp + 3 else mp - 9);
         y = yoe + era * 400 + (if m \<le> 2 then 1 else 0)
     in pad 4 y @ ''-'' @ pad 2 m @ ''-'' @ pad 2 d)"

definition yesterday_kst :: "int \<Rightarrow> string" where
  "yesterday_kst now = iso_day (now + kst_offset - day_us)"

definition day_of :: "int option \<Rightarrow> int \<Rightarrow> string" where
  "day_of t fallback = iso_day (case t of None \<Rightarrow> fallback | Some x \<Rightarrow> x)"

text \<open>\<open>_D(v)\<close>: the number, or zero.\<close>

definition dec_or_zero :: "string option \<Rightarrow> dec" where
  "dec_or_zero v = (case dec_or_none v of None \<Rightarrow> 0 | Some x \<Rightarrow> x)"

text \<open>\<open>v or x\<close> on a text that may be missing.\<close>

definition or_text :: "string option \<Rightarrow> string \<Rightarrow> string" where
  "or_text v x = (case v of None \<Rightarrow> x | Some s \<Rightarrow> if s = [] then x else s)"

section \<open>Tables\<close>

type_synonym 'a table = "(int \<times> 'a) list"

record 'a archived =
  ar_payload :: "int \<times> 'a"
  ar_source_id :: int
  ar_ts :: int

record daily_group_row =
  dg_day :: string
  dg_mode :: string
  dg_key :: string
  dg_trade_count :: int
  dg_win_count :: int
  dg_loss_count :: int
  dg_realized :: string
  dg_fees :: string
  dg_net :: string

record daily_event_row =
  de_day :: string
  de_mode :: string
  de_info :: nat
  de_warning :: nat
  de_error :: nat
  de_critical :: nat
  de_emergency :: nat
  de_tpsl_failed :: nat

record daily_manual_row =
  dm_day :: string
  dm_mode :: string
  dm_count :: nat
  dm_by_kind :: "(string \<times> nat) list"

record retention_status =
  rs_last_summary_at :: "int option"
  rs_last_archive_at :: "int option"
  rs_last_cleanup_at :: "int option"
  rs_last_health_check_at :: "int option"

record maintained =
  mt_orders :: "(int \<times> order_row) table"
  mt_fills :: "fill_row table"
  mt_trades :: "trade_row table"
  mt_events :: "bot_event_row table"
  mt_reconciliations :: "(int \<times> payload) table"
  mt_manual :: "(int \<times> string \<times> string \<times> payload) list"
  mt_orders_archive :: "(int \<times> order_row) archived list"
  mt_fills_archive :: "fill_row archived list"
  mt_trades_archive :: "trade_row archived list"
  mt_events_archive :: "bot_event_row archived list"
  mt_reconciliations_archive :: "(int \<times> payload) archived list"
  mt_daily :: "daily_pnl_row list"
  mt_symbol_pnl :: "daily_group_row list"
  mt_strategy_pnl :: "daily_group_row list"
  mt_entry_mode_pnl :: "daily_group_row list"
  mt_event_summary :: "daily_event_row list"
  mt_manual_summary :: "daily_manual_row list"
  mt_status :: "retention_status option"

text \<open>\<open>_touch_status\<close>: the one status row, made on first use.\<close>

definition no_status :: retention_status where
  "no_status = \<lparr> rs_last_summary_at = None, rs_last_archive_at = None, rs_last_cleanup_at = None, rs_last_health_check_at = None \<rparr>"

definition touch_status :: "(retention_status \<Rightarrow> retention_status) \<Rightarrow> maintained \<Rightarrow> maintained" where
  "touch_status f db = db\<lparr> mt_status := Some (f (case mt_status db of None \<Rightarrow> no_status | Some r \<Rightarrow> r)) \<rparr>"

section \<open>Archive\<close>

text \<open>One table of \<open>_ARCHIVE_MAP\<close>: its time, mode and type columns are functions of the row, \<open>None\<close> where the
  table has no such column.\<close>

definition archive_table ::
  "retention_policy \<Rightarrow> string \<Rightarrow> ('a \<Rightarrow> int) \<Rightarrow> ('a \<Rightarrow> string option) \<Rightarrow> ('a \<Rightarrow> string option) \<Rightarrow> int \<Rightarrow>
    'a table \<times> 'a archived list \<Rightarrow> ('a table \<times> 'a archived list) \<times> nat" where
  "archive_table pol t ts mode kind now = (\<lambda>(rows, arch).
    case archive_after_days pol (if t = ''bot_events'' then ''bot_events_info'' else t) of
      None \<Rightarrow> ((rows, arch), 0)
    | Some after \<Rightarrow>
        let cutoff = now - after * day_us; old = filter (\<lambda>(i, r). ts r < cutoff) rows in
        ((filter (\<lambda>(i, r). \<not> ts r < cutoff \<or> is_row_delete_protected t (mode r) (kind r)) rows,
          arch @ map (\<lambda>(i, r). \<lparr> ar_payload = (i, r), ar_source_id = i, ar_ts = ts r \<rparr>) old), length old))"

definition archive_job :: "retention_policy \<Rightarrow> int \<Rightarrow> maintained \<Rightarrow> maintained \<times> nat" where
  "archive_job pol now db =
    (let ((os, oa), n1) = archive_table pol ''orders'' fst (\<lambda>(_, r). ow_mode r) (\<lambda>_. None) now (mt_orders db, mt_orders_archive db);
         ((fs, fa), n2) = archive_table pol ''fills'' fw_ts fw_mode (\<lambda>_. None) now (mt_fills db, mt_fills_archive db);
         ((ts, ta), n3) = archive_table pol ''trades'' tw_ts tw_mode (\<lambda>_. None) now (mt_trades db, mt_trades_archive db);
         ((es, ea), n4) = archive_table pol ''bot_events'' ew_ts (\<lambda>_. None) (\<lambda>r. Some (ew_type r)) now (mt_events db, mt_events_archive db);
         ((rs, ra), n5) = archive_table pol ''reconciliation_logs'' fst (\<lambda>_. None) (\<lambda>_. None) now
           (mt_reconciliations db, mt_reconciliations_archive db)
     in (touch_status (\<lambda>s. s\<lparr> rs_last_archive_at := Some now \<rparr>)
           (db\<lparr> mt_orders := os, mt_orders_archive := oa, mt_fills := fs, mt_fills_archive := fa, mt_trades := ts,
                mt_trades_archive := ta, mt_events := es, mt_events_archive := ea, mt_reconciliations := rs,
                mt_reconciliations_archive := ra \<rparr>), n1 + n2 + n3 + n4 + n5))"

section \<open>Cleanup\<close>

definition cleanup_table ::
  "retention_policy \<Rightarrow> bool \<Rightarrow> string \<Rightarrow> ('a \<Rightarrow> int) \<Rightarrow> ('a \<Rightarrow> string option) \<Rightarrow> int \<Rightarrow> 'a table \<Rightarrow> 'a table \<times> nat" where
  "cleanup_table pol summary_exists t ts mode now rows =
    (case keep_days pol t of
       None \<Rightarrow> (rows, 0)
     | Some keep \<Rightarrow>
         let stays = (\<lambda>(i, r). \<not> ts r < now - keep * day_us \<or>
           mode r = Some ''PAPER'' \<and> \<not> summary_exists \<and> t \<in> {''orders'', ''fills'', ''trades''} \<or>
           is_row_delete_protected t (mode r) None)
         in (filter stays rows, length rows - length (filter stays rows)))"

definition event_table :: "bot_event_row \<Rightarrow> string" where
  "event_table r =
    (let sev = upper (or_text (Some (ew_severity r)) ''INFO'') in
     if sev = ''INFO'' then ''bot_events_info'' else if sev = ''WARNING'' then ''bot_events_warning'' else ''bot_events_error'')"

definition event_stays :: "retention_policy \<Rightarrow> int \<Rightarrow> bot_event_row \<Rightarrow> bool" where
  "event_stays pol now r =
    (case keep_days pol (event_table r) of
       None \<Rightarrow> True
     | Some keep \<Rightarrow> now - keep * day_us \<le> ew_ts r \<or> is_protected_event (Some (ew_type r)))"

definition retention_cleanup :: "retention_policy \<Rightarrow> int \<Rightarrow> maintained \<Rightarrow> maintained \<times> nat" where
  "retention_cleanup pol now db =
    (let summary_exists = mt_daily db \<noteq> [];
         (os, n1) = cleanup_table pol summary_exists ''orders'' fst (\<lambda>(_, r). ow_mode r) now (mt_orders db);
         (fs, n2) = cleanup_table pol summary_exists ''fills'' fw_ts fw_mode now (mt_fills db);
         (ts, n3) = cleanup_table pol summary_exists ''trades'' tw_ts tw_mode now (mt_trades db);
         (rs, n4) = cleanup_table pol summary_exists ''reconciliation_logs'' fst (\<lambda>_. None) now (mt_reconciliations db);
         es = filter (\<lambda>(i, r). event_stays pol now r) (mt_events db);
         n5 = length (mt_events db) - length es
     in (touch_status (\<lambda>s. s\<lparr> rs_last_cleanup_at := Some now \<rparr>)
           (db\<lparr> mt_orders := os, mt_fills := fs, mt_trades := ts, mt_reconciliations := rs, mt_events := es \<rparr>),
         n1 + n2 + n3 + n4 + n5))"

section \<open>Daily summary\<close>

record bucket =
  bk_n :: int
  bk_w :: int
  bk_l :: int
  bk_realized :: dec
  bk_fees :: dec
  bk_net :: dec

definition empty_bucket :: bucket where
  "empty_bucket = \<lparr> bk_n = 0, bk_w = 0, bk_l = 0, bk_realized = 0, bk_fees = 0, bk_net = 0 \<rparr>"

definition net_of :: "trade_row \<Rightarrow> dec" where
  "net_of t = dec_or_zero (case tw_net_pnl t of None \<Rightarrow> Some (tw_realized_pnl t) | Some x \<Rightarrow> Some x)"

definition add_trade :: "trade_row \<Rightarrow> bucket \<Rightarrow> bucket" where
  "add_trade t a =
    (let net = net_of t in
     a\<lparr> bk_n := bk_n a + 1, bk_w := bk_w a + (if 0 < net then 1 else 0), bk_l := bk_l a + (if net < 0 then 1 else 0),
        bk_realized := dadd (bk_realized a) (dec_or_zero (Some (tw_realized_pnl t))),
        bk_fees := dadd (bk_fees a) (dec_or_zero (Some (tw_fees t))), bk_net := dadd (bk_net a) net \<rparr>)"

definition group_of :: "(trade_row \<Rightarrow> string) \<Rightarrow> trade_row \<Rightarrow> string \<times> string" where
  "group_of key t = (or_text (tw_mode t) ''PAPER'', key t)"

text \<open>\<open>_bucket\<close>: \<open>agg.setdefault(key, zeros)\<close> and the additions, for each trade.\<close>

definition count_trade :: "(trade_row \<Rightarrow> string) \<Rightarrow> trade_row \<Rightarrow> ((string \<times> string) \<times> bucket) list \<Rightarrow> ((string \<times> string) \<times> bucket) list" where
  "count_trade key t agg =
    (let k = group_of key t in
     dict_set k (add_trade t (case map_of agg k of None \<Rightarrow> empty_bucket | Some a \<Rightarrow> a)) agg)"

definition group_trades :: "(trade_row \<Rightarrow> string) \<Rightarrow> trade_row list \<Rightarrow> ((string \<times> string) \<times> bucket) list" where
  "group_trades key ts = fold (count_trade key) ts []"

definition group_row :: "string \<Rightarrow> (string \<times> string) \<times> bucket \<Rightarrow> daily_group_row" where
  "group_row day = (\<lambda>((mode, k), a).
    \<lparr> dg_day = day, dg_mode = mode, dg_key = k, dg_trade_count = bk_n a, dg_win_count = bk_w a, dg_loss_count = bk_l a,
      dg_realized = str_dec (bk_realized a), dg_fees = str_dec (bk_fees a), dg_net = str_dec (bk_net a) \<rparr>)"

text \<open>The rows of the day are deleted, then added again.\<close>

definition replace_groups ::
  "string \<Rightarrow> (trade_row \<Rightarrow> string) \<Rightarrow> trade_row list \<Rightarrow> daily_group_row list \<Rightarrow> daily_group_row list" where
  "replace_groups day key ts rows = filter (\<lambda>r. dg_day r \<noteq> day) rows @ map (group_row day) (group_trades key ts)"

definition upsert_daily :: "string \<Rightarrow> trade_row list \<Rightarrow> daily_pnl_row list \<Rightarrow> daily_pnl_row list result" where
  "upsert_daily day ts rows =
    (let realized = str_dec (dsum (map (\<lambda>t. dec_or_zero (Some (tw_realized_pnl t))) ts));
         fees = str_dec (dsum (map (\<lambda>t. dec_or_zero (Some (tw_fees t))) ts));
         net = str_dec (dsum (map net_of ts))
     in case length (filter (\<lambda>r. dw_day r = day) rows) of
          0 \<Rightarrow> Inr (rows @ [\<lparr> dw_day = day, dw_realized = realized, dw_unrealized = ''0'', dw_fees = fees, dw_net = net \<rparr>])
        | Suc 0 \<Rightarrow> Inr (map (\<lambda>r. if dw_day r = day then r\<lparr> dw_realized := realized, dw_fees := fees, dw_net := net \<rparr> else r) rows)
        | _ \<Rightarrow> Inl ValueError)"

definition severity_count :: "string \<Rightarrow> bot_event_row list \<Rightarrow> nat" where
  "severity_count sev es = length (filter (\<lambda>e. upper (or_text (Some (ew_severity e)) ''INFO'') = sev) es)"

definition event_summary :: "string \<Rightarrow> bot_event_row list \<Rightarrow> string \<Rightarrow> daily_event_row" where
  "event_summary day es mode =
    \<lparr> de_day = day, de_mode = mode, de_info = severity_count ''INFO'' es, de_warning = severity_count ''WARNING'' es,
      de_error = severity_count ''ERROR'' es, de_critical = severity_count ''CRITICAL'' es,
      de_emergency = length (filter (\<lambda>e. take 9 (ew_type e) = ''EMERGENCY'') es),
      de_tpsl_failed = length (filter (\<lambda>e. ew_type e = ''EMERGENCY_TPSL_FAILED'' \<or> ew_type e = ''TPSL_FAILED'') es) \<rparr>"

text \<open>The set of the modes of the trades; the order of the rows made for a set is not determined.\<close>

definition summary_modes :: "trade_row list \<Rightarrow> string list" where
  "summary_modes ts = (if ts = [] then [''PAPER''] else remdups (map (\<lambda>t. or_text (tw_mode t) ''PAPER'') ts))"

definition count_kinds :: "string list \<Rightarrow> (string \<times> nat) list" where
  "count_kinds ks = fold (\<lambda>k m. dict_set k (Suc (case map_of m k of None \<Rightarrow> 0 | Some n \<Rightarrow> n)) m) ks []"

definition trades_of_day :: "string \<Rightarrow> maintained \<Rightarrow> trade_row list" where
  "trades_of_day day db = filter (\<lambda>t. day_of (tw_closed_at t) (tw_ts t) = day) (map snd (mt_trades db))"

text \<open>More than one row of the day in \<open>daily_pnl\<close> makes \<open>scalar_one_or_none\<close> raise (written \<open>ValueError\<close>); the
  transaction is then rolled back.\<close>

definition daily_summary :: "int \<Rightarrow> string \<Rightarrow> maintained \<Rightarrow> maintained \<times> string result" where
  "daily_summary now day db =
    (let ts = trades_of_day day db;
         es = filter (\<lambda>e. iso_day (ew_ts e) = day) (map snd (mt_events db));
         ms = filter (\<lambda>(t, _). iso_day t = day) (mt_manual db)
     in case upsert_daily day ts (mt_daily db) of
          Inl e \<Rightarrow> (db, Inl e)
        | Inr daily \<Rightarrow>
            (touch_status (\<lambda>s. s\<lparr> rs_last_summary_at := Some now \<rparr>)
              (db\<lparr> mt_symbol_pnl := replace_groups day tw_symbol ts (mt_symbol_pnl db),
                   mt_strategy_pnl := replace_groups day (\<lambda>t. or_text (tw_strategy_id t) ''unknown'') ts (mt_strategy_pnl db),
                   mt_entry_mode_pnl := replace_groups day (\<lambda>t. or_text (tw_entry_mode t) ''unknown'') ts (mt_entry_mode_pnl db),
                   mt_daily := daily,
                   mt_event_summary := filter (\<lambda>r. de_day r \<noteq> day) (mt_event_summary db) @
                     map (event_summary day es) (summary_modes ts),
                   mt_manual_summary := filter (\<lambda>r. dm_day r \<noteq> day) (mt_manual_summary db) @
                     [\<lparr> dm_day = day, dm_mode = ''PAPER'', dm_count = length ms,
                        dm_by_kind = count_kinds (map (\<lambda>(_, _, k, _). k) ms) \<rparr>] \<rparr>), Inr day))"

section \<open>Schedule\<close>

text \<open>\<open>_seconds_until_kst\<close>, in microseconds; \<open>now\<close> is UTC.\<close>

definition until_kst :: "int \<Rightarrow> int \<Rightarrow> int \<Rightarrow> int" where
  "until_kst hour minute now =
    (let local = now + kst_offset;
         target = local - local mod day_us + (hour * 60 + minute) * 60 * 1000000;
         target' = (if target \<le> local then target + day_us else target)
     in target' - local)"

text \<open>The jobs of \<open>MaintenanceWorker\<close>: nothing runs while the last health check failed. \<open>up\<close> says whether the
  database answers.\<close>

datatype job = Daily_Summary | Archive | Cleanup | Health_Check

record worker =
  wk_policy :: retention_policy
  wk_db_ok :: bool
  wk_db :: maintained

definition run_job :: "bool \<Rightarrow> int \<Rightarrow> job \<Rightarrow> worker \<Rightarrow> worker" where
  "run_job up now j w =
    (case j of
       Health_Check \<Rightarrow>
         if up then w\<lparr> wk_db_ok := True, wk_db := touch_status (\<lambda>s. s\<lparr> rs_last_health_check_at := Some now \<rparr>) (wk_db w) \<rparr>
         else w\<lparr> wk_db_ok := False \<rparr>
     | Daily_Summary \<Rightarrow>
         if \<not> wk_db_ok w \<or> \<not> up then w else w\<lparr> wk_db := fst (daily_summary now (yesterday_kst now) (wk_db w)) \<rparr>
     | Archive \<Rightarrow> if \<not> wk_db_ok w \<or> \<not> up then w else w\<lparr> wk_db := fst (archive_job (wk_policy w) now (wk_db w)) \<rparr>
     | Cleanup \<Rightarrow> if \<not> wk_db_ok w \<or> \<not> up then w else w\<lparr> wk_db := fst (retention_cleanup (wk_policy w) now (wk_db w)) \<rparr>)"

text \<open>When each job runs: the three daily ones at 0:05, 0:20 and 0:40, the health check every hour.\<close>

definition job_delay :: "job \<Rightarrow> int \<Rightarrow> int" where
  "job_delay j now =
    (case j of
       Daily_Summary \<Rightarrow> until_kst 0 5 now
     | Archive \<Rightarrow> until_kst 0 20 now
     | Cleanup \<Rightarrow> until_kst 0 40 now
     | Health_Check \<Rightarrow> 60 * 60 * 1000000)"

text \<open>
  What the maintenance guarantees: the rows that must not be deleted survive every run of the jobs, the
  archive loses nothing, the daily summaries are those of a reference definition over the trades of the
  day and are the same when a job runs twice, and when the jobs run. At the end, where the jobs do less than
  their documentation says.
\<close>

section \<open>Groups of trades\<close>

text \<open>The reference: the row of a group is computed from the group's trades alone.\<close>

definition bucket_of :: "trade_row list \<Rightarrow> bucket" where
  "bucket_of g =
    \<lparr> bk_n = int (length g), bk_w = int (length (filter (\<lambda>t. 0 < net_of t) g)),
      bk_l = int (length (filter (\<lambda>t. net_of t < 0) g)),
      bk_realized = dsum (map (\<lambda>t. dec_or_zero (Some (tw_realized_pnl t))) g),
      bk_fees = dsum (map (\<lambda>t. dec_or_zero (Some (tw_fees t))) g), bk_net = dsum (map net_of g) \<rparr>"

lemma dsum_snoc: "dsum (xs @ [x]) = dadd (dsum xs) x"
  by (simp add: dsum_def)

lemma bucket_of_snoc: "bucket_of (g @ [t]) = add_trade t (bucket_of g)"
  by (simp add: bucket_of_def add_trade_def Let_def dsum_snoc)

lemma bucket_of_Nil: "bucket_of [] = empty_bucket"
  by (simp add: bucket_of_def empty_bucket_def dsum_def)

definition group :: "(trade_row \<Rightarrow> string) \<Rightarrow> string \<times> string \<Rightarrow> trade_row list \<Rightarrow> trade_row list" where
  "group key k ts = filter (\<lambda>t. group_of key t = k) ts"

lemma group_trades_snoc: "group_trades key (ts @ [t]) = count_trade key t (group_trades key ts)"
  by (simp add: group_trades_def)

lemma group_trades_lookup:
  "map_of (group_trades key ts) k = (if group key k ts = [] then None else Some (bucket_of (group key k ts)))"
proof (induction ts rule: rev_induct)
  case Nil
  show ?case by (simp add: group_trades_def group_def)
next
  case (snoc t ts)
  show ?case
  proof (cases "group_of key t = k")
    case True
    then show ?thesis
      using bucket_of_snoc [of "[]" t]
      by (cases "group key k ts = []")
        (simp_all add: group_trades_snoc count_trade_def Let_def snoc group_def bucket_of_snoc flip: bucket_of_Nil)
  next
    case False
    then show ?thesis by (simp add: group_trades_snoc count_trade_def Let_def snoc) (simp add: group_def)
  qed
qed

lemma group_trades_distinct: "distinct (map fst (group_trades key ts))"
  by (induction ts rule: rev_induct)
    (simp_all add: group_trades_def count_trade_def Let_def distinct_dict_set)

lemma filter_dict: "distinct (map fst d) \<Longrightarrow> filter (\<lambda>p. fst p = k) d = (case map_of d k of None \<Rightarrow> [] | Some v \<Rightarrow> [(k, v)])"
proof (induction d)
  case (Cons p d)
  then have "fst p = k \<Longrightarrow> map_of d k = None" by (auto simp: map_of_eq_None_iff)
  then show ?case using Cons by (cases p) auto
qed simp

lemma group_row_keys [simp]: "dg_day (group_row day x) = day" "dg_mode (group_row day x) = fst (fst x)" "dg_key (group_row day x) = snd (fst x)"
  by (cases x; cases "fst x"; simp add: group_row_def)+

lemma replaced_groups:
  "filter (\<lambda>r. dg_day r = day \<and> dg_mode r = mode \<and> dg_key r = k) (replace_groups day key ts rows) =
    (if group key (mode, k) ts = [] then [] else [group_row day ((mode, k), bucket_of (group key (mode, k) ts))])"
proof -
  have "filter (\<lambda>r. dg_day r = day \<and> dg_mode r = mode \<and> dg_key r = k) (map (group_row day) (group_trades key ts)) =
      map (group_row day) (filter (\<lambda>p. fst p = (mode, k)) (group_trades key ts))"
    by (auto simp: filter_map o_def prod_eq_iff intro!: arg_cong [where f = "map _"] filter_cong)
  then show ?thesis
    by (auto simp: replace_groups_def filter_dict [OF group_trades_distinct] group_trades_lookup)
qed

lemma replaced_again: "replace_groups day key ts (replace_groups day key ts rows) = replace_groups day key ts rows"
  by (auto simp: replace_groups_def filter_empty_conv)

lemma replaced_other_days: "filter (\<lambda>r. dg_day r \<noteq> day) (replace_groups day key ts rows) = filter (\<lambda>r. dg_day r \<noteq> day) rows"
  by (auto simp: replace_groups_def filter_empty_conv)

section \<open>The daily summary\<close>

lemma daily_summary_Inr:
  assumes "daily_summary now day db = (db', Inr d)"
  shows "d = day"
    and "mt_symbol_pnl db' = replace_groups day tw_symbol (trades_of_day day db) (mt_symbol_pnl db)"
    and "mt_strategy_pnl db' =
      replace_groups day (\<lambda>t. or_text (tw_strategy_id t) ''unknown'') (trades_of_day day db) (mt_strategy_pnl db)"
    and "mt_entry_mode_pnl db' =
      replace_groups day (\<lambda>t. or_text (tw_entry_mode t) ''unknown'') (trades_of_day day db) (mt_entry_mode_pnl db)"
    and "upsert_daily day (trades_of_day day db) (mt_daily db) = Inr (mt_daily db')"
    and "mt_trades db' = mt_trades db" "mt_events db' = mt_events db" "mt_manual db' = mt_manual db"
  using assms by (auto simp: daily_summary_def touch_status_def Let_def split: sum.splits)

text \<open>The summary of a day holds, for each mode and each symbol, exactly one row when there was a trade and none otherwise, and its counts and sums are those of the
  trades of that group alone, in their order; the rows of the other days are untouched.\<close>

lemma daily_summary_groups:
  assumes "daily_summary now day db = (db', Inr d)"
  shows "(\<forall>mode k. filter (\<lambda>r. dg_day r = day \<and> dg_mode r = mode \<and> dg_key r = k) (mt_symbol_pnl db') =
      (let g = group tw_symbol (mode, k) (trades_of_day day db)
       in if g = [] then [] else [group_row day ((mode, k), bucket_of g)])) \<and>
    filter (\<lambda>r. dg_day r \<noteq> day) (mt_symbol_pnl db') = filter (\<lambda>r. dg_day r \<noteq> day) (mt_symbol_pnl db)"
  unfolding daily_summary_Inr(2) [OF assms] by (simp add: replaced_groups replaced_other_days Let_def)

definition set_daily :: "string \<Rightarrow> string \<Rightarrow> string \<Rightarrow> string \<Rightarrow> daily_pnl_row \<Rightarrow> daily_pnl_row" where
  "set_daily day a b c r = (if dw_day r = day then r\<lparr> dw_realized := a, dw_fees := b, dw_net := c \<rparr> else r)"

lemma set_daily_facts [simp]:
  "dw_day (set_daily day a b c r) = dw_day r" "set_daily day a b c (set_daily day a b c r) = set_daily day a b c r"
  by (simp_all add: set_daily_def)

definition day_rows :: "string \<Rightarrow> daily_pnl_row list \<Rightarrow> nat" where
  "day_rows day rows = length (filter (\<lambda>r. dw_day r = day) rows)"

lemma day_rows_simps [simp]:
  "day_rows day (map (set_daily d a b c) rows) = day_rows day rows"
  "day_rows day (rows @ [r]) = day_rows day rows + (if dw_day r = day then 1 else 0)"
  by (simp_all add: day_rows_def filter_map o_def)

lemma upsert_unfold:
  "\<exists>a b c. \<forall>rows. upsert_daily day ts rows =
    (case day_rows day rows of
       0 \<Rightarrow> Inr (rows @ [\<lparr> dw_day = day, dw_realized = a, dw_unrealized = ''0'', dw_fees = b, dw_net = c \<rparr>])
     | Suc 0 \<Rightarrow> Inr (map (set_daily day a b c) rows)
     | _ \<Rightarrow> Inl ValueError)"
  unfolding upsert_daily_def day_rows_def Let_def set_daily_def by blast

lemma upsert_again:
  assumes "upsert_daily day ts rows = Inr rows'"
  shows "upsert_daily day ts rows' = Inr rows'"
proof -
  obtain a b c where u: "upsert_daily day ts rows = (case day_rows day rows of
       0 \<Rightarrow> Inr (rows @ [\<lparr> dw_day = day, dw_realized = a, dw_unrealized = ''0'', dw_fees = b, dw_net = c \<rparr>])
     | Suc 0 \<Rightarrow> Inr (map (set_daily day a b c) rows)
     | _ \<Rightarrow> Inl ValueError)" for rows
    using upsert_unfold by blast
  consider "day_rows day rows = 0" | "day_rows day rows = Suc 0" | n where "day_rows day rows = Suc (Suc n)"
    by (metis not0_implies_Suc)
  then show ?thesis
  proof cases
    case 1
    then have "map (set_daily day a b c) rows = rows"
      by (intro map_idI) (auto simp: day_rows_def set_daily_def filter_empty_conv)
    then show ?thesis using assms 1 by (auto simp: u) (simp add: set_daily_def)
  qed (use assms in \<open>auto simp: u o_def\<close>)
qed

text \<open>A summary that is run again changes nothing: a job that was started twice counts no trade twice.\<close>

theorem daily_summary_idempotent:
  assumes "daily_summary now day db = (db', Inr d)"
  shows "daily_summary now day db' = (db', Inr d)"
proof -
  have "trades_of_day day db' = trades_of_day day db"
    using daily_summary_Inr(6) [OF assms] by (simp add: trades_of_day_def)
  then show ?thesis
    using assms upsert_again [OF daily_summary_Inr(5) [OF assms]] replaced_again
    by (auto simp: daily_summary_def Let_def touch_status_def event_summary_def filter_empty_conv split: sum.splits)
qed

section \<open>Deletions\<close>

lemma archived_or_kept:
  "set rows \<subseteq> set (fst (fst (archive_table pol t ts mode kind now (rows, arch)))) \<union>
    ar_payload ` set (snd (fst (archive_table pol t ts mode kind now (rows, arch))))"
proof (cases "archive_after_days pol (if t = ''bot_events'' then ''bot_events_info'' else t)")
  case None
  then show ?thesis by (auto simp: archive_table_def)
next
  case (Some after)
  let ?row = "\<lambda>(i, r). \<lparr> ar_payload = (i, r), ar_source_id = i, ar_ts = ts r \<rparr>"
  have "ar_payload (?row x) = x" for x by (cases x) simp
  then show ?thesis using Some by (auto simp: archive_table_def Let_def image_Un image_image simp del: split_paired_All)
qed

lemma archive_grows: "set arch \<subseteq> set (snd (fst (archive_table pol t ts mode kind now (rows, arch))))"
  by (auto simp: archive_table_def Let_def split: option.splits)

lemma archive_protects:
  "(i, r) \<in> set rows \<Longrightarrow> is_row_delete_protected t (mode r) (kind r) \<Longrightarrow>
    (i, r) \<in> set (fst (fst (archive_table pol t ts mode kind now (rows, arch))))"
  by (auto simp: archive_table_def Let_def split: option.splits)

lemma cleanup_protects:
  "(i, r) \<in> set rows \<Longrightarrow> is_row_delete_protected t (mode r) None \<Longrightarrow>
    (i, r) \<in> set (fst (cleanup_table pol e t ts mode now rows))"
  by (auto simp: cleanup_table_def Let_def split: option.splits)

lemma archive_job_tables:
  "mt_orders (fst (archive_job pol now db)) = fst (fst (archive_table pol ''orders'' fst (\<lambda>(_, r). ow_mode r) (\<lambda>_. None) now (mt_orders db, mt_orders_archive db)))"
  "mt_fills (fst (archive_job pol now db)) = fst (fst (archive_table pol ''fills'' fw_ts fw_mode (\<lambda>_. None) now (mt_fills db, mt_fills_archive db)))"
  "mt_trades (fst (archive_job pol now db)) = fst (fst (archive_table pol ''trades'' tw_ts tw_mode (\<lambda>_. None) now (mt_trades db, mt_trades_archive db)))"
  "mt_events (fst (archive_job pol now db)) = fst (fst (archive_table pol ''bot_events'' ew_ts (\<lambda>_. None) (\<lambda>r. Some (ew_type r)) now (mt_events db, mt_events_archive db)))"
  "mt_orders_archive (fst (archive_job pol now db)) = snd (fst (archive_table pol ''orders'' fst (\<lambda>(_, r). ow_mode r) (\<lambda>_. None) now (mt_orders db, mt_orders_archive db)))"
  "mt_fills_archive (fst (archive_job pol now db)) = snd (fst (archive_table pol ''fills'' fw_ts fw_mode (\<lambda>_. None) now (mt_fills db, mt_fills_archive db)))"
  "mt_trades_archive (fst (archive_job pol now db)) = snd (fst (archive_table pol ''trades'' tw_ts tw_mode (\<lambda>_. None) now (mt_trades db, mt_trades_archive db)))"
  "mt_events_archive (fst (archive_job pol now db)) = snd (fst (archive_table pol ''bot_events'' ew_ts (\<lambda>_. None) (\<lambda>r. Some (ew_type r)) now (mt_events db, mt_events_archive db)))"
  by (simp_all add: archive_job_def touch_status_def Let_def split: prod.splits)

text \<open>The archive loses nothing: after the job every order, fill, trade and event is still in its table or
  stands in the archive as it was, and what the archive held it still holds.\<close>

theorem archive_loses_nothing:
  "let db' = fst (archive_job pol now db) in
    set (mt_orders db) \<subseteq> set (mt_orders db') \<union> ar_payload ` set (mt_orders_archive db') \<and>
    set (mt_fills db) \<subseteq> set (mt_fills db') \<union> ar_payload ` set (mt_fills_archive db') \<and>
    set (mt_trades db) \<subseteq> set (mt_trades db') \<union> ar_payload ` set (mt_trades_archive db') \<and>
    set (mt_events db) \<subseteq> set (mt_events db') \<union> ar_payload ` set (mt_events_archive db') \<and>
    set (mt_trades_archive db) \<subseteq> set (mt_trades_archive db')"
  unfolding Let_def archive_job_tables by (intro conjI archived_or_kept archive_grows)

text \<open>The rows no job may delete.\<close>

definition untouchable :: "maintained \<Rightarrow> (int \<times> (int \<times> order_row)) set \<times> (int \<times> fill_row) set \<times> (int \<times> trade_row) set \<times> (int \<times> bot_event_row) set" where
  "untouchable db =
    ({(i, r). (i, r) \<in> set (mt_orders db) \<and> ow_mode (snd r) = Some ''LIVE''},
     {(i, r). (i, r) \<in> set (mt_fills db) \<and> fw_mode r = Some ''LIVE''},
     {(i, r). (i, r) \<in> set (mt_trades db) \<and> tw_mode r = Some ''LIVE''},
     {(i, r). (i, r) \<in> set (mt_events db) \<and> ew_type r \<in> protected_event_types})"

lemma protected_tables:
  "is_row_delete_protected ''orders'' (Some ''LIVE'') e" "is_row_delete_protected ''fills'' (Some ''LIVE'') e"
  "is_row_delete_protected ''trades'' (Some ''LIVE'') e"
  "x \<in> protected_event_types \<Longrightarrow> is_row_delete_protected t m (Some x)"
  by (simp_all add: is_row_delete_protected_def is_live_protected_table_def live_protected_tables_def is_protected_event_def)

lemma table_subsets:
  "set (fst (fst (archive_table pol t ts mode kind now (rows, arch)))) \<subseteq> set rows"
  "set (fst (cleanup_table pol e t ts mode now rows)) \<subseteq> set rows"
  by (auto simp: archive_table_def cleanup_table_def Let_def split: option.splits)

lemma archive_keeps:
  "(\<And>r. P r \<Longrightarrow> is_row_delete_protected t (mode r) (kind r)) \<Longrightarrow>
    {(i, r). (i, r) \<in> set (fst (fst (archive_table pol t ts mode kind now (rows, arch)))) \<and> P r} = {(i, r). (i, r) \<in> set rows \<and> P r}"
  using table_subsets(1) [of pol t ts mode kind now rows arch] archive_protects [of _ _ rows t mode kind pol ts now arch] by blast

lemma cleanup_keeps:
  "(\<And>r. P r \<Longrightarrow> is_row_delete_protected t (mode r) None) \<Longrightarrow>
    {(i, r). (i, r) \<in> set (fst (cleanup_table pol e t ts mode now rows)) \<and> P r} = {(i, r). (i, r) \<in> set rows \<and> P r}"
  using table_subsets(2) [of pol e t ts mode now rows] cleanup_protects [of _ _ rows t mode pol e ts now] by blast

lemma archive_untouchable: "untouchable (fst (archive_job pol now db)) = untouchable db"
  unfolding untouchable_def archive_job_tables prod.inject
  by (intro conjI archive_keeps) (auto intro: protected_tables)

lemma cleanup_job_tables:
  "mt_orders (fst (retention_cleanup pol now db)) = fst (cleanup_table pol (mt_daily db \<noteq> []) ''orders'' fst (\<lambda>(_, r). ow_mode r) now (mt_orders db))"
  "mt_fills (fst (retention_cleanup pol now db)) = fst (cleanup_table pol (mt_daily db \<noteq> []) ''fills'' fw_ts fw_mode now (mt_fills db))"
  "mt_trades (fst (retention_cleanup pol now db)) = fst (cleanup_table pol (mt_daily db \<noteq> []) ''trades'' tw_ts tw_mode now (mt_trades db))"
  "mt_events (fst (retention_cleanup pol now db)) = filter (\<lambda>(i, r). event_stays pol now r) (mt_events db)"
  by (simp_all add: retention_cleanup_def touch_status_def Let_def split: prod.splits)

lemma protected_event_stays: "ew_type r \<in> protected_event_types \<Longrightarrow> event_stays pol now r"
  by (simp add: event_stays_def is_protected_event_def split: option.split)

lemma cleanup_untouchable: "untouchable (fst (retention_cleanup pol now db)) = untouchable db"
  unfolding untouchable_def cleanup_job_tables prod.inject
  by (intro conjI cleanup_keeps) (auto intro: protected_tables protected_event_stays)

lemma summary_untouchable: "untouchable (fst (daily_summary now day db)) = untouchable db"
  by (simp add: daily_summary_def untouchable_def touch_status_def Let_def split: sum.split)

lemma job_untouchable: "untouchable (wk_db (run_job up now j w)) = untouchable (wk_db w)"
  by (simp add: run_job_def archive_untouchable cleanup_untouchable summary_untouchable split: job.split)
    (simp add: untouchable_def touch_status_def)

text \<open>C12. No maintenance job ever deletes what must be kept: whatever jobs run, at whatever times, in whatever
  order, under whatever retention policy and with the database up or down, the LIVE orders, fills and trades
  and the events of the protected types are afterwards exactly those there were.\<close>

theorem live_rows_never_deleted:
  "untouchable (wk_db (fold (\<lambda>(up, now, j). run_job up now j) runs w)) = untouchable (wk_db w)"
  by (induction runs arbitrary: w) (auto simp: job_untouchable)

section \<open>The schedule\<close>

text \<open>A daily job waits for the next time of the day it is set to in Korea, never for more than a day and never
  for none, so it runs once a day.\<close>

theorem until_kst_bounds:
  assumes "0 \<le> hour" "hour < 24" "0 \<le> minute" "minute < 60"
  shows "0 < until_kst hour minute now \<and> until_kst hour minute now \<le> day_us \<and>
    (now + kst_offset + until_kst hour minute now) mod day_us = (hour * 60 + minute) * 60000000"
proof -
  let ?l = "now + kst_offset" and ?m = "(hour * 60 + minute) * 60000000"
  have m: "0 \<le> ?m" "?m < day_us" using assms by (simp_all add: day_us_def)
  have r: "0 \<le> ?l mod day_us" "?l mod day_us < day_us" by (simp_all add: day_us_def)
  define q where "q = ?l div day_us"
  have l: "?l = q * day_us + ?l mod day_us" by (simp add: q_def)
  have "?l + until_kst hour minute now = (if ?m \<le> ?l mod day_us then (q + 1) * day_us + ?m else q * day_us + ?m)"
    unfolding until_kst_def Let_def using l by (auto simp: algebra_simps)
  then have "(?l + until_kst hour minute now) mod day_us = ?m" using m by simp
  moreover have "until_kst hour minute now = (if ?m \<le> ?l mod day_us then day_us + ?m - ?l mod day_us else ?m - ?l mod day_us)"
    by (auto simp: until_kst_def Let_def)
  ultimately have e: "(?l + until_kst hour minute now) mod day_us = ?m"
      "until_kst hour minute now = (if ?m \<le> ?l mod day_us then day_us + ?m - ?l mod day_us else ?m - ?l mod day_us)" by blast+
  show ?thesis
    by (cases "?m \<le> ?l mod day_us") (intro conjI; use e m r in \<open>simp only: if_True if_False; linarith\<close>)+
qed

lemma until_kst_bounds_witness:
  "0 < until_kst 0 5 1704121500000000 \<and> until_kst 0 5 1704121500000000 \<le> day_us \<and>
    (1704121500000000 + kst_offset + until_kst 0 5 1704121500000000) mod day_us = 300000000"
  using until_kst_bounds [of 0 5 1704121500000000] by simp

section \<open>A small database\<close>

definition ex_trade :: "int \<Rightarrow> string \<Rightarrow> trade_row" where
  "ex_trade t mode =
    \<lparr> tw_ts = t, tw_trade_id = Some ''t1'', tw_symbol = ''BTCUSDT'', tw_side = ''LONG'', tw_qty = ''1'', tw_entry_price = ''100'',
      tw_exit_price = Some ''110'', tw_realized_pnl = ''10'', tw_exit_reason = None, tw_strategy_id = None,
      tw_entry_mode = None, tw_mode = Some mode, tw_leverage = None, tw_fees = ''1'', tw_funding_fees = ''0'',
      tw_gross_pnl = None, tw_net_pnl = Some ''9'', tw_r_multiple = None, tw_opened_at = None, tw_closed_at = Some t \<rparr>"

definition ex_error_event :: "int \<Rightarrow> bot_event_row" where
  "ex_error_event t =
    \<lparr> ew_ts = t, ew_type = ''ORDER_FAILED'', ew_symbol = None, ew_message = [], ew_data = [], ew_severity = ''ERROR'' \<rparr>"

fun enumerate_rows :: "int \<Rightarrow> 'a list \<Rightarrow> 'a table" where
  "enumerate_rows n [] = []"
| "enumerate_rows n (x # xs) = (n, x) # enumerate_rows (n + 1) xs"

definition ex_maintained :: "trade_row list \<Rightarrow> bot_event_row list \<Rightarrow> maintained" where
  "ex_maintained ts es =
    \<lparr> mt_orders = [], mt_fills = [], mt_trades = enumerate_rows 1 ts, mt_events = enumerate_rows 1 es, mt_reconciliations = [],
      mt_manual = [], mt_orders_archive = [], mt_fills_archive = [], mt_trades_archive = [], mt_events_archive = [],
      mt_reconciliations_archive = [], mt_daily = [], mt_symbol_pnl = [], mt_strategy_pnl = [], mt_entry_mode_pnl = [],
      mt_event_summary = [], mt_manual_summary = [], mt_status = None \<rparr>"

lemma ex_summary_runs:
  "\<exists>db'. daily_summary 0 ''1970-01-01'' (ex_maintained [ex_trade 0 ''LIVE''] []) = (db', Inr ''1970-01-01'')"
  by (simp add: daily_summary_def upsert_daily_def ex_maintained_def Let_def)

lemma ex_days: "iso_day 0 = ''1970-01-01''" "iso_day 1704121500000000 = ''2024-01-01''"
  by code_simp+

lemma daily_summary_idempotent_witness:
  "\<exists>db'. daily_summary 0 ''1970-01-01'' (ex_maintained [ex_trade 0 ''LIVE''] []) = (db', Inr ''1970-01-01'') \<and>
    daily_summary 0 ''1970-01-01'' db' = (db', Inr ''1970-01-01'')"
  using ex_summary_runs daily_summary_idempotent [of 0 "''1970-01-01''" "ex_maintained [ex_trade 0 ''LIVE''] []"] by blast

section \<open>Where the jobs do less than they say\<close>

text \<open>A LIVE trade older than a year is archived again by every nightly run: it may not be deleted, and nothing
  marks it as archived.\<close>

lemma live_rows_archived_again:
  "map ar_payload (mt_trades_archive (fst (archive_job default_policy (401 * day_us)
      (fst (archive_job default_policy (400 * day_us) (ex_maintained [ex_trade 0 ''LIVE''] [])))))) =
    [(1, ex_trade 0 ''LIVE''), (1, ex_trade 0 ''LIVE'')]"
  by code_simp

text \<open>An error event leaves its table after a month, not after the five years of its own policy entry: the archive
  uses the entry of \<open>INFO\<close> events for all of them.\<close>

lemma error_events_leave_early:
  "mt_events (fst (archive_job default_policy (31 * day_us) (ex_maintained [] [ex_error_event 0]))) = [] \<and>
   keep_days default_policy (event_table (ex_error_event 0)) = Some 1825"
  by code_simp

text \<open>The summary of a day is made at 0:05 in Korea, 15:05 UTC, of the trades whose UTC date is that day. A trade
  closed at 20:00 UTC comes after the run for its date, and the next run is for the next date.\<close>

lemma evening_trades_never_summarised:
  "let run = 19723 * day_us + (15 * 60 + 5) * 60000000; closed = 19723 * day_us + 20 * 60 * 60000000 in
    until_kst 0 5 (run - 1) = 1 \<and> run < closed \<and>
    yesterday_kst run = day_of (Some closed) closed \<and> yesterday_kst (run + day_us) \<noteq> day_of (Some closed) closed"
  by code_simp

end
