(* ===== verification/Dashboard.thy ===== *)
theory Dashboard
  imports Api_Commands Retention "HOL-Library.Product_Lexorder" "HOL-Library.List_Lexorder" "HOL-Library.Char_ord"
begin

text \<open>
  What the dashboard reads (\<^verbatim>\<open>apps/api/services/position_service.py\<close>, \<^verbatim>\<open>bot_status_service.py\<close>,
  \<^verbatim>\<open>watchlist_service.py\<close>, \<^verbatim>\<open>repositories/position_repository.py\<close>, \<^verbatim>\<open>repositories/event_repository.py\<close>):
  the Redis keys the bot publishes first, the database when they are missing or not readable. A service
  that reads a JSON object uses \<open>d.get\<close>; an element that is not an object makes it raise.
\<close>

section \<open>Positions\<close>

type_synonym fields = "(string \<times> json) list"

definition look_or :: "string \<Rightarrow> json \<Rightarrow> fields \<Rightarrow> json" where
  "look_or k d m = (case map_of m k of None \<Rightarrow> d | Some v \<Rightarrow> v)"

definition look :: "string \<Rightarrow> fields \<Rightarrow> json" where
  "look k m = look_or k JNull m"

text \<open>\<open>_qty_is_positive\<close> of the service: a value that is no number counts as positive.\<close>

definition snapshot_qty_positive :: "json \<Rightarrow> bool" where
  "snapshot_qty_positive v =
    (case v of JStr s \<Rightarrow> qty_is_positive s | JInt n \<Rightarrow> 0 < n | _ \<Rightarrow> True)"

definition is_open_snapshot :: "fields \<Rightarrow> bool" where
  "is_open_snapshot m =
    (if look ''status'' m \<noteq> JNull \<and> look ''status'' m \<notin> JStr ` open_statuses then False
     else snapshot_qty_positive (look ''qty'' m))"

definition shown_source :: "json \<Rightarrow> json \<Rightarrow> json" where
  "shown_source source manual =
    (if source = JStr ''BOT'' \<and> manual \<notin> {JNull, JStr ''0'', JStr ''0.0''} then JStr ''MANUAL_ADDED'' else source)"

definition from_snapshot :: "string option \<Rightarrow> fields \<Rightarrow> fields" where
  "from_snapshot mode m =
    (let manual = look_or ''manual_added_qty'' (JStr ''0'') m;
         source = shown_source (look_or ''source'' (JStr ''BOT'') m) manual
     in [(''symbol'', look ''symbol'' m), (''side'', look ''side'' m), (''source'', source),
         (''mode'', if json_true (look ''mode'' m) then look ''mode'' m else json_opt mode),
         (''qty'', look ''qty'' m), (''manual_added_qty'', manual), (''avg_entry_price'', look ''avg_entry_price'' m),
         (''mark_price'', look ''mark_price'' m), (''unrealized_pnl'', look ''unrealized_pnl'' m),
         (''unrealized_pnl_percent'', look ''unrealized_pnl_percent'' m), (''leverage'', look ''leverage'' m),
         (''entry_mode'', look ''entry_mode'' m), (''strategy_id'', look ''strategy_id'' m),
         (''protection_status'', look_or ''protection_status'' (JStr ''UNKNOWN'') m),
         (''stop_loss_price'', look ''stop_loss'' m), (''take_profit_price'', look ''take_profit'' m),
         (''opened_at'', look ''opened_at'' m), (''runner_mode_active'', look_or ''runner_mode_active'' (JBool False) m),
         (''runner_trend_strength'', look ''runner_trend_strength'' m),
         (''runner_trailing_atr_multiplier'', look ''runner_trailing_atr_multiplier'' m),
         (''last_runner_trailing_stop'', look ''last_runner_trailing_stop'' m)])"

text \<open>\<open>datetime.isoformat()\<close> of a time in UTC.\<close>

definition iso_time :: "int \<Rightarrow> string" where
  "iso_time t =
    (let s = t div 1000000 mod 86400; us = t mod 1000000
     in iso_day t @ ''T'' @ pad 2 (s div 3600) @ '':'' @ pad 2 (s div 60 mod 60) @ '':'' @ pad 2 (s mod 60) @
        (if us = 0 then [] else ''.'' @ pad 6 us) @ ''+00:00'')"

text \<open>The columns of the row that \<open>_from_row\<close> reads, and what it makes of them.\<close>

definition from_row :: "position_row \<Rightarrow> fields" where
  "from_row r =
    [(''symbol'', JStr (pw_symbol r)), (''side'', JStr (pw_side r)),
     (''source'', shown_source (JStr (pw_source r)) (JStr (pw_manual_added_qty r))), (''mode'', json_opt (pw_mode r)),
     (''qty'', JStr (pw_qty r)), (''manual_added_qty'', JStr (pw_manual_added_qty r)),
     (''avg_entry_price'', JStr (pw_avg_entry_price r)), (''mark_price'', json_opt (pw_mark_price r)),
     (''unrealized_pnl'', json_opt (pw_unrealized_pnl r)), (''leverage'', json_opt (pw_leverage r)),
     (''entry_mode'', json_opt (pw_entry_mode r)), (''strategy_id'', json_opt (pw_strategy_id r)),
     (''protection_status'', json_opt (pw_protection_status r)), (''stop_loss_price'', json_opt (pw_stop_loss_price r)),
     (''take_profit_price'', json_opt (pw_take_profit_price r)),
     (''opened_at'', json_opt (map_option iso_time (pw_opened_at r)))]"

record listing =
  ls_positions :: "fields list"
  ls_source :: string
  ls_degraded :: bool

definition object_of :: "json \<Rightarrow> fields result" where
  "object_of d = (case d of JObj m \<Rightarrow> Inr m | _ \<Rightarrow> Inl TypeError)"

definition list_from_database :: "bool \<Rightarrow> database \<Rightarrow> listing" where
  "list_from_database degraded db =
    \<lparr> ls_positions = map from_row (list_open db), ls_source = ''postgres'', ls_degraded = degraded \<rparr>"

text \<open>\<open>list_positions\<close>; \<open>up\<close> says whether Redis answers. Data that cannot be iterated falls through to the database,
  an element without \<open>get\<close> does not.\<close>

definition list_positions :: "bool \<Rightarrow> board \<Rightarrow> database \<Rightarrow> listing result" where
  "list_positions up b db =
    (if \<not> up then Inr (list_from_database True db)
     else case bd_json b bot_positions_key of
       None \<Rightarrow> Inr (list_from_database False db)
     | Some None \<Rightarrow> Inr (list_from_database True db)
     | Some (Some data) \<Rightarrow>
         (case json_elements data of
            Inl _ \<Rightarrow> Inr (list_from_database True db)
          | Inr es \<Rightarrow>
              bind_res (map_res object_of es) (\<lambda>ms.
                Inr \<lparr> ls_positions = map (from_snapshot (bd_text b bot_mode_key)) (filter is_open_snapshot ms),
                      ls_source = ''redis'', ls_degraded = False \<rparr>)))"

definition position_exists :: "bool \<Rightarrow> board \<Rightarrow> database \<Rightarrow> string \<Rightarrow> bool result" where
  "position_exists up b db y =
    bind_res (list_positions up b db) (\<lambda>l. Inr (list_ex (\<lambda>m. look ''symbol'' m = JStr y) (ls_positions l)))"

text \<open>\<open>list_stale_open_snapshots\<close>: rows are newest first; each is compared with the newest of its symbol.\<close>

fun stale_rows :: "(string \<rightharpoonup> position_row) \<Rightarrow> position_row list \<Rightarrow> position_row list" where
  "stale_rows newest [] = []"
| "stale_rows newest (r # rs) =
    (case newest (pw_symbol r) of
       None \<Rightarrow> stale_rows (newest(pw_symbol r \<mapsto> r)) rs
     | Some l \<Rightarrow>
         if pw_status l = ''CLOSED'' \<and> pw_status r \<in> open_statuses then r # stale_rows newest rs else stale_rows newest rs)"

definition list_stale_open_snapshots :: "database \<Rightarrow> position_row list" where
  "list_stale_open_snapshots db = stale_rows Map.empty (rev (db_positions db))"

section \<open>Status\<close>

record status_view =
  stv_state :: string
  stv_mode :: "string option"
  stv_heartbeat_at :: "string option"
  stv_is_alive :: bool
  stv_is_trading_enabled :: bool
  stv_degraded :: bool

definition heartbeat_to_iso :: "string option \<Rightarrow> string option" where
  "heartbeat_to_iso raw =
    (case raw of None \<Rightarrow> None
     | Some t \<Rightarrow> (case parse_int t of Inl _ \<Rightarrow> None | Inr n \<Rightarrow> Some (iso_time (n * 1000))))"

text \<open>The risk, protection and reconciliation status and the last event are passed on as they are.\<close>

definition get_status :: "api_world \<Rightarrow> board \<Rightarrow> status_view" where
  "get_status w b =
    (if \<not> aw_redis_up w
     then \<lparr> stv_state = ''UNKNOWN'', stv_mode = None, stv_heartbeat_at = None, stv_is_alive = False,
            stv_is_trading_enabled = False, stv_degraded = True \<rparr>
     else
       let status = bd_text b bot_status_key; hb = bd_text b bot_heartbeat_key; alive = heartbeat_alive w hb;
           st = (if truthy status \<and> \<not> alive then ''DISCONNECTED'' else or_text status ''UNKNOWN'')
       in \<lparr> stv_state = st, stv_mode = bd_text b bot_mode_key, stv_heartbeat_at = heartbeat_to_iso hb, stv_is_alive = alive,
            stv_is_trading_enabled = (st = ''RUNNING''), stv_degraded = False \<rparr>)"

section \<open>The watch list\<close>

definition readiness_rank :: "(string \<times> int) list" where
  "readiness_rank = [(''BREAKOUT'', 0), (''NEAR'', 1), (''SCOUT_ZONE'', 2), (''WATCHING'', 3), (''NO_SIGNAL'', 4)]"

text \<open>\<open>str\<close> of a value: of a text itself, of \<open>None\<close> and the truth values their names; an entry's other values do
  not occur as a readiness or a symbol.\<close>

definition str_of :: "json \<Rightarrow> string" where
  "str_of v = (case v of JStr s \<Rightarrow> s | JNull \<Rightarrow> ''None'' | JBool b \<Rightarrow> if b then ''True'' else ''False''
    | JInt n \<Rightarrow> int_text n | _ \<Rightarrow> [])"

definition watch_score :: "fields \<Rightarrow> dec" where
  "watch_score m =
    (case look ''signal_score'' m of
       JStr s \<Rightarrow> if s = [] then 0 else dec_or_zero (Some s)
     | JInt n \<Rightarrow> of_int n
     | _ \<Rightarrow> 0)"

definition watch_key :: "fields \<Rightarrow> int \<times> dec \<times> string" where
  "watch_key m =
    (case map_of readiness_rank (str_of (look ''readiness'' m)) of None \<Rightarrow> 9 | Some n \<Rightarrow> n,
     - watch_score m, str_of (look_or ''symbol'' (JStr []) m))"

record watch_view =
  wv_watchlist :: "fields list"
  wv_count :: nat
  wv_mode :: "string option"
  wv_bot_state :: string
  wv_degraded :: bool

fun objects_in :: "json list \<Rightarrow> fields list" where
  "objects_in [] = []"
| "objects_in (d # ds) = (case d of JObj m \<Rightarrow> m # objects_in ds | _ \<Rightarrow> objects_in ds)"

definition get_watchlist :: "bool \<Rightarrow> board \<Rightarrow> watch_view" where
  "get_watchlist up b =
    (let raw = (if up then bd_json b bot_watchlist_key else None);
         (entries, bad) = (case raw of
             None \<Rightarrow> ([], False)
           | Some (Some (JList ds)) \<Rightarrow> (objects_in ds, False)
           | Some _ \<Rightarrow> ([], True));
         sorted = sort_key watch_key entries
     in \<lparr> wv_watchlist = sorted, wv_count = length sorted, wv_mode = (if up then bd_text b bot_mode_key else None),
          wv_bot_state = or_text (if up then bd_text b bot_status_key else None) ''UNKNOWN'', wv_degraded = (\<not> up \<or> bad) \<rparr>)"

section \<open>Events\<close>

text \<open>A stored severity may be missing in old rows. The filter is the condition of the query.\<close>

definition derive_severity :: "string \<Rightarrow> string option \<Rightarrow> string" where
  "derive_severity ty stored = event_severity ty stored"

definition severity_filter :: "string \<Rightarrow> string \<Rightarrow> string option \<Rightarrow> bool" where
  "severity_filter severity ty stored =
    (let v = upper severity in
     if v = ''INFO'' then (stored = Some ''INFO'' \<or> stored = None) \<and> ty \<notin> non_info_event_types
     else if event_types_for_severity v = {} then stored = Some v
     else stored = Some v \<or> (stored = Some ''INFO'' \<or> stored = None) \<and> ty \<in> event_types_for_severity v)"

definition paginate :: "int \<Rightarrow> int \<Rightarrow> 'a list \<Rightarrow> 'a list" where
  "paginate n offset xs = take (nat (max 1 (min n 500))) (drop (nat (max 0 offset)) xs)"

record event_query =
  evq_type :: "string option"
  evq_severity :: "string option"
  evq_symbol :: "string option"
  evq_from :: "int option"
  evq_to :: "int option"
  evq_limit :: int
  evq_offset :: int

definition event_matches :: "event_query \<Rightarrow> bot_event_row \<Rightarrow> bool" where
  "event_matches q r \<longleftrightarrow>
    (case evq_type q of None \<Rightarrow> ew_type r \<noteq> ''NO_ENTRY_REASON'' | Some t \<Rightarrow> ew_type r = t) \<and>
    (case evq_symbol q of None \<Rightarrow> True | Some y \<Rightarrow> ew_symbol r = Some y) \<and>
    (case evq_severity q of None \<Rightarrow> True | Some v \<Rightarrow> severity_filter v (ew_type r) (Some (ew_severity r))) \<and>
    (case evq_from q of None \<Rightarrow> True | Some t \<Rightarrow> t \<le> ew_ts r) \<and> (case evq_to q of None \<Rightarrow> True | Some t \<Rightarrow> ew_ts r \<le> t)"

definition list_events :: "event_query \<Rightarrow> database \<Rightarrow> bot_event_row list" where
  "list_events q db =
    map (\<lambda>r. r\<lparr> ew_severity := derive_severity (ew_type r) (Some (ew_severity r)) \<rparr>)
      (paginate (evq_limit q) (evq_offset q) (filter (event_matches q) (rev (db_events db))))"

definition latest_event :: "database \<Rightarrow> bot_event_row option" where
  "latest_event db =
    map_option (\<lambda>r. r\<lparr> ew_severity := derive_severity (ew_type r) (Some (ew_severity r)) \<rparr>)
      (first_match (\<lambda>r. ew_type r \<noteq> ''NO_ENTRY_REASON'') (rev (db_events db)))"

text \<open>
  From the bot to the dashboard: what the bot publishes is what the API shows, for as long as the heartbeat
  is fresh; the severity filter of the event query finds exactly the events the API would give that severity.
\<close>

section \<open>Integers as text\<close>

lemma nat_text_digits: "digital (nat_text n)" "nat_text n \<noteq> []" "take 1 (nat_text n) \<noteq> ''-''" "take 1 (nat_text n) \<noteq> ''+''"
proof -
  show d: "digital (nat_text n)" "nat_text n \<noteq> []" by simp_all
  then show "take 1 (nat_text n) \<noteq> ''-''" "take 1 (nat_text n) \<noteq> ''+''"
    using digital_not(4,5) [of "nat_text n" "hd (nat_text n)"] by (cases "nat_text n"; simp)+
qed

lemma parse_int_text: "parse_int (int_text n) = Inr n"
proof (cases "n < 0")
  case True
  then show ?thesis by (simp add: parse_int_def int_text_def nat_text_value)
next
  case False
  then show ?thesis
    using nat_text_digits [of "nat n"] by (simp add: parse_int_def int_text_def nat_text_value Let_def)
qed

section \<open>Status\<close>

definition fresh :: "api_world \<Rightarrow> int \<Rightarrow> bool" where
  "fresh w t \<longleftrightarrow> aw_now_ms w - t \<le> aw_alive_sec w * 1000"

lemma int_text_not_empty: "int_text n \<noteq> []"
  by (simp add: int_text_def)

lemma heartbeat_fresh: "heartbeat_alive w (Some (int_text t)) = fresh w t"
  by (simp add: heartbeat_alive_def truthy_def int_text_not_empty parse_int_text fresh_def)

lemma board_keys [simp]:
  "bot_status_key \<noteq> bot_mode_key" "bot_status_key \<noteq> bot_heartbeat_key" "bot_mode_key \<noteq> bot_heartbeat_key"
  "bot_mode_key \<noteq> bot_status_key" "bot_heartbeat_key \<noteq> bot_status_key" "bot_heartbeat_key \<noteq> bot_mode_key"
  "bot_positions_key \<noteq> bot_pnl_key" "bot_positions_key \<noteq> bot_protection_status_key"
  by (simp_all add: bot_status_key_def bot_mode_key_def bot_heartbeat_key_def bot_positions_key_def bot_pnl_key_def
      bot_protection_status_key_def)

lemma bot_state_value_facts: "bot_state_value st \<noteq> []" "bot_state_value st = ''RUNNING'' \<longleftrightarrow> st = RUNNING"
  by (cases st; simp)+

text \<open>C32. The status the API gives follows the bot: as long as the last heartbeat is not older than the limit it is the
  state the bot published, afterwards \<open>DISCONNECTED\<close>, and trading is shown as enabled exactly when the bot is
  \<open>RUNNING\<close> and alive.\<close>

theorem status_follows_heartbeat:
  assumes "aw_redis_up w"
  shows "get_status w (snd (beat_once rd t st mode (rl, b))) =
    \<lparr> stv_state = (if fresh w t then bot_state_value st else ''DISCONNECTED''), stv_mode = Some (bot_mode_value mode),
      stv_heartbeat_at = Some (iso_time (t * 1000)), stv_is_alive = fresh w t,
      stv_is_trading_enabled = (fresh w t \<and> st = RUNNING), stv_degraded = False \<rparr>"
  using assms bot_state_value_facts [of st]
  by (simp add: get_status_def beat_once_def set_text_def heartbeat_fresh heartbeat_to_iso_def parse_int_text truthy_def or_text_def Let_def)

lemma status_follows_heartbeat_witness:
  "stv_state (get_status (\<lparr> aw_redis_up = True, aw_db_up = True, aw_queue_up = True, aw_now = 0, aw_now_ms = 20000, aw_alive_sec = 15,
      aw_command_id = [], aw_config_mode = PAPER, aw_auth_enabled = False, aw_token = [], aw_header = [] \<rparr>)
    (snd (beat_once own_redis 1000 RUNNING LIVE (((0, Map.empty), new_runtime_lock lock_live 20 ''a''),
      \<lparr> bd_text = Map.empty, bd_json = Map.empty, bd_risk = None, bd_reconciliation = None \<rparr>)))) = ''DISCONNECTED''"
  by (simp add: status_follows_heartbeat fresh_def)

section \<open>Positions\<close>

definition shown_view :: "fields \<Rightarrow> json list" where
  "shown_view m = map (\<lambda>k. look k m)
    [''symbol'', ''side'', ''mode'', ''qty'', ''avg_entry_price'', ''leverage'', ''unrealized_pnl'', ''stop_loss_price'', ''take_profit_price'', ''entry_mode'']"

definition position_view :: "bot_mode \<Rightarrow> position \<Rightarrow> json list" where
  "position_view mode p =
    [JStr (p_symbol p), JStr (position_side_value (p_side p)), JStr (bot_mode_value mode), JStr (str_dec (p_qty p)),
     JStr (str_dec (p_avg_entry_price p)), JStr (str_dec (p_leverage p)), JStr (str_dec (p_unrealized_pnl p)),
     json_opt (text_opt (p_stop_loss_price p)), json_opt (text_opt (p_take_profit_price p)),
     json_opt (map_option entry_mode_value (p_entry_mode p))]"

lemma look_simps [simp]:
  "look k ((k', v) # m) = (if k = k' then v else look k m)" "look k [] = JNull"
  "look_or k d ((k', v) # m) = (if k = k' then v else look_or k d m)" "look_or k d [] = d"
  by (simp_all add: look_def look_or_def)

lemma mode_text [simp]: "bot_mode_value m \<noteq> []"
  by (cases m) simp_all

lemma snapshot_view: "shown_view (from_snapshot m' (position_fields (Some mode) sl tp p)) = position_view mode p"
  by (simp add: shown_view_def from_snapshot_def position_fields_def position_view_def json_opt_def Let_def)

lemma snapshot_open:
  "is_dec (p_qty p) \<Longrightarrow> is_open_position p \<Longrightarrow> is_open_snapshot (position_fields mode sl tp p) = (0 < p_qty p)"
  by (cases "p_status p")
    (auto simp: is_open_snapshot_def position_fields_def open_statuses_def is_open_position_def snapshot_qty_positive_def
      qty_is_positive_def parse_str_dec)

lemma published_positions: "bd_json (publish_board sp t st (Some ps) pnl risk prot recon b) bot_positions_key = Some (Some (positions_json sp ps))"
  by (simp add: publish_board_def when_some_def set_text_def set_json_def split: option.split)

lemma objects_read: "map_res object_of (map JObj ms) = Inr ms"
  by (induction ms) (simp_all add: object_of_def)

text \<open>C19. The dashboard shows the bot's positions: after the bot has published, the API lists from Redis exactly the
  positions that are not closed and have a quantity, in the bot's order, each with its symbol, side, mode,
  quantity, prices, leverage, result, stop and target as the bot holds them.\<close>

theorem dashboard_shows_positions:
  assumes "\<forall>p\<in>set ps. is_dec (p_qty p)"
  shows "\<exists>l. list_positions True (publish_board sp t st (Some ps) pnl risk prot recon b) db = Inr l \<and> ls_source l = ''redis'' \<and>
    map shown_view (ls_positions l) = map (position_view (sp_mode sp)) (filter (\<lambda>p. is_open_position p \<and> 0 < p_qty p) ps)"
proof -
  let ?f = "position_fields (Some (sp_mode sp)) (sp_require_sl sp) (sp_require_tp sp)"
  let ?es = "map ?f (filter is_open_position ps)"
  have "positions_json sp ps = JList (map JObj ?es)" by (simp add: positions_json_def)
  then have l: "list_positions True (publish_board sp t st (Some ps) pnl risk prot recon b) db =
      Inr \<lparr> ls_positions = map (from_snapshot (bd_text (publish_board sp t st (Some ps) pnl risk prot recon b) bot_mode_key))
          (filter is_open_snapshot ?es), ls_source = ''redis'', ls_degraded = False \<rparr>"
    by (simp add: list_positions_def published_positions json_elements_def objects_read del: map_map)
  have "filter is_open_snapshot ?es = map ?f (filter (\<lambda>p. is_open_position p \<and> 0 < p_qty p) ps)"
    using assms by (induction ps) (auto simp: snapshot_open)
  with l show ?thesis by (simp add: snapshot_view)
qed

lemma dashboard_shows_positions_witness:
  "\<exists>l. list_positions True (publish_board \<lparr> sp_mode = LIVE, sp_require_sl = True, sp_require_tp = False \<rparr> 0 RUNNING
      (Some [(new_position ''BTCUSDT'' LONG 1 100 0)\<lparr> p_status := ACTIVE \<rparr>]) None None None None
      \<lparr> bd_text = Map.empty, bd_json = Map.empty, bd_risk = None, bd_reconciliation = None \<rparr>) empty_database = Inr l \<and>
    ls_source l = ''redis'' \<and>
    map shown_view (ls_positions l) = [position_view LIVE ((new_position ''BTCUSDT'' LONG 1 100 0)\<lparr> p_status := ACTIVE \<rparr>)]"
  using dashboard_shows_positions [of "[(new_position ''BTCUSDT'' LONG 1 100 0)\<lparr> p_status := ACTIVE \<rparr>]"
      "\<lparr> sp_mode = LIVE, sp_require_sl = True, sp_require_tp = False \<rparr>" 0 RUNNING None None None None
      "\<lparr> bd_text = Map.empty, bd_json = Map.empty, bd_risk = None, bd_reconciliation = None \<rparr>" empty_database]
  by (simp add: new_position_def is_open_position_def)

section \<open>Events\<close>

definition stored_ok :: "string option \<Rightarrow> bool" where
  "stored_ok stored \<longleftrightarrow> (case stored of None \<Rightarrow> True | Some s \<Rightarrow> s \<noteq> [] \<and> upper s = s)"

lemma upper_twice [simp]: "upper (upper s) = upper s"
proof -
  have "upper_char (upper_char c) = upper_char c" for c
    by (auto simp: upper_char_def Let_def of_char_of)
  then show ?thesis by (simp add: upper_def)
qed

lemma severity_events:
  "event_types_for_severity ''CRITICAL'' = set critical_events" "event_types_for_severity ''ERROR'' = set error_events"
  "event_types_for_severity ''WARNING'' = set warning_events"
  "upper ''CRITICAL'' = ''CRITICAL''" "upper ''ERROR'' = ''ERROR''" "upper ''WARNING'' = ''WARNING''" "upper ''INFO'' = ''INFO''"
  by (simp_all add: event_types_for_severity_def severity_to_events_def upper_def upper_char_def)

lemma severity_events_empty: "event_types_for_severity v = {} \<longleftrightarrow> upper v \<notin> {''CRITICAL'', ''ERROR'', ''WARNING''}"
  by (simp add: event_types_for_severity_def severity_to_events_def critical_events_def error_events_def warning_events_def)

lemma unstored_severity:
  "stored = None \<or> stored = Some ''INFO'' \<Longrightarrow> derive_severity ty stored =
    (if ty \<in> set critical_events then ''CRITICAL'' else if ty \<in> set error_events then ''ERROR''
     else if ty \<in> set warning_events then ''WARNING'' else ''INFO'')"
  by (auto simp: derive_severity_def event_severity_def severity_to_events_def severity_events)

lemma stored_severity: "s \<noteq> [] \<Longrightarrow> s \<noteq> ''INFO'' \<Longrightarrow> derive_severity ty (Some s) = upper s"
  by (simp add: derive_severity_def event_severity_def)

text \<open>The severity filter of the event query is exact: for every event type and every stored severity the bot
  writes, and for old rows without one, the query's condition for a severity holds exactly of the events the
  API would show with that severity.\<close>

theorem severity_filter_exact:
  assumes "stored_ok stored"
  shows "severity_filter v ty stored \<longleftrightarrow> derive_severity ty stored = upper v"
proof (cases "stored = None \<or> stored = Some ''INFO''")
  case True
  have info: "ty \<in> non_info_event_types \<longleftrightarrow> ty \<in> set critical_events \<or> ty \<in> set error_events \<or> ty \<in> set warning_events"
    by (auto simp: non_info_event_types_def severity_to_events_def)
  show ?thesis
    using True severities_disjoint(1-3)
    by (auto simp: severity_filter_def Let_def unstored_severity [OF True] info severity_events_empty severity_events)
next
  case False
  then obtain s where s: "stored = Some s" "s \<noteq> []" "s \<noteq> ''INFO''" "upper s = s" using assms by (auto simp: stored_ok_def split: option.splits)
  then show ?thesis by (auto simp: severity_filter_def Let_def stored_severity)
qed

lemma severity_filter_exact_witness:
  "severity_filter ''error'' ''KILL_SWITCH_TRIPPED'' (Some ''INFO'') \<longleftrightarrow> derive_severity ''KILL_SWITCH_TRIPPED'' (Some ''INFO'') = upper ''error''"
  by (rule severity_filter_exact) (simp add: stored_ok_def severity_events)

section \<open>The watch list\<close>

lemma get_watchlist_sorted:
  "bd_json b bot_watchlist_key = Some (Some (JList ds)) \<Longrightarrow>
    mset (wv_watchlist (get_watchlist True b)) = mset (objects_in ds) \<and>
    sorted (map watch_key (wv_watchlist (get_watchlist True b)))"
  by (simp add: get_watchlist_def)

text \<open>
  The push side of the dashboard (\<^verbatim>\<open>apps/api/websocket/dashboard_stream.py\<close>, \<^verbatim>\<open>connection_manager.py\<close>) and
  the bus the events come from (\<^verbatim>\<open>packages/messaging/event_bus.py\<close>): which event becomes which message,
  which snapshots are sent when, to whom. A message is what is broadcast; the loops call the steps
  modelled here and only add sleeping and the pub/sub connection. A clock is an argument.
\<close>

section \<open>The event bus\<close>

text \<open>\<open>publish\<close>: first the channel, then the sink; what raises ends it.\<close>

definition bus_publish ::
  "(bot_event \<Rightarrow> ('s, unit) action) option \<Rightarrow> (bot_event \<Rightarrow> ('s, unit) action) option \<Rightarrow> bot_event \<Rightarrow> ('s, unit) action" where
  "bus_publish channel sink e =
    then_do (case channel of None \<Rightarrow> ret () | Some f \<Rightarrow> f e) (case sink of None \<Rightarrow> ret () | Some g \<Rightarrow> g e)"

section \<open>Messages\<close>

definition event_map :: "(string \<times> string) list" where
  "event_map =
    [(''POSITION_OPENED'', ''position_update''), (''POSITION_CLOSED'', ''position_update''),
     (''ORDER_PLACED'', ''order_update''), (''ORDER_FILLED'', ''order_update''), (''ORDER_FAILED'', ''order_update''),
     (''TPSL_SET'', ''protection_update''), (''TPSL_VERIFIED'', ''protection_update''),
     (''EMERGENCY_TPSL_FAILED'', ''protection_update''), (''EMERGENCY_CLOSE'', ''protection_update''),
     (''RECONCILED'', ''reconciliation_update''), (''EXTERNAL_POSITION_DETECTED'', ''manual_intervention_event''),
     (''EXTERNAL_ORDER_DETECTED'', ''manual_intervention_event''), (''POSITION_QUANTITY_MISMATCH'', ''manual_intervention_event''),
     (''MANUAL_PARTIAL_CLOSE_DETECTED'', ''manual_intervention_event''), (''MANUAL_ADD_DETECTED'', ''manual_intervention_event''),
     (''RISK_LIMIT_EXCEEDED_BY_MANUAL_INTERVENTION'', ''manual_intervention_event''), (''KILL_SWITCH_TRIPPED'', ''risk_update'')]"

definition suppressed_events :: "string set" where
  "suppressed_events = {''NO_ENTRY_REASON''}"

definition classify_event :: "string \<Rightarrow> string" where
  "classify_event ty = (case map_of event_map ty of None \<Rightarrow> ''bot_event'' | Some t \<Rightarrow> t)"

record ws_message =
  wm_type :: string
  wm_data :: json

definition wrap :: "string \<Rightarrow> json \<Rightarrow> ws_message" where
  "wrap ty d = \<lparr> wm_type = ty, wm_data = d \<rparr>"

text \<open>\<open>dispatch_event\<close> on what \<open>json.loads\<close> gives (\<open>None\<close> when it raises).\<close>

definition dispatch_event :: "json option \<Rightarrow> ws_message option result" where
  "dispatch_event raw =
    (case raw of
       None \<Rightarrow> Inr None
     | Some d \<Rightarrow> bind_res (object_of d) (\<lambda>m.
         let ty = str_of (look_or ''type'' (JStr []) m) in
         if ty \<in> suppressed_events then Inr None else Inr (Some (wrap (classify_event ty) d))))"

definition build_bot_status :: "api_world \<Rightarrow> board \<Rightarrow> fields" where
  "build_bot_status w b =
    (if \<not> aw_redis_up w then [(''state'', JStr ''UNKNOWN''), (''degraded'', JBool True)]
     else [(''state'', JStr (or_text (bd_text b bot_status_key) ''UNKNOWN'')), (''mode'', json_opt (bd_text b bot_mode_key)),
           (''heartbeat_at'', json_opt (bd_text b bot_heartbeat_key)),
           (''is_alive'', JBool (heartbeat_alive w (bd_text b bot_heartbeat_key)))])"

definition push_bot_status :: "api_world \<Rightarrow> board \<Rightarrow> ws_message" where
  "push_bot_status w b = wrap ''bot_status'' (JObj (build_bot_status w b))"

section \<open>Snapshots\<close>

text \<open>The text a key held last is the JSON value it stood for, or that it was none.\<close>

record stream =
  sm_last_pnl_sent :: rat
  sm_last_positions_raw :: "json option option"
  sm_last_watchlist_raw :: "json option option"

definition new_stream :: stream where
  "new_stream = \<lparr> sm_last_pnl_sent = 0, sm_last_positions_raw = None, sm_last_watchlist_raw = None \<rparr>"

text \<open>A text that is not JSON is sent as \<open>{"raw": text}\<close>; the text itself is not kept here.\<close>

definition push_pnl_if_due :: "rat \<Rightarrow> bool \<Rightarrow> board \<Rightarrow> stream \<Rightarrow> stream \<times> ws_message option" where
  "push_pnl_if_due now up b st =
    (if now - sm_last_pnl_sent st < 1 then (st, None)
     else if \<not> up then (st, None)
     else case bd_json b bot_pnl_key of
       None \<Rightarrow> (st, None)
     | Some raw \<Rightarrow>
         (st\<lparr> sm_last_pnl_sent := now \<rparr>,
          Some (wrap ''pnl_update'' (case raw of None \<Rightarrow> JObj [(''raw'', JNull)] | Some d \<Rightarrow> d))))"

definition push_positions_if_changed :: "bool \<Rightarrow> board \<Rightarrow> stream \<Rightarrow> stream \<times> ws_message option" where
  "push_positions_if_changed up b st =
    (if \<not> up then (st, None)
     else let raw = bd_json b bot_positions_key in
       if raw = None \<or> raw = sm_last_positions_raw st then (st, None)
       else (st\<lparr> sm_last_positions_raw := raw \<rparr>,
             case raw of Some (Some d) \<Rightarrow> Some (wrap ''position_update'' d) | _ \<Rightarrow> None))"

definition push_watchlist_if_changed :: "bool \<Rightarrow> board \<Rightarrow> stream \<Rightarrow> stream \<times> ws_message option" where
  "push_watchlist_if_changed up b st =
    (if \<not> up then (st, None)
     else let raw = bd_json b bot_watchlist_key in
       if raw = None \<or> raw = sm_last_watchlist_raw st then (st, None)
       else (st\<lparr> sm_last_watchlist_raw := raw \<rparr>,
             case raw of Some (Some d) \<Rightarrow> Some (wrap ''watchlist_update'' d) | _ \<Rightarrow> None))"

text \<open>One round of \<open>_snapshot_loop\<close>.\<close>

definition snapshot_round :: "rat \<Rightarrow> bool \<Rightarrow> board \<Rightarrow> stream \<Rightarrow> stream \<times> ws_message list" where
  "snapshot_round now up b st =
    (let (st1, m1) = push_pnl_if_due now up b st;
         (st2, m2) = push_positions_if_changed up b st1;
         (st3, m3) = push_watchlist_if_changed up b st2
     in (st3, List.map_filter id [m1, m2, m3]))"

section \<open>Clients\<close>

text \<open>\<open>broadcast\<close>: the clients in the order they are visited, \<open>ok\<close> says to which a message can be sent. The result is
  the remaining clients and those the message reached.\<close>

definition broadcast :: "('w \<Rightarrow> bool) \<Rightarrow> 'w list \<Rightarrow> 'w list \<times> 'w list" where
  "broadcast ok active =
    (let dead = filter (\<lambda>w. \<not> ok w) active in (filter (\<lambda>w. w \<notin> set dead) active, filter ok active))"

section \<open>Properties\<close>

text \<open>Rounds one after the other, the times at which a profit-and-loss message was sent.\<close>

fun pnl_times :: "(rat \<times> bool \<times> board) list \<Rightarrow> stream \<Rightarrow> rat list" where
  "pnl_times [] st = []"
| "pnl_times ((now, up, b) # rs) st =
    (case push_pnl_if_due now up b st of (_, m) \<Rightarrow>
       (if m = None then [] else [now]) @ pnl_times rs (fst (snapshot_round now up b st)))"

lemma round_pnl: "sm_last_pnl_sent (fst (snapshot_round now up b st)) = sm_last_pnl_sent (fst (push_pnl_if_due now up b st))"
  by (simp add: snapshot_round_def push_positions_if_changed_def push_watchlist_if_changed_def Let_def split: prod.split)

lemma pnl_sent: "push_pnl_if_due now up b st = (st', Some m) \<Longrightarrow> 1 \<le> now - sm_last_pnl_sent st \<and> sm_last_pnl_sent st' = now"
  by (auto simp: push_pnl_if_due_def split: if_splits option.splits)

lemma pnl_not_sent: "push_pnl_if_due now up b st = (st', None) \<Longrightarrow> st' = st"
  by (auto simp: push_pnl_if_due_def split: if_splits option.splits)

lemma pnl_times_spaced: "successively (\<lambda>a b. 1 \<le> b - a) (sm_last_pnl_sent st # pnl_times rs st)"
proof (induction rs arbitrary: st)
  case (Cons r rs)
  obtain now up b where r: "r = (now, up, b)" by (cases r)
  show ?case
  proof (cases "push_pnl_if_due now up b st")
    case (Pair st' m)
    then show ?thesis
      using Cons.IH [of "fst (snapshot_round now up b st)"] pnl_sent [of now up b st st'] pnl_not_sent [of now up b st st']
      by (cases m) (simp_all add: r round_pnl)
  qed
qed simp

text \<open>The clients are not flooded: however often the snapshot loop runs and whatever the clock shows, two
  profit-and-loss messages are at least a second apart.\<close>

theorem pnl_throttled: "successively (\<lambda>a b. 1 \<le> b - a) (pnl_times rs st)"
  using pnl_times_spaced [of st rs] by (auto simp: successively_Cons)

text \<open>The durable log hangs on the channel: when publishing to Redis raises, the event is not stored either.\<close>

lemma event_lost_with_channel: "f e s = (s', Inl x) \<Longrightarrow> bus_publish (Some f) (Some g) e s = (s', Inl x)"
  by (simp add: bus_publish_def then_do_def and_then_def)

text \<open>A bot whose heartbeat is stale is \<open>DISCONNECTED\<close> in the status request, but its last state in the pushed
  status.\<close>

lemma pushed_state_ignores_heartbeat:
  "aw_redis_up w \<Longrightarrow> bd_text b bot_status_key = Some ''RUNNING'' \<Longrightarrow> \<not> heartbeat_alive w (bd_text b bot_heartbeat_key) \<Longrightarrow>
    stv_state (get_status w b) = ''DISCONNECTED'' \<and> look ''state'' (build_bot_status w b) = JStr ''RUNNING''"
  by (simp add: get_status_def build_bot_status_def look_def look_or_def or_text_def truthy_def Let_def)

end
