(* ===== verification/Entry_Frozen.thy ===== *)
theory Entry_Frozen
  imports Runtime_Wiring
begin

text \<open>
  Outside \<open>RUNNING\<close> the runtime does not depend on how entry orders are sent: the executor's \<open>open\<close> can be
  replaced by anything and every step does the same, so none of them sends one.
\<close>

definition with_open ::
  "(app_config \<Rightarrow> open_args \<Rightarrow> ('x service, open_result) action) \<Rightarrow> 'x bot_env \<Rightarrow> 'x bot_env" where
  "with_open h env = env\<lparr> bn_ports := \<lambda>cfg ob. (bn_ports env cfg ob)\<lparr> po_open := h cfg \<rparr> \<rparr>"

lemma with_open_simps [simp]:
  "bn_ports (with_open h env) cfg ob = opens (bn_ports env cfg ob) (h cfg)"
  "bn_get_tickers (with_open h env) = bn_get_tickers env" "bn_get_kline (with_open h env) = bn_get_kline env"
  "bn_get_orderbook (with_open h env) = bn_get_orderbook env"
  "bn_load_instruments (with_open h env) = bn_load_instruments env"
  "bn_wallet_balance (with_open h env) = bn_wallet_balance env"
  "bn_paper_wallet (with_open h env) = bn_paper_wallet env" "bn_sync (with_open h env) = bn_sync env"
  "bn_label (with_open h env) = bn_label env" "bn_reason (with_open h env) = bn_reason env"
  "bn_persist_pnl (with_open h env) = bn_persist_pnl env" "bn_acquire_lock (with_open h env) = bn_acquire_lock env"
  "bn_restore (with_open h env) = bn_restore env" "bn_load_config (with_open h env) = bn_load_config env"
  "bn_rebuild_exec (with_open h env) = bn_rebuild_exec env" "bn_cancel_order (with_open h env) = bn_cancel_order env"
  "bn_persist_cancelled (with_open h env) = bn_persist_cancelled env"
  "bn_release_lock (with_open h env) = bn_release_lock env" "bn_day (with_open h env) = bn_day env"
  "bn_now_ms (with_open h env) = bn_now_ms env" "bn_clocks (with_open h env) = bn_clocks env"
  by (simp_all add: with_open_def)

section \<open>Closing and managing do not open\<close>

lemma other_ports:
  "po_close (opens io f) = po_close io" "po_sync_stop_loss (opens io f) = po_sync_stop_loss io"
  by simp_all

lemma close_opens [simp]: "close_pos (opens io f) = close_pos io" "close_position (opens io f) = close_position io"
proof -
  have body: "close_body (opens io f) = close_body io"
    by (intro ext) (unfold close_body_def other_ports, rule refl)
  show 1: "close_pos (opens io f) = close_pos io"
    by (intro ext) (unfold close_pos_def body, rule refl)
  show "close_position (opens io f) = close_position io"
    by (intro ext) (unfold close_position_def 1, rule refl)
qed

lemma manage_opens [simp]: "manage (opens io f) = manage io"
proof -
  have sync: "sync_trailing_stop (opens io f) = sync_trailing_stop io"
    by (intro ext) (unfold sync_trailing_stop_def other_ports, rule refl)
  have part: "close_part (opens io f) = close_part io"
    by (intro ext) (unfold close_part_def close_opens, rule refl)
  have whole: "close_whole (opens io f) = close_whole io"
    by (intro ext) (unfold close_whole_def close_opens, rule refl)
  have "runner_followup (opens io f) = runner_followup io"
    by (intro ext) (unfold runner_followup_def sync, rule refl)
  then have start: "start_runner (opens io f) = start_runner io"
    by (intro ext) (unfold start_runner_def, simp only:)
  have act: "run_action (opens io f) = run_action io"
    by (intro ext) (unfold run_action_def sync part whole start, rule refl)
  have "run_actions (opens io f) cfg ck b bid ask y as = run_actions io cfg ck b bid ask y as" for cfg ck b bid ask y as
    by (induction as) (simp_all only: run_actions.simps act)
  then have acts: "run_actions (opens io f) = run_actions io" by (simp add: fun_eq_iff)
  have bar: "manage_bar (opens io f) = manage_bar io"
    by (intro ext) (unfold manage_bar_def acts, rule refl)
  show ?thesis by (intro ext) (unfold manage_def bar close_opens, rule refl)
qed

section \<open>An evaluation outside \<open>RUNNING\<close>\<close>

abbreviation idle :: "'x service \<Rightarrow> bool" where
  "idle \<equiv> in_states idle_states"

lemma idle_blocked:
  assumes "idle s" shows "snd (pre_gate cfg t y dir s1m market s) = Some ''NOT_RUNNING''"
  using assms by (auto simp: in_states_def idle_states_def pre_gate_def can_enter_new_position_def entry_allowed_states_def Let_def)

lemma idle_evaluate:
  assumes "idle s"
  shows "evaluate_entry (opens io f) lbl cfg strategies now a s = evaluate_entry io lbl cfg strategies now a s"
  unfolding evaluate_entry_def intent_opens
proof (rule and_then_at)
  fix s' intent
  assume run: "entry_intent io lbl cfg strategies now a s = (s', Inr intent)"
  have "intent = None"
  proof (cases intent)
    case (Some x)
    then obtain sig d rd where "intent = Some (sig, d, rd)" by (metis prod_cases3)
    from intentD [OF run [unfolded this]] show ?thesis by (metis idle_blocked [OF assms] option.distinct(1) snd_conv)
  qed
  then show "(case intent of None \<Rightarrow> ret None | Some (sig, d, rd) \<Rightarrow>
      and_then (open_entry (opens io f) cfg now a sig d rd) (\<lambda>done. case done of None \<Rightarrow> ret None | Some (opened, levels) \<Rightarrow>
      and_then (reads (\<lambda>s. pos_of s (ea_symbol a))) (\<lambda>found. case found of None \<Rightarrow> ret None | Some p \<Rightarrow>
      then_do (announce cfg a sig d rd opened levels p) (ret (Some p))))) s' =
    (case intent of None \<Rightarrow> ret None | Some (sig, d, rd) \<Rightarrow>
      and_then (open_entry io cfg now a sig d rd) (\<lambda>done. case done of None \<Rightarrow> ret None | Some (opened, levels) \<Rightarrow>
      and_then (reads (\<lambda>s. pos_of s (ea_symbol a))) (\<lambda>found. case found of None \<Rightarrow> ret None | Some p \<Rightarrow>
      then_do (announce cfg a sig d rd opened levels p) (ret (Some p))))) s'"
    by simp
qed

section \<open>Steps that do not open\<close>

lemma refresh_frozen [simp]:
  "refresh_tickers (with_open h env) = refresh_tickers env" "refresh_klines (with_open h env) = refresh_klines env"
  by (intro ext; unfold refresh_tickers_def refresh_klines_def with_open_simps; rule refl)+

lemma load_frozen [simp]:
  "load_candles (with_open h env) = load_candles env" "fresh_ticker (with_open h env) = fresh_ticker env"
proof -
  have e: "ensure_klines (with_open h env) = ensure_klines env"
    by (intro ext) (unfold ensure_klines_def refresh_frozen, rule refl)
  show "load_candles (with_open h env) = load_candles env"
    by (intro ext) (unfold load_candles_def refresh_frozen e, rule refl)
  show "fresh_ticker (with_open h env) = fresh_ticker env"
    by (intro ext) (unfold fresh_ticker_def refresh_frozen with_open_simps, rule refl)
qed

lemma manage_frozen [simp]: "manage_symbol (with_open h env) = manage_symbol env"
  by (intro ext) (unfold manage_symbol_def with_open_simps manage_opens, rule refl)

lemma sync_frozen [simp]:
  "run_reconciliation (with_open h env) = run_reconciliation env"
  "apply_kill_switch_trip (with_open h env) = apply_kill_switch_trip env"
proof -
  have "record_reconciliation_risk (with_open h env) = record_reconciliation_risk env"
    by (intro ext) (unfold record_reconciliation_risk_def with_open_simps follow_runner_def, rule refl)
  then show "run_reconciliation (with_open h env) = run_reconciliation env"
    by (intro ext) (unfold run_reconciliation_def with_open_simps, simp only:)
  have "announce_trip (with_open h env) = announce_trip env"
    by (intro ext) (unfold announce_trip_def mono_of_def with_open_simps, rule refl)
  then show "apply_kill_switch_trip (with_open h env) = apply_kill_switch_trip env"
    by (intro ext) (unfold apply_kill_switch_trip_def mono_of_def with_open_simps, simp only:)
qed

lemma loops_frozen [simp]:
  "reconciliation_turn (with_open h env) = reconciliation_turn env"
  "handle_private_event (with_open h env) = handle_private_event env"
  "handle_ws_disconnect (with_open h env) = handle_ws_disconnect env"
  by (intro ext; unfold reconciliation_turn_def handle_private_event_def handle_ws_disconnect_def mono_of_def
      sync_frozen refresh_frozen with_open_simps; rule refl)+

lemma pnl_frozen [simp]: "pnl_turn (with_open h env) = pnl_turn env"
  by (intro ext) (unfold pnl_turn_def pnl_step_loop_def wallet_snapshot_def daily_net_def sync_frozen with_open_simps,
      rule refl)

lemma shutdown_frozen [simp]: "shutdown (with_open h env) = shutdown env"
  by (intro ext) (unfold shutdown_def with_open_simps, rule refl)

lemma command_frozen [simp]: "handle_command (with_open h env) = handle_command env"
proof -
  have cancel: "persist_cancelled (with_open h env) = persist_cancelled env"
    by (intro ext) (unfold persist_cancelled_def with_open_simps, rule refl)
  have one: "cancel_open_order (with_open h env) = cancel_open_order env"
    by (intro ext) (unfold cancel_open_order_def cancel with_open_simps, rule refl)
  have orders: "cancel_open_orders (with_open h env) = cancel_open_orders env"
    "cancel_order_cmd (with_open h env) = cancel_order_cmd env"
    by (intro ext; unfold cancel_open_orders_def cancel_order_cmd_def one cancel with_open_simps; rule refl)+
  have now: "close_if_quoted (with_open h env) = close_if_quoted env"
    by (intro ext) (unfold close_if_quoted_def close_now_def close_opens with_open_simps, rule refl)
  have positions: "close_all_positions (with_open h env) = close_all_positions env"
    "close_position_cmd (with_open h env) = close_position_cmd env"
    by (intro ext; unfold close_all_positions_def close_position_cmd_def now refresh_frozen with_open_simps; rule refl)+
  have build: "build_trading (with_open h env) = build_trading env"
    by (intro ext) (unfold build_trading_def build_service_def with_open_simps, rule refl)
  have "dispatch (with_open h env) = dispatch env"
    by (intro ext) (unfold dispatch_def start_trading_def stop_bot_def reload_config_def sync_frozen orders positions
        build with_open_simps, rule refl)
  then show ?thesis by (intro ext) (unfold handle_command_def, simp only:)
qed

section \<open>A turn of the trading loop\<close>

lemma idle_next:
  assumes "rts.keeps idle_states m" "idle (rt_service rt)"
    and "\<And>rt' x. idle (rt_service rt') \<Longrightarrow> k x rt' = k' x rt'"
  shows "and_then m k rt = and_then m k' rt"
  using rts.keepsD [OF assms(1)] assms(2,3) by (intro and_then_at) (metis rt_stays_def stays_def)

lemma consider_frozen:
  assumes "idle (rt_service rt)"
  shows "consider_entry (with_open h env) y snaps s1m t equity now rt = consider_entry env y snaps s1m t equity now rt"
proof -
  have "in_service (evaluate_entry (opens io f) lbl cfg st ck a) rt = in_service (evaluate_entry io lbl cfg st ck a) rt"
    for io :: "'a ports" and f lbl cfg st ck a
    by (simp only: in_service_def idle_evaluate [OF assms])
  then have "and_then (in_service (evaluate_entry (opens io f) lbl cfg st ck a)) k rt =
      and_then (in_service (evaluate_entry io lbl cfg st ck a)) k rt"
    for io :: "'a ports" and f lbl cfg st ck a and k :: "position option \<Rightarrow> ('a runtime, payload option) action"
    by (simp only: and_then_def)
  then show ?thesis
    by (simp only: consider_entry_def Let_def with_open_simps strategies_of_def)
qed

lemma idle_mfe [simp]: "idle (update_post_exit_mfe y x c t s) = idle s"
  by (simp add: in_states_def)

context host
begin

lemma symbol_frozen:
  assumes S: "S = idle_states" and idle: "idle (rt_service rt)"
  shows "process_symbol (with_open h env) y equity rt = process_symbol env y equity rt"
proof (cases "ticker_of (rt_collector rt) y")
  case None
  then show ?thesis by (simp add: process_symbol_def)
next
  case (Some t0)
  note next_step = idle_next [OF _ idle] idle_next
  show ?thesis
    unfolding process_symbol_def Some option.case Let_def then_do_def load_frozen manage_frozen with_open_simps
    by (rule idle_next [OF load_candles_keeps [unfolded S] idle], rule idle_next [OF rts.keeps_reads], assumption,
        rule idle_next [OF fresh_ticker_keeps [unfolded S]], assumption)
      (auto simp: consider_frozen split: option.split)
qed

lemma process_frozen:
  assumes S: "S = idle_states" and idle: "idle (rt_service rt)"
  shows "process_all (with_open h env) equity ys rt = process_all env equity ys rt"
  using idle
proof (induction ys arbitrary: rt)
  case Nil
  show ?case by (simp only: process_all.simps)
next
  case (Cons y ys)
  let ?one = "\<lambda>m. try_except (and_then m (\<lambda>p. ret (case p of None \<Rightarrow> [] | Some q \<Rightarrow> [q]))) (\<lambda>_. ret [])"
  have one: "?one (process_symbol (with_open h env) y equity) rt = ?one (process_symbol env y equity) rt"
    by (simp only: try_except_def and_then_def symbol_frozen [OF S Cons.prems])
  have keeps: "rts.keeps idle_states (?one (process_symbol env y equity))"
    by (intro rts.keeps_try_except rts.keeps_and_then process_symbol_keeps [unfolded S] rts.keeps_ret)
  have "and_then (?one (process_symbol (with_open h env) y equity)) k rt =
      and_then (?one (process_symbol env y equity)) k rt" for k :: "payload list \<Rightarrow> ('x runtime, payload list) action"
    by (simp only: and_then_def one)
  then show ?case
    unfolding process_all.simps
    by (simp only:) (rule idle_next [OF keeps Cons.prems], simp only: and_then_def Cons.IH)
qed

lemma turn_frozen:
  assumes S: "S = idle_states" and idle: "idle (rt_service rt)"
  shows "trading_turn (with_open h env) rt = trading_turn env rt"
proof -
  have "\<not> can_enter_new_position (machine_of rt)"
    using idle by (auto simp: in_states_def idle_states_def can_enter_new_position_def entry_allowed_states_def machine_of_def)
  moreover have "take_equity (with_open h env) = take_equity env"
    by (intro ext) (unfold take_equity_def current_equity_def with_open_simps, rule refl)
  then have "management_cycle (with_open h env) rt = management_cycle env rt"
    unfolding management_cycle_def refresh_frozen
    by (simp only:) (rule idle_next [OF refresh_tickers_keeps [unfolded S] idle],
        rule idle_next [OF take_equity_keeps [unfolded S]], assumption, rule idle_next [OF rts.keeps_reads], assumption,
        simp only: and_then_def process_frozen [OF S])
  ultimately show ?thesis by (simp only: trading_turn_def try_except_def if_False)
qed

end

text \<open>C5. While the machine is in any state but \<open>RUNNING\<close> no step of the runtime sends an entry order, whatever
  the command, the loop or the event: with an executor that opens in any other way each step leads to
  the same states. The same holds for each symbol of a cycle that began \<open>RUNNING\<close>, from the moment
  the machine leaves \<open>RUNNING\<close>.\<close>

theorem no_entry_unless_running:
  assumes "host idle_states env" "machine (rt_service rt) = Some m" "bm_state m \<noteq> RUNNING"
  shows "(runtime_step (with_open h env) rt rt' \<longleftrightarrow> runtime_step env rt rt') \<and>
    process_symbol (with_open h env) y equity rt = process_symbol env y equity rt"
proof -
  have idle: "idle (rt_service rt)" using assms(2,3) by (simp add: in_states_def idle_states_def)
  show ?thesis
    by (simp add: runtime_step.simps host.symbol_frozen [OF assms(1) refl idle] host.turn_frozen [OF assms(1) refl idle])
qed

lemma no_entry_unless_running_witness:
  "runtime_step (with_open (\<lambda>_ _. throw TypeError) ex_bot) (ex_runtime PAUSED) (fst (trading_turn ex_bot (ex_runtime PAUSED))) \<and>
   process_symbol (with_open (\<lambda>_ _. throw TypeError) ex_bot) ''BTC'' 1000 (ex_runtime PAUSED) =
   process_symbol ex_bot ''BTC'' 1000 (ex_runtime PAUSED)"
proof -
  have "runtime_step ex_bot (ex_runtime PAUSED) (fst (trading_turn ex_bot (ex_runtime PAUSED)))"
    by (rule step_trading [where r = "snd (trading_turn ex_bot (ex_runtime PAUSED))"]) simp
  then show ?thesis
    using no_entry_unless_running [OF ex_bot_host(2), of "ex_runtime PAUSED" "new_machine PAUSED"] by simp
qed

end
