(* ===== verification/Guard_Facts.thy ===== *)
theory Guard_Facts
  imports Guards
begin

text \<open>
  Properties of the guards: the kill switch latches, the rate limiter bounds the permits of any
  period, retries are bounded, cooldowns last as configured, and what a passed check implies.
\<close>

section \<open>Latches\<close>

text \<open>A latch: a state in which a verdict, once present, survives every step.\<close>

locale latch =
  fixes verdict :: "'s \<Rightarrow> 'r option" and step :: "'e \<Rightarrow> 's \<Rightarrow> 's"
  assumes keeps: "verdict s = Some r \<Longrightarrow> verdict (step e s) = Some r"
begin

lemma run_keeps: "verdict s = Some r \<Longrightarrow> verdict (fold step es s) = Some r"
  by (induction es arbitrary: s) (simp_all add: keeps)

lemma first_verdict:
  "verdict (fold step es s) = None \<Longrightarrow> es = es1 @ es2 \<Longrightarrow> verdict (fold step es1 s) = None"
  using run_keeps [of "fold step es1 s" _ es2] by (cases "verdict (fold step es1 s)") auto

end

text \<open>Everything the program does to the kill switch short of the operator's reset.\<close>

datatype kill_event =
    OrderFailure rat
  | WsDisconnect rat
  | PositionMismatch
  | EmergencyCloseFailure
  | SlippageBreach
  | TradeResult bool
  | PnlUpdate rat rat
  | Evaluate rat
  | Snapshot rat

fun kill_step :: "global_kill_switch_section \<Rightarrow> kill_event \<Rightarrow> kill_switch \<Rightarrow> kill_switch" where
  "kill_step c (OrderFailure t) k = record_order_failure t k"
| "kill_step c (WsDisconnect t) k = record_ws_disconnect t k"
| "kill_step c PositionMismatch k = record_position_mismatch k"
| "kill_step c EmergencyCloseFailure k = record_emergency_close_failure k"
| "kill_step c SlippageBreach k = record_slippage_breach k"
| "kill_step c (TradeResult w) k = record_trade_result w k"
| "kill_step c (PnlUpdate d i) k = update_pnl d i k"
| "kill_step c (Evaluate t) k = fst (kill_evaluate c t k)"
| "kill_step c (Snapshot t) k = fst (kill_snapshot t k)"

interpretation kill: latch "kw_tripped_reason :: kill_switch \<Rightarrow> string option" "kill_step c" for c
proof
  fix s :: kill_switch and r e
  assume "kw_tripped_reason s = Some r"
  then show "kw_tripped_reason (kill_step c e s) = Some r"
    by (cases e) (simp_all add: record_order_failure_def record_ws_disconnect_def
        record_position_mismatch_def record_emergency_close_failure_def record_slippage_breach_def
        record_trade_result_def update_pnl_def kill_evaluate_def kill_snapshot_def prune_def Let_def)
qed

text \<open>C31. The kill switch latches: once an evaluation has reported a reason, every later evaluation
  reports the same reason, whatever losses, failures, wins or profits are recorded in
  between. Only the operator's reset clears it.\<close>

theorem kill_switch_latches:
  assumes "snd (kill_evaluate c t k) = Some r"
  shows "snd (kill_evaluate c t' (fold (kill_step c) es (fst (kill_evaluate c t k)))) = Some r"
proof -
  have "kw_tripped_reason (fst (kill_evaluate c t k)) = Some r"
    using assms by (auto simp: kill_evaluate_def Let_def split: option.splits)
  from kill.run_keeps [OF this] show ?thesis by (simp add: kill_evaluate_def)
qed

lemma kill_switch_latches_witness:
  "let c = default_global_kill_switch_section; k = update_pnl 6 0 new_kill_switch
   in snd (kill_evaluate c 900 (fold (kill_step c) [PnlUpdate 0 0, TradeResult True] (fst (kill_evaluate c 1 k))))
     = Some ''DAILY_LOSS''"
  unfolding Let_def
  by (rule kill_switch_latches)
    (simp add: kill_evaluate_def kill_checks_def update_pnl_def new_kill_switch_def prune_def
      default_global_kill_switch_section_def)

text \<open>The kill switch reports a clear state only when every limit is respected: losses, drawdown and
  loss streak below their limits, fewer order failures in the last five minutes and
  disconnects in the last ten than allowed, and no counter of mismatches, failed emergency
  closes or slippage breaches at its limit.\<close>

theorem kill_switch_clear:
  assumes "snd (kill_evaluate c now k) = None"
  shows "kw_daily_loss_percent k < ks_daily_loss_percent c \<and>
    kw_intraday_drawdown_percent k < ks_intraday_drawdown_percent c \<and>
    kw_consecutive_losses k < ks_consecutive_losses c \<and>
    int (length (dropWhile (\<lambda>x. 300 < now - x) (kw_order_failures k))) < ks_order_failures_in_5min c \<and>
    int (length (dropWhile (\<lambda>x. 600 < now - x) (kw_ws_disconnects k))) < ks_websocket_disconnects_in_10min c \<and>
    kw_position_mismatches k < ks_unexpected_position_mismatch_count c \<and>
    kw_emergency_close_failures k < ks_emergency_close_failure_count c \<and>
    kw_slippage_breaches k < ks_max_slippage_percent_breach_count c"
proof -
  have "first_match fst (kill_checks c (prune now k)) = None"
    using assms by (auto simp: kill_evaluate_def Let_def split: option.splits)
  then have all: "\<forall>x\<in>set (kill_checks c (prune now k)). \<not> fst x"
    by (simp add: first_match_None)
  show ?thesis
    using all unfolding kill_checks_def prune_def
    by (simp add: not_le)
qed

lemma kill_switch_clear_witness:
  "kw_daily_loss_percent new_kill_switch < ks_daily_loss_percent default_global_kill_switch_section"
  by (rule kill_switch_clear [THEN conjunct1, of _ 0])
    (simp add: kill_evaluate_def kill_checks_def new_kill_switch_def prune_def
      default_global_kill_switch_section_def)

section \<open>The rate limiter\<close>

text \<open>\<open>acquire\<close> turns at the times of a list; the permits granted are counted.\<close>

fun acquire_run :: "rat list \<Rightarrow> rate_limiter \<Rightarrow> rate_limiter \<times> nat" where
  "acquire_run [] l = (l, 0)"
| "acquire_run (t # ts) l =
    (let (l1, w) = acquire_turn t l; (l2, n) = acquire_run ts l1
     in (l2, if w = None then Suc n else n))"

definition limiter_ok :: "rate_limiter \<Rightarrow> bool" where
  "limiter_ok l \<longleftrightarrow> 0 \<le> rl_rate l \<and> 0 \<le> rl_tokens l \<and> 0 \<le> rl_capacity l"

text \<open>What elapsed time is worth after two roundings.\<close>

definition earned :: "rate_limiter \<Rightarrow> rat \<Rightarrow> rat" where
  "earned l d = d * rl_rate l * (1 + fulp)\<^sup>2"

lemma fulp_pos [simp]: "0 < fulp" "0 \<le> fulp" "0 \<le> 1 + fulp" by (simp_all add: fulp_def)

lemma refill_tokens:
  assumes "limiter_ok l" "rl_updated l \<le> t"
  shows "0 \<le> rl_tokens (refill t l)" "rl_tokens (refill t l) \<le> rl_capacity l"
    and "rl_tokens (refill t l) \<le> rl_tokens l + earned l (t - rl_updated l) + rl_capacity l * fulp"
proof -
  let ?d = "t - rl_updated l"
  let ?e = "fsub t (rl_updated l)"
  let ?a = "fmul ?e (rl_rate l)"
  have ok: "0 \<le> ?d" "0 \<le> rl_rate l" "0 \<le> rl_tokens l" "0 \<le> rl_capacity l"
    using assms by (simp_all add: limiter_ok_def)
  have e: "0 \<le> ?e" "?e \<le> ?d * (1 + fulp)"
    using to_float_nonneg to_float_le ok(1) by (simp_all add: fsub_def)
  have "?a \<le> ?e * rl_rate l * (1 + fulp)" using to_float_le [of "?e * rl_rate l"] e ok by (simp add: fmul_def)
  also have "\<dots> \<le> ?d * (1 + fulp) * rl_rate l * (1 + fulp)"
    using e ok fulp_pos by (intro mult_right_mono) simp_all
  also have "\<dots> = earned l ?d" by (simp add: earned_def power2_eq_square)
  finally have a: "?a \<le> earned l ?d" .
  have a0: "0 \<le> ?a" using to_float_nonneg e ok by (simp add: fmul_def)
  have sum: "0 \<le> fadd (rl_tokens l) ?a" "fadd (rl_tokens l) ?a \<le> (rl_tokens l + ?a) * (1 + fulp)"
    using to_float_nonneg to_float_le [of "rl_tokens l + ?a"] ok a0 by (simp_all add: fadd_def)
  show "0 \<le> rl_tokens (refill t l)" "rl_tokens (refill t l) \<le> rl_capacity l"
    using sum(1) ok by (simp_all add: refill_def)
  show "rl_tokens (refill t l) \<le> rl_tokens l + earned l ?d + rl_capacity l * fulp"
  proof (cases "rl_tokens l + ?a \<le> rl_capacity l")
    case True
    then have "(rl_tokens l + ?a) * fulp \<le> rl_capacity l * fulp"
      using fulp_pos by (intro mult_right_mono) simp_all
    then have "fadd (rl_tokens l) ?a \<le> rl_tokens l + ?a + rl_capacity l * fulp"
      using sum(2) by (simp add: algebra_simps)
    then show ?thesis using a by (simp add: refill_def)
  next
    case False
    moreover have "0 \<le> rl_capacity l * fulp" using ok by simp
    ultimately show ?thesis using a by (simp add: refill_def)
  qed
qed

lemma acquire_turn_ok:
  assumes "limiter_ok l" "rl_updated l \<le> t"
  defines "l' \<equiv> fst (acquire_turn t l)" and "permit \<equiv> if snd (acquire_turn t l) = None then 1 else 0"
  shows "limiter_ok l'" "rl_updated l' = t" "rl_rate l' = rl_rate l" "rl_capacity l' = rl_capacity l"
    and "rl_tokens l' + permit \<le> rl_tokens l + earned l (t - rl_updated l) + 2 * (rl_capacity l * fulp)"
    and "rl_tokens l' + permit \<le> rl_capacity l + rl_capacity l * fulp"
proof -
  let ?r = "refill t l"
  note r = refill_tokens [OF assms(1,2)]
  have cap: "0 \<le> rl_capacity l * fulp" using assms(1) by (simp add: limiter_ok_def)
  have frame: "rl_updated ?r = t" "rl_rate ?r = rl_rate l" "rl_capacity ?r = rl_capacity l"
    by (simp_all add: refill_def)
  show "limiter_ok l'" "rl_updated l' = t" "rl_rate l' = rl_rate l" "rl_capacity l' = rl_capacity l"
    using assms(1) r(1) to_float_nonneg frame
    by (auto simp: l'_def acquire_turn_def Let_def limiter_ok_def fsub_def)
  have "rl_tokens l' + permit \<le> rl_tokens ?r + rl_capacity l * fulp"
  proof (cases "1 \<le> rl_tokens ?r")
    case True
    have "(rl_tokens ?r - 1) * fulp \<le> rl_capacity l * fulp" using r(2) fulp_pos by (intro mult_right_mono) simp_all
    then have "fsub (rl_tokens ?r) 1 + 1 \<le> rl_tokens ?r + rl_capacity l * fulp"
      using to_float_le [of "rl_tokens ?r - 1"] True by (simp add: fsub_def algebra_simps)
    then show ?thesis using True by (simp add: l'_def permit_def acquire_turn_def Let_def)
  next
    case False
    then show ?thesis using cap by (simp add: l'_def permit_def acquire_turn_def Let_def)
  qed
  then show "rl_tokens l' + permit \<le> rl_tokens l + earned l (t - rl_updated l) + 2 * (rl_capacity l * fulp)"
    "rl_tokens l' + permit \<le> rl_capacity l + rl_capacity l * fulp"
    using r(2,3) by simp_all
qed

lemma acquire_run_ok:
  "limiter_ok l \<Longrightarrow> sorted (rl_updated l # ts) \<Longrightarrow>
    limiter_ok (fst (acquire_run ts l)) \<and> rl_updated (fst (acquire_run ts l)) = last (rl_updated l # ts) \<and>
    rl_rate (fst (acquire_run ts l)) = rl_rate l \<and> rl_capacity (fst (acquire_run ts l)) = rl_capacity l"
proof (induction ts arbitrary: l)
  case (Cons t ts)
  then show ?case
    using acquire_turn_ok(1-4) [of l t] Cons.IH [of "fst (acquire_turn t l)"] by (auto simp: case_prod_beta Let_def)
qed simp

lemma acquire_run_bound:
  assumes "limiter_ok l" "sorted (rl_updated l # ts)"
  shows "of_nat (snd (acquire_run ts l)) \<le>
    rl_tokens l + earned l (last (rl_updated l # ts) - rl_updated l) + 2 * (rl_capacity l * fulp) * of_nat (length ts)"
  using assms
proof (induction ts arbitrary: l)
  case Nil
  then show ?case by (simp add: limiter_ok_def earned_def)
next
  case (Cons t ts)
  let ?l = "fst (acquire_turn t l)"
  note step = acquire_turn_ok [OF Cons.prems(1), of t]
  have t: "rl_updated l \<le> t" using Cons.prems(2) by simp
  have "of_nat (snd (acquire_run ts ?l)) \<le>
      rl_tokens ?l + earned ?l (last (t # ts) - t) + 2 * (rl_capacity l * fulp) * of_nat (length ts)"
    using Cons.IH [of ?l] step(1-4) [OF t] Cons.prems(2) by simp
  moreover have "earned ?l (last (t # ts) - t) + earned l (t - rl_updated l) = earned l (last (t # ts) - rl_updated l)"
    using step(3) [OF t] by (simp add: earned_def algebra_simps)
  ultimately show ?case
    using step(5) [OF t] by (auto simp: case_prod_beta Let_def algebra_simps split: if_splits)
qed

text \<open>C36. The rate limiter does what a token bucket promises, in any window and not only from the start:
  after whatever calls before, idle times included, the turns at the times \<open>t # ts\<close> grant at most
  \<open>capacity + rate * window\<close> permits, up to the rounding of the code's floating point, a few parts
  in \<open>2 ^ 53\<close> of the rate and of the capacity per turn.\<close>

theorem rate_limiter_bound:
  assumes "new_rate_limiter rate capacity start = Inr l" and "0 \<le> rl_capacity l"
    and "sorted (start # before @ t # ts)"
  shows "of_nat (snd (acquire_run (t # ts) (fst (acquire_run before l)))) \<le>
    rl_capacity l + (last (t # ts) - t) * rl_rate l * (1 + fulp)\<^sup>2 +
      2 * (rl_capacity l * fulp) * of_nat (length (t # ts))"
proof -
  let ?k = "fst (acquire_run before l)"
  let ?l = "fst (acquire_turn t ?k)"
  have l: "limiter_ok l" "rl_updated l = start"
    using assms(1,2) to_float_nonneg [of "of_int rate"]
    by (auto simp: new_rate_limiter_def limiter_ok_def Let_def split: if_splits)
  have srt: "sorted (start # before)" "last (start # before) \<le> t" "sorted (t # ts)"
    using assms(3) by (auto simp: sorted_append)
  have k: "limiter_ok ?k" "rl_updated ?k \<le> t" "rl_rate ?k = rl_rate l" "rl_capacity ?k = rl_capacity l"
    using acquire_run_ok [OF l(1), of before] srt l(2) by auto
  note step = acquire_turn_ok [OF k(1,2)]
  have "of_nat (snd (acquire_run ts ?l)) \<le>
      rl_tokens ?l + earned ?l (last (t # ts) - t) + 2 * (rl_capacity l * fulp) * of_nat (length ts)"
    using acquire_run_bound [OF step(1), of ts] srt(3) step(2-4) k(4) by simp
  moreover have "earned ?l d = d * rl_rate l * (1 + fulp)\<^sup>2" for d
    by (simp add: earned_def step(3) k(3))
  moreover have "0 \<le> rl_capacity l * fulp" using assms(2) by simp
  ultimately show ?thesis
    using step(6) k(4) by (auto simp: case_prod_beta Let_def algebra_simps split: if_splits)
qed

lemma rate_limiter_bound_witness:
  "of_nat (snd (acquire_run [7, 7, 7, 15 / 2]
      (fst (acquire_run [0, 0] \<lparr> rl_rate = 2, rl_capacity = 2, rl_tokens = 2, rl_updated = 0 \<rparr>)))) \<le>
    (2 + (15 / 2 - 7) * 2 * (1 + fulp)\<^sup>2 + 2 * (2 * fulp) * 4 :: rat)"
proof -
  have "to_float 2 = 2" by code_simp
  then have "new_rate_limiter 2 None 0 = Inr \<lparr> rl_rate = 2, rl_capacity = 2, rl_tokens = 2, rl_updated = 0 \<rparr>"
    by (simp add: new_rate_limiter_def)
  from rate_limiter_bound [OF this, of "[0, 0]" 7 "[7, 7, 15 / 2]"] show ?thesis by simp
qed

text \<open>The docstring of the class promises at most \<open>rate\<close> permits per second. A full bucket grants that many at
  once, and the refill as many again during the second: here three permits within half a second at a
  rate of two.\<close>

lemma burst_exceeds_rate:
  "snd (acquire_run [0, 0, 1 / 2] \<lparr> rl_rate = 2, rl_capacity = 2, rl_tokens = 2, rl_updated = 0 \<rparr>) = 3"
  by code_simp

section \<open>Retries\<close>

lemma with_backoff_from_decided:
  assumes "attempt \<le> retries" "retries - attempt < length outs" "0 \<le> base" 
  shows "\<exists>r ds. with_backoff_from attempt retries base mx outs = Some (r, ds) \<and>
    length ds \<le> retries - attempt \<and> (\<forall>d\<in>set ds. d \<le> mx) \<and>
    (r = outs ! length ds)"
  using assms
proof (induction attempt retries base mx outs rule: with_backoff_from.induct)
  case (3 attempt retries base mx e outs)
  show ?case
  proof (cases "retries < attempt + 1")
    case True
    then show ?thesis by simp
  next
    case False
    then have "attempt + 1 \<le> retries" "retries - (attempt + 1) < length outs"
      using "3.prems"(2) by simp_all
    then obtain r ds where "with_backoff_from (attempt + 1) retries base mx outs = Some (r, ds)"
      "length ds \<le> retries - (attempt + 1)" "\<forall>d\<in>set ds. d \<le> mx" "r = outs ! length ds"
      using "3.IH" [OF refl False refl _ _ "3.prems"(3)] by blast
    then show ?thesis using False by (auto simp: Let_def)
  qed
qed auto

text \<open>Retrying always comes to an end: with \<open>retries\<close> allowed, \<open>with_backoff\<close> decides after at most
  \<open>retries + 1\<close> calls, sleeps at most \<open>max_sec\<close> between two of them, and its outcome is exactly
  the outcome of its last call: a value, or the last exception as it was raised.\<close>

theorem with_backoff_decides:
  assumes "retries < length outs" and "0 \<le> base"
  shows "\<exists>r ds. with_backoff retries base mx outs = Some (r, ds) \<and> length ds \<le> retries \<and>
    list_all (\<lambda>d. d \<le> mx) ds \<and> r = outs ! length ds"
  using with_backoff_from_decided [of 0 retries outs base mx] assms
  by (auto simp: with_backoff_def list_all_iff)

lemma with_backoff_decides_witness:
  "\<exists>r ds. with_backoff 1 1 30 [Inl TypeError, Inr (5::nat), Inr 6] = Some (r, ds) \<and> length ds \<le> 1"
  using with_backoff_decides [of 1 "[Inl TypeError, Inr (5::nat), Inr 6]" 1 30] by auto

lemma with_backoff_reraises:
  "with_backoff 1 1 30 [Inl (ExchangeError e), Inl (ExchangeError e')] = Some (Inl (ExchangeError e') :: nat result, [1])"
  by (simp add: with_backoff_def)

section \<open>Cooldowns\<close>

text \<open>A loss blocks its symbol, its entry mode and nothing before it: until the configured time has
  passed, entries on the symbol and entries in the mode are refused, provided the
  two-loss cooldown is not configured shorter than the one-loss cooldown.\<close>

theorem loss_starts_cooldown:
  assumes "cl_symbol_cooldown_after_loss_min c \<le> cl_symbol_cooldown_after_2_losses_min c"
    and "t - now \<le> of_int (cl_symbol_cooldown_after_loss_min c) * 60"
    and "t - now \<le> of_int (cl_entry_mode_cooldown_after_loss_min c) * 60"
  shows "in_symbol_cooldown c t s (record_result now s em False tr) \<and>
    in_entry_mode_cooldown c t em (record_result now s em False tr) \<and>
    in_cooldown c t s em' (record_result now s em False tr) \<and>
    in_cooldown c t s' em (record_result now s em False tr)"
proof -
  let ?ls = "get_or (ct_symbol_losses tr) s [] @ [now]"
  have "t - now \<le> of_int (cl_symbol_cooldown_after_2_losses_min c) * 60"
    using assms(1,2) by (meson mult_right_mono of_int_le_iff order_trans zero_le_numeral)
  moreover obtain l ls where "?ls = l # ls" by (cases ?ls) simp_all
  moreover from this have "last (l # ls) = now" by (metis last_snoc)
  ultimately have sym: "in_symbol_cooldown c t s (record_result now s em False tr)"
    using assms(2) by (simp add: in_symbol_cooldown_def record_result_def Let_def)
  then show ?thesis
    using assms(3) by (simp add: in_cooldown_def in_entry_mode_cooldown_def record_result_def)
qed

lemma loss_starts_cooldown_witness:
  "in_symbol_cooldown default_cooldown_section 900 ''BTCUSDT''
    (record_result 0 ''BTCUSDT'' BREAKOUT_CONFIRM False new_cooldown_tracker)"
  by (rule loss_starts_cooldown [THEN conjunct1]) (simp_all add: default_cooldown_section_def)

text \<open>The sixty minutes after two losses run from the first of them, not from the last: with losses at
  minutes 0 and 50 the symbol is free again at minute 66.\<close>

lemma two_loss_cooldown_ends_early:
  "let t = record_result 3000 s em False (record_result 0 s em False new_cooldown_tracker)
   in in_symbol_cooldown default_cooldown_section 3600 s t \<and>
      \<not> in_symbol_cooldown default_cooldown_section 3960 s t"
  by (simp add: in_symbol_cooldown_def record_result_def new_cooldown_tracker_def
      default_cooldown_section_def)

section \<open>Passed checks\<close>

text \<open>An order that passes the last check is on a trading symbol (when that is configured), with a clock
  in tolerance, a two-sided book whose spread is within the limit, an acceptable slippage and
  enough depth for the order.\<close>

theorem pre_order_check_passed:
  assumes "pre_order_check cfg ob notional slip status clock = None"
  shows "(ss_block_if_status_not_trading (cfg_symbol_status cfg) \<longrightarrow> status = ''Trading'') \<and>
    is_within_tolerance clock \<and> slip \<le> co_max_slippage_percent (cfg_orders cfg) \<and>
    dmul notional (co_pre_order_depth_multiple (cfg_orders cfg))
      \<le> depth_usdt_within ob (co_pre_order_depth_band_percent (cfg_orders cfg)) \<and>
    (\<exists>bid ask. best_bid ob = Some bid \<and> best_ask ob = Some ask \<and> 0 < bid \<and> 0 < ask \<and>
      dmul (ddiv (dsub ask bid) (ddiv (dadd bid ask) 2)) 100 \<le> cs_max_spread_percent (cfg_scanner cfg))"
  using assms by (auto simp: pre_order_check_def Let_def not_less not_le split: option.splits if_splits)

definition ex_book :: order_book where
  "ex_book = \<lparr> ob_symbol = ''BTCUSDT'', ob_bids = [\<lparr> lv_price = 100, lv_size = 1000 \<rparr>],
    ob_asks = [\<lparr> lv_price = 100, lv_size = 1000 \<rparr>], ob_ts_ms = 0 \<rparr>"

lemma pre_order_check_passed_witness:
  "dmul 1000 (co_pre_order_depth_multiple (cfg_orders default_app_config))
      \<le> depth_usdt_within ex_book (co_pre_order_depth_band_percent (cfg_orders default_app_config))"
  by (rule pre_order_check_passed [of _ _ _ 0 "''Trading''" "new_clock_sync_guard default_clock_sync_section",
      THEN conjunct2, THEN conjunct2, THEN conjunct2, THEN conjunct1])
    (simp add: pre_order_check_def is_within_tolerance_def new_clock_sync_guard_def ex_book_def best_bid_def
      best_ask_def depth_usdt_within_def dec_eval default_app_config_def default_clock_sync_section_def
      default_scanner_section_def default_orders_section_def default_symbol_status_section_def Let_def)

end
