(* ===== verification/Live_Entry.thy ===== *)
theory Live_Entry
  imports Trading_Entry_Facts
begin

text \<open>
  LIVE entries end to end: the trading service with the live executor, the order manager and the
  protection manager, on any exchange that keeps the gateway contract.
\<close>

section \<open>The state after a failed protection\<close>

definition machine_in :: "bot_state \<Rightarrow> 'x service \<Rightarrow> bool" where
  "machine_in st s \<longleftrightarrow> (\<forall>m. gs_state_machine (sv_guards s) = Some m \<longrightarrow> bm_state m = st)"

lemma failure_state:
  "bm_state (case transition m t r of Inr m' \<Rightarrow> m' | Inl e \<Rightarrow> force m t r) = t"
  using transition_Inr by (cases "transition m t r") simp_all

lemma after_failure_machine:
  "machine_in ORDER_LOCKED (transition_after_protection_failure ''ORDER_LOCKED'' s)"
  "machine_in EMERGENCY_STOP (transition_after_protection_failure ''EMERGENCY_STOP'' s)"
  by (auto simp: machine_in_def transition_after_protection_failure_def upd_machine_def failure_state)

lemma protection_failed_machine:
  "pt_reason res = ''ORDER_LOCKED'' \<Longrightarrow> machine_in ORDER_LOCKED (protection_failed t y res s)"
  "pt_reason res = ''EMERGENCY_STOP'' \<Longrightarrow> machine_in EMERGENCY_STOP (protection_failed t y res s)"
  using after_failure_machine by (simp_all add: protection_failed_def machine_in_def Let_def)

section \<open>The entry\<close>

lemma live_port_simps [simp]:
  "po_open (live_ports gw cfg ob) = live_open gw cfg" "po_protect (live_ports gw cfg ob) = protect gw cfg"
  by (simp_all add: live_ports_def)

lemma protection_failed_exec [simp]: "sv_exec (protection_failed t y res s) = sv_exec s"
  by (simp add: protection_failed_def svc_record_order_failure_def svc_record_emergency_close_failure_def
      transition_after_protection_failure_def upd_kill_def upd_machine_def Let_def split: option.split)

lemma protection_ends_same:
  assumes "pos_of s' y = pos_of s y" "sv_exec s' = sv_exec s"
  shows "protection_ends gw cfg y q s' res = protection_ends gw cfg y q s res"
  by (simp only: protection_ends_def last_exec [OF assms(2)] assms(1))

text \<open>How the activation of a filled position \<open>p\<close> ends: with what the protection of the position ended in, and
  with the bot locked when it failed.\<close>

definition activation_ends :: "'g gateway \<Rightarrow> app_config \<Rightarrow> string \<Rightarrow> position \<Rightarrow> 'g bot \<Rightarrow> bool \<Rightarrow> bool" where
  "activation_ends gw cfg y p s ok \<longleftrightarrow>
    (\<exists>q res. same_levels p q \<and> protection_ends gw cfg y q s res \<and> (ok \<longleftrightarrow> pt_protected res) \<and>
       (\<not> ok \<longrightarrow> machine_in (if pt_closed res then ORDER_LOCKED else EMERGENCY_STOP) s))"

lemma activation_ends_same:
  assumes "pos_of s' y = pos_of s y" "sv_exec s' = sv_exec s" "sv_guards s' = sv_guards s"
  shows "activation_ends gw cfg y p s' ok = activation_ends gw cfg y p s ok"
  by (simp add: activation_ends_def protection_ends_same [OF assms(1,2)] machine_in_def assms(3))

context exchange
begin

lemma activate_ends:
  assumes "registry_ok (sv_state s)" "pos_of s y = Some p" "sv_mode s = LIVE" "sv_has_protection s"
    and "activate_new (live_ports gw cfg ob) t y s = (s', Inr ok)"
  shows "activation_ends gw cfg y p s' ok"
proof -
  obtain s1 res where prot: "protect gw cfg y s = (s1, Inr res)"
    using assms(3-5) by (auto simp: activate_new_def and_then_Inr)
  obtain s0 q where q: "same_levels p q" "protection_ends gw cfg y q s1 res"
    using protect_verdict [OF assms(1,2) prot] .
  show ?thesis
  proof (cases "pt_protected res")
    case True
    then have "s' = s1" "ok" using assms(3-5) prot by (auto simp: activate_new_def and_then_def)
    then show ?thesis using q True by (auto simp: activation_ends_def)
  next
    case False
    then have s': "s' = protection_failed t y res s1" "\<not> ok"
      using assms(3-5) prot by (auto simp: activate_new_def and_then_def then_do_def)
    have "protection_ends gw cfg y q s' res"
      using q(2) protection_ends_same [of s' y s1] by (simp add: s' pos_of_def)
    moreover have "pt_reason res = (if pt_closed res then ''ORDER_LOCKED'' else ''EMERGENCY_STOP'')"
      using q(2) False by (auto simp: protection_ends_def split: if_splits)
    moreover from this have "machine_in (if pt_closed res then ORDER_LOCKED else EMERGENCY_STOP) s'"
      using protection_failed_machine [of res t y s1] by (simp add: s' split: if_splits)
    ultimately show ?thesis using q(1) False s'(2) unfolding activation_ends_def by blast
  qed
qed

lemma open_body_ends:
  assumes "registry_ok (sv_state s)" "sv_mode s = LIVE" "sv_has_protection s"
    and "open_body (live_ports gw cfg ob) cfg now a sig d rd s = (s', Inr res)"
  obtains s1 opened where "live_open gw cfg (open_args_of cfg LIVE a sig d rd) s = (s1, Inr opened)"
    and "if \<not> op_ok opened \<or> op_fill_qty opened \<le> 0
      then res = None \<and> pos_of s' (ea_symbol a) = pos_of s (ea_symbol a)
      else let levels = fill_adjusted cfg rd (ea_entry_price a) (op_fill_price opened) (ea_symbol_meta a) in
        (res = None \<or> res = Some (opened, levels)) \<and>
        (\<exists>sd. rd_side rd = Some sd \<and>
          activation_ends gw cfg (ea_symbol a)
            (position_of_fill cfg (ck_wall (now 2)) a sig d rd sd opened levels) s' (res \<noteq> None))"
proof -
  let ?y = "ea_symbol a"
  obtain s1 opened where op: "live_open gw cfg (open_args_of cfg LIVE a sig d rd) s = (s1, Inr opened)"
    using assms(2,4) by (auto simp: open_body_def and_then_Inr)
  note same = book.keepsD [OF live_open_book op]
  have s1: "registry_ok (sv_state s1)" "sv_mode s1 = LIVE" "sv_has_protection s1" "pos_of s1 ?y = pos_of s ?y"
    using same same_book_pos [OF same, of ?y] assms(1-3) by (simp_all add: same_book_def registry_ok_def)
  let ?levels = "fill_adjusted cfg rd (ea_entry_price a) (op_fill_price opened) (ea_symbol_meta a)"
  show ?thesis
  proof (rule that [OF op], cases "\<not> op_ok opened \<or> op_fill_qty opened \<le> 0")
    case True
    then have "s' = entry_failed (ck_mono (now 2)) a sig d opened s1" "res = None"
      using assms(2,4) op by (auto simp: open_body_def and_then_def)
    then show "if \<not> op_ok opened \<or> op_fill_qty opened \<le> 0 then res = None \<and> pos_of s' ?y = pos_of s ?y
      else let levels = ?levels in (res = None \<or> res = Some (opened, levels)) \<and>
        (\<exists>sd. rd_side rd = Some sd \<and> activation_ends gw cfg ?y
            (position_of_fill cfg (ck_wall (now 2)) a sig d rd sd opened levels) s' (res \<noteq> None))"
      using s1(4) True by (simp add: pos_of_def)
  next
    case False
    let ?s2 = "record_slippage_if_breached cfg (entry_side sig) (op_fill_price opened) (ea_best_bid a) (ea_best_ask a) s1"
    obtain sd where sd: "rd_side rd = Some sd"
      using assms(2,4) op False by (cases "rd_side rd") (auto simp: open_body_def and_then_def)
    let ?p = "position_of_fill cfg (ck_wall (now 2)) a sig d rd sd opened ?levels"
    obtain ok where act: "activate_new (live_ports gw cfg ob) (ck_mono (now 3)) ?y (set_pos ?p ?s2) = (s', Inr ok)"
      and res: "res = (if ok then Some (opened, ?levels) else None)"
      using assms(2,4) op False sd by (auto simp: open_body_def and_then_Inr then_do_Inr Let_def)
    have "activation_ends gw cfg ?y ?p s' ok"
    proof (rule activate_ends [OF _ _ _ _ act])
      show "registry_ok (sv_state (set_pos ?p ?s2))"
        using registry_ok_put [of "sv_state ?s2" ?p] s1(1) by (simp add: set_pos_def)
      show "pos_of (set_pos ?p ?s2) ?y = Some ?p" by simp
      show "sv_mode (set_pos ?p ?s2) = LIVE" "sv_has_protection (set_pos ?p ?s2)"
        using s1 by (simp_all add: set_pos_def)
    qed
    then show "if \<not> op_ok opened \<or> op_fill_qty opened \<le> 0 then res = None \<and> pos_of s' ?y = pos_of s ?y
      else let levels = ?levels in (res = None \<or> res = Some (opened, levels)) \<and>
        (\<exists>sd. rd_side rd = Some sd \<and> activation_ends gw cfg ?y
            (position_of_fill cfg (ck_wall (now 2)) a sig d rd sd opened levels) s' (res \<noteq> None))"
      using res False sd by (cases ok) (simp_all add: Let_def)
  qed
qed

end

text \<open>C1. A LIVE entry ends as the exchange answered its order. If nothing was filled there is no entry and
  the symbol's position is what it was. Otherwise the position is built from the fill, with the
  side the risk manager approved and the levels adjusted to the fill price, and its stop and target
  stay these. If the entry is reported, the position is active and the run ended with the exchange
  showing the protection the position asks for (or accepting it, when verification is switched off;
  unless none is asked for). If it is not, the run ended with a market order for the whole
  position: either its outcome counts as filled, in whole or in part, the position is closed and the
  bot has locked its orders, or it does not, the position stays pending and the bot has made an
  emergency stop.\<close>

theorem live_entry_protected:
  assumes "exchange gw" "registry_ok (sv_state s)" "sv_mode s = LIVE" "sv_has_protection s"
    and "open_entry (live_ports gw cfg ob) cfg now a sig d rd s = (s', Inr res)"
  shows "\<exists>s1 opened.
    live_open gw cfg (open_args_of cfg LIVE a sig d rd) (upd_state (begin_position_update (ea_symbol a)) s) =
      (s1, Inr opened) \<and>
    (if \<not> op_ok opened \<or> op_fill_qty opened \<le> 0
     then res = None \<and> pos_of s' (ea_symbol a) = pos_of s (ea_symbol a)
     else let levels = fill_adjusted cfg rd (ea_entry_price a) (op_fill_price opened) (ea_symbol_meta a) in
       (res = None \<or> res = Some (opened, levels)) \<and>
       (\<exists>sd. rd_side rd = Some sd \<and>
         (\<exists>q pr. same_levels (position_of_fill cfg (ck_wall (now 2)) a sig d rd sd opened levels) q \<and>
            protection_ends gw cfg (ea_symbol a) q s' pr \<and> (res \<noteq> None \<longleftrightarrow> pt_protected pr) \<and>
            (res = None \<longrightarrow> machine_in (if pt_closed pr then ORDER_LOCKED else EMERGENCY_STOP) s'))))"
proof -
  let ?y = "ea_symbol a"
  let ?s0 = "upd_state (begin_position_update ?y) s"
  obtain t where body: "open_body (live_ports gw cfg ob) cfg now a sig d rd ?s0 = (t, Inr res)"
    and s': "s' = upd_state (end_position_update ?y) t"
    using assms(5) by (auto simp: open_entry_def try_finally_def split: prod.splits)
  have s0: "registry_ok (sv_state ?s0)" "sv_mode ?s0 = LIVE" "sv_has_protection ?s0"
    using assms(2-4) by (simp_all add: upd_state_def)
  obtain s1 opened where op: "live_open gw cfg (open_args_of cfg LIVE a sig d rd) ?s0 = (s1, Inr opened)"
    and ends: "if \<not> op_ok opened \<or> op_fill_qty opened \<le> 0
      then res = None \<and> pos_of t ?y = pos_of ?s0 ?y
      else let levels = fill_adjusted cfg rd (ea_entry_price a) (op_fill_price opened) (ea_symbol_meta a) in
        (res = None \<or> res = Some (opened, levels)) \<and>
        (\<exists>sd. rd_side rd = Some sd \<and> activation_ends gw cfg ?y
            (position_of_fill cfg (ck_wall (now 2)) a sig d rd sd opened levels) t (res \<noteq> None))"
    using exchange.open_body_ends [OF assms(1) s0 body] by blast
  have "activation_ends gw cfg ?y p t ok = activation_ends gw cfg ?y p s' ok" for p ok
  proof (rule activation_ends_same [symmetric])
    show "pos_of s' ?y = pos_of t ?y" by (simp add: s')
    show "sv_exec s' = sv_exec t" "sv_guards s' = sv_guards t" by (simp_all add: s' upd_state_def)
  qed
  moreover have "pos_of t ?y = pos_of s' ?y" "pos_of ?s0 ?y = pos_of s ?y" by (simp_all add: s')
  ultimately have "if \<not> op_ok opened \<or> op_fill_qty opened \<le> 0
      then res = None \<and> pos_of s' ?y = pos_of s ?y
      else let levels = fill_adjusted cfg rd (ea_entry_price a) (op_fill_price opened) (ea_symbol_meta a) in
        (res = None \<or> res = Some (opened, levels)) \<and>
        (\<exists>sd. rd_side rd = Some sd \<and> activation_ends gw cfg ?y
            (position_of_fill cfg (ck_wall (now 2)) a sig d rd sd opened levels) s' (res \<noteq> None))"
    using ends by (simp only:)
  with op show ?thesis unfolding activation_ends_def not_not by blast
qed

section \<open>Example\<close>

definition ex_entry_args :: entry_args where
  "ex_entry_args = \<lparr> ea_symbol = ''ETH'', ea_snapshots = Map.empty, ea_candles_1m = [], ea_box_high = 100,
    ea_box_low = 90, ea_symbol_meta = \<lparr> sm_symbol = ''ETH'', sm_base_coin = ''ETH'', sm_quote_coin = ''USDT'',
      sm_status = ''Trading'', sm_tick_size = 0, sm_qty_step = 0, sm_min_order_qty = 0, sm_max_order_qty = 0,
      sm_min_notional = 0, sm_max_leverage = 10, sm_launch_time_ms = None \<rparr>,
    ea_equity = 1000, ea_entry_price = 100, ea_best_bid = 100, ea_best_ask = 100, ea_market = None,
    ea_has_orderbook_provider = False, ea_daily_loss_percent = 0, ea_consecutive_losses = 0 \<rparr>"

definition ex_rd :: risk_decision where
  "ex_rd = \<lparr> rd_approved = True, rd_reason = [], rd_side = Some LONG, rd_qty = 1, rd_leverage = 2,
    rd_notional = 100, rd_stop_loss_price = Some 95, rd_take_profit_price = Some 110, rd_liq_price = None,
    rd_risk_usdt = 5, rd_stop_metadata = None \<rparr>"

definition ex_signal_eth :: signal where
  "ex_signal_eth = \<lparr> sg_symbol = ''ETH'', sg_direction = SIG_LONG, sg_strategy = ''trend'', sg_score = 8, sg_reason = [] \<rparr>"

definition ex_decision_eth :: entry_decision where
  "ex_decision_eth = \<lparr> ed_symbol = ''ETH'', ed_direction = SIG_LONG, ed_entry_mode = PRE_BREAKOUT_SCOUT,
    ed_position_fraction = 1, ed_stop_atr = 1, ed_score = 8, ed_reason = [], ed_structure_stop_price = None,
    ed_stop_metadata = None, ed_compression_mode = None, ed_has_compression = None, ed_required_score = None,
    ed_compression_bonus_applied = None \<rparr>"

abbreviation ex_order :: open_args where
  "ex_order \<equiv> \<lparr> oa_symbol = ''ETH'', oa_side = BUY, oa_qty = 1, oa_leverage = 2, oa_best_bid = 100, oa_best_ask = 100,
    oa_entry_mode = PRE_BREAKOUT_SCOUT, oa_stop_loss = Some 95, oa_take_profit = None \<rparr>"

lemma one_dec: "quantize8 (dmul 1 1) = 1" "dadd 0 1 = 1" "dabs 1 = 1" "dneg 0 = 0"
proof -
  have 1: "dround 1 = 1" using is_decD [OF is_dec_int [of 1]] by (simp add: prec_hi_def)
  moreover have "rhe 100000000 = 100000000" using rhe_of_int [of 100000000] by simp
  ultimately show "quantize8 (dmul 1 1) = 1" by (simp add: quantize8_def dmul_def)
  show "dadd 0 1 = 1" "dabs 1 = 1" "dneg 0 = 0" using 1 by (simp_all add: dadd_def dabs_def dneg_def)
qed

lemma nat_str_small: "nat_str 0 = ''0''" "nat_str (Suc 0) = ''1''"
  by code_simp+

lemmas live_eval = live_open_def place_entry_def default_app_config_def entry_order_type_def
  default_orders_section_def str_to_type_def assert_live_new_entry_allowed_def passive_limit_price_def
  or_dec_def place_limit_def limit_round_def with_entry_tpsl_def default_tpsl_section_def trigger_by_of_def
  new_cid_def fake_gateway_def ask_fake_def upd_fake_def ex_live_def upd_live_def new_fake_exchange_def
  and_then_def then_do_def numeral_2_eq_2 limit_tries.simps nat_str_small place_def
  normalize_request_qty_def meta_for_def load_metas_def metas_of_def new_order_request_def
  reserve_request_def reserve_order_def upd_state_def fake_place_order_def apply_fill_def
  apply_attached_tpsl_def set_stops_def one_dec signed_size_def get_or_def put_position_def
  new_runtime_state_def settle_def resolve_def record_order_def order_of_def register_order_def
  clear_reservation_def clear_order_reservation_def or_string_def truthy_def dict_pop_def
  fake_position_def begin_position_update_def outcome_is_filled_def

lemma ex_open:
  "\<exists>s1. live_open fake_gateway default_app_config ex_order (upd_state (begin_position_update ''ETH'') ex_live) =
      (s1, Inr \<lparr> op_ok = True, op_fill_price = 100, op_fill_qty = 1, op_fee = 0, op_reason = [] \<rparr>) \<and>
    fx_positions (lv_gw (sv_exec s1)) = [(''ETH'', (fake_position ''ETH'' (Some LONG) 1 100 2)\<lparr> xp_stop_loss := Some 95 \<rparr>)] \<and>
    fx_tpsl (lv_gw (sv_exec s1)) ''ETH'' = Some (None, Some 95)"
  by (simp add: live_eval Let_def)

lemma ex_protect:
  assumes "registry_ok (sv_state s)" "pos_of s ''ETH'' = Some p" "p_stop_loss_price p = Some 95"
    and "fx_positions (lv_gw (sv_exec s)) = [(''ETH'', e)]" "xp_symbol e = ''ETH''" "xp_side e = Some LONG" "0 < xp_size e"
    and "fx_tpsl (lv_gw (sv_exec s)) ''ETH'' = Some (None, Some 95)"
  shows "\<exists>s'. protect fake_gateway default_app_config ''ETH'' s = (s', Inr (protected_result None (Some 95)))"
proof -
  let ?f = "\<lambda>p. p\<lparr> p_qty := xp_size e, p_avg_entry_price := xp_avg_price e \<rparr>"
  let ?s = "upd_pos ''ETH'' ?f s"
  have conf: "confirm_position fake_gateway ''ETH'' s = (?s, Inr ())"
    using assms(4-7) by (simp add: confirm_position_def try_except_def and_then_def fake_gateway_def ask_fake_def
        adopt_size_def)
  have pos: "pos_of ?s ''ETH'' = Some (?f p)" using upd_pos_ok [OF assms(1,2), of ?f] by simp
  have exec: "sv_exec ?s = sv_exec s" by (simp add: upd_pos_def set_pos_def split: option.split)
  have cfg: "pp_verify_tpsl_after_entry (cfg_position_protection default_app_config)"
    "tp_use_exchange_sl (cfg_tpsl default_app_config)" "\<not> tp_use_exchange_tp (cfg_tpsl default_app_config)"
    "nat (pp_verify_tpsl_retry_count (cfg_position_protection default_app_config)) = Suc 2"
    "0 \<le> pp_tpsl_verify_tolerance_percent (cfg_position_protection default_app_config)"
    by (simp_all add: default_app_config_def default_position_protection_section_def default_tpsl_section_def)
  have "matches_now default_app_config ''ETH'' (fake_position_tpsl ''ETH'' (lv_gw (sv_exec ?s))) ?s"
    using assms(3) cfg(5)
    by (simp add: matches_now_def pos matches_requested_tpsl_def cfg fake_position_tpsl_def get_or_def exec assms(8)
        close_enough_def dsub_def dabs_def ddiv_def dmul_def)
  then have ver: "verify_tpsl fake_gateway default_app_config ''ETH'' ?s = (?s, Inr True)"
    unfolding verify_tpsl_def cfg verify_tries.simps by (simp add: fake_gateway_def ask_fake_def)
  have "wanted_tp default_app_config (?f p) = None" "wanted_sl default_app_config (?f p) = Some 95"
    by (simp_all add: wanted_tp_def wanted_sl_def cfg assms(3))
  then show ?thesis
    by (simp add: protect_def then_do_def and_then_def conf pos protect_with_def cfg ver)
qed

lemma live_entry_protected_witness:
  "\<exists>s' w q. open_entry (live_ports fake_gateway default_app_config (throw TypeError)) default_app_config
      (\<lambda>_. \<lparr> ck_mono = 0, ck_wall = 5 \<rparr>) ex_entry_args ex_signal_eth ex_decision_eth ex_rd ex_live = (s', Inr (Some w)) \<and>
    pos_of s' ''ETH'' = Some (q\<lparr> p_status := ACTIVE \<rparr>) \<and> p_stop_loss_price q = Some 95 \<and>
    shown_last fake_gateway default_app_config ''ETH'' q s'"
proof -
  let ?io = "live_ports fake_gateway default_app_config (throw TypeError)"
  let ?now = "\<lambda>_ :: nat. \<lparr> ck_mono = 0, ck_wall = 5 \<rparr>"
  obtain s1 where op: "live_open fake_gateway default_app_config ex_order (upd_state (begin_position_update ''ETH'') ex_live) =
      (s1, Inr \<lparr> op_ok = True, op_fill_price = 100, op_fill_qty = 1, op_fee = 0, op_reason = [] \<rparr>)"
    and gw: "fx_positions (lv_gw (sv_exec s1)) = [(''ETH'', (fake_position ''ETH'' (Some LONG) 1 100 2)\<lparr> xp_stop_loss := Some 95 \<rparr>)]"
      "fx_tpsl (lv_gw (sv_exec s1)) ''ETH'' = Some (None, Some 95)"
    using ex_open by blast
  have args: "open_args_of default_app_config LIVE ex_entry_args ex_signal_eth ex_decision_eth ex_rd = ex_order"
    by (simp add: open_args_of_def ex_entry_args_def entry_side_def ex_signal_eth_def ex_decision_eth_def
        ex_rd_def attach_sl_def attach_tp_def default_app_config_def default_tpsl_section_def)
  have y: "ea_symbol ex_entry_args = ''ETH''" by (simp add: ex_entry_args_def)
  let ?o = "\<lparr> op_ok = True, op_fill_price = 100, op_fill_qty = 1, op_fee = 0, op_reason = [] \<rparr>"
  let ?l = "fill_adjusted default_app_config ex_rd (ea_entry_price ex_entry_args) 100 (ea_symbol_meta ex_entry_args)"
  let ?p = "position_of_fill default_app_config 5 ex_entry_args ex_signal_eth ex_decision_eth ex_rd LONG ?o ?l"
  let ?s2 = "set_pos ?p (record_slippage_if_breached default_app_config (entry_side ex_signal_eth) 100
    (ea_best_bid ex_entry_args) (ea_best_ask ex_entry_args) s1)"
  have stop: "fl_stop_loss_price ?l = Some 95"
    by (simp add: fill_adjusted_def ex_rd_def ex_entry_args_def Let_def dabs_def dsub_def)
  have same: "same_book (upd_state (begin_position_update ''ETH'') ex_live) s1"
    by (rule book.keepsD [OF fake.live_open_book op])
  then have s1: "registry_ok (sv_state s1)" "sv_mode s1 = LIVE" "sv_has_protection s1"
    using ex_live_facts(1) by (simp_all add: same_book_def registry_ok_def ex_live_def begin_position_update_def upd_state_def)
  have "registry_ok (sv_state ?s2)"
    using registry_ok_put [of "sv_state s1" ?p] s1(1) by (simp add: set_pos_def)
  moreover have "pos_of ?s2 ''ETH'' = Some ?p" by (simp add: y)
  moreover have "p_stop_loss_price ?p = Some 95" by (simp add: position_of_fill_def Let_def stop)
  ultimately obtain s3 where prot: "protect fake_gateway default_app_config ''ETH'' ?s2 =
      (s3, Inr (protected_result None (Some 95)))"
    using ex_protect [of ?s2 ?p] gw by (auto simp: set_pos_def fake_position_def)
  have mode: "sv_mode ?s2 = LIVE" "sv_has_protection ?s2" using s1 by (simp_all add: set_pos_def)
  have act: "activate_new ?io 0 ''ETH'' ?s2 = (s3, Inr True)"
    by (simp add: activate_new_def mode and_then_def prot protected_result_def)
  have mode0: "sv_mode (upd_state (begin_position_update ''ETH'') ex_live) = LIVE"
    by (simp add: upd_state_def ex_live_def)
  have side: "rd_side ex_rd = Some LONG" by (simp add: ex_rd_def)
  have body: "open_body ?io default_app_config ?now ex_entry_args ex_signal_eth ex_decision_eth ex_rd
      (upd_state (begin_position_update ''ETH'') ex_live) = (s3, Inr (Some (?o, ?l)))"
    using act by (simp add: open_body_def mode0 args and_then_def op Let_def side then_do_def y)
  have run: "open_entry ?io default_app_config ?now ex_entry_args ex_signal_eth ex_decision_eth ex_rd ex_live =
      (upd_state (end_position_update ''ETH'') s3, Inr (Some (?o, ?l)))"
    by (simp add: open_entry_def try_finally_def y body)
  have live: "sv_mode ex_live = LIVE" "sv_has_protection ex_live" by (simp_all add: ex_live_def)
  have cfg: "pp_verify_tpsl_after_entry (cfg_position_protection default_app_config)"
    "tp_use_exchange_sl (cfg_tpsl default_app_config)"
    by (simp_all add: default_app_config_def default_position_protection_section_def default_tpsl_section_def)
  have "p_stop_loss_price ?p = Some 95" by (simp add: position_of_fill_def Let_def stop)
  with live_entry_protected [OF fake.exchange_axioms ex_live_facts(1) live run] show ?thesis
    unfolding y args op run
    by (auto simp: side Let_def protection_ends_def same_levels_def wanted_sl_def cfg)
qed

end
