(* ===== verification/Market_Stream.thy ===== *)
theory Market_Stream
  imports Action Guards
begin

text \<open>
  Starting and stopping the WebSocket streams (\<^verbatim>\<open>apps/bot/runtime/bot_runtime.py\<close>, \<open>_start_market_ws\<close> and
  \<open>_start_private_ws\<close>; \<^verbatim>\<open>packages/exchange/bybit_gateway.py\<close>, \<open>start_market_websocket\<close> and its siblings), and
  one round of the clock loop. The sockets of the SDK are the operations of \<open>socket_api\<close>; what a callback does with
  a message is in \<open>Bybit_Gateway\<close>. The locale \<open>sockets\<close> says what an SDK promises: a new socket is open and
  subscribes to nothing, a subscription that does not raise adds its topic, and \<open>exit\<close> closes.
\<close>

section \<open>The sockets of the SDK\<close>

text \<open>A topic is a symbol with an interval for candles and without one for tickers.\<close>

type_synonym topic = "string \<times> string option"

record ('w, 'k) socket_api =
  so_new :: "('w, 'k) action"
  so_ticker :: "'k \<Rightarrow> string \<Rightarrow> ('w, unit) action"
  so_kline :: "'k \<Rightarrow> string \<Rightarrow> string \<Rightarrow> ('w, unit) action"
  so_exit :: "'k \<Rightarrow> ('w, unit) action"
  so_new_private :: "('w, 'k) action"
  so_private :: "'k \<Rightarrow> string \<Rightarrow> ('w, unit) action"

text \<open>The gateway's \<open>_ws\<close> and \<open>_private_ws\<close>, and the runtime's \<open>_market_ws_symbols\<close>.\<close>

record ('w, 'k) streams =
  sm_world :: 'w
  sm_ws :: "'k option"
  sm_private_ws :: "'k option"
  sm_symbols :: "string set"

definition in_world :: "('w, 'a) action \<Rightarrow> (('w, 'k) streams, 'a) action" where
  "in_world m st = (case m (sm_world st) of (w, r) \<Rightarrow> (st\<lparr> sm_world := w \<rparr>, r))"

lemma in_world_Inr: "in_world m st = (st', Inr x) \<longleftrightarrow> (\<exists>w. m (sm_world st) = (w, Inr x) \<and> st' = st\<lparr> sm_world := w \<rparr>)"
  by (auto simp: in_world_def split: prod.splits)

lemma then_do_returns: "then_do m k s = (s', Inr x) \<longleftrightarrow> (\<exists>s1. m s = (s1, Inr ()) \<and> k s1 = (s', Inr x))"
  by (auto simp: then_do_def and_then_def split: prod.splits sum.splits)

lemma try_ignored: "\<exists>s1. try_except m (\<lambda>_. ret ()) s = (s1, Inr ())"
  by (cases "m s"; cases "snd (m s)") (auto simp: try_except_def)

section \<open>The gateway\<close>

definition stream_intervals :: "string list" where
  "stream_intervals = [''1'', ''5'', ''15'']"

definition subscribe_symbol :: "('w, 'k) socket_api \<Rightarrow> 'k \<Rightarrow> string \<Rightarrow> ('w, unit) action" where
  "subscribe_symbol sk k y = then_do (so_ticker sk k y) (for_each (\<lambda>i. so_kline sk k i y) stream_intervals)"

definition start_market_websocket :: "('w, 'k) socket_api \<Rightarrow> string list \<Rightarrow> (('w, 'k) streams, unit) action" where
  "start_market_websocket sk ys =
    and_then (in_world (so_new sk)) (\<lambda>k.
      then_do (modify (\<lambda>st. st\<lparr> sm_ws := Some k \<rparr>)) (for_each (\<lambda>y. in_world (subscribe_symbol sk k y)) ys))"

definition stop_market_websocket :: "('w, 'k) socket_api \<Rightarrow> (('w, 'k) streams, unit) action" where
  "stop_market_websocket sk st =
    (case sm_ws st of
       None \<Rightarrow> ret () st
     | Some k \<Rightarrow> try_finally (try_except (in_world (so_exit sk k)) (\<lambda>_. ret ())) (\<lambda>st. st\<lparr> sm_ws := None \<rparr>) st)"

text \<open>The private stream, with the three callbacks the runtime always gives.\<close>

definition start_private_websocket :: "('w, 'k) socket_api \<Rightarrow> bool \<Rightarrow> (('w, 'k) streams, unit) action" where
  "start_private_websocket sk credentials =
    (if \<not> credentials then ret ()
     else and_then (in_world (so_new_private sk)) (\<lambda>k.
       then_do (modify (\<lambda>st. st\<lparr> sm_private_ws := Some k \<rparr>))
         (for_each (\<lambda>c. in_world (so_private sk k c)) [''order'', ''execution'', ''position''])))"

section \<open>The runtime\<close>

text \<open>\<open>start\<close> and \<open>stop\<close> are the gateway's two methods, missing in a gateway without streams.\<close>

definition start_market_ws ::
  "(string list \<Rightarrow> (('w, 'k) streams, unit) action) option \<Rightarrow> (('w, 'k) streams, unit) action option \<Rightarrow> bool \<Rightarrow>
   string list \<Rightarrow> (('w, 'k) streams, unit) action" where
  "start_market_ws start stop has_collector ys st =
    (case start of
       None \<Rightarrow> ret () st
     | Some begin_stream \<Rightarrow>
         if \<not> has_collector \<or> ys = [] \<or> sm_symbols st = set ys then ret () st
         else then_do
           (case stop of
              None \<Rightarrow> ret ()
            | Some end_stream \<Rightarrow>
                if sm_symbols st = {} then ret ()
                else try_except (then_do end_stream (modify (\<lambda>st. st\<lparr> sm_symbols := {} \<rparr>))) (\<lambda>_. ret ()))
           (try_except (then_do (begin_stream ys) (modify (\<lambda>st. st\<lparr> sm_symbols := set ys \<rparr>)))
             (\<lambda>_. modify (\<lambda>st. st\<lparr> sm_symbols := {} \<rparr>))) st)"

definition start_private_ws :: "(('w, 'k) streams, unit) action option \<Rightarrow> (('w, 'k) streams, unit) action" where
  "start_private_ws start = (case start of None \<Rightarrow> ret () | Some m \<Rightarrow> try_except m (\<lambda>_. ret ()))"

text \<open>One round of \<open>_clock_loop\<close>: the answer of \<open>get_server_time\<close>, when the gateway has it, with the local clock
  at that time.\<close>

definition clock_tick :: "int result option \<Rightarrow> int \<Rightarrow> clock_sync_guard option \<Rightarrow> clock_sync_guard option" where
  "clock_tick answer local g =
    (case answer of Some (Inr server) \<Rightarrow> map_option (clock_update server local) g | _ \<Rightarrow> g)"

lemma clock_tick_failure [simp]: "clock_tick (Some (Inl e)) local g = g" "clock_tick None local g = g"
  by (simp_all add: clock_tick_def)

section \<open>What is subscribed\<close>

locale sockets =
  fixes sk :: "('w, 'k) socket_api" and opened :: "'w \<Rightarrow> 'k set" and topics :: "'w \<Rightarrow> 'k \<Rightarrow> topic set"
  assumes new_socket: "so_new sk w = (w', Inr k) \<Longrightarrow> k \<in> opened w' \<and> topics w' k = {}"
    and ticker_added: "so_ticker sk k y w = (w', Inr ()) \<Longrightarrow> opened w' = opened w \<and> topics w' k = insert (y, None) (topics w k)"
    and kline_added: "so_kline sk k i y w = (w', Inr ()) \<Longrightarrow> opened w' = opened w \<and> topics w' k = insert (y, Some i) (topics w k)"
    and closed: "so_exit sk k w = (w', Inr ()) \<Longrightarrow> opened w' = opened w - {k}"
begin

lemma for_each_topics:
  assumes "\<And>x w w'. m x w = (w', Inr ()) \<Longrightarrow> opened w' = opened w \<and> topics w' k = T x \<union> topics w k"
  shows "for_each m xs w = (w', Inr ()) \<Longrightarrow> opened w' = opened w \<and> topics w' k = \<Union> (T ` set xs) \<union> topics w k"
proof (induction xs arbitrary: w)
  case (Cons x xs)
  then obtain w1 where "m x w = (w1, Inr ())" "for_each m xs w1 = (w', Inr ())"
    by (auto simp: then_do_def and_then_def split: prod.splits sum.splits)
  with assms Cons.IH show ?case by auto
qed simp

lemma symbol_topics:
  assumes "subscribe_symbol sk k y w = (w', Inr ())"
  shows "opened w' = opened w \<and> topics w' k = ({y} \<times> insert None (Some ` set stream_intervals)) \<union> topics w k"
proof -
  obtain w1 where w1: "so_ticker sk k y w = (w1, Inr ())" "for_each (\<lambda>i. so_kline sk k i y) stream_intervals w1 = (w', Inr ())"
    using assms by (auto simp: subscribe_symbol_def then_do_def and_then_def split: prod.splits sum.splits)
  have "opened w' = opened w1 \<and> topics w' k = \<Union> ((\<lambda>i. {(y, Some i)}) ` set stream_intervals) \<union> topics w1 k"
    by (rule for_each_topics [OF _ w1(2)]) (use kline_added in auto)
  with ticker_added [OF w1(1)] show ?thesis by auto
qed

lemma all_symbols:
  "for_each (\<lambda>y. in_world (subscribe_symbol sk k y)) ys st = (st', Inr ()) \<Longrightarrow>
    sm_ws st' = sm_ws st \<and> opened (sm_world st') = opened (sm_world st) \<and>
    topics (sm_world st') k = set ys \<times> insert None (Some ` set stream_intervals) \<union> topics (sm_world st) k"
proof (induction ys arbitrary: st)
  case (Cons y ys)
  then obtain w where w: "subscribe_symbol sk k y (sm_world st) = (w, Inr ())"
      "for_each (\<lambda>y. in_world (subscribe_symbol sk k y)) ys (st\<lparr> sm_world := w \<rparr>) = (st', Inr ())"
    unfolding for_each.simps then_do_returns in_world_Inr by blast
  from Cons.IH [OF w(2)] symbol_topics [OF w(1)] show ?case by auto
qed simp

lemma started:
  assumes "start_market_websocket sk ys st = (st', Inr ())"
  shows "\<exists>k. sm_ws st' = Some k \<and> k \<in> opened (sm_world st') \<and>
    topics (sm_world st') k = set ys \<times> insert None (Some ` set stream_intervals)"
proof -
  obtain w k where "so_new sk (sm_world st) = (w, Inr k)"
      "for_each (\<lambda>y. in_world (subscribe_symbol sk k y)) ys (st\<lparr> sm_world := w, sm_ws := Some k \<rparr>) = (st', Inr ())"
    using assms by (auto simp: start_market_websocket_def then_do_def and_then_def in_world_def split: prod.splits sum.splits)
  with new_socket all_symbols show ?thesis by fastforce
qed

text \<open>What the runtime believes to be subscribed is what the gateway's open socket subscribes to.\<close>

definition subscribed :: "('w, 'k) streams \<Rightarrow> bool" where
  "subscribed st \<longleftrightarrow> sm_symbols st = {} \<or>
    (\<exists>k. sm_ws st = Some k \<and> k \<in> opened (sm_world st) \<and>
      topics (sm_world st) k = sm_symbols st \<times> insert None (Some ` set stream_intervals))"

lemma start_keeps_subscribed:
  assumes "subscribed st" "start_market_ws (Some (start_market_websocket sk)) stop c ys st = (st', r)"
  shows "subscribed st' \<and> r = Inr ()"
proof -
  let ?fresh = "try_except (then_do (start_market_websocket sk ys) (modify (\<lambda>st. st\<lparr> sm_symbols := set ys \<rparr>)))
      (\<lambda>_. modify (\<lambda>st. st\<lparr> sm_symbols := {} \<rparr>))"
  have begin_stream: "subscribed (fst (?fresh st1)) \<and> snd (?fresh st1) = Inr ()" for st1
    using started [of ys st1]
    by (cases "start_market_websocket sk ys st1"; cases "snd (start_market_websocket sk ys st1)")
       (auto simp: try_except_def then_do_def and_then_def subscribed_def)
  let ?old = "case stop of None \<Rightarrow> ret ()
    | Some end_stream \<Rightarrow> if sm_symbols st = {} then ret ()
        else try_except (then_do end_stream (modify (\<lambda>st. st\<lparr> sm_symbols := {} \<rparr>))) (\<lambda>_. ret ())"
  obtain st1 where "?old st = (st1, Inr ())"
    using try_ignored by (cases stop; cases "sm_symbols st = {}") force+
  then have "then_do ?old ?fresh st = ?fresh st1" by (simp add: then_do_def and_then_def)
  with assms begin_stream [of st1] show ?thesis
    unfolding start_market_ws_def option.case by (cases "?fresh st1") (auto split: if_splits)
qed

end

section \<open>An SDK\<close>

text \<open>A socket is a number; the SDK keeps the next number, the open sockets and the topics of each. Subscribing to
  \<open>BAD\<close>, or on a closed socket, raises.\<close>

type_synonym own_world = "nat \<times> nat list \<times> (nat \<Rightarrow> topic list)"

definition add_topic :: "nat \<Rightarrow> topic \<Rightarrow> (own_world, unit) action" where
  "add_topic k t = (\<lambda>(n, ks, f).
    if fst t = ''BAD'' \<or> k \<notin> set ks then ((n, ks, f), Inl ValueError) else ((n, ks, f(k := t # f k)), Inr ()))"

definition open_socket :: "(own_world, nat) action" where
  "open_socket = (\<lambda>(n, ks, f). ((Suc n, n # ks, f(n := [])), Inr n))"

definition own_sockets :: "(own_world, nat) socket_api" where
  "own_sockets =
    \<lparr> so_new = open_socket, so_ticker = (\<lambda>k y. add_topic k (y, None)), so_kline = (\<lambda>k i y. add_topic k (y, Some i)),
      so_exit = (\<lambda>k (n, ks, f). ((n, filter (\<lambda>j. j \<noteq> k) ks, f), Inr ())), so_new_private = open_socket,
      so_private = (\<lambda>_ _. ret ()) \<rparr>"

interpretation own_stream: sockets own_sockets "\<lambda>w. set (fst (snd w))" "\<lambda>w k. set (snd (snd w) k)"
  by unfold_locales (auto simp: own_sockets_def open_socket_def add_topic_def split: prod.splits if_splits)

text \<open>The runtime forgets the symbols of a stream it could not start, and with them that a socket was opened: the
  next attempt opens another one and closes none.\<close>

lemma failed_start_leaks_socket:
  "fst (snd (sm_world (fst (start_market_ws (Some (start_market_websocket own_sockets)) (Some (stop_market_websocket own_sockets)) True
      [''BTCUSDT'', ''ETHUSDT'']
    (fst (start_market_ws (Some (start_market_websocket own_sockets)) (Some (stop_market_websocket own_sockets)) True
      [''BTCUSDT'', ''BAD''] \<lparr> sm_world = (0, [], \<lambda>_. []), sm_ws = None, sm_private_ws = None, sm_symbols = {} \<rparr>)))))) = [1, 0]"
  by code_simp

end
