(* ===== verification/Position_Properties.thy ===== *)
theory Position_Properties
  imports Position_Facts
begin

text \<open>
  The guarantees of the position manager for one evaluation.
\<close>

section \<open>One evaluation\<close>

lemma evaluate_stop_tight:
  "tighter (p_side p) (p_stop_loss_price p) (p_stop_loss_price (fst (snd (evaluate cfg b m p))))"
  using evaluate_outcome [of cfg p b m]
  by (cases rule: eval_outcome.cases) (auto simp: order_view_def)

text \<open>C20. One evaluation asks for at most one order or stop change, and asks for it last: everything
  before it is a notification. So the caller never acts on a position that a previous action
  of the same evaluation has already changed.\<close>

theorem evaluate_single_order:
  "\<exists>evs rest. snd (snd (evaluate cfg b m p)) = evs @ rest \<and> all_events evs \<and> length rest \<le> 1"
proof -
  have "\<exists>evs rest. acts = evs @ rest \<and> all_events evs \<and> length rest \<le> 1"
    if "eval_outcome cfg r p (p', acts)" for r p' acts
    using that
  proof cases
    case watch
    then show ?thesis by (intro exI [of _ acts] exI [of _ "[]"]) simp
  qed (metis length_Cons list.size(3) One_nat_def order_refl)+
  then show ?thesis using evaluate_outcome [of cfg p b m] by (metis prod.collapse)
qed

lemma eval_outcome_action:
  assumes "eval_outcome cfg r p (p', acts)" "a \<in> set acts" "pa_type a = t" "t \<noteq> SCOUT_EVENT"
  obtains evs where "acts = evs @ [a]" "all_events evs"
  using assms(1)
proof cases
  case watch
  then show ?thesis using assms(2-) by (auto simp: all_events_def)
qed (use assms(2-) in \<open>auto simp: all_events_def intro: that\<close>)

text \<open>C34. An exit closes the whole position: it asks for the full quantity, marks the position as
  closing with the reason of the action, and is the last action.\<close>

theorem evaluate_exit_closes:
  assumes "a \<in> set (snd (snd (evaluate cfg b m p)))" and "pa_type a = EXIT"
  shows "pa_qty a = Some (p_qty p) \<and> p_status (fst (snd (evaluate cfg b m p))) = CLOSING \<and>
    p_exit_reason (fst (snd (evaluate cfg b m p))) = pa_reason a \<and>
    last (snd (snd (evaluate cfg b m p))) = a"
proof -
  obtain m' p' acts where e: "evaluate cfg b m p = (m', p', acts)" by (metis surj_pair)
  have o: "eval_outcome cfg (r_multiple p (bi_price b)) p (p', acts)"
    using evaluate_outcome [of cfg p b m] e by simp
  have a: "a \<in> set acts" using assms e by simp
  from o show ?thesis
    by cases (use a assms(2) e in \<open>auto simp: order_view_def all_events_def\<close>)
qed

text \<open>A position held for the configured maximum is closed by the very next evaluation, before
  any other rule is looked at.\<close>

theorem evaluate_max_holding:
  assumes "is_bot_managed p" and "p_status p = ACTIVE" and "held_too_long cfg p (bi_now b)"
  shows "map pa_type (snd (snd (evaluate cfg b m p))) = [EXIT] \<and>
    p_exit_reason (fst (snd (evaluate cfg b m p))) = Some MAX_HOLDING_TIME"
  using assms by (simp add: evaluate_def Let_def held_too_long_def case_prod_beta)

section \<open>Scouts\<close>

definition scout_view :: "position \<Rightarrow> scout_state \<times> int" where
  "scout_view p = (p_scout_state p, p_scout_defensive_reduction_count p)"

lemma exit_scout_view [simp]: "scout_view (fst (exit_position p r)) = scout_view p"
  by (simp add: scout_view_def)

lemma trailing_scout_view [simp]: "scout_view (fst (trailing_update cfg b mr r x p)) = scout_view p"
  by (simp add: trailing_update_def Let_def scout_view_def record_runner_trailing_update_def split: option.split)

lemma stagnation_scout_view:
  "stagnation_action cfg m p mr cr x y = (m', p', a) \<Longrightarrow> scout_view p' = scout_view p"
  using stagnation_action_outcome [of cfg m p mr cr x y] exit_scout_view [of p STAGNATION]
  by (auto elim!: stagnation_outcome.cases simp del: exit_scout_view)

lemma scenario_scout_view:
  "scenario_action cfg b cr m p = (m', p', a) \<Longrightarrow> scout_view p' = scout_view p"
  using scenario_action_outcome [of m p cr cfg b] exit_scout_view [of p SCENARIO_INVALID]
  by (auto elim!: scenario_outcome.cases simp del: exit_scout_view)

lemma manage_scenario_scout_view: "scout_view (fst (snd (manage_scenario cfg b mr r acts m p))) = scout_view p"
proof (cases "p_runner_mode_active p")
  case True
  then show ?thesis by (simp add: manage_scenario_def case_prod_beta Let_def)
next
  case False
  obtain m1 p1 sc where sc: "scenario_action cfg b r m p = (m1, p1, sc)" by (metis surj_pair)
  obtain m2 p2 st where st: "stagnation_action cfg m1 p1 mr r (bi_price b) (bi_atr b) = (m2, p2, st)"
    by (metis surj_pair)
  show ?thesis
    using False sc st scenario_scout_view [OF sc] stagnation_scout_view [OF st]
    by (simp add: manage_scenario_def case_prod_beta split: option.split)
qed

lemma manage_general_scout_view: "scout_view (fst (snd (manage_general cfg b mr r acts m p))) = scout_view p"
proof -
  have [simp]: "scout_view (p\<lparr> p_trailing_active := t \<rparr>) = scout_view p"
    "scout_view (p\<lparr> p_partial_tp_done := t \<rparr>) = scout_view p" for t
    by (simp_all add: scout_view_def)
  show ?thesis by (simp add: manage_general_def Let_def case_prod_beta manage_scenario_scout_view)
qed

lemma runner_scout_view:
  "runner_state_actions cfg b mr cr m p = (m', p', acts) \<Longrightarrow> scout_view p' = scout_view p"
  using forget_runner_frame [OF runner_state_frame(1)] by (simp add: scout_view_def)

lemma scout_outcome_view:
  assumes "scout_outcome cfg p (p', acts, g)"
  shows "scout_move (p_scout_state p) (p_scout_state p') \<and>
    p_scout_defensive_reduction_count p \<le> p_scout_defensive_reduction_count p' \<and>
    p_scout_defensive_reduction_count p' \<le>
      max (p_scout_defensive_reduction_count p) (sc_max_defensive_reductions (scout_cfg cfg))"
  using assms
proof cases
  case (reduce a)
  then show ?thesis
    using scout_live_states [of cfg p] by (auto intro: scout_move.intros)
qed auto

text \<open>C35. Managing a position moves its scout state only along the edges of the scout state machine (a
  confirmed scout never goes back to pending, an active trend never leaves that state), and
  the number of defensive reductions never grows beyond the configured maximum.\<close>

theorem evaluate_scout_moves:
  "scout_move (p_scout_state p) (p_scout_state (fst (snd (evaluate cfg b m p)))) \<and>
   p_scout_defensive_reduction_count (fst (snd (evaluate cfg b m p))) \<le>
     max (p_scout_defensive_reduction_count p) (sc_max_defensive_reductions (scout_cfg cfg))"
proof (cases "is_bot_managed p \<and> p_status p = ACTIVE")
  case False
  then show ?thesis by (auto simp: evaluate_def intro: scout_move.stay)
next
  case True
  let ?p = "update_extremes (bi_price b) (bi_candle b) (advance_bar_counter (bi_candle b) p)"
  let ?r = "r_multiple p (bi_price b)"
  let ?max = "max (get_or (pm_max_r m) (p_symbol p) 0) ?r"
  let ?m = "m\<lparr> pm_max_r := (pm_max_r m)(p_symbol p \<mapsto> ?max) \<rparr>"
  obtain m2 p2 pre g where sc: "scout_management_action cfg b ?max ?m ?p = (m2, p2, pre, g)"
    by (metis surj_pair)
  have "scout_outcome cfg ?p (p2, pre, g)"
    using scout_management_outcome [of cfg ?p b ?max ?m] sc by simp
  from scout_outcome_view [OF this]
  have p2: "scout_move (p_scout_state p) (p_scout_state p2)" "p_scout_defensive_reduction_count p2 \<le>
      max (p_scout_defensive_reduction_count p) (sc_max_defensive_reductions (scout_cfg cfg))"
    by simp_all
  obtain m3 p3 evs where ru: "runner_state_actions cfg b ?max ?r m2 p2 = (m3, p3, evs)"
    by (metis surj_pair)
  let ?e = "fst (snd (evaluate cfg b m p))"
  have eq: "evaluate cfg b m p =
      (if held_too_long cfg ?p (bi_now b)
       then (?m, fst (exit_position ?p MAX_HOLDING_TIME), [snd (exit_position ?p MAX_HOLDING_TIME)])
       else if \<not> g then (m2, p2, pre) else manage_general cfg b ?max ?r (pre @ evs) m3 p3)"
    unfolding evaluate_def Let_def using True by (simp add: case_prod_beta sc ru)
  have "scout_view ?e = scout_view p \<or> scout_view ?e = scout_view p2"
    using manage_general_scout_view runner_scout_view [OF ru]
    by (simp add: eq) (simp add: scout_view_def)
  then show ?thesis using p2 by (auto simp: scout_view_def intro: scout_move.stay)
qed

text \<open>The break-level rule needs two different candles: the first close beyond the level only counts,
  evaluating that candle again does not count it twice, and the next candle that closes
  beyond the level invalidates the scenario.\<close>

theorem break_level_needs_two_candles:
  assumes "p_breakout_level p = Some level" and "pm_break_level_fail_closes m (scenario_key_of p) = None"
    and "wrong_side p (cd_close k) level" and "0 < cd_open_time_ms k"
    and "wrong_side p (cd_close k') level" and "cd_open_time_ms k < cd_open_time_ms k'"
  shows "\<not> snd (break_level_invalid m p k) \<and>
    break_level_invalid (fst (break_level_invalid m p k)) p k = (fst (break_level_invalid m p k), False) \<and>
    snd (break_level_invalid (fst (break_level_invalid m p k)) p k')"
  using assms by (simp add: break_level_invalid_def Let_def get_or_def candle_time_def)

section \<open>Examples\<close>

definition ex_position :: position where
  "ex_position = (new_position ''BTCUSDT'' LONG 2 100 0)\<lparr> p_status := ACTIVE,
    p_stop_loss_price := Some 99, p_initial_risk_per_unit := Some 1, p_initial_qty := Some 2,
    p_entry_mode := Some BREAKOUT_CONFIRM \<rparr>"

definition ex_candle :: candle where
  "ex_candle = \<lparr> cd_symbol = ''BTCUSDT'', cd_interval = ''1'', cd_open_time_ms = 60000, cd_open = 100,
    cd_high = 101, cd_low = 100, cd_close = 100, cd_volume = 10, cd_turnover = 1000, cd_confirmed = True \<rparr>"

definition ex_bar :: "dec \<Rightarrow> int \<Rightarrow> bar_input" where
  "ex_bar price now = \<lparr> bi_price = price, bi_atr = 1 / 10, bi_candle = Some ex_candle,
    bi_snapshot_1m = None, bi_snapshot_5m = None, bi_volume_ratio = None, bi_now = now \<rparr>"

lemma evaluate_max_holding_witness:
  "map pa_type (snd (snd (evaluate default_app_config (ex_bar 100 10800000000) new_pm_state ex_position))) = [EXIT]"
  by (rule evaluate_max_holding [THEN conjunct1])
    (simp_all add: is_bot_managed_def ex_position_def new_position_def held_too_long_def ex_bar_def
      default_app_config_def default_position_section_def)

text \<open>The peak R of a symbol outlives the position that reached it. A position opened later on the
  same symbol, one bar old and at its entry price, is trailed from that peak and closed at
  once, where a manager that has not seen the symbol before keeps it.\<close>

definition ex_stale :: pm_state where
  "ex_stale = new_pm_state\<lparr> pm_max_r := [''BTCUSDT'' \<mapsto> 3] \<rparr>"

lemmas ex_eval = evaluate_def Let_def is_bot_managed_def ex_position_def new_position_def held_too_long_def
  ex_bar_def ex_candle_def scout_management_action_def runner_state_actions_def manage_general_def
  advance_bar_counter_def update_extremes_def r_multiple_def trail_stop_def effective_stop_def stop_breached_def
  exit_position_def plain_action_def or_dec_def

lemma stale_peak_closes_new_position:
  "map pa_type (snd (snd (evaluate default_app_config (ex_bar 100 1) ex_stale ex_position))) = [EXIT] \<and>
   p_exit_reason (fst (snd (evaluate default_app_config (ex_bar 100 1) ex_stale ex_position))) = Some TRAILING_STOP"
  by (simp add: ex_eval ex_stale_def new_pm_state_def dec_eval default_app_config_def
      default_position_section_def default_scout_management_section_def get_or_def)

lemma fresh_manager_keeps_new_position:
  "snd (snd (evaluate default_app_config (ex_bar 100 1) new_pm_state ex_position)) = [] \<and>
   p_status (fst (snd (evaluate default_app_config (ex_bar 100 1) new_pm_state ex_position))) = ACTIVE"
  by (simp add: ex_eval new_pm_state_def dec_eval default_app_config_def manage_scenario_def scenario_action_def
      scenario_invalid_def five_min_ema_break_def break_level_invalid_def strong_counter_candle_def
      clear_scout_scenario_invalid_def stagnation_action_def stagnation_breakout_mode_def
      default_stagnation_exit_section_def default_stagnation_breakout_def
      default_position_section_def default_scout_management_section_def get_or_def)

lemma evaluate_exit_closes_witness:
  "p_status (fst (snd (evaluate default_app_config (ex_bar 100 1) ex_stale ex_position))) = CLOSING"
proof -
  obtain a where a: "snd (snd (evaluate default_app_config (ex_bar 100 1) ex_stale ex_position)) = [a]" "pa_type a = EXIT"
    using stale_peak_closes_new_position by auto
  show ?thesis
    by (rule evaluate_exit_closes [THEN conjunct2, THEN conjunct1, of a]) (simp_all add: a)
qed

lemma break_level_needs_two_candles_witness:
  "snd (break_level_invalid (fst (break_level_invalid new_pm_state (ex_position\<lparr> p_breakout_level := Some 102 \<rparr>) ex_candle))
    (ex_position\<lparr> p_breakout_level := Some 102 \<rparr>) (ex_candle\<lparr> cd_open_time_ms := 120000 \<rparr>))"
  by (rule break_level_needs_two_candles [where level = 102, THEN conjunct2, THEN conjunct2])
    (simp_all add: new_pm_state_def wrong_side_def ex_position_def new_position_def ex_candle_def)

end
