(* ===== verification/Reports.thy ===== *)
theory Reports
  imports Dashboard Daily_Account
begin

text \<open>
  The reports of the dashboard (\<^verbatim>\<open>apps/api/repositories/daily_repository.py\<close>,
  \<^verbatim>\<open>services/pnl_service.py\<close>, \<^verbatim>\<open>repositories/trade_repository.py\<close>): the daily log, the calendar of a month,
  the profit and loss per day and per month, the summary of the moment, the trades, orders, fills and positions with
  their details, and the configuration as it is shown. They only read. Sums are in binary floating point, as in
  the code: every operation rounds to 53 bits. A text in a money column is one the bot writes, so \<open>float\<close>
  reads it as \<open>Decimal\<close> does; the signs of zeros are not kept.
\<close>

section \<open>Floating point\<close>

definition num :: "string option \<Rightarrow> rat" where
  "num v = (case v of None \<Rightarrow> 0 | Some s \<Rightarrow> (case parse_decimal s of Inl _ \<Rightarrow> 0 | Inr x \<Rightarrow> to_float x))"

definition num_json :: "json \<Rightarrow> rat" where
  "num_json v =
    (case v of JStr s \<Rightarrow> num (Some s) | JInt n \<Rightarrow> to_float (of_int n) | JBool b \<Rightarrow> if b then 1 else 0 | _ \<Rightarrow> 0)"

text \<open>\<open>sum\<close> of floats carries the rounding errors along and adds them at the end.\<close>

definition sum_step :: "rat \<times> rat \<Rightarrow> rat \<Rightarrow> rat \<times> rat" where
  "sum_step = (\<lambda>(hi, lo) x.
    let t = fadd hi x
    in (t, fadd lo (if \<bar>x\<bar> \<le> \<bar>hi\<bar> then fadd (fsub hi t) x else fadd (fsub x t) hi)))"

definition fsum :: "rat list \<Rightarrow> rat" where
  "fsum xs =
    (case xs of [] \<Rightarrow> 0
     | x # ys \<Rightarrow> let (hi, lo) = foldl sum_step (x, 0) ys in if lo = 0 then hi else fadd hi lo)"

text \<open>\<open>f"{v:.2f}"\<close>.\<close>

definition fmt2 :: "rat \<Rightarrow> string" where
  "fmt2 v =
    (let n = rhe (\<bar>v\<bar> * 100)
     in (if v < 0 then ''-'' else []) @ nat_text (nat (n div 100)) @ ''.'' @ pad 2 (n mod 100))"

section \<open>The tables read\<close>

text \<open>The rows of \<open>daily_account_equity\<close> carry the time of their last change beside the account.\<close>

record report_db =
  ry_tables :: maintained
  ry_equity :: "(account_row \<times> int option) list"
  ry_protections :: "protection_row list"
  ry_paper :: "paper_snapshot_row list"

definition of_mode :: "string option \<Rightarrow> string option \<Rightarrow> bool" where
  "of_mode mode m \<longleftrightarrow> (case mode of None \<Rightarrow> True | Some _ \<Rightarrow> m = mode)"

definition sort_desc :: "('a \<Rightarrow> 'k::linorder) \<Rightarrow> 'a list \<Rightarrow> 'a list" where
  "sort_desc f xs = rev (sort_key f (rev xs))"

section \<open>Daily profit and loss\<close>

definition daily_equity_dict :: "account_row \<times> int option \<Rightarrow> fields" where
  "daily_equity_dict = (\<lambda>(r, updated).
    [(''day'', JStr (ac_day r)), (''mode'', JStr (bot_mode_value (ac_mode r))),
     (''start_equity'', JStr (str_dec (ac_start_equity r))), (''current_equity'', JStr (str_dec (ac_current_equity r))),
     (''equity'', JStr (str_dec (ac_current_equity r))),
     (''wallet_balance'', json_opt (map_option str_dec (ac_wallet_balance r))),
     (''realized'', JStr (str_dec (ac_realized_pnl r))), (''unrealized'', JStr (str_dec (ac_unrealized_pnl r))),
     (''fees'', JStr (str_dec (ac_fees r))), (''funding_fees'', JStr (str_dec (ac_funding_fees r))),
     (''net'', JStr (str_dec (ac_net_pnl r))), (''net_pnl'', JStr (str_dec (ac_net_pnl r))),
     (''net_pnl_percent'', JStr (str_dec (ac_net_pnl_percent r))),
     (''max_drawdown_percent'', JStr (str_dec (ac_max_drawdown_percent r))),
     (''updated_at'', json_opt (map_option iso_time updated))])"

text \<open>The columns of a row of \<open>daily_pnl\<close> that the reports use; \<open>row_to_dict\<close> adds its id and time. A day has one row.\<close>

definition daily_pnl_dict :: "daily_pnl_row \<Rightarrow> fields" where
  "daily_pnl_dict r =
    [(''day'', JStr (dw_day r)), (''realized'', JStr (dw_realized r)), (''unrealized'', JStr (dw_unrealized r)),
     (''fees'', JStr (dw_fees r)), (''net'', JStr (dw_net r))]"

definition equity_newest_first :: "report_db \<Rightarrow> (account_row \<times> int option) list" where
  "equity_newest_first db = rev (sort_key (ac_day \<circ> fst) (ry_equity db))"

definition day_text :: "fields \<Rightarrow> string" where
  "day_text m = str_of (look_or ''day'' (JStr []) m)"

definition list_daily_pnl :: "nat \<Rightarrow> report_db \<Rightarrow> fields list" where
  "list_daily_pnl n db =
    (let equity_rows = take n (equity_newest_first db);
         pnl_rows = take n (sort_desc dw_day (mt_daily (ry_tables db)));
         seen = (ac_day \<circ> fst) ` set equity_rows
     in take n (sort_desc day_text
          (map daily_equity_dict equity_rows @ map daily_pnl_dict (filter (\<lambda>r. dw_day r \<notin> seen) pnl_rows))))"

definition latest_daily_equity :: "report_db \<Rightarrow> fields option" where
  "latest_daily_equity db =
    (case equity_newest_first db of [] \<Rightarrow> None | r # _ \<Rightarrow> Some (daily_equity_dict r))"

definition daily_pnl_for :: "report_db \<Rightarrow> string \<Rightarrow> fields option" where
  "daily_pnl_for db day = map_option daily_pnl_dict (first_match (\<lambda>r. dw_day r = day) (mt_daily (ry_tables db)))"

text \<open>\<open>x or y\<close> on values of a dictionary.\<close>

definition json_or :: "json \<Rightarrow> json \<Rightarrow> json" where
  "json_or x y = (if json_true x then x else y)"

record month_bucket =
  mb_days :: nat
  mb_start :: json
  mb_end :: json
  mb_net :: rat
  mb_drawdown :: rat

definition add_day :: "fields \<Rightarrow> (string \<times> month_bucket) list \<Rightarrow> (string \<times> month_bucket) list" where
  "add_day m months =
    (let day = day_text m; month = take 7 day;
         net = num_json (json_or (look ''net'' m) (look ''net_pnl'' m));
         end_of = json_or (look ''current_equity'' m) (look ''equity'' m);
         start = look ''start_equity'' m
     in if length day < 7 then months
        else
          let b = (case map_of months month of
                None \<Rightarrow> \<lparr> mb_days = 0, mb_start = start, mb_end = end_of, mb_net = 0, mb_drawdown = 0 \<rparr> | Some b \<Rightarrow> b)
          in dict_set month
               \<lparr> mb_days = mb_days b + 1,
                 mb_start = (if mb_start b = JNull \<and> json_true start then start else mb_start b),
                 mb_end = end_of, mb_net = fadd (mb_net b) net,
                 mb_drawdown = max (mb_drawdown b)
                   (num_json (json_or (look ''max_drawdown_percent'' m) (look ''max_drawdown_today'' m))) \<rparr> months)"

record month_view =
  mv_month :: string
  mv_days :: nat
  mv_start_equity :: json
  mv_end_equity :: json
  mv_net_pnl :: string
  mv_net_pnl_percent :: string
  mv_max_drawdown_percent :: string

definition month_view_of :: "string \<times> month_bucket \<Rightarrow> month_view" where
  "month_view_of = (\<lambda>(month, b).
    let start = num_json (mb_start b); net = mb_net b
    in \<lparr> mv_month = month, mv_days = mb_days b, mv_start_equity = mb_start b, mv_end_equity = mb_end b,
         mv_net_pnl = fmt2 net,
         mv_net_pnl_percent = (if 0 < start then fmt2 (fmul (fdiv net start) 100) else ''0.00''),
         mv_max_drawdown_percent = fmt2 (mb_drawdown b) \<rparr>)"

definition monthly_pnl :: "nat \<Rightarrow> report_db \<Rightarrow> month_view list" where
  "monthly_pnl n db =
    take n (sort_desc mv_month (map month_view_of (fold add_day (sort_key day_text (list_daily_pnl 1000 db)) [])))"

section \<open>The log of a day\<close>

definition trade_pnl :: "trade_row \<Rightarrow> rat" where
  "trade_pnl t = num (Some (or_text (tw_net_pnl t) (tw_realized_pnl t)))"

text \<open>\<open>data.get(k)\<close> of an event as text. The bot writes texts under the keys that are read here; any other
  value counts as missing.\<close>

definition data_text :: "string \<Rightarrow> bot_event_row \<Rightarrow> string option" where
  "data_text k e = (case map_of (ew_data e) k of Some (PStr s) \<Rightarrow> Some s | _ \<Rightarrow> None)"

definition reason_of :: "bot_event_row \<Rightarrow> string" where
  "reason_of e = or_text (data_text ''reason_code'' e) (or_text (Some (ew_message e)) ''UNKNOWN'')"

text \<open>\<open>_top_counts\<close>: Python's \<open>sorted\<close> keeps the order of equal elements, also with \<open>reverse\<close>.\<close>

definition top_counts :: "string list \<Rightarrow> nat option \<Rightarrow> (string \<times> nat) list" where
  "top_counts vs n =
    (let items = sort_key (\<lambda>(_, c). - int c) (count_kinds vs) in case n of None \<Rightarrow> items | Some k \<Rightarrow> take k items)"

definition suggestions :: "(string \<times> string) list" where
  "suggestions =
    [(''VOLUME_TOO_LOW'', ''volume.min_setup_volume_ratio or entry volume threshold''),
     (''BREAKOUT_VOLUME_TOO_LOW'', ''entry.breakout_confirm.volume_min_ratio''),
     (''BODY_TOO_SMALL'', ''candle_quality.min_body_ratio_for_breakout''),
     (''OPPOSITE_WICK_TOO_LARGE'', ''candle_quality.max_opposite_wick_ratio_for_breakout''),
     (''WEAK_CLOSE_IN_RANGE'', ''candle_quality close-position threshold''),
     (''BREAKOUT_NOT_HEALTHY'', ''breakout volume, candle quality, or anti-chase thresholds''),
     (''BREAKOUT_EXHAUSTION'', ''entry.anti_chase.exhaustion_volume_ratio''),
     (''ANTI_CHASE_LONG'', ''entry.anti_chase long-side thresholds''),
     (''ANTI_CHASE_SHORT'', ''entry.anti_chase short-side thresholds''),
     (''SCOUT_SCORE_TOO_LOW'', ''entry.pre_breakout.min_score''),
     (''SCOUT_SCORE_TOO_LOW_NO_COMPRESSION'',
      ''entry.pre_breakout.no_compression_min_score or no_compression_position_fraction''),
     (''SCOUT_TOO_FAR_FROM_BOX'', ''entry.pre_breakout.max_distance_to_box_atr''),
     (''RETEST_TOO_FAR_FROM_LEVEL'', ''entry.retest_confirm.retest_tolerance_atr''),
     (''RISK_REJECTED'', ''risk limits and open position exposure''),
     (''PRE_ORDER_INSUFFICIENT_DEPTH'', ''orders.pre_order_depth_multiple or scanner depth filter''),
     (''COOLDOWN_ACTIVE'', ''cooldown settings'')]"

text \<open>A row names the reason or, when no reason has a suggestion, the stage.\<close>

record relaxation =
  rl_field :: string
  rl_name :: string
  rl_count :: nat
  rl_candidate :: string

definition relaxation_candidates :: "string list \<Rightarrow> string list \<Rightarrow> relaxation list" where
  "relaxation_candidates reasons stages =
    (let rows = take 5 (List.map_filter (\<lambda>(r, n). map_option
           (\<lambda>c. \<lparr> rl_field = ''reason_code'', rl_name = r, rl_count = n, rl_candidate = c \<rparr>) (map_of suggestions r))
           (sort_key (\<lambda>(_, c). - int c) (top_counts reasons None)))
     in if rows \<noteq> [] then rows
        else map (\<lambda>(s, n). \<lparr> rl_field = ''failed_stage'', rl_name = s, rl_count = n,
               rl_candidate = ''review this guard first'' \<rparr>) (take 5 (top_counts stages None)))"

record no_entry_view =
  nv_by_reason_code :: "(string \<times> nat) list"
  nv_by_symbol :: "(string \<times> nat) list"
  nv_by_entry_mode :: "(string \<times> nat) list"
  nv_by_failed_stage :: "(string \<times> nat) list"
  nv_top_blocking_guard :: "(string \<times> nat) list"
  nv_relaxation_candidates :: "relaxation list"

definition no_entry_summary :: "bot_event_row list \<Rightarrow> no_entry_view" where
  "no_entry_summary es =
    (let reasons = map reason_of es;
         symbols = List.map_filter (\<lambda>e. case ew_symbol e of Some y \<Rightarrow> if y = [] then None else Some y | None \<Rightarrow> None) es;
         modes = map (\<lambda>e. or_text (data_text ''entry_mode_candidate'' e) ''UNKNOWN'') es;
         stages = map (\<lambda>e. or_text (data_text ''failed_stage'' e) ''UNKNOWN'') es
     in \<lparr> nv_by_reason_code = top_counts reasons None, nv_by_symbol = top_counts symbols None,
          nv_by_entry_mode = top_counts modes None, nv_by_failed_stage = top_counts stages None,
          nv_top_blocking_guard = top_counts stages (Some 1),
          nv_relaxation_candidates = relaxation_candidates reasons stages \<rparr>)"

record mode_bucket =
  mp_n :: nat
  mp_w :: nat
  mp_l :: nat
  mp_net :: rat
  mp_r_total :: rat
  mp_r_count :: nat

definition empty_mode_bucket :: mode_bucket where
  "empty_mode_bucket = \<lparr> mp_n = 0, mp_w = 0, mp_l = 0, mp_net = 0, mp_r_total = 0, mp_r_count = 0 \<rparr>"

definition add_performance :: "trade_row \<Rightarrow> mode_bucket \<Rightarrow> mode_bucket" where
  "add_performance t b =
    (let pnl = trade_pnl t in
     b\<lparr> mp_n := mp_n b + 1, mp_w := mp_w b + (if 0 < pnl then 1 else 0), mp_l := mp_l b + (if pnl < 0 then 1 else 0),
        mp_net := fadd (mp_net b) pnl,
        mp_r_total := (if tw_r_multiple t = None then mp_r_total b else fadd (mp_r_total b) (num (tw_r_multiple t))),
        mp_r_count := (if tw_r_multiple t = None then mp_r_count b else mp_r_count b + 1) \<rparr>)"

definition mode_key :: "trade_row \<Rightarrow> string" where
  "mode_key t = or_text (tw_entry_mode t) ''UNKNOWN''"

definition count_performance :: "trade_row \<Rightarrow> (string \<times> mode_bucket) list \<Rightarrow> (string \<times> mode_bucket) list" where
  "count_performance t agg =
    dict_set (mode_key t) (add_performance t (case map_of agg (mode_key t) of None \<Rightarrow> empty_mode_bucket | Some b \<Rightarrow> b)) agg"

record performance =
  pf_entry_mode :: string
  pf_trade_count :: nat
  pf_win_count :: nat
  pf_loss_count :: nat
  pf_win_rate :: string
  pf_net_pnl :: string
  pf_avg_r :: string

definition performance_of :: "string \<times> mode_bucket \<Rightarrow> performance" where
  "performance_of = (\<lambda>(mode, b).
    \<lparr> pf_entry_mode = mode, pf_trade_count = mp_n b, pf_win_count = mp_w b, pf_loss_count = mp_l b,
      pf_win_rate = (if mp_n b = 0 then ''0.00'' else fmt2 (fmul (fdiv (of_nat (mp_w b)) (of_nat (mp_n b))) 100)),
      pf_net_pnl = fmt2 (mp_net b),
      pf_avg_r = fmt2 (if mp_r_count b = 0 then 0 else fdiv (mp_r_total b) (of_nat (mp_r_count b))) \<rparr>)"

definition entry_mode_performance :: "trade_row list \<Rightarrow> performance list" where
  "entry_mode_performance ts =
    sort_key (\<lambda>p. - int (pf_trade_count p)) (map performance_of (fold count_performance ts []))"

record log_summary =
  ls_trade_count :: nat
  ls_win_count :: nat
  ls_loss_count :: nat
  ls_net_pnl :: string
  ls_realized_pnl :: string
  ls_unrealized_pnl :: string
  ls_fees :: string
  ls_max_drawdown :: string
  ls_manual_count :: nat
  ls_tpsl_failed_count :: nat
  ls_emergency_count :: nat
  ls_no_entry_count :: nat
  ls_top_no_entry :: "(string \<times> nat) list"

record daily_log =
  dl_date :: string
  dl_mode :: "string option"
  dl_summary :: log_summary
  dl_trades :: "trade_row list"
  dl_events :: "bot_event_row list"
  dl_manual :: "(int \<times> string \<times> string \<times> payload) list"
  dl_risk_events :: "bot_event_row list"
  dl_protection_events :: "protection_row list"
  dl_no_entry :: no_entry_view
  dl_performance :: "performance list"

definition make_daily_log :: "report_db \<Rightarrow> string \<Rightarrow> string option \<Rightarrow> daily_log" where
  "make_daily_log db day mode =
    (let mt = ry_tables db;
         trades = filter (\<lambda>t. of_mode mode (tw_mode t)) (trades_of_day day mt);
         events = filter (\<lambda>e. iso_day (ew_ts e) = day) (map snd (mt_events mt));
         manuals = filter (\<lambda>(t, _). iso_day t = day) (mt_manual mt);
         protections = filter (\<lambda>r. iso_day (rw_ts r) = day) (ry_protections db);
         no_entry = filter (\<lambda>e. ew_type e = ''NO_ENTRY_REASON'') events
     in \<lparr> dl_date = day, dl_mode = mode,
          dl_summary =
            \<lparr> ls_trade_count = length trades, ls_win_count = length (filter (\<lambda>t. 0 < trade_pnl t) trades),
              ls_loss_count = length (filter (\<lambda>t. trade_pnl t < 0) trades),
              ls_net_pnl = fmt2 (fsum (map trade_pnl trades)),
              ls_realized_pnl = fmt2 (fsum (map (\<lambda>t. num (Some (tw_realized_pnl t))) trades)),
              ls_unrealized_pnl = ''0'', ls_fees = fmt2 (fsum (map (\<lambda>t. num (Some (tw_fees t))) trades)),
              ls_max_drawdown = ''0'', ls_manual_count = length manuals,
              ls_tpsl_failed_count =
                length (filter (\<lambda>e. ew_type e = ''TPSL_FAILED'' \<or> ew_type e = ''EMERGENCY_TPSL_FAILED'') events),
              ls_emergency_count = length (filter (\<lambda>e. take 9 (ew_type e) = ''EMERGENCY'') events),
              ls_no_entry_count = length no_entry, ls_top_no_entry = top_counts (map reason_of no_entry) (Some 10) \<rparr>,
          dl_trades = trades, dl_events = events, dl_manual = manuals,
          dl_risk_events = filter (\<lambda>e. take 4 (ew_type e) \<in> {''RISK'', ''KILL''}) events,
          dl_protection_events = protections, dl_no_entry = no_entry_summary no_entry,
          dl_performance = entry_mode_performance trades \<rparr>)"

section \<open>The calendar of a month\<close>

record calendar_item =
  ci_date :: string
  ci_trade_count :: int
  ci_net_pnl :: string
  ci_has_warning :: bool
  ci_has_error :: bool
  ci_manual_count :: nat

definition live_calendar_item :: "report_db \<Rightarrow> string \<Rightarrow> string option \<Rightarrow> calendar_item" where
  "live_calendar_item db day mode =
    (let lg = make_daily_log db day mode; s = dl_summary lg
     in \<lparr> ci_date = day, ci_trade_count = int (ls_trade_count s), ci_net_pnl = ls_net_pnl s,
          ci_has_warning = (list_ex (\<lambda>e. ew_severity e = ''WARNING'') (dl_events lg) \<or> 0 < ls_tpsl_failed_count s),
          ci_has_error = (list_ex (\<lambda>e. ew_severity e \<in> {''ERROR'', ''CRITICAL''}) (dl_events lg) \<or> 0 < ls_emergency_count s),
          ci_manual_count = ls_manual_count s \<rparr>)"

definition count_by_day :: "daily_group_row list \<Rightarrow> (string \<times> int) list" where
  "count_by_day rows =
    fold (\<lambda>r m. dict_set (dg_day r) ((case map_of m (dg_day r) of None \<Rightarrow> 0 | Some n \<Rightarrow> n) + dg_trade_count r) m) rows []"

text \<open>\<open>{f(r): g(r) for r in rows}\<close>: a later row replaces an earlier one.\<close>

definition dict_of :: "('a \<Rightarrow> 'k) \<Rightarrow> ('a \<Rightarrow> 'v) \<Rightarrow> 'a list \<Rightarrow> ('k \<times> 'v) list" where
  "dict_of f g rows = fold (\<lambda>r. dict_set (f r) (g r)) rows []"

definition stored_calendar_item ::
  "(string \<times> daily_event_row) list \<Rightarrow> (string \<times> nat) list \<Rightarrow> (string \<times> int) list \<Rightarrow> daily_pnl_row \<Rightarrow> calendar_item" where
  "stored_calendar_item evs mis counts r =
    (let es = map_of evs (dw_day r)
     in \<lparr> ci_date = dw_day r, ci_trade_count = (case map_of counts (dw_day r) of None \<Rightarrow> 0 | Some n \<Rightarrow> n),
          ci_net_pnl = dw_net r,
          ci_has_warning = (case es of None \<Rightarrow> False | Some e \<Rightarrow> 0 < de_warning e),
          ci_has_error = (case es of None \<Rightarrow> False | Some e \<Rightarrow> 0 < de_error e \<or> 0 < de_critical e),
          ci_manual_count = (case map_of mis (dw_day r) of None \<Rightarrow> 0 | Some n \<Rightarrow> n) \<rparr>)"

definition month_prefix :: "nat \<Rightarrow> nat \<Rightarrow> string" where
  "month_prefix year month = pad 4 (int year) @ ''-'' @ pad 2 (int month)"

definition in_month :: "string \<Rightarrow> string \<Rightarrow> bool" where
  "in_month prefix day \<longleftrightarrow> take (length prefix) day = prefix"

definition calendar :: "int \<Rightarrow> report_db \<Rightarrow> nat \<Rightarrow> nat \<Rightarrow> string option \<Rightarrow> calendar_item list" where
  "calendar now db year month mode =
    (let prefix = month_prefix year month; mt = ry_tables db;
         pnl = filter (in_month prefix \<circ> dw_day) (mt_daily mt);
         ev_sum = filter (\<lambda>r. in_month prefix (de_day r) \<and> of_mode mode (Some (de_mode r))) (mt_event_summary mt);
         mi_sum = filter (\<lambda>r. in_month prefix (dm_day r) \<and> of_mode mode (Some (dm_mode r))) (mt_manual_summary mt);
         sym = filter (\<lambda>r. in_month prefix (dg_day r) \<and> of_mode mode (Some (dg_mode r))) (mt_symbol_pnl mt);
         stored = dict_of dw_day
           (stored_calendar_item (dict_of de_day id ev_sum) (dict_of dm_day dm_count mi_sum) (count_by_day sym))
           (sort_key dw_day pnl);
         today = iso_day now;
         by_date = (if in_month prefix today then dict_set today (live_calendar_item db today mode) stored else stored)
     in map snd (sort_key fst by_date))"

section \<open>The summary of the moment\<close>

text \<open>\<open>d.setdefault(k, v)\<close>.\<close>

definition set_default :: "string \<Rightarrow> json \<Rightarrow> fields \<Rightarrow> fields" where
  "set_default k v m = (if map_of m k = None then m @ [(k, v)] else m)"

definition has_key :: "string \<Rightarrow> fields \<Rightarrow> bool" where
  "has_key k m \<longleftrightarrow> map_of m k \<noteq> None"

text \<open>What the database gives when the bot has published nothing.\<close>

definition stored_summary :: "report_db \<Rightarrow> fields" where
  "stored_summary db =
    (case latest_daily_equity db of
       Some r \<Rightarrow>
         [(''realized'', look ''realized'' r), (''unrealized'', look ''unrealized'' r), (''fees'', look ''fees'' r),
          (''funding_fees'', look ''funding_fees'' r), (''equity'', look ''current_equity'' r),
          (''start_equity'', look ''start_equity'' r), (''daily_net_pnl'', look ''net_pnl'' r),
          (''daily_net_pnl_percent'', look ''net_pnl_percent'' r),
          (''max_drawdown_today'', look ''max_drawdown_percent'' r), (''updated_at'', look ''updated_at'' r)]
     | None \<Rightarrow>
         (case list_daily_pnl 1 db of
            [] \<Rightarrow> []
          | r # _ \<Rightarrow> [(''realized'', look_or ''realized'' (JStr ''0'') r), (''unrealized'', look_or ''unrealized'' (JStr ''0'') r),
                       (''fees'', look_or ''fees'' (JStr ''0'') r)]))"

text \<open>What is missing in the published object is taken from the account of the day.\<close>

definition complete_summary :: "report_db \<Rightarrow> fields \<Rightarrow> fields" where
  "complete_summary db m =
    (case latest_daily_equity db of
       None \<Rightarrow> m
     | Some r \<Rightarrow>
         let m1 = set_default ''updated_at'' (look ''updated_at'' r)
           (set_default ''max_drawdown_today'' (look ''max_drawdown_percent'' r)
             (set_default ''start_equity'' (look ''start_equity'' r) m))
         in if has_key ''daily_net_pnl'' m1 then m1
            else
              let start = num_json (look ''start_equity'' m1); equity = num_json (look ''equity'' m1);
                  net = fsub equity start
              in if 0 < start \<and> 0 < equity
                 then set_default ''daily_net_pnl_percent'' (JStr (fmt2 (fmul (fdiv net start) 100)))
                   (m1 @ [(''daily_net_pnl'', JStr (fmt2 net))])
                 else set_default ''daily_net_pnl_percent'' (look ''net_pnl_percent'' r)
                   (m1 @ [(''daily_net_pnl'', look ''net_pnl'' r)]))"

text \<open>\<open>up\<close> says whether the first read of Redis is answered, \<open>up2\<close> whether the second is. A published value that
  is no object and not empty raises (written \<open>TypeError\<close>).\<close>

definition published_pnl :: "bool \<Rightarrow> board \<Rightarrow> fields result" where
  "published_pnl up b =
    (case if up then bd_json b bot_pnl_key else None of
       Some (Some (JObj m)) \<Rightarrow> Inr m
     | Some (Some v) \<Rightarrow> if json_true v then Inl TypeError else Inr []
     | _ \<Rightarrow> Inr [])"

record pnl_view =
  pv_mode :: "string option"
  pv_equity :: json
  pv_start_equity :: json
  pv_daily_net_pnl :: string
  pv_daily_net_pnl_percent :: json
  pv_realized_pnl :: string
  pv_unrealized_pnl :: string
  pv_fees :: string
  pv_funding_fees :: string
  pv_max_drawdown_today :: json
  pv_updated_at :: json
  pv_degraded :: bool

definition pnl_view_of :: "report_db \<Rightarrow> string option \<Rightarrow> bool \<Rightarrow> fields \<Rightarrow> pnl_view" where
  "pnl_view_of db mode degraded m =
    (let realized = num_json (look ''realized'' m); unrealized = num_json (look ''unrealized'' m);
         fees = num_json (look ''fees'' m); funding = num_json (look ''funding_fees'' m);
         net_with = (\<lambda>u. fsub (fsub (fadd realized u) fees) funding);
         daily_net = (if has_key ''daily_net_pnl'' m then num_json (look ''daily_net_pnl'' m) else net_with unrealized);
         snap = (if look ''equity'' m = JNull \<and> ry_paper db \<noteq> [] then Some (last (ry_paper db)) else None);
         equity = (case snap of None \<Rightarrow> look ''equity'' m | Some p \<Rightarrow> JStr (aw_equity p));
         (unrealized', daily_net') = (case snap of
             Some p \<Rightarrow> if json_true (look ''unrealized'' m) then (unrealized, daily_net)
               else let u = num (Some (aw_unrealized_pnl p)) in (u, net_with u)
           | None \<Rightarrow> (unrealized, daily_net))
     in \<lparr> pv_mode = mode, pv_equity = equity, pv_start_equity = look ''start_equity'' m,
          pv_daily_net_pnl = fmt2 daily_net', pv_daily_net_pnl_percent = look ''daily_net_pnl_percent'' m,
          pv_realized_pnl = fmt2 realized, pv_unrealized_pnl = fmt2 unrealized', pv_fees = fmt2 fees,
          pv_funding_fees = fmt2 funding, pv_max_drawdown_today = look ''max_drawdown_today'' m,
          pv_updated_at = look ''updated_at'' m, pv_degraded = degraded \<rparr>)"

definition pnl_summary :: "bool \<Rightarrow> bool \<Rightarrow> board \<Rightarrow> report_db \<Rightarrow> pnl_view result" where
  "pnl_summary up up2 b db =
    bind_res (published_pnl up b) (\<lambda>m.
      let mode = (if up \<and> up2 then bd_text b bot_mode_key else None);
          missing = (\<not> up \<or> bd_json b bot_pnl_key = None)
      in if m = [] then Inr (pnl_view_of db mode (\<not> (up \<and> up2) \<or> missing) (stored_summary db))
         else if look ''start_equity'' m = JNull \<or> \<not> has_key ''daily_net_pnl'' m
         then Inr (pnl_view_of db mode (\<not> (up \<and> up2)) (complete_summary db m))
         else Inr (pnl_view_of db mode (\<not> (up \<and> up2)) m))"

section \<open>Trades\<close>

record trade_query =
  tq_symbol :: "string option"
  tq_strategy_id :: "string option"
  tq_entry_mode :: "string option"
  tq_mode :: "string option"
  tq_exit_reason :: "string option"
  tq_pnl :: "string option"
  tq_from :: "int option"
  tq_to :: "int option"
  tq_limit :: int
  tq_offset :: int

text \<open>The condition on the profit compares the number the database reads in the column, which is always one.\<close>

definition trade_matches :: "trade_query \<Rightarrow> trade_row \<Rightarrow> bool" where
  "trade_matches q t \<longleftrightarrow>
    (case tq_symbol q of None \<Rightarrow> True | Some y \<Rightarrow> tw_symbol t = y) \<and>
    of_mode (tq_strategy_id q) (tw_strategy_id t) \<and> of_mode (tq_entry_mode q) (tw_entry_mode t) \<and>
    of_mode (tq_mode q) (tw_mode t) \<and> of_mode (tq_exit_reason q) (tw_exit_reason t) \<and>
    (tq_pnl q = Some ''positive'' \<longrightarrow> 0 < net_of t) \<and> (tq_pnl q = Some ''negative'' \<longrightarrow> net_of t < 0) \<and>
    (case tq_from q of None \<Rightarrow> True | Some a \<Rightarrow> a \<le> tw_ts t) \<and> (case tq_to q of None \<Rightarrow> True | Some b \<Rightarrow> tw_ts t \<le> b)"

definition list_trades :: "trade_query \<Rightarrow> report_db \<Rightarrow> trade_row table" where
  "list_trades q db =
    paginate (tq_limit q) (tq_offset q) (filter (trade_matches q \<circ> snd) (sort_desc fst (mt_trades (ry_tables db))))"

definition timeline_types :: "string set" where
  "timeline_types =
    {''SIGNAL'', ''SIGNAL_CREATED'', ''ORDER_PLACED'', ''ORDER_CREATED'', ''ORDER_FILLED'', ''POSITION_OPENED'', ''TPSL_SET'',
     ''TPSL_VERIFIED'', ''MANUAL_ADD_DETECTED'', ''MANUAL_QTY_INCREASED'', ''PARTIAL_TAKE_PROFIT'', ''TRAILING_UPDATED'',
     ''SCENARIO_INVALID'', ''SCOUT_PENDING_STARTED'', ''SCOUT_CONFIRMED'', ''SCOUT_WARNING_STARTED'',
     ''SCOUT_WARNING_RECOVERED'', ''SCOUT_ACTIVATED'', ''SCOUT_DEFENSIVE_REDUCE'', ''SCOUT_CATASTROPHIC_REDUCE'',
     ''SCOUT_INVALIDATED'', ''SCENARIO_INVALID_REDUCE'', ''STAGNATION_REDUCE'', ''STAGNATION_DELAYED_BY_ENTRY_MODE'',
     ''RUNNER_MODE_ACTIVATED'', ''RUNNER_TREND_STRENGTH_CHANGED'', ''RUNNER_TRAILING_UPDATED'',
     ''RUNNER_EXCHANGE_SL_UPDATED'', ''RUNNER_EXCHANGE_SL_UPDATE_FAILED'', ''RUNNER_TRAILING_STOP'',
     ''RUNNER_SCENARIO_INVALID'', ''RUNNER_POST_EXIT_MFE'', ''EMERGENCY_CLOSE'', ''POSITION_CLOSED''}"

record trade_detail =
  td_trade :: trade_row
  td_orders :: "(int \<times> order_row) table"
  td_fills :: "fill_row table"
  td_events :: "bot_event_row table"
  td_manual :: "(int \<times> string \<times> string \<times> payload) list"
  td_protections :: "protection_row list"
  td_risk_events :: "bot_event_row table"
  td_timeline :: "bot_event_row list"

definition trade_details :: "report_db \<Rightarrow> string \<Rightarrow> trade_detail option" where
  "trade_details db trade_id =
    (let mt = ry_tables db in
     map_option (\<lambda>(_, t).
       let y = tw_symbol t;
           events = sort_key fst (filter (\<lambda>(_, e). ew_symbol e = Some y) (mt_events mt))
       in \<lparr> td_trade = t,
            td_orders = sort_key fst (filter (\<lambda>(_, _, r). ow_symbol r = y) (mt_orders mt)),
            td_fills = sort_key fst (filter (\<lambda>(_, r). fw_symbol r = y) (mt_fills mt)),
            td_events = events, td_manual = filter (\<lambda>(_, s, _). s = y) (mt_manual mt),
            td_protections = filter (\<lambda>r. rw_symbol r = y) (ry_protections db),
            td_risk_events = filter (\<lambda>(_, e). take 4 (ew_type e) \<in> {''RISK'', ''KILL''}) events,
            td_timeline = sort_key (iso_time \<circ> ew_ts) (filter (\<lambda>e. ew_type e \<in> timeline_types) (map snd events)) \<rparr>)
       (first_match (\<lambda>(_, t). tw_trade_id t = Some trade_id) (mt_trades mt)))"


section \<open>Orders, fills and positions\<close>

definition order_statuses :: "string set" where
  "order_statuses = {''NEW'', ''PARTIALLY_FILLED'', ''FILLED'', ''CANCELED'', ''CANCELLED'', ''REJECTED'', ''EXPIRED'', ''FAILED'', ''UNKNOWN''}"

record order_query =
  oq_symbol :: "string option"
  oq_status :: "string option"
  oq_source :: "string option"
  oq_mode :: "string option"
  oq_from :: "int option"
  oq_to :: "int option"
  oq_limit :: int
  oq_offset :: int

definition order_matches :: "order_query \<Rightarrow> int \<times> order_row \<Rightarrow> bool" where
  "order_matches q = (\<lambda>(ts, r).
    of_mode (oq_symbol q) (Some (ow_symbol r)) \<and> of_mode (oq_status q) (Some (ow_status r)) \<and>
    of_mode (oq_source q) (ow_source r) \<and> of_mode (oq_mode q) (ow_mode r) \<and>
    (case oq_from q of None \<Rightarrow> True | Some a \<Rightarrow> a \<le> ts) \<and> (case oq_to q of None \<Rightarrow> True | Some b \<Rightarrow> ts \<le> b))"

definition list_orders :: "order_query \<Rightarrow> report_db \<Rightarrow> error_code + (int \<times> order_row) table" where
  "list_orders q db =
    (case oq_status q of
       Some st \<Rightarrow> if st \<notin> order_statuses then Inl VALIDATION_ERROR else Inr (paginate (oq_limit q) (oq_offset q)
         (filter (order_matches q \<circ> snd) (sort_desc fst (mt_orders (ry_tables db)))))
     | None \<Rightarrow> Inr (paginate (oq_limit q) (oq_offset q)
         (filter (order_matches q \<circ> snd) (sort_desc fst (mt_orders (ry_tables db))))))"

record fill_query =
  fq_symbol :: "string option"
  fq_order_id :: "string option"
  fq_mode :: "string option"
  fq_from :: "int option"
  fq_to :: "int option"
  fq_limit :: int
  fq_offset :: int

definition fill_matches :: "fill_query \<Rightarrow> fill_row \<Rightarrow> bool" where
  "fill_matches q r \<longleftrightarrow>
    of_mode (fq_symbol q) (Some (fw_symbol r)) \<and> of_mode (fq_order_id q) (fw_order_id r) \<and> of_mode (fq_mode q) (fw_mode r) \<and>
    (case fq_from q of None \<Rightarrow> True | Some a \<Rightarrow> a \<le> fw_ts r) \<and> (case fq_to q of None \<Rightarrow> True | Some b \<Rightarrow> fw_ts r \<le> b)"

definition list_fills :: "fill_query \<Rightarrow> report_db \<Rightarrow> fill_row table" where
  "list_fills q db =
    paginate (fq_limit q) (fq_offset q) (filter (fill_matches q \<circ> snd) (sort_desc fst (mt_fills (ry_tables db))))"

text \<open>The details of a position, over the tables the bot writes: the newest rows of each first. The reconciliation
  log is that of every symbol.\<close>

record position_details =
  po_row :: position_row
  po_signals :: "signal_row list"
  po_orders :: "order_row list"
  po_protections :: "protection_row list"
  po_manual :: "(int \<times> string \<times> string \<times> payload) list"
  po_reconciliations :: "(int \<times> payload) list"

definition latest_for_symbol :: "database \<Rightarrow> string \<Rightarrow> position_row option" where
  "latest_for_symbol db y = first_match (\<lambda>r. pw_symbol r = y) (rev (db_positions db))"

definition details_of_position :: "database \<Rightarrow> string \<Rightarrow> position_details option" where
  "details_of_position db y =
    map_option (\<lambda>r.
      \<lparr> po_row = r, po_signals = take 20 (filter (\<lambda>g. gw_symbol g = y) (rev (db_signals db))),
        po_orders = take 50 (filter (\<lambda>q. ow_symbol q = y) (rev (db_orders db))),
        po_protections = take 50 (filter (\<lambda>q. rw_symbol q = y) (rev (db_protections db))),
        po_manual = take 50 (filter (\<lambda>(_, s, _). s = y) (rev (db_manual db))),
        po_reconciliations = take 10 (rev (db_reconciliations db)) \<rparr>) (latest_for_symbol db y)"

section \<open>The configuration shown\<close>

record config_view =
  cv_version :: int
  cv_mode :: "string option"
  cv_strategy :: json
  cv_sections :: "(string \<times> json) list"

text \<open>\<open>running\<close> gives a section of the running configuration as JSON.\<close>

definition strategy_config_response ::
  "(string \<Rightarrow> json) \<Rightarrow> int \<Rightarrow> string option \<Rightarrow> fields \<Rightarrow> config_view" where
  "strategy_config_response running version mode stored =
    \<lparr> cv_version = version, cv_mode = mode,
      cv_strategy = look_or ''strategy'' (JObj [(''active_strategies'', JList [JStr ''trend_following''])]) stored,
      cv_sections = map (\<lambda>k. (k, look_or k (running k) stored)) config_sections \<rparr>"

definition get_config :: "(string \<Rightarrow> json) \<Rightarrow> api_world \<Rightarrow> api_state \<Rightarrow> config_view" where
  "get_config running w s =
    (let mode = (if aw_redis_up w then as_redis s bot_mode_key else None) in
     case latest_config s of
       None \<Rightarrow> strategy_config_response running 0 mode []
     | Some r \<Rightarrow> strategy_config_response running (sc_version r)
         (if sc_mode r = None \<or> sc_mode r = Some [] then mode else sc_mode r) (sc_config r))"

section \<open>Who may send commands\<close>

text \<open>With a token configured, authentication that is switched on lets exactly the requests with that token pass.
  With an empty token it lets every request pass that has no header.\<close>

lemma token_needed:
  "aw_auth_enabled w \<Longrightarrow> aw_token w \<noteq> [] \<Longrightarrow> authorized w \<longleftrightarrow> aw_header w = ''Bearer '' @ aw_token w"
  by (simp add: authorized_def)

lemma empty_token_lets_pass: "aw_token w = [] \<Longrightarrow> aw_header w = [] \<Longrightarrow> handle_request w listed q s =
    (if valid_body q then run_request w listed q s else refuse VALIDATION_ERROR ''Request validation failed.'' [] s)"
  by (simp add: handle_request_def require_auth_def starts_with_def)

section \<open>What the reports show\<close>

lemma dict_of_snoc: "dict_of f g (rows @ [r]) = dict_set (f r) (g r) (dict_of f g rows)"
  by (simp add: dict_of_def)

lemma dict_of_lookup:
  "map_of (dict_of f g rows) k = (case rev (filter (\<lambda>r. f r = k) rows) of [] \<Rightarrow> None | r # _ \<Rightarrow> Some (g r))"
  by (induction rows rule: rev_induct) (simp_all add: dict_of_snoc, simp add: dict_of_def)

lemma dict_of_distinct: "distinct (map fst (dict_of f g rows))"
  by (induction rows rule: rev_induct) (simp_all add: dict_of_snoc distinct_dict_set, simp add: dict_of_def)

lemma dict_of_keeps: "x \<in> set (dict_of f g rows) \<Longrightarrow> \<exists>r\<in>set rows. x = (f r, g r)"
proof (induction rows rule: rev_induct)
  case (snoc r rows)
  then show ?case using set_dict_set_subset [of "f r" "g r" "dict_of f g rows"] by (auto simp: dict_of_snoc)
qed (simp add: dict_of_def)

lemma count_by_day_snoc:
  "count_by_day (rows @ [r]) = dict_set (dg_day r)
    ((case map_of (count_by_day rows) (dg_day r) of None \<Rightarrow> 0 | Some n \<Rightarrow> n) + dg_trade_count r) (count_by_day rows)"
  by (simp add: count_by_day_def)

lemma count_by_day_lookup:
  "(case map_of (count_by_day rows) day of None \<Rightarrow> 0 | Some n \<Rightarrow> n) =
    sum_list (map dg_trade_count (filter (\<lambda>r. dg_day r = day) rows))"
proof (induction rows rule: rev_induct)
  case (snoc r rows)
  then show ?case by (cases "day = dg_day r") (simp_all add: count_by_day_snoc)
qed (simp add: count_by_day_def)

lemma sum_dict_set:
  fixes f :: "'k \<times> 'v \<Rightarrow> int"
  shows "sum_list (map f (dict_set k v d)) =
    sum_list (map f d) + f (k, v) - (case map_of d k of None \<Rightarrow> 0 | Some u \<Rightarrow> f (k, u))"
  by (induction k v d rule: dict_set.induct) auto

text \<open>The counts of the groups of a mode add up to the number of its trades.\<close>

lemma group_counts:
  "sum_list (map (\<lambda>x. if P (fst (fst x)) then bk_n (snd x) else 0) (group_trades key ts)) =
    int (length (filter (\<lambda>t. P (or_text (tw_mode t) ''PAPER'')) ts))"
proof (induction ts rule: rev_induct)
  case (snoc t ts)
  show ?case
    by (simp add: group_trades_snoc count_trade_def Let_def sum_dict_set snoc.IH add_trade_def group_of_def empty_bucket_def
        split: option.split)
qed (simp add: group_trades_def)

lemma summary_counts:
  "sum_list (map dg_trade_count (filter (\<lambda>r. dg_day r = day)
      (filter (\<lambda>r. in_month prefix (dg_day r) \<and> P (dg_mode r)) (replace_groups day key ts rows)))) =
    (if in_month prefix day then int (length (filter (\<lambda>t. P (or_text (tw_mode t) ''PAPER'')) ts)) else 0)"
proof -
  have count: "dg_trade_count (group_row day x) = bk_n (snd x)" for x
    by (cases x; cases "fst x") (simp add: group_row_def)
  have old: "filter (\<lambda>r. dg_day r = day) (filter (\<lambda>r. in_month prefix (dg_day r) \<and> P (dg_mode r)) (filter (\<lambda>r. dg_day r \<noteq> day) rows)) = []"
    by (auto simp: filter_empty_conv)
  have "sum_list (map dg_trade_count (filter (\<lambda>r. P (dg_mode r)) (map (group_row day) gs))) =
      sum_list (map (\<lambda>x. if P (fst (fst x)) then bk_n (snd x) else 0) gs)" for gs
    by (induction gs) (simp_all add: count)
  moreover have "filter (\<lambda>r. dg_day r = day) (filter (\<lambda>r. in_month prefix (dg_day r) \<and> P (dg_mode r)) (map (group_row day) gs)) =
      (if in_month prefix day then filter (\<lambda>r. P (dg_mode r)) (map (group_row day) gs) else [])" for gs
    by (induction gs) auto
  ultimately show ?thesis by (simp add: replace_groups_def old group_counts)
qed

lemma upserted_day:
  assumes "upsert_daily day ts rows = Inr rows'"
  shows "\<exists>r. filter (\<lambda>r. dw_day r = day) rows' = [r] \<and> dw_net r = str_dec (dsum (map net_of ts))"
proof -
  let ?old = "filter (\<lambda>r. dw_day r = day) rows"
  let ?f = "\<lambda>a b c r. if dw_day r = day then r\<lparr> dw_realized := a, dw_fees := b, dw_net := c \<rparr> else r"
  have upd: "filter (\<lambda>r. dw_day r = day) (map (?f a b c) rows) = map (?f a b c) ?old" for a b c
    by (induction rows) auto
  consider "length ?old = 0" | r where "?old = [r]" | n where "length ?old = Suc (Suc n)"
    by (cases ?old; cases "tl ?old") auto
  then show ?thesis
  proof cases
    case 1
    then show ?thesis using assms by (auto simp: upsert_daily_def Let_def)
  next
    case 2
    moreover from 2 have "dw_day r = day" by (metis (mono_tags, lifting) filter_eq_ConsD)
    moreover from 2 assms have "rows' = map (?f (str_dec (dsum (map (\<lambda>t. dec_or_zero (Some (tw_realized_pnl t))) ts)))
        (str_dec (dsum (map (\<lambda>t. dec_or_zero (Some (tw_fees t))) ts))) (str_dec (dsum (map net_of ts)))) rows"
      by (simp add: upsert_daily_def Let_def)
    ultimately show ?thesis by (simp only: upd) simp
  next
    case 3
    then show ?thesis using assms by (simp add: upsert_daily_def Let_def)
  qed
qed

lemma items_dated:
  assumes "distinct (map fst d)" "\<forall>x\<in>set d. ci_date (snd x) = fst x"
  shows "filter (\<lambda>i. ci_date i = day) (map snd (sort_key fst d)) = (case map_of d day of None \<Rightarrow> [] | Some i \<Rightarrow> [i])"
proof -
  have "filter (\<lambda>i. ci_date i = day) (map snd (sort_key fst d)) = map snd (sort_key fst (filter (\<lambda>x. ci_date (snd x) = day) d))"
    by (simp add: filter_map o_def filter_sort)
  also have "filter (\<lambda>x. ci_date (snd x) = day) d = filter (\<lambda>x. fst x = day) d"
    using assms(2) by (intro filter_cong) auto
  finally show ?thesis by (simp add: filter_dict [OF assms(1)] split: option.split)
qed

lemma stored_item_date [simp]: "ci_date (stored_calendar_item evs mis counts r) = dw_day r"
  by (simp add: stored_calendar_item_def Let_def)

text \<open>The day's item of the calendar, when the day is not today: the one that is made of its stored row.\<close>

lemma stored_day:
  assumes "filter (\<lambda>r. dw_day r = day) (mt_daily (ry_tables db)) = [r]" "in_month (month_prefix year month) day" "iso_day now \<noteq> day"
  shows "filter (\<lambda>i. ci_date i = day) (calendar now db year month mode) =
    [stored_calendar_item
      (dict_of de_day id (filter (\<lambda>r. in_month (month_prefix year month) (de_day r) \<and> of_mode mode (Some (de_mode r)))
        (mt_event_summary (ry_tables db))))
      (dict_of dm_day dm_count (filter (\<lambda>r. in_month (month_prefix year month) (dm_day r) \<and> of_mode mode (Some (dm_mode r)))
        (mt_manual_summary (ry_tables db))))
      (count_by_day (filter (\<lambda>r. in_month (month_prefix year month) (dg_day r) \<and> of_mode mode (Some (dg_mode r)))
        (mt_symbol_pnl (ry_tables db)))) r]"
    (is "filter ?P _ = [?it r]")
proof -
  let ?pnl = "filter (in_month (month_prefix year month) \<circ> dw_day) (mt_daily (ry_tables db))"
  let ?stored = "dict_of dw_day ?it (sort_key dw_day ?pnl)"
  let ?by = "if in_month (month_prefix year month) (iso_day now)
    then dict_set (iso_day now) (live_calendar_item db (iso_day now) mode) ?stored else ?stored"
  have "dw_day r = day" using assms(1) by (metis (mono_tags, lifting) filter_eq_ConsD)
  have "filter (\<lambda>x. dw_day x = day) ?pnl = [r]"
    using arg_cong [OF assms(1), of "filter (in_month (month_prefix year month) \<circ> dw_day)"] assms(2) \<open>dw_day r = day\<close>
    by (simp add: conj_commute)
  then have "filter (\<lambda>x. dw_day x = day) (sort_key dw_day ?pnl) = [r]" by (simp only: filter_sort) simp
  then have "map_of ?stored day = Some (?it r)" by (simp add: dict_of_lookup)
  then have "map_of ?by day = Some (?it r)" using assms(3) by simp
  moreover have "distinct (map fst ?by)" by (simp add: dict_of_distinct distinct_dict_set)
  moreover have "\<forall>x\<in>set ?by. ci_date (snd x) = fst x"
    using set_dict_set_subset [of "iso_day now" "live_calendar_item db (iso_day now) mode" ?stored]
    by (auto dest!: dict_of_keeps simp: live_calendar_item_def Let_def split: if_splits)
  ultimately have "filter ?P (map snd (sort_key fst ?by)) = [?it r]" by (simp only: items_dated option.case)
  then show ?thesis by (simp only: calendar_def Let_def)
qed

lemma summary_other_tables:
  assumes "daily_summary now day db = (db', Inr d)"
  shows "mt_event_summary db' = filter (\<lambda>r. de_day r \<noteq> day) (mt_event_summary db) @
      map (event_summary day (filter (\<lambda>e. iso_day (ew_ts e) = day) (map snd (mt_events db)))) (summary_modes (trades_of_day day db))"
    and "\<exists>r. mt_manual_summary db' = filter (\<lambda>r. dm_day r \<noteq> day) (mt_manual_summary db) @ [r] \<and>
      dm_day r = day \<and> dm_mode r = ''PAPER'' \<and> dm_count r = length (filter (\<lambda>(t, _). iso_day t = day) (mt_manual db))"
  using assms by (auto simp: daily_summary_def touch_status_def Let_def split: sum.splits)

text \<open>The rows of the events of the day differ in their mode only, so it does not matter which one is found.\<close>

lemma event_row_found:
  assumes "in_month prefix day"
  shows "map_of (dict_of de_day id (filter (\<lambda>r. in_month prefix (de_day r) \<and> P (de_mode r))
      (filter (\<lambda>r. de_day r \<noteq> day) rows @ map (event_summary day es) modes))) day =
    (case rev (filter P modes) of [] \<Rightarrow> None | m # _ \<Rightarrow> Some (event_summary day es m))"
proof -
  have old: "filter (\<lambda>r. de_day r = day) (filter (\<lambda>r. in_month prefix (de_day r) \<and> P (de_mode r)) (filter (\<lambda>r. de_day r \<noteq> day) rows)) = []"
    by (auto simp: filter_empty_conv)
  have new: "filter (\<lambda>r. de_day r = day) (filter (\<lambda>r. in_month prefix (de_day r) \<and> P (de_mode r)) (map (event_summary day es) modes)) =
      map (event_summary day es) (filter P modes)"
    using assms by (induction modes) (auto simp: event_summary_def)
  show ?thesis
    by (simp only: dict_of_lookup filter_append old new append_Nil rev_map [symmetric]) (cases "rev (filter P modes)"; simp)
qed

lemma manual_row_found:
  assumes "in_month prefix day" "dm_day r = day"
  shows "map_of (dict_of dm_day dm_count (filter (\<lambda>r. in_month prefix (dm_day r) \<and> P (dm_mode r))
      (filter (\<lambda>r. dm_day r \<noteq> day) rows @ [r]))) day = (if P (dm_mode r) then Some (dm_count r) else None)"
proof -
  have old: "filter (\<lambda>r. dm_day r = day) (filter (\<lambda>r. in_month prefix (dm_day r) \<and> P (dm_mode r)) (filter (\<lambda>r. dm_day r \<noteq> day) rows)) = []"
    by (auto simp: filter_empty_conv)
  show ?thesis using assms by (simp only: dict_of_lookup filter_append old) simp
qed

lemma found_row_counts:
  "(case rev (filter P modes) of [] \<Rightarrow> None | m # _ \<Rightarrow> Some (event_summary day es m)) =
    (if list_ex P modes then Some (event_summary day es (last (filter P modes))) else None)"
proof (cases "rev (filter P modes)")
  case (Cons m ms)
  then have "filter P modes = rev ms @ [m]" by simp
  moreover from this have "m \<in> set modes \<and> P m" by (metis filter_is_subset in_set_conv_decomp mem_Collect_eq set_filter subsetD)
  ultimately show ?thesis by (auto simp: Cons list_ex_iff)
qed (auto simp: filter_empty_conv list_ex_iff)

text \<open>C28. The summary job and the calendar agree: once the summary of a day was written, the calendar of its month, read on
  a later day, has exactly one entry for the day. It counts the day's trades of the asked mode, its profit is the sum over the trades of
  all modes whatever mode was asked for, its warning and error marks are those of the day's events as soon as the mode has a
  trade, and its manual interventions are all of the day's, but only when PAPER or no mode was asked for.\<close>

theorem calendar_shows_summary:
  assumes "daily_summary now day (ry_tables db) = (mt, Inr d)" "in_month (month_prefix year month) day" "iso_day later \<noteq> day"
  shows "filter (\<lambda>i. ci_date i = day) (calendar later (db\<lparr> ry_tables := mt \<rparr>) year month mode) =
    (let ts = trades_of_day day (ry_tables db);
         es = filter (\<lambda>e. iso_day (ew_ts e) = day) (map snd (mt_events (ry_tables db)));
         listed = list_ex (\<lambda>m. of_mode mode (Some m)) (summary_modes ts)
     in [\<lparr> ci_date = day,
           ci_trade_count = int (length (filter (\<lambda>t. of_mode mode (Some (or_text (tw_mode t) ''PAPER''))) ts)),
           ci_net_pnl = str_dec (dsum (map net_of ts)),
           ci_has_warning = (listed \<and> 0 < severity_count ''WARNING'' es),
           ci_has_error = (listed \<and> 0 < severity_count ''ERROR'' es + severity_count ''CRITICAL'' es),
           ci_manual_count = (if of_mode mode (Some ''PAPER'')
             then length (filter (\<lambda>(t, _). iso_day t = day) (mt_manual (ry_tables db))) else 0) \<rparr>])"
proof -
  let ?db = "db\<lparr> ry_tables := mt \<rparr>"
  obtain r where r: "filter (\<lambda>r. dw_day r = day) (mt_daily (ry_tables ?db)) = [r]"
      "dw_net r = str_dec (dsum (map net_of (trades_of_day day (ry_tables db))))"
    using upserted_day [OF daily_summary_Inr(5) [OF assms(1)]] by auto
  then have "dw_day r = day" by (metis (mono_tags, lifting) filter_eq_ConsD)
  obtain q where q: "mt_manual_summary mt = filter (\<lambda>r. dm_day r \<noteq> day) (mt_manual_summary (ry_tables db)) @ [q]"
      "dm_day q = day" "dm_mode q = ''PAPER''" "dm_count q = length (filter (\<lambda>(t, _). iso_day t = day) (mt_manual (ry_tables db)))"
    using summary_other_tables(2) [OF assms(1)] by blast
  let ?P = "\<lambda>m. of_mode mode (Some m)"
  have counts: "(case map_of (count_by_day (filter (\<lambda>r. in_month (month_prefix year month) (dg_day r) \<and> ?P (dg_mode r)) (mt_symbol_pnl mt))) day
      of None \<Rightarrow> 0 | Some n \<Rightarrow> n) = int (length (filter (\<lambda>t. ?P (or_text (tw_mode t) ''PAPER'')) (trades_of_day day (ry_tables db))))"
    by (simp only: count_by_day_lookup daily_summary_Inr(2) [OF assms(1)] summary_counts [where P = ?P] assms(2) if_True)
  let ?es = "filter (\<lambda>e. iso_day (ew_ts e) = day) (map snd (mt_events (ry_tables db)))"
  let ?modes = "summary_modes (trades_of_day day (ry_tables db))"
  have events: "map_of (dict_of de_day id (filter (\<lambda>r. in_month (month_prefix year month) (de_day r) \<and> ?P (de_mode r)) (mt_event_summary mt))) day =
      (if list_ex ?P ?modes then Some (event_summary day ?es (last (filter ?P ?modes))) else None)"
    by (simp only: summary_other_tables(1) [OF assms(1)] event_row_found [OF assms(2), where P = ?P] found_row_counts)
  have manual: "map_of (dict_of dm_day dm_count (filter (\<lambda>r. in_month (month_prefix year month) (dm_day r) \<and> ?P (dm_mode r)) (mt_manual_summary mt))) day =
      (if ?P (dm_mode q) then Some (dm_count q) else None)"
    by (simp only: q(1) manual_row_found [OF assms(2) q(2), where P = ?P])
  show ?thesis
    unfolding stored_day [OF r(1) assms(2,3)]
    by (simp add: stored_calendar_item_def Let_def \<open>dw_day r = day\<close> r(2) counts events manual q(3,4))
       (simp add: event_summary_def)
qed

definition ex_reports :: report_db where
  "ex_reports = \<lparr> ry_tables = ex_maintained [ex_trade 0 ''LIVE''] [], ry_equity = [], ry_protections = [], ry_paper = [] \<rparr>"

lemma ex_calendar_dates: "iso_day 86400000000 \<noteq> ''1970-01-01''" "in_month (month_prefix 1970 1) ''1970-01-01''"
  by code_simp+

lemma calendar_shows_summary_witness:
  "\<exists>mt. daily_summary 0 ''1970-01-01'' (ry_tables ex_reports) = (mt, Inr ''1970-01-01'') \<and>
    map ci_trade_count (filter (\<lambda>i. ci_date i = ''1970-01-01'')
      (calendar 86400000000 (ex_reports\<lparr> ry_tables := mt \<rparr>) 1970 1 (Some ''LIVE''))) = [1]"
proof -
  obtain mt where mt: "daily_summary 0 ''1970-01-01'' (ry_tables ex_reports) = (mt, Inr ''1970-01-01'')"
    using ex_summary_runs by (auto simp: ex_reports_def)
  have ts: "trades_of_day ''1970-01-01'' (ry_tables ex_reports) = [ex_trade 0 ''LIVE'']"
    by (simp add: trades_of_day_def ex_reports_def ex_maintained_def ex_trade_def day_of_def ex_days)
  have "or_text (tw_mode (ex_trade 0 ''LIVE'')) ''PAPER'' = ''LIVE''" by (simp add: or_text_def ex_trade_def)
  then have "map ci_trade_count (filter (\<lambda>i. ci_date i = ''1970-01-01'')
      (calendar 86400000000 (ex_reports\<lparr> ry_tables := mt \<rparr>) 1970 1 (Some ''LIVE''))) = [1]"
    unfolding calendar_shows_summary [OF mt ex_calendar_dates(2,1)] Let_def ts list.map calendar_item.select_convs
    by (simp add: of_mode_def)
  then show ?thesis by (intro exI conjI) (rule mt)
qed

section \<open>The log adds up\<close>

lemma sum_dict_set_nat:
  fixes f :: "'k \<times> 'v \<Rightarrow> nat"
  shows "sum_list (map f (dict_set k v d)) + (case map_of d k of None \<Rightarrow> 0 | Some u \<Rightarrow> f (k, u)) = sum_list (map f d) + f (k, v)"
  by (induction k v d rule: dict_set.induct) auto

text \<open>A number that every trade adds to its mode's bucket adds up over the modes to the number of the day.\<close>

lemma performance_total:
  fixes g :: "mode_bucket \<Rightarrow> nat"
  assumes "\<And>t b. g (add_performance t b) = g b + w t" "g empty_mode_bucket = 0"
  shows "sum_list (map (\<lambda>x. g (snd x)) (fold count_performance ts [])) = sum_list (map w ts)"
proof (induction ts rule: rev_induct)
  case (snoc t ts)
  let ?agg = "fold count_performance ts []"
  let ?b = "add_performance t (case map_of ?agg (mode_key t) of None \<Rightarrow> empty_mode_bucket | Some b \<Rightarrow> b)"
  have "fold count_performance (ts @ [t]) [] = dict_set (mode_key t) ?b ?agg" by (simp add: count_performance_def)
  then show ?case
    using sum_dict_set_nat [of "\<lambda>x. g (snd x)" "mode_key t" ?b ?agg]
    by (cases "map_of ?agg (mode_key t)") (simp_all add: assms snoc.IH)
qed simp

lemma sum_indicator: "sum_list (map (\<lambda>t. if P t then 1 else (0::nat)) ts) = length (filter P ts)"
  by (induction ts) auto

lemma sum_sorted: "sum_list (map (f :: 'a \<Rightarrow> nat) (sort_key k xs)) = sum_list (map f xs)"
  by (metis mset_map mset_sort sum_mset_sum_list)

lemma performance_sums:
  "sum_list (map pf_trade_count (entry_mode_performance ts)) = length ts"
  "sum_list (map pf_win_count (entry_mode_performance ts)) = length (filter (\<lambda>t. 0 < trade_pnl t) ts)"
  "sum_list (map pf_loss_count (entry_mode_performance ts)) = length (filter (\<lambda>t. trade_pnl t < 0) ts)"
proof -
  have fields: "(\<lambda>x. pf_trade_count (performance_of x)) = (\<lambda>x. mp_n (snd x))" "(\<lambda>x. pf_win_count (performance_of x)) = (\<lambda>x. mp_w (snd x))"
    "(\<lambda>x. pf_loss_count (performance_of x)) = (\<lambda>x. mp_l (snd x))"
    by (auto simp: performance_of_def split: prod.split)
  have "sum_list (map (\<lambda>x. mp_n (snd x)) (fold count_performance ts [])) = sum_list (map (\<lambda>_. 1) ts)"
    by (rule performance_total) (simp_all add: add_performance_def empty_mode_bucket_def Let_def)
  then show "sum_list (map pf_trade_count (entry_mode_performance ts)) = length ts"
    by (simp add: entry_mode_performance_def sum_sorted o_def fields sum_list_triv)
  have "sum_list (map (\<lambda>x. mp_w (snd x)) (fold count_performance ts [])) = sum_list (map (\<lambda>t. if 0 < trade_pnl t then 1 else 0) ts)"
    by (rule performance_total) (simp_all add: add_performance_def empty_mode_bucket_def Let_def)
  then show "sum_list (map pf_win_count (entry_mode_performance ts)) = length (filter (\<lambda>t. 0 < trade_pnl t) ts)"
    by (simp add: entry_mode_performance_def sum_sorted o_def fields sum_indicator)
  have "sum_list (map (\<lambda>x. mp_l (snd x)) (fold count_performance ts [])) = sum_list (map (\<lambda>t. if trade_pnl t < 0 then 1 else 0) ts)"
    by (rule performance_total) (simp_all add: add_performance_def empty_mode_bucket_def Let_def)
  then show "sum_list (map pf_loss_count (entry_mode_performance ts)) = length (filter (\<lambda>t. trade_pnl t < 0) ts)"
    by (simp add: entry_mode_performance_def sum_sorted o_def fields sum_indicator)
qed

lemma daily_log_adds_up:
  fixes db day mode
  defines "lg \<equiv> make_daily_log db day mode"
  shows "sum_list (map pf_trade_count (dl_performance lg)) = ls_trade_count (dl_summary lg)"
    and "sum_list (map pf_win_count (dl_performance lg)) = ls_win_count (dl_summary lg)"
    and "sum_list (map pf_loss_count (dl_performance lg)) = ls_loss_count (dl_summary lg)"
    and "ls_win_count (dl_summary lg) + ls_loss_count (dl_summary lg) \<le> ls_trade_count (dl_summary lg)"
proof -
  have "length (filter (\<lambda>t. 0 < trade_pnl t) ts) + length (filter (\<lambda>t. trade_pnl t < 0) ts) \<le> length ts" for ts
    by (induction ts) auto
  then show "sum_list (map pf_trade_count (dl_performance lg)) = ls_trade_count (dl_summary lg)"
    "sum_list (map pf_win_count (dl_performance lg)) = ls_win_count (dl_summary lg)"
    "sum_list (map pf_loss_count (dl_performance lg)) = ls_loss_count (dl_summary lg)"
    "ls_win_count (dl_summary lg) + ls_loss_count (dl_summary lg) \<le> ls_trade_count (dl_summary lg)"
    by (simp_all add: lg_def make_daily_log_def Let_def performance_sums del: filter_filter)
qed

text \<open>A day on which the bot ran in both modes has two rows of its equity, and the month counts the day and its
  profit twice.\<close>

definition ex_equity :: "bot_mode \<Rightarrow> account_row" where
  "ex_equity mode = (first_row ''2024-01-01'' mode
    \<lparr> ad_equity = 100, ad_wallet_balance = None, ad_unrealized_pnl = 0, ad_realized_pnl = 0, ad_fees = 0, ad_funding_fees = 0 \<rparr>)"

lemma month_counts_modes_twice:
  "map mv_days (monthly_pnl 24 (ex_reports\<lparr> ry_equity := [(ex_equity PAPER, None), (ex_equity LIVE, None)] \<rparr>)) = [2]"
  by (simp add: monthly_pnl_def list_daily_pnl_def equity_newest_first_def sort_desc_def ex_reports_def ex_maintained_def
      ex_equity_def first_row_def Let_def daily_equity_dict_def day_text_def look_or_def str_of_def add_day_def month_view_of_def)

section \<open>The configuration after a change\<close>

text \<open>An accepted change is what the dashboard shows next, in every section, whatever the bot makes of it: the running
  configuration is shown only where no version ever stored the section.\<close>

lemma patch_is_shown:
  assumes "patch_config w version patch reason s = (s', Inr c)" "distinct (map fst patch)" "k \<in> set config_sections"
  shows "cv_version (get_config running w' s') = version + 1 \<and>
    map_of (cv_sections (get_config running w' s')) k =
      Some (case map_of patch k of
              None \<Rightarrow> look_or k (running k) (current_config s)
            | Some v \<Rightarrow> merge_section v (map_of (current_config s) k))"
proof -
  obtain r where r: "latest_config s' = Some r" using patch_stored(4) [OF assms(1)] by (auto simp: latest_config_def)
  have "map_of (map (\<lambda>k. (k, f k)) ks) k = Some (f k)" if "k \<in> set ks" for f :: "string \<Rightarrow> json" and ks
    using that by (simp add: map_of_map_restrict)
  moreover have "sc_version r = version + 1" "sc_config r = merge_patch patch (current_config s)"
    using patch_stored [OF assms(1)] r by (simp_all add: current_version_def current_config_def)
  ultimately show ?thesis
    using assms(3) by (auto simp: get_config_def r strategy_config_response_def Let_def look_or_def merge_patch_lookup [OF assms(2)]
        split: option.split)
qed

end
