(* ===== verification/Risk_Approval.thy ===== *)
theory Risk_Approval
  imports Risk
begin

text \<open>
  What an approval of the risk manager guarantees. The three stages of \<open>approve\<close> are inverted
  once each (\<open>approve_exposure_approved\<close>, \<open>approve_size_approved\<close>, \<open>approve_approved\<close>); the
  properties follow from these inversions.
\<close>

section \<open>Inversion of the stages\<close>

lemma reject_not_approved [simp]: "\<not> rd_approved (reject r m)"
  by (simp add: reject_def)

definition exposure_ok ::
  "app_config \<Rightarrow> position_side \<Rightarrow> dec \<Rightarrow> dec \<Rightarrow> dec \<Rightarrow> dec \<Rightarrow> sizing_result \<Rightarrow> symbol_meta \<Rightarrow>
   risk_context \<Rightarrow> risk_decision \<Rightarrow> bool" where
  "exposure_ok cfg sd entry atr stop lev_cap sz meta ctx rd \<longleftrightarrow>
    rx_equity ctx \<noteq> 0 \<and> meets_min_qty (sz_qty sz) meta \<and> meets_min_notional (sz_qty sz) entry meta \<and>
    dmul (ddiv (sz_risk_usdt sz) (rx_equity ctx)) 100 \<le> rk_max_symbol_risk_percent (cfg_risk cfg) \<and>
    dmul (ddiv (dadd (dsum (map position_risk (rx_open_positions ctx))) (sz_risk_usdt sz))
      (rx_equity ctx)) 100 \<le> rk_max_total_open_risk_percent (cfg_risk cfg) \<and>
    rd_leverage rd = leverage_for (sz_notional sz) (rx_equity ctx) lev_cap
      (of_int (rk_min_leverage (cfg_risk cfg))) \<and>
    (\<exists>liq. rd_liq_price rd = Some liq \<and> liq = liq_price_for entry (rd_leverage rd) sd default_mmr \<and>
      lg_min_liquidation_distance_percent (cfg_liquidation_guard cfg)
        \<le> dmul (ddiv (dabs (dsub liq entry)) entry) 100 \<and>
      lg_min_liquidation_distance_atr (cfg_liquidation_guard cfg) \<le> ddiv (dabs (dsub liq entry)) atr \<and>
      (lg_block_if_liq_price_inside_stop (cfg_liquidation_guard cfg) \<longrightarrow> \<not> liq_inside_stop sd liq stop)) \<and>
    rd_side rd = Some sd \<and> rd_qty rd = sz_qty sz \<and> rd_notional rd = sz_notional sz \<and>
    rd_stop_loss_price rd = Some stop \<and> rd_risk_usdt rd = sz_risk_usdt sz"

lemma approve_exposure_approved:
  assumes "approve_exposure cfg sd entry atr stop lev_cap sz meta ctx m = Inr rd" "rd_approved rd"
  shows "exposure_ok cfg sd entry atr stop lev_cap sz meta ctx rd"
  using assms
  by (auto simp: approve_exposure_def exposure_ok_def Let_def pdiv_def bind_res_eq_Inr not_less
      split: if_splits)

text \<open>The leverage cap of an approval.\<close>

definition lev_cap_of ::
  "app_config \<Rightarrow> entry_decision \<Rightarrow> dec \<Rightarrow> dec \<Rightarrow> dec \<Rightarrow> risk_context \<Rightarrow> dec" where
  "lev_cap_of cfg d entry atr stop ctx =
    (let m = max_leverage (ed_entry_mode d) (Some (atr_percent_for atr entry))
           (rx_consecutive_losses ctx) (rx_daily_loss_percent ctx) (cfg_risk cfg)
           (is_high_quality cfg d)
     in case thin_stop_leverage_cap cfg (dmul (ddiv (dabs (dsub entry stop)) entry) 100) of
          None \<Rightarrow> m | Some c \<Rightarrow> min m c)"

definition target_of :: "app_config \<Rightarrow> entry_decision \<Rightarrow> dec \<Rightarrow> dec option" where
  "target_of cfg d equity =
    map_option (\<lambda>p. ddiv (dmul equity p) 100) (target_notional_percent cfg d (is_high_quality cfg d))"

definition sizing_of ::
  "app_config \<Rightarrow> entry_decision \<Rightarrow> dec \<Rightarrow> dec \<Rightarrow> dec \<Rightarrow> symbol_meta \<Rightarrow> risk_context \<Rightarrow>
   (string + sizing_result) result" where
  "sizing_of cfg d entry atr stop meta ctx =
    compute_size (rx_equity ctx) (rk_account_risk_per_trade_percent (cfg_risk cfg))
      (ed_position_fraction d) entry stop (sm_qty_step meta)
      (Some (dmul (rx_equity ctx) (lev_cap_of cfg d entry atr stop ctx)))
      (target_of cfg d (rx_equity ctx))"

text \<open>The divisions that a positive price, a positive ATR and a stop away from the price make safe.\<close>

lemma compute_size_total: "\<exists>r. compute_size eqy pct fr entry stop step mx tg = Inr r"
proof -
  have "ddiv (dabs (dsub entry stop)) entry \<noteq> 0" if "0 < entry" "\<not> dabs (dsub entry stop) \<le> 0"
    using ddiv_pos [of "dabs (dsub entry stop)" entry] that by linarith
  then show ?thesis by (auto simp: compute_size_def Let_def pdiv_def)
qed

lemma risk_based_total: "entry \<noteq> 0 \<Longrightarrow> \<exists>n. risk_based_notional eqy pct fr entry stop = Inr n"
  by (simp add: risk_based_notional_def pdiv_def Let_def)

lemma with_metadata_total:
  "entry \<noteq> 0 \<Longrightarrow> atr \<noteq> 0 \<Longrightarrow> \<exists>m. with_stop_metadata cfg d sd entry atr a st md b s m0 = Inr m"
  by (simp add: with_stop_metadata_def pdiv_def Let_def)

lemma approve_size_cases:
  assumes "entry \<noteq> 0"
  obtains m r where "approve_size cfg d sd entry atr stop meta ctx m0 = Inr (reject r m)"
  | m sz where "sizing_of cfg d entry atr stop meta ctx = Inr (Inr sz)"
      "approve_size cfg d sd entry atr stop meta ctx m0 =
        approve_exposure cfg sd entry atr stop (lev_cap_of cfg d entry atr stop ctx) sz meta ctx m"
proof -
  obtain n where n: "risk_based_notional (rx_equity ctx) (rk_account_risk_per_trade_percent (cfg_risk cfg))
      (ed_position_fraction d) entry stop = Inr n"
    using risk_based_total [OF assms] by blast
  obtain z where z: "sizing_of cfg d entry atr stop meta ctx = Inr z"
    using compute_size_total unfolding sizing_of_def by blast
  show ?thesis
  proof (cases z)
    case (Inl r)
    then show ?thesis
      using n z assms
      by (intro that(1)) (simp add: approve_size_def sizing_of_def lev_cap_of_def target_of_def Let_def pdiv_def)
  next
    case (Inr sz)
    then show ?thesis
      using n z assms
      by (intro that(2)) (simp_all add: approve_size_def sizing_of_def lev_cap_of_def target_of_def Let_def pdiv_def)
  qed
qed

lemma approve_size_approved:
  assumes "entry \<noteq> 0" "approve_size cfg d sd entry atr stop meta ctx m0 = Inr rd" "rd_approved rd"
  obtains sz where "sizing_of cfg d entry atr stop meta ctx = Inr (Inr sz)"
    and "exposure_ok cfg sd entry atr stop (lev_cap_of cfg d entry atr stop ctx) sz meta ctx rd"
  by (rule approve_size_cases [OF assms(1), of cfg d sd atr stop meta ctx m0])
    (use assms approve_exposure_approved in \<open>auto intro: that\<close>)

definition account_ok ::
  "app_config \<Rightarrow> entry_decision \<Rightarrow> dec \<Rightarrow> dec \<Rightarrow> dec \<Rightarrow> risk_context \<Rightarrow> bool" where
  "account_ok cfg d entry atr stop ctx \<longleftrightarrow>
    0 < atr \<and> 0 < entry \<and>
    rk_min_stop_distance_atr (cfg_risk cfg) \<le> ddiv (dabs (dsub entry stop)) atr \<and>
    ddiv (dabs (dsub entry stop)) atr \<le> max_stop_distance_atr_of cfg (ed_entry_mode d) \<and>
    rx_daily_loss_percent ctx < rk_daily_max_loss_percent (cfg_risk cfg) \<and>
    rx_intraday_drawdown_percent ctx < rk_intraday_drawdown_percent (cfg_risk cfg) \<and>
    int (length (rx_open_positions ctx)) < cb_max_active_positions (cfg_bot cfg) \<and>
    (\<forall>p\<in>set (rx_open_positions ctx). p_symbol p \<noteq> ed_symbol d) \<and>
    int (length (filter (\<lambda>p. p_side p = side_of_direction (ed_direction d)) (rx_open_positions ctx)))
      < rk_max_same_direction_positions (cfg_risk cfg)"

text \<open>A chain of early returns: each test either rejects or is known to have failed
  afterwards.\<close>

definition gated :: "risk_decision result \<Rightarrow> bool \<Rightarrow> risk_decision result set \<Rightarrow> bool" where
  "gated x q s \<longleftrightarrow> (\<exists>r m. x = Inr (reject r m)) \<or> (q \<and> x \<in> s)"

lemma gated_if: "(\<not> c \<Longrightarrow> gated x q s) \<Longrightarrow> gated (if c then Inr (reject r m) else x) q s"
  by (auto simp: gated_def)

lemma gated_done: "q \<Longrightarrow> x \<in> s \<Longrightarrow> gated x q s"
  by (simp add: gated_def)

lemma gated_bind: "\<exists>y. m = Inr y \<Longrightarrow> (\<And>y. m = Inr y \<Longrightarrow> gated (k y) q s) \<Longrightarrow> gated (bind_res m k) q s"
  by auto

lemma gated_pdiv: "b \<noteq> 0 \<Longrightarrow> gated (k (ddiv a b)) q s \<Longrightarrow> gated (bind_res (pdiv a b) k) q s"
  by (simp add: pdiv_def)

lemma approve_gated:
  fixes cfg d entry atr meta ctx
  defines "sd \<equiv> side_of_direction (ed_direction d)"
  defines "stop \<equiv> stop_of cfg d sd entry atr meta"
  shows "gated (approve cfg d entry atr meta ctx) (account_ok cfg d entry atr stop ctx)
    (range (approve_size cfg d sd entry atr stop meta ctx))"
  unfolding approve_def Let_def sd_def stop_def
  by (intro gated_if gated_bind [OF with_metadata_total] gated_pdiv gated_done rangeI)
    (simp_all only: account_ok_def list_ex_iff not_less not_le de_Morgan_disj bex_simps ball_simps not_False_eq_True
      simp_thms less_imp_neq [symmetric])

lemma approve_cases:
  obtains m r where "approve cfg d entry atr meta ctx = Inr (reject r m)"
  | m sd stop where "sd = side_of_direction (ed_direction d)"
      "stop = stop_of cfg d sd entry atr meta" "account_ok cfg d entry atr stop ctx"
      "approve cfg d entry atr meta ctx = approve_size cfg d sd entry atr stop meta ctx m"
  using approve_gated [of cfg d entry atr meta ctx] by (auto simp: gated_def)

lemma approve_approved:
  assumes "approve cfg d entry atr meta ctx = Inr rd" "rd_approved rd"
  obtains stop sz sd where "sd = side_of_direction (ed_direction d)"
    and "stop = stop_of cfg d sd entry atr meta"
    and "account_ok cfg d entry atr stop ctx"
    and "sizing_of cfg d entry atr stop meta ctx = Inr (Inr sz)"
    and "exposure_ok cfg sd entry atr stop (lev_cap_of cfg d entry atr stop ctx) sz meta ctx rd"
proof (rule approve_cases [of cfg d entry atr meta ctx])
  fix m r
  assume "approve cfg d entry atr meta ctx = Inr (reject r m)"
  with assms show thesis by auto
next
  fix m sd stop
  assume a: "sd = side_of_direction (ed_direction d)" "stop = stop_of cfg d sd entry atr meta"
    "account_ok cfg d entry atr stop ctx"
    and "approve cfg d entry atr meta ctx = approve_size cfg d sd entry atr stop meta ctx m"
  with assms have size: "approve_size cfg d sd entry atr stop meta ctx m = Inr rd" by simp
  have nz: "entry \<noteq> 0" using a(3) by (simp add: account_ok_def)
  show thesis by (rule approve_size_approved [OF nz size assms(2)]) (rule that [OF a])
qed

section \<open>The approval never raises\<close>

lemma sizing_zero_equity:
  "rx_equity ctx = 0 \<Longrightarrow> sizing_of cfg d entry atr stop meta ctx = Inr (Inr sz) \<Longrightarrow> sz_qty sz \<le> 0"
  unfolding sizing_of_def target_of_def by (auto dest: compute_size_zero_equity)

lemma approve_exposure_total:
  "rx_equity ctx = 0 \<longrightarrow> sz_qty sz \<le> 0 \<Longrightarrow> entry \<noteq> 0 \<Longrightarrow> atr \<noteq> 0 \<Longrightarrow>
    \<exists>rd. approve_exposure cfg sd entry atr stop lev sz meta ctx m = Inr rd"
  by (cases "rx_equity ctx = 0")
    (auto simp: approve_exposure_def Let_def pdiv_def meets_min_qty_def)

text \<open>C38. The approval returns a decision for every input: wherever it divides by the equity, the price,
  the ATR, the stop distance or the leverage, a test on the way there has made sure that the divisor is not zero,
  so no \<open>ZeroDivisionError\<close> can escape from the risk manager, whatever the account and market say.\<close>

theorem approve_never_raises: "\<exists>rd. approve cfg d entry atr meta ctx = Inr rd"
proof (rule approve_cases [of cfg d entry atr meta ctx])
  fix m sd stop
  assume ok: "account_ok cfg d entry atr stop ctx"
    and eq: "approve cfg d entry atr meta ctx = approve_size cfg d sd entry atr stop meta ctx m"
  have nz: "entry \<noteq> 0" "atr \<noteq> 0" using ok by (auto simp: account_ok_def)
  show ?thesis
  proof (rule approve_size_cases [OF nz(1), of cfg d sd atr stop meta ctx m])
    fix m' sz
    assume "sizing_of cfg d entry atr stop meta ctx = Inr (Inr sz)"
      "approve_size cfg d sd entry atr stop meta ctx m =
        approve_exposure cfg sd entry atr stop (lev_cap_of cfg d entry atr stop ctx) sz meta ctx m'"
    then show ?thesis using eq nz sizing_zero_equity approve_exposure_total by metis
  qed (simp add: eq)
qed blast

section \<open>The guards hold for every approved order\<close>

text \<open>C8. An approved order respects every account limit: fewer open positions than allowed,
  overall and on its side, none on the same symbol, losses and drawdown under their limits,
  and a stop whose distance is inside the band of the entry mode. Its own risk and the total
  open risk are within their percentages of equity.\<close>

theorem approve_respects_limits:
  assumes "approve cfg d entry atr meta ctx = Inr rd" and "rd_approved rd"
  shows "\<exists>stop. rd_stop_loss_price rd = Some stop \<and> account_ok cfg d entry atr stop ctx \<and>
    rd_side rd = Some (side_of_direction (ed_direction d)) \<and>
    0 < rd_qty rd \<and> sm_min_order_qty meta \<le> rd_qty rd \<and>
    dmul (ddiv (rd_risk_usdt rd) (rx_equity ctx)) 100 \<le> rk_max_symbol_risk_percent (cfg_risk cfg) \<and>
    dmul (ddiv (dadd (dsum (map position_risk (rx_open_positions ctx))) (rd_risk_usdt rd))
      (rx_equity ctx)) 100 \<le> rk_max_total_open_risk_percent (cfg_risk cfg)"
  using assms
  by (rule approve_approved) (auto simp: exposure_ok_def meets_min_qty_def)

text \<open>C30. With the liquidation guard on, the estimated liquidation price of an approved order
  lies strictly beyond its stop: below it for a long, above it for a short, so the stop is
  reached first.\<close>

theorem approve_liquidation_beyond_stop:
  assumes "approve cfg d entry atr meta ctx = Inr rd" and "rd_approved rd"
    and "lg_block_if_liq_price_inside_stop (cfg_liquidation_guard cfg)"
  shows "\<exists>liq stop. rd_liq_price rd = Some liq \<and> rd_stop_loss_price rd = Some stop \<and>
    (if rd_side rd = Some LONG then liq < stop else stop < liq)"
  using assms(1,2)
  by (rule approve_approved)
    (use assms(3) in \<open>auto simp: exposure_ok_def liq_inside_stop_def side_of_direction_def
      not_le split: if_splits\<close>)

text \<open>The leverage of an approved order lies between the configured minimum and the cap of
  its entry mode (the high-quality cap when that applies), unless the minimum exceeds it.\<close>

theorem approve_leverage_bounds:
  assumes "approve cfg d entry atr meta ctx = Inr rd" and "rd_approved rd"
  shows "of_int (rk_min_leverage (cfg_risk cfg)) \<le> rd_leverage rd \<and>
    rd_leverage rd \<le> max (of_int (rk_min_leverage (cfg_risk cfg)))
      (mode_cap (cfg_risk cfg) (ed_entry_mode d) (is_high_quality cfg d))"
  using assms
proof (rule approve_approved)
  fix stop sz sd
  let ?lo = "of_int (rk_min_leverage (cfg_risk cfg)) :: dec"
  let ?cap = "lev_cap_of cfg d entry atr stop ctx"
  assume "exposure_ok cfg sd entry atr stop ?cap sz meta ctx rd"
  then have lev: "rd_leverage rd = leverage_for (sz_notional sz) (rx_equity ctx) ?cap ?lo"
    by (simp add: exposure_ok_def)
  have "?lo \<le> rd_leverage rd \<and> rd_leverage rd \<le> max ?lo ?cap"
    unfolding lev leverage_for_def by auto
  moreover have "?cap \<le> max_leverage (ed_entry_mode d) (Some (atr_percent_for atr entry))
      (rx_consecutive_losses ctx) (rx_daily_loss_percent ctx) (cfg_risk cfg) (is_high_quality cfg d)"
    by (simp add: lev_cap_of_def Let_def split: option.split)
  ultimately show ?thesis
    using max_leverage_bounds [of "cfg_risk cfg" "ed_entry_mode d" "Some (atr_percent_for atr entry)"
      "rx_consecutive_losses ctx" "rx_daily_loss_percent ctx" "is_high_quality cfg d"]
    by (meson max.boundedI max.cobounded1 order_trans)
qed


section \<open>An approval, evaluated\<close>

definition ex_meta :: symbol_meta where
  "ex_meta = \<lparr> sm_symbol = ''BTCUSDT'', sm_base_coin = ''BTC'', sm_quote_coin = ''USDT'',
    sm_status = ''Trading'', sm_tick_size = 1 / 10, sm_qty_step = 1 / 10,
    sm_min_order_qty = 1 / 10, sm_max_order_qty = 1000, sm_min_notional = 5,
    sm_max_leverage = 50, sm_launch_time_ms = None \<rparr>"

definition ex_decision :: entry_decision where
  "ex_decision = \<lparr> ed_symbol = ''BTCUSDT'', ed_direction = SIG_LONG, ed_entry_mode = RETEST_CONFIRM,
    ed_position_fraction = 65 / 100, ed_stop_atr = 13 / 10, ed_score = 8,
    ed_reason = ''retest confirm'', ed_structure_stop_price = None, ed_stop_metadata = None,
    ed_compression_mode = None, ed_has_compression = None, ed_required_score = None,
    ed_compression_bonus_applied = None \<rparr>"

definition ex_ctx :: risk_context where
  "ex_ctx = \<lparr> rx_equity = 10000, rx_open_positions = [], rx_daily_loss_percent = 0,
    rx_intraday_drawdown_percent = 0, rx_consecutive_losses = 0 \<rparr>"

lemma ex_stop: "stop_of default_app_config ex_decision LONG 100 1 ex_meta = 987 / 10"
  by (simp add: stop_of_def base_stop_of_def atr_stop_of_def select_stop_def
      structure_stop_price_of_def min_distance_stop_price_def min_stop_distance_percent_def
      min_stop_distance_atr_def stop_loss_price_def offset_stop_def round_stop_to_tick_def
      ex_decision_def ex_meta_def dec_eval default_app_config_def default_risk_section_def Let_def)

definition ex_sizing :: sizing_result where
  "ex_sizing = \<lparr> sz_qty = 90, sz_notional = 9000, sz_stop_distance_percent = 13 / 1000, sz_risk_usdt = 117 \<rparr>"

lemma ex_lev_cap: "lev_cap_of default_app_config ex_decision 100 1 (987 / 10) ex_ctx = 10"
  by (simp add: lev_cap_of_def max_leverage_def thin_stop_leverage_cap_def atr_percent_for_def
      is_high_quality_def ex_decision_def ex_ctx_def dec_eval default_app_config_def
      default_risk_section_def default_target_notional_percent_section_def Let_def)

lemma ex_size: "sizing_of default_app_config ex_decision 100 1 (987 / 10) ex_meta ex_ctx = Inr (Inr ex_sizing)"
  unfolding sizing_of_def ex_lev_cap
  by (simp add: compute_size_def target_of_def target_notional_percent_def
      ex_decision_def ex_ctx_def ex_meta_def ex_sizing_def dec_eval default_app_config_def
      default_risk_section_def default_target_notional_percent_section_def Let_def
      round_qty_down_def)

lemma ex_exposure: "\<exists>rd. approve_exposure default_app_config LONG 100 1 (987 / 10) 10 ex_sizing ex_meta ex_ctx m
    = Inr rd \<and> rd_approved rd"
  by (simp add: approve_exposure_def ex_sizing_def ex_meta_def ex_ctx_def Let_def dec_eval
      meets_min_qty_def meets_min_notional_def leverage_for_def liq_price_for_def
      default_mmr_def liq_inside_stop_def default_app_config_def default_risk_section_def
      default_liquidation_guard_section_def)

lemma ex_account: "account_ok default_app_config ex_decision 100 1 (987 / 10) ex_ctx"
  by (simp add: account_ok_def ex_decision_def ex_ctx_def dec_eval max_stop_distance_atr_of_def
      structure_stop_enabled_def default_app_config_def default_risk_section_def
      default_bot_section_def default_structure_stop_section_def Let_def)

lemma approve_size_sized:
  "entry \<noteq> 0 \<Longrightarrow> sizing_of cfg d entry atr stop meta ctx = Inr (Inr sz) \<Longrightarrow>
    \<exists>m. approve_size cfg d sd entry atr stop meta ctx m0 =
      approve_exposure cfg sd entry atr stop (lev_cap_of cfg d entry atr stop ctx) sz meta ctx m"
  using risk_based_total [of entry "rx_equity ctx" "rk_account_risk_per_trade_percent (cfg_risk cfg)"
      "ed_position_fraction d" stop]
  by (auto simp: approve_size_def sizing_of_def lev_cap_of_def target_of_def Let_def pdiv_def)

lemma approve_account_ok:
  assumes "account_ok cfg d entry atr (stop_of cfg d (side_of_direction (ed_direction d)) entry atr meta) ctx"
  shows "\<exists>m. approve cfg d entry atr meta ctx = approve_size cfg d (side_of_direction (ed_direction d))
    entry atr (stop_of cfg d (side_of_direction (ed_direction d)) entry atr meta) meta ctx m"
proof -
  let ?sd = "side_of_direction (ed_direction d)"
  have nz: "entry \<noteq> 0" "atr \<noteq> 0" using assms by (auto simp: account_ok_def)
  obtain m where m: "with_stop_metadata cfg d ?sd entry atr (atr_stop_of d ?sd entry atr meta)
      (structure_stop_price_of cfg d ?sd meta) (min_distance_stop_price cfg (ed_entry_mode d) entry atr ?sd meta)
      (base_stop_of cfg d ?sd entry atr meta) (stop_of cfg d ?sd entry atr meta)
      (case ed_stop_metadata d of None \<Rightarrow> [] | Some m \<Rightarrow> m) = Inr m"
    using with_metadata_total [OF nz] by blast
  have imp: "\<And>c r m x s. \<not> c \<Longrightarrow> x \<in> s \<Longrightarrow>
      (if c then Inr (reject r m) else x :: risk_decision result) \<in> s" by simp
  have "approve cfg d entry atr meta ctx \<in> range (approve_size cfg d ?sd entry atr (stop_of cfg d ?sd entry atr meta) meta ctx)"
    using assms unfolding approve_def Let_def m bind_res_simps pdiv_Inr [OF nz(2)]
    by (intro imp rangeI) (auto simp: account_ok_def list_ex_iff)
  then show ?thesis by blast
qed

lemma ex_approval:
  "\<exists>rd. approve default_app_config ex_decision 100 1 ex_meta ex_ctx = Inr rd \<and> rd_approved rd"
proof -
  have sd: "side_of_direction (ed_direction ex_decision) = LONG"
    by (simp add: side_of_direction_def ex_decision_def)
  obtain m where "approve default_app_config ex_decision 100 1 ex_meta ex_ctx =
      approve_size default_app_config ex_decision LONG 100 1 (987 / 10) ex_meta ex_ctx m"
    using approve_account_ok [of default_app_config ex_decision 100 1 ex_meta ex_ctx]
    by (auto simp: sd ex_stop ex_account)
  then show ?thesis
    using approve_size_sized [OF _ ex_size, of LONG m] ex_exposure by (auto simp: ex_lev_cap)
qed

lemma approve_respects_limits_witness:
  "\<exists>rd. approve default_app_config ex_decision 100 1 ex_meta ex_ctx = Inr rd \<and>
    1 / 10 \<le> rd_qty rd \<and> rd_side rd = Some LONG"
proof -
  obtain rd where rd: "approve default_app_config ex_decision 100 1 ex_meta ex_ctx = Inr rd"
    "rd_approved rd" using ex_approval by blast
  show ?thesis
    using approve_respects_limits [OF rd] rd(1)
    by (auto simp: ex_meta_def ex_decision_def side_of_direction_def)
qed

lemma approve_liquidation_beyond_stop_witness:
  "\<exists>rd liq stop. approve default_app_config ex_decision 100 1 ex_meta ex_ctx = Inr rd \<and>
    rd_liq_price rd = Some liq \<and> rd_stop_loss_price rd = Some stop \<and>
    (if rd_side rd = Some LONG then liq < stop else stop < liq)"
proof -
  obtain rd where rd: "approve default_app_config ex_decision 100 1 ex_meta ex_ctx = Inr rd"
    "rd_approved rd" using ex_approval by blast
  have "lg_block_if_liq_price_inside_stop (cfg_liquidation_guard default_app_config)"
    by (simp add: default_app_config_def default_liquidation_guard_section_def)
  from approve_liquidation_beyond_stop [OF rd this] rd(1) show ?thesis by blast
qed

lemma approve_leverage_bounds_witness:
  "\<exists>rd. approve default_app_config ex_decision 100 1 ex_meta ex_ctx = Inr rd \<and>
    1 \<le> rd_leverage rd \<and> rd_leverage rd \<le> 10"
proof -
  obtain rd where rd: "approve default_app_config ex_decision 100 1 ex_meta ex_ctx = Inr rd"
    "rd_approved rd" using ex_approval by blast
  have lo: "rk_min_leverage (cfg_risk default_app_config) = 1"
    by (simp add: default_app_config_def default_risk_section_def)
  have cap: "mode_cap (cfg_risk default_app_config) (ed_entry_mode ex_decision)
      (is_high_quality default_app_config ex_decision) = 10"
    by (simp add: ex_decision_def mode_cap_def is_high_quality_def default_app_config_def
        default_risk_section_def default_target_notional_percent_section_def)
  show ?thesis
    using approve_leverage_bounds [OF rd, unfolded lo cap] rd(1) by auto
qed

end
