(* ===== verification/Spec2Isabelle.thy ===== *)
theory Spec2Isabelle
  imports Action Api_Commands Bot_Runtime Bot_State_Machine Bybit_Facts Bybit_Gateway Bybit_System Candle_Metrics Candle_Store Config Daily_Account Dashboard Decimal_Ctx Decimal_Text Domain Effects Entry_Engine Entry_Filters Entry_Frozen Entry_Timing Entry_Types Exchange_Contract Fake_Exchange Guard_Facts Guards Indicators Live_Entry Machine_Frame Machine_Sync Manual_Intervention Market_Collector Market_Stream Order_Facts Order_Manager Paper_Engine Paper_System Position_Base Position_Events Position_Facts Position_Manager Position_Properties Position_Runner Position_Scenario Position_Scout Position_Scout_Facts Position_Stagnation Prelude Protection Protection_Facts Reconciliation Reconciliation_Facts Reports Reservations Retention Risk Risk_Approval Runtime_Commands Runtime_Lock Runtime_Loops Runtime_Safety Runtime_State Runtime_Sync Runtime_Wiring Scanner State_Publisher Strategy Symbol_Rounding Trade_Store Trading_Close Trading_Close_Facts Trading_Entry Trading_Entry_Facts Trading_Executors Trading_Gates Trading_Manage Trading_Manage_Facts Trading_Paper Trading_Types Watchlist
begin

text \<open>
  Verification of the trading bot (\<^verbatim>\<open>src/apps\<close>, \<^verbatim>\<open>src/packages\<close>). The bot watches markets, asks its strategies
  for signals, passes them through gates, an entry engine and a risk manager, sends the order, protects the
  new position with a stop on the exchange, manages it until it is closed, and reconciles what it knows with what
  the exchange reports. An API sends it commands and shows what it publishes; jobs maintain the database.

  \<^bold>\<open>How the code is modelled.\<close> A class is a record of its fields, an enumeration a datatype, a method a function.
  Decimals are rationals, and every operation of the default context rounds to 28 digits (\<open>Decimal_Ctx\<close>: \<open>dadd\<close>,
  \<open>dmul\<close>, \<open>ddiv\<close>, \<open>dround\<close>); floats are rationals rounded to 53 bits (\<open>to_float\<close>, \<open>fadd\<close>,
  \<open>fmul\<close>; the equity rows, the reports and the rate limiter use them). A division that the code does not guard
  raises in the model (\<open>pdiv\<close>); \<open>ddiv\<close> stands only where the divisor is a constant or was tested. An exception is \<open>Inl\<close> of a
  \<open>py_error\<close> (\<open>Prelude\<close>). An async method is an \<open>action\<close>: it takes the state and gives the state after it with its
  result or exception, and the changes made before an exception stay (\<open>Action\<close>). What the code reads from
  outside is an argument: the clock, the exchange's SDK, Redis, random identifiers. Events, log rows and
  published values are lists in the state (\<open>Effects\<close>); publishing and logging succeed in the model of the trading
  service and the runtime, so a run that Redis or the database ends by raising inside them is not covered.

  \<^bold>\<open>Theories and sources.\<close>
  \<^item> Data: \<open>Domain\<close> (\<^verbatim>\<open>core/enums\<close>, \<^verbatim>\<open>core/models\<close>), \<open>Config\<close> (\<^verbatim>\<open>config/settings.py\<close>, with its defaults), \<open>Effects\<close>
    (\<^verbatim>\<open>core/events.py\<close>), \<open>Runtime_State\<close> (\<^verbatim>\<open>apps/bot/runtime/runtime_state.py\<close>), \<open>Decimal_Text\<close> (numbers as text, JSON).
  \<^item> Markets: \<open>Candle_Store\<close>, \<open>Market_Collector\<close> (\<^verbatim>\<open>market_data\<close>), \<open>Indicators\<close>, \<open>Scanner\<close>, \<open>Symbol_Rounding\<close>
    (\<^verbatim>\<open>universe\<close>), \<open>Watchlist\<close>, \<open>Market_Stream\<close> (the WebSocket streams).
  \<^item> Decisions: \<open>Strategy\<close>, \<open>Entry_*\<close> and \<open>Candle_Metrics\<close> (\<^verbatim>\<open>packages/entry\<close>), \<open>Risk\<close>, \<open>Guards\<close>, \<open>Position_*\<close>
    (\<^verbatim>\<open>packages/position\<close>: trailing, partial take-profit, runner, scout, scenario, stagnation).
  \<^item> Execution: \<open>Paper_Engine\<close>, \<open>Order_Manager\<close>, \<open>Protection\<close>, \<open>Manual_Intervention\<close>, \<open>Reconciliation\<close>, \<open>Trading_*\<close>
    (\<^verbatim>\<open>apps/bot/workers/trading_pipeline.py\<close>), \<open>Bybit_Gateway\<close> (\<^verbatim>\<open>exchange/bybit_gateway.py\<close>), \<open>Fake_Exchange\<close> (the
    repository's test double).
  \<^item> The process: \<open>Bot_State_Machine\<close>, \<open>Bot_Runtime\<close>, \<open>Runtime_Loops\<close>, \<open>Runtime_Commands\<close> (\<^verbatim>\<open>bot_runtime.py\<close>),
    \<open>Runtime_Lock\<close>, \<open>State_Publisher\<close>, \<open>Daily_Account\<close>, \<open>Trade_Store\<close> (\<^verbatim>\<open>storage/trade_logger.py\<close>).
  \<^item> The API: \<open>Api_Commands\<close>, \<open>Dashboard\<close>, \<open>Reports\<close>, \<open>Retention\<close> (\<^verbatim>\<open>apps/api\<close>).

  \<^bold>\<open>Interfaces.\<close> Where a component relies on another, a locale states what it needs and the provider's theory
  interprets it. \<open>two_state\<close> carries a reflexive and transitive relation through actions; \<open>gateway_frame\<close>,
  \<open>order_frame\<close>, \<open>exchange\<close>, \<open>reservations\<close> and \<open>machine_gateway\<close> are contracts of the exchange, kept by the in-memory
  exchange (\<open>fake\<close>) and by the Bybit gateway over any SDK that changes only its own part (\<open>sdk\<close>, \<open>bybit_exchange\<close>,
  \<open>bybit_locked\<close>); \<open>executor\<close>, \<open>manager_ports\<close>, \<open>stop_ports\<close> and \<open>trading_ports\<close> are what the trading service calls,
  provided by PAPER and LIVE execution; \<open>reconciler\<close> and \<open>machine_sync\<close> belong to the reconciliation; \<open>host\<close> is what the runtime
  awaits; \<open>expiring_keys\<close> is Redis with a time to live, \<open>sockets\<close> the SDK's streams; \<open>claims\<close>, \<open>latch\<close>, \<open>rounding\<close>,
  \<open>snap_down\<close> and \<open>snap_up\<close> are contracts of small state and of arithmetic.

  \<^bold>\<open>What is shown.\<close>
  \<^item> Entries: nothing is ordered unless both gates, the entry engine and the risk manager agreed
    (\<open>Trading_Entry_Facts\<close>, \<open>Entry_Engine\<close>, \<open>Risk_Approval\<close>), and nothing at all while the bot is not running
    (\<open>Entry_Frozen\<close>); a LIVE entry ends with the exchange showing its protection, or with a market exit for the whole of it and
    the bot locked or stopped (\<open>Protection_Facts\<close>, \<open>Live_Entry\<close>).
  \<^item> Positions: one order per evaluation (\<open>Position_Properties\<close>); through a cycle with its orders executed one
    partial take-profit and a stop that keeps its floor (\<open>Trading_Manage_Facts\<close>); a close books what was filled (\<open>Trading_Close_Facts\<close>), and in PAPER mode the service and the simulated exchange
    agree after every cycle that returns (\<open>Trading_Paper\<close>).
  \<^item> Orders: which orders are ever sent, what the outcomes mean, that polling ends and reservations are released
    (\<open>Order_Facts\<close>, \<open>Reservations\<close>).
  \<^item> Reconciliation agrees with the exchange, on symbols on which nothing settles, up to positions it is configured
    not to adopt and to what the protection hook does; under the same conditions a second cycle finds nothing
    more to change (\<open>Reconciliation_Facts\<close>, \<open>Runtime_Sync\<close>).
  \<^item> The runtime: locked states hold through every interleaving of loops, commands and events (\<open>Machine_Frame\<close>,
    \<open>Machine_Sync\<close>, \<open>Runtime_Safety\<close>, \<open>Runtime_Wiring\<close>, \<open>Bybit_System\<close>), and one instance holds the lock.
  \<^item> Storage and API: a restart restores what was logged, LIVE rows survive every job, requests are carried out
    exactly when authorized, valid and permitted, a change of the configuration merges into what it read, the dashboard shows what the bot published, and the calendar shows what the daily
    summary counted.
  Lemmas beside the properties show where the code does less than it says; the manifest lists them as findings.

  \<^bold>\<open>Bounds and fuel.\<close> The only fuel is that of the polling of an order (\<open>Order_Manager\<close>): the number of polls is
  computed from the time-out and the waiting time, and \<open>resolve_polls_enough\<close> shows that more changes nothing.
  Retries take the configured number as their recursion argument. The candle store is bounded by its configured
  length; the rate limiter by its rate. Loops that run for ever are modelled by their body, and the properties
  hold for every sequence of bodies.

  \<^bold>\<open>Atomic steps.\<close> A change of the configuration is two steps, its reads and its insertion, with anything in
  between; every other request of the API is one step.

  \<^bold>\<open>Not modelled.\<close> The asyncio tasks themselves: bodies interleave at their ends, and what happens while one awaits is
  the locale \<open>host\<close>. The database engine and its sessions (a call is one transaction), the Redis client, logging,
  reading YAML and environment variables, the web framework and the routes that only pass their arguments on, the
  threads of the SDK. Special values of decimals and floats (NaN, infinities, signed zeros) do not occur in the
  model.
\<close>

end
